(* ===== verification/Prelude.thy ===== *)
theory Prelude
  imports Main "HOL-Library.Word"
begin

text \<open>
  Shared vocabulary of the Arm2x86 development: the C integer types as words of their
  width, little-endian byte strings, the collections of simplification rules the component
  theories fill, and the generic lemmas on words and lists that their proofs use.

  C's \<open>uint8_t\<close>, \<open>uint16_t\<close>, \<open>uint32_t\<close> and \<open>uint64_t\<close> are \<open>u8\<close>, \<open>u16\<close>, \<open>u32\<close> and \<open>u64\<close>.
  A signed \<open>int8_t\<close>, \<open>int32_t\<close> or \<open>int64_t\<close> is the word of the same width that holds its two's
  complement, read with \<open>sint\<close>. Pointers are \<open>u64\<close>, with \<open>0\<close> for \<open>NULL\<close>.
\<close>

unbundle bit_operations_syntax

type_synonym u8 = "8 word"
type_synonym u16 = "16 word"
type_synonym u32 = "32 word"
type_synonym u64 = "64 word"
type_synonym ptr = u64
type_synonym code = "u8 list"

abbreviation (input) NULL :: ptr where "NULL \<equiv> 0"

named_theorems emit_defs \<open>definitions of the byte emitters\<close>
named_theorems emit_append \<open>an emitter extends the buffer it is given\<close>
named_theorems x86_fields \<open>fields of REX, ModR/M and SIB bytes\<close>
named_theorems x86_decode_simps \<open>unfolding of the reference x86-64 decoder\<close>
named_theorems trans_defs \<open>definitions of the instruction translators\<close>


section \<open>Little-endian byte strings\<close>

text \<open>The bytes \<open>v & 0xff\<close>, \<open>(v >> 8) & 0xff\<close>, ... as the C code writes them out.\<close>

definition le32 :: "u32 \<Rightarrow> code" where
  "le32 v = [ucast v, ucast (drop_bit 8 v), ucast (drop_bit 16 v), ucast (drop_bit 24 v)]"

definition le64 :: "u64 \<Rightarrow> code" where
  "le64 v = [ucast v, ucast (drop_bit 8 v), ucast (drop_bit 16 v), ucast (drop_bit 24 v),
             ucast (drop_bit 32 v), ucast (drop_bit 40 v), ucast (drop_bit 48 v),
             ucast (drop_bit 56 v)]"

definition of_le32 :: "u8 \<Rightarrow> u8 \<Rightarrow> u8 \<Rightarrow> u8 \<Rightarrow> u32" where
  "of_le32 a b c d =
     ((ucast a OR push_bit 8 (ucast b)) OR push_bit 16 (ucast c)) OR push_bit 24 (ucast d)"

definition of_le64 :: "u8 \<Rightarrow> u8 \<Rightarrow> u8 \<Rightarrow> u8 \<Rightarrow> u8 \<Rightarrow> u8 \<Rightarrow> u8 \<Rightarrow> u8 \<Rightarrow> u64" where
  "of_le64 a b c d e f g h =
     ((((((ucast a OR push_bit 8 (ucast b)) OR push_bit 16 (ucast c)) OR push_bit 24 (ucast d))
     OR push_bit 32 (ucast e)) OR push_bit 40 (ucast f)) OR push_bit 48 (ucast g))
     OR push_bit 56 (ucast h)"

lemma length_le32 [simp]: "length (le32 v) = 4"
  by (simp add: le32_def)

lemma length_le64 [simp]: "length (le64 v) = 8"
  by (simp add: le64_def)

text \<open>One more byte of a word: the step that both reconstruction lemmas repeat.\<close>

lemma take_bit_snoc_byte:
  fixes v :: "'a::len word"
  shows "take_bit n v OR push_bit n (ucast (ucast (drop_bit n v) :: u8)) = take_bit (n + 8) v"
  by (rule bit_word_eqI) (auto simp: bit_simps)

lemma ucast_u8_take_bit:
  fixes v :: "'a::len word"
  shows "ucast (ucast v :: u8) = take_bit 8 v"
  by (rule bit_word_eqI) (auto simp: bit_simps)

lemma take_bit_word_full:
  fixes v :: "'a::len word"
  assumes "LENGTH('a) \<le> n"
  shows "take_bit n v = v"
  using assms by (intro bit_word_eqI) (auto simp: bit_simps)

lemma of_le32_le32 [simp]:
  "of_le32 (ucast v) (ucast (drop_bit 8 v)) (ucast (drop_bit 16 v)) (ucast (drop_bit 24 v)) = v"
  using take_bit_snoc_byte [of 8 v] take_bit_snoc_byte [of 16 v] take_bit_snoc_byte [of 24 v]
  by (simp add: of_le32_def ucast_u8_take_bit take_bit_word_full)

lemma of_le64_le64 [simp]:
  "of_le64 (ucast v) (ucast (drop_bit 8 v)) (ucast (drop_bit 16 v)) (ucast (drop_bit 24 v))
     (ucast (drop_bit 32 v)) (ucast (drop_bit 40 v)) (ucast (drop_bit 48 v))
     (ucast (drop_bit 56 v)) = v"
  using take_bit_snoc_byte [of 8 v] take_bit_snoc_byte [of 16 v] take_bit_snoc_byte [of 24 v]
    take_bit_snoc_byte [of 32 v] take_bit_snoc_byte [of 40 v] take_bit_snoc_byte [of 48 v]
    take_bit_snoc_byte [of 56 v]
  by (simp add: of_le64_def ucast_u8_take_bit take_bit_word_full)

section \<open>Bit fields of bytes\<close>

lemma u8_and_7: "(x :: u8) AND 7 = take_bit 3 x"
  by (simp add: take_bit_eq_mask mask_eq_exp_minus_1)

lemma u8_and_1: "(x :: u8) AND 1 = take_bit 1 x"
  by (simp add: take_bit_eq_mask mask_eq_exp_minus_1)

lemma u8_and_15: "(x :: u8) AND 15 = take_bit 4 x"
  by (simp add: take_bit_eq_mask mask_eq_exp_minus_1)

lemma u8_8: "(8 :: u8) = push_bit 3 1"
  by simp

lemma u8_le_one [simp]: "\<not> (16 :: u8) \<le> 1" "\<not> (8 :: u8) \<le> 1"
  by (simp_all add: word_le_nat_alt)

lemma u8_less_16_cases:
  assumes "(r :: u8) < 16"
  shows "r = 0 \<or> r = 1 \<or> r = 2 \<or> r = 3 \<or> r = 4 \<or> r = 5 \<or> r = 6 \<or> r = 7 \<or>
         r = 8 \<or> r = 9 \<or> r = 10 \<or> r = 11 \<or> r = 12 \<or> r = 13 \<or> r = 14 \<or> r = 15"
proof -
  from assms have "unat r < 16" by (simp add: word_less_nat_alt)
  then have "unat r \<in> {0, 1, 2, 3, 4, 5, 6, 7, 8, 9, 10, 11, 12, 13, 14, 15}"
    by (simp only: insert_iff empty_iff) arith
  moreover have "r = of_nat (unat r)" by simp
  ultimately show ?thesis by (elim insertE) simp_all
qed

lemma u8_less_8_cases:
  assumes "(r :: u8) < 8"
  shows "r = 0 \<or> r = 1 \<or> r = 2 \<or> r = 3 \<or> r = 4 \<or> r = 5 \<or> r = 6 \<or> r = 7"
proof -
  have "r < 16" using assms by (simp add: word_less_nat_alt)
  from u8_less_16_cases [OF this] assms show ?thesis by auto
qed

lemma u8_less_32_cases:
  assumes "(r :: u8) < 32"
  shows "r = 0 \<or> r = 1 \<or> r = 2 \<or> r = 3 \<or> r = 4 \<or> r = 5 \<or> r = 6 \<or>
         r = 7 \<or> r = 8 \<or> r = 9 \<or> r = 10 \<or> r = 11 \<or> r = 12 \<or> r = 13
         \<or> r = 14 \<or> r = 15 \<or> r = 16 \<or> r = 17 \<or> r = 18 \<or> r = 19 \<or>
         r = 20 \<or> r = 21 \<or> r = 22 \<or> r = 23 \<or> r = 24 \<or> r = 25 \<or> r = 26
         \<or> r = 27 \<or> r = 28 \<or> r = 29 \<or> r = 30 \<or> r = 31"
proof -
  from assms have "unat r < 32" by (simp add: word_less_nat_alt)
  then have "unat r \<in> {0, 1, 2, 3, 4, 5, 6, 7, 8, 9, 10, 11, 12, 13, 14, 15, 16, 17, 18, 19, 20, 21, 22, 23, 24, 25, 26, 27, 28, 29, 30, 31}"
    by (simp only: insert_iff empty_iff) arith
  moreover have "r = of_nat (unat r)" by simp
  ultimately show ?thesis by (elim insertE) simp_all
qed

text \<open>A five-bit register field.\<close>

lemma reg_field_less: "(ucast ((x :: u32) AND 0x1f) :: u8) < 32"
proof -
  have "x AND 0x1f = take_bit 5 x" by (simp add: take_bit_eq_mask mask_eq_exp_minus_1)
  moreover have "unat (take_bit 5 x) < 32"
    using take_bit_nat_less_exp [of 5 "unat x"] by (simp add: unsigned_take_bit_eq)
  ultimately show ?thesis
    by (simp add: word_less_nat_alt unsigned_ucast_eq unsigned_take_bit_eq take_bit_take_bit min_def)
qed

lemma reg_field_not_less: "\<not> 31 < (ucast ((x :: u32) AND 0x1f) :: u8)"
  using reg_field_less [of x] by (simp add: word_less_nat_alt)

lemma sf_bit: "((drop_bit n op AND 1 :: u32) \<noteq> 0) = bit op n"
  by (simp add: and_one_eq mod_2_eq_odd bit_iff_odd_drop_bit)

end
