(* ===== verification/X86.thy ===== *)
theory X86
  imports Prelude
begin

text \<open>
  The reference against which the emitters are judged: an executable decoder for the part
  of the x86-64 instruction set that Arm2x86 emits, written from the architecture's encoding
  rules (prefix, opcode, ModR/M, SIB, displacement, immediate). It is the specification side
  of the development: nothing in it is taken from the emitters of the repository.

  A register is its number \<open>0..15\<close>. An operand of the ModR/M byte is a register or a memory
  operand; displacements are kept as 32-bit two's complement words. \<open>w\<close> is \<open>True\<close> for a
  64-bit operation (REX.W set) and \<open>False\<close> for a 32-bit one. The decoder returns the
  instruction and the bytes that follow it, or \<open>None\<close> for bytes outside the subset.
\<close>

section \<open>Registers, operands and instructions\<close>

abbreviation (input) RAX :: u8 where "RAX \<equiv> 0"
abbreviation (input) RCX :: u8 where "RCX \<equiv> 1"
abbreviation (input) RDX :: u8 where "RDX \<equiv> 2"
abbreviation (input) RBX :: u8 where "RBX \<equiv> 3"
abbreviation (input) RSP :: u8 where "RSP \<equiv> 4"
abbreviation (input) RBP :: u8 where "RBP \<equiv> 5"
abbreviation (input) RSI :: u8 where "RSI \<equiv> 6"
abbreviation (input) RDI :: u8 where "RDI \<equiv> 7"
abbreviation (input) R8 :: u8 where "R8 \<equiv> 8"
abbreviation (input) R9 :: u8 where "R9 \<equiv> 9"
abbreviation (input) R10 :: u8 where "R10 \<equiv> 10"
abbreviation (input) R11 :: u8 where "R11 \<equiv> 11"
abbreviation (input) R12 :: u8 where "R12 \<equiv> 12"
abbreviation (input) R13 :: u8 where "R13 \<equiv> 13"
abbreviation (input) R14 :: u8 where "R14 \<equiv> 14"
abbreviation (input) R15 :: u8 where "R15 \<equiv> 15"

datatype operand =
    Reg u8
  | Mem u8 u32              \<comment> \<open>base register, displacement\<close>
  | MemSib u8 u8 u8 u32     \<comment> \<open>base, index, log2 of the scale, displacement\<close>
  | MemIdx u8 u8 u32        \<comment> \<open>index, log2 of the scale, displacement; no base\<close>
  | MemAbs u32              \<comment> \<open>displacement only\<close>
  | MemRip u32              \<comment> \<open>relative to the next instruction\<close>

datatype alu = ADD | OR' | ADC | SBB | AND' | SUB | XOR' | CMP

datatype unary = NOT' | NEG | MUL | IMUL | DIV | IDIV

datatype shift = ROL | ROR | RCL | RCR | SHL | SHR | SAR

text \<open>
  The instructions are grouped by the shape of their operands: a register into an operand, an
  operand into a register, an immediate into an operand, and the instructions without operands.
\<close>

datatype rm_r_op = MOV_STORE | ALU_STORE alu | TEST_STORE | CMPXCHG | XADD

datatype r_rm_op = MOV_LOAD | ALU_LOAD alu | IMUL_LOAD | LEA | CMOV u8 | MOVZX nat | MOVSX nat
  | BSF | BSR

datatype rm_imm_op = MOV_IMM | ALU_IMM alu | TEST_IMM

datatype plain = RET | NOP | CDQ | CQO | SYSCALL | MFENCE | LFENCE | SFENCE | UD2 | PUSHFQ | POPFQ

datatype (plugins only: code size) x86_instr =
    Rm_r rm_r_op bool operand u8
  | R_rm r_rm_op bool u8 operand
  | Rm_imm rm_imm_op bool operand u32
  | Mov_r_imm64 u8 u64
  | Mov_r_imm32 u8 u32              \<comment> \<open>zero extends into the 64-bit register\<close>
  | Mov8_rm_r operand u8
  | Unary unary bool operand
  | Shift shift bool operand u8
  | Shift_cl shift bool operand
  | Imul_r_rm_imm bool u8 operand u32
  | Setcc u8 operand
  | Bt_imm bool operand u8
  | Bswap bool u8
  | Jcc u8 u32
  | Jmp u32
  | Jmp8 u8
  | Call u32
  | Jmp_rm operand
  | Call_rm operand
  | Push u8
  | Pop u8
  | Plain plain

abbreviation "Mov_rm_r w rm r \<equiv> Rm_r MOV_STORE w rm r"           \<comment> \<open>\<open>rm := r\<close>\<close>
abbreviation "Mov_r_rm w r rm \<equiv> R_rm MOV_LOAD w r rm"            \<comment> \<open>\<open>r := rm\<close>\<close>
abbreviation "Mov_rm_imm32 w rm i \<equiv> Rm_imm MOV_IMM w rm i"
abbreviation "Alu_rm_r a w rm r \<equiv> Rm_r (ALU_STORE a) w rm r"     \<comment> \<open>\<open>rm := rm op r\<close>\<close>
abbreviation "Alu_r_rm a w r rm \<equiv> R_rm (ALU_LOAD a) w r rm"      \<comment> \<open>\<open>r := r op rm\<close>\<close>
abbreviation "Alu_rm_imm a w rm i \<equiv> Rm_imm (ALU_IMM a) w rm i"
abbreviation "Test_rm_r w rm r \<equiv> Rm_r TEST_STORE w rm r"
abbreviation "Test_rm_imm w rm i \<equiv> Rm_imm TEST_IMM w rm i"
abbreviation "Imul_r_rm w r rm \<equiv> R_rm IMUL_LOAD w r rm"
abbreviation "Lea w r rm \<equiv> R_rm LEA w r rm"
abbreviation "Cmov c w r rm \<equiv> R_rm (CMOV c) w r rm"
abbreviation "Movzx w n r rm \<equiv> R_rm (MOVZX n) w r rm"            \<comment> \<open>\<open>n\<close>: source width in bits\<close>
abbreviation "Movsx w n r rm \<equiv> R_rm (MOVSX n) w r rm"
abbreviation "Bsf w r rm \<equiv> R_rm BSF w r rm"
abbreviation "Bsr w r rm \<equiv> R_rm BSR w r rm"
abbreviation "Cmpxchg w rm r \<equiv> Rm_r CMPXCHG w rm r"
abbreviation "Xadd w rm r \<equiv> Rm_r XADD w rm r"


section \<open>REX, ModR/M and SIB\<close>

definition is_rex :: "u8 \<Rightarrow> bool" where
  "is_rex b = (drop_bit 4 b = 4)"

text \<open>A register number: one bit of the REX prefix above a three-bit field.\<close>

definition ext_reg :: "bool \<Rightarrow> u8 \<Rightarrow> u8" where
  "ext_reg hi f = (if hi then 8 OR f else f)"

abbreviation rex_W :: "u8 \<Rightarrow> bool" where "rex_W p \<equiv> bit p 3"
abbreviation rex_R :: "u8 \<Rightarrow> bool" where "rex_R p \<equiv> bit p 2"
abbreviation rex_X :: "u8 \<Rightarrow> bool" where "rex_X p \<equiv> bit p 1"
abbreviation rex_B :: "u8 \<Rightarrow> bool" where "rex_B p \<equiv> bit p 0"

abbreviation f_mod :: "u8 \<Rightarrow> u8" where "f_mod b \<equiv> drop_bit 6 b"
abbreviation f_reg :: "u8 \<Rightarrow> u8" where "f_reg b \<equiv> take_bit 3 (drop_bit 3 b)"
abbreviation f_rm :: "u8 \<Rightarrow> u8" where "f_rm b \<equiv> take_bit 3 b"

fun get_imm8 :: "code \<Rightarrow> (u8 \<times> code) option" where
  "get_imm8 (a # rest) = Some (a, rest)"
| "get_imm8 _ = None"

fun get_imm32 :: "code \<Rightarrow> (u32 \<times> code) option" where
  "get_imm32 (a # b # c # d # rest) = Some (of_le32 a b c d, rest)"
| "get_imm32 _ = None"

fun get_imm64 :: "code \<Rightarrow> (u64 \<times> code) option" where
  "get_imm64 (a # b # c # d # e # f # g # h # rest) = Some (of_le64 a b c d e f g h, rest)"
| "get_imm64 _ = None"

text \<open>The displacement that a \<open>mod\<close> field of 0, 1 or 2 announces.\<close>

definition get_disp :: "u8 \<Rightarrow> code \<Rightarrow> (u32 \<times> code) option" where
  "get_disp m bs =
     (if m = 0 then Some (0, bs)
      else if m = 1 then map_option (\<lambda>(d, rest). (scast d, rest)) (get_imm8 bs)
      else get_imm32 bs)"

fun get_sib :: "u8 \<Rightarrow> u8 \<Rightarrow> code \<Rightarrow> (operand \<times> code) option" where
  "get_sib p m [] = None"
| "get_sib p m (s # bs) =
     (let base = f_rm s; index = ext_reg (rex_X p) (f_reg s); scale = f_mod s in
      if base = 5 \<and> m = 0 then
        map_option (\<lambda>(d, rest).
          (if index = RSP then MemAbs d else MemIdx index scale d, rest)) (get_imm32 bs)
      else
        map_option (\<lambda>(d, rest).
          (if index = RSP then Mem (ext_reg (rex_B p) base) d
           else MemSib (ext_reg (rex_B p) base) index scale d, rest)) (get_disp m bs))"

text \<open>The operand of a ModR/M byte, given the REX prefix \<open>p\<close>.\<close>

definition get_rm :: "u8 \<Rightarrow> u8 \<Rightarrow> code \<Rightarrow> (operand \<times> code) option" where
  "get_rm p b bs =
     (if f_mod b = 3 then Some (Reg (ext_reg (rex_B p) (f_rm b)), bs)
      else if f_rm b = 4 then get_sib p (f_mod b) bs
      else if f_rm b = 5 \<and> f_mod b = 0 then
        map_option (\<lambda>(d, rest). (MemRip d, rest)) (get_imm32 bs)
      else map_option (\<lambda>(d, rest). (Mem (ext_reg (rex_B p) (f_rm b)) d, rest))
             (get_disp (f_mod b) bs))"

text \<open>A ModR/M instruction without immediate: \<open>mk\<close> gets the register and the operand.\<close>

fun with_rm :: "u8 \<Rightarrow> (u8 \<Rightarrow> operand \<Rightarrow> x86_instr option) \<Rightarrow> code \<Rightarrow> (x86_instr \<times> code) option" where
  "with_rm p mk [] = None"
| "with_rm p mk (b # bs) =
     (case get_rm p b bs of None \<Rightarrow> None
      | Some (rm, rest) \<Rightarrow>
          map_option (\<lambda>i. (i, rest)) (mk (ext_reg (rex_R p) (f_reg b)) rm))"

text \<open>The same with an 8-bit or 32-bit immediate after the operand; the register field is an
  opcode extension and is passed without the REX bit.\<close>

fun with_rm_imm8 :: "u8 \<Rightarrow> (u8 \<Rightarrow> operand \<Rightarrow> u8 \<Rightarrow> x86_instr option) \<Rightarrow> code
    \<Rightarrow> (x86_instr \<times> code) option" where
  "with_rm_imm8 p mk [] = None"
| "with_rm_imm8 p mk (b # bs) =
     (case get_rm p b bs of None \<Rightarrow> None
      | Some (rm, rest) \<Rightarrow> (case get_imm8 rest of None \<Rightarrow> None
          | Some (i, rest') \<Rightarrow> map_option (\<lambda>x. (x, rest')) (mk (f_reg b) rm i)))"

fun with_rm_imm32 :: "u8 \<Rightarrow> (u8 \<Rightarrow> operand \<Rightarrow> u32 \<Rightarrow> x86_instr option) \<Rightarrow> code
    \<Rightarrow> (x86_instr \<times> code) option" where
  "with_rm_imm32 p mk [] = None"
| "with_rm_imm32 p mk (b # bs) =
     (case get_rm p b bs of None \<Rightarrow> None
      | Some (rm, rest) \<Rightarrow> (case get_imm32 rest of None \<Rightarrow> None
          | Some (i, rest') \<Rightarrow> map_option (\<lambda>x. (x, rest')) (mk (f_reg b) rm i)))"


section \<open>Opcodes\<close>

definition alu_of :: "u8 \<Rightarrow> alu" where
  "alu_of n =
     (if n = 0 then ADD else if n = 1 then OR' else if n = 2 then ADC else if n = 3 then SBB
      else if n = 4 then AND' else if n = 5 then SUB else if n = 6 then XOR' else CMP)"

definition unary_of :: "u8 \<Rightarrow> unary option" where
  "unary_of n =
     (if n = 2 then Some NOT' else if n = 3 then Some NEG else if n = 4 then Some MUL
      else if n = 5 then Some IMUL else if n = 6 then Some DIV else if n = 7 then Some IDIV
      else None)"

definition shift_of :: "u8 \<Rightarrow> shift option" where
  "shift_of n =
     (if n = 0 then Some ROL else if n = 1 then Some ROR else if n = 2 then Some RCL
      else if n = 3 then Some RCR else if n = 4 then Some SHL else if n = 5 then Some SHR
      else if n = 7 then Some SAR else None)"

text \<open>Two-byte opcodes, after \<open>0x0f\<close>.\<close>

fun decode_0f :: "u8 \<Rightarrow> code \<Rightarrow> (x86_instr \<times> code) option" where
  "decode_0f p [] = None"
| "decode_0f p (b # bs) =
     (let w = rex_W p in
      if drop_bit 4 b = 8 then map_option (\<lambda>(d, rest). (Jcc (take_bit 4 b) d, rest)) (get_imm32 bs)
      else if drop_bit 4 b = 4 then with_rm p (\<lambda>r rm. Some (Cmov (take_bit 4 b) w r rm)) bs
      else if drop_bit 4 b = 9 then with_rm p (\<lambda>r rm. Some (Setcc (take_bit 4 b) rm)) bs
      else if b = 0xaf then with_rm p (\<lambda>r rm. Some (Imul_r_rm w r rm)) bs
      else if b = 0xb6 then with_rm p (\<lambda>r rm. Some (Movzx w 8 r rm)) bs
      else if b = 0xb7 then with_rm p (\<lambda>r rm. Some (Movzx w 16 r rm)) bs
      else if b = 0xbe then with_rm p (\<lambda>r rm. Some (Movsx w 8 r rm)) bs
      else if b = 0xbf then with_rm p (\<lambda>r rm. Some (Movsx w 16 r rm)) bs
      else if b = 0xbc then with_rm p (\<lambda>r rm. Some (Bsf w r rm)) bs
      else if b = 0xbd then with_rm p (\<lambda>r rm. Some (Bsr w r rm)) bs
      else if b = 0xb1 then with_rm p (\<lambda>r rm. Some (Cmpxchg w rm r)) bs
      else if b = 0xc1 then with_rm p (\<lambda>r rm. Some (Xadd w rm r)) bs
      else if b = 0xba then
        with_rm_imm8 p (\<lambda>e rm i. if e = 4 then Some (Bt_imm w rm i) else None) bs
      else if drop_bit 3 b = 0x19 then Some (Bswap w (ext_reg (rex_B p) (take_bit 3 b)), bs)
      else if b = 0x05 then Some (Plain SYSCALL, bs)
      else if b = 0x0b then Some (Plain UD2, bs)
      else if b = 0xae then
        (case bs of [] \<Rightarrow> None
         | c # rest \<Rightarrow> if c = 0xf0 then Some (Plain MFENCE, rest) else if c = 0xe8 then Some (Plain LFENCE, rest)
                      else if c = 0xf8 then Some (Plain SFENCE, rest) else None)
      else None)"

text \<open>One-byte opcodes, with the REX prefix \<open>p\<close> (\<open>0x40\<close> when there is none).\<close>

fun decode_op :: "u8 \<Rightarrow> code \<Rightarrow> (x86_instr \<times> code) option" where
  "decode_op p [] = None"
| "decode_op p (b # bs) =
     (let w = rex_W p in
      if b = 0x0f then decode_0f p bs
      else if b < 0x40 \<and> take_bit 3 b = 1 then
        with_rm p (\<lambda>r rm. Some (Alu_rm_r (alu_of (drop_bit 3 b)) w rm r)) bs
      else if b < 0x40 \<and> take_bit 3 b = 3 then
        with_rm p (\<lambda>r rm. Some (Alu_r_rm (alu_of (drop_bit 3 b)) w r rm)) bs
      else if drop_bit 3 b = 0x0a then Some (Push (ext_reg (rex_B p) (take_bit 3 b)), bs)
      else if drop_bit 3 b = 0x0b then Some (Pop (ext_reg (rex_B p) (take_bit 3 b)), bs)
      else if b = 0x63 then with_rm p (\<lambda>r rm. Some (Movsx w 32 r rm)) bs
      else if b = 0x69 then
        (case bs of [] \<Rightarrow> None | m # _ \<Rightarrow>
          with_rm_imm32 p (\<lambda>_ rm i. Some (Imul_r_rm_imm w (ext_reg (rex_R p) (f_reg m)) rm i)) bs)
      else if b = 0x81 then with_rm_imm32 p (\<lambda>e rm i. Some (Alu_rm_imm (alu_of e) w rm i)) bs
      else if b = 0x83 then with_rm_imm8 p (\<lambda>e rm i. Some (Alu_rm_imm (alu_of e) w rm (scast i))) bs
      else if b = 0x85 then with_rm p (\<lambda>r rm. Some (Test_rm_r w rm r)) bs
      else if b = 0x88 then with_rm p (\<lambda>r rm. Some (Mov8_rm_r rm r)) bs
      else if b = 0x89 then with_rm p (\<lambda>r rm. Some (Mov_rm_r w rm r)) bs
      else if b = 0x8b then with_rm p (\<lambda>r rm. Some (Mov_r_rm w r rm)) bs
      else if b = 0x8d then with_rm p (\<lambda>r rm. Some (Lea w r rm)) bs
      else if b = 0x90 then Some (Plain NOP, bs)
      else if b = 0x99 then Some (Plain (if w then CQO else CDQ), bs)
      else if b = 0x9c then Some (Plain PUSHFQ, bs)
      else if b = 0x9d then Some (Plain POPFQ, bs)
      else if drop_bit 3 b = 0x17 then
        (let r = ext_reg (rex_B p) (take_bit 3 b) in
         if w then map_option (\<lambda>(i, rest). (Mov_r_imm64 r i, rest)) (get_imm64 bs)
         else map_option (\<lambda>(i, rest). (Mov_r_imm32 r i, rest)) (get_imm32 bs))
      else if b = 0xc1 then
        with_rm_imm8 p (\<lambda>e rm i. map_option (\<lambda>s. Shift s w rm i) (shift_of e)) bs
      else if b = 0xc3 then Some (Plain RET, bs)
      else if b = 0xc7 then
        with_rm_imm32 p (\<lambda>e rm i. if e = 0 then Some (Mov_rm_imm32 w rm i) else None) bs
      else if b = 0xd3 then
        with_rm p (\<lambda>r rm. map_option (\<lambda>s. Shift_cl s w rm) (shift_of (take_bit 3 r))) bs
      else if b = 0xe8 then map_option (\<lambda>(d, rest). (Call d, rest)) (get_imm32 bs)
      else if b = 0xe9 then map_option (\<lambda>(d, rest). (Jmp d, rest)) (get_imm32 bs)
      else if b = 0xeb then map_option (\<lambda>(d, rest). (Jmp8 d, rest)) (get_imm8 bs)
      else if b = 0xf7 then
        (case bs of [] \<Rightarrow> None | m # _ \<Rightarrow>
          if f_reg m = 0 then with_rm_imm32 p (\<lambda>_ rm i. Some (Test_rm_imm w rm i)) bs
          else with_rm p (\<lambda>r rm. map_option (\<lambda>u. Unary u w rm) (unary_of (take_bit 3 r))) bs)
      else if b = 0xff then
        with_rm p (\<lambda>r rm. if take_bit 3 r = 2 then Some (Call_rm rm)
                           else if take_bit 3 r = 4 then Some (Jmp_rm rm) else None) bs
      else None)"

fun x86_decode :: "code \<Rightarrow> (x86_instr \<times> code) option" where
  "x86_decode [] = None"
| "x86_decode (b # bs) = (if is_rex b then decode_op b bs else decode_op 0x40 (b # bs))"

text \<open>A whole buffer as a sequence of instructions; fuel is the number of bytes, since every
  instruction has at least one.\<close>

fun x86_disasm_fuel :: "nat \<Rightarrow> code \<Rightarrow> x86_instr list option" where
  "x86_disasm_fuel _ [] = Some []"
| "x86_disasm_fuel 0 (_ # _) = None"
| "x86_disasm_fuel (Suc n) (b # bs) =
     (case x86_decode (b # bs) of None \<Rightarrow> None
      | Some (i, rest) \<Rightarrow> map_option (\<lambda>is. i # is) (x86_disasm_fuel n rest))"

definition x86_disasm :: "code \<Rightarrow> x86_instr list option" where
  "x86_disasm bs = x86_disasm_fuel (length bs) bs"

section \<open>Simplification\<close>

text \<open>The opcode extensions are evaluated on the concrete field values they are applied to.\<close>

lemmas opcode_tables [x86_fields] = alu_of_def unary_of_def shift_of_def

lemma get_imm32_le32 [simp]: "get_imm32 (le32 v @ rest) = Some (v, rest)"
  by (simp add: le32_def)

lemma get_imm64_le64 [simp]: "get_imm64 (le64 v @ rest) = Some (v, rest)"
  by (simp add: le64_def)

lemma is_rex_numeral [x86_fields]:
  "is_rex (numeral n) = (drop_bit 4 (numeral n :: u8) = 4)"
  by (simp add: is_rex_def)

lemma ext_reg_simps [x86_fields]: "ext_reg False f = f" "ext_reg True f = 8 OR f"
  by (simp_all add: ext_reg_def)

section \<open>The decoder reads a prefix\<close>

text \<open>
  A \<open>parser\<close> leaves a suffix of its input and does not look beyond what it consumes. The decoder
  is one, so that code decodes the same way whatever follows it, and the disassembly of a
  concatenation is the concatenation of the disassemblies.
\<close>

definition parser :: "(code \<Rightarrow> ('a \<times> code) option) \<Rightarrow> bool" where
  "parser p \<longleftrightarrow> (\<forall>bs i r. p bs = Some (i, r) \<longrightarrow>
     (\<exists>c. bs = c @ r) \<and> (\<forall>m. p (bs @ m) = Some (i, r @ m)))"

lemma parserI:
  assumes "\<And>bs i r. p bs = Some (i, r) \<Longrightarrow> (\<exists>c. bs = c @ r) \<and> (\<forall>m. p (bs @ m) = Some (i, r @ m))"
  shows "parser p"
  using assms by (simp add: parser_def)

lemma parserD:
  assumes "parser p" and "p bs = Some (i, r)"
  shows "\<exists>c. bs = c @ r" and "p (bs @ m) = Some (i, r @ m)"
  using assms unfolding parser_def by blast+

lemma parser_None: "parser (\<lambda>bs. None)"
  by (simp add: parser_def)
lemma parser_Some: "parser (\<lambda>bs. Some (i, bs))"
  by (simp add: parser_def)
lemma parser_if: "parser f \<Longrightarrow> parser g \<Longrightarrow> parser (\<lambda>bs. if c then f bs else g bs)"
  by (simp add: parser_def)
lemma parser_map: "parser g \<Longrightarrow> parser (\<lambda>bs. map_option (\<lambda>(d, rest). (f d, rest)) (g bs))"
  by (rule parserI) (auto dest: parserD)
lemma parser_bind:
  assumes g: "parser g" and h: "\<And>x. parser (h x)"
  shows "parser (\<lambda>bs. case g bs of None \<Rightarrow> None | Some (x, rest) \<Rightarrow> h x rest)"
proof (rule parserI)
  fix bs i r
  assume "(case g bs of None \<Rightarrow> None | Some (x, rest) \<Rightarrow> h x rest) = Some (i, r)"
  then obtain x rest where *: "g bs = Some (x, rest)" "h x rest = Some (i, r)"
    by (auto split: option.splits)
  show "(\<exists>c. bs = c @ r) \<and>
        (\<forall>m. (case g (bs @ m) of None \<Rightarrow> None | Some (x, rest) \<Rightarrow> h x rest) = Some (i, r @ m))"
    using parserD [OF g *(1)] parserD [OF h *(2)] by (auto intro: append_assoc [symmetric])
qed

lemma parser_peek:
  assumes "\<And>c. parser (F c)"
  shows "parser (\<lambda>bs. case bs of [] \<Rightarrow> None | c # _ \<Rightarrow> F c bs)"
proof (rule parserI)
  fix bs i r
  assume *: "(case bs of [] \<Rightarrow> None | c # _ \<Rightarrow> F c bs) = Some (i, r)"
  then obtain c rest where bs: "bs = c # rest" by (cases bs) auto
  with * show "(\<exists>c. bs = c @ r) \<and>
      (\<forall>m. (case bs @ m of [] \<Rightarrow> None | c # _ \<Rightarrow> F c (bs @ m)) = Some (i, r @ m))"
    using parserD [OF assms [of c], of bs i r] by simp
qed

lemma parser_next: "(\<And>c. parser (F c)) \<Longrightarrow> parser (\<lambda>bs. case bs of [] \<Rightarrow> None | c # rest \<Rightarrow> F c rest)"
  by (rule parserI) (force split: list.splits dest: parserD)
lemma parser_mk: "parser (\<lambda>bs. map_option (\<lambda>i. (i, bs)) (mk))"
  by (rule parserI) auto

lemma parser_get_imm: "parser get_imm8" "parser get_imm32" "parser get_imm64"
  apply (rule parserI, rename_tac bs i r, case_tac bs rule: get_imm8.cases; simp)
  apply (rule parserI, rename_tac bs i r, case_tac bs rule: get_imm32.cases; auto)
  apply (rule parserI, rename_tac bs i r, case_tac bs rule: get_imm64.cases; auto)
  done

lemma get_sib_case: "get_sib p k = (\<lambda>bs. case bs of [] \<Rightarrow> None | s # rest \<Rightarrow> get_sib p k (s # rest))"
  by (rule ext) (simp split: list.splits)

lemmas parser_intros = parser_None parser_Some parser_if parser_map parser_next parser_mk parser_get_imm

lemma parser_get_disp: "parser (get_disp k)"
  unfolding get_disp_def by (intro parser_intros)

lemma parser_get_sib: "parser (get_sib p k)"
  by (subst get_sib_case, unfold get_sib.simps Let_def) (intro parser_intros parser_get_disp)

lemma parser_get_rm: "parser (get_rm p b)"
  unfolding get_rm_def by (intro parser_intros parser_get_disp parser_get_sib)

lemma parser_with_rm:
  "parser (with_rm p mk)" "parser (with_rm_imm8 p mk8)" "parser (with_rm_imm32 p mk32)"
proof -
  have "with_rm p mk = (\<lambda>bs. case bs of [] \<Rightarrow> None | b # rest \<Rightarrow> with_rm p mk (b # rest))"
    by (rule ext) (simp split: list.splits)
  then show "parser (with_rm p mk)"
    by (subst (asm) with_rm.simps) (erule ssubst, intro parser_intros parser_bind parser_get_rm)
  have "with_rm_imm8 p mk8 = (\<lambda>bs. case bs of [] \<Rightarrow> None | b # rest \<Rightarrow> with_rm_imm8 p mk8 (b # rest))"
    by (rule ext) (simp split: list.splits)
  then show "parser (with_rm_imm8 p mk8)"
    by (subst (asm) with_rm_imm8.simps) (erule ssubst, intro parser_intros parser_bind parser_get_rm)
  have "with_rm_imm32 p mk32 = (\<lambda>bs. case bs of [] \<Rightarrow> None | b # rest \<Rightarrow> with_rm_imm32 p mk32 (b # rest))"
    by (rule ext) (simp split: list.splits)
  then show "parser (with_rm_imm32 p mk32)"
    by (subst (asm) with_rm_imm32.simps) (erule ssubst, intro parser_intros parser_bind parser_get_rm)
qed

lemma parser_decode_0f: "parser (\<lambda>bs. decode_0f p (b # bs))"
  unfolding decode_0f.simps Let_def by (intro parser_intros parser_with_rm)

lemma parser_decode_op: "parser (\<lambda>bs. decode_op p (b # bs))"
proof -
  have 0: "parser (decode_0f p)"
  proof -
    have "decode_0f p = (\<lambda>bs. case bs of [] \<Rightarrow> None | b # rest \<Rightarrow> decode_0f p (b # rest))"
      by (rule ext) (simp split: list.splits)
    then show ?thesis
      by (rule ssubst) (intro parser_next parser_decode_0f)
  qed
  show ?thesis
    unfolding decode_op.simps Let_def
    by (intro parser_intros parser_with_rm parser_peek 0)
qed

lemma parser_decode_op': "parser (decode_op p)"
proof -
  have "decode_op p = (\<lambda>bs. case bs of [] \<Rightarrow> None | b # rest \<Rightarrow> decode_op p (b # rest))"
    by (rule ext) (simp split: list.splits)
  then show ?thesis
    by (rule ssubst) (intro parser_next parser_decode_op)
qed

lemma decode_op_suffix: "decode_op p bs = Some (i, r) \<Longrightarrow> \<exists>c. bs = c @ r \<and> c \<noteq> []"
proof (cases bs)
  case (Cons b bs')
  assume "decode_op p bs = Some (i, r)"
  then have "decode_op p (b # bs') = Some (i, r)" by (simp only: Cons)
  from parserD(1) [OF parser_decode_op this] obtain c where "bs' = c @ r" ..
  then have "bs = (b # c) @ r" by (simp add: Cons)
  then show ?thesis by blast
qed simp

lemma x86_decode_suffix: "x86_decode bs = Some (i, r) \<Longrightarrow> \<exists>c. bs = c @ r \<and> c \<noteq> []"
proof (cases bs)
  case (Cons b bs')
  assume "x86_decode bs = Some (i, r)"
  then consider "decode_op b bs' = Some (i, r)" | "decode_op 0x40 (b # bs') = Some (i, r)"
    unfolding Cons by (auto simp del: decode_op.simps split: if_splits)
  then show ?thesis
  proof cases
    case 1
    from decode_op_suffix [OF this] obtain c where "bs' = c @ r" by blast
    then have "bs = (b # c) @ r" by (simp add: Cons)
    then show ?thesis by blast
  next
    case 2
    then show ?thesis unfolding Cons by (rule decode_op_suffix)
  qed
qed simp

lemma x86_decode_shorter: "x86_decode bs = Some (i, r) \<Longrightarrow> length r < length bs"
  by (drule x86_decode_suffix) auto

lemma x86_decode_stable: "x86_decode bs = Some (i, r) \<Longrightarrow> x86_decode (bs @ m) = Some (i, r @ m)"
  using parserD(2) [OF parser_decode_op', of "0x40" bs i r m]
    parserD(2) [OF parser_decode_op', of "hd bs" "tl bs" i r m]
  by (cases bs) (auto simp del: decode_op.simps(2) split: if_splits)

lemma x86_disasm_fuel_enough:
  "length bs \<le> n \<Longrightarrow> length bs \<le> k \<Longrightarrow> x86_disasm_fuel n bs = x86_disasm_fuel k bs"
proof (induction n arbitrary: bs k)
  case (Suc n)
  show ?case
  proof (cases bs)
    case (Cons b bs')
    then obtain k' where k: "k = Suc k'" using Suc.prems by (cases k) auto
    have "x86_disasm_fuel n r = x86_disasm_fuel k' r" if "x86_decode bs = Some (i, r)" for i r
      using x86_decode_shorter [OF that] Suc.prems k by (intro Suc.IH) auto
    then show ?thesis
      unfolding Cons k by (auto simp del: x86_decode.simps split: option.splits)
  qed simp
qed simp

lemma x86_disasm_Nil [simp]: "x86_disasm [] = Some []"
  by (simp add: x86_disasm_def)

lemma x86_disasm_step:
  assumes "x86_decode bs = Some (i, r)"
  shows "x86_disasm bs = map_option (Cons i) (x86_disasm r)"
proof -
  obtain b bs' where bs: "bs = b # bs'" using assms by (cases bs) auto
  have "x86_disasm_fuel (length bs') r = x86_disasm r"
    unfolding x86_disasm_def using x86_decode_shorter [OF assms] bs
    by (intro x86_disasm_fuel_enough) auto
  then show ?thesis
    using assms unfolding bs by (simp add: x86_disasm_def del: x86_decode.simps)
qed

lemma x86_disasm_None: "x86_decode (b # bs) = None \<Longrightarrow> x86_disasm (b # bs) = None"
  by (simp add: x86_disasm_def del: x86_decode.simps)

lemma x86_disasm_append:
  "x86_disasm xs = Some is \<Longrightarrow> x86_disasm (xs @ ys) = map_option (append is) (x86_disasm ys)"
proof (induction "length xs" arbitrary: xs "is" rule: less_induct)
  case less
  show ?case
  proof (cases "x86_decode xs")
    case None
    with less.prems show ?thesis
      by (cases xs; cases "x86_disasm ys") (auto simp: x86_disasm_None simp del: x86_decode.simps)
  next
    case (Some a)
    then obtain i r where d: "x86_decode xs = Some (i, r)" by (cases a) auto
    with less.prems obtain js where js: "x86_disasm r = Some js" "is = i # js"
      by (auto simp: x86_disasm_step)
    have "x86_disasm (xs @ ys) = map_option (Cons i) (x86_disasm (r @ ys))"
      by (rule x86_disasm_step) (rule x86_decode_stable [OF d])
    also have "x86_disasm (r @ ys) = map_option (append js) (x86_disasm ys)"
      by (rule less.hyps [OF x86_decode_shorter [OF d] js(1)])
    finally show ?thesis by (cases "x86_disasm ys") (simp_all add: js(2))
  qed
qed

end
