(* ===== verification/Emit.thy ===== *)
theory Emit
  imports X86
begin

text \<open>
  \<open>src/modules/arm2x86_emit.c\<close>: the x86-64 encoding helpers. A C helper writes through
  \<open>uint8_t **buf\<close> and advances the cursor; here the buffer is the list of the bytes written so
  far, every helper takes it as its first argument and returns it extended, and a pointer into
  the buffer (a patch location) is an index of the list. The statements of a body are the
  successive bindings of \<open>buf\<close>. An \<open>int8_t\<close> or \<open>int32_t\<close> argument is its two's complement
  word: masking with \<open>0xff\<close> after a right shift gives the same byte whether the shift is
  arithmetic (as in C) or logical (as here).

  The second half states what the bytes mean, through the reference decoder of theory \<open>X86\<close>.
\<close>

section \<open>The emitters\<close>

definition emit_byte :: "code \<Rightarrow> u8 \<Rightarrow> code" where
  [emit_defs]: "emit_byte buf v = buf @ [v]"

definition emit_imm32 :: "code \<Rightarrow> u32 \<Rightarrow> code" where
  "emit_imm32 buf v =
     (let buf = emit_byte buf (ucast (v AND 0xff));
          buf = emit_byte buf (ucast (drop_bit 8 v AND 0xff));
          buf = emit_byte buf (ucast (drop_bit 16 v AND 0xff))
      in emit_byte buf (ucast (drop_bit 24 v AND 0xff)))"

definition emit_imm16 :: "code \<Rightarrow> u16 \<Rightarrow> code" where
  [emit_defs]: "emit_imm16 buf v =
     (let buf = emit_byte buf (ucast (v AND 0xff))
      in emit_byte buf (ucast (drop_bit 8 v AND 0xff)))"

definition emit_imm8 :: "code \<Rightarrow> u8 \<Rightarrow> code" where
  [emit_defs]: "emit_imm8 buf v = emit_byte buf v"

primrec nop_padding :: "code \<Rightarrow> nat \<Rightarrow> code" where
  "nop_padding buf 0 = buf"
| "nop_padding buf (Suc count) = nop_padding (emit_byte buf 0x90) count"

definition rex :: "code \<Rightarrow> bool \<Rightarrow> u8 \<Rightarrow> u8 \<Rightarrow> u8 \<Rightarrow> code" where
  "rex buf w r x b =
     emit_byte buf (0x40 OR (if w then 0x08 else 0) OR push_bit 2 (r AND 1)
                    OR push_bit 1 (x AND 1) OR (b AND 1))"

definition rex_r :: "code \<Rightarrow> u8 \<Rightarrow> u8 \<Rightarrow> code" where
  [emit_defs]: "rex_r buf reg rm =
     (rex buf True (drop_bit 3 reg) 0 (drop_bit 3 rm))"

definition rex_rm :: "code \<Rightarrow> u8 \<Rightarrow> u8 \<Rightarrow> code" where
  [emit_defs]: "rex_rm buf reg rm =
     (rex buf False (drop_bit 3 reg) 0 (drop_bit 3 rm))"

definition modrm :: "code \<Rightarrow> u8 \<Rightarrow> u8 \<Rightarrow> u8 \<Rightarrow> code" where
  "modrm buf m reg rm =
     emit_byte buf (push_bit 6 m OR push_bit 3 (reg AND 7) OR (rm AND 7))"

definition sib :: "code \<Rightarrow> u8 \<Rightarrow> u8 \<Rightarrow> u8 \<Rightarrow> code" where
  [emit_defs]: "sib buf scale index base =
     emit_byte buf (push_bit 6 scale OR push_bit 3 (index AND 7) OR (base AND 7))"

text \<open>\<open>disp >= -128 && disp <= 127\<close> on the signed \<open>int32_t disp\<close>.\<close>

definition fits_imm8 :: "u32 \<Rightarrow> bool" where
  "fits_imm8 disp = (-128 \<le> sint disp \<and> sint disp \<le> 127)"

definition emit_modrm_sib_disp :: "code \<Rightarrow> u8 \<Rightarrow> u8 \<Rightarrow> u8 \<Rightarrow> u8 \<Rightarrow> u32 \<Rightarrow> code" where
  "emit_modrm_sib_disp buf reg base index scale disp =
     (let m = (if disp = 0 \<and> base \<noteq> RBP \<and> base \<noteq> RSP then 0
               else if fits_imm8 disp then 1 else 2);
          buf = modrm buf m reg 4;
          buf = sib buf scale index base
      in if m = 1 then emit_imm8 buf (ucast disp)
         else if m = 2 then emit_imm32 buf disp else buf)"

definition emit_modrm_disp :: "code \<Rightarrow> u8 \<Rightarrow> u8 \<Rightarrow> u32 \<Rightarrow> code" where
  "emit_modrm_disp buf reg base disp =
     (let m = (if disp = 0 \<and> base \<noteq> RBP then 0
               else if fits_imm8 disp then 1 else 2);
          buf = modrm buf m reg (base AND 7)
      in if m = 1 then emit_imm8 buf (ucast disp)
         else if m = 2 then emit_imm32 buf disp else buf)"

definition mov_r64_imm :: "code \<Rightarrow> u8 \<Rightarrow> u64 \<Rightarrow> code" where
  "mov_r64_imm buf reg imm =
     (let buf = rex buf True 0 0 (drop_bit 3 reg);
          buf = emit_byte buf (0xb8 OR (reg AND 7));
          buf = emit_byte buf (ucast (imm AND 0xff));
          buf = emit_byte buf (ucast (drop_bit 8 imm AND 0xff));
          buf = emit_byte buf (ucast (drop_bit 16 imm AND 0xff));
          buf = emit_byte buf (ucast (drop_bit 24 imm AND 0xff));
          buf = emit_byte buf (ucast (drop_bit 32 imm AND 0xff));
          buf = emit_byte buf (ucast (drop_bit 40 imm AND 0xff));
          buf = emit_byte buf (ucast (drop_bit 48 imm AND 0xff))
      in emit_byte buf (ucast (drop_bit 56 imm AND 0xff)))"

definition mov_r32_imm :: "code \<Rightarrow> u8 \<Rightarrow> u32 \<Rightarrow> code" where
  [emit_defs]: "mov_r32_imm buf reg imm =
     (let buf = rex_rm buf 0 reg;
          buf = emit_byte buf (0xb8 OR (reg AND 7))
      in emit_imm32 buf imm)"

definition mov_r64_r64 :: "code \<Rightarrow> u8 \<Rightarrow> u8 \<Rightarrow> code" where
  [emit_defs]: "mov_r64_r64 buf dest src =
     (let buf = rex_r buf dest src;
          buf = emit_byte buf 0x89
      in modrm buf 3 (dest AND 7) (src AND 7))"

definition movzx_r64_r8 :: "code \<Rightarrow> u8 \<Rightarrow> u8 \<Rightarrow> code" where
  [emit_defs]: "movzx_r64_r8 buf dest src =
     (let buf = rex buf True 0 (drop_bit 3 dest) (drop_bit 3 src);
          buf = emit_byte buf 0x0f;
          buf = emit_byte buf 0xb6
      in modrm buf 3 (dest AND 7) (src AND 7))"

definition add_r64_imm8 :: "code \<Rightarrow> u8 \<Rightarrow> u8 \<Rightarrow> code" where
  [emit_defs]: "add_r64_imm8 buf reg imm =
     (let buf = rex_rm buf 1 (drop_bit 3 reg);
          buf = emit_byte buf 0x83;
          buf = modrm buf 3 0 (reg AND 7)
      in emit_imm8 buf imm)"

definition test_r64_r64 :: "code \<Rightarrow> u8 \<Rightarrow> u8 \<Rightarrow> code" where
  [emit_defs]: "test_r64_r64 buf a b =
     (let buf = rex_r buf a b;
          buf = emit_byte buf 0x85
      in modrm buf 3 (a AND 7) (b AND 7))"

text \<open>The pointer argument \<open>mem\<close> of \<open>mov_r64_mem\<close> is never used by the C code.\<close>

definition mov_r64_mem :: "code \<Rightarrow> u8 \<Rightarrow> ptr \<Rightarrow> code" where
  [emit_defs]: "mov_r64_mem buf reg mem =
     (let buf = rex_r buf reg 0;
          buf = emit_byte buf 0x89;
          buf = modrm buf 0 (reg AND 7) 5
      in emit_imm32 buf 0)"

definition emit_jmp :: "code \<Rightarrow> u32 \<Rightarrow> code \<times> nat" where
  [emit_defs]: "emit_jmp buf offset =
     (let patch_loc = length buf;
          buf = emit_byte buf 0xe9;
          buf = emit_imm32 buf (offset - 5)
      in (buf, patch_loc))"

definition emit_jmp8 :: "code \<Rightarrow> u8 \<Rightarrow> code \<times> nat" where
  [emit_defs]: "emit_jmp8 buf offset =
     (let patch_loc = length buf;
          buf = emit_byte buf 0xeb;
          buf = emit_imm8 buf (offset - 2)
      in (buf, patch_loc))"

definition emit_jcc :: "code \<Rightarrow> u8 \<Rightarrow> u32 \<Rightarrow> code \<times> nat" where
  [emit_defs]: "emit_jcc buf cond offset =
     (let buf = emit_byte buf 0x0f;
          buf = emit_byte buf cond;
          patch_loc = length buf;
          buf = emit_imm32 buf (offset - 6)
      in (buf, patch_loc))"

definition emit_call :: "code \<Rightarrow> u32 \<Rightarrow> code \<times> nat" where
  [emit_defs]: "emit_call buf offset =
     (let patch_loc = length buf;
          buf = emit_byte buf 0xe8;
          buf = emit_imm32 buf (offset - 5)
      in (buf, patch_loc))"

definition emit_ret :: "code \<Rightarrow> code" where
  [emit_defs]: "emit_ret buf =
     (emit_byte buf 0xc3)"

definition cmov_r64_r64 :: "code \<Rightarrow> u8 \<Rightarrow> u8 \<Rightarrow> u8 \<Rightarrow> code" where
  [emit_defs]: "cmov_r64_r64 buf cond dest src =
     (let buf = rex_r buf dest src;
          buf = emit_byte buf 0x0f;
          buf = emit_byte buf (0x40 + cond)
      in modrm buf 3 (dest AND 7) (src AND 7))"

definition emit_call_reg :: "code \<Rightarrow> u8 \<Rightarrow> code" where
  [emit_defs]: "emit_call_reg buf reg =
     (let buf = rex_r buf 2 reg;
          buf = emit_byte buf 0xff
      in modrm buf 3 2 (reg AND 7))"

definition emit_jmp_reg :: "code \<Rightarrow> u8 \<Rightarrow> code" where
  [emit_defs]: "emit_jmp_reg buf reg =
     (let buf = rex_r buf 0 reg;
          buf = emit_byte buf 0xff
      in modrm buf 3 4 (reg AND 7))"

definition add_r64_r64 :: "code \<Rightarrow> u8 \<Rightarrow> u8 \<Rightarrow> code" where
  [emit_defs]: "add_r64_r64 buf dest src =
     (let buf = rex_r buf dest src;
          buf = emit_byte buf 0x01
      in modrm buf 3 (dest AND 7) (src AND 7))"

definition sub_r64_r64 :: "code \<Rightarrow> u8 \<Rightarrow> u8 \<Rightarrow> code" where
  [emit_defs]: "sub_r64_r64 buf dest src =
     (let buf = rex_r buf dest src;
          buf = emit_byte buf 0x29
      in modrm buf 3 (dest AND 7) (src AND 7))"

definition and_r64_r64 :: "code \<Rightarrow> u8 \<Rightarrow> u8 \<Rightarrow> code" where
  [emit_defs]: "and_r64_r64 buf dest src =
     (let buf = rex_r buf dest src;
          buf = emit_byte buf 0x21
      in modrm buf 3 (dest AND 7) (src AND 7))"

definition or_r64_r64 :: "code \<Rightarrow> u8 \<Rightarrow> u8 \<Rightarrow> code" where
  [emit_defs]: "or_r64_r64 buf dest src =
     (let buf = rex_r buf dest src;
          buf = emit_byte buf 0x09
      in modrm buf 3 (dest AND 7) (src AND 7))"

definition xor_r64_r64 :: "code \<Rightarrow> u8 \<Rightarrow> u8 \<Rightarrow> code" where
  [emit_defs]: "xor_r64_r64 buf dest src =
     (let buf = rex_r buf dest src;
          buf = emit_byte buf 0x31
      in modrm buf 3 (dest AND 7) (src AND 7))"

definition cmp_r64_r64 :: "code \<Rightarrow> u8 \<Rightarrow> u8 \<Rightarrow> code" where
  [emit_defs]: "cmp_r64_r64 buf a b =
     (let buf = rex_r buf 0 a;
          buf = emit_byte buf 0x3b
      in modrm buf 3 (a AND 7) (b AND 7))"

definition cmp_r64_imm32 :: "code \<Rightarrow> u8 \<Rightarrow> u32 \<Rightarrow> code" where
  [emit_defs]: "cmp_r64_imm32 buf reg imm =
     (let buf = rex_r buf 0 reg;
          buf = emit_byte buf 0x81;
          buf = modrm buf 3 7 (reg AND 7)
      in emit_imm32 buf imm)"

definition cmp_r64_imm8 :: "code \<Rightarrow> u8 \<Rightarrow> u8 \<Rightarrow> code" where
  [emit_defs]: "cmp_r64_imm8 buf reg imm =
     (let buf = rex_r buf 0 reg;
          buf = emit_byte buf 0x83;
          buf = modrm buf 3 7 (reg AND 7)
      in emit_imm8 buf imm)"

definition shl_r64_imm8 :: "code \<Rightarrow> u8 \<Rightarrow> u8 \<Rightarrow> code" where
  [emit_defs]: "shl_r64_imm8 buf reg amount =
     (let buf = rex_r buf 0 reg;
          buf = emit_byte buf 0xc1;
          buf = modrm buf 3 4 (reg AND 7)
      in emit_imm8 buf amount)"

definition shr_r64_imm8 :: "code \<Rightarrow> u8 \<Rightarrow> u8 \<Rightarrow> code" where
  [emit_defs]: "shr_r64_imm8 buf reg amount =
     (let buf = rex_r buf 0 reg;
          buf = emit_byte buf 0xc1;
          buf = modrm buf 3 5 (reg AND 7)
      in emit_imm8 buf amount)"

definition sar_r64_imm8 :: "code \<Rightarrow> u8 \<Rightarrow> u8 \<Rightarrow> code" where
  [emit_defs]: "sar_r64_imm8 buf reg amount =
     (let buf = rex_r buf 0 reg;
          buf = emit_byte buf 0xc1;
          buf = modrm buf 3 7 (reg AND 7)
      in emit_imm8 buf amount)"

definition neg_r64 :: "code \<Rightarrow> u8 \<Rightarrow> code" where
  [emit_defs]: "neg_r64 buf reg =
     (let buf = rex_r buf 0 reg;
          buf = emit_byte buf 0xf7
      in modrm buf 3 3 (reg AND 7))"

definition not_r64 :: "code \<Rightarrow> u8 \<Rightarrow> code" where
  [emit_defs]: "not_r64 buf reg =
     (let buf = rex_r buf 0 reg;
          buf = emit_byte buf 0xf7
      in modrm buf 3 2 (reg AND 7))"

definition imul_r64_r64 :: "code \<Rightarrow> u8 \<Rightarrow> u8 \<Rightarrow> code" where
  [emit_defs]: "imul_r64_r64 buf dest src =
     (let buf = rex_r buf dest src;
          buf = emit_byte buf 0x0f;
          buf = emit_byte buf 0xaf
      in modrm buf 3 (dest AND 7) (src AND 7))"

definition pop_r64 :: "code \<Rightarrow> u8 \<Rightarrow> code" where
  [emit_defs]: "pop_r64 buf reg =
     (let buf = (if reg AND 8 \<noteq> 0 then emit_byte buf 0x41 else buf)
      in emit_byte buf (0x58 OR (reg AND 7)))"

definition push_r64 :: "code \<Rightarrow> u8 \<Rightarrow> code" where
  [emit_defs]: "push_r64 buf reg =
     (let buf = (if reg AND 8 \<noteq> 0 then emit_byte buf 0x41 else buf)
      in emit_byte buf (0x50 OR (reg AND 7)))"

definition mul_r64 :: "code \<Rightarrow> u8 \<Rightarrow> code" where
  [emit_defs]: "mul_r64 buf src =
     (let buf = rex_r buf 0 src;
          buf = emit_byte buf 0xf7
      in modrm buf 3 4 (src AND 7))"

definition imul_r64 :: "code \<Rightarrow> u8 \<Rightarrow> code" where
  [emit_defs]: "imul_r64 buf src =
     (let buf = rex_r buf 0 src;
          buf = emit_byte buf 0xf7
      in modrm buf 3 5 (src AND 7))"

definition div_r64 :: "code \<Rightarrow> u8 \<Rightarrow> code" where
  [emit_defs]: "div_r64 buf src =
     (let buf = rex_r buf 0 src;
          buf = emit_byte buf 0xf7
      in modrm buf 3 6 (src AND 7))"

definition idiv_r64 :: "code \<Rightarrow> u8 \<Rightarrow> code" where
  [emit_defs]: "idiv_r64 buf src =
     (let buf = rex_r buf 0 src;
          buf = emit_byte buf 0xf7
      in modrm buf 3 7 (src AND 7))"

definition emit_cdq :: "code \<Rightarrow> code" where
  [emit_defs]: "emit_cdq buf =
     (emit_byte buf 0x99)"

definition emit_cqo :: "code \<Rightarrow> code" where
  [emit_defs]: "emit_cqo buf =
     (let buf = emit_byte buf 0x48
      in emit_byte buf 0x99)"

definition emit_mfence :: "code \<Rightarrow> code" where
  [emit_defs]: "emit_mfence buf =
     (let buf = emit_byte buf 0x0f;
          buf = emit_byte buf 0xae
      in emit_byte buf 0xf0)"

definition emit_lfence :: "code \<Rightarrow> code" where
  [emit_defs]: "emit_lfence buf =
     (let buf = emit_byte buf 0x0f;
          buf = emit_byte buf 0xae
      in emit_byte buf 0xe8)"

definition emit_sfence :: "code \<Rightarrow> code" where
  [emit_defs]: "emit_sfence buf =
     (let buf = emit_byte buf 0x0f;
          buf = emit_byte buf 0xae
      in emit_byte buf 0xf8)"

definition emit_lock :: "code \<Rightarrow> code" where
  [emit_defs]: "emit_lock buf =
     (emit_byte buf 0xf0)"

definition emit_lock_cmpxchg_mem :: "code \<Rightarrow> u8 \<Rightarrow> u8 \<Rightarrow> u32 \<Rightarrow> code" where
  [emit_defs]: "emit_lock_cmpxchg_mem buf reg base disp =
     (let buf = emit_lock buf;
          buf = rex_r buf 0 reg;
          buf = emit_byte buf 0x0f;
          buf = emit_byte buf 0xb1
      in emit_modrm_disp buf (reg AND 7) base disp)"

definition emit_lock_xadd_mem :: "code \<Rightarrow> u8 \<Rightarrow> u8 \<Rightarrow> u32 \<Rightarrow> code" where
  [emit_defs]: "emit_lock_xadd_mem buf reg base disp =
     (let buf = emit_lock buf;
          buf = rex_r buf reg 0;
          buf = emit_byte buf 0x0f;
          buf = emit_byte buf 0xc1
      in emit_modrm_disp buf (reg AND 7) base disp)"

definition emit_syscall :: "code \<Rightarrow> code" where
  [emit_defs]: "emit_syscall buf =
     (let buf = emit_byte buf 0x0f
      in emit_byte buf 0x05)"

definition movsd_xmm_xmm :: "code \<Rightarrow> u8 \<Rightarrow> u8 \<Rightarrow> code" where
  [emit_defs]: "movsd_xmm_xmm buf dest src =
     (let buf = emit_byte buf 0xf2;
          buf = emit_byte buf 0x0f;
          buf = emit_byte buf 0x10
      in emit_byte buf ((0xc0 OR (push_bit 3 (dest AND 7))) OR (src AND 7)))"

definition addsd_xmm_xmm :: "code \<Rightarrow> u8 \<Rightarrow> u8 \<Rightarrow> code" where
  [emit_defs]: "addsd_xmm_xmm buf dest src =
     (let buf = emit_byte buf 0xf2;
          buf = emit_byte buf 0x0f;
          buf = emit_byte buf 0x58
      in emit_byte buf ((0xc0 OR (push_bit 3 (dest AND 7))) OR (src AND 7)))"

definition subsd_xmm_xmm :: "code \<Rightarrow> u8 \<Rightarrow> u8 \<Rightarrow> code" where
  [emit_defs]: "subsd_xmm_xmm buf dest src =
     (let buf = emit_byte buf 0xf2;
          buf = emit_byte buf 0x0f;
          buf = emit_byte buf 0x5c
      in emit_byte buf ((0xc0 OR (push_bit 3 (dest AND 7))) OR (src AND 7)))"

definition mulsd_xmm_xmm :: "code \<Rightarrow> u8 \<Rightarrow> u8 \<Rightarrow> code" where
  [emit_defs]: "mulsd_xmm_xmm buf dest src =
     (let buf = emit_byte buf 0xf2;
          buf = emit_byte buf 0x0f;
          buf = emit_byte buf 0x59
      in emit_byte buf ((0xc0 OR (push_bit 3 (dest AND 7))) OR (src AND 7)))"

definition divsd_xmm_xmm :: "code \<Rightarrow> u8 \<Rightarrow> u8 \<Rightarrow> code" where
  [emit_defs]: "divsd_xmm_xmm buf dest src =
     (let buf = emit_byte buf 0xf2;
          buf = emit_byte buf 0x0f;
          buf = emit_byte buf 0x5e
      in emit_byte buf ((0xc0 OR (push_bit 3 (dest AND 7))) OR (src AND 7)))"

definition cvtsi2sd_xmm_r64 :: "code \<Rightarrow> u8 \<Rightarrow> u8 \<Rightarrow> code" where
  [emit_defs]: "cvtsi2sd_xmm_r64 buf xmm reg =
     (let buf = emit_byte buf 0xf2;
          buf = rex_r buf xmm reg;
          buf = emit_byte buf 0x2a
      in modrm buf 3 (xmm AND 7) (reg AND 7))"

definition cvtsd2si_r64_xmm :: "code \<Rightarrow> u8 \<Rightarrow> u8 \<Rightarrow> code" where
  [emit_defs]: "cvtsd2si_r64_xmm buf reg xmm =
     (let buf = emit_byte buf 0xf2;
          buf = rex_r buf reg xmm;
          buf = emit_byte buf 0x2d
      in modrm buf 3 (reg AND 7) (xmm AND 7))"

definition comisd_xmm_xmm :: "code \<Rightarrow> u8 \<Rightarrow> u8 \<Rightarrow> code" where
  [emit_defs]: "comisd_xmm_xmm buf a b =
     (let buf = emit_byte buf 0x66;
          buf = emit_byte buf 0x0f;
          buf = emit_byte buf 0x2f
      in emit_byte buf ((0xc0 OR (push_bit 3 (a AND 7))) OR (b AND 7)))"

definition sqrtsd_xmm_xmm :: "code \<Rightarrow> u8 \<Rightarrow> u8 \<Rightarrow> code" where
  [emit_defs]: "sqrtsd_xmm_xmm buf dest src =
     (let buf = emit_byte buf 0xf2;
          buf = emit_byte buf 0x0f;
          buf = emit_byte buf 0x51
      in emit_byte buf ((0xc0 OR (push_bit 3 (dest AND 7))) OR (src AND 7)))"

definition xorps_xmm_xmm :: "code \<Rightarrow> u8 \<Rightarrow> code" where
  [emit_defs]: "xorps_xmm_xmm buf xmm =
     (let buf = emit_byte buf 0x0f;
          buf = emit_byte buf 0x57
      in emit_byte buf ((0xc0 OR (push_bit 3 xmm)) OR xmm))"

text \<open>A patch location is an index into the buffer; \<open>None\<close> is the \<open>NULL\<close> that both functions
  test for. The distance \<open>target - patch_loc - 4\<close> of two pointers into the buffer is cut to
  \<open>int32_t\<close>.\<close>

definition patch_rel32 :: "code \<Rightarrow> nat option \<Rightarrow> nat \<Rightarrow> code" where
  "patch_rel32 buf patch_loc target =
     (case patch_loc of None \<Rightarrow> buf
      | Some loc \<Rightarrow>
          let offset = (word_of_int (int target - int loc - 4) :: u32);
              buf = buf[loc := ucast (offset AND 0xff)];
              buf = buf[loc + 1 := ucast (drop_bit 8 offset AND 0xff)];
              buf = buf[loc + 2 := ucast (drop_bit 16 offset AND 0xff)]
          in buf[loc + 3 := ucast (drop_bit 24 offset AND 0xff)])"

definition patch_rel32_value :: "code \<Rightarrow> nat option \<Rightarrow> u32 \<Rightarrow> code" where
  "patch_rel32_value buf patch_loc offset =
     (case patch_loc of None \<Rightarrow> buf
      | Some loc \<Rightarrow>
          let rel = offset - 4;
              buf = buf[loc := ucast (rel AND 0xff)];
              buf = buf[loc + 1 := ucast (drop_bit 8 rel AND 0xff)];
              buf = buf[loc + 2 := ucast (drop_bit 16 rel AND 0xff)]
          in buf[loc + 3 := ucast (drop_bit 24 rel AND 0xff)])"

definition emit_rex_r32 :: "code \<Rightarrow> u8 \<Rightarrow> code" where
  [emit_defs]: "emit_rex_r32 buf reg =
     (rex_rm buf 0 reg)"

definition adc_r64_r64 :: "code \<Rightarrow> u8 \<Rightarrow> u8 \<Rightarrow> code" where
  [emit_defs]: "adc_r64_r64 buf dest src =
     (let buf = rex buf True 0 (drop_bit 3 dest) (drop_bit 3 src);
          buf = emit_byte buf 0x11
      in modrm buf 3 (dest AND 7) (src AND 7))"

definition sbb_r64_r64 :: "code \<Rightarrow> u8 \<Rightarrow> u8 \<Rightarrow> code" where
  [emit_defs]: "sbb_r64_r64 buf dest src =
     (let buf = rex buf True 0 (drop_bit 3 dest) (drop_bit 3 src);
          buf = emit_byte buf 0x19
      in modrm buf 3 (dest AND 7) (src AND 7))"

definition ror_r64_imm8 :: "code \<Rightarrow> u8 \<Rightarrow> u8 \<Rightarrow> code" where
  [emit_defs]: "ror_r64_imm8 buf reg imm =
     (let buf = rex_rm buf 1 (drop_bit 3 reg);
          buf = emit_byte buf 0xc1;
          buf = modrm buf 3 1 (reg AND 7)
      in emit_imm8 buf imm)"

definition ror_r64_r64 :: "code \<Rightarrow> u8 \<Rightarrow> u8 \<Rightarrow> code" where
  [emit_defs]: "ror_r64_r64 buf dest src =
     (let buf = rex buf True 0 (drop_bit 3 dest) (drop_bit 3 src);
          buf = emit_byte buf 0xd3
      in modrm buf 3 1 (dest AND 7))"

definition bsf_r64_r64 :: "code \<Rightarrow> u8 \<Rightarrow> u8 \<Rightarrow> code" where
  [emit_defs]: "bsf_r64_r64 buf dest src =
     (let buf = rex buf True 0 (drop_bit 3 dest) (drop_bit 3 src);
          buf = emit_byte buf 0x0f;
          buf = emit_byte buf 0xbc
      in modrm buf 3 (dest AND 7) (src AND 7))"

definition bsr_r64_r64 :: "code \<Rightarrow> u8 \<Rightarrow> u8 \<Rightarrow> code" where
  [emit_defs]: "bsr_r64_r64 buf dest src =
     (let buf = rex buf True 0 (drop_bit 3 dest) (drop_bit 3 src);
          buf = emit_byte buf 0x0f;
          buf = emit_byte buf 0xbd
      in modrm buf 3 (dest AND 7) (src AND 7))"

definition lzcnt_r64_r64 :: "code \<Rightarrow> u8 \<Rightarrow> u8 \<Rightarrow> code" where
  [emit_defs]: "lzcnt_r64_r64 buf dest src =
     (let buf = emit_byte buf 0xf3;
          buf = rex buf True 0 (drop_bit 3 dest) (drop_bit 3 src);
          buf = emit_byte buf 0x0f;
          buf = emit_byte buf 0xbd
      in modrm buf 3 (dest AND 7) (src AND 7))"

definition tzcnt_r64_r64 :: "code \<Rightarrow> u8 \<Rightarrow> u8 \<Rightarrow> code" where
  [emit_defs]: "tzcnt_r64_r64 buf dest src =
     (let buf = emit_byte buf 0xf3;
          buf = rex buf True 0 (drop_bit 3 dest) (drop_bit 3 src);
          buf = emit_byte buf 0x0f;
          buf = emit_byte buf 0xbc
      in modrm buf 3 (dest AND 7) (src AND 7))"

definition popcnt_r64_r64 :: "code \<Rightarrow> u8 \<Rightarrow> u8 \<Rightarrow> code" where
  [emit_defs]: "popcnt_r64_r64 buf dest src =
     (let buf = emit_byte buf 0xf3;
          buf = rex buf True 0 (drop_bit 3 dest) (drop_bit 3 src);
          buf = emit_byte buf 0x0f;
          buf = emit_byte buf 0xb8
      in modrm buf 3 (dest AND 7) (src AND 7))"

definition emit_bswap :: "code \<Rightarrow> u8 \<Rightarrow> code" where
  [emit_defs]: "emit_bswap buf reg =
     (let buf = rex_rm buf 1 (drop_bit 3 reg);
          buf = emit_byte buf 0x0f
      in emit_byte buf (0xc8 OR (reg AND 7)))"

definition emit_movsx :: "code \<Rightarrow> nat \<Rightarrow> u8 \<Rightarrow> u8 \<Rightarrow> code" where
  [emit_defs]: "emit_movsx buf sz dest src =
     (let buf = rex buf True 0 (drop_bit 3 dest) (drop_bit 3 src);
          buf = (if sz = 8 then emit_byte (emit_byte buf 0x0f) 0xbe
                 else if sz = 16 then emit_byte (emit_byte buf 0x0f) 0xbf
                 else if sz = 32 then emit_byte buf 0x63
                 else buf)
      in modrm buf 3 (dest AND 7) (src AND 7))"

definition emit_movzx :: "code \<Rightarrow> nat \<Rightarrow> u8 \<Rightarrow> u8 \<Rightarrow> code" where
  [emit_defs]: "emit_movzx buf sz dest src =
     (if sz = 32 then
        (let buf = rex buf False 0 (drop_bit 3 dest) (drop_bit 3 src);
             buf = emit_byte buf 0x89
         in modrm buf 3 (src AND 7) (dest AND 7))
      else
        (let buf = (if sz = 8 then
                      emit_byte (emit_byte (rex buf True 0 (drop_bit 3 dest) (drop_bit 3 src)) 0x0f) 0xb6
                    else if sz = 16 then
                      emit_byte (emit_byte (rex buf True 0 (drop_bit 3 dest) (drop_bit 3 src)) 0x0f) 0xb7
                    else buf)
         in modrm buf 3 (dest AND 7) (src AND 7)))"

definition emit_movsxd :: "code \<Rightarrow> u8 \<Rightarrow> u8 \<Rightarrow> code" where
  [emit_defs]: "emit_movsxd buf dest src =
     (let buf = rex buf True 0 (drop_bit 3 dest) (drop_bit 3 src);
          buf = emit_byte buf 0x63
      in modrm buf 3 (dest AND 7) (src AND 7))"

definition emit_imul_r64_imm32 :: "code \<Rightarrow> u8 \<Rightarrow> u32 \<Rightarrow> code" where
  [emit_defs]: "emit_imul_r64_imm32 buf reg imm =
     (let buf = rex_rm buf 1 (drop_bit 3 reg);
          buf = emit_byte buf 0x69;
          buf = modrm buf 3 (reg AND 7) (reg AND 7)
      in emit_imm32 buf imm)"

definition emit_mul_r64 :: "code \<Rightarrow> u8 \<Rightarrow> code" where
  [emit_defs]: "emit_mul_r64 buf reg =
     (let buf = rex_rm buf 1 (drop_bit 3 reg);
          buf = emit_byte buf 0xf7
      in modrm buf 3 4 (reg AND 7))"

definition emit_imul_r64 :: "code \<Rightarrow> u8 \<Rightarrow> code" where
  [emit_defs]: "emit_imul_r64 buf reg =
     (let buf = rex_rm buf 1 (drop_bit 3 reg);
          buf = emit_byte buf 0xf7
      in modrm buf 3 5 (reg AND 7))"

definition emit_test_r64_r64 :: "code \<Rightarrow> u8 \<Rightarrow> u8 \<Rightarrow> code" where
  [emit_defs]: "emit_test_r64_r64 buf a b =
     (let buf = rex buf True 0 (drop_bit 3 a) (drop_bit 3 b);
          buf = emit_byte buf 0x85
      in modrm buf 3 (a AND 7) (b AND 7))"

definition emit_test_r64_imm32 :: "code \<Rightarrow> u8 \<Rightarrow> u32 \<Rightarrow> code" where
  [emit_defs]: "emit_test_r64_imm32 buf reg imm =
     (let buf = rex_rm buf 1 (drop_bit 3 reg);
          buf = emit_byte buf 0xf7;
          buf = modrm buf 3 0 (reg AND 7)
      in emit_imm32 buf imm)"

definition emit_setcc :: "code \<Rightarrow> u8 \<Rightarrow> u8 \<Rightarrow> code" where
  [emit_defs]: "emit_setcc buf cond reg =
     (let buf = rex_rm buf 0 (drop_bit 3 reg);
          buf = emit_byte buf 0x0f;
          buf = emit_byte buf (0x90 OR (cond AND 0x0f))
      in modrm buf 3 0 (reg AND 7))"

definition emit_cmovcc :: "code \<Rightarrow> u8 \<Rightarrow> u8 \<Rightarrow> u8 \<Rightarrow> code" where
  [emit_defs]: "emit_cmovcc buf cond dest src =
     (let buf = rex buf True 0 (drop_bit 3 dest) (drop_bit 3 src);
          buf = emit_byte buf 0x0f;
          buf = emit_byte buf (0x40 OR (cond AND 0x0f))
      in modrm buf 3 (dest AND 7) (src AND 7))"

definition emit_cmpxchg :: "code \<Rightarrow> u8 \<Rightarrow> u8 \<Rightarrow> code" where
  [emit_defs]: "emit_cmpxchg buf dest src =
     (let buf = rex buf True 0 (drop_bit 3 dest) (drop_bit 3 src);
          buf = emit_byte buf 0x0f;
          buf = emit_byte buf 0xb1
      in modrm buf 3 (dest AND 7) (src AND 7))"

definition emit_xadd :: "code \<Rightarrow> u8 \<Rightarrow> u8 \<Rightarrow> code" where
  [emit_defs]: "emit_xadd buf dest src =
     (let buf = emit_byte buf 0xf0;
          buf = rex buf True 0 (drop_bit 3 dest) (drop_bit 3 src);
          buf = emit_byte buf 0x0f;
          buf = emit_byte buf 0xc1
      in modrm buf 3 (dest AND 7) (src AND 7))"

definition emit_addsd_xmm_xmm :: "code \<Rightarrow> u8 \<Rightarrow> u8 \<Rightarrow> code" where
  [emit_defs]: "emit_addsd_xmm_xmm buf dest src =
     (let buf = emit_byte buf 0xf2;
          buf = emit_byte buf 0x0f;
          buf = emit_byte buf 0x58
      in emit_byte buf ((0xc0 OR (push_bit 3 (dest AND 7))) OR (src AND 7)))"

definition emit_subsd_xmm_xmm :: "code \<Rightarrow> u8 \<Rightarrow> u8 \<Rightarrow> code" where
  [emit_defs]: "emit_subsd_xmm_xmm buf dest src =
     (let buf = emit_byte buf 0xf2;
          buf = emit_byte buf 0x0f;
          buf = emit_byte buf 0x5c
      in emit_byte buf ((0xc0 OR (push_bit 3 (dest AND 7))) OR (src AND 7)))"

definition emit_mulsd_xmm_xmm :: "code \<Rightarrow> u8 \<Rightarrow> u8 \<Rightarrow> code" where
  [emit_defs]: "emit_mulsd_xmm_xmm buf dest src =
     (let buf = emit_byte buf 0xf2;
          buf = emit_byte buf 0x0f;
          buf = emit_byte buf 0x59
      in emit_byte buf ((0xc0 OR (push_bit 3 (dest AND 7))) OR (src AND 7)))"

definition emit_divsd_xmm_xmm :: "code \<Rightarrow> u8 \<Rightarrow> u8 \<Rightarrow> code" where
  [emit_defs]: "emit_divsd_xmm_xmm buf dest src =
     (let buf = emit_byte buf 0xf2;
          buf = emit_byte buf 0x0f;
          buf = emit_byte buf 0x5e
      in emit_byte buf ((0xc0 OR (push_bit 3 (dest AND 7))) OR (src AND 7)))"

definition emit_sqrtsd_xmm_xmm :: "code \<Rightarrow> u8 \<Rightarrow> u8 \<Rightarrow> code" where
  [emit_defs]: "emit_sqrtsd_xmm_xmm buf dest src =
     (let buf = emit_byte buf 0xf2;
          buf = emit_byte buf 0x0f;
          buf = emit_byte buf 0x51
      in emit_byte buf ((0xc0 OR (push_bit 3 (dest AND 7))) OR (src AND 7)))"

text \<open>A run of \<open>emit_byte\<close> calls on one line of the C source.\<close>

definition emit_bytes :: "code \<Rightarrow> code \<Rightarrow> code" where
  [emit_defs]: "emit_bytes buf bs = foldl emit_byte buf bs"

definition emit_abssd_xmm_xmm :: "code \<Rightarrow> u8 \<Rightarrow> u8 \<Rightarrow> code" where
  [emit_defs]: "emit_abssd_xmm_xmm buf dest src =
     (let buf = (if dest \<noteq> src then
                   (let buf = emit_bytes buf [0xf3, 0x0f, 0x7e]
                    in modrm buf 3 (dest AND 7) (src AND 7))
                 else buf);
          buf = emit_bytes buf [0x48, 0xb8];
          buf = emit_bytes buf [0xff, 0xff, 0xff, 0x7f];
          buf = emit_bytes buf [0x00, 0x00, 0x00, 0x00];
          buf = emit_bytes buf [0x49, 0x0f, 0x6e];
          buf = modrm buf 3 3 3;
          buf = emit_bytes buf [0x66, 0x41, 0x0f, 0x70];
          buf = modrm buf 3 3 3;
          buf = emit_byte buf 0x00;
          buf = emit_bytes buf [0x0f, 0x54]
      in modrm buf 3 (dest AND 7) 3)"

definition emit_negsd_xmm_xmm :: "code \<Rightarrow> u8 \<Rightarrow> u8 \<Rightarrow> code" where
  [emit_defs]: "emit_negsd_xmm_xmm buf dest src =
     (let buf = (if dest \<noteq> src then
                   (let buf = emit_bytes buf [0xf3, 0x0f, 0x7e]
                    in modrm buf 3 (dest AND 7) (src AND 7))
                 else buf);
          buf = emit_bytes buf [0x48, 0xb8];
          buf = emit_bytes buf [0x00, 0x00, 0x00, 0x00];
          buf = emit_bytes buf [0x00, 0x00, 0x00, 0x80];
          buf = emit_bytes buf [0x49, 0x0f, 0x6e];
          buf = modrm buf 3 3 3;
          buf = emit_bytes buf [0x66, 0x0f, 0x57]
      in modrm buf 3 (dest AND 7) 3)"

definition emit_ucomisd_xmm_xmm :: "code \<Rightarrow> u8 \<Rightarrow> u8 \<Rightarrow> code" where
  [emit_defs]: "emit_ucomisd_xmm_xmm buf a b =
     (let buf = emit_byte buf 0x66;
          buf = emit_byte buf 0x0f;
          buf = emit_byte buf 0x2e
      in emit_byte buf ((0xc0 OR (push_bit 3 (a AND 7))) OR (b AND 7)))"

definition emit_cvtss2sd :: "code \<Rightarrow> u8 \<Rightarrow> u8 \<Rightarrow> code" where
  [emit_defs]: "emit_cvtss2sd buf dest src =
     (let buf = emit_byte buf 0xf3;
          buf = emit_byte buf 0x0f;
          buf = emit_byte buf 0x5a
      in emit_byte buf ((0xc0 OR (push_bit 3 (dest AND 7))) OR (src AND 7)))"

definition emit_cvtsd2ss :: "code \<Rightarrow> u8 \<Rightarrow> u8 \<Rightarrow> code" where
  [emit_defs]: "emit_cvtsd2ss buf dest src =
     (let buf = emit_byte buf 0xf2;
          buf = emit_byte buf 0x0f;
          buf = emit_byte buf 0x5a
      in emit_byte buf ((0xc0 OR (push_bit 3 (dest AND 7))) OR (src AND 7)))"

definition emit_movd_xmm_r64 :: "code \<Rightarrow> u8 \<Rightarrow> u8 \<Rightarrow> code" where
  [emit_defs]: "emit_movd_xmm_r64 buf xmm reg =
     (let buf = emit_byte buf 0x66;
          buf = rex_r buf xmm reg;
          buf = emit_byte buf 0x0f;
          buf = emit_byte buf 0x6e
      in modrm buf 3 (xmm AND 7) (reg AND 7))"

definition emit_movq_xmm_xmm :: "code \<Rightarrow> u8 \<Rightarrow> u8 \<Rightarrow> code" where
  [emit_defs]: "emit_movq_xmm_xmm buf dest src =
     (let buf = emit_byte buf 0xf3;
          buf = emit_byte buf 0x0f;
          buf = emit_byte buf 0x7e
      in emit_byte buf ((0xc0 OR (push_bit 3 (dest AND 7))) OR (src AND 7)))"

definition emit_pcmov_sd :: "code \<Rightarrow> u8 \<Rightarrow> u8 \<Rightarrow> u8 \<Rightarrow> code" where
  [emit_defs]: "emit_pcmov_sd buf cond dest src = buf"

section \<open>Closed forms\<close>

lemma ucast_and_ff:
  "(ucast ((x :: u16) AND 0xff) :: u8) = ucast x"
  "(ucast ((y :: u32) AND 0xff) :: u8) = ucast y"
  "(ucast ((z :: u64) AND 0xff) :: u8) = ucast z"
proof -
  have m: "(0xff :: u16) = mask 8" "(0xff :: u32) = mask 8" "(0xff :: u64) = mask 8"
    by (simp_all add: mask_eq_exp_minus_1)
  show "(ucast ((x :: u16) AND 0xff) :: u8) = ucast x"
    "(ucast ((y :: u32) AND 0xff) :: u8) = ucast y"
    "(ucast ((z :: u64) AND 0xff) :: u8) = ucast z"
    unfolding m by (auto intro!: bit_word_eqI simp: bit_simps)
qed

lemma emit_imm32_eq [emit_defs]: "emit_imm32 buf v = buf @ le32 v"
  by (simp add: emit_imm32_def emit_byte_def le32_def ucast_and_ff)

lemma mov_r64_imm_eq [emit_defs]:
  "mov_r64_imm buf reg imm =
     emit_byte (rex buf True 0 0 (drop_bit 3 reg)) (0xb8 OR (reg AND 7)) @ le64 imm"
  by (simp add: mov_r64_imm_def emit_byte_def le64_def ucast_and_ff)

text \<open>Fields of the prefix and ModR/M bytes that \<open>rex\<close> and \<open>modrm\<close> build.\<close>

definition rex_byte :: "bool \<Rightarrow> u8 \<Rightarrow> u8 \<Rightarrow> u8 \<Rightarrow> u8" where
  "rex_byte w r x b = 0x40 OR (if w then 0x08 else 0) OR push_bit 2 (r AND 1)
                      OR push_bit 1 (x AND 1) OR (b AND 1)"

definition modrm_byte :: "u8 \<Rightarrow> u8 \<Rightarrow> u8 \<Rightarrow> u8" where
  "modrm_byte m reg rm = push_bit 6 m OR push_bit 3 (reg AND 7) OR (rm AND 7)"

lemma rex_eq [emit_defs]: "rex buf w r x b = buf @ [rex_byte w r x b]"
  by (simp add: rex_def rex_byte_def emit_byte_def)

lemma modrm_eq [emit_defs]: "modrm buf m reg rm = buf @ [modrm_byte m reg rm]"
  by (simp add: modrm_def modrm_byte_def emit_byte_def)

lemma modrm_fields [x86_fields]:
  "f_mod (modrm_byte m reg rm) = take_bit 2 m"
  "f_reg (modrm_byte m reg rm) = take_bit 3 reg"
  "f_rm (modrm_byte m reg rm) = take_bit 3 rm"
  unfolding modrm_byte_def u8_and_7
  by (auto intro!: bit_word_eqI simp: bit_simps)

lemma rex_byte_alt:
  "rex_byte w r x b = 0x40 OR (if w then 8 else 0) OR (if bit r 0 then 4 else 0)
                      OR (if bit x 0 then 2 else 0) OR (if bit b 0 then 1 else 0)"
  by (simp add: rex_byte_def and_one_eq mod_2_eq_odd bit_0)

lemma rex_fields [x86_fields]:
  "is_rex (rex_byte w r x b)"
  "rex_W (rex_byte w r x b) = w"
  "rex_R (rex_byte w r x b) = bit r 0"
  "rex_X (rex_byte w r x b) = bit x 0"
  "rex_B (rex_byte w r x b) = bit b 0"
  unfolding rex_byte_alt is_rex_def by simp_all

lemma ext_reg_bit [x86_fields]: "r < 16 \<Longrightarrow> ext_reg (bit r 3) (take_bit 3 r) = r"
  by (drule u8_less_16_cases) (auto simp: ext_reg_def)

lemma take_bit_and_7 [x86_fields]:
  "take_bit 3 ((x :: u8) AND 7) = take_bit 3 x"
  "take_bit 3 x AND 7 = take_bit 3 x"
  by (simp_all add: u8_and_7)

lemma bit_drop_3 [x86_fields]: "bit (drop_bit 3 (r :: u8)) 0 = bit r 3"
  by (simp add: bit_simps)


section \<open>Register operands\<close>

text \<open>
  The reading of a register-to-register instruction: prefix, opcode, ModR/M with \<open>mod = 3\<close>.
\<close>

lemma get_rm_reg [x86_fields]:
  "get_rm p (modrm_byte 3 reg rm) bs = Some (Reg (ext_reg (rex_B p) (take_bit 3 rm)), bs)"
  by (simp add: get_rm_def x86_fields)

subsection \<open>Forms that mean what their name says\<close>

lemma dec_imul_r64_r64 [x86_decode_simps]:
  "dest < 16 \<Longrightarrow> src < 16 \<Longrightarrow> 
   x86_decode (imul_r64_r64 [] dest src @ rest) = Some (Imul_r_rm True dest (Reg src), rest)"
  by (simp add: emit_defs x86_fields)

lemma dec_cmov_r64_r64 [x86_decode_simps]:
  "cond < 16 \<Longrightarrow> dest < 16 \<Longrightarrow> src < 16 \<Longrightarrow> 
   x86_decode (cmov_r64_r64 [] cond dest src @ rest) = Some (Cmov cond True dest (Reg src), rest)"
  by (drule u8_less_16_cases [of cond], elim disjE) (simp_all add: emit_defs x86_fields)

lemma dec_test_r64_r64 [x86_decode_simps]:
  "a < 16 \<Longrightarrow> b < 16 \<Longrightarrow> 
   x86_decode (test_r64_r64 [] a b @ rest) = Some (Test_rm_r True (Reg b) a, rest)"
  by (simp add: emit_defs x86_fields)

lemma dec_mul_r64 [x86_decode_simps]:
  "reg < 16 \<Longrightarrow> 
   x86_decode (mul_r64 [] reg @ rest) = Some (Unary MUL True (Reg reg), rest)"
  by (simp add: emit_defs x86_fields)

lemma dec_imul_r64 [x86_decode_simps]:
  "reg < 16 \<Longrightarrow> 
   x86_decode (imul_r64 [] reg @ rest) = Some (Unary IMUL True (Reg reg), rest)"
  by (simp add: emit_defs x86_fields)

lemma dec_div_r64 [x86_decode_simps]:
  "reg < 16 \<Longrightarrow> 
   x86_decode (div_r64 [] reg @ rest) = Some (Unary DIV True (Reg reg), rest)"
  by (simp add: emit_defs x86_fields)

lemma dec_idiv_r64 [x86_decode_simps]:
  "reg < 16 \<Longrightarrow> 
   x86_decode (idiv_r64 [] reg @ rest) = Some (Unary IDIV True (Reg reg), rest)"
  by (simp add: emit_defs x86_fields)

lemma dec_neg_r64 [x86_decode_simps]:
  "reg < 16 \<Longrightarrow> 
   x86_decode (neg_r64 [] reg @ rest) = Some (Unary NEG True (Reg reg), rest)"
  by (simp add: emit_defs x86_fields)

lemma dec_not_r64 [x86_decode_simps]:
  "reg < 16 \<Longrightarrow> 
   x86_decode (not_r64 [] reg @ rest) = Some (Unary NOT' True (Reg reg), rest)"
  by (simp add: emit_defs x86_fields)

lemma dec_shl_r64_imm8 [x86_decode_simps]:
  "reg < 16 \<Longrightarrow> 
   x86_decode (shl_r64_imm8 [] reg imm @ rest) = Some (Shift SHL True (Reg reg) imm, rest)"
  by (simp add: emit_defs x86_fields)

lemma dec_shr_r64_imm8 [x86_decode_simps]:
  "reg < 16 \<Longrightarrow> 
   x86_decode (shr_r64_imm8 [] reg imm @ rest) = Some (Shift SHR True (Reg reg) imm, rest)"
  by (simp add: emit_defs x86_fields)

lemma dec_sar_r64_imm8 [x86_decode_simps]:
  "reg < 16 \<Longrightarrow> 
   x86_decode (sar_r64_imm8 [] reg imm @ rest) = Some (Shift SAR True (Reg reg) imm, rest)"
  by (simp add: emit_defs x86_fields)

lemma dec_cmp_r64_imm8 [x86_decode_simps]:
  "reg < 16 \<Longrightarrow> 
   x86_decode (cmp_r64_imm8 [] reg imm @ rest) = Some (Alu_rm_imm CMP True (Reg reg) (scast imm), rest)"
  by (simp add: emit_defs x86_fields)

lemma dec_cmp_r64_imm32 [x86_decode_simps]:
  "reg < 16 \<Longrightarrow> 
   x86_decode (cmp_r64_imm32 [] reg imm @ rest) = Some (Alu_rm_imm CMP True (Reg reg) imm, rest)"
  by (simp add: emit_defs x86_fields)

lemma dec_push_r64 [x86_decode_simps]:
  "reg < 16 \<Longrightarrow> 
   x86_decode (push_r64 [] reg @ rest) = Some (Push reg, rest)"
  by (drule u8_less_16_cases, elim disjE) (simp_all add: emit_defs x86_fields)

lemma dec_pop_r64 [x86_decode_simps]:
  "reg < 16 \<Longrightarrow> 
   x86_decode (pop_r64 [] reg @ rest) = Some (Pop reg, rest)"
  by (drule u8_less_16_cases, elim disjE) (simp_all add: emit_defs x86_fields)

lemma dec_mov_r32_imm [x86_decode_simps]:
  "reg < 16 \<Longrightarrow> 
   x86_decode (mov_r32_imm [] reg imm @ rest) = Some (Mov_r_imm32 reg imm, rest)"
  by (drule u8_less_16_cases, elim disjE) (simp_all add: emit_defs x86_fields)

lemma dec_mov_r64_imm [x86_decode_simps]:
  "reg < 16 \<Longrightarrow> 
   x86_decode (mov_r64_imm [] reg imm @ rest) = Some (Mov_r_imm64 reg imm, rest)"
  by (drule u8_less_16_cases, elim disjE) (simp_all add: emit_defs x86_fields)

lemma dec_emit_call_reg [x86_decode_simps]:
  "reg < 16 \<Longrightarrow> 
   x86_decode (emit_call_reg [] reg @ rest) = Some (Call_rm (Reg reg), rest)"
  by (simp add: emit_defs x86_fields)

lemma dec_emit_jmp_reg [x86_decode_simps]:
  "reg < 16 \<Longrightarrow> 
   x86_decode (emit_jmp_reg [] reg @ rest) = Some (Jmp_rm (Reg reg), rest)"
  by (simp add: emit_defs x86_fields)

lemma dec_emit_ret [x86_decode_simps]:
  "
   x86_decode (emit_ret []  @ rest) = Some (Plain RET, rest)"
  by (simp add: emit_defs x86_fields)

lemma dec_emit_cdq [x86_decode_simps]:
  "
   x86_decode (emit_cdq []  @ rest) = Some (Plain CDQ, rest)"
  by (simp add: emit_defs x86_fields)

lemma dec_emit_cqo [x86_decode_simps]:
  "
   x86_decode (emit_cqo []  @ rest) = Some (Plain CQO, rest)"
  by (simp add: emit_defs x86_fields)

lemma dec_emit_mfence [x86_decode_simps]:
  "
   x86_decode (emit_mfence []  @ rest) = Some (Plain MFENCE, rest)"
  by (simp add: emit_defs x86_fields)

lemma dec_emit_lfence [x86_decode_simps]:
  "
   x86_decode (emit_lfence []  @ rest) = Some (Plain LFENCE, rest)"
  by (simp add: emit_defs x86_fields)

lemma dec_emit_sfence [x86_decode_simps]:
  "
   x86_decode (emit_sfence []  @ rest) = Some (Plain SFENCE, rest)"
  by (simp add: emit_defs x86_fields)

lemma dec_emit_syscall [x86_decode_simps]:
  "
   x86_decode (emit_syscall []  @ rest) = Some (Plain SYSCALL, rest)"
  by (simp add: emit_defs x86_fields)

subsection \<open>Two-register forms with the operands exchanged\<close>

lemma dec_add_r64_r64 [x86_decode_simps]:
  "dest < 16 \<Longrightarrow> src < 16 \<Longrightarrow> 
   x86_decode (add_r64_r64 [] dest src @ rest) = Some (Alu_rm_r ADD True (Reg src) dest, rest)"
  by (simp add: emit_defs x86_fields)

lemma dec_sub_r64_r64 [x86_decode_simps]:
  "dest < 16 \<Longrightarrow> src < 16 \<Longrightarrow> 
   x86_decode (sub_r64_r64 [] dest src @ rest) = Some (Alu_rm_r SUB True (Reg src) dest, rest)"
  by (simp add: emit_defs x86_fields)

lemma dec_and_r64_r64 [x86_decode_simps]:
  "dest < 16 \<Longrightarrow> src < 16 \<Longrightarrow> 
   x86_decode (and_r64_r64 [] dest src @ rest) = Some (Alu_rm_r AND' True (Reg src) dest, rest)"
  by (simp add: emit_defs x86_fields)

lemma dec_or_r64_r64 [x86_decode_simps]:
  "dest < 16 \<Longrightarrow> src < 16 \<Longrightarrow> 
   x86_decode (or_r64_r64 [] dest src @ rest) = Some (Alu_rm_r OR' True (Reg src) dest, rest)"
  by (simp add: emit_defs x86_fields)

lemma dec_xor_r64_r64 [x86_decode_simps]:
  "dest < 16 \<Longrightarrow> src < 16 \<Longrightarrow> 
   x86_decode (xor_r64_r64 [] dest src @ rest) = Some (Alu_rm_r XOR' True (Reg src) dest, rest)"
  by (simp add: emit_defs x86_fields)

lemma dec_mov_r64_r64 [x86_decode_simps]:
  "dest < 16 \<Longrightarrow> src < 16 \<Longrightarrow> 
   x86_decode (mov_r64_r64 [] dest src @ rest) = Some (Mov_rm_r True (Reg src) dest, rest)"
  by (simp add: emit_defs x86_fields)


section \<open>Memory operands\<close>

lemma scast_ucast_u8_eq: "fits_imm8 d \<Longrightarrow> scast (ucast d :: u8) = d"
proof -
  assume "fits_imm8 d"
  then have "signed_take_bit 7 (sint d) = sint d"
    by (intro signed_take_bit_int_eq_self) (simp_all add: fits_imm8_def)
  moreover have "sint (ucast d :: u8) = signed_take_bit 7 (sint d)"
    by (simp add: sint_uint signed_take_bit_take_bit unsigned_ucast_eq)
  ultimately show "scast (ucast d :: u8) = d"
    by (simp add: scast_eq)
qed

text \<open>
  \<open>emit_modrm_disp\<close> yields the operand \<open>[base + disp]\<close> for every base but the two encodings it
  does not treat: \<open>rm = 4\<close> (RSP and R12 need a SIB byte), and R13 with a zero displacement
  (read as RIP-relative; the guard tests for RBP only).
\<close>

lemma with_rm_modrm_disp:
  assumes "take_bit 3 base \<noteq> 4" and "base = 13 \<longrightarrow> disp \<noteq> 0" and "base < 16"
  shows "with_rm p mk (emit_modrm_disp [] reg base disp @ rest) =
         map_option (\<lambda>i. (i, rest))
           (mk (ext_reg (rex_R p) (take_bit 3 reg)) (Mem (ext_reg (rex_B p) (take_bit 3 base)) disp))"
proof -
  have "take_bit 3 base = 5 \<Longrightarrow> base = 5 \<or> base = 13"
    using u8_less_16_cases [OF assms(3)] by (elim disjE) simp_all
  then show ?thesis
    using assms
    by (auto simp: emit_modrm_disp_def emit_defs get_rm_def get_disp_def x86_fields
        scast_ucast_u8_eq Let_def)
qed

lemma emit_modrm_disp_append:
  "buf \<noteq> [] \<Longrightarrow> emit_modrm_disp buf reg base disp = buf @ emit_modrm_disp [] reg base disp"
  by (simp add: emit_modrm_disp_def emit_defs Let_def)

lemma disasm_mov_rax_mem:
  "x < 16 \<Longrightarrow> x86_disasm (rex_r [] x RAX @ [0x8b] @ emit_modrm_disp [] (x AND 7) RAX d @ rest) =
     map_option (Cons (Mov_r_rm True x (Mem RAX d))) (x86_disasm rest)"
  "x < 16 \<Longrightarrow> x86_disasm (rex_r [] x RAX @ [0x89] @ emit_modrm_disp [] (x AND 7) RAX d @ rest) =
     map_option (Cons (Mov_rm_r True (Mem RAX d) x)) (x86_disasm rest)"
  by (rule x86_disasm_step, simp add: rex_r_def rex_eq with_rm_modrm_disp x86_fields)+

section \<open>Patching branch displacements\<close>

lemma list_update_le32:
  "(pre @ le32 v @ post)[length pre := a, length pre + 1 := b, length pre + 2 := c,
      length pre + 3 := d] = pre @ [a, b, c, d] @ post"
  by (simp add: le32_def list_update_append)

lemma patch_rel32_eq:
  "patch_rel32 (pre @ le32 v @ post) (Some (length pre)) target =
   pre @ le32 (word_of_int (int target - int (length pre) - 4)) @ post"
  by (simp only: patch_rel32_def option.case Let_def list_update_le32 ucast_and_ff)
     (simp add: le32_def)

lemma patch_rel32_value_eq:
  "patch_rel32_value (pre @ le32 v @ post) (Some (length pre)) off = pre @ le32 (off - 4) @ post"
  by (simp only: patch_rel32_value_def option.case Let_def list_update_le32 ucast_and_ff)
     (simp add: le32_def)

section \<open>The contract of an emitter\<close>

text \<open>
  What the translators rely on: an emitter only appends to the buffer, and what it appends is
  one instruction, the one that its arguments denote. \<open>ok\<close> collects the arguments for which
  the bytes are right.
\<close>

locale emitter =
  fixes emit :: "code \<Rightarrow> 'a \<Rightarrow> code" and instr :: "'a \<Rightarrow> x86_instr" and ok :: "'a \<Rightarrow> bool"
  assumes appends: "emit buf a = buf @ emit [] a"
    and decodes: "ok a \<Longrightarrow> x86_decode (emit [] a @ rest) = Some (instr a, rest)"
begin

lemma decode_at: "ok a \<Longrightarrow> x86_decode (drop (length buf) (emit buf a @ rest)) = Some (instr a, rest)"
  by (subst appends) (simp add: decodes)

lemma disasm_one: "ok a \<Longrightarrow> x86_disasm (emit [] a) = Some [instr a]"
  using x86_disasm_step [OF decodes [of a "[]"]] by simp

lemma disasm_Cons:
  "ok a \<Longrightarrow> x86_disasm (emit [] a @ rest) = map_option (Cons (instr a)) (x86_disasm rest)"
  by (rule x86_disasm_step) (rule decodes)

lemma disasm_snoc: "x86_disasm buf = Some is \<Longrightarrow> ok a \<Longrightarrow> x86_disasm (emit buf a) = Some (is @ [instr a])"
  by (subst appends) (simp add: x86_disasm_append disasm_one)

lemma disasm_fold:
  "x86_disasm buf = Some is \<Longrightarrow> \<forall>a\<in>set as. ok a \<Longrightarrow>
   x86_disasm (foldl emit buf as) = Some (is @ map instr as)"
  by (induction "as" arbitrary: buf "is") (simp_all add: disasm_snoc)

end

interpretation imul_rr: emitter "\<lambda>buf (d, s). imul_r64_r64 buf d s" "\<lambda>(d, s). Imul_r_rm True d (Reg s)" "\<lambda>(d, s). d < 16 \<and> s < 16"
  by unfold_locales ((auto simp: emit_defs) [1], auto simp: x86_decode_simps simp del: x86_decode.simps)

interpretation test_rr: emitter "\<lambda>buf (a, b). test_r64_r64 buf a b" "\<lambda>(a, b). Test_rm_r True (Reg b) a" "\<lambda>(a, b). a < 16 \<and> b < 16"
  by unfold_locales ((auto simp: emit_defs) [1], auto simp: x86_decode_simps simp del: x86_decode.simps)

interpretation cmov_rr: emitter "\<lambda>buf (c, d, s). cmov_r64_r64 buf c d s" "\<lambda>(c, d, s). Cmov c True d (Reg s)" "\<lambda>(c, d, s). c < 16 \<and> d < 16 \<and> s < 16"
  by unfold_locales ((auto simp: emit_defs) [1], auto simp: x86_decode_simps simp del: x86_decode.simps)

interpretation mov_imm: emitter "\<lambda>buf (r, i). mov_r64_imm buf r i" "\<lambda>(r, i). Mov_r_imm64 r i" "\<lambda>(r, i). r < 16"
  by unfold_locales ((auto simp: emit_defs) [1], auto simp: x86_decode_simps simp del: x86_decode.simps)

interpretation mov_imm32: emitter "\<lambda>buf (r, i). mov_r32_imm buf r i" "\<lambda>(r, i). Mov_r_imm32 r i" "\<lambda>(r, i). r < 16"
  by unfold_locales ((auto simp: emit_defs) [1], auto simp: x86_decode_simps simp del: x86_decode.simps)

interpretation shl_imm: emitter "\<lambda>buf (r, i). shl_r64_imm8 buf r i" "\<lambda>(r, i). Shift SHL True (Reg r) i" "\<lambda>(r, i). r < 16"
  by unfold_locales ((auto simp: emit_defs) [1], auto simp: x86_decode_simps simp del: x86_decode.simps)

interpretation shr_imm: emitter "\<lambda>buf (r, i). shr_r64_imm8 buf r i" "\<lambda>(r, i). Shift SHR True (Reg r) i" "\<lambda>(r, i). r < 16"
  by unfold_locales ((auto simp: emit_defs) [1], auto simp: x86_decode_simps simp del: x86_decode.simps)

interpretation sar_imm: emitter "\<lambda>buf (r, i). sar_r64_imm8 buf r i" "\<lambda>(r, i). Shift SAR True (Reg r) i" "\<lambda>(r, i). r < 16"
  by unfold_locales ((auto simp: emit_defs) [1], auto simp: x86_decode_simps simp del: x86_decode.simps)

interpretation cmp_imm8: emitter "\<lambda>buf (r, i). cmp_r64_imm8 buf r i" "\<lambda>(r, i). Alu_rm_imm CMP True (Reg r) (scast i)" "\<lambda>(r, i). r < 16"
  by unfold_locales ((auto simp: emit_defs) [1], auto simp: x86_decode_simps simp del: x86_decode.simps)

interpretation cmp_imm32: emitter "\<lambda>buf (r, i). cmp_r64_imm32 buf r i" "\<lambda>(r, i). Alu_rm_imm CMP True (Reg r) i" "\<lambda>(r, i). r < 16"
  by unfold_locales ((auto simp: emit_defs) [1], auto simp: x86_decode_simps simp del: x86_decode.simps)

interpretation mul_r: emitter mul_r64 "\<lambda>r. Unary MUL True (Reg r)" "\<lambda>r. r < 16"
  by unfold_locales ((auto simp: emit_defs) [1], auto simp: x86_decode_simps simp del: x86_decode.simps)

interpretation imul_r: emitter imul_r64 "\<lambda>r. Unary IMUL True (Reg r)" "\<lambda>r. r < 16"
  by unfold_locales ((auto simp: emit_defs) [1], auto simp: x86_decode_simps simp del: x86_decode.simps)

interpretation div_r: emitter div_r64 "\<lambda>r. Unary DIV True (Reg r)" "\<lambda>r. r < 16"
  by unfold_locales ((auto simp: emit_defs) [1], auto simp: x86_decode_simps simp del: x86_decode.simps)

interpretation idiv_r: emitter idiv_r64 "\<lambda>r. Unary IDIV True (Reg r)" "\<lambda>r. r < 16"
  by unfold_locales ((auto simp: emit_defs) [1], auto simp: x86_decode_simps simp del: x86_decode.simps)

interpretation neg_r: emitter neg_r64 "\<lambda>r. Unary NEG True (Reg r)" "\<lambda>r. r < 16"
  by unfold_locales ((auto simp: emit_defs) [1], auto simp: x86_decode_simps simp del: x86_decode.simps)

interpretation not_r: emitter not_r64 "\<lambda>r. Unary NOT' True (Reg r)" "\<lambda>r. r < 16"
  by unfold_locales ((auto simp: emit_defs) [1], auto simp: x86_decode_simps simp del: x86_decode.simps)

interpretation push_r: emitter push_r64 "\<lambda>r. Push r" "\<lambda>r. r < 16"
  by unfold_locales ((auto simp: emit_defs) [1], auto simp: x86_decode_simps simp del: x86_decode.simps)

interpretation pop_r: emitter pop_r64 "\<lambda>r. Pop r" "\<lambda>r. r < 16"
  by unfold_locales ((auto simp: emit_defs) [1], auto simp: x86_decode_simps simp del: x86_decode.simps)

interpretation call_r: emitter emit_call_reg "\<lambda>r. Call_rm (Reg r)" "\<lambda>r. r < 16"
  by unfold_locales ((auto simp: emit_defs) [1], auto simp: x86_decode_simps simp del: x86_decode.simps)

interpretation jmp_r: emitter emit_jmp_reg "\<lambda>r. Jmp_rm (Reg r)" "\<lambda>r. r < 16"
  by unfold_locales ((auto simp: emit_defs) [1], auto simp: x86_decode_simps simp del: x86_decode.simps)

section \<open>Extensions of RAX\<close>

text \<open>
  The extensions put the upper bit of the destination in REX.X, where it is lost; the translators
  use them on RAX only, where there is none.
\<close>

lemma disasm_extend_rax:
  "x86_disasm (emit_movsx [] 8 RAX RAX @ rest) = map_option (Cons (Movsx True 8 RAX (Reg RAX))) (x86_disasm rest)"
  "x86_disasm (emit_movsx [] 16 RAX RAX @ rest) = map_option (Cons (Movsx True 16 RAX (Reg RAX))) (x86_disasm rest)"
  "x86_disasm (emit_movzx [] 8 RAX RAX @ rest) = map_option (Cons (Movzx True 8 RAX (Reg RAX))) (x86_disasm rest)"
  "x86_disasm (emit_movzx [] 16 RAX RAX @ rest) = map_option (Cons (Movzx True 16 RAX (Reg RAX))) (x86_disasm rest)"
  "x86_disasm (emit_movsxd [] RAX RAX @ rest) = map_option (Cons (Movsx True 32 RAX (Reg RAX))) (x86_disasm rest)"
  by (rule x86_disasm_step, simp add: emit_defs x86_fields)+

lemma disasm_swapped:
  "d < 16 \<Longrightarrow> s < 16 \<Longrightarrow>
   x86_disasm (add_r64_r64 [] d s @ rest) = map_option (Cons (Alu_rm_r ADD True (Reg s) d)) (x86_disasm rest)"
  by (rule x86_disasm_step) (rule dec_add_r64_r64)

lemma disasm_cqo: "x86_disasm (emit_cqo [] @ rest) = map_option (Cons (Plain CQO)) (x86_disasm rest)"
  by (rule x86_disasm_step) (rule dec_emit_cqo)

text \<open>The disassembly of the emitters that the translators chain.\<close>

lemmas disasm_emitters =
  imul_rr.disasm_Cons [of "(d, s)" for d s, simplified] imul_rr.disasm_one [of "(d, s)" for d s, simplified]
  test_rr.disasm_Cons [of "(a, b)" for a b, simplified] test_rr.disasm_one [of "(a, b)" for a b, simplified]
  mov_imm.disasm_Cons [of "(r, i)" for r i, simplified] mov_imm.disasm_one [of "(r, i)" for r i, simplified]
  shl_imm.disasm_Cons [of "(r, i)" for r i, simplified] shl_imm.disasm_one [of "(r, i)" for r i, simplified]
  shr_imm.disasm_Cons [of "(r, i)" for r i, simplified] shr_imm.disasm_one [of "(r, i)" for r i, simplified]
  sar_imm.disasm_Cons [of "(r, i)" for r i, simplified] sar_imm.disasm_one [of "(r, i)" for r i, simplified]
  disasm_extend_rax disasm_swapped disasm_cqo
  div_r.disasm_Cons div_r.disasm_one idiv_r.disasm_Cons idiv_r.disasm_one


section \<open>Properties\<close>

text \<open>
  C7: twenty forms of the emitter mean what their names say, for all sixteen registers and all
  immediates: two-operand \<open>imul\<close>, \<open>cmov\<close> and \<open>test\<close>; the moves of a 64-bit and a 32-bit constant; the three
  shifts and the two comparisons with an immediate; \<open>mul\<close>, \<open>imul\<close>, \<open>div\<close>, \<open>idiv\<close>, \<open>neg\<close> and \<open>not\<close> of a register;
  \<open>push\<close> and \<open>pop\<close>; calls and jumps to a register. Whatever the buffer holds before and whatever follows,
  the bytes appended decode to the one instruction with the operands of the call. This is not so for
  \<open>mov\<close>, \<open>add\<close>, \<open>sub\<close>, \<open>and\<close>, \<open>or\<close> and \<open>xor\<close> of two registers (\<open>emitted_forms_exchanged\<close>), and the memory, SSE and
  jump forms are not part of it.
\<close>

theorem emitted_forms_decode:
  assumes "dest < 16" and "src < 16" and "cond < 16"
  shows "x86_decode (drop (length buf) (imul_r64_r64 buf dest src @ rest)) = Some (Imul_r_rm True dest (Reg src), rest) \<and>
         x86_decode (drop (length buf) (cmov_r64_r64 buf cond dest src @ rest)) = Some (Cmov cond True dest (Reg src), rest) \<and>
         x86_decode (drop (length buf) (test_r64_r64 buf dest src @ rest)) = Some (Test_rm_r True (Reg src) dest, rest) \<and>
         x86_decode (drop (length buf) (mov_r64_imm buf dest imm @ rest)) = Some (Mov_r_imm64 dest imm, rest) \<and>
         x86_decode (drop (length buf) (mov_r32_imm buf dest i @ rest)) = Some (Mov_r_imm32 dest i, rest) \<and>
         x86_decode (drop (length buf) (shl_r64_imm8 buf dest k @ rest)) = Some (Shift SHL True (Reg dest) k, rest) \<and>
         x86_decode (drop (length buf) (shr_r64_imm8 buf dest k @ rest)) = Some (Shift SHR True (Reg dest) k, rest) \<and>
         x86_decode (drop (length buf) (sar_r64_imm8 buf dest k @ rest)) = Some (Shift SAR True (Reg dest) k, rest) \<and>
         x86_decode (drop (length buf) (cmp_r64_imm8 buf dest k @ rest)) = Some (Alu_rm_imm CMP True (Reg dest) (scast k), rest) \<and>
         x86_decode (drop (length buf) (cmp_r64_imm32 buf dest i @ rest)) = Some (Alu_rm_imm CMP True (Reg dest) i, rest) \<and>
         x86_decode (drop (length buf) (mul_r64 buf src @ rest)) = Some (Unary MUL True (Reg src), rest) \<and>
         x86_decode (drop (length buf) (imul_r64 buf src @ rest)) = Some (Unary IMUL True (Reg src), rest) \<and>
         x86_decode (drop (length buf) (div_r64 buf src @ rest)) = Some (Unary DIV True (Reg src), rest) \<and>
         x86_decode (drop (length buf) (idiv_r64 buf src @ rest)) = Some (Unary IDIV True (Reg src), rest) \<and>
         x86_decode (drop (length buf) (neg_r64 buf src @ rest)) = Some (Unary NEG True (Reg src), rest) \<and>
         x86_decode (drop (length buf) (not_r64 buf src @ rest)) = Some (Unary NOT' True (Reg src), rest) \<and>
         x86_decode (drop (length buf) (push_r64 buf src @ rest)) = Some (Push src, rest) \<and>
         x86_decode (drop (length buf) (pop_r64 buf src @ rest)) = Some (Pop src, rest) \<and>
         x86_decode (drop (length buf) (emit_call_reg buf src @ rest)) = Some (Call_rm (Reg src), rest) \<and>
         x86_decode (drop (length buf) (emit_jmp_reg buf src @ rest)) = Some (Jmp_rm (Reg src), rest)"
  using assms imul_rr.decode_at [of "(dest, src)" buf rest] cmov_rr.decode_at [of "(cond, dest, src)" buf rest]
    test_rr.decode_at [of "(dest, src)" buf rest] mov_imm.decode_at [of "(dest, imm)" buf rest]
    mov_imm32.decode_at [of "(dest, i)" buf rest] cmp_imm8.decode_at [of "(dest, k)" buf rest]
    shl_imm.decode_at [of "(dest, k)" buf rest] shr_imm.decode_at [of "(dest, k)" buf rest]
    sar_imm.decode_at [of "(dest, k)" buf rest] cmp_imm32.decode_at [of "(dest, i)" buf rest]
    mul_r.decode_at [of src buf rest] imul_r.decode_at [of src buf rest] div_r.decode_at [of src buf rest]
    idiv_r.decode_at [of src buf rest] neg_r.decode_at [of src buf rest] not_r.decode_at [of src buf rest]
    push_r.decode_at [of src buf rest] pop_r.decode_at [of src buf rest]
    call_r.decode_at [of src buf rest] jmp_r.decode_at [of src buf rest]
  by (simp del: x86_decode.simps)

theorem emitted_forms_witness:
  "x86_decode (drop 1 (imul_r64_r64 [0x90] R9 RDX @ [0xc3])) = Some (Imul_r_rm True R9 (Reg RDX), [0xc3])"
  using emitted_forms_decode [of R9 RDX 4 "[0x90]" "[0xc3]"] by (simp del: x86_decode.simps)

text \<open>
  The two-register forms that are encoded with the opcode of the other direction. For all sixteen
  registers \<open>mov_r64_r64\<close>, \<open>add_r64_r64\<close>, \<open>sub_r64_r64\<close>, \<open>and_r64_r64\<close>, \<open>or_r64_r64\<close> and \<open>xor_r64_r64\<close>
  yield the instruction that writes their second argument and only reads the one named \<open>dest\<close>.
\<close>

lemma emitted_forms_exchanged:
  assumes "dest < 16" and "src < 16"
  shows "x86_decode (mov_r64_r64 [] dest src @ rest) = Some (Mov_rm_r True (Reg src) dest, rest) \<and>
         x86_decode (add_r64_r64 [] dest src @ rest) = Some (Alu_rm_r ADD True (Reg src) dest, rest) \<and>
         x86_decode (sub_r64_r64 [] dest src @ rest) = Some (Alu_rm_r SUB True (Reg src) dest, rest) \<and>
         x86_decode (and_r64_r64 [] dest src @ rest) = Some (Alu_rm_r AND' True (Reg src) dest, rest) \<and>
         x86_decode (or_r64_r64 [] dest src @ rest) = Some (Alu_rm_r OR' True (Reg src) dest, rest) \<and>
         x86_decode (xor_r64_r64 [] dest src @ rest) = Some (Alu_rm_r XOR' True (Reg src) dest, rest)"
  using assms by (simp add: x86_decode_simps del: x86_decode.simps)

lemma emitted_forms_exchanged_witness:
  "x86_decode (mov_r64_r64 [] RAX R8 @ []) = Some (Mov_rm_r True (Reg R8) RAX, [])"
  using emitted_forms_exchanged [of RAX R8 "[]"] by (simp del: x86_decode.simps)

text \<open>
  A conditional jump and its patch. However much code is emitted between \<open>emit_jcc\<close> and
  \<open>patch_rel32\<close>, the patched bytes are the conditional jump whose displacement, counted from the
  byte behind the jump, leads to the target; the code before it and after it is untouched.
\<close>

lemma emit_jcc_patched:
  assumes "emit_jcc buf cond off = (buf', loc)" and "drop_bit 4 cond = 8"
  shows "take (length buf) (patch_rel32 (buf' @ mid) (Some loc) target) = buf \<and>
         x86_decode (drop (length buf) (patch_rel32 (buf' @ mid) (Some loc) target)) =
           Some (Jcc (take_bit 4 cond) (word_of_int (int target - int (length buf'))), mid)"
proof -
  have e: "buf' @ mid = (buf @ [0x0f, cond]) @ le32 (off - 6) @ mid" "loc = length (buf @ [0x0f, cond])"
    "length buf' = length buf + 6"
    using assms(1) by (auto simp: emit_jcc_def emit_defs)
  have d: "int target - int (length (buf @ [0x0f, cond])) - 4 = int target - int (length buf')"
    by (simp add: e(3))
  have "patch_rel32 (buf' @ mid) (Some loc) target =
      (buf @ [0x0f, cond]) @ le32 (word_of_int (int target - int (length buf'))) @ mid"
    unfolding e(1,2) patch_rel32_eq d ..
  with assms(2) show ?thesis by (simp add: x86_fields)
qed

lemma emit_jcc_patched_witness:
  "x86_decode (drop 0 (patch_rel32 ([0x0f, 0x84, 0xfa, 0xff, 0xff, 0xff] @ [0x90]) (Some 2) 7)) =
     Some (Jcc 4 1, [0x90])"
  using emit_jcc_patched [of "[]" "0x84" 0 "[0x0f, 0x84, 0xfa, 0xff, 0xff, 0xff]" 2 "[0x90]" 7]
  by (simp add: emit_jcc_def emit_defs le32_def del: x86_decode.simps)

end
