(* ===== verification/Regs.thy ===== *)
theory Regs
  imports Emit
begin

text \<open>
  \<open>src/modules/arm2x86_regs.c\<close>: the static register maps of A64 and A32 onto x86-64, the spill slots
  of the three A64 registers without a home of their own, and the emitters of the spill code.
\<close>

section \<open>The maps\<close>

definition g_reg_map_arm64 :: "u8 list" where
  "g_reg_map_arm64 =
     [RAX, RDI, RSI, RDX, RCX, R8, R9, R10, R11, R12, R13, R14, R15, RBX, RBP,
      RSI,                       \<comment> \<open>X15, spilled\<close>
      R10, R11,                  \<comment> \<open>X16 and X17\<close>
      RAX,                       \<comment> \<open>X18, spilled\<close>
      RBX, R12, R13, R14, R15, RBP, RDI, RSI, R8, R9,
      RBP,                       \<comment> \<open>X29, frame pointer\<close>
      R14,                       \<comment> \<open>X30, link register\<close>
      RSP]"

definition g_reg_map_arm32 :: "u8 list" where
  "g_reg_map_arm32 =
     [RAX, RDI, RSI, RDX, RCX, R8, R9, R10, R11, R12, R13, R14, R15, RSP, RBP, RBX]"

definition arm2x86_get_spill_offset :: "u8 \<Rightarrow> int" where
  "arm2x86_get_spill_offset arm64_reg =
     (if arm64_reg = 15 then 0 else if arm64_reg = 18 then 8 else if arm64_reg = 29 then 16 else -1)"

definition arm2x86_needs_spill :: "u8 \<Rightarrow> bool" where
  "arm2x86_needs_spill arm64_reg = (0 \<le> arm2x86_get_spill_offset arm64_reg)"

definition arm2x86_map_register :: "u8 \<Rightarrow> u8" where
  "arm2x86_map_register arm64_reg =
     (if 32 \<le> arm64_reg then RAX else g_reg_map_arm64 ! unat arm64_reg)"

definition arm2x86_map_register_arm32 :: "u8 \<Rightarrow> u8" where
  "arm2x86_map_register_arm32 arm32_reg =
     (if 16 \<le> arm32_reg then RAX else g_reg_map_arm32 ! unat arm32_reg)"

definition arm2x86_spill_area_size :: nat where
  "arm2x86_spill_area_size = 24"

definition arm2x86_load_spilled :: "code \<Rightarrow> u8 \<Rightarrow> u8 \<Rightarrow> code" where
  "arm2x86_load_spilled buf arm64_reg x86_dest =
     (let offset = arm2x86_get_spill_offset arm64_reg in
      if offset < 0 then buf
      else if arm64_reg = 18 then buf @ [0x64, 0x48, 0x8b, 0x05, 0x00, 0x00, 0x00, 0x00]
      else buf @ [if 8 \<le> x86_dest then 0x4c else 0x48, 0x8b,
                  0x44 OR push_bit 3 (x86_dest AND 7), 0x24, word_of_int offset])"

definition arm2x86_store_spilled :: "code \<Rightarrow> u8 \<Rightarrow> u8 \<Rightarrow> code" where
  "arm2x86_store_spilled buf arm64_reg x86_src =
     (let offset = arm2x86_get_spill_offset arm64_reg in
      if offset < 0 then buf
      else if arm64_reg = 18 then buf @ [0x64, 0x48, 0x89, 0x05, 0x00, 0x00, 0x00, 0x00]
      else buf @ [if 8 \<le> x86_src then 0x4c else 0x48, 0x89,
                  0x44 OR push_bit 3 (x86_src AND 7), 0x24, word_of_int offset])"


section \<open>Properties\<close>


text \<open>
  The A32 map is a bijection of the sixteen A32 registers onto the sixteen x86-64 registers: two
  A32 registers never share a host register, and every result is a valid register number.
\<close>

lemma arm32_map_bij:
  "bij_betw arm2x86_map_register_arm32 {r. r < 16} {r. r < 16}"
proof -
  have dom: "{r :: u8. r < 16} = {0, 1, 2, 3, 4, 5, 6, 7, 8, 9, 10, 11, 12, 13, 14, 15}" (is "_ = ?S")
    by (auto dest: u8_less_16_cases)
  have "inj_on arm2x86_map_register_arm32 ?S"
    by (simp add: inj_on_def arm2x86_map_register_arm32_def g_reg_map_arm32_def)
  moreover have "arm2x86_map_register_arm32 ` ?S = ?S"
    by (simp add: arm2x86_map_register_arm32_def g_reg_map_arm32_def) auto
  ultimately show ?thesis by (simp add: bij_betw_def dom)
qed

text \<open>
  A spilled A64 register that is not thread-local travels through its slot: the bytes that
  \<open>arm2x86_load_spilled\<close> and \<open>arm2x86_store_spilled\<close> append are the moves between the requested x86-64
  register and the stack slot \<open>[rsp + offset]\<close>, for all sixteen registers.
\<close>

lemma spill_code_decodes:
  assumes "arm64_reg = 15 \<or> arm64_reg = 29" and "r < 16"
  shows "x86_decode (arm2x86_load_spilled [] arm64_reg r @ rest) =
           Some (Mov_r_rm True r (Mem RSP (word_of_int (arm2x86_get_spill_offset arm64_reg))), rest) \<and>
         x86_decode (arm2x86_store_spilled [] arm64_reg r @ rest) =
           Some (Mov_rm_r True (Mem RSP (word_of_int (arm2x86_get_spill_offset arm64_reg))) r, rest)"
  using assms(1) u8_less_16_cases [OF assms(2)]
  by (elim disjE)
     (simp_all add: arm2x86_load_spilled_def arm2x86_store_spilled_def arm2x86_get_spill_offset_def
        x86_fields get_rm_def get_disp_def)

lemma spill_code_decodes_witness:
  "x86_decode (arm2x86_load_spilled [] 15 R9 @ [0xc3]) = Some (Mov_r_rm True R9 (Mem RSP 0), [0xc3])"
  using spill_code_decodes [of 15 R9 "[0xc3]"] by (simp add: arm2x86_get_spill_offset_def)

end
