(* ===== verification/Decode64.thy ===== *)
theory Decode64
  imports Prelude
begin

text \<open>
  \<open>src/modules/arm2x86_decode64.c\<close>: the classification of an A64 instruction word. A
  \<open>DecodedInstruction\<close> is the C structure; \<open>instr_type\<close> is the number that the \<open>INSTR_*\<close> macros of
  \<open>src/arm2x86.h\<close> name. The members \<open>x86_code\<close> and \<open>x86_code_len\<close>, which no decoder writes, are left
  out, and so are the diagnostics under \<open>ARM2X86_DEBUG_DECODE\<close>. The cascade of masks is in the
  order of the source, since the first match wins.
\<close>

section \<open>Constants\<close>

abbreviation (input) ARM2X86_OK :: int where "ARM2X86_OK \<equiv> 0"
abbreviation (input) ARM2X86_ERR_LOAD_FAIL :: int where "ARM2X86_ERR_LOAD_FAIL \<equiv> -1"
abbreviation (input) ARM2X86_ERR_CONVERT_FAIL :: int where "ARM2X86_ERR_CONVERT_FAIL \<equiv> -2"
abbreviation (input) ARM2X86_ERR_MEMORY :: int where "ARM2X86_ERR_MEMORY \<equiv> -3"
abbreviation (input) ARM2X86_ERR_INVALID_PARAM :: int where "ARM2X86_ERR_INVALID_PARAM \<equiv> -4"

abbreviation (input) INSTR_UNKNOWN :: u32 where "INSTR_UNKNOWN \<equiv> 0"
abbreviation (input) INSTR_BL :: u32 where "INSTR_BL \<equiv> 1"
abbreviation (input) INSTR_ADR :: u32 where "INSTR_ADR \<equiv> 2"
abbreviation (input) INSTR_ADRP :: u32 where "INSTR_ADRP \<equiv> 3"
abbreviation (input) INSTR_B :: u32 where "INSTR_B \<equiv> 4"
abbreviation (input) INSTR_B_COND :: u32 where "INSTR_B_COND \<equiv> 5"
abbreviation (input) INSTR_LDR_LITERAL :: u32 where "INSTR_LDR_LITERAL \<equiv> 6"
abbreviation (input) INSTR_CBZ :: u32 where "INSTR_CBZ \<equiv> 7"
abbreviation (input) INSTR_CBNZ :: u32 where "INSTR_CBNZ \<equiv> 8"
abbreviation (input) INSTR_TBZ :: u32 where "INSTR_TBZ \<equiv> 9"
abbreviation (input) INSTR_TBNZ :: u32 where "INSTR_TBNZ \<equiv> 10"
abbreviation (input) INSTR_RET :: u32 where "INSTR_RET \<equiv> 11"
abbreviation (input) INSTR_BR :: u32 where "INSTR_BR \<equiv> 12"
abbreviation (input) INSTR_BLR :: u32 where "INSTR_BLR \<equiv> 13"
abbreviation (input) INSTR_DATAPROC :: u32 where "INSTR_DATAPROC \<equiv> 14"
abbreviation (input) INSTR_LDST :: u32 where "INSTR_LDST \<equiv> 15"
abbreviation (input) INSTR_MOV :: u32 where "INSTR_MOV \<equiv> 16"
abbreviation (input) INSTR_ADD :: u32 where "INSTR_ADD \<equiv> 17"
abbreviation (input) INSTR_SUB :: u32 where "INSTR_SUB \<equiv> 18"
abbreviation (input) INSTR_AND :: u32 where "INSTR_AND \<equiv> 19"
abbreviation (input) INSTR_ORR :: u32 where "INSTR_ORR \<equiv> 20"
abbreviation (input) INSTR_EOR :: u32 where "INSTR_EOR \<equiv> 21"
abbreviation (input) INSTR_LSL :: u32 where "INSTR_LSL \<equiv> 22"
abbreviation (input) INSTR_LSR :: u32 where "INSTR_LSR \<equiv> 23"
abbreviation (input) INSTR_ASR :: u32 where "INSTR_ASR \<equiv> 24"
abbreviation (input) INSTR_ROR :: u32 where "INSTR_ROR \<equiv> 25"
abbreviation (input) INSTR_CMP :: u32 where "INSTR_CMP \<equiv> 26"
abbreviation (input) INSTR_CSEL :: u32 where "INSTR_CSEL \<equiv> 27"
abbreviation (input) INSTR_STP :: u32 where "INSTR_STP \<equiv> 28"
abbreviation (input) INSTR_LDP :: u32 where "INSTR_LDP \<equiv> 29"
abbreviation (input) INSTR_STR :: u32 where "INSTR_STR \<equiv> 30"
abbreviation (input) INSTR_LDR :: u32 where "INSTR_LDR \<equiv> 31"
abbreviation (input) INSTR_STRB :: u32 where "INSTR_STRB \<equiv> 32"
abbreviation (input) INSTR_LDRB :: u32 where "INSTR_LDRB \<equiv> 33"
abbreviation (input) INSTR_STRH :: u32 where "INSTR_STRH \<equiv> 34"
abbreviation (input) INSTR_LDRH :: u32 where "INSTR_LDRH \<equiv> 35"
abbreviation (input) INSTR_MOVZ :: u32 where "INSTR_MOVZ \<equiv> 38"
abbreviation (input) INSTR_MOVK :: u32 where "INSTR_MOVK \<equiv> 39"
abbreviation (input) INSTR_MOVN :: u32 where "INSTR_MOVN \<equiv> 40"
abbreviation (input) INSTR_RSB :: u32 where "INSTR_RSB \<equiv> 41"
abbreviation (input) INSTR_TST :: u32 where "INSTR_TST \<equiv> 43"
abbreviation (input) INSTR_CMN :: u32 where "INSTR_CMN \<equiv> 45"
abbreviation (input) INSTR_MUL :: u32 where "INSTR_MUL \<equiv> 46"
abbreviation (input) INSTR_BIC :: u32 where "INSTR_BIC \<equiv> 48"
abbreviation (input) INSTR_MVN :: u32 where "INSTR_MVN \<equiv> 49"
abbreviation (input) INSTR_CLZ :: u32 where "INSTR_CLZ \<equiv> 55"
abbreviation (input) INSTR_BRK :: u32 where "INSTR_BRK \<equiv> 56"
abbreviation (input) INSTR_HLT :: u32 where "INSTR_HLT \<equiv> 57"
abbreviation (input) INSTR_ERET :: u32 where "INSTR_ERET \<equiv> 58"
abbreviation (input) INSTR_CSINC :: u32 where "INSTR_CSINC \<equiv> 59"
abbreviation (input) INSTR_FMOV_REG :: u32 where "INSTR_FMOV_REG \<equiv> 60"
abbreviation (input) INSTR_FMOV_IMM :: u32 where "INSTR_FMOV_IMM \<equiv> 61"
abbreviation (input) INSTR_FADD :: u32 where "INSTR_FADD \<equiv> 62"
abbreviation (input) INSTR_FSUB :: u32 where "INSTR_FSUB \<equiv> 63"
abbreviation (input) INSTR_FMUL :: u32 where "INSTR_FMUL \<equiv> 64"
abbreviation (input) INSTR_FDIV :: u32 where "INSTR_FDIV \<equiv> 65"
abbreviation (input) INSTR_FABS :: u32 where "INSTR_FABS \<equiv> 66"
abbreviation (input) INSTR_FNEG :: u32 where "INSTR_FNEG \<equiv> 67"
abbreviation (input) INSTR_FSQRT :: u32 where "INSTR_FSQRT \<equiv> 68"
abbreviation (input) INSTR_FCMP :: u32 where "INSTR_FCMP \<equiv> 69"
abbreviation (input) INSTR_FCMPE :: u32 where "INSTR_FCMPE \<equiv> 70"
abbreviation (input) INSTR_FCVT :: u32 where "INSTR_FCVT \<equiv> 71"
abbreviation (input) INSTR_FMADD :: u32 where "INSTR_FMADD \<equiv> 72"
abbreviation (input) INSTR_FMSUB :: u32 where "INSTR_FMSUB \<equiv> 73"
abbreviation (input) INSTR_FNMADD :: u32 where "INSTR_FNMADD \<equiv> 74"
abbreviation (input) INSTR_FNMSUB :: u32 where "INSTR_FNMSUB \<equiv> 75"
abbreviation (input) INSTR_LDR_SIMD :: u32 where "INSTR_LDR_SIMD \<equiv> 76"
abbreviation (input) INSTR_STR_SIMD :: u32 where "INSTR_STR_SIMD \<equiv> 77"
abbreviation (input) INSTR_DMB :: u32 where "INSTR_DMB \<equiv> 90"
abbreviation (input) INSTR_DSB :: u32 where "INSTR_DSB \<equiv> 91"
abbreviation (input) INSTR_ISB :: u32 where "INSTR_ISB \<equiv> 92"
abbreviation (input) INSTR_MRS :: u32 where "INSTR_MRS \<equiv> 110"
abbreviation (input) INSTR_MSR :: u32 where "INSTR_MSR \<equiv> 111"
abbreviation (input) INSTR_SVC :: u32 where "INSTR_SVC \<equiv> 112"
abbreviation (input) INSTR_HINT :: u32 where "INSTR_HINT \<equiv> 116"
abbreviation (input) INSTR_ADC :: u32 where "INSTR_ADC \<equiv> 120"
abbreviation (input) INSTR_SBC :: u32 where "INSTR_SBC \<equiv> 121"
abbreviation (input) INSTR_NEG :: u32 where "INSTR_NEG \<equiv> 122"
abbreviation (input) INSTR_SMULH :: u32 where "INSTR_SMULH \<equiv> 124"
abbreviation (input) INSTR_UMULH :: u32 where "INSTR_UMULH \<equiv> 125"
abbreviation (input) INSTR_MADD :: u32 where "INSTR_MADD \<equiv> 126"
abbreviation (input) INSTR_MSUB :: u32 where "INSTR_MSUB \<equiv> 127"
abbreviation (input) INSTR_BFI :: u32 where "INSTR_BFI \<equiv> 132"
abbreviation (input) INSTR_BFXIL :: u32 where "INSTR_BFXIL \<equiv> 133"
abbreviation (input) INSTR_SBFM :: u32 where "INSTR_SBFM \<equiv> 134"
abbreviation (input) INSTR_UBFM :: u32 where "INSTR_UBFM \<equiv> 135"
abbreviation (input) INSTR_BFC :: u32 where "INSTR_BFC \<equiv> 138"
abbreviation (input) INSTR_EXTR :: u32 where "INSTR_EXTR \<equiv> 139"
abbreviation (input) INSTR_ORN :: u32 where "INSTR_ORN \<equiv> 140"
abbreviation (input) INSTR_CCMN :: u32 where "INSTR_CCMN \<equiv> 143"
abbreviation (input) INSTR_CCMP :: u32 where "INSTR_CCMP \<equiv> 144"
abbreviation (input) INSTR_CINC :: u32 where "INSTR_CINC \<equiv> 145"
abbreviation (input) INSTR_CINV :: u32 where "INSTR_CINV \<equiv> 146"
abbreviation (input) INSTR_CNEG :: u32 where "INSTR_CNEG \<equiv> 147"
abbreviation (input) INSTR_CSET :: u32 where "INSTR_CSET \<equiv> 148"
abbreviation (input) INSTR_CSINV :: u32 where "INSTR_CSINV \<equiv> 150"
abbreviation (input) INSTR_CSNEG :: u32 where "INSTR_CSNEG \<equiv> 151"
abbreviation (input) INSTR_FCSEL :: u32 where "INSTR_FCSEL \<equiv> 152"
abbreviation (input) INSTR_SDIV :: u32 where "INSTR_SDIV \<equiv> 153"
abbreviation (input) INSTR_UDIV :: u32 where "INSTR_UDIV \<equiv> 154"
abbreviation (input) INSTR_SXTB :: u32 where "INSTR_SXTB \<equiv> 155"
abbreviation (input) INSTR_SXTH :: u32 where "INSTR_SXTH \<equiv> 156"
abbreviation (input) INSTR_UXTB :: u32 where "INSTR_UXTB \<equiv> 157"
abbreviation (input) INSTR_UXTH :: u32 where "INSTR_UXTH \<equiv> 158"
abbreviation (input) INSTR_SXTW :: u32 where "INSTR_SXTW \<equiv> 159"
abbreviation (input) INSTR_UXTW :: u32 where "INSTR_UXTW \<equiv> 160"
abbreviation (input) INSTR_PRFM :: u32 where "INSTR_PRFM \<equiv> 161"
abbreviation (input) INSTR_RBIT :: u32 where "INSTR_RBIT \<equiv> 162"
abbreviation (input) INSTR_REV :: u32 where "INSTR_REV \<equiv> 163"
abbreviation (input) INSTR_LDRSB :: u32 where "INSTR_LDRSB \<equiv> 164"
abbreviation (input) INSTR_LDRSH :: u32 where "INSTR_LDRSH \<equiv> 165"
abbreviation (input) INSTR_LDRSW :: u32 where "INSTR_LDRSW \<equiv> 166"
abbreviation (input) INSTR_NEON_ADD :: u32 where "INSTR_NEON_ADD \<equiv> 200"
abbreviation (input) INSTR_NEON_SUB :: u32 where "INSTR_NEON_SUB \<equiv> 201"
abbreviation (input) INSTR_NEON_MUL :: u32 where "INSTR_NEON_MUL \<equiv> 202"
abbreviation (input) INSTR_NEON_DIV :: u32 where "INSTR_NEON_DIV \<equiv> 203"
abbreviation (input) INSTR_NEON_AND :: u32 where "INSTR_NEON_AND \<equiv> 204"
abbreviation (input) INSTR_NEON_ORR :: u32 where "INSTR_NEON_ORR \<equiv> 205"
abbreviation (input) INSTR_NEON_EOR :: u32 where "INSTR_NEON_EOR \<equiv> 206"
abbreviation (input) INSTR_NEON_BSL :: u32 where "INSTR_NEON_BSL \<equiv> 207"
abbreviation (input) INSTR_NEON_EXT :: u32 where "INSTR_NEON_EXT \<equiv> 208"
abbreviation (input) INSTR_NEON_INS :: u32 where "INSTR_NEON_INS \<equiv> 209"
abbreviation (input) INSTR_NEON_DUP :: u32 where "INSTR_NEON_DUP \<equiv> 210"
abbreviation (input) INSTR_NEON_MOVI :: u32 where "INSTR_NEON_MOVI \<equiv> 211"
abbreviation (input) INSTR_NEON_XTN :: u32 where "INSTR_NEON_XTN \<equiv> 216"
abbreviation (input) INSTR_NEON_SQXTN :: u32 where "INSTR_NEON_SQXTN \<equiv> 217"
abbreviation (input) INSTR_NEON_UQXTN :: u32 where "INSTR_NEON_UQXTN \<equiv> 218"
abbreviation (input) INSTR_NEON_SQXTUN :: u32 where "INSTR_NEON_SQXTUN \<equiv> 219"
abbreviation (input) INSTR_NEON_SHL :: u32 where "INSTR_NEON_SHL \<equiv> 220"
abbreviation (input) INSTR_NEON_SHR :: u32 where "INSTR_NEON_SHR \<equiv> 221"
abbreviation (input) INSTR_NEON_USRA :: u32 where "INSTR_NEON_USRA \<equiv> 222"
abbreviation (input) INSTR_NEON_SSRA :: u32 where "INSTR_NEON_SSRA \<equiv> 223"
abbreviation (input) INSTR_NEON_USHL :: u32 where "INSTR_NEON_USHL \<equiv> 224"
abbreviation (input) INSTR_NEON_SSHL :: u32 where "INSTR_NEON_SSHL \<equiv> 225"
abbreviation (input) INSTR_NEON_UMULL :: u32 where "INSTR_NEON_UMULL \<equiv> 226"
abbreviation (input) INSTR_NEON_SMULL :: u32 where "INSTR_NEON_SMULL \<equiv> 227"
abbreviation (input) INSTR_NEON_PMUL :: u32 where "INSTR_NEON_PMUL \<equiv> 232"
abbreviation (input) INSTR_NEON_FADD :: u32 where "INSTR_NEON_FADD \<equiv> 240"
abbreviation (input) INSTR_NEON_FSUB :: u32 where "INSTR_NEON_FSUB \<equiv> 241"
abbreviation (input) INSTR_NEON_FMUL :: u32 where "INSTR_NEON_FMUL \<equiv> 242"
abbreviation (input) INSTR_NEON_FDIV :: u32 where "INSTR_NEON_FDIV \<equiv> 243"
abbreviation (input) INSTR_NEON_FMLA :: u32 where "INSTR_NEON_FMLA \<equiv> 244"
abbreviation (input) INSTR_NEON_FMLS :: u32 where "INSTR_NEON_FMLS \<equiv> 245"
abbreviation (input) INSTR_NEON_FMAX :: u32 where "INSTR_NEON_FMAX \<equiv> 246"
abbreviation (input) INSTR_NEON_FMIN :: u32 where "INSTR_NEON_FMIN \<equiv> 247"
abbreviation (input) INSTR_NEON_FCVT :: u32 where "INSTR_NEON_FCVT \<equiv> 248"
abbreviation (input) INSTR_NEON_FCMP :: u32 where "INSTR_NEON_FCMP \<equiv> 249"
abbreviation (input) INSTR_NEON_FRECPE :: u32 where "INSTR_NEON_FRECPE \<equiv> 250"
abbreviation (input) INSTR_NEON_FRSQRTE :: u32 where "INSTR_NEON_FRSQRTE \<equiv> 251"
abbreviation (input) INSTR_NEON_FSQRT :: u32 where "INSTR_NEON_FSQRT \<equiv> 252"
abbreviation (input) INSTR_NEON_FABS :: u32 where "INSTR_NEON_FABS \<equiv> 253"
abbreviation (input) INSTR_NEON_FNEG :: u32 where "INSTR_NEON_FNEG \<equiv> 254"
abbreviation (input) INSTR_LDAXR :: u32 where "INSTR_LDAXR \<equiv> 260"
abbreviation (input) INSTR_STLXR :: u32 where "INSTR_STLXR \<equiv> 261"
abbreviation (input) INSTR_CAS :: u32 where "INSTR_CAS \<equiv> 268"
abbreviation (input) INSTR_LDADD :: u32 where "INSTR_LDADD \<equiv> 270"
abbreviation (input) INSTR_CRC32 :: u32 where "INSTR_CRC32 \<equiv> 280"
abbreviation (input) INSTR_CRC32C :: u32 where "INSTR_CRC32C \<equiv> 281"
abbreviation (input) INSTR_AESD :: u32 where "INSTR_AESD \<equiv> 282"
abbreviation (input) INSTR_AESE :: u32 where "INSTR_AESE \<equiv> 283"
abbreviation (input) INSTR_AESMC :: u32 where "INSTR_AESMC \<equiv> 284"
abbreviation (input) INSTR_AESIMC :: u32 where "INSTR_AESIMC \<equiv> 285"
abbreviation (input) INSTR_SHA256 :: u32 where "INSTR_SHA256 \<equiv> 287"

abbreviation (input) ARM64_B :: u32 where "ARM64_B \<equiv> 0x14000000"
abbreviation (input) ARM64_BL :: u32 where "ARM64_BL \<equiv> 0x94000000"
abbreviation (input) ARM64_BR :: u32 where "ARM64_BR \<equiv> 0xd61f0000"
abbreviation (input) ARM64_BLR :: u32 where "ARM64_BLR \<equiv> 0xd63f0000"
abbreviation (input) ARM64_RET :: u32 where "ARM64_RET \<equiv> 0xd65f03c0"
abbreviation (input) ARM64_B_COND :: u32 where "ARM64_B_COND \<equiv> 0x54000000"
abbreviation (input) ARM64_DMB :: u32 where "ARM64_DMB \<equiv> 0xd50330bf"
abbreviation (input) ARM64_DSB :: u32 where "ARM64_DSB \<equiv> 0xd503309f"
abbreviation (input) ARM64_ISB :: u32 where "ARM64_ISB \<equiv> 0xd50330df"
abbreviation (input) ARM64_SVC :: u32 where "ARM64_SVC \<equiv> 0xd4000001"
abbreviation (input) ARM64_HVC :: u32 where "ARM64_HVC \<equiv> 0xd4000002"
abbreviation (input) ARM64_SMC :: u32 where "ARM64_SMC \<equiv> 0xd4000003"

section \<open>Decoded instructions\<close>

record DecodedInstruction =
  d_opcode :: u32
  d_pc :: ptr
  d_instr_type :: u32
  d_imm :: u32              \<comment> \<open>\<open>int32_t\<close>\<close>
  d_rd :: u8
  d_rn :: u8
  d_rm :: u8
  d_rt :: u8
  d_rt2 :: u8
  d_is_64bit :: u8
  d_decoded :: u8
  d_cond :: u8
  d_shift_type :: u8
  d_shift_imm :: u8
  d_update_flags :: u8

text \<open>\<open>memset(decoded, 0, sizeof( *decoded))\<close>\<close>

definition zero_decoded :: DecodedInstruction where
  "zero_decoded = \<lparr> d_opcode = 0, d_pc = NULL, d_instr_type = 0, d_imm = 0, d_rd = 0, d_rn = 0,
     d_rm = 0, d_rt = 0, d_rt2 = 0, d_is_64bit = 0, d_decoded = 0, d_cond = 0, d_shift_type = 0,
     d_shift_imm = 0, d_update_flags = 0 \<rparr>"

definition read_le32 :: "(ptr \<Rightarrow> u8) \<Rightarrow> ptr \<Rightarrow> u32" where
  "read_le32 mem p =
     (((ucast (mem p) OR push_bit 8 (ucast (mem (p + 1)))) OR push_bit 16 (ucast (mem (p + 2))))
      OR push_bit 24 (ucast (mem (p + 3))))"

text \<open>Shift the field to the top of a 64-bit word and back arithmetically, then cut to \<open>int32_t\<close>.\<close>

definition sign_extend64 :: "u64 \<Rightarrow> nat \<Rightarrow> u32" where
  "sign_extend64 val bits =
     (let shift0 = 64 - bits in ucast (signed_drop_bit shift0 (push_bit shift0 val)))"

definition sign_extend64_full :: "u64 \<Rightarrow> nat \<Rightarrow> u64" where
  "sign_extend64_full val bits =
     (let shift0 = 64 - bits in signed_drop_bit shift0 (push_bit shift0 val))"

definition arm2x86_sign_extend :: "u64 \<Rightarrow> nat \<Rightarrow> u32" where
  "arm2x86_sign_extend val bits = sign_extend64 val bits"

definition arm2x86_read_le32 :: "(ptr \<Rightarrow> u8) \<Rightarrow> ptr \<Rightarrow> u32" where
  "arm2x86_read_le32 mem p = read_le32 mem p"

definition is_valid_instruction_alignment :: "ptr \<Rightarrow> bool" where
  "is_valid_instruction_alignment pc = (pc AND 3 = 0)"

section \<open>The decoder\<close>

definition decode_dp_register :: "u32 \<Rightarrow> DecodedInstruction \<Rightarrow> int \<times> DecodedInstruction" where
  "decode_dp_register op d =
     (let d = d\<lparr>d_rd := ucast (op AND 0x1f)\<rparr>;
         d = d\<lparr>d_rn := ucast (drop_bit 5 op AND 0x1f)\<rparr>;
         d = d\<lparr>d_rm := ucast (drop_bit 16 op AND 0x1f)\<rparr>;
         d = d\<lparr>d_is_64bit := ucast (drop_bit 31 op AND 1)\<rparr>
      in (if (((31 < (d_rd d)) \<or> (31 < (d_rn d))) \<or> (31 < (d_rm d))) then
       (let d = d\<lparr>d_instr_type := INSTR_UNKNOWN\<rparr>;
           d = d\<lparr>d_decoded := 0\<rparr>
        in (ARM2X86_ERR_INVALID_PARAM, d))
     else (if ((op AND 0x1fe00000) = 0x0a000000) then
       (let opc = (drop_bit 29 op AND 3 :: u32);
           d = (if opc = 0 then
             (d\<lparr>d_instr_type := INSTR_AND\<rparr>)
           else if opc = 1 then
             (d\<lparr>d_instr_type := INSTR_BIC\<rparr>)
           else if opc = 2 then
             (d\<lparr>d_instr_type := INSTR_ORR\<rparr>)
           else if opc = 3 then
             (d\<lparr>d_instr_type := INSTR_ORN\<rparr>)
           else d);
           d = d\<lparr>d_shift_type := ucast (drop_bit 22 op AND 3)\<rparr>;
           d = d\<lparr>d_shift_imm := ucast (drop_bit 10 op AND 0x3f)\<rparr>;
           d = d\<lparr>d_decoded := 1\<rparr>
        in (ARM2X86_OK, d))
     else (if ((op AND 0x1fe00000) = 0x0b000000) then
       (let op21 = (drop_bit 30 op AND 3 :: u32);
           shift0 = (drop_bit 22 op AND 3 :: u32);
           d = (if (op21 = 0) then
             (d\<lparr>d_instr_type := INSTR_ADD\<rparr>)
           else (if (op21 = 1) then
             (d\<lparr>d_instr_type := INSTR_SUB\<rparr>)
           else (if (op21 = 2) then
             (d\<lparr>d_instr_type := INSTR_SUB\<rparr>)
           else (d\<lparr>d_instr_type := INSTR_SUB\<rparr>))));
           d = d\<lparr>d_shift_type := ucast shift0\<rparr>;
           d = d\<lparr>d_shift_imm := ucast (drop_bit 10 op AND 0x3f)\<rparr>;
           d = d\<lparr>d_decoded := 1\<rparr>
        in (ARM2X86_OK, d))
     else (if ((op AND 0x1fe00000) = 0x1a000000) then
       (let d = (if ((op AND 0x00600000) = 0) then
             (d\<lparr>d_instr_type := INSTR_ADC\<rparr>)
           else (d\<lparr>d_instr_type := INSTR_SBC\<rparr>));
           d = d\<lparr>d_decoded := 1\<rparr>
        in (ARM2X86_OK, d))
     else (if ((op AND 0x1fe00000) = 0x1ac00000) then
       (let d = (if ((drop_bit 11 op AND 1) \<noteq> 0) then
             (d\<lparr>d_instr_type := INSTR_UDIV\<rparr>)
           else (d\<lparr>d_instr_type := INSTR_SDIV\<rparr>));
           d = d\<lparr>d_decoded := 1\<rparr>
        in (ARM2X86_OK, d))
     else (if ((op AND 0x1f800000) = 0x1b000000) then
       (let d = (if ((op AND 0x80000000) = 0) then
             (if ((op AND 0x400000) = 0) then
                   (d\<lparr>d_instr_type := INSTR_MUL\<rparr>)
                 else (let o0 = (drop_bit 21 op AND 1 :: u32)
                    in (if (o0 \<noteq> 0) then
                         (d\<lparr>d_instr_type := INSTR_SMULH\<rparr>)
                       else (d\<lparr>d_instr_type := INSTR_UMULH\<rparr>))))
           else (d\<lparr>d_instr_type := INSTR_MADD\<rparr>));
           d = d\<lparr>d_decoded := 1\<rparr>
        in (ARM2X86_OK, d))
     else (if ((op AND 0x1fe00000) = 0x1a800000) then
       (let d = d\<lparr>d_cond := ucast (op AND 0xf)\<rparr>;
           opcode_hi = (drop_bit 12 op AND 0x1f :: u32)
        in (if (opcode_hi = 0) then
         (let d = d\<lparr>d_instr_type := INSTR_CSEL\<rparr>;
             d = d\<lparr>d_decoded := 1\<rparr>
          in (ARM2X86_OK, d))
       else (if (opcode_hi = 2) then
         (let d = d\<lparr>d_instr_type := INSTR_CCMN\<rparr>;
             d = d\<lparr>d_decoded := 1\<rparr>
          in (ARM2X86_OK, d))
       else (if (opcode_hi = 4) then
         (let d = d\<lparr>d_instr_type := INSTR_CCMP\<rparr>;
             d = d\<lparr>d_decoded := 1\<rparr>
          in (ARM2X86_OK, d))
       else (if (opcode_hi = 8) then
         (let d = d\<lparr>d_instr_type := INSTR_CSET\<rparr>;
             d = d\<lparr>d_decoded := 1\<rparr>
          in (ARM2X86_OK, d))
       else (let d = d\<lparr>d_instr_type := INSTR_DATAPROC\<rparr>;
           d = d\<lparr>d_decoded := 0\<rparr>
        in (ARM2X86_OK, d)))))))
     else (if (((op AND 0x7f800000) = 0x13000000) \<or> ((op AND 0x7f800000) = 0x53000000)) then
       (let N = (drop_bit 22 op AND 1 :: u32);
           opc = (drop_bit 29 op AND 3 :: u32);
           d = d\<lparr>d_imm := drop_bit 10 op AND 0x3f\<rparr>;
           d = d\<lparr>d_shift_imm := ucast (drop_bit 16 op AND 0x3f)\<rparr>;
           d = (if ((N = 0) \<and> (opc = 0)) then
             (d\<lparr>d_instr_type := (if ((d_shift_imm d) = 0) then INSTR_ASR else (if ((d_shift_imm d) = 31) then INSTR_LSL else INSTR_SBFM))\<rparr>)
           else (if ((N = 0) \<and> (opc = 2)) then
             (d\<lparr>d_instr_type := (if ((d_shift_imm d) = 0) then INSTR_LSR else INSTR_UBFM)\<rparr>)
           else (if ((N = 0) \<and> (opc = 3)) then
             (d\<lparr>d_instr_type := INSTR_EXTR\<rparr>)
           else (if (opc = 0) then
                   (d\<lparr>d_instr_type := INSTR_SBFM\<rparr>)
                 else (if (opc = 2) then
                   (d\<lparr>d_instr_type := INSTR_UBFM\<rparr>)
                 else (d\<lparr>d_instr_type := INSTR_EXTR\<rparr>))))));
           d = (if ((((d_instr_type d) = INSTR_SBFM) \<and> ((d_imm d) = 7)) \<and> ((d_shift_imm d) = 0)) then
             (d\<lparr>d_instr_type := INSTR_SXTB\<rparr>)
           else (if ((((d_instr_type d) = INSTR_SBFM) \<and> ((d_imm d) = 15)) \<and> ((d_shift_imm d) = 0)) then
             (d\<lparr>d_instr_type := INSTR_SXTH\<rparr>)
           else (if ((((d_instr_type d) = INSTR_UBFM) \<and> ((d_imm d) = 7)) \<and> ((d_shift_imm d) = 0)) then
             (d\<lparr>d_instr_type := INSTR_UXTB\<rparr>)
           else (if ((((d_instr_type d) = INSTR_UBFM) \<and> ((d_imm d) = 15)) \<and> ((d_shift_imm d) = 0)) then
             (d\<lparr>d_instr_type := INSTR_UXTH\<rparr>)
           else d))));
           d = d\<lparr>d_is_64bit := ucast N\<rparr>;
           d = d\<lparr>d_decoded := 1\<rparr>
        in (ARM2X86_OK, d))
     else (if (((op AND 0x1f800000) = 0x12000000) \<or> ((op AND 0x7f800000) = 0x32000000)) then
       (let opc = (drop_bit 29 op AND 3 :: u32);
           d = (if (opc = 0) then
             (d\<lparr>d_instr_type := INSTR_AND\<rparr>)
           else (if (opc = 1) then
             (d\<lparr>d_instr_type := INSTR_BIC\<rparr>)
           else (if (opc = 2) then
             (d\<lparr>d_instr_type := INSTR_ORR\<rparr>)
           else (d\<lparr>d_instr_type := INSTR_ORN\<rparr>))));
           d = d\<lparr>d_is_64bit := ucast (drop_bit 31 op AND 1)\<rparr>;
           d = d\<lparr>d_decoded := 1\<rparr>
        in (ARM2X86_OK, d))
     else (let mov_mask = (op AND 0xFFE00000 :: u32)
      in (if ((((((mov_mask = 0xD2800000) \<or> (mov_mask = 0x92800000)) \<or> (mov_mask = 0xF2800000)) \<or> (mov_mask = 0x52800000)) \<or> (mov_mask = 0x12800000)) \<or> (mov_mask = 0x72800000)) then
       (let opc = (drop_bit 29 op AND 3 :: u32)
        in (if (opc = 0) then
         (let d = d\<lparr>d_instr_type := INSTR_MOVN\<rparr>;
             d = d\<lparr>d_is_64bit := ucast (drop_bit 31 op AND 1)\<rparr>;
             d = d\<lparr>d_imm := drop_bit 5 op AND 0xffff\<rparr>;
             d = d\<lparr>d_shift_imm := ucast (drop_bit 21 op AND 3) * 16\<rparr>;
             d = d\<lparr>d_rd := ucast (op AND 0x1f)\<rparr>;
             d = d\<lparr>d_rn := 0\<rparr>;
             d = d\<lparr>d_rm := 0\<rparr>;
             d = d\<lparr>d_decoded := 1\<rparr>
          in (ARM2X86_OK, d))
       else (if (opc = 2) then
         (let d = d\<lparr>d_instr_type := INSTR_MOVZ\<rparr>;
             d = d\<lparr>d_is_64bit := ucast (drop_bit 31 op AND 1)\<rparr>;
             d = d\<lparr>d_imm := drop_bit 5 op AND 0xffff\<rparr>;
             d = d\<lparr>d_shift_imm := ucast (drop_bit 21 op AND 3) * 16\<rparr>;
             d = d\<lparr>d_rd := ucast (op AND 0x1f)\<rparr>;
             d = d\<lparr>d_rn := 0\<rparr>;
             d = d\<lparr>d_rm := 0\<rparr>;
             d = d\<lparr>d_decoded := 1\<rparr>
          in (ARM2X86_OK, d))
       else (if (opc = 3) then
         (let d = d\<lparr>d_instr_type := INSTR_MOVK\<rparr>;
             d = d\<lparr>d_is_64bit := ucast (drop_bit 31 op AND 1)\<rparr>;
             d = d\<lparr>d_imm := drop_bit 5 op AND 0xffff\<rparr>;
             d = d\<lparr>d_shift_imm := ucast (drop_bit 21 op AND 3) * 16\<rparr>;
             d = d\<lparr>d_rd := ucast (op AND 0x1f)\<rparr>;
             d = d\<lparr>d_rn := 0\<rparr>;
             d = d\<lparr>d_rm := 0\<rparr>;
             d = d\<lparr>d_decoded := 1\<rparr>
          in (ARM2X86_OK, d))
       else (let d = d\<lparr>d_instr_type := INSTR_DATAPROC\<rparr>;
           d = d\<lparr>d_decoded := 0\<rparr>
        in (ARM2X86_OK, d))))))
     else (if ((op AND 0x7fe0fc00) = 0x1ac00000) then
       (let crc_op = (drop_bit 10 op AND 0x7 :: u32)
        in (if ((crc_op = 0) \<or> (crc_op = 4)) then
         (let d = d\<lparr>d_instr_type := INSTR_CRC32\<rparr>;
             d = d\<lparr>d_decoded := 1\<rparr>
          in (ARM2X86_OK, d))
       else (if ((crc_op = 1) \<or> (crc_op = 5)) then
         (let d = d\<lparr>d_instr_type := INSTR_CRC32C\<rparr>;
             d = d\<lparr>d_decoded := 1\<rparr>
          in (ARM2X86_OK, d))
       else (let d = d\<lparr>d_instr_type := INSTR_DATAPROC\<rparr>;
           d = d\<lparr>d_decoded := 0\<rparr>
        in (ARM2X86_OK, d)))))
     else (let d = d\<lparr>d_instr_type := INSTR_DATAPROC\<rparr>;
         d = d\<lparr>d_decoded := 1\<rparr>
      in (ARM2X86_OK, d)))))))))))))))"

definition decode_loadstore :: "u32 \<Rightarrow> DecodedInstruction \<Rightarrow> int \<times> DecodedInstruction" where
  "decode_loadstore op d =
     (let d = d\<lparr>d_rt := ucast (op AND 0x1f)\<rparr>;
         d = d\<lparr>d_rn := ucast (drop_bit 5 op AND 0x1f)\<rparr>;
         d = d\<lparr>d_is_64bit := ucast (drop_bit 31 op AND 1)\<rparr>;
         op0 = (drop_bit 30 op AND 3 :: u32);
         op1 = (drop_bit 28 op AND 3 :: u32);
         op2 = (drop_bit 22 op AND 1 :: u32);
         opcode = (drop_bit 24 op AND 0x3 :: u32);
         opc = (drop_bit 23 op AND 3 :: u32);
         is_load = op2 \<noteq> 0;
         sz = (op0 :: u32)
      in (if ((op AND 0x3b200c00) = 0x38000000) then
       (let imm9 = (sign_extend64 (ucast (drop_bit 12 op AND 0x1ff)) 9 :: u32);
           d = d\<lparr>d_imm := imm9\<rparr>;
           d = d\<lparr>d_instr_type := (if is_load then INSTR_LDR else INSTR_STR)\<rparr>;
           d = d\<lparr>d_decoded := 1\<rparr>
        in (ARM2X86_OK, d))
     else (if ((op AND 0x3b000000) = 0x39000000) then
       (let imm12 = (drop_bit 10 op AND 0xfff :: u32);
           shift0 = (sz :: u32);
           d = d\<lparr>d_imm := push_bit (unat shift0) imm12\<rparr>;
           d = d\<lparr>d_is_64bit := (if (sz = 3) then 1 else 0)\<rparr>;
           d = d\<lparr>d_instr_type := (if is_load then INSTR_LDR else INSTR_STR)\<rparr>;
           d = d\<lparr>d_decoded := 1\<rparr>
        in (ARM2X86_OK, d))
     else (if ((op AND 0xbf000000) = 0x18000000) then
       (let imm19 = (sign_extend64 (ucast (push_bit 2 (drop_bit 5 op AND 0x7ffff))) 21 :: u32);
           d = d\<lparr>d_imm := imm19\<rparr>;
           d = d\<lparr>d_is_64bit := ucast (drop_bit 30 op AND 1)\<rparr>;
           d = d\<lparr>d_instr_type := (if is_load then INSTR_LDR_LITERAL else INSTR_PRFM)\<rparr>;
           d = d\<lparr>d_decoded := 1\<rparr>
        in (ARM2X86_OK, d))
     else (if (((op AND 0x7fc00000) = 0x28800000) \<or> ((op AND 0x7fc00000) = 0x29800000)) then
       (let d = d\<lparr>d_rt2 := ucast (drop_bit 10 op AND 0x1f)\<rparr>;
           imm7 = (sign_extend64 (ucast (drop_bit 15 op AND 0x7f)) 7 :: u32);
           opc = (drop_bit 30 op AND 3 :: u32);
           shift0 = ((if (opc = 3) then 3 else 2) :: u32);
           d = d\<lparr>d_imm := push_bit (unat shift0) imm7\<rparr>;
           d = d\<lparr>d_is_64bit := (if (opc = 3) then 1 else 0)\<rparr>;
           d = d\<lparr>d_instr_type := (if is_load then INSTR_LDP else INSTR_STP)\<rparr>;
           d = d\<lparr>d_decoded := 1\<rparr>
        in (ARM2X86_OK, d))
     else (let d = d\<lparr>d_instr_type := INSTR_UNKNOWN\<rparr>;
         d = d\<lparr>d_decoded := 0\<rparr>
      in (ARM2X86_OK, d)))))))"

text \<open>The tests after those for branches, which the system class reaches too when no test of its own matches.\<close>

definition decode_a64_rest :: "u32 \<Rightarrow> DecodedInstruction \<Rightarrow> int \<times> DecodedInstruction" where
  "decode_a64_rest op d =
     (if (((((op AND 0x0a000000) = 0x08000000) \<or> ((op AND 0x3b000000) = 0x28000000)) \<or> ((op AND 0x3b000000) = 0x38000000)) \<or> ((op AND 0x3b000000) = 0x39000000)) then
       decode_loadstore op d
     else (if ((op AND 0x3b200000) = 0x08200000) then
       (let o3 = (drop_bit 22 op AND 7 :: u32);
           d = (if (o3 = 3) then
             (d\<lparr>d_instr_type := INSTR_CAS\<rparr>)
           else (if (o3 = 0) then
             (d\<lparr>d_instr_type := INSTR_LDADD\<rparr>)
           else (d\<lparr>d_instr_type := INSTR_LDST\<rparr>)));
           d = d\<lparr>d_decoded := 1\<rparr>
        in (ARM2X86_OK, d))
     else (if (((op AND 0x5f000000) = 0x0e000000) \<or> ((op AND 0x5f000000) = 0x4e000000)) then
       (let opcode = (drop_bit 11 op AND 0x3f :: u32);
           d = d\<lparr>d_rd := ucast (op AND 0x1f)\<rparr>;
           d = d\<lparr>d_rn := ucast (drop_bit 5 op AND 0x1f)\<rparr>;
           d = d\<lparr>d_rm := ucast (drop_bit 16 op AND 0x1f)\<rparr>;
           d = d\<lparr>d_is_64bit := ucast (drop_bit 30 op AND 1)\<rparr>;
           d = d\<lparr>d_decoded := 1\<rparr>;
           d = (if opcode = 0x09 then
             (d\<lparr>d_instr_type := INSTR_NEON_ADD\<rparr>)
           else if opcode = 0x19 then
             (d\<lparr>d_instr_type := INSTR_NEON_SUB\<rparr>)
           else if opcode = 0x01 then
             (d\<lparr>d_instr_type := INSTR_NEON_AND\<rparr>)
           else if opcode = 0x03 then
             (d\<lparr>d_instr_type := INSTR_NEON_ORR\<rparr>)
           else if opcode = 0x07 then
             (d\<lparr>d_instr_type := INSTR_NEON_EOR\<rparr>)
           else if opcode = 0x08 then
             (d\<lparr>d_instr_type := INSTR_NEON_MUL\<rparr>)
           else if opcode = 0x11 then
             (d\<lparr>d_instr_type := INSTR_NEON_BSL\<rparr>)
           else if opcode = 0x13 then
             (d\<lparr>d_instr_type := INSTR_NEON_EXT\<rparr>)
           else if opcode = 0x10 then
             (d\<lparr>d_instr_type := INSTR_NEON_INS\<rparr>)
           else if opcode = 0x18 then
             (d\<lparr>d_instr_type := INSTR_NEON_SHL\<rparr>)
           else (d\<lparr>d_instr_type := INSTR_NEON_ADD\<rparr>))
        in (ARM2X86_OK, d))
     else (if ((op AND 0x5f000000) = 0x1e000000) then
       (let opcode = (drop_bit 11 op AND 0x3f :: u32);
           d = d\<lparr>d_rd := ucast (op AND 0x1f)\<rparr>;
           d = d\<lparr>d_rn := ucast (drop_bit 5 op AND 0x1f)\<rparr>;
           d = d\<lparr>d_rm := ucast (drop_bit 16 op AND 0x1f)\<rparr>;
           d = d\<lparr>d_is_64bit := ucast (drop_bit 30 op AND 1)\<rparr>;
           d = d\<lparr>d_decoded := 1\<rparr>;
           d = (if opcode = 0x09 then
             (d\<lparr>d_instr_type := INSTR_NEON_FADD\<rparr>)
           else if opcode = 0x19 then
             (d\<lparr>d_instr_type := INSTR_NEON_FSUB\<rparr>)
           else if opcode = 0x08 then
             (d\<lparr>d_instr_type := INSTR_NEON_FMUL\<rparr>)
           else if opcode = 0x1a then
             (d\<lparr>d_instr_type := INSTR_NEON_FDIV\<rparr>)
           else if opcode = 0x15 then
             (d\<lparr>d_instr_type := INSTR_NEON_FMAX\<rparr>)
           else if opcode = 0x14 then
             (d\<lparr>d_instr_type := INSTR_NEON_FMIN\<rparr>)
           else if opcode = 0x03 then
             (d\<lparr>d_instr_type := INSTR_NEON_FMLA\<rparr>)
           else if opcode = 0x1e then
             (d\<lparr>d_instr_type := INSTR_NEON_FABS\<rparr>)
           else if opcode = 0x2e then
             (d\<lparr>d_instr_type := INSTR_NEON_FNEG\<rparr>)
           else if opcode = 0x1c then
             (d\<lparr>d_instr_type := INSTR_NEON_FSQRT\<rparr>)
           else if opcode = 0x1f then
             (d\<lparr>d_instr_type := INSTR_NEON_FCVT\<rparr>)
           else if opcode = 0x0b then
             (d\<lparr>d_instr_type := INSTR_NEON_FMLS\<rparr>)
           else (d\<lparr>d_instr_type := INSTR_NEON_FADD\<rparr>))
        in (ARM2X86_OK, d))
     else (if (((op AND 0xbf000000) = 0x0d000000) \<or> ((op AND 0xbf000000) = 0x0c000000)) then
       (let l_bit = (drop_bit 22 op AND 1 :: u32);
           d = d\<lparr>d_rd := ucast (op AND 0x1f)\<rparr>;
           d = d\<lparr>d_rn := ucast (drop_bit 5 op AND 0x1f)\<rparr>;
           d = d\<lparr>d_decoded := 1\<rparr>;
           d = d\<lparr>d_instr_type := (if (l_bit \<noteq> 0) then INSTR_LDR_SIMD else INSTR_STR_SIMD)\<rparr>
        in (ARM2X86_OK, d))
     else (if ((op AND 0x7fe0fc00) = 0x1a000000) then
       (let crc_op = (drop_bit 10 op AND 0x7 :: u32);
           d = d\<lparr>d_rd := ucast (op AND 0x1f)\<rparr>;
           d = d\<lparr>d_rn := ucast (drop_bit 5 op AND 0x1f)\<rparr>;
           d = d\<lparr>d_rm := ucast (drop_bit 16 op AND 0x1f)\<rparr>;
           d = d\<lparr>d_decoded := 1\<rparr>;
           d = (if ((crc_op = 0) \<or> (crc_op = 4)) then
             (d\<lparr>d_instr_type := INSTR_CRC32\<rparr>)
           else (d\<lparr>d_instr_type := INSTR_CRC32C\<rparr>))
        in (ARM2X86_OK, d))
     else (if (((((op AND 0x5f20fc00) = 0x48200000) \<or> ((op AND 0x5f20fc00) = 0x48201000)) \<or> ((op AND 0x5f20fc00) = 0x48202000)) \<or> ((op AND 0x5f20fc00) = 0x48203000)) then
       (let d = d\<lparr>d_rd := ucast (op AND 0x1f)\<rparr>;
           d = d\<lparr>d_rn := ucast (drop_bit 5 op AND 0x1f)\<rparr>;
           d = d\<lparr>d_decoded := 1\<rparr>;
           opcode = (drop_bit 10 op AND 0x7 :: u32);
           d = (if opcode = 0 then
             (d\<lparr>d_instr_type := INSTR_AESE\<rparr>)
           else if opcode = 1 then
             (d\<lparr>d_instr_type := INSTR_AESD\<rparr>)
           else if opcode = 2 then
             (d\<lparr>d_instr_type := INSTR_AESMC\<rparr>)
           else if opcode = 3 then
             (d\<lparr>d_instr_type := INSTR_AESIMC\<rparr>)
           else (d\<lparr>d_instr_type := INSTR_AESE\<rparr>))
        in (ARM2X86_OK, d))
     else (if ((op AND 0xff00fc00) = 0x58000000) then
       (let d = d\<lparr>d_rd := ucast (op AND 0x1f)\<rparr>;
           d = d\<lparr>d_rn := ucast (drop_bit 5 op AND 0x1f)\<rparr>;
           d = d\<lparr>d_rm := ucast (drop_bit 16 op AND 0x1f)\<rparr>;
           d = d\<lparr>d_decoded := 1\<rparr>;
           d = d\<lparr>d_instr_type := INSTR_SHA256\<rparr>
        in (ARM2X86_OK, d))
     else (if ((op AND 0x1f000000) = 0x1e000000) then
       (let d = d\<lparr>d_instr_type := INSTR_FMOV_REG\<rparr>;
           d = d\<lparr>d_decoded := 1\<rparr>
        in (ARM2X86_OK, d))
     else (if (op = 0xd69c03c0) then
       (let d = d\<lparr>d_instr_type := INSTR_ERET\<rparr>;
           d = d\<lparr>d_decoded := 1\<rparr>
        in (ARM2X86_OK, d))
     else (if ((op AND 0xfff0001f) = 0xd4200000) then
       (let d = d\<lparr>d_instr_type := INSTR_BRK\<rparr>;
           d = d\<lparr>d_imm := drop_bit 5 op AND 0xffff\<rparr>;
           d = d\<lparr>d_decoded := 1\<rparr>
        in (ARM2X86_OK, d))
     else (if ((op AND 0xfff0001f) = 0xd4400000) then
       (let d = d\<lparr>d_instr_type := INSTR_HLT\<rparr>;
           d = d\<lparr>d_imm := drop_bit 5 op AND 0xffff\<rparr>;
           d = d\<lparr>d_decoded := 1\<rparr>
        in (ARM2X86_OK, d))
     else decode_dp_register op d))))))))))))"

definition decode_a64 :: "u32 \<Rightarrow> DecodedInstruction \<Rightarrow> int \<times> DecodedInstruction" where
  "decode_a64 op d =
     (if ((op = 0x00000000) \<or> (op = 0xffffffff)) then
       (let d = d\<lparr>d_instr_type := INSTR_UNKNOWN\<rparr>;
           d = d\<lparr>d_decoded := 0\<rparr>
        in (ARM2X86_OK, d))
     else (if ((op AND 0xfc000000) = ARM64_BL) then
       (let d = d\<lparr>d_instr_type := INSTR_BL\<rparr>;
           d = d\<lparr>d_imm := sign_extend64 (ucast (push_bit 2 (op AND 0x03ffffff))) 28\<rparr>;
           d = d\<lparr>d_decoded := 1\<rparr>
        in (ARM2X86_OK, d))
     else (if ((op AND 0xfc000000) = ARM64_B) then
       (let d = d\<lparr>d_instr_type := INSTR_B\<rparr>;
           d = d\<lparr>d_imm := sign_extend64 (ucast (push_bit 2 (op AND 0x03ffffff))) 28\<rparr>;
           d = d\<lparr>d_decoded := 1\<rparr>
        in (ARM2X86_OK, d))
     else (if ((op AND 0xfffffc1f) = ARM64_BR) then
       (let d = d\<lparr>d_instr_type := INSTR_BR\<rparr>;
           d = d\<lparr>d_rn := ucast (drop_bit 5 op AND 0x1f)\<rparr>;
           d = d\<lparr>d_decoded := 1\<rparr>
        in (ARM2X86_OK, d))
     else (if ((op AND 0xfffffc1f) = ARM64_BLR) then
       (let d = d\<lparr>d_instr_type := INSTR_BLR\<rparr>;
           d = d\<lparr>d_rn := ucast (drop_bit 5 op AND 0x1f)\<rparr>;
           d = d\<lparr>d_decoded := 1\<rparr>
        in (ARM2X86_OK, d))
     else (if (op = ARM64_RET) then
       (let d = d\<lparr>d_instr_type := INSTR_RET\<rparr>;
           d = d\<lparr>d_decoded := 1\<rparr>
        in (ARM2X86_OK, d))
     else (if ((op AND 0xff000010) = ARM64_B_COND) then
       (let d = d\<lparr>d_instr_type := INSTR_B_COND\<rparr>;
           d = d\<lparr>d_cond := ucast (op AND 0xf)\<rparr>;
           d = d\<lparr>d_imm := sign_extend64 (ucast (push_bit 1 (drop_bit 5 op AND 0xffffe))) 19\<rparr>;
           d = (if (14 < (d_cond d)) then
             (d\<lparr>d_cond := 14\<rparr>)
           else d);
           d = d\<lparr>d_decoded := 1\<rparr>
        in (ARM2X86_OK, d))
     else (if ((op AND 0x7e000000) = 0x34000000) then
       (let d = d\<lparr>d_rn := ucast (drop_bit 5 op AND 0x1f)\<rparr>;
           d = d\<lparr>d_imm := sign_extend64 (ucast (push_bit 2 (drop_bit 5 op AND 0x7ffff))) 21\<rparr>;
           d = d\<lparr>d_is_64bit := ucast (drop_bit 31 op AND 1)\<rparr>;
           d = d\<lparr>d_instr_type := (if ((op AND 0x01000000) \<noteq> 0) then INSTR_CBNZ else INSTR_CBZ)\<rparr>;
           d = d\<lparr>d_decoded := 1\<rparr>
        in (ARM2X86_OK, d))
     else (if ((op AND 0x7e000000) = 0x36000000) then
       (let d = d\<lparr>d_rt := ucast (drop_bit 5 op AND 0x1f)\<rparr>;
           d = d\<lparr>d_imm := sign_extend64 (ucast (push_bit 2 (drop_bit 5 op AND 0x3fff))) 16\<rparr>;
           d = d\<lparr>d_shift_imm := ucast (drop_bit 19 op AND 0x1f)\<rparr>;
           d = d\<lparr>d_instr_type := (if ((op AND 0x01000000) \<noteq> 0) then INSTR_TBNZ else INSTR_TBZ)\<rparr>;
           d = d\<lparr>d_decoded := 1\<rparr>
        in (ARM2X86_OK, d))
     else (if ((op AND 0xff000000) = 0xd5000000) then
       (if ((op AND 0xfff00000) = 0xd5300000) then
         (let d = d\<lparr>d_instr_type := INSTR_MRS\<rparr>;
             d = d\<lparr>d_rt := ucast (op AND 0x1f)\<rparr>;
             d = d\<lparr>d_decoded := 1\<rparr>
          in (ARM2X86_OK, d))
       else (if ((op AND 0xfff00000) = 0xd5100000) then
         (let d = d\<lparr>d_instr_type := INSTR_MSR\<rparr>;
             d = d\<lparr>d_rt := ucast (op AND 0x1f)\<rparr>;
             d = d\<lparr>d_decoded := 1\<rparr>
          in (ARM2X86_OK, d))
       else (if (((op = ARM64_DMB) \<or> (op = ARM64_DSB)) \<or> (op = ARM64_ISB)) then
         (let d = (if (op = ARM64_DMB) then
               (d\<lparr>d_instr_type := INSTR_DMB\<rparr>)
             else (if (op = ARM64_DSB) then
               (d\<lparr>d_instr_type := INSTR_DSB\<rparr>)
             else (d\<lparr>d_instr_type := INSTR_ISB\<rparr>)));
             d = d\<lparr>d_decoded := 1\<rparr>
          in (ARM2X86_OK, d))
       else (if (((op = ARM64_SVC) \<or> (op = ARM64_HVC)) \<or> (op = ARM64_SMC)) then
         (let d = d\<lparr>d_instr_type := INSTR_SVC\<rparr>;
             d = d\<lparr>d_imm := drop_bit 5 op AND 0xffff\<rparr>;
             d = d\<lparr>d_decoded := 1\<rparr>
          in (ARM2X86_OK, d))
       else (if ((op AND 0xffff001f) = 0xd503001f) then
         (let crm = (ucast (drop_bit 16 op AND 0xf) :: u8);
             op2 = (ucast (drop_bit 12 op AND 0xf) :: u8);
             d = (if ((crm = 0) \<and> (op2 \<le> 4)) then
               (d\<lparr>d_instr_type := INSTR_HINT\<rparr>)
             else (d\<lparr>d_instr_type := INSTR_DATAPROC\<rparr>));
             d = d\<lparr>d_decoded := 1\<rparr>
          in (ARM2X86_OK, d))
       else decode_a64_rest op d)))))
     else decode_a64_rest op d))))))))))"

text \<open>
  The entry point. \<open>ctx\<close>, \<open>arm64_code\<close> and \<open>decoded\<close> are the pointers that are checked; \<open>d\<close> is what
  the caller's structure holds before the call and what it still holds after a failed check.
\<close>

definition arm2x86_decode ::
  "(ptr \<Rightarrow> u8) \<Rightarrow> ptr \<Rightarrow> ptr \<Rightarrow> ptr \<Rightarrow> DecodedInstruction \<Rightarrow> int \<times> DecodedInstruction" where
  "arm2x86_decode mem ctx arm64_code decoded d =
     (if ctx = NULL then (ARM2X86_ERR_INVALID_PARAM, d)
      else if arm64_code = NULL then (ARM2X86_ERR_INVALID_PARAM, d)
      else if decoded = NULL then (ARM2X86_ERR_INVALID_PARAM, d)
      else if \<not> is_valid_instruction_alignment arm64_code then (ARM2X86_ERR_INVALID_PARAM, d)
      else
        (let d = zero_decoded\<lparr>d_pc := arm64_code\<rparr>;
             d = d\<lparr>d_opcode := read_le32 mem arm64_code\<rparr>
         in decode_a64 (d_opcode d) d))"


section \<open>Sign extension\<close>

text \<open>
  Sign extension of a field. For a field of \<open>bits\<close> bits, at most 32, the result as a signed
  number is the two's complement reading of the low \<open>bits\<close> bits of the argument.
\<close>

lemma sign_extend64_value:
  assumes "0 < bits" and "bits \<le> 32"
  shows "sint (arm2x86_sign_extend v bits) = signed_take_bit (bits - 1) (uint v)"
proof -
  have full: "sign_extend64_full v bits = signed_take_bit (bits - 1) v"
  proof (rule bit_word_eqI)
    fix n assume n: "n < LENGTH(64)"
    show "bit (sign_extend64_full v bits) n = bit (signed_take_bit (bits - 1) v) n"
      using assms n by (cases "n = bits - 1")
        (auto simp: sign_extend64_full_def bit_signed_drop_bit_iff bit_push_bit_iff
          bit_signed_take_bit_iff Let_def min_def)
  qed
  have "arm2x86_sign_extend v bits = ucast (signed_take_bit (bits - 1) v)"
    using full by (simp add: arm2x86_sign_extend_def sign_extend64_def sign_extend64_full_def Let_def)
  also have "\<dots> = signed_take_bit (bits - 1) (ucast v :: u32)"
    using assms by (intro bit_word_eqI) (auto simp: bit_simps bit_signed_take_bit_iff min_def)
  finally have e: "arm2x86_sign_extend v bits = signed_take_bit (bits - 1) (ucast v :: u32)" .
  show ?thesis
    unfolding e using assms
    by (intro bit_eqI) (auto simp: bit_simps bit_sint_iff bit_signed_take_bit_iff min_def)
qed

lemma sign_extend64_witness: "sint (arm2x86_sign_extend 0x7fffffc 27) = - 4"
  using sign_extend64_value [of 27 "0x7fffffc"] by simp

section \<open>Classification\<close>

text \<open>Two masks that disagree on a common bit: the form of every refutation below.\<close>

lemma mask_conflict:
  fixes op :: u32
  assumes "op AND h = hv" and "v AND h \<noteq> hv AND m"
  shows "op AND m \<noteq> v"
proof
  assume "op AND m = v"
  then have "v AND h = (op AND h) AND m" by (simp add: ac_simps flip: and.assoc)
  with assms show False by simp
qed

lemma mask_part:
  fixes op :: u32
  assumes "op AND h = hv" and "h AND m = m"
  shows "op AND m = hv AND m"
  using assms by (metis and.assoc)

lemma word_conflict:
  fixes op :: u32
  shows "op AND h = hv \<Longrightarrow> v AND h \<noteq> hv \<Longrightarrow> op \<noteq> v"
  by blast

text \<open>A condition whose branches agree needs no decision.\<close>

lemma if_branches: "b = c \<Longrightarrow> x = x' \<Longrightarrow> y = y' \<Longrightarrow> (if b then x else y) = (if c then x' else y')"
  by simp

lemma if_eq_const: "((if c then x else y) = (z :: u32)) = (if c then x = z else y = z)"
  by simp

lemmas push_if = if_distrib [of fst] if_distrib [of snd] if_distrib [of d_pc] if_distrib [of d_opcode]

text \<open>No decoder fails once it has an instruction word, and none touches its address or the word.\<close>

lemma decode_dp_register_fields:
  "fst (decode_dp_register op d) = ARM2X86_OK" "d_pc (snd (decode_dp_register op d)) = d_pc d"
  "d_opcode (snd (decode_dp_register op d)) = d_opcode d"
  by (simp_all add: decode_dp_register_def Let_def push_if reg_field_not_less split del: if_split cong: if_branches)

lemma decode_loadstore_fields:
  "fst (decode_loadstore op d) = ARM2X86_OK" "d_pc (snd (decode_loadstore op d)) = d_pc d"
  "d_opcode (snd (decode_loadstore op d)) = d_opcode d"
  by (simp_all add: decode_loadstore_def Let_def push_if split del: if_split cong: if_branches)

lemma decode_a64_rest_fields:
  "fst (decode_a64_rest op d) = ARM2X86_OK" "d_pc (snd (decode_a64_rest op d)) = d_pc d"
  "d_opcode (snd (decode_a64_rest op d)) = d_opcode d"
  by (simp_all add: decode_a64_rest_def Let_def push_if decode_dp_register_fields decode_loadstore_fields
      split del: if_split cong: if_branches)

lemma decode_a64_fields:
  "fst (decode_a64 op d) = ARM2X86_OK" "d_pc (snd (decode_a64 op d)) = d_pc d"
  "d_opcode (snd (decode_a64 op d)) = d_opcode d"
  by (simp_all add: decode_a64_def Let_def push_if decode_a64_rest_fields
      split del: if_split cong: if_branches)

text \<open>
  C8: the error paths of the decoder. A null context, code or result pointer and a misaligned program
  counter are rejected with \<open>ARM2X86_ERR_INVALID_PARAM\<close> and leave the caller's structure as it is; otherwise the
  decoder succeeds for every instruction word and records the word and its address.
\<close>

theorem arm2x86_decode_result:
  "arm2x86_decode mem ctx pc dec d =
     (if ctx \<noteq> NULL \<and> pc \<noteq> NULL \<and> dec \<noteq> NULL \<and> pc AND 3 = 0
      then (ARM2X86_OK, snd (arm2x86_decode mem 1 pc 1 d)) else (ARM2X86_ERR_INVALID_PARAM, d)) \<and>
   d_pc (snd (arm2x86_decode mem ctx pc dec d)) =
     (if fst (arm2x86_decode mem ctx pc dec d) = ARM2X86_OK then pc else d_pc d) \<and>
   d_opcode (snd (arm2x86_decode mem ctx pc dec d)) =
     (if fst (arm2x86_decode mem ctx pc dec d) = ARM2X86_OK then read_le32 mem pc else d_opcode d)"
  by (auto simp: arm2x86_decode_def is_valid_instruction_alignment_def decode_a64_fields prod_eq_iff)

lemmas type_if = push_if if_distrib [of d_instr_type] if_eq_const reg_field_not_less

lemma decode_dp_register_not_svc:
  assumes "d_instr_type d \<noteq> INSTR_SVC"
  shows "d_instr_type (snd (decode_dp_register op d)) \<noteq> INSTR_SVC"
  using assms by (simp add: decode_dp_register_def Let_def type_if split del: if_split cong: if_branches)

lemma decode_loadstore_not_svc: "d_instr_type (snd (decode_loadstore op d)) \<noteq> INSTR_SVC"
  by (simp add: decode_loadstore_def Let_def type_if split del: if_split cong: if_branches)

lemma decode_a64_rest_not_svc:
  assumes "d_instr_type d \<noteq> INSTR_SVC"
  shows "d_instr_type (snd (decode_a64_rest op d)) \<noteq> INSTR_SVC"
  using assms by (simp add: decode_a64_rest_def Let_def type_if decode_dp_register_not_svc
      decode_loadstore_not_svc split del: if_split cong: if_branches)

text \<open>
  A supervisor call is never recognised: no instruction word is classified as \<open>INSTR_SVC\<close>, since the test
  for it stands under the test for the system class \<open>0xd5\<close>, and the call has class \<open>0xd4\<close>.
\<close>

lemma decode_never_svc: "d_instr_type (snd (decode_a64 op zero_decoded)) \<noteq> INSTR_SVC"
proof -
  have "(op AND 0xff000000 = 0xd5000000) = False \<or>
      ((op AND 0xff000000 = 0xd5000000) = True \<and> op \<noteq> ARM64_SVC \<and> op \<noteq> ARM64_HVC \<and> op \<noteq> ARM64_SMC)"
    by auto
  moreover have "d_instr_type zero_decoded = INSTR_UNKNOWN" by (simp add: zero_decoded_def)
  ultimately show ?thesis
    by (elim disjE conjE)
       (simp_all add: decode_a64_def Let_def type_if decode_a64_rest_not_svc
          split del: if_split cong: if_branches)
qed

text \<open>
  Addition and subtraction of an immediate, and the address generation \<open>ADR\<close> and \<open>ADRP\<close>, are classified as
  \<open>INSTR_DATAPROC\<close>, for which the translator has no case but \<open>nop\<close>.
\<close>

lemma decode_immediate_dropped:
  assumes "op AND 0x1f000000 = 0x11000000 \<or> op AND 0x1f000000 = 0x10000000"
  shows "d_instr_type (snd (decode_a64 op d)) = INSTR_DATAPROC"
  using assms
proof (elim disjE)
  assume h: "op AND 0x1f000000 = 0x11000000"
  note c = mask_conflict [OF h] and w = word_conflict [OF h]
  show ?thesis
    unfolding decode_a64_def decode_a64_rest_def decode_dp_register_def Let_def
    by (simp add: c w reg_field_not_less)
next
  assume h: "op AND 0x1f000000 = 0x10000000"
  note c = mask_conflict [OF h] and w = word_conflict [OF h]
  show ?thesis
    unfolding decode_a64_def decode_a64_rest_def decode_dp_register_def Let_def
    by (simp add: c w reg_field_not_less)
qed

lemma decode_immediate_witness:
  "d_instr_type (snd (decode_a64 0x91004020 zero_decoded)) = INSTR_DATAPROC"   \<comment> \<open>\<open>add x0, x1, #16\<close>\<close>
  by (rule decode_immediate_dropped) simp

lemma decode_ldr_str:
  assumes "op AND 0xff800000 = 0xf9000000"
  shows "d_instr_type (snd (decode_a64 op d)) = (if bit op 22 then INSTR_LDR else INSTR_STR) \<and>
         d_imm (snd (decode_a64 op d)) = push_bit 3 (drop_bit 10 op AND 0xfff) \<and>
         d_rt (snd (decode_a64 op d)) = ucast (op AND 0x1f) \<and>
         d_rn (snd (decode_a64 op d)) = ucast (drop_bit 5 op AND 0x1f)"
proof -
  note c = mask_conflict [OF assms] and w = word_conflict [OF assms]
  have "op AND 0x3b000000 = 0x39000000" using mask_part [OF assms, of "0x3b000000"] by simp
  moreover have "drop_bit 30 op AND 3 = 3"
  proof -
    have "drop_bit 30 (op AND 0xff800000) AND 3 = (3 :: u32)" by (simp add: assms)
    then show ?thesis by simp
  qed
  ultimately show ?thesis
    unfolding decode_a64_def decode_a64_rest_def decode_loadstore_def Let_def
    by (simp add: c w sf_bit split: if_split)
qed

lemma decode_mul:
  assumes "op AND 0xffe0fc00 = 0x9b007c00"
  shows "d_instr_type (snd (decode_a64 op d)) = INSTR_MADD"
proof -
  note c = mask_conflict [OF assms] and w = word_conflict [OF assms] and q = mask_part [OF assms]
  have "op AND 0x1f800000 = 0x1b000000" "op AND 0x80000000 = 0x80000000"
    using q [of "0x1f800000"] q [of "0x80000000"] by simp_all
  then show ?thesis
    unfolding decode_a64_def decode_a64_rest_def decode_dp_register_def Let_def
    by (simp add: c w reg_field_not_less)
qed

text \<open>
  Loads and stores of a 64-bit register with an unsigned offset are decoded as the architecture defines them:
  the type from the load bit, the displacement as the twelve-bit field times eight, and the
  target and base registers from their fields.
\<close>

lemma decode_ldr_str_unsigned:
  assumes "op AND 0xff800000 = 0xf9000000"
  shows "d_instr_type (snd (decode_a64 op d)) = (if bit op 22 then INSTR_LDR else INSTR_STR) \<and>
         d_imm (snd (decode_a64 op d)) = push_bit 3 (drop_bit 10 op AND 0xfff) \<and>
         d_rt (snd (decode_a64 op d)) = ucast (op AND 0x1f) \<and>
         d_rn (snd (decode_a64 op d)) = ucast (drop_bit 5 op AND 0x1f)"
  using assms by (rule decode_ldr_str)

lemma decode_ldr_str_witness:
  "d_instr_type (snd (decode_a64 0xf9400841 zero_decoded)) = INSTR_LDR \<and>   \<comment> \<open>\<open>ldr x1, [x2, #16]\<close>\<close>
   d_imm (snd (decode_a64 0xf9400841 zero_decoded)) = 16 \<and>
   d_rt (snd (decode_a64 0xf9400841 zero_decoded)) = 1 \<and>
   d_rn (snd (decode_a64 0xf9400841 zero_decoded)) = 2"
  using decode_ldr_str_unsigned [of "0xf9400841" zero_decoded] by simp

end
