(* ===== verification/RegAlloc.thy ===== *)
theory RegAlloc
  imports Regs Decode64
begin

text \<open>
  The first part of \<open>src/modules/arm2x86_translate64.c\<close>: the translation context, the code that moves
  A64 registers between their home slots \<open>[rbp + 8 * r]\<close> and x86-64 registers, the map of the
  program counters of a block, and the register allocator.

  \<open>x86_base\<close> is the address of the output buffer and \<open>x86_code\<close> the bytes written so far, so that the
  C cursor \<open>x86_cur\<close> is their number and a pointer into the buffer is an index. The calls of
  \<open>tcache_register_jump_target\<close> are recorded in \<open>jump_targets\<close>. The members that the translator
  never reads (\<open>live_ranges\<close>, \<open>dispatcher_entry\<close>, \<open>exclusive_monitor\<close>) are left out.
\<close>

section \<open>The translation context\<close>

record RegAllocEntry =
  ra_x86_reg :: u8          \<comment> \<open>\<open>0xff\<close>: in memory\<close>
  ra_arm_reg :: u8
  ra_live_start :: int
  ra_live_end :: int
  ra_dirty :: bool
  ra_is_64bit :: bool

record TranslateCtx =
  strict_memory_ordering :: "bool option"   \<comment> \<open>of \<open>ctx\<close>, \<open>None\<close> when \<open>ctx\<close> is \<open>NULL\<close>\<close>
  simd_enabled :: bool                      \<comment> \<open>the thread-local \<open>g_simd_enabled\<close>\<close>
  arm64_base :: ptr
  arm64_cur :: ptr
  x86_base :: ptr
  x86_code :: code
  reg_home :: ptr
  reg_alloc :: "RegAllocEntry list"
  live_range_count :: int
  current_instr_idx :: int
  free_regs :: "u8 list"
  free_reg_count :: nat
  reg_alloc_enabled :: bool
  pc_map :: "(u64 \<times> nat) list"
  jump_targets :: "(nat \<times> nat \<times> bool) list"

definition x86_cur :: "TranslateCtx \<Rightarrow> nat" where
  "x86_cur t = length (x86_code t)"

text \<open>The address of a place of the buffer.\<close>

definition x86_addr :: "TranslateCtx \<Rightarrow> nat \<Rightarrow> u64" where
  "x86_addr t i = x86_base t + of_nat i"

text \<open>A call \<open>f(&t->x86_cur, ...)\<close> of an emitter, and of one that returns its patch location.\<close>

definition emits :: "TranslateCtx \<Rightarrow> (code \<Rightarrow> code) \<Rightarrow> TranslateCtx" where
  "emits t f = t\<lparr>x86_code := f (x86_code t)\<rparr>"

definition emits_loc :: "TranslateCtx \<Rightarrow> (code \<Rightarrow> code \<times> nat) \<Rightarrow> TranslateCtx \<times> nat" where
  "emits_loc t f = (let (buf, loc) = f (x86_code t) in (t\<lparr>x86_code := buf\<rparr>, loc))"

text \<open>\<open>loc[0] = v\<close> and \<open>*(int32_t * )loc = v\<close> for a place \<open>loc\<close> already written.\<close>

definition poke8 :: "TranslateCtx \<Rightarrow> nat \<Rightarrow> u8 \<Rightarrow> TranslateCtx" where
  "poke8 t loc v = t\<lparr>x86_code := (x86_code t)[loc := v]\<rparr>"

definition poke32 :: "TranslateCtx \<Rightarrow> nat \<Rightarrow> u32 \<Rightarrow> TranslateCtx" where
  "poke32 t loc v =
     poke8 (poke8 (poke8 (poke8 t loc (ucast v)) (loc + 1) (ucast (drop_bit 8 v)))
       (loc + 2) (ucast (drop_bit 16 v))) (loc + 3) (ucast (drop_bit 24 v))"


section \<open>Register homes\<close>

definition arm64_to_x86_cond :: "u8 list" where
  "arm64_to_x86_cond =
     [0x84, 0x85, 0x83, 0x82, 0x88, 0x89, 0x80, 0x81, 0x87, 0x86, 0x8d, 0x8c, 0x8f, 0x8e, 0x00, 0x00]"

definition ARM_REG_OFFSET :: "u8 \<Rightarrow> u32" where
  "ARM_REG_OFFSET r = ucast r * 8"

definition emit_load_arm_reg :: "code \<Rightarrow> u8 \<Rightarrow> u8 \<Rightarrow> bool \<Rightarrow> code" where
  "emit_load_arm_reg buf arm_reg x86_reg is_64bit =
     (let offset = ARM_REG_OFFSET arm_reg;
          buf = (if is_64bit then
                   (let rex0 = 0x48; rex0 = (if 8 \<le> x86_reg then rex0 OR 0x04 else rex0)
                    in emit_byte buf rex0)
                 else buf);
          buf = emit_byte buf 0x8b;
          buf = modrm buf 2 (x86_reg AND 7) 5
      in emit_imm32 buf offset)"

definition emit_store_arm_reg :: "code \<Rightarrow> u8 \<Rightarrow> u8 \<Rightarrow> bool \<Rightarrow> code" where
  "emit_store_arm_reg buf x86_reg arm_reg is_64bit =
     (let offset = ARM_REG_OFFSET arm_reg;
          buf = (if is_64bit then
                   (let rex0 = 0x48; rex0 = (if 8 \<le> x86_reg then rex0 OR 0x01 else rex0)
                    in emit_byte buf rex0)
                 else buf);
          buf = emit_byte buf 0x89;
          buf = modrm buf 2 (x86_reg AND 7) 5
      in emit_imm32 buf offset)"


section \<open>Program counters and jumps\<close>

definition pc_map_add :: "TranslateCtx \<Rightarrow> u64 \<Rightarrow> nat \<Rightarrow> TranslateCtx" where
  "pc_map_add t arm_pc x86_pc =
     (if length (pc_map t) < 256 then t\<lparr>pc_map := pc_map t @ [(arm_pc, x86_pc)]\<rparr> else t)"

definition pc_map_lookup :: "TranslateCtx \<Rightarrow> u64 \<Rightarrow> nat option" where
  "pc_map_lookup t arm_pc = map_of (pc_map t) arm_pc"

text \<open>\<open>patch_jmp_target\<close> on the bytes of a buffer at \<open>base\<close>; \<open>None\<close> stands for a null pointer.\<close>

definition patch_jmp_target :: "u64 \<Rightarrow> code \<Rightarrow> nat option \<Rightarrow> ptr \<Rightarrow> code" where
  "patch_jmp_target base buf patch_loc x86_target =
     (case patch_loc of None \<Rightarrow> buf
      | Some loc \<Rightarrow>
          if x86_target = NULL then buf
          else
            (let rip = base + of_nat loc + 5;
                 rel = x86_target - rip;
                 rel32 = (ucast rel :: u32);
                 buf = buf[loc + 1 := ucast (rel32 AND 0xff)];
                 buf = buf[loc + 2 := ucast (drop_bit 8 rel32 AND 0xff)];
                 buf = buf[loc + 3 := ucast (drop_bit 16 rel32 AND 0xff)]
             in buf[loc + 4 := ucast (drop_bit 24 rel32 AND 0xff)]))"

text \<open>The argument \<open>x86_target\<close> is a place of the same buffer, taken from the map.\<close>

definition emit_direct_jump_or_call :: "TranslateCtx \<Rightarrow> nat \<Rightarrow> bool \<Rightarrow> TranslateCtx" where
  "emit_direct_jump_or_call t x86_target is_call =
     (let p = x86_cur t;
          rip = x86_addr t p + 5;
          rel = x86_addr t x86_target - rip;
          rel32 = (ucast rel :: u32);
          t = t\<lparr>jump_targets := jump_targets t @ [(x86_target, p, is_call)]\<rparr>;
          t = emits t (\<lambda>buf. emit_byte buf (if is_call then 0xe8 else 0xe9))
      in emits t (\<lambda>buf. emit_imm32 buf rel32))"

definition emit_dispatch_stub :: "TranslateCtx \<Rightarrow> u64 \<Rightarrow> bool \<Rightarrow> TranslateCtx" where
  "emit_dispatch_stub t arm_target is_call =
     (if arm_target = 0 then
        emits t (\<lambda>buf.
          let buf = emit_byte buf (if is_call then 0xe8 else 0xe9)
          in emit_imm32 buf 0)
      else
        emits t (\<lambda>buf.
          let buf = emit_byte buf 0xff;
              buf = emit_byte buf (if is_call then 0x15 else 0x25);
              buf = emit_imm32 buf 0
          in buf @ le64 arm_target))"


section \<open>The register allocator\<close>

definition reg_alloc_map :: "u8 list" where
  "reg_alloc_map = [RAX, RCX, RDX, RSI, RDI, R8, R9, R10, R11]"

definition arm_reg_priority :: "u8 list" where
  "arm_reg_priority =
     [100, 100, 90, 90, 80, 80, 70, 70, 60, 50, 50, 50, 50, 50, 50, 50,
      40, 40, 40, 40, 40, 40, 40, 40, 30, 30, 30, 30, 30, 30, 30, 30]"

definition REG_ALLOC_COUNT :: nat where
  "REG_ALLOC_COUNT = 9"

definition reg_alloc_init :: "TranslateCtx \<Rightarrow> TranslateCtx" where
  "reg_alloc_init t =
     t\<lparr>free_reg_count := REG_ALLOC_COUNT,
       free_regs := reg_alloc_map,
       live_range_count := 0,
       current_instr_idx := 0,
       reg_alloc_enabled := True,
       reg_alloc := map (\<lambda>i. \<lparr>ra_x86_reg = 0xff, ra_arm_reg = of_nat i, ra_live_start = -1,
                              ra_live_end = -1, ra_dirty = False, ra_is_64bit = True\<rparr>) [0..<32]\<rparr>"

definition reg_alloc_get_free :: "TranslateCtx \<Rightarrow> u8 \<times> TranslateCtx" where
  "reg_alloc_get_free t =
     (if free_reg_count t = 0 then (0xff, t)
      else (let t = t\<lparr>free_reg_count := free_reg_count t - 1\<rparr>
            in (free_regs t ! free_reg_count t, t)))"

definition reg_alloc_free :: "TranslateCtx \<Rightarrow> u8 \<Rightarrow> TranslateCtx" where
  "reg_alloc_free t x86_reg =
     (if free_reg_count t < REG_ALLOC_COUNT then
        t\<lparr>free_regs := (free_regs t)[free_reg_count t := x86_reg],
          free_reg_count := free_reg_count t + 1\<rparr>
      else t)"

abbreviation ra_entry :: "TranslateCtx \<Rightarrow> u8 \<Rightarrow> RegAllocEntry" where
  "ra_entry t r \<equiv> reg_alloc t ! unat r"

definition ra_update :: "TranslateCtx \<Rightarrow> u8 \<Rightarrow> (RegAllocEntry \<Rightarrow> RegAllocEntry) \<Rightarrow> TranslateCtx" where
  "ra_update t r f = t\<lparr>reg_alloc := (reg_alloc t)[unat r := f (ra_entry t r)]\<rparr>"

definition set_dirty :: "TranslateCtx \<Rightarrow> u8 \<Rightarrow> bool \<Rightarrow> TranslateCtx" where
  "set_dirty t r b = ra_update t r (ra_dirty_update (\<lambda>_. b))"

definition set_x86_reg :: "TranslateCtx \<Rightarrow> u8 \<Rightarrow> u8 \<Rightarrow> TranslateCtx" where
  "set_x86_reg t r x = ra_update t r (ra_x86_reg_update (\<lambda>_. x))"

definition reg_alloc_assign :: "TranslateCtx \<Rightarrow> u8 \<Rightarrow> u8 \<Rightarrow> bool \<Rightarrow> TranslateCtx" where
  "reg_alloc_assign t arm_reg x86_reg is_64bit =
     ra_update t arm_reg (\<lambda>e. e\<lparr>ra_x86_reg := x86_reg, ra_is_64bit := is_64bit, ra_dirty := False\<rparr>)"

text \<open>The loop that looks for the allocated register of the lowest priority.\<close>

fun spill_search :: "RegAllocEntry list \<Rightarrow> nat list \<Rightarrow> u8 \<Rightarrow> nat option \<Rightarrow> nat option" where
  "spill_search es [] min_priority spill_idx = spill_idx"
| "spill_search es (i # is) min_priority spill_idx =
     (if ra_x86_reg (es ! i) \<noteq> 0xff \<and> arm_reg_priority ! i < min_priority
      then spill_search es is (arm_reg_priority ! i) (Some i)
      else spill_search es is min_priority spill_idx)"

definition reg_alloc_get_reg :: "TranslateCtx \<Rightarrow> u8 \<Rightarrow> bool \<Rightarrow> bool \<Rightarrow> u8 \<times> TranslateCtx" where
  "reg_alloc_get_reg t arm_reg is_64bit mark_dirty =
     (let x86_reg = ra_x86_reg (ra_entry t arm_reg) in
      if x86_reg \<noteq> 0xff then (x86_reg, if mark_dirty then set_dirty t arm_reg True else t)
      else
        (let (x86_reg, t) = reg_alloc_get_free t in
         if x86_reg \<noteq> 0xff then
           (let t = reg_alloc_assign t arm_reg x86_reg is_64bit;
                t = emits t (\<lambda>buf. emit_load_arm_reg buf arm_reg x86_reg is_64bit)
            in (x86_reg, if mark_dirty then set_dirty t arm_reg True else t))
         else
           (case spill_search (reg_alloc t) [0..<32] 255 None of
              None \<Rightarrow> (RAX, t)
            | Some i \<Rightarrow>
                (let spill_idx = of_nat i;
                     e = ra_entry t spill_idx;
                     t = (if ra_dirty e
                          then emits t (\<lambda>buf. emit_store_arm_reg buf (ra_x86_reg e) spill_idx (ra_is_64bit e))
                          else t);
                     spilled_x86 = ra_x86_reg e;
                     t = set_x86_reg t spill_idx 0xff;
                     t = reg_alloc_free t spilled_x86;
                     (x86_reg, t) = reg_alloc_get_free t
                 in if x86_reg \<noteq> 0xff then
                      (let t = reg_alloc_assign t arm_reg x86_reg is_64bit;
                           t = emits t (\<lambda>buf. emit_load_arm_reg buf arm_reg x86_reg is_64bit)
                       in (x86_reg, if mark_dirty then set_dirty t arm_reg True else t))
                    else (RAX, t)))))"

text \<open>The first A64 register other than \<open>arm_reg\<close> that occupies \<open>x86_reg\<close>.\<close>

definition occupant :: "RegAllocEntry list \<Rightarrow> u8 \<Rightarrow> u8 \<Rightarrow> nat option" where
  "occupant es arm_reg x86_reg =
     List.find (\<lambda>i. ra_x86_reg (es ! i) = x86_reg \<and> i \<noteq> unat arm_reg) [0..<32]"

definition reg_alloc_ensure_fixed :: "TranslateCtx \<Rightarrow> u8 \<Rightarrow> u8 \<Rightarrow> bool \<Rightarrow> TranslateCtx" where
  "reg_alloc_ensure_fixed t arm_reg x86_reg is_64bit =
     (let current = ra_x86_reg (ra_entry t arm_reg) in
      if current = x86_reg then t
      else
        (let t = (case occupant (reg_alloc t) arm_reg x86_reg of None \<Rightarrow> t
                  | Some i \<Rightarrow>
                      (let e = ra_entry t (of_nat i);
                           t = (if ra_dirty e
                                then emits t (\<lambda>buf. emit_store_arm_reg buf x86_reg (of_nat i) (ra_is_64bit e))
                                else t);
                           t = set_x86_reg t (of_nat i) 0xff
                       in reg_alloc_free t x86_reg));
             e = ra_entry t arm_reg;
             old_x86 = ra_x86_reg e;
             t = (if old_x86 \<noteq> 0xff then
                    (let t = (if ra_dirty e
                              then emits t (\<lambda>buf. emit_store_arm_reg buf old_x86 arm_reg (ra_is_64bit e))
                              else t)
                     in reg_alloc_free t old_x86)
                  else t);
             t = reg_alloc_assign t arm_reg x86_reg True
         in emits t (\<lambda>buf. emit_load_arm_reg buf arm_reg x86_reg True)))"

text \<open>The common body of the spilling loops: write a dirty register back and mark it clean.\<close>

definition reg_alloc_spill :: "TranslateCtx \<Rightarrow> u8 \<Rightarrow> TranslateCtx" where
  "reg_alloc_spill t arm_reg =
     (let e = ra_entry t arm_reg in
      if ra_x86_reg e \<noteq> 0xff \<and> ra_dirty e then
        (let t = emits t (\<lambda>buf. emit_store_arm_reg buf (ra_x86_reg e) arm_reg (ra_is_64bit e))
         in set_dirty t arm_reg False)
      else t)"

definition reg_alloc_spill_all :: "TranslateCtx \<Rightarrow> TranslateCtx" where
  "reg_alloc_spill_all t = fold (\<lambda>i t. reg_alloc_spill t (of_nat i)) [0..<32] t"

definition reg_alloc_release :: "TranslateCtx \<Rightarrow> u8 \<Rightarrow> TranslateCtx" where
  "reg_alloc_release t arm_reg =
     (let e = ra_entry t arm_reg; x86_reg = ra_x86_reg e in
      if x86_reg \<noteq> 0xff then
        (let t = (if ra_dirty e
                  then emits t (\<lambda>buf. emit_store_arm_reg buf x86_reg arm_reg (ra_is_64bit e))
                  else t);
             t = set_x86_reg t arm_reg 0xff;
             t = set_dirty t arm_reg False
         in reg_alloc_free t x86_reg)
      else t)"

definition reg_alloc_emit_batch_load :: "TranslateCtx \<Rightarrow> u8 list \<Rightarrow> TranslateCtx" where
  "reg_alloc_emit_batch_load t live_regs =
     fold (\<lambda>arm_reg t.
       let e = ra_entry t arm_reg in
       if ra_x86_reg e \<noteq> 0xff
       then emits t (\<lambda>buf. emit_load_arm_reg buf arm_reg (ra_x86_reg e) (ra_is_64bit e))
       else t) live_regs t"

definition reg_alloc_emit_batch_store :: "TranslateCtx \<Rightarrow> u8 list \<Rightarrow> TranslateCtx" where
  "reg_alloc_emit_batch_store t live_regs = fold (\<lambda>arm_reg t. reg_alloc_spill t arm_reg) live_regs t"

definition reg_alloc_compute_live_in :: "TranslateCtx \<Rightarrow> u8 list" where
  "reg_alloc_compute_live_in t =
     map of_nat (filter (\<lambda>i. ra_x86_reg (reg_alloc t ! i) \<noteq> 0xff) [0..<16])"

definition reg_alloc_compute_live_out :: "TranslateCtx \<Rightarrow> u8 list" where
  "reg_alloc_compute_live_out t =
     map of_nat (filter (\<lambda>i. ra_x86_reg (reg_alloc t ! i) \<noteq> 0xff) [0..<8])"

definition reg_alloc_setup_calling_convention :: "TranslateCtx \<Rightarrow> TranslateCtx" where
  "reg_alloc_setup_calling_convention t = reg_alloc_ensure_fixed t 29 RBP True"

definition reg_alloc_restore_after_call :: "TranslateCtx \<Rightarrow> TranslateCtx" where
  "reg_alloc_restore_after_call t =
     (let t = fold (\<lambda>i t.
            let e = reg_alloc t ! i in
            if ra_x86_reg e \<noteq> 0xff
            then emits t (\<lambda>buf. emit_load_arm_reg buf (of_nat i) (ra_x86_reg e) (ra_is_64bit e))
            else t) [0..<8] t
      in if ra_x86_reg (ra_entry t 29) \<noteq> RBP then reg_alloc_ensure_fixed t 29 RBP True else t)"

definition get_xreg :: "u8 \<Rightarrow> u8" where
  "get_xreg arm64_reg =
     (if arm2x86_needs_spill arm64_reg then R11 else arm2x86_map_register arm64_reg)"


lemma x86_code_pc_map_add [simp]: "x86_code (pc_map_add t a p) = x86_code t"
  by (simp add: pc_map_add_def)

lemma x86_cur_pc_map_add [simp]: "x86_cur (pc_map_add t a p) = x86_cur t"
  by (simp add: x86_cur_def)

lemma x86_code_emits [simp]: "x86_code (emits t f) = f (x86_code t)"
  by (simp add: emits_def)

section \<open>What the home accesses mean\<close>

lemma load_arm_reg_64:
  "x < 16 \<Longrightarrow> x86_decode (emit_load_arm_reg [] a x True @ rest) =
     Some (Mov_r_rm True x (Mem RBP (ARM_REG_OFFSET a)), rest)"
  by (drule u8_less_16_cases, elim disjE)
     (simp_all add: emit_load_arm_reg_def emit_defs x86_fields get_rm_def get_disp_def)

lemma load_arm_reg_32:
  "x < 8 \<Longrightarrow> x86_decode (emit_load_arm_reg [] a x False @ rest) =
     Some (Mov_r_rm False x (Mem RBP (ARM_REG_OFFSET a)), rest)"
  by (drule u8_less_8_cases, elim disjE)
     (simp_all add: emit_load_arm_reg_def emit_defs x86_fields get_rm_def get_disp_def)

lemma store_arm_reg_low:
  "x < 8 \<Longrightarrow> x86_decode (emit_store_arm_reg [] x a w @ rest) =
     Some (Mov_rm_r w (Mem RBP (ARM_REG_OFFSET a)) x, rest)"
  by (drule u8_less_8_cases, elim disjE; cases w)
     (simp_all add: emit_store_arm_reg_def emit_defs x86_fields get_rm_def get_disp_def)

text \<open>For the upper eight registers the prefix bit is that of the base register.\<close>

lemma store_arm_reg_high:
  "8 \<le> x \<Longrightarrow> x < 16 \<Longrightarrow> x86_decode (emit_store_arm_reg [] x a True @ rest) =
     Some (Mov_rm_r True (Mem R13 (ARM_REG_OFFSET a)) (x - 8), rest)"
  by (drule u8_less_16_cases, elim disjE)
     (simp_all add: emit_store_arm_reg_def emit_defs x86_fields get_rm_def get_disp_def)

interpretation load_home: emitter "\<lambda>buf (a, x). emit_load_arm_reg buf a x True"
    "\<lambda>(a, x). Mov_r_rm True x (Mem RBP (ARM_REG_OFFSET a))" "\<lambda>(a, x). x < 16"
  by unfold_locales
     ((auto simp: emit_load_arm_reg_def emit_defs) [1], auto simp: load_arm_reg_64 simp del: x86_decode.simps)

interpretation store_home: emitter "\<lambda>buf (x, a, w). emit_store_arm_reg buf x a w"
    "\<lambda>(x, a, w). Mov_rm_r w (Mem RBP (ARM_REG_OFFSET a)) x" "\<lambda>(x, a, w). x < 8"
  by unfold_locales
     ((auto simp: emit_store_arm_reg_def emit_defs) [1], auto simp: store_arm_reg_low simp del: x86_decode.simps)

lemmas disasm_homes =
  load_home.disasm_Cons [of "(a, x)" for a x, simplified] load_home.disasm_one [of "(a, x)" for a x, simplified]
  store_home.disasm_Cons [of "(x, a, w)" for x a w, simplified]
  store_home.disasm_one [of "(x, a, w)" for x a w, simplified]

section \<open>A context for concrete instances\<close>

definition ctx0 :: TranslateCtx where
  "ctx0 = reg_alloc_init
     \<lparr>strict_memory_ordering = Some False, simd_enabled = True, arm64_base = 0x1000, arm64_cur = 0x1000,
      x86_base = 0x400000, x86_code = [], reg_home = 0x7000, reg_alloc = [], live_range_count = 0,
      current_instr_idx = 0, free_regs = [], free_reg_count = 0, reg_alloc_enabled = False,
      pc_map = [], jump_targets = []\<rparr>"

end
