(* ===== verification/Translate64.thy ===== *)
theory Translate64
  imports RegAlloc
begin

text \<open>
  \<open>src/modules/arm2x86_translate64.c\<close>, the integer instructions: one function per \<open>translate_*\<close>, which
  takes the context and the instruction word and returns the C result code and the context. The
  statements are the successive bindings of the local variables and of \<open>t\<close>; a run of emitter calls
  is one \<open>emits\<close>. A C shift by at least the width of its operand (undefined there) gives zero here.
  Diagnostic output is left out.
\<close>

definition translate_b :: "TranslateCtx \<Rightarrow> u32 \<Rightarrow> int \<times> TranslateCtx" where
  [trans_defs]: "translate_b t op =
     (let imm = (arm2x86_sign_extend (ucast (push_bit 2 (op AND 0x03ffffff))) 28 :: u32);
         arm_src = (arm64_cur t :: u64);
         arm_target = (arm_src + scast imm :: u64);
         x86_start = x86_cur t;
         t = pc_map_add t (arm64_cur t) x86_start;
         x86_target = pc_map_lookup t arm_target;
         t = (if (x86_target \<noteq> None) then
           (emit_direct_jump_or_call t (the x86_target) False)
         else (emit_dispatch_stub t arm_target False))
      in (ARM2X86_OK, t))"

definition translate_bl :: "TranslateCtx \<Rightarrow> u32 \<Rightarrow> int \<times> TranslateCtx" where
  [trans_defs]: "translate_bl t op =
     (let imm = (arm2x86_sign_extend (ucast (push_bit 2 (op AND 0x03ffffff))) 28 :: u32);
         arm_src = (arm64_cur t :: u64);
         arm_target = (arm_src + scast imm :: u64);
         arm_ret = (arm_src + 4 :: u64);
         x86_start = x86_cur t;
         t = pc_map_add t (arm64_cur t) x86_start;
         t = emits t (\<lambda>buf.
             let buf = rex_rm buf 0 0;
                 buf = emit_byte buf 0xc7;
                 buf = modrm buf 2 0 5;
                 buf = emit_imm32 buf (ARM_REG_OFFSET 30)
             in emit_imm32 buf (ucast (arm_ret AND 0xFFFFFFFF)));
         t = (if ((drop_bit 32 arm_ret) \<noteq> 0) then
           (emits t (\<lambda>buf.
                   let buf = rex_rm buf 0 0;
                       buf = emit_byte buf 0xc7;
                       buf = modrm buf 2 0 5;
                       buf = emit_imm32 buf ((ARM_REG_OFFSET 30) + 4)
                   in emit_imm32 buf (ucast (drop_bit 32 arm_ret))))
         else t);
         x86_target = pc_map_lookup t arm_target;
         t = (if (x86_target \<noteq> None) then
           (emit_direct_jump_or_call t (the x86_target) True)
         else (emit_dispatch_stub t arm_target True))
      in (ARM2X86_OK, t))"

definition translate_br :: "TranslateCtx \<Rightarrow> u32 \<Rightarrow> int \<times> TranslateCtx" where
  [trans_defs]: "translate_br t op =
     (let rn = (ucast (drop_bit 5 op AND 0x1f) :: u8);
         x86_start = x86_cur t;
         t = pc_map_add t (arm64_cur t) x86_start;
         t = emits t (\<lambda>buf. emit_load_arm_reg buf rn RAX True);
         t = emit_dispatch_stub t 0 False
      in (ARM2X86_OK, t))"

definition translate_blr :: "TranslateCtx \<Rightarrow> u32 \<Rightarrow> int \<times> TranslateCtx" where
  [trans_defs]: "translate_blr t op =
     (let rn = (ucast (drop_bit 5 op AND 0x1f) :: u8);
         arm_src = (arm64_cur t :: u64);
         arm_ret = (arm_src + 4 :: u64);
         x86_start = x86_cur t;
         t = pc_map_add t (arm64_cur t) x86_start;
         t = emits t (\<lambda>buf.
             let buf = rex_rm buf 0 0;
                 buf = emit_byte buf 0xc7;
                 buf = modrm buf 2 0 5;
                 buf = emit_imm32 buf (ARM_REG_OFFSET 30)
             in emit_imm32 buf (ucast (arm_ret AND 0xFFFFFFFF)));
         t = (if ((drop_bit 32 arm_ret) \<noteq> 0) then
           (emits t (\<lambda>buf.
                   let buf = rex_rm buf 0 0;
                       buf = emit_byte buf 0xc7;
                       buf = modrm buf 2 0 5;
                       buf = emit_imm32 buf ((ARM_REG_OFFSET 30) + 4)
                   in emit_imm32 buf (ucast (drop_bit 32 arm_ret))))
         else t);
         t = emits t (\<lambda>buf. emit_load_arm_reg buf rn RAX True);
         t = emit_dispatch_stub t 0 True
      in (ARM2X86_OK, t))"

definition translate_ret :: "TranslateCtx \<Rightarrow> u32 \<Rightarrow> int \<times> TranslateCtx" where
  [trans_defs]: "translate_ret t op =
     (let rn = (ucast (drop_bit 5 op AND 0x1f) :: u8);
         x86_start = x86_cur t;
         t = pc_map_add t (arm64_cur t) x86_start;
         t = (if (rn = 30) then
           t
         else (let t = emits t (\<lambda>buf. emit_load_arm_reg buf rn RAX True)
            in emit_dispatch_stub t 0 False))
      in (ARM2X86_OK, t))"

definition translate_b_cond :: "TranslateCtx \<Rightarrow> u32 \<Rightarrow> int \<times> TranslateCtx" where
  [trans_defs]: "translate_b_cond t op =
     (let imm = (arm2x86_sign_extend (ucast (push_bit 1 (drop_bit 5 op AND 0xffffe))) 19 :: u32);
         cond = (ucast (op AND 0xf) :: u8);
         arm_src = (arm64_cur t :: u64);
         arm_target = (arm_src + scast imm :: u64);
         arm_fallthrough = (arm_src + 4 :: u64);
         x86_start = x86_cur t;
         t = pc_map_add t (arm64_cur t) x86_start;
         x86_cond = (arm64_to_x86_cond ! unat cond :: u8);
         t = (if (x86_cond = 0) then
           (let x86_target = pc_map_lookup t arm_target
            in (if (x86_target \<noteq> None) then
                 (emit_direct_jump_or_call t (the x86_target) False)
               else (emit_dispatch_stub t arm_target False)))
         else (if (x86_cond = 0xff) then
           (emits t (\<lambda>buf. emit_byte buf 0x90))
         else (let patch_loc = x86_cur t;
               t = emits t (\<lambda>buf.
                   let buf = emit_byte buf 0x0f;
                       buf = emit_byte buf (x86_cond XOR 1)
                   in emit_imm32 buf 0);
               x86_fallthrough = x86_cur t;
               x86_target = pc_map_lookup t arm_target;
               t = (if (x86_target \<noteq> None) then
                 (emit_direct_jump_or_call t (the x86_target) False)
               else (emit_dispatch_stub t arm_target False));
               rip = ((x86_addr t patch_loc) + 4 :: u64);
               offset = (ucast (x86_addr t x86_fallthrough) - ucast rip :: u32)
            in poke32 t patch_loc offset)))
      in (ARM2X86_OK, t))"

definition translate_cbz_cbnz :: "TranslateCtx \<Rightarrow> u32 \<Rightarrow> bool \<Rightarrow> int \<times> TranslateCtx" where
  [trans_defs]: "translate_cbz_cbnz t op is_cbnz =
     (let rn = (ucast (drop_bit 5 op AND 0x1f) :: u8);
         imm = (arm2x86_sign_extend (ucast (push_bit 2 (drop_bit 5 op AND 0x7ffff))) 21 :: u32);
         arm_src = (arm64_cur t :: u64);
         arm_target = (arm_src + scast imm :: u64);
         arm_fallthrough = (arm_src + 4 :: u64);
         x86_start = x86_cur t;
         t = pc_map_add t (arm64_cur t) x86_start;
         t = emits t (\<lambda>buf.
             let buf = emit_load_arm_reg buf rn RAX True
             in test_r64_r64 buf RAX RAX);
         patch_loc = x86_cur t;
         t = emits t (\<lambda>buf.
             let buf = emit_byte buf 0x0f;
                 buf = emit_byte buf (if is_cbnz then 0x84 else 0x85)
             in emit_imm32 buf 0);
         x86_fallthrough = x86_cur t;
         x86_target = pc_map_lookup t arm_target;
         t = (if (x86_target \<noteq> None) then
           (emit_direct_jump_or_call t (the x86_target) False)
         else (emit_dispatch_stub t arm_target False));
         rip = ((x86_addr t patch_loc) + 4 :: u64);
         offset = (ucast (x86_addr t x86_fallthrough) - ucast rip :: u32);
         t = poke32 t patch_loc offset
      in (ARM2X86_OK, t))"

definition translate_tbz_tbnz :: "TranslateCtx \<Rightarrow> u32 \<Rightarrow> bool \<Rightarrow> int \<times> TranslateCtx" where
  [trans_defs]: "translate_tbz_tbnz t op is_tbnz =
     (let rt = (ucast (drop_bit 5 op AND 0x1f) :: u8);
         bit_pos = (ucast (push_bit 5 (drop_bit 31 op AND 1) OR (drop_bit 19 op AND 0x1f)) :: u8);
         imm = (arm2x86_sign_extend (ucast (push_bit 2 (drop_bit 5 op AND 0x3fff))) 16 :: u32);
         arm_src = (arm64_cur t :: u64);
         arm_target = (arm_src + scast imm :: u64);
         arm_fallthrough = (arm_src + 4 :: u64);
         x86_start = x86_cur t;
         t = pc_map_add t (arm64_cur t) x86_start;
         t = emits t (\<lambda>buf.
             let buf = emit_load_arm_reg buf rt RAX True;
                 buf = rex_r buf RAX RAX;
                 buf = emit_byte buf 0x0f;
                 buf = emit_byte buf 0xba;
                 buf = modrm buf 3 4 (RAX AND 7)
             in emit_imm8 buf bit_pos);
         patch_loc = x86_cur t;
         t = emits t (\<lambda>buf.
             let buf = emit_byte buf 0x0f;
                 buf = emit_byte buf (if is_tbnz then 0x84 else 0x85)
             in emit_imm32 buf 0);
         x86_fallthrough = x86_cur t;
         x86_target = pc_map_lookup t arm_target;
         t = (if (x86_target \<noteq> None) then
           (emit_direct_jump_or_call t (the x86_target) False)
         else (emit_dispatch_stub t arm_target False));
         rip = ((x86_addr t patch_loc) + 4 :: u64);
         offset = (ucast (x86_addr t x86_fallthrough) - ucast rip :: u32);
         t = poke32 t patch_loc offset
      in (ARM2X86_OK, t))"

definition translate_add_sub :: "TranslateCtx \<Rightarrow> u32 \<Rightarrow> bool \<Rightarrow> int \<times> TranslateCtx" where
  [trans_defs]: "translate_add_sub t op is_sub =
     (let rd = (ucast (op AND 0x1f) :: u8);
         rn = (ucast (drop_bit 5 op AND 0x1f) :: u8);
         rm = (ucast (drop_bit 16 op AND 0x1f) :: u8);
         is_64bit = (drop_bit 31 op AND 1) \<noteq> 0;
         t = pc_map_add t (arm64_cur t) (x86_cur t);
         (reg_rn, t) = reg_alloc_get_reg t rn is_64bit False;
         (reg_rm, t) = reg_alloc_get_reg t rm is_64bit False;
         (reg_rd, t) = reg_alloc_get_reg t rd is_64bit True;
         t = (if (reg_rd = reg_rn) then
           (if is_sub then
                 (emits t (\<lambda>buf. sub_r64_r64 buf reg_rd reg_rm))
               else (emits t (\<lambda>buf. add_r64_r64 buf reg_rd reg_rm)))
         else (if (reg_rd = reg_rm) then
           (let t = emits t (\<lambda>buf. mov_r64_r64 buf reg_rd reg_rn)
            in (if is_sub then
                 (emits t (\<lambda>buf. sub_r64_r64 buf reg_rd reg_rm))
               else (emits t (\<lambda>buf. add_r64_r64 buf reg_rd reg_rm))))
         else (let t = emits t (\<lambda>buf. mov_r64_r64 buf reg_rd reg_rn)
            in (if is_sub then
                 (emits t (\<lambda>buf. sub_r64_r64 buf reg_rd reg_rm))
               else (emits t (\<lambda>buf. add_r64_r64 buf reg_rd reg_rm))))))
      in (ARM2X86_OK, t))"

definition translate_logical :: "TranslateCtx \<Rightarrow> u32 \<Rightarrow> int \<times> TranslateCtx" where
  [trans_defs]: "translate_logical t op =
     (let rd = (ucast (op AND 0x1f) :: u8);
         rn = (ucast (drop_bit 5 op AND 0x1f) :: u8);
         rm = (ucast (drop_bit 16 op AND 0x1f) :: u8);
         opcode = (drop_bit 29 op AND 3 :: u32);
         is_64bit = (drop_bit 31 op AND 1) \<noteq> 0;
         t = pc_map_add t (arm64_cur t) (x86_cur t);
         (reg_rn, t) = reg_alloc_get_reg t rn is_64bit False;
         (reg_rm, t) = reg_alloc_get_reg t rm is_64bit False;
         (reg_rd, t) = reg_alloc_get_reg t rd is_64bit True;
         t = (if opcode = 0 then
           (let t = (if (reg_rd \<noteq> reg_rn) then
                 (emits t (\<lambda>buf. mov_r64_r64 buf reg_rd reg_rn))
               else t)
            in emits t (\<lambda>buf. and_r64_r64 buf reg_rd reg_rm))
         else if opcode = 1 then
           (let t = (if (reg_rd \<noteq> reg_rn) then
                 (emits t (\<lambda>buf. mov_r64_r64 buf reg_rd reg_rn))
               else t)
            in emits t (\<lambda>buf.
                   let buf = not_r64 buf reg_rm
                   in and_r64_r64 buf reg_rd reg_rm))
         else if opcode = 2 then
           (let t = (if (reg_rd \<noteq> reg_rn) then
                 (emits t (\<lambda>buf. mov_r64_r64 buf reg_rd reg_rn))
               else t)
            in emits t (\<lambda>buf. or_r64_r64 buf reg_rd reg_rm))
         else if opcode = 3 then
           (let t = (if (reg_rd \<noteq> reg_rn) then
                 (emits t (\<lambda>buf. mov_r64_r64 buf reg_rd reg_rn))
               else t)
            in emits t (\<lambda>buf.
                   let buf = not_r64 buf reg_rm
                   in or_r64_r64 buf reg_rd reg_rm))
         else t)
      in (ARM2X86_OK, t))"

definition translate_cmp :: "TranslateCtx \<Rightarrow> u32 \<Rightarrow> int \<times> TranslateCtx" where
  [trans_defs]: "translate_cmp t op =
     (let rn = (ucast (drop_bit 5 op AND 0x1f) :: u8);
         rm = (ucast (drop_bit 16 op AND 0x1f) :: u8);
         is_64bit = (drop_bit 31 op AND 1) \<noteq> 0;
         t = pc_map_add t (arm64_cur t) (x86_cur t);
         t = emits t (\<lambda>buf.
             let buf = emit_load_arm_reg buf rn RAX is_64bit;
                 buf = emit_load_arm_reg buf rm R11 is_64bit
             in cmp_r64_r64 buf RAX R11)
      in (ARM2X86_OK, t))"

definition translate_csel :: "TranslateCtx \<Rightarrow> u32 \<Rightarrow> int \<times> TranslateCtx" where
  [trans_defs]: "translate_csel t op =
     (let rd = (ucast (op AND 0x1f) :: u8);
         rn = (ucast (drop_bit 5 op AND 0x1f) :: u8);
         rm = (ucast (drop_bit 16 op AND 0x1f) :: u8);
         cond = (ucast (drop_bit 12 op AND 0xf) :: u8);
         x86_cond = (arm64_to_x86_cond ! unat cond :: u8);
         is_64bit = (drop_bit 31 op AND 1) \<noteq> 0;
         t = pc_map_add t (arm64_cur t) (x86_cur t);
         t = (if (x86_cond = 0x00) then
           (emits t (\<lambda>buf.
                   let buf = emit_load_arm_reg buf rn RAX is_64bit
                   in emit_store_arm_reg buf RAX rd is_64bit))
         else (if (x86_cond = 0xff) then
           (emits t (\<lambda>buf.
                   let buf = emit_load_arm_reg buf rm RAX is_64bit
                   in emit_store_arm_reg buf RAX rd is_64bit))
         else (let t = emits t (\<lambda>buf.
                   let buf = emit_load_arm_reg buf rm RAX is_64bit;
                       buf = emit_store_arm_reg buf RAX rd is_64bit;
                       buf = emit_byte buf 0x0f
                   in emit_byte buf (x86_cond XOR 1));
               skip = x86_cur t;
               t = emits t (\<lambda>buf.
                   let buf = emit_imm32 buf 0;
                       buf = emit_load_arm_reg buf rn RAX is_64bit
                   in emit_store_arm_reg buf RAX rd is_64bit);
               off = (word_of_int (int (x86_cur t) - int skip - 4) :: u32)
            in poke32 t skip off)))
      in (ARM2X86_OK, t))"

definition translate_ldr_str :: "TranslateCtx \<Rightarrow> u32 \<Rightarrow> u32 \<Rightarrow> int \<times> TranslateCtx" where
  [trans_defs]: "translate_ldr_str t op decoded_imm =
     (let rt = (ucast (op AND 0x1f) :: u8);
         rn = (ucast (drop_bit 5 op AND 0x1f) :: u8);
         imm = (decoded_imm :: u32);
         is_load = (drop_bit 22 op AND 1) \<noteq> 0;
         sz = (drop_bit 30 op AND 3 :: u32);
         is_64bit = sz = 3;
         t = pc_map_add t (arm64_cur t) (x86_cur t);
         t = emits t (\<lambda>buf. emit_load_arm_reg buf rn RAX True);
         t = (if is_load then
           (emits t (\<lambda>buf.
                   let buf = rex_r buf RAX RAX;
                       buf = emit_byte buf 0x8b;
                       buf = emit_modrm_disp buf (RAX AND 7) RAX imm
                   in emit_store_arm_reg buf RAX rt is_64bit))
         else (emits t (\<lambda>buf.
                   let buf = emit_load_arm_reg buf rt R11 is_64bit;
                       buf = rex_r buf R11 RAX;
                       buf = emit_byte buf 0x89
                   in emit_modrm_disp buf (R11 AND 7) RAX imm)))
      in (ARM2X86_OK, t))"

definition translate_adr_adrp :: "TranslateCtx \<Rightarrow> u32 \<Rightarrow> int \<times> TranslateCtx" where
  [trans_defs]: "translate_adr_adrp t op =
     (let rd = (ucast (op AND 0x1f) :: u8);
         imm = (ucast (((drop_bit 5 op AND 0x3) OR (drop_bit 29 op AND 0x1c)) OR (drop_bit 3 op AND 0x1ffffe0)) :: u64);
         is_adrp = (op AND 0x9f000000) = 0x90000000;
         imm = (if is_adrp then
           (push_bit 12 imm)
         else imm);
         simm = (arm2x86_sign_extend imm (if is_adrp then 33 else 21) :: u32);
         t = pc_map_add t (arm64_cur t) (x86_cur t);
         addr = ((arm64_cur t) + scast simm :: u64);
         addr = (if is_adrp then
           (addr AND (NOT 0xFFF))
         else addr);
         t = emits t (\<lambda>buf.
             let buf = rex_rm buf 0 0;
                 buf = emit_byte buf 0x48;
                 buf = emit_byte buf 0xc7;
                 buf = modrm buf 2 0 5;
                 buf = emit_imm32 buf (ARM_REG_OFFSET rd)
             in emit_imm32 buf (ucast (addr AND 0xFFFFFFFF)));
         t = (if ((drop_bit 32 addr) \<noteq> 0) then
           (emits t (\<lambda>buf.
                   let buf = rex_rm buf 0 0;
                       buf = emit_byte buf 0x48;
                       buf = emit_byte buf 0xc7;
                       buf = modrm buf 2 0 5;
                       buf = emit_imm32 buf ((ARM_REG_OFFSET rd) + 4)
                   in emit_imm32 buf (ucast (drop_bit 32 addr))))
         else t)
      in (ARM2X86_OK, t))"

text \<open>The \<open>MOVK\<close> branch of \<open>translate_mov_imm\<close>.\<close>

definition translate_movk :: "TranslateCtx \<Rightarrow> u8 \<Rightarrow> u16 \<Rightarrow> u8 \<Rightarrow> bool \<Rightarrow> TranslateCtx" where
  [trans_defs]: "translate_movk t rd imm16 shift0 is64 =
     (let t = emits t (\<lambda>buf. emit_load_arm_reg buf rd RAX is64);
         mask0 = (NOT (push_bit (unat shift0) 0xffff) :: u64);
         t = emits t (\<lambda>buf.
             let buf = rex_rm buf 0 (drop_bit 3 RAX);
                 buf = emit_byte buf 0x48;
                 buf = emit_byte buf 0x81;
                 buf = modrm buf 3 4 (RAX AND 7)
             in emit_imm32 buf (ucast (mask0 AND 0xFFFFFFFF)));
         t = (if drop_bit 32 mask0 \<noteq> 0 then
           emits t (\<lambda>buf.
             let buf = rex_rm buf 0 (drop_bit 3 RAX);
                 buf = emit_byte buf 0x48;
                 buf = emit_byte buf 0x81;
                 buf = modrm buf 3 4 (RAX AND 7)
             in emit_imm32 buf (ucast (drop_bit 32 mask0)))
         else t);
         t = emits t (\<lambda>buf.
             let buf = rex_rm buf 0 (drop_bit 3 RAX);
                 buf = emit_byte buf 0x48;
                 buf = emit_byte buf 0x81;
                 buf = modrm buf 3 1 (RAX AND 7)
             in emit_imm32 buf (ucast (push_bit (unat shift0) (ucast imm16 :: u64) AND 0xFFFFFFFF)));
         t = (if drop_bit 32 (push_bit (unat shift0) (ucast imm16 :: u64)) \<noteq> 0 then
           emits t (\<lambda>buf.
             let buf = rex_rm buf 0 (drop_bit 3 RAX);
                 buf = emit_byte buf 0x48;
                 buf = emit_byte buf 0x81;
                 buf = modrm buf 3 1 (RAX AND 7)
             in emit_imm32 buf (ucast (drop_bit 32 (push_bit (unat shift0) (ucast imm16 :: u64)))))
         else t)
      in emits t (\<lambda>buf. emit_store_arm_reg buf RAX rd is64))"

definition translate_mov_imm :: "TranslateCtx \<Rightarrow> u32 \<Rightarrow> int \<times> TranslateCtx" where
  [trans_defs]: "translate_mov_imm t op =
     (let rd = (ucast (op AND 0x1f) :: u8);
         imm16 = (ucast (drop_bit 5 op AND 0xffff) :: u16);
         shift0 = (ucast (drop_bit 21 op AND 3) * 16 :: u8);
         is64 = (drop_bit 31 op AND 1) \<noteq> 0;
         opc = (drop_bit 29 op AND 3 :: u32);
         t = pc_map_add t (arm64_cur t) (x86_cur t)
      in if opc = 3 then (ARM2X86_OK, translate_movk t rd imm16 shift0 is64)
      else
       (let val = (if opc = 0 then
              (let val = push_bit (unat shift0) (NOT (ucast imm16 :: u64))
               in if \<not> is64 then val OR 0xffffffff00000000 else val)
            else if opc = 2 then push_bit (unat shift0) (ucast imm16 :: u64)
            else scast (push_bit (unat shift0) (ucast imm16 :: u32)));
           (x86_reg, t) = reg_alloc_get_free t;
           t = (if x86_reg \<noteq> 0xff then
             (let t = reg_alloc_assign t rd x86_reg is64;
                 rex0 = (0x48 :: u8);
                 rex0 = (if 8 \<le> x86_reg then rex0 OR 0x01 else rex0);
                 t = emits t (\<lambda>buf.
                     let buf = emit_byte buf rex0;
                         buf = emit_byte buf (0xb8 + (x86_reg AND 7));
                         buf = emit_byte buf (ucast (drop_bit 0 val AND 0xff));
                         buf = emit_byte buf (ucast (drop_bit 8 val AND 0xff));
                         buf = emit_byte buf (ucast (drop_bit 16 val AND 0xff));
                         buf = emit_byte buf (ucast (drop_bit 24 val AND 0xff));
                         buf = emit_byte buf (ucast (drop_bit 32 val AND 0xff));
                         buf = emit_byte buf (ucast (drop_bit 40 val AND 0xff));
                         buf = emit_byte buf (ucast (drop_bit 48 val AND 0xff));
                         buf = emit_byte buf (ucast (drop_bit 56 val AND 0xff))
                     in emit_store_arm_reg buf x86_reg rd is64)
              in set_dirty t rd True)
           else
             (let t = emits t (\<lambda>buf.
                     let buf = rex_rm buf 0 0;
                         buf = emit_byte buf 0x48;
                         buf = emit_byte buf 0xc7;
                         buf = modrm buf 2 0 5;
                         buf = emit_imm32 buf (ARM_REG_OFFSET rd)
                     in emit_imm32 buf (ucast (val AND 0xFFFFFFFF)))
              in if drop_bit 32 val \<noteq> 0 then
                   emits t (\<lambda>buf.
                     let buf = rex_rm buf 0 0;
                         buf = emit_byte buf 0x48;
                         buf = emit_byte buf 0xc7;
                         buf = modrm buf 2 0 5;
                         buf = emit_imm32 buf (ARM_REG_OFFSET rd + 4)
                     in emit_imm32 buf (ucast (drop_bit 32 val)))
                 else t))
        in (ARM2X86_OK, t)))"

definition translate_ldp_stp :: "TranslateCtx \<Rightarrow> u32 \<Rightarrow> u32 \<Rightarrow> int \<times> TranslateCtx" where
  [trans_defs]: "translate_ldp_stp t op decoded_imm =
     (let rt = (ucast (op AND 0x1f) :: u8);
         rt2 = (ucast (drop_bit 10 op AND 0x1f) :: u8);
         rn = (ucast (drop_bit 5 op AND 0x1f) :: u8);
         is_load = (drop_bit 31 op AND 1) \<noteq> 0;
         is_64bit = (drop_bit 30 op AND 1) \<noteq> 0;
         imm = (decoded_imm :: u32);
         t = pc_map_add t (arm64_cur t) (x86_cur t);
         t = emits t (\<lambda>buf. emit_load_arm_reg buf rn RAX True);
         t = (if is_load then
           (emits t (\<lambda>buf.
                   let buf = rex_r buf R11 RAX;
                       buf = emit_byte buf 0x8b;
                       buf = emit_modrm_disp buf (R11 AND 7) RAX imm;
                       buf = emit_store_arm_reg buf R11 rt is_64bit;
                       buf = rex_r buf R11 RAX;
                       buf = emit_byte buf 0x8b;
                       buf = emit_modrm_disp buf (R11 AND 7) RAX (imm + 8)
                   in emit_store_arm_reg buf R11 rt2 is_64bit))
         else (emits t (\<lambda>buf.
                   let buf = emit_load_arm_reg buf rt R11 is_64bit;
                       buf = rex_r buf R11 RAX;
                       buf = emit_byte buf 0x89;
                       buf = emit_modrm_disp buf (R11 AND 7) RAX imm;
                       buf = emit_load_arm_reg buf rt2 R11 is_64bit;
                       buf = rex_r buf R11 RAX;
                       buf = emit_byte buf 0x89
                   in emit_modrm_disp buf (R11 AND 7) RAX (imm + 8))))
      in (ARM2X86_OK, t))"

definition translate_mul :: "TranslateCtx \<Rightarrow> u32 \<Rightarrow> int \<times> TranslateCtx" where
  [trans_defs]: "translate_mul t op =
     (let rd = (ucast (op AND 0x1f) :: u8);
         rn = (ucast (drop_bit 5 op AND 0x1f) :: u8);
         rm = (ucast (drop_bit 16 op AND 0x1f) :: u8);
         is_64bit = (drop_bit 31 op AND 1) \<noteq> 0;
         t = pc_map_add t (arm64_cur t) (x86_cur t);
         t = emits t (\<lambda>buf.
             let buf = emit_load_arm_reg buf rn RAX is_64bit;
                 buf = emit_load_arm_reg buf rm R11 is_64bit;
                 buf = imul_r64_r64 buf RAX R11
             in emit_store_arm_reg buf RAX rd is_64bit)
      in (ARM2X86_OK, t))"

definition translate_div :: "TranslateCtx \<Rightarrow> u32 \<Rightarrow> int \<times> TranslateCtx" where
  [trans_defs]: "translate_div t op =
     (let rd = (ucast (op AND 0x1f) :: u8);
         rn = (ucast (drop_bit 5 op AND 0x1f) :: u8);
         rm = (ucast (drop_bit 16 op AND 0x1f) :: u8);
         is_64bit = (drop_bit 31 op AND 1) \<noteq> 0;
         is_signed = (drop_bit 11 op AND 1) = 0;
         t = pc_map_add t (arm64_cur t) (x86_cur t);
         t = emits t (\<lambda>buf.
             let buf = emit_load_arm_reg buf rn RAX is_64bit;
                 buf = emit_load_arm_reg buf rm R11 is_64bit
             in test_r64_r64 buf R11 R11);
         (t, jz_patch) = emits_loc t (\<lambda>buf. emit_jcc buf 0x84 0);
         t = (if is_signed then
           (emits t (\<lambda>buf. emit_cqo buf))
         else (emits t (\<lambda>buf. xor_r64_r64 buf RDX RDX)));
         t = (if is_signed then
           (emits t (\<lambda>buf. idiv_r64 buf R11))
         else (emits t (\<lambda>buf. div_r64 buf R11)));
         t = emits t (\<lambda>buf. emit_store_arm_reg buf RAX rd is_64bit);
         (t, jmp_end) = emits_loc t (\<lambda>buf. emit_jmp buf 0);
         jz_target = x86_cur t;
         t = emits t (\<lambda>buf. patch_rel32 buf (Some jz_patch) (x86_cur t));
         t = emits t (\<lambda>buf.
             let buf = xor_r64_r64 buf RAX RAX
             in emit_store_arm_reg buf RAX rd is_64bit);
         t = emits t (\<lambda>buf. patch_rel32 buf (Some jmp_end) (x86_cur t))
      in (ARM2X86_OK, t))"

definition translate_shift :: "TranslateCtx \<Rightarrow> u32 \<Rightarrow> int \<times> TranslateCtx" where
  [trans_defs]: "translate_shift t op =
     (let rd = (ucast (op AND 0x1f) :: u8);
         rn = (ucast (drop_bit 5 op AND 0x1f) :: u8);
         immr = (drop_bit 16 op AND 0x3f :: u32);
         n = (drop_bit 22 op AND 1 :: u32);
         opc = (drop_bit 29 op AND 3 :: u32);
         is_64bit = n \<noteq> 0;
         t = pc_map_add t (arm64_cur t) (x86_cur t);
         t = emits t (\<lambda>buf. emit_load_arm_reg buf rn RAX is_64bit);
         t = (if ((opc = 0) \<and> (n = 1)) then
           (emits t (\<lambda>buf. sar_r64_imm8 buf RAX (ucast (immr AND 0x3f))))
         else (if (opc = 2) then
           (emits t (\<lambda>buf. shr_r64_imm8 buf RAX (ucast (immr AND 0x3f))))
         else (if ((opc = 0) \<and> (n = 0)) then
           (emits t (\<lambda>buf. shl_r64_imm8 buf RAX (ucast (immr AND 0x3f))))
         else t)));
         t = emits t (\<lambda>buf. emit_store_arm_reg buf RAX rd is_64bit)
      in (ARM2X86_OK, t))"

definition emit_lock_add_rsp :: "code \<Rightarrow> code" where
  [emit_defs]: "emit_lock_add_rsp buf =
     (let buf = emit_lock buf;
          buf = emit_byte buf 0x83;
          buf = emit_byte buf 0x04;
          buf = emit_byte buf 0x24
      in emit_byte buf 0x00)"

definition translate_dmb_dsb_isb :: "TranslateCtx \<Rightarrow> u32 \<Rightarrow> int \<times> TranslateCtx" where
  [trans_defs]: "translate_dmb_dsb_isb t op =
     (let strict_ms = (case strict_memory_ordering t of Some b \<Rightarrow> b | None \<Rightarrow> False);
         t = (if op = ARM64_DMB then
             (if strict_ms then emits t emit_mfence else emits t emit_lock_add_rsp)
           else if op = ARM64_DSB then
             (if strict_ms then emits t emit_mfence else emits t emit_lock_add_rsp)
           else
             (if strict_ms then emits t emit_lfence else emits t emit_lock_add_rsp))
      in (ARM2X86_OK, t))"

definition translate_svc :: "TranslateCtx \<Rightarrow> u32 \<Rightarrow> int \<times> TranslateCtx" where
  [trans_defs]: "translate_svc t op =
     (let t = pc_map_add t (arm64_cur t) (x86_cur t);
         t = emits t (\<lambda>buf.
             let buf = emit_byte buf 0x48;
                 buf = emit_byte buf 0x81;
                 buf = emit_byte buf 0xEC;
                 buf = emit_byte buf 64;
                 buf = emit_byte buf 0;
                 buf = emit_byte buf 0;
                 buf = emit_byte buf 0;
                 buf = emit_load_arm_reg buf 8 R11 True;
                 buf = emit_byte buf 0x4c;
                 buf = emit_byte buf 0x89;
                 buf = emit_byte buf 0x04;
                 buf = emit_byte buf 0x24;
                 buf = emit_load_arm_reg buf 0 RAX True;
                 buf = emit_byte buf 0x48;
                 buf = emit_byte buf 0x89;
                 buf = emit_byte buf 0x44;
                 buf = emit_byte buf 0x24;
                 buf = emit_byte buf 0x08;
                 buf = emit_load_arm_reg buf 1 RDI True;
                 buf = emit_byte buf 0x48;
                 buf = emit_byte buf 0x89;
                 buf = emit_byte buf 0x7c;
                 buf = emit_byte buf 0x24;
                 buf = emit_byte buf 0x10;
                 buf = emit_load_arm_reg buf 2 RSI True;
                 buf = emit_byte buf 0x48;
                 buf = emit_byte buf 0x89;
                 buf = emit_byte buf 0x74;
                 buf = emit_byte buf 0x24;
                 buf = emit_byte buf 0x18;
                 buf = emit_load_arm_reg buf 3 RDX True;
                 buf = emit_byte buf 0x48;
                 buf = emit_byte buf 0x89;
                 buf = emit_byte buf 0x54;
                 buf = emit_byte buf 0x24;
                 buf = emit_byte buf 0x20;
                 buf = emit_load_arm_reg buf 4 R8 True;
                 buf = emit_byte buf 0x4c;
                 buf = emit_byte buf 0x89;
                 buf = emit_byte buf 0x44;
                 buf = emit_byte buf 0x24;
                 buf = emit_byte buf 0x28;
                 buf = emit_load_arm_reg buf 5 R9 True;
                 buf = emit_byte buf 0x4c;
                 buf = emit_byte buf 0x89;
                 buf = emit_byte buf 0x4c;
                 buf = emit_byte buf 0x24;
                 buf = emit_byte buf 0x30;
                 buf = emit_byte buf 0x4c;
                 buf = emit_byte buf 0x8b;
                 buf = emit_byte buf 0x04;
                 buf = emit_byte buf 0x24;
                 buf = emit_byte buf 0x49;
                 buf = emit_byte buf 0x89;
                 buf = emit_byte buf 0xc0;
                 buf = emit_byte buf 0x48;
                 buf = emit_byte buf 0x8b;
                 buf = emit_byte buf 0x44;
                 buf = emit_byte buf 0x24;
                 buf = emit_byte buf 0x08;
                 buf = emit_byte buf 0x48;
                 buf = emit_byte buf 0x89;
                 buf = emit_byte buf 0xc7;
                 buf = emit_byte buf 0x48;
                 buf = emit_byte buf 0x8b;
                 buf = emit_byte buf 0x74;
                 buf = emit_byte buf 0x24;
                 buf = emit_byte buf 0x10;
                 buf = emit_byte buf 0x48;
                 buf = emit_byte buf 0x8b;
                 buf = emit_byte buf 0x74;
                 buf = emit_byte buf 0x24;
                 buf = emit_byte buf 0x18;
                 buf = emit_byte buf 0x48;
                 buf = emit_byte buf 0x8b;
                 buf = emit_byte buf 0x54;
                 buf = emit_byte buf 0x24;
                 buf = emit_byte buf 0x20;
                 buf = emit_byte buf 0x4c;
                 buf = emit_byte buf 0x89;
                 buf = emit_byte buf 0xd2;
                 buf = emit_byte buf 0x4c;
                 buf = emit_byte buf 0x8b;
                 buf = emit_byte buf 0x44;
                 buf = emit_byte buf 0x24;
                 buf = emit_byte buf 0x28;
                 buf = emit_byte buf 0x4c;
                 buf = emit_byte buf 0x8b;
                 buf = emit_byte buf 0x4c;
                 buf = emit_byte buf 0x24;
                 buf = emit_byte buf 0x30;
                 buf = emit_syscall buf;
                 buf = emit_byte buf 0x48;
                 buf = emit_byte buf 0x81;
                 buf = emit_byte buf 0xC4;
                 buf = emit_byte buf 64;
                 buf = emit_byte buf 0;
                 buf = emit_byte buf 0;
                 buf = emit_byte buf 0
             in emit_store_arm_reg buf RAX 0 True)
      in (ARM2X86_OK, t))"

definition translate_adc :: "TranslateCtx \<Rightarrow> u32 \<Rightarrow> int \<times> TranslateCtx" where
  [trans_defs]: "translate_adc t op =
     (let rd = (ucast (op AND 0x1f) :: u8);
         rn = (ucast (drop_bit 5 op AND 0x1f) :: u8);
         rm = (ucast (drop_bit 16 op AND 0x1f) :: u8);
         is_64bit = (drop_bit 31 op AND 1) \<noteq> 0;
         t = pc_map_add t (arm64_cur t) (x86_cur t);
         t = emits t (\<lambda>buf.
             let buf = emit_load_arm_reg buf rn RAX is_64bit;
                 buf = emit_load_arm_reg buf rm R11 is_64bit;
                 buf = rex_r buf RAX R11;
                 buf = emit_byte buf 0x11;
                 buf = modrm buf 3 (RAX AND 7) (R11 AND 7)
             in emit_store_arm_reg buf RAX rd is_64bit)
      in (ARM2X86_OK, t))"

definition translate_sbc :: "TranslateCtx \<Rightarrow> u32 \<Rightarrow> int \<times> TranslateCtx" where
  [trans_defs]: "translate_sbc t op =
     (let rd = (ucast (op AND 0x1f) :: u8);
         rn = (ucast (drop_bit 5 op AND 0x1f) :: u8);
         rm = (ucast (drop_bit 16 op AND 0x1f) :: u8);
         is_64bit = (drop_bit 31 op AND 1) \<noteq> 0;
         t = pc_map_add t (arm64_cur t) (x86_cur t);
         t = emits t (\<lambda>buf.
             let buf = emit_load_arm_reg buf rn RAX is_64bit;
                 buf = emit_load_arm_reg buf rm R11 is_64bit;
                 buf = rex_r buf RAX R11;
                 buf = emit_byte buf 0x19;
                 buf = modrm buf 3 (RAX AND 7) (R11 AND 7)
             in emit_store_arm_reg buf RAX rd is_64bit)
      in (ARM2X86_OK, t))"

definition translate_neg :: "TranslateCtx \<Rightarrow> u32 \<Rightarrow> int \<times> TranslateCtx" where
  [trans_defs]: "translate_neg t op =
     (let rd = (ucast (op AND 0x1f) :: u8);
         rn = (ucast (drop_bit 5 op AND 0x1f) :: u8);
         is_64bit = (drop_bit 31 op AND 1) \<noteq> 0;
         t = pc_map_add t (arm64_cur t) (x86_cur t);
         t = emits t (\<lambda>buf. emit_load_arm_reg buf rn RAX is_64bit);
         t = (if is_64bit then
           (emits t (\<lambda>buf. rex_rm buf 0 (drop_bit 3 RAX)))
         else t);
         t = emits t (\<lambda>buf.
             let buf = emit_byte buf 0xf7;
                 buf = modrm buf 3 3 (RAX AND 7)
             in emit_store_arm_reg buf RAX rd is_64bit)
      in (ARM2X86_OK, t))"

definition translate_rsb :: "TranslateCtx \<Rightarrow> u32 \<Rightarrow> int \<times> TranslateCtx" where
  [trans_defs]: "translate_rsb t op =
     (let rd = (ucast (op AND 0x1f) :: u8);
         rn = (ucast (drop_bit 5 op AND 0x1f) :: u8);
         rm = (ucast (drop_bit 16 op AND 0x1f) :: u8);
         is_64bit = (drop_bit 31 op AND 1) \<noteq> 0;
         t = pc_map_add t (arm64_cur t) (x86_cur t);
         t = emits t (\<lambda>buf.
             let buf = emit_load_arm_reg buf rm RAX is_64bit;
                 buf = emit_load_arm_reg buf rn R11 is_64bit;
                 buf = sub_r64_r64 buf RAX R11
             in emit_store_arm_reg buf RAX rd is_64bit)
      in (ARM2X86_OK, t))"

definition translate_mvn :: "TranslateCtx \<Rightarrow> u32 \<Rightarrow> int \<times> TranslateCtx" where
  [trans_defs]: "translate_mvn t op =
     (let rd = (ucast (op AND 0x1f) :: u8);
         rm = (ucast (drop_bit 16 op AND 0x1f) :: u8);
         is_64bit = (drop_bit 31 op AND 1) \<noteq> 0;
         t = pc_map_add t (arm64_cur t) (x86_cur t);
         t = emits t (\<lambda>buf. emit_load_arm_reg buf rm RAX is_64bit);
         t = (if is_64bit then
           (emits t (\<lambda>buf. rex_rm buf 0 (drop_bit 3 RAX)))
         else t);
         t = emits t (\<lambda>buf.
             let buf = emit_byte buf 0xf7;
                 buf = modrm buf 3 2 (RAX AND 7)
             in emit_store_arm_reg buf RAX rd is_64bit)
      in (ARM2X86_OK, t))"

definition translate_tst :: "TranslateCtx \<Rightarrow> u32 \<Rightarrow> int \<times> TranslateCtx" where
  [trans_defs]: "translate_tst t op =
     (let rn = (ucast (drop_bit 5 op AND 0x1f) :: u8);
         rm = (ucast (drop_bit 16 op AND 0x1f) :: u8);
         is_64bit = (drop_bit 31 op AND 1) \<noteq> 0;
         t = pc_map_add t (arm64_cur t) (x86_cur t);
         t = emits t (\<lambda>buf.
             let buf = emit_load_arm_reg buf rn RAX is_64bit;
                 buf = emit_load_arm_reg buf rm R11 is_64bit
             in test_r64_r64 buf RAX R11)
      in (ARM2X86_OK, t))"

definition translate_cmn :: "TranslateCtx \<Rightarrow> u32 \<Rightarrow> int \<times> TranslateCtx" where
  [trans_defs]: "translate_cmn t op =
     (let rn = (ucast (drop_bit 5 op AND 0x1f) :: u8);
         rm = (ucast (drop_bit 16 op AND 0x1f) :: u8);
         is_64bit = (drop_bit 31 op AND 1) \<noteq> 0;
         t = pc_map_add t (arm64_cur t) (x86_cur t);
         t = emits t (\<lambda>buf.
             let buf = emit_load_arm_reg buf rn RAX is_64bit;
                 buf = emit_load_arm_reg buf rm R11 is_64bit
             in add_r64_r64 buf RAX R11)
      in (ARM2X86_OK, t))"

definition translate_ror_imm :: "TranslateCtx \<Rightarrow> u32 \<Rightarrow> int \<times> TranslateCtx" where
  [trans_defs]: "translate_ror_imm t op =
     (let rd = (ucast (op AND 0x1f) :: u8);
         rn = (ucast (drop_bit 5 op AND 0x1f) :: u8);
         immr = (drop_bit 16 op AND 0x3f :: u32);
         is_64bit = (drop_bit 31 op AND 1) \<noteq> 0;
         t = pc_map_add t (arm64_cur t) (x86_cur t);
         t = emits t (\<lambda>buf.
             let buf = emit_load_arm_reg buf rn RAX is_64bit;
                 buf = rex_rm buf 0 (drop_bit 3 RAX);
                 buf = emit_byte buf 0xc1;
                 buf = modrm buf 3 1 (RAX AND 7);
                 buf = emit_byte buf (ucast (immr AND 0x3f))
             in emit_store_arm_reg buf RAX rd is_64bit)
      in (ARM2X86_OK, t))"

definition translate_extr :: "TranslateCtx \<Rightarrow> u32 \<Rightarrow> int \<times> TranslateCtx" where
  [trans_defs]: "translate_extr t op =
     (let rd = (ucast (op AND 0x1f) :: u8);
         rn = (ucast (drop_bit 5 op AND 0x1f) :: u8);
         rm = (ucast (drop_bit 16 op AND 0x1f) :: u8);
         immr = (ucast (drop_bit 10 op AND 0x3f) :: u8);
         is_64bit = (drop_bit 31 op AND 1) \<noteq> 0;
         t = pc_map_add t (arm64_cur t) (x86_cur t);
         t = (if (rn = rm) then
           (emits t (\<lambda>buf.
                   let buf = emit_load_arm_reg buf rn RAX is_64bit;
                       buf = rex_rm buf 0 (drop_bit 3 RAX);
                       buf = emit_byte buf 0xc1;
                       buf = modrm buf 3 1 (RAX AND 7);
                       buf = emit_byte buf (immr AND 0x3f)
                   in emit_store_arm_reg buf RAX rd is_64bit))
         else (emits t (\<lambda>buf.
                   let buf = emit_load_arm_reg buf rn RAX is_64bit;
                       buf = shr_r64_imm8 buf RAX (immr AND 0x3f);
                       buf = emit_load_arm_reg buf rm R11 is_64bit;
                       buf = shl_r64_imm8 buf R11 (64 - (immr AND 0x3f));
                       buf = or_r64_r64 buf RAX R11
                   in emit_store_arm_reg buf RAX rd is_64bit)))
      in (ARM2X86_OK, t))"

definition translate_madd :: "TranslateCtx \<Rightarrow> u32 \<Rightarrow> int \<times> TranslateCtx" where
  [trans_defs]: "translate_madd t op =
     (let rd = (ucast (op AND 0x1f) :: u8);
         rn = (ucast (drop_bit 5 op AND 0x1f) :: u8);
         rm = (ucast (drop_bit 16 op AND 0x1f) :: u8);
         ra = (ucast (drop_bit 10 op AND 0x1f) :: u8);
         is_64bit = (drop_bit 31 op AND 1) \<noteq> 0;
         t = pc_map_add t (arm64_cur t) (x86_cur t);
         t = emits t (\<lambda>buf.
             let buf = emit_load_arm_reg buf rn RAX is_64bit;
                 buf = emit_load_arm_reg buf rm R11 is_64bit;
                 buf = imul_r64_r64 buf RAX R11;
                 buf = emit_load_arm_reg buf ra R11 is_64bit;
                 buf = add_r64_r64 buf RAX R11
             in emit_store_arm_reg buf RAX rd is_64bit)
      in (ARM2X86_OK, t))"

definition translate_msub :: "TranslateCtx \<Rightarrow> u32 \<Rightarrow> int \<times> TranslateCtx" where
  [trans_defs]: "translate_msub t op =
     (let rd = (ucast (op AND 0x1f) :: u8);
         rn = (ucast (drop_bit 5 op AND 0x1f) :: u8);
         rm = (ucast (drop_bit 16 op AND 0x1f) :: u8);
         ra = (ucast (drop_bit 10 op AND 0x1f) :: u8);
         is_64bit = (drop_bit 31 op AND 1) \<noteq> 0;
         t = pc_map_add t (arm64_cur t) (x86_cur t);
         t = emits t (\<lambda>buf.
             let buf = emit_load_arm_reg buf ra RAX is_64bit;
                 buf = emit_load_arm_reg buf rn R11 is_64bit;
                 buf = emit_load_arm_reg buf rm RCX is_64bit;
                 buf = imul_r64_r64 buf R11 RCX;
                 buf = sub_r64_r64 buf RAX R11
             in emit_store_arm_reg buf RAX rd is_64bit)
      in (ARM2X86_OK, t))"

definition translate_smulh :: "TranslateCtx \<Rightarrow> u32 \<Rightarrow> int \<times> TranslateCtx" where
  [trans_defs]: "translate_smulh t op =
     (let rd = (ucast (op AND 0x1f) :: u8);
         rn = (ucast (drop_bit 5 op AND 0x1f) :: u8);
         rm = (ucast (drop_bit 16 op AND 0x1f) :: u8);
         t = pc_map_add t (arm64_cur t) (x86_cur t);
         t = emits t (\<lambda>buf.
             let buf = emit_load_arm_reg buf rn RAX True;
                 buf = emit_load_arm_reg buf rm R11 True;
                 buf = rex_rm buf 0 (drop_bit 3 R11);
                 buf = emit_byte buf 0xf7;
                 buf = modrm buf 3 5 (R11 AND 7)
             in emit_store_arm_reg buf RDX rd True)
      in (ARM2X86_OK, t))"

definition translate_umulh :: "TranslateCtx \<Rightarrow> u32 \<Rightarrow> int \<times> TranslateCtx" where
  [trans_defs]: "translate_umulh t op =
     (let rd = (ucast (op AND 0x1f) :: u8);
         rn = (ucast (drop_bit 5 op AND 0x1f) :: u8);
         rm = (ucast (drop_bit 16 op AND 0x1f) :: u8);
         t = pc_map_add t (arm64_cur t) (x86_cur t);
         t = emits t (\<lambda>buf.
             let buf = emit_load_arm_reg buf rn RAX True;
                 buf = emit_load_arm_reg buf rm R11 True;
                 buf = rex_rm buf 0 (drop_bit 3 R11);
                 buf = emit_byte buf 0xf7;
                 buf = modrm buf 3 4 (R11 AND 7)
             in emit_store_arm_reg buf RDX rd True)
      in (ARM2X86_OK, t))"

definition translate_sbfm :: "TranslateCtx \<Rightarrow> u32 \<Rightarrow> int \<times> TranslateCtx" where
  [trans_defs]: "translate_sbfm t op =
     (let rd = (ucast (op AND 0x1f) :: u8);
         rn = (ucast (drop_bit 5 op AND 0x1f) :: u8);
         imms = (drop_bit 10 op AND 0x3f :: u32);
         immr = (drop_bit 16 op AND 0x3f :: u32);
         n = (drop_bit 22 op AND 1 :: u32);
         is_64bit = n \<noteq> 0;
         t = pc_map_add t (arm64_cur t) (x86_cur t);
         t = emits t (\<lambda>buf. emit_load_arm_reg buf rn RAX is_64bit);
         t = (if ((imms < immr) \<and> (n = 0)) then
           (emits t (\<lambda>buf. emit_movsx buf 8 RAX RAX))
         else (if ((imms < immr) \<and> (n = 1)) then
           (emits t (\<lambda>buf. emit_movsx buf 16 RAX RAX))
         else (let t = emits t (\<lambda>buf. sar_r64_imm8 buf RAX (ucast (immr AND 0x3f)));
               mask0 = ((push_bit (unat (imms + 1)) 1) - 1 :: u64)
            in emits t (\<lambda>buf.
                   let buf = mov_r64_imm buf R11 mask0
                   in and_r64_r64 buf RAX R11))));
         t = emits t (\<lambda>buf. emit_store_arm_reg buf RAX rd is_64bit)
      in (ARM2X86_OK, t))"

definition translate_ubfm :: "TranslateCtx \<Rightarrow> u32 \<Rightarrow> int \<times> TranslateCtx" where
  [trans_defs]: "translate_ubfm t op =
     (let rd = (ucast (op AND 0x1f) :: u8);
         rn = (ucast (drop_bit 5 op AND 0x1f) :: u8);
         imms = (drop_bit 10 op AND 0x3f :: u32);
         immr = (drop_bit 16 op AND 0x3f :: u32);
         n = (drop_bit 22 op AND 1 :: u32);
         is_64bit = n \<noteq> 0;
         t = pc_map_add t (arm64_cur t) (x86_cur t);
         t = emits t (\<lambda>buf. emit_load_arm_reg buf rn RAX is_64bit);
         t = (if ((imms < immr) \<and> (n = 0)) then
           (emits t (\<lambda>buf. emit_movzx buf 8 RAX RAX))
         else (if ((imms < immr) \<and> (n = 1)) then
           (emits t (\<lambda>buf. emit_movzx buf 16 RAX RAX))
         else (let t = emits t (\<lambda>buf. shr_r64_imm8 buf RAX (ucast (immr AND 0x3f)));
               mask0 = ((push_bit (unat (imms + 1)) 1) - 1 :: u64)
            in emits t (\<lambda>buf.
                   let buf = mov_r64_imm buf R11 mask0
                   in and_r64_r64 buf RAX R11))));
         t = emits t (\<lambda>buf. emit_store_arm_reg buf RAX rd is_64bit)
      in (ARM2X86_OK, t))"

definition translate_bfi :: "TranslateCtx \<Rightarrow> u32 \<Rightarrow> int \<times> TranslateCtx" where
  [trans_defs]: "translate_bfi t op =
     (let rd = (ucast (op AND 0x1f) :: u8);
         rn = (ucast (drop_bit 5 op AND 0x1f) :: u8);
         imms = (drop_bit 10 op AND 0x3f :: u32);
         immr = (drop_bit 16 op AND 0x3f :: u32);
         is_64bit = (drop_bit 31 op AND 1) \<noteq> 0
      in (if (imms < immr) then
       (ARM2X86_ERR_INVALID_PARAM, t)
     else (let width = ((imms - immr) + 1 :: u32)
      in (if ((width \<le>s 0) \<or> (64 <s width)) then
       (ARM2X86_ERR_INVALID_PARAM, t)
     else (let t = pc_map_add t (arm64_cur t) (x86_cur t);
         mask0 = (push_bit (unat immr) (push_bit (unat width) 1 - 1) :: u64);
         t = emits t (\<lambda>buf.
             let buf = emit_load_arm_reg buf rd RAX is_64bit;
                 buf = mov_r64_imm buf R11 (NOT mask0);
                 buf = and_r64_r64 buf RAX R11;
                 buf = emit_load_arm_reg buf rn R11 is_64bit;
                 buf = shl_r64_imm8 buf R11 (ucast (immr AND 0x3f));
                 buf = mov_r64_imm buf RCX mask0;
                 buf = and_r64_r64 buf R11 RCX;
                 buf = or_r64_r64 buf RAX R11
             in emit_store_arm_reg buf RAX rd is_64bit)
      in (ARM2X86_OK, t))))))"

definition translate_bfxil :: "TranslateCtx \<Rightarrow> u32 \<Rightarrow> int \<times> TranslateCtx" where
  [trans_defs]: "translate_bfxil t op =
     (let rd = (ucast (op AND 0x1f) :: u8);
         rn = (ucast (drop_bit 5 op AND 0x1f) :: u8);
         imms = (drop_bit 10 op AND 0x3f :: u32);
         immr = (drop_bit 16 op AND 0x3f :: u32);
         is_64bit = (drop_bit 31 op AND 1) \<noteq> 0
      in (if (imms < immr) then
       (ARM2X86_ERR_INVALID_PARAM, t)
     else (let width = ((imms - immr) + 1 :: u32)
      in (if ((width \<le>s 0) \<or> (64 <s width)) then
       (ARM2X86_ERR_INVALID_PARAM, t)
     else (let t = pc_map_add t (arm64_cur t) (x86_cur t);
         mask0 = (push_bit (unat width) 1 - 1 :: u64);
         t = emits t (\<lambda>buf.
             let buf = emit_load_arm_reg buf rd RAX is_64bit;
                 buf = mov_r64_imm buf R11 (NOT mask0);
                 buf = and_r64_r64 buf RAX R11;
                 buf = emit_load_arm_reg buf rn R11 is_64bit;
                 buf = shr_r64_imm8 buf R11 (ucast (immr AND 0x3f));
                 buf = mov_r64_imm buf RCX mask0;
                 buf = and_r64_r64 buf R11 RCX;
                 buf = or_r64_r64 buf RAX R11
             in emit_store_arm_reg buf RAX rd is_64bit)
      in (ARM2X86_OK, t))))))"

definition translate_bfc :: "TranslateCtx \<Rightarrow> u32 \<Rightarrow> int \<times> TranslateCtx" where
  [trans_defs]: "translate_bfc t op =
     (let rd = (ucast (op AND 0x1f) :: u8);
         imms = (drop_bit 10 op AND 0x3f :: u32);
         immr = (drop_bit 16 op AND 0x3f :: u32);
         is_64bit = (drop_bit 31 op AND 1) \<noteq> 0;
         width = ((imms - immr) + 1 :: u32);
         t = pc_map_add t (arm64_cur t) (x86_cur t);
         mask0 = (push_bit (unat immr) (push_bit (unat width) 1 - 1) :: u64);
         t = emits t (\<lambda>buf.
             let buf = emit_load_arm_reg buf rd RAX is_64bit;
                 buf = mov_r64_imm buf R11 (NOT mask0);
                 buf = and_r64_r64 buf RAX R11
             in emit_store_arm_reg buf RAX rd is_64bit)
      in (ARM2X86_OK, t))"

definition translate_ccmn :: "TranslateCtx \<Rightarrow> u32 \<Rightarrow> int \<times> TranslateCtx" where
  [trans_defs]: "translate_ccmn t op =
     (let rn = (ucast (drop_bit 5 op AND 0x1f) :: u8);
         cond = (ucast (drop_bit 12 op AND 0xf) :: u8);
         nzcv = (ucast (drop_bit 0 op AND 0xf) :: u8);
         is_64bit = (drop_bit 31 op AND 1) \<noteq> 0;
         x86_cond = (arm64_to_x86_cond ! unat cond :: u8);
         t = pc_map_add t (arm64_cur t) (x86_cur t);
         t = emits t (\<lambda>buf.
             let buf = emit_byte buf 0x0f
             in emit_byte buf (0x80 OR x86_cond));
         skip = x86_cur t;
         t = emits t (\<lambda>buf.
             let buf = emit_imm32 buf 0
             in emit_load_arm_reg buf rn RAX is_64bit);
         t = (if is_64bit then
           (emits t (\<lambda>buf. rex_rm buf 0 (drop_bit 3 RAX)))
         else t);
         t = emits t (\<lambda>buf.
             let buf = emit_byte buf 0xf7;
                 buf = modrm buf 3 3 (RAX AND 7);
                 buf = test_r64_r64 buf RAX RAX
             in emit_byte buf 0xe9);
         end_loc = x86_cur t;
         t = emits t (\<lambda>buf. emit_imm32 buf 0);
         skip_off = (word_of_int (int (x86_cur t) - int skip - 4) :: u32);
         t = poke8 t skip (ucast skip_off AND 0xff);
         t = poke8 t (skip + 1) (ucast (signed_drop_bit 8 skip_off) AND 0xff);
         t = poke8 t (skip + 2) (ucast (signed_drop_bit 16 skip_off) AND 0xff);
         t = poke8 t (skip + 3) (ucast (signed_drop_bit 24 skip_off) AND 0xff);
         t = emits t (\<lambda>buf.
             let buf = emit_byte buf 0x9c;
                 buf = emit_byte buf 0x58;
                 buf = emit_byte buf 0x48;
                 buf = emit_byte buf 0x81;
                 buf = emit_byte buf 0xe0
             in emit_imm32 buf (NOT (((push_bit 0 1 OR push_bit 6 1) OR push_bit 7 1) OR push_bit 11 1)));
         rflags_bits = (0 :: u32);
         rflags_bits = (if ((nzcv AND 0x8) \<noteq> 0) then
           (rflags_bits OR push_bit 7 1)
         else rflags_bits);
         rflags_bits = (if ((nzcv AND 0x4) \<noteq> 0) then
           (rflags_bits OR push_bit 6 1)
         else rflags_bits);
         rflags_bits = (if ((nzcv AND 0x2) \<noteq> 0) then
           (rflags_bits OR push_bit 0 1)
         else rflags_bits);
         rflags_bits = (if ((nzcv AND 0x1) \<noteq> 0) then
           (rflags_bits OR push_bit 11 1)
         else rflags_bits);
         t = (if (rflags_bits \<noteq> 0) then
           (emits t (\<lambda>buf.
                   let buf = emit_byte buf 0x48;
                       buf = emit_byte buf 0x81;
                       buf = emit_byte buf 0xc8
                   in emit_imm32 buf rflags_bits))
         else t);
         t = emits t (\<lambda>buf.
             let buf = emit_byte buf 0x50
             in emit_byte buf 0x9d);
         end_off = (word_of_int (int (x86_cur t) - int end_loc - 4) :: u32);
         t = poke8 t end_loc (ucast end_off AND 0xff);
         t = poke8 t (end_loc + 1) (ucast (signed_drop_bit 8 end_off) AND 0xff);
         t = poke8 t (end_loc + 2) (ucast (signed_drop_bit 16 end_off) AND 0xff);
         t = poke8 t (end_loc + 3) (ucast (signed_drop_bit 24 end_off) AND 0xff)
      in (ARM2X86_OK, t))"

definition translate_ccmp :: "TranslateCtx \<Rightarrow> u32 \<Rightarrow> int \<times> TranslateCtx" where
  [trans_defs]: "translate_ccmp t op =
     (let rn = (ucast (drop_bit 5 op AND 0x1f) :: u8);
         cond = (ucast (drop_bit 12 op AND 0xf) :: u8);
         nzcv = (ucast (drop_bit 0 op AND 0xf) :: u8);
         is_64bit = (drop_bit 31 op AND 1) \<noteq> 0;
         x86_cond = (arm64_to_x86_cond ! unat cond :: u8);
         t = pc_map_add t (arm64_cur t) (x86_cur t);
         t = emits t (\<lambda>buf.
             let buf = emit_byte buf 0x0f
             in emit_byte buf (0x80 OR x86_cond));
         skip = x86_cur t;
         t = emits t (\<lambda>buf.
             let buf = emit_imm32 buf 0;
                 buf = emit_load_arm_reg buf rn RAX is_64bit;
                 buf = test_r64_r64 buf RAX RAX
             in emit_byte buf 0xe9);
         end_loc = x86_cur t;
         t = emits t (\<lambda>buf. emit_imm32 buf 0);
         skip_off = (word_of_int (int (x86_cur t) - int skip - 4) :: u32);
         t = poke8 t skip (ucast skip_off AND 0xff);
         t = poke8 t (skip + 1) (ucast (signed_drop_bit 8 skip_off) AND 0xff);
         t = poke8 t (skip + 2) (ucast (signed_drop_bit 16 skip_off) AND 0xff);
         t = poke8 t (skip + 3) (ucast (signed_drop_bit 24 skip_off) AND 0xff);
         t = emits t (\<lambda>buf.
             let buf = emit_byte buf 0x9c;
                 buf = emit_byte buf 0x58;
                 buf = emit_byte buf 0x48;
                 buf = emit_byte buf 0x81;
                 buf = emit_byte buf 0xe0
             in emit_imm32 buf (NOT (((push_bit 0 1 OR push_bit 6 1) OR push_bit 7 1) OR push_bit 11 1)));
         rflags_bits = (0 :: u32);
         rflags_bits = (if ((nzcv AND 0x8) \<noteq> 0) then
           (rflags_bits OR push_bit 7 1)
         else rflags_bits);
         rflags_bits = (if ((nzcv AND 0x4) \<noteq> 0) then
           (rflags_bits OR push_bit 6 1)
         else rflags_bits);
         rflags_bits = (if ((nzcv AND 0x2) \<noteq> 0) then
           (rflags_bits OR push_bit 0 1)
         else rflags_bits);
         rflags_bits = (if ((nzcv AND 0x1) \<noteq> 0) then
           (rflags_bits OR push_bit 11 1)
         else rflags_bits);
         t = (if (rflags_bits \<noteq> 0) then
           (emits t (\<lambda>buf.
                   let buf = emit_byte buf 0x48;
                       buf = emit_byte buf 0x81;
                       buf = emit_byte buf 0xc8
                   in emit_imm32 buf rflags_bits))
         else t);
         t = emits t (\<lambda>buf.
             let buf = emit_byte buf 0x50
             in emit_byte buf 0x9d);
         end_off = (word_of_int (int (x86_cur t) - int end_loc - 4) :: u32);
         t = poke8 t end_loc (ucast end_off AND 0xff);
         t = poke8 t (end_loc + 1) (ucast (signed_drop_bit 8 end_off) AND 0xff);
         t = poke8 t (end_loc + 2) (ucast (signed_drop_bit 16 end_off) AND 0xff);
         t = poke8 t (end_loc + 3) (ucast (signed_drop_bit 24 end_off) AND 0xff)
      in (ARM2X86_OK, t))"

definition translate_cset :: "TranslateCtx \<Rightarrow> u32 \<Rightarrow> int \<times> TranslateCtx" where
  [trans_defs]: "translate_cset t op =
     (let rd = (ucast (op AND 0x1f) :: u8);
         cond = (ucast (drop_bit 12 op AND 0xf) :: u8);
         is_64bit = (drop_bit 31 op AND 1) \<noteq> 0;
         x86_cond = (arm64_to_x86_cond ! unat cond :: u8);
         t = pc_map_add t (arm64_cur t) (x86_cur t);
         t = emits t (\<lambda>buf.
             let buf = xor_r64_r64 buf RAX RAX;
                 buf = emit_byte buf 0x0f;
                 buf = emit_byte buf (0x90 OR x86_cond);
                 buf = modrm buf 3 0 (RAX AND 7);
                 buf = movzx_r64_r8 buf RAX RAX
             in emit_store_arm_reg buf RAX rd is_64bit)
      in (ARM2X86_OK, t))"

definition translate_cinc :: "TranslateCtx \<Rightarrow> u32 \<Rightarrow> int \<times> TranslateCtx" where
  [trans_defs]: "translate_cinc t op =
     (let rd = (ucast (op AND 0x1f) :: u8);
         rn = (ucast (drop_bit 5 op AND 0x1f) :: u8);
         cond = (ucast (drop_bit 12 op AND 0xf) :: u8);
         is_64bit = (drop_bit 31 op AND 1) \<noteq> 0;
         x86_cond = (arm64_to_x86_cond ! unat cond :: u8);
         t = pc_map_add t (arm64_cur t) (x86_cur t);
         t = emits t (\<lambda>buf.
             let buf = emit_load_arm_reg buf rn RAX is_64bit;
                 buf = emit_byte buf 0x0f
             in emit_byte buf (0x80 OR x86_cond));
         skip = x86_cur t;
         t = emits t (\<lambda>buf.
             let buf = emit_imm32 buf 0
             in add_r64_imm8 buf RAX 1);
         off = (word_of_int (int (x86_cur t) - int skip - 4) :: u32);
         t = poke8 t skip (ucast off AND 0xff);
         t = poke8 t (skip + 1) (ucast (signed_drop_bit 8 off) AND 0xff);
         t = poke8 t (skip + 2) (ucast (signed_drop_bit 16 off) AND 0xff);
         t = poke8 t (skip + 3) (ucast (signed_drop_bit 24 off) AND 0xff);
         t = emits t (\<lambda>buf. emit_store_arm_reg buf RAX rd is_64bit)
      in (ARM2X86_OK, t))"

definition translate_cinv :: "TranslateCtx \<Rightarrow> u32 \<Rightarrow> int \<times> TranslateCtx" where
  [trans_defs]: "translate_cinv t op =
     (let rd = (ucast (op AND 0x1f) :: u8);
         rn = (ucast (drop_bit 5 op AND 0x1f) :: u8);
         cond = (ucast (drop_bit 12 op AND 0xf) :: u8);
         is_64bit = (drop_bit 31 op AND 1) \<noteq> 0;
         x86_cond = (arm64_to_x86_cond ! unat cond :: u8);
         t = pc_map_add t (arm64_cur t) (x86_cur t);
         t = emits t (\<lambda>buf.
             let buf = emit_load_arm_reg buf rn RAX is_64bit;
                 buf = emit_byte buf 0x0f
             in emit_byte buf (0x80 OR x86_cond));
         skip = x86_cur t;
         t = emits t (\<lambda>buf. emit_imm32 buf 0);
         t = (if is_64bit then
           (emits t (\<lambda>buf. rex_rm buf 0 (drop_bit 3 RAX)))
         else t);
         t = emits t (\<lambda>buf.
             let buf = emit_byte buf 0xf7
             in modrm buf 3 2 (RAX AND 7));
         off = (word_of_int (int (x86_cur t) - int skip - 4) :: u32);
         t = poke8 t skip (ucast off AND 0xff);
         t = poke8 t (skip + 1) (ucast (signed_drop_bit 8 off) AND 0xff);
         t = poke8 t (skip + 2) (ucast (signed_drop_bit 16 off) AND 0xff);
         t = poke8 t (skip + 3) (ucast (signed_drop_bit 24 off) AND 0xff);
         t = emits t (\<lambda>buf. emit_store_arm_reg buf RAX rd is_64bit)
      in (ARM2X86_OK, t))"

definition translate_cneg :: "TranslateCtx \<Rightarrow> u32 \<Rightarrow> int \<times> TranslateCtx" where
  [trans_defs]: "translate_cneg t op =
     (let rd = (ucast (op AND 0x1f) :: u8);
         rn = (ucast (drop_bit 5 op AND 0x1f) :: u8);
         cond = (ucast (drop_bit 12 op AND 0xf) :: u8);
         is_64bit = (drop_bit 31 op AND 1) \<noteq> 0;
         x86_cond = (arm64_to_x86_cond ! unat cond :: u8);
         t = pc_map_add t (arm64_cur t) (x86_cur t);
         t = emits t (\<lambda>buf.
             let buf = emit_load_arm_reg buf rn RAX is_64bit;
                 buf = emit_byte buf 0x0f
             in emit_byte buf (0x80 OR x86_cond));
         skip = x86_cur t;
         t = emits t (\<lambda>buf. emit_imm32 buf 0);
         t = (if is_64bit then
           (emits t (\<lambda>buf. rex_rm buf 0 (drop_bit 3 RAX)))
         else t);
         t = emits t (\<lambda>buf.
             let buf = emit_byte buf 0xf7
             in modrm buf 3 3 (RAX AND 7));
         off = (word_of_int (int (x86_cur t) - int skip - 4) :: u32);
         t = poke8 t skip (ucast off AND 0xff);
         t = poke8 t (skip + 1) (ucast (signed_drop_bit 8 off) AND 0xff);
         t = poke8 t (skip + 2) (ucast (signed_drop_bit 16 off) AND 0xff);
         t = poke8 t (skip + 3) (ucast (signed_drop_bit 24 off) AND 0xff);
         t = emits t (\<lambda>buf. emit_store_arm_reg buf RAX rd is_64bit)
      in (ARM2X86_OK, t))"

definition translate_sxtb :: "TranslateCtx \<Rightarrow> u32 \<Rightarrow> int \<times> TranslateCtx" where
  [trans_defs]: "translate_sxtb t op =
     (let rd = (ucast (op AND 0x1f) :: u8);
         rn = (ucast (drop_bit 5 op AND 0x1f) :: u8);
         is_64bit = (drop_bit 31 op AND 1) \<noteq> 0;
         t = pc_map_add t (arm64_cur t) (x86_cur t);
         t = emits t (\<lambda>buf.
             let buf = emit_load_arm_reg buf rn RAX is_64bit;
                 buf = emit_movsx buf 8 RAX RAX
             in emit_store_arm_reg buf RAX rd is_64bit)
      in (ARM2X86_OK, t))"

definition translate_sxth :: "TranslateCtx \<Rightarrow> u32 \<Rightarrow> int \<times> TranslateCtx" where
  [trans_defs]: "translate_sxth t op =
     (let rd = (ucast (op AND 0x1f) :: u8);
         rn = (ucast (drop_bit 5 op AND 0x1f) :: u8);
         is_64bit = (drop_bit 31 op AND 1) \<noteq> 0;
         t = pc_map_add t (arm64_cur t) (x86_cur t);
         t = emits t (\<lambda>buf.
             let buf = emit_load_arm_reg buf rn RAX is_64bit;
                 buf = emit_movsx buf 16 RAX RAX
             in emit_store_arm_reg buf RAX rd is_64bit)
      in (ARM2X86_OK, t))"

definition translate_uxtb :: "TranslateCtx \<Rightarrow> u32 \<Rightarrow> int \<times> TranslateCtx" where
  [trans_defs]: "translate_uxtb t op =
     (let rd = (ucast (op AND 0x1f) :: u8);
         rn = (ucast (drop_bit 5 op AND 0x1f) :: u8);
         is_64bit = (drop_bit 31 op AND 1) \<noteq> 0;
         t = pc_map_add t (arm64_cur t) (x86_cur t);
         t = emits t (\<lambda>buf.
             let buf = emit_load_arm_reg buf rn RAX is_64bit;
                 buf = emit_movzx buf 8 RAX RAX
             in emit_store_arm_reg buf RAX rd is_64bit)
      in (ARM2X86_OK, t))"

definition translate_uxth :: "TranslateCtx \<Rightarrow> u32 \<Rightarrow> int \<times> TranslateCtx" where
  [trans_defs]: "translate_uxth t op =
     (let rd = (ucast (op AND 0x1f) :: u8);
         rn = (ucast (drop_bit 5 op AND 0x1f) :: u8);
         is_64bit = (drop_bit 31 op AND 1) \<noteq> 0;
         t = pc_map_add t (arm64_cur t) (x86_cur t);
         t = emits t (\<lambda>buf.
             let buf = emit_load_arm_reg buf rn RAX is_64bit;
                 buf = emit_movzx buf 16 RAX RAX
             in emit_store_arm_reg buf RAX rd is_64bit)
      in (ARM2X86_OK, t))"

definition translate_sxtw :: "TranslateCtx \<Rightarrow> u32 \<Rightarrow> int \<times> TranslateCtx" where
  [trans_defs]: "translate_sxtw t op =
     (let rd = (ucast (op AND 0x1f) :: u8);
         rn = (ucast (drop_bit 5 op AND 0x1f) :: u8);
         t = pc_map_add t (arm64_cur t) (x86_cur t);
         t = emits t (\<lambda>buf.
             let buf = emit_load_arm_reg buf rn RAX False;
                 buf = emit_movsxd buf RAX RAX
             in emit_store_arm_reg buf RAX rd True)
      in (ARM2X86_OK, t))"

definition translate_uxtw :: "TranslateCtx \<Rightarrow> u32 \<Rightarrow> int \<times> TranslateCtx" where
  [trans_defs]: "translate_uxtw t op =
     (let rd = (ucast (op AND 0x1f) :: u8);
         rn = (ucast (drop_bit 5 op AND 0x1f) :: u8);
         t = pc_map_add t (arm64_cur t) (x86_cur t);
         t = emits t (\<lambda>buf.
             let buf = emit_load_arm_reg buf rn RAX False
             in emit_store_arm_reg buf RAX rd True)
      in (ARM2X86_OK, t))"

definition translate_clz :: "TranslateCtx \<Rightarrow> u32 \<Rightarrow> int \<times> TranslateCtx" where
  [trans_defs]: "translate_clz t op =
     (let rd = (ucast (op AND 0x1f) :: u8);
         rn = (ucast (drop_bit 5 op AND 0x1f) :: u8);
         is_64bit = (drop_bit 31 op AND 1) \<noteq> 0;
         t = pc_map_add t (arm64_cur t) (x86_cur t);
         t = emits t (\<lambda>buf.
             let buf = emit_load_arm_reg buf rn RAX is_64bit;
                 buf = test_r64_r64 buf RAX RAX;
                 buf = emit_byte buf 0x0f
             in emit_byte buf 0x84);
         zero_case = x86_cur t;
         t = emits t (\<lambda>buf.
             let buf = emit_imm32 buf 0;
                 buf = rex_r buf RAX RAX;
                 buf = emit_byte buf 0xf3;
                 buf = emit_byte buf 0x0f;
                 buf = emit_byte buf 0xbd
             in modrm buf 3 (RAX AND 7) (RAX AND 7));
         end_loc = x86_cur t;
         t = emits t (\<lambda>buf.
             let buf = emit_byte buf 0xe9
             in emit_imm32 buf 0);
         zero_off = (word_of_int (int (x86_cur t) - int zero_case - 4) :: u32);
         t = poke8 t zero_case (ucast zero_off AND 0xff);
         t = poke8 t (zero_case + 1) (ucast (signed_drop_bit 8 zero_off) AND 0xff);
         t = poke8 t (zero_case + 2) (ucast (signed_drop_bit 16 zero_off) AND 0xff);
         t = poke8 t (zero_case + 3) (ucast (signed_drop_bit 24 zero_off) AND 0xff);
         t = emits t (\<lambda>buf. mov_r64_imm buf RAX (if is_64bit then 64 else 32));
         end_off = (word_of_int (int (x86_cur t) - int end_loc - 4) :: u32);
         t = poke8 t end_loc (ucast end_off AND 0xff);
         t = poke8 t (end_loc + 1) (ucast (signed_drop_bit 8 end_off) AND 0xff);
         t = poke8 t (end_loc + 2) (ucast (signed_drop_bit 16 end_off) AND 0xff);
         t = poke8 t (end_loc + 3) (ucast (signed_drop_bit 24 end_off) AND 0xff);
         t = emits t (\<lambda>buf. emit_store_arm_reg buf RAX rd is_64bit)
      in (ARM2X86_OK, t))"

definition translate_rbit :: "TranslateCtx \<Rightarrow> u32 \<Rightarrow> int \<times> TranslateCtx" where
  [trans_defs]: "translate_rbit t op =
     (let rd = (ucast (op AND 0x1f) :: u8);
         rn = (ucast (drop_bit 5 op AND 0x1f) :: u8);
         is64 = (drop_bit 31 op AND 1) \<noteq> 0;
         t = pc_map_add t (arm64_cur t) (x86_cur t);
         t = emits t (\<lambda>buf.
             let buf = emit_load_arm_reg buf rn RAX is64;
                 buf = mov_r64_imm buf R11 (if is64 then 0x5555555555555555 else 0x55555555);
                 buf = emit_byte buf 0x48;
                 buf = emit_byte buf 0x89;
                 buf = modrm buf 3 (RDX AND 7) (RAX AND 7);
                 buf = and_r64_r64 buf RAX R11;
                 buf = shl_r64_imm8 buf RAX 1;
                 buf = shr_r64_imm8 buf RDX 1;
                 buf = and_r64_r64 buf RDX R11;
                 buf = or_r64_r64 buf RAX RDX;
                 buf = mov_r64_imm buf R11 (if is64 then 0x3333333333333333 else 0x33333333);
                 buf = emit_byte buf 0x48;
                 buf = emit_byte buf 0x89;
                 buf = modrm buf 3 (RDX AND 7) (RAX AND 7);
                 buf = and_r64_r64 buf RAX R11;
                 buf = shl_r64_imm8 buf RAX 2;
                 buf = shr_r64_imm8 buf RDX 2;
                 buf = and_r64_r64 buf RDX R11;
                 buf = or_r64_r64 buf RAX RDX;
                 buf = mov_r64_imm buf R11 (if is64 then 0x0F0F0F0F0F0F0F0F else 0x0F0F0F0F);
                 buf = emit_byte buf 0x48;
                 buf = emit_byte buf 0x89;
                 buf = modrm buf 3 (RDX AND 7) (RAX AND 7);
                 buf = and_r64_r64 buf RAX R11;
                 buf = shl_r64_imm8 buf RAX 4;
                 buf = shr_r64_imm8 buf RDX 4;
                 buf = and_r64_r64 buf RDX R11;
                 buf = or_r64_r64 buf RAX RDX
             in emit_bswap buf RAX);
         t = (if (\<not> is64) then
           (emits t (\<lambda>buf.
                   let buf = rex_rm buf 0 (drop_bit 3 RAX);
                       buf = emit_byte buf 0x89
                   in modrm buf 3 (RAX AND 7) (RAX AND 7)))
         else t);
         t = emits t (\<lambda>buf. emit_store_arm_reg buf RAX rd is64)
      in (ARM2X86_OK, t))"

definition translate_rev :: "TranslateCtx \<Rightarrow> u32 \<Rightarrow> int \<times> TranslateCtx" where
  [trans_defs]: "translate_rev t op =
     (let rd = (ucast (op AND 0x1f) :: u8);
         rn = (ucast (drop_bit 5 op AND 0x1f) :: u8);
         is_64bit = (drop_bit 31 op AND 1) \<noteq> 0;
         t = pc_map_add t (arm64_cur t) (x86_cur t);
         t = emits t (\<lambda>buf.
             let buf = emit_load_arm_reg buf rn RAX is_64bit;
                 buf = emit_bswap buf RAX
             in emit_store_arm_reg buf RAX rd is_64bit)
      in (ARM2X86_OK, t))"

definition translate_ldr_literal :: "TranslateCtx \<Rightarrow> u32 \<Rightarrow> int \<times> TranslateCtx" where
  [trans_defs]: "translate_ldr_literal t op =
     (let rt = (ucast (op AND 0x1f) :: u8);
         imm = (arm2x86_sign_extend (ucast (push_bit 2 (drop_bit 5 op AND 0xfffff))) 21 :: u32);
         arm_addr = ((arm64_cur t) + scast imm :: u64);
         is64 = (drop_bit 30 op AND 1) \<noteq> 0;
         t = pc_map_add t (arm64_cur t) (x86_cur t);
         t = emits t (\<lambda>buf. mov_r64_imm buf RAX arm_addr);
         t = (if is64 then
           (emits t (\<lambda>buf.
                   let buf = rex_r buf 1 (drop_bit 3 R11);
                       buf = emit_byte buf 0x8b
                   in modrm buf 0 (R11 AND 7) (RAX AND 7)))
         else (emits t (\<lambda>buf.
                   let buf = emit_byte buf 0x8b
                   in modrm buf 0 (R11 AND 7) (RAX AND 7))));
         t = emits t (\<lambda>buf. emit_store_arm_reg buf R11 rt is64)
      in (ARM2X86_OK, t))"

end
