(* ===== verification/Translate64_Sys.thy ===== *)
theory Translate64_Sys
  imports RegAlloc
begin

text \<open>
  \<open>src/modules/arm2x86_translate64.c\<close>, the rest of the translators: byte and halfword accesses,
  prefetch, system registers, floating point, atomics, hints, CRC and cryptography, exceptions and
  the conditional variants. The conventions are those of theory \<open>Translate64\<close>.

  \<open>Platform\<close> collects what the generated code takes from the host: the bit patterns of the doubles
  and floats that \<open>translate_fmov_imm\<close> computes with the host's floating point, and the addresses of
  the runtime functions that system register accesses call.
\<close>

record Platform =
  fp_bits64 :: "u32 \<Rightarrow> u64"
  fp_bits32 :: "u32 \<Rightarrow> u32"
  addr_mrs_tpidr_el0 :: u64
  addr_mrs_tpidrro_el0 :: u64
  addr_msr_tpidr_el0 :: u64

definition translate_ldrb_strb :: "TranslateCtx \<Rightarrow> u32 \<Rightarrow> bool \<Rightarrow> int \<times> TranslateCtx" where
  [trans_defs]: "translate_ldrb_strb t op is_load =
     (let rt = (ucast (op AND 0x1f) :: u8);
         rn = (ucast (drop_bit 5 op AND 0x1f) :: u8);
         imm = (op AND 0xfff :: u32);
         is_64bit = (drop_bit 31 op AND 1) \<noteq> 0;
         t = pc_map_add t (arm64_cur t) (x86_cur t);
         t = emits t (\<lambda>buf. emit_load_arm_reg buf rn RAX True);
         t = (if is_load then
           (emits t (\<lambda>buf.
                   let buf = rex_r buf 0 RAX;
                       buf = emit_byte buf 0x0f;
                       buf = emit_byte buf 0xb6;
                       buf = emit_modrm_disp buf (R11 AND 7) RAX imm
                   in emit_store_arm_reg buf R11 rt is_64bit))
         else (emits t (\<lambda>buf.
                   let buf = emit_load_arm_reg buf rt R11 False;
                       buf = rex_r buf 0 RAX;
                       buf = emit_byte buf 0x88
                   in emit_modrm_disp buf (R11 AND 7) RAX imm)))
      in (ARM2X86_OK, t))"

definition translate_ldrh_strh :: "TranslateCtx \<Rightarrow> u32 \<Rightarrow> bool \<Rightarrow> int \<times> TranslateCtx" where
  [trans_defs]: "translate_ldrh_strh t op is_load =
     (let rt = (ucast (op AND 0x1f) :: u8);
         rn = (ucast (drop_bit 5 op AND 0x1f) :: u8);
         imm = (op AND 0xfff :: u32);
         is_64bit = (drop_bit 31 op AND 1) \<noteq> 0;
         t = pc_map_add t (arm64_cur t) (x86_cur t);
         t = emits t (\<lambda>buf. emit_load_arm_reg buf rn RAX True);
         t = (if is_load then
           (emits t (\<lambda>buf.
                   let buf = rex_r buf 0 RAX;
                       buf = emit_byte buf 0x0f;
                       buf = emit_byte buf 0xb7;
                       buf = emit_modrm_disp buf (R11 AND 7) RAX imm
                   in emit_store_arm_reg buf R11 rt is_64bit))
         else (emits t (\<lambda>buf.
                   let buf = emit_load_arm_reg buf rt R11 False;
                       buf = rex_r buf 0 RAX;
                       buf = emit_byte buf 0x66;
                       buf = emit_byte buf 0x89
                   in emit_modrm_disp buf (R11 AND 7) RAX imm)))
      in (ARM2X86_OK, t))"

definition translate_ldrsb :: "TranslateCtx \<Rightarrow> u32 \<Rightarrow> int \<times> TranslateCtx" where
  [trans_defs]: "translate_ldrsb t op =
     (let rt = (ucast (op AND 0x1f) :: u8);
         rn = (ucast (drop_bit 5 op AND 0x1f) :: u8);
         imm = (op AND 0xfff :: u32);
         is_64bit = (drop_bit 31 op AND 1) \<noteq> 0;
         t = pc_map_add t (arm64_cur t) (x86_cur t);
         t = emits t (\<lambda>buf.
             let buf = emit_load_arm_reg buf rn RAX True;
                 buf = rex_r buf 1 RAX;
                 buf = emit_byte buf 0x0f;
                 buf = emit_byte buf 0xbe;
                 buf = emit_modrm_disp buf (R11 AND 7) RAX imm
             in emit_store_arm_reg buf R11 rt is_64bit)
      in (ARM2X86_OK, t))"

definition translate_ldrsh :: "TranslateCtx \<Rightarrow> u32 \<Rightarrow> int \<times> TranslateCtx" where
  [trans_defs]: "translate_ldrsh t op =
     (let rt = (ucast (op AND 0x1f) :: u8);
         rn = (ucast (drop_bit 5 op AND 0x1f) :: u8);
         imm = (op AND 0xfff :: u32);
         is_64bit = (drop_bit 31 op AND 1) \<noteq> 0;
         t = pc_map_add t (arm64_cur t) (x86_cur t);
         t = emits t (\<lambda>buf.
             let buf = emit_load_arm_reg buf rn RAX True;
                 buf = rex_r buf 1 RAX;
                 buf = emit_byte buf 0x0f;
                 buf = emit_byte buf 0xbf;
                 buf = emit_modrm_disp buf (R11 AND 7) RAX imm
             in emit_store_arm_reg buf R11 rt is_64bit)
      in (ARM2X86_OK, t))"

definition translate_ldrsw :: "TranslateCtx \<Rightarrow> u32 \<Rightarrow> int \<times> TranslateCtx" where
  [trans_defs]: "translate_ldrsw t op =
     (let rt = (ucast (op AND 0x1f) :: u8);
         rn = (ucast (drop_bit 5 op AND 0x1f) :: u8);
         imm = (op AND 0xfff :: u32);
         t = pc_map_add t (arm64_cur t) (x86_cur t);
         t = emits t (\<lambda>buf.
             let buf = emit_load_arm_reg buf rn RAX True;
                 buf = rex_r buf 1 RAX;
                 buf = emit_byte buf 0x63;
                 buf = emit_modrm_disp buf (R11 AND 7) RAX imm
             in emit_store_arm_reg buf R11 rt True)
      in (ARM2X86_OK, t))"

definition translate_prfm :: "TranslateCtx \<Rightarrow> u32 \<Rightarrow> int \<times> TranslateCtx" where
  [trans_defs]: "translate_prfm t op =
     (let rt = (ucast (op AND 0x1f) :: u8);
         rn = (ucast (drop_bit 5 op AND 0x1f) :: u8);
         option = (ucast (drop_bit 13 op AND 0x7) :: u16);
         imm = (0 :: u64);
         imm9 = (ucast (drop_bit 10 op AND 0x1ff) :: u64);
         imm = (if ((imm9 AND 0x100) \<noteq> 0) then
           (imm9 - 0x200)
         else (imm9));
         prefetch_type = (drop_bit 3 rt AND 0x3 :: u8);
         prefetch_target = (rt AND 0x7 :: u8);
         t = pc_map_add t (arm64_cur t) (x86_cur t);
         t = emits t (\<lambda>buf. emit_load_arm_reg buf rn RAX True);
         t = (if (imm \<noteq> 0) then
           (emits t (\<lambda>buf.
                   let buf = rex buf True 0 0 (drop_bit 3 R11);
                       buf = emit_byte buf 0x8d
                   in emit_modrm_disp buf (R11 AND 7) RAX (ucast imm)))
         else t);
         base_reg = ((if (imm \<noteq> 0) then R11 else RAX) :: u8);
         t = (if ((prefetch_type = 0) \<or> (prefetch_type = 2)) then
           (if (prefetch_target \<le> 1) then
                 (emits t (\<lambda>buf.
                         let buf = emit_byte buf 0x0f;
                             buf = emit_byte buf 0x18
                         in modrm buf 0 0 (base_reg AND 7)))
               else (if (prefetch_target \<le> 3) then
                 (emits t (\<lambda>buf.
                         let buf = emit_byte buf 0x0f;
                             buf = emit_byte buf 0x18
                         in modrm buf 0 1 (base_reg AND 7)))
               else (if (prefetch_target \<le> 5) then
                 (emits t (\<lambda>buf.
                         let buf = emit_byte buf 0x0f;
                             buf = emit_byte buf 0x18
                         in modrm buf 0 2 (base_reg AND 7)))
               else (emits t (\<lambda>buf.
                         let buf = emit_byte buf 0x0f;
                             buf = emit_byte buf 0x18
                         in modrm buf 0 3 (base_reg AND 7))))))
         else (if (prefetch_type = 1) then
           (emits t (\<lambda>buf.
                   let buf = emit_byte buf 0x0f;
                       buf = emit_byte buf 0x18
                   in modrm buf 0 0 (base_reg AND 7)))
         else (emits t (\<lambda>buf. emit_byte buf 0x90))))
      in (ARM2X86_OK, t))"

text \<open>\<open>(op0 << 14) | (op1 << 11) | (crn << 7) | (crm << 3) | op2\<close>\<close>

definition sysreg_of :: "u32 \<Rightarrow> u64" where
  "sysreg_of op =
     (let op0 = (ucast (drop_bit 19 op AND 0x7) :: u16);
          op1 = (ucast (drop_bit 16 op AND 0x7) :: u16);
          crn = (ucast (drop_bit 12 op AND 0xf) :: u16);
          crm = (ucast (drop_bit 8 op AND 0xf) :: u16);
          op2 = (ucast (drop_bit 5 op AND 0x7) :: u16)
      in scast ((((push_bit 14 (ucast op0) OR push_bit 11 (ucast op1)) OR push_bit 7 (ucast crn))
                 OR push_bit 3 (ucast crm)) OR ucast op2 :: u32))"

definition translate_mrs :: "Platform \<Rightarrow> TranslateCtx \<Rightarrow> u32 \<Rightarrow> int \<times> TranslateCtx" where
  [trans_defs]: "translate_mrs pf t op =
     (let rt = (ucast (op AND 0x1f) :: u8);
          t = pc_map_add t (arm64_cur t) (x86_cur t);
          sysreg = sysreg_of op;
          t = (if sysreg = 0xD530001F then
                 emits t (\<lambda>buf.
                   let buf = emit_byte buf (0x50 + 0);
                       buf = emit_byte buf (0x50 + 1);
                       buf = emit_byte buf (0x50 + 2);
                       buf = emit_byte buf (0x50 + 8);
                       buf = emit_byte buf (0x50 + 9);
                       buf = emit_byte buf 0x48;
                       buf = emit_byte buf 0xb8;
                       buf = buf @ le64 (addr_mrs_tpidr_el0 pf);
                       buf = emit_byte buf 0xff;
                       buf = emit_byte buf 0xd0;
                       buf = emit_store_arm_reg buf RAX rt True;
                       buf = emit_byte buf (0x58 + 9);
                       buf = emit_byte buf (0x58 + 8);
                       buf = emit_byte buf (0x58 + 2);
                       buf = emit_byte buf (0x58 + 1)
                   in emit_byte buf (0x58 + 0))
               else if sysreg = 0xD530002F then
                 emits t (\<lambda>buf.
                   let buf = emit_byte buf 0x50;
                       buf = emit_byte buf 0x48;
                       buf = emit_byte buf 0xb8;
                       buf = buf @ le64 (addr_mrs_tpidrro_el0 pf);
                       buf = emit_byte buf 0xff;
                       buf = emit_byte buf 0xd0;
                       buf = emit_store_arm_reg buf RAX rt True
                   in emit_byte buf 0x58)
               else if sysreg = 0xD5304000 then
                 emits t (\<lambda>buf.
                   let buf = emit_byte buf 0x9c;
                       buf = emit_byte buf 0x58
                   in emit_store_arm_reg buf RAX rt True)
               else if sysreg = 0xD5304001 then
                 emits t (\<lambda>buf.
                   let buf = mov_r64_imm buf RAX 0x00001F80
                   in emit_store_arm_reg buf RAX rt True)
               else if sysreg = 0xD5304002 then
                 emits t (\<lambda>buf.
                   let buf = xor_r64_r64 buf RAX RAX
                   in emit_store_arm_reg buf RAX rt True)
               else if sysreg = 0xD5300000 then
                 emits t (\<lambda>buf.
                   let buf = emit_byte buf 0x0f;
                       buf = emit_byte buf 0x31;
                       buf = shl_r64_imm8 buf RDX 32;
                       buf = or_r64_r64 buf RDX RAX
                   in emit_store_arm_reg buf RDX rt True)
               else
                 emits t (\<lambda>buf.
                   let buf = xor_r64_r64 buf RAX RAX
                   in emit_store_arm_reg buf RAX rt True))
      in (ARM2X86_OK, t))"

definition translate_msr :: "Platform \<Rightarrow> TranslateCtx \<Rightarrow> u32 \<Rightarrow> int \<times> TranslateCtx" where
  [trans_defs]: "translate_msr pf t op =
     (let rt = (ucast (op AND 0x1f) :: u8);
          t = pc_map_add t (arm64_cur t) (x86_cur t);
          sysreg = sysreg_of op;
          t = (if sysreg = 0xD510001F then
                 emits t (\<lambda>buf.
                   let buf = emit_byte buf 0x50;
                       buf = emit_byte buf 0x51;
                       buf = emit_byte buf 0x52;
                       buf = emit_byte buf 0x57;
                       buf = emit_byte buf 0x56;
                       buf = emit_byte buf 0x53;
                       buf = emit_load_arm_reg buf rt RDI True;
                       buf = emit_byte buf 0xff;
                       buf = emit_byte buf 0x15;
                       buf = emit_byte buf 0x00;
                       buf = emit_byte buf 0x00;
                       buf = emit_byte buf 0x00;
                       buf = emit_byte buf 0x00;
                       buf = buf @ le64 (addr_msr_tpidr_el0 pf);
                       buf = emit_byte buf 0x5b;
                       buf = emit_byte buf 0x5e;
                       buf = emit_byte buf 0x5f;
                       buf = emit_byte buf 0x5a;
                       buf = emit_byte buf 0x59
                   in emit_byte buf 0x58)
               else if sysreg = 0xD5104000 then
                 emits t (\<lambda>buf.
                   let buf = emit_load_arm_reg buf rt RAX True;
                       buf = emit_byte buf 0x50
                   in emit_byte buf 0x9d)
               else if sysreg = 0xD5104001 then
                 emits t (\<lambda>buf.
                   let buf = emit_load_arm_reg buf rt RAX True;
                       buf = emit_byte buf 0x0f;
                       buf = emit_byte buf 0xae
                   in modrm buf 3 3 (RAX AND 7))
               else t)
      in (ARM2X86_OK, t))"

definition emit_load_arm_reg_fp :: "code \<Rightarrow> u8 \<Rightarrow> u8 \<Rightarrow> bool \<Rightarrow> code" where
  [emit_defs]: "emit_load_arm_reg_fp buf arm_reg xmm_reg is_double =
     (let offset = ARM_REG_OFFSET arm_reg in
      if is_double then
        (let buf = rex_r buf R11 RBP;
             buf = emit_byte buf 0x8b;
             buf = modrm buf 2 (R11 AND 7) 5;
             buf = emit_imm32 buf offset;
             buf = emit_byte buf 0x66;
             buf = emit_byte buf 0x48;
             buf = emit_byte buf 0x0f;
             buf = emit_byte buf 0x6e
         in modrm buf 3 (xmm_reg AND 7) (R11 AND 7))
      else
        (let buf = rex_r buf R11 RBP;
             buf = emit_byte buf 0x8b;
             buf = modrm buf 2 (R11 AND 7) 5;
             buf = emit_imm32 buf offset;
             buf = emit_byte buf 0x66;
             buf = emit_byte buf 0x0f;
             buf = emit_byte buf 0x6e
         in modrm buf 3 (xmm_reg AND 7) (R11 AND 7)))"

definition emit_store_arm_reg_fp :: "code \<Rightarrow> u8 \<Rightarrow> u8 \<Rightarrow> bool \<Rightarrow> code" where
  [emit_defs]: "emit_store_arm_reg_fp buf xmm_reg arm_reg is_double =
     (let offset = ARM_REG_OFFSET arm_reg in
      if is_double then
        (let buf = emit_byte buf 0x66;
             buf = emit_byte buf 0x48;
             buf = emit_byte buf 0x0f;
             buf = emit_byte buf 0x7e;
             buf = modrm buf 3 (R11 AND 7) (xmm_reg AND 7);
             buf = rex_rm buf (drop_bit 3 R11) 0;
             buf = emit_byte buf 0x89;
             buf = modrm buf 2 (R11 AND 7) 5
         in emit_imm32 buf offset)
      else
        (let buf = emit_byte buf 0x66;
             buf = emit_byte buf 0x0f;
             buf = emit_byte buf 0x7e;
             buf = modrm buf 3 (R11 AND 7) (xmm_reg AND 7);
             buf = rex_rm buf (drop_bit 3 R11) 0;
             buf = emit_byte buf 0x89;
             buf = modrm buf 2 (R11 AND 7) 5
         in emit_imm32 buf offset))"

definition translate_fadd :: "TranslateCtx \<Rightarrow> u32 \<Rightarrow> int \<times> TranslateCtx" where
  [trans_defs]: "translate_fadd t op =
     (let rd = (ucast (op AND 0x1f) :: u8);
         rn = (ucast (drop_bit 5 op AND 0x1f) :: u8);
         rm = (ucast (drop_bit 16 op AND 0x1f) :: u8);
         is_double = (drop_bit 22 op AND 1) \<noteq> 0;
         t = pc_map_add t (arm64_cur t) (x86_cur t);
         t = emits t (\<lambda>buf.
             let buf = emit_load_arm_reg_fp buf rn 0 is_double
             in emit_load_arm_reg_fp buf rm 1 is_double);
         t = (if is_double then
           (emits t (\<lambda>buf. emit_addsd_xmm_xmm buf 0 1))
         else (emits t (\<lambda>buf.
                   let buf = emit_byte buf 0xf3;
                       buf = emit_byte buf 0x0f;
                       buf = emit_byte buf 0x58
                   in modrm buf 3 (0 AND 7) (1 AND 7))));
         t = emits t (\<lambda>buf. emit_store_arm_reg_fp buf 0 rd is_double)
      in (ARM2X86_OK, t))"

definition translate_fsub :: "TranslateCtx \<Rightarrow> u32 \<Rightarrow> int \<times> TranslateCtx" where
  [trans_defs]: "translate_fsub t op =
     (let rd = (ucast (op AND 0x1f) :: u8);
         rn = (ucast (drop_bit 5 op AND 0x1f) :: u8);
         rm = (ucast (drop_bit 16 op AND 0x1f) :: u8);
         is_double = (drop_bit 22 op AND 1) \<noteq> 0;
         t = pc_map_add t (arm64_cur t) (x86_cur t);
         t = emits t (\<lambda>buf.
             let buf = emit_load_arm_reg_fp buf rn 0 is_double
             in emit_load_arm_reg_fp buf rm 1 is_double);
         t = (if is_double then
           (emits t (\<lambda>buf. emit_subsd_xmm_xmm buf 0 1))
         else (emits t (\<lambda>buf.
                   let buf = emit_byte buf 0xf3;
                       buf = emit_byte buf 0x0f;
                       buf = emit_byte buf 0x5c
                   in modrm buf 3 (0 AND 7) (1 AND 7))));
         t = emits t (\<lambda>buf. emit_store_arm_reg_fp buf 0 rd is_double)
      in (ARM2X86_OK, t))"

definition translate_fmul :: "TranslateCtx \<Rightarrow> u32 \<Rightarrow> int \<times> TranslateCtx" where
  [trans_defs]: "translate_fmul t op =
     (let rd = (ucast (op AND 0x1f) :: u8);
         rn = (ucast (drop_bit 5 op AND 0x1f) :: u8);
         rm = (ucast (drop_bit 16 op AND 0x1f) :: u8);
         is_double = (drop_bit 22 op AND 1) \<noteq> 0;
         t = pc_map_add t (arm64_cur t) (x86_cur t);
         t = emits t (\<lambda>buf.
             let buf = emit_load_arm_reg_fp buf rn 0 is_double
             in emit_load_arm_reg_fp buf rm 1 is_double);
         t = (if is_double then
           (emits t (\<lambda>buf. emit_mulsd_xmm_xmm buf 0 1))
         else (emits t (\<lambda>buf.
                   let buf = emit_byte buf 0xf3;
                       buf = emit_byte buf 0x0f;
                       buf = emit_byte buf 0x59
                   in modrm buf 3 (0 AND 7) (1 AND 7))));
         t = emits t (\<lambda>buf. emit_store_arm_reg_fp buf 0 rd is_double)
      in (ARM2X86_OK, t))"

definition translate_fdiv :: "TranslateCtx \<Rightarrow> u32 \<Rightarrow> int \<times> TranslateCtx" where
  [trans_defs]: "translate_fdiv t op =
     (let rd = (ucast (op AND 0x1f) :: u8);
         rn = (ucast (drop_bit 5 op AND 0x1f) :: u8);
         rm = (ucast (drop_bit 16 op AND 0x1f) :: u8);
         is_double = (drop_bit 22 op AND 1) \<noteq> 0;
         t = pc_map_add t (arm64_cur t) (x86_cur t);
         t = emits t (\<lambda>buf.
             let buf = emit_load_arm_reg_fp buf rn 0 is_double
             in emit_load_arm_reg_fp buf rm 1 is_double);
         t = (if is_double then
           (emits t (\<lambda>buf. emit_divsd_xmm_xmm buf 0 1))
         else (emits t (\<lambda>buf.
                   let buf = emit_byte buf 0xf3;
                       buf = emit_byte buf 0x0f;
                       buf = emit_byte buf 0x5e
                   in modrm buf 3 (0 AND 7) (1 AND 7))));
         t = emits t (\<lambda>buf. emit_store_arm_reg_fp buf 0 rd is_double)
      in (ARM2X86_OK, t))"

definition translate_fcmp :: "TranslateCtx \<Rightarrow> u32 \<Rightarrow> int \<times> TranslateCtx" where
  [trans_defs]: "translate_fcmp t op =
     (let rn = (ucast (drop_bit 5 op AND 0x1f) :: u8);
         rm = (ucast (drop_bit 16 op AND 0x1f) :: u8);
         is_double = (drop_bit 22 op AND 1) \<noteq> 0;
         t = pc_map_add t (arm64_cur t) (x86_cur t);
         t = emits t (\<lambda>buf.
             let buf = emit_load_arm_reg_fp buf rn 0 is_double;
                 buf = emit_load_arm_reg_fp buf rm 1 is_double
             in comisd_xmm_xmm buf 0 1)
      in (ARM2X86_OK, t))"

definition translate_fcvt :: "TranslateCtx \<Rightarrow> u32 \<Rightarrow> int \<times> TranslateCtx" where
  [trans_defs]: "translate_fcvt t op =
     (let rd = (ucast (op AND 0x1f) :: u8);
         rn = (ucast (drop_bit 5 op AND 0x1f) :: u8);
         src_is_double = ((if ((drop_bit 22 op AND 3) = 1) then 1 else 0) :: u32);
         dst_is_double = ((if ((drop_bit 29 op AND 3) = 1) then 1 else 0) :: u32);
         t = pc_map_add t (arm64_cur t) (x86_cur t);
         t = emits t (\<lambda>buf. emit_load_arm_reg_fp buf rn 0 (src_is_double \<noteq> 0));
         t = (if ((\<not> (src_is_double \<noteq> 0)) \<and> (dst_is_double \<noteq> 0)) then
           (emits t (\<lambda>buf.
                   let buf = emit_cvtss2sd buf 0 0
                   in emit_store_arm_reg_fp buf 0 rd True))
         else (if ((src_is_double \<noteq> 0) \<and> (\<not> (dst_is_double \<noteq> 0))) then
           (emits t (\<lambda>buf.
                   let buf = emit_cvtsd2ss buf 0 0
                   in emit_store_arm_reg_fp buf 0 rd False))
         else t))
      in (ARM2X86_OK, t))"

text \<open>The value that \<open>imm8\<close> denotes is computed by the host in \<open>double\<close>; \<open>pf\<close> supplies its bits.\<close>

definition translate_fmov_imm :: "Platform \<Rightarrow> TranslateCtx \<Rightarrow> u32 \<Rightarrow> int \<times> TranslateCtx" where
  [trans_defs]: "translate_fmov_imm pf t op =
     (let rd = (ucast (op AND 0x1f) :: u8);
          is_double = (drop_bit 22 op AND 1) \<noteq> 0;
          t = pc_map_add t (arm64_cur t) (x86_cur t);
          imm8 = ((drop_bit 13 op AND 0x40) OR (drop_bit 5 op AND 0x3f) :: u32);
          t = (if is_double then
                 emits t (\<lambda>buf.
                   let buf = mov_r64_imm buf R11 (fp_bits64 pf imm8);
                       buf = emit_byte buf 0x66;
                       buf = emit_byte buf 0x48;
                       buf = emit_byte buf 0x0f;
                       buf = emit_byte buf 0x6e;
                       buf = modrm buf 3 (0 AND 7) (R11 AND 7)
                   in emit_store_arm_reg_fp buf 0 rd True)
               else
                 emits t (\<lambda>buf.
                   let buf = mov_r64_imm buf R11 (ucast (fp_bits32 pf imm8));
                       buf = emit_byte buf 0x66;
                       buf = emit_byte buf 0x0f;
                       buf = emit_byte buf 0x6e;
                       buf = modrm buf 3 (0 AND 7) (R11 AND 7)
                   in emit_store_arm_reg_fp buf 0 rd False))
      in (ARM2X86_OK, t))"

definition translate_fsqrt :: "TranslateCtx \<Rightarrow> u32 \<Rightarrow> int \<times> TranslateCtx" where
  [trans_defs]: "translate_fsqrt t op =
     (let rd = (ucast (op AND 0x1f) :: u8);
         rn = (ucast (drop_bit 5 op AND 0x1f) :: u8);
         is_double = (drop_bit 22 op AND 1) \<noteq> 0;
         t = pc_map_add t (arm64_cur t) (x86_cur t);
         t = emits t (\<lambda>buf. emit_load_arm_reg_fp buf rn 0 is_double);
         t = (if is_double then
           (emits t (\<lambda>buf. emit_sqrtsd_xmm_xmm buf 0 0))
         else (emits t (\<lambda>buf.
                   let buf = emit_byte buf 0xf3;
                       buf = emit_byte buf 0x0f;
                       buf = emit_byte buf 0x51
                   in modrm buf 3 (0 AND 7) (0 AND 7))));
         t = emits t (\<lambda>buf. emit_store_arm_reg_fp buf 0 rd is_double)
      in (ARM2X86_OK, t))"

definition translate_fabs :: "TranslateCtx \<Rightarrow> u32 \<Rightarrow> int \<times> TranslateCtx" where
  [trans_defs]: "translate_fabs t op =
     (let rd = (ucast (op AND 0x1f) :: u8);
         rn = (ucast (drop_bit 5 op AND 0x1f) :: u8);
         is_double = (drop_bit 22 op AND 1) \<noteq> 0;
         t = pc_map_add t (arm64_cur t) (x86_cur t);
         t = emits t (\<lambda>buf. emit_load_arm_reg_fp buf rn 0 is_double);
         t = (if is_double then
           (emits t (\<lambda>buf.
                   let buf = emit_byte buf 0x66;
                       buf = emit_byte buf 0x48;
                       buf = emit_byte buf 0x0f;
                       buf = emit_byte buf 0x7e;
                       buf = modrm buf 3 (R11 AND 7) (0 AND 7);
                       buf = mov_r64_imm buf RCX 0x7fffffffffffffff;
                       buf = and_r64_r64 buf R11 RCX;
                       buf = emit_byte buf 0x66;
                       buf = emit_byte buf 0x48;
                       buf = emit_byte buf 0x0f;
                       buf = emit_byte buf 0x6e
                   in modrm buf 3 (0 AND 7) (R11 AND 7)))
         else (emits t (\<lambda>buf.
                   let buf = emit_byte buf 0x66;
                       buf = emit_byte buf 0x0f;
                       buf = emit_byte buf 0x7e;
                       buf = modrm buf 3 (R11 AND 7) (0 AND 7);
                       buf = mov_r64_imm buf RCX 0x7fffffff;
                       buf = and_r64_r64 buf R11 RCX;
                       buf = emit_byte buf 0x66;
                       buf = emit_byte buf 0x0f;
                       buf = emit_byte buf 0x6e
                   in modrm buf 3 (0 AND 7) (R11 AND 7))));
         t = emits t (\<lambda>buf. emit_store_arm_reg_fp buf 0 rd is_double)
      in (ARM2X86_OK, t))"

definition translate_fneg :: "TranslateCtx \<Rightarrow> u32 \<Rightarrow> int \<times> TranslateCtx" where
  [trans_defs]: "translate_fneg t op =
     (let rd = (ucast (op AND 0x1f) :: u8);
         rn = (ucast (drop_bit 5 op AND 0x1f) :: u8);
         is_double = (drop_bit 22 op AND 1) \<noteq> 0;
         t = pc_map_add t (arm64_cur t) (x86_cur t);
         t = emits t (\<lambda>buf. emit_load_arm_reg_fp buf rn 0 is_double);
         t = (if is_double then
           (emits t (\<lambda>buf.
                   let buf = emit_byte buf 0x66;
                       buf = emit_byte buf 0x48;
                       buf = emit_byte buf 0x0f;
                       buf = emit_byte buf 0x7e;
                       buf = modrm buf 3 (R11 AND 7) (0 AND 7);
                       buf = mov_r64_imm buf RCX 0x8000000000000000;
                       buf = xor_r64_r64 buf R11 RCX;
                       buf = emit_byte buf 0x66;
                       buf = emit_byte buf 0x48;
                       buf = emit_byte buf 0x0f;
                       buf = emit_byte buf 0x6e
                   in modrm buf 3 (0 AND 7) (R11 AND 7)))
         else (emits t (\<lambda>buf.
                   let buf = emit_byte buf 0x66;
                       buf = emit_byte buf 0x0f;
                       buf = emit_byte buf 0x7e;
                       buf = modrm buf 3 (R11 AND 7) (0 AND 7);
                       buf = mov_r64_imm buf RCX 0x80000000;
                       buf = xor_r64_r64 buf R11 RCX;
                       buf = emit_byte buf 0x66;
                       buf = emit_byte buf 0x0f;
                       buf = emit_byte buf 0x6e
                   in modrm buf 3 (0 AND 7) (R11 AND 7))));
         t = emits t (\<lambda>buf. emit_store_arm_reg_fp buf 0 rd is_double)
      in (ARM2X86_OK, t))"

definition translate_fmadd :: "TranslateCtx \<Rightarrow> u32 \<Rightarrow> int \<times> TranslateCtx" where
  [trans_defs]: "translate_fmadd t op =
     (let rd = (ucast (op AND 0x1f) :: u8);
         rn = (ucast (drop_bit 5 op AND 0x1f) :: u8);
         rm = (ucast (drop_bit 16 op AND 0x1f) :: u8);
         ra = (ucast (drop_bit 10 op AND 0x1f) :: u8);
         is_double = (drop_bit 22 op AND 1) \<noteq> 0;
         t = pc_map_add t (arm64_cur t) (x86_cur t);
         t = emits t (\<lambda>buf.
             let buf = emit_load_arm_reg_fp buf ra 0 is_double;
                 buf = emit_load_arm_reg_fp buf rn 1 is_double
             in emit_load_arm_reg_fp buf rm 2 is_double);
         t = (if is_double then
           (emits t (\<lambda>buf.
                   let buf = emit_mulsd_xmm_xmm buf 1 2
                   in emit_addsd_xmm_xmm buf 0 1))
         else (emits t (\<lambda>buf.
                   let buf = emit_byte buf 0xf3;
                       buf = emit_byte buf 0x0f;
                       buf = emit_byte buf 0x59;
                       buf = modrm buf 3 (1 AND 7) (2 AND 7);
                       buf = emit_byte buf 0xf3;
                       buf = emit_byte buf 0x0f;
                       buf = emit_byte buf 0x58
                   in modrm buf 3 (0 AND 7) (1 AND 7))));
         t = emits t (\<lambda>buf. emit_store_arm_reg_fp buf 0 rd is_double)
      in (ARM2X86_OK, t))"

definition translate_fmsub :: "TranslateCtx \<Rightarrow> u32 \<Rightarrow> int \<times> TranslateCtx" where
  [trans_defs]: "translate_fmsub t op =
     (let rd = (ucast (op AND 0x1f) :: u8);
         rn = (ucast (drop_bit 5 op AND 0x1f) :: u8);
         rm = (ucast (drop_bit 16 op AND 0x1f) :: u8);
         ra = (ucast (drop_bit 10 op AND 0x1f) :: u8);
         is_double = (drop_bit 22 op AND 1) \<noteq> 0;
         t = pc_map_add t (arm64_cur t) (x86_cur t);
         t = emits t (\<lambda>buf.
             let buf = emit_load_arm_reg_fp buf ra 0 is_double;
                 buf = emit_load_arm_reg_fp buf rn 1 is_double
             in emit_load_arm_reg_fp buf rm 2 is_double);
         t = (if is_double then
           (emits t (\<lambda>buf.
                   let buf = emit_mulsd_xmm_xmm buf 1 2
                   in emit_subsd_xmm_xmm buf 0 1))
         else (emits t (\<lambda>buf.
                   let buf = emit_byte buf 0xf3;
                       buf = emit_byte buf 0x0f;
                       buf = emit_byte buf 0x59;
                       buf = modrm buf 3 (1 AND 7) (2 AND 7);
                       buf = emit_byte buf 0xf3;
                       buf = emit_byte buf 0x0f;
                       buf = emit_byte buf 0x5c
                   in modrm buf 3 (0 AND 7) (1 AND 7))));
         t = emits t (\<lambda>buf. emit_store_arm_reg_fp buf 0 rd is_double)
      in (ARM2X86_OK, t))"

definition translate_ldaxr :: "TranslateCtx \<Rightarrow> u32 \<Rightarrow> int \<times> TranslateCtx" where
  [trans_defs]: "translate_ldaxr t op =
     (let rt = (ucast (op AND 0x1f) :: u8);
         rn = (ucast (drop_bit 5 op AND 0x1f) :: u8);
         is64 = (drop_bit 30 op AND 1) \<noteq> 0;
         t = pc_map_add t (arm64_cur t) (x86_cur t);
         t = emits t (\<lambda>buf.
             let buf = emit_load_arm_reg buf rn RAX True;
                 buf = emit_lock buf;
                 buf = rex_r buf 0 RAX;
                 buf = emit_byte buf 0x8b;
                 buf = modrm buf 0 (R11 AND 7) (RAX AND 7)
             in emit_store_arm_reg buf R11 rt is64)
      in (ARM2X86_OK, t))"

definition translate_stlxr :: "TranslateCtx \<Rightarrow> u32 \<Rightarrow> int \<times> TranslateCtx" where
  [trans_defs]: "translate_stlxr t op =
     (let rt = (ucast (op AND 0x1f) :: u8);
         rn = (ucast (drop_bit 5 op AND 0x1f) :: u8);
         rs = (ucast (drop_bit 16 op AND 0x1f) :: u8);
         is64 = (drop_bit 30 op AND 1) \<noteq> 0;
         t = pc_map_add t (arm64_cur t) (x86_cur t);
         t = emits t (\<lambda>buf.
             let buf = emit_load_arm_reg buf rn RAX True;
                 buf = emit_load_arm_reg buf rs R11 is64
             in emit_byte buf 0xf0);
         t = (if is64 then
           (emits t (\<lambda>buf. rex buf True (drop_bit 3 R11) 0 (drop_bit 3 RAX)))
         else (emits t (\<lambda>buf. rex buf False (drop_bit 3 R11) 0 (drop_bit 3 RAX))));
         t = emits t (\<lambda>buf.
             let buf = emit_byte buf 0x0f;
                 buf = emit_byte buf 0xb1;
                 buf = modrm buf 0 (R11 AND 7) (RAX AND 7);
                 buf = emit_byte buf 0x0f;
                 buf = emit_byte buf 0x95
             in modrm buf 3 0 (RAX AND 7));
         t = (if (\<not> is64) then
           (emits t (\<lambda>buf. movzx_r64_r8 buf RAX RAX))
         else t);
         t = emits t (\<lambda>buf. emit_store_arm_reg buf RAX rt True)
      in (ARM2X86_OK, t))"

definition translate_cas :: "TranslateCtx \<Rightarrow> u32 \<Rightarrow> int \<times> TranslateCtx" where
  [trans_defs]: "translate_cas t op =
     (let rt = (ucast (op AND 0x1f) :: u8);
         rn = (ucast (drop_bit 5 op AND 0x1f) :: u8);
         rm = (ucast (drop_bit 16 op AND 0x1f) :: u8);
         is_64bit = (drop_bit 31 op AND 1) \<noteq> 0;
         t = pc_map_add t (arm64_cur t) (x86_cur t);
         t = emits t (\<lambda>buf.
             let buf = emit_load_arm_reg buf rn RAX True;
                 buf = emit_load_arm_reg buf rt R11 is_64bit;
                 buf = emit_byte buf 0x50;
                 buf = mov_r64_r64 buf RAX R11;
                 buf = emit_lock buf;
                 buf = emit_load_arm_reg buf rm R11 is_64bit;
                 buf = rex buf True (drop_bit 3 R11) 0 (drop_bit 3 RAX);
                 buf = emit_byte buf 0x0f;
                 buf = emit_byte buf 0xb1;
                 buf = modrm buf 0 (R11 AND 7) (RAX AND 7);
                 buf = emit_byte buf 0x58;
                 buf = emit_byte buf 0x58
             in emit_store_arm_reg buf RAX rt is_64bit)
      in (ARM2X86_OK, t))"

definition translate_ldadd :: "TranslateCtx \<Rightarrow> u32 \<Rightarrow> int \<times> TranslateCtx" where
  [trans_defs]: "translate_ldadd t op =
     (let rt = (ucast (op AND 0x1f) :: u8);
         rn = (ucast (drop_bit 5 op AND 0x1f) :: u8);
         rm = (ucast (drop_bit 16 op AND 0x1f) :: u8);
         is_64bit = (drop_bit 31 op AND 1) \<noteq> 0;
         t = pc_map_add t (arm64_cur t) (x86_cur t);
         t = emits t (\<lambda>buf.
             let buf = emit_load_arm_reg buf rn RAX True;
                 buf = emit_load_arm_reg buf rm R11 is_64bit;
                 buf = emit_byte buf 0xf0;
                 buf = rex buf True 0 (drop_bit 3 R11) (drop_bit 3 RAX);
                 buf = emit_byte buf 0x0f;
                 buf = emit_byte buf 0xc1;
                 buf = modrm buf 0 (R11 AND 7) (RAX AND 7)
             in emit_store_arm_reg buf R11 rt is_64bit)
      in (ARM2X86_OK, t))"

definition translate_ldclr :: "TranslateCtx \<Rightarrow> u32 \<Rightarrow> int \<times> TranslateCtx" where
  [trans_defs]: "translate_ldclr t op =
     (let rt = (ucast (op AND 0x1f) :: u8);
         rn = (ucast (drop_bit 5 op AND 0x1f) :: u8);
         rm = (ucast (drop_bit 16 op AND 0x1f) :: u8);
         is_64bit = (drop_bit 31 op AND 1) \<noteq> 0;
         t = pc_map_add t (arm64_cur t) (x86_cur t);
         tmp = (R11 :: u8);
         old = (RCX :: u8);
         t = emits t (\<lambda>buf.
             let buf = emit_load_arm_reg buf rn RAX True;
                 buf = emit_load_arm_reg buf rm RDX is_64bit;
                 buf = emit_byte buf 0x50
             in emit_byte buf 0x51);
         loop_start = x86_cur t;
         t = emits t (\<lambda>buf.
             let buf = rex buf True 0 (drop_bit 3 old) (drop_bit 3 RAX);
                 buf = emit_byte buf 0x8b;
                 buf = modrm buf 0 (old AND 7) (RAX AND 7);
                 buf = mov_r64_r64 buf tmp old;
                 buf = and_r64_r64 buf tmp RDX;
                 buf = mov_r64_r64 buf RAX old;
                 buf = emit_byte buf 0xf0;
                 buf = rex buf True 0 (drop_bit 3 tmp) (drop_bit 3 RAX);
                 buf = emit_byte buf 0x0f;
                 buf = emit_byte buf 0xb1
             in modrm buf 0 (tmp AND 7) (RAX AND 7));
         loop_offset = (word_of_int (int (x86_cur t) - int loop_start) :: u32);
         t = emits t (\<lambda>buf.
             let buf = emit_byte buf 0x75;
                 buf = emit_byte buf ((- (ucast loop_offset)) AND 0xff);
                 buf = emit_store_arm_reg buf old rt is_64bit;
                 buf = emit_byte buf 0x59
             in emit_byte buf 0x58)
      in (ARM2X86_OK, t))"

definition translate_ldeor :: "TranslateCtx \<Rightarrow> u32 \<Rightarrow> int \<times> TranslateCtx" where
  [trans_defs]: "translate_ldeor t op =
     (let rt = (ucast (op AND 0x1f) :: u8);
         rn = (ucast (drop_bit 5 op AND 0x1f) :: u8);
         rm = (ucast (drop_bit 16 op AND 0x1f) :: u8);
         is_64bit = (drop_bit 31 op AND 1) \<noteq> 0;
         t = pc_map_add t (arm64_cur t) (x86_cur t);
         tmp = (R11 :: u8);
         old = (RCX :: u8);
         t = emits t (\<lambda>buf.
             let buf = emit_load_arm_reg buf rn RAX True;
                 buf = emit_load_arm_reg buf rm RDX is_64bit;
                 buf = emit_byte buf 0x50
             in emit_byte buf 0x51);
         loop_start = x86_cur t;
         t = emits t (\<lambda>buf.
             let buf = rex buf True 0 (drop_bit 3 old) (drop_bit 3 RAX);
                 buf = emit_byte buf 0x8b;
                 buf = modrm buf 0 (old AND 7) (RAX AND 7);
                 buf = mov_r64_r64 buf tmp old;
                 buf = xor_r64_r64 buf tmp RDX;
                 buf = mov_r64_r64 buf RAX old;
                 buf = emit_byte buf 0xf0;
                 buf = rex buf True 0 (drop_bit 3 tmp) (drop_bit 3 RAX);
                 buf = emit_byte buf 0x0f;
                 buf = emit_byte buf 0xb1
             in modrm buf 0 (tmp AND 7) (RAX AND 7));
         loop_offset = (word_of_int (int (x86_cur t) - int loop_start) :: u32);
         t = emits t (\<lambda>buf.
             let buf = emit_byte buf 0x75;
                 buf = emit_byte buf ((- (ucast loop_offset)) AND 0xff);
                 buf = emit_store_arm_reg buf old rt is_64bit;
                 buf = emit_byte buf 0x59
             in emit_byte buf 0x58)
      in (ARM2X86_OK, t))"

definition translate_ldset :: "TranslateCtx \<Rightarrow> u32 \<Rightarrow> int \<times> TranslateCtx" where
  [trans_defs]: "translate_ldset t op =
     (let rt = (ucast (op AND 0x1f) :: u8);
         rn = (ucast (drop_bit 5 op AND 0x1f) :: u8);
         rm = (ucast (drop_bit 16 op AND 0x1f) :: u8);
         is_64bit = (drop_bit 31 op AND 1) \<noteq> 0;
         t = pc_map_add t (arm64_cur t) (x86_cur t);
         tmp = (R11 :: u8);
         old = (RCX :: u8);
         t = emits t (\<lambda>buf.
             let buf = emit_load_arm_reg buf rn RAX True;
                 buf = emit_load_arm_reg buf rm RDX is_64bit;
                 buf = emit_byte buf 0x50
             in emit_byte buf 0x51);
         loop_start = x86_cur t;
         t = emits t (\<lambda>buf.
             let buf = rex buf True 0 (drop_bit 3 old) (drop_bit 3 RAX);
                 buf = emit_byte buf 0x8b;
                 buf = modrm buf 0 (old AND 7) (RAX AND 7);
                 buf = mov_r64_r64 buf tmp old;
                 buf = or_r64_r64 buf tmp RDX;
                 buf = mov_r64_r64 buf RAX old;
                 buf = emit_byte buf 0xf0;
                 buf = rex buf True 0 (drop_bit 3 tmp) (drop_bit 3 RAX);
                 buf = emit_byte buf 0x0f;
                 buf = emit_byte buf 0xb1
             in modrm buf 0 (tmp AND 7) (RAX AND 7));
         loop_offset = (word_of_int (int (x86_cur t) - int loop_start) :: u32);
         t = emits t (\<lambda>buf.
             let buf = emit_byte buf 0x75;
                 buf = emit_byte buf ((- (ucast loop_offset)) AND 0xff);
                 buf = emit_store_arm_reg buf old rt is_64bit;
                 buf = emit_byte buf 0x59
             in emit_byte buf 0x58)
      in (ARM2X86_OK, t))"

definition translate_swp :: "TranslateCtx \<Rightarrow> u32 \<Rightarrow> int \<times> TranslateCtx" where
  [trans_defs]: "translate_swp t op =
     (let rt = (ucast (op AND 0x1f) :: u8);
         rn = (ucast (drop_bit 5 op AND 0x1f) :: u8);
         rm = (ucast (drop_bit 16 op AND 0x1f) :: u8);
         is_64bit = (drop_bit 31 op AND 1) \<noteq> 0;
         t = pc_map_add t (arm64_cur t) (x86_cur t);
         t = emits t (\<lambda>buf.
             let buf = emit_load_arm_reg buf rn RAX True;
                 buf = emit_load_arm_reg buf rm R11 is_64bit;
                 buf = rex buf True 0 (drop_bit 3 R11) (drop_bit 3 RAX);
                 buf = emit_byte buf 0x87;
                 buf = modrm buf 0 (R11 AND 7) (RAX AND 7)
             in emit_store_arm_reg buf R11 rt is_64bit)
      in (ARM2X86_OK, t))"

definition translate_orn :: "TranslateCtx \<Rightarrow> u32 \<Rightarrow> int \<times> TranslateCtx" where
  [trans_defs]: "translate_orn t op =
     (let rd = (ucast (op AND 0x1f) :: u8);
         rn = (ucast (drop_bit 5 op AND 0x1f) :: u8);
         rm = (ucast (drop_bit 16 op AND 0x1f) :: u8);
         is_64bit = (drop_bit 31 op AND 1) \<noteq> 0;
         t = pc_map_add t (arm64_cur t) (x86_cur t);
         t = emits t (\<lambda>buf.
             let buf = emit_load_arm_reg buf rn RAX is_64bit
             in emit_load_arm_reg buf rm R11 is_64bit);
         t = (if is_64bit then
           (emits t (\<lambda>buf. rex_rm buf 0 (drop_bit 3 R11)))
         else t);
         t = emits t (\<lambda>buf.
             let buf = emit_byte buf 0xf7;
                 buf = modrm buf 3 2 (R11 AND 7);
                 buf = or_r64_r64 buf RAX R11
             in emit_store_arm_reg buf RAX rd is_64bit)
      in (ARM2X86_OK, t))"

definition translate_hint :: "TranslateCtx \<Rightarrow> u32 \<Rightarrow> int \<times> TranslateCtx" where
  [trans_defs]: "translate_hint t op =
     (let crm = (ucast (drop_bit 8 op AND 0xf) :: u8);
         op2 = (ucast (drop_bit 5 op AND 0x7) :: u8);
         t = (if crm = 0 then
           (if (op2 = 0) then
                 (emits t (\<lambda>buf. emit_byte buf 0x90))
               else (if (op2 = 1) then
                 (emits t (\<lambda>buf.
                         let buf = emit_byte buf 0xf3
                         in emit_byte buf 0x90))
               else (if (op2 = 2) then
                 (emits t (\<lambda>buf.
                         let buf = emit_byte buf 0xf3
                         in emit_byte buf 0x90))
               else (if (op2 = 3) then
                 (emits t (\<lambda>buf.
                         let buf = emit_byte buf 0xf3
                         in emit_byte buf 0x90))
               else (if (op2 = 4) then
                 (emits t (\<lambda>buf. emit_byte buf 0x90))
               else (emits t (\<lambda>buf. emit_byte buf 0x90)))))))
         else if crm = 1 then
           (if (op2 = 0) then
                 (emits t (\<lambda>buf. emit_byte buf 0xcc))
               else (emits t (\<lambda>buf. emit_byte buf 0x90)))
         else if crm = 2 then
           (emits t (\<lambda>buf.
                   let buf = emit_byte buf 0x0f;
                       buf = emit_byte buf 0xae
                   in emit_byte buf 0xe8))
         else (emits t (\<lambda>buf. emit_byte buf 0x90)))
      in (ARM2X86_OK, t))"

definition translate_crc32 :: "TranslateCtx \<Rightarrow> u32 \<Rightarrow> int \<times> TranslateCtx" where
  [trans_defs]: "translate_crc32 t op =
     (let rd = (ucast (op AND 0x1f) :: u8);
         rn = (ucast (drop_bit 5 op AND 0x1f) :: u8);
         rm = (ucast (drop_bit 16 op AND 0x1f) :: u8);
         is_64bit = (drop_bit 31 op AND 1) \<noteq> 0;
         is_crc32c = 4 \<le> (drop_bit 10 op AND 0x7);
         t = pc_map_add t (arm64_cur t) (x86_cur t);
         t = (if is_crc32c then
           (emits t (\<lambda>buf.
                   let buf = emit_load_arm_reg buf rn RAX is_64bit;
                       buf = emit_load_arm_reg buf rm R11 is_64bit;
                       buf = rex_r buf RAX RAX;
                       buf = emit_byte buf 0xf2;
                       buf = emit_byte buf 0x0f;
                       buf = emit_byte buf 0x38;
                       buf = emit_byte buf 0xf0;
                       buf = modrm buf 3 (RAX AND 7) (R11 AND 7)
                   in emit_store_arm_reg buf RAX rd is_64bit))
         else (emits t (\<lambda>buf.
                   let buf = emit_load_arm_reg buf rn RAX is_64bit
                   in emit_store_arm_reg buf RAX rd is_64bit)))
      in (ARM2X86_OK, t))"

definition translate_aese :: "TranslateCtx \<Rightarrow> u32 \<Rightarrow> int \<times> TranslateCtx" where
  [trans_defs]: "translate_aese t op =
     (let rd = (ucast (op AND 0x1f) :: u8);
         rn = (ucast (drop_bit 5 op AND 0x1f) :: u8);
         t = pc_map_add t (arm64_cur t) (x86_cur t);
         t = emits t (\<lambda>buf.
             let buf = emit_load_arm_reg_fp buf rn 0 True;
                 buf = emit_byte buf 0x66;
                 buf = emit_byte buf 0x0f;
                 buf = emit_byte buf 0x38;
                 buf = emit_byte buf 0xdb;
                 buf = modrm buf 3 (0 AND 7) (0 AND 7)
             in emit_store_arm_reg_fp buf 0 rd True)
      in (ARM2X86_OK, t))"

definition translate_aesd :: "TranslateCtx \<Rightarrow> u32 \<Rightarrow> int \<times> TranslateCtx" where
  [trans_defs]: "translate_aesd t op =
     (let rd = (ucast (op AND 0x1f) :: u8);
         rn = (ucast (drop_bit 5 op AND 0x1f) :: u8);
         t = pc_map_add t (arm64_cur t) (x86_cur t);
         t = emits t (\<lambda>buf.
             let buf = emit_load_arm_reg_fp buf rn 0 True;
                 buf = emit_byte buf 0x66;
                 buf = emit_byte buf 0x0f;
                 buf = emit_byte buf 0x38;
                 buf = emit_byte buf 0xde;
                 buf = modrm buf 3 (0 AND 7) (0 AND 7)
             in emit_store_arm_reg_fp buf 0 rd True)
      in (ARM2X86_OK, t))"

definition translate_aesmc :: "TranslateCtx \<Rightarrow> u32 \<Rightarrow> int \<times> TranslateCtx" where
  [trans_defs]: "translate_aesmc t op =
     (let rd = (ucast (op AND 0x1f) :: u8);
         rn = (ucast (drop_bit 5 op AND 0x1f) :: u8);
         t = pc_map_add t (arm64_cur t) (x86_cur t);
         t = emits t (\<lambda>buf.
             let buf = emit_load_arm_reg_fp buf rn 0 True;
                 buf = emit_byte buf 0x66;
                 buf = emit_byte buf 0x0f;
                 buf = emit_byte buf 0x38;
                 buf = emit_byte buf 0xdc;
                 buf = modrm buf 3 (0 AND 7) (0 AND 7)
             in emit_store_arm_reg_fp buf 0 rd True)
      in (ARM2X86_OK, t))"

definition translate_aesimc :: "TranslateCtx \<Rightarrow> u32 \<Rightarrow> int \<times> TranslateCtx" where
  [trans_defs]: "translate_aesimc t op =
     (let rd = (ucast (op AND 0x1f) :: u8);
         rn = (ucast (drop_bit 5 op AND 0x1f) :: u8);
         t = pc_map_add t (arm64_cur t) (x86_cur t);
         t = emits t (\<lambda>buf.
             let buf = emit_load_arm_reg_fp buf rn 0 True;
                 buf = emit_byte buf 0x66;
                 buf = emit_byte buf 0x0f;
                 buf = emit_byte buf 0x38;
                 buf = emit_byte buf 0xdc;
                 buf = modrm buf 3 (0 AND 7) (0 AND 7)
             in emit_store_arm_reg_fp buf 0 rd True)
      in (ARM2X86_OK, t))"

definition translate_sha256 :: "TranslateCtx \<Rightarrow> u32 \<Rightarrow> int \<times> TranslateCtx" where
  [trans_defs]: "translate_sha256 t op =
     (let rd = (ucast (op AND 0x1f) :: u8);
         rn = (ucast (drop_bit 5 op AND 0x1f) :: u8);
         rm = (ucast (drop_bit 16 op AND 0x1f) :: u8);
         t = pc_map_add t (arm64_cur t) (x86_cur t);
         opcode = (ucast (drop_bit 10 op AND 0x7) :: u8);
         t = (if opcode = 0 then
           (emits t (\<lambda>buf.
                   let buf = emit_load_arm_reg_fp buf rm 0 False;
                       buf = emit_byte buf 0x0f;
                       buf = emit_byte buf 0x38;
                       buf = emit_byte buf 0xc9
                   in modrm buf 3 (0 AND 7) (0 AND 7)))
         else if opcode = 1 then
           (emits t (\<lambda>buf.
                   let buf = emit_load_arm_reg_fp buf rm 0 False;
                       buf = emit_byte buf 0x0f;
                       buf = emit_byte buf 0x38;
                       buf = emit_byte buf 0xc9
                   in modrm buf 3 (0 AND 7) (0 AND 7)))
         else if opcode = 2 then
           (emits t (\<lambda>buf.
                   let buf = emit_load_arm_reg_fp buf rn 0 False;
                       buf = emit_byte buf 0x0f;
                       buf = emit_byte buf 0x38;
                       buf = emit_byte buf 0xc8
                   in modrm buf 3 (0 AND 7) (0 AND 7)))
         else (emits t (\<lambda>buf.
                   let buf = emit_load_arm_reg_fp buf rn 0 False;
                       buf = emit_byte buf 0x0f;
                       buf = emit_byte buf 0x38;
                       buf = emit_byte buf 0xc8
                   in modrm buf 3 (0 AND 7) (0 AND 7))))
      in (ARM2X86_OK, t))"

definition translate_brk :: "TranslateCtx \<Rightarrow> u32 \<Rightarrow> int \<times> TranslateCtx" where
  [trans_defs]: "translate_brk t op =
     (let imm16 = (ucast (drop_bit 5 op AND 0xffff) :: u16);
         t = emits t (\<lambda>buf. emit_byte buf 0xcc)
      in (ARM2X86_OK, t))"

definition translate_hlt :: "TranslateCtx \<Rightarrow> u32 \<Rightarrow> int \<times> TranslateCtx" where
  [trans_defs]: "translate_hlt t op =
     (let t = emits t (\<lambda>buf. emit_byte buf 0xf4)
      in (ARM2X86_OK, t))"

definition translate_eret :: "TranslateCtx \<Rightarrow> u32 \<Rightarrow> int \<times> TranslateCtx" where
  [trans_defs]: "translate_eret t op =
     (let t = pc_map_add t (arm64_cur t) (x86_cur t);
         t = emits t (\<lambda>buf.
             let buf = emit_load_arm_reg buf 30 RAX True;
                 buf = emit_byte buf 0xff
             in modrm buf 3 4 (RAX AND 7))
      in (ARM2X86_OK, t))"

definition translate_csinc :: "TranslateCtx \<Rightarrow> u32 \<Rightarrow> int \<times> TranslateCtx" where
  [trans_defs]: "translate_csinc t op =
     (let rd = (ucast (op AND 0x1f) :: u8);
         rn = (ucast (drop_bit 5 op AND 0x1f) :: u8);
         rm = (ucast (drop_bit 16 op AND 0x1f) :: u8);
         cond = (ucast (drop_bit 12 op AND 0xf) :: u16);
         is_64bit = (drop_bit 31 op AND 1) \<noteq> 0;
         x86_cond = (arm64_to_x86_cond ! unat cond :: u8);
         t = pc_map_add t (arm64_cur t) (x86_cur t);
         t = emits t (\<lambda>buf.
             let buf = emit_load_arm_reg buf rn RAX is_64bit;
                 buf = emit_load_arm_reg buf rm R11 is_64bit;
                 buf = emit_byte buf 0x0f
             in emit_byte buf (0x80 OR x86_cond));
         skip = x86_cur t;
         t = emits t (\<lambda>buf.
             let buf = emit_imm32 buf 0;
                 buf = add_r64_imm8 buf R11 1
             in mov_r64_r64 buf RAX R11);
         off = (word_of_int (int (x86_cur t) - int skip - 4) :: u32);
         t = poke8 t skip (ucast off AND 0xff);
         t = poke8 t (skip + 1) (ucast (signed_drop_bit 8 off) AND 0xff);
         t = poke8 t (skip + 2) (ucast (signed_drop_bit 16 off) AND 0xff);
         t = poke8 t (skip + 3) (ucast (signed_drop_bit 24 off) AND 0xff);
         t = emits t (\<lambda>buf. emit_store_arm_reg buf RAX rd is_64bit)
      in (ARM2X86_OK, t))"

definition translate_csinv :: "TranslateCtx \<Rightarrow> u32 \<Rightarrow> int \<times> TranslateCtx" where
  [trans_defs]: "translate_csinv t op =
     (let rd = (ucast (op AND 0x1f) :: u8);
         rn = (ucast (drop_bit 5 op AND 0x1f) :: u8);
         rm = (ucast (drop_bit 16 op AND 0x1f) :: u8);
         cond = (ucast (drop_bit 12 op AND 0xf) :: u16);
         is_64bit = (drop_bit 31 op AND 1) \<noteq> 0;
         x86_cond = (arm64_to_x86_cond ! unat cond :: u8);
         t = pc_map_add t (arm64_cur t) (x86_cur t);
         t = emits t (\<lambda>buf.
             let buf = emit_load_arm_reg buf rn RAX is_64bit;
                 buf = emit_byte buf 0x0f
             in emit_byte buf (0x80 OR x86_cond));
         skip = x86_cur t;
         t = emits t (\<lambda>buf.
             let buf = emit_imm32 buf 0
             in emit_load_arm_reg buf rm RAX is_64bit);
         t = (if is_64bit then
           (emits t (\<lambda>buf. rex_rm buf 0 (drop_bit 3 RAX)))
         else t);
         t = emits t (\<lambda>buf.
             let buf = emit_byte buf 0xf7
             in modrm buf 3 2 (RAX AND 7));
         off = (word_of_int (int (x86_cur t) - int skip - 4) :: u32);
         t = poke8 t skip (ucast off AND 0xff);
         t = poke8 t (skip + 1) (ucast (signed_drop_bit 8 off) AND 0xff);
         t = poke8 t (skip + 2) (ucast (signed_drop_bit 16 off) AND 0xff);
         t = poke8 t (skip + 3) (ucast (signed_drop_bit 24 off) AND 0xff);
         t = emits t (\<lambda>buf. emit_store_arm_reg buf RAX rd is_64bit)
      in (ARM2X86_OK, t))"

definition translate_csneg :: "TranslateCtx \<Rightarrow> u32 \<Rightarrow> int \<times> TranslateCtx" where
  [trans_defs]: "translate_csneg t op =
     (let rd = (ucast (op AND 0x1f) :: u8);
         rn = (ucast (drop_bit 5 op AND 0x1f) :: u8);
         rm = (ucast (drop_bit 16 op AND 0x1f) :: u8);
         cond = (ucast (drop_bit 12 op AND 0xf) :: u16);
         is_64bit = (drop_bit 31 op AND 1) \<noteq> 0;
         x86_cond = (arm64_to_x86_cond ! unat cond :: u8);
         t = pc_map_add t (arm64_cur t) (x86_cur t);
         t = emits t (\<lambda>buf.
             let buf = emit_load_arm_reg buf rn RAX is_64bit;
                 buf = emit_byte buf 0x0f
             in emit_byte buf (0x80 OR x86_cond));
         skip = x86_cur t;
         t = emits t (\<lambda>buf.
             let buf = emit_imm32 buf 0
             in emit_load_arm_reg buf rm RAX is_64bit);
         t = (if is_64bit then
           (emits t (\<lambda>buf. rex_rm buf 0 (drop_bit 3 RAX)))
         else t);
         t = emits t (\<lambda>buf.
             let buf = emit_byte buf 0xf7
             in modrm buf 3 3 (RAX AND 7));
         off = (word_of_int (int (x86_cur t) - int skip - 4) :: u32);
         t = poke8 t skip (ucast off AND 0xff);
         t = poke8 t (skip + 1) (ucast (signed_drop_bit 8 off) AND 0xff);
         t = poke8 t (skip + 2) (ucast (signed_drop_bit 16 off) AND 0xff);
         t = poke8 t (skip + 3) (ucast (signed_drop_bit 24 off) AND 0xff);
         t = emits t (\<lambda>buf. emit_store_arm_reg buf RAX rd is_64bit)
      in (ARM2X86_OK, t))"

definition translate_fcsel :: "TranslateCtx \<Rightarrow> u32 \<Rightarrow> int \<times> TranslateCtx" where
  [trans_defs]: "translate_fcsel t op =
     (let rd = (ucast (op AND 0x1f) :: u8);
         rn = (ucast (drop_bit 5 op AND 0x1f) :: u8);
         rm = (ucast (drop_bit 16 op AND 0x1f) :: u8);
         cond = (ucast (drop_bit 12 op AND 0xf) :: u16);
         is_double = (drop_bit 22 op AND 1) \<noteq> 0;
         x86_cond = (arm64_to_x86_cond ! unat cond :: u8);
         t = pc_map_add t (arm64_cur t) (x86_cur t);
         t = (if (x86_cond = 0x00) then
           (emits t (\<lambda>buf.
                   let buf = emit_load_arm_reg_fp buf rn 0 is_double
                   in emit_store_arm_reg_fp buf 0 rd is_double))
         else (if (x86_cond = 0xff) then
           (emits t (\<lambda>buf.
                   let buf = emit_load_arm_reg_fp buf rm 0 is_double
                   in emit_store_arm_reg_fp buf 0 rd is_double))
         else (let t = emits t (\<lambda>buf.
                   let buf = emit_load_arm_reg_fp buf rn 0 is_double;
                       buf = emit_byte buf 0x0f
                   in emit_byte buf (x86_cond XOR 1));
               skip = x86_cur t;
               t = emits t (\<lambda>buf.
                   let buf = emit_imm32 buf 0
                   in emit_load_arm_reg_fp buf rm 0 is_double);
               off = (word_of_int (int (x86_cur t) - int skip - 4) :: u32);
               t = poke8 t skip (ucast off AND 0xff);
               t = poke8 t (skip + 1) (ucast (signed_drop_bit 8 off) AND 0xff);
               t = poke8 t (skip + 2) (ucast (signed_drop_bit 16 off) AND 0xff);
               t = poke8 t (skip + 3) (ucast (signed_drop_bit 24 off) AND 0xff)
            in emits t (\<lambda>buf. emit_store_arm_reg_fp buf 0 rd is_double))))
      in (ARM2X86_OK, t))"

definition translate_fnmadd :: "TranslateCtx \<Rightarrow> u32 \<Rightarrow> int \<times> TranslateCtx" where
  [trans_defs]: "translate_fnmadd t op =
     (let rd = (ucast (op AND 0x1f) :: u8);
         rn = (ucast (drop_bit 5 op AND 0x1f) :: u8);
         rm = (ucast (drop_bit 16 op AND 0x1f) :: u8);
         ra = (ucast (drop_bit 10 op AND 0x1f) :: u8);
         is_double = (drop_bit 22 op AND 1) \<noteq> 0;
         t = pc_map_add t (arm64_cur t) (x86_cur t);
         t = emits t (\<lambda>buf.
             let buf = emit_load_arm_reg_fp buf rn 0 is_double;
                 buf = emit_load_arm_reg_fp buf rm 1 is_double
             in emit_load_arm_reg_fp buf ra 2 is_double);
         t = (if is_double then
           (emits t (\<lambda>buf.
                   let buf = emit_mulsd_xmm_xmm buf 0 1;
                       buf = emit_negsd_xmm_xmm buf 0 0
                   in emit_subsd_xmm_xmm buf 0 2))
         else t);
         t = emits t (\<lambda>buf. emit_store_arm_reg_fp buf 0 rd is_double)
      in (ARM2X86_OK, t))"

definition translate_fnmsub :: "TranslateCtx \<Rightarrow> u32 \<Rightarrow> int \<times> TranslateCtx" where
  [trans_defs]: "translate_fnmsub t op =
     (let rd = (ucast (op AND 0x1f) :: u8);
         rn = (ucast (drop_bit 5 op AND 0x1f) :: u8);
         rm = (ucast (drop_bit 16 op AND 0x1f) :: u8);
         ra = (ucast (drop_bit 10 op AND 0x1f) :: u8);
         is_double = (drop_bit 22 op AND 1) \<noteq> 0;
         t = pc_map_add t (arm64_cur t) (x86_cur t);
         t = emits t (\<lambda>buf.
             let buf = emit_load_arm_reg_fp buf rn 0 is_double;
                 buf = emit_load_arm_reg_fp buf rm 1 is_double
             in emit_load_arm_reg_fp buf ra 2 is_double);
         t = (if is_double then
           (emits t (\<lambda>buf.
                   let buf = emit_mulsd_xmm_xmm buf 0 1;
                       buf = emit_negsd_xmm_xmm buf 0 0
                   in emit_addsd_xmm_xmm buf 0 2))
         else t);
         t = emits t (\<lambda>buf. emit_store_arm_reg_fp buf 0 rd is_double)
      in (ARM2X86_OK, t))"

definition translate_mov_reg :: "TranslateCtx \<Rightarrow> u32 \<Rightarrow> int \<times> TranslateCtx" where
  [trans_defs]: "translate_mov_reg t op =
     (let rd = (ucast (op AND 0x1f) :: u8);
         rn = (ucast (drop_bit 5 op AND 0x1f) :: u8);
         is_64bit = (drop_bit 31 op AND 1) \<noteq> 0;
         t = pc_map_add t (arm64_cur t) (x86_cur t);
         t = emits t (\<lambda>buf.
             let buf = emit_load_arm_reg buf rn RAX is_64bit
             in emit_store_arm_reg buf RAX rd is_64bit)
      in (ARM2X86_OK, t))"

end
