(* ===== verification/X86_Machine.thy ===== *)
theory X86_Machine
  imports X86
begin

text \<open>
  What the emitted bytes do: an executable semantics of the instructions of theory \<open>X86\<close>. The machine
  has sixteen 64-bit registers, the flags CF, ZF, SF and OF, a byte-addressed memory and an
  instruction pointer, which is an offset into the code of a block.

  A flag that the architecture leaves undefined is \<open>None\<close>, and an instruction that reads it is stuck, so
  that no statement can rest on it. Execution is also stuck (\<open>None\<close>) on bytes outside the
  subset, on a divide error, on a read relative to the instruction pointer (a block does not know its
  address), and on instructions that leave the block (calls, returns, indirect jumps, system calls).
  Byte registers are those of an instruction with a REX prefix.
\<close>

section \<open>Memory\<close>

definition read64 :: "(u64 \<Rightarrow> u8) \<Rightarrow> u64 \<Rightarrow> u64" where
  "read64 m a = of_le64 (m a) (m (a + 1)) (m (a + 2)) (m (a + 3)) (m (a + 4)) (m (a + 5))
                        (m (a + 6)) (m (a + 7))"

definition read32 :: "(u64 \<Rightarrow> u8) \<Rightarrow> u64 \<Rightarrow> u32" where
  "read32 m a = of_le32 (m a) (m (a + 1)) (m (a + 2)) (m (a + 3))"

definition write64 :: "(u64 \<Rightarrow> u8) \<Rightarrow> u64 \<Rightarrow> u64 \<Rightarrow> u64 \<Rightarrow> u8" where
  "write64 m a v = (\<lambda>x. if x - a < 8 then le64 v ! unat (x - a) else m x)"

definition write32 :: "(u64 \<Rightarrow> u8) \<Rightarrow> u64 \<Rightarrow> u32 \<Rightarrow> u64 \<Rightarrow> u8" where
  "write32 m a v = (\<lambda>x. if x - a < 4 then le32 v ! unat (x - a) else m x)"

lemma read64_write64_same [simp]: "read64 (write64 m a v) a = v"
  by (simp add: read64_def write64_def le64_def)

lemma read32_write32_same [simp]: "read32 (write32 m a v) a = v"
  by (simp add: read32_def write32_def le32_def)

lemma word64_far:
  fixes d k :: u64
  assumes "8 \<le> d" and "8 \<le> - d" and "k < 8"
  shows "\<not> d + k < 8"
proof -
  have n: "unat (- d) = 2 ^ 64 - unat d"
    using assms(1) unat_sub_if' [of 0 d] by (simp add: word_le_nat_alt split: if_splits)
  have "unat d + unat k < 2 ^ 64"
    using assms n by (simp add: word_le_nat_alt word_less_nat_alt)
  then have "unat (d + k) = unat d + unat k"
    by (simp add: unat_add_lem [THEN iffD1])
  then show ?thesis
    using assms(1) by (simp add: word_le_nat_alt word_less_nat_alt)
qed

text \<open>Two 8-byte cells are apart when neither starts inside the other.\<close>

definition apart :: "u64 \<Rightarrow> u64 \<Rightarrow> bool" where
  "apart a b \<longleftrightarrow> 8 \<le> b - a \<and> 8 \<le> a - b"

lemma read64_write64_apart:
  assumes "apart a b"
  shows "read64 (write64 m a v) b = read64 m b"
proof -
  have far: "\<not> b + k - a < 8" if "k < 8" for k
    using word64_far [of "b - a" k] assms that by (simp add: apart_def algebra_simps)
  have "\<not> b - a < 8" using far [of 0] by simp
  then show ?thesis
    using far [of 1] far [of 2] far [of 3] far [of 4] far [of 5] far [of 6] far [of 7]
    by (simp add: read64_def write64_def)
qed


section \<open>State and operands\<close>

record x86_state =
  rg :: "u8 \<Rightarrow> u64"
  fl_c :: "bool option"
  fl_z :: "bool option"
  fl_s :: "bool option"
  fl_o :: "bool option"
  mem :: "u64 \<Rightarrow> u8"
  rip :: nat

text \<open>A value cut to the operand size, \<open>w\<close> for 64 bits.\<close>

definition cut :: "bool \<Rightarrow> u64 \<Rightarrow> u64" where
  "cut w v = (if w then v else take_bit 32 v)"

definition sign_of :: "bool \<Rightarrow> u64 \<Rightarrow> bool" where
  "sign_of w v = bit v (if w then 63 else 31)"

definition imm_val :: "bool \<Rightarrow> u32 \<Rightarrow> u64" where
  "imm_val w i = cut w (scast i)"

fun addr_of :: "x86_state \<Rightarrow> operand \<Rightarrow> u64 option" where
  "addr_of s (Reg r) = None"
| "addr_of s (Mem b d) = Some (rg s b + scast d)"
| "addr_of s (MemSib b i sc d) = Some (rg s b + push_bit (unat sc) (rg s i) + scast d)"
| "addr_of s (MemIdx i sc d) = Some (push_bit (unat sc) (rg s i) + scast d)"
| "addr_of s (MemAbs d) = Some (scast d)"
| "addr_of s (MemRip d) = None"

definition read_op :: "bool \<Rightarrow> operand \<Rightarrow> x86_state \<Rightarrow> u64 option" where
  "read_op w rm s =
     (case rm of Reg r \<Rightarrow> Some (cut w (rg s r))
      | _ \<Rightarrow> map_option (\<lambda>a. if w then read64 (mem s) a else ucast (read32 (mem s) a)) (addr_of s rm))"

text \<open>Writing a 32-bit register clears its upper half.\<close>

definition set_reg :: "bool \<Rightarrow> u8 \<Rightarrow> u64 \<Rightarrow> x86_state \<Rightarrow> x86_state" where
  "set_reg w r v s = s\<lparr>rg := (rg s)(r := cut w v)\<rparr>"

definition write_op :: "bool \<Rightarrow> operand \<Rightarrow> u64 \<Rightarrow> x86_state \<Rightarrow> x86_state option" where
  "write_op w rm v s =
     (case rm of Reg r \<Rightarrow> Some (set_reg w r v s)
      | _ \<Rightarrow> map_option (\<lambda>a. s\<lparr>mem := if w then write64 (mem s) a v
                                         else write32 (mem s) a (ucast v)\<rparr>) (addr_of s rm))"

definition set_flags :: "bool option \<Rightarrow> bool option \<Rightarrow> bool option \<Rightarrow> bool option \<Rightarrow> x86_state \<Rightarrow> x86_state" where
  "set_flags c z n v s = s\<lparr>fl_c := c, fl_z := z, fl_s := n, fl_o := v\<rparr>"

abbreviation no_flags :: "x86_state \<Rightarrow> x86_state" where
  "no_flags \<equiv> set_flags None None None None"


section \<open>Arithmetic\<close>

text \<open>Result, carry and overflow of an addition and of a subtraction with carry-in.\<close>

definition add_with :: "bool \<Rightarrow> u64 \<Rightarrow> u64 \<Rightarrow> bool \<Rightarrow> u64 \<times> bool \<times> bool" where
  "add_with w a b c =
     (let r = cut w (a + b + of_bool c) in
      (r, 2 ^ (if w then 64 else 32) \<le> uint a + uint b + of_bool c,
       sign_of w a = sign_of w b \<and> sign_of w r \<noteq> sign_of w a))"

definition sub_with :: "bool \<Rightarrow> u64 \<Rightarrow> u64 \<Rightarrow> bool \<Rightarrow> u64 \<times> bool \<times> bool" where
  "sub_with w a b c =
     (let r = cut w (a - b - of_bool c) in
      (r, uint a < uint b + of_bool c,
       sign_of w a \<noteq> sign_of w b \<and> sign_of w r \<noteq> sign_of w a))"

text \<open>The value that an ALU operation yields, and its flags; \<open>None\<close> if it needs an undefined carry.\<close>

definition alu_result :: "alu \<Rightarrow> bool \<Rightarrow> u64 \<Rightarrow> u64 \<Rightarrow> bool option \<Rightarrow> (u64 \<times> bool \<times> bool) option" where
  "alu_result a w x y c =
     (case a of
        ADD \<Rightarrow> Some (add_with w x y False)
      | ADC \<Rightarrow> map_option (add_with w x y) c
      | SUB \<Rightarrow> Some (sub_with w x y False)
      | CMP \<Rightarrow> Some (sub_with w x y False)
      | SBB \<Rightarrow> map_option (sub_with w x y) c
      | AND' \<Rightarrow> Some (x AND y, False, False)
      | OR' \<Rightarrow> Some (x OR y, False, False)
      | XOR' \<Rightarrow> Some (x XOR y, False, False))"

definition result_flags :: "bool \<Rightarrow> u64 \<times> bool \<times> bool \<Rightarrow> x86_state \<Rightarrow> x86_state" where
  "result_flags w rcv s =
     (case rcv of (r, c, v) \<Rightarrow> set_flags (Some c) (Some (r = 0)) (Some (sign_of w r)) (Some v) s)"

definition alu_op :: "alu \<Rightarrow> bool \<Rightarrow> operand \<Rightarrow> u64 \<Rightarrow> x86_state \<Rightarrow> x86_state option" where
  "alu_op a w rm y s =
     (case read_op w rm s of None \<Rightarrow> None
      | Some x \<Rightarrow> (case alu_result a w x y (fl_c s) of None \<Rightarrow> None
          | Some rcv \<Rightarrow> map_option (result_flags w rcv)
                          (if a = CMP then Some s else write_op w rm (fst rcv) s)))"

fun shift_val :: "shift \<Rightarrow> bool \<Rightarrow> u64 \<Rightarrow> nat \<Rightarrow> u64 option" where
  "shift_val SHL w v n = Some (cut w (push_bit n v))"
| "shift_val SHR w v n = Some (drop_bit n v)"
| "shift_val SAR w v n =
     Some (cut w (if w then signed_drop_bit n v else scast (signed_drop_bit n (ucast v :: u32))))"
| "shift_val ROR w v n = Some (if w then word_rotr n v else ucast (word_rotr n (ucast v :: u32)))"
| "shift_val ROL w v n = Some (if w then word_rotl n v else ucast (word_rotl n (ucast v :: u32)))"
| "shift_val _ w v n = None"

text \<open>A shift by a masked count of zero changes nothing, flags included.\<close>

definition do_shift :: "shift \<Rightarrow> bool \<Rightarrow> operand \<Rightarrow> u8 \<Rightarrow> x86_state \<Rightarrow> x86_state option" where
  "do_shift sh w rm cnt s =
     (let n = unat cnt mod (if w then 64 else 32) in
      case read_op w rm s of None \<Rightarrow> None
      | Some v \<Rightarrow>
          if n = 0 then write_op w rm v s
          else (case shift_val sh w v n of None \<Rightarrow> None
                | Some r \<Rightarrow> map_option no_flags (write_op w rm r s)))"

definition wide_val :: "bool \<Rightarrow> bool \<Rightarrow> u64 \<Rightarrow> int" where
  "wide_val sg w v = (if sg then (if w then sint v else sint (ucast v :: u32)) else uint v)"

text \<open>One-operand multiplication and division on \<open>RDX:RAX\<close>; a divide error is stuck.\<close>

definition do_mul :: "bool \<Rightarrow> bool \<Rightarrow> u64 \<Rightarrow> x86_state \<Rightarrow> x86_state" where
  "do_mul sg w v s =
     (let p = wide_val sg w (cut w (rg s RAX)) * wide_val sg w v; b = (if w then 64 else 32) in
      no_flags (set_reg w RDX (word_of_int (p div 2 ^ b)) (set_reg w RAX (word_of_int p) s)))"

definition do_div :: "bool \<Rightarrow> bool \<Rightarrow> u64 \<Rightarrow> x86_state \<Rightarrow> x86_state option" where
  "do_div sg w v s =
     (let b = (if w then 64 else 32);
          n = wide_val sg w (cut w (rg s RDX)) * 2 ^ b + uint (cut w (rg s RAX));
          d = wide_val sg w v;
          q = (if sg then sgn n * sgn d * (abs n div abs d) else n div d);
          r = n - q * d
      in if d = 0 then None
         else if sg \<and> \<not> (- (2 ^ (b - 1)) \<le> q \<and> q < 2 ^ (b - 1)) then None
         else if \<not> sg \<and> 2 ^ b \<le> q then None
         else Some (no_flags (set_reg w RDX (word_of_int r) (set_reg w RAX (word_of_int q) s))))"

section \<open>Conditions\<close>

text \<open>The sixteen condition codes: an odd code is the negation of the even one below it.\<close>

definition base_cond :: "u8 \<Rightarrow> x86_state \<Rightarrow> bool option" where
  "base_cond c s =
     (if c = 0 then fl_o s
      else if c = 1 then fl_c s
      else if c = 2 then fl_z s
      else if c = 3 then (case (fl_c s, fl_z s) of (Some a, Some b) \<Rightarrow> Some (a \<or> b) | _ \<Rightarrow> None)
      else if c = 4 then fl_s s
      else if c = 6 then (case (fl_s s, fl_o s) of (Some a, Some b) \<Rightarrow> Some (a \<noteq> b) | _ \<Rightarrow> None)
      else if c = 7 then (case (fl_z s, fl_s s, fl_o s) of
             (Some z, Some a, Some b) \<Rightarrow> Some (z \<or> a \<noteq> b) | _ \<Rightarrow> None)
      else None)"

definition cond_holds :: "u8 \<Rightarrow> x86_state \<Rightarrow> bool option" where
  "cond_holds c s = map_option (\<lambda>b. b \<noteq> odd (unat c)) (base_cond (drop_bit 1 c) s)"


section \<open>Instructions\<close>

text \<open>\<open>rip\<close> already points behind the instruction; only jumps change it.\<close>

definition jump_by :: "int \<Rightarrow> x86_state \<Rightarrow> x86_state option" where
  "jump_by d s = (if int (rip s) + d < 0 then None else Some (s\<lparr>rip := nat (int (rip s) + d)\<rparr>))"

definition extend_from :: "bool \<Rightarrow> nat \<Rightarrow> u64 \<Rightarrow> u64" where
  "extend_from sg n v = (if sg then signed_take_bit (n - 1) v else take_bit n v)"

fun exec_r_rm :: "r_rm_op \<Rightarrow> bool \<Rightarrow> u8 \<Rightarrow> operand \<Rightarrow> x86_state \<Rightarrow> x86_state option" where
  "exec_r_rm MOV_LOAD w r rm s = map_option (\<lambda>v. set_reg w r v s) (read_op w rm s)"
| "exec_r_rm (ALU_LOAD a) w r rm s =
     (case read_op w rm s of None \<Rightarrow> None | Some y \<Rightarrow> alu_op a w (Reg r) y s)"
| "exec_r_rm IMUL_LOAD w r rm s =
     map_option (\<lambda>v. no_flags (set_reg w r (rg s r * v) s)) (read_op w rm s)"
| "exec_r_rm LEA w r rm s = map_option (\<lambda>a. set_reg w r a s) (addr_of s rm)"
| "exec_r_rm (CMOV c) w r rm s =
     (case (cond_holds c s, read_op w rm s) of
        (Some b, Some v) \<Rightarrow> Some (set_reg w r (if b then v else rg s r) s) | _ \<Rightarrow> None)"
| "exec_r_rm (MOVZX n) w r rm s =
     (case rm of Reg q \<Rightarrow> Some (set_reg w r (extend_from False n (rg s q)) s) | _ \<Rightarrow> None)"
| "exec_r_rm (MOVSX n) w r rm s =
     (case rm of Reg q \<Rightarrow> Some (set_reg w r (extend_from True n (rg s q)) s) | _ \<Rightarrow> None)"
| "exec_r_rm _ w r rm s = None"

fun exec :: "x86_instr \<Rightarrow> x86_state \<Rightarrow> x86_state option" where
  "exec (Rm_r MOV_STORE w rm r) s = write_op w rm (cut w (rg s r)) s"
| "exec (Rm_r (ALU_STORE a) w rm r) s = alu_op a w rm (cut w (rg s r)) s"
| "exec (Rm_r TEST_STORE w rm r) s =
     map_option (\<lambda>x. result_flags w (x AND cut w (rg s r), False, False) s) (read_op w rm s)"
| "exec (R_rm oper w r rm) s = exec_r_rm oper w r rm s"
| "exec (Rm_imm MOV_IMM w rm i) s = write_op w rm (imm_val w i) s"
| "exec (Rm_imm (ALU_IMM a) w rm i) s = alu_op a w rm (imm_val w i) s"
| "exec (Rm_imm TEST_IMM w rm i) s =
     map_option (\<lambda>x. result_flags w (x AND imm_val w i, False, False) s) (read_op w rm s)"
| "exec (Mov_r_imm64 r v) s = Some (set_reg True r v s)"
| "exec (Mov_r_imm32 r v) s = Some (set_reg False r (ucast v) s)"
| "exec (Unary NOT' w rm) s =
     (case read_op w rm s of None \<Rightarrow> None | Some v \<Rightarrow> write_op w rm (cut w (NOT v)) s)"
| "exec (Unary NEG w rm) s =
     (case read_op w rm s of None \<Rightarrow> None
      | Some v \<Rightarrow> map_option (result_flags w (sub_with w 0 v False))
                    (write_op w rm (fst (sub_with w 0 v False)) s))"
| "exec (Unary MUL w rm) s = map_option (\<lambda>v. do_mul False w v s) (read_op w rm s)"
| "exec (Unary IMUL w rm) s = map_option (\<lambda>v. do_mul True w v s) (read_op w rm s)"
| "exec (Unary DIV w rm) s = (case read_op w rm s of None \<Rightarrow> None | Some v \<Rightarrow> do_div False w v s)"
| "exec (Unary IDIV w rm) s = (case read_op w rm s of None \<Rightarrow> None | Some v \<Rightarrow> do_div True w v s)"
| "exec (Shift sh w rm n) s = do_shift sh w rm n s"
| "exec (Shift_cl sh w rm) s = do_shift sh w rm (ucast (rg s RCX)) s"
| "exec (Setcc c rm) s =
     (case (cond_holds c s, rm) of
        (Some b, Reg r) \<Rightarrow> Some (set_reg True r ((rg s r AND NOT 0xff) OR of_bool b) s) | _ \<Rightarrow> None)"
| "exec (Bt_imm w rm n) s =
     map_option (\<lambda>v. set_flags (Some (bit v (unat n mod (if w then 64 else 32)))) (fl_z s) None None s)
       (read_op w rm s)"
| "exec (Jcc c d) s =
     (case cond_holds c s of None \<Rightarrow> None | Some b \<Rightarrow> if b then jump_by (sint d) s else Some s)"
| "exec (Jmp d) s = jump_by (sint d) s"
| "exec (Jmp8 d) s = jump_by (sint d) s"
| "exec (Push r) s =
     Some (s\<lparr>rg := (rg s)(RSP := rg s RSP - 8), mem := write64 (mem s) (rg s RSP - 8) (rg s r)\<rparr>)"
| "exec (Pop r) s =
     Some (s\<lparr>rg := (rg s)(RSP := rg s RSP + 8, r := read64 (mem s) (rg s RSP))\<rparr>)"
| "exec (Plain p) s =
     (if p = NOP \<or> p = MFENCE \<or> p = LFENCE \<or> p = SFENCE then Some s
      else if p = CQO then Some (set_reg True RDX (if bit (rg s RAX) 63 then -1 else 0) s)
      else if p = CDQ then Some (set_reg False RDX (if bit (rg s RAX) 31 then -1 else 0) s)
      else None)"
| "exec _ s = None"

definition step :: "code \<Rightarrow> x86_state \<Rightarrow> x86_state option" where
  "step cs s =
     (case x86_decode (drop (rip s) cs) of None \<Rightarrow> None
      | Some (i, rest) \<Rightarrow> exec i (s\<lparr>rip := length cs - length rest\<rparr>))"

text \<open>Run until the instruction pointer reaches the end of the code; \<open>n\<close> bounds the instructions.\<close>

fun run :: "nat \<Rightarrow> code \<Rightarrow> x86_state \<Rightarrow> x86_state option" where
  "run 0 cs s = (if rip s = length cs then Some s else None)"
| "run (Suc n) cs s =
     (if rip s = length cs then Some s
      else (case step cs s of None \<Rightarrow> None | Some s' \<Rightarrow> run n cs s'))"


section \<open>Straight-line code\<close>

text \<open>
  A block without jumps runs its disassembly: the instructions are executed one after the other and the
  pointer ends behind them.
\<close>

fun straight :: "x86_instr \<Rightarrow> bool" where
  "straight (Jcc _ _) = False"
| "straight (Jmp _) = False"
| "straight (Jmp8 _) = False"
| "straight _ = True"

fun exec_list :: "x86_instr list \<Rightarrow> x86_state \<Rightarrow> x86_state option" where
  "exec_list [] s = Some s"
| "exec_list (i # is) s = (case exec i s of None \<Rightarrow> None | Some s' \<Rightarrow> exec_list is s')"

lemmas exec_defs = read_op_def write_op_def set_reg_def set_flags_def alu_op_def
  do_shift_def do_mul_def do_div_def cond_holds_def base_cond_def

lemma result_flags_fields [simp]:
  "rg (result_flags w x s) = rg s" "mem (result_flags w x s) = mem s" "rip (result_flags w x s) = rip s"
  by (cases x; simp add: result_flags_def set_flags_def)+

lemma addr_of_rip [simp]: "addr_of (s\<lparr>rip := p\<rparr>) rm = addr_of s rm"
  by (cases rm) simp_all

lemma read_op_rip [simp]: "read_op w rm (s\<lparr>rip := p\<rparr>) = read_op w rm s"
  by (simp add: read_op_def split: operand.splits)

lemma set_reg_rip [simp]: "set_reg w r v (s\<lparr>rip := p\<rparr>) = (set_reg w r v s)\<lparr>rip := p\<rparr>"
  by (simp add: set_reg_def)

lemma set_flags_rip [simp]: "set_flags c z n v (s\<lparr>rip := p\<rparr>) = (set_flags c z n v s)\<lparr>rip := p\<rparr>"
  by (simp add: set_flags_def)

lemma result_flags_rip [simp]: "result_flags w x (s\<lparr>rip := p\<rparr>) = (result_flags w x s)\<lparr>rip := p\<rparr>"
  by (simp add: result_flags_def split: prod.splits)

lemma write_op_rip [simp]:
  "write_op w rm v (s\<lparr>rip := p\<rparr>) = map_option (rip_update (\<lambda>_. p)) (write_op w rm v s)"
  by (simp add: write_op_def option.map_comp comp_def split: operand.splits)

lemma cond_holds_rip [simp]: "cond_holds c (s\<lparr>rip := p\<rparr>) = cond_holds c s"
  by (simp add: cond_holds_def base_cond_def)

lemma alu_op_rip [simp]:
  "alu_op a w rm y (s\<lparr>rip := p\<rparr>) = map_option (rip_update (\<lambda>_. p)) (alu_op a w rm y s)"
  by (simp add: alu_op_def option.map_comp comp_def split: option.splits)

lemma do_shift_rip [simp]:
  "do_shift sh w rm n (s\<lparr>rip := p\<rparr>) = map_option (rip_update (\<lambda>_. p)) (do_shift sh w rm n s)"
  by (simp add: do_shift_def Let_def option.map_comp comp_def split: option.splits)

lemma do_mul_rip [simp]: "do_mul sg w v (s\<lparr>rip := p\<rparr>) = (do_mul sg w v s)\<lparr>rip := p\<rparr>"
  by (simp add: do_mul_def Let_def)

lemma do_div_rip [simp]:
  "do_div sg w v (s\<lparr>rip := p\<rparr>) = map_option (rip_update (\<lambda>_. p)) (do_div sg w v s)"
  by (simp add: do_div_def Let_def)

lemma exec_r_rm_rip [simp]:
  "exec_r_rm oper w r rm (s\<lparr>rip := p\<rparr>) = map_option (rip_update (\<lambda>_. p)) (exec_r_rm oper w r rm s)"
  by (cases oper) (auto simp: option.map_comp comp_def split: option.splits operand.splits)

lemma exec_rip:
  "straight i \<Longrightarrow> exec i (s\<lparr>rip := p\<rparr>) = map_option (rip_update (\<lambda>_. p)) (exec i s)"
  by (cases "(i, s)" rule: exec.cases)
     (auto simp: option.map_comp comp_def split: option.splits operand.splits)

lemma exec_list_append:
  "exec_list (is @ js) s = (case exec_list is s of None \<Rightarrow> None | Some s' \<Rightarrow> exec_list js s')"
  by (induction "is" arbitrary: s) (auto split: option.splits)

lemma exec_list_rip:
  "\<forall>i\<in>set is. straight i \<Longrightarrow>
   exec_list is (s\<lparr>rip := p\<rparr>) = map_option (rip_update (\<lambda>_. p)) (exec_list is s)"
  by (induction "is" arbitrary: s) (auto simp: exec_rip split: option.splits)

lemma run_done: "rip s = length cs \<Longrightarrow> run n cs s = Some s"
  by (cases n) simp_all

lemma x86_disasm_CNil: "x86_disasm bs = Some [] \<Longrightarrow> bs = []"
  by (cases "x86_decode bs"; cases bs) (auto simp: x86_disasm_None x86_disasm_step simp del: x86_decode.simps)

lemma x86_disasm_CCons:
  assumes "x86_disasm bs = Some (i # is)"
  obtains rest where "x86_decode bs = Some (i, rest)" and "x86_disasm rest = Some is"
proof (cases "x86_decode bs")
  case None
  with assms show ?thesis
    by (cases bs) (auto simp: x86_disasm_None simp del: x86_decode.simps)
next
  case (Some p)
  with assms show ?thesis
    by (cases p) (auto simp: x86_disasm_step intro: that)
qed

lemma run_segment:
  assumes "x86_disasm frag = Some is" and "\<forall>i\<in>set is. straight i"
    and "exec_list is s = Some s'" and "rip s = length pre"
  shows "run (length is + m) (pre @ frag @ post) s =
         run m (pre @ frag @ post) (s'\<lparr>rip := length (pre @ frag)\<rparr>)"
  using assms
proof (induction "is" arbitrary: frag pre s s')
  case Nil
  from x86_disasm_CNil [OF Nil.prems(1)] Nil.prems(3,4) have "frag = []" "s'\<lparr>rip := length pre\<rparr> = s"
    by auto
  then show ?case by simp
next
  case (Cons i js)
  from Cons.prems(1) obtain rest where d: "x86_decode frag = Some (i, rest)"
    and rest: "x86_disasm rest = Some js" by (rule x86_disasm_CCons)
  from x86_decode_suffix [OF d] obtain c where frag: "frag = c @ rest" "c \<noteq> []" by blast
  from Cons.prems(3) obtain s1 where s1: "exec i s = Some s1" "exec_list js s1 = Some s'"
    by (auto split: option.splits)
  let ?p = "length (pre @ c)" and ?cs = "pre @ frag @ post"
  have "x86_decode (drop (rip s) ?cs) = Some (i, rest @ post)"
    using x86_decode_stable [OF d, of post] Cons.prems(4) by simp
  then have "step ?cs s = exec i (s\<lparr>rip := ?p\<rparr>)"
    using frag by (simp add: step_def)
  also have "\<dots> = Some (s1\<lparr>rip := ?p\<rparr>)"
    using Cons.prems(2) s1(1) by (simp add: exec_rip)
  finally have st: "step ?cs s = Some (s1\<lparr>rip := ?p\<rparr>)" .
  have "exec_list js (s1\<lparr>rip := ?p\<rparr>) = Some (s'\<lparr>rip := ?p\<rparr>)"
    using Cons.prems(2) s1(2) by (simp add: exec_list_rip)
  then have "run (length js + m) ((pre @ c) @ rest @ post) (s1\<lparr>rip := ?p\<rparr>) =
      run m ((pre @ c) @ rest @ post) (s'\<lparr>rip := ?p\<rparr>\<lparr>rip := length ((pre @ c) @ rest)\<rparr>)"
    using Cons.prems(2) rest by (intro Cons.IH) simp_all
  then show ?case
    using st Cons.prems(4) frag by simp
qed

lemma run_straight:
  assumes "x86_disasm frag = Some is" and "\<forall>i\<in>set is. straight i"
    and "exec_list is s = Some s'" and "rip s = length pre"
  shows "run (length is) (pre @ frag) s = Some (s'\<lparr>rip := length (pre @ frag)\<rparr>)"
  using run_segment [OF assms, of 0 "[]"] by simp

text \<open>One step onto a conditional jump.\<close>

lemma run_Jcc:
  assumes "x86_decode (drop (rip s) cs) = Some (Jcc c d, rest)" and "cond_holds c s = Some b"
    and "rip s < length cs" and "int (length cs - length rest) + sint d \<ge> 0"
  shows "run (Suc m) cs s =
         run m cs (s\<lparr>rip := if b then nat (int (length cs - length rest) + sint d)
                             else length cs - length rest\<rparr>)"
  using assms by (simp add: step_def jump_by_def)

lemma write64_write64 [simp]: "write64 (write64 m a v) a w = write64 m a w"
  by (rule ext) (simp add: write64_def)

end
