(* ===== verification/Translate64_Correct.thy ===== *)
theory Translate64_Correct
  imports Translate64 Translate64_Sys X86_Machine
begin

text \<open>
  The translators against the machine of theory \<open>X86_Machine\<close>. An A64 register lives in its home slot
  \<open>[rbp + 8 * r]\<close>; a translator is right when running the code it appends changes the slot of the
  destination to the value the A64 instruction computes from the slots of the sources, and changes
  nothing else in memory.
\<close>

section \<open>Home slots\<close>

definition slot :: "x86_state \<Rightarrow> u8 \<Rightarrow> u64" where
  "slot s r = rg s RBP + scast (ARM_REG_OFFSET r)"

definition home :: "x86_state \<Rightarrow> u8 \<Rightarrow> u64" where
  "home s r = read64 (mem s) (slot s r)"

text \<open>The state after an instruction whose only effect on the guest is \<open>rd := v\<close>.\<close>

definition sets_home :: "x86_state \<Rightarrow> u8 \<Rightarrow> u64 \<Rightarrow> x86_state \<Rightarrow> bool" where
  "sets_home s rd v s' \<longleftrightarrow> rg s' RBP = rg s RBP \<and> mem s' = write64 (mem s) (slot s rd) v"

lemma scast_offset: "r < 32 \<Longrightarrow> (scast (ARM_REG_OFFSET r) :: u64) = of_nat (8 * unat r)"
  by (drule u8_less_32_cases, elim disjE) (simp_all add: ARM_REG_OFFSET_def)

lemma unat_of_nat64: "n < 2 ^ 64 \<Longrightarrow> unat (of_nat n :: u64) = n"
  by (simp add: unsigned_of_nat take_bit_nat_eq_self)

lemma apart_offset:
  assumes "8 \<le> k" and "k < 2 ^ 32"
  shows "apart b (b + of_nat k)" and "apart (b + of_nat k) b"
proof -
  have u: "unat (of_nat k :: u64) = k" using assms by (intro unat_of_nat64) simp
  then have "unat (- (of_nat k :: u64)) = 2 ^ 64 - k"
    using assms unat_sub_if' [of 0 "of_nat k :: u64"] by simp
  with u assms show "apart b (b + of_nat k)" "apart (b + of_nat k) b"
    by (simp_all add: apart_def word_le_nat_alt)
qed

lemma slot_later:
  assumes "unat r < unat q" and "r < 32" and "q < 32"
  shows "slot s q = slot s r + of_nat (8 * (unat q - unat r))"
proof -
  have "8 * unat q = 8 * unat r + 8 * (unat q - unat r)" using assms(1) by simp
  then have "(of_nat (8 * unat q) :: u64) = of_nat (8 * unat r) + of_nat (8 * (unat q - unat r))"
    by (metis of_nat_add)
  then show ?thesis
    by (simp only: slot_def scast_offset [OF assms(2)] scast_offset [OF assms(3)] add.assoc)
qed

lemma slots_apart:
  assumes "r < 32" and "q < 32" and "r \<noteq> q"
  shows "apart (slot s r) (slot s q)"
proof -
  have b: "unat r < 32" "unat q < 32" "unat r \<noteq> unat q"
    using assms by (auto simp: word_less_nat_alt word_unat_eq_iff)
  then consider "unat r < unat q" | "unat q < unat r" by linarith
  then show ?thesis
  proof cases
    case 1
    then show ?thesis
      using apart_offset(1) [of "8 * (unat q - unat r)" "slot s r"] b
      by (simp only: slot_later [OF 1 assms(1,2)]) simp
  next
    case 2
    then show ?thesis
      using apart_offset(2) [of "8 * (unat r - unat q)" "slot s q"] b
      by (simp only: slot_later [OF 2 assms(2,1)]) simp
  qed
qed

lemma home_after:
  assumes "sets_home s rd v s'" and "rd < 32" and "r < 32"
  shows "home s' r = (if r = rd then v else home s r)"
proof -
  have "slot s' r = slot s r" using assms(1) by (simp add: slot_def sets_home_def)
  then show ?thesis
    using assms slots_apart [of rd r s] by (auto simp: home_def sets_home_def read64_write64_apart)
qed


section \<open>Operands of an instruction word\<close>

abbreviation Rd :: "u32 \<Rightarrow> u8" where "Rd op \<equiv> ucast (op AND 0x1f)"
abbreviation Rn :: "u32 \<Rightarrow> u8" where "Rn op \<equiv> ucast (drop_bit 5 op AND 0x1f)"
abbreviation Rm :: "u32 \<Rightarrow> u8" where "Rm op \<equiv> ucast (drop_bit 16 op AND 0x1f)"
abbreviation Ra :: "u32 \<Rightarrow> u8" where "Ra op \<equiv> ucast (drop_bit 10 op AND 0x1f)"

section \<open>A context and a state for concrete instances\<close>

text \<open>The homes are at \<open>0x7000\<close>; memory holds its own low address byte everywhere.\<close>

definition state0 :: x86_state where
  "state0 = \<lparr>rg = (\<lambda>_. 0)(RBP := 0x7000), fl_c = Some False, fl_z = Some True, fl_s = Some False,
     fl_o = Some False, mem = ucast, rip = 0\<rparr>"

lemma start0 [simp]: "rip state0 = x86_cur ctx0"
  by (simp add: state0_def ctx0_def x86_cur_def reg_alloc_init_def)

section \<open>Straight-line translators\<close>

text \<open>
  The shape of every proof below: the code appended to the buffer, its disassembly, and the effect of
  executing it.
\<close>

lemma straight_run:
  fixes t t' :: TranslateCtx
  assumes "x86_code t' = x86_code t @ frag" and "x86_disasm frag = Some is" and "n = length is"
    and "\<forall>i\<in>set is. straight i" and "rip s = x86_cur t"
    and "\<exists>s'. exec_list is s = Some s' \<and> P s'" and "\<And>s' p. P s' \<Longrightarrow> P (s'\<lparr>rip := p\<rparr>)"
  shows "\<exists>s'. run n (x86_code t') s = Some s' \<and> P s'"
proof -
  from assms(6) obtain s' where s': "exec_list is s = Some s'" "P s'" by blast
  have "run n (x86_code t') s = Some (s'\<lparr>rip := x86_cur t'\<rparr>)"
    using run_straight [OF assms(2,4) s'(1), of "x86_code t"] assms(1,3,5) by (simp add: x86_cur_def)
  with assms(7) [OF s'(2)] show ?thesis by blast
qed

lemma straight_home:
  fixes t t' :: TranslateCtx
  assumes "rip s = x86_cur t" and "x86_code t' = x86_code t @ frag" and "x86_disasm frag = Some is"
    and "n = length is" and "\<forall>i\<in>set is. straight i"
    and "\<exists>s'. exec_list is s = Some s' \<and> sets_home s rd v s'"
  shows "\<exists>s'. run n (x86_code t') s = Some s' \<and> sets_home s rd v s'"
  using assms(2-5,1,6) by (rule straight_run) (simp add: sets_home_def)

lemmas exec_simps = exec_defs cut_def slot_def home_def sets_home_def

lemmas code_simps = trans_defs sf_bit emit_load_arm_reg_def emit_store_arm_reg_def emit_defs

lemmas disasm_simps = disasm_homes disasm_emitters

text \<open>A translator that appends straight-line code, given by its disassembly.\<close>

definition appends :: "TranslateCtx \<Rightarrow> TranslateCtx \<Rightarrow> x86_instr list \<Rightarrow> bool" where
  "appends t t' is \<longleftrightarrow>
     (\<exists>frag. x86_code t' = x86_code t @ frag \<and> x86_disasm frag = Some is) \<and> (\<forall>i\<in>set is. straight i)"

lemma appendsI:
  "x86_code t' = x86_code t @ frag \<Longrightarrow> x86_disasm frag = Some is \<Longrightarrow> \<forall>i\<in>set is. straight i \<Longrightarrow> appends t t' is"
  by (auto simp: appends_def)

lemma appends_refl: "x86_code t' = x86_code t \<Longrightarrow> appends t t' []"
  by (simp add: appends_def)

lemma appends_trans:
  assumes "appends t t' is" and "appends t' t'' js"
  shows "appends t t'' (is @ js)"
proof -
  from assms obtain f g where "x86_code t' = x86_code t @ f" "x86_disasm f = Some is"
    "x86_code t'' = x86_code t' @ g" "x86_disasm g = Some js" by (auto simp: appends_def)
  then show ?thesis
    using assms by (intro appendsI [of _ _ "f @ g"]) (auto simp: x86_disasm_append appends_def)
qed

lemma appends_run:
  assumes "appends t t' is" and "exec_list is s = Some s'" and "rip s = x86_cur t"
  shows "run (length is) (x86_code t') s = Some (s'\<lparr>rip := x86_cur t'\<rparr>)"
  using assms run_straight [of _ "is" s s' "x86_code t"] by (auto simp: appends_def x86_cur_def)

lemma appends_runs:
  assumes "appends t t' is" and "n = length is" and "rip s = x86_cur t"
    and "\<exists>s'. exec_list is s = Some s' \<and> P s'" and "\<And>s' p. P s' \<Longrightarrow> P (s'\<lparr>rip := p\<rparr>)"
  shows "\<exists>s'. run n (x86_code t') s = Some s' \<and> P s'"
  using appends_run [OF assms(1) _ assms(3)] assms(2,4,5) by blast

lemma appends_home:
  assumes "appends t t' is" and "n = length is" and "rip s = x86_cur t"
    and "\<exists>s'. exec_list is s = Some s' \<and> sets_home s rd v s'"
  shows "\<exists>s'. run n (x86_code t') s = Some s' \<and> sets_home s rd v s'"
  using assms by (rule appends_runs) (simp add: sets_home_def)

text \<open>
  \<open>translate_mul\<close> for a word with the \<open>sf\<close> bit set. Its code runs to its end and leaves the product of the
  two source registers, modulo \<open>2^64\<close>, in the home slot of the destination; no other byte of memory
  changes. The decoder never sends it such a word: it reports \<open>INSTR_MUL\<close> only where bit 31 is zero
  (\<open>Block_Correct.mul32_reads_ebx\<close>), and \<open>INSTR_MADD\<close> for the multiplications of 64-bit registers.
\<close>

lemma translate_mul_correct:
  assumes "bit op 31" and "rip s = x86_cur t"
  shows "\<exists>s'. run 4 (x86_code (snd (translate_mul t op))) s = Some s' \<and>
              sets_home s (Rd op) (home s (Rn op) * home s (Rm op)) s'"
proof (rule straight_home [OF assms(2)])
  show "x86_code (snd (translate_mul t op)) = x86_code t @
      emit_load_arm_reg [] (Rn op) RAX True @ emit_load_arm_reg [] (Rm op) R11 True @
      imul_r64_r64 [] RAX R11 @ emit_store_arm_reg [] RAX (Rd op) True"
    using assms(1) by (simp add: code_simps)
qed (simp add: disasm_simps, simp_all add: exec_simps)

lemma translate_mul_witness:
  "\<exists>s'. run 4 (x86_code (snd (translate_mul ctx0 0x9b017c02))) state0 = Some s' \<and>
        sets_home state0 2 (home state0 0 * home state0 1) s'"
  using translate_mul_correct [of "0x9b017c02" state0 ctx0] by simp

text \<open>
  \<open>MOV\<close> between registers and \<open>CSEL\<close> with an always-true condition copy the source slot.
\<close>

lemma translate_mov_reg_correct:
  assumes "bit op 31" and "rip s = x86_cur t"
  shows "\<exists>s'. run 2 (x86_code (snd (translate_mov_reg t op))) s = Some s' \<and>
              sets_home s (Rd op) (home s (Rn op)) s'"
proof (rule straight_home [OF assms(2)])
  show "x86_code (snd (translate_mov_reg t op)) = x86_code t @
      emit_load_arm_reg [] (Rn op) RAX True @ emit_store_arm_reg [] RAX (Rd op) True"
    using assms(1) by (simp add: code_simps)
qed (simp add: disasm_simps, simp_all add: exec_simps)

lemma translate_mov_reg_witness:
  "\<exists>s'. run 2 (x86_code (snd (translate_mov_reg ctx0 0xaa000062))) state0 = Some s' \<and>
        sets_home state0 2 (home state0 3) s'"
  using translate_mov_reg_correct [of "0xaa000062" state0 ctx0] by simp

lemma madd_appends:
  assumes "bit op 31"
  shows "appends t (snd (translate_madd t op))
    [Mov_r_rm True RAX (Mem RBP (ARM_REG_OFFSET (Rn op))), Mov_r_rm True R11 (Mem RBP (ARM_REG_OFFSET (Rm op))),
     Imul_r_rm True RAX (Reg R11), Mov_r_rm True R11 (Mem RBP (ARM_REG_OFFSET (Ra op))),
     Alu_rm_r ADD True (Reg R11) RAX, Mov_rm_r True (Mem RBP (ARM_REG_OFFSET (Rd op))) RAX]"
proof (rule appendsI)
  show "x86_code (snd (translate_madd t op)) = x86_code t @
      emit_load_arm_reg [] (Rn op) RAX True @ emit_load_arm_reg [] (Rm op) R11 True @
      imul_r64_r64 [] RAX R11 @ emit_load_arm_reg [] (Ra op) R11 True @
      add_r64_r64 [] RAX R11 @ emit_store_arm_reg [] RAX (Rd op) True"
    using assms by (simp add: code_simps)
qed (simp_all add: disasm_simps)

text \<open>
  \<open>MADD\<close>, which the decoder reports for every 64-bit multiply. The code of \<open>translate_madd\<close> stores
  the bare product: the addition of the accumulator goes to the register that is not stored,
  because \<open>add_r64_r64\<close> encodes its operands in exchange. For \<open>MUL\<close>, whose accumulator is zero, that is
  the right result.
\<close>

lemma translate_madd_product:
  assumes "bit op 31" and "rip s = x86_cur t"
  shows "\<exists>s'. run 6 (x86_code (snd (translate_madd t op))) s = Some s' \<and>
              sets_home s (Rd op) (home s (Rn op) * home s (Rm op)) s'"
  by (rule appends_home [OF madd_appends [OF assms(1)] _ assms(2)])
     (simp_all add: exec_simps alu_result_def)

lemma translate_madd_witness:
  "\<exists>s'. run 6 (x86_code (snd (translate_madd ctx0 0x9b011002))) state0 = Some s' \<and>
        sets_home state0 2 (home state0 0 * home state0 1) s'"
  using translate_madd_product [of "0x9b011002" state0 ctx0] by simp

text \<open>
  The sign and zero extensions \<open>SXTB\<close>, \<open>SXTH\<close>, \<open>UXTB\<close> and \<open>UXTH\<close> on 64-bit registers leave the
  extension of the low byte or halfword of the source in the destination.
\<close>

lemma translate_extend_correct:
  assumes "bit op 31" and "rip s = x86_cur t"
  shows "(\<exists>s'. run 3 (x86_code (snd (translate_sxtb t op))) s = Some s' \<and>
               sets_home s (Rd op) (signed_take_bit 7 (home s (Rn op))) s') \<and>
         (\<exists>s'. run 3 (x86_code (snd (translate_sxth t op))) s = Some s' \<and>
               sets_home s (Rd op) (signed_take_bit 15 (home s (Rn op))) s') \<and>
         (\<exists>s'. run 3 (x86_code (snd (translate_uxtb t op))) s = Some s' \<and>
               sets_home s (Rd op) (take_bit 8 (home s (Rn op))) s') \<and>
         (\<exists>s'. run 3 (x86_code (snd (translate_uxth t op))) s = Some s' \<and>
               sets_home s (Rd op) (take_bit 16 (home s (Rn op))) s')"
proof (intro conjI)
  show "\<exists>s'. run 3 (x86_code (snd (translate_sxtb t op))) s = Some s' \<and>
             sets_home s (Rd op) (signed_take_bit 7 (home s (Rn op))) s'"
  proof (rule straight_home [OF assms(2)])
    show "x86_code (snd (translate_sxtb t op)) = x86_code t @
        emit_load_arm_reg [] (Rn op) RAX True @ emit_movsx [] 8 RAX RAX @
        emit_store_arm_reg [] RAX (Rd op) True"
      using assms(1) by (simp add: code_simps)
  qed (simp add: disasm_simps, simp_all add: exec_simps extend_from_def)
  show "\<exists>s'. run 3 (x86_code (snd (translate_sxth t op))) s = Some s' \<and>
             sets_home s (Rd op) (signed_take_bit 15 (home s (Rn op))) s'"
  proof (rule straight_home [OF assms(2)])
    show "x86_code (snd (translate_sxth t op)) = x86_code t @
        emit_load_arm_reg [] (Rn op) RAX True @ emit_movsx [] 16 RAX RAX @
        emit_store_arm_reg [] RAX (Rd op) True"
      using assms(1) by (simp add: code_simps)
  qed (simp add: disasm_simps, simp_all add: exec_simps extend_from_def)
  show "\<exists>s'. run 3 (x86_code (snd (translate_uxtb t op))) s = Some s' \<and>
             sets_home s (Rd op) (take_bit 8 (home s (Rn op))) s'"
  proof (rule straight_home [OF assms(2)])
    show "x86_code (snd (translate_uxtb t op)) = x86_code t @
        emit_load_arm_reg [] (Rn op) RAX True @ emit_movzx [] 8 RAX RAX @
        emit_store_arm_reg [] RAX (Rd op) True"
      using assms(1) by (simp add: code_simps)
  qed (simp add: disasm_simps, simp_all add: exec_simps extend_from_def)
  show "\<exists>s'. run 3 (x86_code (snd (translate_uxth t op))) s = Some s' \<and>
             sets_home s (Rd op) (take_bit 16 (home s (Rn op))) s'"
  proof (rule straight_home [OF assms(2)])
    show "x86_code (snd (translate_uxth t op)) = x86_code t @
        emit_load_arm_reg [] (Rn op) RAX True @ emit_movzx [] 16 RAX RAX @
        emit_store_arm_reg [] RAX (Rd op) True"
      using assms(1) by (simp add: code_simps)
  qed (simp add: disasm_simps, simp_all add: exec_simps extend_from_def)
qed

lemma translate_extend_witness:
  "\<exists>s'. run 3 (x86_code (snd (translate_sxtb ctx0 0x93401c41))) state0 = Some s' \<and>
        sets_home state0 1 (signed_take_bit 7 (home state0 2)) s'"
  using translate_extend_correct [of "0x93401c41" state0 ctx0] by simp

lemma ldr_appends:
  assumes "drop_bit 30 op AND 3 = 3" and "bit op 22"
  shows "appends t (snd (translate_ldr_str t op imm))
    [Mov_r_rm True RAX (Mem RBP (ARM_REG_OFFSET (Rn op))), Mov_r_rm True RAX (Mem RAX imm),
     Mov_rm_r True (Mem RBP (ARM_REG_OFFSET (Rd op))) RAX]"
proof (rule appendsI)
  show "x86_code (snd (translate_ldr_str t op imm)) = x86_code t @
      emit_load_arm_reg [] (Rn op) RAX True @ rex_r [] RAX RAX @ [0x8b] @
      emit_modrm_disp [] (RAX AND 7) RAX imm @ emit_store_arm_reg [] RAX (Rd op) True"
    using assms by (simp add: code_simps emit_modrm_disp_append)
qed (simp add: disasm_simps disasm_mov_rax_mem [of RAX, simplified], simp)

lemma str_appends:
  assumes "drop_bit 30 op AND 3 = 3" and "\<not> bit op 22"
  shows "appends t (snd (translate_ldr_str t op imm))
    [Mov_r_rm True RAX (Mem RBP (ARM_REG_OFFSET (Rn op))), Mov_r_rm True R11 (Mem RBP (ARM_REG_OFFSET (Rd op))),
     Mov_rm_r True (Mem RAX imm) R11]"
proof (rule appendsI)
  show "x86_code (snd (translate_ldr_str t op imm)) = x86_code t @
      emit_load_arm_reg [] (Rn op) RAX True @ emit_load_arm_reg [] (Rd op) R11 True @
      rex_r [] R11 RAX @ [0x89] @ emit_modrm_disp [] (R11 AND 7) RAX imm"
    using assms by (simp add: code_simps emit_modrm_disp_append)
qed (use disasm_mov_rax_mem(2) [of R11 _ "[]", simplified] in \<open>simp add: disasm_simps\<close>, simp)

text \<open>
  \<open>LDR\<close> of a 64-bit register. The eight bytes at the base register plus the decoded displacement
  reach the home slot of the target.
\<close>

lemma translate_ldr_correct:
  assumes "drop_bit 30 op AND 3 = 3" and "bit op 22" and "rip s = x86_cur t"
  shows "\<exists>s'. run 3 (x86_code (snd (translate_ldr_str t op imm))) s = Some s' \<and>
              sets_home s (Rd op) (read64 (mem s) (home s (Rn op) + scast imm)) s'"
  by (rule appends_home [OF ldr_appends [OF assms(1,2)] _ assms(3)]) (simp_all add: exec_simps)

lemma translate_ldr_witness:
  "\<exists>s'. run 3 (x86_code (snd (translate_ldr_str ctx0 0xf9400841 16))) state0 = Some s' \<and>
        sets_home state0 1 (read64 (mem state0) (home state0 2 + 16)) s'"
  using translate_ldr_correct [of "0xf9400841" state0 ctx0 16] by simp

text \<open>
  \<open>STR\<close> of a 64-bit register. The value of the source register is written to the eight bytes at
  the base register plus the displacement, and nothing else in memory changes.
\<close>

lemma translate_str_correct:
  assumes "drop_bit 30 op AND 3 = 3" and "\<not> bit op 22" and "rip s = x86_cur t"
  shows "\<exists>s'. run 3 (x86_code (snd (translate_ldr_str t op imm))) s = Some s' \<and>
              (rg s' RBP = rg s RBP \<and>
               mem s' = write64 (mem s) (home s (Rn op) + scast imm) (home s (Rd op)))"
  by (rule appends_runs [OF str_appends [OF assms(1,2)] _ assms(3)]) (simp_all add: exec_simps)

lemma translate_str_witness:
  "\<exists>s'. run 3 (x86_code (snd (translate_ldr_str ctx0 0xf9000841 16))) state0 = Some s' \<and>
        (rg s' RBP = rg state0 RBP \<and>
         mem s' = write64 (mem state0) (home state0 2 + 16) (home state0 1))"
  using translate_str_correct [of "0xf9000841" state0 ctx0 16] by simp

lemma and_3f: "(x :: u32) AND 0x3f = take_bit 6 x"
  by (simp add: take_bit_eq_mask mask_eq_exp_minus_1)

lemma shift_count: "unat (ucast ((x :: u32) AND 0x3f) :: u8) mod 64 = unat (x AND 0x3f)"
proof -
  have "unat (ucast (take_bit 6 x) :: u8) = unat (take_bit 6 x)"
    by (simp add: unsigned_ucast_eq unsigned_take_bit_eq take_bit_take_bit min_def)
  moreover have "unat (take_bit 6 x) < 64"
    using take_bit_nat_less_exp [of 6 "unat x"] by (simp add: unsigned_take_bit_eq)
  ultimately show ?thesis by (simp add: and_3f)
qed

text \<open>
  The right shifts of a 64-bit register by an immediate, arithmetic and logical.
\<close>

lemma translate_shift_correct:
  assumes "bit op 22" and "rip s = x86_cur t"
  shows "(drop_bit 29 op AND 3 = 0 \<longrightarrow>
            (\<exists>s'. run 3 (x86_code (snd (translate_shift t op))) s = Some s' \<and>
               sets_home s (Rd op) (signed_drop_bit (unat (drop_bit 16 op AND 0x3f)) (home s (Rn op))) s')) \<and>
         (drop_bit 29 op AND 3 = 2 \<longrightarrow>
            (\<exists>s'. run 3 (x86_code (snd (translate_shift t op))) s = Some s' \<and>
               sets_home s (Rd op) (drop_bit (unat (drop_bit 16 op AND 0x3f)) (home s (Rn op))) s'))"
proof -
  let ?n = "ucast (drop_bit 16 op AND 0x3f) :: u8"
  have one: "drop_bit 22 op AND 1 = 1"
    using assms(1) by (simp add: and_one_eq mod_2_eq_odd bit_iff_odd_drop_bit)
  have cnt: "(drop_bit 16 op AND 0x3f) AND 0x3f = drop_bit 16 op AND 0x3f"
    by (simp add: and_3f)
  have "\<exists>s'. run 3 (x86_code (snd (translate_shift t op))) s = Some s' \<and>
      sets_home s (Rd op) (signed_drop_bit (unat (drop_bit 16 op AND 0x3f)) (home s (Rn op))) s'"
    if "drop_bit 29 op AND 3 = 0"
  proof (rule straight_home [OF assms(2)])
    show "x86_code (snd (translate_shift t op)) = x86_code t @ emit_load_arm_reg [] (Rn op) RAX True @
        sar_r64_imm8 [] RAX ?n @ emit_store_arm_reg [] RAX (Rd op) True"
      using that one cnt by (simp add: code_simps)
  qed (simp add: disasm_simps, simp_all add: exec_simps shift_count Let_def split: if_split)
  moreover have "\<exists>s'. run 3 (x86_code (snd (translate_shift t op))) s = Some s' \<and>
      sets_home s (Rd op) (drop_bit (unat (drop_bit 16 op AND 0x3f)) (home s (Rn op))) s'"
    if "drop_bit 29 op AND 3 = 2"
  proof (rule straight_home [OF assms(2)])
    show "x86_code (snd (translate_shift t op)) = x86_code t @ emit_load_arm_reg [] (Rn op) RAX True @
        shr_r64_imm8 [] RAX ?n @ emit_store_arm_reg [] RAX (Rd op) True"
      using that one cnt by (simp add: code_simps)
  qed (simp add: disasm_simps, simp_all add: exec_simps shift_count Let_def split: if_split)
  ultimately show ?thesis by blast
qed

lemma translate_shift_witness:
  "\<exists>s'. run 3 (x86_code (snd (translate_shift ctx0 0x9344fc41))) state0 = Some s' \<and>
        sets_home state0 1 (signed_drop_bit 4 (home state0 2)) s'"
  using translate_shift_correct [of "0x9344fc41" state0 ctx0] by simp

section \<open>Conditions\<close>

text \<open>
  The condition of an A64 instruction on the flags N, Z, C and V. The x86-64 carry after a comparison
  is a borrow, the complement of the A64 carry.
\<close>

definition arm_cond :: "u8 \<Rightarrow> bool \<Rightarrow> bool \<Rightarrow> bool \<Rightarrow> bool \<Rightarrow> bool" where
  "arm_cond cond n z c v =
     (let k = drop_bit 1 cond;
          b = (if k = 0 then z else if k = 1 then c else if k = 2 then n else if k = 3 then v
               else if k = 4 then c \<and> \<not> z else if k = 5 then n = v
               else if k = 6 then n = v \<and> \<not> z else True)
      in if odd (unat cond) \<and> cond \<noteq> 15 then \<not> b else b)"

definition flags_are :: "x86_state \<Rightarrow> bool \<Rightarrow> bool \<Rightarrow> bool \<Rightarrow> bool \<Rightarrow> bool" where
  "flags_are s n z c v \<longleftrightarrow>
     fl_s s = Some n \<and> fl_z s = Some z \<and> fl_c s = Some (\<not> c) \<and> fl_o s = Some v"

lemma flags0 [simp]: "flags_are state0 False True True False"
  by (simp add: flags_are_def state0_def)

lemma u8_less_14_cases:
  assumes "(r :: u8) < 14"
  shows "r = 0 \<or> r = 1 \<or> r = 2 \<or> r = 3 \<or> r = 4 \<or> r = 5 \<or> r = 6 \<or> r = 7 \<or> r = 8 \<or> r = 9 \<or>
         r = 10 \<or> r = 11 \<or> r = 12 \<or> r = 13"
proof -
  have "r < 16" using assms by (simp add: word_less_nat_alt)
  from u8_less_16_cases [OF this] assms show ?thesis by auto
qed

text \<open>
  The condition table. For each of the fourteen conditions, the x86-64 condition code that
  \<open>arm64_to_x86_cond\<close> gives holds exactly when the A64 condition does, whatever the flags.
\<close>

lemma arm64_to_x86_cond_correct:
  assumes "cond < 14" and "flags_are s n z c v"
  shows "cond_holds (take_bit 4 (arm64_to_x86_cond ! unat cond)) s = Some (arm_cond cond n z c v)"
  using u8_less_14_cases [OF assms(1)] assms(2)
  by (elim disjE)
     (auto simp: arm64_to_x86_cond_def arm_cond_def flags_are_def cond_holds_def base_cond_def)

theorem arm64_to_x86_cond_witness:
  "cond_holds (take_bit 4 (arm64_to_x86_cond ! unat (10 :: u8)))
     \<lparr>rg = \<lambda>_. 0, fl_c = Some False, fl_z = Some False, fl_s = Some True, fl_o = Some True,
      mem = \<lambda>_. 0, rip = 0\<rparr> = Some (arm_cond 10 True False True True)"
  by (rule arm64_to_x86_cond_correct) (simp_all add: flags_are_def)

lemma inverted_cond:
  assumes "cond < 14" and "flags_are s n z c v"
  shows "cond_holds (take_bit 4 ((arm64_to_x86_cond ! unat cond) XOR 1)) s = Some (\<not> arm_cond cond n z c v)"
  using u8_less_14_cases [OF assms(1)] assms(2)
  by (elim disjE)
     (auto simp: arm64_to_x86_cond_def arm_cond_def flags_are_def cond_holds_def base_cond_def)

lemma cond_byte:
  assumes "(cond :: u8) < 14"
  shows "arm64_to_x86_cond ! unat cond \<noteq> 0" "arm64_to_x86_cond ! unat cond \<noteq> 0xff"
    "drop_bit 4 ((arm64_to_x86_cond ! unat cond) XOR 1) = 8"
  using u8_less_14_cases [OF assms] by (auto simp: arm64_to_x86_cond_def)

lemma poke32_eq:
  "x86_code t = pre @ le32 v @ post \<Longrightarrow> loc = length pre \<Longrightarrow> x86_code (poke32 t loc w) = pre @ le32 w @ post"
  by (simp add: poke32_def poke8_def le32_def list_update_append)

lemma csel_code:
  assumes "bit op 31" and "ucast (drop_bit 12 op AND 0xf) < (14 :: u8)"
  shows "x86_code (snd (translate_csel t op)) = x86_code t @
     (emit_load_arm_reg [] (Rm op) RAX True @ emit_store_arm_reg [] RAX (Rd op) True) @
     ([0x0f, (arm64_to_x86_cond ! unat (ucast (drop_bit 12 op AND 0xf) :: u8)) XOR 1] @ le32 14) @
     (emit_load_arm_reg [] (Rn op) RAX True @ emit_store_arm_reg [] RAX (Rd op) True)"
  using assms(1) cond_byte [OF assms(2)]
  by (simp add: code_simps x86_cur_def poke32_def poke8_def le32_def list_update_append
      Let_def)

text \<open>The two moves of a branch of \<open>translate_csel\<close>: copy the slot \<open>b\<close> to the slot \<open>a\<close>.\<close>

lemma copy_slot:
  "x86_disasm (emit_load_arm_reg [] b RAX True @ emit_store_arm_reg [] RAX a True) =
     Some [Mov_r_rm True RAX (Mem RBP (ARM_REG_OFFSET b)), Mov_rm_r True (Mem RBP (ARM_REG_OFFSET a)) RAX]"
  "\<exists>s'. exec_list [Mov_r_rm True RAX (Mem RBP (ARM_REG_OFFSET b)), Mov_rm_r True (Mem RBP (ARM_REG_OFFSET a)) RAX] s
          = Some s' \<and> sets_home s a (home s b) s' \<and> (flags_are s n z c v \<longrightarrow> flags_are s' n z c v)"
  by (simp_all add: disasm_simps exec_simps flags_are_def)

lemma length_home_moves [simp]:
  "length (emit_load_arm_reg [] a x True) = 7" "length (emit_store_arm_reg [] x a True) = 7"
  by (simp_all add: emit_load_arm_reg_def emit_store_arm_reg_def emit_defs)

lemma sets_home_twice:
  "sets_home s a v s' \<Longrightarrow> sets_home s' a w s'' \<Longrightarrow> sets_home s a w s''"
  by (simp add: sets_home_def slot_def)

lemma home_field_after:
  "sets_home s (Rd op) v s' \<Longrightarrow> home s' (Rn op) = (if Rn op = Rd op then v else home s (Rn op))"
  by (rule home_after) (simp_all add: reg_field_less)



text \<open>
  The code of \<open>CBZ\<close> and \<open>CBNZ\<close> is the same, byte for byte: the displacement that \<open>translate_cbz_cbnz\<close>
  patches in lands on the opcode of the conditional jump, the only place where the two differ.
\<close>

lemma translate_cbz_cbnz_same:
  "x86_code (snd (translate_cbz_cbnz t op True)) = x86_code (snd (translate_cbz_cbnz t op False))"
  by (simp add: code_simps x86_cur_def x86_addr_def pc_map_lookup_def emit_direct_jump_or_call_def
      emit_dispatch_stub_def poke32_def poke8_def le32_def list_update_append Let_def emits_def)

text \<open>
  \<open>MOVZ\<close> as the first allocation of a block. The register taken from the pool is R11, and the store
  to the register home that follows the load of the constant is encoded as a store of RBX relative
  to R13: the prefix bit of the source register is given to the base.
\<close>

lemma translate_movz_store:
  assumes "free_reg_count t = 9" and "free_regs t = reg_alloc_map" and "drop_bit 29 op AND 3 = 2"
    and "bit op 31"
  shows "x86_disasm (drop (x86_cur t) (x86_code (snd (translate_mov_imm t op)))) =
     Some [Mov_r_imm64 R11 (push_bit (unat (ucast (drop_bit 21 op AND 3) * 16 :: u8))
                              (ucast (ucast (drop_bit 5 op AND 0xffff) :: u16))),
           Mov_rm_r True (Mem R13 (ARM_REG_OFFSET (Rd op))) RBX]"
proof -
  let ?v = "push_bit (unat (ucast (drop_bit 21 op AND 3) * 16 :: u8))
              (ucast (ucast (drop_bit 5 op AND 0xffff) :: u16)) :: u64"
  have "drop (x86_cur t) (x86_code (snd (translate_mov_imm t op))) =
      mov_r64_imm [] R11 ?v @ emit_store_arm_reg [] R11 (Rd op) True"
    using assms
    by (simp add: translate_mov_imm_def sf_bit reg_alloc_get_free_def reg_alloc_map_def pc_map_add_def
        reg_alloc_assign_def ra_update_def set_dirty_def emits_def x86_cur_def Let_def
        emit_store_arm_reg_def emit_defs le64_def ucast_and_ff rex_byte_def)
  moreover have "x86_disasm (emit_store_arm_reg [] R11 (Rd op) True) =
      Some [Mov_rm_r True (Mem R13 (ARM_REG_OFFSET (Rd op))) RBX]"
    using x86_disasm_step [OF store_arm_reg_high [of R11 "Rd op" "[]"]] by simp
  ultimately show ?thesis by (simp add: disasm_simps)
qed

lemma translate_movz_witness:
  "x86_disasm (drop (x86_cur ctx0) (x86_code (snd (translate_mov_imm ctx0 0xd2800540)))) =
     Some [Mov_r_imm64 R11 42, Mov_rm_r True (Mem R13 0) RBX]"
  using translate_movz_store [of ctx0 "0xd2800540"]
  by (simp add: ctx0_def reg_alloc_init_def REG_ALLOC_COUNT_def ARM_REG_OFFSET_def)

end
