(* ===== verification/Neon.thy ===== *)
theory Neon
  imports RegAlloc
begin

text \<open>
  \<open>src/modules/arm2x86_neon.c\<close>: the NEON emitters, which write SSE encodings, and the translators
  that take the operands of an instruction word and call them. The thread-local switch
  \<open>g_simd_enabled\<close>, which only \<open>neon_add\<close> consults, is a member of the translation context.
\<close>

section \<open>Emitters\<close>

definition neon_to_xmm :: "u8 \<Rightarrow> u8" where
  [emit_defs]: "neon_to_xmm vn = (if vn < 16 then vn else vn AND 0xf)"

definition neon_load_spilled :: "code \<Rightarrow> u8 \<Rightarrow> u8 \<Rightarrow> code" where
  [emit_defs]: "neon_load_spilled buf vn xmm_tmp =
     (if (vn < 16) then
       buf
     else (let offset = ((- 256) + (ucast vn * 16) :: u32);
         buf = emit_byte buf 0x66;
         buf = emit_byte buf 0x0f;
         buf = emit_byte buf 0x28;
         buf = emit_byte buf 0x84;
         buf = emit_byte buf 0x24
      in emit_imm32 buf offset))"

definition neon_store_spilled :: "code \<Rightarrow> u8 \<Rightarrow> u8 \<Rightarrow> code" where
  [emit_defs]: "neon_store_spilled buf vn xmm_tmp =
     (if (vn < 16) then
       buf
     else (let offset = ((- 256) + (ucast vn * 16) :: u32);
         buf = emit_byte buf 0x66;
         buf = emit_byte buf 0x0f;
         buf = emit_byte buf 0x29;
         buf = emit_byte buf 0x84;
         buf = emit_byte buf 0x24
      in emit_imm32 buf offset))"

definition neon_add :: "bool \<Rightarrow> code \<Rightarrow> u8 \<Rightarrow> u8 \<Rightarrow> u8 \<Rightarrow> bool \<Rightarrow> code" where
  [emit_defs]: "neon_add g_simd_enabled buf vd vn vm is_double =
     (if (\<not> g_simd_enabled) then
       buf
     else (let xvd = (neon_to_xmm vd :: u8);
         xvm = (neon_to_xmm vm :: u8)
      in (if is_double then
           (let buf = emit_byte buf 0x66;
               buf = emit_byte buf 0x0f;
               buf = emit_byte buf 0x58
            in modrm buf 3 (xvd AND 7) (xvm AND 7))
         else (let buf = emit_byte buf 0x0f;
               buf = emit_byte buf 0x58
            in modrm buf 3 (xvd AND 7) (xvm AND 7)))))"

definition neon_sub :: "code \<Rightarrow> u8 \<Rightarrow> u8 \<Rightarrow> u8 \<Rightarrow> bool \<Rightarrow> code" where
  [emit_defs]: "neon_sub buf vd vn vm is_double =
     (let xvd = (neon_to_xmm vd :: u8);
         xvm = (neon_to_xmm vm :: u8)
      in (if is_double then
           (let buf = emit_byte buf 0x66;
               buf = emit_byte buf 0x0f;
               buf = emit_byte buf 0x5c
            in modrm buf 3 (xvd AND 7) (xvm AND 7))
         else (let buf = emit_byte buf 0x0f;
               buf = emit_byte buf 0x5c
            in modrm buf 3 (xvd AND 7) (xvm AND 7))))"

definition neon_mul_int :: "code \<Rightarrow> u8 \<Rightarrow> u8 \<Rightarrow> u8 \<Rightarrow> u32 \<Rightarrow> code" where
  [emit_defs]: "neon_mul_int buf vd vn vm sz =
     (let xvd = (neon_to_xmm vd :: u8);
         xvn = (neon_to_xmm vn :: u8);
         xvm = (neon_to_xmm vm :: u8);
         buf = emit_byte buf 0x66
      in (if (sz = 1) then
           (let buf = emit_byte buf 0x0f;
               buf = emit_byte buf 0xd5
            in modrm buf 3 (xvd AND 7) (xvm AND 7))
         else (if (sz = 2) then
           (let buf = emit_byte buf 0x0f;
               buf = emit_byte buf 0x40;
               buf = emit_byte buf 0xd5
            in modrm buf 3 (xvd AND 7) (xvm AND 7))
         else (let buf = emit_byte buf 0x0f;
               buf = emit_byte buf 0xd5
            in modrm buf 3 (xvd AND 7) (xvm AND 7)))))"

definition neon_fmul :: "code \<Rightarrow> u8 \<Rightarrow> u8 \<Rightarrow> u8 \<Rightarrow> code" where
  [emit_defs]: "neon_fmul buf vd vn vm =
     (let xvd = (neon_to_xmm vd :: u8);
         xvn = (neon_to_xmm vn :: u8);
         xvm = (neon_to_xmm vm :: u8);
         buf = emit_byte buf 0x0f;
         buf = emit_byte buf 0x28;
         buf = modrm buf 3 (xvd AND 7) (xvn AND 7);
         buf = emit_byte buf 0x0f;
         buf = emit_byte buf 0x59
      in modrm buf 3 (xvd AND 7) (xvm AND 7))"

definition neon_and :: "code \<Rightarrow> u8 \<Rightarrow> u8 \<Rightarrow> u8 \<Rightarrow> code" where
  [emit_defs]: "neon_and buf vd vn vm =
     (let xvd = (neon_to_xmm vd :: u8);
         xvm = (neon_to_xmm vm :: u8);
         buf = emit_byte buf 0x66;
         buf = emit_byte buf 0x0f;
         buf = emit_byte buf 0xdb
      in modrm buf 3 (xvd AND 7) (xvm AND 7))"

definition neon_orr :: "code \<Rightarrow> u8 \<Rightarrow> u8 \<Rightarrow> u8 \<Rightarrow> code" where
  [emit_defs]: "neon_orr buf vd vn vm =
     (let xvd = (neon_to_xmm vd :: u8);
         xvm = (neon_to_xmm vm :: u8);
         buf = emit_byte buf 0x66;
         buf = emit_byte buf 0x0f;
         buf = emit_byte buf 0xeb
      in modrm buf 3 (xvd AND 7) (xvm AND 7))"

definition neon_eor :: "code \<Rightarrow> u8 \<Rightarrow> u8 \<Rightarrow> u8 \<Rightarrow> code" where
  [emit_defs]: "neon_eor buf vd vn vm =
     (let xvd = (neon_to_xmm vd :: u8);
         xvm = (neon_to_xmm vm :: u8);
         buf = emit_byte buf 0x66;
         buf = emit_byte buf 0x0f;
         buf = emit_byte buf 0xef
      in modrm buf 3 (xvd AND 7) (xvm AND 7))"

definition neon_bsl :: "code \<Rightarrow> u8 \<Rightarrow> u8 \<Rightarrow> u8 \<Rightarrow> code" where
  [emit_defs]: "neon_bsl buf vd vn vm =
     (let xvd = (neon_to_xmm vd :: u8);
         xvn = (neon_to_xmm vn :: u8);
         xvm = (neon_to_xmm vm :: u8);
         buf = emit_byte buf 0x48;
         buf = emit_byte buf 0x83;
         buf = emit_byte buf 0xEC;
         buf = emit_byte buf 0x30;
         buf = emit_byte buf 0x0f;
         buf = emit_byte buf 0x29;
         buf = modrm buf 0 (xvd AND 7) 4;
         buf = sib buf 0 4 5;
         buf = emit_byte buf 0x00;
         buf = emit_byte buf 0x00;
         buf = emit_byte buf 0x00;
         buf = emit_byte buf 0x00;
         buf = emit_byte buf 0x0f;
         buf = emit_byte buf 0x29;
         buf = modrm buf 0 (xvm AND 7) 4;
         buf = sib buf 0 4 5;
         buf = emit_byte buf 0x10;
         buf = emit_byte buf 0x00;
         buf = emit_byte buf 0x00;
         buf = emit_byte buf 0x00;
         buf = neon_and buf vd vn vd;
         buf = emit_byte buf 0x0f;
         buf = emit_byte buf 0x29;
         buf = modrm buf 0 (xvd AND 7) 4;
         buf = sib buf 0 4 5;
         buf = emit_byte buf 0x20;
         buf = emit_byte buf 0x00;
         buf = emit_byte buf 0x00;
         buf = emit_byte buf 0x00;
         buf = emit_byte buf 0x66;
         buf = emit_byte buf 0x0f;
         buf = emit_byte buf 0x28;
         buf = modrm buf 0 (xvd AND 7) 4;
         buf = sib buf 0 4 5;
         buf = emit_byte buf 0x00;
         buf = emit_byte buf 0x00;
         buf = emit_byte buf 0x00;
         buf = emit_byte buf 0x00;
         buf = emit_byte buf 0x66;
         buf = emit_byte buf 0x0f;
         buf = emit_byte buf 0xef;
         buf = modrm buf 3 0 0;
         buf = emit_byte buf 0x66;
         buf = emit_byte buf 0x0f;
         buf = emit_byte buf 0x74;
         buf = modrm buf 3 0 0;
         buf = emit_byte buf 0x66;
         buf = emit_byte buf 0x0f;
         buf = emit_byte buf 0xef;
         buf = modrm buf 3 (xvd AND 7) 0;
         buf = neon_and buf vd vd vm;
         buf = emit_byte buf 0x66;
         buf = emit_byte buf 0x0f;
         buf = emit_byte buf 0x56;
         buf = modrm buf 0 (xvd AND 7) 4;
         buf = sib buf 0 4 5;
         buf = emit_byte buf 0x20;
         buf = emit_byte buf 0x00;
         buf = emit_byte buf 0x00;
         buf = emit_byte buf 0x00;
         buf = emit_byte buf 0x48;
         buf = emit_byte buf 0x83;
         buf = emit_byte buf 0xC4
      in emit_byte buf 0x30)"

definition neon_ext :: "code \<Rightarrow> u8 \<Rightarrow> u8 \<Rightarrow> u8 \<Rightarrow> u8 \<Rightarrow> code" where
  [emit_defs]: "neon_ext buf vd vn vm imm =
     (let xvd = (neon_to_xmm vd :: u8);
         xvm = (neon_to_xmm vm :: u8);
         buf = emit_byte buf 0x66;
         buf = emit_byte buf 0x0f;
         buf = emit_byte buf 0x3a;
         buf = emit_byte buf 0x0f;
         buf = modrm buf 3 (xvd AND 7) (xvm AND 7)
      in emit_byte buf imm)"

definition neon_dup :: "code \<Rightarrow> u8 \<Rightarrow> u8 \<Rightarrow> u32 \<Rightarrow> code" where
  [emit_defs]: "neon_dup buf vd vn sz =
     (let xvd = (neon_to_xmm vd :: u8);
         xvn = (neon_to_xmm vn :: u8)
      in (if (sz = 2) then
           (let buf = emit_byte buf 0x66;
               buf = emit_byte buf 0x0f;
               buf = emit_byte buf 0x70;
               buf = modrm buf 3 (xvd AND 7) (xvn AND 7)
            in emit_byte buf 0x00)
         else (if (sz = 3) then
           (let buf = emit_byte buf 0xf2;
               buf = emit_byte buf 0x0f;
               buf = emit_byte buf 0x12
            in modrm buf 3 (xvd AND 7) (xvn AND 7))
         else (if (sz = 1) then
           (let buf = emit_byte buf 0xf3;
               buf = emit_byte buf 0x0f;
               buf = emit_byte buf 0x70;
               buf = modrm buf 3 (xvd AND 7) (xvn AND 7)
            in emit_byte buf 0x00)
         else (let buf = emit_byte buf 0x66;
               buf = emit_byte buf 0x0f;
               buf = emit_byte buf 0x6f
            in modrm buf 3 (xvd AND 7) (xvn AND 7))))))"

definition neon_mov :: "code \<Rightarrow> u8 \<Rightarrow> u8 \<Rightarrow> code" where
  [emit_defs]: "neon_mov buf vd vn =
     (let xvd = (neon_to_xmm vd :: u8);
         xvn = (neon_to_xmm vn :: u8);
         buf = emit_byte buf 0x66;
         buf = emit_byte buf 0x0f;
         buf = emit_byte buf 0x7e
      in modrm buf 3 (xvd AND 7) (xvn AND 7))"

definition neon_movi :: "code \<Rightarrow> u8 \<Rightarrow> u32 \<Rightarrow> u32 \<Rightarrow> code" where
  [emit_defs]: "neon_movi buf vd imm sz =
     (let xvd = (neon_to_xmm vd :: u8);
         buf = emit_byte buf 0x48;
         buf = emit_byte buf 0xb8;
         buf = emit_byte buf (ucast (imm AND 0xff));
         buf = emit_byte buf (ucast (drop_bit 8 imm AND 0xff));
         buf = emit_byte buf (ucast (drop_bit 16 imm AND 0xff));
         buf = emit_byte buf (ucast (drop_bit 24 imm AND 0xff));
         buf = emit_byte buf 0x00;
         buf = emit_byte buf 0x00;
         buf = emit_byte buf 0x00;
         buf = emit_byte buf 0x00;
         buf = emit_byte buf 0x66;
         buf = emit_byte buf 0x48;
         buf = emit_byte buf 0x0f;
         buf = emit_byte buf 0x6e;
         buf = modrm buf 3 (xvd AND 7) 0
      in (if (sz = 2) then
           (let buf = emit_byte buf 0x66;
               buf = emit_byte buf 0x0f;
               buf = emit_byte buf 0x70;
               buf = modrm buf 3 (xvd AND 7) (xvd AND 7)
            in emit_byte buf 0x00)
         else buf))"

definition neon_shl :: "code \<Rightarrow> u8 \<Rightarrow> u8 \<Rightarrow> u32 \<Rightarrow> code" where
  [emit_defs]: "neon_shl buf vd vn shift0 =
     (let xvd = (neon_to_xmm vd :: u8);
         xvn = (neon_to_xmm vn :: u8);
         buf = emit_byte buf 0x66;
         buf = emit_byte buf 0x0f;
         buf = emit_byte buf 0x6f;
         buf = modrm buf 3 (xvd AND 7) (xvn AND 7);
         buf = emit_byte buf 0x66;
         buf = emit_byte buf 0x0f;
         buf = emit_byte buf 0x71;
         buf = modrm buf 3 6 (xvd AND 7)
      in emit_byte buf (ucast shift0))"

definition neon_shr :: "code \<Rightarrow> u8 \<Rightarrow> u8 \<Rightarrow> u32 \<Rightarrow> code" where
  [emit_defs]: "neon_shr buf vd vn shift0 =
     (let xvd = (neon_to_xmm vd :: u8);
         xvn = (neon_to_xmm vn :: u8);
         buf = emit_byte buf 0x66;
         buf = emit_byte buf 0x0f;
         buf = emit_byte buf 0x6f;
         buf = modrm buf 3 (xvd AND 7) (xvn AND 7);
         buf = emit_byte buf 0x66;
         buf = emit_byte buf 0x0f;
         buf = emit_byte buf 0x71;
         buf = modrm buf 3 2 (xvd AND 7)
      in emit_byte buf (ucast shift0))"

definition neon_fmax :: "code \<Rightarrow> u8 \<Rightarrow> u8 \<Rightarrow> u8 \<Rightarrow> code" where
  [emit_defs]: "neon_fmax buf vd vn vm =
     (let xvd = (neon_to_xmm vd :: u8);
         xvm = (neon_to_xmm vm :: u8);
         buf = emit_byte buf 0x0f;
         buf = emit_byte buf 0x5f
      in modrm buf 3 (xvd AND 7) (xvm AND 7))"

definition neon_fmin :: "code \<Rightarrow> u8 \<Rightarrow> u8 \<Rightarrow> u8 \<Rightarrow> code" where
  [emit_defs]: "neon_fmin buf vd vn vm =
     (let xvd = (neon_to_xmm vd :: u8);
         xvm = (neon_to_xmm vm :: u8);
         buf = emit_byte buf 0x0f;
         buf = emit_byte buf 0x5d
      in modrm buf 3 (xvd AND 7) (xvm AND 7))"

definition neon_fcvt :: "code \<Rightarrow> u8 \<Rightarrow> u8 \<Rightarrow> u32 \<Rightarrow> u32 \<Rightarrow> code" where
  [emit_defs]: "neon_fcvt buf vd vn src_is_int dst_is_int =
     (let xvd = (neon_to_xmm vd :: u8);
         xvn = (neon_to_xmm vn :: u8)
      in (if ((\<not> (src_is_int \<noteq> 0)) \<and> (dst_is_int \<noteq> 0)) then
           (let buf = emit_byte buf 0x66;
               buf = emit_byte buf 0x0f;
               buf = emit_byte buf 0x5b
            in modrm buf 3 (xvd AND 7) (xvn AND 7))
         else (if ((src_is_int \<noteq> 0) \<and> (\<not> (dst_is_int \<noteq> 0))) then
           (let buf = emit_byte buf 0x0f;
               buf = emit_byte buf 0x5b
            in modrm buf 3 (xvd AND 7) (xvn AND 7))
         else (let buf = emit_byte buf 0x66;
               buf = emit_byte buf 0x0f;
               buf = emit_byte buf 0x5a
            in modrm buf 3 (xvd AND 7) (xvn AND 7)))))"

definition neon_fsqrt :: "code \<Rightarrow> u8 \<Rightarrow> u8 \<Rightarrow> code" where
  [emit_defs]: "neon_fsqrt buf vd vn =
     (let xvd = (neon_to_xmm vd :: u8);
         xvn = (neon_to_xmm vn :: u8);
         buf = emit_byte buf 0x0f;
         buf = emit_byte buf 0x51
      in modrm buf 3 (xvd AND 7) (xvn AND 7))"

definition neon_frecpe :: "code \<Rightarrow> u8 \<Rightarrow> u8 \<Rightarrow> code" where
  [emit_defs]: "neon_frecpe buf vd vn =
     (let xvd = (neon_to_xmm vd :: u8);
         xvn = (neon_to_xmm vn :: u8);
         buf = emit_byte buf 0x0f;
         buf = emit_byte buf 0x53
      in modrm buf 3 (xvd AND 7) (xvn AND 7))"

definition neon_frsqrte :: "code \<Rightarrow> u8 \<Rightarrow> u8 \<Rightarrow> code" where
  [emit_defs]: "neon_frsqrte buf vd vn =
     (let xvd = (neon_to_xmm vd :: u8);
         xvn = (neon_to_xmm vn :: u8);
         buf = emit_byte buf 0x0f;
         buf = emit_byte buf 0x52
      in modrm buf 3 (xvd AND 7) (xvn AND 7))"

definition neon_fmla :: "code \<Rightarrow> u8 \<Rightarrow> u8 \<Rightarrow> u8 \<Rightarrow> bool \<Rightarrow> code" where
  [emit_defs]: "neon_fmla buf vd vn vm is_double =
     (let xvd = (neon_to_xmm vd :: u8);
         xvn = (neon_to_xmm vn :: u8);
         xvm = (neon_to_xmm vm :: u8);
         buf = emit_byte buf 0x48;
         buf = emit_byte buf 0x83;
         buf = emit_byte buf 0xEC;
         buf = emit_byte buf 0x10;
         buf = emit_byte buf 0x0f;
         buf = emit_byte buf 0x29;
         buf = modrm buf 0 (xvd AND 7) 4;
         buf = sib buf 0 4 4;
         buf = emit_byte buf 0x00;
         buf = emit_byte buf 0x00;
         buf = emit_byte buf 0x00;
         buf = emit_byte buf 0x00;
         buf = (if is_double then
           (let buf = emit_byte buf 0x66;
               buf = emit_byte buf 0x0f
            in emit_byte buf 0x28)
         else (let buf = emit_byte buf 0x0f
            in emit_byte buf 0x28));
         buf = modrm buf 3 (xvd AND 7) (xvn AND 7);
         buf = (if is_double then
           (let buf = emit_byte buf 0x66;
               buf = emit_byte buf 0x0f
            in emit_byte buf 0x59)
         else (let buf = emit_byte buf 0x0f
            in emit_byte buf 0x59));
         buf = modrm buf 3 (xvd AND 7) (xvm AND 7);
         buf = (if is_double then
           (let buf = emit_byte buf 0x66;
               buf = emit_byte buf 0x0f
            in emit_byte buf 0x58)
         else (let buf = emit_byte buf 0x0f
            in emit_byte buf 0x58));
         buf = modrm buf 0 (xvd AND 7) 4;
         buf = sib buf 0 4 4;
         buf = emit_byte buf 0x00;
         buf = emit_byte buf 0x00;
         buf = emit_byte buf 0x00;
         buf = emit_byte buf 0x00;
         buf = emit_byte buf 0x48;
         buf = emit_byte buf 0x83;
         buf = emit_byte buf 0xC4
      in emit_byte buf 0x10)"

definition neon_fabs :: "code \<Rightarrow> u8 \<Rightarrow> u8 \<Rightarrow> code" where
  [emit_defs]: "neon_fabs buf vd vn =
     (let xvd = (neon_to_xmm vd :: u8);
         xvn = (neon_to_xmm vn :: u8);
         buf = emit_byte buf 0x66;
         buf = emit_byte buf 0x0f;
         buf = emit_byte buf 0x38;
         buf = emit_byte buf 0x40
      in modrm buf 3 (xvd AND 7) (xvn AND 7))"

definition neon_fneg :: "code \<Rightarrow> u8 \<Rightarrow> u8 \<Rightarrow> code" where
  [emit_defs]: "neon_fneg buf vd vn =
     (let xvd = (neon_to_xmm vd :: u8);
         xvn = (neon_to_xmm vn :: u8);
         buf = emit_byte buf 0x0f;
         buf = emit_byte buf 0x57
      in modrm buf 3 (xvd AND 7) (xvn AND 7))"

definition neon_ldr :: "code \<Rightarrow> u8 \<Rightarrow> u8 \<Rightarrow> u32 \<Rightarrow> u32 \<Rightarrow> code" where
  [emit_defs]: "neon_ldr buf vt base offset sz =
     (let xvt = (neon_to_xmm vt :: u8);
         xbase = (neon_to_xmm base :: u8);
         buf = (if (3 \<le>s sz) then
           (let buf = emit_byte buf 0xf3;
               buf = emit_byte buf 0x0f
            in emit_byte buf 0x6f)
         else (if (2 \<le>s sz) then
           (let buf = emit_byte buf 0x66;
               buf = emit_byte buf 0x0f
            in emit_byte buf 0x6f)
         else (let buf = emit_byte buf 0xf3;
               buf = emit_byte buf 0x0f
            in emit_byte buf 0x6f)))
      in (if (base = 31) then
           (let buf = modrm buf 0 (xvt AND 7) 4;
               buf = sib buf 0 4 5
            in emit_imm32 buf offset)
         else (let buf = modrm buf 0 (xvt AND 7) (xbase AND 7)
            in (if (offset \<noteq> 0) then
                 (let buf = emit_byte buf ((0x80 OR push_bit 3 (xvt AND 7)) OR (xbase AND 7))
                  in emit_imm8 buf (ucast offset))
               else buf))))"

definition neon_str :: "code \<Rightarrow> u8 \<Rightarrow> u8 \<Rightarrow> u32 \<Rightarrow> u32 \<Rightarrow> code" where
  [emit_defs]: "neon_str buf vt base offset sz =
     (let xvt = (neon_to_xmm vt :: u8);
         xbase = (neon_to_xmm base :: u8);
         buf = (if (3 \<le>s sz) then
           (let buf = emit_byte buf 0xf3;
               buf = emit_byte buf 0x0f
            in emit_byte buf 0x7f)
         else (if (2 \<le>s sz) then
           (let buf = emit_byte buf 0x66;
               buf = emit_byte buf 0x0f
            in emit_byte buf 0x7f)
         else (let buf = emit_byte buf 0xf3;
               buf = emit_byte buf 0x0f
            in emit_byte buf 0x7f)))
      in (if (base = 31) then
           (let buf = modrm buf 0 (xvt AND 7) 4;
               buf = sib buf 0 4 5
            in emit_imm32 buf offset)
         else (let buf = modrm buf 0 (xvt AND 7) (xbase AND 7)
            in (if (offset \<noteq> 0) then
                 (let buf = emit_byte buf ((0x80 OR push_bit 3 (xvt AND 7)) OR (xbase AND 7))
                  in emit_imm8 buf (ucast offset))
               else buf))))"

definition neon_aese :: "code \<Rightarrow> u8 \<Rightarrow> u8 \<Rightarrow> code" where
  [emit_defs]: "neon_aese buf vd vn =
     (let xvd = (neon_to_xmm vd :: u8);
         xvn = (neon_to_xmm vn :: u8);
         buf = emit_byte buf 0x66;
         buf = emit_byte buf 0x0f;
         buf = emit_byte buf 0x38;
         buf = emit_byte buf 0xdb
      in modrm buf 3 (xvd AND 7) (xvn AND 7))"

definition neon_aesd :: "code \<Rightarrow> u8 \<Rightarrow> u8 \<Rightarrow> code" where
  [emit_defs]: "neon_aesd buf vd vn =
     (let xvd = (neon_to_xmm vd :: u8);
         xvn = (neon_to_xmm vn :: u8);
         buf = emit_byte buf 0x66;
         buf = emit_byte buf 0x0f;
         buf = emit_byte buf 0x38;
         buf = emit_byte buf 0xde
      in modrm buf 3 (xvd AND 7) (xvn AND 7))"

definition neon_crc32 :: "code \<Rightarrow> u8 \<Rightarrow> u8 \<Rightarrow> u8 \<Rightarrow> bool \<Rightarrow> u32 \<Rightarrow> code" where
  [emit_defs]: "neon_crc32 buf rd rn rm is_crc32c sz =
     (let buf = emit_byte buf 0xf2;
         buf = (if is_crc32c then
           (let buf = emit_byte buf 0x0f;
               buf = emit_byte buf 0x38
            in emit_byte buf 0xf1)
         else (let buf = emit_byte buf 0x0f;
               buf = emit_byte buf 0x38
            in emit_byte buf 0xf0))
      in modrm buf 3 (rd AND 7) (rm AND 7))"

definition neon_div :: "code \<Rightarrow> u8 \<Rightarrow> u8 \<Rightarrow> u8 \<Rightarrow> bool \<Rightarrow> code" where
  [emit_defs]: "neon_div buf vd vn vm is_double =
     (let xvd = (neon_to_xmm vd :: u8);
         xvm = (neon_to_xmm vm :: u8)
      in (if is_double then
           (let buf = emit_byte buf 0x66;
               buf = emit_byte buf 0x0f;
               buf = emit_byte buf 0x5e
            in modrm buf 3 (xvd AND 7) (xvm AND 7))
         else (let buf = emit_byte buf 0x0f;
               buf = emit_byte buf 0x5e
            in modrm buf 3 (xvd AND 7) (xvm AND 7))))"

definition neon_ins :: "code \<Rightarrow> u8 \<Rightarrow> u8 \<Rightarrow> u32 \<Rightarrow> code" where
  [emit_defs]: "neon_ins buf vd vn index =
     (let xvd = (neon_to_xmm vd :: u8);
         xvn = (neon_to_xmm vn :: u8);
         buf = emit_byte buf 0x66;
         buf = emit_byte buf 0x0f;
         buf = emit_byte buf 0x3a;
         buf = emit_byte buf 0x22;
         buf = modrm buf 3 (xvd AND 7) (xvn AND 7)
      in emit_byte buf (ucast index AND 0xf))"

definition neon_xtn :: "code \<Rightarrow> u8 \<Rightarrow> u8 \<Rightarrow> u32 \<Rightarrow> code" where
  [emit_defs]: "neon_xtn buf vd vn sz =
     (let xvd = (neon_to_xmm vd :: u8);
         xvn = (neon_to_xmm vn :: u8)
      in (if sz = 0 then
           (let buf = emit_byte buf 0x66;
               buf = emit_byte buf 0x0f;
               buf = emit_byte buf 0x67
            in modrm buf 3 (xvd AND 7) (xvn AND 7))
         else if sz = 1 then
           (let buf = emit_byte buf 0x66;
               buf = emit_byte buf 0x0f;
               buf = emit_byte buf 0x38;
               buf = emit_byte buf 0x2b
            in modrm buf 3 (xvd AND 7) (xvn AND 7))
         else if sz = 2 then
           (let buf = emit_byte buf 0x66;
               buf = emit_byte buf 0x0f;
               buf = emit_byte buf 0x7e
            in modrm buf 3 (xvd AND 7) (xvn AND 7))
         else (let buf = emit_byte buf 0x66;
               buf = emit_byte buf 0x0f;
               buf = emit_byte buf 0x67
            in modrm buf 3 (xvd AND 7) (xvn AND 7))))"

definition neon_sqxtn :: "code \<Rightarrow> u8 \<Rightarrow> u8 \<Rightarrow> u32 \<Rightarrow> code" where
  [emit_defs]: "neon_sqxtn buf vd vn sz =
     (let xvd = (neon_to_xmm vd :: u8);
         xvn = (neon_to_xmm vn :: u8)
      in (if sz = 0 then
           (let buf = emit_byte buf 0x66;
               buf = emit_byte buf 0x0f;
               buf = emit_byte buf 0x6b
            in modrm buf 3 (xvd AND 7) (xvn AND 7))
         else if sz = 1 then
           (let buf = emit_byte buf 0x66;
               buf = emit_byte buf 0x0f;
               buf = emit_byte buf 0x6b
            in modrm buf 3 (xvd AND 7) (xvn AND 7))
         else if sz = 2 then
           (let buf = emit_byte buf 0x66;
               buf = emit_byte buf 0x0f;
               buf = emit_byte buf 0x7e
            in modrm buf 3 (xvd AND 7) (xvn AND 7))
         else (let buf = emit_byte buf 0x66;
               buf = emit_byte buf 0x0f;
               buf = emit_byte buf 0x6b
            in modrm buf 3 (xvd AND 7) (xvn AND 7))))"

definition neon_uqxtn :: "code \<Rightarrow> u8 \<Rightarrow> u8 \<Rightarrow> u32 \<Rightarrow> code" where
  [emit_defs]: "neon_uqxtn buf vd vn sz =
     (let xvd = (neon_to_xmm vd :: u8);
         xvn = (neon_to_xmm vn :: u8)
      in (if sz = 0 then
           (let buf = emit_byte buf 0x66;
               buf = emit_byte buf 0x0f;
               buf = emit_byte buf 0x67
            in modrm buf 3 (xvd AND 7) (xvn AND 7))
         else if sz = 1 then
           (let buf = emit_byte buf 0x66;
               buf = emit_byte buf 0x0f;
               buf = emit_byte buf 0x38;
               buf = emit_byte buf 0x2b
            in modrm buf 3 (xvd AND 7) (xvn AND 7))
         else if sz = 2 then
           (let buf = emit_byte buf 0x66;
               buf = emit_byte buf 0x0f;
               buf = emit_byte buf 0x7e
            in modrm buf 3 (xvd AND 7) (xvn AND 7))
         else (let buf = emit_byte buf 0x66;
               buf = emit_byte buf 0x0f;
               buf = emit_byte buf 0x67
            in modrm buf 3 (xvd AND 7) (xvn AND 7))))"

definition neon_sqxtun :: "code \<Rightarrow> u8 \<Rightarrow> u8 \<Rightarrow> u32 \<Rightarrow> code" where
  [emit_defs]: "neon_sqxtun buf vd vn sz =
     (let xvd = (neon_to_xmm vd :: u8);
         xvn = (neon_to_xmm vn :: u8)
      in (if sz = 0 then
           (let buf = emit_byte buf 0x66;
               buf = emit_byte buf 0x0f;
               buf = emit_byte buf 0x6b
            in modrm buf 3 (xvd AND 7) (xvn AND 7))
         else if sz = 1 then
           (let buf = emit_byte buf 0x66;
               buf = emit_byte buf 0x0f;
               buf = emit_byte buf 0x6b
            in modrm buf 3 (xvd AND 7) (xvn AND 7))
         else if sz = 2 then
           (let buf = emit_byte buf 0x66;
               buf = emit_byte buf 0x0f;
               buf = emit_byte buf 0x7e
            in modrm buf 3 (xvd AND 7) (xvn AND 7))
         else (let buf = emit_byte buf 0x66;
               buf = emit_byte buf 0x0f;
               buf = emit_byte buf 0x6b
            in modrm buf 3 (xvd AND 7) (xvn AND 7))))"

definition neon_usra :: "code \<Rightarrow> u8 \<Rightarrow> u8 \<Rightarrow> u32 \<Rightarrow> code" where
  [emit_defs]: "neon_usra buf vd vn shift0 =
     (let xvd = (neon_to_xmm vd :: u8);
         xvn = (neon_to_xmm vn :: u8);
         buf = emit_byte buf 0x48;
         buf = emit_byte buf 0x83;
         buf = emit_byte buf 0xEC;
         buf = emit_byte buf 0x10;
         buf = emit_byte buf 0x0f;
         buf = emit_byte buf 0x29;
         buf = modrm buf 0 (xvn AND 7) 4;
         buf = sib buf 0 4 5;
         buf = emit_byte buf 0x00;
         buf = emit_byte buf 0x00;
         buf = emit_byte buf 0x00;
         buf = emit_byte buf 0x00;
         buf = neon_shr buf vn vn shift0;
         buf = emit_byte buf 0x66;
         buf = emit_byte buf 0x0f;
         buf = emit_byte buf 0xfe;
         buf = modrm buf 3 (xvd AND 7) (xvn AND 7);
         buf = emit_byte buf 0x48;
         buf = emit_byte buf 0x83;
         buf = emit_byte buf 0xC4
      in emit_byte buf 0x10)"

definition neon_ssra :: "code \<Rightarrow> u8 \<Rightarrow> u8 \<Rightarrow> u32 \<Rightarrow> code" where
  [emit_defs]: "neon_ssra buf vd vn shift0 =
     (let xvd = (neon_to_xmm vd :: u8);
         xvn = (neon_to_xmm vn :: u8);
         buf = emit_byte buf 0x48;
         buf = emit_byte buf 0x83;
         buf = emit_byte buf 0xEC;
         buf = emit_byte buf 0x10;
         buf = emit_byte buf 0x0f;
         buf = emit_byte buf 0x29;
         buf = modrm buf 0 (xvn AND 7) 4;
         buf = sib buf 0 4 5;
         buf = emit_byte buf 0x00;
         buf = emit_byte buf 0x00;
         buf = emit_byte buf 0x00;
         buf = emit_byte buf 0x00;
         buf = emit_byte buf 0x66;
         buf = emit_byte buf 0x0f;
         buf = emit_byte buf 0x72;
         buf = modrm buf 3 4 (xvn AND 7);
         buf = emit_byte buf (ucast shift0 AND 0xff);
         buf = emit_byte buf 0x66;
         buf = emit_byte buf 0x0f;
         buf = emit_byte buf 0xfe;
         buf = modrm buf 3 (xvd AND 7) (xvn AND 7);
         buf = emit_byte buf 0x48;
         buf = emit_byte buf 0x83;
         buf = emit_byte buf 0xC4
      in emit_byte buf 0x10)"

definition neon_ushl :: "code \<Rightarrow> u8 \<Rightarrow> u8 \<Rightarrow> u8 \<Rightarrow> code" where
  [emit_defs]: "neon_ushl buf vd vn vm =
     (let xvd = (neon_to_xmm vd :: u8);
         xvm = (neon_to_xmm vm :: u8);
         buf = emit_byte buf 0x66;
         buf = emit_byte buf 0x0f;
         buf = emit_byte buf 0xf3
      in modrm buf 3 (xvd AND 7) (xvm AND 7))"

definition neon_sshl :: "code \<Rightarrow> u8 \<Rightarrow> u8 \<Rightarrow> u8 \<Rightarrow> code" where
  [emit_defs]: "neon_sshl buf vd vn vm =
     (let xvd = (neon_to_xmm vd :: u8);
         xvm = (neon_to_xmm vm :: u8);
         buf = emit_byte buf 0x66;
         buf = emit_byte buf 0x0f;
         buf = emit_byte buf 0xe3
      in modrm buf 3 (xvd AND 7) (xvm AND 7))"

definition neon_umull :: "code \<Rightarrow> u8 \<Rightarrow> u8 \<Rightarrow> u8 \<Rightarrow> u32 \<Rightarrow> code" where
  [emit_defs]: "neon_umull buf vd vn vm sz =
     (let xvd = (neon_to_xmm vd :: u8);
         xvm = (neon_to_xmm vm :: u8)
      in (if (sz = 1) then
           (let buf = emit_byte buf 0x66;
               buf = emit_byte buf 0x0f;
               buf = emit_byte buf 0xd5
            in modrm buf 3 (xvd AND 7) (xvm AND 7))
         else (let buf = emit_byte buf 0x66;
               buf = emit_byte buf 0x0f;
               buf = emit_byte buf 0x38;
               buf = emit_byte buf 0x40
            in modrm buf 3 (xvd AND 7) (xvm AND 7))))"

definition neon_smull :: "code \<Rightarrow> u8 \<Rightarrow> u8 \<Rightarrow> u8 \<Rightarrow> u32 \<Rightarrow> code" where
  [emit_defs]: "neon_smull buf vd vn vm sz =
     (let xvd = (neon_to_xmm vd :: u8);
         xvm = (neon_to_xmm vm :: u8)
      in (if (sz = 1) then
           (let buf = emit_byte buf 0x66;
               buf = emit_byte buf 0x0f;
               buf = emit_byte buf 0xd5
            in modrm buf 3 (xvd AND 7) (xvm AND 7))
         else (let buf = emit_byte buf 0x66;
               buf = emit_byte buf 0x0f;
               buf = emit_byte buf 0x38;
               buf = emit_byte buf 0x40
            in modrm buf 3 (xvd AND 7) (xvm AND 7))))"

definition neon_pmul :: "code \<Rightarrow> u8 \<Rightarrow> u8 \<Rightarrow> u8 \<Rightarrow> code" where
  [emit_defs]: "neon_pmul buf vd vn vm =
     (let xvd = (neon_to_xmm vd :: u8);
         xvn = (neon_to_xmm vn :: u8);
         xvm = (neon_to_xmm vm :: u8);
         buf = emit_byte buf 0x66;
         buf = emit_byte buf 0x0f;
         buf = emit_byte buf 0x3a;
         buf = emit_byte buf 0x44;
         buf = modrm buf 3 (xvd AND 7) (xvm AND 7)
      in emit_byte buf 0x00)"

definition neon_fmls :: "code \<Rightarrow> u8 \<Rightarrow> u8 \<Rightarrow> u8 \<Rightarrow> bool \<Rightarrow> code" where
  [emit_defs]: "neon_fmls buf vd vn vm is_double =
     (let xvd = (neon_to_xmm vd :: u8);
         xvn = (neon_to_xmm vn :: u8);
         xvm = (neon_to_xmm vm :: u8);
         buf = emit_byte buf 0x48;
         buf = emit_byte buf 0x83;
         buf = emit_byte buf 0xEC;
         buf = emit_byte buf 0x20;
         buf = emit_byte buf 0x0f;
         buf = emit_byte buf 0x29;
         buf = modrm buf 0 (xvd AND 7) 4;
         buf = sib buf 0 4 4;
         buf = emit_byte buf 0x00;
         buf = emit_byte buf 0x00;
         buf = emit_byte buf 0x00;
         buf = emit_byte buf 0x00;
         buf = emit_byte buf 0x48;
         buf = emit_byte buf 0x83;
         buf = emit_byte buf 0xEC;
         buf = emit_byte buf 0x10;
         buf = (if is_double then
           (let buf = emit_byte buf 0x66;
               buf = emit_byte buf 0x0f
            in emit_byte buf 0x28)
         else (let buf = emit_byte buf 0x0f
            in emit_byte buf 0x28));
         buf = modrm buf 3 0 (xvn AND 7);
         buf = (if is_double then
           (let buf = emit_byte buf 0x66;
               buf = emit_byte buf 0x0f
            in emit_byte buf 0x59)
         else (let buf = emit_byte buf 0x0f
            in emit_byte buf 0x59));
         buf = modrm buf 3 0 (xvm AND 7);
         buf = emit_byte buf 0x0f;
         buf = emit_byte buf 0x29;
         buf = modrm buf 0 0 4;
         buf = sib buf 0 4 4;
         buf = emit_byte buf 0x10;
         buf = emit_byte buf 0x00;
         buf = emit_byte buf 0x00;
         buf = emit_byte buf 0x00;
         buf = (if is_double then
           (let buf = emit_byte buf 0x66;
               buf = emit_byte buf 0x0f
            in emit_byte buf 0x28)
         else (let buf = emit_byte buf 0x0f
            in emit_byte buf 0x28));
         buf = modrm buf 0 (xvd AND 7) 4;
         buf = sib buf 0 4 4;
         buf = emit_byte buf 0x20;
         buf = emit_byte buf 0x00;
         buf = emit_byte buf 0x00;
         buf = emit_byte buf 0x00;
         buf = (if is_double then
           (let buf = emit_byte buf 0x66;
               buf = emit_byte buf 0x0f
            in emit_byte buf 0x5c)
         else (let buf = emit_byte buf 0x0f
            in emit_byte buf 0x5c));
         buf = modrm buf 0 (xvd AND 7) 4;
         buf = sib buf 0 4 4;
         buf = emit_byte buf 0x10;
         buf = emit_byte buf 0x00;
         buf = emit_byte buf 0x00;
         buf = emit_byte buf 0x00;
         buf = emit_byte buf 0x48;
         buf = emit_byte buf 0x83;
         buf = emit_byte buf 0xC4
      in emit_byte buf 0x30)"

definition neon_fcmp :: "code \<Rightarrow> u8 \<Rightarrow> u8 \<Rightarrow> u8 \<Rightarrow> code" where
  [emit_defs]: "neon_fcmp buf vd vn vm =
     (let xvd = (neon_to_xmm vd :: u8);
         xvm = (neon_to_xmm vm :: u8);
         buf = emit_byte buf 0x66;
         buf = emit_byte buf 0x0f;
         buf = emit_byte buf 0xc2;
         buf = modrm buf 3 (xvd AND 7) (xvm AND 7)
      in emit_byte buf 0x00)"


section \<open>Translators\<close>

definition translate_neon_add :: "TranslateCtx \<Rightarrow> u32 \<Rightarrow> int \<times> TranslateCtx" where
  [trans_defs]: "translate_neon_add t op =
     (let vd = (ucast (op AND 0x1f) :: u8);
         vn = (ucast (drop_bit 5 op AND 0x1f) :: u8);
         vm = (ucast (drop_bit 16 op AND 0x1f) :: u8);
         is_double = (drop_bit 30 op AND 1) \<noteq> 0;
         t = emits t (\<lambda>buf. neon_add (simd_enabled t) buf vd vn vm is_double)
      in (ARM2X86_OK, t))"

definition translate_neon_sub :: "TranslateCtx \<Rightarrow> u32 \<Rightarrow> int \<times> TranslateCtx" where
  [trans_defs]: "translate_neon_sub t op =
     (let vd = (ucast (op AND 0x1f) :: u8);
         vn = (ucast (drop_bit 5 op AND 0x1f) :: u8);
         vm = (ucast (drop_bit 16 op AND 0x1f) :: u8);
         is_double = (drop_bit 30 op AND 1) \<noteq> 0;
         t = emits t (\<lambda>buf. neon_sub buf vd vn vm is_double)
      in (ARM2X86_OK, t))"

definition translate_neon_mul :: "TranslateCtx \<Rightarrow> u32 \<Rightarrow> int \<times> TranslateCtx" where
  [trans_defs]: "translate_neon_mul t op =
     (let vd = (ucast (op AND 0x1f) :: u8);
         vn = (ucast (drop_bit 5 op AND 0x1f) :: u8);
         vm = (ucast (drop_bit 16 op AND 0x1f) :: u8);
         sz = (drop_bit 22 op AND 3 :: u32);
         t = emits t (\<lambda>buf. neon_mul_int buf vd vn vm sz)
      in (ARM2X86_OK, t))"

definition translate_neon_and :: "TranslateCtx \<Rightarrow> u32 \<Rightarrow> int \<times> TranslateCtx" where
  [trans_defs]: "translate_neon_and t op =
     (let vd = (ucast (op AND 0x1f) :: u8);
         vn = (ucast (drop_bit 5 op AND 0x1f) :: u8);
         vm = (ucast (drop_bit 16 op AND 0x1f) :: u8);
         t = emits t (\<lambda>buf. neon_and buf vd vn vm)
      in (ARM2X86_OK, t))"

definition translate_neon_orr :: "TranslateCtx \<Rightarrow> u32 \<Rightarrow> int \<times> TranslateCtx" where
  [trans_defs]: "translate_neon_orr t op =
     (let vd = (ucast (op AND 0x1f) :: u8);
         vn = (ucast (drop_bit 5 op AND 0x1f) :: u8);
         vm = (ucast (drop_bit 16 op AND 0x1f) :: u8);
         t = emits t (\<lambda>buf. neon_orr buf vd vn vm)
      in (ARM2X86_OK, t))"

definition translate_neon_eor :: "TranslateCtx \<Rightarrow> u32 \<Rightarrow> int \<times> TranslateCtx" where
  [trans_defs]: "translate_neon_eor t op =
     (let vd = (ucast (op AND 0x1f) :: u8);
         vn = (ucast (drop_bit 5 op AND 0x1f) :: u8);
         vm = (ucast (drop_bit 16 op AND 0x1f) :: u8);
         t = emits t (\<lambda>buf. neon_eor buf vd vn vm)
      in (ARM2X86_OK, t))"

definition translate_neon_bsl :: "TranslateCtx \<Rightarrow> u32 \<Rightarrow> int \<times> TranslateCtx" where
  [trans_defs]: "translate_neon_bsl t op =
     (let vd = (ucast (op AND 0x1f) :: u8);
         vn = (ucast (drop_bit 5 op AND 0x1f) :: u8);
         vm = (ucast (drop_bit 16 op AND 0x1f) :: u8);
         t = emits t (\<lambda>buf. neon_bsl buf vd vn vm)
      in (ARM2X86_OK, t))"

definition translate_neon_ext :: "TranslateCtx \<Rightarrow> u32 \<Rightarrow> int \<times> TranslateCtx" where
  [trans_defs]: "translate_neon_ext t op =
     (let vd = (ucast (op AND 0x1f) :: u8);
         vn = (ucast (drop_bit 5 op AND 0x1f) :: u8);
         vm = (ucast (drop_bit 16 op AND 0x1f) :: u8);
         imm = (ucast (drop_bit 11 op AND 0xf) :: u8);
         t = emits t (\<lambda>buf. neon_ext buf vd vn vm imm)
      in (ARM2X86_OK, t))"

definition translate_neon_dup :: "TranslateCtx \<Rightarrow> u32 \<Rightarrow> int \<times> TranslateCtx" where
  [trans_defs]: "translate_neon_dup t op =
     (let vd = (ucast (op AND 0x1f) :: u8);
         vn = (ucast (drop_bit 5 op AND 0x1f) :: u8);
         sz = (drop_bit 22 op AND 3 :: u32);
         t = emits t (\<lambda>buf. neon_dup buf vd vn sz)
      in (ARM2X86_OK, t))"

definition translate_neon_movi :: "TranslateCtx \<Rightarrow> u32 \<Rightarrow> int \<times> TranslateCtx" where
  [trans_defs]: "translate_neon_movi t op =
     (let vd = (ucast (op AND 0x1f) :: u8);
         imm = (drop_bit 5 op AND 0xff :: u32);
         sz = (drop_bit 22 op AND 3 :: u32);
         t = emits t (\<lambda>buf. neon_movi buf vd imm sz)
      in (ARM2X86_OK, t))"

definition translate_neon_mov :: "TranslateCtx \<Rightarrow> u32 \<Rightarrow> int \<times> TranslateCtx" where
  [trans_defs]: "translate_neon_mov t op =
     (let vd = (ucast (op AND 0x1f) :: u8);
         vn = (ucast (drop_bit 5 op AND 0x1f) :: u8);
         t = emits t (\<lambda>buf. neon_mov buf vd vn)
      in (ARM2X86_OK, t))"

definition translate_neon_shl :: "TranslateCtx \<Rightarrow> u32 \<Rightarrow> int \<times> TranslateCtx" where
  [trans_defs]: "translate_neon_shl t op =
     (let vd = (ucast (op AND 0x1f) :: u8);
         vn = (ucast (drop_bit 5 op AND 0x1f) :: u8);
         shift0 = (drop_bit 16 op AND 0x3f :: u32);
         t = emits t (\<lambda>buf. neon_shl buf vd vn shift0)
      in (ARM2X86_OK, t))"

definition translate_neon_shr :: "TranslateCtx \<Rightarrow> u32 \<Rightarrow> int \<times> TranslateCtx" where
  [trans_defs]: "translate_neon_shr t op =
     (let vd = (ucast (op AND 0x1f) :: u8);
         vn = (ucast (drop_bit 5 op AND 0x1f) :: u8);
         shift0 = (drop_bit 16 op AND 0x3f :: u32);
         t = emits t (\<lambda>buf. neon_shr buf vd vn shift0)
      in (ARM2X86_OK, t))"

definition translate_neon_fadd :: "TranslateCtx \<Rightarrow> u32 \<Rightarrow> int \<times> TranslateCtx" where
  [trans_defs]: "translate_neon_fadd t op =
     (let vd = (ucast (op AND 0x1f) :: u8);
         vn = (ucast (drop_bit 5 op AND 0x1f) :: u8);
         vm = (ucast (drop_bit 16 op AND 0x1f) :: u8);
         t = emits t (\<lambda>buf. neon_add (simd_enabled t) buf vd vn vm True)
      in (ARM2X86_OK, t))"

definition translate_neon_fsub :: "TranslateCtx \<Rightarrow> u32 \<Rightarrow> int \<times> TranslateCtx" where
  [trans_defs]: "translate_neon_fsub t op =
     (let vd = (ucast (op AND 0x1f) :: u8);
         vn = (ucast (drop_bit 5 op AND 0x1f) :: u8);
         vm = (ucast (drop_bit 16 op AND 0x1f) :: u8);
         t = emits t (\<lambda>buf. neon_sub buf vd vn vm True)
      in (ARM2X86_OK, t))"

definition translate_neon_fmul :: "TranslateCtx \<Rightarrow> u32 \<Rightarrow> int \<times> TranslateCtx" where
  [trans_defs]: "translate_neon_fmul t op =
     (let vd = (ucast (op AND 0x1f) :: u8);
         vn = (ucast (drop_bit 5 op AND 0x1f) :: u8);
         vm = (ucast (drop_bit 16 op AND 0x1f) :: u8);
         t = emits t (\<lambda>buf. neon_fmul buf vd vn vm)
      in (ARM2X86_OK, t))"

definition translate_neon_fmax :: "TranslateCtx \<Rightarrow> u32 \<Rightarrow> int \<times> TranslateCtx" where
  [trans_defs]: "translate_neon_fmax t op =
     (let vd = (ucast (op AND 0x1f) :: u8);
         vn = (ucast (drop_bit 5 op AND 0x1f) :: u8);
         vm = (ucast (drop_bit 16 op AND 0x1f) :: u8);
         t = emits t (\<lambda>buf. neon_fmax buf vd vn vm)
      in (ARM2X86_OK, t))"

definition translate_neon_fmin :: "TranslateCtx \<Rightarrow> u32 \<Rightarrow> int \<times> TranslateCtx" where
  [trans_defs]: "translate_neon_fmin t op =
     (let vd = (ucast (op AND 0x1f) :: u8);
         vn = (ucast (drop_bit 5 op AND 0x1f) :: u8);
         vm = (ucast (drop_bit 16 op AND 0x1f) :: u8);
         t = emits t (\<lambda>buf. neon_fmin buf vd vn vm)
      in (ARM2X86_OK, t))"

definition translate_neon_fcvt :: "TranslateCtx \<Rightarrow> u32 \<Rightarrow> int \<times> TranslateCtx" where
  [trans_defs]: "translate_neon_fcvt t op =
     (let vd = (ucast (op AND 0x1f) :: u8);
         vn = (ucast (drop_bit 5 op AND 0x1f) :: u8);
         src_is_int = (drop_bit 22 op AND 1 :: u32);
         dst_is_int = (drop_bit 30 op AND 1 :: u32);
         t = emits t (\<lambda>buf. neon_fcvt buf vd vn src_is_int dst_is_int)
      in (ARM2X86_OK, t))"

definition translate_neon_fsqrt :: "TranslateCtx \<Rightarrow> u32 \<Rightarrow> int \<times> TranslateCtx" where
  [trans_defs]: "translate_neon_fsqrt t op =
     (let vd = (ucast (op AND 0x1f) :: u8);
         vn = (ucast (drop_bit 5 op AND 0x1f) :: u8);
         t = emits t (\<lambda>buf. neon_fsqrt buf vd vn)
      in (ARM2X86_OK, t))"

definition translate_neon_frecpe :: "TranslateCtx \<Rightarrow> u32 \<Rightarrow> int \<times> TranslateCtx" where
  [trans_defs]: "translate_neon_frecpe t op =
     (let vd = (ucast (op AND 0x1f) :: u8);
         vn = (ucast (drop_bit 5 op AND 0x1f) :: u8);
         t = emits t (\<lambda>buf. neon_frecpe buf vd vn)
      in (ARM2X86_OK, t))"

definition translate_neon_frsqrte :: "TranslateCtx \<Rightarrow> u32 \<Rightarrow> int \<times> TranslateCtx" where
  [trans_defs]: "translate_neon_frsqrte t op =
     (let vd = (ucast (op AND 0x1f) :: u8);
         vn = (ucast (drop_bit 5 op AND 0x1f) :: u8);
         t = emits t (\<lambda>buf. neon_frsqrte buf vd vn)
      in (ARM2X86_OK, t))"

definition translate_neon_fmla :: "TranslateCtx \<Rightarrow> u32 \<Rightarrow> int \<times> TranslateCtx" where
  [trans_defs]: "translate_neon_fmla t op =
     (let vd = (ucast (op AND 0x1f) :: u8);
         vn = (ucast (drop_bit 5 op AND 0x1f) :: u8);
         vm = (ucast (drop_bit 16 op AND 0x1f) :: u8);
         is_double = (drop_bit 22 op AND 1) \<noteq> 0;
         t = emits t (\<lambda>buf. neon_fmla buf vd vn vm is_double)
      in (ARM2X86_OK, t))"

definition translate_neon_fabs :: "TranslateCtx \<Rightarrow> u32 \<Rightarrow> int \<times> TranslateCtx" where
  [trans_defs]: "translate_neon_fabs t op =
     (let vd = (ucast (op AND 0x1f) :: u8);
         vn = (ucast (drop_bit 5 op AND 0x1f) :: u8);
         t = emits t (\<lambda>buf. neon_fabs buf vd vn)
      in (ARM2X86_OK, t))"

definition translate_neon_fneg :: "TranslateCtx \<Rightarrow> u32 \<Rightarrow> int \<times> TranslateCtx" where
  [trans_defs]: "translate_neon_fneg t op =
     (let vd = (ucast (op AND 0x1f) :: u8);
         vn = (ucast (drop_bit 5 op AND 0x1f) :: u8);
         t = emits t (\<lambda>buf. neon_fneg buf vd vn)
      in (ARM2X86_OK, t))"

definition translate_ldr_simd :: "TranslateCtx \<Rightarrow> u32 \<Rightarrow> int \<times> TranslateCtx" where
  [trans_defs]: "translate_ldr_simd t op =
     (let vt = (ucast (op AND 0x1f) :: u8);
         base = (ucast (drop_bit 5 op AND 0x1f) :: u8);
         offset = (drop_bit 10 op AND 0xfff :: u32);
         sz = (drop_bit 30 op AND 3 :: u32);
         t = emits t (\<lambda>buf. neon_ldr buf vt base offset sz)
      in (ARM2X86_OK, t))"

definition translate_str_simd :: "TranslateCtx \<Rightarrow> u32 \<Rightarrow> int \<times> TranslateCtx" where
  [trans_defs]: "translate_str_simd t op =
     (let vt = (ucast (op AND 0x1f) :: u8);
         base = (ucast (drop_bit 5 op AND 0x1f) :: u8);
         offset = (drop_bit 10 op AND 0xfff :: u32);
         sz = (drop_bit 30 op AND 3 :: u32);
         t = emits t (\<lambda>buf. neon_str buf vt base offset sz)
      in (ARM2X86_OK, t))"

definition translate_neon_ins :: "TranslateCtx \<Rightarrow> u32 \<Rightarrow> int \<times> TranslateCtx" where
  [trans_defs]: "translate_neon_ins t op =
     (let vd = (ucast (op AND 0x1f) :: u8);
         vn = (ucast (drop_bit 5 op AND 0x1f) :: u8);
         index = (drop_bit 20 op AND 0xf :: u32);
         t = emits t (\<lambda>buf. neon_ins buf vd vn index)
      in (ARM2X86_OK, t))"

definition translate_neon_xtn :: "TranslateCtx \<Rightarrow> u32 \<Rightarrow> int \<times> TranslateCtx" where
  [trans_defs]: "translate_neon_xtn t op =
     (let vd = (ucast (op AND 0x1f) :: u8);
         vn = (ucast (drop_bit 5 op AND 0x1f) :: u8);
         sz = (drop_bit 22 op AND 3 :: u32);
         t = emits t (\<lambda>buf. neon_xtn buf vd vn sz)
      in (ARM2X86_OK, t))"

definition translate_neon_sqxtn :: "TranslateCtx \<Rightarrow> u32 \<Rightarrow> int \<times> TranslateCtx" where
  [trans_defs]: "translate_neon_sqxtn t op =
     (let vd = (ucast (op AND 0x1f) :: u8);
         vn = (ucast (drop_bit 5 op AND 0x1f) :: u8);
         sz = (drop_bit 22 op AND 3 :: u32);
         t = emits t (\<lambda>buf. neon_sqxtn buf vd vn sz)
      in (ARM2X86_OK, t))"

definition translate_neon_uqxtn :: "TranslateCtx \<Rightarrow> u32 \<Rightarrow> int \<times> TranslateCtx" where
  [trans_defs]: "translate_neon_uqxtn t op =
     (let vd = (ucast (op AND 0x1f) :: u8);
         vn = (ucast (drop_bit 5 op AND 0x1f) :: u8);
         sz = (drop_bit 22 op AND 3 :: u32);
         t = emits t (\<lambda>buf. neon_uqxtn buf vd vn sz)
      in (ARM2X86_OK, t))"

definition translate_neon_sqxtun :: "TranslateCtx \<Rightarrow> u32 \<Rightarrow> int \<times> TranslateCtx" where
  [trans_defs]: "translate_neon_sqxtun t op =
     (let vd = (ucast (op AND 0x1f) :: u8);
         vn = (ucast (drop_bit 5 op AND 0x1f) :: u8);
         sz = (drop_bit 22 op AND 3 :: u32);
         t = emits t (\<lambda>buf. neon_sqxtun buf vd vn sz)
      in (ARM2X86_OK, t))"

definition translate_neon_usra :: "TranslateCtx \<Rightarrow> u32 \<Rightarrow> int \<times> TranslateCtx" where
  [trans_defs]: "translate_neon_usra t op =
     (let vd = (ucast (op AND 0x1f) :: u8);
         vn = (ucast (drop_bit 5 op AND 0x1f) :: u8);
         shift0 = (drop_bit 16 op AND 0x3f :: u32);
         t = emits t (\<lambda>buf. neon_usra buf vd vn shift0)
      in (ARM2X86_OK, t))"

definition translate_neon_ssra :: "TranslateCtx \<Rightarrow> u32 \<Rightarrow> int \<times> TranslateCtx" where
  [trans_defs]: "translate_neon_ssra t op =
     (let vd = (ucast (op AND 0x1f) :: u8);
         vn = (ucast (drop_bit 5 op AND 0x1f) :: u8);
         shift0 = (drop_bit 16 op AND 0x3f :: u32);
         t = emits t (\<lambda>buf. neon_ssra buf vd vn shift0)
      in (ARM2X86_OK, t))"

definition translate_neon_ushl :: "TranslateCtx \<Rightarrow> u32 \<Rightarrow> int \<times> TranslateCtx" where
  [trans_defs]: "translate_neon_ushl t op =
     (let vd = (ucast (op AND 0x1f) :: u8);
         vn = (ucast (drop_bit 5 op AND 0x1f) :: u8);
         vm = (ucast (drop_bit 16 op AND 0x1f) :: u8);
         t = emits t (\<lambda>buf. neon_ushl buf vd vn vm)
      in (ARM2X86_OK, t))"

definition translate_neon_sshl :: "TranslateCtx \<Rightarrow> u32 \<Rightarrow> int \<times> TranslateCtx" where
  [trans_defs]: "translate_neon_sshl t op =
     (let vd = (ucast (op AND 0x1f) :: u8);
         vn = (ucast (drop_bit 5 op AND 0x1f) :: u8);
         vm = (ucast (drop_bit 16 op AND 0x1f) :: u8);
         t = emits t (\<lambda>buf. neon_sshl buf vd vn vm)
      in (ARM2X86_OK, t))"

definition translate_neon_umull :: "TranslateCtx \<Rightarrow> u32 \<Rightarrow> int \<times> TranslateCtx" where
  [trans_defs]: "translate_neon_umull t op =
     (let vd = (ucast (op AND 0x1f) :: u8);
         vn = (ucast (drop_bit 5 op AND 0x1f) :: u8);
         vm = (ucast (drop_bit 16 op AND 0x1f) :: u8);
         sz = (drop_bit 22 op AND 3 :: u32);
         t = emits t (\<lambda>buf. neon_umull buf vd vn vm sz)
      in (ARM2X86_OK, t))"

definition translate_neon_smull :: "TranslateCtx \<Rightarrow> u32 \<Rightarrow> int \<times> TranslateCtx" where
  [trans_defs]: "translate_neon_smull t op =
     (let vd = (ucast (op AND 0x1f) :: u8);
         vn = (ucast (drop_bit 5 op AND 0x1f) :: u8);
         vm = (ucast (drop_bit 16 op AND 0x1f) :: u8);
         sz = (drop_bit 22 op AND 3 :: u32);
         t = emits t (\<lambda>buf. neon_smull buf vd vn vm sz)
      in (ARM2X86_OK, t))"

definition translate_neon_pmul :: "TranslateCtx \<Rightarrow> u32 \<Rightarrow> int \<times> TranslateCtx" where
  [trans_defs]: "translate_neon_pmul t op =
     (let vd = (ucast (op AND 0x1f) :: u8);
         vn = (ucast (drop_bit 5 op AND 0x1f) :: u8);
         vm = (ucast (drop_bit 16 op AND 0x1f) :: u8);
         t = emits t (\<lambda>buf. neon_pmul buf vd vn vm)
      in (ARM2X86_OK, t))"

definition translate_neon_fmls :: "TranslateCtx \<Rightarrow> u32 \<Rightarrow> int \<times> TranslateCtx" where
  [trans_defs]: "translate_neon_fmls t op =
     (let vd = (ucast (op AND 0x1f) :: u8);
         vn = (ucast (drop_bit 5 op AND 0x1f) :: u8);
         vm = (ucast (drop_bit 16 op AND 0x1f) :: u8);
         is_double = (drop_bit 22 op AND 1) \<noteq> 0;
         t = emits t (\<lambda>buf. neon_fmls buf vd vn vm is_double)
      in (ARM2X86_OK, t))"

definition translate_neon_fcmp :: "TranslateCtx \<Rightarrow> u32 \<Rightarrow> int \<times> TranslateCtx" where
  [trans_defs]: "translate_neon_fcmp t op =
     (let vd = (ucast (op AND 0x1f) :: u8);
         vn = (ucast (drop_bit 5 op AND 0x1f) :: u8);
         vm = (ucast (drop_bit 16 op AND 0x1f) :: u8);
         t = emits t (\<lambda>buf. neon_fcmp buf vd vn vm)
      in (ARM2X86_OK, t))"

definition neon_div_element :: "TranslateCtx \<Rightarrow> u32 \<Rightarrow> bool \<Rightarrow> u8 \<Rightarrow> u8 \<Rightarrow> u8 \<Rightarrow> u32 \<Rightarrow> TranslateCtx" where
  [trans_defs]: "neon_div_element t element_bits is_signed xvd xvn xvm i =
     (let t = (if (element_bits = 8) then
           (let t = emits t (\<lambda>buf.
                   let buf = emit_byte buf 0x66;
                       buf = emit_byte buf 0x0f;
                       buf = emit_byte buf 0x3a;
                       buf = emit_byte buf 0x14;
                       buf = modrm buf 3 0 (xvn AND 7);
                       buf = emit_byte buf (ucast i);
                       buf = emit_byte buf 0x48;
                       buf = emit_byte buf 0x89
                   in emit_byte buf 0xc0)
            in (if is_signed then
                 (emits t (\<lambda>buf.
                         let buf = emit_byte buf 0x48
                         in emit_byte buf 0x98))
               else t))
         else (if (element_bits = 16) then
           (let t = emits t (\<lambda>buf.
                   let buf = emit_byte buf 0x66;
                       buf = emit_byte buf 0x0f;
                       buf = emit_byte buf 0x3a;
                       buf = emit_byte buf 0x15;
                       buf = modrm buf 3 0 (xvn AND 7)
                   in emit_byte buf (ucast i))
            in (if is_signed then
                 (emits t (\<lambda>buf.
                         let buf = emit_byte buf 0x66
                         in emit_byte buf 0x98))
               else t))
         else (if (element_bits = 32) then
           (emits t (\<lambda>buf.
                   let buf = emit_byte buf 0x66;
                       buf = emit_byte buf 0x0f;
                       buf = emit_byte buf 0x3a;
                       buf = emit_byte buf 0x16;
                       buf = modrm buf 3 0 (xvn AND 7)
                   in emit_byte buf (ucast i)))
         else (emits t (\<lambda>buf.
                   let buf = emit_byte buf 0x48;
                       buf = emit_byte buf 0x0f;
                       buf = emit_byte buf 0x3a;
                       buf = emit_byte buf 0x16;
                       buf = modrm buf 3 0 (xvn AND 7)
                   in emit_byte buf (ucast i))))));
         t = emits t (\<lambda>buf.
             let buf = emit_byte buf 0x49;
                 buf = emit_byte buf 0x89
             in emit_byte buf 0xc2);
         t = (if (element_bits = 8) then
           (let t = emits t (\<lambda>buf.
                   let buf = emit_byte buf 0x66;
                       buf = emit_byte buf 0x0f;
                       buf = emit_byte buf 0x3a;
                       buf = emit_byte buf 0x14;
                       buf = modrm buf 3 1 (xvm AND 7)
                   in emit_byte buf (ucast i))
            in (if is_signed then
                 (emits t (\<lambda>buf.
                         let buf = emit_byte buf 0x48
                         in emit_byte buf 0x98))
               else t))
         else (if (element_bits = 16) then
           (let t = emits t (\<lambda>buf.
                   let buf = emit_byte buf 0x66;
                       buf = emit_byte buf 0x0f;
                       buf = emit_byte buf 0x3a;
                       buf = emit_byte buf 0x15;
                       buf = modrm buf 3 1 (xvm AND 7)
                   in emit_byte buf (ucast i))
            in (if is_signed then
                 (emits t (\<lambda>buf.
                         let buf = emit_byte buf 0x66
                         in emit_byte buf 0x98))
               else t))
         else (if (element_bits = 32) then
           (emits t (\<lambda>buf.
                   let buf = emit_byte buf 0x66;
                       buf = emit_byte buf 0x0f;
                       buf = emit_byte buf 0x3a;
                       buf = emit_byte buf 0x16;
                       buf = modrm buf 3 1 (xvm AND 7)
                   in emit_byte buf (ucast i)))
         else (emits t (\<lambda>buf.
                   let buf = emit_byte buf 0x48;
                       buf = emit_byte buf 0x0f;
                       buf = emit_byte buf 0x3a;
                       buf = emit_byte buf 0x16;
                       buf = modrm buf 3 1 (xvm AND 7);
                       buf = emit_byte buf (ucast i);
                       buf = emit_byte buf 0x48;
                       buf = emit_byte buf 0x89;
                       buf = emit_byte buf 0xc1;
                       buf = emit_byte buf 0x49;
                       buf = emit_byte buf 0x89
                   in emit_byte buf 0xd0)))));
         t = (if (element_bits \<le>s 32) then
           (emits t (\<lambda>buf.
                   let buf = emit_byte buf 0x85
                   in emit_byte buf 0xc9))
         else (emits t (\<lambda>buf.
                   let buf = emit_byte buf 0x48;
                       buf = emit_byte buf 0x85
                   in emit_byte buf 0xc9)));
         t = emits t (\<lambda>buf.
             let buf = emit_byte buf 0x74
             in emit_byte buf 0x15);
         t = (if (element_bits \<le>s 32) then
           (if is_signed then
                 (let t = (if (element_bits \<le>s 16) then
                       (emits t (\<lambda>buf.
                               let buf = emit_byte buf 0x66
                               in emit_byte buf 0x99))
                     else (emits t (\<lambda>buf. emit_byte buf 0x99)))
                  in emits t (\<lambda>buf.
                         let buf = emit_byte buf 0xf7
                         in emit_byte buf 0xf9))
               else (emits t (\<lambda>buf.
                         let buf = emit_byte buf 0x31;
                             buf = emit_byte buf 0xd2;
                             buf = emit_byte buf 0xf7
                         in emit_byte buf 0xf1)))
         else (if is_signed then
                 (emits t (\<lambda>buf.
                         let buf = emit_byte buf 0x48;
                             buf = emit_byte buf 0x99;
                             buf = emit_byte buf 0xf7
                         in emit_byte buf 0xf9))
               else (emits t (\<lambda>buf.
                         let buf = emit_byte buf 0x48;
                             buf = emit_byte buf 0x31;
                             buf = emit_byte buf 0xd2;
                             buf = emit_byte buf 0x48;
                             buf = emit_byte buf 0xf7
                         in emit_byte buf 0xf1))));
         t = emits t (\<lambda>buf.
             let buf = emit_byte buf 0xEB;
                 buf = emit_byte buf 0x0A;
                 buf = emit_byte buf 0x31
             in emit_byte buf 0xc0)
      in (if (element_bits = 8) then
           (emits t (\<lambda>buf.
                   let buf = emit_byte buf 0x66;
                       buf = emit_byte buf 0x0f;
                       buf = emit_byte buf 0x3a;
                       buf = emit_byte buf 0x20;
                       buf = modrm buf 3 (xvd AND 7) 0
                   in emit_byte buf (ucast i)))
         else (if (element_bits = 16) then
           (emits t (\<lambda>buf.
                   let buf = emit_byte buf 0x66;
                       buf = emit_byte buf 0x0f;
                       buf = emit_byte buf 0xc4;
                       buf = modrm buf 3 (xvd AND 7) 0
                   in emit_byte buf (ucast i)))
         else (if (element_bits = 32) then
           (emits t (\<lambda>buf.
                   let buf = emit_byte buf 0x66;
                       buf = emit_byte buf 0x0f;
                       buf = emit_byte buf 0x3a;
                       buf = emit_byte buf 0x22;
                       buf = modrm buf 3 (xvd AND 7) 0
                   in emit_byte buf (ucast i)))
         else (emits t (\<lambda>buf.
                   let buf = emit_byte buf 0x66;
                       buf = emit_byte buf 0x0f;
                       buf = emit_byte buf 0x3a;
                       buf = emit_byte buf 0x22;
                       buf = emit_byte buf 0x48;
                       buf = modrm buf 3 (xvd AND 7) 0
                   in emit_byte buf (ucast i)))))))"

definition translate_neon_div :: "TranslateCtx \<Rightarrow> u32 \<Rightarrow> int \<times> TranslateCtx" where
  [trans_defs]: "translate_neon_div t op =
     (let is_signed = (drop_bit 4 op AND 1) \<noteq> 0;
         sz = (drop_bit 20 op AND 3 :: u32);
         vd = (ucast (op AND 0x1f) :: u8);
         vn = (ucast (drop_bit 5 op AND 0x1f) :: u8);
         vm = (ucast (drop_bit 16 op AND 0x1f) :: u8);
         xvd = neon_to_xmm vd;
         xvn = neon_to_xmm vn;
         xvm = neon_to_xmm vm;
         (num_elements, element_bits) =
           (if sz = 0 then (16 :: nat, 8 :: u32) else if sz = 1 then (8, 16)
            else if sz = 2 then (4, 32) else (2, 64));
         t = (emits t (\<lambda>buf.
                 let buf = emit_byte buf 0x50;
                     buf = emit_byte buf 0x51;
                     buf = emit_byte buf 0x52;
                     buf = emit_byte buf 0x41;
                     buf = emit_byte buf 0x50;
                     buf = emit_byte buf 0x41;
                     buf = emit_byte buf 0x51;
                     buf = emit_byte buf 0x41
                 in emit_byte buf 0x52));
         t = fold (\<lambda>i t. neon_div_element t element_bits is_signed xvd xvn xvm (of_nat i))
               [0..<num_elements] t;
         t = (emits t (\<lambda>buf.
                 let buf = emit_byte buf 0x41;
                     buf = emit_byte buf 0x5a;
                     buf = emit_byte buf 0x41;
                     buf = emit_byte buf 0x59;
                     buf = emit_byte buf 0x41;
                     buf = emit_byte buf 0x58;
                     buf = emit_byte buf 0x5a;
                     buf = emit_byte buf 0x59
                 in emit_byte buf 0x58))
      in (ARM2X86_OK, t))"

end
