(* ===== verification/Convert64.thy ===== *)
theory Convert64
  imports Translate64 Translate64_Sys Neon
begin

text \<open>
  \<open>arm2x86_convert_block\<close> of \<open>src/modules/arm2x86_translate64.c\<close>: the prologue, the loop over the
  instructions of a block with the dispatch of every decoded instruction to its translator, and the
  epilogue.

  \<open>mem\<close> is the memory the A64 code is read from, \<open>t\<close> and \<open>junk\<close> are what the automatic variables
  \<open>TranslateCtx t\<close> and \<open>DecodedInstruction decoded\<close> hold before they are assigned: the function does not
  initialise all members of the first (\<open>pc_map_count\<close> among them), and the second stays as it is when the
  decoder rejects its arguments. \<open>malloc_result\<close> is the pointer that \<open>malloc\<close> returns when the caller
  gives no register home.
\<close>

section \<open>Dispatch\<close>

text \<open>The cases of the \<open>switch\<close> in the order of the source, in three parts: SIMD, the rest, and the
  branches that end a block; an instruction without a case becomes a \<open>nop\<close>.\<close>

definition translate_simd :: "Platform \<Rightarrow> TranslateCtx \<Rightarrow> u32 \<Rightarrow> DecodedInstruction \<Rightarrow> TranslateCtx" where
  "translate_simd pf t op d =
     (if d_instr_type d = INSTR_NEON_ADD then snd (translate_neon_add t op)
      else if d_instr_type d = INSTR_NEON_SUB then snd (translate_neon_sub t op)
      else if d_instr_type d = INSTR_NEON_MUL then snd (translate_neon_mul t op)
      else if d_instr_type d = INSTR_NEON_DIV then snd (translate_neon_div t op)
      else if d_instr_type d = INSTR_NEON_AND then snd (translate_neon_and t op)
      else if d_instr_type d = INSTR_NEON_ORR then snd (translate_neon_orr t op)
      else if d_instr_type d = INSTR_NEON_EOR then snd (translate_neon_eor t op)
      else if d_instr_type d = INSTR_NEON_BSL then snd (translate_neon_bsl t op)
      else if d_instr_type d = INSTR_NEON_EXT then snd (translate_neon_ext t op)
      else if d_instr_type d = INSTR_NEON_DUP then snd (translate_neon_dup t op)
      else if d_instr_type d = INSTR_NEON_MOVI then snd (translate_neon_movi t op)
      else if d_instr_type d = INSTR_NEON_SHL then snd (translate_neon_shl t op)
      else if d_instr_type d = INSTR_NEON_SHR then snd (translate_neon_shr t op)
      else if d_instr_type d = INSTR_NEON_INS then snd (translate_neon_ins t op)
      else if d_instr_type d = INSTR_NEON_XTN then snd (translate_neon_xtn t op)
      else if d_instr_type d = INSTR_NEON_SQXTN then snd (translate_neon_sqxtn t op)
      else if d_instr_type d = INSTR_NEON_UQXTN then snd (translate_neon_uqxtn t op)
      else if d_instr_type d = INSTR_NEON_SQXTUN then snd (translate_neon_sqxtun t op)
      else if d_instr_type d = INSTR_NEON_USRA then snd (translate_neon_usra t op)
      else if d_instr_type d = INSTR_NEON_SSRA then snd (translate_neon_ssra t op)
      else if d_instr_type d = INSTR_NEON_USHL then snd (translate_neon_ushl t op)
      else if d_instr_type d = INSTR_NEON_SSHL then snd (translate_neon_sshl t op)
      else if d_instr_type d = INSTR_NEON_UMULL then snd (translate_neon_umull t op)
      else if d_instr_type d = INSTR_NEON_SMULL then snd (translate_neon_smull t op)
      else if d_instr_type d = INSTR_NEON_PMUL then snd (translate_neon_pmul t op)
      else if d_instr_type d = INSTR_NEON_FADD then snd (translate_neon_fadd t op)
      else if d_instr_type d = INSTR_NEON_FSUB then snd (translate_neon_fsub t op)
      else if d_instr_type d = INSTR_NEON_FMUL then snd (translate_neon_fmul t op)
      else if d_instr_type d = INSTR_NEON_FDIV then snd (translate_neon_div t op)
      else if d_instr_type d = INSTR_NEON_FMAX then snd (translate_neon_fmax t op)
      else if d_instr_type d = INSTR_NEON_FMIN then snd (translate_neon_fmin t op)
      else if d_instr_type d = INSTR_NEON_FCVT then snd (translate_neon_fcvt t op)
      else if d_instr_type d = INSTR_NEON_FSQRT then snd (translate_neon_fsqrt t op)
      else if d_instr_type d = INSTR_NEON_FABS then snd (translate_neon_fabs t op)
      else if d_instr_type d = INSTR_NEON_FNEG then snd (translate_neon_fneg t op)
      else if d_instr_type d = INSTR_NEON_FMLA then snd (translate_neon_fmla t op)
      else if d_instr_type d = INSTR_NEON_FMLS then snd (translate_neon_fmls t op)
      else if d_instr_type d = INSTR_NEON_FRECPE then snd (translate_neon_frecpe t op)
      else if d_instr_type d = INSTR_NEON_FRSQRTE then snd (translate_neon_frsqrte t op)
      else if d_instr_type d = INSTR_NEON_FCMP then snd (translate_neon_fcmp t op)
      else if d_instr_type d = INSTR_LDR_SIMD then snd (translate_ldr_simd t op)
      else if d_instr_type d = INSTR_STR_SIMD then snd (translate_str_simd t op)
      else emits t (\<lambda>buf. emit_byte buf 0x90))"

definition translate_plain :: "Platform \<Rightarrow> TranslateCtx \<Rightarrow> u32 \<Rightarrow> DecodedInstruction \<Rightarrow> TranslateCtx" where
  "translate_plain pf t op d =
     (if d_instr_type d = INSTR_ADD \<or> d_instr_type d = INSTR_SUB then snd (translate_add_sub t op (drop_bit 29 op AND 1 \<noteq> 0))
      else if d_instr_type d = INSTR_AND \<or> d_instr_type d = INSTR_ORR \<or> d_instr_type d = INSTR_EOR \<or> d_instr_type d = INSTR_BIC then snd (translate_logical t op)
      else if d_instr_type d = INSTR_CMP then snd (translate_cmp t op)
      else if d_instr_type d = INSTR_ADC then snd (translate_adc t op)
      else if d_instr_type d = INSTR_SBC then snd (translate_sbc t op)
      else if d_instr_type d = INSTR_NEG then snd (translate_neg t op)
      else if d_instr_type d = INSTR_RSB then snd (translate_rsb t op)
      else if d_instr_type d = INSTR_MVN then snd (translate_mvn t op)
      else if d_instr_type d = INSTR_TST then snd (translate_tst t op)
      else if d_instr_type d = INSTR_CMN then snd (translate_cmn t op)
      else if d_instr_type d = INSTR_ORN then snd (translate_orn t op)
      else if d_instr_type d = INSTR_CSEL then snd (translate_csel t op)
      else if d_instr_type d = INSTR_CSET then snd (translate_cset t op)
      else if d_instr_type d = INSTR_CINC then snd (translate_cinc t op)
      else if d_instr_type d = INSTR_CINV then snd (translate_cinv t op)
      else if d_instr_type d = INSTR_CNEG then snd (translate_cneg t op)
      else if d_instr_type d = INSTR_CCMN then snd (translate_ccmn t op)
      else if d_instr_type d = INSTR_CCMP then snd (translate_ccmp t op)
      else if d_instr_type d = INSTR_MUL then snd (translate_mul t op)
      else if d_instr_type d = INSTR_SDIV \<or> d_instr_type d = INSTR_UDIV then snd (translate_div t op)
      else if d_instr_type d = INSTR_MADD then snd (translate_madd t op)
      else if d_instr_type d = INSTR_MSUB then snd (translate_msub t op)
      else if d_instr_type d = INSTR_SMULH then snd (translate_smulh t op)
      else if d_instr_type d = INSTR_UMULH then snd (translate_umulh t op)
      else if d_instr_type d = INSTR_LSL \<or> d_instr_type d = INSTR_LSR \<or> d_instr_type d = INSTR_ASR then snd (translate_shift t op)
      else if d_instr_type d = INSTR_ROR then snd (translate_ror_imm t op)
      else if d_instr_type d = INSTR_EXTR then snd (translate_extr t op)
      else if d_instr_type d = INSTR_SBFM then snd (translate_sbfm t op)
      else if d_instr_type d = INSTR_UBFM then snd (translate_ubfm t op)
      else if d_instr_type d = INSTR_BFI then snd (translate_bfi t op)
      else if d_instr_type d = INSTR_BFXIL then snd (translate_bfxil t op)
      else if d_instr_type d = INSTR_BFC then snd (translate_bfc t op)
      else if d_instr_type d = INSTR_CLZ then snd (translate_clz t op)
      else if d_instr_type d = INSTR_RBIT then snd (translate_rbit t op)
      else if d_instr_type d = INSTR_REV then snd (translate_rev t op)
      else if d_instr_type d = INSTR_SXTB then snd (translate_sxtb t op)
      else if d_instr_type d = INSTR_SXTH then snd (translate_sxth t op)
      else if d_instr_type d = INSTR_UXTB then snd (translate_uxtb t op)
      else if d_instr_type d = INSTR_UXTH then snd (translate_uxth t op)
      else if d_instr_type d = INSTR_SXTW then snd (translate_sxtw t op)
      else if d_instr_type d = INSTR_UXTW then snd (translate_uxtw t op)
      else if d_instr_type d = INSTR_LDR \<or> d_instr_type d = INSTR_STR then snd (translate_ldr_str t op (d_imm d))
      else if d_instr_type d = INSTR_LDP \<or> d_instr_type d = INSTR_STP then snd (translate_ldp_stp t op (d_imm d))
      else if d_instr_type d = INSTR_LDR_LITERAL then snd (translate_ldr_literal t op)
      else if d_instr_type d = INSTR_LDRB then snd (translate_ldrb_strb t op True)
      else if d_instr_type d = INSTR_STRB then snd (translate_ldrb_strb t op False)
      else if d_instr_type d = INSTR_LDRH then snd (translate_ldrh_strh t op True)
      else if d_instr_type d = INSTR_STRH then snd (translate_ldrh_strh t op False)
      else if d_instr_type d = INSTR_LDRSB then snd (translate_ldrsb t op)
      else if d_instr_type d = INSTR_LDRSH then snd (translate_ldrsh t op)
      else if d_instr_type d = INSTR_LDRSW then snd (translate_ldrsw t op)
      else if d_instr_type d = INSTR_ADR \<or> d_instr_type d = INSTR_ADRP then snd (translate_adr_adrp t op)
      else if d_instr_type d = INSTR_MOVZ \<or> d_instr_type d = INSTR_MOVN \<or> d_instr_type d = INSTR_MOVK then snd (translate_mov_imm t op)
      else if d_instr_type d = INSTR_MOV then snd (translate_mov_reg t op)
      else if d_instr_type d = INSTR_LDAXR then snd (translate_ldaxr t op)
      else if d_instr_type d = INSTR_STLXR then snd (translate_stlxr t op)
      else if d_instr_type d = INSTR_CAS then snd (translate_cas t op)
      else if d_instr_type d = INSTR_LDADD then snd (translate_ldadd t op)
      else if d_instr_type d = INSTR_FADD then snd (translate_fadd t op)
      else if d_instr_type d = INSTR_FSUB then snd (translate_fsub t op)
      else if d_instr_type d = INSTR_FMUL then snd (translate_fmul t op)
      else if d_instr_type d = INSTR_FDIV then snd (translate_fdiv t op)
      else if d_instr_type d = INSTR_FCMP then snd (translate_fcmp t op)
      else if d_instr_type d = INSTR_FCVT then snd (translate_fcvt t op)
      else if d_instr_type d = INSTR_FMOV_REG \<or> d_instr_type d = INSTR_FMOV_IMM then snd (translate_fmov_imm pf t op)
      else if d_instr_type d = INSTR_FSQRT then snd (translate_fsqrt t op)
      else if d_instr_type d = INSTR_FABS then snd (translate_fabs t op)
      else if d_instr_type d = INSTR_FNEG then snd (translate_fneg t op)
      else if d_instr_type d = INSTR_FMADD then snd (translate_fmadd t op)
      else if d_instr_type d = INSTR_FMSUB then snd (translate_fmsub t op)
      else if d_instr_type d = INSTR_DMB \<or> d_instr_type d = INSTR_DSB \<or> d_instr_type d = INSTR_ISB then snd (translate_dmb_dsb_isb t op)
      else if d_instr_type d = INSTR_SVC then snd (translate_svc t op)
      else if d_instr_type d = INSTR_MRS then snd (translate_mrs pf t op)
      else if d_instr_type d = INSTR_MSR then snd (translate_msr pf t op)
      else if d_instr_type d = INSTR_HINT then snd (translate_hint t op)
      else if d_instr_type d = INSTR_BRK then snd (translate_brk t op)
      else if d_instr_type d = INSTR_HLT then snd (translate_hlt t op)
      else if d_instr_type d = INSTR_ERET then snd (translate_eret t op)
      else if d_instr_type d = INSTR_CSINC then snd (translate_csinc t op)
      else if d_instr_type d = INSTR_CSINV then snd (translate_csinv t op)
      else if d_instr_type d = INSTR_CSNEG then snd (translate_csneg t op)
      else if d_instr_type d = INSTR_FCSEL then snd (translate_fcsel t op)
      else if d_instr_type d = INSTR_FNMADD then snd (translate_fnmadd t op)
      else if d_instr_type d = INSTR_FNMSUB then snd (translate_fnmsub t op)
      else if d_instr_type d = INSTR_FCMPE then snd (translate_fcmp t op)
      else if d_instr_type d = INSTR_PRFM then snd (translate_prfm t op)
      else if d_instr_type d = INSTR_CRC32 \<or> d_instr_type d = INSTR_CRC32C then snd (translate_crc32 t op)
      else if d_instr_type d = INSTR_AESE then snd (translate_aese t op)
      else if d_instr_type d = INSTR_AESD then snd (translate_aesd t op)
      else if d_instr_type d = INSTR_AESMC then snd (translate_aesmc t op)
      else if d_instr_type d = INSTR_AESIMC then snd (translate_aesimc t op)
      else if d_instr_type d = INSTR_SHA256 then snd (translate_sha256 t op)
      else translate_simd pf t op d)"

definition translate_instr :: "Platform \<Rightarrow> TranslateCtx \<Rightarrow> u32 \<Rightarrow> DecodedInstruction \<Rightarrow> TranslateCtx \<times> bool" where
  "translate_instr pf t op d =
     (if d_instr_type d = INSTR_B then (snd (translate_b t op), True)
      else if d_instr_type d = INSTR_BR then (snd (translate_br t op), True)
      else if d_instr_type d = INSTR_BLR then (snd (translate_blr t op), True)
      else if d_instr_type d = INSTR_RET then (snd (translate_ret t op), True)
      else if d_instr_type d = INSTR_BL then (snd (translate_bl t op), True)
      else if d_instr_type d = INSTR_B_COND then (snd (translate_b_cond t op), True)
      else if d_instr_type d = INSTR_CBZ then (snd (translate_cbz_cbnz t op False), True)
      else if d_instr_type d = INSTR_CBNZ then (snd (translate_cbz_cbnz t op True), True)
      else if d_instr_type d = INSTR_TBZ then (snd (translate_tbz_tbnz t op False), True)
      else if d_instr_type d = INSTR_TBNZ then (snd (translate_tbz_tbnz t op True), True)
      else (translate_plain pf t op d, False))"

section \<open>The block\<close>

definition prologue :: "code \<Rightarrow> code" where
  [emit_defs]: "prologue buf =
     (let buf = emit_byte buf 0x48;
          buf = emit_byte buf 0x89;
          buf = modrm buf 2 (4 AND 7) 5;
          buf = emit_imm32 buf (ARM_REG_OFFSET 31);
          buf = emit_byte buf 0x48;
          buf = emit_byte buf 0x89;
          buf = modrm buf 2 (RDI AND 7) 5;
          buf = emit_imm32 buf (ARM_REG_OFFSET 0);
          buf = emit_byte buf 0x48;
          buf = emit_byte buf 0x89;
          buf = modrm buf 2 (RSI AND 7) 5;
          buf = emit_imm32 buf (ARM_REG_OFFSET 1);
          buf = emit_byte buf 0x48;
          buf = emit_byte buf 0x89;
          buf = modrm buf 2 (RDX AND 7) 5;
          buf = emit_imm32 buf (ARM_REG_OFFSET 2);
          buf = emit_byte buf 0x48;
          buf = emit_byte buf 0x89;
          buf = modrm buf 2 (RCX AND 7) 5;
          buf = emit_imm32 buf (ARM_REG_OFFSET 3);
          buf = emit_byte buf 0x48;
          buf = emit_byte buf 0x89;
          buf = modrm buf 2 (R8 AND 7) 5;
          buf = emit_imm32 buf (ARM_REG_OFFSET 4);
          buf = emit_byte buf 0x49;
          buf = emit_byte buf 0x89;
          buf = modrm buf 2 (R9 AND 7) 5;
          buf = emit_imm32 buf (ARM_REG_OFFSET 5);
          buf = emit_byte buf 0x49;
          buf = emit_byte buf 0x89;
          buf = modrm buf 2 (R10 AND 7) 5;
          buf = emit_imm32 buf (ARM_REG_OFFSET 6);
          buf = emit_byte buf 0x49;
          buf = emit_byte buf 0x89;
          buf = modrm buf 2 (R11 AND 7) 5;
          buf = emit_imm32 buf (ARM_REG_OFFSET 7);
          buf = emit_byte buf 0x48;
          buf = emit_byte buf 0x89;
          buf = modrm buf 2 (RBP AND 7) 5
      in emit_imm32 buf (ARM_REG_OFFSET 29))"

text \<open>
  The loop. \<open>n\<close> is \<open>max_instructions - instruction_count\<close>, so the recursion is structural. One round
  decodes, translates and advances; a block terminator stores the live-out registers and stops.
\<close>

definition convert_step :: "Platform \<Rightarrow> (ptr \<Rightarrow> u8) \<Rightarrow> ptr \<Rightarrow> DecodedInstruction \<Rightarrow> ptr \<Rightarrow> TranslateCtx
    \<Rightarrow> TranslateCtx \<times> bool" where
  "convert_step pf mem ctx junk src t =
     (let op = arm2x86_read_le32 mem src;
          d = snd (arm2x86_decode mem ctx src 1 junk);
          (t, is_block_terminator) = translate_instr pf t op d;
          t = t\<lparr>arm64_cur := src + 4\<rparr>;
          t = (if is_block_terminator
               then reg_alloc_emit_batch_store t (reg_alloc_compute_live_out t) else t)
      in (t, is_block_terminator))"

fun convert_loop :: "nat \<Rightarrow> Platform \<Rightarrow> (ptr \<Rightarrow> u8) \<Rightarrow> ptr \<Rightarrow> DecodedInstruction \<Rightarrow> ptr \<Rightarrow> ptr \<Rightarrow> TranslateCtx
    \<Rightarrow> TranslateCtx" where
  "convert_loop 0 pf mem ctx junk src end_ptr t = t"
| "convert_loop (Suc n) pf mem ctx junk src end_ptr t =
     (if src < end_ptr then
        (let (t, stop) = convert_step pf mem ctx junk src t in
         if stop then t else convert_loop n pf mem ctx junk (src + 4) end_ptr t)
      else t)"

definition epilogue :: "code \<Rightarrow> code" where
  [emit_defs]: "epilogue buf =
     (let buf = emit_byte buf 0x48;
          buf = emit_byte buf 0x8b;
          buf = modrm buf 2 (RAX AND 7) 5;
          buf = emit_imm32 buf (ARM_REG_OFFSET 0)
      in emit_byte buf 0xc3)"

definition init_ctx :: "bool \<Rightarrow> ptr \<Rightarrow> ptr \<Rightarrow> ptr \<Rightarrow> TranslateCtx \<Rightarrow> TranslateCtx" where
  "init_ctx strict arm64_code x86_buffer home t =
     t\<lparr>strict_memory_ordering := Some strict, arm64_base := arm64_code, arm64_cur := arm64_code,
       x86_base := x86_buffer, x86_code := [], reg_home := home\<rparr>"

text \<open>
  The result is the error code and, when the call succeeds, the final context: its \<open>x86_code\<close> is the
  content of the buffer and the length of it is what \<open>*x86_size\<close> receives. \<open>strict\<close> is the member
  \<open>strict_memory_ordering\<close> of \<open>*ctx\<close>, \<open>x86_size\<close> the address of the result.
\<close>

definition arm2x86_convert_block :: "Platform \<Rightarrow> (ptr \<Rightarrow> u8) \<Rightarrow> ptr \<Rightarrow> bool \<Rightarrow> DecodedInstruction \<Rightarrow> ptr
    \<Rightarrow> TranslateCtx \<Rightarrow> ptr \<Rightarrow> u64 \<Rightarrow> ptr \<Rightarrow> ptr \<Rightarrow> ptr \<Rightarrow> int \<times> TranslateCtx option" where
  "arm2x86_convert_block pf mem ctx strict junk malloc_result t arm64_code arm64_size x86_buffer x86_size home =
     (if ctx = NULL \<or> arm64_code = NULL \<or> x86_buffer = NULL \<or> x86_size = NULL
      then (ARM2X86_ERR_INVALID_PARAM, None)
      else if home = NULL \<and> malloc_result = NULL then (ARM2X86_ERR_MEMORY, None)
      else
        (let t = init_ctx strict arm64_code x86_buffer (if home \<noteq> NULL then home else malloc_result) t;
             t = emits t prologue;
             t = reg_alloc_init t;
             t = reg_alloc_setup_calling_convention t;
             t = convert_loop 64 pf mem ctx junk arm64_code (arm64_code + arm64_size) t;
             t = reg_alloc_emit_batch_store t (reg_alloc_compute_live_out t);
             t = emits t epilogue
         in (ARM2X86_OK, Some t)))"

definition arm2x86_convert_block_ex :: "Platform \<Rightarrow> (ptr \<Rightarrow> u8) \<Rightarrow> ptr \<Rightarrow> bool \<Rightarrow> DecodedInstruction \<Rightarrow> ptr
    \<Rightarrow> TranslateCtx \<Rightarrow> ptr \<Rightarrow> u64 \<Rightarrow> ptr \<Rightarrow> ptr \<Rightarrow> ptr \<Rightarrow> int \<times> TranslateCtx option" where
  "arm2x86_convert_block_ex pf mem ctx strict junk malloc_result t arm64_code arm64_size x86_buffer x86_size home =
     (if home = NULL then (ARM2X86_ERR_INVALID_PARAM, None)
      else arm2x86_convert_block pf mem ctx strict junk malloc_result t arm64_code arm64_size x86_buffer x86_size home)"

end
