(* ===== verification/RegAlloc_Inv.thy ===== *)
theory RegAlloc_Inv
  imports RegAlloc
begin

text \<open>
  The invariant of the register allocator of \<open>src/modules/arm2x86_translate64.c\<close>: no x86-64 register
  is given to two A64 registers, and none that is given to an A64 register is in the pool of free
  ones. It holds after \<open>reg_alloc_init\<close> and every operation but \<open>reg_alloc_ensure_fixed\<close> keeps it.
\<close>

section \<open>The invariant\<close>

definition pool :: "TranslateCtx \<Rightarrow> u8 list" where
  "pool t = take (free_reg_count t) (free_regs t)"

definition xr :: "TranslateCtx \<Rightarrow> nat \<Rightarrow> u8" where
  "xr t i = ra_x86_reg (reg_alloc t ! i)"

definition ra_ok :: "TranslateCtx \<Rightarrow> bool" where
  "ra_ok t \<longleftrightarrow>
     length (reg_alloc t) = 32 \<and> length (free_regs t) = REG_ALLOC_COUNT \<and>
     free_reg_count t \<le> REG_ALLOC_COUNT \<and>
     distinct (pool t) \<and> 0xff \<notin> set (pool t) \<and>
     (\<forall>i<32. xr t i \<notin> set (pool t)) \<and>
     (\<forall>i<32. \<forall>j<32. i \<noteq> j \<longrightarrow> xr t i \<noteq> 0xff \<longrightarrow> xr t i \<noteq> xr t j)"

lemma ra_ok_inj:
  "ra_ok t \<Longrightarrow> i < 32 \<Longrightarrow> j < 32 \<Longrightarrow> xr t i \<noteq> 0xff \<Longrightarrow> xr t i = xr t j \<Longrightarrow> i = j"
  unfolding ra_ok_def by metis

lemma u8_index: "(a :: u8) < 32 \<Longrightarrow> unat a < 32"
  by (simp add: word_less_nat_alt)

lemma u8_of_index: "i < 32 \<Longrightarrow> unat (of_nat i :: u8) = i"
  by (simp add: unsigned_of_nat take_bit_nat_eq_self)

text \<open>Emitting code leaves the allocation as it is.\<close>

lemma emits_alloc [simp]:
  "pool (emits t f) = pool t" "xr (emits t f) = xr t" "reg_alloc (emits t f) = reg_alloc t"
  "free_regs (emits t f) = free_regs t" "free_reg_count (emits t f) = free_reg_count t"
  "ra_ok (emits t f) = ra_ok t"
  by (simp_all add: emits_def pool_def xr_def ra_ok_def fun_eq_iff)

lemma ra_update_pool [simp]:
  "pool (ra_update t a f) = pool t" "length (reg_alloc (ra_update t a f)) = length (reg_alloc t)"
  "free_regs (ra_update t a f) = free_regs t" "free_reg_count (ra_update t a f) = free_reg_count t"
  by (simp_all add: ra_update_def pool_def)

lemma x86_code_ra_update [simp]:
  "x86_code (ra_update t a f) = x86_code t" "x86_code (set_dirty t a b) = x86_code t"
  by (simp_all add: ra_update_def set_dirty_def)

lemma xr_ra_update:
  assumes "unat a < length (reg_alloc t)"
  shows "xr (ra_update t a f) i = (if i = unat a then ra_x86_reg (f (ra_entry t a)) else xr t i)"
  using assms by (simp add: ra_update_def xr_def nth_list_update)

lemma xr_set_dirty [simp]: "xr (set_dirty t a b) = xr t"
  by (cases "unat a < length (reg_alloc t)")
     (auto simp: set_dirty_def ra_update_def xr_def fun_eq_iff nth_list_update list_update_beyond)

lemma set_dirty_ok [simp]: "ra_ok (set_dirty t a b) = ra_ok t"
  by (simp add: ra_ok_def) (simp add: set_dirty_def)

section \<open>The pool\<close>

lemma get_free_empty: "free_reg_count t = 0 \<Longrightarrow> reg_alloc_get_free t = (0xff, t)"
  by (simp add: reg_alloc_get_free_def)

lemma get_free_pool:
  assumes "ra_ok t" and "free_reg_count t \<noteq> 0" and "reg_alloc_get_free t = (x, t')"
  shows "pool t = pool t' @ [x]" and "xr t' = xr t" and "reg_alloc t' = reg_alloc t"
    and "free_regs t' = free_regs t" and "free_reg_count t = Suc (free_reg_count t')"
    and "x86_code t' = x86_code t"
proof -
  from assms(3) have x: "x = free_regs t ! (free_reg_count t - 1)"
    and t': "t' = t\<lparr>free_reg_count := free_reg_count t - 1\<rparr>"
    using assms(2) by (auto simp: reg_alloc_get_free_def Let_def)
  have lt: "free_reg_count t - 1 < length (free_regs t)" using assms(1,2) by (auto simp: ra_ok_def)
  show "pool t = pool t' @ [x]"
    using take_Suc_conv_app_nth [of "free_reg_count t - 1" "free_regs t"] assms(1,2) lt
    by (simp add: pool_def x t')
  show "xr t' = xr t" by (simp add: t' xr_def fun_eq_iff)
qed (use assms in \<open>auto simp: reg_alloc_get_free_def Let_def\<close>)

lemma get_free_ok:
  assumes "ra_ok t" and "free_reg_count t \<noteq> 0" and "reg_alloc_get_free t = (x, t')"
  shows "ra_ok t'" and "x \<noteq> 0xff" and "x \<notin> set (pool t')" and "\<And>i. i < 32 \<Longrightarrow> xr t i \<noteq> x"
  using assms(1) get_free_pool [OF assms] by (auto simp: ra_ok_def)

lemma assign_ok:
  assumes "ra_ok t" and "a < 32" and "x \<notin> set (pool t)"
    and "\<And>i. i < 32 \<Longrightarrow> i \<noteq> unat a \<Longrightarrow> xr t i = x \<Longrightarrow> x = 0xff"
  shows "ra_ok (reg_alloc_assign t a x w)"
    and "xr (reg_alloc_assign t a x w) = (xr t)(unat a := x)"
proof -
  have "unat a < length (reg_alloc t)" using assms(1,2) by (simp add: ra_ok_def u8_index)
  note u = xr_ra_update [OF this, of "\<lambda>e. e\<lparr>ra_x86_reg := x, ra_is_64bit := w, ra_dirty := False\<rparr>"]
  show "xr (reg_alloc_assign t a x w) = (xr t)(unat a := x)"
    by (rule ext) (simp add: reg_alloc_assign_def u)
  show "ra_ok (reg_alloc_assign t a x w)"
    using assms by (auto simp: reg_alloc_assign_def ra_ok_def u)
qed

lemma unassign_ok:
  assumes "ra_ok t" and "a < 32"
  shows "ra_ok (set_x86_reg t a 0xff)" and "xr (set_x86_reg t a 0xff) = (xr t)(unat a := 0xff)"
proof -
  have "unat a < length (reg_alloc t)" using assms by (simp add: ra_ok_def u8_index)
  note u = xr_ra_update [OF this, of "ra_x86_reg_update (\<lambda>_. 0xff)"]
  show "xr (set_x86_reg t a 0xff) = (xr t)(unat a := 0xff)"
    by (rule ext) (simp add: set_x86_reg_def u)
  show "ra_ok (set_x86_reg t a 0xff)"
    using assms by (auto simp: set_x86_reg_def ra_ok_def u)
qed

lemma free_xr [simp]: "xr (reg_alloc_free t x) = xr t" "reg_alloc (reg_alloc_free t x) = reg_alloc t"
  "x86_code (reg_alloc_free t x) = x86_code t"
  by (simp_all add: reg_alloc_free_def xr_def fun_eq_iff)

lemma free_ok:
  assumes "ra_ok t" and "x \<noteq> 0xff" and "x \<notin> set (pool t)" and "\<And>i. i < 32 \<Longrightarrow> xr t i \<noteq> x"
  shows "ra_ok (reg_alloc_free t x)"
    and "pool (reg_alloc_free t x) = (if free_reg_count t < REG_ALLOC_COUNT then pool t @ [x] else pool t)"
proof -
  show p: "pool (reg_alloc_free t x) = (if free_reg_count t < REG_ALLOC_COUNT then pool t @ [x] else pool t)"
    using assms(1) by (auto simp: reg_alloc_free_def pool_def ra_ok_def take_Suc_conv_app_nth)
  show "ra_ok (reg_alloc_free t x)"
    using assms unfolding ra_ok_def p free_xr by (auto simp: reg_alloc_free_def ra_ok_def)
qed

section \<open>The choice of a register to spill\<close>

lemma spill_search_result:
  "case spill_search es js m sp of
           None \<Rightarrow> sp = None \<and> (\<forall>i\<in>set js. ra_x86_reg (es ! i) = 0xff \<or> m \<le> arm_reg_priority ! i)
         | Some k \<Rightarrow> (sp = Some k \<and> (\<forall>i\<in>set js. ra_x86_reg (es ! i) = 0xff \<or> m \<le> arm_reg_priority ! i)) \<or>
             (k \<in> set js \<and> ra_x86_reg (es ! k) \<noteq> 0xff \<and> arm_reg_priority ! k < m \<and>
              (\<forall>i\<in>set js. ra_x86_reg (es ! i) = 0xff \<or> arm_reg_priority ! k \<le> arm_reg_priority ! i))"
  by (induction es js m sp rule: spill_search.induct)
     (auto split: option.splits if_splits simp: not_less intro: order_trans less_imp_le)

lemma arm_reg_priority_less: "i < 32 \<Longrightarrow> arm_reg_priority ! i < 255"
proof -
  have "\<forall>p\<in>set arm_reg_priority. p < 255" "length arm_reg_priority = 32"
    by (simp_all add: arm_reg_priority_def)
  then show "i < 32 \<Longrightarrow> ?thesis" by simp
qed

lemma priority_class: "i < 32 \<Longrightarrow> (arm_reg_priority ! i \<le> 30) = (24 \<le> i)"
proof -
  have "\<forall>i\<in>set [0..<32]. (arm_reg_priority ! i \<le> 30) = (24 \<le> i)"
    by (simp add: arm_reg_priority_def upt_rec)
  then show "i < 32 \<Longrightarrow> ?thesis" by simp
qed

lemma spill_search_None:
  "(spill_search (reg_alloc t) [0..<32] 255 None = None) = (\<forall>i<32. xr t i = 0xff)"
  using spill_search_result [where es = "reg_alloc t" and js = "[0..<32]" and m = 255 and sp = None] arm_reg_priority_less
  by (fastforce split: option.splits simp: xr_def simp flip: not_less)

lemma spill_search_Some:
  assumes "spill_search (reg_alloc t) [0..<32] 255 None = Some k"
  shows "k < 32" and "xr t k \<noteq> 0xff"
    and "\<And>i. i < 32 \<Longrightarrow> xr t i \<noteq> 0xff \<Longrightarrow> arm_reg_priority ! k \<le> arm_reg_priority ! i"
  using spill_search_result [where es = "reg_alloc t" and js = "[0..<32]" and m = 255 and sp = None] assms
  by (auto simp: xr_def)

section \<open>The operations\<close>

text \<open>The common end of the two successful branches of \<open>reg_alloc_get_reg\<close>.\<close>

lemma take_free_reg:
  assumes "ra_ok t" and "a < 32" and "free_reg_count t \<noteq> 0" and "reg_alloc_get_free t = (x, t1)"
    and "t2 = emits (reg_alloc_assign t1 a x w) f"
  shows "ra_ok t2" and "xr t2 = (xr t)(unat a := x)" and "x \<noteq> 0xff" and "x \<in> set (pool t)"
    and "x86_code t2 = f (x86_code t)"
proof -
  note g = get_free_ok [OF assms(1,3,4)] and p = get_free_pool [OF assms(1,3,4)]
  have "\<And>i. i < 32 \<Longrightarrow> i \<noteq> unat a \<Longrightarrow> xr t1 i = x \<Longrightarrow> x = 0xff"
    using g(4) p(2) by auto
  note o = assign_ok [where w = w, OF g(1) assms(2) g(3) this]
  show "ra_ok t2" "xr t2 = (xr t)(unat a := x)" "x \<noteq> 0xff" "x \<in> set (pool t)"
    "x86_code t2 = f (x86_code t)"
    using o g p by (simp_all add: assms(5)) (simp add: reg_alloc_assign_def)
qed

lemma evict_ok:
  assumes "ra_ok t" and "k < 32" and "xr t k \<noteq> 0xff" and "free_reg_count t = 0"
    and "t1 = reg_alloc_free (set_x86_reg t (of_nat k) 0xff) (xr t k)"
  shows "ra_ok t1" and "xr t1 = (xr t)(k := 0xff)" and "pool t1 = [xr t k]" and "free_reg_count t1 = 1"
proof -
  have k: "unat (of_nat k :: u8) = k" "(of_nat k :: u8) < 32"
    using assms(2) by (simp_all add: u8_of_index word_less_nat_alt)
  let ?t = "set_x86_reg t (of_nat k) 0xff"
  note u = unassign_ok [OF assms(1) k(2), unfolded k(1)]
  have p: "pool ?t = []" "free_reg_count ?t = 0"
    using assms(4) by (simp_all add: set_x86_reg_def pool_def)
  have "\<And>i. i < 32 \<Longrightarrow> xr ?t i \<noteq> xr t k"
    using assms(3) ra_ok_inj [OF assms(1) assms(2)] by (auto simp: u(2)) metis
  with free_ok [OF u(1) assms(3)] p show "ra_ok t1" "pool t1 = [xr t k]"
    by (simp_all add: assms(5) REG_ALLOC_COUNT_def)
  show "xr t1 = (xr t)(k := 0xff)" by (simp add: assms(5) u(2))
  show "free_reg_count t1 = 1" using p by (simp add: assms(5) reg_alloc_free_def REG_ALLOC_COUNT_def)
qed

lemma emits_if: "(if c then emits t f else t) = emits t (if c then f else id)"
  by (simp add: emits_def)

lemma ra_ok_set_dirty_if [simp]:
  "ra_ok (if c then set_dirty t a b else t) = ra_ok t" "xr (if c then set_dirty t a b else t) = xr t"
  "x86_code (if c then set_dirty t a b else t) = x86_code t"
  by simp_all

lemma spilled_register:
  assumes "ra_ok t" and "a < 32" and "xr t (unat a) = 0xff" and "free_reg_count t = 0"
    and "spill_search (reg_alloc t) [0..<32] 255 None = Some k"
    and "reg_alloc_get_reg t a w md = (x, t')"
  shows "ra_ok t'" and "x = xr t k" and "xr t' = (xr t)(k := 0xff, unat a := x)"
    and "\<exists>f. x86_code t' = emit_load_arm_reg (f (x86_code t)) a x w"
proof -
  note k = spill_search_Some [OF assms(5)]
  let ?k = "of_nat k :: u8"
  let ?e = "ra_entry t ?k"
  have eu: "ra_x86_reg ?e = xr t k" using u8_of_index [OF k(1)] by (simp add: xr_def)
  have na: "ra_x86_reg (ra_entry t a) = 0xff" using assms(3) by (simp add: xr_def)
  define f where "f = (if ra_dirty ?e then \<lambda>buf. emit_store_arm_reg buf (ra_x86_reg ?e) ?k (ra_is_64bit ?e) else id)"
  define t1 where "t1 = reg_alloc_free (set_x86_reg (emits t f) ?k 0xff) (xr t k)"
  have ev: "ra_ok t1" "xr t1 = (xr t)(k := 0xff)" "pool t1 = [xr t k]" "free_reg_count t1 = 1"
    using evict_ok [of "emits t f" k t1] assms(1,4) k by (simp_all add: t1_def)
  obtain y t2 where g: "reg_alloc_get_free t1 = (y, t2)" by fastforce
  define t3 where "t3 = emits (reg_alloc_assign t2 a y w) (\<lambda>buf. emit_load_arm_reg buf a y w)"
  have tk: "ra_ok t3" "xr t3 = (xr t1)(unat a := y)" "y \<noteq> 0xff" "y \<in> set (pool t1)"
    "x86_code t3 = emit_load_arm_reg (x86_code t1) a y w"
    using take_free_reg [OF ev(1) assms(2) _ g t3_def] ev(4) by simp_all
  have r: "(x, t') = (y, if md then set_dirty t3 a True else t3)"
    using assms(4-6) na tk(3) g unfolding t3_def t1_def f_def
    by (simp add: reg_alloc_get_reg_def get_free_empty eu emits_if Let_def split del: if_split)
  show "ra_ok t'" "x = xr t k" "xr t' = (xr t)(k := 0xff, unat a := x)"
    using r tk(1,2,4) ev by simp_all
  have "x86_code t' = emit_load_arm_reg (f (x86_code t)) a x w"
    using r tk(5) by (simp add: set_x86_reg_def t1_def)
  then show "\<exists>f. x86_code t' = emit_load_arm_reg (f (x86_code t)) a x w" by blast
qed

lemma free_reg_get_reg:
  assumes "ra_ok t" and "a < 32" and "xr t (unat a) = 0xff" and "free_reg_count t \<noteq> 0"
    and "reg_alloc_get_reg t a w md = (x, t')"
  shows "ra_ok t'" and "x \<in> set (pool t)" and "x \<noteq> 0xff" and "xr t' = (xr t)(unat a := x)"
proof -
  obtain y t1 where g: "reg_alloc_get_free t = (y, t1)" by fastforce
  note k = take_free_reg [where w = w and f = "\<lambda>buf. emit_load_arm_reg buf a y w", OF assms(1,2,4) g refl]
  have "(x, t') = (y, let t = emits (reg_alloc_assign t1 a y w) (\<lambda>buf. emit_load_arm_reg buf a y w)
                      in if md then set_dirty t a True else t)"
    using assms(3,5) k(3) by (auto simp: reg_alloc_get_reg_def g xr_def [symmetric] Let_def)
  with k show "ra_ok t'" "x \<in> set (pool t)" "x \<noteq> 0xff" "xr t' = (xr t)(unat a := x)"
    by (simp_all add: Let_def)
qed

lemma held_get_reg:
  "xr t (unat a) \<noteq> 0xff \<Longrightarrow>
   reg_alloc_get_reg t a w md = (xr t (unat a), if md then set_dirty t a True else t)"
  by (simp add: reg_alloc_get_reg_def xr_def Let_def)

text \<open>A register is available: one is free or one can be spilled.\<close>

definition ra_avail :: "TranslateCtx \<Rightarrow> bool" where
  "ra_avail t \<longleftrightarrow> 0 < free_reg_count t \<or> (\<exists>i<32. xr t i \<noteq> 0xff)"

lemma ra_avail_emits [simp]: "ra_avail (emits t f) = ra_avail t"
  by (simp add: ra_avail_def)

lemma ra_availI: "i < 32 \<Longrightarrow> xr t i \<noteq> 0xff \<Longrightarrow> ra_avail t"
  by (auto simp: ra_avail_def)

lemma spill_exists:
  assumes "ra_avail t" and "free_reg_count t = 0"
  obtains k where "spill_search (reg_alloc t) [0..<32] 255 None = Some k"
  using assms spill_search_None [of t]
  by (cases "spill_search (reg_alloc t) [0..<32] 255 None") (auto simp: ra_avail_def)

lemma get_reg_cases:
  assumes "ra_ok t" and "a < 32" and "ra_avail t" and "reg_alloc_get_reg t a w md = (x, t')"
  obtains (held) "xr t (unat a) = x" "x \<noteq> 0xff" "ra_ok t'" "xr t' = xr t"
    | (free) "ra_ok t'" "x \<noteq> 0xff" "xr t' = (xr t)(unat a := x)"
    | (spill) k where "k < 32" "k \<noteq> unat a" "xr t k = x" "x \<noteq> 0xff" "ra_ok t'"
        "xr t' = (xr t)(k := 0xff, unat a := x)"
proof -
  consider (1) "xr t (unat a) \<noteq> 0xff" | (2) "xr t (unat a) = 0xff" "free_reg_count t \<noteq> 0"
    | (3) "xr t (unat a) = 0xff" "free_reg_count t = 0" by blast
  then show thesis
  proof cases
    case 1
    then show thesis using assms(1,4) held_get_reg [OF 1, of w md] by (intro held) auto
  next
    case 2
    then show thesis using free_reg_get_reg [OF assms(1,2) 2 assms(4)] by (intro free)
  next
    case 3
    from spill_exists [OF assms(3) 3(2)] obtain k where
      k: "spill_search (reg_alloc t) [0..<32] 255 None = Some k" .
    from spilled_register [OF assms(1,2) 3 k assms(4)] spill_search_Some [OF k] 3
    show thesis by (intro spill [of k]) auto
  qed
qed

lemma reg_alloc_get_reg_inv:
  assumes "ra_ok t" and "a < 32" and "ra_avail t" and "reg_alloc_get_reg t a w md = (x, t')"
  shows "ra_ok t'" and "ra_avail t'" and "x \<noteq> 0xff" and "xr t' (unat a) = x"
  using u8_index [OF assms(2)]
  by (cases rule: get_reg_cases [OF assms]; auto intro!: ra_availI [of "unat a"])+

text \<open>
  C6: the allocator. Asked for a register for the A64 register \<open>a\<close> in a state that satisfies the
  invariant, and unless every host register has been lost, \<open>reg_alloc_get_reg\<close> answers with a host
  register that \<open>a\<close> then occupies alone: the invariant holds again, and every other A64 register
  keeps its host register or, if its was the one handed out, is in memory.
\<close>

theorem reg_alloc_get_reg_correct:
  assumes "ra_ok t" and "a < 32" and "ra_avail t" and "reg_alloc_get_reg t a w md = (x, t')"
  shows "ra_ok t' \<and> ra_avail t' \<and> x \<noteq> 0xff \<and> xr t' (unat a) = x \<and>
         (\<forall>i<32. i \<noteq> unat a \<longrightarrow> xr t' i = xr t i \<or> xr t i = x \<and> xr t' i = 0xff)"
  using u8_index [OF assms(2)]
  by (cases rule: get_reg_cases [OF assms]) (auto simp: reg_alloc_get_reg_inv [OF assms])

section \<open>Spilling and releasing\<close>

lemma spill_keeps [simp]:
  "xr (reg_alloc_spill t a) = xr t" "ra_ok (reg_alloc_spill t a) = ra_ok t"
  "ra_avail (reg_alloc_spill t a) = ra_avail t"
  by (simp_all add: reg_alloc_spill_def Let_def ra_avail_def) (simp_all add: set_dirty_def)

lemma fold_spill_keeps:
  "ra_ok (fold (\<lambda>i t. reg_alloc_spill t (f i)) is t) = ra_ok t"
  "ra_avail (fold (\<lambda>i t. reg_alloc_spill t (f i)) is t) = ra_avail t"
  by (induction "is" arbitrary: t) simp_all

lemma release_ok:
  assumes "ra_ok t" and "a < 32"
  shows "ra_ok (reg_alloc_release t a)" and "xr (reg_alloc_release t a) = (xr t)(unat a := 0xff)"
    and "ra_avail t \<Longrightarrow> ra_avail (reg_alloc_release t a)"
proof -
  let ?x = "xr t (unat a)"
  have a: "unat a < 32" using assms(2) by (rule u8_index)
  define f where "f = (if ra_dirty (ra_entry t a)
      then \<lambda>buf. emit_store_arm_reg buf (ra_x86_reg (ra_entry t a)) a (ra_is_64bit (ra_entry t a)) else id)"
  define t1 where "t1 = set_dirty (set_x86_reg (emits t f) a 0xff) a False"
  have t1: "ra_ok t1" "xr t1 = (xr t)(unat a := 0xff)" "pool t1 = pool t" "free_reg_count t1 = free_reg_count t"
    using unassign_ok [of "emits t f" a] assms by (simp_all add: t1_def) (simp_all add: set_dirty_def set_x86_reg_def)
  have r: "reg_alloc_release t a = (if ?x = 0xff then t else reg_alloc_free t1 ?x)"
    unfolding reg_alloc_release_def t1_def f_def xr_def by (auto simp: Let_def emits_def)
  have n: "\<And>i. i < 32 \<Longrightarrow> ?x \<noteq> 0xff \<Longrightarrow> xr t1 i \<noteq> ?x" "?x \<notin> set (pool t1)"
    using assms(1) a by (auto simp: t1 ra_ok_def) metis
  show "ra_ok (reg_alloc_release t a)"
    using assms(1) n free_ok(1) [OF t1(1), of ?x] by (auto simp: r)
  show "xr (reg_alloc_release t a) = (xr t)(unat a := 0xff)"
    by (auto simp: r t1 fun_eq_iff)
  show "ra_avail t \<Longrightarrow> ra_avail (reg_alloc_release t a)"
    by (auto simp: r ra_avail_def reg_alloc_free_def REG_ALLOC_COUNT_def t1(4))
qed

section \<open>The start of a block\<close>

lemma init_xr: "i < 32 \<Longrightarrow> xr (reg_alloc_init t) i = 0xff"
  by (simp add: reg_alloc_init_def xr_def)

lemma init_pool: "pool (reg_alloc_init t) = reg_alloc_map"
  by (simp add: reg_alloc_init_def pool_def REG_ALLOC_COUNT_def reg_alloc_map_def)

lemma init_ok: "ra_ok (reg_alloc_init t)"
  using init_xr [of _ t]
  by (auto simp: ra_ok_def init_pool reg_alloc_map_def) (simp_all add: reg_alloc_init_def REG_ALLOC_COUNT_def reg_alloc_map_def)

lemma occupant_None: "(\<And>i. i < 32 \<Longrightarrow> i \<noteq> unat a \<Longrightarrow> xr t i \<noteq> x) \<Longrightarrow> occupant (reg_alloc t) a x = None"
  by (auto simp: occupant_def find_None_iff xr_def)

lemma setup_eq:
  "reg_alloc_setup_calling_convention (reg_alloc_init t) =
     emits (reg_alloc_assign (reg_alloc_init t) 29 RBP True) (\<lambda>buf. emit_load_arm_reg buf 29 RBP True)"
proof -
  let ?t = "reg_alloc_init t"
  have o: "occupant (reg_alloc ?t) 29 RBP = None" by (rule occupant_None) (simp add: init_xr)
  have e: "ra_x86_reg (reg_alloc ?t ! 29) = 0xff" using init_xr [of 29 t] by (simp add: xr_def)
  show ?thesis
    by (simp add: reg_alloc_setup_calling_convention_def reg_alloc_ensure_fixed_def o e Let_def)
qed

lemma setup_ok:
  "ra_ok (reg_alloc_setup_calling_convention (reg_alloc_init t))"
  "xr (reg_alloc_setup_calling_convention (reg_alloc_init t)) = (xr (reg_alloc_init t))(29 := RBP)"
proof -
  have "RBP \<notin> set (pool (reg_alloc_init t))" by (simp add: init_pool reg_alloc_map_def)
  note a = assign_ok [where w = True, OF init_ok, of 29 RBP, OF _ this]
  show "ra_ok (reg_alloc_setup_calling_convention (reg_alloc_init t))"
    "xr (reg_alloc_setup_calling_convention (reg_alloc_init t)) = (xr (reg_alloc_init t))(29 := RBP)"
    using a init_xr by (simp_all add: setup_eq)
qed

text \<open>
  Any sequence of requests from there; what the translators of a block do is the subject of
  \<open>RegAlloc_Block\<close>.
\<close>

lemma requests_ok:
  assumes "ra_ok t" and "ra_avail t" and "\<forall>a\<in>set as. a < 32"
  shows "ra_ok (fold (\<lambda>a t. snd (reg_alloc_get_reg t a True True)) as t)"
    and "ra_avail (fold (\<lambda>a t. snd (reg_alloc_get_reg t a True True)) as t)"
  using assms
proof (induction as arbitrary: t)
  case (Cons a as)
  {
    case 1
    then show ?case using Cons.IH(1) reg_alloc_get_reg_inv [of t a True True] by (simp add: prod_eq_iff)
  next
    case 2
    then show ?case using Cons.IH(2) reg_alloc_get_reg_inv [of t a True True] by (simp add: prod_eq_iff)
  }
qed simp_all

lemma setup_avail: "ra_avail (reg_alloc_setup_calling_convention (reg_alloc_init t))"
  by (rule ra_availI [of 29]) (simp_all add: setup_ok)

lemmas requests_from_start = requests_ok [OF setup_ok(1) setup_avail]

text \<open>
  The spilled register. When no host register is free, the one taken away is that of an A64
  register with the lowest priority among those that hold one, and the code emitted ends with
  the load of the new occupant.
\<close>

lemma reg_alloc_spills_lowest:
  assumes "ra_ok t" and "ra_avail t" and "a < 32" and "xr t (unat a) = 0xff" and "free_reg_count t = 0"
    and "reg_alloc_get_reg t a w md = (x, t')"
  shows "\<exists>k<32. x = xr t k \<and> xr t' k = 0xff \<and>
           (\<forall>i<32. xr t i \<noteq> 0xff \<longrightarrow> arm_reg_priority ! k \<le> arm_reg_priority ! i) \<and>
           (\<exists>f. x86_code t' = emit_load_arm_reg (f (x86_code t)) a x w)"
proof -
  from spill_exists [OF assms(2,5)] obtain k where
    k: "spill_search (reg_alloc t) [0..<32] 255 None = Some k" .
  from spilled_register [OF assms(1,3-5) k assms(6)] spill_search_Some [OF k] assms(4)
  show ?thesis by (intro exI [of _ k]) auto
qed

text \<open>The allocation after nine requests, for X0 to X8.\<close>

definition nine_regs :: TranslateCtx where
  "nine_regs = fold (\<lambda>a t. snd (reg_alloc_get_reg t a True True)) [0, 1, 2, 3, 4, 5, 6, 7, 8]
     (reg_alloc_setup_calling_convention ctx0)"

lemma nine_regs_alloc:
  "free_reg_count nine_regs = 0" "xr nine_regs 3 = R8" "xr nine_regs 9 = 0xff" "xr nine_regs 29 = RBP"
  "\<forall>i<32. 24 \<le> i \<longrightarrow> i \<noteq> 29 \<longrightarrow> xr nine_regs i = 0xff"
proof -
  have "\<forall>i\<in>set [0..<32]. 24 \<le> i \<longrightarrow> i \<noteq> 29 \<longrightarrow> xr nine_regs i = 0xff" by code_simp
  then show "\<forall>i<32. 24 \<le> i \<longrightarrow> i \<noteq> 29 \<longrightarrow> xr nine_regs i = 0xff" by simp
qed code_simp+

lemma nine_regs_ok: "ra_ok nine_regs \<and> ra_avail nine_regs"
  unfolding nine_regs_def ctx0_def by (intro conjI requests_from_start) simp_all

theorem reg_alloc_get_reg_witness:
  "xr (snd (reg_alloc_get_reg nine_regs 3 True False)) 3 = R8"
  using reg_alloc_get_reg_correct [of nine_regs 3 True False R8 "snd (reg_alloc_get_reg nine_regs 3 True False)"]
    held_get_reg [of nine_regs 3 True False] nine_regs_ok by (simp add: nine_regs_alloc)

lemma reg_alloc_spills_witness:
  "\<exists>k<32. fst (reg_alloc_get_reg nine_regs 9 True False) = xr nine_regs k \<and>
     (\<forall>i<32. xr nine_regs i \<noteq> 0xff \<longrightarrow> arm_reg_priority ! k \<le> arm_reg_priority ! i)"
  using reg_alloc_spills_lowest [of nine_regs 9 True False, OF _ _ _ _ _ prod.collapse [symmetric]]
    nine_regs_ok nine_regs_alloc by auto

text \<open>
  The base register of the homes is handed out. X29 starts in RBP with the lowest priority, and
  while no other register of its class holds a host register it is the first to be spilled:
  the request that finds the pool empty receives RBP, and the code that it emits ends with a load
  of RBP, after which the homes are no longer where RBP points.
\<close>

lemma reg_alloc_hands_out_rbp:
  assumes "ra_ok t" and "xr t 29 = RBP" and "\<forall>i<32. 24 \<le> i \<longrightarrow> i \<noteq> 29 \<longrightarrow> xr t i = 0xff"
    and "a < 32" and "xr t (unat a) = 0xff" and "free_reg_count t = 0"
    and "reg_alloc_get_reg t a True md = (x, t')"
  shows "x = RBP \<and>
     (\<exists>pre frag. x86_code t' = pre @ frag \<and>
        x86_disasm frag = Some [Mov_r_rm True RBP (Mem RBP (ARM_REG_OFFSET a))])"
proof -
  have "ra_avail t" using assms(2) by (intro ra_availI [of 29]) simp_all
  from spill_exists [OF this assms(6)] obtain k where
    k: "spill_search (reg_alloc t) [0..<32] 255 None = Some k" .
  have "arm_reg_priority ! k \<le> 30"
    using spill_search_Some(3) [OF k, of 29] assms(2) by (simp add: arm_reg_priority_def)
  then have "24 \<le> k" using priority_class [of k] spill_search_Some(1) [OF k] by auto
  then have "k = 29" using spill_search_Some(1,2) [OF k] assms(3) by blast
  with spilled_register [OF assms(1,4-6) k assms(7)] assms(2) obtain f where
    x: "x = RBP" and c: "x86_code t' = emit_load_arm_reg (f (x86_code t)) a RBP True" by auto
  have "x86_code t' = f (x86_code t) @ emit_load_arm_reg [] a RBP True"
    unfolding c using load_home.appends [of "f (x86_code t)" "(a, RBP)"] by simp
  with x show ?thesis using load_home.disasm_one [of "(a, RBP)"] by auto
qed

lemma reg_alloc_hands_out_rbp_witness:
  "fst (reg_alloc_get_reg nine_regs 9 True False) = RBP"
  using reg_alloc_hands_out_rbp [of nine_regs 9 False, OF _ _ _ _ _ _ prod.collapse [symmetric]]
    nine_regs_ok nine_regs_alloc by auto

text \<open>
  Operands that exclude each other. The translators of \<open>ADD\<close>, \<open>SUB\<close> and of the logical instructions
  ask for the registers of the first and then of the second source. When the pool is empty
  and the first source is the candidate for spilling, the second receives the register of
  the first: both operands of the emitted instruction are then the second source.
\<close>

lemma reg_alloc_operands_collide:
  assumes "ra_ok t" and "a < 32" and "b < 32" and "free_reg_count t = 0" and "xr t (unat b) = 0xff"
    and "spill_search (reg_alloc t) [0..<32] 255 None = Some (unat a)"
    and "reg_alloc_get_reg t a w False = (x, t1)" and "reg_alloc_get_reg t1 b w False = (y, t2)"
  shows "y = x \<and> xr t2 (unat a) = 0xff"
proof -
  have h: "xr t (unat a) \<noteq> 0xff" using spill_search_Some(2) [OF assms(6)] .
  then have t1: "t1 = t" "x = xr t (unat a)" using assms(7) held_get_reg [OF h, of w False] by auto
  show ?thesis
    using spilled_register [OF assms(1,3,5,4,6) assms(8) [unfolded t1(1)]] h assms(5) t1(2) by auto
qed

text \<open>X0 to X7 and X26 are in host registers; the next instruction adds X9 to X26.\<close>

definition full_regs :: TranslateCtx where
  "full_regs = fold (\<lambda>a t. snd (reg_alloc_get_reg t a True True)) [0, 1, 2, 3, 4, 5, 6, 7, 26]
     (reg_alloc_setup_calling_convention ctx0)"

lemma full_regs_alloc:
  "free_reg_count full_regs = 0" "ra_x86_reg (reg_alloc full_regs ! 9) = 0xff"
  "spill_search (reg_alloc full_regs) [0..<32] 255 None = Some 26"
  by code_simp+

lemma reg_alloc_operands_collide_witness:
  "fst (reg_alloc_get_reg (snd (reg_alloc_get_reg full_regs 26 True False)) 9 True False) =
   fst (reg_alloc_get_reg full_regs 26 True False)"
proof -
  have "ra_ok full_regs"
    unfolding full_regs_def ctx0_def by (rule requests_from_start) simp
  then show ?thesis
    using reg_alloc_operands_collide [of full_regs 26 9 True, OF _ _ _ _ _ _ prod.collapse [symmetric] prod.collapse [symmetric]]
      full_regs_alloc by (simp add: xr_def)
qed

end
