(* ===== verification/Block_Correct.thy ===== *)
theory Block_Correct
  imports Translate64_Correct Convert64 RegAlloc_Inv
begin

text \<open>
  The block translator against an abstract A64 machine. The machine has the thirty-two registers and
  a memory; it executes the instructions that the translator handles as the architecture defines
  them, the 64-bit loads and stores with unsigned offset and the 64-bit multiplication. The
  theorem is a simulation: the code that \<open>convert_loop\<close> emits for a block of such instructions runs to
  its end and leaves the homes and the memory in the state that the A64 machine reaches.
\<close>

section \<open>The A64 machine\<close>

record a64_state =
  xreg :: "u8 \<Rightarrow> u64"          \<comment> \<open>register 31 is the stack pointer\<close>
  amem :: "u64 \<Rightarrow> u8"

text \<open>The eight bytes at \<open>ad\<close> do not meet the register homes, the 256 bytes at \<open>base\<close>.\<close>

definition outside :: "u64 \<Rightarrow> u64 \<Rightarrow> bool" where
  "outside base ad \<longleftrightarrow> 256 \<le> unat (ad - base) \<and> unat (ad - base) \<le> 2 ^ 64 - 8"

definition a64_offset :: "u32 \<Rightarrow> u64" where
  "a64_offset op = 8 * ucast (drop_bit 10 op AND 0xfff)"

text \<open>
  One instruction. \<open>None\<close> stands for an instruction outside the fragment, for the use of register 31
  as the zero register, and for an access to the homes, which belong to the translator.
\<close>

definition a64_exec :: "u64 \<Rightarrow> u32 \<Rightarrow> a64_state \<Rightarrow> a64_state option" where
  "a64_exec base op a =
     (let ad = xreg a (Rn op) + a64_offset op in
      if op AND 0xffc00000 = 0xf9400000 then
        (if Rd op \<noteq> 31 \<and> outside base ad
         then Some (a\<lparr>xreg := (xreg a)(Rd op := read64 (amem a) ad)\<rparr>) else None)
      else if op AND 0xffc00000 = 0xf9000000 then
        (if Rd op \<noteq> 31 \<and> outside base ad
         then Some (a\<lparr>amem := write64 (amem a) ad (xreg a (Rd op))\<rparr>) else None)
      else if op AND 0xffe0fc00 = 0x9b007c00 then
        (if Rd op \<noteq> 31 \<and> Rn op \<noteq> 31 \<and> Rm op \<noteq> 31
         then Some (a\<lparr>xreg := (xreg a)(Rd op := xreg a (Rn op) * xreg a (Rm op))\<rparr>) else None)
      else None)"

fun a64_run :: "u64 \<Rightarrow> u32 list \<Rightarrow> a64_state \<Rightarrow> a64_state option" where
  "a64_run base [] a = Some a"
| "a64_run base (op # ops) a =
     (case a64_exec base op a of None \<Rightarrow> None | Some a' \<Rightarrow> a64_run base ops a')"

section \<open>The simulation relation\<close>

definition sim :: "u64 \<Rightarrow> x86_state \<Rightarrow> a64_state \<Rightarrow> bool" where
  "sim base s a \<longleftrightarrow> rg s RBP = base \<and> (\<forall>r<32. home s r = xreg a r) \<and>
     (\<forall>ad. 256 \<le> unat (ad - base) \<longrightarrow> mem s ad = amem a ad)"

lemma sim_rip [simp]: "sim base (s\<lparr>rip := p\<rparr>) a = sim base s a"
  by (simp add: sim_def home_def slot_def)

text \<open>The A64 state that an x86-64 state represents.\<close>

definition a64_of :: "x86_state \<Rightarrow> a64_state" where
  "a64_of s = \<lparr>xreg = home s, amem = mem s\<rparr>"

lemma sim_a64_of: "rg s RBP = base \<Longrightarrow> sim base s (a64_of s)"
  by (simp add: sim_def a64_of_def)

lemma far_add:
  fixes d k :: u64
  assumes "256 \<le> unat d" and "unat d \<le> 2 ^ 64 - 8" and "unat k < 8"
  shows "256 \<le> unat (d + k)"
proof -
  have "unat (d + k) = unat d + unat k" using assms by (simp add: unat_add_lem [THEN iffD1])
  with assms(1) show ?thesis by simp
qed

lemma outside_read:
  assumes "sim base s a" and "outside base ad"
  shows "read64 (mem s) ad = read64 (amem a) ad"
proof -
  have "mem s (ad + k) = amem a (ad + k)" if "unat k < 8" for k
    using assms that far_add [of "ad - base" k] by (simp add: sim_def outside_def algebra_simps)
  from this [of 0] this [of 1] this [of 2] this [of 3] this [of 4] this [of 5] this [of 6] this [of 7]
  show ?thesis by (simp add: read64_def)
qed

lemma outside_apart:
  fixes d k :: u64
  assumes "256 \<le> unat d" and "unat d \<le> 2 ^ 64 - 8" and "unat k \<le> 248"
  shows "8 \<le> d - k" and "8 \<le> k - d"
  using assms by (simp_all add: word_le_nat_alt unat_sub_if')

lemma slot_value: "r < 32 \<Longrightarrow> rg s RBP = base \<Longrightarrow> slot s r = base + of_nat (8 * unat r)"
  by (simp add: slot_def scast_offset)

lemma slot_offset_le: "(r :: u8) < 32 \<Longrightarrow> unat (of_nat (8 * unat r) :: u64) \<le> 248"
  by (subst unat_of_nat64) (simp_all add: word_less_nat_alt)

lemma outside_slot:
  assumes "outside base ad" and "r < 32" and "rg s RBP = base"
  shows "apart ad (slot s r)"
proof -
  have "unat (of_nat (8 * unat r) :: u64) \<le> 248" using assms(2) by (rule slot_offset_le)
  from outside_apart [OF _ _ this, of "ad - base"] assms(1)
  show ?thesis by (simp add: slot_value [OF assms(2,3)] apart_def outside_def algebra_simps)
qed

lemma far_from_slot:
  assumes "256 \<le> unat (ad - base)" and "r < 32" and "rg s RBP = base"
  shows "\<not> ad - slot s r < 8"
proof -
  let ?k = "of_nat (8 * unat r) :: u64"
  have "unat ?k \<le> 248" using assms(2) by (rule slot_offset_le)
  then have "8 \<le> (ad - base) - ?k" using assms(1) by (simp add: word_le_nat_alt unat_sub_if')
  then show ?thesis by (simp add: slot_value [OF assms(2,3)] algebra_simps)
qed

lemma sim_sets_home:
  assumes "sim base s a" and "sets_home s rd v s'" and "rd < 32"
  shows "sim base s' (a\<lparr>xreg := (xreg a)(rd := v)\<rparr>)"
proof -
  have b: "rg s RBP = base" using assms(1) by (simp add: sim_def)
  have "mem s' ad = amem a ad" if "256 \<le> unat (ad - base)" for ad
    using assms(1,2) far_from_slot [OF that assms(3) b] that by (simp add: sets_home_def sim_def write64_def)
  then show ?thesis
    using assms by (auto simp: sim_def home_after [OF assms(2,3)]) (simp add: sets_home_def)
qed

lemma sim_write:
  assumes "sim base s a" and "outside base ad" and "rg s' RBP = rg s RBP"
    and "mem s' = write64 (mem s) ad v"
  shows "sim base s' (a\<lparr>amem := write64 (amem a) ad v\<rparr>)"
proof -
  have b: "rg s RBP = base" using assms(1) by (simp add: sim_def)
  have "home s' r = home s r" if "r < 32" for r
    using outside_slot [OF assms(2) that b] assms(3,4) by (simp add: home_def slot_def read64_write64_apart)
  then show ?thesis
    using assms by (auto simp: sim_def write64_def)
qed

section \<open>One instruction\<close>

text \<open>What one round of the loop does with a word at an aligned address.\<close>

lemma convert_step_word:
  assumes "ctx \<noteq> NULL" and "src \<noteq> NULL" and "src AND 3 = 0" and "read_le32 m src = op"
    and "\<And>d. translate_instr pf t op (snd (decode_a64 op d)) = (t', False)"
  shows "convert_step pf m ctx junk src t = (t'\<lparr>arm64_cur := src + 4\<rparr>, False)"
  using assms
  by (simp add: convert_step_def arm2x86_decode_def is_valid_instruction_alignment_def
      arm2x86_read_le32_def Let_def)

lemma dispatch_ldr_str:
  "d_instr_type d = INSTR_LDR \<or> d_instr_type d = INSTR_STR \<Longrightarrow>
   translate_instr pf t op d = (snd (translate_ldr_str t op (d_imm d)), False)"
  by (elim disjE) (simp_all add: translate_instr_def translate_plain_def)

lemma dispatch_madd:
  "d_instr_type d = INSTR_MADD \<Longrightarrow> translate_instr pf t op d = (snd (translate_madd t op), False)"
  by (simp add: translate_instr_def translate_plain_def)

lemma offset_scast: "(scast (push_bit 3 (x AND 0xfff) :: u32) :: u64) = 8 * ucast (x AND 0xfff)"
proof -
  have m: "x AND 0xfff = take_bit 12 x" by (simp add: take_bit_eq_mask mask_eq_exp_minus_1)
  have "(scast (push_bit 3 (take_bit 12 x)) :: u64) = push_bit 3 (ucast (take_bit 12 x))"
    by (intro bit_word_eqI) (auto simp: bit_simps min_def)
  then show ?thesis unfolding m by (simp add: push_bit_eq_mult)
qed

lemma appends_arm64_cur [simp]: "appends t (t'\<lparr>arm64_cur := p\<rparr>) is = appends t t' is"
  by (simp add: appends_def)

text \<open>The straight-line code of the three translators and its effect.\<close>

lemma ldr_code:
  assumes "drop_bit 30 op AND 3 = 3" and "bit op 22"
  shows "\<exists>is. appends t (snd (translate_ldr_str t op imm)) is \<and> (\<exists>s'. exec_list is s = Some s' \<and>
           sets_home s (Rd op) (read64 (mem s) (home s (Rn op) + scast imm)) s')"
  by (rule exI, rule conjI, rule ldr_appends [OF assms]) (simp add: exec_simps)

lemma str_code:
  assumes "drop_bit 30 op AND 3 = 3" and "\<not> bit op 22"
  shows "\<exists>is. appends t (snd (translate_ldr_str t op imm)) is \<and> (\<exists>s'. exec_list is s = Some s' \<and>
           rg s' RBP = rg s RBP \<and> mem s' = write64 (mem s) (home s (Rn op) + scast imm) (home s (Rd op)))"
  by (rule exI, rule conjI, rule str_appends [OF assms]) (simp add: exec_simps)

lemma madd_code:
  assumes "bit op 31"
  shows "\<exists>is. appends t (snd (translate_madd t op)) is \<and> (\<exists>s'. exec_list is s = Some s' \<and>
           sets_home s (Rd op) (home s (Rn op) * home s (Rm op)) s')"
  by (rule exI, rule conjI, rule madd_appends [OF assms]) (simp add: exec_simps alu_result_def)

text \<open>The fields of a word of the fragment.\<close>

lemma ldr_str_fields:
  fixes op :: u32
  assumes "op AND 0xffc00000 = v" and "v AND 0xff800000 = 0xf9000000"
  shows "op AND 0xff800000 = 0xf9000000" and "drop_bit 30 op AND 3 = 3"
    and "bit op 22 = bit v 22"
proof -
  show *: "op AND 0xff800000 = 0xf9000000" using mask_part [OF assms(1), of "0xff800000"] assms(2) by simp
  have "drop_bit 30 (op AND 0xff800000) AND 3 = (3 :: u32)" by (simp add: *)
  then show "drop_bit 30 op AND 3 = 3" by simp
  have "bit v 22 = bit (op AND 0xffc00000) 22" by (simp add: assms(1))
  then show "bit op 22 = bit v 22" by (simp add: bit_simps)
qed

lemma mul_fields: "(op :: u32) AND 0xffe0fc00 = 0x9b007c00 \<Longrightarrow> bit op 31"
proof -
  assume "op AND 0xffe0fc00 = 0x9b007c00"
  then have "bit (op AND 0xffe0fc00) 31" by simp
  then show "bit op 31" by (simp add: bit_simps)
qed

lemma translate_keeps_alloc:
  "reg_alloc (snd (translate_ldr_str t op imm)) = reg_alloc t" "reg_alloc (snd (translate_madd t op)) = reg_alloc t"
  by (simp_all add: trans_defs Let_def pc_map_add_def emits_def)

lemma a64_exec_simulated:
  assumes "a64_exec base op a = Some a'" and "sim base s a"
    and "ctx \<noteq> NULL" and "src \<noteq> NULL" and "src AND 3 = 0" and "read_le32 m src = op"
    and "convert_step pf m ctx junk src t = (t', stop)"
  shows "\<not> stop \<and> reg_alloc t' = reg_alloc t \<and>
         (\<exists>is s'. appends t t' is \<and> exec_list is s = Some s' \<and> sim base s' a')"
proof -
  note word = convert_step_word [OF assms(3-6)]
  let ?ad = "xreg a (Rn op) + a64_offset op"
  let ?imm = "push_bit 3 (drop_bit 10 op AND 0xfff) :: u32"
  have h: "home s (Rn op) = xreg a (Rn op)" "home s (Rd op) = xreg a (Rd op)" "home s (Rm op) = xreg a (Rm op)"
    using assms(2) by (simp_all add: sim_def reg_field_less)
  have ad: "home s (Rn op) + scast ?imm = ?ad" by (simp only: h a64_offset_def offset_scast)
  consider (ldr) "op AND 0xffc00000 = 0xf9400000" "outside base ?ad"
      "a' = a\<lparr>xreg := (xreg a)(Rd op := read64 (amem a) ?ad)\<rparr>"
    | (str) "op AND 0xffc00000 = 0xf9000000" "outside base ?ad"
      "a' = a\<lparr>amem := write64 (amem a) ?ad (xreg a (Rd op))\<rparr>"
    | (mul) "op AND 0xffe0fc00 = 0x9b007c00" "a' = a\<lparr>xreg := (xreg a)(Rd op := xreg a (Rn op) * xreg a (Rm op))\<rparr>"
    using assms(1) by (auto simp: a64_exec_def Let_def split: if_splits)
  then show ?thesis
  proof cases
    case ldr
    note f = ldr_str_fields [OF ldr(1), simplified]
    have "convert_step pf m ctx junk src t = (snd (translate_ldr_str t op ?imm)\<lparr>arm64_cur := src + 4\<rparr>, False)"
      using decode_ldr_str [OF f(1)] f(3) by (intro word) (simp add: dispatch_ldr_str)
    with assms(7) ldr_code [OF f(2), of t ?imm s] f(3) ldr(3) outside_read [OF assms(2) ldr(2)]
      sim_sets_home [OF assms(2)] ad
    show ?thesis by (auto simp: reg_field_less translate_keeps_alloc)
  next
    case str
    note f = ldr_str_fields [OF str(1), simplified]
    have "convert_step pf m ctx junk src t = (snd (translate_ldr_str t op ?imm)\<lparr>arm64_cur := src + 4\<rparr>, False)"
      using decode_ldr_str [OF f(1)] f(3) by (intro word) (simp add: dispatch_ldr_str)
    with assms(7) str_code [OF f(2), of t ?imm s] f(3) str(3) sim_write [OF assms(2) str(2)] ad h(2)
    show ?thesis by (auto simp: translate_keeps_alloc)
  next
    case mul
    have "convert_step pf m ctx junk src t = (snd (translate_madd t op)\<lparr>arm64_cur := src + 4\<rparr>, False)"
      using decode_mul [OF mul(1)] by (intro word) (simp add: dispatch_madd)
    with assms(7) madd_code [OF mul_fields [OF mul(1)], of t s] mul(2) sim_sets_home [OF assms(2)] h
    show ?thesis by (auto simp: reg_field_less translate_keeps_alloc)
  qed
qed

section \<open>A block\<close>

text \<open>The words of a block in memory.\<close>

fun code_at :: "(ptr \<Rightarrow> u8) \<Rightarrow> ptr \<Rightarrow> u32 list \<Rightarrow> bool" where
  "code_at m src [] \<longleftrightarrow> True"
| "code_at m src (op # ops) \<longleftrightarrow> read_le32 m src = op \<and> code_at m (src + 4) ops"

lemma aligned_iff: "((src :: u64) AND 3 = 0) = (unat src mod 4 = 0)"
proof -
  have "src AND 3 = take_bit 2 src" by (simp add: take_bit_eq_mask mask_eq_exp_minus_1)
  then show ?thesis by (simp add: unat_eq_zero [symmetric] take_bit_eq_mod unat_mod)
qed

lemma block_next:
  fixes src :: u64
  assumes "unat src + 4 * Suc k < 2 ^ 64"
  shows "src < src + 4 * of_nat (Suc k)" and "unat (src + 4) = unat src + 4" and "src + 4 \<noteq> 0"
proof -
  have k: "unat (4 * of_nat (Suc k) :: u64) = 4 * Suc k"
    using assms unat_of_nat64 [of "4 * Suc k"] by simp
  then have "unat (src + 4 * of_nat (Suc k)) = unat src + 4 * Suc k"
    using assms by (subst unat_add_lem [THEN iffD1]) simp_all
  then show "src < src + 4 * of_nat (Suc k)" by (simp add: word_less_nat_alt)
  show u: "unat (src + 4) = unat src + 4" using assms by (subst unat_add_lem [THEN iffD1]) simp_all
  show "src + 4 \<noteq> 0" using u by (metis add_eq_0_iff_both_eq_0 unat_0 zero_neq_numeral)
qed

lemma convert_loop_sim:
  assumes "a64_run base ops a = Some a'" and "sim base s a" and "code_at m src ops"
    and "ctx \<noteq> NULL" and "src \<noteq> NULL" and "src AND 3 = 0" and "unat src + 4 * length ops < 2 ^ 64"
    and "length ops \<le> n"
  shows "reg_alloc (convert_loop n pf m ctx junk src (src + 4 * of_nat (length ops)) t) = reg_alloc t \<and>
         (\<exists>is s'. appends t (convert_loop n pf m ctx junk src (src + 4 * of_nat (length ops)) t) is \<and>
           exec_list is s = Some s' \<and> sim base s' a')"
  using assms
proof (induction ops arbitrary: a s src t n)
  case Nil
  then show ?case by (cases n) (auto intro!: exI [of _ "[]"] simp: appends_refl)
next
  case (Cons op ops)
  from Cons.prems(1) obtain a1 where a1: "a64_exec base op a = Some a1" "a64_run base ops a1 = Some a'"
    by (auto split: option.splits)
  obtain t1 stop where st: "convert_step pf m ctx junk src t = (t1, stop)" by fastforce
  from a64_exec_simulated [OF a1(1) Cons.prems(2,4-6) _ st] Cons.prems(3) obtain is1 s1 where
    1: "\<not> stop" "appends t t1 is1" "exec_list is1 s = Some s1" "sim base s1 a1"
      "reg_alloc t1 = reg_alloc t" by auto
  note b = block_next [of src "length ops"]
  from Cons.prems(8) obtain k where n: "n = Suc k" "length ops \<le> k" by (cases n) auto
  let ?t = "convert_loop k pf m ctx junk (src + 4) (src + 4 + 4 * of_nat (length ops)) t1"
  have "reg_alloc ?t = reg_alloc t1 \<and> (\<exists>is s'. appends t1 ?t is \<and> exec_list is s1 = Some s' \<and> sim base s' a')"
    using Cons.prems b n by (intro Cons.IH [OF a1(2) 1(4)]) (simp_all add: aligned_iff)
  then obtain is2 s2 where
    2: "appends t1 ?t is2" "exec_list is2 s1 = Some s2" "sim base s2 a'" "reg_alloc ?t = reg_alloc t1" by blast
  have "convert_loop n pf m ctx junk src (src + 4 * of_nat (length (op # ops))) t = ?t"
    using b(1) Cons.prems(7) st 1(1) by (simp add: n algebra_simps)
  with appends_trans [OF 1(2) 2(1)] 1(3,5) 2(2-4) show ?case
    by (intro conjI exI [of _ "is1 @ is2"] exI [of _ s2]) (simp_all add: exec_list_append)
qed

text \<open>
  Simulation of a block. Let a block of loads, stores and multiplications stand in memory, and let the
  A64 machine execute it. The loop of \<open>arm2x86_convert_block\<close> translates all of it, and from every
  x86-64 state that represents the initial A64 state the translated code runs to its end in a state
  that represents the final A64 state.
\<close>

lemma convert_loop_simulates:
  assumes "a64_run base ops a = Some a'" and "sim base s a" and "code_at m src ops"
    and "ctx \<noteq> NULL" and "src \<noteq> NULL" and "src AND 3 = 0" and "unat src + 4 * length ops < 2 ^ 64"
    and "length ops \<le> n" and "rip s = x86_cur t"
  shows "\<exists>k s'. run k (x86_code (convert_loop n pf m ctx junk src (src + 4 * of_nat (length ops)) t)) s = Some s' \<and>
           sim base s' a'"
proof -
  from convert_loop_sim [where t = t and pf = pf and junk = junk, OF assms(1-8)] obtain "is" s' where
    "appends t (convert_loop n pf m ctx junk src (src + 4 * of_nat (length ops)) t) is"
    "exec_list is s = Some s'" "sim base s' a'" by blast
  from appends_run [OF this(1,2) assms(9)] this(3) show ?thesis by (metis sim_rip)
qed

text \<open>A block: \<open>ldr x1, [x2, #16]\<close>, \<open>mul x3, x1, x1\<close>, \<open>str x3, [x2, #24]\<close>.\<close>

definition demo_block :: "u32 list" where
  "demo_block = [0xf9400841, 0x9b017c23, 0xf9000c43]"

definition demo_mem :: "ptr \<Rightarrow> u8" where
  "demo_mem p = (if p - 0x1000 < 12 then concat (map le32 demo_block) ! unat (p - 0x1000) else 0)"

lemma demo_code: "code_at demo_mem 0x1000 demo_block"
  by (simp add: demo_block_def demo_mem_def read_le32_def le32_def)

lemma convert_loop_simulates_witness:
  "\<forall>pf. \<exists>a'. a64_run 0x7000 demo_block (a64_of state0) = Some a' \<and>
     (\<exists>k s'. run k (x86_code (convert_loop 64 pf demo_mem 1 zero_decoded 0x1000 0x100c ctx0)) state0 = Some s' \<and>
        sim 0x7000 s' a')"
proof -
  have "a64_run 0x7000 demo_block (a64_of state0) \<noteq> None"
    by (simp add: demo_block_def a64_exec_def outside_def a64_offset_def a64_of_def state0_def home_def slot_def read64_def write64_def ARM_REG_OFFSET_def of_le64_def)
  then obtain a' where a': "a64_run 0x7000 demo_block (a64_of state0) = Some a'" by auto
  have "sim 0x7000 state0 (a64_of state0)" by (rule sim_a64_of) (simp add: state0_def)
  from convert_loop_simulates [OF a' this demo_code, of 1 64 ctx0] show ?thesis
    using a' by (simp add: demo_block_def)
qed

section \<open>Prologue and epilogue\<close>

definition entry_instrs :: "x86_instr list" where
  "entry_instrs =
     [Mov_rm_r True (Mem RBP (ARM_REG_OFFSET 31)) RSP,
      Mov_rm_r True (Mem RBP (ARM_REG_OFFSET 0)) RDI, Mov_rm_r True (Mem RBP (ARM_REG_OFFSET 1)) RSI,
      Mov_rm_r True (Mem RBP (ARM_REG_OFFSET 2)) RDX, Mov_rm_r True (Mem RBP (ARM_REG_OFFSET 3)) RCX,
      Mov_rm_r True (Mem RBP (ARM_REG_OFFSET 4)) RAX,
      Mov_rm_r True (Mem R13 (ARM_REG_OFFSET 5)) RCX, Mov_rm_r True (Mem R13 (ARM_REG_OFFSET 6)) RDX,
      Mov_rm_r True (Mem R13 (ARM_REG_OFFSET 7)) RBX,
      Mov_rm_r True (Mem RBP (ARM_REG_OFFSET 29)) RBP]"

lemma prologue_disasm: "x86_disasm (prologue []) = Some entry_instrs"
proof -
  have "prologue [] = concat (map (\<lambda>(x, a). emit_store_arm_reg [] x a True)
     [(RSP, 31), (RDI, 0), (RSI, 1), (RDX, 2), (RCX, 3), (RAX, 4), (R9, 5), (R10, 6), (R11, 7), (RBP, 29)])"
    by (simp add: prologue_def emit_store_arm_reg_def emit_defs)
  then show ?thesis
    by (simp add: entry_instrs_def disasm_simps x86_disasm_step [OF store_arm_reg_high] del: x86_decode.simps)
qed

text \<open>
  The prologue. Of the eight argument registers it saves RDI, RSI, RDX and RCX to the homes of X0 to X3.
  The instruction meant for R8 stores RAX to the home of X4, and those meant for R9, R10 and
  R11 store RCX, RDX and RBX relative to R13: the homes of X5 to X7 are never written.
\<close>

lemma prologue_instructions:
  "x86_disasm (prologue []) = Some
     [Mov_rm_r True (Mem RBP (ARM_REG_OFFSET 31)) RSP,
      Mov_rm_r True (Mem RBP (ARM_REG_OFFSET 0)) RDI, Mov_rm_r True (Mem RBP (ARM_REG_OFFSET 1)) RSI,
      Mov_rm_r True (Mem RBP (ARM_REG_OFFSET 2)) RDX, Mov_rm_r True (Mem RBP (ARM_REG_OFFSET 3)) RCX,
      Mov_rm_r True (Mem RBP (ARM_REG_OFFSET 4)) RAX,
      Mov_rm_r True (Mem R13 (ARM_REG_OFFSET 5)) RCX, Mov_rm_r True (Mem R13 (ARM_REG_OFFSET 6)) RDX,
      Mov_rm_r True (Mem R13 (ARM_REG_OFFSET 7)) RBX,
      Mov_rm_r True (Mem RBP (ARM_REG_OFFSET 29)) RBP]"
  using prologue_disasm by (simp add: entry_instrs_def)

text \<open>The calling convention reloads RBP from the home that the prologue has just written.\<close>

lemma setup_code:
  "x86_code (reg_alloc_setup_calling_convention (reg_alloc_init t)) =
     x86_code t @ emit_load_arm_reg [] 29 RBP True"
  using load_home.appends [of "x86_code t" "(29, RBP)"]
  by (simp add: setup_eq) (simp add: reg_alloc_assign_def reg_alloc_init_def)

lemma setup_low: "i < 8 \<Longrightarrow> xr (reg_alloc_setup_calling_convention (reg_alloc_init t)) i = 0xff"
  by (simp add: setup_ok init_xr)

lemma live_out_none:
  "(\<And>i. i < 8 \<Longrightarrow> xr t i = 0xff) \<Longrightarrow> reg_alloc_compute_live_out t = []"
  by (auto simp: reg_alloc_compute_live_out_def xr_def filter_empty_conv)

lemma epilogue_code:
  "epilogue buf = buf @ emit_load_arm_reg [] 0 RAX True @ [0xc3]"
  by (simp add: epilogue_def emit_load_arm_reg_def emit_defs)

lemma entry_keeps_rbp:
  "\<exists>s'. exec_list (entry_instrs @ [Mov_r_rm True RBP (Mem RBP (ARM_REG_OFFSET 29))]) s = Some s' \<and>
        rg s' RBP = rg s RBP"
  by (simp add: entry_instrs_def exec_defs cut_def)

lemma emits_appends:
  assumes "\<And>buf. f buf = buf @ frag" and "x86_disasm frag = Some is" and "\<forall>i\<in>set is. straight i"
    and "x86_code t' = f (x86_code t)"
  shows "appends t t' is"
  using assms by (intro appendsI [of _ _ frag]) simp_all

lemma block_code:
  assumes "arm2x86_convert_block pf m ctx strict junk mal t src n buf sz rh = (r, Some t')"
  obtains t0 t1 where
    "appends t0 t1 (entry_instrs @ [Mov_r_rm True RBP (Mem RBP (ARM_REG_OFFSET 29))])" "x86_cur t0 = 0"
    "\<And>i. i < 8 \<Longrightarrow> xr t1 i = 0xff"
    "\<And>t2. t2 = convert_loop 64 pf m ctx junk src (src + n) t1 \<Longrightarrow>
       x86_code t' = x86_code (reg_alloc_emit_batch_store t2 (reg_alloc_compute_live_out t2)) @
         emit_load_arm_reg [] 0 RAX True @ [0xc3]"
proof
  let ?t0 = "init_ctx strict src buf (if rh \<noteq> NULL then rh else mal) t"
  let ?ta = "emits ?t0 prologue"
  let ?t1 = "reg_alloc_setup_calling_convention (reg_alloc_init ?ta)"
  show c: "x86_cur ?t0 = 0" by (simp add: x86_cur_def init_ctx_def)
  have "appends ?t0 ?ta entry_instrs"
    by (rule emits_appends [OF _ prologue_disasm, of prologue])
       (simp_all add: entry_instrs_def emit_defs)
  moreover have "appends ?ta ?t1 [Mov_r_rm True RBP (Mem RBP (ARM_REG_OFFSET 29))]"
    by (rule appendsI [OF setup_code]) (simp_all add: disasm_simps)
  ultimately show "appends ?t0 ?t1 (entry_instrs @ [Mov_r_rm True RBP (Mem RBP (ARM_REG_OFFSET 29))])"
    by (rule appends_trans)
  show "\<And>i. i < 8 \<Longrightarrow> xr ?t1 i = 0xff" by (rule setup_low)
  show "x86_code t' = x86_code (reg_alloc_emit_batch_store t2 (reg_alloc_compute_live_out t2)) @
         emit_load_arm_reg [] 0 RAX True @ [0xc3]"
    if "t2 = convert_loop 64 pf m ctx junk src (src + n) ?t1" for t2
    using assms that by (auto simp: arm2x86_convert_block_def Let_def epilogue_code split: if_splits)
qed

text \<open>
  C3: a multiplication of 64-bit registers, from the word in memory to the product. A round of the
  translation loop on a word of \<open>MUL\<close> (the form of \<open>MADD\<close> with XZR as the accumulator) goes on to the next
  word, and the code that it adds, run from any state of the machine, leaves the product of the
  homes of the two sources, modulo \<open>2^64\<close>, in the home of the destination; no other byte of memory changes
  (RAX, R11 and the flags do).
\<close>

theorem convert_step_mul:
  assumes "op AND 0xffe0fc00 = 0x9b007c00" and "read_le32 m src = op"
    and "ctx \<noteq> NULL" and "src \<noteq> NULL" and "src AND 3 = 0"
    and "convert_step pf m ctx junk src t = (t', stop)" and "rip s = x86_cur t"
  shows "\<not> stop \<and> arm64_cur t' = src + 4 \<and>
         (\<exists>s'. run 6 (x86_code t') s = Some s' \<and> rg s' RBP = rg s RBP \<and>
            mem s' = write64 (mem s) (slot s (Rd op)) (home s (Rn op) * home s (Rm op)))"
proof -
  have "convert_step pf m ctx junk src t = (snd (translate_madd t op)\<lparr>arm64_cur := src + 4\<rparr>, False)"
    using decode_mul [OF assms(1)] by (intro convert_step_word [OF assms(3-5,2)]) (simp add: dispatch_madd)
  with assms(6) translate_madd_product [OF mul_fields [OF assms(1)] assms(7)]
  show ?thesis by (auto simp: sets_home_def)
qed

theorem convert_step_mul_witness:
  "\<forall>pf. \<exists>s'. run 6 (x86_code (fst (convert_step pf demo_mem 1 zero_decoded 0x1004 ctx0))) state0 = Some s' \<and>
     mem s' = write64 (mem state0) (slot state0 3) (home state0 1 * home state0 1)"
proof
  fix pf
  have w: "read_le32 demo_mem 0x1004 = 0x9b017c23"
    by (simp add: demo_block_def demo_mem_def read_le32_def le32_def)
  have r: "rip state0 = x86_cur ctx0" by (simp add: x86_cur_def ctx0_def reg_alloc_init_def state0_def)
  show "\<exists>s'. run 6 (x86_code (fst (convert_step pf demo_mem 1 zero_decoded 0x1004 ctx0))) state0 = Some s' \<and>
     mem s' = write64 (mem state0) (slot state0 3) (home state0 1 * home state0 1)"
    using convert_step_mul [OF _ w, of 1 pf zero_decoded ctx0 _ _ state0, OF _ _ _ _ prod.collapse [symmetric] r]
    by auto
qed

text \<open>
  The multiplication of 32-bit registers goes to \<open>translate_mul\<close>. Its load of the second source has no
  REX prefix: the register field of R11 names EBX, and the product is taken of what R11 held before.
\<close>

lemma load_home_32:
  "x86_disasm (emit_load_arm_reg [] a RAX False @ rest) =
     map_option (Cons (Mov_r_rm False RAX (Mem RBP (ARM_REG_OFFSET a)))) (x86_disasm rest)"
  "x86_disasm (emit_load_arm_reg [] a RBX False @ rest) =
     map_option (Cons (Mov_r_rm False RBX (Mem RBP (ARM_REG_OFFSET a)))) (x86_disasm rest)"
  by (rule x86_disasm_step, simp add: emit_load_arm_reg_def emit_defs x86_fields get_rm_def get_disp_def)+

lemma mul32_reads_ebx:
  assumes "\<not> bit op 31"
  shows "x86_disasm (drop (x86_cur t) (x86_code (snd (translate_mul t op)))) =
     Some [Mov_r_rm False RAX (Mem RBP (ARM_REG_OFFSET (Rn op))), Mov_r_rm False RBX (Mem RBP (ARM_REG_OFFSET (Rm op))),
       Imul_r_rm True RAX (Reg R11), Mov_rm_r False (Mem RBP (ARM_REG_OFFSET (Rd op))) RAX]"
proof -
  have "drop (x86_cur t) (x86_code (snd (translate_mul t op))) =
      emit_load_arm_reg [] (Rn op) RAX False @ emit_load_arm_reg [] (Rm op) RBX False @
      imul_r64_r64 [] RAX R11 @ emit_store_arm_reg [] RAX (Rd op) False"
    using assms by (simp add: code_simps x86_cur_def)
  then show ?thesis by (simp add: disasm_simps load_home_32)
qed

text \<open>
  C1: simulation of a whole call. Let \<open>arm2x86_convert_block\<close> translate a block of at most 64 loads, stores and
  multiplications. The code it returns ends with \<open>ret\<close>; run from its first byte up to there, it
  represents at the end what the A64 machine computes from the state that the prologue establishes,
  and RAX holds the final X0.
\<close>

theorem convert_block_simulates:
  assumes "arm2x86_convert_block pf m ctx strict junk mal t src (4 * of_nat (length ops)) buf sz rh = (r, Some t')"
    and "code_at m src ops" and "ctx \<noteq> NULL" and "src \<noteq> NULL" and "src AND 3 = 0"
    and "unat src + 4 * length ops < 2 ^ 64" and "length ops \<le> 64"
    and "exec_list (entry_instrs @ [Mov_r_rm True RBP (Mem RBP (ARM_REG_OFFSET 29))]) s = Some s1"
    and "rip s = 0" and "a64_run (rg s RBP) ops (a64_of s1) = Some a'"
  shows "last (x86_code t') = 0xc3 \<and>
         (\<exists>k s'. run k (butlast (x86_code t')) s = Some s' \<and> sim (rg s RBP) s' a' \<and> rg s' RAX = xreg a' 0)"
proof -
  from block_code [OF assms(1)] obtain t0 t1 where
    e: "appends t0 t1 (entry_instrs @ [Mov_r_rm True RBP (Mem RBP (ARM_REG_OFFSET 29))])" "x86_cur t0 = 0"
    "\<And>i. i < 8 \<Longrightarrow> xr t1 i = 0xff" and
    code: "\<And>t2. t2 = convert_loop 64 pf m ctx junk src (src + 4 * of_nat (length ops)) t1 \<Longrightarrow>
       x86_code t' = x86_code (reg_alloc_emit_batch_store t2 (reg_alloc_compute_live_out t2)) @
         emit_load_arm_reg [] 0 RAX True @ [0xc3]" by blast
  define t2 where "t2 = convert_loop 64 pf m ctx junk src (src + 4 * of_nat (length ops)) t1"
  have "rg s1 RBP = rg s RBP" using entry_keeps_rbp [of s] assms(8) by auto
  from convert_loop_sim [where t = t1 and pf = pf and junk = junk,
      OF assms(10) sim_a64_of [OF this] assms(2-7)] obtain "is" s2 where
    l: "reg_alloc t2 = reg_alloc t1" "appends t1 t2 is" "exec_list is s1 = Some s2" "sim (rg s RBP) s2 a'"
    unfolding t2_def by blast
  have "reg_alloc_compute_live_out t2 = []"
    using e(3) l(1) by (intro live_out_none) (simp add: xr_def)
  then have c: "x86_code t' = (x86_code t2 @ emit_load_arm_reg [] 0 RAX True) @ [0xc3]"
    using code [OF t2_def] by (simp add: reg_alloc_emit_batch_store_def)
  let ?t3 = "emits t2 (\<lambda>buf. buf @ emit_load_arm_reg [] 0 RAX True)"
  have "appends t2 ?t3 [Mov_r_rm True RAX (Mem RBP (ARM_REG_OFFSET 0))]"
    using load_home.disasm_one [of "(0, RAX)"]
    by (intro appendsI [of _ _ "emit_load_arm_reg [] 0 RAX True"]) simp_all
  note a = appends_trans [OF appends_trans [OF e(1) l(2)] this]
  let ?s3 = "s2\<lparr>rg := (rg s2)(RAX := home s2 0)\<rparr>"
  have "exec_list [Mov_r_rm True RAX (Mem RBP (ARM_REG_OFFSET 0))] s2 = Some ?s3"
    by (simp add: exec_simps)
  then have x: "exec_list (((entry_instrs @ [Mov_r_rm True RBP (Mem RBP (ARM_REG_OFFSET 29))]) @ is) @
      [Mov_r_rm True RAX (Mem RBP (ARM_REG_OFFSET 0))]) s = Some ?s3"
    using assms(8) l(3) by (simp only: exec_list_append) simp
  have "rip s = x86_cur t0" using assms(9) e(2) by simp
  from appends_run [OF a x this]
  obtain k where k: "run k (x86_code ?t3) s = Some (?s3\<lparr>rip := x86_cur ?t3\<rparr>)" by blast
  have "sim (rg s RBP) (?s3\<lparr>rip := x86_cur ?t3\<rparr>) a'"
    using l(4) by (auto simp: sim_def home_def slot_def)
  moreover have "home s2 0 = xreg a' 0" using l(4) by (simp add: sim_def)
  moreover have "last (x86_code t') = 0xc3" "butlast (x86_code t') = x86_code ?t3"
    by (simp_all only: c last_snoc butlast_snoc x86_code_emits)
  ultimately show ?thesis using k by (auto intro!: exI [of _ k])
qed

theorem convert_block_simulates_witness:
  "\<forall>pf. \<exists>t' s1 a'. arm2x86_convert_block pf demo_mem 1 False zero_decoded 0 ctx0 0x1000 12 0x400000 0x500000 0x7000 = (0, Some t') \<and>
     exec_list (entry_instrs @ [Mov_r_rm True RBP (Mem RBP (ARM_REG_OFFSET 29))]) state0 = Some s1 \<and>
     a64_run 0x7000 demo_block (a64_of s1) = Some a' \<and>
     (\<exists>k s'. run k (butlast (x86_code t')) state0 = Some s' \<and> rg s' RAX = xreg a' 0)"
proof -
  obtain s1 where s1: "exec_list (entry_instrs @ [Mov_r_rm True RBP (Mem RBP (ARM_REG_OFFSET 29))]) state0 = Some s1"
    using entry_keeps_rbp [of state0] by blast
  have "home s1 2 = 0"
    using s1 by (auto simp: entry_instrs_def exec_simps state0_def ARM_REG_OFFSET_def read64_def write64_def le64_def of_le64_def)
  then have "a64_run 0x7000 demo_block (a64_of s1) \<noteq> None"
    by (simp add: demo_block_def a64_exec_def outside_def a64_offset_def a64_of_def)
  then obtain a' where a': "a64_run 0x7000 demo_block (a64_of s1) = Some a'" by auto
  show ?thesis
  proof
    fix pf
    obtain t' where t': "arm2x86_convert_block pf demo_mem 1 False zero_decoded 0 ctx0 0x1000 12 0x400000 0x500000 0x7000 = (0, Some t')"
      by (simp add: arm2x86_convert_block_def Let_def)
    then have t: "arm2x86_convert_block pf demo_mem 1 False zero_decoded 0 ctx0 0x1000 (4 * of_nat (length demo_block))
        0x400000 0x500000 0x7000 = (0, Some t')" by (simp add: demo_block_def)
    from convert_block_simulates [OF t demo_code _ _ _ _ _ s1, of a'] t' s1 a'
    show "\<exists>t' s1 a'. arm2x86_convert_block pf demo_mem 1 False zero_decoded 0 ctx0 0x1000 12 0x400000 0x500000 0x7000 = (0, Some t') \<and>
       exec_list (entry_instrs @ [Mov_r_rm True RBP (Mem RBP (ARM_REG_OFFSET 29))]) state0 = Some s1 \<and>
       a64_run 0x7000 demo_block (a64_of s1) = Some a' \<and>
       (\<exists>k s'. run k (butlast (x86_code t')) state0 = Some s' \<and> rg s' RAX = xreg a' 0)"
      by (auto simp: demo_block_def state0_def)
  qed
qed

end
