(* ===== verification/RegAlloc_Block.thy ===== *)
theory RegAlloc_Block
  imports Convert64 RegAlloc_Inv
begin

text \<open>
  The register allocator as the translation of a block uses it (\<open>src/modules/arm2x86_translate64.c\<close>).
  Four translators ask the allocator for host registers: those of ADD and SUB, of the logical
  instructions, and \<open>translate_mov_imm\<close> for MOVZ and MOVN (a free register is taken and assigned, without
  giving back the one that the destination held). The others, over a hundred of them, emit code that
  works on the homes of the registers and leave the allocation as it is. Together they give the
  invariant of the allocator for every round of \<open>arm2x86_convert_block\<close>.
\<close>

section \<open>The translators that do not allocate\<close>

definition alloc_of :: "TranslateCtx \<Rightarrow> RegAllocEntry list \<times> u8 list \<times> nat" where
  "alloc_of t = (reg_alloc t, free_regs t, free_reg_count t)"

lemma alloc_of_updates [simp]:
  "alloc_of (emits t f) = alloc_of t" "alloc_of (pc_map_add t a p) = alloc_of t"
  "alloc_of (poke8 t l v) = alloc_of t" "alloc_of (poke32 t l w) = alloc_of t"
  "alloc_of (fst (emits_loc t g)) = alloc_of t" "alloc_of (t\<lparr>arm64_cur := c\<rparr>) = alloc_of t"
  "alloc_of (emit_direct_jump_or_call t p d) = alloc_of t" "alloc_of (emit_dispatch_stub t a d) = alloc_of t"
  by (simp_all add: alloc_of_def emits_def pc_map_add_def poke8_def poke32_def emits_loc_def
      emit_direct_jump_or_call_def emit_dispatch_stub_def Let_def split: prod.splits)

text \<open>The code that an instruction emits does not matter here, so it is not simplified.\<close>

lemma emits_weak: "t = t' \<Longrightarrow> emits t f = emits t' f" by simp
lemma emits_loc_weak: "t = t' \<Longrightarrow> emits_loc t f = emits_loc t' f" by simp
lemma if_alloc: "alloc_of (if c then a else b) = (if c then alloc_of a else alloc_of b)" by simp
lemma if_snd: "snd (if c then a else b) = (if c then snd a else snd b)" by simp

lemmas walk = Let_def split_def snd_conv fst_conv alloc_of_updates if_alloc if_snd if_cancel

lemma integer_alloc [simp]:
  "alloc_of (snd (translate_cmp t op)) = alloc_of t"
  "alloc_of (snd (translate_adc t op)) = alloc_of t"
  "alloc_of (snd (translate_sbc t op)) = alloc_of t"
  "alloc_of (snd (translate_neg t op)) = alloc_of t"
  "alloc_of (snd (translate_rsb t op)) = alloc_of t"
  "alloc_of (snd (translate_mvn t op)) = alloc_of t"
  "alloc_of (snd (translate_tst t op)) = alloc_of t"
  "alloc_of (snd (translate_cmn t op)) = alloc_of t"
  "alloc_of (snd (translate_csel t op)) = alloc_of t"
  "alloc_of (snd (translate_cset t op)) = alloc_of t"
  "alloc_of (snd (translate_cinc t op)) = alloc_of t"
  "alloc_of (snd (translate_cinv t op)) = alloc_of t"
  "alloc_of (snd (translate_cneg t op)) = alloc_of t"
  "alloc_of (snd (translate_ccmn t op)) = alloc_of t"
  "alloc_of (snd (translate_ccmp t op)) = alloc_of t"
  "alloc_of (snd (translate_mul t op)) = alloc_of t"
  "alloc_of (snd (translate_div t op)) = alloc_of t"
  "alloc_of (snd (translate_madd t op)) = alloc_of t"
  "alloc_of (snd (translate_msub t op)) = alloc_of t"
  "alloc_of (snd (translate_smulh t op)) = alloc_of t"
  "alloc_of (snd (translate_umulh t op)) = alloc_of t"
  "alloc_of (snd (translate_shift t op)) = alloc_of t"
  "alloc_of (snd (translate_ror_imm t op)) = alloc_of t"
  "alloc_of (snd (translate_extr t op)) = alloc_of t"
  "alloc_of (snd (translate_sbfm t op)) = alloc_of t"
  "alloc_of (snd (translate_ubfm t op)) = alloc_of t"
  by (simp_all only: translate_cmp_def translate_adc_def translate_sbc_def translate_neg_def
      translate_rsb_def translate_mvn_def translate_tst_def translate_cmn_def translate_csel_def
      translate_cset_def translate_cinc_def translate_cinv_def translate_cneg_def translate_ccmn_def
      translate_ccmp_def translate_mul_def translate_div_def translate_madd_def translate_msub_def
      translate_smulh_def translate_umulh_def translate_shift_def translate_ror_imm_def
      translate_extr_def translate_sbfm_def translate_ubfm_def walk cong: emits_weak emits_loc_weak
      if_weak_cong)
    (simp_all only: walk split: if_split cong: emits_weak emits_loc_weak)?

lemma memory_alloc [simp]:
  "alloc_of (snd (translate_bfi t op)) = alloc_of t"
  "alloc_of (snd (translate_bfxil t op)) = alloc_of t"
  "alloc_of (snd (translate_bfc t op)) = alloc_of t"
  "alloc_of (snd (translate_clz t op)) = alloc_of t"
  "alloc_of (snd (translate_rbit t op)) = alloc_of t"
  "alloc_of (snd (translate_rev t op)) = alloc_of t"
  "alloc_of (snd (translate_sxtb t op)) = alloc_of t"
  "alloc_of (snd (translate_sxth t op)) = alloc_of t"
  "alloc_of (snd (translate_uxtb t op)) = alloc_of t"
  "alloc_of (snd (translate_uxth t op)) = alloc_of t"
  "alloc_of (snd (translate_sxtw t op)) = alloc_of t"
  "alloc_of (snd (translate_uxtw t op)) = alloc_of t"
  "alloc_of (snd (translate_ldr_str t op imm)) = alloc_of t"
  "alloc_of (snd (translate_ldp_stp t op imm)) = alloc_of t"
  "alloc_of (snd (translate_ldr_literal t op)) = alloc_of t"
  "alloc_of (snd (translate_adr_adrp t op)) = alloc_of t"
  "alloc_of (snd (translate_dmb_dsb_isb t op)) = alloc_of t"
  "alloc_of (snd (translate_svc t op)) = alloc_of t"
  "alloc_of (snd (translate_b t op)) = alloc_of t"
  "alloc_of (snd (translate_br t op)) = alloc_of t"
  "alloc_of (snd (translate_blr t op)) = alloc_of t"
  "alloc_of (snd (translate_ret t op)) = alloc_of t"
  "alloc_of (snd (translate_bl t op)) = alloc_of t"
  "alloc_of (snd (translate_b_cond t op)) = alloc_of t"
  "alloc_of (snd (translate_cbz_cbnz t op b)) = alloc_of t"
  "alloc_of (snd (translate_tbz_tbnz t op b)) = alloc_of t"
  by (simp_all only: translate_bfi_def translate_bfxil_def translate_bfc_def translate_clz_def
      translate_rbit_def translate_rev_def translate_sxtb_def translate_sxth_def translate_uxtb_def
      translate_uxth_def translate_sxtw_def translate_uxtw_def translate_ldr_str_def
      translate_ldp_stp_def translate_ldr_literal_def translate_adr_adrp_def
      translate_dmb_dsb_isb_def translate_svc_def translate_b_def translate_br_def translate_blr_def
      translate_ret_def translate_bl_def translate_b_cond_def translate_cbz_cbnz_def
      translate_tbz_tbnz_def walk cong: emits_weak emits_loc_weak if_weak_cong)
    (simp_all only:
      walk split: if_split cong: emits_weak emits_loc_weak)?

lemma system_alloc [simp]:
  "alloc_of (snd (translate_orn t op)) = alloc_of t"
  "alloc_of (snd (translate_ldrb_strb t op b)) = alloc_of t"
  "alloc_of (snd (translate_ldrh_strh t op b)) = alloc_of t"
  "alloc_of (snd (translate_ldrsb t op)) = alloc_of t"
  "alloc_of (snd (translate_ldrsh t op)) = alloc_of t"
  "alloc_of (snd (translate_ldrsw t op)) = alloc_of t"
  "alloc_of (snd (translate_mov_reg t op)) = alloc_of t"
  "alloc_of (snd (translate_ldaxr t op)) = alloc_of t"
  "alloc_of (snd (translate_stlxr t op)) = alloc_of t"
  "alloc_of (snd (translate_cas t op)) = alloc_of t"
  "alloc_of (snd (translate_ldadd t op)) = alloc_of t"
  "alloc_of (snd (translate_fadd t op)) = alloc_of t"
  "alloc_of (snd (translate_fsub t op)) = alloc_of t"
  "alloc_of (snd (translate_fmul t op)) = alloc_of t"
  "alloc_of (snd (translate_fdiv t op)) = alloc_of t"
  "alloc_of (snd (translate_fcmp t op)) = alloc_of t"
  "alloc_of (snd (translate_fcvt t op)) = alloc_of t"
  "alloc_of (snd (translate_fmov_imm pf t op)) = alloc_of t"
  "alloc_of (snd (translate_fsqrt t op)) = alloc_of t"
  "alloc_of (snd (translate_fabs t op)) = alloc_of t"
  "alloc_of (snd (translate_fneg t op)) = alloc_of t"
  "alloc_of (snd (translate_fmadd t op)) = alloc_of t"
  "alloc_of (snd (translate_fmsub t op)) = alloc_of t"
  "alloc_of (snd (translate_mrs pf t op)) = alloc_of t"
  "alloc_of (snd (translate_msr pf t op)) = alloc_of t"
  "alloc_of (snd (translate_hint t op)) = alloc_of t"
  "alloc_of (snd (translate_brk t op)) = alloc_of t"
  "alloc_of (snd (translate_hlt t op)) = alloc_of t"
  "alloc_of (snd (translate_eret t op)) = alloc_of t"
  "alloc_of (snd (translate_csinc t op)) = alloc_of t"
  "alloc_of (snd (translate_csinv t op)) = alloc_of t"
  "alloc_of (snd (translate_csneg t op)) = alloc_of t"
  "alloc_of (snd (translate_fcsel t op)) = alloc_of t"
  "alloc_of (snd (translate_fnmadd t op)) = alloc_of t"
  "alloc_of (snd (translate_fnmsub t op)) = alloc_of t"
  "alloc_of (snd (translate_prfm t op)) = alloc_of t"
  "alloc_of (snd (translate_crc32 t op)) = alloc_of t"
  "alloc_of (snd (translate_aese t op)) = alloc_of t"
  "alloc_of (snd (translate_aesd t op)) = alloc_of t"
  "alloc_of (snd (translate_aesmc t op)) = alloc_of t"
  "alloc_of (snd (translate_aesimc t op)) = alloc_of t"
  "alloc_of (snd (translate_sha256 t op)) = alloc_of t"
  by (simp_all only: translate_orn_def translate_ldrb_strb_def translate_ldrh_strh_def
      translate_ldrsb_def translate_ldrsh_def translate_ldrsw_def translate_mov_reg_def
      translate_ldaxr_def translate_stlxr_def translate_cas_def translate_ldadd_def
      translate_fadd_def translate_fsub_def translate_fmul_def translate_fdiv_def translate_fcmp_def
      translate_fcvt_def translate_fmov_imm_def translate_fsqrt_def translate_fabs_def
      translate_fneg_def translate_fmadd_def translate_fmsub_def translate_mrs_def translate_msr_def
      translate_hint_def translate_brk_def translate_hlt_def translate_eret_def translate_csinc_def
      translate_csinv_def translate_csneg_def translate_fcsel_def translate_fnmadd_def
      translate_fnmsub_def translate_prfm_def translate_crc32_def translate_aese_def
      translate_aesd_def translate_aesmc_def translate_aesimc_def translate_sha256_def walk cong:
      emits_weak emits_loc_weak if_weak_cong)
    (simp_all only: walk split: if_split cong: emits_weak
      emits_loc_weak)?

lemma simd_alloc [simp]:
  "alloc_of (snd (translate_neon_add t op)) = alloc_of t"
  "alloc_of (snd (translate_neon_sub t op)) = alloc_of t"
  "alloc_of (snd (translate_neon_mul t op)) = alloc_of t"
  "alloc_of (snd (translate_neon_and t op)) = alloc_of t"
  "alloc_of (snd (translate_neon_orr t op)) = alloc_of t"
  "alloc_of (snd (translate_neon_eor t op)) = alloc_of t"
  "alloc_of (snd (translate_neon_bsl t op)) = alloc_of t"
  "alloc_of (snd (translate_neon_ext t op)) = alloc_of t"
  "alloc_of (snd (translate_neon_dup t op)) = alloc_of t"
  "alloc_of (snd (translate_neon_movi t op)) = alloc_of t"
  "alloc_of (snd (translate_neon_shl t op)) = alloc_of t"
  "alloc_of (snd (translate_neon_shr t op)) = alloc_of t"
  "alloc_of (snd (translate_neon_ins t op)) = alloc_of t"
  "alloc_of (snd (translate_neon_xtn t op)) = alloc_of t"
  "alloc_of (snd (translate_neon_sqxtn t op)) = alloc_of t"
  "alloc_of (snd (translate_neon_uqxtn t op)) = alloc_of t"
  "alloc_of (snd (translate_neon_sqxtun t op)) = alloc_of t"
  "alloc_of (snd (translate_neon_usra t op)) = alloc_of t"
  "alloc_of (snd (translate_neon_ssra t op)) = alloc_of t"
  "alloc_of (snd (translate_neon_ushl t op)) = alloc_of t"
  "alloc_of (snd (translate_neon_sshl t op)) = alloc_of t"
  "alloc_of (snd (translate_neon_umull t op)) = alloc_of t"
  "alloc_of (snd (translate_neon_smull t op)) = alloc_of t"
  "alloc_of (snd (translate_neon_pmul t op)) = alloc_of t"
  "alloc_of (snd (translate_neon_fadd t op)) = alloc_of t"
  "alloc_of (snd (translate_neon_fsub t op)) = alloc_of t"
  "alloc_of (snd (translate_neon_fmul t op)) = alloc_of t"
  "alloc_of (snd (translate_neon_fmax t op)) = alloc_of t"
  "alloc_of (snd (translate_neon_fmin t op)) = alloc_of t"
  "alloc_of (snd (translate_neon_fcvt t op)) = alloc_of t"
  "alloc_of (snd (translate_neon_fsqrt t op)) = alloc_of t"
  "alloc_of (snd (translate_neon_fabs t op)) = alloc_of t"
  "alloc_of (snd (translate_neon_fneg t op)) = alloc_of t"
  "alloc_of (snd (translate_neon_fmla t op)) = alloc_of t"
  "alloc_of (snd (translate_neon_fmls t op)) = alloc_of t"
  "alloc_of (snd (translate_neon_frecpe t op)) = alloc_of t"
  "alloc_of (snd (translate_neon_frsqrte t op)) = alloc_of t"
  "alloc_of (snd (translate_neon_fcmp t op)) = alloc_of t"
  "alloc_of (snd (translate_ldr_simd t op)) = alloc_of t"
  "alloc_of (snd (translate_str_simd t op)) = alloc_of t"
  by (simp_all only: translate_neon_add_def translate_neon_sub_def translate_neon_mul_def
      translate_neon_and_def translate_neon_orr_def translate_neon_eor_def translate_neon_bsl_def
      translate_neon_ext_def translate_neon_dup_def translate_neon_movi_def translate_neon_shl_def
      translate_neon_shr_def translate_neon_ins_def translate_neon_xtn_def translate_neon_sqxtn_def
      translate_neon_uqxtn_def translate_neon_sqxtun_def translate_neon_usra_def
      translate_neon_ssra_def translate_neon_ushl_def translate_neon_sshl_def
      translate_neon_umull_def translate_neon_smull_def translate_neon_pmul_def
      translate_neon_fadd_def translate_neon_fsub_def translate_neon_fmul_def
      translate_neon_fmax_def translate_neon_fmin_def translate_neon_fcvt_def
      translate_neon_fsqrt_def translate_neon_fabs_def translate_neon_fneg_def
      translate_neon_fmla_def translate_neon_fmls_def translate_neon_frecpe_def
      translate_neon_frsqrte_def translate_neon_fcmp_def translate_ldr_simd_def
      translate_str_simd_def walk cong: emits_weak emits_loc_weak if_weak_cong)
    (simp_all only:
      walk split: if_split cong: emits_weak emits_loc_weak)?

lemma neon_div_element_alloc [simp]: "alloc_of (neon_div_element t eb s vd vn vm i) = alloc_of t"
  by (simp only: neon_div_element_def walk cong: emits_weak emits_loc_weak)

lemma fold_alloc: "(\<And>i t. alloc_of (f i t) = alloc_of t) \<Longrightarrow> alloc_of (fold f is t) = alloc_of t"
  by (induction "is" arbitrary: t) simp_all

lemma neon_div_alloc [simp]: "alloc_of (snd (translate_neon_div t op)) = alloc_of t"
  by (simp only: translate_neon_div_def walk fold_alloc neon_div_element_alloc cong: emits_weak emits_loc_weak if_weak_cong)

section \<open>The invariant, for every instruction\<close>

definition ra_good :: "TranslateCtx \<Rightarrow> bool" where
  "ra_good t \<longleftrightarrow> ra_ok t \<and> ra_avail t"

lemma ra_good_alloc: "alloc_of t' = alloc_of t \<Longrightarrow> ra_good t' = ra_good t"
  by (simp add: ra_good_def ra_ok_def ra_avail_def alloc_of_def pool_def xr_def)

lemmas ra_good_keeps [simp] = ra_good_alloc [OF alloc_of_updates(1)] ra_good_alloc [OF alloc_of_updates(2)]
  ra_good_alloc [OF alloc_of_updates(6)]

lemma ra_good_emitsI: "ra_good t \<Longrightarrow> ra_good (emits t f)" by simp

lemma reg_field: "(ucast ((op :: u32) AND 0x1f) :: u8) < 32"
proof -
  have f: "op AND 0x1f = take_bit 5 op" by (simp add: take_bit_eq_mask mask_eq_exp_minus_1)
  have "take_bit 5 (unat op) < 32" using take_bit_nat_less_exp [of 5 "unat op"] by simp
  then show ?thesis unfolding f
    by (simp add: word_less_nat_alt unsigned_ucast_eq unsigned_take_bit_eq)
qed

lemma request_good:
  "ra_good t \<Longrightarrow> ra_good (snd (reg_alloc_get_reg t (ucast ((op :: u32) AND 0x1f)) w md))"
  using reg_alloc_get_reg_inv [of t "ucast (op AND 0x1f)" w md, OF _ reg_field] unfolding ra_good_def
  by (metis prod.collapse)

lemma ra_good_if: "(c \<Longrightarrow> ra_good a) \<Longrightarrow> (\<not> c \<Longrightarrow> ra_good b) \<Longrightarrow> ra_good (if c then a else b)"
  by simp

lemma add_sub_good: "ra_good t \<Longrightarrow> ra_good (snd (translate_add_sub t op s))"
  by (simp add: translate_add_sub_def Let_def split_def request_good)

lemma logical_good: "ra_good t \<Longrightarrow> ra_good (snd (translate_logical t op))"
  by (simp add: translate_logical_def Let_def split_def request_good)

lemma movk_alloc [simp]: "alloc_of (translate_movk t rd i s w) = alloc_of t"
  by (simp only: translate_movk_def walk cong: emits_weak emits_loc_weak)

text \<open>MOVZ and MOVN take the next free register and assign it; without one they write to the home.\<close>

lemma take_none_good:
  assumes "ra_good t" and "reg_alloc_get_free t = (0xff, t1)"
  shows "ra_good t1"
proof (cases "free_reg_count t = 0")
  case True
  then show ?thesis using assms by (simp add: get_free_empty)
next
  case False
  then show ?thesis using assms get_free_ok(2) [of t "0xff" t1] by (simp add: ra_good_def)
qed

lemma take_and_assign_good:
  assumes "ra_good t" and "reg_alloc_get_free t = (x, t1)" and "a < 32" and "x \<noteq> 0xff"
  shows "ra_good (reg_alloc_assign t1 a x w)"
proof -
  have ok: "ra_ok t" using assms(1) by (simp add: ra_good_def)
  have n: "free_reg_count t \<noteq> 0" using assms(2,4) get_free_empty [of t] by auto
  note g = get_free_ok [OF ok n assms(2)] get_free_pool(2) [OF ok n assms(2)]
  have as: "ra_ok (reg_alloc_assign t1 a x w)" "xr (reg_alloc_assign t1 a x w) = (xr t1)(unat a := x)"
    using g(4,5) by (intro assign_ok [OF g(1) assms(3) g(3)]; simp)+
  have "xr (reg_alloc_assign t1 a x w) (unat a) \<noteq> 0xff" using as(2) assms(4) by simp
  then show ?thesis unfolding ra_good_def using as(1) ra_availI [OF u8_index [OF assms(3)]] by blast
qed

lemma ra_good_set_dirty [simp]: "ra_good (set_dirty t a b) = ra_good t"
  by (simp add: ra_good_def ra_avail_def) (simp add: set_dirty_def)

lemma mov_imm_good:
  assumes "ra_good t"
  shows "ra_good (snd (translate_mov_imm t op))"
proof -
  let ?t = "pc_map_add t (arm64_cur t) (x86_cur t)"
  obtain x t1 where g: "reg_alloc_get_free ?t = (x, t1)" by fastforce
  have "ra_good ?t" using assms by simp
  note k = take_and_assign_good [OF this g reg_field [of op]] take_none_good [OF this, of t1]
  show ?thesis
  proof (cases "x = 0xff")
    case True
    then show ?thesis using g k(2)
      by (simp add: translate_mov_imm_def Let_def ra_good_alloc [OF movk_alloc] assms)
  next
    case False
    then show ?thesis using k(1) [OF False]
      by (simp add: translate_mov_imm_def g Let_def ra_good_alloc [OF movk_alloc] assms)
  qed
qed

text \<open>The dispatch.\<close>

lemma if_good: "ra_good (if c then a else b) = (if c then ra_good a else ra_good b)" by simp
lemma if_fst_snd: "snd (if c then p else q) = (if c then snd p else snd q)"
  "fst (if c then p else q) = (if c then fst p else fst q)" by simp_all

lemmas keeps_good = integer_alloc [THEN ra_good_alloc] memory_alloc [THEN ra_good_alloc]
  system_alloc [THEN ra_good_alloc] simd_alloc [THEN ra_good_alloc] neon_div_alloc [THEN ra_good_alloc]
  ra_good_keeps

lemma simd_good: "ra_good (translate_simd pf t op d) = ra_good t"
  by (simp only: translate_simd_def if_good keeps_good if_cancel)

lemma plain_good: "ra_good t \<Longrightarrow> ra_good (translate_plain pf t op d)"
  by (simp only: translate_plain_def if_good keeps_good simd_good add_sub_good logical_good mov_imm_good if_cancel)

lemma instr_good: "ra_good t \<Longrightarrow> ra_good (fst (translate_instr pf t op d))"
  by (simp only: translate_instr_def if_fst_snd fst_conv if_good keeps_good plain_good if_cancel)

lemma store_live_good [simp]: "ra_good (reg_alloc_emit_batch_store t live) = ra_good t"
  by (simp add: ra_good_def reg_alloc_emit_batch_store_def fold_spill_keeps [of id, simplified])

lemma convert_step_good: "ra_good t \<Longrightarrow> ra_good (fst (convert_step pf mem ctx junk src t))"
  by (simp add: convert_step_def Let_def split_def instr_good)

lemma convert_loop_good: "ra_good t \<Longrightarrow> ra_good (convert_loop n pf mem ctx junk src end_ptr t)"
proof (induction n arbitrary: src t)
  case (Suc n)
  then show ?case
    using convert_step_good [of t pf mem ctx junk src] by (auto simp: Let_def split_def)
qed simp

lemma start_good: "ra_good (reg_alloc_setup_calling_convention (reg_alloc_init t))"
  by (simp add: ra_good_def setup_ok setup_avail)

lemma requests_met:
  "ra_good t \<Longrightarrow> a < 32 \<Longrightarrow> fst (reg_alloc_get_reg t a w md) \<noteq> 0xff"
  using reg_alloc_get_reg_inv(3) [of t a w md] unfolding ra_good_def by (metis prod.collapse)

lemma rounds_good:
  "ra_good (convert_loop n pf mem ctx junk src end_ptr (reg_alloc_setup_calling_convention (reg_alloc_init t)))"
  by (intro convert_loop_good start_good)

text \<open>
  C5: the allocator while a block is translated. Whatever the instructions of the block are, after
  any number of rounds of the translation loop (MOVZ and MOVN included, which take a register on
  their own) no host register serves two A64 registers, none that serves one is in the free pool,
  and a request for any A64 register would be met with a host register; the same holds of the
  context with which \<open>arm2x86_convert_block\<close> returns.
\<close>

theorem convert_block_allocation:
  "(let u = convert_loop n pf mem ctx junk src end_ptr (reg_alloc_setup_calling_convention (reg_alloc_init t))
    in ra_ok u \<and> (\<forall>a w md. fst (reg_alloc_get_reg u (a AND 31) w md) \<noteq> 0xff)) \<and>
   (case arm2x86_convert_block pf mem ctx strict junk mr t src len buf out home of
      (_, Some v) \<Rightarrow> ra_ok v \<and> ra_avail v | (_, None) \<Rightarrow> True)"
proof -
  have "a AND 31 < (32 :: u8)" for a
    using word_and_le1 [of a 31] by (simp add: word_less_nat_alt word_le_nat_alt)
  then have "fst (reg_alloc_get_reg u (a AND 31) w md) \<noteq> 0xff" if "ra_good u" for u a w md
    using that by (intro requests_met)
  then have "let u = convert_loop n pf mem ctx junk src end_ptr (reg_alloc_setup_calling_convention (reg_alloc_init t))
      in ra_ok u \<and> (\<forall>a w md. fst (reg_alloc_get_reg u (a AND 31) w md) \<noteq> 0xff)"
    using rounds_good [of n] by (simp add: Let_def ra_good_def)
  moreover have "case arm2x86_convert_block pf mem ctx strict junk mr t src len buf out home of
      (_, Some v) \<Rightarrow> ra_good v | (_, None) \<Rightarrow> True"
    by (simp add: arm2x86_convert_block_def Let_def rounds_good)
  ultimately show ?thesis unfolding ra_good_def by blast
qed

end
