(* ===== verification/Hit_Table.thy ===== *)
theory Hit_Table
  imports Prelude
begin

text \<open>
  What the caches of the translator have in common. Four of them are arrays that are searched from the
  front by the guest address; a hit counts, and a full table gives up the entry with the fewest
  hits. The searches are defined here, and the contract of such a table is a locale that the
  code cache, the cache of the binary translator and the jump table interpret.
\<close>

section \<open>The searches\<close>

text \<open>The first index with the property, as the loops \<open>for (i = 0; i < count; i++) if (p(a[i])) ...\<close> find it.\<close>

fun first_index :: "('a \<Rightarrow> bool) \<Rightarrow> 'a list \<Rightarrow> nat option" where
  "first_index p [] = None"
| "first_index p (x # xs) = (if p x then Some 0 else map_option Suc (first_index p xs))"

text \<open>
  The loop \<open>lru = 0; for (i = 1; i < n; i++) if (hits[i] < hits[lru]) lru = i;\<close>: \<open>i\<close> is the index of the
  head of the remaining list.
\<close>

fun least_index :: "('a \<Rightarrow> int) \<Rightarrow> 'a list \<Rightarrow> nat \<Rightarrow> nat \<Rightarrow> int \<Rightarrow> nat" where
  "least_index f [] i lru m = lru"
| "least_index f (x # xs) i lru m =
     (if f x < m then least_index f xs (Suc i) i (f x) else least_index f xs (Suc i) lru m)"

definition least_hit :: "('a \<Rightarrow> int) \<Rightarrow> 'a list \<Rightarrow> nat" where
  "least_hit f xs = (case xs of [] \<Rightarrow> 0 | x # ys \<Rightarrow> least_index f ys 1 0 (f x))"

lemma first_index_Some:
  "first_index p xs = Some i \<Longrightarrow> i < length xs \<and> p (xs ! i) \<and> (\<forall>j<i. \<not> p (xs ! j))"
  by (induction xs arbitrary: i) (auto split: if_splits simp: nth_Cons less_Suc_eq_0_disj split: nat.splits)

lemma first_index_None: "first_index p xs = None \<longleftrightarrow> (\<forall>x\<in>set xs. \<not> p x)"
  by (induction xs) auto

lemma first_index_map_of:
  "map_of (map (\<lambda>e. (k e, v e)) xs) a = map_option (\<lambda>i. v (xs ! i)) (first_index (\<lambda>e. k e = a) xs)"
  by (induction xs) (auto simp: option.map_comp comp_def)

lemma least_index_result:
  "let r = least_index f xs i lru m in
     r = lru \<and> (\<forall>x\<in>set xs. m \<le> f x) \<or>
     (\<exists>j<length xs. r = i + j \<and> f (xs ! j) < m \<and> (\<forall>x\<in>set xs. f (xs ! j) \<le> f x))"
proof (induction f xs i lru m rule: least_index.induct)
  case (2 f x xs i lru m)
  show ?case
  proof (cases "f x < m")
    case True
    with 2(1) show ?thesis
      by (auto simp: Let_def intro: exI [of _ 0] exI [of _ "Suc _"])
  next
    case False
    with 2(2) show ?thesis
      by (auto simp: Let_def not_less intro: exI [of _ "Suc _"])
  qed
qed simp

lemma least_hit_result:
  assumes "xs \<noteq> []"
  shows "least_hit f xs < length xs" and "\<And>x. x \<in> set xs \<Longrightarrow> f (xs ! least_hit f xs) \<le> f x"
proof -
  obtain y ys where xs: "xs = y # ys" using assms by (cases xs) auto
  from least_index_result [of f ys 1 0 "f y"]
  show "least_hit f xs < length xs" "\<And>x. x \<in> set xs \<Longrightarrow> f (xs ! least_hit f xs) \<le> f x"
    by (auto simp: xs least_hit_def Let_def)
qed

section \<open>Maps given by lists of pairs\<close>

lemma map_of_update_fresh:
  assumes "i < length es" and "map_of es k = None"
  shows "map_of (es[i := (k, v)]) k = Some v"
  using assms
proof (induction es arbitrary: i)
  case (Cons e es)
  then show ?case by (cases e; cases i) (auto split: if_splits)
qed simp

lemma map_of_update:
  assumes "distinct (map fst es)" and "i < length es" and "fst (es ! i) = k \<or> k \<notin> fst ` set es"
  shows "map_of (es[i := (k, v)]) a =
    (if a = k then Some v else if a = fst (es ! i) then None else map_of es a)"
  using assms
proof (induction es arbitrary: i)
  case (Cons e es)
  show ?case
  proof (cases i)
    case 0
    then show ?thesis using Cons.prems by (cases e) (auto simp: map_of_eq_None_iff image_iff)
  next
    case (Suc j)
    have "fst (es ! j) \<in> fst ` set es" using Cons.prems(2) Suc by simp
    then show ?thesis using Cons.IH [of j] Cons.prems Suc by (cases e) auto
  qed
qed simp

lemma distinct_update_fresh:
  assumes "distinct (map fst es)" and "k \<notin> fst ` set es"
  shows "distinct (map fst (es[i := (k, v)]))"
  using assms by (auto simp: map_update distinct_list_update)

section \<open>The contract\<close>

text \<open>
  A table of values under addresses. \<open>entries\<close> is its content in the order of the search, so that the
  first entry of an address is the one that counts.
\<close>

locale keyed_table =
  fixes lookup :: "'s \<Rightarrow> u64 \<Rightarrow> 'v option \<times> 's" and entries :: "'s \<Rightarrow> (u64 \<times> 'v) list"
    and inv :: "'s \<Rightarrow> bool" and cap :: nat
  assumes lookup_value: "inv s \<Longrightarrow> fst (lookup s k) = map_of (entries s) k"
    and lookup_entries: "inv s \<Longrightarrow> entries (snd (lookup s k)) = entries s"
    and lookup_inv: "inv s \<Longrightarrow> inv (snd (lookup s k))"
    and bounded: "inv s \<Longrightarrow> length (entries s) \<le> cap"
begin

lemma lookup_twice: "inv s \<Longrightarrow> fst (lookup (snd (lookup s k)) k) = fst (lookup s k)"
  by (simp add: lookup_value lookup_entries lookup_inv)

end

text \<open>Insertion without a search: it appends while there is room and replaces some entry afterwards.\<close>

locale append_table = keyed_table +
  fixes put :: "'a \<Rightarrow> u64 \<Rightarrow> 'b \<Rightarrow> 'a"
  assumes insert_room: "inv s \<Longrightarrow> length (entries s) < cap \<Longrightarrow> entries (put s k v) = entries s @ [(k, v)]"
    and insert_full: "inv s \<Longrightarrow> length (entries s) = cap \<Longrightarrow> \<exists>i<cap. entries (put s k v) = (entries s)[i := (k, v)]"
    and insert_inv: "inv s \<Longrightarrow> inv (put s k v)"
begin

lemma insert_cases:
  assumes "inv s"
  obtains (room) "length (entries s) < cap" "entries (put s k v) = entries s @ [(k, v)]"
    | (full) i where "i < length (entries s)" "length (entries s) = cap"
        "entries (put s k v) = (entries s)[i := (k, v)]"
  using assms bounded [OF assms] insert_room [OF assms, of k v] insert_full [OF assms, of k v]
  by (metis le_neq_implies_less)

lemma insert_new:
  assumes "inv s" and "fst (lookup s k) = None"
  shows "fst (lookup (put s k v) k) = Some v"
proof -
  have "map_of (entries s) k = None" using assms by (simp add: lookup_value)
  then show ?thesis
    by (cases rule: insert_cases [OF assms(1), of k v])
       (auto simp: lookup_value insert_inv assms(1) map_add_def map_of_update_fresh)
qed

lemma insert_shadowed:
  assumes "inv s" and "fst (lookup s k) = Some u" and "length (entries s) < cap"
  shows "fst (lookup (put s k v) k) = Some u"
  using assms by (simp add: lookup_value insert_inv insert_room map_add_def)

lemma insert_other:
  assumes "inv s" and "length (entries s) < cap" and "k' \<noteq> k"
  shows "fst (lookup (put s k v) k') = fst (lookup s k')"
  using assms by (simp add: lookup_value insert_inv insert_room map_add_def split: option.splits)

end

text \<open>
  A client that inserts only after a miss, the way translations are cached: then the table stays a
  partial map, and what it holds under an address is a result of the translation of that address.
\<close>

definition memo :: "('s \<Rightarrow> u64 \<Rightarrow> 'v option \<times> 's) \<Rightarrow> ('s \<Rightarrow> u64 \<Rightarrow> 'v \<Rightarrow> 's) \<Rightarrow> (u64 \<Rightarrow> 'v) \<Rightarrow> u64 \<Rightarrow> 's \<Rightarrow> 'v \<times> 's" where
  "memo fetch put f k s =
     (case fetch s k of (Some v, s) \<Rightarrow> (v, s) | (None, s) \<Rightarrow> (f k, put s k (f k)))"

context append_table
begin

definition coherent :: "(u64 \<Rightarrow> 'b) \<Rightarrow> 'a \<Rightarrow> bool" where
  "coherent f s \<longleftrightarrow> inv s \<and> distinct (map fst (entries s)) \<and> (\<forall>(k, v)\<in>set (entries s). v = f k)"

lemma memo_coherent:
  assumes "coherent f s"
  shows "fst (memo lookup put f k s) = f k" and "coherent f (snd (memo lookup put f k s))"
proof -
  obtain r s1 where l: "lookup s k = (r, s1)" by fastforce
  have i: "inv s" using assms by (simp add: coherent_def)
  have s1: "inv s1" "entries s1 = entries s" "r = map_of (entries s) k"
    using lookup_inv [OF i, of k] lookup_entries [OF i, of k] lookup_value [OF i, of k] by (simp_all add: l)
  have c1: "coherent f s1" using assms s1 by (simp add: coherent_def)
  show "fst (memo lookup put f k s) = f k"
    using assms s1(3) by (auto simp: memo_def l coherent_def split: option.splits dest!: map_of_SomeD)
  show "coherent f (snd (memo lookup put f k s))"
  proof (cases r)
    case (Some v)
    then show ?thesis using c1 by (simp add: memo_def l)
  next
    case None
    then have n: "k \<notin> fst ` set (entries s1)" using s1 by (simp add: map_of_eq_None_iff)
    have "coherent f (put s1 k (f k))"
    proof (cases rule: insert_cases [OF s1(1), of k "f k"])
      case 1
      then show ?thesis using c1 n by (auto simp: coherent_def insert_inv)
    next
      case (2 i)
      then show ?thesis
        using c1 n set_update_subset_insert [of "entries s1" i "(k, f k)"]
        by (auto simp: coherent_def insert_inv intro!: distinct_update_fresh)
    qed
    then show ?thesis using None by (simp add: memo_def l)
  qed
qed

end

text \<open>Insertion that replaces the value of a known address.\<close>

locale update_table = keyed_table +
  fixes put :: "'a \<Rightarrow> u64 \<Rightarrow> 'b \<Rightarrow> 'a" and valid :: "'b \<Rightarrow> bool"
  assumes update_known: "inv s \<Longrightarrow> valid v \<Longrightarrow> map_of (entries s) k \<noteq> None \<Longrightarrow>
      \<exists>i<length (entries s). fst (entries s ! i) = k \<and> entries (put s k v) = (entries s)[i := (k, v)]"
    and update_room: "inv s \<Longrightarrow> valid v \<Longrightarrow> map_of (entries s) k = None \<Longrightarrow> length (entries s) < cap \<Longrightarrow>
      entries (put s k v) = entries s @ [(k, v)]"
    and update_full: "inv s \<Longrightarrow> valid v \<Longrightarrow> map_of (entries s) k = None \<Longrightarrow> length (entries s) = cap \<Longrightarrow>
      \<exists>i<cap. entries (put s k v) = (entries s)[i := (k, v)]"
    and update_inv: "inv s \<Longrightarrow> valid v \<Longrightarrow> inv (put s k v)"
    and inv_distinct: "inv s \<Longrightarrow> distinct (map fst (entries s))"
begin

lemma insert_lookup:
  assumes "inv s" and "valid v"
  shows "fst (lookup (put s k v) k) = Some v"
proof -
  have d: "distinct (map fst (entries (put s k v)))" using assms by (simp add: inv_distinct update_inv)
  have "(k, v) \<in> set (entries (put s k v))"
  proof (cases "map_of (entries s) k")
    case None
    then consider "length (entries s) < cap" | "length (entries s) = cap"
      using bounded [OF assms(1)] by linarith
    then show ?thesis
      using update_room [OF assms None] update_full [OF assms None]
      by cases (auto intro!: set_update_memI)
  next
    case (Some u)
    then show ?thesis using update_known [OF assms, of k] by (auto intro!: set_update_memI)
  qed
  with d show ?thesis by (simp add: lookup_value update_inv assms)
qed

end

end
