(* ===== verification/JumpTable.thy ===== *)
theory JumpTable
  imports Hit_Table X86_Machine
begin

text \<open>
  \<open>src/modules/arm2x86_jumptable.c\<close>: the table of indirect branches and its stubs. The array \<open>entries\<close> is
  a list of its full length, \<open>jt_mem\<close> is the memory, in which the stubs lie; a pointer to an entry
  is its index. \<open>mmap\<close> is a parameter that gives its result, and so is \<open>NativeBridgeGetTrampoline\<close>, a
  function of another module. \<open>munmap\<close> has no effect that the module can see.
\<close>

section \<open>State\<close>

record JumpTableEntry =
  jt_arm_addr :: u64
  jt_x86_stub :: ptr
  jt_x86_target :: ptr
  jt_hit_count :: u32
  jt_is_patched :: bool

record JumpTable =
  jt_entries :: "JumpTableEntry list"
  jt_count :: nat
  jt_capacity :: nat
  jt_code_memory :: ptr
  jt_memory_used :: u64
  jt_memory_capacity :: u64
  jt_mem :: "ptr \<Rightarrow> u8"

definition JUMP_TABLE_SIZE :: nat where "JUMP_TABLE_SIZE = 4096"

abbreviation (input) STUB_SIZE_INDIRECT :: u64 where "STUB_SIZE_INDIRECT \<equiv> 14"

definition zero_entry :: JumpTableEntry where
  "zero_entry = \<lparr>jt_arm_addr = 0, jt_x86_stub = 0, jt_x86_target = 0, jt_hit_count = 0, jt_is_patched = False\<rparr>"

section \<open>Operations\<close>

definition jumptable_init :: "ptr \<Rightarrow> JumpTable \<Rightarrow> int \<times> JumpTable" where
  "jumptable_init mmap_result jt =
     (let jt = \<lparr>jt_entries = replicate JUMP_TABLE_SIZE zero_entry, jt_count = 0, jt_capacity = JUMP_TABLE_SIZE,
                jt_code_memory = NULL, jt_memory_used = 0, jt_memory_capacity = 1024 * 1024, jt_mem = jt_mem jt\<rparr>
      in if mmap_result = -1 then (-1, jt) else (0, jt\<lparr>jt_code_memory := mmap_result\<rparr>))"

definition jumptable_destroy :: "JumpTable \<Rightarrow> JumpTable" where
  "jumptable_destroy jt =
     (if jt_code_memory jt = NULL then jt
      else jt\<lparr>jt_code_memory := NULL, jt_count := 0, jt_memory_used := 0\<rparr>)"

abbreviation live :: "JumpTable \<Rightarrow> JumpTableEntry list" where
  "live jt \<equiv> take (jt_count jt) (jt_entries jt)"

definition jumptable_lookup :: "JumpTable \<Rightarrow> u64 \<Rightarrow> nat option \<times> JumpTable" where
  "jumptable_lookup jt arm_addr =
     (case first_index (\<lambda>e. jt_arm_addr e = arm_addr) (live jt) of
        None \<Rightarrow> (None, jt)
      | Some i \<Rightarrow>
          (Some i, jt\<lparr>jt_entries := (jt_entries jt)[i := (jt_entries jt ! i)
                        \<lparr>jt_hit_count := jt_hit_count (jt_entries jt ! i) + 1\<rparr>]\<rparr>))"

text \<open>The bytes of a stub: \<open>jmp [rip + 0]\<close> and the target.\<close>

definition write_stub :: "(ptr \<Rightarrow> u8) \<Rightarrow> ptr \<Rightarrow> ptr \<Rightarrow> ptr \<Rightarrow> u8" where
  "write_stub m p target =
     write64 (\<lambda>a. if a - p < 6 then [0xff, 0x25, 0, 0, 0, 0] ! unat (a - p) else m a) (p + 6) target"

definition jumptable_create_entry :: "JumpTable \<Rightarrow> u64 \<Rightarrow> ptr \<Rightarrow> nat option \<times> JumpTable" where
  "jumptable_create_entry jt arm_addr x86_target =
     (if x86_target = NULL then (None, jt)
      else
        (case jumptable_lookup jt arm_addr of
           (Some i, jt) \<Rightarrow>
             (Some i, jt\<lparr>jt_entries := (jt_entries jt)[i := (jt_entries jt ! i)\<lparr>jt_x86_target := x86_target\<rparr>]\<rparr>)
         | (None, jt) \<Rightarrow>
             (let (i, jt) = (if jt_capacity jt \<le> jt_count jt
                             then (least_hit (\<lambda>e. uint (jt_hit_count e)) (live jt), jt)
                             else (jt_count jt, jt\<lparr>jt_count := jt_count jt + 1\<rparr>));
                  jt = jt\<lparr>jt_entries := (jt_entries jt)[i := (jt_entries jt ! i)
                         \<lparr>jt_arm_addr := arm_addr, jt_x86_target := x86_target, jt_hit_count := 0,
                          jt_is_patched := False\<rparr>]\<rparr>
              in if jt_memory_capacity jt < jt_memory_used jt + STUB_SIZE_INDIRECT then (None, jt)
                 else
                   (let stub = jt_code_memory jt + jt_memory_used jt in
                    (Some i,
                     jt\<lparr>jt_entries := (jt_entries jt)[i := (jt_entries jt ! i)\<lparr>jt_x86_stub := stub\<rparr>],
                        jt_memory_used := jt_memory_used jt + STUB_SIZE_INDIRECT,
                        jt_mem := write_stub (jt_mem jt) stub x86_target\<rparr>)))))"

text \<open>\<open>None\<close> is a null entry.\<close>

definition jumptable_patch_entry :: "JumpTable \<Rightarrow> nat option \<Rightarrow> ptr \<Rightarrow> int \<times> JumpTable" where
  "jumptable_patch_entry jt entry new_x86_target =
     (case entry of None \<Rightarrow> (-1, jt)
      | Some i \<Rightarrow>
          (let e = jt_entries jt ! i in
           if jt_x86_stub e = NULL \<or> new_x86_target = NULL then (-1, jt)
           else (0, jt\<lparr>jt_mem := write64 (jt_mem jt) (jt_x86_stub e + 6) new_x86_target,
                       jt_entries := (jt_entries jt)[i := e\<lparr>jt_x86_target := new_x86_target, jt_is_patched := True\<rparr>]\<rparr>)))"

definition jumptable_get_stub_code :: "JumpTable \<Rightarrow> nat option \<Rightarrow> ptr" where
  "jumptable_get_stub_code jt entry = (case entry of None \<Rightarrow> NULL | Some i \<Rightarrow> jt_x86_stub (jt_entries jt ! i))"

text \<open>
  \<open>symb\<close> is the result of \<open>NativeBridgeGetTrampoline\<close>; \<open>None\<close> is the dereference of a null entry, which the
  function performs when \<open>jumptable_create_entry\<close> fails.
\<close>

definition nb_getTrampolineWithJumps :: "ptr \<Rightarrow> ptr \<Rightarrow> ptr \<Rightarrow> ptr \<Rightarrow> JumpTable \<Rightarrow> (ptr \<times> JumpTable) option" where
  "nb_getTrampolineWithJumps mmap_result handle name symb jt =
     (if handle = NULL \<or> name = NULL then Some (NULL, jt)
      else if symb = NULL then Some (NULL, jt)
      else
        (let jt = (if jt_code_memory jt = NULL then snd (jumptable_init mmap_result jt) else jt);
             (entry, jt) = jumptable_lookup jt symb;
             (entry, jt) = (case entry of None \<Rightarrow> jumptable_create_entry jt symb symb | Some i \<Rightarrow> (Some i, jt))
         in case entry of None \<Rightarrow> None | Some i \<Rightarrow> Some (jt_x86_stub (jt_entries jt ! i), jt)))"

section \<open>The table\<close>

definition jt_pairs :: "JumpTable \<Rightarrow> (u64 \<times> ptr) list" where
  "jt_pairs jt = map (\<lambda>e. (jt_arm_addr e, jt_x86_target e)) (live jt)"

definition jt_inv :: "JumpTable \<Rightarrow> bool" where
  "jt_inv jt \<longleftrightarrow> length (jt_entries jt) = JUMP_TABLE_SIZE \<and> jt_capacity jt = JUMP_TABLE_SIZE \<and>
     jt_count jt \<le> JUMP_TABLE_SIZE \<and> distinct (map jt_arm_addr (live jt))"

definition jt_find :: "JumpTable \<Rightarrow> u64 \<Rightarrow> ptr option \<times> JumpTable" where
  "jt_find jt k = (case jumptable_lookup jt k of
       (None, jt) \<Rightarrow> (None, jt) | (Some i, jt) \<Rightarrow> (Some (jt_x86_target (jt_entries jt ! i)), jt))"

definition jt_put :: "JumpTable \<Rightarrow> u64 \<Rightarrow> ptr \<Rightarrow> JumpTable" where
  "jt_put jt k v = snd (jumptable_create_entry jt k v)"

lemma lookup_keeps:
  assumes "jumptable_lookup jt k = (r, jt')"
  shows "jt_pairs jt' = jt_pairs jt" and "map jt_arm_addr (live jt') = map jt_arm_addr (live jt)"
    and "jt_inv jt' = jt_inv jt" and "jt_count jt' = jt_count jt" and "jt_mem jt' = jt_mem jt"
    and "map jt_x86_stub (jt_entries jt') = map jt_x86_stub (jt_entries jt)"
    and "jt_memory_used jt' = jt_memory_used jt" and "jt_memory_capacity jt' = jt_memory_capacity jt"
    and "jt_code_memory jt' = jt_code_memory jt"
proof -
  show p: "jt_pairs jt' = jt_pairs jt"
    using assms first_index_Some [of "\<lambda>e. jt_arm_addr e = k" "live jt"]
    by (auto simp: jumptable_lookup_def jt_pairs_def take_update_swap map_update list_update_same_conv split: option.splits)
  show a: "map jt_arm_addr (live jt') = map jt_arm_addr (live jt)"
    using arg_cong [OF p, of "map fst"] by (simp add: jt_pairs_def comp_def)
  show "jt_inv jt' = jt_inv jt"
    using a assms by (auto simp: jt_inv_def jumptable_lookup_def split: option.splits)
  show "map jt_x86_stub (jt_entries jt') = map jt_x86_stub (jt_entries jt)"
    using assms first_index_Some [of "\<lambda>e. jt_arm_addr e = k" "live jt"]
    by (auto simp: jumptable_lookup_def map_update list_update_same_conv split: option.splits)
qed (use assms in \<open>auto simp: jumptable_lookup_def split: option.splits\<close>)

lemma lookup_result:
  assumes "jumptable_lookup jt k = (r, jt')"
  shows "map_of (jt_pairs jt) k = map_option (\<lambda>i. jt_x86_target (jt_entries jt' ! i)) r"
    and "r = Some i \<Longrightarrow> i < jt_count jt \<and> i < length (jt_entries jt) \<and> jt_arm_addr (jt_entries jt' ! i) = k"
proof -
  have "map_of (jt_pairs jt) k = map_option (\<lambda>i. jt_x86_target (jt_entries jt' ! i)) r \<and>
    (r = Some i \<longrightarrow> i < jt_count jt \<and> i < length (jt_entries jt) \<and> jt_arm_addr (jt_entries jt' ! i) = k)"
  proof (cases "first_index (\<lambda>e. jt_arm_addr e = k) (live jt)")
    case None
    then show ?thesis using assms by (simp add: jumptable_lookup_def jt_pairs_def first_index_map_of)
  next
    case (Some n)
    have e: "r = Some n" "jt' = jt\<lparr>jt_entries := (jt_entries jt)[n := (jt_entries jt ! n)
        \<lparr>jt_hit_count := jt_hit_count (jt_entries jt ! n) + 1\<rparr>]\<rparr>"
      using assms Some by (simp_all add: jumptable_lookup_def)
    from first_index_Some [OF Some] show ?thesis
      by (auto simp: e jt_pairs_def first_index_map_of Some)
  qed
  then show "map_of (jt_pairs jt) k = map_option (\<lambda>i. jt_x86_target (jt_entries jt' ! i)) r"
    "r = Some i \<Longrightarrow> i < jt_count jt \<and> i < length (jt_entries jt) \<and> jt_arm_addr (jt_entries jt' ! i) = k" by simp_all
qed

text \<open>Where \<open>jumptable_create_entry\<close> puts a new entry, and what the pairs are afterwards.\<close>

lemma create_known:
  assumes "jumptable_lookup jt k = (Some i, jt1)" and "v \<noteq> NULL"
  shows "jumptable_create_entry jt k v =
      (Some i, jt1\<lparr>jt_entries := (jt_entries jt1)[i := (jt_entries jt1 ! i)\<lparr>jt_x86_target := v\<rparr>]\<rparr>)"
    and "jt_pairs (jt_put jt k v) = (jt_pairs jt)[i := (k, v)]"
proof -
  show c: "jumptable_create_entry jt k v =
      (Some i, jt1\<lparr>jt_entries := (jt_entries jt1)[i := (jt_entries jt1 ! i)\<lparr>jt_x86_target := v\<rparr>]\<rparr>)"
    using assms by (simp add: jumptable_create_entry_def)
  have "jt_pairs (jt_put jt k v) = (jt_pairs jt1)[i := (k, v)]"
    using lookup_result(2) [OF assms(1) refl]
    by (simp add: jt_put_def c jt_pairs_def take_update_swap map_update)
  then show "jt_pairs (jt_put jt k v) = (jt_pairs jt)[i := (k, v)]"
    by (simp add: lookup_keeps(1) [OF assms(1)])
qed

definition new_index :: "JumpTable \<Rightarrow> nat" where
  "new_index jt = (if jt_capacity jt \<le> jt_count jt
     then least_hit (\<lambda>e. uint (jt_hit_count e)) (live jt) else jt_count jt)"

lemma new_index_less:
  assumes "jt_inv jt"
  shows "new_index jt < JUMP_TABLE_SIZE"
proof (cases "jt_count jt < JUMP_TABLE_SIZE")
  case False
  then have "length (live jt) = JUMP_TABLE_SIZE" "live jt \<noteq> []"
    using assms by (auto simp: jt_inv_def JUMP_TABLE_SIZE_def)
  with least_hit_result(1) [of "live jt" "\<lambda>e. uint (jt_hit_count e)"] False show ?thesis
    using assms by (simp add: new_index_def jt_inv_def)
qed (use assms in \<open>simp add: new_index_def jt_inv_def\<close>)

lemma create_new:
  assumes "jt_inv jt" and "map_of (jt_pairs jt) k = None" and "v \<noteq> NULL"
  shows "jt_pairs (jt_put jt k v) =
      (if jt_count jt < JUMP_TABLE_SIZE then jt_pairs jt @ [(k, v)] else (jt_pairs jt)[new_index jt := (k, v)])"
    and "length (jt_entries (jt_put jt k v)) = JUMP_TABLE_SIZE" and "jt_capacity (jt_put jt k v) = JUMP_TABLE_SIZE"
    and "jt_count (jt_put jt k v) = min JUMP_TABLE_SIZE (jt_count jt + 1)"
proof -
  obtain r jt1 where l: "jumptable_lookup jt k = (r, jt1)" by fastforce
  have "r = None" using lookup_result(1) [OF l] assms(2) by simp
  then have jt1: "jt1 = jt" and l: "jumptable_lookup jt k = (None, jt)"
    using l by (auto simp: jumptable_lookup_def split: option.splits)
  have len: "length (jt_entries jt) = JUMP_TABLE_SIZE" "jt_capacity jt = JUMP_TABLE_SIZE" "jt_count jt \<le> JUMP_TABLE_SIZE"
    using assms(1) by (simp_all add: jt_inv_def)
  have i: "new_index jt < JUMP_TABLE_SIZE" by (rule new_index_less [OF assms(1)])
  show "jt_pairs (jt_put jt k v) =
      (if jt_count jt < JUMP_TABLE_SIZE then jt_pairs jt @ [(k, v)] else (jt_pairs jt)[new_index jt := (k, v)])"
  proof (cases "jt_count jt < JUMP_TABLE_SIZE")
    case True
    then show ?thesis
      using assms(3) len
      by (simp add: jt_put_def jumptable_create_entry_def l jt_pairs_def Let_def take_Suc_conv_app_nth)
  next
    case False
    then show ?thesis
      using assms(3) len i
      by (simp add: jt_put_def jumptable_create_entry_def l jt_pairs_def Let_def new_index_def map_update)
  qed
  show "length (jt_entries (jt_put jt k v)) = JUMP_TABLE_SIZE" "jt_capacity (jt_put jt k v) = JUMP_TABLE_SIZE"
    "jt_count (jt_put jt k v) = min JUMP_TABLE_SIZE (jt_count jt + 1)"
    using assms(3) len by (auto simp: jt_put_def jumptable_create_entry_def l Let_def)
qed

lemma length_pairs: "jt_inv jt \<Longrightarrow> length (jt_pairs jt) = jt_count jt"
  by (simp add: jt_pairs_def jt_inv_def)

lemma inv_pairs: "jt_inv jt \<longleftrightarrow> length (jt_entries jt) = JUMP_TABLE_SIZE \<and> jt_capacity jt = JUMP_TABLE_SIZE \<and>
     jt_count jt \<le> JUMP_TABLE_SIZE \<and> distinct (map fst (jt_pairs jt))"
  by (simp add: jt_inv_def jt_pairs_def comp_def)

lemma distinct_same_key:
  "i < length es \<Longrightarrow> fst (es ! i) = k \<Longrightarrow> distinct (map fst es) \<Longrightarrow> distinct (map fst (es[i := (k, v)]))"
  by (metis fst_conv list_update_id map_update nth_map)

lemma known_index:
  assumes "map_of (jt_pairs jt) k \<noteq> None"
  obtains i jt1 where "jumptable_lookup jt k = (Some i, jt1)" "i < length (jt_pairs jt)" "fst (jt_pairs jt ! i) = k"
proof -
  obtain r jt1 where l: "jumptable_lookup jt k = (r, jt1)" by fastforce
  with lookup_result(1) [OF l] assms obtain i where "r = Some i" by auto
  moreover from this have "i < length (jt_pairs jt)"
    using lookup_result(2) [OF l] by (simp add: jt_pairs_def)
  moreover have "fst (jt_pairs jt1 ! i) = k"
  proof -
    have "length (jt_entries jt1) = length (jt_entries jt)" using arg_cong [OF lookup_keeps(6) [OF l], of length] by simp
    then show ?thesis
      using lookup_result(2) [OF l \<open>r = Some i\<close>] by (simp add: jt_pairs_def lookup_keeps(4) [OF l])
  qed
  then have "fst (jt_pairs jt ! i) = k" by (simp add: lookup_keeps(1) [OF l])
  ultimately show thesis using l that by blast
qed

lemma put_inv:
  assumes "jt_inv jt" and "v \<noteq> NULL"
  shows "jt_inv (jt_put jt k v)"
proof (cases "map_of (jt_pairs jt) k")
  case None
  have "k \<notin> fst ` set (jt_pairs jt)" using None by (simp add: map_of_eq_None_iff)
  with assms(1) show ?thesis
    using create_new [OF assms(1) None assms(2)] distinct_update_fresh [of "jt_pairs jt" k "new_index jt" v]
    by (auto simp: inv_pairs)
next
  case (Some u)
  then obtain i jt1 where i: "jumptable_lookup jt k = (Some i, jt1)" "i < length (jt_pairs jt)" "fst (jt_pairs jt ! i) = k"
    using known_index [of jt k] by blast
  have "jt_inv jt1" using lookup_keeps(3) [OF i(1)] assms(1) by simp
  then show ?thesis
    using create_known [OF i(1) assms(2)] distinct_same_key [OF i(2,3)] assms(1)
    by (simp add: inv_pairs) (simp add: jt_put_def)
qed

interpretation jump_table: update_table jt_find jt_pairs jt_inv JUMP_TABLE_SIZE jt_put "\<lambda>v. v \<noteq> NULL"
proof
  fix jt k
  obtain r jt1 where l: "jumptable_lookup jt k = (r, jt1)" by fastforce
  show "fst (jt_find jt k) = map_of (jt_pairs jt) k"
    using lookup_result(1) [OF l] by (cases r) (simp_all add: jt_find_def l)
  show "jt_pairs (snd (jt_find jt k)) = jt_pairs jt"
    using lookup_keeps(1) [OF l] by (cases r) (simp_all add: jt_find_def l)
  show "jt_inv jt \<Longrightarrow> jt_inv (snd (jt_find jt k))"
    using lookup_keeps(3) [OF l] by (cases r) (simp_all add: jt_find_def l)
  show "jt_inv jt \<Longrightarrow> length (jt_pairs jt) \<le> JUMP_TABLE_SIZE" by (simp add: length_pairs) (simp add: jt_inv_def)
  show "jt_inv jt \<Longrightarrow> distinct (map fst (jt_pairs jt))" by (simp add: inv_pairs)
next
  fix jt k v
  assume jt: "jt_inv jt" and v: "v \<noteq> (NULL :: ptr)"
  show "jt_inv (jt_put jt k v)" by (rule put_inv [OF jt v])
  show "\<exists>i<length (jt_pairs jt). fst (jt_pairs jt ! i) = k \<and> jt_pairs (jt_put jt k v) = (jt_pairs jt)[i := (k, v)]"
    if "map_of (jt_pairs jt) k \<noteq> None"
    using known_index [OF that] create_known(2) [OF _ v] by metis
  show "jt_pairs (jt_put jt k v) = jt_pairs jt @ [(k, v)]"
    if "map_of (jt_pairs jt) k = None" "length (jt_pairs jt) < JUMP_TABLE_SIZE"
    using create_new(1) [OF jt that(1) v] that(2) by (simp add: length_pairs [OF jt])
  show "\<exists>i<JUMP_TABLE_SIZE. jt_pairs (jt_put jt k v) = (jt_pairs jt)[i := (k, v)]"
    if "map_of (jt_pairs jt) k = None" "length (jt_pairs jt) = JUMP_TABLE_SIZE"
    using create_new(1) [OF jt that(1) v] that(2) new_index_less [OF jt] by (auto simp: length_pairs [OF jt])
qed

section \<open>Properties\<close>

lemma find_pairs: "fst (jt_find jt k) = map_of (jt_pairs jt) k"
proof -
  obtain r jt1 where l: "jumptable_lookup jt k = (r, jt1)" by fastforce
  show ?thesis using lookup_result(1) [OF l] by (cases r) (simp_all add: jt_find_def l)
qed

lemma nth_pairs:
  "i < length (jt_pairs jt) \<Longrightarrow> jt_pairs jt ! i = (jt_arm_addr (jt_entries jt ! i), jt_x86_target (jt_entries jt ! i))"
  by (simp add: jt_pairs_def)

text \<open>The map after \<open>jumptable_create_entry\<close>, for an address with an entry, one without, and a full table.\<close>

lemma put_map:
  assumes "jt_inv jt" and "v \<noteq> NULL"
  shows "map_of (jt_pairs (jt_put jt k v)) a =
    (if a = k then Some v
     else if map_of (jt_pairs jt) k = None \<and> jt_count jt = JUMP_TABLE_SIZE \<and> a = jt_arm_addr (jt_entries jt ! new_index jt)
     then None else map_of (jt_pairs jt) a)"
proof (cases "map_of (jt_pairs jt) k")
  case None
  have d: "distinct (map fst (jt_pairs jt))" and c: "jt_count jt \<le> JUMP_TABLE_SIZE"
    using assms(1) by (simp_all add: inv_pairs)
  have k: "k \<notin> fst ` set (jt_pairs jt)" using None by (simp add: map_of_eq_None_iff)
  show ?thesis
  proof (cases "jt_count jt < JUMP_TABLE_SIZE")
    case True
    then show ?thesis using create_new(1) [OF assms(1) None assms(2)] None
      by (auto simp: map_add_def split: option.splits)
  next
    case False
    then have "new_index jt < length (jt_pairs jt)" using new_index_less [OF assms(1)] c by (simp add: length_pairs [OF assms(1)])
    then show ?thesis
      using create_new(1) [OF assms(1) None assms(2)] False c None map_of_update [OF d _ disjI2 [OF k]]
      by (simp add: nth_pairs)
  qed
next
  case (Some u)
  then obtain i jt1 where i: "jumptable_lookup jt k = (Some i, jt1)" "i < length (jt_pairs jt)" "fst (jt_pairs jt ! i) = k"
    using known_index [of jt k] by blast
  have "distinct (map fst (jt_pairs jt))" using assms(1) by (simp add: inv_pairs)
  from map_of_update [OF this i(2) disjI1 [OF i(3)], of v a] show ?thesis
    using Some i(3) by (simp add: create_known(2) [OF i(1) assms(2)])
qed

lemma new_index_least:
  assumes "jt_inv jt" and "jt_count jt = JUMP_TABLE_SIZE" and "e \<in> set (jt_entries jt)"
  shows "jt_hit_count (jt_entries jt ! new_index jt) \<le> jt_hit_count e"
proof -
  have "live jt = jt_entries jt" "jt_entries jt \<noteq> []" "jt_capacity jt \<le> jt_count jt"
    using assms by (auto simp: jt_inv_def)
  with least_hit_result(2) [of "jt_entries jt" e "\<lambda>e. uint (jt_hit_count e)"] assms(3)
  show ?thesis by (simp add: new_index_def word_le_def)
qed

text \<open>
  C13: the jump table is a bounded map from guest addresses to targets. \<open>jumptable_create_entry\<close> keeps
  its invariant (one entry for each address, at most 4096 of them) and changes the map at the address
  only: there the new target is found, and every other address is found or not as before, except that a new
  address in a full table takes the place of one other, whose entry has the fewest hits.
\<close>

theorem jumptable_create_lookup:
  assumes "jt_inv jt" and "v \<noteq> NULL"
  shows "let jt' = snd (jumptable_create_entry jt k v);
             full = (fst (jt_find jt k) = None \<and> jt_count jt = JUMP_TABLE_SIZE);
             least = jt_entries jt ! new_index jt
         in jt_inv jt' \<and>
            (\<forall>a. fst (jt_find jt' a) =
               (if a = k then Some v else if full \<and> a = jt_arm_addr least then None else fst (jt_find jt a))) \<and>
            (full \<longrightarrow> (\<forall>e\<in>set (jt_entries jt). jt_hit_count least \<le> jt_hit_count e))"
  using put_map [OF assms, of k] jump_table.update_inv [OF assms, of k] new_index_least [OF assms(1)]
  by (simp add: Let_def find_pairs jt_put_def)

definition jt0 :: JumpTable where
  "jt0 = snd (jumptable_init 0x10000 \<lparr>jt_entries = [], jt_count = 0, jt_capacity = 0, jt_code_memory = 0,
     jt_memory_used = 0, jt_memory_capacity = 0, jt_mem = \<lambda>_. 0\<rparr>)"

lemma jt0_inv: "jt_inv jt0"
  by (simp add: jt0_def jumptable_init_def jt_inv_def)

theorem jumptable_create_lookup_witness:
  "fst (jt_find (snd (jumptable_create_entry jt0 0x1000 0x400000)) 0x1000) = Some 0x400000"
  using jumptable_create_lookup [OF jt0_inv, of "0x400000" "0x1000"] by (simp add: Let_def)

lemma read_stub: "read64 (write_stub m p v) (p + 6) = v"
  by (simp add: write_stub_def)

lemma lookup_index:
  assumes "jt_inv jt" and "i < jt_count jt" and "jt_arm_addr (jt_entries jt ! i) = k"
  shows "fst (jumptable_lookup jt k) = Some i"
proof -
  obtain r jt' where l: "jumptable_lookup jt k = (r, jt')" by fastforce
  have d: "distinct (map jt_arm_addr (live jt))" "length (live jt) = jt_count jt"
    using assms(1) by (simp_all add: jt_inv_def)
  have "jt_pairs jt ! i = (k, jt_x86_target (jt_entries jt ! i))" "i < length (jt_pairs jt)"
    using assms(2,3) d(2) by (simp_all add: jt_pairs_def)
  then have "(k, jt_x86_target (jt_entries jt ! i)) \<in> set (jt_pairs jt)" by (metis nth_mem)
  then have "map_of (jt_pairs jt) k \<noteq> None" by (rule weak_map_of_SomeI [THEN exE]) simp
  with known_index obtain j jt1 where j: "jumptable_lookup jt k = (Some j, jt1)" "j < length (jt_pairs jt)"
    "fst (jt_pairs jt ! j) = k" by metis
  then have "map jt_arm_addr (live jt) ! j = map jt_arm_addr (live jt) ! i"
    using assms(2,3) d(2) by (simp add: jt_pairs_def)
  moreover have "j < length (map jt_arm_addr (live jt))" "i < length (map jt_arm_addr (live jt))"
    using d(2) assms(2) j(2) by (simp_all add: jt_pairs_def)
  ultimately have "j = i" using nth_eq_iff_index_eq [OF d(1)] by blast
  with j(1) show ?thesis by simp
qed

lemma new_index_count: "jt_inv jt \<Longrightarrow> new_index jt < min JUMP_TABLE_SIZE (jt_count jt + 1)"
  using new_index_less [of jt] by (auto simp: new_index_def jt_inv_def split: if_splits)

lemma create_stub:
  assumes "jumptable_lookup jt k = (None, jt)" and "v \<noteq> NULL"
    and "\<not> jt_memory_capacity jt < jt_memory_used jt + 14" and "jumptable_create_entry jt k v = (r, jt1)"
    and "new_index jt < length (jt_entries jt)"
  defines "i \<equiv> new_index jt" and "stub \<equiv> jt_code_memory jt + jt_memory_used jt"
  shows "r = Some i" and "jt_mem jt1 = write_stub (jt_mem jt) stub v" and "jt_x86_stub (jt_entries jt1 ! i) = stub"
    and "jt_arm_addr (jt_entries jt1 ! i) = k" and "length (jt_entries jt1) = length (jt_entries jt)"
    and "jt_count jt1 = (if jt_capacity jt \<le> jt_count jt then jt_count jt else jt_count jt + 1)"
  using assms
  by (cases "jt_capacity jt \<le> jt_count jt"; auto simp: jumptable_create_entry_def Let_def new_index_def)+

text \<open>
  What the processor does at an address: the instruction there is decoded, and if it is a jump through
  a word in memory that is addressed relative to the next instruction, this is the word.
\<close>

definition jump_through :: "(ptr \<Rightarrow> u8) \<Rightarrow> ptr \<Rightarrow> ptr option" where
  "jump_through m p =
     (case x86_decode (map (\<lambda>i. m (p + of_nat i)) [0..<14]) of
        Some (Jmp_rm (MemRip d), rest) \<Rightarrow> Some (read64 m (p + of_nat (14 - length rest) + scast d))
      | _ \<Rightarrow> None)"

lemma stub_bytes:
  assumes "\<And>i. i < 6 \<Longrightarrow> m (p + of_nat i) = [0xff, 0x25, 0, 0, 0, 0] ! i"
  shows "jump_through m p = Some (read64 m (p + 6))"
proof -
  have "map (\<lambda>i. m (p + of_nat i)) [0..<14] =
      [0xff, 0x25, 0, 0, 0, 0] @ map (\<lambda>i. m (p + of_nat i)) [6..<14]"
    using assms [of 0] assms [of 1] assms [of 2] assms [of 3] assms [of 4] assms [of 5]
    by (simp add: upt_conv_Cons)
  then show ?thesis by (simp add: jump_through_def x86_fields get_rm_def of_le32_def)
qed

lemma stub_jumps:
  "jump_through (write_stub m p v) p = Some v"
  "jump_through (write64 (write_stub m p v) (p + 6) w) p = Some w"
proof -
  have b: "write_stub m p v (p + of_nat i) = [0xff, 0x25, 0, 0, 0, 0] ! i"
    "write64 (write_stub m p v) (p + 6) w (p + of_nat i) = [0xff, 0x25, 0, 0, 0, 0] ! i" if "i < 6" for i
  proof -
    consider "i = 0" | "i = 1" | "i = 2" | "i = 3" | "i = 4" | "i = 5" using \<open>i < 6\<close> by linarith
    then have "write_stub m p v (p + of_nat i) = [0xff, 0x25, 0, 0, 0, 0] ! i \<and>
      write64 (write_stub m p v) (p + 6) w (p + of_nat i) = [0xff, 0x25, 0, 0, 0, 0] ! i"
      by cases (simp_all add: write_stub_def write64_def)
    then show "write_stub m p v (p + of_nat i) = [0xff, 0x25, 0, 0, 0, 0] ! i"
      "write64 (write_stub m p v) (p + 6) w (p + of_nat i) = [0xff, 0x25, 0, 0, 0, 0] ! i" by blast+
  qed
  show "jump_through (write_stub m p v) p = Some v"
    by (simp add: stub_bytes [OF b(1)] read_stub)
  show "jump_through (write64 (write_stub m p v) (p + 6) w) p = Some w"
    by (simp add: stub_bytes [OF b(2)])
qed

text \<open>
  C14: the code of a stub and the table. After the first \<open>jumptable_create_entry\<close> for an address, with stub memory
  left, the bytes at the stub decode to a jump through the word behind them, and that word is the
  recorded target; \<open>jumptable_patch_entry\<close> redirects both. A second \<open>jumptable_create_entry\<close> for the
  address changes the record only: the stub still jumps to the old target.
\<close>

theorem jumptable_stub_target:
  assumes "jt_inv jt" and "v \<noteq> NULL" and "w \<noteq> NULL" and "map_of (jt_pairs jt) k = None"
    and "\<not> jt_memory_capacity jt < jt_memory_used jt + 14" and "jt_code_memory jt + jt_memory_used jt \<noteq> NULL"
    and "jumptable_create_entry jt k v = (r, jt1)"
  shows "\<exists>i. r = Some i \<and>
    jump_through (jt_mem jt1) (jt_x86_stub (jt_entries jt1 ! i)) = Some v \<and>
    (let jt2 = snd (jumptable_patch_entry jt1 r w) in
       jump_through (jt_mem jt2) (jt_x86_stub (jt_entries jt2 ! i)) = Some w \<and> jt_x86_target (jt_entries jt2 ! i) = w) \<and>
    (let jt2 = snd (jumptable_create_entry jt1 k w) in
       jump_through (jt_mem jt2) (jt_x86_stub (jt_entries jt2 ! i)) = Some v \<and> jt_x86_target (jt_entries jt2 ! i) = w)"
proof -
  obtain q jt' where l: "jumptable_lookup jt k = (q, jt')" by fastforce
  have "q = None" using lookup_result(1) [OF l] assms(4) by simp
  then have l: "jumptable_lookup jt k = (None, jt)"
    using l by (auto simp: jumptable_lookup_def split: option.splits)
  let ?i = "new_index jt" and ?s = "jt_code_memory jt + jt_memory_used jt"
  have len: "?i < length (jt_entries jt)" using new_index_less [OF assms(1)] assms(1) by (simp add: jt_inv_def)
  have 1: "r = Some ?i" "jt_mem jt1 = write_stub (jt_mem jt) ?s v" "jt_x86_stub (jt_entries jt1 ! ?i) = ?s"
    "jt_arm_addr (jt_entries jt1 ! ?i) = k" "?i < length (jt_entries jt1)" "?i < jt_count jt1"
    using create_stub [OF l assms(2,5,7) len] new_index_count [OF assms(1)] len assms(1)
    by (auto simp: jt_inv_def split: if_splits)
  have i1: "jt_inv jt1" using put_inv [OF assms(1,2), of k] assms(7) by (simp add: jt_put_def)
  have p: "jumptable_patch_entry jt1 r w = (0, jt1\<lparr>jt_mem := write64 (jt_mem jt1) (?s + 6) w,
      jt_entries := (jt_entries jt1)[?i := (jt_entries jt1 ! ?i)\<lparr>jt_x86_target := w, jt_is_patched := True\<rparr>]\<rparr>)"
    using 1 assms(3,6) by (simp add: jumptable_patch_entry_def)
  obtain jt' where l1: "jumptable_lookup jt1 k = (Some ?i, jt')"
    using lookup_index [OF i1 1(6,4)] by (cases "jumptable_lookup jt1 k") auto
  note c = create_known(1) [OF l1 assms(3)] and lk = lookup_keeps(5,6) [OF l1]
  have "length (jt_entries jt') = length (jt_entries jt1)" using arg_cong [OF lk(2), of length] by simp
  moreover have "jt_x86_stub (jt_entries jt' ! ?i) = ?s"
    using arg_cong [OF lk(2), of "\<lambda>xs. xs ! ?i"] 1(3,5) calculation by simp
  ultimately show ?thesis
    using 1 p c lk(1) by (simp add: stub_jumps Let_def)
qed

theorem jumptable_stub_target_witness:
  "\<exists>i. let jt2 = snd (jumptable_create_entry (snd (jumptable_create_entry jt0 0x1000 0x400000)) 0x1000 0x500000) in
     jump_through (jt_mem jt2) (jt_x86_stub (jt_entries jt2 ! i)) = Some 0x400000 \<and> jt_x86_target (jt_entries jt2 ! i) = 0x500000"
proof -
  have "map_of (jt_pairs jt0) 0x1000 = None" "\<not> jt_memory_capacity jt0 < jt_memory_used jt0 + 14"
    "jt_code_memory jt0 + jt_memory_used jt0 \<noteq> NULL"
    by (simp_all add: jt0_def jumptable_init_def jt_pairs_def)
  from jumptable_stub_target [OF jt0_inv _ _ this prod.collapse [symmetric], of "0x400000" "0x500000"]
  show ?thesis by (auto simp: Let_def)
qed

end
