(* ===== verification/PageProt.thy ===== *)
theory PageProt
  imports Hit_Table
begin

text \<open>
  \<open>src/modules/arm2x86_pageprot.c\<close>: the record of page protections. The array \<open>pages\<close> is the list of its
  first \<open>count\<close> elements. The calls of the real \<open>mmap\<close> and \<open>mprotect\<close> are effects: a function returns the
  calls of \<open>mprotect\<close> it makes, and their results are parameters. A null \<open>PageProtector\<close> is \<open>None\<close>.
\<close>

section \<open>State\<close>

record PageState =
  page_addr :: u64
  page_prot :: u8
  page_watched :: bool
  page_fault_count :: u32

type_synonym PageProtector = "PageState list"

abbreviation (input) PAGE_PROT_READ :: u8 where "PAGE_PROT_READ \<equiv> 1"
abbreviation (input) PAGE_PROT_WRITE :: u8 where "PAGE_PROT_WRITE \<equiv> 2"

definition PAGE_TRACK_MAX :: nat where "PAGE_TRACK_MAX = 65536"

abbreviation (input) PAGE_SIZE :: u64 where "PAGE_SIZE \<equiv> 4096"

definition PAGE_ALIGN_DOWN :: "u64 \<Rightarrow> u64" where
  "PAGE_ALIGN_DOWN addr = addr AND NOT (PAGE_SIZE - 1)"

definition PAGE_ALIGN_UP :: "u64 \<Rightarrow> u64" where
  "PAGE_ALIGN_UP addr = (addr + PAGE_SIZE - 1) AND NOT (PAGE_SIZE - 1)"

section \<open>Operations\<close>

definition page_protect_init :: "PageProtector option \<Rightarrow> int \<times> PageProtector option" where
  "page_protect_init pp = (case pp of None \<Rightarrow> (-1, None) | Some _ \<Rightarrow> (0, Some []))"

definition add_page :: "u64 \<Rightarrow> u8 \<Rightarrow> PageProtector \<Rightarrow> PageProtector" where
  "add_page p prot pages =
     (case first_index (\<lambda>x. page_addr x = p) pages of
        Some i \<Rightarrow> pages[i := (pages ! i)\<lparr>page_prot := prot\<rparr>]
      | None \<Rightarrow> pages @ [\<lparr>page_addr = p, page_prot = prot, page_watched = True, page_fault_count = 0\<rparr>])"

text \<open>
  The loop \<open>for (p = start; p < end; p += PAGE_SIZE)\<close>: both bounds are aligned, so that the rounds are counted by
  their distance.
\<close>

fun add_pages :: "nat \<Rightarrow> u64 \<Rightarrow> u8 \<Rightarrow> PageProtector \<Rightarrow> PageProtector" where
  "add_pages 0 p prot pages = pages"
| "add_pages (Suc n) p prot pages =
     (if PAGE_TRACK_MAX \<le> length pages then pages else add_pages n (p + PAGE_SIZE) prot (add_page p prot pages))"

definition page_rounds :: "u64 \<Rightarrow> u64 \<Rightarrow> nat" where
  "page_rounds start end_addr = (if start < end_addr then unat (end_addr - start) div 4096 else 0)"

definition page_protect_add :: "PageProtector option \<Rightarrow> u64 \<Rightarrow> u64 \<Rightarrow> u8 \<Rightarrow> int \<times> PageProtector option" where
  "page_protect_add pp addr sz prot =
     (case pp of None \<Rightarrow> (-1, None)
      | Some pages \<Rightarrow>
          if addr = 0 \<or> sz = 0 then (-1, pp)
          else if PAGE_TRACK_MAX \<le> length pages then (-1, pp)
          else
            (let start = PAGE_ALIGN_DOWN addr; end_addr = PAGE_ALIGN_UP (addr + sz)
             in (0, Some (add_pages (page_rounds start end_addr) start prot pages))))"

definition page_protect_modify :: "PageProtector option \<Rightarrow> u64 \<Rightarrow> u8 \<Rightarrow> int \<times> PageProtector option" where
  "page_protect_modify pp addr new_prot =
     (case pp of None \<Rightarrow> (-1, None)
      | Some pages \<Rightarrow>
          (let page = PAGE_ALIGN_DOWN addr in
           case first_index (\<lambda>x. page_addr x = page) pages of
             Some i \<Rightarrow> (0, Some (pages[i := (pages ! i)\<lparr>page_prot := new_prot\<rparr>]))
           | None \<Rightarrow> page_protect_add pp page PAGE_SIZE new_prot))"

definition page_protect_check :: "PageProtector option \<Rightarrow> u64 \<Rightarrow> u8 \<Rightarrow> int" where
  "page_protect_check pp addr access_type =
     (case pp of None \<Rightarrow> -1
      | Some pages \<Rightarrow>
          (case first_index (\<lambda>x. page_addr x = PAGE_ALIGN_DOWN addr) pages of
             Some i \<Rightarrow> if page_prot (pages ! i) AND access_type = access_type then 0 else -1
           | None \<Rightarrow> 0))"

text \<open>The loop goes on behind a page that it did not handle. The last component is the pages made writable by \<open>mprotect\<close>.\<close>

fun fault_loop :: "u64 \<Rightarrow> PageProtector \<Rightarrow> int \<times> PageProtector \<times> u64 list" where
  "fault_loop page [] = (-1, [], [])"
| "fault_loop page (x # xs) =
     (if page_addr x = page then
        (let x = x\<lparr>page_fault_count := page_fault_count x + 1\<rparr> in
         if page_prot x AND PAGE_PROT_READ \<noteq> 0 \<and> page_prot x AND PAGE_PROT_WRITE = 0
         then (0, x\<lparr>page_prot := page_prot x OR PAGE_PROT_WRITE\<rparr> # xs, [page])
         else (let (r, ys, c) = fault_loop page xs in (r, x # ys, c)))
      else (let (r, ys, c) = fault_loop page xs in (r, x # ys, c)))"

definition page_protect_handle_fault :: "PageProtector option \<Rightarrow> u64 \<Rightarrow> int \<times> PageProtector option \<times> u64 list" where
  "page_protect_handle_fault pp fault_addr =
     (case pp of None \<Rightarrow> (-1, None, [])
      | Some pages \<Rightarrow> (let (r, ps, c) = fault_loop (PAGE_ALIGN_DOWN fault_addr) pages in (r, Some ps, c)))"

text \<open>The global protector is the state; \<open>prot\<close> is cut to a byte.\<close>

definition page_protect_mmap :: "ptr \<Rightarrow> u64 \<Rightarrow> u32 \<Rightarrow> PageProtector \<Rightarrow> ptr \<times> PageProtector" where
  "page_protect_mmap mmap_result len prot g =
     (if mmap_result \<noteq> -1 then (mmap_result, the (snd (page_protect_add (Some g) mmap_result len (ucast prot))))
      else (mmap_result, g))"

definition page_protect_mprotect :: "int \<Rightarrow> u64 \<Rightarrow> u64 \<Rightarrow> u32 \<Rightarrow> PageProtector \<Rightarrow> int \<times> PageProtector" where
  "page_protect_mprotect mprotect_result addr len prot g =
     (mprotect_result, the (snd (page_protect_modify (Some g) addr (ucast prot))))"

section \<open>The protections as a map\<close>

definition prot_of :: "PageProtector \<Rightarrow> u64 \<rightharpoonup> u8" where
  "prot_of pages = map_of (map (\<lambda>x. (page_addr x, page_prot x)) pages)"

definition pp_inv :: "PageProtector \<Rightarrow> bool" where
  "pp_inv pages \<longleftrightarrow> distinct (map page_addr pages) \<and> length pages \<le> PAGE_TRACK_MAX"

lemma prot_of_index: "prot_of pages p = map_option (\<lambda>i. page_prot (pages ! i)) (first_index (\<lambda>x. page_addr x = p) pages)"
  by (simp add: prot_of_def first_index_map_of)

lemma prot_of_update:
  assumes "distinct (map page_addr pages)" and "i < length pages"
  shows "prot_of (pages[i := (pages ! i)\<lparr>page_prot := q\<rparr>]) = (prot_of pages)(page_addr (pages ! i) \<mapsto> q)"
  using assms
proof (induction pages arbitrary: i)
  case (Cons x xs)
  show ?case
  proof (cases i)
    case 0
    then show ?thesis by (auto simp: prot_of_def)
  next
    case (Suc j)
    have "page_addr x \<noteq> page_addr (xs ! j)" using Cons.prems Suc by auto
    then show ?thesis using Cons.IH [of j] Cons.prems Suc by (auto simp: prot_of_def fun_upd_twist)
  qed
qed simp

lemma add_page_result:
  assumes "distinct (map page_addr pages)"
  shows "prot_of (add_page p q pages) = (prot_of pages)(p \<mapsto> q)" and "distinct (map page_addr (add_page p q pages))"
    and "length (add_page p q pages) \<le> length pages + 1"
proof -
  consider (new) "first_index (\<lambda>x. page_addr x = p) pages = None" | (known) i where "first_index (\<lambda>x. page_addr x = p) pages = Some i"
    by fastforce
  then have "prot_of (add_page p q pages) = (prot_of pages)(p \<mapsto> q) \<and> distinct (map page_addr (add_page p q pages)) \<and>
    length (add_page p q pages) \<le> length pages + 1"
  proof cases
    case new
    then have "p \<notin> page_addr ` set pages" by (auto simp: first_index_None)
    moreover from this have "prot_of pages p = None" by (force simp: prot_of_def map_of_eq_None_iff)
    ultimately show ?thesis
      using assms new by (auto simp: add_page_def prot_of_def map_add_def fun_eq_iff split: option.splits)
  next
    case known
    from first_index_Some [OF this] known assms show ?thesis
      by (auto simp: add_page_def prot_of_update map_update distinct_list_update nth_eq_iff_index_eq list_update_same_conv)
  qed
  then show "prot_of (add_page p q pages) = (prot_of pages)(p \<mapsto> q)" "distinct (map page_addr (add_page p q pages))"
    "length (add_page p q pages) \<le> length pages + 1" by simp_all
qed

lemma add_pages_result:
  assumes "distinct (map page_addr pages)" and "length pages + n \<le> PAGE_TRACK_MAX"
  shows "prot_of (add_pages n p q pages) a = (if \<exists>i<n. a = p + of_nat (4096 * i) then Some q else prot_of pages a) \<and>
    pp_inv (add_pages n p q pages)"
  using assms
proof (induction n arbitrary: p pages)
  case (Suc n)
  let ?ps = "add_page p q pages"
  note r = add_page_result [OF Suc.prems(1), of p q]
  have "prot_of (add_pages n (p + 4096) q ?ps) a =
      (if \<exists>i<n. a = p + 4096 + of_nat (4096 * i) then Some q else prot_of ?ps a) \<and> pp_inv (add_pages n (p + 4096) q ?ps)"
    using r(3) Suc.prems(2) by (intro Suc.IH r(2)) simp
  moreover have "(\<exists>i<Suc n. a = p + of_nat (4096 * i)) \<longleftrightarrow> a = p \<or> (\<exists>i<n. a = p + 4096 + of_nat (4096 * i))"
    by (simp add: Ex_less_Suc2 algebra_simps)
  ultimately show ?case using Suc.prems(2) by (auto simp del: of_nat_mult simp: r(1))
qed (simp add: pp_inv_def)

section \<open>Properties\<close>

text \<open>The pages that a range of addresses touches.\<close>

definition page_range :: "u64 \<Rightarrow> u64 \<Rightarrow> u64 set" where
  "page_range addr sz = {PAGE_ALIGN_DOWN a | a. addr \<le> a \<and> a - addr < sz}"

lemma align_down: "unat (PAGE_ALIGN_DOWN a) = 4096 * (unat a div 4096)"
proof -
  have m: "(PAGE_SIZE - 1 :: u64) = mask 12" by (simp add: mask_eq_exp_minus_1)
  have "PAGE_ALIGN_DOWN a = push_bit 12 (drop_bit 12 a)"
    unfolding PAGE_ALIGN_DOWN_def m by (rule bit_word_eqI) (auto simp: bit_simps)
  moreover have l: "unat a < 2 ^ 64" using unsigned_less [of a] by simp
  then have u: "take_bit 64 (unat a) = unat a" by (simp add: take_bit_nat_eq_self)
  ultimately have "unat (PAGE_ALIGN_DOWN a) = take_bit 64 (push_bit 12 (drop_bit 12 (unat a)))"
    by (simp add: unsigned_push_bit_eq unsigned_drop_bit_eq)
  also have "push_bit 12 (drop_bit 12 (unat a)) < 2 ^ 64"
    using l unfolding push_bit_eq_mult drop_bit_eq_div by (meson div_times_less_eq_dividend le_less_trans)
  then have "take_bit 64 (push_bit 12 (drop_bit 12 (unat a))) = 4096 * (unat a div 4096)"
    by (simp add: take_bit_nat_eq_self push_bit_eq_mult drop_bit_eq_div)
  finally show ?thesis .
qed

lemma range_numbers:
  fixes A S :: nat
  assumes "0 < S"
  shows "(\<exists>a. A \<le> a \<and> a < A + S \<and> k = a div 4096) \<longleftrightarrow> A div 4096 \<le> k \<and> k < (A + S + 4095) div 4096"
proof
  assume r: "A div 4096 \<le> k \<and> k < (A + S + 4095) div 4096"
  show "\<exists>a. A \<le> a \<and> a < A + S \<and> k = a div 4096"
  proof (cases "k = A div 4096")
    case False
    with r assms show ?thesis by (intro exI [of _ "4096 * k"]) (auto; linarith)
  qed (use assms in auto)
next
  assume "\<exists>a. A \<le> a \<and> a < A + S \<and> k = a div 4096"
  then obtain a where "A \<le> a" "a < A + S" "k = a div 4096" by blast
  then show "A div 4096 \<le> k \<and> k < (A + S + 4095) div 4096" by (simp add: div_le_mono)
qed

lemma unat_add_of_nat:
  fixes p :: u64
  assumes "unat p + k < 2 ^ 64"
  shows "unat (p + of_nat k) = unat p + k"
proof -
  have "unat (of_nat k :: u64) = k" using assms by (simp add: unsigned_of_nat take_bit_nat_eq_self)
  then show ?thesis using assms by (simp add: unat_word_ariths(1))
qed

lemma in_page_range:
  assumes "unat addr + unat sz < 2 ^ 64"
  shows "p \<in> page_range addr sz \<longleftrightarrow> (\<exists>a. unat addr \<le> a \<and> a < unat addr + unat sz \<and> unat p = 4096 * (a div 4096))"
proof
  assume "\<exists>a. unat addr \<le> a \<and> a < unat addr + unat sz \<and> unat p = 4096 * (a div 4096)"
  then obtain a where a: "unat addr \<le> a" "a < unat addr + unat sz" "unat p = 4096 * (a div 4096)" by blast
  then have "unat (of_nat a :: u64) = a" using assms by (simp add: unsigned_of_nat take_bit_nat_eq_self)
  with a show "p \<in> page_range addr sz"
    unfolding page_range_def
    by (auto simp: word_le_nat_alt word_less_nat_alt unat_sub_if' word_unat_eq_iff align_down intro!: exI [of _ "of_nat a"])
qed (auto simp: page_range_def word_le_nat_alt word_less_nat_alt unat_sub_if' align_down)

text \<open>The rounds of the loop visit exactly the pages of the range.\<close>

lemma rounds_range:
  assumes "unat addr + unat sz + 4095 < 2 ^ 64" and "sz \<noteq> 0"
  defines "start \<equiv> PAGE_ALIGN_DOWN addr"
  defines "n \<equiv> page_rounds start (PAGE_ALIGN_UP (addr + sz))"
  shows "(\<exists>i<n. p = start + of_nat (4096 * i)) \<longleftrightarrow> p \<in> page_range addr sz"
    and "n = (unat addr + unat sz + 4095) div 4096 - unat addr div 4096"
proof -
  let ?A = "unat addr" and ?S = "unat sz"
  have S: "0 < ?S" using assms(2) by (simp add: unat_gt_0)
  have s: "unat start = 4096 * (?A div 4096)" by (simp add: start_def align_down)
  have "PAGE_ALIGN_UP (addr + sz) = PAGE_ALIGN_DOWN (addr + sz + 4095)"
    by (simp add: PAGE_ALIGN_UP_def PAGE_ALIGN_DOWN_def add.commute)
  moreover have "unat (addr + sz + 4095) = ?A + ?S + 4095" using assms(1) by (simp add: unat_word_ariths(1))
  ultimately have e: "unat (PAGE_ALIGN_UP (addr + sz)) = 4096 * ((?A + ?S + 4095) div 4096)" by (simp add: align_down)
  have lt: "?A div 4096 < (?A + ?S + 4095) div 4096" using S by linarith
  then show n: "n = (?A + ?S + 4095) div 4096 - ?A div 4096"
    by (simp add: n_def page_rounds_def word_less_nat_alt unat_sub_if' s e flip: diff_mult_distrib2)
  have b: "4096 * ((?A + ?S + 4095) div 4096) < 2 ^ 64" using assms(1) by linarith
  have u: "unat (start + of_nat (4096 * i)) = 4096 * (?A div 4096 + i)" if "i < n" for i
  proof -
    have "?A div 4096 + i < (?A + ?S + 4095) div 4096" using that unfolding n by (simp add: less_diff_conv add.commute)
    then have "4096 * (?A div 4096 + i) < 2 ^ 64" using b by (meson less_trans mult_less_mono2 zero_less_numeral)
    then show ?thesis using unat_add_of_nat [of start "4096 * i"] by (simp only: s distrib_left)
  qed
  have "(\<exists>i<n. p = start + of_nat (4096 * i)) \<longleftrightarrow> (\<exists>k. ?A div 4096 \<le> k \<and> k < (?A + ?S + 4095) div 4096 \<and> unat p = 4096 * k)"
  proof
    assume "\<exists>i<n. p = start + of_nat (4096 * i)"
    then obtain i where i: "i < n" "p = start + of_nat (4096 * i)" by blast
    have "?A div 4096 + i < (?A + ?S + 4095) div 4096" using i(1) unfolding n by (simp add: less_diff_conv add.commute)
    then show "\<exists>k. ?A div 4096 \<le> k \<and> k < (?A + ?S + 4095) div 4096 \<and> unat p = 4096 * k"
      using u [OF i(1)] i(2) by (intro exI [of _ "?A div 4096 + i"]) (simp only: le_add1 simp_thms)
  next
    assume "\<exists>k. ?A div 4096 \<le> k \<and> k < (?A + ?S + 4095) div 4096 \<and> unat p = 4096 * k"
    then obtain k where k: "?A div 4096 \<le> k" "k < (?A + ?S + 4095) div 4096" "unat p = 4096 * k" by blast
    then have l: "k - ?A div 4096 < n" unfolding n by (intro diff_less_mono)
    have "?A div 4096 + (k - ?A div 4096) = k" using k(1) by (rule le_add_diff_inverse)
    then have "unat (start + of_nat (4096 * (k - ?A div 4096))) = unat p"
      using u [OF l] k(3) by (simp only:)
    then show "\<exists>i<n. p = start + of_nat (4096 * i)"
      using l by (intro exI [of _ "k - ?A div 4096"] conjI) (simp_all only: word_unat_eq_iff)
  qed
  also have "\<dots> \<longleftrightarrow> (\<exists>a. ?A \<le> a \<and> a < ?A + ?S \<and> unat p = 4096 * (a div 4096))"
    unfolding conj_assoc [symmetric] range_numbers [OF S, symmetric] by blast
  also have "\<dots> \<longleftrightarrow> p \<in> page_range addr sz" using assms(1) by (subst in_page_range) simp_all
  finally show "(\<exists>i<n. p = start + of_nat (4096 * i)) \<longleftrightarrow> p \<in> page_range addr sz" .
qed

text \<open>
  C16: the page record refines a map from pages to protections. With room for the pages of the range,
  \<open>page_protect_add\<close> sets the protection of exactly the pages that the range touches, keeps the pages distinct
  and within the bound, and afterwards \<open>page_protect_check\<close> answers for every address of the range
  by that protection.
\<close>

theorem page_protect_add_check:
  assumes "pp_inv pages" and "addr \<noteq> 0" and "sz \<noteq> 0" and "unat addr + unat sz + 4095 < 2 ^ 64"
    and "length pages + ((unat addr + unat sz + 4095) div 4096 - unat addr div 4096) \<le> PAGE_TRACK_MAX"
  shows "\<exists>ps. page_protect_add (Some pages) addr sz prot = (0, Some ps) \<and> pp_inv ps \<and>
    (\<forall>p. prot_of ps p = (if p \<in> page_range addr sz then Some prot else prot_of pages p)) \<and>
    (\<forall>a acc. addr \<le> a \<and> a - addr < sz \<longrightarrow>
       page_protect_check (Some ps) a acc = (if prot AND acc = acc then 0 else -1))"
proof -
  let ?s = "PAGE_ALIGN_DOWN addr" and ?n = "page_rounds (PAGE_ALIGN_DOWN addr) (PAGE_ALIGN_UP (addr + sz))"
  let ?ps = "add_pages ?n ?s prot pages"
  have n: "?n = (unat addr + unat sz + 4095) div 4096 - unat addr div 4096" by (rule rounds_range(2) [OF assms(4,3)])
  have "0 < unat sz" using assms(3) by (simp add: unat_gt_0)
  then have "0 < ?n" unfolding n by linarith
  then have c: "page_protect_add (Some pages) addr sz prot = (0, Some ?ps)"
    using assms(2,3,5) n by (simp add: page_protect_add_def Let_def)
  have "distinct (map page_addr pages)" "length pages + ?n \<le> PAGE_TRACK_MAX"
    using assms(1,5) by (simp_all only: n pp_inv_def)
  from add_pages_result [OF this, of ?s prot]
  have r: "prot_of ?ps p = (if p \<in> page_range addr sz then Some prot else prot_of pages p)" "pp_inv ?ps" for p
    unfolding rounds_range(1) [OF assms(4,3)] by blast+
  have "page_protect_check (Some ?ps) a acc = (if prot AND acc = acc then 0 else -1)" if "addr \<le> a \<and> a - addr < sz" for a acc
  proof -
    have "PAGE_ALIGN_DOWN a \<in> page_range addr sz" using that by (auto simp: page_range_def)
    then have "prot_of ?ps (PAGE_ALIGN_DOWN a) = Some prot" by (simp add: r)
    then show ?thesis by (auto simp: prot_of_index page_protect_check_def split: option.splits)
  qed
  with c r show ?thesis by blast
qed

theorem page_protect_add_check_witness:
  "\<exists>ps. page_protect_add (Some []) 0x1ffc 8 1 = (0, Some ps) \<and> page_protect_check (Some ps) 0x2003 2 = -1 \<and>
     page_protect_check (Some ps) 0x1ffc 1 = 0"
proof -
  obtain ps where ps: "page_protect_add (Some []) 0x1ffc 8 1 = (0, Some ps)"
    "\<And>a acc. 0x1ffc \<le> a \<and> a - 0x1ffc < 8 \<longrightarrow> page_protect_check (Some ps) a acc = (if (1 :: u8) AND acc = acc then 0 else -1)"
    using page_protect_add_check [of "[]" "0x1ffc" 8 1] by (auto simp: pp_inv_def PAGE_TRACK_MAX_def)
  show ?thesis using ps(1) ps(2) [of "0x2003" 2] ps(2) [of "0x1ffc" 1] by auto
qed

lemma align_idem: "PAGE_ALIGN_DOWN (PAGE_ALIGN_DOWN a) = PAGE_ALIGN_DOWN a"
  by (simp add: word_unat_eq_iff align_down)

text \<open>
  \<open>page_protect_mprotect\<close> records the first page of the range only. Whatever the length, the one entry
  that changes is the page of the start address; the other pages of the range keep the protection they had.
\<close>

lemma page_protect_mprotect_first_page:
  assumes "pp_inv g" and "length g < PAGE_TRACK_MAX" and "PAGE_ALIGN_DOWN addr \<noteq> 0" and "unat addr + 8192 < 2 ^ 64"
  shows "prot_of (snd (page_protect_mprotect r addr len prot g)) = (prot_of g)(PAGE_ALIGN_DOWN addr \<mapsto> ucast prot)"
proof (cases "first_index (\<lambda>x. page_addr x = PAGE_ALIGN_DOWN addr) g")
  case (Some i)
  with first_index_Some [OF Some] assms(1) show ?thesis
    by (simp add: page_protect_mprotect_def page_protect_modify_def Let_def prot_of_update pp_inv_def)
next
  case None
  let ?p = "PAGE_ALIGN_DOWN addr"
  have p: "unat ?p = 4096 * (unat addr div 4096)" by (rule align_down)
  have "4096 * (unat addr div 4096) \<le> unat addr" by simp
  then have "unat ?p + unat (4096 :: u64) + 4095 < 2 ^ 64" unfolding p using assms(4) by simp
  from rounds_range(2) [OF this]
  have "page_rounds ?p (PAGE_ALIGN_UP (?p + 4096)) = 1" by (simp add: align_idem p)
  then have "page_protect_add (Some g) ?p 4096 (ucast prot) = (0, Some (add_page ?p (ucast prot) g))"
    using assms(2,3) by (simp add: page_protect_add_def Let_def align_idem)
  then show ?thesis
    using None assms(1) add_page_result(1) [of g ?p "ucast prot"]
    by (simp add: page_protect_mprotect_def page_protect_modify_def Let_def pp_inv_def)
qed

text \<open>A range of two pages: the second one stays writable.\<close>

lemma page_protect_mprotect_witness:
  "prot_of (snd (page_protect_mprotect 0 0x1000 0x2000 1
     [\<lparr>page_addr = 0x1000, page_prot = 3, page_watched = True, page_fault_count = 0\<rparr>,
      \<lparr>page_addr = 0x2000, page_prot = 3, page_watched = True, page_fault_count = 0\<rparr>])) 0x2000 = Some 3"
  using page_protect_mprotect_first_page [of
     "[\<lparr>page_addr = 0x1000, page_prot = 3, page_watched = True, page_fault_count = 0\<rparr>,
       \<lparr>page_addr = 0x2000, page_prot = 3, page_watched = True, page_fault_count = 0\<rparr>]" "0x1000" 0 "0x2000" 1]
  by (simp add: pp_inv_def PAGE_TRACK_MAX_def PAGE_ALIGN_DOWN_def prot_of_def)

end
