(* ===== verification/Peephole.thy ===== *)
theory Peephole
  imports X86
begin

text \<open>
  \<open>src/modules/arm2x86_peephole.c\<close>: the peephole optimizer. The buffer is a memory, a function from offsets into it, so
  that the reads behind the end of the code are reads of what lies there. The patterns assign to the
  \<open>size_t *\<close> they are given and not to what it points at: the size of the code never changes, and it is a plain argument
  here. A \<open>memmove\<close> whose length has wrapped around is the outcome \<open>Crash\<close>.
  The loop is written with fuel; \<open>None\<close> means that the fuel is used up.
\<close>

section \<open>Pattern tests\<close>

type_synonym memory = "nat \<Rightarrow> u8"

definition rd32 :: "memory \<Rightarrow> nat \<Rightarrow> u32" where
  "rd32 m i = of_le32 (m i) (m (i + 1)) (m (i + 2)) (m (i + 3))"

definition rd64 :: "memory \<Rightarrow> nat \<Rightarrow> u64" where
  "rd64 m i = of_le64 (m i) (m (i + 1)) (m (i + 2)) (m (i + 3)) (m (i + 4)) (m (i + 5)) (m (i + 6)) (m (i + 7))"

definition wr64 :: "memory \<Rightarrow> nat \<Rightarrow> u64 \<Rightarrow> memory" where
  "wr64 m i v = (\<lambda>a. if i \<le> a \<and> a < i + 8 then le64 v ! (a - i) else m a)"

definition is_rex_w :: "u8 \<Rightarrow> bool" where
  "is_rex_w b = (b AND 0xF8 = 0x48)"

definition is_mov_imm64 :: "memory \<Rightarrow> nat \<Rightarrow> bool" where
  "is_mov_imm64 m p = (m p = 0x48 \<and> m (p + 1) AND 0xF8 = 0xB8)"

definition is_mov_imm32 :: "memory \<Rightarrow> nat \<Rightarrow> bool" where
  "is_mov_imm32 m p = (m p AND 0xF8 = 0xB8 \<and> \<not> is_rex_w (m p))"

text \<open>
  The tests for two-register forms read the registers of a ModR/M byte in register mode; each is extended by a bit of the prefix
  (0 when there is none). \<open>None\<close> is the result false; otherwise the destination and the source.
\<close>

definition modrm_regs :: "u8 \<Rightarrow> u8 \<Rightarrow> (u8 \<times> u8) option" where
  "modrm_regs prefix md =
     (if drop_bit 6 md = 3 then
        (let dest = md AND 7; src = drop_bit 3 md AND 7;
             dest = (if prefix AND 0x04 \<noteq> 0 then dest OR 8 else dest);
             src = (if prefix AND 0x01 \<noteq> 0 then src OR 8 else src)
         in Some (dest, src))
      else None)"

definition is_mov_reg :: "memory \<Rightarrow> nat \<Rightarrow> (u8 \<times> u8) option" where
  "is_mov_reg m p =
     (if m p \<in> {0x48, 0x49, 0x4C, 0x4D} then
        (if m (p + 1) = 0x89 then modrm_regs (m p) (m (p + 2)) else None)
      else if m p = 0x89 then modrm_regs 0 (m (p + 1)) else None)"

definition is_add_reg :: "memory \<Rightarrow> nat \<Rightarrow> (u8 \<times> u8) option" where
  "is_add_reg m p =
     (if m p = 0x48 \<and> m (p + 1) = 0x01 then modrm_regs (m p) (m (p + 2))
      else if m p = 0x01 then modrm_regs 0 (m (p + 1)) else None)"

definition is_sub_reg :: "memory \<Rightarrow> nat \<Rightarrow> (u8 \<times> u8) option" where
  "is_sub_reg m p =
     (if m p = 0x48 \<and> m (p + 1) = 0x29 then modrm_regs (m p) (m (p + 2))
      else if m p = 0x29 then modrm_regs 0 (m (p + 1)) else None)"

definition is_xor_zero :: "memory \<Rightarrow> nat \<Rightarrow> u8 option" where
  "is_xor_zero m p =
     (if m p = 0x48 \<and> m (p + 1) = 0x31 then
        (let md = m (p + 2) in
         if drop_bit 6 md = 3 then
           (let a = md AND 7; b = drop_bit 3 md AND 7 in
            if a = b then
              (let a = (if m p AND 0x04 \<noteq> 0 then a OR 8 else a);
                   b = (if m p AND 0x01 \<noteq> 0 then b OR 8 else b)
               in if a = b then Some a else None)
            else None)
         else None)
      else if m p = 0x31 then
        (let md = m (p + 1) in
         if drop_bit 6 md = 3 then
           (let a = md AND 7; b = drop_bit 3 md AND 7 in if a = b then Some a else None)
         else None)
      else None)"

definition is_mov_zero :: "memory \<Rightarrow> nat \<Rightarrow> u8 option" where
  "is_mov_zero m p =
     (case is_xor_zero m p of Some r \<Rightarrow> Some r
      | None \<Rightarrow>
          if m p = 0x48 \<and> m (p + 1) AND 0xF8 = 0xB8 \<and> rd64 m (p + 2) = 0
            then Some ((m (p + 1) AND 7) OR (if m p AND 0x04 \<noteq> 0 then 8 else 0))
          else if m p AND 0xF8 = 0xB8 \<and> \<not> is_rex_w (m p) \<and> rd32 m (p + 1) = 0
            then Some (m p AND 7)
          else None)"

text \<open>The register and the immediate.\<close>

definition is_add_imm8 :: "memory \<Rightarrow> nat \<Rightarrow> (u8 \<times> u8) option" where
  "is_add_imm8 m p =
     (if m p = 0x48 \<and> m (p + 1) = 0x83 then
        (let md = m (p + 2) in
         if drop_bit 6 md = 3 \<and> drop_bit 3 md AND 7 = 0
         then Some (if m p AND 0x04 \<noteq> 0 then (m (p + 2) AND 7) OR 8 else m (p + 2) AND 7, m (p + 3))
         else None)
      else if m p = 0x83 then
        (let md = m (p + 1) in
         if drop_bit 6 md = 3 \<and> drop_bit 3 md AND 7 = 0 then Some (m (p + 1) AND 7, m (p + 2)) else None)
      else None)"

text \<open>
  In the line for \<open>0xC7\<close> the addition binds stronger than the comparison, and the comparison stronger than the
  conditional operator.
\<close>

definition get_instr_len :: "memory \<Rightarrow> nat \<Rightarrow> nat" where
  "get_instr_len m p =
     (if m p \<in> {0x48, 0x49, 0x4C, 0x4D} \<and> m (p + 1) \<in> {0xB8, 0xB9, 0xBA, 0xBB, 0xBC, 0xBD, 0xBE, 0xBF} then 10
      else if m p \<in> {0x48, 0x49, 0x4C, 0x4D} \<and>
              m (p + 1) \<in> {0x89, 0x8B, 0x01, 0x29, 0x21, 0x09, 0x31, 0x33, 0x39, 0x3B, 0x85} then 3 + unat (m p AND 1)
      else if m p \<in> {0x48, 0x49, 0x4C, 0x4D} \<and> m (p + 1) = 0x83 then 4
      else if m p \<in> {0x48, 0x49, 0x4C, 0x4D} \<and> m (p + 1) = 0x81 then 7
      else if m p AND 0xF8 = 0xB8 then 5
      else if m p AND 0xF8 = 0xB0 then 2
      else if m p = 0x90 then 1
      else if m p = 0xC3 then 1
      else if m p = 0x0F then 2 + (if 0x80 \<le> m (p + 1) then 4 else 0)
      else if m p = 0xE9 \<or> m p = 0xE8 then 5
      else if m p = 0xEB then 2
      else if m p = 0xC7 then (if 2 + unat (m (p + 1) AND 0xF8) = 0xC0 then 6 else 7)
      else 1)"

section \<open>Patterns\<close>

text \<open>\<open>Nothing\<close>: the pattern does not apply, the result false.\<close>

datatype outcome = Nothing | Changed memory | Crash

text \<open>\<open>memmove(code + d, code + s, size - s)\<close>, with the difference in \<open>size_t\<close>.\<close>

definition move_tail :: "memory \<Rightarrow> nat \<Rightarrow> nat \<Rightarrow> nat \<Rightarrow> outcome" where
  "move_tail m sz d s =
     (if sz < s then Crash else Changed (\<lambda>a. if d \<le> a \<and> a < d + (sz - s) then m (s + (a - d)) else m a))"

definition optimize_mov_zero :: "memory \<Rightarrow> nat \<Rightarrow> nat \<Rightarrow> outcome" where
  "optimize_mov_zero m sz idx =
     (case is_mov_zero m idx of None \<Rightarrow> Nothing
      | Some reg \<Rightarrow>
          (let old_len = (if m idx = 0x48 then 10 else 5);
               m = (if 8 \<le> reg then m(idx := 0x41, idx + 1 := 0x31, idx + 2 := 0xC0 OR reg)
                    else m(idx := 0x31, idx + 1 := 0xC0 OR reg));
               new_len = (if 8 \<le> reg then 3 else 2)
           in move_tail m sz (idx + new_len) (idx + old_len)))"

definition optimize_mov_add :: "memory \<Rightarrow> nat \<Rightarrow> nat \<Rightarrow> outcome" where
  "optimize_mov_add m sz idx =
     (if is_mov_imm64 m idx then
        (let reg1 = m (idx + 1) AND 7; imm1 = rd64 m (idx + 2); len1 = 10 in
         case is_add_imm8 m (idx + len1) of
           Some (reg2, imm2) \<Rightarrow>
             (if reg2 = reg1 then
                (let m = m(idx + 1 := 0xB8 OR reg1);
                     m = wr64 m (idx + 2) (imm1 + scast imm2)
                 in move_tail m sz (idx + len1) (idx + len1 + 4))
              else Nothing)
         | None \<Rightarrow> Nothing)
      else Nothing)"

definition optimize_xor_mov :: "memory \<Rightarrow> nat \<Rightarrow> nat \<Rightarrow> outcome" where
  "optimize_xor_mov m sz idx =
     (case is_xor_zero m idx of None \<Rightarrow> Nothing
      | Some reg1 \<Rightarrow>
          (let len1 = (if 8 \<le> reg1 then 3 else 2) in
           if is_mov_imm64 m (idx + len1) \<and> m (idx + len1 + 1) AND 7 = reg1
           then move_tail m sz idx (idx + len1) else Nothing))"

definition optimize_add_zero :: "memory \<Rightarrow> nat \<Rightarrow> nat \<Rightarrow> outcome" where
  "optimize_add_zero m sz idx =
     (case is_add_imm8 m idx of
        Some (reg, imm) \<Rightarrow> if imm = 0 then move_tail m sz idx (idx + 4) else Nothing
      | None \<Rightarrow> Nothing)"

definition optimize_sub_zero :: "memory \<Rightarrow> nat \<Rightarrow> nat \<Rightarrow> outcome" where
  "optimize_sub_zero m sz idx =
     (let md = m (idx + 2) in
      if m idx = 0x48 \<and> m (idx + 1) = 0x83 \<and> drop_bit 6 md = 3 \<and> drop_bit 3 md AND 7 = 5 \<and> m (idx + 3) = 0
      then move_tail m sz idx (idx + 4) else Nothing)"

definition optimize_cmp_zero :: "memory \<Rightarrow> nat \<Rightarrow> nat \<Rightarrow> outcome" where
  "optimize_cmp_zero m sz idx =
     (let md = m (idx + 2) in
      if m idx = 0x48 \<and> m (idx + 1) = 0x81 \<and> drop_bit 6 md = 3 \<and> drop_bit 3 md AND 7 = 7 \<and> rd32 m (idx + 3) = 0 then
        (let reg = (if m idx AND 0x04 \<noteq> 0 then (m (idx + 2) AND 7) OR 8 else m (idx + 2) AND 7);
             m = (if 8 \<le> reg then m(idx := 0x41, idx + 1 := 0x85, idx + 2 := 0xC0 OR reg)
                  else m(idx := 0x85, idx + 1 := 0xC0 OR reg));
             new_len = (if 8 \<le> reg then 3 else 2)
         in move_tail m sz (idx + new_len) (idx + 7))
      else Nothing)"

definition optimize_redundant_mov :: "memory \<Rightarrow> nat \<Rightarrow> nat \<Rightarrow> outcome" where
  "optimize_redundant_mov m sz idx =
     (case is_mov_reg m idx of
        Some (dest, src) \<Rightarrow>
          if dest = src then move_tail m sz idx (idx + (if m idx = 0x48 then 3 else 2)) else Nothing
      | None \<Rightarrow> Nothing)"

section \<open>The pass\<close>

definition or_else :: "outcome \<Rightarrow> outcome \<Rightarrow> outcome" where
  "or_else x y = (case x of Nothing \<Rightarrow> y | _ \<Rightarrow> x)"

definition try_patterns :: "memory \<Rightarrow> nat \<Rightarrow> nat \<Rightarrow> outcome" where
  "try_patterns m sz idx =
     or_else (optimize_mov_zero m sz idx) (or_else (optimize_xor_mov m sz idx) (or_else (optimize_add_zero m sz idx)
       (or_else (optimize_sub_zero m sz idx) (or_else (optimize_cmp_zero m sz idx)
         (or_else (optimize_redundant_mov m sz idx) (or_else (optimize_mov_add m sz idx) (optimize_xor_mov m sz idx)))))))"

text \<open>The result: the final memory and the number of changes, or the crash (\<open>Inl\<close>).\<close>

fun peephole_loop :: "nat \<Rightarrow> memory \<Rightarrow> nat \<Rightarrow> nat \<Rightarrow> nat \<Rightarrow> (unit + memory \<times> nat) option" where
  "peephole_loop 0 m sz idx optimized = None"
| "peephole_loop (Suc n) m sz idx optimized =
     (if idx < sz then
        (case try_patterns m sz idx of
           Crash \<Rightarrow> Some (Inl ())
         | Changed m' \<Rightarrow> peephole_loop n m' sz idx (optimized + 1)
         | Nothing \<Rightarrow>
             (let idx = idx + get_instr_len m idx in
              if sz \<le> idx then Some (Inr (m, optimized)) else peephole_loop n m sz idx optimized))
      else Some (Inr (m, optimized)))"

definition arm2x86_peephole_optimize :: "nat \<Rightarrow> memory \<Rightarrow> nat \<Rightarrow> (unit + memory \<times> nat) option" where
  "arm2x86_peephole_optimize fuel m sz = peephole_loop fuel m sz 0 0"

section \<open>Termination\<close>

lemma get_instr_len_pos: "0 < get_instr_len m p"
  by (simp add: get_instr_len_def)

text \<open>
  Where no pattern applies at any offset, every round advances, and as many rounds as there are bytes are enough.
\<close>

lemma peephole_loop_idle:
  assumes "\<And>i. i < sz \<Longrightarrow> try_patterns m sz i = Nothing" and "sz - idx < n"
  shows "peephole_loop n m sz idx k = Some (Inr (m, k))"
  using assms(2)
proof (induction n arbitrary: idx)
  case 0
  then show ?case by simp
next
  case (Suc n)
  from get_instr_len_pos [of m idx] Suc.prems
  have "idx < sz \<Longrightarrow> sz - (idx + get_instr_len m idx) < n" by linarith
  with Suc.IH [of "idx + get_instr_len m idx"] assms(1) [of idx] show ?case by (simp add: Let_def)
qed

text \<open>A zeroing of register 0 is replaced by an instruction that is itself one, at the same place: the state recurs.\<close>

definition zeroes_eax :: "memory \<Rightarrow> nat \<Rightarrow> bool" where
  "zeroes_eax m i \<longleftrightarrow> m i = 0x31 \<and> m (i + 1) = 0xC0"

lemma optimize_mov_zero_eax:
  assumes "is_mov_zero m idx = Some 0" and "idx + (if m idx = 0x48 then 10 else 5) \<le> sz"
  shows "\<exists>m'. optimize_mov_zero m sz idx = Changed m' \<and> zeroes_eax m' idx"
  using assms by (simp add: optimize_mov_zero_def move_tail_def zeroes_eax_def Let_def)

lemma zeroes_eax_mov_zero: "zeroes_eax m i \<Longrightarrow> is_mov_zero m i = Some 0 \<and> m i \<noteq> 0x48"
  by (simp add: zeroes_eax_def is_mov_zero_def is_xor_zero_def Let_def)

lemma peephole_loop_mov_zero:
  assumes "is_mov_zero m idx = Some 0" and "idx + (if m idx = 0x48 then 10 else 5) \<le> sz"
  shows "peephole_loop n m sz idx k = None"
  using assms
proof (induction n arbitrary: m k)
  case 0
  then show ?case by simp
next
  case (Suc n)
  from optimize_mov_zero_eax [OF Suc.prems] obtain m'
    where m': "optimize_mov_zero m sz idx = Changed m'" "zeroes_eax m' idx" by blast
  from Suc.prems(2) have "idx + 5 \<le> sz" by (simp split: if_splits)
  with zeroes_eax_mov_zero [OF m'(2)] have "peephole_loop n m' sz idx (k + 1) = None" by (intro Suc.IH) simp_all
  with m' Suc.prems(2) show ?case by (simp add: try_patterns_def or_else_def split: if_splits)
qed

text \<open>
  Code in which no pattern applies at any offset is left as it is: the pass returns, after at most one round more than there
  are bytes, with no change counted.
\<close>

lemma peephole_idle_returns:
  assumes "\<And>i. i < sz \<Longrightarrow> try_patterns m sz i = Nothing" and "sz < fuel"
  shows "arm2x86_peephole_optimize fuel m sz = Some (Inr (m, 0))"
  using peephole_loop_idle [of sz m 0 fuel 0] assms by (simp add: arm2x86_peephole_optimize_def)

lemma try_patterns_nop: "m i = 0x90 \<Longrightarrow> try_patterns m sz i = Nothing"
  by (simp add: try_patterns_def or_else_def optimize_mov_zero_def optimize_xor_mov_def optimize_add_zero_def
      optimize_sub_zero_def optimize_cmp_zero_def optimize_redundant_mov_def optimize_mov_add_def is_mov_zero_def
      is_xor_zero_def is_add_imm8_def is_mov_reg_def is_mov_imm64_def is_rex_w_def Let_def)

lemma peephole_idle_returns_witness:
  "arm2x86_peephole_optimize 100 (\<lambda>a. 0x90) 64 = Some (Inr (\<lambda>a. 0x90, 0))"
  by (rule peephole_idle_returns) (simp_all add: try_patterns_nop)

text \<open>
  The pass does not return once it stands on code that zeroes the register RAX (\<open>mov eax, 0\<close>, \<open>mov rax, 0\<close> or
  \<open>xor eax, eax\<close>) with five (ten) bytes left: the replacement \<open>xor eax, eax\<close> is itself matched by the pattern, at
  the same place, so no number of rounds is enough.
\<close>

lemma peephole_zero_hangs:
  assumes "is_mov_zero m idx = Some 0" and "idx + (if m idx = 0x48 then 10 else 5) \<le> sz"
  shows "\<forall>fuel. peephole_loop fuel m sz idx optimized = None"
  using peephole_loop_mov_zero [OF assms] by simp

lemma peephole_zero_hangs_witness:
  "\<forall>fuel. arm2x86_peephole_optimize fuel (\<lambda>a. if a = 0 then 0xB8 else 0) 6 = None"
  using peephole_zero_hangs [of "\<lambda>a. if a = 0 then 0xB8 else 0" 0 6 0]
  by (simp add: arm2x86_peephole_optimize_def is_mov_zero_def is_xor_zero_def is_rex_w_def rd32_def of_le32_def)

section \<open>What the rewritten code does\<close>

primrec bytes_at :: "memory \<Rightarrow> nat \<Rightarrow> nat \<Rightarrow> code" where
  "bytes_at m i 0 = []"
| "bytes_at m i (Suc n) = m i # bytes_at m (i + 1) n"

lemma bytes_at_numeral [simp]: "bytes_at m i (numeral k) = m i # bytes_at m (i + 1) (pred_numeral k)"
  by (simp add: numeral_eq_Suc)

lemma length_bytes_at [simp]: "length (bytes_at m i n) = n"
  by (induction n arbitrary: i) simp_all

lemma bytes_at_nth: "k < n \<Longrightarrow> bytes_at m i n ! k = m (i + k)"
  by (induction n arbitrary: i k) (auto simp: nth_Cons split: nat.split)

lemma bytes_at_cong: "(\<And>a. i \<le> a \<Longrightarrow> a < i + n \<Longrightarrow> f a = g a) \<Longrightarrow> bytes_at f i n = bytes_at g i n"
  by (rule nth_equalityI) (simp_all add: bytes_at_nth)

lemma bytes_at_wr64: "bytes_at (wr64 m i v) i 8 = le64 v"
  by (rule nth_equalityI) (simp_all add: bytes_at_nth wr64_def del: bytes_at_numeral)

text \<open>What is known of a stretch of memory as a byte list, read at one offset, at a 32-bit and at a 64-bit word.\<close>

lemma bytes_atD: "bytes_at m i n = bs \<Longrightarrow> k < n \<Longrightarrow> m (i + k) = bs ! k"
  by (drule sym) (simp add: bytes_at_nth)

lemma rd32_bytes_at:
  assumes "\<And>k. k < 4 \<Longrightarrow> m (i + k) = le32 v ! k"
  shows "rd32 m i = v"
  using assms [of 0] assms [of 1] assms [of 2] assms [of 3] by (simp add: rd32_def le32_def)

lemma rd64_bytes_at:
  assumes "\<And>k. k < 8 \<Longrightarrow> m (i + k) = le64 v ! k"
  shows "rd64 m i = v"
  using assms [of 0] assms [of 1] assms [of 2] assms [of 3] assms [of 4] assms [of 5] assms [of 6] assms [of 7]
  by (simp add: rd64_def le64_def)

text \<open>The move closes the gap and keeps what is in front of it.\<close>

lemma move_tail_Changed:
  assumes "s \<le> sz"
  shows "\<exists>m'. move_tail m sz d s = Changed m' \<and> (\<forall>a < sz - s. m' (d + a) = m (s + a)) \<and> (\<forall>a < d. m' a = m a)"
proof (intro exI conjI)
  show "move_tail m sz d s = Changed (\<lambda>a. if d \<le> a \<and> a < d + (sz - s) then m (s + (a - d)) else m a)"
    using assms by (simp add: move_tail_def)
qed auto

text \<open>The opcode and ModR/M bytes of a register below 8.\<close>

lemma mov_imm_byte:
  assumes "(r :: u8) < 8"
  shows "(0xB8 OR r) AND 0xF8 = 0xB8" and "(0xB8 OR r) AND 7 = r" and "0xB8 OR r \<noteq> 0x48" and "0xB8 OR r \<noteq> 0x31"
    and "(0xB8 OR r) AND 0xF8 \<noteq> 0x48" and "\<not> 8 \<le> r"
    and "x86_decode ((0xB8 OR r) # le32 v @ rest) = Some (Mov_r_imm32 r v, rest)"
    and "x86_decode (0x48 # (0xB8 OR r) # le64 w @ rest) = Some (Mov_r_imm64 r w, rest)"
  using u8_less_8_cases [OF assms] by (elim disjE; simp add: x86_fields)+

lemma add_imm8_byte:
  assumes "(r :: u8) < 8"
  shows "drop_bit 6 (0xC0 OR r) = 3" and "drop_bit 3 (0xC0 OR r) AND 7 = 0" and "(0xC0 OR r) AND 7 = r"
    and "x86_decode (0x31 # (0xC0 OR r) # rest) = Some (Alu_rm_r XOR' False (Reg r) RAX, rest)"
    and "x86_decode (0x48 # 0x83 # (0xC0 OR r) # i # rest) = Some (Alu_rm_imm ADD True (Reg r) (scast i), rest)"
  using u8_less_8_cases [OF assms] by (elim disjE; simp add: x86_fields get_rm_def)+

text \<open>
  \<open>mov r32, 0\<close> for a register below 8 is not rewritten to the zeroing \<open>xor r, r\<close>: the second byte is
  \<open>0xC0 | r\<close>, which has RAX in its register field, so the code that results is \<open>xor r, eax\<close>. The rest of the code follows it.
\<close>

lemma optimize_mov_zero_xors_eax:
  assumes "r < 8" and "bytes_at m idx 5 = (0xB8 OR r) # le32 0" and "idx + 5 \<le> sz"
  shows "\<exists>m'. optimize_mov_zero m sz idx = Changed m' \<and>
     x86_decode (bytes_at m idx 5) = Some (Mov_r_imm32 r 0, []) \<and>
     x86_decode (bytes_at m' idx 2) = Some (Alu_rm_r XOR' False (Reg r) RAX, []) \<and>
     (\<forall>a < sz - (idx + 5). m' (idx + 2 + a) = m (idx + 5 + a)) \<and> (\<forall>a < idx. m' a = m a)"
proof -
  note b = mov_imm_byte [OF assms(1)] and x = add_imm8_byte [OF assms(1)]
  note at = bytes_atD [OF assms(2)]
  have m: "m idx = 0xB8 OR r" using at [of 0] by simp
  have z: "rd32 m (idx + 1) = 0" using at [of "Suc _"] by (intro rd32_bytes_at) simp
  from m z b(1-6) have "is_mov_zero m idx = Some r"
    by (simp add: is_mov_zero_def is_xor_zero_def is_rex_w_def)
  with m b(1-6) have opt: "optimize_mov_zero m sz idx = move_tail (m(idx := 0x31, idx + 1 := 0xC0 OR r)) sz (idx + 2) (idx + 5)"
    by (simp add: optimize_mov_zero_def)
  from assms(3) obtain m' where m': "optimize_mov_zero m sz idx = Changed m'"
    and tail: "\<And>a. a < sz - (idx + 5) \<Longrightarrow> m' (idx + 2 + a) = (m(idx := 0x31, idx + 1 := 0xC0 OR r)) (idx + 5 + a)"
    and front: "\<And>a. a < idx + 2 \<Longrightarrow> m' a = (m(idx := 0x31, idx + 1 := 0xC0 OR r)) a"
    using move_tail_Changed [of "idx + 5" sz "m(idx := 0x31, idx + 1 := 0xC0 OR r)" "idx + 2"] unfolding opt by blast
  from front have new: "m' idx = 0x31" "m' (idx + 1) = 0xC0 OR r" by simp_all
  from new have "bytes_at m' idx 2 = [0x31, 0xC0 OR r]" by simp
  with m' tail front b(7) [of 0 "[]"] x(4) [of "[]"] show ?thesis
    by (simp add: assms(2) del: bytes_at_numeral x86_decode.simps)
qed

lemma optimize_mov_zero_xors_eax_witness:
  "\<exists>m'. optimize_mov_zero (\<lambda>a. if a = 0 then 0xB9 else if a = 5 then 0xC3 else 0) 6 0 = Changed m' \<and>
     x86_decode (bytes_at m' 0 2) = Some (Alu_rm_r XOR' False (Reg RCX) RAX, []) \<and> m' 2 = 0xC3"
proof -
  let ?m = "(\<lambda>a. if a = 0 then 0xB9 else if a = 5 then 0xC3 else 0) :: memory"
  have code: "bytes_at ?m 0 5 = (0xB8 OR 1) # le32 0" by (simp add: le32_def)
  have hyps: "(1 :: u8) < 8" "0 + 5 \<le> (6 :: nat)" by simp_all
  from optimize_mov_zero_xors_eax [OF hyps(1) code hyps(2)]
  obtain m' where m': "optimize_mov_zero ?m 6 0 = Changed m'"
    "x86_decode (bytes_at m' 0 2) = Some (Alu_rm_r XOR' False (Reg RCX) RAX, [])"
    and tail: "\<forall>a < 6 - (0 + 5). m' (0 + 2 + a) = ?m (0 + 5 + a)" by blast
  from tail have "m' 2 = 0xC3" by (simp add: numeral_2_eq_2)
  with m' show ?thesis by blast
qed

text \<open>
  C19: \<open>mov r64, imm\<close> followed by \<open>add r64, imm8\<close> for the same register below 8 becomes the one instruction
  \<open>mov r64, imm + imm8\<close> with the immediate sign extended and the sum taken modulo \<open>2 ^ 64\<close>; what followed the pair follows it.
\<close>

theorem optimize_mov_add_correct:
  assumes "r < 8" and "bytes_at m idx 14 = [0x48, 0xB8 OR r] @ le64 imm1 @ [0x48, 0x83, 0xC0 OR r, imm2]" and "idx + 14 \<le> sz"
  shows "\<exists>m'. optimize_mov_add m sz idx = Changed m' \<and>
     x86_decode (bytes_at m idx 14) = Some (Mov_r_imm64 r imm1, [0x48, 0x83, 0xC0 OR r, imm2]) \<and>
     x86_decode [0x48, 0x83, 0xC0 OR r, imm2] = Some (Alu_rm_imm ADD True (Reg r) (scast imm2), []) \<and>
     x86_decode (bytes_at m' idx 10) = Some (Mov_r_imm64 r (imm1 + scast imm2), []) \<and>
     (\<forall>a < sz - (idx + 14). m' (idx + 10 + a) = m (idx + 14 + a)) \<and> (\<forall>a < idx. m' a = m a)"
proof -
  note b = mov_imm_byte [OF assms(1)] and x = add_imm8_byte [OF assms(1)]
  note at = bytes_atD [OF assms(2)]
  have m: "m idx = 0x48" "m (idx + 1) = 0xB8 OR r" "m (idx + 10) = 0x48" "m (idx + 11) = 0x83"
      "m (idx + 12) = 0xC0 OR r" "m (idx + 13) = imm2"
    using at [of 0] at [of 1] at [of 10] at [of 11] at [of 12] at [of 13] by (simp_all add: nth_append)
  have imm: "rd64 m (idx + 2) = imm1"
    using at [of "Suc (Suc _)"] by (intro rd64_bytes_at) (simp add: nth_append)
  have "is_mov_imm64 m idx" using m b by (simp add: is_mov_imm64_def)
  moreover have "is_add_imm8 m (idx + 10) = Some (r, imm2)"
    using m x by (simp add: is_add_imm8_def add.commute)
  ultimately have "optimize_mov_add m sz idx =
      move_tail (wr64 (m(idx + 1 := 0xB8 OR r)) (idx + 2) (imm1 + scast imm2)) sz (idx + 10) (idx + 14)"
      (is "_ = move_tail ?w _ _ _")
    using m b(1,2) imm by (simp add: optimize_mov_add_def Let_def add.commute)
  with move_tail_Changed [OF assms(3), of ?w "idx + 10"]
  obtain m' where m': "optimize_mov_add m sz idx = Changed m'"
    and tail: "\<And>a. a < sz - (idx + 14) \<Longrightarrow> m' (idx + 10 + a) = ?w (idx + 14 + a)"
    and front: "\<And>a. a < idx + 10 \<Longrightarrow> m' a = ?w a"
    by auto
  have "bytes_at m' (idx + 2) 8 = bytes_at ?w (idx + 2) 8" using front by (intro bytes_at_cong) simp
  moreover have "bytes_at m' idx 10 = 0x48 # (0xB8 OR r) # bytes_at m' (idx + 2) 8"
    using front m by (simp add: wr64_def del: bytes_at_numeral add: numeral_eq_Suc)
  ultimately have "bytes_at m' idx 10 = 0x48 # (0xB8 OR r) # le64 (imm1 + scast imm2)"
    by (simp only: bytes_at_wr64)
  with m' tail front b(8) [of _ "[]"] b(8) [of imm1] x(5) [of imm2 "[]"] show ?thesis
    by (simp add: assms(2) wr64_def del: bytes_at_numeral x86_decode.simps)
qed

theorem optimize_mov_add_witness:
  "\<exists>m'. optimize_mov_add (\<lambda>a. ([0x48, 0xBA] @ le64 7 @ [0x48, 0x83, 0xC2, 0xFF, 0xC3]) ! a) 15 0 = Changed m' \<and>
     x86_decode (bytes_at m' 0 10) = Some (Mov_r_imm64 RDX 6, []) \<and> m' 10 = 0xC3"
proof -
  let ?m = "(\<lambda>a. ([0x48, 0xBA] @ le64 7 @ [0x48, 0x83, 0xC2, 0xFF, 0xC3]) ! a) :: memory"
  have code: "bytes_at ?m 0 14 = [0x48, 0xB8 OR 2] @ le64 7 @ [0x48, 0x83, 0xC0 OR 2, 0xFF]" by (simp add: le64_def)
  have hyps: "(2 :: u8) < 8" "0 + 14 \<le> (15 :: nat)" by simp_all
  from optimize_mov_add_correct [OF hyps(1) code hyps(2)]
  obtain m' where m': "optimize_mov_add ?m 15 0 = Changed m'"
    "x86_decode (bytes_at m' 0 10) = Some (Mov_r_imm64 RDX (7 + scast (0xFF :: u8)), [])"
    and tail: "\<forall>a < 15 - (0 + 14). m' (0 + 10 + a) = ?m (0 + 14 + a)" by blast
  have "(7 :: u64) + scast (0xFF :: u8) = 6" by simp
  moreover from tail have "m' 10 = 0xC3" by (simp add: le64_def)
  ultimately show ?thesis using m' by (simp only: ) blast
qed

end
