(* ===== verification/CodeCache.thy ===== *)
theory CodeCache
  imports Hit_Table Convert64
begin

text \<open>
  \<open>src/arm2x86.c\<close>: the life cycle of a context, the entry point \<open>arm2x86_convert\<close>, and the cache of
  translated blocks.

  The members of \<open>arm2x86_Context\<close> that this file never touches after clearing them are left out. The
  array \<open>g_code_cache\<close> is the list of its first \<open>g_cache_count\<close> elements: nothing else of it is ever
  read, and an insertion assigns every member. \<open>mmap\<close> and \<open>mprotect\<close> are parameters that give their
  results; the calls of \<open>munmap\<close> are collected in \<open>unmapped\<close>. Each critical section of
  \<open>g_cache_mutex\<close> is one step.
\<close>

section \<open>The context\<close>

datatype Arm2x86Mode = ARM2X86_MODE_ARM64 | ARM2X86_MODE_ARM32 | ARM2X86_MODE_THUMB | ARM2X86_MODE_AUTO

record arm2x86_Context =
  guest_lib_path :: "string option"
  guest_cmd :: "string option"
  ctx_mode :: Arm2x86Mode
  ctx_strict_memory_ordering :: bool

record CodeCacheBlock =
  cb_arm64_addr :: u64
  cb_x86_code :: ptr
  cb_x86_size :: u64
  cb_arm64_size :: u64
  cb_hash :: u32
  cb_hit_count :: int

record CodeCache =
  g_code_cache :: "CodeCacheBlock list"
  g_code_cache_mem :: ptr
  g_cache_used :: u64
  unmapped :: "(ptr \<times> u64) list"

definition MAX_CACHED_BLOCKS :: nat where
  "MAX_CACHED_BLOCKS = 4096"

definition CODE_CACHE_SIZE :: u64 where
  "CODE_CACHE_SIZE = 64 * 1024 * 1024"

abbreviation (input) MAP_FAILED :: ptr where "MAP_FAILED \<equiv> -1"

section \<open>The cache\<close>

text \<open>The bytes of the guest code are read at \<open>code\<close>; \<open>n\<close> counts the words that are mixed in.\<close>

fun code_hash_loop :: "(ptr \<Rightarrow> u8) \<Rightarrow> ptr \<Rightarrow> nat \<Rightarrow> u32 \<Rightarrow> u32" where
  "code_hash_loop m code 0 h = h"
| "code_hash_loop m code (Suc n) h =
     code_hash_loop m (code + 4) n
       ((h XOR (ucast (m code) OR push_bit 8 (ucast (m (code + 1))) OR push_bit 16 (ucast (m (code + 2)))
                OR push_bit 24 (ucast (m (code + 3))))) * 31)"

definition code_hash :: "(ptr \<Rightarrow> u8) \<Rightarrow> u64 \<Rightarrow> ptr \<Rightarrow> u64 \<Rightarrow> u32" where
  "code_hash m addr code sz =
     (let h = ucast (addr XOR drop_bit 32 addr);
          limit = (if sz < 64 then sz else 64)
      in code_hash_loop m code (unat limit div 4) h)"

definition arm2x86_cache_lookup :: "CodeCache \<Rightarrow> u64 \<Rightarrow> nat option \<times> CodeCache" where
  "arm2x86_cache_lookup c addr =
     (case first_index (\<lambda>b. cb_arm64_addr b = addr) (g_code_cache c) of
        None \<Rightarrow> (None, c)
      | Some i \<Rightarrow>
          (Some i, c\<lparr>g_code_cache := (g_code_cache c)[i := (g_code_cache c ! i)
                       \<lparr>cb_hit_count := cb_hit_count (g_code_cache c ! i) + 1\<rparr>]\<rparr>))"

definition new_block :: "u64 \<Rightarrow> ptr \<Rightarrow> u64 \<Rightarrow> u64 \<Rightarrow> u32 \<Rightarrow> CodeCacheBlock" where
  "new_block addr x86 x86_size arm64_size h =
     \<lparr>cb_arm64_addr = addr, cb_x86_code = x86, cb_x86_size = x86_size, cb_arm64_size = arm64_size,
      cb_hash = h, cb_hit_count = 0\<rparr>"

definition arm2x86_cache_insert :: "(ptr \<Rightarrow> u8) \<Rightarrow> CodeCache \<Rightarrow> u64 \<Rightarrow> ptr \<Rightarrow> u64 \<Rightarrow> ptr \<Rightarrow> u64 \<Rightarrow> nat \<times> CodeCache" where
  "arm2x86_cache_insert m c addr arm64_code arm64_size x86 x86_size =
     (let b = new_block addr x86 x86_size arm64_size (code_hash m addr arm64_code arm64_size) in
      if MAX_CACHED_BLOCKS \<le> length (g_code_cache c) then
        (let lru = least_hit cb_hit_count (g_code_cache c);
             old = g_code_cache c ! lru;
             c = (if cb_x86_code old \<noteq> NULL \<and> cb_x86_code old \<noteq> g_code_cache_mem c
                  then c\<lparr>unmapped := unmapped c @ [(cb_x86_code old, cb_x86_size old)]\<rparr> else c)
         in (lru, c\<lparr>g_code_cache := (g_code_cache c)[lru := b]\<rparr>))
      else (length (g_code_cache c), c\<lparr>g_code_cache := g_code_cache c @ [b]\<rparr>))"

definition arm2x86_cache_init :: "ptr \<Rightarrow> CodeCache \<Rightarrow> CodeCache" where
  "arm2x86_cache_init mmap_result c =
     c\<lparr>g_code_cache_mem := if mmap_result = MAP_FAILED then NULL else mmap_result,
       g_cache_used := 0, g_code_cache := []\<rparr>"

definition arm2x86_cache_destroy :: "CodeCache \<Rightarrow> CodeCache" where
  "arm2x86_cache_destroy c =
     (let c = (if g_code_cache_mem c \<noteq> NULL
               then c\<lparr>unmapped := unmapped c @ [(g_code_cache_mem c, CODE_CACHE_SIZE)]\<rparr> else c)
      in c\<lparr>g_code_cache_mem := NULL, g_code_cache := []\<rparr>)"

section \<open>Operations on a context\<close>

text \<open>\<open>None\<close> is a null pointer.\<close>

definition arm2x86_init_with_mode :: "ptr \<Rightarrow> arm2x86_Context option \<Rightarrow> string option \<Rightarrow> string option \<Rightarrow> Arm2x86Mode
    \<Rightarrow> CodeCache \<Rightarrow> int \<times> arm2x86_Context option \<times> CodeCache" where
  "arm2x86_init_with_mode mmap_result ctx path cmd mode c =
     (case (ctx, path, cmd) of
        (Some _, Some p, Some q) \<Rightarrow>
          (ARM2X86_OK,
           Some \<lparr>guest_lib_path = Some p, guest_cmd = Some q, ctx_mode = mode, ctx_strict_memory_ordering = False\<rparr>,
           arm2x86_cache_init mmap_result c)
      | _ \<Rightarrow> (ARM2X86_ERR_INVALID_PARAM, ctx, c))"

definition arm2x86_init :: "ptr \<Rightarrow> arm2x86_Context option \<Rightarrow> string option \<Rightarrow> string option
    \<Rightarrow> CodeCache \<Rightarrow> int \<times> arm2x86_Context option \<times> CodeCache" where
  "arm2x86_init mmap_result ctx path cmd c =
     (case (ctx, path, cmd) of
        (Some _, Some p, Some q) \<Rightarrow>
          (ARM2X86_OK,
           Some \<lparr>guest_lib_path = Some p, guest_cmd = Some q, ctx_mode = ARM2X86_MODE_AUTO,
                 ctx_strict_memory_ordering = False\<rparr>,
           arm2x86_cache_init mmap_result c)
      | _ \<Rightarrow> (ARM2X86_ERR_INVALID_PARAM, ctx, c))"

text \<open>\<open>memset\<close> leaves the mode zero, which is \<open>ARM2X86_MODE_ARM64\<close>, and the strings null.\<close>

definition arm2x86_destroy :: "arm2x86_Context option \<Rightarrow> CodeCache \<Rightarrow> arm2x86_Context option \<times> CodeCache" where
  "arm2x86_destroy ctx c =
     (case ctx of None \<Rightarrow> (None, c)
      | Some x \<Rightarrow> (Some \<lparr>guest_lib_path = None, guest_cmd = None, ctx_mode = ARM2X86_MODE_ARM64,
                        ctx_strict_memory_ordering = False\<rparr>, arm2x86_cache_destroy c))"

definition arm2x86_set_mode :: "arm2x86_Context option \<Rightarrow> Arm2x86Mode \<Rightarrow> arm2x86_Context option" where
  "arm2x86_set_mode ctx mode = map_option (ctx_mode_update (\<lambda>_. mode)) ctx"

definition arm2x86_get_mode :: "arm2x86_Context option \<Rightarrow> Arm2x86Mode" where
  "arm2x86_get_mode ctx = (case ctx of None \<Rightarrow> ARM2X86_MODE_ARM64 | Some x \<Rightarrow> ctx_mode x)"

definition arm2x86_set_strict_memory_ordering :: "arm2x86_Context option \<Rightarrow> bool \<Rightarrow> arm2x86_Context option" where
  "arm2x86_set_strict_memory_ordering ctx enable =
     map_option (ctx_strict_memory_ordering_update (\<lambda>_. enable)) ctx"

definition arm2x86_get_strict_memory_ordering :: "arm2x86_Context option \<Rightarrow> bool" where
  "arm2x86_get_strict_memory_ordering ctx =
     (case ctx of None \<Rightarrow> False | Some x \<Rightarrow> ctx_strict_memory_ordering x)"

definition arm2x86_get_error :: "int \<Rightarrow> string option" where
  "arm2x86_get_error code =
     (if code = ARM2X86_OK then Some ''No error''
      else if code = ARM2X86_ERR_INVALID_PARAM then Some ''Invalid parameter''
      else if code = ARM2X86_ERR_LOAD_FAIL then Some ''Failed to load library''
      else if code = ARM2X86_ERR_CONVERT_FAIL then Some ''Failed to convert code''
      else if code = ARM2X86_ERR_MEMORY then Some ''Memory allocation failed''
      else None)"   \<comment> \<open>a message formatted with the number\<close>

section \<open>Translation into fresh memory\<close>

text \<open>
  \<open>mmap_result\<close>, \<open>page_size\<close> and \<open>mprotect_ok\<close> are what the operating system answers. The result is the
  error code, the regions that are unmapped again, and on success the code and the number
  of bytes that are made executable.
\<close>

definition est_size :: "u64 \<Rightarrow> u64" where
  "est_size arm64_size = (arm64_size div 4) * 16 + 4096"

definition arm2x86_convert :: "Platform \<Rightarrow> (ptr \<Rightarrow> u8) \<Rightarrow> ptr \<Rightarrow> bool \<Rightarrow> DecodedInstruction \<Rightarrow> ptr \<Rightarrow> TranslateCtx
    \<Rightarrow> ptr \<Rightarrow> u64 \<Rightarrow> bool \<Rightarrow> ptr \<Rightarrow> u64 \<Rightarrow> ptr \<Rightarrow> ptr \<Rightarrow> int \<times> (ptr \<times> u64) list \<times> (code \<times> u64) option" where
  "arm2x86_convert pf m ctx strict junk malloc_result t mmap_result page_size mprotect_ok arm64_code arm64_size
       x86_out x86_out_size =
     (if ctx = NULL \<or> arm64_code = NULL \<or> x86_out = NULL \<or> x86_out_size = NULL
      then (ARM2X86_ERR_INVALID_PARAM, [], None)
      else
        (let est = est_size arm64_size in
         if mmap_result = MAP_FAILED then (ARM2X86_ERR_MEMORY, [], None)
         else
           (case arm2x86_convert_block pf m ctx strict junk malloc_result t arm64_code arm64_size mmap_result 1 NULL of
              (rc, None) \<Rightarrow> (rc, [(mmap_result, est)], None)
            | (rc, Some t') \<Rightarrow>
                (let out_size = (of_nat (length (x86_code t')) :: u64) in
                 if out_size = 0 \<or> est < out_size then (ARM2X86_ERR_CONVERT_FAIL, [(mmap_result, est)], None)
                 else
                   (let prot_size = (out_size + page_size - 1) AND NOT (page_size - 1);
                        prot_size = (if est < prot_size then est else prot_size)
                    in if \<not> mprotect_ok then (ARM2X86_ERR_CONVERT_FAIL, [(mmap_result, est)], None)
                       else (ARM2X86_OK, [], Some (x86_code t', prot_size)))))))"

section \<open>The cache as a table\<close>

type_synonym cached = "ptr \<times> u64 \<times> u64 \<times> u32"

definition cached_of :: "CodeCacheBlock \<Rightarrow> cached" where
  "cached_of b = (cb_x86_code b, cb_x86_size b, cb_arm64_size b, cb_hash b)"

definition cc_entries :: "CodeCache \<Rightarrow> (u64 \<times> cached) list" where
  "cc_entries c = map (\<lambda>b. (cb_arm64_addr b, cached_of b)) (g_code_cache c)"

definition cc_inv :: "CodeCache \<Rightarrow> bool" where
  "cc_inv c \<longleftrightarrow> length (g_code_cache c) \<le> MAX_CACHED_BLOCKS"

text \<open>What the caller of \<open>arm2x86_cache_lookup\<close> reads through the pointer.\<close>

definition cc_find :: "CodeCache \<Rightarrow> u64 \<Rightarrow> cached option \<times> CodeCache" where
  "cc_find c k = (case arm2x86_cache_lookup c k of
       (None, c) \<Rightarrow> (None, c) | (Some i, c) \<Rightarrow> (Some (cached_of (g_code_cache c ! i)), c))"

text \<open>The insertion of a given block, whose hash is part of it.\<close>

definition cc_put :: "CodeCache \<Rightarrow> u64 \<Rightarrow> cached \<Rightarrow> CodeCache" where
  "cc_put c k v = (case v of (x, xs, as, h) \<Rightarrow>
     let b = new_block k x xs as h in
     if MAX_CACHED_BLOCKS \<le> length (g_code_cache c) then
       (let lru = least_hit cb_hit_count (g_code_cache c); old = g_code_cache c ! lru;
            c = (if cb_x86_code old \<noteq> NULL \<and> cb_x86_code old \<noteq> g_code_cache_mem c
                 then c\<lparr>unmapped := unmapped c @ [(cb_x86_code old, cb_x86_size old)]\<rparr> else c)
        in c\<lparr>g_code_cache := (g_code_cache c)[lru := b]\<rparr>)
     else c\<lparr>g_code_cache := g_code_cache c @ [b]\<rparr>)"

lemma insert_is_put:
  "snd (arm2x86_cache_insert m c k code n x xs) = cc_put c k (x, xs, n, code_hash m k code n)"
  by (simp add: arm2x86_cache_insert_def cc_put_def Let_def)

lemma cached_of_hits [simp]: "cached_of (b\<lparr>cb_hit_count := n\<rparr>) = cached_of b"
  by (simp add: cached_of_def)

lemma entries_hits:
  "map (\<lambda>b. (cb_arm64_addr b, cached_of b)) (bs[i := (bs ! i)\<lparr>cb_hit_count := n\<rparr>]) =
   map (\<lambda>b. (cb_arm64_addr b, cached_of b)) bs"
  by (cases "i < length bs") (simp_all add: map_update list_update_same_conv list_update_beyond)

interpretation code_cache: append_table cc_find cc_entries cc_inv MAX_CACHED_BLOCKS cc_put
proof
  fix c k
  show "fst (cc_find c k) = map_of (cc_entries c) k"
    using first_index_Some [of "\<lambda>b. cb_arm64_addr b = k" "g_code_cache c"]
    by (auto simp: cc_find_def cc_entries_def arm2x86_cache_lookup_def first_index_map_of split: option.splits)
  show "cc_entries (snd (cc_find c k)) = cc_entries c"
    by (auto simp: cc_find_def cc_entries_def arm2x86_cache_lookup_def entries_hits split: option.splits)
  show "cc_inv c \<Longrightarrow> cc_inv (snd (cc_find c k))"
    by (auto simp: cc_find_def cc_inv_def arm2x86_cache_lookup_def split: option.splits)
  show "cc_inv c \<Longrightarrow> length (cc_entries c) \<le> MAX_CACHED_BLOCKS"
    by (simp add: cc_inv_def cc_entries_def)
next
  fix c k and v :: cached
  obtain x xs as h where v: "v = (x, xs, as, h)" by (cases v)
  show "length (cc_entries c) < MAX_CACHED_BLOCKS \<Longrightarrow> cc_entries (cc_put c k v) = cc_entries c @ [(k, v)]"
    by (simp add: v cc_entries_def cc_put_def new_block_def cached_of_def)
  show "\<exists>i<MAX_CACHED_BLOCKS. cc_entries (cc_put c k v) = (cc_entries c)[i := (k, v)]"
    if "length (cc_entries c) = MAX_CACHED_BLOCKS"
  proof -
    have "g_code_cache c \<noteq> []" using that by (auto simp: cc_entries_def MAX_CACHED_BLOCKS_def)
    with that show ?thesis
      using least_hit_result(1) [of "g_code_cache c" cb_hit_count]
      by (auto simp: v cc_entries_def cc_put_def new_block_def cached_of_def map_update Let_def
          intro!: exI [of _ "least_hit cb_hit_count (g_code_cache c)"])
  qed
  show "cc_inv c \<Longrightarrow> cc_inv (cc_put c k v)"
    by (auto simp: v cc_inv_def cc_put_def Let_def)
qed

section \<open>Properties\<close>

text \<open>
  C15: insertion into the code cache and lookup. A block that is inserted under an address without an entry
  is what the next lookup of that address finds, whether the table had room or another block was
  given up. Under an address that already has an entry, and as long as there is room, the new
  block is appended behind the old one and every lookup keeps returning the old block.
\<close>

theorem cache_insert_lookup:
  assumes "cc_inv c"
  shows "cc_inv (snd (arm2x86_cache_insert m c k code n x xs)) \<and>
    (fst (arm2x86_cache_lookup c k) = None \<longrightarrow>
       fst (cc_find (snd (arm2x86_cache_insert m c k code n x xs)) k) = Some (x, xs, n, code_hash m k code n)) \<and>
    (length (g_code_cache c) < MAX_CACHED_BLOCKS \<longrightarrow> fst (arm2x86_cache_lookup c k) \<noteq> None \<longrightarrow>
       fst (cc_find (snd (arm2x86_cache_insert m c k code n x xs)) k) = fst (cc_find c k))"
proof -
  have "fst (cc_find c k) = None" if "fst (arm2x86_cache_lookup c k) = None"
    using that by (auto simp: cc_find_def split: prod.splits option.splits)
  moreover have "fst (cc_find c k) \<noteq> None" if "fst (arm2x86_cache_lookup c k) \<noteq> None"
    using that by (cases "arm2x86_cache_lookup c k") (auto simp: cc_find_def cached_of_def)
  moreover have "length (cc_entries c) = length (g_code_cache c)" by (simp add: cc_entries_def)
  ultimately show ?thesis
    unfolding insert_is_put
    using assms code_cache.insert_new [OF assms] code_cache.insert_shadowed [OF assms] code_cache.insert_inv [OF assms]
    by (metis option.exhaust)
qed

definition cache0 :: CodeCache where
  "cache0 = \<lparr>g_code_cache = [new_block 0x1000 0x400000 64 16 0], g_code_cache_mem = 0, g_cache_used = 0, unmapped = []\<rparr>"

theorem cache_insert_lookup_witness:
  "fst (cc_find (snd (arm2x86_cache_insert (\<lambda>_. 0) cache0 0x2000 0x2000 8 0x500000 32)) 0x2000) =
     Some (0x500000, 32, 8, code_hash (\<lambda>_. 0) 0x2000 0x2000 8) \<and>
   fst (cc_find (snd (arm2x86_cache_insert (\<lambda>_. 0) cache0 0x1000 0x1000 8 0x500000 32)) 0x1000) =
     Some (0x400000, 64, 16, 0)"
proof -
  have i: "cc_inv cache0" "length (g_code_cache cache0) < MAX_CACHED_BLOCKS"
    "fst (arm2x86_cache_lookup cache0 0x2000) = None" "fst (arm2x86_cache_lookup cache0 0x1000) \<noteq> None"
    "fst (cc_find cache0 0x1000) = Some (0x400000, 64, 16, 0)"
    by (simp_all add: cache0_def cc_inv_def MAX_CACHED_BLOCKS_def arm2x86_cache_lookup_def new_block_def
        cc_find_def cached_of_def)
  show ?thesis
    using cache_insert_lookup [where m = "\<lambda>_. 0" and k = "0x2000" and code = "0x2000" and n = 8 and x = "0x500000" and xs = 32, OF i(1)]
      cache_insert_lookup [where m = "\<lambda>_. 0" and k = "0x1000" and code = "0x1000" and n = 8 and x = "0x500000" and xs = 32, OF i(1)] i by simp
qed

text \<open>
  The block that a full cache gives up is one with the fewest hits, and its memory is unmapped unless it is
  the cache's own.
\<close>

lemma cache_evicts_least_hit:
  assumes "length (g_code_cache c) = MAX_CACHED_BLOCKS"
    and "arm2x86_cache_insert m c k code n x xs = (i, c')"
  shows "i < MAX_CACHED_BLOCKS \<and> (\<forall>b\<in>set (g_code_cache c). cb_hit_count (g_code_cache c ! i) \<le> cb_hit_count b) \<and>
    g_code_cache c' = (g_code_cache c)[i := new_block k x xs n (code_hash m k code n)] \<and>
    unmapped c' = unmapped c @
      (if cb_x86_code (g_code_cache c ! i) = NULL \<or> cb_x86_code (g_code_cache c ! i) = g_code_cache_mem c then []
       else [(cb_x86_code (g_code_cache c ! i), cb_x86_size (g_code_cache c ! i))])"
proof -
  have "g_code_cache c \<noteq> []" using assms(1) by (auto simp: MAX_CACHED_BLOCKS_def)
  from least_hit_result [where f = cb_hit_count, OF this] assms show ?thesis
    by (auto simp: arm2x86_cache_insert_def Let_def)
qed

lemma cache_evicts_least_hit_witness:
  "fst (arm2x86_cache_insert (\<lambda>_. 0) (cache0\<lparr>g_code_cache := replicate 4096 (new_block 0x1000 0x400000 64 16 0)\<rparr>)
     0x2000 0x2000 8 0x500000 32) < MAX_CACHED_BLOCKS"
  by (rule cache_evicts_least_hit [OF _ prod.collapse [symmetric], THEN conjunct1])
     (simp add: MAX_CACHED_BLOCKS_def)

end
