(* ===== verification/Elf.thy ===== *)
theory Elf
  imports CodeCache X86_Machine "HOL-Library.Monad_Syntax"
begin

text \<open>
  \<open>src/modules/arm2x86_elf.c\<close> and \<open>arm2x86_fini.c\<close>: loading of ELF images, relocation and symbol lookup.

  The image lies in the byte memory at \<open>memory\<close>; the ELF structures are read there, at the offsets that the ELF
  format gives them. The arrays \<open>bucket\<close> and \<open>chain\<close> either lie in the image or come from \<open>malloc\<close>; the
  latter are objects of their own, lists of words, and an access outside one is the error \<open>Out_of_bounds\<close>. Loops
  over data of the image that need not end are partial functions; their result \<open>None\<close> is the error \<open>Hang\<close>. A name that the
  caller passes is the list of the bytes before its end. What \<open>dlsym\<close>, \<open>malloc\<close>, \<open>mmap\<close> and the file
  system answer are parameters.
\<close>

section \<open>Structures\<close>

type_synonym image = "ptr \<Rightarrow> u8"

type_synonym cstring = "u8 list"

datatype elf_error = Hang | Div_by_zero | Out_of_bounds | Null_deref

datatype arr = No_array | In_image ptr | Heap "u32 list"

record ElfModule =
  md_handle :: ptr
  md_memory :: ptr
  md_size :: u64
  md_mapped_size :: u64
  md_load_bias :: u64
  md_dynsym :: ptr
  md_dynsym_sz :: u64
  md_dynstr :: ptr
  md_hash :: ptr
  md_ghash :: ptr
  md_nbucket :: u32
  md_nchain :: u32
  md_bucket :: arr
  md_chain :: arr
  md_verneed :: ptr
  md_verneednum :: u32
  md_verdef :: ptr
  md_verdefnum :: u32
  md_versym :: ptr

definition read16 :: "image \<Rightarrow> ptr \<Rightarrow> u16" where
  "read16 m a = ucast (m a) OR push_bit 8 (ucast (m (a + 1)))"

abbreviation (input) ELFCLASS32 :: u8 where "ELFCLASS32 \<equiv> 1"
abbreviation (input) ELFCLASS64 :: u8 where "ELFCLASS64 \<equiv> 2"

definition elf_class :: "image \<Rightarrow> ElfModule \<Rightarrow> u8" where
  "elf_class m md = m (md_memory md + 4)"

text \<open>\<open>Elf64_Phdr\<close> and \<open>Elf32_Phdr\<close>: type, flags, offset, address and size of a segment.\<close>

record Phdr =
  p_type :: u32
  p_flags :: u32
  p_offset :: u64
  p_vaddr :: u64
  p_memsz :: u64

definition phdr64 :: "image \<Rightarrow> ptr \<Rightarrow> nat \<Rightarrow> Phdr" where
  "phdr64 m phdr i =
     (let a = phdr + of_nat (56 * i) in
      \<lparr>p_type = read32 m a, p_flags = read32 m (a + 4), p_offset = read64 m (a + 8), p_vaddr = read64 m (a + 16),
       p_memsz = read64 m (a + 40)\<rparr>)"

definition phdr32 :: "image \<Rightarrow> ptr \<Rightarrow> nat \<Rightarrow> Phdr" where
  "phdr32 m phdr i =
     (let a = phdr + of_nat (32 * i) in
      \<lparr>p_type = read32 m a, p_flags = read32 m (a + 24), p_offset = ucast (read32 m (a + 4)),
       p_vaddr = ucast (read32 m (a + 8)), p_memsz = ucast (read32 m (a + 20))\<rparr>)"

text \<open>The program headers at \<open>base + e_phoff\<close>, and their number.\<close>

definition phdrs64 :: "image \<Rightarrow> ptr \<Rightarrow> ptr" where
  "phdrs64 m base = base + read64 m (base + 32)"

definition phdrs32 :: "image \<Rightarrow> ptr \<Rightarrow> ptr" where
  "phdrs32 m base = base + ucast (read32 m (base + 28))"

definition phnum64 :: "image \<Rightarrow> ptr \<Rightarrow> nat" where
  "phnum64 m base = unat (read16 m (base + 56))"

definition phnum32 :: "image \<Rightarrow> ptr \<Rightarrow> nat" where
  "phnum32 m base = unat (read16 m (base + 44))"

abbreviation (input) PT_LOAD :: u32 where "PT_LOAD \<equiv> 1"
abbreviation (input) PT_DYNAMIC :: u32 where "PT_DYNAMIC \<equiv> 2"

text \<open>An entry of the dynamic section: tag and value.\<close>

definition dyn64 :: "image \<Rightarrow> ptr \<Rightarrow> u64 \<times> u64" where
  "dyn64 m d = (read64 m d, read64 m (d + 8))"

definition dyn32 :: "image \<Rightarrow> ptr \<Rightarrow> u64 \<times> u64" where
  "dyn32 m d = (scast (read32 m d), ucast (read32 m (d + 4)))"

text \<open>The entries in front of the first \<open>DT_NULL\<close>; the walk over them has no other end.\<close>

partial_function (option) dyn_entries :: "(ptr \<Rightarrow> u64 \<times> u64) \<Rightarrow> u64 \<Rightarrow> ptr \<Rightarrow> (u64 \<times> u64) list option" where
  "dyn_entries rd sz d =
     (if fst (rd d) = 0 then Some [] else Option.bind (dyn_entries rd sz (d + sz)) (\<lambda>ds. Some (rd d # ds)))"

text \<open>The entries of the first dynamic segment; none if there is no such segment.\<close>

definition dynamic64 :: "image \<Rightarrow> ptr \<Rightarrow> elf_error + (u64 \<times> u64) list" where
  "dynamic64 m base =
     (case find (\<lambda>i. p_type (phdr64 m (phdrs64 m base) i) = PT_DYNAMIC) [0..<phnum64 m base] of
        None \<Rightarrow> Inr []
      | Some i \<Rightarrow>
          (case dyn_entries (dyn64 m) 16 (base + p_offset (phdr64 m (phdrs64 m base) i)) of
             None \<Rightarrow> Inl Hang | Some ds \<Rightarrow> Inr ds))"

definition dynamic32 :: "image \<Rightarrow> ptr \<Rightarrow> elf_error + (u64 \<times> u64) list" where
  "dynamic32 m base =
     (case find (\<lambda>i. p_type (phdr32 m (phdrs32 m base) i) = PT_DYNAMIC) [0..<phnum32 m base] of
        None \<Rightarrow> Inr []
      | Some i \<Rightarrow>
          (case dyn_entries (dyn32 m) 8 (base + p_offset (phdr32 m (phdrs32 m base) i)) of
             None \<Rightarrow> Inl Hang | Some ds \<Rightarrow> Inr ds))"

text \<open>A variable that the switch over the tags sets: the last entry with its tag counts.\<close>

definition dyn_val :: "u64 \<Rightarrow> u64 \<Rightarrow> (u64 \<times> u64) list \<Rightarrow> u64" where
  "dyn_val tag v0 ds = fold (\<lambda>(t, v) r. if t = tag then v else r) ds v0"

abbreviation (input) DT_PLTRELSZ :: u64 where "DT_PLTRELSZ \<equiv> 2"
abbreviation (input) DT_HASH :: u64 where "DT_HASH \<equiv> 4"
abbreviation (input) DT_STRTAB :: u64 where "DT_STRTAB \<equiv> 5"
abbreviation (input) DT_SYMTAB :: u64 where "DT_SYMTAB \<equiv> 6"
abbreviation (input) DT_RELA :: u64 where "DT_RELA \<equiv> 7"
abbreviation (input) DT_RELASZ :: u64 where "DT_RELASZ \<equiv> 8"
abbreviation (input) DT_RELAENT :: u64 where "DT_RELAENT \<equiv> 9"
abbreviation (input) DT_REL :: u64 where "DT_REL \<equiv> 17"
abbreviation (input) DT_RELSZ :: u64 where "DT_RELSZ \<equiv> 18"
abbreviation (input) DT_RELENT :: u64 where "DT_RELENT \<equiv> 19"
abbreviation (input) DT_JMPREL :: u64 where "DT_JMPREL \<equiv> 23"
abbreviation (input) DT_GNU_HASH :: u64 where "DT_GNU_HASH \<equiv> 0x6ffffef5"
abbreviation (input) DT_VERSYM :: u64 where "DT_VERSYM \<equiv> 0x6ffffff0"
abbreviation (input) DT_VERDEF :: u64 where "DT_VERDEF \<equiv> 0x6ffffffc"
abbreviation (input) DT_VERDEFNUM :: u64 where "DT_VERDEFNUM \<equiv> 0x6ffffffd"
abbreviation (input) DT_VERNEED :: u64 where "DT_VERNEED \<equiv> 0x6ffffffe"
abbreviation (input) DT_VERNEEDNUM :: u64 where "DT_VERNEEDNUM \<equiv> 0x6fffffff"

section \<open>Names\<close>

definition elf_hash_step :: "u32 \<Rightarrow> u8 \<Rightarrow> u32" where
  "elf_hash_step h c =
     (let h = push_bit 4 h + ucast c; g = h AND 0xf0000000; h = (if g \<noteq> 0 then h XOR drop_bit 24 g else h)
      in h AND NOT g)"

definition elf_hash :: "cstring \<Rightarrow> u32" where
  "elf_hash name = foldl elf_hash_step 0 name"

definition gnu_hash :: "cstring \<Rightarrow> u32" where
  "gnu_hash name = foldl (\<lambda>h c. h + (push_bit 5 h + ucast c)) 5381 name"

text \<open>The string that starts at an address, and \<open>strcmp\<close> of it with a name.\<close>

partial_function (option) cstring_at :: "image \<Rightarrow> ptr \<Rightarrow> cstring option" where
  "cstring_at m a = (if m a = 0 then Some [] else Option.bind (cstring_at m (a + 1)) (\<lambda>s. Some (m a # s)))"

fun strcmp_eq :: "image \<Rightarrow> ptr \<Rightarrow> cstring \<Rightarrow> bool" where
  "strcmp_eq m a [] = (m a = 0)"
| "strcmp_eq m a (c # cs) = (m a = c \<and> strcmp_eq m (a + 1) cs)"

text \<open>\<open>Elf64_Sym\<close> and \<open>Elf32_Sym\<close>.\<close>

record Sym =
  st_name :: u32
  st_info :: u8
  st_shndx :: u16
  st_value :: u64

definition sym64 :: "image \<Rightarrow> ptr \<Rightarrow> u32 \<Rightarrow> Sym" where
  "sym64 m symtab i =
     (let a = symtab + 24 * ucast i in
      \<lparr>st_name = read32 m a, st_info = m (a + 4), st_shndx = read16 m (a + 6), st_value = read64 m (a + 8)\<rparr>)"

definition sym32 :: "image \<Rightarrow> ptr \<Rightarrow> u32 \<Rightarrow> Sym" where
  "sym32 m symtab i =
     (let a = symtab + 16 * ucast i in
      \<lparr>st_name = read32 m a, st_info = m (a + 12), st_shndx = read16 m (a + 14), st_value = ucast (read32 m (a + 4))\<rparr>)"

section \<open>Symbol lookup\<close>

definition arr_get :: "image \<Rightarrow> arr \<Rightarrow> u32 \<Rightarrow> elf_error + u32" where
  "arr_get m a i =
     (case a of No_array \<Rightarrow> Inl Null_deref
      | In_image p \<Rightarrow> Inr (read32 m (p + 4 * ucast i))
      | Heap xs \<Rightarrow> if unat i < length xs then Inr (xs ! unat i) else Inl Out_of_bounds)"

text \<open>The walk along a chain of the SYSV table; \<open>Inr None\<close> is its end without a match.\<close>

partial_function (option) sysv_walk ::
    "(u32 \<Rightarrow> elf_error + u32) \<Rightarrow> (u32 \<Rightarrow> bool) \<Rightarrow> u32 \<Rightarrow> u32 \<Rightarrow> (elf_error + u32 option) option" where
  "sysv_walk chain hit n idx =
     (if idx \<noteq> 0 \<and> idx < n then
        (if hit idx then Some (Inr (Some idx))
         else (case chain idx of Inl e \<Rightarrow> Some (Inl e) | Inr j \<Rightarrow> sysv_walk chain hit n j))
      else Some (Inr None))"

definition sym_of :: "image \<Rightarrow> ElfModule \<Rightarrow> u32 \<Rightarrow> Sym" where
  "sym_of m md idx = (if elf_class m md = ELFCLASS64 then sym64 m (md_dynsym md) idx else sym32 m (md_dynsym md) idx)"

definition sym_named :: "image \<Rightarrow> ElfModule \<Rightarrow> cstring \<Rightarrow> Sym \<Rightarrow> bool" where
  "sym_named m md name s = strcmp_eq m (md_dynstr md + ucast (st_name s)) name"

definition sym_addr :: "ElfModule \<Rightarrow> Sym \<Rightarrow> ptr" where
  "sym_addr md s = md_memory md + st_value s - md_load_bias md"

definition num_syms :: "ElfModule \<Rightarrow> u32" where
  "num_syms md = (if 0 < md_nchain md then md_nchain md else md_nbucket md)"

definition sysv_lookup :: "image \<Rightarrow> ElfModule \<Rightarrow> cstring \<Rightarrow> elf_error + u32 option" where
  "sysv_lookup m md name =
     (case arr_get m (md_bucket md) (elf_hash name mod md_nbucket md) of Inl e \<Rightarrow> Inl e
      | Inr idx \<Rightarrow>
          (case sysv_walk (arr_get m (md_chain md)) (\<lambda>i. sym_named m md name (sym_of m md i)) (num_syms md) idx of
             None \<Rightarrow> Inl Hang | Some r \<Rightarrow> r))"

text \<open>
  The walk along a chain of the GNU table, over the indices from the start of the bucket up to \<open>nchain\<close>; the last symbol of
  a chain has the lowest bit of its hash set.
\<close>

fun gnu_walk :: "(u32 \<Rightarrow> u32) \<Rightarrow> (u32 \<Rightarrow> bool) \<Rightarrow> u32 \<Rightarrow> u32 \<Rightarrow> u32 \<Rightarrow> u32 list \<Rightarrow> u32 option" where
  "gnu_walk chain hit h symoffset nchain [] = None"
| "gnu_walk chain hit h symoffset nchain (idx # rest) =
     (if nchain - symoffset \<le> idx - symoffset then None
      else if chain (idx - symoffset) OR 1 = h OR 1 \<and> hit idx then Some idx
      else if chain (idx - symoffset) AND 1 = 0 then gnu_walk chain hit h symoffset nchain rest else None)"

definition gnu_lookup :: "image \<Rightarrow> ElfModule \<Rightarrow> cstring \<Rightarrow> u32 option" where
  "gnu_lookup m md name =
     (let g = md_ghash md; nbuckets = read32 m g; symoffset = read32 m (g + 4); bloom_size = read32 m (g + 8) in
      if nbuckets = 0 \<or> bloom_size = 0 \<or> md_nchain md < symoffset then None
      else
        (let bloom = g + 16; buckets = bloom + 8 * ucast bloom_size; chain = buckets + 4 * ucast nbuckets;
             h = gnu_hash name; idx = read32 m (buckets + 4 * ucast (h mod nbuckets))
         in if symoffset \<le> idx \<and> idx < md_nchain md
            then gnu_walk (\<lambda>i. read32 m (chain + 4 * ucast i)) (\<lambda>i. sym_named m md name (sym64 m (md_dynsym md) i)) h
                   symoffset (md_nchain md) (map of_nat [unat idx..<unat (md_nchain md)])
            else None))"

text \<open>
  The result and what is stored in \<open>*symbol\<close>, \<open>None\<close> if nothing. A null module or name is \<open>None\<close>; \<open>out\<close> says that
  \<open>symbol\<close> is not null. \<open>dlsym\<close> gets the handle and the name.
\<close>

definition ElfGetSymbol :: "(ptr \<Rightarrow> cstring \<Rightarrow> ptr) \<Rightarrow> image \<Rightarrow> ElfModule option \<Rightarrow> cstring option \<Rightarrow> bool
    \<Rightarrow> elf_error + int \<times> ptr option" where
  "ElfGetSymbol dlsym m md name out =
     (case (md, name) of
        (Some md, Some name) \<Rightarrow>
          if \<not> out then Inr (ARM2X86_ERR_INVALID_PARAM, None)
          else
            (let found = (\<lambda>s. Inr (ARM2X86_OK, Some (sym_addr md s)));
                 fallback =
                   (if md_handle md \<noteq> NULL
                    then (if dlsym (md_handle md) name \<noteq> NULL then Inr (ARM2X86_OK, Some (dlsym (md_handle md) name))
                          else Inr (ARM2X86_ERR_LOAD_FAIL, Some NULL))
                    else Inr (ARM2X86_ERR_LOAD_FAIL, None));
                 gnu =
                   (if md_ghash md \<noteq> NULL then
                      (case gnu_lookup m md name of
                         Some i \<Rightarrow> found (sym64 m (md_dynsym md) i) | None \<Rightarrow> fallback)
                    else fallback)
             in if md_bucket md \<noteq> No_array \<and> md_dynsym md \<noteq> NULL \<and> md_dynstr md \<noteq> NULL \<and> 0 < md_nbucket md then
                  (case sysv_lookup m md name of Inl e \<Rightarrow> Inl e
                   | Inr (Some i) \<Rightarrow> found (sym_of m md i) | Inr None \<Rightarrow> gnu)
                else gnu)
      | _ \<Rightarrow> Inr (ARM2X86_ERR_INVALID_PARAM, None))"

section \<open>Building the symbol table\<close>

definition is_exported :: "Sym \<Rightarrow> bool" where
  "is_exported s \<longleftrightarrow> (drop_bit 4 (st_info s) = 1 \<or> drop_bit 4 (st_info s) = 2) \<and> st_shndx s \<noteq> 0 \<and> st_value s \<noteq> 0"

text \<open>The loop over the symbols, on the two arrays; the insertion is at the head of a chain.\<close>

fun build_loop :: "image \<Rightarrow> ElfModule \<Rightarrow> u32 list \<Rightarrow> u32 list \<Rightarrow> u32 list \<Rightarrow> elf_error + u32 list \<times> u32 list" where
  "build_loop m md [] bucket chain = Inr (bucket, chain)"
| "build_loop m md (i # is) bucket chain =
     (let s = sym64 m (md_dynsym md) i in
      if st_name s = 0 then Inr (bucket, chain)
      else if is_exported s then
        (case cstring_at m (md_dynstr md + ucast (st_name s)) of None \<Rightarrow> Inl Hang
         | Some name \<Rightarrow>
             (let b = unat (elf_hash name mod md_nbucket md) in
              if length chain \<le> unat i then Inl Out_of_bounds
              else build_loop m md is (bucket[b := i]) (chain[unat i := bucket ! b])))
      else build_loop m md is bucket chain)"

text \<open>The count of the symbols of the GNU table walks to the end of each chain; its result is not used.\<close>

partial_function (option) gnu_chain_end :: "(u32 \<Rightarrow> u32) \<Rightarrow> u32 \<Rightarrow> u32 \<Rightarrow> u32 option" where
  "gnu_chain_end chain symndx idx =
     (if chain (idx - symndx) AND 1 \<noteq> 0 then Some idx else gnu_chain_end chain symndx (idx + 1))"

definition build_gnu :: "bool \<Rightarrow> image \<Rightarrow> ElfModule \<Rightarrow> elf_error + int \<times> ElfModule" where
  "build_gnu malloc_ok m md =
     (let g = md_ghash md; nbuckets = read32 m g; symndx = read32 m (g + 4); maskwords = read32 m (g + 8);
          md = md\<lparr>md_nbucket := nbuckets\<rparr>
      in if \<not> malloc_ok then Inr (ARM2X86_ERR_MEMORY, md)
         else
           (let buckets = g + 4 * ucast (4 + maskwords * 2); chain = buckets + 4 * ucast nbuckets;
                bs = map (\<lambda>i. read32 m (buckets + 4 * of_nat i)) [0..<unat nbuckets]
            in if \<exists>b\<in>set bs. symndx \<le> b \<and> gnu_chain_end (\<lambda>i. read32 m (chain + 4 * ucast i)) symndx b = None
               then Inl Hang else Inr (ARM2X86_OK, md\<lparr>md_bucket := Heap bs\<rparr>)))"

text \<open>An array that has been freed while the module still points to it is \<open>Heap []\<close>.\<close>

definition ElfBuildSymbolTable :: "bool \<Rightarrow> bool \<Rightarrow> bool \<Rightarrow> image \<Rightarrow> ElfModule option \<Rightarrow> elf_error + int \<times> ElfModule option" where
  "ElfBuildSymbolTable malloc_bucket malloc_chain malloc_gnu m module =
     (case module of None \<Rightarrow> Inr (ARM2X86_ERR_INVALID_PARAM, None)
      | Some md \<Rightarrow>
          if md_dynsym md = NULL \<or> md_dynstr md = NULL then Inr (ARM2X86_OK, Some md)
          else
            (let n = (if num_syms md = 0 then 256 else num_syms md);
                 gnu = (\<lambda>md. if md_ghash md \<noteq> NULL \<and> md_bucket md = No_array
                             then map_sum id (apsnd Some) (build_gnu malloc_gnu m md) else Inr (ARM2X86_OK, Some md))
             in if md_hash md = NULL \<and> 0 < md_nbucket md then
                  (if \<not> malloc_bucket then Inr (ARM2X86_ERR_MEMORY, Some (md\<lparr>md_bucket := No_array\<rparr>))
                   else if \<not> malloc_chain then Inr (ARM2X86_ERR_MEMORY, Some (md\<lparr>md_bucket := Heap [], md_chain := No_array\<rparr>))
                   else
                     (case build_loop m md (map of_nat [1..<unat n]) (replicate (unat (md_nbucket md)) 0)
                             (replicate (unat (md_nchain md)) 0) of Inl e \<Rightarrow> Inl e
                      | Inr (bucket, chain) \<Rightarrow> gnu (md\<lparr>md_bucket := Heap bucket, md_chain := Heap chain\<rparr>)))
                else gnu md))"

section \<open>Relocation\<close>

abbreviation (input) R_AARCH64_ABS64 :: u64 where "R_AARCH64_ABS64 \<equiv> 257"
abbreviation (input) R_AARCH64_GLOB_DAT :: u64 where "R_AARCH64_GLOB_DAT \<equiv> 1025"
abbreviation (input) R_AARCH64_JUMP_SLOT :: u64 where "R_AARCH64_JUMP_SLOT \<equiv> 1026"
abbreviation (input) R_AARCH64_RELATIVE :: u64 where "R_AARCH64_RELATIVE \<equiv> 1027"
abbreviation (input) R_ARM_ABS32 :: u64 where "R_ARM_ABS32 \<equiv> 2"
abbreviation (input) R_ARM_GLOB_DAT :: u64 where "R_ARM_GLOB_DAT \<equiv> 21"
abbreviation (input) R_ARM_JUMP_SLOT :: u64 where "R_ARM_JUMP_SLOT \<equiv> 22"
abbreviation (input) R_ARM_RELATIVE :: u64 where "R_ARM_RELATIVE \<equiv> 23"

text \<open>\<open>dlsym\<close> on a name in memory; a name without end finds nothing.\<close>

definition dlsym_at :: "(ptr \<Rightarrow> cstring \<Rightarrow> ptr) \<Rightarrow> image \<Rightarrow> ptr \<Rightarrow> ptr \<Rightarrow> ptr" where
  "dlsym_at dlsym m h a = (case cstring_at m a of None \<Rightarrow> NULL | Some name \<Rightarrow> dlsym h name)"

definition in_range :: "u64 \<Rightarrow> u64 \<Rightarrow> u64 \<Rightarrow> bool" where
  "in_range bias sz off \<longleftrightarrow> \<not> (off < bias \<or> bias + sz \<le> off)"

definition loc_of :: "ElfModule \<Rightarrow> u64 \<Rightarrow> ptr" where
  "loc_of md off = md_memory md + off - md_load_bias md"

text \<open>One entry of the table \<open>rela\<close>, whose entries are 24 bytes long.\<close>

definition rela_step :: "(ptr \<Rightarrow> cstring \<Rightarrow> ptr) \<Rightarrow> ElfModule \<Rightarrow> ptr \<Rightarrow> nat \<Rightarrow> image \<Rightarrow> image" where
  "rela_step dlsym md rela j m =
     (let r = rela + of_nat (24 * j); off = read64 m r; info = read64 m (r + 8); addend = read64 m (r + 16);
          ty = take_bit 32 info; sym_idx = (ucast (drop_bit 32 info) :: u32);
          sym_ok = (\<not> (md_dynsym_sz md = 0 \<or> md_dynsym_sz md div 24 \<le> ucast sym_idx));
          symb = dlsym_at dlsym m NULL (md_dynstr md + ucast (st_name (sym64 m (md_dynsym md) sym_idx)))
      in if \<not> in_range (md_load_bias md) (md_mapped_size md) off then m
         else if ty = R_AARCH64_RELATIVE then write64 m (loc_of md off) (md_load_bias md + addend)
         else if ty = R_AARCH64_GLOB_DAT \<or> ty = R_AARCH64_ABS64 then
           (if sym_ok \<and> symb \<noteq> NULL then write64 m (loc_of md off) (symb + addend) else m)
         else if ty = R_AARCH64_JUMP_SLOT then
           (if sym_ok \<and> symb \<noteq> NULL then write64 m (loc_of md off) symb else m)
         else m)"

definition plt_step :: "(ptr \<Rightarrow> cstring \<Rightarrow> ptr) \<Rightarrow> ElfModule \<Rightarrow> ptr \<Rightarrow> nat \<Rightarrow> image \<Rightarrow> image" where
  "plt_step dlsym md rela j m =
     (let r = rela + of_nat (24 * j); off = read64 m r; info = read64 m (r + 8);
          ty = take_bit 32 info; sym_idx = (ucast (drop_bit 32 info) :: u32);
          sym_ok = (\<not> (md_dynsym_sz md = 0 \<or> md_dynsym_sz md div 24 \<le> ucast sym_idx));
          symb = dlsym_at dlsym m NULL (md_dynstr md + ucast (st_name (sym64 m (md_dynsym md) sym_idx)))
      in if ty = R_AARCH64_JUMP_SLOT \<and> sym_ok \<and> symb \<noteq> NULL \<and> in_range (md_load_bias md) (md_mapped_size md) off
         then write64 m (loc_of md off) symb else m)"

definition set_versions :: "u64 \<times> u64 \<Rightarrow> ElfModule \<Rightarrow> ElfModule" where
  "set_versions e md =
     (let (t, v) = e; p = md_memory md + v - md_load_bias md in
      if t = DT_VERNEED then md\<lparr>md_verneed := p\<rparr>
      else if t = DT_VERNEEDNUM then md\<lparr>md_verneednum := ucast v\<rparr>
      else if t = DT_VERDEF then md\<lparr>md_verdef := p\<rparr>
      else if t = DT_VERDEFNUM then md\<lparr>md_verdefnum := ucast v\<rparr>
      else if t = DT_VERSYM then md\<lparr>md_versym := p\<rparr> else md)"

text \<open>The calls of \<open>mprotect\<close> for the loaded segments: address, size and protection.\<close>

definition protect_calls :: "ptr \<Rightarrow> Phdr list \<Rightarrow> (ptr \<times> u64 \<times> u32) list" where
  "protect_calls base ps =
     map (\<lambda>p. (base + p_offset p, p_memsz p,
               1 OR (if p_flags p AND 2 \<noteq> 0 then 2 else 0) OR (if p_flags p AND 1 \<noteq> 0 then 4 else 0)))
       (filter (\<lambda>p. p_type p = PT_LOAD \<and> p_memsz p \<noteq> 0) ps)"

text \<open>\<open>n\<close> entries of a table that is there, with the division for \<open>n\<close>; an entry size of zero traps.\<close>

definition table_loop :: "(nat \<Rightarrow> image \<Rightarrow> image) \<Rightarrow> u64 \<Rightarrow> u64 \<Rightarrow> u64 \<Rightarrow> image \<Rightarrow> elf_error + image" where
  "table_loop entry addr sz ent m =
     (if addr \<noteq> 0 \<and> sz \<noteq> 0 then
        (if ent = 0 then Inl Div_by_zero else Inr (fold entry [0..<unat (sz div ent)] m))
      else Inr m)"

definition ElfRelocate :: "(ptr \<Rightarrow> cstring \<Rightarrow> ptr) \<Rightarrow> image \<Rightarrow> ElfModule option
    \<Rightarrow> elf_error + int \<times> ElfModule option \<times> image \<times> (ptr \<times> u64 \<times> u32) list" where
  "ElfRelocate dlsym m module =
     (case module of None \<Rightarrow> Inr (ARM2X86_ERR_INVALID_PARAM, None, m, [])
      | Some md \<Rightarrow>
          if elf_class m md \<noteq> ELFCLASS64 then Inr (ARM2X86_ERR_INVALID_PARAM, Some md, m, [])
          else
            (case dynamic64 m (md_memory md) of Inl e \<Rightarrow> Inl e
             | Inr ds \<Rightarrow>
                 (let phdr = phdrs64 m (md_memory md);
                      md = fold set_versions ds md;
                      rela_addr = dyn_val DT_RELA 0 ds; plt_addr = dyn_val DT_JMPREL 0 ds;
                      rela = md_memory md + rela_addr - md_load_bias md; plt = md_memory md + plt_addr - md_load_bias md
                  in case table_loop (rela_step dlsym md rela) rela_addr (dyn_val DT_RELASZ 0 ds) (dyn_val DT_RELAENT 24 ds) m of
                       Inl e \<Rightarrow> Inl e
                     | Inr m1 \<Rightarrow>
                         (case table_loop (plt_step dlsym md plt) plt_addr (dyn_val DT_PLTRELSZ 0 ds) 24 m1 of
                            Inl e \<Rightarrow> Inl e
                          | Inr m2 \<Rightarrow>
                              Inr (ARM2X86_OK, Some md, m2,
                                protect_calls (md_memory md) (map (phdr64 m2 phdr) [0..<phnum64 m2 (md_memory md)]))))))"

text \<open>The bounds of the 32-bit case are the load bias and the size itself.\<close>

definition rel_step :: "(ptr \<Rightarrow> cstring \<Rightarrow> ptr) \<Rightarrow> ElfModule \<Rightarrow> ptr \<Rightarrow> nat \<Rightarrow> image \<Rightarrow> image" where
  "rel_step dlsym md rel j m =
     (let r = rel + of_nat (8 * j); off = (ucast (read32 m r) :: u64); info = (ucast (read32 m (r + 4)) :: u64);
          ty = info AND 0xff; sym_idx = (ucast (drop_bit 8 info) :: u32);
          sym_ok = (\<not> (md_dynsym_sz md = 0 \<or> md_dynsym_sz md div 16 \<le> ucast sym_idx));
          symb = (if md_handle md \<noteq> NULL
                  then dlsym_at dlsym m (md_handle md) (md_dynstr md + ucast (st_name (sym32 m (md_dynsym md) sym_idx)))
                  else NULL)
      in if off < md_load_bias md \<or> md_size md \<le> off then m
         else if ty = R_ARM_RELATIVE then write32 m (loc_of md off) (read32 m (loc_of md off) + ucast (md_load_bias md))
         else if ty = R_ARM_ABS32 \<or> ty = R_ARM_GLOB_DAT \<or> ty = R_ARM_JUMP_SLOT then
           (if sym_ok \<and> symb \<noteq> NULL then write32 m (loc_of md off) (ucast symb) else m)
         else m)"

definition ElfRelocate32 :: "(ptr \<Rightarrow> cstring \<Rightarrow> ptr) \<Rightarrow> image \<Rightarrow> ElfModule option
    \<Rightarrow> elf_error + int \<times> image \<times> (ptr \<times> u64 \<times> u32) list" where
  "ElfRelocate32 dlsym m module =
     (case module of None \<Rightarrow> Inr (ARM2X86_ERR_INVALID_PARAM, m, [])
      | Some md \<Rightarrow>
          if elf_class m md \<noteq> ELFCLASS32 then Inr (ARM2X86_ERR_INVALID_PARAM, m, [])
          else
            (case dynamic32 m (md_memory md) of Inl e \<Rightarrow> Inl e
             | Inr ds \<Rightarrow>
                 (let phdr = phdrs32 m (md_memory md); rel_addr = dyn_val DT_REL 0 ds;
                      rel = md_memory md + rel_addr - md_load_bias md
                  in case table_loop (rel_step dlsym md rel) rel_addr (dyn_val DT_RELSZ 0 ds) (dyn_val DT_RELENT 8 ds) m of
                       Inl e \<Rightarrow> Inl e
                     | Inr m1 \<Rightarrow>
                         Inr (ARM2X86_OK, m1,
                           protect_calls (md_memory md) (map (phdr32 m1 phdr) [0..<phnum32 m1 (md_memory md)])))))"

section \<open>Loading\<close>

text \<open>
  The globals: the memory, the list of modules with its count, the modules by their address, and what has been unmapped.
  \<open>ElfExecuteFini\<close> returns at once.
\<close>

record elf_state =
  es_mem :: image
  g_module_list :: "ptr list"
  g_module_count :: int
  es_module :: "ptr \<Rightarrow> ElfModule"
  es_unmapped :: "(ptr \<times> u64) list"

definition ElfExecuteFini :: "ptr \<Rightarrow> elf_state \<Rightarrow> elf_state" where
  "ElfExecuteFini module s = s"

definition ElfUnload :: "ptr \<Rightarrow> elf_state \<Rightarrow> int \<times> elf_state" where
  "ElfUnload module s =
     (if module = NULL then (ARM2X86_OK, s)
      else
        (let s = ElfExecuteFini module s; md = es_module s module;
             s = (if md_memory md \<noteq> NULL \<and> md_memory md \<noteq> MAP_FAILED
                  then s\<lparr>es_unmapped := es_unmapped s @ [(md_memory md, md_size md)]\<rparr> else s);
             s = (if module \<in> set (g_module_list s)
                  then s\<lparr>g_module_list := remove1 module (g_module_list s), g_module_count := g_module_count s - 1\<rparr> else s)
         in (ARM2X86_OK, s)))"

definition zero_module :: ElfModule where
  "zero_module = \<lparr>md_handle = NULL, md_memory = NULL, md_size = 0, md_mapped_size = 0, md_load_bias = 0, md_dynsym = NULL,
     md_dynsym_sz = 0, md_dynstr = NULL, md_hash = NULL, md_ghash = NULL, md_nbucket = 0, md_nchain = 0,
     md_bucket = No_array, md_chain = No_array, md_verneed = NULL, md_verneednum = 0, md_verdef = NULL,
     md_verdefnum = 0, md_versym = NULL\<rparr>"

text \<open>A file as a memory of its own, and the highest address that its 64-bit program headers ask for.\<close>

definition file_image :: "u8 list \<Rightarrow> image" where
  "file_image f = (\<lambda>a. if unat a < length f then f ! unat a else 0)"

definition max_vaddr :: "u8 list \<Rightarrow> u64" where
  "max_vaddr f =
     (let h = file_image f; phoff = read64 h 32; n = phnum64 h 0; pos = (if bit phoff 63 then 0 else phoff) in
      if h 4 = ELFCLASS64 \<and> unat pos + 56 * n \<le> length f
      then fold (\<lambda>i r. let p = phdr64 h pos i; e = p_vaddr p + p_memsz p in if p_type p = PT_LOAD \<and> r < e then e else r)
             [0..<n] 0
      else 0)"

text \<open>The first loaded segment at offset 0 gives the load bias.\<close>

definition load_bias_of :: "Phdr list \<Rightarrow> u64" where
  "load_bias_of ps = (case find (\<lambda>p. p_type p = PT_LOAD \<and> p_offset p = 0) ps of None \<Rightarrow> 0 | Some p \<Rightarrow> p_vaddr p)"

text \<open>The switch over the dynamic section; \<open>sym_size\<close> is the size of a symbol, and the GNU table is known for 64 bits only.\<close>

definition load_dyn :: "image \<Rightarrow> bool \<Rightarrow> u64 \<Rightarrow> u64 \<times> u64 \<Rightarrow> ElfModule \<Rightarrow> ElfModule" where
  "load_dyn m gnu sym_size e md =
     (let (t, v) = e; p = md_memory md + v - md_load_bias md in
      if t = DT_SYMTAB then md\<lparr>md_dynsym := p\<rparr>
      else if t = DT_STRTAB then md\<lparr>md_dynstr := p\<rparr>
      else if t = DT_HASH then
        (let md = md\<lparr>md_nbucket := read32 m p, md_nchain := read32 m (p + 4), md_bucket := In_image (p + 8),
                      md_chain := In_image (p + 4 * ucast (2 + read32 m p))\<rparr>
         in if md_dynsym md \<noteq> NULL \<and> md_dynsym_sz md = 0
            then md\<lparr>md_dynsym_sz := ucast (md_nchain md) * sym_size\<rparr> else md)
      else if t = DT_GNU_HASH \<and> gnu then md\<lparr>md_ghash := p\<rparr>
      else md)"

definition load_headers :: "image \<Rightarrow> ElfModule \<Rightarrow> elf_error + ElfModule" where
  "load_headers m md =
     (if elf_class m md = ELFCLASS64 then
        (let b = md_memory md;
             md = md\<lparr>md_load_bias := load_bias_of (map (phdr64 m (phdrs64 m b)) [0..<phnum64 m b])\<rparr>
         in map_sum id (\<lambda>ds. fold (load_dyn m True 24) ds md) (dynamic64 m b))
      else if elf_class m md = ELFCLASS32 then
        (let b = md_memory md;
             md = md\<lparr>md_load_bias := load_bias_of (map (phdr32 m (phdrs32 m b)) [0..<phnum32 m b])\<rparr>
         in map_sum id (\<lambda>ds. fold (load_dyn m False 16) ds md) (dynamic32 m b))
      else Inr md)"

text \<open>
  \<open>null_arg\<close> says that one of the arguments is null; \<open>file\<close> is the content of the file, \<open>None\<close> if it cannot be opened; \<open>module\<close>, \<open>strdup_ok\<close>, \<open>fstat_ok\<close>, \<open>mmap_result\<close> and \<open>read_ok\<close> are
  what the system answers. A read gives the whole rest of the file.
\<close>

definition ElfLoad :: "bool \<Rightarrow> ptr \<Rightarrow> bool \<Rightarrow> u8 list option \<Rightarrow> bool \<Rightarrow> ptr \<Rightarrow> bool \<Rightarrow> elf_state \<Rightarrow> elf_error + int \<times> ptr option \<times> elf_state" where
  "ElfLoad null_arg module strdup_ok file fstat_ok mmap_result read_ok s =
     (if null_arg then Inr (ARM2X86_ERR_INVALID_PARAM, None, s)
      else if module = NULL \<or> \<not> strdup_ok then Inr (ARM2X86_ERR_MEMORY, None, s)
      else
        (let s = s\<lparr>es_module := (es_module s)(module := zero_module)\<rparr> in
         case file of None \<Rightarrow> Inr (ARM2X86_ERR_LOAD_FAIL, None, snd (ElfUnload module s))
         | Some f \<Rightarrow>
             if \<not> fstat_ok then Inr (ARM2X86_ERR_LOAD_FAIL, None, snd (ElfUnload module s))
             else if length f < 4096 then Inr (ARM2X86_ERR_LOAD_FAIL, None, s)
             else
               (let map_size = (if 0 < max_vaddr f then max_vaddr f else of_nat (length f));
                    md = zero_module\<lparr>md_size := of_nat (length f), md_memory := mmap_result\<rparr>;
                    s = s\<lparr>es_module := (es_module s)(module := md)\<rparr>
                in if mmap_result = MAP_FAILED then Inr (ARM2X86_ERR_LOAD_FAIL, None, snd (ElfUnload module s))
                   else if \<not> read_ok
                   then Inr (ARM2X86_ERR_LOAD_FAIL, None, s\<lparr>es_unmapped := es_unmapped s @ [(mmap_result, map_size)]\<rparr>)
                   else
                     (let m = (\<lambda>a. if unat (a - mmap_result) < length f then f ! unat (a - mmap_result)
                                   else if a - mmap_result < map_size then 0 else es_mem s a);
                          md = md\<lparr>md_mapped_size := map_size\<rparr>;
                          s = s\<lparr>es_mem := m, es_module := (es_module s)(module := md)\<rparr>
                      in if take 4 f \<noteq> [0x7f, 0x45, 0x4c, 0x46]
                         then Inr (ARM2X86_ERR_LOAD_FAIL, None, snd (ElfUnload module s))
                         else
                           (case load_headers m md of Inl e \<Rightarrow> Inl e
                            | Inr md \<Rightarrow>
                                Inr (ARM2X86_OK, Some module,
                                  s\<lparr>es_module := (es_module s)(module := md\<lparr>md_handle := NULL\<rparr>),
                                    g_module_list := module # g_module_list s, g_module_count := g_module_count s + 1\<rparr>))))))"

definition ElfDetectArch :: "bool \<Rightarrow> u8 list option \<Rightarrow> int \<times> Arm2x86Mode option" where
  "ElfDetectArch null_arg file =
     (if null_arg then (ARM2X86_ERR_INVALID_PARAM, None)
      else case file of None \<Rightarrow> (ARM2X86_ERR_LOAD_FAIL, None)
      | Some f \<Rightarrow>
          if length f < 16 \<or> take 4 f \<noteq> [0x7f, 0x45, 0x4c, 0x46] \<or> length f < 20 then (ARM2X86_ERR_LOAD_FAIL, None)
          else
            (let e_machine = read16 (file_image f) 18 in
             if f ! 4 = ELFCLASS64 \<and> e_machine = 183 then (ARM2X86_OK, Some ARM2X86_MODE_ARM64)
             else if f ! 4 = ELFCLASS32 \<and> e_machine = 40 then (ARM2X86_OK, Some ARM2X86_MODE_ARM32)
             else (ARM2X86_ERR_LOAD_FAIL, None)))"

section \<open>Symbol versions\<close>

text \<open>The entry of the chain of \<open>Elf64_Verdef\<close> with a version index, among at most \<open>n\<close> entries.\<close>

fun verdef_find :: "image \<Rightarrow> u16 \<Rightarrow> nat \<Rightarrow> ptr \<Rightarrow> ptr option" where
  "verdef_find m ver 0 current = None"
| "verdef_find m ver (Suc n) current =
     (if read16 m (current + 4) = ver then Some current
      else if read32 m (current + 16) = 0 then None
      else verdef_find m ver n (current + ucast (read32 m (current + 16))))"

text \<open>The same for \<open>Elf64_Vernaux\<close> below one entry of \<open>Elf64_Verneed\<close>, and over the chain of those.\<close>

fun vernaux_find :: "image \<Rightarrow> u16 \<Rightarrow> nat \<Rightarrow> ptr \<Rightarrow> ptr option" where
  "vernaux_find m ver 0 aux = None"
| "vernaux_find m ver (Suc n) aux =
     (if read16 m (aux + 6) = ver then Some aux
      else if read32 m (aux + 12) = 0 then None
      else vernaux_find m ver n (aux + ucast (read32 m (aux + 12))))"

fun verneed_find :: "image \<Rightarrow> u16 \<Rightarrow> nat \<Rightarrow> ptr \<Rightarrow> ptr option" where
  "verneed_find m ver 0 current = None"
| "verneed_find m ver (Suc n) current =
     (case vernaux_find m ver (unat (read16 m (current + 2))) (current + ucast (read32 m (current + 8))) of
        Some aux \<Rightarrow> Some aux
      | None \<Rightarrow>
          if read32 m (current + 12) = 0 then None
          else verneed_find m ver n (current + ucast (read32 m (current + 12))))"

text \<open>The address of the name of the version, \<open>None\<close> for a null pointer.\<close>

definition elf_get_symbol_version :: "image \<Rightarrow> ElfModule \<Rightarrow> u32 \<Rightarrow> ptr option" where
  "elf_get_symbol_version m md sym_idx =
     (if md_versym md = NULL then None
      else
        (let ver = read16 m (md_versym md + 2 * ucast sym_idx) in
         if ver \<le> 1 then None
         else
           (case (if md_verdef md \<noteq> NULL \<and> 0 < md_verdefnum md
                  then verdef_find m ver (unat (md_verdefnum md)) (md_verdef md) else None) of
              Some d \<Rightarrow> Some (md_dynstr md + ucast (read32 m (d + ucast (read32 m (d + 12)))))
            | None \<Rightarrow>
                (case (if md_verneed md \<noteq> NULL \<and> 0 < md_verneednum md
                       then verneed_find m ver (unat (md_verneednum md)) (md_verneed md) else None) of
                   Some aux \<Rightarrow> Some (md_dynstr md + ucast (read32 m (aux + 8)))
                 | None \<Rightarrow> None))))"

text \<open>The first symbol with a name, in front of the first one without; \<open>version\<close> is \<open>None\<close> when no version is asked for.\<close>

definition sym_index :: "image \<Rightarrow> ElfModule \<Rightarrow> cstring \<Rightarrow> u32 option" where
  "sym_index m md name =
     find (\<lambda>i. sym_named m md name (sym64 m (md_dynsym md) i))
       (takeWhile (\<lambda>i. st_name (sym64 m (md_dynsym md) i) \<noteq> 0) (map of_nat [1..<unat (num_syms md)]))"

definition elf_lookup_versioned_symbol :: "(ptr \<Rightarrow> cstring \<Rightarrow> ptr) \<Rightarrow> image \<Rightarrow> ElfModule \<Rightarrow> cstring \<Rightarrow> cstring option \<Rightarrow> ptr" where
  "elf_lookup_versioned_symbol dlsym m md name version =
     (if md_handle md = NULL \<or> dlsym (md_handle md) name = NULL then NULL
      else
        (case version of None \<Rightarrow> dlsym (md_handle md) name
         | Some v \<Rightarrow>
             (case sym_index m md name of None \<Rightarrow> NULL
              | Some i \<Rightarrow>
                  (case elf_get_symbol_version m md i of None \<Rightarrow> NULL
                   | Some a \<Rightarrow> if strcmp_eq m a v then dlsym (md_handle md) name else NULL))))"

text \<open>The number of required versions that are not found; a name without end counts as not found.\<close>

fun missing_aux :: "(ptr \<Rightarrow> cstring \<Rightarrow> ptr) \<Rightarrow> image \<Rightarrow> ElfModule \<Rightarrow> nat \<Rightarrow> ptr \<Rightarrow> nat" where
  "missing_aux dlsym m md 0 aux = 0"
| "missing_aux dlsym m md (Suc n) aux =
     (let miss = (case cstring_at m (md_dynstr md + ucast (read32 m (aux + 8))) of
                    None \<Rightarrow> 1
                  | Some v \<Rightarrow> if elf_lookup_versioned_symbol dlsym m md v (Some v) = NULL then 1 else 0)
      in if read32 m (aux + 12) = 0 then miss
         else miss + missing_aux dlsym m md n (aux + ucast (read32 m (aux + 12))))"

fun missing_versions :: "(ptr \<Rightarrow> cstring \<Rightarrow> ptr) \<Rightarrow> image \<Rightarrow> ElfModule \<Rightarrow> nat \<Rightarrow> ptr \<Rightarrow> nat" where
  "missing_versions dlsym m md 0 current = 0"
| "missing_versions dlsym m md (Suc n) current =
     (let miss = (if md_handle md \<noteq> NULL
                  then missing_aux dlsym m md (unat (read16 m (current + 2))) (current + ucast (read32 m (current + 8))) else 0)
      in if read32 m (current + 12) = 0 then miss
         else miss + missing_versions dlsym m md n (current + ucast (read32 m (current + 12))))"

definition elf_validate_versions :: "(ptr \<Rightarrow> cstring \<Rightarrow> ptr) \<Rightarrow> image \<Rightarrow> ElfModule option \<Rightarrow> int" where
  "elf_validate_versions dlsym m module =
     (case module of None \<Rightarrow> ARM2X86_ERR_INVALID_PARAM
      | Some md \<Rightarrow>
          if md_verneed md = NULL \<or> md_verneednum md = 0 then ARM2X86_OK
          else if 0 < missing_versions dlsym m md (unat (md_verneednum md)) (md_verneed md) then -1 else ARM2X86_OK)"

section \<open>Chains\<close>

text \<open>The nodes of a chain in the order of the walk.\<close>

fun walks :: "(u32 \<Rightarrow> elf_error + u32) \<Rightarrow> u32 \<Rightarrow> u32 \<Rightarrow> u32 list \<Rightarrow> bool" where
  "walks chain n idx [] = (idx = 0)"
| "walks chain n idx (j # js) = (idx = j \<and> j \<noteq> 0 \<and> j < n \<and> (\<exists>k. chain j = Inr k \<and> walks chain n k js))"

lemma sysv_walk_walks:
  "walks chain n idx js \<Longrightarrow> sysv_walk chain hit n idx = Some (Inr (find hit js))"
  by (induction js arbitrary: idx) (subst sysv_walk.simps, auto)+

lemma walks_cong:
  assumes "\<And>j. j \<in> set js \<Longrightarrow> chain' j = chain j"
  shows "walks chain' n idx js = walks chain n idx js"
  using assms by (induction js arbitrary: idx) auto

text \<open>Nodes without a match that lead to each other only are walked forever.\<close>

lemma sysv_walk_cycle:
  assumes "\<And>j. j \<in> C \<Longrightarrow> j \<noteq> 0 \<and> j < n \<and> \<not> hit j \<and> (\<exists>k\<in>C. chain j = Inr k)" and "idx \<in> C"
  shows "sysv_walk chain hit n idx = None"
proof -
  have "c = chain \<and> h = hit \<and> l = n \<longrightarrow> i \<notin> C" if "sysv_walk c h l i = Some r" for c h l i r
  proof (rule sysv_walk.raw_induct [where P = "\<lambda>c h l i r. c = chain \<and> h = hit \<and> l = n \<longrightarrow> i \<notin> C", OF _ that])
    fix walk c h l i r
    assume 1: "\<And>c h l i r. walk c h l i = Some r \<Longrightarrow> c = chain \<and> h = hit \<and> l = n \<longrightarrow> i \<notin> C"
      "(if i \<noteq> 0 \<and> i < l then if h i then Some (Inr (Some i))
        else case c i of Inl e \<Rightarrow> Some (Inl e) | Inr j \<Rightarrow> walk c h l j else Some (Inr None)) = Some r"
    show "c = chain \<and> h = hit \<and> l = n \<longrightarrow> i \<notin> C"
    proof (intro impI notI)
      assume eq: "c = chain \<and> h = hit \<and> l = n" and "i \<in> C"
      with assms(1) obtain k where "i \<noteq> 0" "i < n" "\<not> hit i" "k \<in> C" "chain i = Inr k" by blast
      with 1 eq show False by auto
    qed
  qed
  with assms(2) show ?thesis by (metis not_None_eq)
qed

section \<open>The table that is built, and lookups in it\<close>

text \<open>The string at an address and \<open>strcmp\<close> agree.\<close>

lemma strcmp_eq_cstring:
  assumes "cstring_at m a = Some s" and "0 \<notin> set name"
  shows "strcmp_eq m a name \<longleftrightarrow> s = name"
  using assms
proof (induction name arbitrary: a s)
  case Nil
  then show ?case by (subst (asm) cstring_at.simps) (auto split: if_splits bind_splits)
next
  case (Cons c cs)
  then show ?case by (subst (asm) (2) cstring_at.simps) (auto split: if_splits bind_splits)
qed

text \<open>
  The symbols that the loop reaches, those of them that are put into the table, and the name and the bucket of a symbol.
\<close>

definition reached :: "image \<Rightarrow> ElfModule \<Rightarrow> u32 list \<Rightarrow> u32 list" where
  "reached m md is = takeWhile (\<lambda>i. st_name (sym64 m (md_dynsym md) i) \<noteq> 0) is"

definition exported :: "image \<Rightarrow> ElfModule \<Rightarrow> u32 list \<Rightarrow> u32 list" where
  "exported m md is = filter (\<lambda>i. is_exported (sym64 m (md_dynsym md) i)) (reached m md is)"

definition name_of :: "image \<Rightarrow> ElfModule \<Rightarrow> u32 \<Rightarrow> cstring option" where
  "name_of m md i = cstring_at m (md_dynstr md + ucast (st_name (sym64 m (md_dynsym md) i)))"

definition bucket_of_sym :: "image \<Rightarrow> ElfModule \<Rightarrow> u32 \<Rightarrow> nat" where
  "bucket_of_sym m md i = unat (elf_hash (the (name_of m md i)) mod md_nbucket md)"

lemma unat_mod_less: "0 < (n :: u32) \<Longrightarrow> unat (h mod n) < unat n"
  by (simp add: unat_mod word_less_nat_alt)

lemma walks_update:
  assumes "walks (arr_get m (Heap chain)) n idx js" and "i \<notin> set js"
  shows "walks (arr_get m (Heap (chain[unat i := v]))) n idx js"
proof -
  have "arr_get m (Heap (chain[unat i := v])) j = arr_get m (Heap chain) j" if "j \<in> set js" for j
  proof -
    have "unat i \<noteq> unat j" using that assms(2) by (auto simp: word_unat_eq_iff [symmetric])
    then show ?thesis by (simp add: arr_get_def)
  qed
  with assms(1) show ?thesis by (simp cong: walks_cong)
qed

text \<open>
  The loop in the terms of the walks: it returns, and for every bucket the chain has the symbols of the bucket in the reverse of the order
  of their insertion, in front of what it had.
\<close>

lemma build_loop_walks:
  assumes "\<And>i. i \<in> set (exported m md is) \<Longrightarrow> name_of m md i \<noteq> None"
    and "\<And>i. i \<in> set is \<Longrightarrow> i \<noteq> 0 \<and> i < n \<and> unat i < length chain" and "distinct is"
    and "length bucket = unat (md_nbucket md)" and "0 < md_nbucket md"
    and "\<And>b. b < length bucket \<Longrightarrow> walks (arr_get m (Heap chain)) n (bucket ! b) (ls b)"
    and "\<And>b. b < length bucket \<Longrightarrow> set (ls b) \<inter> set is = {}"
  shows "\<exists>bucket' chain'. build_loop m md is bucket chain = Inr (bucket', chain') \<and> length bucket' = length bucket \<and>
    (\<forall>b < length bucket. walks (arr_get m (Heap chain')) n (bucket' ! b)
        (rev (filter (\<lambda>i. bucket_of_sym m md i = b) (exported m md is)) @ ls b))"
  using assms
proof (induction "is" arbitrary: bucket chain ls)
  case Nil
  then show ?case by (simp add: exported_def reached_def)
next
  case (Cons i "is")
  let ?s = "sym64 m (md_dynsym md) i"
  consider "st_name ?s = 0" | "st_name ?s \<noteq> 0" "\<not> is_exported ?s" | "st_name ?s \<noteq> 0" "is_exported ?s" by blast
  then show ?case
  proof cases
    case 1
    with Cons.prems show ?thesis by (simp add: exported_def reached_def)
  next
    case 2
    then have "exported m md (i # is) = exported m md is" and "build_loop m md (i # is) bucket chain = build_loop m md is bucket chain"
      by (simp_all add: exported_def reached_def)
    moreover have "\<exists>bucket' chain'. build_loop m md is bucket chain = Inr (bucket', chain') \<and> length bucket' = length bucket \<and>
      (\<forall>b < length bucket. walks (arr_get m (Heap chain')) n (bucket' ! b)
        (rev (filter (\<lambda>i. bucket_of_sym m md i = b) (exported m md is)) @ ls b))"
      by (rule Cons.IH) (use Cons.prems calculation in auto)
    ultimately show ?thesis by simp
  next
    case 3
    let ?b = "bucket_of_sym m md i"
    let ?bucket = "bucket[?b := i]" and ?chain = "chain[unat i := bucket ! ?b]"
    let ?ls = "ls(?b := i # ls ?b)"
    have b: "?b < length bucket" using Cons.prems(4,5) by (simp add: bucket_of_sym_def unat_mod_less)
    have i: "i \<noteq> 0" "i < n" "unat i < length chain" using Cons.prems(2) by auto
    from Cons.prems(1) 3 obtain nm where nm: "name_of m md i = Some nm" by (auto simp: exported_def reached_def)
    have w: "walks (arr_get m (Heap ?chain)) n (bucket ! c) (ls c)" if "c < length bucket" for c
      using Cons.prems(6,7) [OF that] by (intro walks_update) auto
    have "\<exists>bucket' chain'. build_loop m md is ?bucket ?chain = Inr (bucket', chain') \<and> length bucket' = length ?bucket \<and>
      (\<forall>b < length ?bucket. walks (arr_get m (Heap chain')) n (bucket' ! b)
        (rev (filter (\<lambda>i. bucket_of_sym m md i = b) (exported m md is)) @ ?ls b))"
    proof (rule Cons.IH)
      show "walks (arr_get m (Heap ?chain)) n (?bucket ! c) (?ls c)" if "c < length ?bucket" for c
        using that b i w by (auto simp: nth_list_update arr_get_def)
      show "set (?ls c) \<inter> set is = {}" if "c < length ?bucket" for c
        using that Cons.prems(3,7) by auto
    qed (use Cons.prems 3 in \<open>auto simp: exported_def reached_def\<close>)
    then obtain bucket' chain' where
      loop: "build_loop m md is ?bucket ?chain = Inr (bucket', chain')" "length bucket' = length bucket"
      and ws: "\<And>c. c < length bucket \<Longrightarrow> walks (arr_get m (Heap chain')) n (bucket' ! c)
        (rev (filter (\<lambda>i. bucket_of_sym m md i = c) (exported m md is)) @ ?ls c)" by auto
    have "build_loop m md (i # is) bucket chain = build_loop m md is ?bucket ?chain"
      using 3 nm i by (simp add: name_of_def bucket_of_sym_def Let_def)
    moreover have "exported m md (i # is) = i # exported m md is" using 3 by (simp add: exported_def reached_def)
    moreover have "walks (arr_get m (Heap chain')) n (bucket' ! c)
        (rev (filter (\<lambda>i. bucket_of_sym m md i = c) (i # exported m md is)) @ ls c)" if "c < length bucket" for c
      using ws [OF that] by (cases "c = ?b") auto
    ultimately show ?thesis using loop by auto
  qed
qed

lemma find_filter_hits: "(\<And>x. x \<in> set xs \<Longrightarrow> hit x \<Longrightarrow> P x) \<Longrightarrow> find hit (filter P xs) = find hit xs"
  by (induction xs) auto

text \<open>The indices of the symbols of a module that has a SYSV table.\<close>

definition sym_indices :: "ElfModule \<Rightarrow> u32 list" where
  "sym_indices md = map of_nat [1..<unat (md_nchain md)]"

lemma unat_u32_less: "unat (x :: u32) < 2 ^ 32"
  using unsigned_less [of x, where 'a = nat] by simp

lemma sym_indices:
  assumes "i \<in> set (sym_indices md)"
  shows "i \<noteq> 0" and "i < md_nchain md"
proof -
  from assms obtain k where k: "i = of_nat k" "0 < k" "k < unat (md_nchain md)"
    by (auto simp: sym_indices_def)
  with unat_u32_less [of "md_nchain md"] have "unat i = k" by (simp add: unat_of_nat)
  with k show "i \<noteq> 0" and "i < md_nchain md" by (auto simp: word_less_nat_alt)
qed

lemma distinct_sym_indices: "distinct (sym_indices md)"
  unfolding sym_indices_def
proof (subst distinct_map, intro conjI inj_onI)
  fix x y
  assume "x \<in> set [1..<unat (md_nchain md)]" "y \<in> set [1..<unat (md_nchain md)]" and eq: "(of_nat x :: u32) = of_nat y"
  with unat_u32_less [of "md_nchain md"] have "x < 2 ^ 32" "y < 2 ^ 32" by auto
  with arg_cong [OF eq, of unat] show "x = y" by (simp add: unat_of_nat)
qed simp

lemma walks_empty: "walks chain n 0 []"
  by simp

lemma named_iff:
  assumes "name_of m md i \<noteq> None" and "elf_class m md = ELFCLASS64" and "0 \<notin> set name"
  shows "sym_named m md name (sym_of m md i) \<longleftrightarrow> name_of m md i = Some name"
proof -
  from assms(1) obtain s where "name_of m md i = Some s" by blast
  with assms strcmp_eq_cstring show ?thesis by (auto simp: sym_named_def sym_of_def name_of_def)
qed

text \<open>The table that \<open>ElfBuildSymbolTable\<close> leaves, for any value of the other members.\<close>

lemma build_lookup:
  assumes syms: "md_dynsym md \<noteq> NULL" "md_dynstr md \<noteq> NULL" "md_hash md = NULL" "0 < md_nbucket md" "0 < md_nchain md"
    and "elf_class m md = ELFCLASS64"
    and names: "\<And>i. i \<in> set (exported m md (sym_indices md)) \<Longrightarrow> name_of m md i \<noteq> None" and "0 \<notin> set name"
  shows "\<exists>bucket chain. let md' = md\<lparr>md_bucket := Heap bucket, md_chain := Heap chain\<rparr> in
    ElfBuildSymbolTable True True ok m (Some md) = Inr (ARM2X86_OK, Some md') \<and>
    sysv_lookup m md' name = Inr (find (\<lambda>i. name_of m md i = Some name) (rev (exported m md (sym_indices md))))"
proof -
  let ?is = "sym_indices md" and ?nb = "unat (md_nbucket md)"
  have "\<exists>bucket chain. build_loop m md ?is (replicate ?nb 0) (replicate (unat (md_nchain md)) 0) = Inr (bucket, chain) \<and>
      length bucket = length (replicate ?nb (0 :: u32)) \<and>
      (\<forall>b < length (replicate ?nb (0 :: u32)). walks (arr_get m (Heap chain)) (md_nchain md) (bucket ! b)
        (rev (filter (\<lambda>i. bucket_of_sym m md i = b) (exported m md ?is)) @ []))"
    by (rule build_loop_walks) (use names sym_indices [of _ md] syms(4) distinct_sym_indices in \<open>auto simp: word_less_nat_alt\<close>)
  then obtain bucket chain where
    loop: "build_loop m md ?is (replicate ?nb 0) (replicate (unat (md_nchain md)) 0) = Inr (bucket, chain)"
    and len: "length bucket = ?nb"
    and ws: "\<And>b. b < ?nb \<Longrightarrow> walks (arr_get m (Heap chain)) (md_nchain md) (bucket ! b)
        (rev (filter (\<lambda>i. bucket_of_sym m md i = b) (exported m md ?is)))" by auto
  let ?md' = "md\<lparr>md_bucket := Heap bucket, md_chain := Heap chain\<rparr>"
  have "ElfBuildSymbolTable True True ok m (Some md) = Inr (ARM2X86_OK, Some ?md')"
    using syms loop by (simp add: ElfBuildSymbolTable_def num_syms_def sym_indices_def Let_def)
  moreover have "sysv_lookup m ?md' name = Inr (find (\<lambda>i. name_of m md i = Some name) (rev (exported m md ?is)))"
  proof -
    let ?b = "unat (elf_hash name mod md_nbucket md)"
    let ?hit = "\<lambda>i. sym_named m ?md' name (sym_of m ?md' i)"
    have hit: "?hit i \<longleftrightarrow> name_of m md i = Some name" if "i \<in> set (exported m md ?is)" for i
      using named_iff [OF names [OF that] assms(6,8)] assms(6) by (simp add: sym_named_def sym_of_def elf_class_def)
    have b: "?b < ?nb" using syms(4) by (rule unat_mod_less)
    then have "arr_get m (Heap bucket) (elf_hash name mod md_nbucket md) = Inr (bucket ! ?b)"
      by (simp add: arr_get_def len)
    moreover have "find ?hit (rev (filter (\<lambda>i. bucket_of_sym m md i = ?b) (exported m md ?is))) =
        find (\<lambda>i. name_of m md i = Some name) (rev (exported m md ?is))"
      (is "find _ ?l = _")
    proof -
      have "find ?hit ?l = find (\<lambda>i. name_of m md i = Some name) ?l" by (rule find_cong) (auto simp: hit)
      also have "\<dots> = find (\<lambda>i. name_of m md i = Some name) (rev (exported m md ?is))"
        unfolding rev_filter by (rule find_filter_hits) (simp add: bucket_of_sym_def)
      finally show ?thesis .
    qed
    ultimately show ?thesis
      using sysv_walk_walks [OF ws [OF b], of ?hit] syms(5) by (simp add: sysv_lookup_def num_syms_def)
  qed
  ultimately show ?thesis by (metis (no_types, lifting))
qed

text \<open>
  C21: the symbol table that \<open>ElfBuildSymbolTable\<close> builds and the lookups in it. For a 64-bit module with a SYSV table the build
  succeeds, and \<open>ElfGetSymbol\<close> then finds a name exactly if one of the exported symbols, in front of the first one
  without a name, has it: among several it gives the address of the last one. Both always return.
\<close>

theorem elf_build_then_lookup:
  assumes "md_dynsym md \<noteq> NULL" "md_dynstr md \<noteq> NULL" "md_hash md = NULL" "0 < md_nbucket md" "0 < md_nchain md"
    and "elf_class m md = ELFCLASS64" and "md_ghash md = NULL" "md_handle md = NULL"
    and "\<And>i. i \<in> set (exported m md (sym_indices md)) \<Longrightarrow> name_of m md i \<noteq> None" and "0 \<notin> set name"
  shows "\<exists>md'. ElfBuildSymbolTable True True True m (Some md) = Inr (ARM2X86_OK, Some md') \<and>
    ElfGetSymbol dlsym m (Some md') (Some name) True =
      Inr (case find (\<lambda>i. name_of m md i = Some name) (rev (exported m md (sym_indices md))) of
             Some i \<Rightarrow> (ARM2X86_OK, Some (sym_addr md (sym64 m (md_dynsym md) i)))
           | None \<Rightarrow> (ARM2X86_ERR_LOAD_FAIL, None))"
proof -
  from build_lookup [OF assms(1-6,9,10), of True] obtain bucket chain
    where 1: "ElfBuildSymbolTable True True True m (Some md) =
        Inr (ARM2X86_OK, Some (md\<lparr>md_bucket := Heap bucket, md_chain := Heap chain\<rparr>))"
      and 2: "sysv_lookup m (md\<lparr>md_bucket := Heap bucket, md_chain := Heap chain\<rparr>) name =
        Inr (find (\<lambda>i. name_of m md i = Some name) (rev (exported m md (sym_indices md))))"
    by (auto simp: Let_def)
  show ?thesis
    by (intro exI conjI, rule 1)
      (use assms 2 in \<open>simp add: ElfGetSymbol_def sym_of_def sym_addr_def elf_class_def split: option.split\<close>)
qed

text \<open>Two symbols \<open>f\<close>: the second one is found.\<close>

definition demo_image :: image where
  "demo_image a =
     (if a = 0x1004 then 2
      else if a = 0x2018 \<or> a = 0x2030 then 1
      else if a = 0x201c \<or> a = 0x2034 then 0x10
      else if a = 0x201e \<or> a = 0x2036 then 1
      else if a = 0x2020 then 0x40 else if a = 0x2038 then 0x80
      else if a = 0x3001 then 0x66 else 0)"

definition demo_module :: ElfModule where
  "demo_module = zero_module\<lparr>md_memory := 0x1000, md_dynsym := 0x2000, md_dynstr := 0x3000, md_nbucket := 1, md_nchain := 3\<rparr>"

lemma demo_symbols:
  "exported demo_image demo_module (sym_indices demo_module) = [1, 2]"
  "name_of demo_image demo_module 1 = Some [0x66]" "name_of demo_image demo_module 2 = Some [0x66]"
  "sym64 demo_image 0x2000 2 = \<lparr>st_name = 1, st_info = 0x10, st_shndx = 1, st_value = 0x80\<rparr>"
  by (simp_all add: exported_def reached_def sym_indices_def is_exported_def name_of_def sym64_def read32_def read16_def
      read64_def of_le32_def of_le64_def demo_image_def demo_module_def zero_module_def upt_rec cstring_at.simps)

theorem elf_build_then_lookup_witness:
  "\<exists>md'. ElfBuildSymbolTable True True True demo_image (Some demo_module) = Inr (ARM2X86_OK, Some md') \<and>
    ElfGetSymbol (\<lambda>h s. NULL) demo_image (Some md') (Some [0x66]) True = Inr (ARM2X86_OK, Some 0x1080)"
proof -
  have names: "name_of demo_image demo_module i \<noteq> None" if "i \<in> set (exported demo_image demo_module (sym_indices demo_module))" for i
    using that demo_symbols by auto
  have fields: "md_dynsym demo_module = 0x2000" "md_dynstr demo_module = 0x3000" "md_hash demo_module = NULL"
    "md_nbucket demo_module = 1" "md_nchain demo_module = 3" "elf_class demo_image demo_module = ELFCLASS64"
    "md_ghash demo_module = NULL" "md_handle demo_module = NULL" "md_memory demo_module = 0x1000" "md_load_bias demo_module = 0"
    by (simp_all add: demo_module_def zero_module_def elf_class_def demo_image_def)
  show ?thesis
    using elf_build_then_lookup [of demo_module demo_image "[0x66]" "\<lambda>h s. NULL", OF _ _ _ _ _ _ _ _ names]
    by (simp add: fields demo_symbols sym_addr_def)
qed

section \<open>Modules with a GNU table only\<close>

lemma fold_load_dyn_no_hash:
  assumes "\<And>v. (DT_HASH, v) \<notin> set ds" and "md_nchain md = 0" "md_bucket md = No_array"
  shows "md_nchain (fold (load_dyn m gnu k) ds md) = 0 \<and> md_bucket (fold (load_dyn m gnu k) ds md) = No_array"
  using assms
proof (induction ds arbitrary: md)
  case (Cons e ds)
  have "fst e \<noteq> DT_HASH" using Cons.prems(1) [of "snd e"] by (auto simp: prod_eq_iff)
  then have "md_nchain (load_dyn m gnu k e md) = 0 \<and> md_bucket (load_dyn m gnu k e md) = No_array"
    using Cons.prems(2,3) by (simp add: load_dyn_def case_prod_beta Let_def)
  then show ?case using Cons.prems(1) Cons.IH by simp
qed simp

lemma gnu_lookup_no_chain: "md_nchain md = 0 \<Longrightarrow> gnu_lookup m md name = None"
  by (simp add: gnu_lookup_def Let_def)

text \<open>
  A module whose dynamic section has no \<open>DT_HASH\<close>, as linkers produce them by default for Android, has no symbols for
  \<open>ElfGetSymbol\<close>, whatever its \<open>DT_GNU_HASH\<close> table says: the number of symbols, by which the walk along the GNU table is
  bounded, is taken from the SYSV table only.
\<close>

lemma elf_gnu_only_not_found:
  assumes "dynamic64 m base = Inr ds" and "\<And>v. (DT_HASH, v) \<notin> set ds" and "elf_class m (zero_module\<lparr>md_memory := base\<rparr>) = ELFCLASS64"
  shows "\<exists>md. load_headers m (zero_module\<lparr>md_memory := base\<rparr>) = Inr md \<and>
    (\<forall>name. ElfGetSymbol dlsym m (Some (md\<lparr>md_handle := NULL\<rparr>)) (Some name) True = Inr (ARM2X86_ERR_LOAD_FAIL, None))"
proof -
  let ?md0 = "zero_module\<lparr>md_memory := base, md_load_bias := load_bias_of (map (phdr64 m (phdrs64 m base)) [0..<phnum64 m base])\<rparr>"
  let ?md = "fold (load_dyn m True 24) ds ?md0"
  have "load_headers m (zero_module\<lparr>md_memory := base\<rparr>) = Inr ?md"
    using assms(1,3) by (simp add: load_headers_def Let_def)
  moreover have "md_nchain ?md = 0 \<and> md_bucket ?md = No_array"
    by (rule fold_load_dyn_no_hash) (use assms(2) in \<open>simp_all add: zero_module_def\<close>)
  ultimately show ?thesis
    by (auto simp: ElfGetSymbol_def gnu_lookup_no_chain Let_def)
qed

text \<open>A header with one dynamic segment, whose section has a \<open>DT_GNU_HASH\<close> entry and nothing else.\<close>

definition gnu_image :: image where
  "gnu_image a =
     (if a = 0x1004 then 2 else if a = 0x1020 then 0x40 else if a = 0x1038 then 1
      else if a = 0x1040 then 2 else if a = 0x1048 then 0x80
      else if a = 0x1080 then 0xf5 else if a = 0x1081 then 0xfe else if a = 0x1082 then 0xff else if a = 0x1083 then 0x6f
      else if a = 0x1088 then 0xa0 else 0)"

lemma gnu_image_dynamic: "dynamic64 gnu_image 0x1000 = Inr [(DT_GNU_HASH, 0xa0)]"
  by (simp add: dynamic64_def phnum64_def phdrs64_def phdr64_def dyn_entries.simps dyn64_def read16_def read32_def read64_def
      of_le32_def of_le64_def gnu_image_def upt_rec)

lemma elf_gnu_only_not_found_witness:
  "\<exists>md. load_headers gnu_image (zero_module\<lparr>md_memory := 0x1000\<rparr>) = Inr md \<and>
    ElfGetSymbol (\<lambda>h s. NULL) gnu_image (Some (md\<lparr>md_handle := NULL\<rparr>)) (Some [0x66]) True = Inr (ARM2X86_ERR_LOAD_FAIL, None)"
proof -
  have "\<And>v. (DT_HASH, v) \<notin> set [(DT_GNU_HASH, 0xa0)]" by simp
  moreover have "elf_class gnu_image (zero_module\<lparr>md_memory := 0x1000\<rparr>) = ELFCLASS64"
    by (simp add: elf_class_def gnu_image_def)
  ultimately show ?thesis using elf_gnu_only_not_found [OF gnu_image_dynamic] by blast
qed

end
