(* ===== verification/Reloc.thy ===== *)
theory Reloc
  imports Elf
begin

text \<open>
  \<open>src/modules/arm2x86_syscall.c\<close>, the relocations of Android: the compact table \<open>DT_RELR\<close> and the packed table
  \<open>DT_ANDROID_REL\<close> with its LEB128 numbers. The C shift by 64 or more in the decoders is undefined; here it gives zero.
  Then the safety of all relocation functions: what they can write, whatever the image says.
\<close>

section \<open>Compact relocations\<close>

abbreviation (input) DT_RELRSZ :: u64 where "DT_RELRSZ \<equiv> 35"
abbreviation (input) DT_RELR :: u64 where "DT_RELR \<equiv> 36"
abbreviation (input) DT_RELRENT :: u64 where "DT_RELRENT \<equiv> 37"

text \<open>\<open>*loc += load_bias\<close> if the address is in range.\<close>

definition relr_apply :: "ElfModule \<Rightarrow> u64 \<Rightarrow> image \<Rightarrow> image" where
  "relr_apply md addr m =
     (if md_load_bias md \<le> addr \<and> addr < md_load_bias md + md_size md
      then write64 m (loc_of md addr) (read64 m (loc_of md addr) + md_load_bias md) else m)"

definition relr_apply32 :: "ElfModule \<Rightarrow> u32 \<Rightarrow> image \<Rightarrow> image" where
  "relr_apply32 md addr m =
     (if md_load_bias md \<le> ucast addr \<and> ucast addr < md_load_bias md + md_size md
      then write32 m (loc_of md (ucast addr)) (read32 m (loc_of md (ucast addr)) + ucast (md_load_bias md)) else m)"

text \<open>
  The entries are read while earlier relocations may already have changed them: the table is a place in memory. \<open>n\<close>
  counts the entries that are left. In a bitmap run \<open>base\<close> is the address of the run and \<open>k\<close> the number of bits in front.
\<close>

definition relr_bits :: "ElfModule \<Rightarrow> u64 \<Rightarrow> u64 \<Rightarrow> u64 \<Rightarrow> image \<Rightarrow> image" where
  "relr_bits md base k bitmap m =
     fold (\<lambda>b m. if bit bitmap b then relr_apply md (base + (k + of_nat b) * 8) m else m) [0..<64] m"

text \<open>The rest of the table as the two loops see it; in the inner loop (\<open>Some (base, k)\<close>) the next entry is taken as a bitmap.\<close>

fun relr_loop :: "ElfModule \<Rightarrow> nat \<Rightarrow> ptr \<Rightarrow> u64 \<Rightarrow> u64 option \<Rightarrow> image \<Rightarrow> image" where
  "relr_loop md 0 p addr rn m = m"
| "relr_loop md (Suc n) p addr (Some k) m =
     (let m = relr_bits md addr k (read64 m p) m;
          next = read64 m (p + 8)
      in if n = 0 then m
         else if next \<noteq> 0 then relr_loop md n (p + 8) addr None m
         else relr_loop md n (p + 8) addr (Some (k + 64)) m)"
| "relr_loop md (Suc n) p addr None m =
     (let entry = read64 m p in
      if bit entry 0 then relr_loop md n (p + 8) (addr + 8) None (relr_apply md (addr + 8) m)
      else if entry = 0 then relr_loop md n (p + 8) addr None m
      else relr_loop md n (p + 8) entry (Some 0) m)"

definition relr_bits32 :: "ElfModule \<Rightarrow> u32 \<Rightarrow> u32 \<Rightarrow> u32 \<Rightarrow> image \<Rightarrow> image" where
  "relr_bits32 md base k bitmap m =
     fold (\<lambda>b m. if bit bitmap b then relr_apply32 md (base + (k + of_nat b) * 4) m else m) [0..<32] m"

fun relr_loop32 :: "ElfModule \<Rightarrow> nat \<Rightarrow> ptr \<Rightarrow> u32 \<Rightarrow> u32 option \<Rightarrow> image \<Rightarrow> image" where
  "relr_loop32 md 0 p addr rn m = m"
| "relr_loop32 md (Suc n) p addr (Some k) m =
     (let m = relr_bits32 md addr k (read32 m p) m;
          next = read32 m (p + 4)
      in if n = 0 then m
         else if next \<noteq> 0 then relr_loop32 md n (p + 4) addr None m
         else relr_loop32 md n (p + 4) addr (Some (k + 32)) m)"
| "relr_loop32 md (Suc n) p addr None m =
     (let entry = read32 m p in
      if bit entry 0 then relr_loop32 md n (p + 4) (addr + 4) None (relr_apply32 md (addr + 4) m)
      else if entry = 0 then relr_loop32 md n (p + 4) addr None m
      else relr_loop32 md n (p + 4) entry (Some 0) m)"

text \<open>The table with its first entry, which is an address.\<close>

definition relr_table :: "ElfModule \<Rightarrow> nat \<Rightarrow> ptr \<Rightarrow> image \<Rightarrow> image" where
  "relr_table md n p m =
     (if n = 0 then m
      else (let addr = read64 m p in relr_loop md (n - 1) (p + 8) addr None (relr_apply md addr m)))"

definition relr_table32 :: "ElfModule \<Rightarrow> nat \<Rightarrow> ptr \<Rightarrow> image \<Rightarrow> image" where
  "relr_table32 md n p m =
     (if n = 0 then m
      else (let addr = read32 m p in relr_loop32 md (n - 1) (p + 4) addr None (relr_apply32 md addr m)))"

definition apply_relr_relocations :: "image \<Rightarrow> ElfModule option \<Rightarrow> elf_error + int \<times> image" where
  "apply_relr_relocations m module =
     (case module of None \<Rightarrow> Inr (ARM2X86_ERR_INVALID_PARAM, m)
      | Some md \<Rightarrow>
          if md_memory md = NULL then Inr (ARM2X86_ERR_INVALID_PARAM, m)
          else
            (let table = (\<lambda>tab ent0 ds.
                   let addr = dyn_val DT_RELR 0 ds; sz = dyn_val DT_RELRSZ 0 ds; ent = dyn_val DT_RELRENT 0 ds;
                       ent = (if ent = 0 then ent0 else ent)
                   in if addr = 0 \<or> sz = 0 then Inr (ARM2X86_OK, m)
                      else Inr (ARM2X86_OK, tab md (unat (sz div ent)) (md_memory md + addr - md_load_bias md) m))
             in if elf_class m md = ELFCLASS64 then
                  (case dynamic64 m (md_memory md) of Inl e \<Rightarrow> Inl e | Inr ds \<Rightarrow> table relr_table 8 ds)
                else if elf_class m md = ELFCLASS32 then
                  (case dynamic32 m (md_memory md) of Inl e \<Rightarrow> Inl e | Inr ds \<Rightarrow> table relr_table32 4 ds)
                else Inr (ARM2X86_OK, m)))"

section \<open>Numbers in LEB128\<close>

text \<open>The decoders read as long as the highest bit of a byte is set. The results are the number and the address behind it.\<close>

partial_function (option) uleb128_loop :: "image \<Rightarrow> ptr \<Rightarrow> nat \<Rightarrow> u64 \<Rightarrow> (u64 \<times> nat \<times> u8 \<times> ptr) option" where
  "uleb128_loop m p sh r =
     (let r' = r OR push_bit sh (ucast (m p AND 0x7f))
      in if m p AND 0x80 \<noteq> 0 then uleb128_loop m (p + 1) (sh + 7) r' else Some (r', sh + 7, m p, p + 1))"

definition decode_uleb128 :: "image \<Rightarrow> ptr \<Rightarrow> (u64 \<times> ptr) option" where
  "decode_uleb128 m p = map_option (\<lambda>(r, sh, b, q). (r, q)) (uleb128_loop m p 0 0)"

definition decode_sleb128 :: "image \<Rightarrow> ptr \<Rightarrow> (u64 \<times> ptr) option" where
  "decode_sleb128 m p =
     map_option (\<lambda>(r, sh, b, q). (if sh < 64 \<and> b AND 0x40 \<noteq> 0 then r OR - push_bit sh 1 else r, q)) (uleb128_loop m p 0 0)"

section \<open>Packed relocations\<close>

abbreviation (input) DT_ANDROID_REL :: u64 where "DT_ANDROID_REL \<equiv> 0x6ffffffa"
abbreviation (input) DT_ANDROID_RELSZ :: u64 where "DT_ANDROID_RELSZ \<equiv> 0x6ffffffb"

text \<open>One relocation at an offset.\<close>

definition packed_apply64 :: "(ptr \<Rightarrow> cstring \<Rightarrow> ptr) \<Rightarrow> ElfModule \<Rightarrow> u64 \<Rightarrow> u64 \<Rightarrow> u64 \<Rightarrow> image \<Rightarrow> image" where
  "packed_apply64 dlsym md ty addend off m =
     (let relative = write64 m (loc_of md off) (md_load_bias md + addend);
          sym_idx = (ucast addend :: u32);
          symb = (if md_handle md \<noteq> NULL
                  then dlsym_at dlsym m (md_handle md) (md_dynstr md + ucast (st_name (sym64 m (md_dynsym md) sym_idx))) else NULL)
      in if \<not> in_range (md_load_bias md) (md_size md) off then m
         else if ty = R_AARCH64_RELATIVE then relative
         else if ty = R_AARCH64_GLOB_DAT \<or> ty = R_AARCH64_ABS64 \<or> ty = R_AARCH64_JUMP_SLOT then
           (if md_dynsym md = NULL then m
            else if 0 < sym_idx \<and> ucast sym_idx < md_size md div 24 then
              (if symb \<noteq> NULL then write64 m (loc_of md off) (symb + addend)
               else if ty = R_AARCH64_ABS64 then relative else m)
            else if ty = R_AARCH64_ABS64 then relative else m)
         else relative)"

definition packed_apply32 :: "(ptr \<Rightarrow> cstring \<Rightarrow> ptr) \<Rightarrow> ElfModule \<Rightarrow> u64 \<Rightarrow> u64 \<Rightarrow> u64 \<Rightarrow> image \<Rightarrow> image" where
  "packed_apply32 dlsym md ty addend off m =
     (let relative = write32 m (loc_of md off) (read32 m (loc_of md off) + ucast (md_load_bias md + addend));
          sym_idx = (ucast addend :: u32);
          symb = (if md_handle md \<noteq> NULL
                  then dlsym_at dlsym m (md_handle md) (md_dynstr md + ucast (st_name (sym32 m (md_dynsym md) sym_idx))) else NULL)
      in if \<not> in_range (md_load_bias md) (md_size md) off then m
         else if ty = R_ARM_RELATIVE then relative
         else if ty = R_ARM_ABS32 \<or> ty = R_ARM_GLOB_DAT \<or> ty = R_ARM_JUMP_SLOT then
           (if md_dynsym md = NULL then m
            else if 0 < sym_idx \<and> ucast sym_idx < md_size md div 16 \<and> symb \<noteq> NULL
            then write32 m (loc_of md off) (ucast symb + ucast addend)
            else relative)
         else relative)"

text \<open>
  The loop over the offsets of a group: \<open>n\<close> offsets are left in the group, \<open>k\<close> relocations in all; the state is the pointer,
  the current offset and the memory. \<open>apply\<close> is one of the two functions above.
\<close>

fun packed_group :: "(u64 \<Rightarrow> image \<Rightarrow> image) \<Rightarrow> ptr \<Rightarrow> nat \<Rightarrow> nat \<Rightarrow> ptr \<Rightarrow> u64 \<Rightarrow> image \<Rightarrow> (nat \<times> ptr \<times> u64 \<times> image) option" where
  "packed_group reloc fin 0 k p off m = Some (k, p, off, m)"
| "packed_group reloc fin (Suc n) k p off m =
     (if p < fin \<and> 0 < k then
        (case decode_uleb128 m p of None \<Rightarrow> None
         | Some (delta, p) \<Rightarrow> packed_group reloc fin n (k - 1) p (off + delta) (reloc (off + delta) m))
      else Some (k, p, off, m))"

text \<open>The loop over the groups. A group has at least one offset when it is processed, so that \<open>k\<close> rounds are enough.\<close>

fun packed_loop :: "(u64 \<Rightarrow> u64 \<Rightarrow> u64 \<Rightarrow> image \<Rightarrow> image) \<Rightarrow> ptr \<Rightarrow> nat \<Rightarrow> nat \<Rightarrow> ptr \<Rightarrow> u64 \<Rightarrow> image \<Rightarrow> image option" where
  "packed_loop reloc fin 0 k p off m = Some m"
| "packed_loop reloc fin (Suc fuel) k p off m =
     (if 0 < k \<and> p < fin then
        (case decode_uleb128 m p of None \<Rightarrow> None
         | Some (count, p) \<Rightarrow>
             if count = 0 \<or> fin \<le> p then Some m
             else (case decode_uleb128 m p of None \<Rightarrow> None
             | Some (ty, p) \<Rightarrow>
                 if fin \<le> p then Some m
                 else (case decode_sleb128 m p of None \<Rightarrow> None
                 | Some (addend, p) \<Rightarrow>
                     if fin \<le> p then Some m
                     else (case packed_group (reloc ty addend) fin (unat count) k p off m of None \<Rightarrow> None
                     | Some (k, p, off, m) \<Rightarrow> packed_loop reloc fin fuel k p off m))))
      else Some m)"

definition apply_android_packed_relocs :: "(ptr \<Rightarrow> cstring \<Rightarrow> ptr) \<Rightarrow> image \<Rightarrow> ElfModule option \<Rightarrow> elf_error + int \<times> image" where
  "apply_android_packed_relocs dlsym m module =
     (case module of None \<Rightarrow> Inr (ARM2X86_ERR_INVALID_PARAM, m)
      | Some md \<Rightarrow>
          if md_memory md = NULL then Inr (ARM2X86_ERR_INVALID_PARAM, m)
          else
            (let is64 = (elf_class m md = ELFCLASS64);
                 reloc = (if is64 then packed_apply64 dlsym md else packed_apply32 dlsym md)
             in case (if is64 then dynamic64 m (md_memory md) else dynamic32 m (md_memory md)) of Inl e \<Rightarrow> Inl e
                | Inr ds \<Rightarrow>
                    (let addr = dyn_val DT_ANDROID_REL 0 ds; sz = dyn_val DT_ANDROID_RELSZ 0 ds;
                         p = md_memory md + addr - md_load_bias md; fin = p + sz
                     in if addr = 0 \<or> sz = 0 \<or> fin < p + 2 then Inr (ARM2X86_OK, m)
                        else
                          (case decode_uleb128 m p of None \<Rightarrow> Inl Hang
                           | Some (count, p) \<Rightarrow>
                               (case decode_uleb128 m p of None \<Rightarrow> Inl Hang
                                | Some (reloc_sz, p) \<Rightarrow>
                                    if count = 0 \<or> fin \<le> p then Inr (ARM2X86_OK, m)
                                    else (case packed_loop reloc fin (unat count) (unat count) p 0 m of
                                            None \<Rightarrow> Inl Hang | Some m \<Rightarrow> Inr (ARM2X86_OK, m)))))))"

section \<open>LEB128 round trips\<close>

text \<open>The encodings as the DWARF standard defines them.\<close>

fun uleb128 :: "nat \<Rightarrow> u8 list" where
  "uleb128 n = (if n < 128 then [of_nat n] else (of_nat (n mod 128) OR 0x80) # uleb128 (n div 128))"

declare uleb128.simps [simp del]

function sleb128 :: "int \<Rightarrow> u8 list" where
  "sleb128 i = (if -64 \<le> i \<and> i < 64 then [of_int (i mod 128)] else (of_int (i mod 128) OR 0x80) # sleb128 (i div 128))"
  by auto
termination
  by (relation "measure (\<lambda>i. nat \<bar>i\<bar>)") auto

declare sleb128.simps [simp del]

definition holds :: "image \<Rightarrow> ptr \<Rightarrow> u8 list \<Rightarrow> bool" where
  "holds m p bs \<longleftrightarrow> (\<forall>k < length bs. m (p + of_nat k) = bs ! k)"

lemma holds_Cons: "holds m p (b # bs) \<longleftrightarrow> m p = b \<and> holds m (p + 1) bs"
  by (auto simp: holds_def less_Suc_eq_0_disj nth_Cons' add.assoc)

lemma holds_Nil [simp]: "holds m p []"
  by (simp add: holds_def)

text \<open>Seven bits of a number in a byte, and the number from them and the rest.\<close>

lemma mod_take_bit: "i mod 128 = take_bit 7 (i :: int)" and div_drop_bit: "i div 128 = drop_bit 7 (i :: int)"
  by (simp_all add: take_bit_eq_mod drop_bit_eq_div)

lemma bit_byte_masks: "bit (0x80 :: u8) n \<longleftrightarrow> n = 7" "bit (0x7f :: u8) n \<longleftrightarrow> n < 7" "bit (0x40 :: u8) n \<longleftrightarrow> n = 6"
proof -
  have "(0x80 :: u8) = 2 ^ 7" "(0x7f :: u8) = mask 7" "(0x40 :: u8) = 2 ^ 6" by (simp_all add: mask_eq_exp_minus_1)
  then show "bit (0x80 :: u8) n \<longleftrightarrow> n = 7" "bit (0x7f :: u8) n \<longleftrightarrow> n < 7" "bit (0x40 :: u8) n \<longleftrightarrow> n = 6"
    by (auto simp only: bit_mask_iff bit_exp_iff possible_bit_word) simp_all
qed

lemma bit_of_int_word: "bit (of_int i :: 'a::len word) n \<longleftrightarrow> n < LENGTH('a) \<and> bit i n"
  by (simp add: bit_simps)

lemma low_byte:
  "(of_int (i mod 128) :: u8) AND 0x80 = 0" "(of_int (i mod 128) OR 0x80 :: u8) AND 0x80 = 0x80"
  "(of_int (i mod 128) OR 0x80 :: u8) AND 0x7f = of_int (i mod 128)" "(of_int (i mod 128) :: u8) AND 0x7f = of_int (i mod 128)"
  "ucast (of_int (i mod 128) :: u8) = (of_int (i mod 128) :: u64)"
  by (rule bit_word_eqI; simp only: mod_take_bit bit_and_iff bit_or_iff bit_byte_masks bit_of_int_word bit_take_bit_iff
      bit_unsigned_iff bit_0_eq possible_bit_word bot_apply bot_bool_def; auto)+

lemma split_seven: "(of_int i :: u64) = of_int (i mod 128) OR push_bit 7 (of_int (i div 128))"
  unfolding mod_take_bit div_drop_bit by (rule bit_word_eqI) (auto simp: bit_simps)

lemma push_split: "push_bit sh (of_int i :: u64) = push_bit sh (of_int (i mod 128)) OR push_bit (sh + 7) (of_int (i div 128))"
  by (subst split_seven) (simp add: push_bit_or)

lemma of_nat_div_int: "(of_nat (n div 128) :: u64) = of_int (int n div 128)"
  by (metis of_int_of_nat_eq of_nat_numeral zdiv_int)

text \<open>The loop on an encoded number.\<close>

lemma uleb128_loop_encoded:
  "holds m p (uleb128 n) \<Longrightarrow> \<exists>sh' b. uleb128_loop m p sh r =
     Some (r OR push_bit sh (of_nat n), sh', b, p + of_nat (length (uleb128 n)))"
proof (induction n arbitrary: p sh r rule: uleb128.induct)
  case (1 n)
  have nat: "(of_nat n :: 'a::len word) = of_int (int n)" "int (n mod 128) = int n mod 128" for n by (simp_all add: zmod_int)
  show ?case
  proof (cases "n < 128")
    case True
    then have "int n mod 128 = int n" by simp
    with 1 True low_byte [of "int n"] show ?thesis
      by (subst uleb128_loop.simps) (simp add: uleb128.simps [of n] holds_Cons)
  next
    case False
    then have "m p = of_int (int n mod 128) OR 0x80" and rest: "holds m (p + 1) (uleb128 (n div 128))"
      using 1(2) by (simp_all add: uleb128.simps [of n] holds_Cons zmod_int [of n 128, symmetric, simplified])
    with low_byte [of "int n"] have "uleb128_loop m p sh r = uleb128_loop m (p + 1) (sh + 7) (r OR push_bit sh (of_int (int n mod 128)))"
      by (subst uleb128_loop.simps) simp
    with 1(1) [OF False rest, of "sh + 7" "r OR push_bit sh (of_int (int n mod 128))"] False show ?thesis
      using push_split [of sh "int n"] by (simp add: uleb128.simps [of n] or.assoc add.assoc flip: of_nat_div_int)
  qed
qed

text \<open>The sign extension at the end.\<close>

definition sleb_sign :: "u64 \<Rightarrow> nat \<Rightarrow> u8 \<Rightarrow> u64" where
  "sleb_sign r sh b = (if sh < 64 \<and> b AND 0x40 \<noteq> 0 then r OR - push_bit sh 1 else r)"

lemma small_bits:
  assumes "-64 \<le> i" and "i < 64" and "6 \<le> k"
  shows "bit (i :: int) k \<longleftrightarrow> i < 0"
proof -
  have "(64 :: int) \<le> 2 ^ k" using power_increasing [of 6 k "2 :: int"] assms(3) by simp
  with assms(1,2) have "i div 2 ^ k = (if i < 0 then -1 else 0)"
    by (auto simp: zdiv_eq_0_iff div_pos_neg_trivial div_eq_minus1 intro!: int_div_pos_eq [of i "2 ^ k" "-1" "i + 2 ^ k"])
  then show ?thesis by (simp add: bit_iff_odd)
qed

lemma sleb_sign_small:
  assumes "-64 \<le> i" and "i < 64"
  shows "sleb_sign (r OR push_bit sh (of_int (i mod 128))) (sh + 7) (of_int (i mod 128)) = r OR push_bit sh (of_int i)"
proof -
  have "(of_int (i mod 128) :: u8) AND 0x40 \<noteq> 0 \<longleftrightarrow> bit (of_int (i mod 128) :: u8) 6"
    using bit_iff_and_push_bit_not_eq_0 [of "of_int (i mod 128) :: u8" 6] by simp
  also have "\<dots> \<longleftrightarrow> i < 0"
    using small_bits [OF assms, of 6] by (simp add: bit_of_int_word mod_take_bit bit_take_bit_iff)
  finally have sign: "(of_int (i mod 128) :: u8) AND 0x40 \<noteq> 0 \<longleftrightarrow> i < 0" .
  have minus: "bit (- (2 ^ (sh + 7)) :: u64) k \<longleftrightarrow> k < 64 \<and> sh + 7 \<le> k" if "sh + 7 < 64" for k
    using that by (auto simp: minus_exp_eq_not_mask bit_not_iff bit_mask_iff possible_bit_word not_less)
  show ?thesis
  proof (rule bit_word_eqI)
    fix n
    assume "n < LENGTH(64)"
    moreover have "sh \<le> n \<Longrightarrow> \<not> n - sh < 7 \<Longrightarrow> bit i (n - sh) \<longleftrightarrow> i < 0" by (intro small_bits assms) simp
    ultimately show "bit (sleb_sign (r OR push_bit sh (of_int (i mod 128))) (sh + 7) (of_int (i mod 128))) n =
        bit (r OR push_bit sh (of_int i)) n"
      unfolding sleb_sign_def sign
      by (auto simp: bit_or_iff bit_push_bit_iff bit_of_int_word mod_take_bit bit_take_bit_iff minus)
  qed
qed

lemma sleb128_loop_encoded:
  "holds m p (sleb128 i) \<Longrightarrow> \<exists>r' sh' b. uleb128_loop m p sh r = Some (r', sh', b, p + of_nat (length (sleb128 i))) \<and>
     sleb_sign r' sh' b = r OR push_bit sh (of_int i)"
proof (induction i arbitrary: p sh r rule: sleb128.induct)
  case (1 i)
  show ?case
  proof (cases "-64 \<le> i \<and> i < 64")
    case True
    with 1(2) have "m p = of_int (i mod 128)" by (simp add: sleb128.simps [of i] holds_Cons)
    with low_byte [of i] True sleb_sign_small [of i r sh] show ?thesis
      by (subst uleb128_loop.simps) (simp add: sleb128.simps [of i])
  next
    case False
    then have "m p = of_int (i mod 128) OR 0x80" and rest: "holds m (p + 1) (sleb128 (i div 128))"
      using 1(2) by (simp_all add: sleb128.simps [of i] holds_Cons split: if_splits)
    with low_byte [of i] have "uleb128_loop m p sh r = uleb128_loop m (p + 1) (sh + 7) (r OR push_bit sh (of_int (i mod 128)))"
      by (subst uleb128_loop.simps) simp
    with 1(1) [OF False rest, of "sh + 7" "r OR push_bit sh (of_int (i mod 128))"] False show ?thesis
      using push_split [of sh i] by (auto simp: sleb128.simps [of i] or.assoc add.assoc)
  qed
qed

text \<open>
  C22: the decoders of the packed relocations invert the encodings: on memory with the encoding of a number of 64 bits the
  unsigned decoder gives the number, the signed decoder the two's complement of the number, and both stop behind the encoding.
\<close>

theorem leb128_roundtrip:
  assumes "n < 2 ^ 64" and "holds m p (uleb128 n)" and "- (2 ^ 63) \<le> i" and "i < 2 ^ 63" and "holds m q (sleb128 i)"
  shows "decode_uleb128 m p = Some (of_nat n, p + of_nat (length (uleb128 n))) \<and> unat (of_nat n :: u64) = n \<and>
    decode_sleb128 m q = Some (of_int i, q + of_nat (length (sleb128 i))) \<and> sint (of_int i :: u64) = i"
proof (intro conjI)
  show "decode_uleb128 m p = Some (of_nat n, p + of_nat (length (uleb128 n)))"
    using uleb128_loop_encoded [OF assms(2), of 0 0] by (auto simp: decode_uleb128_def)
  show "decode_sleb128 m q = Some (of_int i, q + of_nat (length (sleb128 i)))"
    using sleb128_loop_encoded [OF assms(5), of 0 0] by (auto simp: decode_sleb128_def sleb_sign_def)
  show "unat (of_nat n :: u64) = n" using assms(1) by (simp add: unat_of_nat)
  show "sint (of_int i :: u64) = i"
    using assms(3,4) by (simp add: signed_of_int signed_take_bit_int_eq_self)
qed

text \<open>The examples of the DWARF standard: 12857 and -129.\<close>

definition leb_image :: image where
  "leb_image a = (if a = 0 then 0xb9 else if a = 1 then 0x64 else if a = 2 then 0xff else if a = 3 then 0x7e else 0)"

theorem leb128_roundtrip_witness:
  "decode_uleb128 leb_image 0 = Some (12857, 2) \<and> decode_sleb128 leb_image 2 = Some (- 129, 4)"
proof -
  have "uleb128 12857 = [0xb9, 0x64]" "sleb128 (- 129) = [0xff, 0x7e]"
    by (simp_all add: uleb128.simps sleb128.simps)
  then show ?thesis
    using leb128_roundtrip [of 12857 leb_image 0 "- 129" 2] by (simp add: holds_Cons leb_image_def)
qed

section \<open>What relocations can write\<close>

text \<open>A change of the memory that keeps everything from \<open>n\<close> bytes behind \<open>base\<close> on, around the address space up to \<open>base\<close>.\<close>

definition confined :: "ptr \<Rightarrow> nat \<Rightarrow> (image \<Rightarrow> image) \<Rightarrow> bool" where
  "confined base n f \<longleftrightarrow> (\<forall>m a. n \<le> unat (a - base) \<longrightarrow> f m a = m a)"

lemma confinedI: "(\<And>m a. n \<le> unat (a - base) \<Longrightarrow> f m a = m a) \<Longrightarrow> confined base n f"
  by (simp add: confined_def)

lemma confinedD: "confined base n f \<Longrightarrow> n \<le> unat (a - base) \<Longrightarrow> f m a = m a"
  by (simp add: confined_def)

lemma confined_fold: "(\<And>x. x \<in> set xs \<Longrightarrow> confined base n (f x)) \<Longrightarrow> confined base n (fold f xs)"
  by (induction xs) (auto simp: confined_def)

lemma in_range_less:
  assumes "in_range bias sz off"
  shows "off - bias < (sz :: u64)"
proof -
  from assms have *: "unat bias \<le> unat off" "unat off < unat (bias + sz)"
    by (simp_all add: in_range_def not_less not_le word_le_nat_alt word_less_nat_alt)
  moreover have "unat (bias + sz) \<le> unat bias + unat sz" by (rule unat_plus_if' [THEN ssubst]) auto
  moreover have "unat (off - bias) = unat off - unat bias"
    using * by (simp add: unat_sub_if')
  ultimately show ?thesis by (simp add: word_less_nat_alt)
qed

lemma write_far:
  assumes "k < (sz :: u64)" and "unat sz + 7 \<le> unat (a - base)"
  shows "write64 m (base + k) v a = m a" and "write32 m (base + k) w a = m a"
proof -
  have "unat (a - base - k) = unat (a - base) - unat k"
    using assms by (subst unat_sub_if') (simp add: word_less_nat_alt)
  with assms have "8 \<le> unat (a - (base + k))" by (simp add: word_less_nat_alt algebra_simps)
  then show "write64 m (base + k) v a = m a" and "write32 m (base + k) w a = m a"
    by (simp_all add: write64_def write32_def word_less_nat_alt)
qed

lemma write_in_range:
  assumes "off - md_load_bias md < sz" and "unat sz + 7 \<le> unat (a - md_memory md)"
  shows "write64 m (loc_of md off) v a = m a" and "write32 m (loc_of md off) w a = m a"
  using write_far [OF assms] by (simp_all add: loc_of_def add_diff_eq)

lemma range_unfold: "md_load_bias md \<le> x \<and> x < md_load_bias md + sz \<longleftrightarrow> in_range (md_load_bias md) sz x"
  by (auto simp: in_range_def)

lemmas confined_write = write_in_range [OF in_range_less]

lemma step_confined:
  "confined (md_memory md) (unat (md_mapped_size md) + 7) (rela_step dlsym md tab j)"
  "confined (md_memory md) (unat (md_mapped_size md) + 7) (plt_step dlsym md tab j)"
  "confined (md_memory md) (unat (md_size md) + 7) (relr_apply md x)"
  "confined (md_memory md) (unat (md_size md) + 7) (relr_apply32 md y)"
  "confined (md_memory md) (unat (md_size md) + 7) (packed_apply64 dlsym md ty addend off)"
  "confined (md_memory md) (unat (md_size md) + 7) (packed_apply32 dlsym md ty addend off)"
  by (rule confinedI; auto simp: rela_step_def plt_step_def relr_apply_def relr_apply32_def packed_apply64_def
      packed_apply32_def range_unfold confined_write Let_def)+

text \<open>The check of the 32-bit tables compares with the size alone, which is stricter.\<close>

lemma rel_step_confined: "confined (md_memory md) (unat (md_size md) + 7) (rel_step dlsym md tab j)"
proof (rule confinedI)
  fix m a
  assume far: "unat (md_size md) + 7 \<le> unat (a - md_memory md)"
  have less: "off - md_load_bias md < md_size md" if "\<not> off < md_load_bias md" "\<not> md_size md \<le> off" for off
    using that by (simp add: word_less_nat_alt word_le_nat_alt unat_sub_if' not_le not_less)
  show "rel_step dlsym md tab j m a = m a"
    using write_in_range [OF less far] by (simp add: rel_step_def Let_def)
qed

lemma confined_id: "confined base n (\<lambda>m. m)"
  by (rule confinedI) simp

lemma confined_comp: "confined base n f \<Longrightarrow> confined base n g \<Longrightarrow> confined base n (\<lambda>m. g (f m))"
  by (rule confinedI) (simp add: confinedD)

lemma confined_mono: "confined base n f \<Longrightarrow> n \<le> k \<Longrightarrow> confined base k f"
  by (rule confinedI) (simp add: confinedD)

lemma relr_bits_confined:
  "confined (md_memory md) (unat (md_size md) + 7) (relr_bits md b k bm)"
  "confined (md_memory md) (unat (md_size md) + 7) (relr_bits32 md b' k' bm')"
  unfolding relr_bits_def relr_bits32_def
  by (rule confined_fold, rule confinedI, simp add: confinedD [OF step_confined(3)] confinedD [OF step_confined(4)])+

lemma relr_loop_confined: "confined (md_memory md) (unat (md_size md) + 7) (relr_loop md n p addr rn)"
proof (rule confinedI)
  fix m a
  assume "unat (md_size md) + 7 \<le> unat (a - md_memory md)"
  then show "relr_loop md n p addr rn m a = m a"
    by (induction md n p addr rn m rule: relr_loop.induct)
      (simp_all add: Let_def confinedD [OF step_confined(3)] confinedD [OF relr_bits_confined(1)])
qed

lemma relr_loop32_confined: "confined (md_memory md) (unat (md_size md) + 7) (relr_loop32 md n p addr rn)"
proof (rule confinedI)
  fix m a
  assume "unat (md_size md) + 7 \<le> unat (a - md_memory md)"
  then show "relr_loop32 md n p addr rn m a = m a"
    by (induction md n p addr rn m rule: relr_loop32.induct)
      (simp_all add: Let_def confinedD [OF step_confined(4)] confinedD [OF relr_bits_confined(2)])
qed

lemma relr_table_confined:
  "confined (md_memory md) (unat (md_size md) + 7) (relr_table md n p)"
  "confined (md_memory md) (unat (md_size md) + 7) (relr_table32 md n p)"
  by (rule confinedI; simp add: relr_table_def relr_table32_def Let_def confinedD [OF relr_loop_confined]
      confinedD [OF relr_loop32_confined] confinedD [OF step_confined(3)] confinedD [OF step_confined(4)])+

text \<open>The packed tables, for any confined function that relocates one offset.\<close>

lemma packed_group_confined:
  assumes "\<And>off. confined base sz (reloc off)" and "sz \<le> unat (a - base)"
  shows "packed_group reloc fin n k p off m = Some (k', p', off', m') \<Longrightarrow> m' a = m a"
  by (induction n arbitrary: k p off m)
    (auto split: if_splits option.splits simp: confinedD [OF assms(1) assms(2)])

lemma packed_loop_confined:
  assumes "\<And>ty addend off. confined base sz (reloc ty addend off)" and "sz \<le> unat (a - base)"
  shows "packed_loop reloc fin fuel k p off m = Some m' \<Longrightarrow> m' a = m a"
proof (induction fuel arbitrary: k p off m)
  case (Suc fuel)
  then show ?case
    by (auto split: if_splits option.splits prod.splits dest!: packed_group_confined [OF assms] Suc.IH)
qed simp

lemma set_versions_keeps:
  "md_memory (fold set_versions ds md) = md_memory md \<and> md_mapped_size (fold set_versions ds md) = md_mapped_size md \<and>
   md_load_bias (fold set_versions ds md) = md_load_bias md"
  by (induction ds arbitrary: md) (simp_all add: set_versions_def case_prod_beta Let_def)

lemma table_loop_confined:
  assumes "\<And>j. confined base sz (entry j)" and "sz \<le> unat (a - base)"
  shows "table_loop entry addr n ent m = Inr m' \<Longrightarrow> m' a = m a"
  using confinedD [OF confined_fold assms(2), of "[0..<unat (n div ent)]" entry m] assms(1)
  by (auto simp: table_loop_def split: if_splits)

lemma ElfRelocate_confined:
  assumes "unat (md_mapped_size md) + 7 \<le> unat (a - md_memory md)" and "ElfRelocate dlsym m (Some md) = Inr (r, md', m', ps)"
  shows "m' a = m a"
proof (cases "dynamic64 m (md_memory md)")
  case (Inr ds)
  let ?md = "fold set_versions ds md"
  have far: "unat (md_mapped_size ?md) + 7 \<le> unat (a - md_memory ?md)" using assms(1) by (simp add: set_versions_keeps)
  have "m2 a = m a"
    if "table_loop (rela_step dlsym ?md tab1) x1 x2 x3 m = Inr m1" "table_loop (plt_step dlsym ?md tab2) x4 x5 24 m1 = Inr m2"
    for tab1 tab2 x1 x2 x3 x4 x5 m1 m2
    using table_loop_confined [OF step_confined(1) far that(1)] table_loop_confined [OF step_confined(2) far that(2)] by simp
  with assms(2) Inr show ?thesis
    by (auto simp: ElfRelocate_def Let_def split: if_splits sum.splits)
qed (use assms(2) in \<open>auto simp: ElfRelocate_def Let_def split: if_splits\<close>)

lemma ElfRelocate32_confined:
  assumes "unat (md_size md) + 7 \<le> unat (a - md_memory md)" and "ElfRelocate32 dlsym m (Some md) = Inr (r, m', ps)"
  shows "m' a = m a"
  using assms(2) table_loop_confined [OF rel_step_confined assms(1)]
  by (auto simp: ElfRelocate32_def Let_def split: if_splits sum.splits)

lemma apply_relr_relocations_confined:
  assumes "unat (md_size md) + 7 \<le> unat (a - md_memory md)" and "apply_relr_relocations m (Some md) = Inr (r, m')"
  shows "m' a = m a"
  using assms(2) confinedD [OF relr_table_confined(1) assms(1)] confinedD [OF relr_table_confined(2) assms(1)]
  by (auto simp: apply_relr_relocations_def Let_def split: if_splits sum.splits)

lemma apply_android_packed_relocs_confined:
  assumes "unat (md_size md) + 7 \<le> unat (a - md_memory md)"
    and "apply_android_packed_relocs dlsym m (Some md) = Inr (r, m')"
  shows "m' a = m a"
  using assms(2) packed_loop_confined [OF step_confined(5) assms(1)]
    packed_loop_confined [OF step_confined(6) assms(1)]
  by (auto simp: apply_android_packed_relocs_def Let_def split: if_splits sum.splits option.splits prod.splits)

text \<open>
  C20: what the relocation functions can write, for any contents of the image, of its tables and of \<open>dlsym\<close>.
  \<open>ElfRelocate\<close> checks offsets against the size of the mapping, the three others
  against the size of the file: a byte that lies in front of the module's memory, or at least seven bytes behind
  the mapping (for \<open>ElfRelocate\<close>) or behind the size of the file (for \<open>ElfRelocate32\<close>, the compact and the packed
  tables), keeps its value. The seven bytes are there since the check of an offset is for its first byte
  only. The two sizes differ in general: where the file is larger than the mapping, the second bound lies
  behind the memory of the module (\<open>relr_writes_behind_mapping\<close>). Runs that end with a null
  dereference, a division by zero or without an end have no final memory and are not covered.
\<close>

theorem reloc_writes_confined:
  "(unat (md_mapped_size md) + 7 \<le> unat (a - md_memory md) \<longrightarrow>
      (\<forall>r md' m' ps. ElfRelocate dlsym m (Some md) = Inr (r, md', m', ps) \<longrightarrow> m' a = m a)) \<and>
    (unat (md_size md) + 7 \<le> unat (a - md_memory md) \<longrightarrow>
      (\<forall>r m' ps. ElfRelocate32 dlsym m (Some md) = Inr (r, m', ps) \<longrightarrow> m' a = m a) \<and>
      (\<forall>r m'. apply_relr_relocations m (Some md) = Inr (r, m') \<longrightarrow> m' a = m a) \<and>
      (\<forall>r m'. apply_android_packed_relocs dlsym m (Some md) = Inr (r, m') \<longrightarrow> m' a = m a))"
  using ElfRelocate_confined [of md a] ElfRelocate32_confined [of md a] apply_relr_relocations_confined [of md a]
    apply_android_packed_relocs_confined [of md a] by blast

text \<open>
  With a file of \<open>0x180\<close> bytes whose segments end at \<open>0x100\<close>, a relative relocation at \<open>0x170\<close> is carried out,
  behind the mapping of the module.
\<close>

lemma relr_writes_behind_mapping:
  "relr_apply (zero_module\<lparr>md_memory := 0x1000, md_size := 0x180, md_mapped_size := 0x100, md_load_bias := 0x1000\<rparr>) 0x1170 m =
     write64 m 0x1170 (read64 m 0x1170 + 0x1000)"
  by (simp add: relr_apply_def loc_of_def zero_module_def)

text \<open>
  A module at \<open>0x1000\<close> with one dynamic segment, that has a compact table of one entry, the address \<open>0x17f\<close> of the last
  byte of the memory: the eight bytes from there on are written, the byte behind them is not.
\<close>

definition relr_image :: image where
  "relr_image a =
     (if a = 0x1004 then 2 else if a = 0x1020 then 0x40 else if a = 0x1038 then 1
      else if a = 0x1040 then 2 else if a = 0x1048 then 0x80
      else if a = 0x1080 then 36 else if a = 0x1089 then 1
      else if a = 0x1090 then 35 else if a = 0x1098 then 8
      else if a = 0x1100 then 0x7f else if a = 0x1101 then 1
      else 0)"

definition relr_module :: ElfModule where
  "relr_module = zero_module\<lparr>md_memory := 0x1000, md_size := 0x180, md_mapped_size := 0x180\<rparr>"

lemma relr_image_dynamic: "dynamic64 relr_image 0x1000 = Inr [(DT_RELR, 0x100), (DT_RELRSZ, 8)]"
  by (simp add: dynamic64_def phnum64_def phdrs64_def phdr64_def dyn_entries.simps dyn64_def read16_def read32_def read64_def
      of_le32_def of_le64_def relr_image_def upt_rec)

theorem reloc_writes_confined_witness:
  "\<exists>m'. apply_relr_relocations relr_image (Some relr_module) = Inr (ARM2X86_OK, m') \<and> m' 0x1187 = relr_image 0x1187"
proof -
  have "\<exists>m'. apply_relr_relocations relr_image (Some relr_module) = Inr (ARM2X86_OK, m')"
    using relr_image_dynamic
    by (simp add: apply_relr_relocations_def relr_module_def zero_module_def elf_class_def relr_image_def dyn_val_def)
  moreover have "unat (md_size relr_module) + 7 \<le> unat (0x1187 - md_memory relr_module)"
    by (simp add: relr_module_def zero_module_def)
  ultimately show ?thesis
    using reloc_writes_confined [of relr_module "0x1187" "\<lambda>h s. NULL" relr_image] by blast
qed

section \<open>The bitmaps of the compact table\<close>

text \<open>
  The format of the table, as the ELF specification has it: behind an address \<open>A\<close> an odd entry is a bitmap, whose bits from 1 on stand
  for the words from \<open>A + 8\<close> on. The code takes such an entry for one relocation, of \<open>A + 8\<close>.
\<close>

lemma relr_bitmap_ignored:
  assumes "bit (read64 (relr_apply md (read64 m p) m) (p + 8)) 0"
  shows "relr_table md 2 p m = relr_apply md (read64 m p + 8) (relr_apply md (read64 m p) m)"
  using assms by (simp add: relr_table_def Let_def numeral_2_eq_2)

text \<open>And an address behind an address only starts a run: the word there is not relocated if no bitmap follows.\<close>

lemma relr_second_address_skipped:
  assumes "\<not> bit (read64 (relr_apply md (read64 m p) m) (p + 8)) 0"
  shows "relr_table md 2 p m = relr_apply md (read64 m p) m"
  using assms by (simp add: relr_table_def Let_def numeral_2_eq_2)

section \<open>Rounds of the packed tables\<close>

lemma packed_group_decreases:
  "packed_group reloc fin n k p off m = Some (k', p', off', m') \<Longrightarrow> k' \<le> k \<and> (0 < n \<longrightarrow> p < fin \<longrightarrow> 0 < k \<longrightarrow> k' < k)"
  by (induction n arbitrary: k p off m) (auto split: if_splits option.splits, fastforce+)

text \<open>The number of relocations that the header announces is enough for the loop over the groups: more rounds change nothing.\<close>

lemma packed_loop_rounds: "k \<le> fuel \<Longrightarrow> packed_loop reloc fin (fuel + d) k p off m = packed_loop reloc fin fuel k p off m"
proof (induction fuel arbitrary: k p off m)
  case 0
  then show ?case by (cases d) simp_all
next
  case (Suc fuel)
  have "packed_loop reloc fin (fuel + d) k' p' off' m' = packed_loop reloc fin fuel k' p' off' m'"
    if "packed_group (reloc ty addend) fin (unat count) k q off m = Some (k', p', off', m')" "count \<noteq> 0" "\<not> fin \<le> q" "0 < k"
    for ty addend count q k' p' off' m'
    using packed_group_decreases [OF that(1)] that(2-) Suc.prems
    by (intro Suc.IH) (auto simp: unat_gt_0)
  then show ?case
    by (simp split: option.split prod.split) blast
qed

end
