(* ===== verification/Translate32.thy ===== *)
theory Translate32
  imports Translate64_Correct
begin

text \<open>
  \<open>src/modules/arm2x86_translate32.c\<close>: the translator of A32 code, with the two fused multiply
  translators that it calls in \<open>src/modules/arm2x86_syscall.c\<close>. A translator takes the buffer that has been
  written so far and an instruction word, and gives its return code and the longer buffer. A loop over
  registers is a \<open>fold\<close> over the values of its counter. The loop over the block is written with fuel,
  since pointers could wrap around; \<open>arm32_block_concat\<close> shows that the fuel is enough.
\<close>

section \<open>Conditions\<close>

definition arm32_to_x86_cond :: "u8 list" where
  "arm32_to_x86_cond =
     [0x84, 0x85, 0x83, 0x82, 0x88, 0x89, 0x80, 0x81, 0x87, 0x86, 0x8d, 0x8c, 0x8f, 0x8e, 0x00, 0xff]"

definition ror :: "u32 \<Rightarrow> u8 \<Rightarrow> u32" where
  "ror val amount =
     (let amount = amount AND 31 in
      if amount = 0 then val
      else drop_bit (unat amount) val OR push_bit (32 - unat amount) val)"

definition arm32_get_cond :: "u32 \<Rightarrow> u32" where
  "arm32_get_cond op = drop_bit 28 op AND 0xf"

abbreviation (input) ARM32_COND_AL :: u32 where "ARM32_COND_AL \<equiv> 14"
abbreviation (input) ARM32_COND_NV :: u32 where "ARM32_COND_NV \<equiv> 15"

text \<open>The location of the displacement is an index into the buffer, \<open>None\<close> the null pointer.\<close>

definition emit_cond_prologue :: "code \<Rightarrow> u32 \<Rightarrow> nat option \<times> code" where
  "emit_cond_prologue buf cond =
     (if cond = ARM32_COND_AL then (None, buf)
      else if cond = ARM32_COND_NV then (None, emit_byte buf 0x90)
      else
        (let x86_cond = arm32_to_x86_cond ! unat cond;
             buf = emit_byte buf 0x0f;
             buf = emit_byte buf x86_cond;
             patch_loc = length buf
         in (Some patch_loc, emit_imm32 buf 0)))"

definition patch_cond_jump :: "code \<Rightarrow> nat option \<Rightarrow> nat \<Rightarrow> code" where
  "patch_cond_jump buf patch_loc target =
     (case patch_loc of None \<Rightarrow> buf
      | Some loc \<Rightarrow>
          let offset = (word_of_int (int target - int loc - 4) :: u32);
              buf = buf[loc := ucast (offset AND 0xff)];
              buf = buf[loc + 1 := ucast (drop_bit 8 offset AND 0xff)];
              buf = buf[loc + 2 := ucast (drop_bit 16 offset AND 0xff)]
          in buf[loc + 3 := ucast (drop_bit 24 offset AND 0xff)])"

section \<open>Translators\<close>

definition translate_arm32_dp :: "code \<Rightarrow> u32 \<Rightarrow> int \<times> code" where
  "translate_arm32_dp buf op =
     (let rd = (ucast (op AND 0x0f) :: u8);
         rn = (ucast (drop_bit 16 op AND 0x0f) :: u8);
         rm = (ucast (drop_bit 8 op AND 0x0f) :: u8);
         opcode_dp = (drop_bit 21 op AND 0xf :: u32);
         is_imm = (drop_bit 25 op AND 1) \<noteq> 0;
         xrd = (arm2x86_map_register_arm32 rd :: u8);
         xrn = (arm2x86_map_register_arm32 rn :: u8);
         xrm = (arm2x86_map_register_arm32 rm :: u8);
         buf = (if is_imm then
           (let imm8 = (op AND 0xff :: u32);
               rotate = (ucast (drop_bit 8 op AND 0xf) * 2 :: u8);
               imm = (ror imm8 rotate :: u32)
            in (if opcode_dp = 4 \<or> opcode_dp = 11 then
                 (let buf = mov_r64_r64 buf xrd xrn
                  in add_r64_r64 buf xrd xrm)
               else if opcode_dp = 2 \<or> opcode_dp = 10 then
                 (if (opcode_dp = 10) then
                       (cmp_r64_imm32 buf xrn imm)
                     else (let buf = mov_r64_r64 buf xrd xrn;
                           buf = rex_r buf xrd xrd;
                           buf = emit_byte buf 0x81;
                           buf = modrm buf 3 5 (xrd AND 7)
                        in emit_imm32 buf imm))
               else if opcode_dp = 12 \<or> opcode_dp = 13 then
                 (mov_r64_imm buf xrd (ucast imm))
               else if opcode_dp = 0 then
                 (let buf = mov_r64_r64 buf xrd xrn
                  in and_r64_r64 buf xrd xrm)
               else if opcode_dp = 1 then
                 (let buf = mov_r64_r64 buf xrd xrn
                  in xor_r64_r64 buf xrd xrm)
               else if opcode_dp = 14 then
                 (let buf = mov_r64_r64 buf xrd xrn;
                     buf = emit_byte buf 0x48;
                     buf = emit_byte buf 0x83;
                     buf = emit_byte buf 0xEC;
                     buf = emit_byte buf 0x10;
                     buf = emit_byte buf 0x48;
                     buf = emit_byte buf 0x89;
                     buf = modrm buf 0 (xrm AND 7) 4;
                     buf = sib buf 0 4 4;
                     buf = not_r64 buf xrm;
                     buf = and_r64_r64 buf xrd xrm;
                     buf = emit_byte buf 0x48;
                     buf = emit_byte buf 0x8b;
                     buf = modrm buf 0 (xrm AND 7) 4;
                     buf = sib buf 0 4 4;
                     buf = emit_byte buf 0x48;
                     buf = emit_byte buf 0x83;
                     buf = emit_byte buf 0xC4
                  in emit_byte buf 0x10)
               else if opcode_dp = 15 then
                 (mov_r64_imm buf xrd (ucast (NOT imm)))
               else (emit_byte buf 0x90)))
         else (if opcode_dp = 0 \<or> opcode_dp = 1 then
                 (let buf = mov_r64_r64 buf xrd xrn
                  in and_r64_r64 buf xrd xrm)
               else if opcode_dp = 2 \<or> opcode_dp = 3 then
                 (let buf = mov_r64_r64 buf xrd xrn
                  in sub_r64_r64 buf xrd xrm)
               else if opcode_dp = 4 \<or> opcode_dp = 5 then
                 (let buf = mov_r64_r64 buf xrd xrn
                  in add_r64_r64 buf xrd xrm)
               else if opcode_dp = 6 then
                 (let buf = mov_r64_r64 buf xrd xrn
                  in adc_r64_r64 buf xrd xrm)
               else if opcode_dp = 7 then
                 (let buf = mov_r64_r64 buf xrd xrn
                  in sbb_r64_r64 buf xrd xrm)
               else if opcode_dp = 8 \<or> opcode_dp = 9 then
                 (let buf = mov_r64_r64 buf R11 xrn
                  in and_r64_r64 buf R11 xrm)
               else if opcode_dp = 10 \<or> opcode_dp = 11 then
                 (if (opcode_dp = 11) then
                       (let buf = mov_r64_r64 buf R11 xrm;
                           buf = neg_r64 buf R11
                        in cmp_r64_r64 buf xrn R11)
                     else (cmp_r64_r64 buf xrn xrm))
               else if opcode_dp = 12 \<or> opcode_dp = 13 then
                 (mov_r64_r64 buf xrd xrm)
               else if opcode_dp = 14 then
                 (let buf = mov_r64_r64 buf xrd xrn;
                     buf = emit_byte buf 0x48;
                     buf = emit_byte buf 0x83;
                     buf = emit_byte buf 0xEC;
                     buf = emit_byte buf 0x10;
                     buf = emit_byte buf 0x48;
                     buf = emit_byte buf 0x89;
                     buf = modrm buf 0 (xrm AND 7) 4;
                     buf = sib buf 0 4 4;
                     buf = not_r64 buf xrm;
                     buf = and_r64_r64 buf xrd xrm;
                     buf = emit_byte buf 0x48;
                     buf = emit_byte buf 0x8b;
                     buf = modrm buf 0 (xrm AND 7) 4;
                     buf = sib buf 0 4 4;
                     buf = emit_byte buf 0x48;
                     buf = emit_byte buf 0x83;
                     buf = emit_byte buf 0xC4
                  in emit_byte buf 0x10)
               else if opcode_dp = 15 then
                 (let buf = mov_r64_r64 buf xrd xrm
                  in not_r64 buf xrd)
               else buf))
      in (ARM2X86_OK, buf))"

definition translate_arm32_multiply :: "code \<Rightarrow> u32 \<Rightarrow> int \<times> code" where
  "translate_arm32_multiply buf op =
     (let rd = (ucast (drop_bit 16 op AND 0x0f) :: u8);
         rn = (ucast (op AND 0x0f) :: u8);
         rm = (ucast (drop_bit 8 op AND 0x0f) :: u8);
         ra = (ucast (drop_bit 12 op AND 0x0f) :: u8)
      in (if ((((15 < rd) \<or> (15 < rn)) \<or> (15 < rm)) \<or> (15 < ra)) then
       (ARM2X86_ERR_INVALID_PARAM, buf)
     else (let xrd = (arm2x86_map_register_arm32 rd :: u8);
         xrn = (arm2x86_map_register_arm32 rn :: u8);
         xrm = (arm2x86_map_register_arm32 rm :: u8);
         xra = (arm2x86_map_register_arm32 ra :: u8);
         op_mul = (drop_bit 21 op AND 0xf :: u32);
         buf = (if op_mul = 0 \<or> op_mul = 1 then
           (let buf = mov_r64_r64 buf xrd xrn;
               buf = imul_r64_r64 buf xrd xrm
            in (if ((op_mul = 1) \<and> (ra \<noteq> 15)) then
                 (add_r64_r64 buf xrd xra)
               else buf))
         else if op_mul = 4 \<or> op_mul = 5 then
           (let buf = emit_movzx buf 32 RAX xrn;
               buf = emit_movzx buf 32 RCX xrm;
               buf = imul_r64_r64 buf RAX RCX;
               buf = (if (op_mul = 5) then
                 (let buf = add_r64_r64 buf RAX xrd
                  in adc_r64_r64 buf RDX xra)
               else buf);
               buf = mov_r64_r64 buf xrd RAX
            in mov_r64_r64 buf xra RDX)
         else if op_mul = 6 \<or> op_mul = 7 then
           (let buf = emit_movsx buf 32 RAX xrn;
               buf = emit_movsx buf 32 RCX xrm;
               buf = imul_r64_r64 buf RAX RCX;
               buf = (if (op_mul = 7) then
                 (let buf = add_r64_r64 buf RAX xrd
                  in adc_r64_r64 buf RDX xra)
               else buf);
               buf = mov_r64_r64 buf xrd RAX
            in mov_r64_r64 buf xra RDX)
         else buf)
      in (ARM2X86_OK, buf))))"

definition translate_arm32_ldst :: "code \<Rightarrow> u32 \<Rightarrow> int \<times> code" where
  "translate_arm32_ldst buf op =
     (let rt = (ucast (op AND 0x0f) :: u8);
         rn = (ucast (drop_bit 16 op AND 0x0f) :: u8);
         is_load = (drop_bit 20 op AND 1) \<noteq> 0;
         is_byte = (drop_bit 22 op AND 1) \<noteq> 0;
         xrt = (arm2x86_map_register_arm32 rt :: u8);
         xrn = (arm2x86_map_register_arm32 rn :: u8);
         offset = (op AND 0xfff :: u32);
         add0 = (drop_bit 23 op AND 1) \<noteq> 0;
         offset = (if (\<not> add0) then
           (- offset)
         else offset);
         buf = (if is_byte then
           (if is_load then
                 (let buf = rex_r buf 0 xrn;
                     buf = emit_byte buf 0x0f;
                     buf = emit_byte buf 0xb6;
                     buf = modrm buf 0 (xrt AND 7) 5
                  in emit_imm32 buf offset)
               else (let buf = rex_rm buf xrn xrt;
                     buf = emit_byte buf 0x88;
                     buf = modrm buf 0 (xrn AND 7) 5
                  in emit_imm32 buf offset))
         else (if is_load then
                 (let buf = rex_r buf xrt xrn;
                     buf = emit_byte buf 0x8b;
                     buf = modrm buf 0 (xrt AND 7) 5
                  in emit_imm32 buf offset)
               else (let buf = rex_r buf xrt xrn;
                     buf = emit_byte buf 0x89;
                     buf = modrm buf 0 (xrt AND 7) 5
                  in emit_imm32 buf offset)))
      in (ARM2X86_OK, buf))"

definition translate_arm32_ldm_stm :: "code \<Rightarrow> u32 \<Rightarrow> int \<times> code" where
  "translate_arm32_ldm_stm buf op =
     (let rn = (ucast (drop_bit 16 op AND 0x0f) :: u8);
         reg_list = (ucast (op AND 0xffff) :: u16);
         is_load = (drop_bit 20 op AND 1) \<noteq> 0;
         xrn = (arm2x86_map_register_arm32 rn :: u8);
         writeback = (drop_bit 21 op AND 1) \<noteq> 0;
         offset = (0 :: u32);
         (buf, offset) = (if ((op AND 0x00100000) = 0) then
           (let (buf, offset) = fold (\<lambda>r (buf, offset).
                 (if ((ucast reg_list AND push_bit (unat r) 1 :: u32) \<noteq> 0) then
                       (let xr = (arm2x86_map_register_arm32 (ucast r) :: u8);
                           buf = rex_r buf xr xrn;
                           buf = emit_byte buf 0x89;
                           buf = modrm buf 0 (xr AND 7) 4;
                           buf = sib buf 0 4 (xrn AND 7);
                           buf = emit_imm32 buf offset;
                           offset = offset + 4
                        in (buf, offset))
                     else (buf, offset))) (map of_nat [0..<16] :: u32 list) (buf, offset)
            in (buf, offset))
         else (let (buf, offset) = fold (\<lambda>r (buf, offset).
                 (if ((ucast reg_list AND push_bit (unat r) 1 :: u32) \<noteq> 0) then
                       (let xr = (arm2x86_map_register_arm32 (ucast r) :: u8);
                           buf = rex_r buf xr xrn;
                           buf = emit_byte buf 0x8b;
                           buf = modrm buf 0 (xr AND 7) 4;
                           buf = sib buf 0 4 (xrn AND 7);
                           buf = emit_imm32 buf offset;
                           offset = offset + 4
                        in (buf, offset))
                     else (buf, offset))) (map of_nat [0..<16] :: u32 list) (buf, offset)
            in (buf, offset)));
         buf = (if (writeback \<and> (rn \<noteq> 15)) then
           (add_r64_imm8 buf xrn (ucast offset))
         else buf)
      in (ARM2X86_OK, buf))"

definition translate_arm32_vfp :: "code \<Rightarrow> u32 \<Rightarrow> int \<times> code" where
  "translate_arm32_vfp buf op =
     (let vc_op = (drop_bit 24 op AND 0xf :: u32);
         vd = ((drop_bit 12 op AND 0xf) OR (drop_bit 22 op AND 0x10) :: u32);
         vn = ((drop_bit 16 op AND 0xf) OR (drop_bit 5 op AND 0x10) :: u32);
         vm = ((op AND 0xf) OR (drop_bit 1 op AND 0x10) :: u32);
         is_double = (drop_bit 8 op AND 1) \<noteq> 0;
         xvd = (ucast (vd AND 0xf) :: u8);
         xvn = (ucast (vn AND 0xf) :: u8);
         xvm = (ucast (vm AND 0xf) :: u8);
         vfp_op = (drop_bit 20 op AND 0xf :: u32);
         buf = (if vfp_op = 0x3 then
           (let buf = (if is_double then
                 (let buf = emit_byte buf 0xf2;
                     buf = emit_byte buf 0x0f
                  in emit_byte buf 0x58)
               else (let buf = emit_byte buf 0xf3;
                     buf = emit_byte buf 0x0f
                  in emit_byte buf 0x58))
            in modrm buf 3 (xvd AND 7) (xvn AND 7))
         else if vfp_op = 0x7 then
           (let buf = (if is_double then
                 (let buf = emit_byte buf 0xf2;
                     buf = emit_byte buf 0x0f
                  in emit_byte buf 0x5c)
               else (let buf = emit_byte buf 0xf3;
                     buf = emit_byte buf 0x0f
                  in emit_byte buf 0x5c))
            in modrm buf 3 (xvd AND 7) (xvn AND 7))
         else if vfp_op = 0x2 then
           (let buf = (if is_double then
                 (let buf = emit_byte buf 0xf2;
                     buf = emit_byte buf 0x0f
                  in emit_byte buf 0x59)
               else (let buf = emit_byte buf 0xf3;
                     buf = emit_byte buf 0x0f
                  in emit_byte buf 0x59))
            in modrm buf 3 (xvd AND 7) (xvn AND 7))
         else if vfp_op = 0x8 then
           (let buf = (if is_double then
                 (let buf = emit_byte buf 0xf2;
                     buf = emit_byte buf 0x0f
                  in emit_byte buf 0x5e)
               else (let buf = emit_byte buf 0xf3;
                     buf = emit_byte buf 0x0f
                  in emit_byte buf 0x5e))
            in modrm buf 3 (xvd AND 7) (xvn AND 7))
         else if vfp_op = 0x4 then
           (let buf = emit_byte buf 0x66;
               buf = emit_byte buf 0x0f;
               buf = emit_byte buf 0x2f
            in modrm buf 3 (xvd AND 7) (xvn AND 7))
         else if vfp_op = 0x0 \<or> vfp_op = 0x1 then
           (emit_byte buf 0x90)
         else if vfp_op = 0xc then
           (if ((op AND 0x000000f0) = 0x00000000) then
                 (let buf = emit_byte buf 0xf2;
                     buf = emit_byte buf 0x0f;
                     buf = emit_byte buf 0x2a
                  in modrm buf 3 (xvd AND 7) (xvn AND 7))
               else (let buf = emit_byte buf 0xf2;
                     buf = emit_byte buf 0x0f;
                     buf = emit_byte buf 0x2d
                  in modrm buf 3 (xvd AND 7) (xvn AND 7)))
         else (emit_byte buf 0x90))
      in (ARM2X86_OK, buf))"

definition translate_arm32_vldr_vstr :: "code \<Rightarrow> u32 \<Rightarrow> int \<times> code" where
  "translate_arm32_vldr_vstr buf op =
     (let is_load = (drop_bit 20 op AND 1) \<noteq> 0;
         vd = ((drop_bit 12 op AND 0xf) OR (drop_bit 22 op AND 0x10) :: u32);
         rn = (drop_bit 16 op AND 0xf :: u32);
         imm8 = (op AND 0xff :: u32);
         is_double = (drop_bit 8 op AND 1) \<noteq> 0;
         xvd = (ucast (vd AND 0xf) :: u8);
         xrn = (arm2x86_map_register_arm32 (ucast rn) :: u8);
         offset = (imm8 * 4 :: u32);
         buf = (if is_load then
           (let buf = (if is_double then
                 (let buf = emit_byte buf 0xf2;
                     buf = emit_byte buf 0x0f
                  in emit_byte buf 0x10)
               else (let buf = emit_byte buf 0xf3;
                     buf = emit_byte buf 0x0f
                  in emit_byte buf 0x10));
               buf = rex buf False (drop_bit 3 xvd) 0 (drop_bit 3 xrn);
               buf = modrm buf 1 (xvd AND 7) (xrn AND 7)
            in emit_byte buf (ucast offset))
         else (let buf = (if is_double then
                 (let buf = emit_byte buf 0xf2;
                     buf = emit_byte buf 0x0f
                  in emit_byte buf 0x11)
               else (let buf = emit_byte buf 0xf3;
                     buf = emit_byte buf 0x0f
                  in emit_byte buf 0x11));
               buf = rex buf False (drop_bit 3 xvd) 0 (drop_bit 3 xrn);
               buf = modrm buf 1 (xvd AND 7) (xrn AND 7)
            in emit_byte buf (ucast offset)))
      in (ARM2X86_OK, buf))"

definition translate_arm32_vpush_vpop :: "code \<Rightarrow> u32 \<Rightarrow> int \<times> code" where
  "translate_arm32_vpush_vpop buf op =
     (let is_push = (drop_bit 20 op AND 1) \<noteq> 0;
         vd = ((drop_bit 12 op AND 0xf) OR (drop_bit 22 op AND 0x10) :: u32);
         count = (op AND 0xff :: u32);
         is_double = (drop_bit 8 op AND 1) \<noteq> 0;
         sz = ((if is_double then 8 else 4) :: u32)
      in (let buf = fold (\<lambda>i0 buf.
           (let xvd = (ucast ((vd + i0) AND 0xf) :: u8)
            in (if is_push then
                 (let buf = rex buf True 0 0 (drop_bit 3 RSP);
                     buf = emit_byte buf 0x83;
                     buf = modrm buf 3 5 (RSP AND 7);
                     buf = emit_byte buf (ucast sz);
                     buf = emit_byte buf 0x66;
                     buf = emit_byte buf 0x0f;
                     buf = emit_byte buf 0xd9;
                     buf = modrm buf 0 (xvd AND 7) 4
                  in sib buf 0 4 (RSP AND 7))
               else (let buf = emit_byte buf 0x66;
                     buf = emit_byte buf 0x0f;
                     buf = emit_byte buf 0x6f;
                     buf = modrm buf 0 (xvd AND 7) 4;
                     buf = sib buf 0 4 (RSP AND 7);
                     buf = rex buf True 0 0 (drop_bit 3 RSP);
                     buf = emit_byte buf 0x83;
                     buf = modrm buf 3 0 (RSP AND 7)
                  in emit_byte buf (ucast sz))))) (map of_nat [0..<unat count] :: u32 list) buf
      in (ARM2X86_OK, buf)))"

definition translate_arm32_branch :: "code \<Rightarrow> u32 \<Rightarrow> int \<times> code" where
  "translate_arm32_branch buf op =
     (let offset = (push_bit 2 (op AND 0x00ffffff) :: u32);
         offset = (if ((offset AND 0x02000000) \<noteq> 0) then
           (offset OR 0xfc000000)
         else offset);
         buf = (if ((op AND 0x01000000) \<noteq> 0) then
           (fst (emit_call buf offset))
         else (fst (emit_jmp buf offset)))
      in (ARM2X86_OK, buf))"

definition translate_arm32_bx :: "code \<Rightarrow> u32 \<Rightarrow> bool \<Rightarrow> int \<times> code" where
  "translate_arm32_bx buf op is_blx =
     (let rm = (ucast (op AND 0x0f) :: u8);
         xrm = (arm2x86_map_register_arm32 rm :: u8);
         buf = (if is_blx then
           (emit_call_reg buf xrm)
         else (emit_jmp_reg buf xrm))
      in (ARM2X86_OK, buf))"

definition translate_arm32_mul :: "code \<Rightarrow> u32 \<Rightarrow> bool \<Rightarrow> int \<times> code" where
  "translate_arm32_mul buf op is_mla =
     (let rd = (ucast (drop_bit 16 op AND 0x0f) :: u8);
         rn = (ucast (drop_bit 12 op AND 0x0f) :: u8);
         rm = (ucast (drop_bit 8 op AND 0x0f) :: u8);
         ra = (ucast (op AND 0x0f) :: u8);
         xrd = (arm2x86_map_register_arm32 rd :: u8);
         xrn = (arm2x86_map_register_arm32 rn :: u8);
         xrm = (arm2x86_map_register_arm32 rm :: u8);
         xra = (arm2x86_map_register_arm32 ra :: u8);
         buf = mov_r64_r64 buf xrd xrn;
         buf = imul_r64_r64 buf xrd xrm;
         buf = (if is_mla then
           (add_r64_r64 buf xrd xra)
         else buf)
      in (ARM2X86_OK, buf))"

definition translate_arm32_vfms :: "code \<Rightarrow> u32 \<Rightarrow> int \<times> code" where
  "translate_arm32_vfms buf op =
     (let vd = ((drop_bit 12 op AND 0xf) OR (drop_bit 22 op AND 0x10) :: u32);
         vn = ((drop_bit 16 op AND 0xf) OR (drop_bit 5 op AND 0x10) :: u32);
         vm = ((op AND 0xf) OR (drop_bit 1 op AND 0x10) :: u32);
         is_double = (drop_bit 8 op AND 1) \<noteq> 0;
         xvd = (ucast (vd AND 0xf) :: u8);
         xvn = (ucast (vn AND 0xf) :: u8);
         xvm = (ucast (vm AND 0xf) :: u8);
         buf = (if is_double then
           (let buf = emit_byte buf 0xf2;
               buf = emit_byte buf 0x0f;
               buf = emit_byte buf 0x59;
               buf = modrm buf 3 (xvn AND 7) (xvm AND 7);
               buf = emit_byte buf 0xf2;
               buf = emit_byte buf 0x0f;
               buf = emit_byte buf 0x5c
            in modrm buf 3 (xvd AND 7) (xvn AND 7))
         else (let buf = emit_byte buf 0xf3;
               buf = emit_byte buf 0x0f;
               buf = emit_byte buf 0x59;
               buf = modrm buf 3 (xvn AND 7) (xvm AND 7);
               buf = emit_byte buf 0xf3;
               buf = emit_byte buf 0x0f;
               buf = emit_byte buf 0x5c
            in modrm buf 3 (xvd AND 7) (xvn AND 7)))
      in (ARM2X86_OK, buf))"

definition translate_arm32_vfma :: "code \<Rightarrow> u32 \<Rightarrow> int \<times> code" where
  "translate_arm32_vfma buf op =
     (let vd = ((drop_bit 12 op AND 0xf) OR (drop_bit 22 op AND 0x10) :: u32);
         vn = ((drop_bit 16 op AND 0xf) OR (drop_bit 5 op AND 0x10) :: u32);
         vm = ((op AND 0xf) OR (drop_bit 1 op AND 0x10) :: u32);
         is_double = (drop_bit 8 op AND 1) \<noteq> 0;
         xvd = (ucast (vd AND 0xf) :: u8);
         xvn = (ucast (vn AND 0xf) :: u8);
         xvm = (ucast (vm AND 0xf) :: u8);
         buf = (if is_double then
           (let buf = emit_byte buf 0xf2;
               buf = emit_byte buf 0x0f;
               buf = emit_byte buf 0x59;
               buf = modrm buf 3 (xvn AND 7) (xvm AND 7);
               buf = emit_byte buf 0xf2;
               buf = emit_byte buf 0x0f;
               buf = emit_byte buf 0x58
            in modrm buf 3 (xvd AND 7) (xvn AND 7))
         else (let buf = emit_byte buf 0xf3;
               buf = emit_byte buf 0x0f;
               buf = emit_byte buf 0x59;
               buf = modrm buf 3 (xvn AND 7) (xvm AND 7);
               buf = emit_byte buf 0xf3;
               buf = emit_byte buf 0x0f;
               buf = emit_byte buf 0x58
            in modrm buf 3 (xvd AND 7) (xvn AND 7)))
      in (ARM2X86_OK, buf))"

section \<open>A block\<close>

text \<open>The chain of tests in the loop of \<open>arm2x86_convert_block_arm32\<close>; the return codes are ignored there.\<close>

definition arm32_instr :: "code \<Rightarrow> u32 \<Rightarrow> code" where
  "arm32_instr buf op =
     (if op AND 0x0c000000 = 0x00000000 \<and> op AND 0x01000000 = 0 then
        (if op AND 0x0ff00000 = 0x00000000 \<and> op AND 0x000f0000 = 0x00090000
         then snd (translate_arm32_mul buf op (drop_bit 21 op AND 1 \<noteq> 0))
         else snd (translate_arm32_dp buf op))
      else if op AND 0x0e000000 = 0x04000000 then snd (translate_arm32_ldst buf op)
      else if op AND 0x0e000000 = 0x08000000 then snd (translate_arm32_ldm_stm buf op)
      else if op AND 0x0e000000 = 0x0a000000 then snd (translate_arm32_branch buf op)
      else if op AND 0x0f000000 = 0x0e000000 \<and> op AND 0x00000010 = 0x00000000 then
        (if op AND 0x0ff00ff0 = 0x0ea00a00 then snd (translate_arm32_vfma buf op)
         else if op AND 0x0ff00ff0 = 0x0ea00a40 then snd (translate_arm32_vfms buf op)
         else snd (translate_arm32_vfp buf op))
      else if op AND 0x0f000010 = 0x0d000000 \<or> op AND 0x0f000010 = 0x0c000010
        then snd (translate_arm32_vldr_vstr buf op)
      else if op AND 0x0ff00000 = 0x0d200000 \<or> op AND 0x0ff00000 = 0x0c900000
        then snd (translate_arm32_vpush_vpop buf op)
      else if op AND 0x0ffffff0 = 0x012fff10
        then snd (translate_arm32_bx buf op (op AND 0x00000010 \<noteq> 0))
      else if op AND 0x0f000000 = 0x0f000000 then emit_syscall buf
      else emit_byte buf 0x90)"

definition arm32_step :: "code \<Rightarrow> u32 \<Rightarrow> code" where
  "arm32_step buf op =
     (let (jmp_patch, buf) = emit_cond_prologue buf (arm32_get_cond op);
          buf = arm32_instr buf op
      in patch_cond_jump buf jmp_patch (length buf))"

fun arm32_loop :: "nat \<Rightarrow> (ptr \<Rightarrow> u8) \<Rightarrow> ptr \<Rightarrow> ptr \<Rightarrow> code \<Rightarrow> code option" where
  "arm32_loop 0 m src end_ptr buf = None"
| "arm32_loop (Suc n) m src end_ptr buf =
     (if src < end_ptr
      then arm32_loop n m (src + 4) end_ptr (arm32_step buf (arm2x86_read_le32 m src))
      else Some buf)"

text \<open>The context is not used; the length of the code is what \<open>*x86_size\<close> receives.\<close>

definition arm2x86_convert_block_arm32 :: "(ptr \<Rightarrow> u8) \<Rightarrow> ptr \<Rightarrow> u64 \<Rightarrow> (int \<times> code) option" where
  "arm2x86_convert_block_arm32 m arm_code arm_size =
     map_option (Pair ARM2X86_OK)
       (arm32_loop (unat arm_size div 4 + 2) m arm_code (arm_code + arm_size) [])"

section \<open>Code does not depend on its place\<close>

text \<open>Every emitter extends the buffer by bytes that do not depend on what was written before.\<close>

lemma emitter_append [emit_append]:
  "emit_byte (a @ b) x = a @ emit_byte b x"
  "emit_imm32 (a @ b) v = a @ emit_imm32 b v"
  "rex (a @ b) w r x' y = a @ rex b w r x' y"
  "rex_r (a @ b) r1 r2 = a @ rex_r b r1 r2"
  "rex_rm (a @ b) r1 r2 = a @ rex_rm b r1 r2"
  "modrm (a @ b) md rg' rm = a @ modrm b md rg' rm"
  "sib (a @ b) sc ix bs = a @ sib b sc ix bs"
  "mov_r64_r64 (a @ b) r1 r2 = a @ mov_r64_r64 b r1 r2"
  "mov_r64_imm (a @ b) r1 i64 = a @ mov_r64_imm b r1 i64"
  "add_r64_r64 (a @ b) r1 r2 = a @ add_r64_r64 b r1 r2"
  "sub_r64_r64 (a @ b) r1 r2 = a @ sub_r64_r64 b r1 r2"
  "and_r64_r64 (a @ b) r1 r2 = a @ and_r64_r64 b r1 r2"
  "or_r64_r64 (a @ b) r1 r2 = a @ or_r64_r64 b r1 r2"
  "xor_r64_r64 (a @ b) r1 r2 = a @ xor_r64_r64 b r1 r2"
  "adc_r64_r64 (a @ b) r1 r2 = a @ adc_r64_r64 b r1 r2"
  "sbb_r64_r64 (a @ b) r1 r2 = a @ sbb_r64_r64 b r1 r2"
  "cmp_r64_r64 (a @ b) r1 r2 = a @ cmp_r64_r64 b r1 r2"
  "test_r64_r64 (a @ b) r1 r2 = a @ test_r64_r64 b r1 r2"
  "imul_r64_r64 (a @ b) r1 r2 = a @ imul_r64_r64 b r1 r2"
  "cmp_r64_imm32 (a @ b) r1 i = a @ cmp_r64_imm32 b r1 i"
  "add_r64_imm8 (a @ b) r1 i8 = a @ add_r64_imm8 b r1 i8"
  "neg_r64 (a @ b) r1 = a @ neg_r64 b r1"
  "not_r64 (a @ b) r1 = a @ not_r64 b r1"
  "emit_call_reg (a @ b) r1 = a @ emit_call_reg b r1"
  "emit_jmp_reg (a @ b) r1 = a @ emit_jmp_reg b r1"
  "emit_syscall (a @ b) = a @ emit_syscall b"
  "fst (emit_jmp (a @ b) d) = a @ fst (emit_jmp b d)"
  "fst (emit_call (a @ b) d) = a @ fst (emit_call b d)"
  "emit_modrm_disp (a @ b) r1 r2 d = a @ emit_modrm_disp b r1 r2 d"
  by (simp_all add: emit_defs emit_modrm_disp_def Let_def)

lemma fold_append:
  assumes "\<And>x b. f x (a @ b) = a @ f x b"
  shows "fold f xs (a @ b) = a @ fold f xs b"
  by (induction xs arbitrary: b) (simp_all add: assms)

lemma fold_append_snd:
  assumes "\<And>x b v. f x (a @ b, v) = (a @ fst (f x (b, v)), snd (f x (b, v)))"
  shows "fold f xs (a @ b, v) = (a @ fst (fold f xs (b, v)), snd (fold f xs (b, v)))"
proof (induction xs arbitrary: b v)
  case (Cons x xs)
  then show ?case by (cases "f x (b, v)") (simp add: assms)
qed simp

lemma translators_append [emit_append]:
  "snd (translate_arm32_dp (a @ b) op) = a @ snd (translate_arm32_dp b op)"
  "snd (translate_arm32_ldst (a @ b) op) = a @ snd (translate_arm32_ldst b op)"
  "snd (translate_arm32_mul (a @ b) op mla) = a @ snd (translate_arm32_mul b op mla)"
  "snd (translate_arm32_branch (a @ b) op) = a @ snd (translate_arm32_branch b op)"
  "snd (translate_arm32_bx (a @ b) op blx) = a @ snd (translate_arm32_bx b op blx)"
  "snd (translate_arm32_vfp (a @ b) op) = a @ snd (translate_arm32_vfp b op)"
  "snd (translate_arm32_vfma (a @ b) op) = a @ snd (translate_arm32_vfma b op)"
  "snd (translate_arm32_vfms (a @ b) op) = a @ snd (translate_arm32_vfms b op)"
  "snd (translate_arm32_vldr_vstr (a @ b) op) = a @ snd (translate_arm32_vldr_vstr b op)"
  by (simp_all add: translate_arm32_dp_def translate_arm32_ldst_def translate_arm32_mul_def
      translate_arm32_branch_def translate_arm32_bx_def translate_arm32_vfp_def translate_arm32_vfma_def
      translate_arm32_vfms_def translate_arm32_vldr_vstr_def Let_def emit_append)

lemma vpush_append [emit_append]:
  "snd (translate_arm32_vpush_vpop (a @ b) op) = a @ snd (translate_arm32_vpush_vpop b op)"
  by (simp add: translate_arm32_vpush_vpop_def Let_def emit_append fold_append)

lemma ldm_append [emit_append]:
  "snd (translate_arm32_ldm_stm (a @ b) op) = a @ snd (translate_arm32_ldm_stm b op)"
  by (simp add: translate_arm32_ldm_stm_def Let_def emit_append fold_append_snd split_beta)

lemma instr_append [emit_append]: "arm32_instr (a @ b) op = a @ arm32_instr b op"
  by (simp add: arm32_instr_def emit_append)

lemma instr_buf: "arm32_instr buf op = buf @ arm32_instr [] op"
  using instr_append [of buf "[]"] by simp

lemma list_update_4:
  "(xs @ a # b # c # d # ys)[length xs := a', length xs + 1 := b', length xs + 2 := c', length xs + 3 := d'] =
   xs @ a' # b' # c' # d' # ys"
  by (simp add: list_update_append numeral_eq_Suc)

text \<open>The code of one instruction: nothing, or a conditional jump over the body.\<close>

lemma step_code:
  "arm32_step buf op = buf @
     (let c = arm32_get_cond op; body = arm32_instr [] op in
      if c = 14 then body else if c = 15 then 0x90 # body
      else [0x0f, arm32_to_x86_cond ! unat c] @ le32 (word_of_int (int (length body))) @ body)"
proof -
  let ?b = "arm32_instr [] op" and ?p = "buf @ [0x0f, arm32_to_x86_cond ! unat (arm32_get_cond op)]"
  have "patch_cond_jump (?p @ [0, 0, 0, 0] @ ?b) (Some (length ?p)) (length (?p @ [0, 0, 0, 0] @ ?b)) =
     ?p @ le32 (word_of_int (int (length ?b))) @ ?b"
    using list_update_4 [of ?p 0 0 0 0 ?b]
    by (simp add: patch_cond_jump_def Let_def le32_def ucast_and_ff)
  then show ?thesis
    by (auto simp: arm32_step_def emit_cond_prologue_def emit_defs le32_def Let_def
        instr_buf [of "_ @ _"] instr_buf [of buf] patch_cond_jump_def [of _ None])
qed

lemma step_buf: "arm32_step buf op = buf @ arm32_step [] op"
  by (simp add: step_code [of buf] step_code [of "[]"])

lemma rounds: "(0 :: nat) < d \<Longrightarrow> (d + 3) div 4 = Suc ((d - 4 + 3) div 4)"
  by presburger

lemma loop_concat:
  assumes "unat e + 4 \<le> 2 ^ 64" and "(unat e - unat src + 3) div 4 < n"
  shows "arm32_loop n m src e buf =
    Some (buf @ concat (map (\<lambda>i. arm32_step [] (arm2x86_read_le32 m (src + of_nat (4 * i))))
                           [0..<(unat e - unat src + 3) div 4]))"
  using assms(2)
proof (induction n arbitrary: src buf)
  case (Suc n)
  let ?f = "\<lambda>src i. arm32_step [] (arm2x86_read_le32 m (src + of_nat (4 * i)))"
  show ?case
  proof (cases "src < e")
    case True
    then have lt: "unat src < unat e" by (simp add: word_less_nat_alt)
    then have u: "unat (src + 4) = unat src + 4" using assms(1) by (simp add: unat_word_ariths(1))
    let ?r = "(unat e - unat (src + 4) + 3) div 4"
    have r: "(unat e - unat src + 3) div 4 = Suc ?r" unfolding u diff_diff_left [symmetric] using lt by (intro rounds) simp
    have "arm32_loop (Suc n) m src e buf = arm32_loop n m (src + 4) e (buf @ ?f src 0)"
      using True by (simp add: step_buf [of buf])
    also have "\<dots> = Some (buf @ ?f src 0 @ concat (map (?f (src + 4)) [0..<?r]))"
      using Suc.IH [of "src + 4" "buf @ ?f src 0"] Suc.prems r by simp
    also have "map (?f (src + 4)) [0..<?r] = map (?f src) [Suc 0..<Suc ?r]"
      unfolding map_Suc_upt [symmetric] by (simp add: algebra_simps)
    finally show ?thesis by (simp add: r upt_conv_Cons del: upt_Suc)
  next
    case False
    then have "unat e - unat src = 0" by (simp add: word_less_nat_alt)
    with False show ?thesis by simp
  qed
qed simp

section \<open>Properties\<close>

text \<open>
  C17: the translation of an A32 block returns, and its code is the concatenation of the codes of the single
  instructions in their order: what is emitted for an instruction depends on its word only, not on the position
  in the block or on the instructions around it. A trailing fragment of fewer than four bytes is translated
  as a whole word. The block must not reach the end of the address space.
\<close>

theorem arm32_block_concat:
  assumes "unat arm_code + unat arm_size + 4 \<le> 2 ^ 64"
  shows "arm2x86_convert_block_arm32 m arm_code arm_size =
    Some (ARM2X86_OK, concat (map (\<lambda>i. arm32_step [] (arm2x86_read_le32 m (arm_code + of_nat (4 * i))))
                                [0..<(unat arm_size + 3) div 4]))"
proof -
  have "unat (arm_code + arm_size) = unat arm_code + unat arm_size"
    using assms by (simp add: unat_word_ariths(1))
  then show ?thesis
    using assms loop_concat [of "arm_code + arm_size" arm_code "unat arm_size div 4 + 2" m "[]"]
    by (simp add: arm2x86_convert_block_arm32_def)
qed

theorem arm32_block_concat_witness:
  "arm2x86_convert_block_arm32 (\<lambda>_. 0) 0x1000 6 = Some (ARM2X86_OK, arm32_step [] 0 @ arm32_step [] 0)"
  using arm32_block_concat [of "0x1000" 6 "\<lambda>_. 0"]
  by (simp add: upt_rec arm2x86_read_le32_def read_le32_def)

lemma length_fold:
  assumes "\<And>x b. length (f x b) \<le> length b + k"
  shows "length (fold f xs b) \<le> length b + k * length xs"
proof (induction xs arbitrary: b)
  case (Cons x xs)
  have "length (fold f xs (f x b)) \<le> length (f x b) + k * length xs" by (rule Cons.IH)
  then show ?case using assms [of x b] by simp
qed simp

lemma length_fold_fst:
  assumes "\<And>x b v. length (fst (f x (b, v))) \<le> length b + k"
  shows "length (fst (fold f xs (b, v))) \<le> length b + k * length xs"
proof (induction xs arbitrary: b v)
  case (Cons x xs)
  obtain b' v' where f: "f x (b, v) = (b', v')" by fastforce
  have "length (fst (fold f xs (b', v'))) \<le> length b' + k * length xs" by (rule Cons.IH)
  then show ?case using assms [of x b v] by (simp add: f)
qed simp

lemma length_translators:
  "length (snd (translate_arm32_dp [] op)) \<le> 4096"
  "length (snd (translate_arm32_ldst [] op)) \<le> 4096"
  "length (snd (translate_arm32_mul [] op mla)) \<le> 4096"
  "length (snd (translate_arm32_branch [] op)) \<le> 4096"
  "length (snd (translate_arm32_bx [] op blx)) \<le> 4096"
  "length (snd (translate_arm32_vfp [] op)) \<le> 4096"
  "length (snd (translate_arm32_vfma [] op)) \<le> 4096"
  "length (snd (translate_arm32_vfms [] op)) \<le> 4096"
  "length (snd (translate_arm32_vldr_vstr [] op)) \<le> 4096"
  "length (emit_syscall []) \<le> 4096"
  by (simp_all add: translate_arm32_dp_def translate_arm32_ldst_def translate_arm32_mul_def
      translate_arm32_branch_def translate_arm32_bx_def translate_arm32_vfp_def translate_arm32_vfma_def
      translate_arm32_vfms_def translate_arm32_vldr_vstr_def Let_def emit_defs)

lemma length_vpush: "length (snd (translate_arm32_vpush_vpop [] op)) \<le> 4096"
proof -
  have "unat (op AND 0xff) \<le> 255"
    using word_and_le1 [of op "0xff"] by (simp add: word_le_nat_alt)
  then show ?thesis
    unfolding translate_arm32_vpush_vpop_def Let_def snd_conv
    by (intro order.trans [OF length_fold [where k = 16]]) (auto simp: emit_defs)
qed

lemma length_ldm: "length (snd (translate_arm32_ldm_stm [] op)) \<le> 4096"
proof -
  have f: "length (fst (fold f xs ([], v))) \<le> 16 * 16"
    if "\<And>x b v. length (fst (f x (b, v))) \<le> length b + 16" "length xs = 16" for f and xs :: "u32 list" and v :: u32
    using length_fold_fst [of f 16 xs "[]" v] that by simp
  have a: "length (add_r64_imm8 b r i) \<le> length b + 16" for b r i by (simp add: emit_defs)
  show ?thesis
    unfolding translate_arm32_ldm_stm_def Let_def snd_conv
    by (auto simp: split_beta emit_defs intro!: order.trans [OF f])
qed

lemma length_instr: "length (arm32_instr [] op) \<le> 4096"
  by (simp add: arm32_instr_def length_translators length_vpush length_ldm emit_byte_def)

lemma decode_cond_jump:
  assumes "n < 14"
  shows "x86_decode ([0x0f, arm32_to_x86_cond ! n] @ le32 d @ rest) =
    Some (Jcc (arm32_to_x86_cond ! n AND 0xf) d, rest)"
proof -
  have "arm32_to_x86_cond ! n = take 14 arm32_to_x86_cond ! n" using assms by simp
  also have "\<dots> \<in> set (take 14 arm32_to_x86_cond)" using assms by (intro nth_mem) (simp add: arm32_to_x86_cond_def)
  finally have "arm32_to_x86_cond ! n \<in> set (take 14 arm32_to_x86_cond)" .
  moreover have "\<forall>c \<in> set (take 14 arm32_to_x86_cond). x86_decode ([0x0f, c] @ le32 d @ rest) = Some (Jcc (c AND 0xf) d, rest)"
    by (simp add: arm32_to_x86_cond_def x86_fields le32_def)
  ultimately show ?thesis by blast
qed

text \<open>
  The condition of an A32 instruction is taken the wrong way round. For a condition other than AL
  and NV the code of the instruction is a conditional jump, on that same condition, over the body: when
  the condition holds the body is skipped, and when it fails the body is executed.
\<close>

lemma arm32_condition_inverted:
  assumes "arm32_get_cond op < 14" and "rip s = 0"
    and "cond_holds (arm32_to_x86_cond ! unat (arm32_get_cond op) AND 0xf) s = Some b"
  shows "drop 6 (arm32_step [] op) = arm32_instr [] op \<and>
         step (arm32_step [] op) s = Some (s\<lparr>rip := if b then length (arm32_step [] op) else 6\<rparr>)"
proof -
  let ?c = "arm32_get_cond op" and ?b = "arm32_instr [] op"
  let ?d = "word_of_int (int (length ?b)) :: u32"
  have cs: "arm32_step [] op = [0x0f, arm32_to_x86_cond ! unat ?c] @ le32 ?d @ ?b"
    using assms(1) by (auto simp: step_code Let_def)
  have "unat ?c < 14" using assms(1) by (simp add: word_less_nat_alt)
  then have "x86_decode (arm32_step [] op) = Some (Jcc (arm32_to_x86_cond ! unat ?c AND 0xf) ?d, ?b)"
    unfolding cs by (rule decode_cond_jump)
  moreover have "sint ?d = int (length ?b)"
    using length_instr [of op] by (simp add: signed_of_nat signed_take_bit_int_eq_self)
  ultimately have "step (arm32_step [] op) s = Some (s\<lparr>rip := if b then length (arm32_step [] op) else 6\<rparr>)"
    using assms(2,3) by (simp add: step_def jump_by_def cs)
  then show ?thesis by (simp add: cs le32_def)
qed

text \<open>\<open>MOVEQ r0, r1\<close> with the zero flag set and clear.\<close>

lemma arm32_condition_inverted_witness:
  "step (arm32_step [] 0x01a00001) state0 = Some (state0\<lparr>rip := length (arm32_step [] 0x01a00001)\<rparr>) \<and>
   step (arm32_step [] 0x01a00001) (state0\<lparr>fl_z := Some False\<rparr>) = Some (state0\<lparr>fl_z := Some False, rip := 6\<rparr>)"
  using arm32_condition_inverted [of "0x01a00001" state0 True]
    arm32_condition_inverted [of "0x01a00001" "state0\<lparr>fl_z := Some False\<rparr>" False]
  by (simp add: arm32_get_cond_def arm32_to_x86_cond_def state0_def cond_holds_def base_cond_def)

lemma map_arm32_less: "arm2x86_map_register_arm32 r < 16"
  by (cases "16 \<le> r")
     (auto simp: arm2x86_map_register_arm32_def g_reg_map_arm32_def not_le dest!: u8_less_16_cases)

text \<open>
  \<open>BX\<close> is a call. The test that should tell \<open>BLX\<close> from \<open>BX\<close> looks at a bit that the pattern
  has already fixed, so that every \<open>BX\<close>, the return \<open>BX lr\<close> included, becomes an indirect call.
\<close>

lemma arm32_bx_calls:
  assumes "op AND 0x0ffffff0 = 0x012fff10"
  shows "x86_disasm (arm32_instr [] op) =
    Some [Call_rm (Reg (arm2x86_map_register_arm32 (ucast (op AND 0x0f))))]"
proof -
  have p: "op AND 0x0c000000 = 0" "op AND 0x01000000 = 0x01000000" "op AND 0x0e000000 = 0" "op AND 0x0f000000 = 0x01000000"
    "op AND 0x10 = 0x10" "op AND 0x0f000010 = 0x01000010" "op AND 0x0ff00000 = 0x01200000"
    using mask_part [OF assms, of "0x0c000000"] mask_part [OF assms, of "0x01000000"]
      mask_part [OF assms, of "0x0e000000"] mask_part [OF assms, of "0x0f000000"] mask_part [OF assms, of "0x10"]
      mask_part [OF assms, of "0x0f000010"] mask_part [OF assms, of "0x0ff00000"] by simp_all
  have "arm32_instr [] op = emit_call_reg [] (arm2x86_map_register_arm32 (ucast (op AND 0x0f)))"
    by (simp add: arm32_instr_def p assms translate_arm32_bx_def Let_def)
  then show ?thesis
    by (simp add: call_r.disasm_one map_arm32_less)
qed

lemma arm32_bx_calls_witness: "x86_disasm (arm32_instr [] 0xe12fff1e) = Some [Call_rm (Reg RBP)]"
  using arm32_bx_calls [of "0xe12fff1e"] by (simp add: arm2x86_map_register_arm32_def g_reg_map_arm32_def)

lemma test_bit_field: "drop_bit n (op :: u32) AND 1 = 0 \<longleftrightarrow> \<not> bit op n" "drop_bit n (op :: u32) AND 1 = 1 \<longleftrightarrow> bit op n"
  by (simp_all add: and_one_eq mod_2_eq_odd bit_iff_odd_drop_bit)

text \<open>
  A load of a word in A32 ignores its base register. The memory operand that is emitted for \<open>LDR rt, [rn, #offset]\<close> has
  no base; it is relative to the instruction pointer of the host, whatever \<open>rn\<close> is. The register that is loaded is taken
  from bits 0 to 3, which belong to the offset.
\<close>

lemma arm32_ldr_rip_relative:
  assumes "op AND 0x0e500000 = 0x04100000"
  shows "x86_disasm (arm32_instr [] op) =
    Some [Mov_r_rm True (arm2x86_map_register_arm32 (ucast (op AND 0x0f)))
            (MemRip (if op AND 0x00800000 = 0 then - (op AND 0xfff) else op AND 0xfff))]"
proof -
  let ?r = "arm2x86_map_register_arm32 (ucast (op AND 0x0f))" and ?n = "arm2x86_map_register_arm32 (ucast (drop_bit 16 op AND 0x0f))"
  let ?d = "if op AND 0x00800000 = 0 then - (op AND 0xfff) else op AND 0xfff"
  have p: "op AND 0x0c000000 = 0x04000000" "op AND 0x0e000000 = 0x04000000"
    using mask_part [OF assms, of "0x0c000000"] mask_part [OF assms, of "0x0e000000"] by simp_all
  have "bit (op AND 0x0e500000) 20" "\<not> bit (op AND 0x0e500000) 22" unfolding assms by simp_all
  then have b: "drop_bit 20 op AND 1 \<noteq> 0" "drop_bit 22 op AND 1 = 0" "(drop_bit 23 op AND 1 = 0) = (op AND 0x00800000 = 0)"
    using and_exp_eq_0_iff_not_bit [of op 23] by (simp_all add: bit_simps test_bit_field)
  have "arm32_instr [] op = rex_r [] ?r ?n @ [0x8b, modrm_byte 0 (?r AND 7) 5] @ le32 ?d"
    using b by (simp add: arm32_instr_def p translate_arm32_ldst_def Let_def emit_defs)
  moreover have "x86_decode (rex_r [] ?r ?n @ [0x8b, modrm_byte 0 (?r AND 7) 5] @ le32 ?d) = Some (Mov_r_rm True ?r (MemRip ?d), [])"
    using map_arm32_less [of "ucast (op AND 0x0f)"]
    by (simp add: emit_defs x86_fields le32_def get_rm_def)
  ultimately show ?thesis by (simp add: x86_disasm_step x86_disasm_Nil del: x86_decode.simps)
qed

lemma arm32_ldr_rip_relative_witness:
  "x86_disasm (arm32_instr [] 0xe5901008) = Some [Mov_r_rm True R11 (MemRip 8)]"
  using arm32_ldr_rip_relative [of "0xe5901008"] by (simp add: arm2x86_map_register_arm32_def g_reg_map_arm32_def)

end
