(* ===== verification/Thumb.thy ===== *)
theory Thumb
  imports Translate32
begin

text \<open>
  \<open>src/modules/arm2x86_translate_thumb.c\<close>: the translator of Thumb and Thumb-2 code. Every case of the two chains of
  tests is a definition of its own; \<open>translate_thumb16\<close> and \<open>translate_thumb32\<close> are the chains and give the
  number of guest bytes that were consumed. The thread-local \<open>g_it_state\<close> of
  \<open>src/modules/arm2x86_regs.c\<close> is a record that is passed along. \<open>1ULL << width\<close> with a width that is not
  positive is undefined in C; it is read here as the shift of the host does it, with the amount modulo 64.
\<close>

section \<open>Halfwords\<close>

definition read_le16 :: "(ptr \<Rightarrow> u8) \<Rightarrow> ptr \<Rightarrow> u16" where
  "read_le16 m p = ucast (m p) OR push_bit 8 (ucast (m (p + 1)))"

definition is_thumb2_prefix :: "u16 \<Rightarrow> bool" where
  "is_thumb2_prefix op16 = (op16 AND 0xe800 = 0xe800 \<or> op16 AND 0xf800 = 0xf000)"

definition is_valid_thumb_reg :: "u8 \<Rightarrow> bool" where
  "is_valid_thumb_reg reg = (reg < 16)"

section \<open>16-bit instructions\<close>

definition thumb16_add_reg :: "code \<Rightarrow> u16 \<Rightarrow> code" where
  "thumb16_add_reg buf op16 =
     (let rd = (ucast (op16 AND 0x07) :: u8);
         rn = (ucast (drop_bit 3 op16 AND 0x07) :: u8);
         rm = (ucast (drop_bit 6 op16 AND 0x07) :: u8);
         xrd = (arm2x86_map_register_arm32 rd :: u8);
         xrn = (arm2x86_map_register_arm32 rn :: u8);
         xrm = (arm2x86_map_register_arm32 rm :: u8);
         buf = mov_r64_r64 buf xrd xrn
      in add_r64_r64 buf xrd xrm)"

definition thumb16_sub_reg :: "code \<Rightarrow> u16 \<Rightarrow> code" where
  "thumb16_sub_reg buf op16 =
     (let rd = (ucast (op16 AND 0x07) :: u8);
         rn = (ucast (drop_bit 3 op16 AND 0x07) :: u8);
         rm = (ucast (drop_bit 6 op16 AND 0x07) :: u8);
         xrd = (arm2x86_map_register_arm32 rd :: u8);
         xrn = (arm2x86_map_register_arm32 rn :: u8);
         xrm = (arm2x86_map_register_arm32 rm :: u8);
         buf = mov_r64_r64 buf xrd xrn
      in sub_r64_r64 buf xrd xrm)"

definition thumb16_mov_reg :: "code \<Rightarrow> u16 \<Rightarrow> code" where
  "thumb16_mov_reg buf op16 =
     (let rd = (ucast ((drop_bit 4 op16 AND 0x08) OR (op16 AND 0x07)) :: u8);
         rm = (ucast (drop_bit 3 op16 AND 0x0f) :: u8);
         xrd = (arm2x86_map_register_arm32 rd :: u8);
         xrm = (arm2x86_map_register_arm32 rm :: u8)
      in mov_r64_r64 buf xrd xrm)"

definition thumb16_add_imm :: "code \<Rightarrow> u16 \<Rightarrow> code" where
  "thumb16_add_imm buf op16 =
     (let rd = (ucast (drop_bit 8 op16 AND 0x07) :: u8);
         imm = (ucast (op16 AND 0xff) :: u8);
         xrd = (arm2x86_map_register_arm32 rd :: u8);
         buf = rex_r buf xrd xrd;
         buf = emit_byte buf 0x83;
         buf = modrm buf 3 0 (xrd AND 7)
      in emit_byte buf (imm AND 0xff))"

definition thumb16_cmp_imm :: "code \<Rightarrow> u16 \<Rightarrow> code" where
  "thumb16_cmp_imm buf op16 =
     (let rn = (ucast (drop_bit 8 op16 AND 0x07) :: u8);
         imm = (ucast (op16 AND 0xff) :: u8);
         xrn = (arm2x86_map_register_arm32 rn :: u8);
         buf = rex_r buf 0 xrn;
         buf = emit_byte buf 0x83;
         buf = modrm buf 3 7 (xrn AND 7)
      in emit_byte buf (imm AND 0xff))"

definition thumb16_b_cond :: "code \<Rightarrow> u16 \<Rightarrow> code" where
  "thumb16_b_cond buf op16 =
     (let cond = (ucast (drop_bit 8 op16 AND 0x0f) :: u8);
         offset = (ucast (op16 AND 0xff) :: u8);
         x86_cond = (arm32_to_x86_cond ! unat cond :: u8);
         buf = emit_byte buf 0x0f;
         buf = emit_byte buf x86_cond
      in emit_imm32 buf (scast offset - 2))"

definition thumb16_b :: "code \<Rightarrow> u16 \<Rightarrow> code" where
  "thumb16_b buf op16 =
     (let offset = (ucast ((signed_drop_bit 4 (scast (push_bit 5 (op16 AND 0x7ff)))) :: u32) :: u16)
      in fst (emit_jmp buf (scast offset)))"

definition thumb16_bx :: "code \<Rightarrow> u16 \<Rightarrow> code" where
  "thumb16_bx buf op16 =
     (let rm = (ucast (drop_bit 3 op16 AND 0x0f) :: u8);
         is_blx = (drop_bit 7 op16 AND 1) \<noteq> 0;
         xrm = (arm2x86_map_register_arm32 rm :: u8)
      in (if is_blx then
           (emit_call_reg buf xrm)
         else (emit_jmp_reg buf xrm)))"

definition thumb16_ldr_lit :: "code \<Rightarrow> u16 \<Rightarrow> code" where
  "thumb16_ldr_lit buf op16 =
     (let rd = (ucast (drop_bit 8 op16 AND 0x07) :: u8);
         imm = (push_bit 2 (ucast (op16 AND 0xff)) :: u32);
         xrd = (arm2x86_map_register_arm32 rd :: u8);
         buf = rex_r buf xrd 0;
         buf = emit_byte buf 0x8b;
         buf = modrm buf 0 (xrd AND 7) 5
      in emit_imm32 buf imm)"

definition thumb16_ldr_str :: "code \<Rightarrow> u16 \<Rightarrow> code" where
  "thumb16_ldr_str buf op16 =
     (let rd = (ucast (op16 AND 0x07) :: u8);
         rn = (ucast (drop_bit 3 op16 AND 0x07) :: u8);
         imm = (ucast (drop_bit 6 op16 AND 0x1f) :: u8);
         is_load = (drop_bit 11 op16 AND 1) \<noteq> 0;
         xrd = (arm2x86_map_register_arm32 rd :: u8);
         xrn = (arm2x86_map_register_arm32 rn :: u8)
      in (if is_load then
           (let buf = rex_r buf xrd xrn;
               buf = emit_byte buf 0x8b;
               buf = modrm buf 1 (xrd AND 7) (xrn AND 7)
            in emit_byte buf (push_bit 2 imm AND 0xff))
         else (let buf = rex_r buf xrd xrn;
               buf = emit_byte buf 0x89;
               buf = modrm buf 1 (xrd AND 7) (xrn AND 7)
            in emit_byte buf (push_bit 2 imm AND 0xff))))"

definition thumb16_ldrb_strb :: "code \<Rightarrow> u16 \<Rightarrow> code" where
  "thumb16_ldrb_strb buf op16 =
     (let rd = (ucast (op16 AND 0x07) :: u8);
         rn = (ucast (drop_bit 3 op16 AND 0x07) :: u8);
         imm = (ucast (drop_bit 6 op16 AND 0x1f) :: u8);
         is_load = (drop_bit 11 op16 AND 1) \<noteq> 0;
         xrd = (arm2x86_map_register_arm32 rd :: u8);
         xrn = (arm2x86_map_register_arm32 rn :: u8)
      in (if is_load then
           (let buf = rex_r buf 0 xrn;
               buf = emit_byte buf 0x0f;
               buf = emit_byte buf 0xb6;
               buf = modrm buf 1 (xrd AND 7) (xrn AND 7)
            in emit_byte buf (imm AND 0xff))
         else (let buf = rex_rm buf xrn xrd;
               buf = emit_byte buf 0x88;
               buf = modrm buf 1 (xrn AND 7) (xrd AND 7)
            in emit_byte buf (imm AND 0xff))))"

definition thumb16_push :: "code \<Rightarrow> u16 \<Rightarrow> code" where
  "thumb16_push buf op16 =
     (let reg_list = (ucast (op16 AND 0xff) :: u8)
      in (let buf = fold (\<lambda>r buf.
           (if ((ucast reg_list AND push_bit (unat r) 1 :: u32) \<noteq> 0) then
                 (let xr = (arm2x86_map_register_arm32 (ucast r) :: u8);
                     buf = rex buf True 0 0 (drop_bit 3 xr);
                     buf = emit_byte buf 0xff;
                     buf = modrm buf 0 6 4
                  in sib buf 0 4 4)
               else buf)) (map of_nat (rev [0..<16]) :: u32 list) buf
      in buf))"

definition thumb16_pop :: "code \<Rightarrow> u16 \<Rightarrow> code" where
  "thumb16_pop buf op16 =
     (let reg_list = (ucast (op16 AND 0xff) :: u8)
      in (let buf = fold (\<lambda>r buf.
           (if ((ucast reg_list AND push_bit (unat r) 1 :: u32) \<noteq> 0) then
                 (let xr = (arm2x86_map_register_arm32 (ucast r) :: u8);
                     buf = rex buf True 0 0 (drop_bit 3 xr);
                     buf = emit_byte buf 0x8f;
                     buf = modrm buf 0 0 4
                  in sib buf 0 4 4)
               else buf)) (map of_nat [0..<16] :: u32 list) buf
      in buf))"

definition thumb16_nop :: "code \<Rightarrow> u16 \<Rightarrow> code" where
  "thumb16_nop buf op16 =
     (emit_byte buf 0x90)"

definition thumb16_svc :: "code \<Rightarrow> u16 \<Rightarrow> code" where
  "thumb16_svc buf op16 =
     (emit_syscall buf)"

definition translate_thumb16 :: "code \<Rightarrow> u16 \<Rightarrow> nat \<times> code" where
  "translate_thumb16 buf op16 =
     (if (op16 AND 0xff80) = 0x1800 then (2, thumb16_add_reg buf op16)
      else if (op16 AND 0xff80) = 0x1a00 then (2, thumb16_sub_reg buf op16)
      else if (op16 AND 0xff80) = 0x4600 then (2, thumb16_mov_reg buf op16)
      else if (op16 AND 0xff80) = 0x3000 then (2, thumb16_add_imm buf op16)
      else if (op16 AND 0xf800) = 0x2800 then (2, thumb16_cmp_imm buf op16)
      else if (op16 AND 0xf000) = 0xd000 then (2, thumb16_b_cond buf op16)
      else if (op16 AND 0xf800) = 0xe000 then (2, thumb16_b buf op16)
      else if (op16 AND 0xff80) = 0x4700 then (2, thumb16_bx buf op16)
      else if (op16 AND 0xf800) = 0x4800 then (2, thumb16_ldr_lit buf op16)
      else if (op16 AND 0xf000) = 0x6000 then (2, thumb16_ldr_str buf op16)
      else if (op16 AND 0xf000) = 0x7000 then (2, thumb16_ldrb_strb buf op16)
      else if (op16 AND 0xff00) = 0xb400 then (2, thumb16_push buf op16)
      else if (op16 AND 0xff00) = 0xbc00 then (2, thumb16_pop buf op16)
      else if op16 = 0x46c0 then (2, thumb16_nop buf op16)
      else if (op16 AND 0xff00) = 0xdf00 then (2, thumb16_svc buf op16)
      else (2, emit_byte buf 0x90))"

section \<open>IT blocks\<close>

record it_state =
  it_condition :: u8
  it_mask :: u8
  it_index :: u8
  it_active :: u8

definition g_arm_cond_to_x86_cc :: "u8 list" where
  "g_arm_cond_to_x86_cc =
     [0x04, 0x05, 0x02, 0x03, 0x08, 0x09, 0x00, 0x01, 0x07, 0x06, 0x0C, 0x0D, 0x0F, 0x0E, 0x00, 0x00]"

definition init_it_block :: "u8 \<Rightarrow> u8 \<Rightarrow> it_state" where
  "init_it_block firstcond m = \<lparr>it_condition = firstcond AND 0x0F, it_mask = m AND 0x0F, it_index = 0, it_active = 1\<rparr>"

text \<open>The inverse of a condition has the lowest bit flipped, which is what the sixteen cases of the switch say.\<close>

definition get_current_it_condition :: "it_state \<Rightarrow> u8" where
  "get_current_it_condition it =
     (if it_active it = 0 then 0x0E
      else
        (let cond = it_condition it;
             bit_pos = 3 - it_index it;
             mask_bit = drop_bit (unat bit_pos) (it_mask it) AND 1
         in if mask_bit = 0 then
              (if cond = 0x00 then 0x01 else if cond = 0x01 then 0x00 else if cond = 0x02 then 0x03
               else if cond = 0x03 then 0x02 else if cond = 0x04 then 0x05 else if cond = 0x05 then 0x04
               else if cond = 0x06 then 0x07 else if cond = 0x07 then 0x06 else if cond = 0x08 then 0x09
               else if cond = 0x09 then 0x08 else if cond = 0x0A then 0x0B else if cond = 0x0B then 0x0A
               else if cond = 0x0C then 0x0D else if cond = 0x0D then 0x0C else if cond = 0x0E then 0x0F
               else if cond = 0x0F then 0x0E else cond)
            else cond))"

definition advance_it_state :: "it_state \<Rightarrow> it_state" where
  "advance_it_state it =
     (if it_active it = 0 then it
      else
        (let it = it\<lparr>it_index := it_index it + 1\<rparr>;
             remaining_mask = drop_bit (unat (4 - it_index it)) (it_mask it)
         in if remaining_mask = 0 \<or> 4 \<le> it_index it then it\<lparr>it_active := 0, it_index := 0\<rparr> else it))"

definition in_it_block :: "it_state \<Rightarrow> bool" where
  "in_it_block it = (it_active it \<noteq> 0)"

text \<open>The result is the buffer and the place of the displacement.\<close>

definition emit_it_cond_jcc :: "it_state \<Rightarrow> code \<Rightarrow> u32 \<Rightarrow> code \<times> nat" where
  "emit_it_cond_jcc it buf offset =
     (let cond = get_current_it_condition it;
          x86_cc = g_arm_cond_to_x86_cc ! unat cond;
          buf = emit_byte buf 0x0f;
          buf = emit_byte buf (0x80 + x86_cc);
          buf = emit_imm32 buf offset
      in (buf, length buf - 4))"

section \<open>32-bit instructions\<close>

definition thumb32_str_imm :: "code \<Rightarrow> u32 \<Rightarrow> code" where
  "thumb32_str_imm buf op32 =
     (let rt = (ucast (op32 AND 0x0f) :: u8);
         rn = (ucast (drop_bit 16 op32 AND 0x0f) :: u8);
         imm12 = (ucast (drop_bit 12 op32 AND 0xfff) :: u16);
         xrt = (arm2x86_map_register_arm32 rt :: u8);
         xrn = (arm2x86_map_register_arm32 rn :: u8);
         buf = rex_r buf xrt xrn;
         buf = emit_byte buf 0x89
      in emit_modrm_disp buf (xrt AND 7) xrn (ucast imm12))"

definition thumb32_ldr_imm :: "code \<Rightarrow> u32 \<Rightarrow> code" where
  "thumb32_ldr_imm buf op32 =
     (let rt = (ucast (op32 AND 0x0f) :: u8);
         rn = (ucast (drop_bit 16 op32 AND 0x0f) :: u8);
         imm12 = (ucast (drop_bit 12 op32 AND 0xfff) :: u16);
         xrt = (arm2x86_map_register_arm32 rt :: u8);
         xrn = (arm2x86_map_register_arm32 rn :: u8);
         buf = rex_r buf xrt xrn;
         buf = emit_byte buf 0x8b
      in emit_modrm_disp buf (xrt AND 7) xrn (ucast imm12))"

definition thumb32_b_bl :: "code \<Rightarrow> u32 \<Rightarrow> code" where
  "thumb32_b_bl buf op32 =
     (let imm11 = (op32 AND 0x7ff :: u32);
         imm10 = (drop_bit 16 op32 AND 0x3ff :: u32);
         offset = (push_bit 12 imm10 OR push_bit 1 imm11 :: u32);
         offset = (if ((offset AND 0x01000000) \<noteq> 0) then
           (offset OR 0xfe000000)
         else offset);
         is_bl = (op32 AND 0x08000000) \<noteq> 0
      in (if is_bl then
           (fst (emit_call buf offset))
         else (fst (emit_jmp buf offset))))"

definition thumb32_add :: "code \<Rightarrow> u32 \<Rightarrow> code" where
  "thumb32_add buf op32 =
     (let rd = (ucast (drop_bit 8 op32 AND 0xf) :: u8);
         rn = (ucast (drop_bit 16 op32 AND 0xf) :: u8);
         rm = (ucast (op32 AND 0xf) :: u8);
         xrd = (arm2x86_map_register_arm32 rd :: u8);
         xrn = (arm2x86_map_register_arm32 rn :: u8);
         xrm = (arm2x86_map_register_arm32 rm :: u8);
         buf = mov_r64_r64 buf xrd xrn
      in add_r64_r64 buf xrd xrm)"

definition thumb32_sub :: "code \<Rightarrow> u32 \<Rightarrow> code" where
  "thumb32_sub buf op32 =
     (let rd = (ucast (drop_bit 8 op32 AND 0xf) :: u8);
         rn = (ucast (drop_bit 16 op32 AND 0xf) :: u8);
         rm = (ucast (op32 AND 0xf) :: u8);
         xrd = (arm2x86_map_register_arm32 rd :: u8);
         xrn = (arm2x86_map_register_arm32 rn :: u8);
         xrm = (arm2x86_map_register_arm32 rm :: u8);
         buf = mov_r64_r64 buf xrd xrn
      in sub_r64_r64 buf xrd xrm)"

definition thumb32_mov :: "code \<Rightarrow> u32 \<Rightarrow> code" where
  "thumb32_mov buf op32 =
     (let rd = (ucast (drop_bit 8 op32 AND 0xf) :: u8);
         rm = (ucast (op32 AND 0xf) :: u8);
         xrd = (arm2x86_map_register_arm32 rd :: u8);
         xrm = (arm2x86_map_register_arm32 rm :: u8)
      in mov_r64_r64 buf xrd xrm)"

definition thumb32_cmp :: "code \<Rightarrow> u32 \<Rightarrow> code" where
  "thumb32_cmp buf op32 =
     (let rn = (ucast (drop_bit 16 op32 AND 0xf) :: u8);
         rm = (ucast (op32 AND 0xf) :: u8);
         xrn = (arm2x86_map_register_arm32 rn :: u8);
         xrm = (arm2x86_map_register_arm32 rm :: u8)
      in cmp_r64_r64 buf xrn xrm)"

definition thumb32_and :: "code \<Rightarrow> u32 \<Rightarrow> code" where
  "thumb32_and buf op32 =
     (let rd = (ucast (drop_bit 8 op32 AND 0xf) :: u8);
         rn = (ucast (drop_bit 16 op32 AND 0xf) :: u8);
         rm = (ucast (op32 AND 0xf) :: u8);
         xrd = (arm2x86_map_register_arm32 rd :: u8);
         xrn = (arm2x86_map_register_arm32 rn :: u8);
         xrm = (arm2x86_map_register_arm32 rm :: u8);
         buf = mov_r64_r64 buf xrd xrn
      in and_r64_r64 buf xrd xrm)"

definition thumb32_orr :: "code \<Rightarrow> u32 \<Rightarrow> code" where
  "thumb32_orr buf op32 =
     (let rd = (ucast (drop_bit 8 op32 AND 0xf) :: u8);
         rn = (ucast (drop_bit 16 op32 AND 0xf) :: u8);
         rm = (ucast (op32 AND 0xf) :: u8);
         xrd = (arm2x86_map_register_arm32 rd :: u8);
         xrn = (arm2x86_map_register_arm32 rn :: u8);
         xrm = (arm2x86_map_register_arm32 rm :: u8);
         buf = mov_r64_r64 buf xrd xrn
      in or_r64_r64 buf xrd xrm)"

definition thumb32_eor :: "code \<Rightarrow> u32 \<Rightarrow> code" where
  "thumb32_eor buf op32 =
     (let rd = (ucast (drop_bit 8 op32 AND 0xf) :: u8);
         rn = (ucast (drop_bit 16 op32 AND 0xf) :: u8);
         rm = (ucast (op32 AND 0xf) :: u8);
         xrd = (arm2x86_map_register_arm32 rd :: u8);
         xrn = (arm2x86_map_register_arm32 rn :: u8);
         xrm = (arm2x86_map_register_arm32 rm :: u8);
         buf = mov_r64_r64 buf xrd xrn
      in xor_r64_r64 buf xrd xrm)"

definition thumb32_cbz :: "code \<Rightarrow> u32 \<Rightarrow> code" where
  "thumb32_cbz buf op32 =
     (let rn = (ucast (drop_bit 16 op32 AND 0xf) :: u8);
         is_cbnz = (drop_bit 24 op32 AND 1) \<noteq> 0;
         imm = ((drop_bit 4 op32 AND 0x3e) OR (drop_bit 19 op32 AND 0x40) :: u32);
         xrn = (arm2x86_map_register_arm32 rn :: u8);
         buf = test_r64_r64 buf xrn xrn;
         buf = emit_byte buf 0x0f;
         buf = emit_byte buf (if is_cbnz then 0x85 else 0x84)
      in emit_imm32 buf (imm - 4))"

definition thumb32_adc :: "code \<Rightarrow> u32 \<Rightarrow> code" where
  "thumb32_adc buf op32 =
     (let rd = (ucast (drop_bit 8 op32 AND 0xf) :: u8);
         rn = (ucast (drop_bit 16 op32 AND 0xf) :: u8);
         rm = (ucast (op32 AND 0xf) :: u8);
         xrd = (arm2x86_map_register_arm32 rd :: u8);
         xrn = (arm2x86_map_register_arm32 rn :: u8);
         xrm = (arm2x86_map_register_arm32 rm :: u8);
         buf = mov_r64_r64 buf xrd xrn;
         buf = rex_r buf xrd xrm;
         buf = emit_byte buf 0x11
      in modrm buf 3 (xrd AND 7) (xrm AND 7))"

definition thumb32_sbc :: "code \<Rightarrow> u32 \<Rightarrow> code" where
  "thumb32_sbc buf op32 =
     (let rd = (ucast (drop_bit 8 op32 AND 0xf) :: u8);
         rn = (ucast (drop_bit 16 op32 AND 0xf) :: u8);
         rm = (ucast (op32 AND 0xf) :: u8);
         xrd = (arm2x86_map_register_arm32 rd :: u8);
         xrn = (arm2x86_map_register_arm32 rn :: u8);
         xrm = (arm2x86_map_register_arm32 rm :: u8);
         buf = mov_r64_r64 buf xrd xrn;
         buf = rex_r buf xrd xrm;
         buf = emit_byte buf 0x19
      in modrm buf 3 (xrd AND 7) (xrm AND 7))"

definition thumb32_movw :: "code \<Rightarrow> u32 \<Rightarrow> code" where
  "thumb32_movw buf op32 =
     (let rd = (ucast (drop_bit 8 op32 AND 0xf) :: u8);
         imm4 = (ucast (drop_bit 16 op32 AND 0xf) :: u16);
         imm8 = (ucast (op32 AND 0xff) :: u16);
         imm = (push_bit 8 (ucast imm4) OR ucast imm8 :: u32);
         xrd = (arm2x86_map_register_arm32 rd :: u8);
         buf = rex_rm buf 1 xrd;
         buf = emit_byte buf (0xb8 OR (xrd AND 7));
         buf = emit_imm32 buf imm;
         buf = rex_rm buf 0 xrd;
         buf = emit_byte buf 0x81;
         buf = modrm buf 3 4 (xrd AND 7)
      in emit_imm32 buf 0xFFFFFFFF)"

definition thumb32_movt :: "code \<Rightarrow> u32 \<Rightarrow> code" where
  "thumb32_movt buf op32 =
     (let rd = (ucast (drop_bit 8 op32 AND 0xf) :: u8);
         imm4 = (ucast (drop_bit 16 op32 AND 0xf) :: u16);
         imm8 = (ucast (op32 AND 0xff) :: u16);
         imm16 = (push_bit 8 (ucast imm4) OR ucast imm8 :: u32);
         xrd = (arm2x86_map_register_arm32 rd :: u8);
         buf = rex_rm buf 0 xrd;
         buf = emit_byte buf 0x81;
         buf = modrm buf 3 4 (xrd AND 7);
         buf = emit_imm32 buf 0x0000FFFF;
         buf = rex_rm buf 0 xrd;
         buf = emit_byte buf 0x81;
         buf = modrm buf 3 1 (xrd AND 7)
      in emit_imm32 buf (push_bit 16 imm16))"

definition thumb32_addw :: "code \<Rightarrow> u32 \<Rightarrow> code" where
  "thumb32_addw buf op32 =
     (let rd = (ucast (drop_bit 8 op32 AND 0xf) :: u8);
         rn = (ucast (drop_bit 16 op32 AND 0xf) :: u8);
         i0 = (drop_bit 26 op32 AND 1 :: u32);
         imm3 = (drop_bit 12 op32 AND 7 :: u32);
         imm8 = (op32 AND 0xff :: u32);
         imm = ((push_bit 11 i0 OR push_bit 8 imm3) OR imm8 :: u32);
         xrd = (arm2x86_map_register_arm32 rd :: u8);
         xrn = (arm2x86_map_register_arm32 rn :: u8);
         buf = mov_r64_r64 buf xrd xrn;
         buf = rex_rm buf 1 xrd;
         buf = emit_byte buf 0x81;
         buf = modrm buf 3 0 (xrd AND 7)
      in emit_imm32 buf imm)"

definition thumb32_subw :: "code \<Rightarrow> u32 \<Rightarrow> code" where
  "thumb32_subw buf op32 =
     (let rd = (ucast (drop_bit 8 op32 AND 0xf) :: u8);
         rn = (ucast (drop_bit 16 op32 AND 0xf) :: u8);
         i0 = (drop_bit 26 op32 AND 1 :: u32);
         imm3 = (drop_bit 12 op32 AND 7 :: u32);
         imm8 = (op32 AND 0xff :: u32);
         imm = ((push_bit 11 i0 OR push_bit 8 imm3) OR imm8 :: u32);
         xrd = (arm2x86_map_register_arm32 rd :: u8);
         xrn = (arm2x86_map_register_arm32 rn :: u8);
         buf = mov_r64_r64 buf xrd xrn;
         buf = rex_rm buf 1 xrd;
         buf = emit_byte buf 0x81;
         buf = modrm buf 3 5 (xrd AND 7)
      in emit_imm32 buf imm)"

definition thumb32_ldrd :: "code \<Rightarrow> u32 \<Rightarrow> code" where
  "thumb32_ldrd buf op32 =
     (let rt = (ucast (op32 AND 0xf) :: u8);
         rt2 = (ucast (drop_bit 12 op32 AND 0xf) :: u8);
         rn = (ucast (drop_bit 16 op32 AND 0xf) :: u8);
         imm8 = (drop_bit 4 op32 AND 0xff :: u32);
         xrt = (arm2x86_map_register_arm32 rt :: u8);
         xrt2 = (arm2x86_map_register_arm32 rt2 :: u8);
         xrn = (arm2x86_map_register_arm32 rn :: u8);
         buf = rex_r buf xrt xrn;
         buf = emit_byte buf 0x8b;
         buf = emit_modrm_disp buf (xrt AND 7) xrn (imm8 * 4);
         buf = rex_r buf xrt2 xrn;
         buf = emit_byte buf 0x8b
      in emit_modrm_disp buf (xrt2 AND 7) xrn ((imm8 * 4) + 4))"

definition thumb32_strd :: "code \<Rightarrow> u32 \<Rightarrow> code" where
  "thumb32_strd buf op32 =
     (let rt = (ucast (op32 AND 0xf) :: u8);
         rt2 = (ucast (drop_bit 12 op32 AND 0xf) :: u8);
         rn = (ucast (drop_bit 16 op32 AND 0xf) :: u8);
         imm8 = (drop_bit 4 op32 AND 0xff :: u32);
         xrt = (arm2x86_map_register_arm32 rt :: u8);
         xrt2 = (arm2x86_map_register_arm32 rt2 :: u8);
         xrn = (arm2x86_map_register_arm32 rn :: u8);
         buf = rex_r buf xrt xrn;
         buf = emit_byte buf 0x89;
         buf = emit_modrm_disp buf (xrt AND 7) xrn (imm8 * 4);
         buf = rex_r buf xrt2 xrn;
         buf = emit_byte buf 0x89
      in emit_modrm_disp buf (xrt2 AND 7) xrn ((imm8 * 4) + 4))"

definition thumb32_ldmia :: "code \<Rightarrow> u32 \<Rightarrow> code" where
  "thumb32_ldmia buf op32 =
     (let rn = (ucast (drop_bit 16 op32 AND 0xf) :: u8);
         wback = (drop_bit 21 op32 AND 1) \<noteq> 0;
         reg_list = (ucast (op32 AND 0xffff) :: u16);
         xrn = (arm2x86_map_register_arm32 rn :: u8);
         offset = (0 :: u32)
      in (let (buf, offset) = fold (\<lambda>r (buf, offset).
           (if ((ucast reg_list AND push_bit (unat r) 1 :: u32) \<noteq> 0) then
                 (let xr = (arm2x86_map_register_arm32 (ucast r) :: u8);
                     buf = rex_r buf xr xrn;
                     buf = emit_byte buf 0x8b;
                     buf = emit_modrm_disp buf (xr AND 7) xrn offset;
                     offset = offset + 8
                  in (buf, offset))
               else (buf, offset))) (map of_nat [0..<16] :: u32 list) (buf, offset)
      in (if wback then
           (let buf = rex_rm buf 1 xrn;
               buf = emit_byte buf 0x81;
               buf = modrm buf 3 0 (xrn AND 7)
            in emit_imm32 buf offset)
         else buf)))"

definition thumb32_stmia :: "code \<Rightarrow> u32 \<Rightarrow> code" where
  "thumb32_stmia buf op32 =
     (let rn = (ucast (drop_bit 16 op32 AND 0xf) :: u8);
         wback = (drop_bit 21 op32 AND 1) \<noteq> 0;
         reg_list = (ucast (op32 AND 0xffff) :: u16);
         xrn = (arm2x86_map_register_arm32 rn :: u8);
         offset = (0 :: u32)
      in (let (buf, offset) = fold (\<lambda>r (buf, offset).
           (if ((ucast reg_list AND push_bit (unat r) 1 :: u32) \<noteq> 0) then
                 (let xr = (arm2x86_map_register_arm32 (ucast r) :: u8);
                     buf = rex_r buf xr xrn;
                     buf = emit_byte buf 0x89;
                     buf = emit_modrm_disp buf (xr AND 7) xrn offset;
                     offset = offset + 8
                  in (buf, offset))
               else (buf, offset))) (map of_nat [0..<16] :: u32 list) (buf, offset)
      in (if wback then
           (let buf = rex_rm buf 1 xrn;
               buf = emit_byte buf 0x81;
               buf = modrm buf 3 0 (xrn AND 7)
            in emit_imm32 buf offset)
         else buf)))"

definition thumb32_blx :: "code \<Rightarrow> u32 \<Rightarrow> code" where
  "thumb32_blx buf op32 =
     (let rm = (ucast (drop_bit 3 op32 AND 0xf) :: u8);
         xrm = (arm2x86_map_register_arm32 rm :: u8);
         xlr = (arm2x86_map_register_arm32 14 :: u8)
      in emit_call_reg buf xrm)"

definition thumb32_bfi :: "code \<Rightarrow> u32 \<Rightarrow> code" where
  "thumb32_bfi buf op32 =
     (let rd = (ucast (drop_bit 8 op32 AND 0xf) :: u8);
         rn = (ucast (drop_bit 16 op32 AND 0xf) :: u8);
         rm = (ucast (op32 AND 0xf) :: u8);
         msb = (ucast (drop_bit 16 op32 AND 0x1f) :: u8);
         lsb = (ucast (drop_bit 5 op32 AND 0x1f) :: u8);
         xrd = (arm2x86_map_register_arm32 rd :: u8);
         xrn = (arm2x86_map_register_arm32 rn :: u8);
         xrm = (arm2x86_map_register_arm32 rm :: u8);
         width = ((ucast msb - ucast lsb) + 1 :: u32)
      in (if (((width \<le>s 0) \<or> (64 <s width)) \<or> (64 \<le> lsb)) then
       buf
     else (let mask0 = (0 :: u64);
         mask0 = (if (width = 64) then
           (NOT 0 :: u64)
         else (push_bit (unat lsb) ((push_bit (unat (width AND 63)) 1) - 1)));
         buf = rex_rm buf 1 xrd;
         buf = emit_byte buf (0xb8 OR (xrd AND 7));
         buf = emit_imm32 buf (NOT (ucast mask0));
         buf = rex_r buf xrd xrn;
         buf = emit_byte buf 0x21;
         buf = modrm buf 3 (xrd AND 7) (xrn AND 7);
         buf = rex_rm buf 0 xrm;
         buf = emit_byte buf 0xc1;
         buf = modrm buf 3 4 (xrm AND 7);
         buf = emit_byte buf lsb;
         buf = rex_r buf xrd xrm;
         buf = emit_byte buf 0x09
      in modrm buf 3 (xrd AND 7) (xrm AND 7))))"

definition thumb32_bfc :: "code \<Rightarrow> u32 \<Rightarrow> code" where
  "thumb32_bfc buf op32 =
     (let rd = (ucast (drop_bit 8 op32 AND 0xf) :: u8);
         msb = (ucast (drop_bit 16 op32 AND 0x1f) :: u8);
         lsb = (ucast (drop_bit 5 op32 AND 0x1f) :: u8);
         xrd = (arm2x86_map_register_arm32 rd :: u8);
         width = ((ucast msb - ucast lsb) + 1 :: u32)
      in (if (((width \<le>s 0) \<or> (64 <s width)) \<or> (64 \<le> lsb)) then
       buf
     else (let mask0 = (0 :: u64);
         mask0 = (if (width = 64) then
           (0 :: u64)
         else (NOT (push_bit (unat lsb) ((push_bit (unat (width AND 63)) 1) - 1))));
         buf = rex_rm buf 0 xrd;
         buf = emit_byte buf 0x81;
         buf = modrm buf 3 4 (xrd AND 7)
      in emit_imm32 buf (ucast mask0))))"

definition thumb32_sbfx :: "code \<Rightarrow> u32 \<Rightarrow> code" where
  "thumb32_sbfx buf op32 =
     (let rd = (ucast (drop_bit 8 op32 AND 0xf) :: u8);
         rn = (ucast (drop_bit 16 op32 AND 0xf) :: u8);
         msb = (ucast (drop_bit 16 op32 AND 0x1f) :: u8);
         lsb = (ucast (drop_bit 5 op32 AND 0x1f) :: u8);
         xrd = (arm2x86_map_register_arm32 rd :: u8);
         xrn = (arm2x86_map_register_arm32 rn :: u8);
         width = ((ucast msb - ucast lsb) + 1 :: u32);
         buf = mov_r64_r64 buf xrd xrn;
         buf = rex_rm buf 0 xrd;
         buf = emit_byte buf 0xc1;
         buf = modrm buf 3 7 (xrd AND 7);
         buf = emit_byte buf lsb
      in (if (width <s 64) then
           (let mask0 = ((push_bit (unat (width AND 63)) 1) - 1 :: u64);
               buf = rex_rm buf 0 xrd;
               buf = emit_byte buf 0xc1;
               buf = modrm buf 3 4 (xrd AND 7);
               buf = emit_byte buf (64 - ucast width);
               buf = rex_rm buf 0 xrd;
               buf = emit_byte buf 0xc1;
               buf = modrm buf 3 7 (xrd AND 7)
            in emit_byte buf (64 - ucast width))
         else buf))"

definition thumb32_ubfx :: "code \<Rightarrow> u32 \<Rightarrow> code" where
  "thumb32_ubfx buf op32 =
     (let rd = (ucast (drop_bit 8 op32 AND 0xf) :: u8);
         rn = (ucast (drop_bit 16 op32 AND 0xf) :: u8);
         msb = (ucast (drop_bit 16 op32 AND 0x1f) :: u8);
         lsb = (ucast (drop_bit 5 op32 AND 0x1f) :: u8);
         xrd = (arm2x86_map_register_arm32 rd :: u8);
         xrn = (arm2x86_map_register_arm32 rn :: u8);
         width = ((ucast msb - ucast lsb) + 1 :: u32);
         buf = mov_r64_r64 buf xrd xrn;
         buf = rex_rm buf 0 xrd;
         buf = emit_byte buf 0xc1;
         buf = modrm buf 3 5 (xrd AND 7);
         buf = emit_byte buf lsb
      in (if (width <s 64) then
           (let mask0 = ((push_bit (unat (width AND 63)) 1) - 1 :: u64);
               buf = rex_rm buf 0 xrd;
               buf = emit_byte buf 0x81;
               buf = modrm buf 3 4 (xrd AND 7)
            in emit_imm32 buf (ucast mask0))
         else buf))"

definition thumb32_rev :: "code \<Rightarrow> u32 \<Rightarrow> code" where
  "thumb32_rev buf op32 =
     (let rd = (ucast (drop_bit 8 op32 AND 0xf) :: u8);
         rn = (ucast (drop_bit 16 op32 AND 0xf) :: u8);
         rm = (ucast (op32 AND 0xf) :: u8);
         xrd = (arm2x86_map_register_arm32 rd :: u8);
         xrn = (arm2x86_map_register_arm32 rn :: u8);
         buf = rex buf True 0 0 (drop_bit 3 xrn);
         buf = emit_byte buf 0x0f;
         buf = emit_byte buf (0xc8 OR (xrn AND 7))
      in mov_r64_r64 buf xrd xrn)"

definition thumb32_rev16 :: "code \<Rightarrow> u32 \<Rightarrow> code" where
  "thumb32_rev16 buf op32 =
     (let rd = (ucast (drop_bit 8 op32 AND 0xf) :: u8);
         rn = (ucast (drop_bit 16 op32 AND 0xf) :: u8);
         rm = (ucast (op32 AND 0xf) :: u8);
         xrd = (arm2x86_map_register_arm32 rd :: u8);
         xrn = (arm2x86_map_register_arm32 rn :: u8);
         buf = mov_r64_r64 buf xrd xrn;
         buf = emit_byte buf 0x50;
         buf = rex buf True 0 0 (drop_bit 3 xrd);
         buf = emit_byte buf 0xc1;
         buf = emit_byte buf 0xe8;
         buf = emit_byte buf 0x08;
         buf = rex buf True 0 0 (drop_bit 3 xrd);
         buf = emit_byte buf 0x48;
         buf = emit_byte buf 0x81;
         buf = emit_byte buf (0xe0 OR (xrd AND 7));
         buf = emit_byte buf 0xff;
         buf = emit_byte buf 0x00;
         buf = emit_byte buf 0xff;
         buf = emit_byte buf 0x00;
         buf = emit_byte buf 0x58;
         buf = rex buf True 0 0 (drop_bit 3 xrd);
         buf = emit_byte buf 0xc1;
         buf = emit_byte buf 0xe0;
         buf = emit_byte buf 0x08;
         buf = rex buf True 0 0 (drop_bit 3 xrd);
         buf = emit_byte buf 0x48;
         buf = emit_byte buf 0x81;
         buf = emit_byte buf (0xe0 OR (xrd AND 7));
         buf = emit_byte buf 0x00;
         buf = emit_byte buf 0xff;
         buf = emit_byte buf 0x00
      in emit_byte buf 0xff)"

definition thumb32_revsh :: "code \<Rightarrow> u32 \<Rightarrow> code" where
  "thumb32_revsh buf op32 =
     (let rd = (ucast (drop_bit 8 op32 AND 0xf) :: u8);
         rn = (ucast (drop_bit 16 op32 AND 0xf) :: u8);
         rm = (ucast (op32 AND 0xf) :: u8);
         xrd = (arm2x86_map_register_arm32 rd :: u8);
         xrn = (arm2x86_map_register_arm32 rn :: u8);
         buf = mov_r64_r64 buf xrd xrn;
         buf = rex_r buf xrd xrn;
         buf = emit_byte buf 0xc1;
         buf = modrm buf 3 4 (xrd AND 7);
         buf = emit_byte buf 8;
         buf = rex buf True 0 (drop_bit 3 xrd) (drop_bit 3 xrd);
         buf = emit_byte buf 0x0f;
         buf = emit_byte buf 0xbf
      in modrm buf 3 (xrd AND 7) (xrd AND 7))"

definition thumb32_ssat :: "code \<Rightarrow> u32 \<Rightarrow> code" where
  "thumb32_ssat buf op32 =
     (let rd = (ucast (drop_bit 8 op32 AND 0xf) :: u8);
         rn = (ucast (drop_bit 16 op32 AND 0xf) :: u8);
         sat_imm = (ucast (drop_bit 16 op32 AND 0x1f) + 1 :: u8);
         xrd = (arm2x86_map_register_arm32 rd :: u8);
         xrn = (arm2x86_map_register_arm32 rn :: u8);
         max_val = ((push_bit (unat (ucast sat_imm - 1 :: u32)) 1) - 1 :: u64);
         min_val = (- (push_bit (unat (ucast sat_imm - 1 :: u32)) 1) :: u64);
         buf = mov_r64_r64 buf xrd xrn;
         buf = rex_rm buf 1 xrd;
         buf = emit_byte buf 0x81;
         buf = modrm buf 3 7 (xrd AND 7);
         buf = emit_imm32 buf (ucast max_val);
         buf = rex_rm buf 1 11;
         buf = emit_byte buf (0xb8 OR (11 AND 7));
         buf = emit_imm32 buf (ucast max_val);
         buf = rex_r buf 11 xrd;
         buf = emit_byte buf 0x0f;
         buf = emit_byte buf 0x4f;
         buf = modrm buf 3 (11 AND 7) (xrd AND 7);
         buf = mov_r64_r64 buf xrd 11;
         buf = rex_rm buf 1 xrd;
         buf = emit_byte buf 0x81;
         buf = modrm buf 3 7 (xrd AND 7);
         buf = emit_imm32 buf (ucast min_val);
         buf = rex_rm buf 1 11;
         buf = emit_byte buf (0xb8 OR (11 AND 7));
         buf = emit_imm32 buf (ucast min_val);
         buf = rex_r buf 11 xrd;
         buf = emit_byte buf 0x0f;
         buf = emit_byte buf 0x4c;
         buf = modrm buf 3 (11 AND 7) (xrd AND 7)
      in mov_r64_r64 buf xrd 11)"

definition thumb32_usat :: "code \<Rightarrow> u32 \<Rightarrow> code" where
  "thumb32_usat buf op32 =
     (let rd = (ucast (drop_bit 8 op32 AND 0xf) :: u8);
         rn = (ucast (drop_bit 16 op32 AND 0xf) :: u8);
         sat_imm = (ucast (drop_bit 16 op32 AND 0x1f) + 1 :: u8);
         xrd = (arm2x86_map_register_arm32 rd :: u8);
         xrn = (arm2x86_map_register_arm32 rn :: u8);
         buf = mov_r64_r64 buf xrd xrn;
         buf = rex_rm buf 0 xrd;
         buf = emit_byte buf 0xf7;
         buf = modrm buf 3 0 (xrd AND 7);
         buf = emit_byte buf 0x00;
         buf = emit_byte buf 0x00;
         buf = emit_byte buf 0x00;
         buf = emit_byte buf 0x00;
         buf = emit_byte buf 0x80;
         buf = emit_byte buf 0x00;
         buf = emit_byte buf 0x00;
         buf = emit_byte buf 0x00;
         buf = emit_byte buf (0xb8 OR (xrd AND 7));
         buf = emit_imm32 buf 0;
         max_val = (push_bit (unat sat_imm) 1 - 1 :: u64);
         buf = rex_rm buf 1 xrd;
         buf = emit_byte buf 0x81;
         buf = modrm buf 3 7 (xrd AND 7);
         buf = emit_imm32 buf (ucast max_val);
         buf = rex_rm buf 1 11;
         buf = emit_byte buf (0xb8 OR (11 AND 7));
         buf = emit_imm32 buf (ucast max_val);
         buf = rex_r buf 11 xrd;
         buf = emit_byte buf 0x0f;
         buf = emit_byte buf 0x46;
         buf = modrm buf 3 (11 AND 7) (xrd AND 7)
      in mov_r64_r64 buf xrd 11)"

text \<open>The chain of cases; only the IT case touches the IT state.\<close>

definition translate_thumb32 :: "code \<Rightarrow> u32 \<Rightarrow> it_state \<Rightarrow> nat \<times> code \<times> it_state" where
  "translate_thumb32 buf op32 it =
     (if (op32 AND 0xfe800000) = 0xf8800000 then (4, thumb32_str_imm buf op32, it)
      else if (op32 AND 0xfe800000) = 0xf8000000 then (4, thumb32_ldr_imm buf op32, it)
      else if (op32 AND 0xf800d000) = 0xf0009000 then (4, thumb32_b_bl buf op32, it)
      else if (op32 AND 0xfff00000) = 0xeb000000 then (4, thumb32_add buf op32, it)
      else if (op32 AND 0xfff00000) = 0xeba00000 then (4, thumb32_sub buf op32, it)
      else if (op32 AND 0xfff00000) = 0xea400000 then (4, thumb32_mov buf op32, it)
      else if (op32 AND 0xfff00000) = 0xebb00000 then (4, thumb32_cmp buf op32, it)
      else if ((op32 AND 0xfff00000) = 0xf0000000) \<and> ((op32 AND 0x000f0000) = 0x00000000) then (4, thumb32_and buf op32, it)
      else if (op32 AND 0xfff00000) = 0xf0400000 then (4, thumb32_orr buf op32, it)
      else if (op32 AND 0xfff00000) = 0xf0800000 then (4, thumb32_eor buf op32, it)
      else if (op32 AND 0xff100000) = 0xf1100000 then (4, thumb32_cbz buf op32, it)
      else if (op32 AND 0xfff000f0) = 0xeb400050 then (4, thumb32_adc buf op32, it)
      else if (op32 AND 0xfff000f0) = 0xee400050 then (4, thumb32_sbc buf op32, it)
      else if (op32 AND 0xfbf08000) = 0xf2400000 then (4, thumb32_movw buf op32, it)
      else if (op32 AND 0xfbf08000) = 0xf2c00000 then (4, thumb32_movt buf op32, it)
      else if (op32 AND 0xfbf08000) = 0xf2000000 then (4, thumb32_addw buf op32, it)
      else if (op32 AND 0xfbf08000) = 0xf2a00000 then (4, thumb32_subw buf op32, it)
      else if (op32 AND 0xfff00000) = 0xe8500000 then (4, thumb32_ldrd buf op32, it)
      else if (op32 AND 0xfff00000) = 0xe8000000 then (4, thumb32_strd buf op32, it)
      else if (op32 AND 0xfff00000) = 0xe8900000 then (4, thumb32_ldmia buf op32, it)
      else if (op32 AND 0xfff00000) = 0xe8800000 then (4, thumb32_stmia buf op32, it)
      else if (op32 AND 0xff00ff00) = 0xbf000000 then (4, emit_byte buf 0x90, init_it_block (ucast (drop_bit 12 op32 AND 0x0F)) (ucast (op32 AND 0x0F)))
      else if (op32 AND 0xfff000ff) = 0x47800000 then (4, thumb32_blx buf op32, it)
      else if (op32 AND 0xffe00010) = 0xf3400000 then (4, thumb32_bfi buf op32, it)
      else if (op32 AND 0xffe0001f) = 0xf360001f then (4, thumb32_bfc buf op32, it)
      else if (op32 AND 0xffff0010) = 0xf3500000 then (4, thumb32_sbfx buf op32, it)
      else if (op32 AND 0xffff0010) = 0xf3700000 then (4, thumb32_ubfx buf op32, it)
      else if (op32 AND 0xfff000ff) = 0xfa8000f0 then (4, thumb32_rev buf op32, it)
      else if (op32 AND 0xfff000ff) = 0xfa8000b0 then (4, thumb32_rev16 buf op32, it)
      else if (op32 AND 0xfff000ff) = 0xfa800030 then (4, thumb32_revsh buf op32, it)
      else if (op32 AND 0xffe00010) = 0xf3600000 then (4, thumb32_ssat buf op32, it)
      else if (op32 AND 0xffe00010) = 0xf3e00000 then (4, thumb32_usat buf op32, it)
      else (4, emit_byte buf 0x90, it))"

section \<open>A block\<close>

text \<open>One round of the loop: the bytes consumed, the buffer and the IT state.\<close>

definition thumb_step :: "(ptr \<Rightarrow> u8) \<Rightarrow> ptr \<Rightarrow> ptr \<Rightarrow> code \<Rightarrow> it_state \<Rightarrow> nat \<times> code \<times> it_state" where
  "thumb_step m src end_ptr buf it =
     (let op16 = read_le16 m src;
          op32 = (push_bit 16 (ucast op16) OR ucast (read_le16 m (src + 2)) :: u32);
          it = (if is_thumb2_prefix op16 \<and> src + 4 \<le> end_ptr then
                  (if op32 AND 0xf000d000 = 0xf0009000 \<or> op32 AND 0xfff000ff = 0x47800000
                   then it\<lparr>it_active := 0\<rparr> else it)
                else if op16 AND 0xf000 = 0xd000 then it\<lparr>it_active := 0\<rparr> else it)
      in if is_thumb2_prefix op16 \<and> src + 4 \<le> end_ptr then
           (let (n, buf, it) = translate_thumb32 buf op32 it in (n, buf, advance_it_state it))
         else
           (let (n, buf) = (if is_thumb2_prefix op16 then (2, emit_byte buf 0x90) else translate_thumb16 buf op16)
            in (n, buf, advance_it_state it)))"

fun thumb_loop :: "nat \<Rightarrow> (ptr \<Rightarrow> u8) \<Rightarrow> ptr \<Rightarrow> ptr \<Rightarrow> code \<Rightarrow> it_state \<Rightarrow> (code \<times> it_state) option" where
  "thumb_loop 0 m src end_ptr buf it = None"
| "thumb_loop (Suc n) m src end_ptr buf it =
     (if src + 2 \<le> end_ptr then
        (let (k, buf, it) = thumb_step m src end_ptr buf it
         in thumb_loop n m (src + of_nat k) end_ptr buf it)
      else Some (buf, it))"

definition it_reset :: it_state where
  "it_reset = \<lparr>it_condition = 0, it_mask = 0, it_index = 0, it_active = 0\<rparr>"

text \<open>A round consumes at least two bytes, which gives the fuel.\<close>

definition arm2x86_convert_block_thumb :: "(ptr \<Rightarrow> u8) \<Rightarrow> ptr \<Rightarrow> u64 \<Rightarrow> (int \<times> code) option" where
  "arm2x86_convert_block_thumb m thumb_code thumb_size =
     map_option (\<lambda>(buf, it). (ARM2X86_OK, buf))
       (thumb_loop (unat thumb_size div 2 + 1) m thumb_code (thumb_code + thumb_size) [] it_reset)"

section \<open>Code does not depend on its place\<close>

lemma thumb16_append [emit_append]:
  "thumb16_add_reg (a @ b) op = a @ thumb16_add_reg b op"
  "thumb16_sub_reg (a @ b) op = a @ thumb16_sub_reg b op"
  "thumb16_mov_reg (a @ b) op = a @ thumb16_mov_reg b op"
  "thumb16_add_imm (a @ b) op = a @ thumb16_add_imm b op"
  "thumb16_cmp_imm (a @ b) op = a @ thumb16_cmp_imm b op"
  "thumb16_b_cond (a @ b) op = a @ thumb16_b_cond b op"
  "thumb16_b (a @ b) op = a @ thumb16_b b op"
  "thumb16_bx (a @ b) op = a @ thumb16_bx b op"
  "thumb16_ldr_lit (a @ b) op = a @ thumb16_ldr_lit b op"
  "thumb16_ldr_str (a @ b) op = a @ thumb16_ldr_str b op"
  "thumb16_ldrb_strb (a @ b) op = a @ thumb16_ldrb_strb b op"
  "thumb16_nop (a @ b) op = a @ thumb16_nop b op"
  "thumb16_svc (a @ b) op = a @ thumb16_svc b op"
  by (simp_all add: thumb16_add_reg_def thumb16_sub_reg_def thumb16_mov_reg_def thumb16_add_imm_def thumb16_cmp_imm_def
      thumb16_b_cond_def thumb16_b_def thumb16_bx_def thumb16_ldr_lit_def thumb16_ldr_str_def
      thumb16_ldrb_strb_def thumb16_nop_def thumb16_svc_def Let_def emit_append)

lemma thumb16_lists_append [emit_append]:
  "thumb16_push (a @ b) op = a @ thumb16_push b op"
  "thumb16_pop (a @ b) op = a @ thumb16_pop b op"
  by (simp_all add: thumb16_push_def thumb16_pop_def Let_def emit_append fold_append)

lemma thumb32_append [emit_append]:
  "thumb32_str_imm (a @ b) op = a @ thumb32_str_imm b op"
  "thumb32_ldr_imm (a @ b) op = a @ thumb32_ldr_imm b op"
  "thumb32_b_bl (a @ b) op = a @ thumb32_b_bl b op"
  "thumb32_add (a @ b) op = a @ thumb32_add b op"
  "thumb32_sub (a @ b) op = a @ thumb32_sub b op"
  "thumb32_mov (a @ b) op = a @ thumb32_mov b op"
  "thumb32_cmp (a @ b) op = a @ thumb32_cmp b op"
  "thumb32_and (a @ b) op = a @ thumb32_and b op"
  "thumb32_orr (a @ b) op = a @ thumb32_orr b op"
  "thumb32_eor (a @ b) op = a @ thumb32_eor b op"
  "thumb32_cbz (a @ b) op = a @ thumb32_cbz b op"
  "thumb32_adc (a @ b) op = a @ thumb32_adc b op"
  "thumb32_sbc (a @ b) op = a @ thumb32_sbc b op"
  "thumb32_movw (a @ b) op = a @ thumb32_movw b op"
  "thumb32_movt (a @ b) op = a @ thumb32_movt b op"
  "thumb32_addw (a @ b) op = a @ thumb32_addw b op"
  "thumb32_subw (a @ b) op = a @ thumb32_subw b op"
  "thumb32_ldrd (a @ b) op = a @ thumb32_ldrd b op"
  "thumb32_strd (a @ b) op = a @ thumb32_strd b op"
  "thumb32_blx (a @ b) op = a @ thumb32_blx b op"
  "thumb32_bfi (a @ b) op = a @ thumb32_bfi b op"
  "thumb32_bfc (a @ b) op = a @ thumb32_bfc b op"
  "thumb32_sbfx (a @ b) op = a @ thumb32_sbfx b op"
  "thumb32_ubfx (a @ b) op = a @ thumb32_ubfx b op"
  "thumb32_rev (a @ b) op = a @ thumb32_rev b op"
  "thumb32_rev16 (a @ b) op = a @ thumb32_rev16 b op"
  "thumb32_revsh (a @ b) op = a @ thumb32_revsh b op"
  "thumb32_ssat (a @ b) op = a @ thumb32_ssat b op"
  "thumb32_usat (a @ b) op = a @ thumb32_usat b op"
  by (simp_all add: thumb32_str_imm_def thumb32_ldr_imm_def thumb32_b_bl_def thumb32_add_def thumb32_sub_def
      thumb32_mov_def thumb32_cmp_def thumb32_and_def thumb32_orr_def thumb32_eor_def thumb32_cbz_def
      thumb32_adc_def thumb32_sbc_def thumb32_movw_def thumb32_movt_def thumb32_addw_def thumb32_subw_def
      thumb32_ldrd_def thumb32_strd_def thumb32_blx_def thumb32_bfi_def thumb32_bfc_def thumb32_sbfx_def
      thumb32_ubfx_def thumb32_rev_def thumb32_rev16_def thumb32_revsh_def thumb32_ssat_def
      thumb32_usat_def Let_def emit_append)

lemma thumb32_lists_append [emit_append]:
  "thumb32_ldmia (a @ b) op = a @ thumb32_ldmia b op"
  "thumb32_stmia (a @ b) op = a @ thumb32_stmia b op"
  by (simp_all add: thumb32_ldmia_def thumb32_stmia_def Let_def emit_append fold_append_snd split_beta)

abbreviation thumb16_code :: "u16 \<Rightarrow> code" where
  "thumb16_code op16 \<equiv> snd (translate_thumb16 [] op16)"

abbreviation thumb32_code :: "u32 \<Rightarrow> code" where
  "thumb32_code op32 \<equiv> fst (snd (translate_thumb32 [] op32 it_reset))"

lemma thumb16_result: "translate_thumb16 buf op = (2, buf @ thumb16_code op)"
proof -
  have "translate_thumb16 (buf @ []) op = (2, buf @ thumb16_code op)"
    unfolding translate_thumb16_def by (simp add: emit_append del: append_Nil2)
  then show ?thesis by simp
qed

text \<open>The IT instruction has 16 bits and no prefix, so that the case for it is never reached.\<close>

lemma prefix_not_it:
  assumes "is_thumb2_prefix h"
  shows "(push_bit 16 (ucast h) OR ucast k :: u32) AND 0xff00ff00 \<noteq> 0xbf000000"
proof
  assume "(push_bit 16 (ucast h) OR ucast k :: u32) AND 0xff00ff00 = 0xbf000000"
  then have "bit ((push_bit 16 (ucast h) OR ucast k :: u32) AND 0xff00ff00) 30 = bit (0xbf000000 :: u32) 30" by simp
  then have "\<not> bit h 14" by (simp add: bit_simps)
  moreover have "bit (h AND 0xe800) 14 \<or> bit (h AND 0xf800) 14" using assms by (auto simp: is_thumb2_prefix_def)
  ultimately show False by (simp add: bit_simps)
qed

lemma thumb32_result:
  assumes "op AND 0xff00ff00 \<noteq> 0xbf000000"
  shows "translate_thumb32 buf op it = (4, buf @ thumb32_code op, it)"
proof -
  have "translate_thumb32 (buf @ []) op it = (4, buf @ thumb32_code op, it)"
    unfolding translate_thumb32_def using assms by (simp add: emit_append del: append_Nil2)
  then show ?thesis by simp
qed

section \<open>The instructions of a block\<close>

text \<open>
  The rule of the architecture: a halfword whose five upper bits are 11101, 11110 or 11111
  is the first half of a 32-bit instruction, any other one is an instruction by itself. \<open>None\<close> marks
  a single halfword; a first half at the end of the block has lost its second one.
\<close>

definition thumb_wide :: "u16 \<Rightarrow> bool" where
  "thumb_wide h \<longleftrightarrow> drop_bit 11 h = 0x1d \<or> drop_bit 11 h = 0x1e \<or> drop_bit 11 h = 0x1f"

fun thumb_cut :: "u16 list \<Rightarrow> (u16 \<times> u16 option) list" where
  "thumb_cut [] = []"
| "thumb_cut [h] = [(h, None)]"
| "thumb_cut (h # k # hs) = (if thumb_wide h then (h, Some k) # thumb_cut hs else (h, None) # thumb_cut (k # hs))"

text \<open>The code of one instruction, from its halfwords alone; the lost half is replaced by a \<open>nop\<close>.\<close>

fun instr_code :: "u16 \<times> u16 option \<Rightarrow> code" where
  "instr_code (h, Some k) = thumb32_code (push_bit 16 (ucast h) OR ucast k)"
| "instr_code (h, None) = (if thumb_wide h then [0x90] else thumb16_code h)"

definition is_it :: "u16 \<Rightarrow> bool" where
  "is_it h \<longleftrightarrow> h AND 0xff00 = 0xbf00 \<and> h AND 0xf \<noteq> 0"

lemma all_less_16: "(\<forall>n<16. P n) \<longleftrightarrow> P 0 \<and> P 1 \<and> P 2 \<and> P 3 \<and> P 4 \<and> P 5 \<and> P 6 \<and> P 7 \<and>
    P 8 \<and> P 9 \<and> P 10 \<and> P 11 \<and> P 12 \<and> P 13 \<and> P 14 \<and> P (15::nat)"
  by (simp add: eval_nat_numeral All_less_Suc conj_ac)

lemma prefix_wide: "is_thumb2_prefix h \<longleftrightarrow> thumb_wide h"
proof -
  have e: "v = w \<longleftrightarrow> (\<forall>n<16. bit v n = bit w n)" for v w :: u16 by (auto intro: bit_word_eqI)
  have b: "\<not> bit h n" if "16 \<le> n" for n using that by (auto dest: bit_imp_le_length)
  show ?thesis unfolding is_thumb2_prefix_def thumb_wide_def e all_less_16 by (simp add: bit_simps b) blast
qed

definition halfwords :: "(ptr \<Rightarrow> u8) \<Rightarrow> ptr \<Rightarrow> nat \<Rightarrow> u16 list" where
  "halfwords m p n = map (\<lambda>i. read_le16 m (p + of_nat (2 * i))) [0..<n]"

lemma halfwords_Suc: "halfwords m p (Suc n) = read_le16 m p # halfwords m (p + 2) n"
proof -
  have "map (\<lambda>i. read_le16 m (p + of_nat (2 * i))) [Suc 0..<Suc n] =
        map (\<lambda>i. read_le16 m (p + 2 + of_nat (2 * i))) [0..<n]"
    unfolding map_Suc_upt [symmetric] by (simp add: algebra_simps)
  then show ?thesis by (simp add: halfwords_def upt_conv_Cons del: upt_Suc)
qed

lemma halfwords_0 [simp]: "halfwords m p 0 = []"
  by (simp add: halfwords_def)

lemma inactive [simp]:
  "it_active it = 0 \<Longrightarrow> advance_it_state it = it" "it_active it = 0 \<Longrightarrow> it\<lparr>it_active := 0\<rparr> = it"
  by (simp_all add: advance_it_state_def)

lemma thumb_step_result:
  assumes "it_active it = 0"
  shows "thumb_step m src e buf it =
    (if is_thumb2_prefix (read_le16 m src) then
       (if src + 4 \<le> e
        then (4, buf @ thumb32_code (push_bit 16 (ucast (read_le16 m src)) OR ucast (read_le16 m (src + 2))), it)
        else (2, buf @ [0x90], it))
     else (2, buf @ thumb16_code (read_le16 m src), it))"
  by (simp add: thumb_step_def assms thumb16_result [of buf] thumb32_result [OF prefix_not_it, of _ buf] emit_byte_def Let_def)

lemmas thumb_step_code = thumb_step_result [unfolded prefix_wide]

lemma loop_code:
  assumes "unat e + 4 < 2 ^ 64" and "unat src \<le> unat e" and "(unat e - unat src) div 2 < n" and "it_active it = 0"
  shows "thumb_loop n m src e buf it = Some (buf @ concat (map instr_code (thumb_cut (halfwords m src ((unat e - unat src) div 2)))), it)"
  using assms(2,3)
proof (induction n arbitrary: src buf)
  case (Suc n)
  let ?d = "unat e - unat src" and ?h = "read_le16 m src"
  have u: "unat (src + 2) = unat src + 2" "unat (src + 4) = unat src + 4" "src + 2 + 2 = src + 4"
    using Suc.prems(1) assms(1) by (simp_all add: unat_word_ariths(1))
  have le: "src + 2 \<le> e \<longleftrightarrow> 2 \<le> ?d" "src + 4 \<le> e \<longleftrightarrow> 4 \<le> ?d"
    using Suc.prems(1) by (auto simp: word_le_nat_alt u)
  consider (none) "?d < 2" | (one) "2 \<le> ?d" "?d < 4" | (more) "4 \<le> ?d" by linarith
  then show ?case
  proof cases
    case none
    then show ?thesis using le by simp
  next
    case one
    then have k: "?d div 2 = Suc 0" "(unat e - unat (src + 2)) div 2 = 0" "unat (src + 2) \<le> unat e"
      by (simp_all add: u)
    have "thumb_loop n m (src + 2) e b it = Some (b, it)" for b
      using Suc.IH [of "src + 2" b] Suc.prems k by simp
    then show ?thesis
      using one le by (simp add: thumb_step_code [OF assms(4)] k(1) halfwords_Suc)
  next
    case more
    define r where "r = (?d - 4) div 2"
    have k: "?d div 2 = Suc (Suc r)" "(unat e - unat (src + 2)) div 2 = Suc r" "(unat e - unat (src + 4)) div 2 = r"
      "unat (src + 2) \<le> unat e" "unat (src + 4) \<le> unat e"
      using more unfolding r_def u by linarith+
    have "thumb_loop n m (src + 2) e b it = Some (b @ concat (map instr_code (thumb_cut (halfwords m (src + 2) (Suc r)))), it)"
      "thumb_loop n m (src + 4) e b it = Some (b @ concat (map instr_code (thumb_cut (halfwords m (src + 4) r))), it)" for b
      using Suc.IH [of "src + 2" b] Suc.IH [of "src + 4" b] Suc.prems k by simp_all
    then show ?thesis
      using more le by (simp add: thumb_step_code [OF assms(4)] k(1) halfwords_Suc u(3))
  qed
qed simp

section \<open>Properties\<close>

lemma thumb_block_code:
  assumes "unat thumb_code + unat thumb_size + 4 < 2 ^ 64"
  shows "arm2x86_convert_block_thumb m thumb_code thumb_size =
    Some (ARM2X86_OK, concat (map instr_code (thumb_cut (halfwords m thumb_code (unat thumb_size div 2)))))"
proof -
  have "unat (thumb_code + thumb_size) = unat thumb_code + unat thumb_size"
    using assms by (simp add: unat_word_ariths(1))
  then show ?thesis
    using assms loop_code [of "thumb_code + thumb_size" thumb_code "unat thumb_size div 2 + 1" it_reset m "[]"]
    by (simp add: arm2x86_convert_block_thumb_def it_reset_def)
qed

text \<open>
  C18: the translation of a Thumb block returns, and its code is the concatenation of the codes of the single
  instructions in their order: the halfwords are cut into instructions of 16 and 32 bits by the rule of the
  architecture, and what is emitted for an instruction depends on its halfwords only. Blocks with a halfword
  of the form of an IT instruction are left out, since there the comments of the source announce
  conditional jumps that are not emitted (\<open>it_is_ignored\<close>); so are blocks at the end of the address space.
\<close>

theorem thumb_block_concat:
  assumes "unat thumb_code + unat thumb_size + 4 < 2 ^ 64"
    and "\<forall>h\<in>set (halfwords m thumb_code (unat thumb_size div 2)). \<not> is_it h"
  shows "arm2x86_convert_block_thumb m thumb_code thumb_size =
    Some (ARM2X86_OK, concat (map instr_code (thumb_cut (halfwords m thumb_code (unat thumb_size div 2)))))"
  using assms(1) by (rule thumb_block_code)

theorem thumb_block_concat_witness:
  "arm2x86_convert_block_thumb ((\<lambda>_. 0)(0x1000 := 0x08, 0x1001 := 0x46, 0x1003 := 0xeb, 0x1004 := 1)) 0x1000 6 =
     Some (ARM2X86_OK, thumb16_code 0x4608 @ thumb32_code 0xeb000001)"
proof -
  let ?m = "(\<lambda>_. 0)(0x1000 := 0x08, 0x1001 := 0x46, 0x1003 := 0xeb, 0x1004 := 1) :: ptr \<Rightarrow> u8"
  have h: "halfwords ?m 0x1000 3 = [0x4608, 0xeb00, 1]" by (simp add: halfwords_def upt_rec read_le16_def)
  show ?thesis
    using thumb_block_concat [of "0x1000" 6 ?m] by (simp add: h is_it_def thumb_wide_def)
qed

text \<open>\<open>IT EQ\<close> and a \<open>MOV\<close>: the \<open>MOV\<close> is translated as if it stood alone, without a jump around it.\<close>

lemma it_is_ignored:
  "arm2x86_convert_block_thumb ((\<lambda>_. 0)(0x1000 := 0x08, 0x1001 := 0xbf, 0x1002 := 0x08, 0x1003 := 0x46)) 0x1000 4 =
     Some (ARM2X86_OK, 0x90 # thumb16_code 0x4608)"
proof -
  let ?m = "(\<lambda>_. 0)(0x1000 := 0x08, 0x1001 := 0xbf, 0x1002 := 0x08, 0x1003 := 0x46) :: ptr \<Rightarrow> u8"
  have h: "halfwords ?m 0x1000 2 = [0xbf08, 0x4608]" by (simp add: halfwords_def upt_rec read_le16_def)
  have "thumb16_code 0xbf08 = [0x90]" by (simp add: translate_thumb16_def emit_byte_def)
  then show ?thesis
    using thumb_block_code [of "0x1000" 4 ?m] by (simp add: h thumb_wide_def)
qed

text \<open>
  The wide load with a positive offset, \<open>LDR.W rt, [rn, #imm12]\<close>, is translated as a store, by the same code as \<open>STR.W\<close>.
  The test that picks the store looks at the bit that says whether the offset is positive, not at the one that
  tells loads from stores.
\<close>

lemma thumb_ldr_is_store:
  assumes "op AND 0xfff00000 = 0xf8d00000"
  shows "translate_thumb32 buf op it = (4, thumb32_str_imm buf op, it) \<and>
         (\<exists>p d. thumb32_str_imm buf op = buf @ p # 0x89 # d \<and> is_rex p)"
proof -
  have "op AND 0xfe800000 = 0xf8800000" using mask_part [OF assms, of "0xfe800000"] by simp
  moreover have "\<exists>d. emit_modrm_disp (buf @ [x, y]) r1 r2 i = buf @ x # y # d" for x y r1 r2 i
    using emitter_append(29) [of "buf @ [x, y]" "[]" r1 r2 i] by auto
  ultimately show ?thesis
    by (simp add: translate_thumb32_def thumb32_str_imm_def Let_def emit_defs) (meson rex_fields(1))
qed

lemma thumb_ldr_is_store_witness:
  "translate_thumb32 [] 0xf8d01004 it_reset = (4, thumb32_str_imm [] 0xf8d01004, it_reset)"
  using thumb_ldr_is_store [of "0xf8d01004" "[]" it_reset] by simp

end
