(* ===== verification/Perf.thy ===== *)
theory Perf
  imports Decode64
begin

text \<open>
  \<open>src/modules/arm2x86_perf.c\<close>: the counters of the performance monitor. They are thread-local, so that every
  operation is a step of one thread. \<open>now\<close> is what \<open>clock_gettime\<close> answers. The report and the JSON export only
  format the counters; they are not modelled.
\<close>

section \<open>State\<close>

type_synonym timespec = "int \<times> int"

record arm2x86_perf_stats =
  total_translations :: u64
  total_instructions :: u64
  arm_bytes_translated :: u64
  x86_bytes_generated :: u64
  total_executions :: u64
  cached_executions :: u64
  uncached_executions :: u64
  instr_count_data_proc :: u64
  instr_count_load_store :: u64
  instr_count_branch :: u64
  instr_count_neon :: u64
  instr_count_system :: u64
  instr_count_unknown :: u64
  start_time :: timespec
  last_reset :: timespec
  total_decode_time_ns :: u64
  total_translate_time_ns :: u64
  total_emit_time_ns :: u64
  total_blocks :: u64
  hot_blocks :: u64
  cold_blocks :: u64
  max_block_size :: u64
  avg_block_size :: u64
  total_memory_allocated :: u64
  current_memory_used :: u64
  peak_memory_used :: u64

record perf =
  g_perf_stats :: arm2x86_perf_stats
  g_perf_initialized :: bool

definition zero_stats :: "timespec \<Rightarrow> arm2x86_perf_stats" where
  "zero_stats t =
     \<lparr>total_translations = 0, total_instructions = 0, arm_bytes_translated = 0, x86_bytes_generated = 0,
      total_executions = 0, cached_executions = 0, uncached_executions = 0, instr_count_data_proc = 0,
      instr_count_load_store = 0, instr_count_branch = 0, instr_count_neon = 0, instr_count_system = 0,
      instr_count_unknown = 0, start_time = t, last_reset = t, total_decode_time_ns = 0,
      total_translate_time_ns = 0, total_emit_time_ns = 0, total_blocks = 0, hot_blocks = 0, cold_blocks = 0,
      max_block_size = 0, avg_block_size = 0, total_memory_allocated = 0, current_memory_used = 0,
      peak_memory_used = 0\<rparr>"

section \<open>Operations\<close>

definition arm2x86_perf_init :: "timespec \<Rightarrow> perf \<Rightarrow> perf" where
  "arm2x86_perf_init now p =
     (if g_perf_initialized p then p
      else p\<lparr>g_perf_stats := zero_stats now, g_perf_initialized := True\<rparr>)"

definition arm2x86_perf_reset :: "timespec \<Rightarrow> perf \<Rightarrow> perf" where
  "arm2x86_perf_reset now p =
     (if \<not> g_perf_initialized p then arm2x86_perf_init now p
      else
        (let old = g_perf_stats p in
         p\<lparr>g_perf_stats := (zero_stats now)
            \<lparr>total_translations := total_translations old, total_instructions := total_instructions old,
             arm_bytes_translated := arm_bytes_translated old, x86_bytes_generated := x86_bytes_generated old\<rparr>\<rparr>))"

definition arm2x86_perf_record_translation :: "timespec \<Rightarrow> u64 \<Rightarrow> u64 \<Rightarrow> u64 \<Rightarrow> u64 \<Rightarrow> u64 \<Rightarrow> perf \<Rightarrow> perf" where
  "arm2x86_perf_record_translation now arm_bytes x86_bytes decode_ns translate_ns emit_ns p =
     (let p = arm2x86_perf_init now p; s = g_perf_stats p;
          s = s\<lparr>total_translations := total_translations s + 1,
                arm_bytes_translated := arm_bytes_translated s + arm_bytes,
                x86_bytes_generated := x86_bytes_generated s + x86_bytes,
                total_decode_time_ns := total_decode_time_ns s + decode_ns,
                total_translate_time_ns := total_translate_time_ns s + translate_ns,
                total_emit_time_ns := total_emit_time_ns s + emit_ns\<rparr>;
          s = (if max_block_size s < x86_bytes then s\<lparr>max_block_size := x86_bytes\<rparr> else s)
      in p\<lparr>g_perf_stats := s\<rparr>)"

abbreviation (input) INSTR_HVC :: u32 where "INSTR_HVC \<equiv> 113"

text \<open>The groups of the switch; \<open>t\<close> is the \<open>uint8_t\<close> parameter.\<close>

definition count_type :: "u8 \<Rightarrow> arm2x86_perf_stats \<Rightarrow> arm2x86_perf_stats" where
  "count_type t s =
     (let i = (ucast t :: u32) in
      if i \<in> {INSTR_ADD, INSTR_SUB, INSTR_AND, INSTR_ORR, INSTR_EOR, INSTR_MOV}
        then s\<lparr>instr_count_data_proc := instr_count_data_proc s + 1\<rparr>
      else if i \<in> {INSTR_LDR, INSTR_STR, INSTR_LDP, INSTR_STP}
        then s\<lparr>instr_count_load_store := instr_count_load_store s + 1\<rparr>
      else if i \<in> {INSTR_B, INSTR_BL, INSTR_BR, INSTR_BLR, INSTR_RET, INSTR_B_COND, INSTR_CBZ, INSTR_CBNZ}
        then s\<lparr>instr_count_branch := instr_count_branch s + 1\<rparr>
      else if i \<in> {INSTR_FMOV_REG, INSTR_FMOV_IMM, INSTR_FADD, INSTR_FSUB, INSTR_FMUL, INSTR_NEON_ADD, INSTR_NEON_SUB}
        then s\<lparr>instr_count_neon := instr_count_neon s + 1\<rparr>
      else if i \<in> {INSTR_MRS, INSTR_MSR, INSTR_SVC, INSTR_HVC}
        then s\<lparr>instr_count_system := instr_count_system s + 1\<rparr>
      else s\<lparr>instr_count_unknown := instr_count_unknown s + 1\<rparr>)"

definition arm2x86_perf_record_execution :: "timespec \<Rightarrow> bool \<Rightarrow> u8 \<Rightarrow> perf \<Rightarrow> perf" where
  "arm2x86_perf_record_execution now cached instr_type p =
     (let p = arm2x86_perf_init now p; s = g_perf_stats p;
          s = s\<lparr>total_executions := total_executions s + 1\<rparr>;
          s = (if cached then s\<lparr>cached_executions := cached_executions s + 1\<rparr>
               else s\<lparr>uncached_executions := uncached_executions s + 1\<rparr>)
      in p\<lparr>g_perf_stats := count_type instr_type s\<rparr>)"

definition arm2x86_perf_record_memory :: "timespec \<Rightarrow> u64 \<Rightarrow> u64 \<Rightarrow> u64 \<Rightarrow> perf \<Rightarrow> perf" where
  "arm2x86_perf_record_memory now allocated current peak p =
     (let p = arm2x86_perf_init now p; s = g_perf_stats p;
          s = s\<lparr>total_memory_allocated := total_memory_allocated s + allocated, current_memory_used := current\<rparr>;
          s = (if peak_memory_used s < peak then s\<lparr>peak_memory_used := peak\<rparr> else s)
      in p\<lparr>g_perf_stats := s\<rparr>)"

text \<open>The size is not used.\<close>

definition arm2x86_perf_record_block :: "timespec \<Rightarrow> u64 \<Rightarrow> bool \<Rightarrow> perf \<Rightarrow> perf" where
  "arm2x86_perf_record_block now sz is_hot p =
     (let p = arm2x86_perf_init now p; s = g_perf_stats p;
          s = s\<lparr>total_blocks := total_blocks s + 1\<rparr>;
          s = (if is_hot then s\<lparr>hot_blocks := hot_blocks s + 1\<rparr> else s\<lparr>cold_blocks := cold_blocks s + 1\<rparr>)
      in p\<lparr>g_perf_stats := s\<rparr>)"

section \<open>The counters add up\<close>

definition adds_up :: "arm2x86_perf_stats \<Rightarrow> bool" where
  "adds_up s \<longleftrightarrow>
     cached_executions s + uncached_executions s = total_executions s \<and>
     instr_count_data_proc s + instr_count_load_store s + instr_count_branch s + instr_count_neon s
       + instr_count_system s + instr_count_unknown s = total_executions s \<and>
     hot_blocks s + cold_blocks s = total_blocks s"

text \<open>With the two counters that nothing counts.\<close>

definition consistent :: "arm2x86_perf_stats \<Rightarrow> bool" where
  "consistent s \<longleftrightarrow> adds_up s \<and> avg_block_size s = 0 \<and> total_instructions s = 0"

definition perf_inv :: "perf \<Rightarrow> bool" where
  "perf_inv p \<longleftrightarrow> g_perf_initialized p \<longrightarrow> consistent (g_perf_stats p)"

inductive perf_step :: "perf \<Rightarrow> perf \<Rightarrow> bool" where
  init: "perf_step p (arm2x86_perf_init now p)"
| reset: "perf_step p (arm2x86_perf_reset now p)"
| translation: "perf_step p (arm2x86_perf_record_translation now a x d t e p)"
| execution: "perf_step p (arm2x86_perf_record_execution now cached i p)"
| memory: "perf_step p (arm2x86_perf_record_memory now al cu pe p)"
| block: "perf_step p (arm2x86_perf_record_block now sz hot p)"

lemma zero_consistent [simp]: "consistent (zero_stats now)"
  by (simp add: consistent_def adds_up_def zero_stats_def)

lemma init_inv: "perf_inv p \<Longrightarrow> consistent (g_perf_stats (arm2x86_perf_init now p))"
  by (simp add: perf_inv_def arm2x86_perf_init_def)

lemma count_type_fields:
  "total_executions (count_type t s) = total_executions s" "cached_executions (count_type t s) = cached_executions s"
  "uncached_executions (count_type t s) = uncached_executions s" "total_blocks (count_type t s) = total_blocks s"
  "hot_blocks (count_type t s) = hot_blocks s" "cold_blocks (count_type t s) = cold_blocks s"
  "avg_block_size (count_type t s) = avg_block_size s" "total_instructions (count_type t s) = total_instructions s"
  by (simp_all add: count_type_def Let_def)

lemma count_type_one:
  "instr_count_data_proc (count_type t s) + instr_count_load_store (count_type t s) + instr_count_branch (count_type t s)
     + instr_count_neon (count_type t s) + instr_count_system (count_type t s) + instr_count_unknown (count_type t s) =
   instr_count_data_proc s + instr_count_load_store s + instr_count_branch s + instr_count_neon s
     + instr_count_system s + instr_count_unknown s + 1"
proof -
  consider "count_type t s = s\<lparr>instr_count_data_proc := instr_count_data_proc s + 1\<rparr>"
    | "count_type t s = s\<lparr>instr_count_load_store := instr_count_load_store s + 1\<rparr>"
    | "count_type t s = s\<lparr>instr_count_branch := instr_count_branch s + 1\<rparr>"
    | "count_type t s = s\<lparr>instr_count_neon := instr_count_neon s + 1\<rparr>"
    | "count_type t s = s\<lparr>instr_count_system := instr_count_system s + 1\<rparr>"
    | "count_type t s = s\<lparr>instr_count_unknown := instr_count_unknown s + 1\<rparr>"
    unfolding count_type_def Let_def by presburger
  then show ?thesis by cases simp_all
qed

lemma step_inv: "perf_step p q \<Longrightarrow> perf_inv p \<Longrightarrow> perf_inv q"
proof (induction rule: perf_step.induct)
  case (init p now)
  then show ?case using init_inv [of p now] by (simp add: perf_inv_def)
next
  case (reset p now)
  then show ?case
    by (auto simp: perf_inv_def arm2x86_perf_reset_def arm2x86_perf_init_def Let_def consistent_def adds_up_def zero_stats_def)
next
  case (translation p now a x d t e)
  from init_inv [OF this, of now] show ?case
    by (simp add: perf_inv_def arm2x86_perf_record_translation_def Let_def consistent_def adds_up_def)
next
  case (execution p now cached i)
  from init_inv [OF this, of now] show ?case
    by (simp add: perf_inv_def arm2x86_perf_record_execution_def Let_def consistent_def adds_up_def count_type_fields count_type_one)
next
  case (memory p now al cu pe)
  from init_inv [OF this, of now] show ?case
    by (simp add: perf_inv_def arm2x86_perf_record_memory_def Let_def consistent_def adds_up_def)
next
  case (block p now sz hot)
  from init_inv [OF this, of now] show ?case
    by (auto simp: perf_inv_def arm2x86_perf_record_block_def Let_def consistent_def adds_up_def)
qed

section \<open>Properties\<close>

lemma perf_reachable:
  assumes "perf_step\<^sup>*\<^sup>* p q" and "\<not> g_perf_initialized p" and "g_perf_initialized q"
  shows "consistent (g_perf_stats q)"
proof -
  have "perf_inv p" using assms(2) by (simp add: perf_inv_def)
  with assms(1) have "perf_inv q" by (induction rule: rtranclp_induct) (auto intro: step_inv)
  then show ?thesis using assms(3) by (simp add: perf_inv_def)
qed

text \<open>The average block size and the number of translated instructions are never counted: both stay 0.\<close>

lemma perf_never_counted:
  assumes "perf_step\<^sup>*\<^sup>* p q" and "\<not> g_perf_initialized p" and "g_perf_initialized q"
  shows "avg_block_size (g_perf_stats q) = 0 \<and> total_instructions (g_perf_stats q) = 0"
  using perf_reachable [OF assms] by (simp add: consistent_def)

text \<open>
  C34: after any sequence of the operations of the monitor, starting before its initialisation, the counters
  add up, modulo \<open>2^64\<close>: the executions are the cached and the uncached ones and also the sum over the six groups of
  instructions, and the blocks are the hot and the cold ones, after resets too.
\<close>

theorem perf_counters_add_up:
  assumes "perf_step\<^sup>*\<^sup>* p q" and "\<not> g_perf_initialized p" and "g_perf_initialized q"
  defines "s \<equiv> g_perf_stats q"
  shows "cached_executions s + uncached_executions s = total_executions s \<and>
    instr_count_data_proc s + instr_count_load_store s + instr_count_branch s + instr_count_neon s
      + instr_count_system s + instr_count_unknown s = total_executions s \<and>
    hot_blocks s + cold_blocks s = total_blocks s"
  using perf_reachable [OF assms(1-3)] by (simp add: s_def consistent_def adds_up_def)

definition perf0 :: perf where
  "perf0 = \<lparr>g_perf_stats = zero_stats (0, 0), g_perf_initialized = False\<rparr>"

theorem perf_counters_add_up_witness:
  "let q = arm2x86_perf_record_block (1, 0) 64 True (arm2x86_perf_record_execution (1, 0) True 17 perf0)
   in hot_blocks (g_perf_stats q) + cold_blocks (g_perf_stats q) = total_blocks (g_perf_stats q)"
proof -
  define q where "q = arm2x86_perf_record_block (1, 0) 64 True (arm2x86_perf_record_execution (1, 0) True 17 perf0)"
  have "perf_step\<^sup>*\<^sup>* perf0 q" unfolding q_def
    by (blast intro: rtranclp.rtrancl_into_rtrancl execution block)
  moreover have "\<not> g_perf_initialized perf0" "g_perf_initialized q"
    by (simp_all add: q_def perf0_def arm2x86_perf_record_block_def arm2x86_perf_record_execution_def arm2x86_perf_init_def Let_def)
  ultimately show ?thesis
    using perf_counters_add_up by (simp add: q_def [symmetric])
qed

end
