(* ===== verification/Dbt.thy ===== *)
theory Dbt
  imports CodeCache Thumb Perf "HOL-Library.Monad_Syntax"
begin

text \<open>
  \<open>src/modules/arm2x86_dbt.c\<close>: the runtime of the binary translator, with its cache of blocks.

  The array \<open>g_dbt_cache\<close> is the list of its first \<open>g_dbt_count\<close> elements; the members \<open>flags\<close> and
  \<open>hash\<close>, which are never used, are left out. \<open>dbt_mem\<close> is the memory: the guest code, the copies of it and the
  code cache lie there. \<open>dbt_freed\<close> collects the calls of \<open>free\<close>. The mutex is a flag: it is of the
  default kind, so that a thread that locks it a second time waits for itself. Such a call is the result
  \<open>None\<close>, it never returns. The results of \<open>mmap\<close>, \<open>malloc\<close> and of the clock are parameters.
  \<open>dbt_execute\<close>, which calls the generated code from inline assembly, is not modelled.
\<close>

section \<open>State\<close>

record DBTBlockInternal =
  db_arm_pc :: u64
  db_x86_entry :: ptr
  db_block_size :: u32
  db_hit_count :: int
  db_original_code :: ptr
  db_original_size :: u64

record dbt =
  g_dbt_cache :: "DBTBlockInternal list"
  g_dbt_code_cache :: ptr
  g_dbt_cache_used :: u64
  g_dbt_mutex :: bool
  dbt_mem :: "ptr \<Rightarrow> u8"
  dbt_perf :: perf
  dbt_freed :: "ptr list"

definition DBT_CACHE_SIZE :: nat where "DBT_CACHE_SIZE = 1024"

definition DBT_CODE_CACHE_SIZE :: u64 where "DBT_CODE_CACHE_SIZE = 64 * 1024 * 1024"

definition lock :: "dbt \<Rightarrow> dbt option" where
  "lock s = (if g_dbt_mutex s then None else Some (s\<lparr>g_dbt_mutex := True\<rparr>))"

definition unlock :: "dbt \<Rightarrow> dbt" where
  "unlock s = s\<lparr>g_dbt_mutex := False\<rparr>"

definition free_ptr :: "ptr \<Rightarrow> dbt \<Rightarrow> dbt" where
  "free_ptr p s = (if p = NULL then s else s\<lparr>dbt_freed := dbt_freed s @ [p]\<rparr>)"

section \<open>The cache\<close>

text \<open>A size within three bytes of \<open>2^64\<close>, where the counter of the loop would wrap, is never stored.\<close>

definition dbt_check_smc :: "(ptr \<Rightarrow> u8) \<Rightarrow> DBTBlockInternal \<Rightarrow> bool" where
  "dbt_check_smc m b =
     (if db_original_code b = NULL \<or> db_x86_entry b = NULL \<or> db_original_size b = 0 then False
      else \<exists>i\<in>set [0..<(unat (db_original_size b) + 3) div 4].
             read_le32 m (db_arm_pc b + of_nat (4 * i)) \<noteq> read_le32 m (db_original_code b + of_nat (4 * i)))"

definition dbt_invalidate_block :: "u32 \<Rightarrow> dbt \<Rightarrow> dbt option" where
  "dbt_invalidate_block arm_pc s =
     do {
       s \<leftarrow> lock s;
       case first_index (\<lambda>b. db_arm_pc b = ucast arm_pc) (g_dbt_cache s) of
         None \<Rightarrow> Some (unlock s)
       | Some i \<Rightarrow>
           (let b = g_dbt_cache s ! i;
                s = free_ptr (db_original_code b) s
            in Some (unlock (s\<lparr>g_dbt_cache := (g_dbt_cache s)
                        [i := b\<lparr>db_arm_pc := 0, db_x86_entry := NULL, db_original_code := NULL\<rparr>]\<rparr>)))
     }"

definition dbt_flush_cache :: "dbt \<Rightarrow> dbt option" where
  "dbt_flush_cache s =
     do {
       s \<leftarrow> lock s;
       let s = fold (\<lambda>b. free_ptr (db_original_code b)) (g_dbt_cache s) s;
       Some (unlock (s\<lparr>g_dbt_cache := [], g_dbt_cache_used := 0\<rparr>))
     }"

definition dbt_lookup :: "timespec \<Rightarrow> u64 \<Rightarrow> dbt \<Rightarrow> (nat option \<times> dbt) option" where
  "dbt_lookup now arm_pc s =
     do {
       s \<leftarrow> lock s;
       case first_index (\<lambda>b. db_arm_pc b = arm_pc) (g_dbt_cache s) of
         None \<Rightarrow> Some (None, unlock s)
       | Some i \<Rightarrow>
           (let b = g_dbt_cache s ! i in
            if dbt_check_smc (dbt_mem s) b then
              do {
                s \<leftarrow> dbt_invalidate_block (ucast arm_pc) s;
                Some (None, unlock s)
              }
            else
              Some (Some i, unlock (s\<lparr>g_dbt_cache := (g_dbt_cache s)[i := b\<lparr>db_hit_count := db_hit_count b + 1\<rparr>],
                      dbt_perf := arm2x86_perf_record_execution now True 0 (dbt_perf s)\<rparr>)))
     }"

definition new_dbt_block :: "u64 \<Rightarrow> ptr \<Rightarrow> u32 \<Rightarrow> ptr \<Rightarrow> u64 \<Rightarrow> DBTBlockInternal" where
  "new_dbt_block arm_pc x86_entry block_size original_code original_size =
     \<lparr>db_arm_pc = arm_pc, db_x86_entry = x86_entry, db_block_size = block_size, db_hit_count = 0,
      db_original_code = original_code, db_original_size = original_size\<rparr>"

definition dbt_insert :: "timespec \<Rightarrow> u64 \<Rightarrow> ptr \<Rightarrow> u32 \<Rightarrow> ptr \<Rightarrow> u64 \<Rightarrow> dbt \<Rightarrow> (nat \<times> dbt) option" where
  "dbt_insert now arm_pc x86_entry block_size original_code original_size s =
     do {
       s \<leftarrow> lock s;
       let s = s\<lparr>dbt_perf := arm2x86_perf_record_block now (ucast block_size) False (dbt_perf s)\<rparr>;
       let b = new_dbt_block arm_pc x86_entry block_size original_code original_size;
       if DBT_CACHE_SIZE \<le> length (g_dbt_cache s) then
         (let lru = least_hit db_hit_count (g_dbt_cache s);
              s = free_ptr (db_original_code (g_dbt_cache s ! lru)) s
          in Some (lru, unlock (s\<lparr>g_dbt_cache := (g_dbt_cache s)[lru := b]\<rparr>)))
       else Some (length (g_dbt_cache s), unlock (s\<lparr>g_dbt_cache := g_dbt_cache s @ [b]\<rparr>))
     }"

definition dbt_get_code_cache :: "dbt \<Rightarrow> ptr" where
  "dbt_get_code_cache s = g_dbt_code_cache s"

definition dbt_get_code_cache_size :: u64 where
  "dbt_get_code_cache_size = DBT_CODE_CACHE_SIZE"

definition dbt_get_cache_used :: "dbt \<Rightarrow> u64" where
  "dbt_get_cache_used s = g_dbt_cache_used s"

definition dbt_init :: "ptr \<Rightarrow> dbt \<Rightarrow> int \<times> dbt" where
  "dbt_init mmap_result s =
     (if mmap_result = MAP_FAILED then (ARM2X86_ERR_MEMORY, s\<lparr>g_dbt_code_cache := NULL\<rparr>)
      else (ARM2X86_OK, s\<lparr>g_dbt_code_cache := mmap_result, g_dbt_cache_used := 0, g_dbt_cache := []\<rparr>))"

definition dbt_destroy :: "dbt \<Rightarrow> dbt" where
  "dbt_destroy s =
     (let s = (if g_dbt_code_cache s \<noteq> NULL then s\<lparr>g_dbt_code_cache := NULL\<rparr> else s) in s\<lparr>g_dbt_cache := []\<rparr>)"

section \<open>Translation\<close>

definition memcpy :: "(ptr \<Rightarrow> u8) \<Rightarrow> ptr \<Rightarrow> ptr \<Rightarrow> nat \<Rightarrow> ptr \<Rightarrow> u8" where
  "memcpy m dst src n = (\<lambda>a. if unat (a - dst) < n then m (src + (a - dst)) else m a)"

definition write_code :: "(ptr \<Rightarrow> u8) \<Rightarrow> ptr \<Rightarrow> code \<Rightarrow> ptr \<Rightarrow> u8" where
  "write_code m p c = (\<lambda>a. if unat (a - p) < length c then c ! unat (a - p) else m a)"

text \<open>
  The choice of the translator by the mode. \<open>ctx\<close> is the context, which is not null here; \<open>regs_malloc\<close> is what
  \<open>malloc\<close> gives for the register homes, \<open>t\<close> and \<open>junk\<close> are the uninitialised locals of the A64 translator.
\<close>

definition dbt_convert :: "Platform \<Rightarrow> DecodedInstruction \<Rightarrow> TranslateCtx \<Rightarrow> ptr \<Rightarrow> (ptr \<Rightarrow> u8) \<Rightarrow> arm2x86_Context
    \<Rightarrow> ptr \<Rightarrow> u64 \<Rightarrow> ptr \<Rightarrow> (int \<times> code) option" where
  "dbt_convert pf junk t regs_malloc m ctx arm_code arm_size block_mem =
     (if ctx_mode ctx = ARM2X86_MODE_ARM32 then arm2x86_convert_block_arm32 m arm_code arm_size
      else if ctx_mode ctx = ARM2X86_MODE_THUMB then arm2x86_convert_block_thumb m arm_code (arm_size * 2)
      else
        (case arm2x86_convert_block pf m 1 (ctx_strict_memory_ordering ctx) junk regs_malloc t arm_code arm_size
                block_mem 1 NULL of
           (rc, None) \<Rightarrow> Some (rc, [])
         | (rc, Some t') \<Rightarrow> Some (rc, x86_code t')))"

text \<open>
  The result is the entry point, the value stored to \<open>*x86_size\<close> when there is one, and the state. \<open>x86_buffer\<close>
  and \<open>x86_size\<close> are only compared with the null pointer.
\<close>

definition dbt_translate_block :: "Platform \<Rightarrow> DecodedInstruction \<Rightarrow> TranslateCtx \<Rightarrow> ptr \<Rightarrow> ptr \<Rightarrow> timespec
    \<Rightarrow> arm2x86_Context option \<Rightarrow> u64 \<Rightarrow> ptr \<Rightarrow> ptr \<Rightarrow> dbt \<Rightarrow> (ptr \<times> u64 option \<times> dbt) option" where
  "dbt_translate_block pf junk t regs_malloc copy_malloc now ctx arm_pc x86_buffer x86_size s =
     (if ctx = None \<or> x86_buffer = NULL \<or> x86_size = NULL then Some (NULL, None, s)
      else
        do {
          (cached, s) \<leftarrow> dbt_lookup now arm_pc s;
          case cached of
            Some i \<Rightarrow> Some (db_x86_entry (g_dbt_cache s ! i), Some (ucast (db_block_size (g_dbt_cache s ! i))), s)
          | None \<Rightarrow>
              if g_dbt_code_cache s = NULL \<or> DBT_CODE_CACHE_SIZE < g_dbt_cache_used s + 4096 then Some (NULL, None, s)
              else
                (let block_mem = g_dbt_code_cache s + g_dbt_cache_used s; arm_size = 64 * 4 in
                 if copy_malloc = NULL then Some (NULL, None, s)
                 else
                   (let s = s\<lparr>dbt_mem := memcpy (dbt_mem s) copy_malloc arm_pc (unat arm_size)\<rparr> in
                    do {
                      (rc, c) \<leftarrow> dbt_convert pf junk t regs_malloc (dbt_mem s) (the ctx) arm_pc arm_size block_mem;
                      let out_size = (of_nat (length c) :: u64);
                      let s = s\<lparr>dbt_mem := write_code (dbt_mem s) block_mem c\<rparr>;
                      if rc \<noteq> ARM2X86_OK then Some (NULL, None, free_ptr copy_malloc s)
                      else
                        do {
                          (_, s) \<leftarrow> dbt_insert now arm_pc block_mem (ucast out_size) copy_malloc arm_size s;
                          Some (block_mem, Some out_size,
                                s\<lparr>g_dbt_cache_used := g_dbt_cache_used s + ((out_size + 15) AND NOT 15)\<rparr>)
                        }
                    }))
        })"

section \<open>Properties\<close>

lemmas dbt_defs = lock_def unlock_def free_ptr_def

text \<open>
  C12: when a lookup returns. \<open>dbt_lookup\<close> hangs if and only if the mutex is already held or the block that it finds
  has been modified since its translation: the detection of self-modifying code calls
  \<open>dbt_invalidate_block\<close>, which locks the mutex that the lookup holds.
\<close>

theorem dbt_lookup_hangs_iff:
  "dbt_lookup now arm_pc s = None \<longleftrightarrow>
     g_dbt_mutex s \<or>
     (\<exists>i. first_index (\<lambda>b. db_arm_pc b = arm_pc) (g_dbt_cache s) = Some i \<and>
          dbt_check_smc (dbt_mem s) (g_dbt_cache s ! i))"
  by (auto simp: dbt_lookup_def dbt_invalidate_block_def dbt_defs Let_def split: option.splits)

lemma filter_update_other:
  assumes "\<not> P (xs ! i)" and "\<not> P y"
  shows "filter P (xs[i := y]) = filter P xs"
proof (cases "i < length xs")
  case True
  then have "xs = take i xs @ xs ! i # drop (Suc i) xs" by (rule id_take_nth_drop)
  moreover have "xs[i := y] = take i xs @ y # drop (Suc i) xs" using True by (rule upd_conv_take_nth_drop)
  ultimately show ?thesis using assms by (metis (lifting) filter.simps(2) filter_append)
qed (simp add: list_update_beyond)

text \<open>
  The invalidation of a block above 4 GB does nothing to it. \<open>dbt_invalidate_block\<close> takes the address as
  a \<open>uint32_t\<close>, so that the blocks at an address of \<open>2^32\<close> or more are all still there afterwards.
\<close>

lemma dbt_invalidate_truncates:
  assumes "2 ^ 32 \<le> arm_pc" and "dbt_invalidate_block (ucast arm_pc) s = Some s'"
  shows "filter (\<lambda>b. db_arm_pc b = arm_pc) (g_dbt_cache s') = filter (\<lambda>b. db_arm_pc b = arm_pc) (g_dbt_cache s)"
proof -
  let ?t = "ucast (ucast arm_pc :: u32) :: u64"
  have "?t = take_bit 32 arm_pc" by (rule bit_word_eqI) (simp add: bit_simps)
  then have "unat ?t < 2 ^ 32" using take_bit_nat_less_exp [of 32 "unat arm_pc"] by (simp add: unsigned_take_bit_eq)
  then have t: "?t \<noteq> arm_pc" "arm_pc \<noteq> 0" using assms(1) by (auto simp: word_le_nat_alt)
  show ?thesis
  proof (cases "first_index (\<lambda>b. db_arm_pc b = ?t) (g_dbt_cache s)")
    case None
    with assms(2) show ?thesis by (auto simp: dbt_invalidate_block_def dbt_defs split: if_splits)
  next
    case (Some i)
    then have "db_arm_pc (g_dbt_cache s ! i) = ?t" by (auto dest: first_index_Some)
    with Some assms(2) t show ?thesis
      by (auto simp: dbt_invalidate_block_def dbt_defs Let_def filter_update_other split: if_splits)
  qed
qed

definition dbt0 :: dbt where
  "dbt0 = \<lparr>g_dbt_cache = [new_dbt_block 0x100001000 0x40000000 16 0x2000 256], g_dbt_code_cache = 0x40000000,
           g_dbt_cache_used = 0, g_dbt_mutex = False, dbt_mem = \<lambda>_. 0, dbt_perf = perf0, dbt_freed = []\<rparr>"

lemma dbt_invalidate_truncates_witness:
  "map_option (\<lambda>s. filter (\<lambda>b. db_arm_pc b = 0x100001000) (g_dbt_cache s)) (dbt_invalidate_block 0x1000 dbt0) =
     Some [new_dbt_block 0x100001000 0x40000000 16 0x2000 256]"
proof -
  have "dbt_invalidate_block 0x1000 dbt0 = Some dbt0"
    by (simp add: dbt_invalidate_block_def dbt0_def dbt_defs new_dbt_block_def)
  moreover from dbt_invalidate_truncates [of "0x100001000" dbt0 dbt0] this
  have "filter (\<lambda>b. db_arm_pc b = 0x100001000) (g_dbt_cache dbt0) = filter (\<lambda>b. db_arm_pc b = 0x100001000) (g_dbt_cache dbt0)"
    by simp
  ultimately show ?thesis by (simp add: dbt0_def new_dbt_block_def)
qed

section \<open>Translation and lookup\<close>

lemma first_index_new:
  assumes "first_index P xs = None" and "P y"
  shows "first_index P (xs @ [y]) = Some (length xs)" and "i < length xs \<Longrightarrow> first_index P (xs[i := y]) = Some i"
proof -
  show "first_index P (xs @ [y]) = Some (length xs)"
    using assms by (induction xs) (auto split: if_splits)
  show "i < length xs \<Longrightarrow> first_index P (xs[i := y]) = Some i"
    using assms
  proof (induction xs arbitrary: i)
    case (Cons x xs)
    then show ?case by (cases i) (auto split: if_splits)
  qed simp
qed

definition apart_range :: "ptr \<Rightarrow> nat \<Rightarrow> ptr \<Rightarrow> nat \<Rightarrow> bool" where
  "apart_range p n q k \<longleftrightarrow> (\<forall>i<n. \<forall>j<k. p + of_nat i \<noteq> q + of_nat j)"

lemma outside:
  assumes "apart_range p n q k" and "i < n"
  shows "\<not> unat (p + of_nat i - q) < k"
proof
  assume "unat (p + of_nat i - q) < k"
  with assms have "p + of_nat i \<noteq> q + of_nat (unat (p + of_nat i - q))" unfolding apart_range_def by blast
  then show False by simp
qed

text \<open>After the copy and the translation the copy still equals the guest code.\<close>

lemma copy_unchanged:
  assumes "apart_range pc 256 blk (length c)" and "apart_range cp 256 blk (length c)" and "apart_range pc 256 cp 256"
    and "i < 256"
  shows "write_code (memcpy m cp pc 256) blk c (cp + of_nat i) = write_code (memcpy m cp pc 256) blk c (pc + of_nat i)"
proof -
  have "unat (of_nat i :: u64) = i" using assms(4) by (simp add: unat_of_nat64)
  then show ?thesis
    using outside [OF assms(1,4)] outside [OF assms(2,4)] outside [OF assms(3,4)] assms(4)
    by (simp add: write_code_def memcpy_def)
qed

lemma not_modified:
  assumes "apart_range pc 256 blk (length c)" and "apart_range cp 256 blk (length c)" and "apart_range pc 256 cp 256"
  shows "\<not> dbt_check_smc (write_code (memcpy m cp pc 256) blk c) (new_dbt_block pc x n cp 256)"
proof -
  let ?m = "write_code (memcpy m cp pc 256) blk c"
  have "?m (pc + of_nat (4 * i) + k) = ?m (cp + of_nat (4 * i) + k)" if "i < 64" "k = 0 \<or> k = 1 \<or> k = 2 \<or> k = 3" for i k
  proof -
    have "of_nat (4 * i) + k = (of_nat (4 * i + unat k) :: u64)" by simp
    moreover have "4 * i + unat k < 256" using that by auto
    ultimately show ?thesis using copy_unchanged [OF assms, of "4 * i + unat k" m] by (simp only: add.assoc)
  qed
  from this [of _ 0] this [of _ 1] this [of _ 2] this [of _ 3]
  have "read_le32 ?m (pc + of_nat (4 * i)) = read_le32 ?m (cp + of_nat (4 * i))" if "i < 64" for i
    using that by (simp add: read_le32_def)
  then show ?thesis by (auto simp: dbt_check_smc_def new_dbt_block_def)
qed

lemma insert_result:
  assumes "\<not> g_dbt_mutex s" and "first_index (\<lambda>b. db_arm_pc b = pc) (g_dbt_cache s) = None"
    and "length (g_dbt_cache s) \<le> DBT_CACHE_SIZE"
  obtains i s1 where "dbt_insert now pc x n cp sz s = Some (i, s1)" "dbt_mem s1 = dbt_mem s" "\<not> g_dbt_mutex s1"
    "first_index (\<lambda>b. db_arm_pc b = pc) (g_dbt_cache s1) = Some i" "g_dbt_cache s1 ! i = new_dbt_block pc x n cp sz"
    "i < length (g_dbt_cache s1)"
proof -
  have "dbt_insert now pc x n cp sz s \<noteq> None" using assms(1) by (simp add: dbt_insert_def dbt_defs Let_def)
  then obtain i s1 where r: "dbt_insert now pc x n cp sz s = Some (i, s1)" by auto
  have "least_hit db_hit_count (g_dbt_cache s) < length (g_dbt_cache s)" if "DBT_CACHE_SIZE \<le> length (g_dbt_cache s)"
    using that by (intro least_hit_result) (auto simp: DBT_CACHE_SIZE_def)
  then show ?thesis
    using r assms first_index_new [OF assms(2), of "new_dbt_block pc x n cp sz"]
    by (intro that [OF r])
       (auto simp: dbt_insert_def dbt_defs Let_def new_dbt_block_def nth_append split: if_splits)
qed

lemma lookup_hit:
  assumes "\<not> g_dbt_mutex s" and "first_index (\<lambda>b. db_arm_pc b = pc) (g_dbt_cache s) = Some i"
    and "\<not> dbt_check_smc (dbt_mem s) (g_dbt_cache s ! i)" and "i < length (g_dbt_cache s)"
  obtains s2 where "dbt_lookup now pc s = Some (Some i, s2)" "dbt_mem s2 = dbt_mem s"
    "db_x86_entry (g_dbt_cache s2 ! i) = db_x86_entry (g_dbt_cache s ! i)"
    "db_block_size (g_dbt_cache s2 ! i) = db_block_size (g_dbt_cache s ! i)"
  using assms by (auto simp: dbt_lookup_def dbt_defs Let_def)

lemma lookup_miss:
  "\<not> g_dbt_mutex s \<Longrightarrow> first_index (\<lambda>b. db_arm_pc b = pc) (g_dbt_cache s) = None \<Longrightarrow> dbt_lookup now pc s = Some (None, s)"
  by (simp add: dbt_lookup_def dbt_defs)

text \<open>
  C11: translation and the cache. The translation of a block that is not yet cached returns the start of the free
  part of the code cache, with the code of the translator for the mode of the context stored there; the same request
  afterwards returns the same block from the cache, without translating again, and its size modulo
  \<open>2^32\<close>. The guest code, the copy that is kept of it and the generated code must not overlap.
\<close>

theorem dbt_translate_then_cached:
  defines "blk s \<equiv> g_dbt_code_cache s + g_dbt_cache_used s"
  assumes "\<not> g_dbt_mutex s" and "first_index (\<lambda>b. db_arm_pc b = pc) (g_dbt_cache s) = None"
    and "length (g_dbt_cache s) \<le> DBT_CACHE_SIZE"
    and "g_dbt_code_cache s \<noteq> NULL" and "\<not> DBT_CODE_CACHE_SIZE < g_dbt_cache_used s + 4096"
    and "cp \<noteq> NULL" and "buf \<noteq> NULL" and "szp \<noteq> NULL"
    and "dbt_convert pf junk t regs (memcpy (dbt_mem s) cp pc 256) ctx pc 256 (blk s) = Some (ARM2X86_OK, c)"
    and "apart_range pc 256 (blk s) (length c)" and "apart_range cp 256 (blk s) (length c)" and "apart_range pc 256 cp 256"
  shows "\<exists>s1 s2.
    dbt_translate_block pf junk t regs cp now (Some ctx) pc buf szp s = Some (blk s, Some (of_nat (length c)), s1) \<and>
    dbt_mem s1 = write_code (memcpy (dbt_mem s) cp pc 256) (blk s) c \<and>
    dbt_translate_block pf' junk' t' regs' cp' now' (Some ctx') pc buf szp s1 =
      Some (blk s, Some (ucast (ucast (of_nat (length c) :: u64) :: u32)), s2) \<and>
    dbt_mem s2 = dbt_mem s1"
proof -
  let ?n = "of_nat (length c) :: u64" and ?m = "write_code (memcpy (dbt_mem s) cp pc 256) (blk s) c"
  let ?s = "s\<lparr>dbt_mem := ?m\<rparr>"
  obtain i s1 where i: "dbt_insert now pc (blk s) (ucast ?n) cp 256 ?s = Some (i, s1)" "dbt_mem s1 = ?m"
    "\<not> g_dbt_mutex s1" "first_index (\<lambda>b. db_arm_pc b = pc) (g_dbt_cache s1) = Some i"
    "g_dbt_cache s1 ! i = new_dbt_block pc (blk s) (ucast ?n) cp 256" "i < length (g_dbt_cache s1)"
    using insert_result [of ?s pc now "blk s" "ucast ?n" cp 256] assms(2-4) by auto
  let ?s1 = "s1\<lparr>g_dbt_cache_used := g_dbt_cache_used s1 + ((?n + 15) AND NOT 15)\<rparr>"
  have t1: "dbt_translate_block pf junk t regs cp now (Some ctx) pc buf szp s = Some (blk s, Some ?n, ?s1)"
    using assms(5-10) i(1) by (simp add: dbt_translate_block_def lookup_miss [OF assms(2,3)] Let_def blk_def)
  have "\<not> dbt_check_smc ?m (new_dbt_block pc (blk s) (ucast ?n) cp 256)"
    by (rule not_modified [OF assms(11-13)])
  then obtain s2 where s2: "dbt_lookup now' pc ?s1 = Some (Some i, s2)" "dbt_mem s2 = ?m"
    "db_x86_entry (g_dbt_cache s2 ! i) = blk s" "db_block_size (g_dbt_cache s2 ! i) = ucast ?n"
    using lookup_hit [of ?s1 pc i now'] i by (auto simp: new_dbt_block_def)
  have "dbt_translate_block pf' junk' t' regs' cp' now' (Some ctx') pc buf szp ?s1 =
      Some (blk s, Some (ucast (ucast ?n :: u32)), s2)"
    using s2 assms(8,9) by (simp add: dbt_translate_block_def)
  with t1 i(2) s2(2) show ?thesis by auto
qed

lemma apart_rangeI:
  assumes "unat p + n \<le> unat q" and "unat q + k \<le> 2 ^ 64"
  shows "apart_range p n q k"
proof -
  have "unat (p + of_nat i) = unat p + i" if "i < n" for i
    using that assms by (simp add: unat_word_ariths(1) unat_of_nat64)
  moreover have "unat (q + of_nat j) = unat q + j" if "j < k" for j
    using that assms by (simp add: unat_word_ariths(1) unat_of_nat64)
  ultimately show ?thesis using assms(1) unfolding apart_range_def by (metis add_less_le_mono leD le_add1 nat_add_left_cancel_less order_less_le_trans)
qed

lemma length_concat_bound: "(\<And>x. length (f x) \<le> k) \<Longrightarrow> length (concat (map f xs)) \<le> k * length xs"
  by (induction xs) (auto intro: add_mono)

lemma length_step: "length (arm32_step [] op) \<le> 4102"
  using length_instr [of op] by (simp add: step_code Let_def)

definition dbt1 :: dbt where
  "dbt1 = dbt0\<lparr>g_dbt_cache := []\<rparr>"

definition ctx32 :: arm2x86_Context where
  "ctx32 = \<lparr>guest_lib_path = None, guest_cmd = None, ctx_mode = ARM2X86_MODE_ARM32, ctx_strict_memory_ordering = False\<rparr>"

theorem dbt_translate_then_cached_witness:
  "\<forall>pf junk t. \<exists>n s1 s2.
     dbt_translate_block pf junk t 0 0x2000 (0, 0) (Some ctx32) 0x1000 1 1 dbt1 = Some (0x40000000, Some n, s1) \<and>
     dbt_translate_block pf junk t 0 0x3000 (1, 0) (Some ctx32) 0x1000 1 1 s1 = Some (0x40000000, Some (ucast (ucast n :: u32)), s2)"
proof (intro allI)
  fix pf junk t
  let ?m = "memcpy (dbt_mem dbt1) 0x2000 0x1000 256"
  define c where "c = concat (map (\<lambda>i. arm32_step [] (arm2x86_read_le32 ?m (0x1000 + of_nat (4 * i)))) [0..<64])"
  have len: "length c \<le> 4102 * 64" unfolding c_def by (rule order.trans [OF length_concat_bound [OF length_step]]) simp
  have conv: "dbt_convert pf junk t 0 ?m ctx32 0x1000 256 0x40000000 = Some (ARM2X86_OK, c)"
    using arm32_block_concat [of "0x1000" 256 ?m] by (simp add: dbt_convert_def ctx32_def c_def)
  have "apart_range 0x1000 256 0x40000000 (length c)" "apart_range 0x2000 256 0x40000000 (length c)" "apart_range 0x1000 256 0x2000 256"
    using len by (auto intro!: apart_rangeI)
  moreover have "g_dbt_code_cache dbt1 = 0x40000000" "g_dbt_cache_used dbt1 = 0" "g_dbt_cache dbt1 = []" "\<not> g_dbt_mutex dbt1"
    by (simp_all add: dbt1_def dbt0_def)
  ultimately show "\<exists>n s1 s2.
     dbt_translate_block pf junk t 0 0x2000 (0, 0) (Some ctx32) 0x1000 1 1 dbt1 = Some (0x40000000, Some n, s1) \<and>
     dbt_translate_block pf junk t 0 0x3000 (1, 0) (Some ctx32) 0x1000 1 1 s1 = Some (0x40000000, Some (ucast (ucast n :: u32)), s2)"
    using dbt_translate_then_cached [of dbt1 "0x1000" "0x2000" 1 1 pf junk t 0 ctx32 c "(0, 0)" pf junk t 0 "0x3000" "(1, 0)" ctx32] conv
    by (auto simp: DBT_CODE_CACHE_SIZE_def)
qed

end
