(* ===== verification/TCache.thy ===== *)
theory TCache
  imports Hit_Table X86_Machine RegAlloc "HOL-Library.Sublist"
begin

text \<open>
  \<open>src/modules/arm2x86_tcache.c\<close>: the translation cache with hash buckets and an LRU list, and the list of jumps that
  are patched when a block is given up.

  An entry is known by its address, and \<open>tc_entry\<close> is the store of the entries. The chain of a bucket is
  the list of the addresses in it, and the doubly linked LRU list is a list too: its head is
  \<open>lru_head\<close>, its last element \<open>lru_tail\<close>. The globals of the file, the list \<open>g_jump_targets\<close> and the memory with the generated code, are members
  of the same record, and \<open>tc_released\<close> collects the blocks that are freed, with \<open>True\<close> for \<open>munmap\<close>. What \<open>calloc\<close> gives
  is a parameter, and so is the address of \<open>dispatcher_lookup\<close>. A critical section is one step. The automatic
  adjustment and the miss rate, which compute in floating point, are not modelled.
\<close>

section \<open>State\<close>

record jump_target =
  jt_target_arm_addr :: u64
  jt_jmp_instruction :: ptr
  jt_is_call :: bool

record tcache_entry =
  te_arm_addr :: u64
  te_x86_code :: ptr
  te_x86_size :: u64
  te_exec_count :: u32
  te_flags :: u16
  te_hash :: u16

record tcache =
  tc_hash_table :: "ptr list list"
  tc_lru :: "ptr list"
  tc_entry :: "ptr \<Rightarrow> tcache_entry"
  tc_total_size :: u64
  tc_used_size :: u64
  tc_entry_count :: u64
  tc_lookup_count :: u64
  tc_miss_count :: u64
  tc_bucket_count :: u64
  g_jump_targets :: "jump_target list"
  tc_mem :: "ptr \<Rightarrow> u8"
  tc_released :: "(ptr \<times> u64 \<times> bool) list"

abbreviation (input) TCACHE_DEFAULT_SIZE :: u64 where "TCACHE_DEFAULT_SIZE \<equiv> 1024 * 1024"
abbreviation (input) TCACHE_HASH_BUCKETS :: u64 where "TCACHE_HASH_BUCKETS \<equiv> 4096"
abbreviation (input) TCACHE_HOT_THRESHOLD :: u32 where "TCACHE_HOT_THRESHOLD \<equiv> 3"
abbreviation (input) TCACHE_MIN_SIZE :: u64 where "TCACHE_MIN_SIZE \<equiv> 512 * 1024"
abbreviation (input) TCACHE_MAX_SIZE :: u64 where "TCACHE_MAX_SIZE \<equiv> 64 * 1024 * 1024"
abbreviation (input) TCACHE_FLAG_HOT :: u16 where "TCACHE_FLAG_HOT \<equiv> 1"
abbreviation (input) TCACHE_FLAG_LOCKED :: u16 where "TCACHE_FLAG_LOCKED \<equiv> 2"
abbreviation (input) TCACHE_FLAG_OWNED :: u16 where "TCACHE_FLAG_OWNED \<equiv> 4"
abbreviation (input) TCACHE_FLAG_MMAP :: u16 where "TCACHE_FLAG_MMAP \<equiv> 8"

section \<open>Jumps into blocks\<close>

definition tcache_register_jump_target :: "bool \<Rightarrow> u64 \<Rightarrow> ptr \<Rightarrow> bool \<Rightarrow> tcache \<Rightarrow> tcache" where
  "tcache_register_jump_target calloc_ok target_arm_addr jmp_instruction is_call c =
     (if \<not> calloc_ok then c
      else c\<lparr>g_jump_targets := \<lparr>jt_target_arm_addr = target_arm_addr, jt_jmp_instruction = jmp_instruction,
                              jt_is_call = is_call\<rparr> # g_jump_targets c\<rparr>)"

text \<open>\<open>call [rip + 0]\<close> or \<open>jmp [rip + 0]\<close> and the address: fourteen bytes.\<close>

definition patch_jump :: "ptr \<Rightarrow> jump_target \<Rightarrow> (ptr \<Rightarrow> u8) \<Rightarrow> ptr \<Rightarrow> u8" where
  "patch_jump dispatcher_lookup jt m =
     (let p = jt_jmp_instruction jt;
          m = m(p := 0xff);
          m = m(p + 1 := if jt_is_call jt then 0x15 else 0x25);
          m = write32 m (p + 2) 0
      in write64 m (p + 6) dispatcher_lookup)"

definition tcache_patch_evicted_block :: "ptr \<Rightarrow> u64 \<Rightarrow> tcache \<Rightarrow> tcache" where
  "tcache_patch_evicted_block dispatcher_lookup evicted_arm_addr c =
     (let hit = (\<lambda>jt. jt_target_arm_addr jt = evicted_arm_addr) in
      c\<lparr>tc_mem := fold (patch_jump dispatcher_lookup) (filter hit (g_jump_targets c)) (tc_mem c),
        g_jump_targets := filter (\<lambda>jt. \<not> hit jt) (g_jump_targets c)\<rparr>)"

definition trap_jump :: "jump_target \<Rightarrow> (ptr \<Rightarrow> u8) \<Rightarrow> ptr \<Rightarrow> u8" where
  "trap_jump jt m = (let p = jt_jmp_instruction jt in m(p := 0x0f, p + 1 := 0x0b))"

definition tcache_invalidate_jumps_to :: "u64 \<Rightarrow> tcache \<Rightarrow> tcache" where
  "tcache_invalidate_jumps_to evicted_arm_addr c =
     (let hit = (\<lambda>jt. jt_target_arm_addr jt = evicted_arm_addr) in
      c\<lparr>tc_mem := fold trap_jump (filter hit (g_jump_targets c)) (tc_mem c),
        g_jump_targets := filter (\<lambda>jt. \<not> hit jt) (g_jump_targets c)\<rparr>)"

section \<open>Hashing\<close>

definition tcache_hash_buckets :: "u16 \<Rightarrow> u64 \<Rightarrow> u16" where
  "tcache_hash_buckets h buckets = ucast ((ucast h :: u64) mod buckets)"

definition tcache_hash :: "u64 \<Rightarrow> u16" where
  "tcache_hash addr =
     (let h = (14695981039346656037 :: u64);
          h = h XOR (addr AND 0xFFFFFFFF);
          h = h * 1099511628211;
          h = h XOR (drop_bit 32 addr AND 0xFFFFFFFF);
          h = h * 1099511628211
      in ucast h)"

abbreviation bucket_of :: "tcache \<Rightarrow> u16 \<Rightarrow> nat" where
  "bucket_of c h \<equiv> unat (tcache_hash_buckets h (tc_bucket_count c))"

section \<open>Operations\<close>

text \<open>\<open>calloc_cache\<close> and \<open>calloc_table\<close> tell whether the two allocations succeed; the globals come from \<open>g\<close>.\<close>

definition arm2x86_tcache_create :: "bool \<Rightarrow> bool \<Rightarrow> u64 \<Rightarrow> u64 \<Rightarrow> tcache \<Rightarrow> tcache option" where
  "arm2x86_tcache_create calloc_cache calloc_table sz hash_buckets g =
     (if \<not> calloc_cache then None
      else
        (let buckets = (if 0 < hash_buckets then hash_buckets else TCACHE_HASH_BUCKETS) in
         if \<not> calloc_table then None
         else Some (g\<lparr>tc_hash_table := replicate (unat buckets) [], tc_lru := [], tc_total_size := if 0 < sz then sz else TCACHE_DEFAULT_SIZE,
                      tc_used_size := 0, tc_entry_count := 0, tc_lookup_count := 0, tc_miss_count := 0,
                      tc_bucket_count := buckets\<rparr>)))"

definition update_entry :: "ptr \<Rightarrow> (tcache_entry \<Rightarrow> tcache_entry) \<Rightarrow> tcache \<Rightarrow> tcache" where
  "update_entry e f c = c\<lparr>tc_entry := (tc_entry c)(e := f (tc_entry c e))\<rparr>"

definition tcache_lookup_internal :: "tcache \<Rightarrow> u64 \<Rightarrow> ptr option \<times> tcache" where
  "tcache_lookup_internal c arm_addr =
     (let chain = tc_hash_table c ! bucket_of c (tcache_hash arm_addr);
          c = c\<lparr>tc_lookup_count := tc_lookup_count c + 1\<rparr>
      in case find (\<lambda>e. te_arm_addr (tc_entry c e) = arm_addr) chain of
           None \<Rightarrow> (None, c\<lparr>tc_miss_count := tc_miss_count c + 1\<rparr>)
         | Some e \<Rightarrow>
             (let c = update_entry e (\<lambda>x. x\<lparr>te_exec_count := te_exec_count x + 1\<rparr>) c;
                  c = (if TCACHE_HOT_THRESHOLD \<le> te_exec_count (tc_entry c e)
                       then update_entry e (\<lambda>x. x\<lparr>te_flags := te_flags x OR TCACHE_FLAG_HOT\<rparr>) c else c)
              in (Some e, c\<lparr>tc_lru := e # remove1 e (tc_lru c)\<rparr>)))"

definition arm2x86_tcache_lookup :: "tcache option \<Rightarrow> u64 \<Rightarrow> ptr option \<times> tcache option" where
  "arm2x86_tcache_lookup c arm_addr =
     (case c of None \<Rightarrow> (None, None)
      | Some c \<Rightarrow> (let (e, c) = tcache_lookup_internal c arm_addr in (e, Some c)))"

text \<open>The memory of an entry that the cache owns.\<close>

definition release :: "ptr \<Rightarrow> tcache \<Rightarrow> tcache" where
  "release e c =
     (let x = tc_entry c e in
      if te_flags x AND TCACHE_FLAG_OWNED \<noteq> 0
      then c\<lparr>tc_released := tc_released c @ [(te_x86_code x, te_x86_size x, te_flags x AND TCACHE_FLAG_MMAP \<noteq> 0)]\<rparr>
      else c)"

text \<open>One round of the eviction loop, on the tail of the list.\<close>

definition evict_tail :: "ptr \<Rightarrow> tcache \<Rightarrow> tcache" where
  "evict_tail dispatcher_lookup c =
     (let evict = last (tc_lru c); x = tc_entry c evict;
          c = tcache_patch_evicted_block dispatcher_lookup (te_arm_addr x) c;
          c = c\<lparr>tc_lru := butlast (tc_lru c)\<rparr>;
          b = bucket_of c (te_hash x);
          c = c\<lparr>tc_hash_table := (tc_hash_table c)[b := remove1 evict (tc_hash_table c ! b)]\<rparr>;
          c = c\<lparr>tc_used_size := tc_used_size c - te_x86_size x, tc_entry_count := tc_entry_count c - 1\<rparr>
      in release evict c)"

lemma evict_tail_lru [simp]: "tc_lru (evict_tail d c) = butlast (tc_lru c)"
  by (simp add: evict_tail_def tcache_patch_evicted_block_def release_def Let_def)

function evict_loop :: "ptr \<Rightarrow> u64 \<Rightarrow> tcache \<Rightarrow> tcache" where
  "evict_loop dispatcher_lookup x86_size c =
     (if tc_total_size c < tc_used_size c + x86_size \<and> tc_lru c \<noteq> [] then
        (if te_flags (tc_entry c (last (tc_lru c))) AND TCACHE_FLAG_LOCKED \<noteq> 0 then c
         else evict_loop dispatcher_lookup x86_size (evict_tail dispatcher_lookup c))
      else c)"
  by pat_completeness auto

termination
  by (relation "measure (\<lambda>(d, n, c). length (tc_lru c))") auto

text \<open>A new entry goes to the head of its chain and of the LRU list.\<close>

definition link_entry :: "ptr \<Rightarrow> tcache_entry \<Rightarrow> tcache \<Rightarrow> tcache" where
  "link_entry entry x c =
     (let c = c\<lparr>tc_entry := (tc_entry c)(entry := x)\<rparr>;
          b = bucket_of c (te_hash x);
          c = c\<lparr>tc_hash_table := (tc_hash_table c)[b := entry # tc_hash_table c ! b]\<rparr>;
          c = c\<lparr>tc_lru := entry # tc_lru c\<rparr>
      in c\<lparr>tc_used_size := tc_used_size c + te_x86_size x, tc_entry_count := tc_entry_count c + 1\<rparr>)"

definition arm2x86_tcache_insert_ex :: "ptr \<Rightarrow> ptr \<Rightarrow> tcache option \<Rightarrow> u64 \<Rightarrow> ptr \<Rightarrow> u64 \<Rightarrow> bool \<Rightarrow> bool \<Rightarrow> int \<times> tcache option" where
  "arm2x86_tcache_insert_ex dispatcher_lookup calloc_result cache arm_addr x86 x86_size owned mmap =
     (case cache of None \<Rightarrow> (ARM2X86_ERR_INVALID_PARAM, None)
      | Some c \<Rightarrow>
          if x86 = NULL then (ARM2X86_ERR_INVALID_PARAM, cache)
          else
            (let c = evict_loop dispatcher_lookup x86_size c in
             if calloc_result = NULL then (ARM2X86_ERR_MEMORY, Some c)
             else
               (ARM2X86_OK,
                Some (link_entry calloc_result
                  \<lparr>te_arm_addr = arm_addr, te_x86_code = x86, te_x86_size = x86_size, te_exec_count = 1,
                   te_flags = (if owned then TCACHE_FLAG_OWNED else 0) OR (if mmap then TCACHE_FLAG_MMAP else 0),
                   te_hash = tcache_hash arm_addr\<rparr> c))))"

definition arm2x86_tcache_insert :: "ptr \<Rightarrow> ptr \<Rightarrow> tcache option \<Rightarrow> u64 \<Rightarrow> ptr \<Rightarrow> u64 \<Rightarrow> int \<times> tcache option" where
  "arm2x86_tcache_insert dispatcher_lookup calloc_result cache arm_addr x86 x86_size =
     arm2x86_tcache_insert_ex dispatcher_lookup calloc_result cache arm_addr x86 x86_size False False"

definition arm2x86_tcache_clear :: "tcache option \<Rightarrow> tcache option" where
  "arm2x86_tcache_clear cache =
     map_option (\<lambda>c.
       (fold release (concat (tc_hash_table c)) c)
         \<lparr>tc_hash_table := replicate (unat (tc_bucket_count c)) [], tc_lru := [], tc_used_size := 0, tc_entry_count := 0,
          tc_lookup_count := 0, tc_miss_count := 0\<rparr>) cache"

text \<open>The cache and its table are freed afterwards; what remains are the globals.\<close>

definition arm2x86_tcache_destroy :: "tcache option \<Rightarrow> tcache option" where
  "arm2x86_tcache_destroy cache = arm2x86_tcache_clear cache"

definition arm2x86_tcache_get_code :: "tcache \<Rightarrow> ptr option \<Rightarrow> ptr" where
  "arm2x86_tcache_get_code c entry = (case entry of None \<Rightarrow> NULL | Some e \<Rightarrow> te_x86_code (tc_entry c e))"

definition arm2x86_tcache_get_size :: "tcache \<Rightarrow> ptr option \<Rightarrow> u64" where
  "arm2x86_tcache_get_size c entry = (case entry of None \<Rightarrow> 0 | Some e \<Rightarrow> te_x86_size (tc_entry c e))"

definition arm2x86_tcache_is_hot :: "tcache \<Rightarrow> ptr option \<Rightarrow> bool" where
  "arm2x86_tcache_is_hot c entry =
     (case entry of None \<Rightarrow> False
      | Some e \<Rightarrow> te_flags (tc_entry c e) AND TCACHE_FLAG_HOT \<noteq> 0 \<or> TCACHE_HOT_THRESHOLD \<le> te_exec_count (tc_entry c e))"

text \<open>The lookup is made in a null cache.\<close>

definition tcache_lookup_block :: "u64 \<Rightarrow> ptr" where
  "tcache_lookup_block arm_addr =
     (case arm2x86_tcache_lookup None arm_addr of
        (None, _) \<Rightarrow> NULL | (Some e, c) \<Rightarrow> arm2x86_tcache_get_code (the c) (Some e))"

text \<open>Every entry, bucket by bucket, is put at the head of its new chain.\<close>

definition rehash :: "tcache \<Rightarrow> u64 \<Rightarrow> ptr list list \<Rightarrow> ptr list list" where
  "rehash c new_buckets old_table =
     fold (\<lambda>e t. let b = unat (tcache_hash_buckets (te_hash (tc_entry c e)) new_buckets) in t[b := e # t ! b])
       (concat old_table) (replicate (unat new_buckets) [])"

definition arm2x86_tcache_resize :: "bool \<Rightarrow> tcache option \<Rightarrow> u64 \<Rightarrow> int \<times> tcache option" where
  "arm2x86_tcache_resize calloc_ok cache new_size =
     (case cache of None \<Rightarrow> (ARM2X86_ERR_INVALID_PARAM, None)
      | Some c \<Rightarrow>
          (let new_size = (if new_size < TCACHE_MIN_SIZE then TCACHE_MIN_SIZE else new_size);
               new_size = (if TCACHE_MAX_SIZE < new_size then TCACHE_MAX_SIZE else new_size)
           in if new_size = tc_total_size c then (ARM2X86_OK, cache)
              else
                (let old_buckets = (if tc_bucket_count c = 0 then TCACHE_HASH_BUCKETS else tc_bucket_count c);
                     new_buckets = (if new_size div 8 = 0 then TCACHE_HASH_BUCKETS else new_size div 8)
                 in if \<not> calloc_ok then (ARM2X86_ERR_MEMORY, cache)
                    else (ARM2X86_OK,
                          Some (c\<lparr>tc_hash_table := rehash c new_buckets (take (unat old_buckets) (tc_hash_table c)),
                                  tc_total_size := new_size, tc_bucket_count := new_buckets\<rparr>)))))"

definition arm2x86_tcache_get_usage :: "tcache option \<Rightarrow> u64" where
  "arm2x86_tcache_get_usage cache = (case cache of None \<Rightarrow> 0 | Some c \<Rightarrow> tc_used_size c)"

declare evict_loop.simps [simp del]

section \<open>The invariant\<close>

text \<open>
  The chains partition the LRU list by the hash, and the counters are those of the list.
\<close>

definition in_bucket :: "tcache \<Rightarrow> nat \<Rightarrow> ptr set" where
  "in_bucket c b = {e \<in> set (tc_lru c). bucket_of c (te_hash (tc_entry c e)) = b}"

definition tc_inv :: "tcache \<Rightarrow> bool" where
  "tc_inv c \<longleftrightarrow> tc_bucket_count c \<noteq> 0 \<and> length (tc_hash_table c) = unat (tc_bucket_count c) \<and> distinct (tc_lru c) \<and>
     (\<forall>b<length (tc_hash_table c). distinct (tc_hash_table c ! b) \<and> set (tc_hash_table c ! b) = in_bucket c b) \<and>
     (\<forall>e\<in>set (tc_lru c). te_hash (tc_entry c e) = tcache_hash (te_arm_addr (tc_entry c e))) \<and>
     tc_used_size c = sum_list (map (\<lambda>e. te_x86_size (tc_entry c e)) (tc_lru c)) \<and>
     tc_entry_count c = of_nat (length (tc_lru c))"

lemma tc_invD:
  assumes "tc_inv c"
  shows "tc_bucket_count c \<noteq> 0" "length (tc_hash_table c) = unat (tc_bucket_count c)" "distinct (tc_lru c)"
    "b < length (tc_hash_table c) \<Longrightarrow> distinct (tc_hash_table c ! b)"
    "b < length (tc_hash_table c) \<Longrightarrow> set (tc_hash_table c ! b) = in_bucket c b"
    "e \<in> set (tc_lru c) \<Longrightarrow> te_hash (tc_entry c e) = tcache_hash (te_arm_addr (tc_entry c e))"
    "tc_used_size c = sum_list (map (\<lambda>e. te_x86_size (tc_entry c e)) (tc_lru c))"
    "tc_entry_count c = of_nat (length (tc_lru c))"
  using assms by (auto simp: tc_inv_def)

lemma bucket_less:
  assumes "n \<noteq> 0"
  shows "unat (tcache_hash_buckets h n) < unat n"
proof -
  let ?h = "ucast h :: u64"
  have "?h mod n \<le> ?h" by (simp add: word_le_nat_alt unat_mod)
  moreover have "unat h < 2 ^ 16" using unsigned_less [of h] by simp
  then have "?h < 2 ^ 16"
    by (simp add: word_less_nat_alt unsigned_ucast_eq order.strict_trans1 [OF take_bit_nat_less_eq_self])
  ultimately have "unat (ucast (?h mod n) :: u16) = unat (?h mod n)"
    by (simp add: unsigned_ucast_eq take_bit_nat_eq_self word_le_nat_alt word_less_nat_alt)
  moreover have "unat (?h mod n) < unat n" using assms by (simp add: unat_mod unat_gt_0)
  ultimately show ?thesis by (simp add: tcache_hash_buckets_def)
qed

lemma patch_fields [simp]:
  "tc_lru (tcache_patch_evicted_block d a c) = tc_lru c" "tc_entry (tcache_patch_evicted_block d a c) = tc_entry c"
  "tc_hash_table (tcache_patch_evicted_block d a c) = tc_hash_table c"
  "tc_bucket_count (tcache_patch_evicted_block d a c) = tc_bucket_count c"
  "tc_used_size (tcache_patch_evicted_block d a c) = tc_used_size c"
  "tc_entry_count (tcache_patch_evicted_block d a c) = tc_entry_count c"
  "tc_total_size (tcache_patch_evicted_block d a c) = tc_total_size c"
  by (simp_all add: tcache_patch_evicted_block_def Let_def)

lemma release_fields [simp]:
  "tc_lru (release e c) = tc_lru c" "tc_entry (release e c) = tc_entry c" "tc_hash_table (release e c) = tc_hash_table c"
  "tc_bucket_count (release e c) = tc_bucket_count c" "tc_used_size (release e c) = tc_used_size c"
  "tc_entry_count (release e c) = tc_entry_count c" "tc_total_size (release e c) = tc_total_size c"
  by (simp_all add: release_def Let_def)

lemma evict_fields:
  fixes c d
  defines "e \<equiv> last (tc_lru c)"
  defines "b \<equiv> bucket_of c (te_hash (tc_entry c e))"
  shows "tc_entry (evict_tail d c) = tc_entry c" "tc_bucket_count (evict_tail d c) = tc_bucket_count c"
    "tc_hash_table (evict_tail d c) = (tc_hash_table c)[b := remove1 e (tc_hash_table c ! b)]"
    "tc_used_size (evict_tail d c) = tc_used_size c - te_x86_size (tc_entry c e)"
    "tc_entry_count (evict_tail d c) = tc_entry_count c - 1" "tc_total_size (evict_tail d c) = tc_total_size c"
  by (simp_all add: evict_tail_def Let_def e_def b_def)

lemma evict_inv:
  assumes "tc_inv c" and "tc_lru c \<noteq> []"
  shows "tc_inv (evict_tail d c)"
proof -
  let ?e = "last (tc_lru c)"
  define xs where "xs = butlast (tc_lru c)"
  have l: "tc_lru c = xs @ [?e]" using assms(2) by (simp add: xs_def)
  have "distinct (xs @ [?e])" using tc_invD(3) [OF assms(1)] by (simp only: l [symmetric])
  then have xs: "distinct xs" "?e \<notin> set xs" by simp_all
  have s: "set (tc_lru c) = insert ?e (set xs)" "length (tc_lru c) = Suc (length xs)"
    "map f (tc_lru c) = map f xs @ [f ?e]" for f :: "ptr \<Rightarrow> u64" by (subst l; simp)+
  let ?b = "bucket_of c (te_hash (tc_entry c ?e))"
  have bl: "?b < length (tc_hash_table c)" using tc_invD(1,2) [OF assms(1)] bucket_less by simp
  have ib: "in_bucket (evict_tail d c) b = in_bucket c b - {?e}" for b
    using xs(2) by (auto simp: in_bucket_def evict_fields s(1) xs_def [symmetric])
  have "distinct ((tc_hash_table (evict_tail d c)) ! b) \<and> set (tc_hash_table (evict_tail d c) ! b) = in_bucket (evict_tail d c) b"
    if b: "b < length (tc_hash_table c)" for b
  proof (cases "b = ?b")
    case True
    then show ?thesis using tc_invD(4,5) [OF assms(1) bl] bl by (simp add: evict_fields(3) ib)
  next
    case False
    moreover from this have "?e \<notin> in_bucket c b" by (auto simp: in_bucket_def)
    ultimately show ?thesis using tc_invD(4,5) [OF assms(1) b] by (simp add: evict_fields(3) ib)
  qed
  moreover have "tc_used_size c - te_x86_size (tc_entry c ?e) = sum_list (map (\<lambda>e. te_x86_size (tc_entry c e)) xs)"
    "tc_entry_count c - 1 = of_nat (length xs)"
    using tc_invD(7,8) [OF assms(1)] by (simp_all add: s(2,3))
  ultimately show ?thesis
    using tc_invD(1,2,6) [OF assms(1)] xs(1) s(1) by (simp add: tc_inv_def evict_fields xs_def [symmetric])
qed

lemma evict_loop_result:
  fixes d n c
  assumes "tc_inv c"
  defines "c' \<equiv> evict_loop d n c"
  shows "tc_inv c' \<and> prefix (tc_lru c') (tc_lru c) \<and> tc_entry c' = tc_entry c \<and> tc_total_size c' = tc_total_size c \<and>
    (\<not> tc_total_size c' < tc_used_size c' + n \<or> tc_lru c' = [] \<or>
     te_flags (tc_entry c' (last (tc_lru c'))) AND TCACHE_FLAG_LOCKED \<noteq> 0)"
  using assms(1) unfolding c'_def
proof (induction d n c rule: evict_loop.induct)
  case (1 d n c)
  show ?case
  proof (cases "tc_total_size c < tc_used_size c + n \<and> tc_lru c \<noteq> [] \<and> te_flags (tc_entry c (last (tc_lru c))) AND TCACHE_FLAG_LOCKED = 0")
    case True
    then have e: "evict_loop d n c = evict_loop d n (evict_tail d c)" by (subst evict_loop.simps) simp
    have "prefix (butlast (tc_lru c)) (tc_lru c)" by (rule prefixeq_butlast)
    with 1(1) [OF _ _ evict_inv] 1(2) True show ?thesis
      unfolding e by (auto simp: evict_fields intro: prefix_order.trans)
  next
    case False
    then have "evict_loop d n c = c" by (subst evict_loop.simps) auto
    with False 1(2) show ?thesis by auto
  qed
qed

lemma link_inv:
  assumes "tc_inv c" and "e \<notin> set (tc_lru c)" and "te_hash x = tcache_hash (te_arm_addr x)"
  shows "tc_inv (link_entry e x c)"
proof -
  let ?b = "bucket_of c (te_hash x)" and ?c = "link_entry e x c"
  have f: "tc_lru ?c = e # tc_lru c" "tc_entry ?c = (tc_entry c)(e := x)" "tc_bucket_count ?c = tc_bucket_count c"
    "tc_hash_table ?c = (tc_hash_table c)[?b := e # tc_hash_table c ! ?b]"
    "tc_used_size ?c = tc_used_size c + te_x86_size x" "tc_entry_count ?c = tc_entry_count c + 1"
    by (simp_all add: link_entry_def Let_def)
  have bl: "?b < length (tc_hash_table c)" using tc_invD(1,2) [OF assms(1)] bucket_less by simp
  have ib: "in_bucket ?c b = (if b = ?b then insert e (in_bucket c b) else in_bucket c b)" for b
    using assms(2) by (auto simp: in_bucket_def f)
  have "e \<notin> in_bucket c b" for b using assms(2) by (simp add: in_bucket_def)
  then have "distinct (tc_hash_table ?c ! b) \<and> set (tc_hash_table ?c ! b) = in_bucket ?c b" if b: "b < length (tc_hash_table c)" for b
    using tc_invD(4,5) [OF assms(1) b] tc_invD(4,5) [OF assms(1) bl] bl by (cases "b = ?b") (simp_all add: f(4) ib)
  moreover have "sum_list (map (\<lambda>a. te_x86_size (if a = e then x else tc_entry c a)) (tc_lru c)) = sum_list (map (\<lambda>a. te_x86_size (tc_entry c a)) (tc_lru c))"
    using assms(2) by (intro arg_cong [of _ _ sum_list] map_cong) auto
  ultimately show ?thesis
    using tc_invD(1,2,3,6,7,8) [OF assms(1)] assms(2,3) by (simp add: tc_inv_def f)
qed

lemma lookup_finds:
  assumes "find (\<lambda>e. te_arm_addr (tc_entry c e) = a) (tc_hash_table c ! bucket_of c (tcache_hash a)) = r"
  shows "fst (tcache_lookup_internal c a) = r"
  using assms by (auto simp: tcache_lookup_internal_def Let_def split: option.splits)

lemma tc_inv_cong:
  assumes "tc_inv c" and "set (tc_lru c') = set (tc_lru c)" and "distinct (tc_lru c')" and "length (tc_lru c') = length (tc_lru c)"
    and "sum_list (map (\<lambda>e. te_x86_size (tc_entry c e)) (tc_lru c')) = sum_list (map (\<lambda>e. te_x86_size (tc_entry c e)) (tc_lru c))"
    and "\<And>e. te_hash (tc_entry c' e) = te_hash (tc_entry c e)" "\<And>e. te_arm_addr (tc_entry c' e) = te_arm_addr (tc_entry c e)"
    "\<And>e. te_x86_size (tc_entry c' e) = te_x86_size (tc_entry c e)"
    and "tc_hash_table c' = tc_hash_table c" "tc_bucket_count c' = tc_bucket_count c" "tc_used_size c' = tc_used_size c"
    "tc_entry_count c' = tc_entry_count c"
  shows "tc_inv c'"
  using assms by (simp add: tc_inv_def in_bucket_def)

lemma lookup_inv:
  assumes "tc_inv c"
  shows "tc_inv (snd (tcache_lookup_internal c a))"
proof (cases "find (\<lambda>e. te_arm_addr (tc_entry c e) = a) (tc_hash_table c ! bucket_of c (tcache_hash a))")
  case None
  then show ?thesis
    by (intro tc_inv_cong [OF assms]) (simp_all add: tcache_lookup_internal_def Let_def tc_invD(3) [OF assms])
next
  case (Some e)
  have "bucket_of c (tcache_hash a) < length (tc_hash_table c)" using tc_invD(1,2) [OF assms] bucket_less by simp
  moreover have "e \<in> set (tc_hash_table c ! bucket_of c (tcache_hash a))" using Some by (auto simp: find_Some_iff)
  ultimately have e: "e \<in> set (tc_lru c)" using tc_invD(5) [OF assms] by (simp add: in_bucket_def)
  then have l: "Suc (length (tc_lru c) - 1) = length (tc_lru c)" by (cases "tc_lru c") auto
  show ?thesis
    using Some e tc_invD(3) [OF assms] l sum_list_map_remove1 [OF e, of "\<lambda>e. te_x86_size (tc_entry c e)"]
    by (intro tc_inv_cong [OF assms]) (auto simp: tcache_lookup_internal_def Let_def update_entry_def length_remove1)
qed

section \<open>Properties\<close>

text \<open>
  C9: insertion into the translation cache. With a fresh entry from \<open>calloc\<close> the insertion succeeds after a finite
  number of evictions, keeps the invariant, and a lookup of the address then finds the new entry. The evictions take blocks from the
  end of the LRU list; they stop as soon as the block fits, the list is empty or its last block is locked.
\<close>

theorem tcache_insert_lookup:
  assumes "tc_inv c" and "calloc_result \<noteq> NULL" and "calloc_result \<notin> set (tc_lru c)" and "x86 \<noteq> NULL"
  shows "\<exists>c' lru. arm2x86_tcache_insert_ex d calloc_result (Some c) a x86 n owned mm = (ARM2X86_OK, Some c') \<and> tc_inv c' \<and>
    fst (tcache_lookup_internal c' a) = Some calloc_result \<and> te_x86_code (tc_entry c' calloc_result) = x86 \<and>
    tc_lru c' = calloc_result # lru \<and> prefix lru (tc_lru c) \<and>
    (\<not> tc_total_size c' < tc_used_size c' \<or> lru = [] \<or> te_flags (tc_entry c (last lru)) AND TCACHE_FLAG_LOCKED \<noteq> 0)"
proof -
  let ?x = "\<lparr>te_arm_addr = a, te_x86_code = x86, te_x86_size = n, te_exec_count = 1,
     te_flags = (if owned then TCACHE_FLAG_OWNED else 0) OR (if mm then TCACHE_FLAG_MMAP else 0), te_hash = tcache_hash a\<rparr>"
  let ?c1 = "evict_loop d n c" and ?c = "link_entry calloc_result ?x (evict_loop d n c)"
  note r = evict_loop_result [OF assms(1), of d n]
  have i: "arm2x86_tcache_insert_ex d calloc_result (Some c) a x86 n owned mm = (ARM2X86_OK, Some ?c)"
    using assms(2,4) by (simp add: arm2x86_tcache_insert_ex_def Let_def)
  have n: "calloc_result \<notin> set (tc_lru ?c1)" using r assms(3) by (meson in_mono set_mono_prefix)
  have inv: "tc_inv ?c" using r n by (intro link_inv) simp_all
  have f: "tc_lru ?c = calloc_result # tc_lru ?c1" "tc_entry ?c calloc_result = ?x" "tc_total_size ?c = tc_total_size ?c1"
    "tc_used_size ?c = tc_used_size ?c1 + n" "tc_bucket_count ?c = tc_bucket_count ?c1"
    by (simp_all add: link_entry_def Let_def)
  have "bucket_of ?c1 (tcache_hash a) < length (tc_hash_table ?c1)"
    using r tc_invD(1,2) [of ?c1] bucket_less by simp
  then have "fst (tcache_lookup_internal ?c a) = Some calloc_result"
    by (intro lookup_finds) (simp add: link_entry_def Let_def)
  with i inv f r show ?thesis by (intro exI [of _ ?c] exI [of _ "tc_lru ?c1"]) auto
qed

definition no_cache :: tcache where
  "no_cache = \<lparr>tc_hash_table = [], tc_lru = [], tc_entry = \<lambda>_. \<lparr>te_arm_addr = 0, te_x86_code = 0, te_x86_size = 0, te_exec_count = 0, te_flags = 0, te_hash = 0\<rparr>,
     tc_total_size = 0, tc_used_size = 0, tc_entry_count = 0, tc_lookup_count = 0, tc_miss_count = 0, tc_bucket_count = 0,
     g_jump_targets = [], tc_mem = \<lambda>_. 0, tc_released = []\<rparr>"

lemma create_inv:
  assumes "arm2x86_tcache_create a b sz n g = Some c"
  shows "tc_inv c"
  using assms by (auto simp: arm2x86_tcache_create_def tc_inv_def in_bucket_def Let_def split: if_splits)

lemma create_no_cache: "\<exists>c. arm2x86_tcache_create True True 100 1 no_cache = Some c \<and> tc_inv c \<and> tc_lru c = []"
  using create_inv [of True True 100 1 no_cache] by (auto simp: arm2x86_tcache_create_def Let_def)

theorem tcache_insert_lookup_witness:
  "\<exists>c c'. arm2x86_tcache_create True True 100 1 no_cache = Some c \<and>
     arm2x86_tcache_insert_ex 0 0x9000 (Some c) 0x1000 0x400000 64 False False = (ARM2X86_OK, Some c') \<and>
     fst (tcache_lookup_internal c' 0x1000) = Some 0x9000"
proof -
  obtain c where c: "arm2x86_tcache_create True True 100 1 no_cache = Some c" "tc_inv c" "tc_lru c = []"
    using create_no_cache by blast
  then show ?thesis
    using tcache_insert_lookup [OF c(2), of "0x9000" "0x400000" 0 "0x1000" 64 False False] by auto
qed

section \<open>Resizing\<close>

lemma fold_push_nth:
  assumes "b < length t"
  shows "fold (\<lambda>e t. t[f e := e # t ! f e]) L t ! b = rev (filter (\<lambda>e. f e = b) L) @ t ! b"
  using assms by (induction L arbitrary: t) (auto simp: nth_list_update)

lemma fold_push_length: "length (fold (\<lambda>e t. t[f e := e # t ! f e]) L t) = length t"
  by (induction L arbitrary: t) auto

lemma distinct_concat_chains:
  assumes "\<And>b. b < length T \<Longrightarrow> distinct (T ! b)" and "\<And>b e. b < length T \<Longrightarrow> e \<in> set (T ! b) \<Longrightarrow> f e = b"
  shows "distinct (concat T)"
  using assms
proof (induction T rule: rev_induct)
  case (snoc x xs)
  have 1: "distinct (xs ! b)" "e \<in> set (xs ! b) \<Longrightarrow> f e = b" if "b < length xs" for b e
    using snoc.prems(1) [of b] snoc.prems(2) [of b e] that by (simp_all add: nth_append)
  have "e \<notin> set x" if "e \<in> set (concat xs)" for e
  proof -
    from that obtain l where "l \<in> set xs" "e \<in> set l" by auto
    then obtain b where "b < length xs" "e \<in> set (xs ! b)" by (metis in_set_conv_nth)
    with 1 snoc.prems(2) [of "length xs" e] show ?thesis by auto
  qed
  then show ?case using snoc.IH [OF 1] snoc.prems(1) [of "length xs"] by auto
qed simp

lemma chains:
  assumes "tc_inv c"
  shows "distinct (concat (tc_hash_table c))" and "set (concat (tc_hash_table c)) = set (tc_lru c)"
proof -
  show "distinct (concat (tc_hash_table c))"
    using tc_invD(4,5) [OF assms]
    by (intro distinct_concat_chains [where f = "\<lambda>e. bucket_of c (te_hash (tc_entry c e))"]) (auto simp: in_bucket_def)
  have "e \<in> set (concat (tc_hash_table c))" if "e \<in> set (tc_lru c)" for e
  proof -
    let ?b = "bucket_of c (te_hash (tc_entry c e))"
    have "?b < length (tc_hash_table c)" using tc_invD(1,2) [OF assms] bucket_less by simp
    then show ?thesis using that tc_invD(5) [OF assms, of ?b] by (auto simp: in_bucket_def set_conv_nth [of "tc_hash_table c"])
  qed
  then show "set (concat (tc_hash_table c)) = set (tc_lru c)"
    using tc_invD(5) [OF assms] by (auto simp: in_bucket_def in_set_conv_nth [of _ "tc_hash_table c"])
qed

lemma resize_cases:
  assumes "tc_inv c" and "arm2x86_tcache_resize ok (Some c) n = (r, Some c')"
  shows "c' = c \<or> (\<exists>k sz. k \<noteq> 0 \<and> c' = c\<lparr>tc_hash_table := rehash c k (tc_hash_table c), tc_total_size := sz, tc_bucket_count := k\<rparr>)"
proof -
  define l where "l = (if n < TCACHE_MIN_SIZE then TCACHE_MIN_SIZE else n)"
  define m where "m = (if TCACHE_MAX_SIZE < l then TCACHE_MAX_SIZE else l)"
  define k where "k = (if m div 8 = 0 then TCACHE_HASH_BUCKETS else m div 8)"
  have r: "arm2x86_tcache_resize ok (Some c) n =
    (if m = tc_total_size c then (ARM2X86_OK, Some c) else if \<not> ok then (ARM2X86_ERR_MEMORY, Some c)
     else (ARM2X86_OK, Some (c\<lparr>tc_hash_table := rehash c k (tc_hash_table c), tc_total_size := m, tc_bucket_count := k\<rparr>)))"
    unfolding arm2x86_tcache_resize_def Let_def l_def [symmetric] m_def [symmetric]
    using tc_invD(1,2) [OF assms(1)] by (simp add: k_def)
  have "k \<noteq> 0" by (simp add: k_def)
  then show ?thesis using assms(2) unfolding r by (cases "m = tc_total_size c"; cases ok) auto
qed

lemma rehash_nth:
  assumes "b < unat k"
  shows "rehash c k T ! b = rev (filter (\<lambda>e. unat (tcache_hash_buckets (te_hash (tc_entry c e)) k) = b) (concat T))"
  using assms fold_push_nth [of b "replicate (unat k) []" "\<lambda>e. unat (tcache_hash_buckets (te_hash (tc_entry c e)) k)" "concat T"]
  by (simp add: rehash_def Let_def)

lemma resize_inv:
  assumes "tc_inv c" and "arm2x86_tcache_resize ok (Some c) n = (r, Some c')"
  shows "tc_inv c'"
  using resize_cases [OF assms]
proof (elim disjE exE conjE)
  fix k sz
  assume k: "k \<noteq> 0" and c': "c' = c\<lparr>tc_hash_table := rehash c k (tc_hash_table c), tc_total_size := sz, tc_bucket_count := k\<rparr>"
  have "length (rehash c k (tc_hash_table c)) = unat k" by (simp add: rehash_def Let_def fold_push_length)
  moreover have "distinct (rehash c k (tc_hash_table c) ! b) \<and>
      set (rehash c k (tc_hash_table c) ! b) = {e \<in> set (tc_lru c). unat (tcache_hash_buckets (te_hash (tc_entry c e)) k) = b}"
    if "b < unat k" for b
    using that chains [OF assms(1)] by (auto simp: rehash_nth)
  ultimately show "tc_inv c'" using assms(1) k by (simp add: tc_inv_def in_bucket_def c')
qed (use assms(1) in simp)

lemma clear_inv:
  assumes "tc_bucket_count c \<noteq> 0"
  shows "tc_inv (the (arm2x86_tcache_clear (Some c)))"
proof -
  have "tc_bucket_count (fold release L c) = tc_bucket_count c" for L c by (induction L arbitrary: c) simp_all
  then show ?thesis using assms by (simp add: arm2x86_tcache_clear_def tc_inv_def in_bucket_def)
qed

text \<open>The states of a cache: a new entry has an address that none of the entries in use has.\<close>

inductive tc_reachable :: "tcache \<Rightarrow> bool" where
  create: "arm2x86_tcache_create a b sz n g = Some c \<Longrightarrow> tc_reachable c"
| lookup: "tc_reachable c \<Longrightarrow> tc_reachable (snd (tcache_lookup_internal c k))"
| add: "tc_reachable c \<Longrightarrow> e \<notin> set (tc_lru c) \<Longrightarrow>
    arm2x86_tcache_insert_ex d e (Some c) k x sz ow mm = (r, Some c') \<Longrightarrow> tc_reachable c'"
| clear: "tc_reachable c \<Longrightarrow> tc_reachable (the (arm2x86_tcache_clear (Some c)))"
| resize: "tc_reachable c \<Longrightarrow> arm2x86_tcache_resize ok (Some c) sz = (r, Some c') \<Longrightarrow> tc_reachable c'"

lemma insert_inv:
  assumes "tc_inv c" and "e \<notin> set (tc_lru c)" and "arm2x86_tcache_insert_ex d e (Some c) k x sz ow mm = (r, Some c')"
  shows "tc_inv c'"
proof -
  note ev = evict_loop_result [OF assms(1), of d sz]
  then have "e \<notin> set (tc_lru (evict_loop d sz c))" using assms(2) by (meson in_mono set_mono_prefix)
  with ev assms show ?thesis
    by (auto simp: arm2x86_tcache_insert_ex_def Let_def intro!: link_inv split: if_splits)
qed

text \<open>
  C10: in every state that a translation cache reaches, the chains hold exactly the entries of the LRU list, each in the
  chain of its hash and each once, and the counters of entries and of bytes are those of the list.
\<close>

theorem tcache_reachable_inv: "tc_reachable c \<Longrightarrow> tc_inv c"
proof (induction rule: tc_reachable.induct)
  case (clear c)
  then show ?case by (intro clear_inv) (rule tc_invD(1))
qed (auto intro: create_inv lookup_inv insert_inv resize_inv)

theorem tcache_reachable_witness:
  "\<exists>c c'. arm2x86_tcache_create True True 100 1 no_cache = Some c \<and>
     arm2x86_tcache_insert_ex 0 0x9000 (Some c) 0x1000 0x400000 64 False False = (ARM2X86_OK, Some c') \<and> tc_inv c'"
proof -
  obtain c where c: "arm2x86_tcache_create True True 100 1 no_cache = Some c" "tc_inv c" "tc_lru c = []"
    using create_no_cache by blast
  then obtain c' where c': "arm2x86_tcache_insert_ex 0 0x9000 (Some c) 0x1000 0x400000 64 False False = (ARM2X86_OK, Some c')"
    by (auto simp: arm2x86_tcache_insert_ex_def Let_def)
  have "tc_reachable c'" by (rule tc_reachable.add [OF tc_reachable.create [OF c(1)] _ c']) (simp add: c(3))
  from tcache_reachable_inv [OF this] c c' show ?thesis by blast
qed

lemma find_filter: "find P xs = (case filter P xs of [] \<Rightarrow> None | x # _ \<Rightarrow> Some x)"
  by (induction xs) auto

lemma filter_chain:
  fixes a
  assumes "tc_inv c"
  defines "b \<equiv> bucket_of c (tcache_hash a)"
  shows "filter (\<lambda>e. te_arm_addr (tc_entry c e) = a) (concat (tc_hash_table c)) =
         filter (\<lambda>e. te_arm_addr (tc_entry c e) = a) (tc_hash_table c ! b)"
proof -
  let ?T = "tc_hash_table c" and ?P = "\<lambda>e. te_arm_addr (tc_entry c e) = a"
  have b: "b < length ?T" using tc_invD(1,2) [OF assms(1)] bucket_less by (simp add: b_def)
  have other: "\<not> ?P e" if "i < length ?T" "e \<in> set (?T ! i)" "i \<noteq> b" for i e
    using that tc_invD(5) [OF assms(1), of i] tc_invD(6) [OF assms(1), of e] by (auto simp: in_bucket_def b_def)
  have "\<not> ?P e" if "e \<in> set (concat (take b ?T))" for e
  proof -
    from that obtain l where "l \<in> set (take b ?T)" "e \<in> set l" by auto
    then obtain i where "i < b" "e \<in> set (?T ! i)" using b by (auto simp: in_set_conv_nth [of l])
    with b show ?thesis by (intro other [of i]) auto
  qed
  moreover have "\<not> ?P e" if "e \<in> set (concat (drop (Suc b) ?T))" for e
  proof -
    from that obtain l where "l \<in> set (drop (Suc b) ?T)" "e \<in> set l" by auto
    then obtain i where "i < length ?T - Suc b" "e \<in> set (?T ! (Suc b + i))" using b by (auto simp: in_set_conv_nth [of l])
    then show ?thesis by (intro other [of "Suc b + i"]) auto
  qed
  ultimately have "filter ?P (concat (take b ?T)) = []" "filter ?P (concat (drop (Suc b) ?T)) = []"
    unfolding filter_empty_conv by blast+
  then show ?thesis
    by (subst id_take_nth_drop [OF b], subst concat_append) simp
qed

text \<open>
  A change of size turns the chains around. When an address has several entries, a lookup finds the one that
  was inserted last; after a change of the size it finds the one that was inserted first, a translation that had been
  superseded.
\<close>

lemma tcache_resize_reverses:
  fixes a
  assumes "tc_inv c" and "arm2x86_tcache_resize ok (Some c) n = (r, Some c')" and "tc_total_size c' \<noteq> tc_total_size c"
  defines "chain \<equiv> tc_hash_table c ! bucket_of c (tcache_hash a)"
  shows "fst (tcache_lookup_internal c a) = find (\<lambda>e. te_arm_addr (tc_entry c e) = a) chain \<and>
         fst (tcache_lookup_internal c' a) = find (\<lambda>e. te_arm_addr (tc_entry c e) = a) (rev chain)"
proof -
  let ?P = "\<lambda>e. te_arm_addr (tc_entry c e) = a" and ?T = "tc_hash_table c"
  obtain k sz where k: "k \<noteq> 0" and c': "c' = c\<lparr>tc_hash_table := rehash c k ?T, tc_total_size := sz, tc_bucket_count := k\<rparr>"
    using resize_cases [OF assms(1,2)] assms(3) by auto
  let ?b = "unat (tcache_hash_buckets (tcache_hash a) k)"
  have "te_hash (tc_entry c e) = tcache_hash a" if "e \<in> set (concat ?T)" "?P e" for e
    using that tc_invD(6) [OF assms(1), of e] chains(2) [OF assms(1)] by auto
  then have "filter ?P (rehash c k ?T ! ?b) = rev (filter ?P (concat ?T))"
    using bucket_less [OF k] by (auto simp: rehash_nth rev_filter [symmetric] intro!: filter_cong)
  also have "\<dots> = rev (filter ?P chain)" unfolding chain_def by (simp add: filter_chain [OF assms(1)])
  also have "\<dots> = filter ?P (rev chain)" by (simp add: rev_filter)
  finally have "find ?P (rehash c k ?T ! ?b) = find ?P (rev chain)" by (simp add: find_filter)
  then have "fst (tcache_lookup_internal c' a) = find ?P (rev chain)" by (intro lookup_finds) (simp add: c')
  moreover have "fst (tcache_lookup_internal c a) = find ?P chain" unfolding chain_def by (intro lookup_finds) simp
  ultimately show ?thesis by simp
qed

definition stale :: tcache where
  "stale = no_cache\<lparr>tc_hash_table := [[0x9001, 0x9000]], tc_lru := [0x9001, 0x9000],
     tc_entry := \<lambda>e. \<lparr>te_arm_addr = 0x1000, te_x86_code = e, te_x86_size = 16, te_exec_count = 1, te_flags = 0,
                        te_hash = tcache_hash 0x1000\<rparr>,
     tc_total_size := 100, tc_used_size := 32, tc_entry_count := 2, tc_bucket_count := 1\<rparr>"

lemma tcache_resize_reverses_witness:
  "\<exists>c'. arm2x86_tcache_resize True (Some stale) 1000000 = (ARM2X86_OK, Some c') \<and>
     fst (tcache_lookup_internal stale 0x1000) = Some 0x9001 \<and> fst (tcache_lookup_internal c' 0x1000) = Some 0x9000"
proof -
  obtain c' where c': "arm2x86_tcache_resize True (Some stale) 1000000 = (ARM2X86_OK, Some c')" "tc_total_size c' = 1000000"
    by (simp add: arm2x86_tcache_resize_def Let_def stale_def)
  have b: "tcache_hash_buckets h 1 = 0" for h by (simp add: tcache_hash_buckets_def)
  have i: "tc_inv stale" by (auto simp: tc_inv_def in_bucket_def stale_def b)
  show ?thesis
    using tcache_resize_reverses [OF i c'(1), of "0x1000"] c' by (simp add: stale_def b)
qed

end
