(* ===== verification/Mempool.thy ===== *)
theory Mempool
  imports CodeCache
begin

text \<open>
  \<open>src/modules/arm2x86_easy.c\<close>, the pool of executable memory: chunks in six size classes, each given out from its start
  to its end. The list of a class is the list of its chunks. The mutex makes every operation one step. What \<open>malloc\<close>, \<open>calloc\<close>
  and \<open>mmap\<close> answer are parameters.
\<close>

section \<open>Chunks\<close>

abbreviation (input) MEMPOOL_NUM_CLASSES :: nat where "MEMPOOL_NUM_CLASSES \<equiv> 6"

definition mempool_class_sizes :: "u64 list" where
  "mempool_class_sizes = [64, 256, 1024, 4096, 16384, 65536]"

definition mempool_get_class :: "u64 \<Rightarrow> nat" where
  "mempool_get_class sz =
     (if sz \<le> 64 then 0 else if sz \<le> 256 then 1 else if sz \<le> 1024 then 2 else if sz \<le> 4096 then 3
      else if sz \<le> 16384 then 4 else 5)"

record mempool_chunk =
  ch_base :: ptr
  ch_size :: u64
  ch_offset :: u64
  ch_class_id :: nat

record mempool =
  mp_chunks :: "mempool_chunk list list"
  mp_total_size :: u64
  mp_used_size :: u64
  mp_default_chunk_size :: u64
  mp_max_size :: u64
  mp_enable_growth :: bool

record mempool_config =
  mc_initial_size :: u64
  mc_max_size :: u64
  mc_chunk_size :: u64
  mc_enable_growth :: bool
  mc_precommit :: bool

text \<open>\<open>(size + 15) & ~15\<close>, and the size of a new chunk.\<close>

definition align16 :: "u64 \<Rightarrow> u64" where
  "align16 sz = (sz + 15) AND NOT 15"

definition chunk_size_for :: "u64 \<Rightarrow> u64" where
  "chunk_size_for sz =
     (let actual = mempool_class_sizes ! mempool_get_class sz in if actual < sz then align16 sz else actual)"

definition arm2x86_mempool_alloc_chunk :: "bool \<Rightarrow> ptr \<Rightarrow> u64 \<Rightarrow> mempool_chunk option" where
  "arm2x86_mempool_alloc_chunk malloc_ok mmap_result sz =
     (if \<not> malloc_ok \<or> mmap_result = MAP_FAILED then None
      else Some \<lparr>ch_base = mmap_result, ch_size = chunk_size_for sz, ch_offset = 0, ch_class_id = mempool_get_class sz\<rparr>)"

section \<open>The pool\<close>

definition or_default :: "mempool_config option \<Rightarrow> (mempool_config \<Rightarrow> u64) \<Rightarrow> u64 \<Rightarrow> u64" where
  "or_default config f v = (case config of Some c \<Rightarrow> if f c \<noteq> 0 then f c else v | None \<Rightarrow> v)"

definition pool_initial_size :: "mempool_config option \<Rightarrow> u64" where
  "pool_initial_size config =
     (let max_size = or_default config mc_max_size (64 * 1024 * 1024);
          initial = or_default config mc_initial_size (or_default config mc_chunk_size (64 * 1024))
      in if max_size < initial then max_size else initial)"

text \<open>The member \<open>mempool\<close> of the instance is the result; it keeps its old value if there is no memory for the pool itself.\<close>

definition arm2x86_mempool_init :: "bool \<Rightarrow> bool \<Rightarrow> ptr \<Rightarrow> mempool_config option \<Rightarrow> mempool option \<Rightarrow> mempool option" where
  "arm2x86_mempool_init calloc_ok malloc_ok mmap_result config old =
     (if \<not> calloc_ok then old
      else
        (let enable_growth = (if (case config of Some c \<Rightarrow> mc_enable_growth c | None \<Rightarrow> False) then True else True);
             initial = pool_initial_size config;
             pool = \<lparr>mp_chunks = replicate MEMPOOL_NUM_CLASSES [], mp_total_size = 0, mp_used_size = 0,
                     mp_default_chunk_size = or_default config mc_chunk_size (64 * 1024),
                     mp_max_size = or_default config mc_max_size (64 * 1024 * 1024), mp_enable_growth = enable_growth\<rparr>
         in Some (case arm2x86_mempool_alloc_chunk malloc_ok mmap_result initial of None \<Rightarrow> pool
                  | Some c \<Rightarrow> pool\<lparr>mp_chunks := (mp_chunks pool)[ch_class_id c := [c]], mp_total_size := initial\<rparr>)))"

text \<open>The regions that are unmapped.\<close>

definition arm2x86_mempool_destroy :: "mempool option \<Rightarrow> (ptr \<times> u64) list \<times> mempool option" where
  "arm2x86_mempool_destroy pool =
     (case pool of None \<Rightarrow> ([], None)
      | Some p \<Rightarrow>
          (map (\<lambda>c. (ch_base c, ch_size c)) (filter (\<lambda>c. ch_base c \<noteq> NULL) (concat (mp_chunks p))), None))"

text \<open>The first chunk of a list with enough space, advanced.\<close>

fun take_space :: "u64 \<Rightarrow> mempool_chunk list \<Rightarrow> (ptr \<times> mempool_chunk list) option" where
  "take_space sz [] = None"
| "take_space sz (c # cs) =
     (if ch_offset c + sz \<le> ch_size c then Some (ch_base c + ch_offset c, c\<lparr>ch_offset := ch_offset c + sz\<rparr> # cs)
      else map_option (\<lambda>(p, cs). (p, c # cs)) (take_space sz cs))"

definition arm2x86_mempool_alloc :: "bool \<Rightarrow> ptr \<Rightarrow> u64 \<Rightarrow> mempool option \<Rightarrow> ptr \<times> mempool option" where
  "arm2x86_mempool_alloc malloc_ok mmap_result sz mempool =
     (case mempool of None \<Rightarrow> (NULL, None)
      | Some pool \<Rightarrow>
          (let sz = align16 sz; class_id = mempool_get_class sz; used = mp_used_size pool + sz in
           case take_space sz (mp_chunks pool ! class_id) of
             Some (p, cs) \<Rightarrow> (p, Some (pool\<lparr>mp_chunks := (mp_chunks pool)[class_id := cs], mp_used_size := used\<rparr>))
           | None \<Rightarrow>
               (let new_size = chunk_size_for sz in
                if mp_max_size pool < mp_total_size pool + new_size \<and> \<not> mp_enable_growth pool then (NULL, mempool)
                else
                  (case arm2x86_mempool_alloc_chunk malloc_ok mmap_result new_size of None \<Rightarrow> (NULL, mempool)
                   | Some c \<Rightarrow>
                       (ch_base c,
                        Some (pool\<lparr>mp_chunks := (mp_chunks pool)[class_id := c\<lparr>ch_offset := sz\<rparr> # mp_chunks pool ! class_id],
                                   mp_total_size := mp_total_size pool + ch_size c, mp_used_size := used\<rparr>)))))) "

definition arm2x86_mempool_config_default :: mempool_config where
  "arm2x86_mempool_config_default =
     \<lparr>mc_initial_size = 64 * 1024, mc_max_size = 64 * 1024 * 1024, mc_chunk_size = 64 * 1024, mc_enable_growth = True,
      mc_precommit = False\<rparr>"

abbreviation (input) ARM2X86_ERR_NOT_INITIALIZED :: int where "ARM2X86_ERR_NOT_INITIALIZED \<equiv> 1003"
abbreviation (input) ARM2X86_ERR_ALREADY_INITIALIZED :: int where "ARM2X86_ERR_ALREADY_INITIALIZED \<equiv> 1004"

text \<open>\<open>inst\<close> is \<open>None\<close> for a null instance, and otherwise its members \<open>initialized\<close> and \<open>mempool\<close>.\<close>

definition arm2x86_enable_mempool :: "bool \<Rightarrow> bool \<Rightarrow> ptr \<Rightarrow> (bool \<times> mempool option) option \<Rightarrow> mempool_config option
    \<Rightarrow> int \<times> mempool option" where
  "arm2x86_enable_mempool calloc_ok malloc_ok mmap_result inst config =
     (case inst of None \<Rightarrow> (ARM2X86_ERR_NOT_INITIALIZED, None)
      | Some (initialized, pool) \<Rightarrow>
          if \<not> initialized then (ARM2X86_ERR_NOT_INITIALIZED, pool)
          else if pool \<noteq> None then (ARM2X86_ERR_ALREADY_INITIALIZED, pool)
          else
            (let cfg = (case config of Some c \<Rightarrow> c | None \<Rightarrow> arm2x86_mempool_config_default)
             in (ARM2X86_OK, arm2x86_mempool_init calloc_ok malloc_ok mmap_result (Some cfg) pool)))"

text \<open>Total size, used size and the number of chunks that are not full.\<close>

definition arm2x86_mempool_get_stats :: "mempool option \<Rightarrow> int \<times> (u64 \<times> u64 \<times> int) option" where
  "arm2x86_mempool_get_stats mempool =
     (case mempool of None \<Rightarrow> (ARM2X86_ERR_NOT_INITIALIZED, None)
      | Some pool \<Rightarrow>
          (ARM2X86_OK, Some (mp_total_size pool, mp_used_size pool,
             int (length (filter (\<lambda>c. ch_offset c < ch_size c) (concat (mp_chunks pool)))))))"

section \<open>Allocators\<close>

text \<open>
  What a client may rely on: a state with an invariant, and for each state the set of the addresses that have been given
  out. \<open>env\<close> says which answers of the operating system and which requests are taken into account.
\<close>

locale region_allocator =
  fixes alloc :: "'m \<Rightarrow> nat \<Rightarrow> 's \<Rightarrow> nat option \<times> 's"
    and env :: "'m \<Rightarrow> nat \<Rightarrow> 's \<Rightarrow> bool"
    and inv :: "'s \<Rightarrow> bool"
    and held :: "'s \<Rightarrow> nat set"
    and valid :: "'s \<Rightarrow> nat \<Rightarrow> nat \<Rightarrow> bool"
  assumes alloc_inv: "inv s \<Longrightarrow> env x n s \<Longrightarrow> inv (snd (alloc x n s))"
    and alloc_new: "inv s \<Longrightarrow> env x n s \<Longrightarrow> fst (alloc x n s) = Some p \<Longrightarrow> {p..<p + n} \<inter> held s = {}"
    and alloc_valid: "inv s \<Longrightarrow> env x n s \<Longrightarrow> fst (alloc x n s) = Some p \<Longrightarrow> valid (snd (alloc x n s)) p n"
    and valid_keeps: "inv s \<Longrightarrow> env x n s \<Longrightarrow> valid s p k \<Longrightarrow> valid (snd (alloc x n s)) p k"
    and valid_held: "valid s p n \<Longrightarrow> {p..<p + n} \<subseteq> held s"

text \<open>The states and the regions given out, newest first, after any number of requests.\<close>

inductive served :: "('m \<Rightarrow> nat \<Rightarrow> 's \<Rightarrow> nat option \<times> 's) \<Rightarrow> ('m \<Rightarrow> nat \<Rightarrow> 's \<Rightarrow> bool) \<Rightarrow> 's \<Rightarrow> 's \<Rightarrow> (nat \<times> nat) list \<Rightarrow> bool"
  for alloc env s0 where
  start: "served alloc env s0 s0 []"
| answered: "served alloc env s0 s rs \<Longrightarrow> env x n s \<Longrightarrow> alloc x n s = (Some p, s') \<Longrightarrow> served alloc env s0 s' ((p, n) # rs)"
| refused: "served alloc env s0 s rs \<Longrightarrow> env x n s \<Longrightarrow> alloc x n s = (None, s') \<Longrightarrow> served alloc env s0 s' rs"

definition addresses :: "nat \<times> nat \<Rightarrow> nat set" where
  "addresses r = {fst r..<fst r + snd r}"

fun separate :: "(nat \<times> nat) list \<Rightarrow> bool" where
  "separate [] = True"
| "separate (r # rs) = ((\<forall>r'\<in>set rs. addresses r \<inter> addresses r' = {}) \<and> separate rs)"

context region_allocator
begin

lemma served_separate:
  assumes "served alloc env s0 s rs" and "inv s0"
  shows "inv s \<and> separate rs \<and> (\<forall>(p, n)\<in>set rs. valid s p n)"
  using assms(1)
proof induction
  case start
  with assms(2) show ?case by simp
next
  case (answered s rs x n p s')
  then have step: "fst (alloc x n s) = Some p" "s' = snd (alloc x n s)" "inv s" "env x n s" by simp_all
  then have new: "inv s'" "valid s' p n" "{p..<p + n} \<inter> held s = {}"
    by (simp_all add: alloc_inv alloc_valid alloc_new)
  have keep: "valid s' q k" if "(q, k) \<in> set rs" for q k
    using answered.IH that valid_keeps [OF step(3,4), of q k] step(2) by auto
  have "addresses r \<subseteq> held s" if "r \<in> set rs" for r
    using bspec [of "set rs" "\<lambda>(p, n). valid s p n" r] answered.IH that valid_held [of s "fst r" "snd r"]
    by (simp add: addresses_def case_prod_beta)
  then have "addresses (p, n) \<inter> addresses r = {}" if "r \<in> set rs" for r
    using that new(3) unfolding addresses_def fst_conv snd_conv by blast
  with new keep answered.IH show ?case by auto
next
  case (refused s rs x n s')
  then have "inv s" "s' = snd (alloc x n s)" "env x n s" by simp_all
  with refused.IH alloc_inv valid_keeps show ?case by auto
qed

end

section \<open>The pool as an allocator\<close>

definition covers :: "nat \<Rightarrow> mempool_chunk \<Rightarrow> bool" where
  "covers a c \<longleftrightarrow> unat (ch_base c) \<le> a \<and> a < unat (ch_base c) + unat (ch_size c)"

text \<open>
  Chunks lie in the lower half of the address space, are aligned and are used up to their offset at most; no address belongs to two of them.
\<close>

definition chunk_ok :: "mempool_chunk \<Rightarrow> bool" where
  "chunk_ok c \<longleftrightarrow> ch_base c \<noteq> NULL \<and> unat (ch_base c) + unat (ch_size c) \<le> 2 ^ 63 \<and> unat (ch_offset c) \<le> unat (ch_size c) \<and>
     16 dvd unat (ch_base c) \<and> 16 dvd unat (ch_offset c)"

definition chunks_ok :: "mempool_chunk list \<Rightarrow> bool" where
  "chunks_ok cs \<longleftrightarrow> (\<forall>c\<in>set cs. chunk_ok c) \<and> (\<forall>a. length (filter (covers a) cs) \<le> 1)"

definition pool_inv :: "mempool \<Rightarrow> bool" where
  "pool_inv pool \<longleftrightarrow> length (mp_chunks pool) = MEMPOOL_NUM_CLASSES \<and> chunks_ok (concat (mp_chunks pool))"

definition chunk_held :: "mempool_chunk \<Rightarrow> nat set" where
  "chunk_held c = {unat (ch_base c)..<unat (ch_base c) + unat (ch_offset c)}"

definition pool_held :: "mempool \<Rightarrow> nat set" where
  "pool_held pool = (\<Union>c\<in>set (concat (mp_chunks pool)). chunk_held c)"

text \<open>A region of the pool: aligned, and in the used part of one chunk.\<close>

definition pool_region :: "mempool \<Rightarrow> nat \<Rightarrow> nat \<Rightarrow> bool" where
  "pool_region pool p n \<longleftrightarrow> 16 dvd p \<and> (\<exists>c\<in>set (concat (mp_chunks pool)). unat (ch_base c) \<le> p \<and> p + n \<le> unat (ch_base c) + unat (ch_offset c))"

text \<open>What \<open>mmap\<close> promises of a new mapping: a page-aligned address, and no overlap with the mappings that are there.\<close>

definition fresh :: "ptr \<Rightarrow> u64 \<Rightarrow> mempool_chunk list \<Rightarrow> bool" where
  "fresh p sz cs \<longleftrightarrow> p \<noteq> NULL \<and> 4096 dvd unat p \<and> unat p + unat sz \<le> 2 ^ 63 \<and>
     (\<forall>a. unat p \<le> a \<longrightarrow> a < unat p + unat sz \<longrightarrow> filter (covers a) cs = [])"

definition pool_env :: "bool \<times> ptr \<Rightarrow> nat \<Rightarrow> mempool \<Rightarrow> bool" where
  "pool_env x n pool \<longleftrightarrow> n \<le> 2 ^ 62 \<and>
     (snd x = MAP_FAILED \<or> fresh (snd x) (chunk_size_for (align16 (of_nat n))) (concat (mp_chunks pool)))"

definition pool_alloc :: "bool \<times> ptr \<Rightarrow> nat \<Rightarrow> mempool \<Rightarrow> nat option \<times> mempool" where
  "pool_alloc x n pool =
     (let (p, pool') = arm2x86_mempool_alloc (fst x) (snd x) (of_nat n) (Some pool)
      in (if p = NULL then None else Some (unat p), the pool'))"

text \<open>Rounding up, and the size of new chunks.\<close>

lemma unat_align16:
  assumes "unat x \<le> 2 ^ 63"
  shows "unat (align16 x) = (unat x + 15) div 16 * 16"
proof -
  let ?y = "x + 15"
  have sum: "unat ?y = unat x + 15" using assms by (subst unat_add_lem [THEN iffD1]) simp_all
  have "(15 :: u64) = mask 4" by (simp add: mask_eq_exp_minus_1)
  then have mask: "bit (15 :: u64) k \<longleftrightarrow> k < 4" for k by (simp only: bit_mask_iff possible_bit_word) auto
  have "align16 x = push_bit 4 (drop_bit 4 ?y)"
  proof (rule bit_word_eqI)
    fix k
    assume "k < LENGTH(64)"
    then show "bit (align16 x) k = bit (push_bit 4 (drop_bit 4 ?y)) k"
      by (simp only: align16_def bit_and_iff bit_not_iff bit_push_bit_iff bit_drop_bit_eq mask possible_bit_word o_def) auto
  qed
  then have "unat (align16 x) = take_bit 64 (push_bit 4 (drop_bit 4 (unat ?y)))"
    using assms by (simp add: unsigned_push_bit_eq unsigned_drop_bit_eq sum take_bit_nat_eq_self)
  also have "push_bit 4 (drop_bit 4 (unat ?y)) = (unat x + 15) div 16 * 16" unfolding sum by (simp add: push_bit_eq_mult drop_bit_eq_div)
  also have "take_bit 64 \<dots> = \<dots>" using assms by (intro take_bit_nat_eq_self) simp
  finally show ?thesis .
qed

lemma align16_unat:
  assumes "n \<le> 2 ^ 62"
  shows "n \<le> unat (align16 (of_nat n))" and "unat (align16 (of_nat n)) \<le> n + 15" and "16 dvd unat (align16 (of_nat n))"
proof -
  have "unat (of_nat n :: u64) = n" using assms by (simp add: unat_of_nat)
  with assms have "unat (align16 (of_nat n)) = (n + 15) div 16 * 16" by (subst unat_align16) simp_all
  then show "n \<le> unat (align16 (of_nat n))" and "unat (align16 (of_nat n)) \<le> n + 15" and "16 dvd unat (align16 (of_nat n))"
    by simp_all
qed

lemma chunk_size_for_le:
  assumes "n \<le> 2 ^ 62"
  defines "sz \<equiv> align16 (of_nat n)"
  shows "sz \<le> chunk_size_for sz" and "chunk_size_for (chunk_size_for sz) = chunk_size_for sz"
    and "mempool_get_class (chunk_size_for sz) = mempool_get_class sz"
proof -
  have "unat sz \<le> 2 ^ 63" using align16_unat(2) [OF assms(1)] assms(1) by (simp add: sz_def)
  moreover from align16_unat(3) [OF assms(1)] obtain k where "unat sz = 16 * k" unfolding sz_def by (elim dvdE)
  ultimately have double: "align16 sz = sz" by (simp add: word_unat_eq_iff unat_align16)
  have "sz \<le> chunk_size_for sz \<and> chunk_size_for (chunk_size_for sz) = chunk_size_for sz \<and>
    mempool_get_class (chunk_size_for sz) = mempool_get_class sz"
  proof -
    consider "unat sz \<le> 64" | "64 < unat sz" "unat sz \<le> 256" | "256 < unat sz" "unat sz \<le> 1024" | "1024 < unat sz" "unat sz \<le> 4096"
      | "4096 < unat sz" "unat sz \<le> 16384" | "16384 < unat sz" "unat sz \<le> 65536" | "65536 < unat sz" by linarith
    then show ?thesis
      by cases (simp_all add: chunk_size_for_def mempool_get_class_def mempool_class_sizes_def word_le_nat_alt word_less_nat_alt double)
  qed
  then show "sz \<le> chunk_size_for sz" and "chunk_size_for (chunk_size_for sz) = chunk_size_for sz"
    and "mempool_get_class (chunk_size_for sz) = mempool_get_class sz" by blast+
qed

text \<open>The two ways in which the list of all chunks changes: one is advanced, or a new one is added.\<close>

lemma chunk_in_range:
  assumes "chunks_ok (U @ c # V)" and "c' \<in> set U \<union> set V" and "covers a c"
  shows "\<not> covers a c'"
proof
  assume "covers a c'"
  with assms(2) have "filter (covers a) U @ filter (covers a) V \<noteq> []" by (auto simp: filter_empty_conv)
  then have "0 < length (filter (covers a) U) + length (filter (covers a) V)" by simp
  moreover have "length (filter (covers a) (U @ c # V)) \<le> 1" using assms(1) unfolding chunks_ok_def by blast
  ultimately show False using assms(3) by simp
qed

lemma advance_chunk:
  assumes ok: "chunks_ok (U @ c # V)" and sz: "16 dvd unat sz" "unat (ch_offset c) + unat sz \<le> unat (ch_size c)"
  defines "c' \<equiv> c\<lparr>ch_offset := ch_offset c + sz\<rparr>" and "p \<equiv> unat (ch_base c) + unat (ch_offset c)"
  shows "chunks_ok (U @ c' # V)" and "unat (ch_base c + ch_offset c) = p" and "16 dvd p"
    and "unat (ch_offset c + sz) = unat (ch_offset c) + unat sz"
    and "{p..<p + unat sz} \<inter> \<Union> (chunk_held ` set (U @ c # V)) = {}"
proof -
  from ok have c: "chunk_ok c" and all: "\<And>d. d \<in> set U \<union> set V \<Longrightarrow> chunk_ok d" by (auto simp: chunks_ok_def)
  show off: "unat (ch_offset c + sz) = unat (ch_offset c) + unat sz"
    using c sz(2) by (intro unat_add_lem [THEN iffD1]) (simp add: chunk_ok_def)
  show p: "unat (ch_base c + ch_offset c) = p"
    unfolding p_def using c by (intro unat_add_lem [THEN iffD1]) (simp add: chunk_ok_def)
  show "16 dvd p" using c by (simp add: p_def chunk_ok_def)
  have "covers a c' = covers a c" for a by (simp add: covers_def c'_def)
  moreover have "chunk_ok c'" using c sz off by (simp add: chunk_ok_def c'_def)
  moreover have "length (filter (covers a) (U @ c' # V)) = length (filter (covers a) (U @ c # V))" for a
    using calculation(1) by simp
  ultimately show "chunks_ok (U @ c' # V)" using ok unfolding chunks_ok_def by (metis Un_iff list.set_intros(2) set_ConsD set_append)
  have "covers a c \<and> a \<notin> chunk_held c" if "a \<in> {p..<p + unat sz}" for a
    using that sz(2) by (auto simp: covers_def chunk_held_def p_def)
  moreover have "chunk_held d \<subseteq> {a. covers a d}" if "d \<in> set U \<union> set V" for d
    using all [OF that] by (auto simp: covers_def chunk_held_def chunk_ok_def)
  ultimately show "{p..<p + unat sz} \<inter> \<Union> (chunk_held ` set (U @ c # V)) = {}"
    using chunk_in_range [OF ok] by (auto, blast+)
qed

lemma add_chunk:
  assumes ok: "chunks_ok (U @ V)" and new: "fresh p sz (U @ V)"
  shows "chunks_ok (U @ \<lparr>ch_base = p, ch_size = sz, ch_offset = 0, ch_class_id = k\<rparr> # V)" (is "chunks_ok (U @ ?c # V)")
proof -
  have "16 dvd unat p" using new by (auto simp: fresh_def intro: dvd_trans [of 16 4096])
  then have "chunk_ok ?c" using new by (simp add: fresh_def chunk_ok_def)
  moreover have "length (filter (covers a) (U @ ?c # V)) \<le> 1" for a
    using ok new unfolding chunks_ok_def fresh_def by (cases "covers a ?c") (auto simp: covers_def)
  ultimately show ?thesis using ok by (simp add: chunks_ok_def)
qed

lemma take_space_some:
  "take_space sz cs = Some (p, cs') \<Longrightarrow> \<exists>U c V. cs = U @ c # V \<and> cs' = U @ c\<lparr>ch_offset := ch_offset c + sz\<rparr> # V \<and>
     ch_offset c + sz \<le> ch_size c \<and> p = ch_base c + ch_offset c"
proof (induction cs arbitrary: cs')
  case (Cons c cs)
  show ?case
  proof (cases "ch_offset c + sz \<le> ch_size c")
    case True
    with Cons.prems show ?thesis by (intro exI [of _ "[]"]) simp
  next
    case False
    with Cons.prems obtain cs1 where "take_space sz cs = Some (p, cs1)" "cs' = c # cs1" by auto
    with Cons.IH obtain U d V where "cs = U @ d # V \<and> cs1 = U @ d\<lparr>ch_offset := ch_offset d + sz\<rparr> # V \<and>
        ch_offset d + sz \<le> ch_size d \<and> p = ch_base d + ch_offset d" by blast
    with \<open>cs' = c # cs1\<close> show ?thesis by (intro exI [of _ "c # U"] exI [of _ d] exI [of _ V]) simp
  qed
qed simp

section \<open>The pool keeps its promise\<close>

lemma concat_split:
  assumes "k < length xss"
  obtains U V where "concat xss = U @ xss ! k @ V" "\<And>y. concat (xss[k := y]) = U @ y @ V"
proof -
  have "concat xss = concat (take k xss) @ xss ! k @ concat (drop (Suc k) xss)"
    by (subst id_take_nth_drop [OF assms]) simp
  moreover have "concat (xss[k := y]) = concat (take k xss) @ y @ concat (drop (Suc k) xss)" for y
    by (simp add: upd_conv_take_nth_drop [OF assms])
  ultimately show thesis by (rule that)
qed

lemma mempool_get_class_less: "mempool_get_class sz < MEMPOOL_NUM_CLASSES"
  by (simp add: mempool_get_class_def)

lemma chunk_nonnull:
  assumes "chunk_ok c"
  shows "ch_base c + ch_offset c \<noteq> NULL"
proof -
  have "unat (ch_base c + ch_offset c) = unat (ch_base c) + unat (ch_offset c)"
    using assms by (intro unat_add_lem [THEN iffD1]) (simp add: chunk_ok_def)
  then show ?thesis using assms by (auto simp: chunk_ok_def unat_eq_zero)
qed

text \<open>The chunk that a request is served from, in the list of all chunks before (\<open>U @ cs @ V\<close>) and after the request.\<close>

lemma alloc_cases:
  assumes inv: "pool_inv pool" and env: "pool_env x n pool"
  obtains (none) "pool_alloc x n pool = (None, pool)"
  | (some) U c V sz where "chunks_ok (U @ c # V)" "16 dvd unat sz" "n \<le> unat sz" "unat (ch_offset c) + unat sz \<le> unat (ch_size c)"
      "fst (pool_alloc x n pool) = Some (unat (ch_base c + ch_offset c))"
      "concat (mp_chunks (snd (pool_alloc x n pool))) = U @ c\<lparr>ch_offset := ch_offset c + sz\<rparr> # V"
      "length (mp_chunks (snd (pool_alloc x n pool))) = MEMPOOL_NUM_CLASSES"
      "pool_held pool = \<Union> (chunk_held ` set (U @ c # V))"
      "set (concat (mp_chunks pool)) \<subseteq> set (U @ c # V)"
proof -
  define sz where "sz = align16 (of_nat n)"
  define k where "k = mempool_get_class sz"
  from env have n: "n \<le> 2 ^ 62" by (simp add: pool_env_def)
  note sz = align16_unat [OF n, folded sz_def]
  have k: "k < length (mp_chunks pool)" using inv mempool_get_class_less by (simp add: pool_inv_def k_def)
  obtain U V where UV: "concat (mp_chunks pool) = U @ mp_chunks pool ! k @ V"
    "\<And>y. concat ((mp_chunks pool)[k := y]) = U @ y @ V" using concat_split [OF k] by blast
  from inv have ok: "chunks_ok (U @ mp_chunks pool ! k @ V)" and len: "length (mp_chunks pool) = 6" by (simp_all add: pool_inv_def UV)
  show thesis
  proof (cases "take_space sz (mp_chunks pool ! k)")
    case (Some r)
    then obtain p cs where r: "take_space sz (mp_chunks pool ! k) = Some (p, cs)" by (cases r) auto
    from take_space_some [OF r] obtain A c B where c: "mp_chunks pool ! k = A @ c # B"
      "cs = A @ c\<lparr>ch_offset := ch_offset c + sz\<rparr> # B" "ch_offset c + sz \<le> ch_size c" "p = ch_base c + ch_offset c" by blast
    have "chunk_ok c" using ok c(1) by (auto simp: chunks_ok_def)
    moreover from this have "unat (ch_offset c + sz) = unat (ch_offset c) + unat sz"
      using sz(2) n by (intro unat_add_lem [THEN iffD1]) (simp add: chunk_ok_def)
    ultimately show thesis
      using ok c sz chunk_nonnull [of c] r UV len
      by (intro some [of "U @ A" c "B @ V" sz])
        (auto simp: pool_alloc_def arm2x86_mempool_alloc_def Let_def sz_def [symmetric] k_def [symmetric] word_le_nat_alt pool_held_def)
  next
    case None
    show thesis
    proof (cases "fst x \<and> snd x \<noteq> MAP_FAILED \<and> \<not> (mp_max_size pool < mp_total_size pool + chunk_size_for sz \<and> \<not> mp_enable_growth pool)")
      case False
      with None show thesis
        by (intro none) (auto simp: pool_alloc_def arm2x86_mempool_alloc_def arm2x86_mempool_alloc_chunk_def Let_def
            sz_def [symmetric] k_def [symmetric])
    next
      case True
      let ?c = "\<lparr>ch_base = snd x, ch_size = chunk_size_for sz, ch_offset = 0, ch_class_id = k\<rparr>"
      note size_for = chunk_size_for_le [OF n, folded sz_def, folded k_def]
      have new: "fresh (snd x) (chunk_size_for sz) (U @ mp_chunks pool ! k @ V)"
        using env True UV by (simp add: pool_env_def sz_def)
      then have "chunks_ok (U @ ?c # (mp_chunks pool ! k @ V))" using ok by (intro add_chunk) simp_all
      moreover have "snd x \<noteq> NULL" using new by (simp add: fresh_def)
      ultimately show thesis
        using None True UV len sz size_for
        by (intro some [of U ?c "mp_chunks pool ! k @ V" sz])
          (auto simp: pool_alloc_def arm2x86_mempool_alloc_def arm2x86_mempool_alloc_chunk_def Let_def
            sz_def [symmetric] k_def [symmetric] word_le_nat_alt pool_held_def chunk_held_def)
    qed
  qed
qed

lemma region_keeps:
  assumes inv: "pool_inv pool" and env: "pool_env x n pool" and region: "pool_region pool p k"
  shows "pool_region (snd (pool_alloc x n pool)) p k"
  using inv env
proof (cases rule: alloc_cases)
  case none
  with region show ?thesis by simp
next
  case (some U c V sz)
  from region obtain d where "16 dvd p" "d \<in> set (U @ c # V)" "unat (ch_base d) \<le> p" "p + k \<le> unat (ch_base d) + unat (ch_offset d)"
    using some(9) unfolding pool_region_def by blast
  then show ?thesis using advance_chunk(4) [OF some(1,2,4)]
    unfolding pool_region_def some(6) by (cases "d = c") auto
qed

interpretation pool: region_allocator pool_alloc pool_env pool_inv pool_held pool_region
proof
  fix pool x n p k
  assume inv: "pool_inv pool" and env: "pool_env x n pool"
  show "pool_inv (snd (pool_alloc x n pool))"
    using inv by (cases rule: alloc_cases [OF inv env]) (simp_all add: pool_inv_def advance_chunk(1))
  show "pool_region pool p k \<Longrightarrow> pool_region (snd (pool_alloc x n pool)) p k"
    by (rule region_keeps [OF inv env])
  assume p: "fst (pool_alloc x n pool) = Some p"
  show "{p..<p + n} \<inter> pool_held pool = {}"
    using inv env
  proof (cases rule: alloc_cases)
    case (some U c V sz)
    with p have "p = unat (ch_base c) + unat (ch_offset c)" using advance_chunk(2) [OF some(1,2,4)] by simp
    then have "{p..<p + unat sz} \<inter> pool_held pool = {}" using advance_chunk(5) [OF some(1,2,4)] some(8) by simp
    with some(3) show ?thesis by fastforce
  qed (use p in simp)
  show "pool_region (snd (pool_alloc x n pool)) p n"
    using inv env
  proof (cases rule: alloc_cases)
    case (some U c V sz)
    with p have "p = unat (ch_base c) + unat (ch_offset c)" using advance_chunk(2) [OF some(1,2,4)] by simp
    then show ?thesis using advance_chunk(3,4) [OF some(1,2,4)] some(3) unfolding pool_region_def some(6) by simp
  qed (use p in simp)
next
  fix pool p n
  assume "pool_region pool p n"
  then obtain c where "c \<in> set (concat (mp_chunks pool))" "{p..<p + n} \<subseteq> chunk_held c"
    by (auto simp: pool_region_def chunk_held_def)
  then show "{p..<p + n} \<subseteq> pool_held pool" unfolding pool_held_def by blast
qed

text \<open>The pool after its creation.\<close>

lemma pool_init_inv:
  assumes "arm2x86_mempool_init calloc_ok malloc_ok mem config None = Some pool"
    and "mem = MAP_FAILED \<or> fresh mem (chunk_size_for (pool_initial_size config)) []"
  shows "pool_inv pool"
proof -
  let ?sz = "chunk_size_for (pool_initial_size config)" and ?k = "mempool_get_class (pool_initial_size config)"
  let ?c = "\<lparr>ch_base = mem, ch_size = ?sz, ch_offset = 0, ch_class_id = ?k\<rparr>"
  have k: "?k < length (replicate 6 ([] :: mempool_chunk list))" using mempool_get_class_less by simp
  obtain U V where UV: "concat (replicate 6 ([] :: mempool_chunk list)) = U @ [] @ V"
    "\<And>y. concat ((replicate 6 [])[?k := y]) = U @ y @ V"
    using concat_split [OF k] k by (metis nth_replicate length_replicate)
  then have "concat ((replicate 6 [])[?k := [?c]]) = [] @ [?c]" by simp
  moreover have nil: "chunks_ok []" by (simp add: chunks_ok_def)
  ultimately have "chunks_ok (concat ((replicate 6 [])[?k := [?c]]))" if "fresh mem ?sz []"
    using add_chunk [of "[]" "[]", simplified, OF nil that] by simp
  with assms nil show ?thesis
    by (auto simp: arm2x86_mempool_init_def arm2x86_mempool_alloc_chunk_def pool_inv_def Let_def simp del: set_concat split: if_splits)
qed

text \<open>
  C24: the memory pool gives out memory that it may give out. For requests of at most \<open>2^62\<close> bytes and an operating system whose mappings
  are new, page-aligned and in the lower half of the address space, after any number of requests the
  regions given out are pairwise disjoint, aligned to 16 bytes, and each lies within one mapped chunk.
\<close>

theorem mempool_regions_separate:
  assumes "arm2x86_mempool_init calloc_ok malloc_ok mem config None = Some pool0"
    and "mem = MAP_FAILED \<or> fresh mem (chunk_size_for (pool_initial_size config)) []"
    and "served pool_alloc pool_env pool0 pool rs"
  shows "separate rs \<and> (\<forall>(p, n)\<in>set rs. 16 dvd p \<and>
    (\<exists>c\<in>set (concat (mp_chunks pool)). unat (ch_base c) \<le> p \<and> p + n \<le> unat (ch_base c) + unat (ch_size c)))"
proof -
  have run: "pool_inv pool" "separate rs" "\<forall>(p, n)\<in>set rs. pool_region pool p n"
    using pool.served_separate [OF assms(3) pool_init_inv [OF assms(1,2)]] by simp_all
  have "unat (ch_offset c) \<le> unat (ch_size c)" if "c \<in> set (concat (mp_chunks pool))" for c
    using run(1) that by (auto simp: pool_inv_def chunks_ok_def chunk_ok_def)
  with run(2,3) show ?thesis by (fastforce simp: pool_region_def)
qed

text \<open>The default pool at \<open>0x10000\<close>, and two requests of 100 bytes, which lie in one chunk of their own.\<close>

definition demo_pool :: mempool where
  "demo_pool = the (arm2x86_mempool_init True True 0x10000 None None)"

definition demo_pool1 :: mempool where
  "demo_pool1 = snd (pool_alloc (True, 0x40000) 100 demo_pool)"

definition demo_pool2 :: mempool where
  "demo_pool2 = snd (pool_alloc (True, MAP_FAILED) 100 demo_pool1)"

lemmas pool_eval = arm2x86_mempool_init_def pool_initial_size_def or_default_def arm2x86_mempool_alloc_chunk_def
  chunk_size_for_def mempool_get_class_def mempool_class_sizes_def align16_def pool_alloc_def arm2x86_mempool_alloc_def Let_def

lemma demo_pool_eval:
  "demo_pool = \<lparr>mp_chunks = [[], [], [], [], [], [\<lparr>ch_base = 0x10000, ch_size = 0x10000, ch_offset = 0, ch_class_id = 5\<rparr>]],
     mp_total_size = 0x10000, mp_used_size = 0, mp_default_chunk_size = 0x10000, mp_max_size = 0x4000000, mp_enable_growth = True\<rparr>"
proof -
  have six: "replicate 6 [] = [[], [], [], [], [], [] :: mempool_chunk list]" by (simp add: eval_nat_numeral)
  show ?thesis unfolding demo_pool_def arm2x86_mempool_init_def six by (simp add: pool_eval)
qed

lemma demo_requests:
  "pool_alloc (True, 0x40000) 100 demo_pool = (Some 0x40000, demo_pool1)"
  "pool_alloc (True, MAP_FAILED) 100 demo_pool1 = (Some 0x40070, demo_pool2)"
  by (simp_all add: demo_pool1_def demo_pool2_def demo_pool_eval pool_eval)

lemma demo_env: "pool_env (True, 0x40000) 100 demo_pool" "pool_env (True, MAP_FAILED) 100 demo_pool1"
  by (simp_all add: pool_env_def fresh_def demo_pool_eval pool_eval covers_def)

theorem mempool_regions_separate_witness:
  "served pool_alloc pool_env demo_pool demo_pool2 [(0x40070, 100), (0x40000, 100)] \<and> separate [(0x40070, 100), (0x40000, 100)]"
proof -
  have run: "served pool_alloc pool_env demo_pool demo_pool2 [(0x40070, 100), (0x40000, 100)]"
    using served.answered [OF served.answered [OF served.start [of pool_alloc pool_env demo_pool]]] demo_env demo_requests by blast
  have "arm2x86_mempool_init True True 0x10000 None None = Some demo_pool"
    by (simp add: demo_pool_def arm2x86_mempool_init_def Let_def)
  moreover have "fresh 0x10000 (chunk_size_for (pool_initial_size None)) []"
    by (simp add: fresh_def pool_eval)
  ultimately show ?thesis using mempool_regions_separate [OF _ _ run] run by blast
qed

section \<open>Limits that are not kept\<close>

text \<open>The configuration cannot forbid the growth of the pool, so that the maximal size is never looked at.\<close>

lemma mempool_always_grows:
  "arm2x86_mempool_init True malloc_ok mem config old = Some pool \<Longrightarrow> mp_enable_growth pool"
  by (auto simp: arm2x86_mempool_init_def Let_def split: option.splits if_splits)

text \<open>The total size is that of the request, not of the chunk: one allocation can use more than the total.\<close>

lemma mempool_used_exceeds_total:
  "\<exists>pool pool' p. arm2x86_mempool_init True True 0x10000 (Some (arm2x86_mempool_config_default\<lparr>mc_initial_size := 100\<rparr>)) None = Some pool \<and>
     arm2x86_mempool_alloc True MAP_FAILED 256 (Some pool) = (p, Some pool') \<and> mp_total_size pool' = 100 \<and> mp_used_size pool' = 256"
  by (simp add: pool_eval arm2x86_mempool_config_default_def)

text \<open>A request within sixteen bytes of \<open>2^64\<close> is answered with an empty region.\<close>

lemma mempool_huge_request: "align16 (- 1) = 0"
  by (simp add: align16_def)

end
