(* ===== verification/Pcache.thy ===== *)
theory Pcache
  imports Prelude "HOL-Library.Multiset" "HOL-Library.Sublist"
begin

text \<open>
  \<open>src/modules/arm2x86_pcache.c\<close>: the persistent cache of translated code, one file for each guest address.

  The directory of the entries is a map from names to files, a file its bytes and its access time. What the file
  system, \<open>malloc\<close> and the clock answer are parameters; \<open>listing\<close> is the order in which \<open>readdir\<close> delivers the names.
  The member \<open>hit_rate\<close>, a quotient in floating point, the callback, the paths and the members that nothing
  reads are left out.
\<close>

section \<open>Checksums\<close>

definition crc_step :: "u32 \<Rightarrow> u32" where
  "crc_step crc = drop_bit 1 crc XOR (if crc AND 1 \<noteq> 0 then 0xEDB88320 else 0)"

text \<open>The element \<open>i\<close> of \<open>crc32_table\<close> after \<open>init_crc32_table\<close>.\<close>

definition crc32_table :: "u32 \<Rightarrow> u32" where
  "crc32_table i = (crc_step ^^ 8) i"

definition arm2x86_pcache_compute_hash :: "u8 list \<Rightarrow> u32" where
  "arm2x86_pcache_compute_hash data =
     NOT (foldl (\<lambda>crc d. crc32_table ((crc XOR ucast d) AND 0xFF) XOR drop_bit 8 crc) 0xFFFFFFFF data)"

section \<open>Headers\<close>

record entry_header =
  eh_magic :: u32
  eh_version :: u32
  eh_arm_addr :: u64
  eh_arm_code_hash :: u32
  eh_x86_code_hash :: u32
  eh_arm_code_size :: u64
  eh_x86_code_size :: u64
  eh_compressed_size :: u64
  eh_timestamp :: u64
  eh_access_count :: u64
  eh_last_access_time :: u64
  eh_flags :: u32
  eh_architecture :: u8
  eh_compression :: u8
  eh_reserved :: "u8 list"
  eh_checksum :: u32

abbreviation (input) ARM2X86_PCACHE_MAGIC :: u32 where "ARM2X86_PCACHE_MAGIC \<equiv> 0x5854504A"
abbreviation (input) ARM2X86_PCACHE_VERSION :: u32 where "ARM2X86_PCACHE_VERSION \<equiv> 0x01000000"
abbreviation (input) ARM2X86_PCACHE_OK :: int where "ARM2X86_PCACHE_OK \<equiv> 0"
abbreviation (input) ARM2X86_PCACHE_ERROR_INVALID_ARG :: int where "ARM2X86_PCACHE_ERROR_INVALID_ARG \<equiv> -1"
abbreviation (input) ARM2X86_PCACHE_ERROR_NO_MEMORY :: int where "ARM2X86_PCACHE_ERROR_NO_MEMORY \<equiv> -2"
abbreviation (input) ARM2X86_PCACHE_ERROR_IO :: int where "ARM2X86_PCACHE_ERROR_IO \<equiv> -3"
abbreviation (input) ARM2X86_PCACHE_ERROR_CORRUPT :: int where "ARM2X86_PCACHE_ERROR_CORRUPT \<equiv> -4"
abbreviation (input) ARM2X86_PCACHE_ERROR_VERSION_MISMATCH :: int where "ARM2X86_PCACHE_ERROR_VERSION_MISMATCH \<equiv> -5"
abbreviation (input) ARM2X86_PCACHE_ERROR_HASH_MISMATCH :: int where "ARM2X86_PCACHE_ERROR_HASH_MISMATCH \<equiv> -6"
abbreviation (input) ARM2X86_PCACHE_ERROR_NOT_FOUND :: int where "ARM2X86_PCACHE_ERROR_NOT_FOUND \<equiv> -7"
abbreviation (input) ARM2X86_PCACHE_ERROR_ALREADY_EXISTS :: int where "ARM2X86_PCACHE_ERROR_ALREADY_EXISTS \<equiv> -8"
abbreviation (input) ARM2X86_PCACHE_ERROR_FULL :: int where "ARM2X86_PCACHE_ERROR_FULL \<equiv> -9"

text \<open>The header in memory and in the file: 92 bytes and the checksum, without padding.\<close>

definition header_body :: "entry_header \<Rightarrow> u8 list" where
  "header_body h =
     le32 (eh_magic h) @ le32 (eh_version h) @ le64 (eh_arm_addr h) @ le32 (eh_arm_code_hash h) @ le32 (eh_x86_code_hash h) @
     le64 (eh_arm_code_size h) @ le64 (eh_x86_code_size h) @ le64 (eh_compressed_size h) @ le64 (eh_timestamp h) @
     le64 (eh_access_count h) @ le64 (eh_last_access_time h) @ le32 (eh_flags h) @ [eh_architecture h, eh_compression h] @
     eh_reserved h"

definition header_bytes :: "entry_header \<Rightarrow> u8 list" where
  "header_bytes h = header_body h @ le32 (eh_checksum h)"

definition get32 :: "u8 list \<Rightarrow> nat \<Rightarrow> u32" where
  "get32 bs i = of_le32 (bs ! i) (bs ! (i + 1)) (bs ! (i + 2)) (bs ! (i + 3))"

definition get64 :: "u8 list \<Rightarrow> nat \<Rightarrow> u64" where
  "get64 bs i = of_le64 (bs ! i) (bs ! (i + 1)) (bs ! (i + 2)) (bs ! (i + 3)) (bs ! (i + 4)) (bs ! (i + 5)) (bs ! (i + 6)) (bs ! (i + 7))"

text \<open>\<open>fread\<close> of a header, from the start of the file.\<close>

definition read_header :: "u8 list \<Rightarrow> entry_header option" where
  "read_header bs =
     (if length bs < 96 then None
      else Some \<lparr>eh_magic = get32 bs 0, eh_version = get32 bs 4, eh_arm_addr = get64 bs 8, eh_arm_code_hash = get32 bs 16,
                 eh_x86_code_hash = get32 bs 20, eh_arm_code_size = get64 bs 24, eh_x86_code_size = get64 bs 32,
                 eh_compressed_size = get64 bs 40, eh_timestamp = get64 bs 48, eh_access_count = get64 bs 56,
                 eh_last_access_time = get64 bs 64, eh_flags = get32 bs 72, eh_architecture = bs ! 76, eh_compression = bs ! 77,
                 eh_reserved = take 14 (drop 78 bs), eh_checksum = get32 bs 92\<rparr>)"

definition compute_header_checksum :: "entry_header \<Rightarrow> u32" where
  "compute_header_checksum h = arm2x86_pcache_compute_hash (header_body h)"

definition validate_header :: "entry_header \<Rightarrow> int" where
  "validate_header h =
     (if eh_magic h \<noteq> ARM2X86_PCACHE_MAGIC then ARM2X86_PCACHE_ERROR_CORRUPT
      else if eh_version h \<noteq> ARM2X86_PCACHE_VERSION then ARM2X86_PCACHE_ERROR_VERSION_MISMATCH
      else if compute_header_checksum h \<noteq> eh_checksum h then ARM2X86_PCACHE_ERROR_CORRUPT
      else ARM2X86_PCACHE_OK)"

section \<open>The cache\<close>

record pcache_config =
  pcfg_max_size_bytes :: u64
  pcfg_max_entry_size :: u64
  pcfg_enabled :: bool
  pcfg_verify_hash :: bool
  pcfg_auto_cleanup :: bool
  pcfg_load_on_startup :: bool

record pfile =
  pf_data :: "u8 list"
  pf_atime :: int

record pcache =
  pc_config :: pcache_config
  pc_dir :: "string \<Rightarrow> pfile option"
  pc_total_size :: u64
  pc_total_entries :: u64
  pc_hits :: u64
  pc_misses :: u64
  pc_stores :: u64
  pc_evictions :: u64
  pc_last_cleanup_time :: int
  pc_last_sync :: int

definition arm2x86_pcache_config_init :: pcache_config where
  "arm2x86_pcache_config_init =
     \<lparr>pcfg_max_size_bytes = 500 * 1024 * 1024, pcfg_max_entry_size = 10 * 1024 * 1024, pcfg_enabled = True, pcfg_verify_hash = True,
      pcfg_auto_cleanup = True, pcfg_load_on_startup = True\<rparr>"

text \<open>\<open>%016lx.jtx\<close>\<close>

definition hex_digit :: "u64 \<Rightarrow> nat \<Rightarrow> char" where
  "hex_digit a k = ''0123456789abcdef'' ! unat (take_bit 4 (drop_bit (4 * k) a))"

definition get_entry_filename :: "u64 \<Rightarrow> string" where
  "get_entry_filename arm_addr = map (hex_digit arm_addr) (rev [0..<16]) @ ''.jtx''"

definition miss :: "pcache \<Rightarrow> pcache" where
  "miss c = c\<lparr>pc_misses := pc_misses c + 1\<rparr>"

text \<open>
  \<open>arm_code\<close> are the \<open>arm_size\<close> bytes, \<open>None\<close> for a null pointer; \<open>out\<close> says that the addresses for the results are not null. The results are the
  code, the error code and the cache.
\<close>

definition arm2x86_pcache_lookup :: "bool \<Rightarrow> int \<Rightarrow> pcache option \<Rightarrow> u64 \<Rightarrow> u8 list option \<Rightarrow> bool \<Rightarrow> u32
    \<Rightarrow> int \<times> u8 list option \<times> pcache option" where
  "arm2x86_pcache_lookup malloc_ok now cache arm_addr arm_code out flags =
     (case (cache, arm_code) of
        (Some c, Some arm) \<Rightarrow>
          if \<not> out then (ARM2X86_PCACHE_ERROR_INVALID_ARG, None, cache)
          else if \<not> pcfg_enabled (pc_config c) then (ARM2X86_PCACHE_ERROR_NOT_FOUND, None, cache)
          else
            (let name = get_entry_filename arm_addr in
             case pc_dir c name of None \<Rightarrow> (ARM2X86_PCACHE_ERROR_NOT_FOUND, None, Some (miss c))
             | Some f \<Rightarrow>
                 (case read_header (pf_data f) of None \<Rightarrow> (ARM2X86_PCACHE_ERROR_CORRUPT, None, Some (miss c))
                  | Some h \<Rightarrow>
                      if validate_header h \<noteq> ARM2X86_PCACHE_OK then (validate_header h, None, Some (miss c))
                      else if pcfg_verify_hash (pc_config c) \<and> arm2x86_pcache_compute_hash arm \<noteq> eh_arm_code_hash h
                      then (ARM2X86_PCACHE_ERROR_HASH_MISMATCH, None, Some ((miss c)\<lparr>pc_dir := (pc_dir c)(name := None)\<rparr>))
                      else if eh_flags h \<noteq> flags then (ARM2X86_PCACHE_ERROR_NOT_FOUND, None, Some (miss c))
                      else if \<not> malloc_ok then (ARM2X86_PCACHE_ERROR_NO_MEMORY, None, cache)
                      else if length (pf_data f) - 96 < unat (eh_x86_code_size h) then (ARM2X86_PCACHE_ERROR_CORRUPT, None, cache)
                      else
                        (ARM2X86_PCACHE_OK, Some (take (unat (eh_x86_code_size h)) (drop 96 (pf_data f))),
                         Some (c\<lparr>pc_dir := (pc_dir c)(name \<mapsto> f\<lparr>pf_atime := now\<rparr>), pc_hits := pc_hits c + 1\<rparr>))))
      | _ \<Rightarrow> (ARM2X86_PCACHE_ERROR_INVALID_ARG, None, cache))"

section \<open>Cleaning up\<close>

text \<open>
  \<open>is_entry\<close> is the test of a name: it does not start with a dot and contains \<open>.jtx\<close>. The array has room for 1000
  entries, and nothing checks it: more entries are a write behind its end, \<open>Inl\<close>. An entry is path, access time and size.
\<close>

definition is_entry :: "string \<Rightarrow> bool" where
  "is_entry name \<longleftrightarrow> (name = [] \<or> hd name \<noteq> CHR ''.'') \<and> sublist ''.jtx'' name"

type_synonym entry_info = "string \<times> int \<times> u64"

definition collect_entries :: "(string \<Rightarrow> pfile option) \<Rightarrow> string list \<Rightarrow> entry_info list" where
  "collect_entries dir listing =
     concat (map (\<lambda>name. case dir name of None \<Rightarrow> [] | Some f \<Rightarrow> [(name, pf_atime f, of_nat (length (pf_data f)))])
       (filter is_entry listing))"

text \<open>The two loops of the sort: the inner one exchanges with every later element that is older.\<close>

fun sort_inner :: "entry_info \<Rightarrow> entry_info list \<Rightarrow> entry_info \<times> entry_info list" where
  "sort_inner x [] = (x, [])"
| "sort_inner x (y # ys) =
     (if fst (snd x) > fst (snd y) then (let (z, zs) = sort_inner y ys in (z, x # zs))
      else (let (z, zs) = sort_inner x ys in (z, y # zs)))"

lemma length_sort_inner [simp]: "length (snd (sort_inner x ys)) = length ys"
  by (induction x ys rule: sort_inner.induct) (simp_all add: case_prod_beta Let_def)

function sort_entries :: "entry_info list \<Rightarrow> entry_info list" where
  "sort_entries [] = []"
| "sort_entries (x # xs) = (let r = sort_inner x xs in fst r # sort_entries (snd r))"
  by pat_completeness auto

termination
  by (relation "measure length") auto

text \<open>The removal; \<open>unlink_ok\<close> says whether a file can be removed. The results are the directory, the size and the number of files removed.\<close>

fun remove_oldest :: "(string \<Rightarrow> bool) \<Rightarrow> u64 \<Rightarrow> entry_info list \<Rightarrow> (string \<Rightarrow> pfile option) \<Rightarrow> u64 \<Rightarrow> nat
    \<Rightarrow> (string \<Rightarrow> pfile option) \<times> u64 \<times> nat" where
  "remove_oldest unlink_ok target [] dir cur removed = (dir, cur, removed)"
| "remove_oldest unlink_ok target ((name, atime, sz) # es) dir cur removed =
     (if target < cur then
        (if unlink_ok name then remove_oldest unlink_ok target es (dir(name := None)) (cur - sz) (removed + 1)
         else remove_oldest unlink_ok target es dir cur removed)
      else (dir, cur, removed))"

definition arm2x86_pcache_cleanup :: "bool \<Rightarrow> string list \<Rightarrow> (string \<Rightarrow> bool) \<Rightarrow> int \<Rightarrow> pcache option \<Rightarrow> u64
    \<Rightarrow> unit + int \<times> pcache option" where
  "arm2x86_pcache_cleanup opendir_ok listing unlink_ok now cache target =
     (case cache of None \<Rightarrow> Inr (ARM2X86_PCACHE_ERROR_INVALID_ARG, None)
      | Some c \<Rightarrow>
          (let target = (if target = 0 then pcfg_max_size_bytes (pc_config c) div 2 else target) in
           if pc_total_size c \<le> target then Inr (0, cache)
           else if \<not> opendir_ok then Inr (ARM2X86_PCACHE_ERROR_IO, cache)
           else if 1000 < length (collect_entries (pc_dir c) listing) then Inl ()
           else
             (let (dir, cur, removed) = remove_oldest unlink_ok target (sort_entries (collect_entries (pc_dir c) listing))
                                          (pc_dir c) (pc_total_size c) 0
              in Inr (int removed,
                   Some (c\<lparr>pc_dir := dir, pc_total_size := cur, pc_total_entries := pc_total_entries c - of_nat removed,
                           pc_evictions := pc_evictions c + of_nat removed, pc_last_cleanup_time := now\<rparr>)))))"

section \<open>Storing and the other operations\<close>

definition new_header :: "u64 \<Rightarrow> u8 list \<Rightarrow> u8 list \<Rightarrow> u32 \<Rightarrow> u64 \<Rightarrow> entry_header" where
  "new_header arm_addr arm x86 flags now =
     (let h = \<lparr>eh_magic = ARM2X86_PCACHE_MAGIC, eh_version = ARM2X86_PCACHE_VERSION, eh_arm_addr = arm_addr,
               eh_arm_code_hash = arm2x86_pcache_compute_hash arm, eh_x86_code_hash = arm2x86_pcache_compute_hash x86,
               eh_arm_code_size = of_nat (length arm), eh_x86_code_size = of_nat (length x86), eh_compressed_size = 0,
               eh_timestamp = now, eh_access_count = 1, eh_last_access_time = now, eh_flags = flags, eh_architecture = 64,
               eh_compression = 0, eh_reserved = replicate 14 0, eh_checksum = 0\<rparr>
      in h\<lparr>eh_checksum := compute_header_checksum h\<rparr>)"

text \<open>
  \<open>open_ok\<close> says that the temporary file can be opened, \<open>write_ok\<close> that it can be written and \<open>rename_ok\<close> that it can be renamed.
  Behind them are the answers for the cleaning up.
\<close>

definition arm2x86_pcache_store :: "bool \<Rightarrow> bool \<Rightarrow> bool \<Rightarrow> bool \<Rightarrow> string list \<Rightarrow> (string \<Rightarrow> bool) \<Rightarrow> int \<Rightarrow> pcache option \<Rightarrow> u64
    \<Rightarrow> u8 list option \<Rightarrow> u8 list option \<Rightarrow> u32 \<Rightarrow> unit + int \<times> pcache option" where
  "arm2x86_pcache_store open_ok write_ok rename_ok opendir_ok listing unlink_ok now cache arm_addr arm_code x86 flags =
     (case (cache, arm_code, x86) of
        (Some c, Some arm, Some x86) \<Rightarrow>
          (let x86_size = of_nat (length x86); cfg = pc_config c in
           if \<not> pcfg_enabled cfg then Inr (ARM2X86_PCACHE_OK, cache)
           else if pcfg_max_entry_size cfg < x86_size then Inr (ARM2X86_PCACHE_ERROR_INVALID_ARG, cache)
           else if pcfg_max_size_bytes cfg < pc_total_size c + x86_size \<and> \<not> pcfg_auto_cleanup cfg
           then Inr (ARM2X86_PCACHE_ERROR_FULL, cache)
           else
             (case (if pcfg_max_size_bytes cfg < pc_total_size c + x86_size
                    then arm2x86_pcache_cleanup opendir_ok listing unlink_ok now cache (pcfg_max_size_bytes cfg div 2)
                    else Inr (0, cache)) of
                Inl e \<Rightarrow> Inl e
              | Inr (_, cache) \<Rightarrow>
                  (let c = the cache; name = get_entry_filename arm_addr; tmp = ''.tmp.'' @ name;
                       f = \<lparr>pf_data = header_bytes (new_header arm_addr arm x86 flags (of_int now)) @ x86, pf_atime = now\<rparr>
                   in if pc_dir c name \<noteq> None then Inr (ARM2X86_PCACHE_ERROR_ALREADY_EXISTS, Some c)
                      else if \<not> open_ok then Inr (ARM2X86_PCACHE_ERROR_IO, Some c)
                      else if \<not> write_ok \<or> \<not> rename_ok
                      then Inr (ARM2X86_PCACHE_ERROR_IO, Some (c\<lparr>pc_dir := (pc_dir c)(tmp := None)\<rparr>))
                      else
                        Inr (ARM2X86_PCACHE_OK,
                          Some (c\<lparr>pc_dir := (pc_dir c)(tmp := None, name \<mapsto> f), pc_total_size := pc_total_size c + (96 + x86_size),
                                  pc_total_entries := pc_total_entries c + 1, pc_stores := pc_stores c + 1\<rparr>)))))
      | _ \<Rightarrow> Inr (ARM2X86_PCACHE_ERROR_INVALID_ARG, cache))"

definition arm2x86_pcache_sync :: "int \<Rightarrow> pcache option \<Rightarrow> int \<times> pcache option" where
  "arm2x86_pcache_sync now cache =
     (case cache of None \<Rightarrow> (ARM2X86_PCACHE_ERROR_INVALID_ARG, None)
      | Some c \<Rightarrow> (ARM2X86_PCACHE_OK, Some (c\<lparr>pc_last_sync := now\<rparr>)))"

definition arm2x86_pcache_rebuild_index :: "bool \<Rightarrow> string list \<Rightarrow> pcache option \<Rightarrow> int \<times> pcache option" where
  "arm2x86_pcache_rebuild_index opendir_ok listing cache =
     (case cache of None \<Rightarrow> (ARM2X86_PCACHE_ERROR_INVALID_ARG, None)
      | Some c \<Rightarrow>
          if \<not> opendir_ok then (ARM2X86_PCACHE_ERROR_IO, cache)
          else
            (let es = collect_entries (pc_dir c) listing in
             (ARM2X86_PCACHE_OK, Some (c\<lparr>pc_total_size := pc_total_size c + sum_list (map (\<lambda>e. snd (snd e)) es),
                                        pc_total_entries := pc_total_entries c + of_nat (length es)\<rparr>))))"

definition arm2x86_pcache_invalidate :: "(string \<Rightarrow> bool) \<Rightarrow> pcache option \<Rightarrow> u64 \<Rightarrow> int \<times> pcache option" where
  "arm2x86_pcache_invalidate unlink_ok cache arm_addr =
     (case cache of None \<Rightarrow> (ARM2X86_PCACHE_ERROR_INVALID_ARG, None)
      | Some c \<Rightarrow>
          (let name = get_entry_filename arm_addr in
           case pc_dir c name of None \<Rightarrow> (ARM2X86_PCACHE_ERROR_NOT_FOUND, cache)
           | Some f \<Rightarrow>
               (let c = c\<lparr>pc_total_size := pc_total_size c - of_nat (length (pf_data f)), pc_total_entries := pc_total_entries c - 1\<rparr> in
                if unlink_ok name then (ARM2X86_PCACHE_OK, Some (c\<lparr>pc_dir := (pc_dir c)(name := None)\<rparr>))
                else (ARM2X86_PCACHE_ERROR_NOT_FOUND, Some c))))"

definition arm2x86_pcache_invalidate_all :: "bool \<Rightarrow> string list \<Rightarrow> (string \<Rightarrow> bool) \<Rightarrow> pcache option \<Rightarrow> int \<times> pcache option" where
  "arm2x86_pcache_invalidate_all opendir_ok listing unlink_ok cache =
     (case cache of None \<Rightarrow> (ARM2X86_PCACHE_ERROR_INVALID_ARG, None)
      | Some c \<Rightarrow>
          if \<not> opendir_ok then (ARM2X86_PCACHE_ERROR_IO, cache)
          else
            (let dir = fold (\<lambda>name d. if (name = [] \<or> hd name \<noteq> CHR ''.'') \<and> unlink_ok name then d(name := None) else d)
                         listing (pc_dir c);
                 c = c\<lparr>pc_dir := dir, pc_total_size := 0, pc_total_entries := 0\<rparr>
             in (ARM2X86_PCACHE_OK, Some (c\<lparr>pc_evictions := pc_evictions c + pc_total_entries c\<rparr>))))"

text \<open>
  The creation on a directory. \<open>path_ok\<close> says that there is a path, \<open>mkdir_ok\<close> that the directories are there; the
  listings are those of the two walks.
\<close>

definition arm2x86_pcache_create :: "bool \<Rightarrow> bool \<Rightarrow> bool \<Rightarrow> bool \<Rightarrow> string list \<Rightarrow> (string \<Rightarrow> bool) \<Rightarrow> int
    \<Rightarrow> pcache_config option \<Rightarrow> bool \<Rightarrow> (string \<Rightarrow> pfile option) \<Rightarrow> unit + int \<times> pcache option" where
  "arm2x86_pcache_create calloc_ok path_ok mkdir_ok opendir_ok listing unlink_ok now config out dir =
     (if \<not> out then Inr (ARM2X86_PCACHE_ERROR_INVALID_ARG, None)
      else if \<not> calloc_ok \<or> \<not> path_ok then Inr (ARM2X86_PCACHE_ERROR_NO_MEMORY, None)
      else if \<not> mkdir_ok then Inr (ARM2X86_PCACHE_ERROR_IO, None)
      else
        (let cfg = (case config of Some c \<Rightarrow> c | None \<Rightarrow> arm2x86_pcache_config_init);
             c = \<lparr>pc_config = cfg, pc_dir = dir, pc_total_size = 0, pc_total_entries = 0, pc_hits = 0, pc_misses = 0, pc_stores = 0,
                  pc_evictions = 0, pc_last_cleanup_time = 0, pc_last_sync = 0\<rparr>;
             cache = (if pcfg_load_on_startup cfg then snd (arm2x86_pcache_rebuild_index opendir_ok listing (Some c)) else Some c)
         in case (if pcfg_auto_cleanup cfg
                  then arm2x86_pcache_cleanup opendir_ok listing unlink_ok now cache (pcfg_max_size_bytes cfg div 2)
                  else Inr (0, cache)) of
              Inl e \<Rightarrow> Inl e
            | Inr (_, cache) \<Rightarrow> Inr (ARM2X86_PCACHE_OK, map_option (\<lambda>c. c\<lparr>pc_last_sync := now\<rparr>) cache)))"

section \<open>The checksum is CRC-32\<close>

text \<open>CRC-32 bit by bit, with the bits of each byte from the lowest on.\<close>

definition crc_bit :: "u32 \<Rightarrow> bool \<Rightarrow> u32" where
  "crc_bit crc b = drop_bit 1 crc XOR (if bit crc 0 \<noteq> b then 0xEDB88320 else 0)"

definition crc32_serial :: "u8 list \<Rightarrow> u32" where
  "crc32_serial data = NOT (foldl crc_bit 0xFFFFFFFF (concat (map (\<lambda>d. map (bit d) [0..<8]) data)))"

lemma crc_step_bit: "crc_step crc = drop_bit 1 crc XOR (if bit crc 0 then 0xEDB88320 else 0)"
  by (simp add: crc_step_def and_one_eq odd_iff_mod_2_eq_one bit_0)

lemma crc_step_xor: "crc_step (x XOR y) = crc_step x XOR crc_step y"
  by (auto simp: crc_step_bit drop_bit_xor bit_xor_iff xor.assoc xor.left_commute)

lemma crc_steps_xor: "(crc_step ^^ k) (x XOR y) = (crc_step ^^ k) x XOR (crc_step ^^ k) y"
  by (induction k) (simp_all add: crc_step_xor)

text \<open>As long as the lowest bits are zero, a step is a shift.\<close>

lemma crc_steps_shift: "(\<And>n. n < k \<Longrightarrow> \<not> bit y n) \<Longrightarrow> (crc_step ^^ k) y = drop_bit k y"
  by (induction k) (simp_all add: crc_step_bit bit_drop_bit_eq)

text \<open>The table takes eight steps at once.\<close>

lemma crc_table_step: "crc32_table ((crc XOR ucast d) AND 0xFF) XOR drop_bit 8 crc = (crc_step ^^ 8) (crc XOR ucast (d :: u8))"
proof -
  let ?x = "crc XOR ucast d"
  have mask: "(0xFF :: u32) = mask 8" by (simp add: mask_eq_exp_minus_1)
  have "?x = (?x AND mask 8) XOR (?x AND NOT (mask 8))" by (rule bit_word_eqI) (auto simp: bit_simps)
  then have "(crc_step ^^ 8) ?x = (crc_step ^^ 8) (?x AND mask 8) XOR (crc_step ^^ 8) (?x AND NOT (mask 8))"
    by (metis crc_steps_xor)
  also have "(crc_step ^^ 8) (?x AND NOT (mask 8)) = drop_bit 8 (?x AND NOT (mask 8))"
    by (rule crc_steps_shift) (simp add: bit_and_iff bit_not_iff bit_mask_iff)
  also have "\<dots> = drop_bit 8 crc"
    by (rule bit_word_eqI) (auto simp: bit_simps dest: bit_imp_le_length)
  finally show ?thesis unfolding mask by (simp add: crc32_table_def)
qed

lemma crc_steps_serial: "(crc_step ^^ k) (crc XOR y) = foldl crc_bit crc (map (bit y) [0..<k]) XOR drop_bit k y"
proof (induction k)
  case (Suc k)
  then show ?case
    by (auto simp: crc_step_bit crc_bit_def bit_xor_iff bit_drop_bit_eq drop_bit_xor xor.assoc xor.commute xor.left_commute)
qed simp

lemma crc_table_byte:
  "crc32_table ((crc XOR ucast d) AND 0xFF) XOR drop_bit 8 crc = foldl crc_bit crc (map (bit (d :: u8)) [0..<8])"
proof -
  have "drop_bit 8 (ucast d :: u32) = 0"
    by (rule bit_word_eqI) (auto simp: bit_simps dest: bit_imp_le_length)
  moreover have "map (bit (ucast d :: u32)) [0..<8] = map (bit d) [0..<8]" by (auto simp: bit_simps)
  ultimately show ?thesis
    using crc_steps_serial [of 8 crc "ucast d"] by (simp only: crc_table_step) simp
qed

lemma crc_hash: "arm2x86_pcache_compute_hash data = crc32_serial data"
proof -
  have "foldl (\<lambda>crc d. crc32_table ((crc XOR ucast d) AND 0xFF) XOR drop_bit 8 crc) crc data =
      foldl crc_bit crc (concat (map (\<lambda>d. map (bit d) [0..<8]) data))" for crc
    by (induction data arbitrary: crc) (simp_all only: foldl.simps crc_table_byte list.map concat.simps foldl_append)
  then show ?thesis by (simp add: arm2x86_pcache_compute_hash_def crc32_serial_def)
qed

text \<open>
  C27: the table-driven checksum of the cache files is CRC-32, for data of any length: it agrees with the computation that
  takes one bit at a time.
\<close>

theorem crc32_table_driven: "arm2x86_pcache_compute_hash data = crc32_serial data"
  by (rule crc_hash)

section \<open>What is stored is found\<close>

lemma length_header: "length (header_bytes (new_header a arm x86 fl now)) = 96"
  by (simp add: header_bytes_def header_body_def new_header_def Let_def)

lemma read_new_header: "read_header (header_bytes (new_header a arm x86 fl now) @ bs) = Some (new_header a arm x86 fl now)"
  (is "read_header (header_bytes ?h @ _) = _")
proof -
  have reserved: "eh_reserved ?h = [0, 0, 0, 0, 0, 0, 0, 0, 0, 0, 0, 0, 0, 0]" by (simp add: new_header_def Let_def eval_nat_numeral)
  show ?thesis
    unfolding read_header_def get32_def get64_def header_bytes_def header_body_def reserved le32_def le64_def
    by (simp add: reserved)
qed

lemma new_header_fields:
  "eh_x86_code_size (new_header a arm x86 fl now) = of_nat (length x86)" "eh_flags (new_header a arm x86 fl now) = fl"
  "eh_arm_code_hash (new_header a arm x86 fl now) = arm2x86_pcache_compute_hash arm"
  by (simp_all add: new_header_def Let_def)

lemma validate_new_header: "validate_header (new_header a arm x86 fl now) = ARM2X86_PCACHE_OK"
  by (simp add: validate_header_def new_header_def compute_header_checksum_def header_body_def Let_def)

text \<open>File names determine the address, and temporary files are not entries.\<close>

lemma nibble_less: "unat (take_bit 4 (x :: u64)) < length ''0123456789abcdef''"
proof -
  have "unat (take_bit 4 x) < 2 ^ 4" unfolding unsigned_take_bit_eq by (rule take_bit_nat_less_exp)
  then show ?thesis by simp
qed

lemma hex_digit_inj: "hex_digit a k = hex_digit b k \<longleftrightarrow> take_bit 4 (drop_bit (4 * k) a) = take_bit 4 (drop_bit (4 * k) b)"
proof -
  have "distinct ''0123456789abcdef''" by simp
  then show ?thesis unfolding hex_digit_def by (simp only: nth_eq_iff_index_eq [OF _ nibble_less nibble_less] word_unat_eq_iff)
qed

lemma get_entry_filename_inj: "get_entry_filename a = get_entry_filename b \<longleftrightarrow> a = b"
proof
  assume "get_entry_filename a = get_entry_filename b"
  then have digits: "take_bit 4 (drop_bit (4 * k) a) = take_bit 4 (drop_bit (4 * k) b)" if "k < 16" for k
    using that hex_digit_inj [of a k b] by (auto simp: get_entry_filename_def)
  show "a = b"
  proof (rule bit_word_eqI)
    fix n
    assume "n < LENGTH(64)"
    then have "n div 4 < 16" by simp
    from arg_cong [OF digits [OF this], of "\<lambda>x. bit x (n mod 4)"] show "bit a n = bit b n"
      by (simp add: bit_take_bit_iff bit_drop_bit_eq)
  qed
qed simp

lemma hex_digit_not_dot: "hex_digit a k \<noteq> CHR ''.''"
proof -
  have "hex_digit a k \<in> set ''0123456789abcdef''" unfolding hex_digit_def by (rule nth_mem [OF nibble_less])
  then show ?thesis by auto
qed

lemma filename_not_tmp: "get_entry_filename a \<noteq> ''.tmp.'' @ n"
proof
  assume "get_entry_filename a = ''.tmp.'' @ n"
  then have "hd (get_entry_filename a) = CHR ''.''" by simp
  moreover have "rev [0..<16::nat] = 15 # rev [0..<15]" by (simp add: upt_rec eval_nat_numeral)
  ultimately show False using hex_digit_not_dot [of a 15] by (simp add: get_entry_filename_def)
qed

text \<open>The cleaning up only removes files.\<close>

lemma remove_oldest_removes:
  "dir' = fst (remove_oldest ok target es dir cur k) \<Longrightarrow> \<forall>n. dir' n = dir n \<or> dir' n = None"
proof (induction es arbitrary: dir cur k)
  case (Cons e es)
  obtain name at sz where e: "e = (name, at, sz)" by (cases e)
  show ?case
  proof (cases "target < cur \<and> ok name")
    case True
    with Cons.prems have "dir' = fst (remove_oldest ok target es (dir(name := None)) (cur - sz) (k + 1))" by (simp add: e)
    from Cons.IH [OF this] show ?thesis by (metis fun_upd_apply)
  next
    case False
    with Cons.prems Cons.IH [of dir cur k] show ?thesis by (auto simp: e split: if_splits)
  qed
qed simp

lemma cleanup_removes:
  assumes "arm2x86_pcache_cleanup od listing ok now (Some c) target = Inr (r, cache)"
  shows "\<exists>c'. cache = Some c' \<and> pc_config c' = pc_config c \<and> (\<forall>n. pc_dir c' n = pc_dir c n \<or> pc_dir c' n = None)"
  using assms remove_oldest_removes [OF refl] by (auto simp: arm2x86_pcache_cleanup_def case_prod_beta Let_def split: if_splits)

lemma store_ok:
  assumes "arm2x86_pcache_store op wr rn od listing ok now (Some c) a (Some arm) (Some x86) fl = Inr (ARM2X86_PCACHE_OK, Some c')"
    and "pcfg_enabled (pc_config c)"
  shows "pc_config c' = pc_config c"
    and "pc_dir c' (get_entry_filename a) =
      Some \<lparr>pf_data = header_bytes (new_header a arm x86 fl (of_int now)) @ x86, pf_atime = now\<rparr>"
    and "b \<noteq> a \<Longrightarrow> pc_dir c' (get_entry_filename b) = pc_dir c (get_entry_filename b) \<or> pc_dir c' (get_entry_filename b) = None"
proof -
  obtain c1 where c1: "pc_config c1 = pc_config c" "\<forall>n. pc_dir c1 n = pc_dir c n \<or> pc_dir c1 n = None"
    "c' = c1\<lparr>pc_dir := (pc_dir c1)(''.tmp.'' @ get_entry_filename a := None,
       get_entry_filename a \<mapsto> \<lparr>pf_data = header_bytes (new_header a arm x86 fl (of_int now)) @ x86, pf_atime = now\<rparr>),
       pc_total_size := pc_total_size c1 + (96 + of_nat (length x86)),
       pc_total_entries := pc_total_entries c1 + 1, pc_stores := pc_stores c1 + 1\<rparr>"
    using assms by (auto simp: arm2x86_pcache_store_def Let_def split: if_splits sum.splits prod.splits dest!: cleanup_removes)
  show "pc_config c' = pc_config c"
    and "pc_dir c' (get_entry_filename a) =
      Some \<lparr>pf_data = header_bytes (new_header a arm x86 fl (of_int now)) @ x86, pf_atime = now\<rparr>"
    using c1 by simp_all
  show "b \<noteq> a \<Longrightarrow> pc_dir c' (get_entry_filename b) = pc_dir c (get_entry_filename b) \<or> pc_dir c' (get_entry_filename b) = None"
    using c1 filename_not_tmp [of b "get_entry_filename a"] by (simp add: get_entry_filename_inj)
qed

text \<open>
  C25: a block that has been stored in the persistent cache is found there. A lookup of the same address, guest code and flags returns
  exactly the stored code; with guest code of another checksum it removes the entry and fails; the entries of
  other addresses are as before or have been removed to make room.
\<close>

theorem pcache_store_then_lookup:
  assumes "arm2x86_pcache_store op wr rn od listing ok now (Some c) a (Some arm) (Some x86) fl = Inr (ARM2X86_PCACHE_OK, Some c')"
    and "pcfg_enabled (pc_config c)" and "length x86 < 2 ^ 64"
  shows "(\<exists>c''. arm2x86_pcache_lookup True t (Some c') a (Some arm) True fl = (ARM2X86_PCACHE_OK, Some x86, Some c'')) \<and>
    (\<forall>arm'. pcfg_verify_hash (pc_config c) \<longrightarrow> crc32_serial arm' \<noteq> crc32_serial arm \<longrightarrow>
       (\<exists>c''. arm2x86_pcache_lookup True t (Some c') a (Some arm') True fl = (ARM2X86_PCACHE_ERROR_HASH_MISMATCH, None, Some c'') \<and>
          pc_dir c'' (get_entry_filename a) = None)) \<and>
    (\<forall>b. b \<noteq> a \<longrightarrow> pc_dir c' (get_entry_filename b) \<in> {pc_dir c (get_entry_filename b), None})"
proof (intro conjI allI impI)
  note c' = store_ok [OF assms(1,2)]
  have len: "unat (of_nat (length x86) :: u64) = length x86" using assms(3) by (simp add: unat_of_nat)
  show "\<exists>c''. arm2x86_pcache_lookup True t (Some c') a (Some arm) True fl = (ARM2X86_PCACHE_OK, Some x86, Some c'')"
    using assms(2) by (simp add: arm2x86_pcache_lookup_def c' read_new_header validate_new_header new_header_fields length_header len Let_def)
  show "\<exists>c''. arm2x86_pcache_lookup True t (Some c') a (Some arm') True fl = (ARM2X86_PCACHE_ERROR_HASH_MISMATCH, None, Some c'') \<and>
      pc_dir c'' (get_entry_filename a) = None"
    if "pcfg_verify_hash (pc_config c)" "crc32_serial arm' \<noteq> crc32_serial arm" for arm'
    using assms(2) that
    by (simp add: arm2x86_pcache_lookup_def c' read_new_header validate_new_header new_header_fields crc_hash Let_def)
  show "pc_dir c' (get_entry_filename b) \<in> {pc_dir c (get_entry_filename b), None}" if "b \<noteq> a" for b
    using c'(3) [OF that] by auto
qed

section \<open>Cleaning up removes the oldest entries\<close>

lemma mset_sort_inner: "mset (fst (sort_inner x ys) # snd (sort_inner x ys)) = mset (x # ys)"
  by (induction x ys rule: sort_inner.induct) (auto simp: case_prod_beta Let_def)

lemma sort_inner_least: "\<forall>z\<in>set (x # ys). fst (snd (fst (sort_inner x ys))) \<le> fst (snd z)"
  by (induction x ys rule: sort_inner.induct) (auto simp: case_prod_beta Let_def)

abbreviation (input) atime :: "entry_info \<Rightarrow> int" where "atime e \<equiv> fst (snd e)"

lemma sort_entries_correct: "mset (sort_entries es) = mset es \<and> sorted (map (\<lambda>e. atime e) (sort_entries es))"
proof (induction es rule: sort_entries.induct)
  case (2 x xs)
  let ?r = "sort_inner x xs"
  have IH: "mset (sort_entries (snd ?r)) = mset (snd ?r)" "sorted (map (\<lambda>e. atime e) (sort_entries (snd ?r)))"
    using 2 [OF refl] by simp_all
  from IH(1) have "set (sort_entries (snd ?r)) = set (snd ?r)" by (rule mset_eq_setD)
  moreover have "set (snd ?r) \<subseteq> set (x # xs)" using mset_sort_inner [of x xs] by (metis mset_eq_setD set_subset_Cons)
  ultimately have "atime (fst ?r) \<le> atime z" if "z \<in> set (sort_entries (snd ?r))" for z
    using sort_inner_least [of x xs] that by blast
  with IH mset_sort_inner [of x xs] show ?case by (simp add: Let_def)
qed simp

text \<open>With files that can be removed, a prefix of the list is removed.\<close>

definition freed :: "nat \<Rightarrow> entry_info list \<Rightarrow> u64" where
  "freed k es = sum_list (map (\<lambda>e. snd (snd e)) (take k es))"

lemma freed_simps [simp]:
  "freed 0 es = 0" "freed (Suc k) (e # es) = snd (snd e) + freed k es"
  by (simp_all add: freed_def)

lemma remove_oldest_prefix:
  "\<exists>k\<le>length es. remove_oldest (\<lambda>n. True) target es dir cur r =
     ((\<lambda>n. if n \<in> fst ` set (take k es) then None else dir n), cur - freed k es, r + k) \<and>
     (\<forall>j<k. target < cur - freed j es) \<and> (k < length es \<longrightarrow> cur - freed k es \<le> target)"
proof (induction es arbitrary: dir cur r)
  case (Cons e es)
  obtain name at sz where e: "e = (name, at, sz)" by (cases e)
  show ?case
  proof (cases "target < cur")
    case True
    from Cons [of "dir(name := None)" "cur - sz" "r + 1"] obtain k where
      k: "k \<le> length es" "remove_oldest (\<lambda>n. True) target es (dir(name := None)) (cur - sz) (r + 1) =
        ((\<lambda>n. if n \<in> fst ` set (take k es) then None else (dir(name := None)) n), cur - sz - freed k es, r + 1 + k)"
      "\<forall>j<k. target < cur - sz - freed j es" "k < length es \<longrightarrow> cur - sz - freed k es \<le> target" by blast
    have "target < cur - freed j (e # es)" if "j < Suc k" for j
      using k(3) that True by (cases j) (auto simp: e algebra_simps)
    with k True show ?thesis by (intro exI [of _ "Suc k"]) (auto simp: e algebra_simps fun_eq_iff)
  next
    case False
    then have "cur \<le> target" by simp
    with False show ?thesis by (intro exI [of _ 0]) (simp add: e)
  qed
qed (intro exI [of _ 0], simp)

lemma in_collect_entries:
  "e \<in> set (collect_entries dir listing) \<longleftrightarrow>
     (\<exists>f. fst e \<in> set listing \<and> is_entry (fst e) \<and> dir (fst e) = Some f \<and> e = (fst e, pf_atime f, of_nat (length (pf_data f))))"
  by (cases e) (force simp: collect_entries_def split: option.splits)

text \<open>
  C26: which files a cleaning up removes. If the directory has at most 1000 entries, all of which can be removed, the cleaning up
  returns the number of files it has removed. They are the first ones in an order of all entries by the time of their
  last access, so that every entry removed was accessed no later than every entry kept; the recorded size goes down by
  their sizes, and no more is removed than needed: the recorded size was above the target before each removal, and the
  removal stops there unless the target is met or no entry is left. Other files are kept.
  (That \<open>malloc\<close> can fail for the array of 1000 entries is not modelled; the code would then write through a null pointer.)
\<close>

theorem pcache_cleanup_oldest_first:
  assumes "set listing = dom (pc_dir c)" and "length (collect_entries (pc_dir c) listing) \<le> 1000" and "target \<noteq> 0"
  shows "\<exists>r c' es. arm2x86_pcache_cleanup True listing (\<lambda>n. True) now (Some c) target = Inr (int r, Some c') \<and>
    mset es = mset (collect_entries (pc_dir c) listing) \<and> sorted (map (\<lambda>e. atime e) es) \<and> r \<le> length es \<and>
    (\<forall>n. pc_dir c' n = (if n \<in> fst ` set (take r es) then None else pc_dir c n)) \<and>
    pc_total_size c' = pc_total_size c - freed r es \<and>
    (\<forall>j<r. target < pc_total_size c - freed j es) \<and> (r < length es \<longrightarrow> pc_total_size c' \<le> target) \<and>
    (\<forall>old new f g. pc_dir c old = Some f \<and> pc_dir c' old = None \<and> is_entry new \<and> pc_dir c' new = Some g \<longrightarrow> pf_atime f \<le> pf_atime g)"
proof -
  define es where "es = sort_entries (collect_entries (pc_dir c) listing)"
  have es: "mset es = mset (collect_entries (pc_dir c) listing)" "sorted (map (\<lambda>e. atime e) es)"
    using sort_entries_correct [of "collect_entries (pc_dir c) listing"] unfolding es_def by blast+
  have mem: "e \<in> set es \<longleftrightarrow> (\<exists>f. fst e \<in> set listing \<and> is_entry (fst e) \<and> pc_dir c (fst e) = Some f \<and>
      e = (fst e, pf_atime f, of_nat (length (pf_data f))))" for e
    using mset_eq_setD [OF es(1)] in_collect_entries by metis
  show ?thesis
  proof (cases "pc_total_size c \<le> target")
    case True
    then have "arm2x86_pcache_cleanup True listing (\<lambda>n. True) now (Some c) target = Inr (int 0, Some c)"
      using assms(3) by (simp add: arm2x86_pcache_cleanup_def Let_def)
    with True es show ?thesis by (intro exI [of _ 0] exI [of _ c] exI [of _ es]) auto
  next
    case False
    obtain k where k: "k \<le> length es" "remove_oldest (\<lambda>n. True) target es (pc_dir c) (pc_total_size c) 0 =
        ((\<lambda>n. if n \<in> fst ` set (take k es) then None else pc_dir c n), pc_total_size c - freed k es, 0 + k)"
        "\<forall>j<k. target < pc_total_size c - freed j es" "k < length es \<longrightarrow> pc_total_size c - freed k es \<le> target"
      using remove_oldest_prefix [of es target "pc_dir c" "pc_total_size c" 0] by blast
    define c' where "c' = c\<lparr>pc_dir := \<lambda>n. if n \<in> fst ` set (take k es) then None else pc_dir c n,
      pc_total_size := pc_total_size c - freed k es, pc_total_entries := pc_total_entries c - of_nat k,
      pc_evictions := pc_evictions c + of_nat k, pc_last_cleanup_time := now\<rparr>"
    have run: "arm2x86_pcache_cleanup True listing (\<lambda>n. True) now (Some c) target = Inr (int k, Some c')"
      using False assms(2,3) k(2) by (simp add: arm2x86_pcache_cleanup_def es_def [symmetric] c'_def Let_def)
    have split: "set es = set (take k es) \<union> set (drop k es)" by (metis append_take_drop_id set_append)
    have order: "atime e \<le> atime e'" if "e \<in> set (take k es)" "e' \<in> set (drop k es)" for e e'
    proof -
      have "sorted (map (\<lambda>e. atime e) (take k es @ drop k es))" using es(2) by simp
      with that show ?thesis unfolding map_append sorted_append by simp
    qed
    have "pf_atime f \<le> pf_atime g"
      if o: "pc_dir c n = Some f" "pc_dir c' n = None" "is_entry n'" "pc_dir c' n' = Some g" for n n' f g
    proof -
      from o(1,2) obtain e where e: "e \<in> set (take k es)" "fst e = n" by (auto simp: c'_def split: if_splits)
      then have "atime e = pf_atime f" using split mem [of e] o(1) by (metis Un_iff fst_conv option.inject snd_conv)
      moreover from o(4) have "pc_dir c n' = Some g" "n' \<notin> fst ` set (take k es)" by (auto simp: c'_def split: if_splits)
      then have "(n', pf_atime g, of_nat (length (pf_data g))) \<in> set (drop k es)"
        using mem [of "(n', pf_atime g, of_nat (length (pf_data g)))"] split assms(1) o(3) by force
      ultimately show ?thesis using order [OF e(1)] by fastforce
    qed
    then have "\<forall>old new f g. pc_dir c old = Some f \<and> pc_dir c' old = None \<and> is_entry new \<and> pc_dir c' new = Some g \<longrightarrow>
        pf_atime f \<le> pf_atime g" by blast
    moreover have "\<forall>n. pc_dir c' n = (if n \<in> fst ` set (take k es) then None else pc_dir c n)"
      "pc_total_size c' = pc_total_size c - freed k es" "k < length es \<longrightarrow> pc_total_size c' \<le> target"
      using k(4) by (simp_all add: c'_def)
    ultimately show ?thesis using run es k(1,3) by blast
  qed
qed

section \<open>Examples\<close>

definition empty_cache :: pcache where
  "empty_cache = \<lparr>pc_config = arm2x86_pcache_config_init, pc_dir = (\<lambda>n. None), pc_total_size = 0, pc_total_entries = 0, pc_hits = 0,
     pc_misses = 0, pc_stores = 0, pc_evictions = 0, pc_last_cleanup_time = 0, pc_last_sync = 0\<rparr>"

theorem pcache_store_then_lookup_witness:
  "\<exists>c c'. arm2x86_pcache_store True True True True [] (\<lambda>n. True) 7 (Some empty_cache) 0x4000 (Some [1, 2]) (Some [0xc3]) 0 =
       Inr (ARM2X86_PCACHE_OK, Some c) \<and>
     arm2x86_pcache_lookup True 8 (Some c) 0x4000 (Some [1, 2]) True 0 = (ARM2X86_PCACHE_OK, Some [0xc3], Some c')"
proof -
  have "\<exists>c. arm2x86_pcache_store True True True True [] (\<lambda>n. True) 7 (Some empty_cache) 0x4000 (Some [1, 2]) (Some [0xc3]) 0 =
      Inr (ARM2X86_PCACHE_OK, Some c)"
    by (simp add: arm2x86_pcache_store_def empty_cache_def arm2x86_pcache_config_init_def Let_def)
  moreover have "pcfg_enabled (pc_config empty_cache)" "length [0xc3 :: u8] < 2 ^ 64"
    by (simp_all add: empty_cache_def arm2x86_pcache_config_init_def)
  ultimately show ?thesis using pcache_store_then_lookup by blast
qed

text \<open>Two entries of 100 bytes: the older one goes.\<close>

definition two_entries :: pcache where
  "two_entries = empty_cache\<lparr>pc_dir := [''a.jtx'' \<mapsto> \<lparr>pf_data = replicate 100 0, pf_atime = 9\<rparr>, ''b.jtx'' \<mapsto> \<lparr>pf_data = replicate 100 0, pf_atime = 5\<rparr>],
     pc_total_size := 200\<rparr>"

theorem pcache_cleanup_oldest_first_witness:
  "\<exists>r c'. arm2x86_pcache_cleanup True [''a.jtx'', ''b.jtx''] (\<lambda>n. True) 10 (Some two_entries) 100 = Inr (r, Some c') \<and>
     (pc_dir c' ''b.jtx'' \<noteq> None \<longrightarrow> pc_dir c' ''a.jtx'' \<noteq> None)"
proof -
  have dom: "set [''a.jtx'', ''b.jtx''] = dom (pc_dir two_entries)" by (auto simp: two_entries_def)
  have len: "length (collect_entries (pc_dir two_entries) [''a.jtx'', ''b.jtx'']) \<le> 1000"
    by (simp add: collect_entries_def two_entries_def)
  have entry: "is_entry ''b.jtx''" by (simp add: is_entry_def sublist_Cons_right)
  obtain f g where files: "pc_dir two_entries ''a.jtx'' = Some f" "pc_dir two_entries ''b.jtx'' = Some g" "pf_atime f = 9" "pf_atime g = 5"
    by (simp add: two_entries_def)
  obtain r c' where c': "arm2x86_pcache_cleanup True [''a.jtx'', ''b.jtx''] (\<lambda>n. True) 10 (Some two_entries) 100 = Inr (r, Some c')"
    and old: "\<And>old new f g. pc_dir two_entries old = Some f \<and> pc_dir c' old = None \<and> is_entry new \<and> pc_dir c' new = Some g \<Longrightarrow> pf_atime f \<le> pf_atime g"
    using pcache_cleanup_oldest_first [OF dom len, of 100 10] by (auto simp del: all_simps)
  have "pc_dir c' ''b.jtx'' = Some g \<or> pc_dir c' ''b.jtx'' = None" using cleanup_removes [OF c'] files(2) by (metis option.inject)
  with old [of "''a.jtx''" f "''b.jtx''" g] entry files have "pc_dir c' ''b.jtx'' \<noteq> None \<longrightarrow> pc_dir c' ''a.jtx'' \<noteq> None"
    by (cases "pc_dir c' ''a.jtx''") auto
  with c' show ?thesis by blast
qed

section \<open>Where the record of the sizes goes wrong\<close>

text \<open>A lookup that removes a stale entry leaves the recorded size and the number of entries.\<close>

lemma pcache_stale_entry_counted:
  "arm2x86_pcache_lookup malloc_ok now (Some c) a (Some arm) True fl = (ARM2X86_PCACHE_ERROR_HASH_MISMATCH, r, Some c') \<Longrightarrow>
     pc_dir c' (get_entry_filename a) = None \<and> pc_total_size c' = pc_total_size c \<and> pc_total_entries c' = pc_total_entries c"
  by (auto simp: arm2x86_pcache_lookup_def miss_def validate_header_def Let_def split: if_splits option.splits)

text \<open>The entries are set to zero before they are counted as evicted.\<close>

lemma pcache_invalidate_all_evictions:
  "arm2x86_pcache_invalidate_all True listing ok (Some c) = (r, Some c') \<Longrightarrow> pc_evictions c' = pc_evictions c"
  by (auto simp: arm2x86_pcache_invalidate_all_def Let_def)

end
