(* ===== verification/Easy.thy ===== *)
theory Easy
  imports Dbt TCache Mempool Pcache
begin

text \<open>
  \<open>src/modules/arm2x86_easy.c\<close>: the instance that ties the components together, the table of translated code by contents, and
  the translation of blocks through all caches.

  The memory is the one of the translation cache. What the operating system and the allocator answer in a call is
  the record \<open>os\<close>. A null instance, and the members that only hold settings, are left out; a write behind the array of the persistent cache and memory that is
  freed twice are the errors \<open>Inl\<close>. Output and error texts, the performance counters and the
  execution of code are not modelled; the parallel batch is in theory \<open>Parallel\<close>.
\<close>

datatype easy_error = Array_overflow | Double_free

section \<open>Code by contents\<close>

definition code_hash_mix :: "u64 \<Rightarrow> u64" where
  "code_hash_mix h =
     (let h = h XOR drop_bit 33 h; h = h * 0xff51afd7ed558ccd; h = h XOR drop_bit 33 h; h = h * 0xc4ceb9fe1a85ec53
      in h XOR drop_bit 33 h)"

definition arm2x86_code_hash :: "u8 list \<Rightarrow> u64" where
  "arm2x86_code_hash data =
     code_hash_mix (foldl (\<lambda>h d. (h XOR ucast d) * 0xbf58476d1ce4e5b9) 0x9e3779b97f4a7c15 data)"

record code_hash_entry =
  che_hash :: u64
  che_x86_code :: ptr
  che_x86_size :: u64
  che_ref_count :: u32

type_synonym code_hash_table = "code_hash_entry list list"

abbreviation (input) ARM2X86_CODE_HASH_TABLE_SIZE :: nat where "ARM2X86_CODE_HASH_TABLE_SIZE \<equiv> 4096"

definition arm2x86_code_hash_init :: "bool \<Rightarrow> code_hash_table option" where
  "arm2x86_code_hash_init calloc_ok = (if calloc_ok then Some (replicate ARM2X86_CODE_HASH_TABLE_SIZE []) else None)"

definition hash_index :: "u64 \<Rightarrow> nat" where
  "hash_index h = unat (h AND 4095)"

definition unmaps :: "code_hash_entry \<Rightarrow> (ptr \<times> u64) list" where
  "unmaps e = (if che_x86_code e \<noteq> NULL then [(che_x86_code e, che_x86_size e)] else [])"

definition arm2x86_code_hash_destroy :: "code_hash_table option \<Rightarrow> (ptr \<times> u64) list \<times> code_hash_table option" where
  "arm2x86_code_hash_destroy table =
     (case table of None \<Rightarrow> ([], None) | Some t \<Rightarrow> (concat (map unmaps (concat t)), None))"

definition arm2x86_code_hash_lookup :: "code_hash_table option \<Rightarrow> u64 \<Rightarrow> code_hash_entry option" where
  "arm2x86_code_hash_lookup table h =
     (case table of None \<Rightarrow> None | Some t \<Rightarrow> find (\<lambda>e. che_hash e = h) (t ! hash_index h))"

definition arm2x86_code_hash_insert :: "bool \<Rightarrow> code_hash_table option \<Rightarrow> u64 \<Rightarrow> ptr \<Rightarrow> u64 \<Rightarrow> code_hash_table option" where
  "arm2x86_code_hash_insert malloc_ok table h x86 x86_size =
     (case table of None \<Rightarrow> None
      | Some t \<Rightarrow>
          if \<not> malloc_ok then table
          else
            (let i = hash_index h in
             Some (t[i := \<lparr>che_hash = h, che_x86_code = x86, che_x86_size = x86_size, che_ref_count = 1\<rparr> # t ! i])))"

text \<open>Removal of the first entry with a hash from its chain.\<close>

fun unlink_first :: "u64 \<Rightarrow> code_hash_entry list \<Rightarrow> (ptr \<times> u64) list \<times> code_hash_entry list" where
  "unlink_first h [] = ([], [])"
| "unlink_first h (e # es) = (if che_hash e = h then (unmaps e, es) else apsnd (Cons e) (unlink_first h es))"

definition arm2x86_code_hash_release :: "code_hash_table option \<Rightarrow> u64 \<Rightarrow> (ptr \<times> u64) list \<times> code_hash_table option" where
  "arm2x86_code_hash_release table h =
     (case table of None \<Rightarrow> ([], None)
      | Some t \<Rightarrow> (let i = hash_index h; (u, es) = unlink_first h (t ! i) in (u, Some (t[i := es]))))"

section \<open>The instance\<close>

record arm2x86_instance =
  in_ctx :: arm2x86_Context
  in_cache :: tcache
  in_pcache :: "pcache option"
  in_code_hash :: "code_hash_table option"
  in_mempool :: "mempool option"
  in_reg_home :: ptr
  in_initialized :: bool
  in_protected :: "(ptr \<times> u64) list"
  in_unmapped :: "(ptr \<times> u64) list"

record os =
  os_platform :: Platform
  os_junk :: DecodedInstruction
  os_locals :: TranslateCtx
  os_exec_mmap :: ptr
  os_pool_malloc :: bool
  os_pool_mmap :: ptr
  os_mmap :: ptr
  os_regs_malloc :: ptr
  os_page_size :: u64
  os_mprotect_ok :: bool
  os_entry_calloc :: ptr
  os_jump_calloc :: bool
  os_hash_malloc :: bool
  os_dispatcher_lookup :: ptr
  os_now :: int
  os_file_malloc :: bool
  os_file_open :: bool
  os_file_write :: bool
  os_file_rename :: bool
  os_opendir :: bool
  os_listing :: "string list"
  os_unlink :: "string \<Rightarrow> bool"

abbreviation in_mem :: "arm2x86_instance \<Rightarrow> ptr \<Rightarrow> u8" where
  "in_mem s \<equiv> tc_mem (in_cache s)"

definition set_mem :: "(ptr \<Rightarrow> u8) \<Rightarrow> arm2x86_instance \<Rightarrow> arm2x86_instance" where
  "set_mem m s = s\<lparr>in_cache := (in_cache s)\<lparr>tc_mem := m\<rparr>\<rparr>"

definition guest_bytes :: "(ptr \<Rightarrow> u8) \<Rightarrow> ptr \<Rightarrow> nat \<Rightarrow> u8 list" where
  "guest_bytes m a n = map (\<lambda>i. m (a + of_nat i)) [0..<n]"

text \<open>Lookup and insertion in the translation cache of the instance.\<close>

definition cached_code :: "u64 \<Rightarrow> arm2x86_instance \<Rightarrow> ptr option \<times> arm2x86_instance" where
  "cached_code addr s =
     (let (e, c) = tcache_lookup_internal (in_cache s) addr
      in (map_option (\<lambda>e. arm2x86_tcache_get_code c (Some e)) e, s\<lparr>in_cache := c\<rparr>))"

definition cache_code :: "os \<Rightarrow> u64 \<Rightarrow> ptr \<Rightarrow> u64 \<Rightarrow> arm2x86_instance \<Rightarrow> arm2x86_instance" where
  "cache_code os addr x86 x86_size s =
     (case arm2x86_tcache_insert (os_dispatcher_lookup os) (os_entry_calloc os) (Some (in_cache s)) addr x86 x86_size of
        (_, None) \<Rightarrow> s | (_, Some c) \<Rightarrow> s\<lparr>in_cache := c\<rparr>)"

text \<open>The persistent cache: its code is copied into new executable memory.\<close>

definition code_from_pcache :: "os \<Rightarrow> u64 \<Rightarrow> u8 list \<Rightarrow> arm2x86_instance \<Rightarrow> ptr option \<times> arm2x86_instance" where
  "code_from_pcache os addr arm s =
     (if in_pcache s = None then (None, s)
      else
        (case arm2x86_pcache_lookup (os_file_malloc os) (os_now os) (in_pcache s) addr (Some arm) True 0 of
           (ret, x86, pc) \<Rightarrow>
             (let s = s\<lparr>in_pcache := pc\<rparr> in
              case x86 of
                Some c \<Rightarrow>
                  if ret = ARM2X86_PCACHE_OK \<and> os_exec_mmap os \<noteq> MAP_FAILED
                  then (Some (os_exec_mmap os),
                        cache_code os addr (os_exec_mmap os) (of_nat (length c)) (set_mem (write_code (in_mem s) (os_exec_mmap os) c) s))
                  else (None, s)
              | None \<Rightarrow> (None, s))))"

definition store_in_pcache :: "os \<Rightarrow> u64 \<Rightarrow> u8 list \<Rightarrow> u8 list \<Rightarrow> arm2x86_instance \<Rightarrow> easy_error + arm2x86_instance" where
  "store_in_pcache os addr arm x86 s =
     (if in_pcache s = None then Inr s
      else
        (case arm2x86_pcache_store (os_file_open os) (os_file_write os) (os_file_rename os) (os_opendir os) (os_listing os) (os_unlink os)
                (os_now os) (in_pcache s) addr (Some arm) (Some x86) 0 of
           Inl e \<Rightarrow> Inl Array_overflow | Inr (_, pc) \<Rightarrow> Inr (s\<lparr>in_pcache := pc\<rparr>)))"

text \<open>Executable memory: from the pool, or from \<open>mmap\<close>.\<close>

definition alloc_exec :: "os \<Rightarrow> u64 \<Rightarrow> arm2x86_instance \<Rightarrow> ptr \<times> arm2x86_instance" where
  "alloc_exec os est s =
     (if in_mempool s = None then (os_mmap os, s)
      else
        (let (p, pool) = arm2x86_mempool_alloc (os_pool_malloc os) (os_pool_mmap os) est (in_mempool s);
             s = s\<lparr>in_mempool := pool\<rparr>
         in (if p = NULL then os_mmap os else p, s)))"

definition release_exec :: "ptr \<Rightarrow> u64 \<Rightarrow> arm2x86_instance \<Rightarrow> arm2x86_instance" where
  "release_exec x86 est s = (if in_mempool s = None then s\<lparr>in_unmapped := in_unmapped s @ [(x86, est)]\<rparr> else s)"

text \<open>The jumps that the translator has registered.\<close>

definition register_jumps :: "os \<Rightarrow> TranslateCtx \<Rightarrow> arm2x86_instance \<Rightarrow> arm2x86_instance" where
  "register_jumps os t s =
     s\<lparr>in_cache := fold (\<lambda>(target, p, is_call). tcache_register_jump_target (os_jump_calloc os) (x86_addr t target) (x86_addr t p) is_call)
                    (jump_targets t) (in_cache s)\<rparr>"

text \<open>
  The translation into this memory: \<open>memset\<close> and \<open>arm2x86_convert_block_ex\<close>. The results
  are the error code and the code.
\<close>

definition convert_into :: "os \<Rightarrow> ptr \<Rightarrow> u64 \<Rightarrow> u64 \<Rightarrow> ptr \<Rightarrow> arm2x86_instance \<Rightarrow> int \<times> code \<times> arm2x86_instance" where
  "convert_into os arm_code code_size est x86 s =
     (let s = set_mem (\<lambda>a. if a - x86 < est then 0 else in_mem s a) s in
      case arm2x86_convert_block_ex (os_platform os) (in_mem s) 1 (ctx_strict_memory_ordering (in_ctx s)) (os_junk os) NULL
             ((os_locals os)\<lparr>jump_targets := []\<rparr>) arm_code code_size x86 1 (in_reg_home s) of
        (ret, None) \<Rightarrow> (ret, [], s)
      | (ret, Some t) \<Rightarrow>
          (let s = register_jumps os t s
           in (ret, x86_code t, set_mem (write_code (in_mem s) x86 (x86_code t)) s)))"

text \<open>The region that is made read-only and executable.\<close>

definition protect_code :: "os \<Rightarrow> ptr \<Rightarrow> u64 \<Rightarrow> u64 \<Rightarrow> ptr \<times> u64" where
  "protect_code os x86 x86_size est =
     (let page_size = os_page_size os; aligned_addr = x86 AND NOT (page_size - 1);
          prot_size = x86_size + (x86 - aligned_addr);
          prot_size = (prot_size + page_size - 1) AND NOT (page_size - 1)
      in (aligned_addr, if est < prot_size then est else prot_size))"

section \<open>Translation\<close>

definition arm2x86_translate_easy :: "os \<Rightarrow> ptr \<Rightarrow> u64 \<Rightarrow> arm2x86_instance \<Rightarrow> easy_error + ptr \<times> arm2x86_instance" where
  "arm2x86_translate_easy os arm_code code_size s =
     (if \<not> in_initialized s \<or> arm_code = NULL \<or> code_size = 0 then Inr (NULL, s)
      else
        (case cached_code arm_code s of (Some p, s) \<Rightarrow> Inr (p, s)
         | (None, s) \<Rightarrow>
             (case code_from_pcache os arm_code (guest_bytes (in_mem s) arm_code (unat code_size)) s of (Some p, s) \<Rightarrow> Inr (p, s)
              | (None, s) \<Rightarrow>
                  (let arm = guest_bytes (in_mem s) arm_code (unat code_size); h = arm2x86_code_hash arm in
                   case arm2x86_code_hash_lookup (in_code_hash s) h of Some e \<Rightarrow> Inr (che_x86_code e, s)
                   | None \<Rightarrow>
                       (let est = est_size code_size; (x86, s) = alloc_exec os est s in
                        if x86 = NULL \<or> x86 = MAP_FAILED then Inr (NULL, s)
                        else
                          (let (ret, code, s) = convert_into os arm_code code_size est x86 s; x86_size = of_nat (length code) in
                           if ret \<noteq> ARM2X86_OK \<or> \<not> os_mprotect_ok os then Inr (NULL, release_exec x86 est s)
                           else
                             (let s = s\<lparr>in_protected := in_protected s @ [protect_code os x86 x86_size est],
                                        in_code_hash := arm2x86_code_hash_insert (os_hash_malloc os) (in_code_hash s) h x86 x86_size\<rparr>;
                                  s = cache_code os arm_code x86 x86_size s
                              in case store_in_pcache os arm_code (guest_bytes (in_mem s) arm_code (unat code_size)) code s of
                                   Inl e \<Rightarrow> Inl e | Inr s \<Rightarrow> Inr (x86, s))))))))"

definition arm2x86_translate_addr :: "os \<Rightarrow> u64 \<Rightarrow> arm2x86_instance \<Rightarrow> easy_error + ptr \<times> arm2x86_instance" where
  "arm2x86_translate_addr os address s =
     (if \<not> in_initialized s \<or> address = 0 then Inr (NULL, s)
      else
        (case cached_code address s of (Some p, s) \<Rightarrow> Inr (p, s)
         | (None, s) \<Rightarrow>
             (case code_from_pcache os address (guest_bytes (in_mem s) address 64) s of (Some p, s) \<Rightarrow> Inr (p, s)
              | (None, s) \<Rightarrow>
                  (let code_size = 256; est = est_size code_size; (x86, s) = alloc_exec os est s in
                   if x86 = NULL \<or> x86 = MAP_FAILED then Inr (NULL, s)
                   else
                     (let (ret, code, s) = convert_into os address code_size est x86 s; x86_size = of_nat (length code) in
                      if ret \<noteq> ARM2X86_OK \<or> x86_size = 0 \<or> \<not> os_mprotect_ok os then Inr (NULL, release_exec x86 est s)
                      else
                        (let s = s\<lparr>in_protected := in_protected s @ [protect_code os x86 x86_size est]\<rparr>;
                             s = cache_code os address x86 x86_size s
                         in case store_in_pcache os address (guest_bytes (in_mem s) address (unat code_size)) code s of
                              Inl e \<Rightarrow> Inl e | Inr s \<Rightarrow> Inr (x86, s)))))))"

definition arm2x86_invalidate_easy :: "u64 \<Rightarrow> u64 \<Rightarrow> arm2x86_instance \<Rightarrow> int \<times> arm2x86_instance" where
  "arm2x86_invalidate_easy address sz s =
     (if \<not> in_initialized s then (ARM2X86_ERR_NOT_INITIALIZED, s)
      else (ARM2X86_OK, s\<lparr>in_cache := the (arm2x86_tcache_clear (Some (in_cache s)))\<rparr>))"

text \<open>One answer of the operating system for each address.\<close>

fun warmup_loop :: "(os \<times> u64) list \<Rightarrow> int \<Rightarrow> arm2x86_instance \<Rightarrow> easy_error + int \<times> arm2x86_instance" where
  "warmup_loop [] success s = Inr (success, s)"
| "warmup_loop ((os, a) # as) success s =
     (case arm2x86_translate_addr os a s of Inl e \<Rightarrow> Inl e
      | Inr (p, s) \<Rightarrow> warmup_loop as (if p \<noteq> NULL then success + 1 else success) s)"

definition arm2x86_warmup_cache :: "(os \<times> u64) list \<Rightarrow> arm2x86_instance \<Rightarrow> easy_error + int \<times> arm2x86_instance" where
  "arm2x86_warmup_cache calls s = (if \<not> in_initialized s then Inr (0, s) else warmup_loop calls 0 s)"

section \<open>Batches\<close>

record code_block =
  bl_arm_code :: ptr
  bl_code_size :: u64
  bl_address :: u64
  bl_output :: bool

text \<open>
  A block that is in neither of the two tables. The result is what is stored to \<open>*output\<close>, \<open>None\<close> if nothing. Code that is
  found in the persistent cache and copied is freed twice.
\<close>

definition translate_missed :: "os \<Rightarrow> code_block \<Rightarrow> u64 \<Rightarrow> u8 list \<Rightarrow> arm2x86_instance \<Rightarrow> easy_error + ptr option \<times> arm2x86_instance" where
  "translate_missed os b addr arm s =
     (let (ret, found, pc) = (if in_pcache s = None then (ARM2X86_PCACHE_ERROR_NOT_FOUND, None, None)
            else arm2x86_pcache_lookup (os_file_malloc os) (os_now os) (in_pcache s) addr (Some arm) True 0);
          s = s\<lparr>in_pcache := pc\<rparr>; x86 = os_mmap os; strict = ctx_strict_memory_ordering (in_ctx s);
          t = (os_locals os)\<lparr>jump_targets := []\<rparr>
      in if ret = ARM2X86_PCACHE_OK \<and> found \<noteq> None \<and> os_exec_mmap os \<noteq> MAP_FAILED then Inl Double_free
         else
           (case arm2x86_convert (os_platform os) (in_mem s) 1 strict (os_junk os) (os_regs_malloc os) t x86 (os_page_size os)
                   (os_mprotect_ok os) (bl_arm_code b) (bl_code_size b) 1 1 of
              (ret, unm, None) \<Rightarrow> Inr (None, s\<lparr>in_unmapped := in_unmapped s @ unm\<rparr>)
            | (ret, unm, Some (code, prot_size)) \<Rightarrow>
                if ret \<noteq> ARM2X86_OK \<or> x86 = NULL then Inr (None, s)
                else
                  (let t' = the (snd (arm2x86_convert_block (os_platform os) (in_mem s) 1 strict (os_junk os) (os_regs_malloc os) t
                                        (bl_arm_code b) (bl_code_size b) x86 1 NULL));
                       s = register_jumps os t' s;
                       s = set_mem (write_code (in_mem s) x86 code) s;
                       s = s\<lparr>in_protected := in_protected s @ [(x86, prot_size)],
                             in_code_hash := arm2x86_code_hash_insert (os_hash_malloc os) (in_code_hash s) (arm2x86_code_hash arm) x86
                               (of_nat (length code))\<rparr>;
                       s = cache_code os addr x86 (of_nat (length code)) s
                   in case store_in_pcache os addr (guest_bytes (in_mem s) (bl_arm_code b) (unat (bl_code_size b))) code s of
                        Inl e \<Rightarrow> Inl e | Inr s \<Rightarrow> Inr (Some x86, s))))"

definition translate_block :: "os \<Rightarrow> code_block \<Rightarrow> arm2x86_instance \<Rightarrow> easy_error + ptr option \<times> arm2x86_instance" where
  "translate_block os b s =
     (if bl_arm_code b = NULL \<or> bl_code_size b = 0 \<or> \<not> bl_output b then Inr (None, s)
      else
        (let addr = (if bl_address b \<noteq> 0 then bl_address b else bl_arm_code b); (x86, s) = cached_code addr s;
             arm = guest_bytes (in_mem s) (bl_arm_code b) (unat (bl_code_size b));
             shared = (case arm2x86_code_hash_lookup (in_code_hash s) (arm2x86_code_hash arm) of None \<Rightarrow> NULL | Some e \<Rightarrow> che_x86_code e)
         in if x86 \<noteq> None \<and> x86 \<noteq> Some NULL then Inr (x86, s)
            else if shared \<noteq> NULL then Inr (Some shared, s)
            else translate_missed os b addr arm s))"

fun batch_loop :: "(os \<times> code_block) list \<Rightarrow> arm2x86_instance \<Rightarrow> easy_error + ptr option list \<times> arm2x86_instance" where
  "batch_loop [] s = Inr ([], s)"
| "batch_loop ((os, b) # bs) s =
     (case translate_block os b s of Inl e \<Rightarrow> Inl e
      | Inr (r, s) \<Rightarrow> (case batch_loop bs s of Inl e \<Rightarrow> Inl e | Inr (rs, s) \<Rightarrow> Inr (r # rs, s)))"

abbreviation (input) ARM2X86_ERR_INVALID_ARGUMENT :: int where "ARM2X86_ERR_INVALID_ARGUMENT \<equiv> 1001"
abbreviation (input) ARM2X86_ERR_OUT_OF_MEMORY :: int where "ARM2X86_ERR_OUT_OF_MEMORY \<equiv> 1002"
abbreviation (input) ARM2X86_ERR_PERMISSION_DENIED :: int where "ARM2X86_ERR_PERMISSION_DENIED \<equiv> 1005"

definition arm2x86_translate_batch :: "(os \<times> code_block) list \<Rightarrow> arm2x86_instance \<Rightarrow> easy_error + int \<times> ptr option list \<times> arm2x86_instance" where
  "arm2x86_translate_batch blocks s =
     (if \<not> in_initialized s then Inr (- ARM2X86_ERR_NOT_INITIALIZED, [], s)
      else if blocks = [] then Inr (- ARM2X86_ERR_INVALID_ARGUMENT, [], s)
      else (case batch_loop blocks s of Inl e \<Rightarrow> Inl e
            | Inr (rs, s) \<Rightarrow> Inr (int (length (filter (\<lambda>r. r \<noteq> None) rs)), rs, s)))"

section \<open>Creation and destruction\<close>

record easy_config =
  cfg_cache_size_mb :: u64
  cfg_hash_buckets :: u64
  cfg_enable_persistent_cache :: bool
  cfg_persistent_cache_size_mb :: u64
  cfg_enable_mempool :: bool
  cfg_mempool_initial_size :: u64
  cfg_mempool_max_size :: u64
  cfg_mempool_chunk_size :: u64

definition arm2x86_easy_config_default :: easy_config where
  "arm2x86_easy_config_default =
     \<lparr>cfg_cache_size_mb = 2, cfg_hash_buckets = 4096, cfg_enable_persistent_cache = True, cfg_persistent_cache_size_mb = 100,
      cfg_enable_mempool = False, cfg_mempool_initial_size = 0, cfg_mempool_max_size = 0, cfg_mempool_chunk_size = 0\<rparr>"

record create_os =
  co_calloc :: bool   \<comment> \<open>of the instance and the context\<close>
  co_cache_calloc :: bool
  co_table_calloc :: bool
  co_pcache_calloc :: bool
  co_path :: bool
  co_mkdir :: bool
  co_dir :: "string \<Rightarrow> pfile option"
  co_hash_calloc :: bool
  co_pool_calloc :: bool
  co_home_mmap :: ptr

text \<open>\<open>globals\<close> holds the memory and the registered jumps.\<close>

definition arm2x86_create_easy :: "create_os \<Rightarrow> os \<Rightarrow> easy_config option \<Rightarrow> tcache \<Rightarrow> easy_error + arm2x86_instance option" where
  "arm2x86_create_easy co os config globals =
     (if \<not> co_calloc co then Inr None
      else
        (let cfg = (case config of Some c \<Rightarrow> c | None \<Rightarrow> arm2x86_easy_config_default);
             dflt = (\<lambda>v d. if v \<noteq> 0 then v else d :: u64)
         in case arm2x86_tcache_create (co_cache_calloc co) (co_table_calloc co)
                   (if cfg_cache_size_mb cfg \<noteq> 0 then cfg_cache_size_mb cfg * 1024 * 1024 else 2 * 1024 * 1024)
                   (dflt (cfg_hash_buckets cfg) 4096) globals of
              None \<Rightarrow> Inr None
            | Some cache \<Rightarrow>
                (let pcfg = arm2x86_pcache_config_init\<lparr>pcfg_max_size_bytes :=
                         if cfg_persistent_cache_size_mb cfg \<noteq> 0 then cfg_persistent_cache_size_mb cfg * 1024 * 1024 else 100 * 1024 * 1024\<rparr>
                 in case (if cfg_enable_persistent_cache cfg
                          then arm2x86_pcache_create (co_pcache_calloc co) (co_path co) (co_mkdir co) (os_opendir os) (os_listing os)
                                 (os_unlink os) (os_now os) (Some pcfg) True (co_dir co)
                          else Inr (ARM2X86_PCACHE_OK, None)) of
                      Inl e \<Rightarrow> Inl Array_overflow
                    | Inr (_, pcache) \<Rightarrow>
                        (let mp_cfg = arm2x86_mempool_config_default
                               \<lparr>mc_initial_size := dflt (cfg_mempool_initial_size cfg) (64 * 1024),
                                mc_max_size := dflt (cfg_mempool_max_size cfg) (64 * 1024 * 1024),
                                mc_chunk_size := dflt (cfg_mempool_chunk_size cfg) (64 * 1024)\<rparr>;
                             pool = (if cfg_enable_mempool cfg
                                     then arm2x86_mempool_init (co_pool_calloc co) (os_pool_malloc os) (os_pool_mmap os) (Some mp_cfg) None
                                     else None);
                             home_mem = (if co_home_mmap co = MAP_FAILED then NULL else co_home_mmap co);
                             s = \<lparr>in_ctx = \<lparr>guest_lib_path = None, guest_cmd = None, ctx_mode = ARM2X86_MODE_ARM64,
                                            ctx_strict_memory_ordering = False\<rparr>,
                                  in_cache = cache, in_pcache = pcache, in_code_hash = arm2x86_code_hash_init (co_hash_calloc co),
                                  in_mempool = pool, in_reg_home = home_mem, in_initialized = True, in_protected = [], in_unmapped = []\<rparr>
                         in Inr (Some (if home_mem = NULL then s
                                       else set_mem (\<lambda>a. if a - home_mem < 256 then 0 else in_mem s a) s))))))"

text \<open>The regions that are unmapped, and what remains: the globals with the freed blocks.\<close>

definition arm2x86_destroy_easy :: "arm2x86_instance \<Rightarrow> (ptr \<times> u64) list \<times> tcache" where
  "arm2x86_destroy_easy s =
     (in_unmapped s @ fst (arm2x86_code_hash_destroy (in_code_hash s)) @ fst (arm2x86_mempool_destroy (in_mempool s)) @
        (if in_reg_home s \<noteq> NULL then [(in_reg_home s, 4096)] else []),
      the (arm2x86_tcache_destroy (Some (in_cache s))))"

section \<open>Files of translated code\<close>

text \<open>The header of 40 bytes, with four bytes of padding, and the code; \<open>arch\<close> is the number of the source architecture.\<close>

definition aot_file :: "u8 list \<Rightarrow> u32 \<Rightarrow> u64 \<Rightarrow> u64 \<Rightarrow> u8 list \<Rightarrow> u8 list" where
  "aot_file pad arch arm_size base_addr x86 =
     le32 0x00544F41 @ le32 1 @ le32 arch @ pad @ le64 arm_size @ le64 (of_nat (length x86)) @ le64 base_addr @ x86"

text \<open>
  The loading of such a file. \<open>file\<close> is \<open>None\<close> if it cannot be opened, \<open>malloc_result\<close> the memory for the code. The hash under which the code is
  entered is that of the translated code.
\<close>

definition arm2x86_load_aot_module :: "os \<Rightarrow> ptr \<Rightarrow> u8 list option \<Rightarrow> arm2x86_instance \<Rightarrow> int \<times> arm2x86_instance" where
  "arm2x86_load_aot_module os malloc_result file s =
     (if \<not> in_initialized s then (ARM2X86_ERR_INVALID_ARGUMENT, s)
      else
        (case file of None \<Rightarrow> (ARM2X86_ERR_PERMISSION_DENIED, s)
         | Some f \<Rightarrow>
             if length f < 40 \<or> get32 f 0 \<noteq> 0x00544F41 then (ARM2X86_ERR_INVALID_ARGUMENT, s)
             else
               (let x86_size = get64 f 24; base_addr = get64 f 32; x86 = take (unat x86_size) (drop 40 f) in
                if malloc_result = NULL then (ARM2X86_ERR_OUT_OF_MEMORY, s)
                else if length x86 < unat x86_size then (ARM2X86_ERR_PERMISSION_DENIED, s)
                else
                  (let s = set_mem (write_code (in_mem s) malloc_result x86) s;
                       s = (if base_addr \<noteq> 0 then cache_code os base_addr malloc_result x86_size s else s)
                   in (ARM2X86_OK, s\<lparr>in_code_hash := arm2x86_code_hash_insert (os_hash_malloc os) (in_code_hash s)
                                     (arm2x86_code_hash x86) malloc_result x86_size\<rparr>)))))"

section \<open>What has been translated is found\<close>

lemma cache_memory_irrelevant [simp]:
  "tc_inv (c\<lparr>tc_mem := m\<rparr>) = tc_inv c" "tc_inv (c\<lparr>g_jump_targets := js\<rparr>) = tc_inv c"
  "fst (tcache_lookup_internal (c\<lparr>tc_mem := m\<rparr>) a) = fst (tcache_lookup_internal c a)"
  by (simp_all add: tc_inv_def in_bucket_def tcache_lookup_internal_def Let_def split: option.split)

lemma lookup_keeps_code: "te_x86_code (tc_entry (snd (tcache_lookup_internal c a)) e) = te_x86_code (tc_entry c e)"
  by (simp add: tcache_lookup_internal_def update_entry_def Let_def split: option.split)

lemma tcache_miss:
  assumes "fst (tcache_lookup_internal c a) = None"
  shows "snd (tcache_lookup_internal c a) = c\<lparr>tc_lookup_count := tc_lookup_count c + 1, tc_miss_count := tc_miss_count c + 1\<rparr>"
  using assms by (auto simp: tcache_lookup_internal_def Let_def split: option.splits)

lemma register_jumps_fields: "\<exists>js. register_jumps os t s = s\<lparr>in_cache := (in_cache s)\<lparr>g_jump_targets := js\<rparr>\<rparr>"
proof -
  have "\<exists>js'. fold (\<lambda>(target, p, is_call). tcache_register_jump_target k (f target) (f p) is_call) js c = c\<lparr>g_jump_targets := js'\<rparr>"
    for f :: "nat \<Rightarrow> u64" and js k and c :: tcache
  proof (induction js arbitrary: c)
    case Nil
    show ?case by (intro exI [of _ "g_jump_targets c"]) simp
  next
    case (Cons j js)
    obtain target p is_call where j: "j = (target, p, is_call)" by (cases j)
    obtain js1 where "tcache_register_jump_target k (f target) (f p) is_call c = c\<lparr>g_jump_targets := js1\<rparr>"
      by (cases k) (auto simp: tcache_register_jump_target_def intro: that [of "g_jump_targets c"])
    with Cons [of "c\<lparr>g_jump_targets := js1\<rparr>"] show ?case by (simp add: j)
  qed
  from this [of "os_jump_calloc os" "x86_addr t" "jump_targets t" "in_cache s"] show ?thesis
    by (auto simp: register_jumps_def)
qed

lemma alloc_exec_cache:
  "\<exists>pool. alloc_exec os est (s\<lparr>in_cache := c\<rparr>) = (fst (alloc_exec os est s), s\<lparr>in_cache := c, in_mempool := pool\<rparr>)"
proof (cases "in_mempool s")
  case None
  then show ?thesis by (intro exI [of _ None], cases s) (simp add: alloc_exec_def)
next
  case (Some p)
  then show ?thesis by (auto simp: alloc_exec_def case_prod_beta Let_def)
qed

text \<open>An insertion in the cache of the instance, and the lookup after it.\<close>

definition holds_code :: "u64 \<Rightarrow> ptr \<Rightarrow> arm2x86_instance \<Rightarrow> bool" where
  "holds_code addr x86 s \<longleftrightarrow> (\<exists>e. fst (tcache_lookup_internal (in_cache s) addr) = Some e \<and> te_x86_code (tc_entry (in_cache s) e) = x86)"

lemma cached_code_hit: "holds_code addr x86 s \<Longrightarrow> \<exists>c. cached_code addr s = (Some x86, s\<lparr>in_cache := c\<rparr>)"
  by (auto simp: holds_code_def cached_code_def case_prod_beta arm2x86_tcache_get_code_def lookup_keeps_code)

lemma cache_code_holds:
  assumes inv: "tc_inv (in_cache s)" and x86: "x86 \<noteq> NULL" and entry: "os_entry_calloc os \<noteq> NULL" "os_entry_calloc os \<notin> set (tc_lru (in_cache s))"
  shows "holds_code addr x86 (cache_code os addr x86 n s)"
    and "\<not> tc_total_size (in_cache s) < tc_used_size (in_cache s) + n \<Longrightarrow> in_mem (cache_code os addr x86 n s) = in_mem s"
    and "\<exists>c. cache_code os addr x86 n s = s\<lparr>in_cache := c\<rparr>"
proof -
  let ?d = "os_dispatcher_lookup os" and ?e = "os_entry_calloc os"
  let ?x = "\<lparr>te_arm_addr = addr, te_x86_code = x86, te_x86_size = n, te_exec_count = 1, te_flags = 0, te_hash = tcache_hash addr\<rparr>"
  let ?c1 = "evict_loop ?d n (in_cache s)"
  have eq: "cache_code os addr x86 n s = s\<lparr>in_cache := link_entry ?e ?x ?c1\<rparr>"
    using x86 entry(1) by (simp add: cache_code_def arm2x86_tcache_insert_def arm2x86_tcache_insert_ex_def Let_def)
  note r = evict_loop_result [OF inv, of ?d n]
  have "bucket_of ?c1 (tcache_hash addr) < length (tc_hash_table ?c1)" using r tc_invD(1,2) [of ?c1] bucket_less by simp
  then have "fst (tcache_lookup_internal (link_entry ?e ?x ?c1) addr) = Some ?e"
    by (intro lookup_finds) (simp add: link_entry_def Let_def)
  then show "holds_code addr x86 (cache_code os addr x86 n s)"
    unfolding holds_code_def eq by (simp add: link_entry_def Let_def)
  show "in_mem (cache_code os addr x86 n s) = in_mem s" if "\<not> tc_total_size (in_cache s) < tc_used_size (in_cache s) + n"
    unfolding eq using that by (simp add: link_entry_def evict_loop.simps Let_def)
  show "\<exists>c. cache_code os addr x86 n s = s\<lparr>in_cache := c\<rparr>" using eq by blast
qed

lemma write_code_at: "length c < 2 ^ 64 \<Longrightarrow> i < length c \<Longrightarrow> write_code m p c (p + of_nat i) = c ! i"
  by (simp add: write_code_def unat_of_nat)

text \<open>The translation into new memory: it always succeeds, and changes the memory and the registered jumps only.\<close>

definition converted :: "os \<Rightarrow> ptr \<Rightarrow> u64 \<Rightarrow> ptr \<Rightarrow> arm2x86_instance \<Rightarrow> code" where
  "converted os arm_code code_size x86 s =
     x86_code (the (snd (arm2x86_convert_block_ex (os_platform os) (\<lambda>a. if a - x86 < est_size code_size then 0 else in_mem s a) 1
       (ctx_strict_memory_ordering (in_ctx s)) (os_junk os) NULL ((os_locals os)\<lparr>jump_targets := []\<rparr>) arm_code code_size x86 1 (in_reg_home s))))"

lemma convert_into_result:
  fixes os code_size
  assumes "arm_code \<noteq> NULL" and "x86 \<noteq> NULL" and "in_reg_home s \<noteq> NULL"
  defines "c \<equiv> converted os arm_code code_size x86 s"
  shows "\<exists>m js. convert_into os arm_code code_size (est_size code_size) x86 s =
      (ARM2X86_OK, c, s\<lparr>in_cache := (in_cache s)\<lparr>tc_mem := write_code m x86 c, g_jump_targets := js\<rparr>\<rparr>)"
proof -
  let ?m = "\<lambda>a. if a - x86 < est_size code_size then 0 else in_mem s a"
  let ?r = "arm2x86_convert_block_ex (os_platform os) ?m 1 (ctx_strict_memory_ordering (in_ctx s)) (os_junk os) NULL
    ((os_locals os)\<lparr>jump_targets := []\<rparr>) arm_code code_size x86 1 (in_reg_home s)"
  obtain t where t: "?r = (ARM2X86_OK, Some t)"
    using assms(1-3) by (simp add: arm2x86_convert_block_ex_def arm2x86_convert_block_def Let_def)
  then have c: "c = x86_code t" by (simp add: c_def converted_def)
  obtain js where "register_jumps os t (set_mem ?m s) = (set_mem ?m s)\<lparr>in_cache := (in_cache (set_mem ?m s))\<lparr>g_jump_targets := js\<rparr>\<rparr>"
    using register_jumps_fields by blast
  with t c show ?thesis
    by (intro exI [of _ ?m] exI [of _ js]) (simp add: convert_into_def set_mem_def Let_def)
qed

text \<open>
  The persistent cache, seen from here: the code it has for a block, if the memory for it can be had.
\<close>

definition pcache_code :: "os \<Rightarrow> u64 \<Rightarrow> u8 list \<Rightarrow> arm2x86_instance \<Rightarrow> code option" where
  "pcache_code os addr arm s =
     (if in_pcache s = None \<or> os_exec_mmap os = MAP_FAILED then None
      else (case arm2x86_pcache_lookup (os_file_malloc os) (os_now os) (in_pcache s) addr (Some arm) True 0 of
              (ret, x86, _) \<Rightarrow> if ret = ARM2X86_PCACHE_OK then x86 else None))"

definition pcache_after :: "os \<Rightarrow> u64 \<Rightarrow> u8 list \<Rightarrow> arm2x86_instance \<Rightarrow> pcache option" where
  "pcache_after os addr arm s =
     (if in_pcache s = None then None
      else snd (snd (arm2x86_pcache_lookup (os_file_malloc os) (os_now os) (in_pcache s) addr (Some arm) True 0)))"

lemma pcache_after_Some: "in_pcache s \<noteq> None \<Longrightarrow> pcache_after os addr arm s \<noteq> None"
  by (auto simp: pcache_after_def arm2x86_pcache_lookup_def Let_def split: option.splits)

lemma pcache_miss:
  "pcache_code os addr arm s = None \<Longrightarrow> code_from_pcache os addr arm s = (None, s\<lparr>in_pcache := pcache_after os addr arm s\<rparr>)"
  by (cases s) (auto simp: pcache_code_def pcache_after_def code_from_pcache_def Let_def split: prod.splits option.splits if_splits)

lemma pcache_hit:
  "pcache_code os addr arm s = Some c \<Longrightarrow> code_from_pcache os addr arm s =
     (Some (os_exec_mmap os), cache_code os addr (os_exec_mmap os) (of_nat (length c))
        (set_mem (write_code (in_mem s) (os_exec_mmap os) c) (s\<lparr>in_pcache := pcache_after os addr arm s\<rparr>)))"
  by (auto simp: pcache_code_def pcache_after_def code_from_pcache_def set_mem_def Let_def split: prod.splits option.splits if_splits)

lemma store_overflow:
  assumes "arm2x86_pcache_store op wr rn od listing ok now (Some pc) a (Some arm) (Some x86) fl = Inl e"
  shows "1000 < length listing"
proof -
  have "length (collect_entries d listing) \<le> length listing" for d
    by (induction listing) (auto simp: collect_entries_def split: option.splits)
  then show ?thesis
    using assms by (force simp: arm2x86_pcache_store_def arm2x86_pcache_cleanup_def case_prod_beta Let_def
        split: sum.splits if_splits intro: less_le_trans)
qed

lemma store_in_pcache_cases:
  obtains "store_in_pcache os addr arm c s = Inl Array_overflow" "in_pcache s \<noteq> None" "1000 < length (os_listing os)"
    | pc where "store_in_pcache os addr arm c s = Inr (s\<lparr>in_pcache := pc\<rparr>)"
proof (cases "in_pcache s")
  case None
  then have "store_in_pcache os addr arm c s = Inr (s\<lparr>in_pcache := None\<rparr>)" by (cases s) (simp add: store_in_pcache_def)
  with that(2) show ?thesis .
next
  case (Some a)
  then show ?thesis
    using that by (cases "arm2x86_pcache_store (os_file_open os) (os_file_write os) (os_file_rename os) (os_opendir os) (os_listing os)
        (os_unlink os) (os_now os) (Some a) addr (Some arm) (Some c) 0") (auto simp: store_in_pcache_def dest: store_overflow)
qed

lemma pcache_in_cache [simp]:
  "pcache_code os addr arm (s\<lparr>in_cache := x\<rparr>) = pcache_code os addr arm s"
  "pcache_after os addr arm (s\<lparr>in_cache := x\<rparr>) = pcache_after os addr arm s"
  by (simp_all add: pcache_code_def pcache_after_def)

lemma holds_code_pcache [simp]: "holds_code addr x86 (s\<lparr>in_pcache := pc\<rparr>) = holds_code addr x86 s"
  by (simp add: holds_code_def)

text \<open>The translation itself, from the lookup in the persistent cache on.\<close>

lemma translate_fresh:
  assumes "in_initialized s" "arm_code \<noteq> NULL" "code_size \<noteq> 0" "in_reg_home s \<noteq> NULL" "tc_inv (in_cache s)"
  defines "arm \<equiv> guest_bytes (in_mem s) arm_code (unat code_size)"
  assumes miss: "fst (tcache_lookup_internal (in_cache s) arm_code) = None"
      "arm2x86_code_hash_lookup (in_code_hash s) (arm2x86_code_hash arm) = None" "pcache_code os arm_code arm s = None"
    and x86: "fst (alloc_exec os (est_size code_size) s) = x86" "x86 \<noteq> NULL" "x86 \<noteq> MAP_FAILED"
    and os: "os_mprotect_ok os" "os_entry_calloc os \<noteq> NULL" "os_entry_calloc os \<notin> set (tc_lru (in_cache s))"
  defines "c \<equiv> converted os arm_code code_size x86 s"
  obtains s5 where "holds_code arm_code x86 s5" "in_initialized s5" "in_pcache s5 = pcache_after os arm_code arm s"
    "\<not> tc_total_size (in_cache s) < tc_used_size (in_cache s) + of_nat (length c) \<longrightarrow> (\<exists>m. in_mem s5 = write_code m x86 c)"
    "arm2x86_translate_easy os arm_code code_size s =
       (case store_in_pcache os arm_code (guest_bytes (in_mem s5) arm_code (unat code_size)) c s5 of Inl e \<Rightarrow> Inl e | Inr s \<Rightarrow> Inr (x86, s))"
proof -
  define s0 where "s0 = s\<lparr>in_cache := snd (tcache_lookup_internal (in_cache s) arm_code)\<rparr>"
  note s0 = s0_def [unfolded tcache_miss [OF miss(1)]]
  have cached: "cached_code arm_code s = (None, s0)" using miss(1) by (simp add: cached_code_def s0_def case_prod_beta)
  have mem0: "in_mem s0 = in_mem s" "in_code_hash s0 = in_code_hash s" "in_pcache s0 = in_pcache s" by (simp_all add: s0)
  have "pcache_code os arm_code arm s0 = None" "pcache_after os arm_code arm s0 = pcache_after os arm_code arm s"
    using miss(3) by (simp_all add: s0_def)
  note pc = pcache_miss [OF this(1), unfolded this(2)]
  define s1 where "s1 = s0\<lparr>in_pcache := pcache_after os arm_code arm s\<rparr>"
  have facts1: "in_mem s1 = in_mem s" "in_code_hash s1 = in_code_hash s" by (simp_all add: s1_def s0)
  have "alloc_exec os (est_size code_size) s1 = (x86, s1\<lparr>in_mempool := in_mempool (snd (alloc_exec os (est_size code_size) s))\<rparr>)"
    using x86(1) by (cases s) (auto simp: alloc_exec_def s1_def s0 case_prod_beta Let_def)
  then obtain pool where alloc: "alloc_exec os (est_size code_size) s1 = (x86, s1\<lparr>in_mempool := pool\<rparr>)" by blast
  define s2 where "s2 = s1\<lparr>in_mempool := pool\<rparr>"
  have "converted os arm_code code_size x86 s2 = c" by (simp add: c_def converted_def s2_def s1_def s0 cong: if_cong)
  with convert_into_result [of arm_code x86 s2 os code_size] assms(2,4) x86(2)
  obtain m js where conv: "convert_into os arm_code code_size (est_size code_size) x86 s2 =
      (ARM2X86_OK, c, s2\<lparr>in_cache := (in_cache s2)\<lparr>tc_mem := write_code m x86 c, g_jump_targets := js\<rparr>\<rparr>)"
    by (auto simp: s2_def s1_def s0)
  define s3 where "s3 = s2\<lparr>in_cache := (in_cache s2)\<lparr>tc_mem := write_code m x86 c, g_jump_targets := js\<rparr>,
      in_protected := in_protected s2 @ [protect_code os x86 (of_nat (length c)) (est_size code_size)],
      in_code_hash := arm2x86_code_hash_insert (os_hash_malloc os) (in_code_hash s2) (arm2x86_code_hash arm) x86 (of_nat (length c))\<rparr>"
  let ?s5 = "cache_code os arm_code x86 (of_nat (length c)) s3"
  have inv: "tc_inv (in_cache s3)" using lookup_inv [OF assms(5), of arm_code] by (simp add: s3_def s2_def s1_def s0_def)
  have "in_cache s3 = (snd (tcache_lookup_internal (in_cache s) arm_code))\<lparr>tc_mem := write_code m x86 c, g_jump_targets := js\<rparr>"
    by (simp add: s3_def s2_def s1_def s0_def)
  then have fields: "tc_lru (in_cache s3) = tc_lru (in_cache s)" "tc_total_size (in_cache s3) = tc_total_size (in_cache s)"
    "tc_used_size (in_cache s3) = tc_used_size (in_cache s)" "in_mem s3 = write_code m x86 c"
    by (simp_all add: tcache_miss [OF miss(1)])
  note holds = cache_code_holds [OF inv x86(2) os(2), where addr = arm_code and n = "of_nat (length c)", unfolded fields, OF os(3)]
  have "in_pcache ?s5 = pcache_after os arm_code arm s" "in_initialized ?s5" using holds(3) assms(1) by (auto simp: s3_def s2_def s1_def s0)
  moreover have "arm2x86_translate_easy os arm_code code_size s =
      (case store_in_pcache os arm_code (guest_bytes (in_mem ?s5) arm_code (unat code_size)) c ?s5 of Inl e \<Rightarrow> Inl e | Inr s \<Rightarrow> Inr (x86, s))"
    using assms(1,2,3) os(1) miss(2) x86(2,3)
    by (simp add: arm2x86_translate_easy_def cached mem0 arm_def [symmetric] pc s1_def [symmetric] facts1 alloc s2_def [symmetric] conv s3_def Let_def)
  ultimately show thesis using that [of ?s5] holds(1,2) by blast
qed

text \<open>The same for code that the persistent cache has.\<close>

lemma translate_stored:
  assumes "in_initialized s" "arm_code \<noteq> NULL" "code_size \<noteq> 0" "tc_inv (in_cache s)"
  defines "arm \<equiv> guest_bytes (in_mem s) arm_code (unat code_size)"
  assumes miss: "fst (tcache_lookup_internal (in_cache s) arm_code) = None" and hit: "pcache_code os arm_code arm s = Some c"
    and os: "os_exec_mmap os \<noteq> NULL" "os_entry_calloc os \<noteq> NULL" "os_entry_calloc os \<notin> set (tc_lru (in_cache s))"
  obtains s5 where "holds_code arm_code (os_exec_mmap os) s5" "in_initialized s5" "in_pcache s5 = pcache_after os arm_code arm s"
    "\<not> tc_total_size (in_cache s) < tc_used_size (in_cache s) + of_nat (length c) \<longrightarrow> (\<exists>m. in_mem s5 = write_code m (os_exec_mmap os) c)"
    "arm2x86_translate_easy os arm_code code_size s = Inr (os_exec_mmap os, s5)"
proof -
  define s0 where "s0 = s\<lparr>in_cache := snd (tcache_lookup_internal (in_cache s) arm_code)\<rparr>"
  note s0 = s0_def [unfolded tcache_miss [OF miss(1)]]
  have cached: "cached_code arm_code s = (None, s0)" using miss(1) by (simp add: cached_code_def s0_def case_prod_beta)
  have mem0: "in_mem s0 = in_mem s" "in_pcache s0 = in_pcache s" by (simp_all add: s0)
  have "pcache_code os arm_code arm s0 = Some c" "pcache_after os arm_code arm s0 = pcache_after os arm_code arm s"
    using hit by (simp_all add: s0_def)
  note pc = pcache_hit [OF this(1), unfolded this(2)]
  define s3 where "s3 = set_mem (write_code (in_mem s0) (os_exec_mmap os) c) (s0\<lparr>in_pcache := pcache_after os arm_code arm s\<rparr>)"
  let ?s5 = "cache_code os arm_code (os_exec_mmap os) (of_nat (length c)) s3"
  have inv: "tc_inv (in_cache s3)" using lookup_inv [OF assms(4), of arm_code] by (simp add: s3_def s0_def set_mem_def)
  have "in_cache s3 = (snd (tcache_lookup_internal (in_cache s) arm_code))\<lparr>tc_mem := write_code (in_mem s0) (os_exec_mmap os) c\<rparr>"
    by (simp add: s3_def s0_def set_mem_def)
  then have fields: "tc_lru (in_cache s3) = tc_lru (in_cache s)" "tc_total_size (in_cache s3) = tc_total_size (in_cache s)"
    "tc_used_size (in_cache s3) = tc_used_size (in_cache s)" "in_mem s3 = write_code (in_mem s0) (os_exec_mmap os) c"
    by (simp_all add: tcache_miss [OF miss(1)])
  note holds = cache_code_holds [OF inv os(1,2), where addr = arm_code and n = "of_nat (length c)", unfolded fields, OF os(3)]
  have "in_pcache ?s5 = pcache_after os arm_code arm s" "in_initialized ?s5" using holds(3) assms(1) by (auto simp: s3_def s0 set_mem_def)
  moreover have "arm2x86_translate_easy os arm_code code_size s = Inr (os_exec_mmap os, ?s5)"
    using assms(1,2,3) by (simp add: arm2x86_translate_easy_def cached mem0 arm_def [symmetric] pc s3_def)
  ultimately show thesis using that [of ?s5] holds(1,2) by blast
qed

text \<open>
  C23: the translation of a block through the instance, with or without a persistent cache. For code that is neither in
  the translation cache nor shared by its contents the call returns executable memory, and unless the cache had to make room this memory
  holds the code: that of the persistent cache if it has the block, and otherwise that of the block translator, which has then been
  given to the persistent cache to be stored. The same request, with whatever answers of the operating system,
  then returns the same address. The one exception is a clean-up of the persistent cache that
  finds more than 1000 entries and writes behind its array.
\<close>

theorem easy_translate_then_cached:
  assumes "in_initialized s" "arm_code \<noteq> NULL" "code_size \<noteq> 0" "in_reg_home s \<noteq> NULL" "tc_inv (in_cache s)"
  defines "arm \<equiv> guest_bytes (in_mem s) arm_code (unat code_size)"
  assumes miss: "fst (tcache_lookup_internal (in_cache s) arm_code) = None"
      "arm2x86_code_hash_lookup (in_code_hash s) (arm2x86_code_hash arm) = None"
    and x86: "fst (alloc_exec os (est_size code_size) s) = x86" "x86 \<noteq> NULL" "x86 \<noteq> MAP_FAILED" "os_exec_mmap os \<noteq> NULL"
    and "os_mprotect_ok os" "os_entry_calloc os \<noteq> NULL" "os_entry_calloc os \<notin> set (tc_lru (in_cache s))"
  shows "let stored = pcache_code os arm_code arm s;
             p = (case stored of None \<Rightarrow> x86 | Some c \<Rightarrow> os_exec_mmap os);
             c = (case stored of None \<Rightarrow> converted os arm_code code_size x86 s | Some c \<Rightarrow> c)
    in 1000 < length (os_listing os) \<and> in_pcache s \<noteq> None \<and> stored = None \<and> arm2x86_translate_easy os arm_code code_size s = Inl Array_overflow \<or>
       (\<exists>s'. arm2x86_translate_easy os arm_code code_size s = Inr (p, s') \<and>
         (\<not> tc_total_size (in_cache s) < tc_used_size (in_cache s) + of_nat (length c) \<longrightarrow> length c < 2 ^ 64 \<longrightarrow>
            (\<forall>i<length c. in_mem s' (p + of_nat i) = c ! i)) \<and>
         (in_pcache s \<noteq> None \<longrightarrow> stored = None \<longrightarrow>
            (\<exists>r. arm2x86_pcache_store (os_file_open os) (os_file_write os) (os_file_rename os) (os_opendir os) (os_listing os) (os_unlink os)
               (os_now os) (pcache_after os arm_code arm s) arm_code (Some (guest_bytes (in_mem s') arm_code (unat code_size))) (Some c) 0 =
               Inr (r, in_pcache s'))) \<and>
         (\<forall>os'. \<exists>s''. arm2x86_translate_easy os' arm_code code_size s' = Inr (p, s'')))"
proof (cases "pcache_code os arm_code arm s")
  case (Some c)
  note arm = arm_def [THEN meta_eq_to_obj_eq]
  obtain s5 where s5: "holds_code arm_code (os_exec_mmap os) s5" "in_initialized s5"
    "\<not> tc_total_size (in_cache s) < tc_used_size (in_cache s) + of_nat (length c) \<longrightarrow> (\<exists>m. in_mem s5 = write_code m (os_exec_mmap os) c)"
    "arm2x86_translate_easy os arm_code code_size s = Inr (os_exec_mmap os, s5)"
    using translate_stored [OF assms(1-3,5) miss(1) Some [unfolded arm_def] x86(4) assms(14,15)] by blast
  have "\<exists>s''. arm2x86_translate_easy os' arm_code code_size s5 = Inr (os_exec_mmap os, s'')" for os'
    using cached_code_hit [OF s5(1)] s5(2) assms(2,3) by (auto simp: arm2x86_translate_easy_def)
  with s5(3,4) show ?thesis by (auto simp: Some Let_def write_code_at)
next
  case None
  let ?c = "converted os arm_code code_size x86 s"
  obtain s5 where s5: "holds_code arm_code x86 s5" "in_initialized s5" "in_pcache s5 = pcache_after os arm_code arm s"
    "\<not> tc_total_size (in_cache s) < tc_used_size (in_cache s) + of_nat (length ?c) \<longrightarrow> (\<exists>m. in_mem s5 = write_code m x86 ?c)"
    "arm2x86_translate_easy os arm_code code_size s =
       (case store_in_pcache os arm_code (guest_bytes (in_mem s5) arm_code (unat code_size)) ?c s5 of Inl e \<Rightarrow> Inl e | Inr s \<Rightarrow> Inr (x86, s))"
    using translate_fresh [OF assms(1-5) miss(1) miss(2) [unfolded arm_def] None [unfolded arm_def] x86(1-3) assms(13-15)]
    unfolding arm_def [symmetric] by blast
  show ?thesis
  proof (cases rule: store_in_pcache_cases [of os arm_code "guest_bytes (in_mem s5) arm_code (unat code_size)" ?c s5])
    case 1
    then show ?thesis using s5(3,5) None by (auto simp: pcache_after_def Let_def split: if_splits)
  next
    case (2 pc)
    have "\<exists>s''. arm2x86_translate_easy os' arm_code code_size (s5\<lparr>in_pcache := pc\<rparr>) = Inr (x86, s'')" for os'
      using cached_code_hit [of arm_code x86 "s5\<lparr>in_pcache := pc\<rparr>"] s5(1,2) assms(2,3) by (auto simp: arm2x86_translate_easy_def)
    moreover have "\<exists>r. arm2x86_pcache_store (os_file_open os) (os_file_write os) (os_file_rename os) (os_opendir os) (os_listing os) (os_unlink os)
        (os_now os) (pcache_after os arm_code arm s) arm_code (Some (guest_bytes (in_mem s5) arm_code (unat code_size))) (Some ?c) 0 = Inr (r, pc)"
      if "in_pcache s \<noteq> None"
      using 2 pcache_after_Some [OF that, of os arm_code arm] s5(3) by (cases s5) (auto simp: store_in_pcache_def split: sum.splits prod.splits)
    ultimately show ?thesis using s5(4,5) 2 None by (auto simp: Let_def write_code_at)
  qed
qed

lemma hash_index_less: "hash_index h < ARM2X86_CODE_HASH_TABLE_SIZE"
proof -
  have "h AND 4095 = take_bit 12 h" by (simp add: take_bit_eq_mask mask_eq_exp_minus_1)
  moreover have "unat (take_bit 12 h) < 2 ^ 12" unfolding unsigned_take_bit_eq by (rule take_bit_nat_less_exp)
  ultimately show ?thesis by (simp add: hash_index_def)
qed

lemma hash_init_lookup: "arm2x86_code_hash_lookup (arm2x86_code_hash_init ok) h = None"
  using hash_index_less by (simp add: arm2x86_code_hash_lookup_def arm2x86_code_hash_init_def)

text \<open>An instance with empty caches, and answers of the operating system, for any platform and locals of the translator.\<close>

definition easy_os :: "Platform \<Rightarrow> DecodedInstruction \<Rightarrow> TranslateCtx \<Rightarrow> os" where
  "easy_os pf junk t = \<lparr>os_platform = pf, os_junk = junk, os_locals = t, os_exec_mmap = MAP_FAILED, os_pool_malloc = False, os_pool_mmap = MAP_FAILED,
     os_mmap = 0x400000, os_regs_malloc = 0, os_page_size = 4096, os_mprotect_ok = True, os_entry_calloc = 0x9000, os_jump_calloc = True,
     os_hash_malloc = True, os_dispatcher_lookup = 0, os_now = 0, os_file_malloc = False, os_file_open = False, os_file_write = False,
     os_file_rename = False, os_opendir = False, os_listing = [], os_unlink = (\<lambda>n. False)\<rparr>"

definition easy_cache :: tcache where
  "easy_cache = the (arm2x86_tcache_create True True 100 1 no_cache)"

definition easy_instance :: arm2x86_instance where
  "easy_instance = \<lparr>in_ctx = ctx32, in_cache = easy_cache, in_pcache = None, in_code_hash = arm2x86_code_hash_init True, in_mempool = None,
     in_reg_home = 0x7000, in_initialized = True, in_protected = [], in_unmapped = []\<rparr>"

lemma easy_cache: "tc_inv easy_cache" "tc_lru easy_cache = []" "fst (tcache_lookup_internal easy_cache a) = None"
proof -
  have c: "arm2x86_tcache_create True True 100 1 no_cache = Some easy_cache" by (simp add: easy_cache_def arm2x86_tcache_create_def)
  then show "tc_inv easy_cache" by (rule create_inv)
  show "tc_lru easy_cache = []" by (simp add: easy_cache_def arm2x86_tcache_create_def)
  have "tc_hash_table easy_cache = [[]]" "tc_bucket_count easy_cache = 1" by (simp_all add: easy_cache_def arm2x86_tcache_create_def)
  then show "fst (tcache_lookup_internal easy_cache a) = None"
    using bucket_less [of 1 "tcache_hash a"] by (intro lookup_finds) simp
qed

text \<open>With an empty persistent cache in which the block can be stored.\<close>

theorem easy_translate_then_cached_witness:
  "\<forall>pf junk t. let os = (easy_os pf junk t)\<lparr>os_exec_mmap := 0x600000, os_file_open := True, os_file_write := True, os_file_rename := True\<rparr>
     in \<exists>s' s''. arm2x86_translate_easy os 0x1000 8 (easy_instance\<lparr>in_pcache := Some empty_cache\<rparr>) = Inr (0x400000, s') \<and>
          arm2x86_translate_easy os 0x1000 8 s' = Inr (0x400000, s'')"
proof (intro allI)
  fix pf junk t
  let ?os = "(easy_os pf junk t)\<lparr>os_exec_mmap := 0x600000, os_file_open := True, os_file_write := True, os_file_rename := True\<rparr>"
  let ?s = "easy_instance\<lparr>in_pcache := Some empty_cache\<rparr>"
  have "in_initialized ?s" "in_reg_home ?s \<noteq> NULL" "in_cache ?s = easy_cache"
    "in_code_hash ?s = arm2x86_code_hash_init True" "in_mempool ?s = None" by (simp_all add: easy_instance_def)
  moreover have "os_mmap ?os = 0x400000" "os_mprotect_ok ?os" "os_entry_calloc ?os = 0x9000" "os_exec_mmap ?os \<noteq> NULL" "os_listing ?os = []"
    by (simp_all add: easy_os_def)
  moreover have "pcache_code ?os 0x1000 arm ?s = None" for arm
    by (simp add: pcache_code_def arm2x86_pcache_lookup_def empty_cache_def arm2x86_pcache_config_init_def)
  ultimately show "let os = ?os in \<exists>s' s''. arm2x86_translate_easy os 0x1000 8 ?s = Inr (0x400000, s') \<and>
     arm2x86_translate_easy os 0x1000 8 s' = Inr (0x400000, s'')"
    using easy_translate_then_cached [of ?s "0x1000" 8 ?os "0x400000"]
    by (simp add: alloc_exec_def easy_cache hash_init_lookup Let_def) blast
qed

section \<open>Files of translated code\<close>

text \<open>
  C28: a file of translated code, loaded into an instance, gives its code for its base address: the loading succeeds, the code lies in the
  memory that was allocated for it unless the cache had to make room, and a translation of the base address returns this memory.
\<close>

theorem aot_file_roundtrip:
  assumes "in_initialized s" "tc_inv (in_cache s)" "base \<noteq> 0" "p \<noteq> NULL" "length pad = 4" "length x86 < 2 ^ 64"
    and "os_entry_calloc os \<noteq> NULL" "os_entry_calloc os \<notin> set (tc_lru (in_cache s))"
  shows "\<exists>s'. arm2x86_load_aot_module os p (Some (aot_file pad arch n base x86)) s = (ARM2X86_OK, s') \<and>
    (\<not> tc_total_size (in_cache s) < tc_used_size (in_cache s) + of_nat (length x86) \<longrightarrow>
       (\<forall>i<length x86. in_mem s' (p + of_nat i) = x86 ! i)) \<and>
    (\<forall>os'. \<exists>s''. arm2x86_translate_addr os' base s' = Inr (p, s''))"
proof -
  let ?f = "aot_file pad arch n base x86" and ?n = "of_nat (length x86) :: u64"
  obtain a b c d where pad: "pad = [a, b, c, d]"
    using assms(5) by (auto simp: length_Suc_conv eval_nat_numeral)
  have magic: "get32 ?f 0 = 0x00544F41"
    unfolding aot_file_def get32_def pad le32_def le64_def by (simp add: of_le32_def)
  have f: "get64 ?f 24 = ?n" "get64 ?f 32 = base" "drop 40 ?f = x86" "length ?f = 40 + length x86"
    unfolding aot_file_def get64_def pad le32_def le64_def by simp_all
  have n: "unat ?n = length x86" using assms(6) by (simp add: unat_of_nat)
  define s1 where "s1 = set_mem (write_code (in_mem s) p x86) s"
  define s' where "s' = (cache_code os base p ?n s1)\<lparr>in_code_hash :=
    arm2x86_code_hash_insert (os_hash_malloc os) (in_code_hash (cache_code os base p ?n s1)) (arm2x86_code_hash x86) p ?n\<rparr>"
  have "tc_inv (in_cache s1)" "tc_lru (in_cache s1) = tc_lru (in_cache s)" "tc_total_size (in_cache s1) = tc_total_size (in_cache s)"
    "tc_used_size (in_cache s1) = tc_used_size (in_cache s)" "in_mem s1 = write_code (in_mem s) p x86"
    using assms(2) by (simp_all add: s1_def set_mem_def)
  note s1 = this
  note holds = cache_code_holds [OF s1(1) assms(4,7), where addr = base and n = ?n, unfolded s1, OF assms(8)]
  have "arm2x86_load_aot_module os p (Some ?f) s = (ARM2X86_OK, s')"
    using assms(1,3,4) by (simp add: arm2x86_load_aot_module_def magic f n s1_def [symmetric] s'_def Let_def)
  moreover have "holds_code base p s'" "in_initialized s'"
    using holds(1,3) assms(1) by (auto simp: holds_code_def s'_def s1_def set_mem_def)
  then have "\<exists>s''. arm2x86_translate_addr os' base s' = Inr (p, s'')" for os'
    using cached_code_hit [of base p s'] assms(3) by (auto simp: arm2x86_translate_addr_def)
  ultimately show ?thesis
    using holds(2) write_code_at [OF assms(6)] by (intro exI [of _ s']) (simp add: s'_def)
qed

theorem aot_file_roundtrip_witness:
  "\<forall>pf junk t. \<exists>s' s''. arm2x86_load_aot_module (easy_os pf junk t) 0x500000 (Some (aot_file [0, 0, 0, 0] 0 4 0x1000 [0xc3])) easy_instance = (ARM2X86_OK, s') \<and>
     arm2x86_translate_addr (easy_os pf junk t) 0x1000 s' = Inr (0x500000, s'')"
proof (intro allI)
  fix pf junk t
  have "in_initialized easy_instance" "in_cache easy_instance = easy_cache" "os_entry_calloc (easy_os pf junk t) = 0x9000"
    by (simp_all add: easy_instance_def easy_os_def)
  then show "\<exists>s' s''. arm2x86_load_aot_module (easy_os pf junk t) 0x500000 (Some (aot_file [0, 0, 0, 0] 0 4 0x1000 [0xc3])) easy_instance = (ARM2X86_OK, s') \<and>
     arm2x86_translate_addr (easy_os pf junk t) 0x1000 s' = Inr (0x500000, s'')"
    using aot_file_roundtrip [of easy_instance "0x1000" "0x500000" "[0, 0, 0, 0]" "[0xc3]" "easy_os pf junk t" 0 4]
    by (simp add: easy_cache) blast
qed

section \<open>Where sharing goes wrong\<close>

text \<open>The table of translated code compares hashes only: code with the hash of other code gets the translation of that code.\<close>

lemma easy_shares_by_hash:
  assumes "in_initialized s" "a \<noteq> NULL" "n \<noteq> 0" "in_pcache s = None" "fst (tcache_lookup_internal (in_cache s) a) = None"
    and "arm2x86_code_hash_lookup (in_code_hash s) (arm2x86_code_hash (guest_bytes (in_mem s) a (unat n))) = Some e"
  shows "\<exists>s'. arm2x86_translate_easy os a n s = Inr (che_x86_code e, s')"
  using assms
  by (simp add: arm2x86_translate_easy_def cached_code_def code_from_pcache_def tcache_miss case_prod_beta Let_def)

text \<open>A batch that finds code in the persistent cache frees it twice.\<close>

lemma batch_pcache_double_free:
  assumes "in_pcache s \<noteq> None" "os_exec_mmap os \<noteq> MAP_FAILED"
    and "arm2x86_pcache_lookup (os_file_malloc os) (os_now os) (in_pcache s) addr (Some arm) True 0 = (ARM2X86_PCACHE_OK, Some c, pc)"
  shows "translate_missed os b addr arm s = Inl Double_free"
  using assms by (cases "in_pcache s") (simp_all add: translate_missed_def)

end
