(* ===== verification/Syscall.thy ===== *)
theory Syscall
  imports Elf Pcache
begin

text \<open>
  System calls of the guest, from \<open>src/modules/arm2x86_syscall.c\<close>: the table of numbers and names, the thread pointer,
  the structures that are copied field by field, \<open>do_translated_syscall\<close>, and the CRC-32 helper of translated code.

  The kernel is a parameter: from the registers at the instruction \<open>syscall\<close> and the memory it makes a result and a
  memory. The inline assembly binds RAX, RDI, RSI and RDX; the fourth to sixth argument have the constraint \<open>"r"\<close>, any
  register, so that what R10, R8 and R9 hold at the instruction is not determined by the source. It is the parameter
  \<open>left\<close>. \<open>stack\<close> is the address of the local buffer or structure.
\<close>

section \<open>Numbers and names\<close>

type_synonym SyscallMap = "int \<times> int \<times> string"

definition syscall_table :: "SyscallMap list" where
  "syscall_table = [
    (0, 0, ''io_setup''), (1, 1, ''io_destroy''), (2, 2, ''io_submit''), (3, 3, ''io_cancel''),
    (4, 4, ''io_getevents''), (5, 5, ''setxattr''), (6, 6, ''lsetxattr''), (7, 7, ''fsetxattr''),
    (8, 8, ''getxattr''), (9, 9, ''lgetxattr''), (10, 10, ''fgetxattr''), (11, 11, ''listxattr''),
    (12, 12, ''llistxattr''), (13, 13, ''flistxattr''), (14, 14, ''removexattr''), (15, 15, ''lremovexattr''),
    (16, 16, ''fremovexattr''), (17, 17, ''getcwd''), (18, 18, ''lookup_dcookie''), (19, 19, ''eventfd2''),
    (20, 20, ''epoll_create1''), (21, 21, ''epoll_ctl''), (22, 22, ''epoll_pwait''), (23, 23, ''dup''),
    (24, 24, ''dup3''), (25, 25, ''fcntl''), (26, 26, ''inotify_init1''), (27, 27, ''inotify_add_watch''),
    (28, 28, ''inotify_rm_watch''), (29, 29, ''ioctl''), (30, 30, ''ioprio_set''), (31, 31, ''ioprio_get''),
    (32, 32, ''flock''), (33, 33, ''mknodat''), (34, 34, ''mkdirat''), (35, 35, ''unlinkat''),
    (36, 36, ''symlinkat''), (37, 37, ''linkat''), (38, 38, ''renameat''), (39, 39, ''umount2''), (40, 40, ''mount''),
    (41, 41, ''pivot_root''), (42, 42, ''nfsservctl''), (43, 43, ''statfs''), (44, 44, ''fstatfs''),
    (45, 45, ''truncate''), (46, 46, ''ftruncate''), (47, 47, ''fallocate''), (48, 48, ''faccessat''),
    (49, 49, ''chdir''), (50, 50, ''fchdir''), (51, 51, ''chroot''), (52, 52, ''fchmod''), (53, 53, ''fchmodat''),
    (54, 54, ''fchownat''), (55, 55, ''fchown''), (56, 56, ''openat''), (57, 57, ''close''), (58, 58, ''vhangup''),
    (59, 59, ''pipe2''), (60, 60, ''quotactl''), (61, 61, ''getdents64''), (62, 62, ''lseek''), (63, 63, ''read''),
    (64, 64, ''write''), (65, 65, ''readv''), (66, 66, ''writev''), (67, 67, ''pread64''), (68, 68, ''pwrite64''),
    (69, 69, ''preadv''), (70, 70, ''pwritev''), (71, 71, ''sendfile''), (72, 72, ''pselect6''), (73, 73, ''ppoll''),
    (74, 74, ''signalfd4''), (75, 75, ''vmsplice''), (76, 76, ''splice''), (77, 77, ''tee''),
    (78, 78, ''readlinkat''), (79, 79, ''newfstatat''), (80, 80, ''fstat''), (81, 81, ''sync''), (82, 82, ''fsync''),
    (83, 83, ''fdatasync''), (84, 84, ''sync_file_range''), (85, 85, ''timerfd_create''),
    (86, 86, ''timerfd_settime''), (87, 87, ''timerfd_gettime''), (88, 88, ''utimensat''), (89, 89, ''acct''),
    (90, 90, ''capget''), (91, 91, ''capset''), (92, 92, ''personality''), (93, 93, ''exit''),
    (94, 94, ''exit_group''), (95, 95, ''waitid''), (96, 96, ''set_tid_address''), (97, 97, ''unshare''),
    (98, 98, ''futex''), (99, 99, ''set_robust_list''), (100, 100, ''get_robust_list''), (101, 101, ''nanosleep''),
    (102, 102, ''getitimer''), (103, 103, ''setitimer''), (104, 104, ''kexec_load''), (105, 105, ''init_module''),
    (106, 106, ''delete_module''), (107, 107, ''clock_gettime''), (108, 108, ''clock_getres''),
    (109, 109, ''clock_nanosleep''), (110, 110, ''syslog''), (111, 111, ''ptrace''), (112, 112, ''sched_setparam''),
    (113, 113, ''sched_setscheduler''), (114, 114, ''sched_getscheduler''), (115, 115, ''sched_getparam''),
    (116, 116, ''sched_setaffinity''), (117, 117, ''sched_getaffinity''), (118, 118, ''sched_yield''),
    (119, 119, ''sched_get_priority_max''), (120, 120, ''sched_get_priority_min''),
    (121, 121, ''sched_rr_get_interval''), (122, 122, ''restart_syscall''), (123, 123, ''kill''),
    (124, 124, ''tkill''), (125, 125, ''tgkill''), (126, 126, ''sigaltstack''), (127, 127, ''rt_sigsuspend''),
    (128, 128, ''rt_sigaction''), (129, 129, ''rt_sigprocmask''), (130, 130, ''rt_sigpending''),
    (131, 131, ''rt_sigtimedwait''), (132, 132, ''rt_sigqueueinfo''), (133, 133, ''rt_sigreturn''),
    (134, 134, ''setpriority''), (135, 135, ''getpriority''), (136, 136, ''reboot''), (137, 137, ''setregid''),
    (138, 138, ''setgid''), (139, 139, ''setreuid''), (140, 140, ''setuid''), (141, 141, ''setresuid''),
    (142, 142, ''getresuid''), (143, 143, ''setresgid''), (144, 144, ''getresgid''), (145, 145, ''setfsuid''),
    (146, 146, ''setfsgid''), (147, 147, ''times''), (148, 148, ''setpgid''), (149, 149, ''getpgid''),
    (150, 150, ''getsid''), (151, 151, ''setsid''), (152, 152, ''getgroups''), (153, 153, ''setgroups''),
    (154, 154, ''uname''), (155, 155, ''sethostname''), (156, 156, ''setdomainname''), (157, 157, ''getrlimit''),
    (158, 158, ''setrlimit''), (159, 159, ''getrusage''), (160, 160, ''umask''), (161, 161, ''prctl''),
    (162, 162, ''getcpu''), (163, 163, ''gettimeofday''), (164, 164, ''settimeofday''), (165, 165, ''adjtimex''),
    (166, 166, ''getpid''), (167, 167, ''getppid''), (168, 168, ''getuid''), (169, 169, ''geteuid''),
    (170, 170, ''getgid''), (171, 171, ''getegid''), (172, 172, ''gettid''), (173, 173, ''sysinfo''),
    (174, 174, ''mq_open''), (175, 175, ''mq_unlink''), (176, 176, ''mq_timedsend''), (177, 177, ''mq_timedreceive''),
    (178, 178, ''mq_notify''), (179, 179, ''mq_getsetattr''), (180, 180, ''msgget''), (181, 181, ''msgctl''),
    (182, 182, ''msgrcv''), (183, 183, ''msgsnd''), (184, 184, ''semget''), (185, 185, ''semctl''),
    (186, 186, ''semtimedop''), (187, 187, ''semop''), (188, 188, ''shmget''), (189, 189, ''shmctl''),
    (190, 190, ''shmat''), (191, 191, ''shmdt''), (192, 192, ''socket''), (193, 193, ''socketpair''),
    (194, 194, ''bind''), (195, 195, ''listen''), (196, 196, ''accept''), (197, 197, ''connect''),
    (198, 198, ''getsockname''), (199, 199, ''getpeername''), (200, 200, ''sendto''), (201, 201, ''recvfrom''),
    (202, 202, ''setsockopt''), (203, 203, ''getsockopt''), (204, 204, ''shutdown''), (205, 205, ''sendmsg''),
    (206, 206, ''recvmsg''), (207, 207, ''readahead''), (208, 208, ''brk''), (209, 209, ''munmap''),
    (210, 210, ''mremap''), (211, 211, ''add_key''), (212, 212, ''request_key''), (213, 213, ''keyctl''),
    (214, 214, ''clone''), (215, 215, ''execve''), (216, 216, ''mmap''), (217, 217, ''fadvise64''),
    (218, 218, ''swapon''), (219, 219, ''swapoff''), (220, 220, ''mprotect''), (221, 221, ''msync''),
    (222, 222, ''mlock''), (223, 223, ''munlock''), (224, 224, ''mlockall''), (225, 225, ''munlockall''),
    (226, 226, ''mincore''), (227, 227, ''madvise''), (228, 228, ''remap_file_pages''), (229, 229, ''mbind''),
    (230, 230, ''get_mempolicy''), (231, 231, ''set_mempolicy''), (232, 232, ''migrate_pages''),
    (233, 233, ''move_pages''), (234, 234, ''rt_tgsigqueueinfo''), (235, 235, ''perf_event_open''),
    (236, 236, ''accept4''), (237, 237, ''recvmmsg''), (238, 238, ''wait4''), (239, 239, ''prlimit64''),
    (240, 240, ''fanotify_init''), (241, 241, ''fanotify_mark''), (242, 242, ''name_to_handle_at''),
    (243, 243, ''open_by_handle_at''), (244, 244, ''clock_adjtime''), (245, 245, ''syncfs''), (246, 246, ''setns''),
    (247, 247, ''sendmmsg''), (248, 248, ''process_vm_readv''), (249, 249, ''process_vm_writev''),
    (250, 250, ''kcmp''), (251, 251, ''finit_module''), (252, 252, ''sched_setattr''), (253, 253, ''sched_getattr''),
    (254, 254, ''renameat2''), (255, 255, ''seccomp''), (256, 256, ''getrandom''), (257, 257, ''memfd_create''),
    (258, 258, ''bpf''), (259, 259, ''execveat''), (260, 260, ''userfaultfd''), (261, 261, ''membarrier''),
    (262, 262, ''mlock2''), (263, 263, ''copy_file_range''), (264, 264, ''preadv2''), (265, 265, ''pwritev2''),
    (266, 266, ''pkey_mprotect''), (267, 267, ''pkey_alloc''), (268, 268, ''pkey_free''), (269, 269, ''statx''),
    (270, 270, ''io_pgetevents''), (271, 271, ''rseq''), (272, 272, ''kexec_file_load''),
    (273, 273, ''pidfd_send_signal''), (274, 274, ''io_uring_setup''), (275, 275, ''io_uring_enter''),
    (276, 276, ''io_uring_register''), (277, 277, ''open_tree''), (278, 278, ''move_mount''), (279, 279, ''fsopen''),
    (280, 280, ''fsconfig''), (281, 281, ''fsmount''), (282, 282, ''fspick''), (283, 283, ''pidfd_open''),
    (284, 284, ''clone3''), (285, 285, ''close_range''), (286, 286, ''openat2''), (287, 287, ''pidfd_getfd''),
    (288, 288, ''faccessat2''), (289, 289, ''process_madvise''), (290, 290, ''epoll_pwait2''),
    (291, 291, ''mount_setattr''), (292, 292, ''quotactl_fd''), (293, 293, ''landlock_create_ruleset''),
    (294, 294, ''landlock_add_rule''), (295, 295, ''landlock_restrict_self''), (296, 296, ''memfd_secret''),
    (297, 297, ''process_mrelease''), (298, 298, ''futex_waitv''), (299, 299, ''set_mempolicy_home_node''),
    (300, 300, ''cachestat''), (301, 301, ''fchmodat2''), (302, 302, ''map_shadow_stack''),
    (303, 303, ''futex_wake''), (304, 304, ''futex_wait''), (305, 305, ''futex_requeue'')]"

abbreviation (input) SYSCALL_TABLE_MAX_NR :: nat where "SYSCALL_TABLE_MAX_NR \<equiv> 1024"

text \<open>An array that is filled at the first use: \<open>None\<close> as long as its flag \<open>initialized\<close> is false.\<close>

definition fill_lookup :: "(SyscallMap \<Rightarrow> 'a) \<Rightarrow> 'a \<Rightarrow> SyscallMap list \<Rightarrow> 'a list" where
  "fill_lookup f d t =
     foldl (\<lambda>l e. if 0 \<le> fst e \<and> fst e < int SYSCALL_TABLE_MAX_NR then l[nat (fst e) := f e] else l)
       (replicate SYSCALL_TABLE_MAX_NR d) t"

definition init_syscall_lookup :: "int list option \<Rightarrow> int list" where
  "init_syscall_lookup l = (case l of Some l \<Rightarrow> l | None \<Rightarrow> fill_lookup (\<lambda>(a, x, n). x) (- 1) syscall_table)"

definition translate_syscall_number :: "int list option \<Rightarrow> int \<Rightarrow> int \<times> int list option" where
  "translate_syscall_number l arm64_nr =
     (let l = init_syscall_lookup l
      in (if 0 \<le> arm64_nr \<and> arm64_nr < int SYSCALL_TABLE_MAX_NR then l ! nat arm64_nr else - 1, Some l))"

definition init_syscall_name_lookup :: "string list option \<Rightarrow> string list" where
  "init_syscall_name_lookup l = (case l of Some l \<Rightarrow> l | None \<Rightarrow> fill_lookup (\<lambda>(a, x, n). n) ''unknown'' syscall_table)"

definition get_syscall_name :: "string list option \<Rightarrow> int \<Rightarrow> string \<times> string list option" where
  "get_syscall_name l arm64_nr =
     (let l = init_syscall_name_lookup l
      in (if 0 \<le> arm64_nr \<and> arm64_nr < int SYSCALL_TABLE_MAX_NR then l ! nat arm64_nr else ''unknown'', Some l))"

definition get_syscall_table_size :: nat where
  "get_syscall_table_size = length syscall_table"

section \<open>The thread pointer\<close>

text \<open>\<open>set_fs\<close> tells whether \<open>arch_prctl(ARCH_SET_FS, v)\<close> succeeds; then FS has the value.\<close>

record sys_state =
  sy_lookup :: "int list option"
  sy_tls_base :: ptr
  sy_fs_base :: ptr
  sy_memory :: image

definition arch_prctl_set_fs :: "(ptr \<Rightarrow> bool) \<Rightarrow> ptr \<Rightarrow> sys_state \<Rightarrow> sys_state" where
  "arch_prctl_set_fs set_fs v s = (if set_fs v then s\<lparr>sy_fs_base := v\<rparr> else s)"

definition NativeBridgeSetTLS :: "(ptr \<Rightarrow> bool) \<Rightarrow> ptr \<Rightarrow> sys_state \<Rightarrow> int \<times> sys_state" where
  "NativeBridgeSetTLS set_fs tls_base s =
     (if set_fs tls_base then 0 else - 1, arch_prctl_set_fs set_fs tls_base (s\<lparr>sy_tls_base := tls_base\<rparr>))"

definition NativeBridgeGetTLS :: "sys_state \<Rightarrow> ptr" where
  "NativeBridgeGetTLS s = sy_tls_base s"

definition arm2x86_mrs_tpidr_el0 :: "sys_state \<Rightarrow> u64" where
  "arm2x86_mrs_tpidr_el0 s = sy_tls_base s"

definition arm2x86_mrs_tpidrro_el0 :: "sys_state \<Rightarrow> u64" where
  "arm2x86_mrs_tpidrro_el0 s = sy_tls_base s"

definition arm2x86_msr_tpidr_el0 :: "(ptr \<Rightarrow> bool) \<Rightarrow> u64 \<Rightarrow> sys_state \<Rightarrow> sys_state" where
  "arm2x86_msr_tpidr_el0 set_fs v s = arch_prctl_set_fs set_fs v (s\<lparr>sy_tls_base := v\<rparr>)"

section \<open>Structures\<close>

text \<open>\<open>arm2x86_arm64_stat\<close> and \<open>arm2x86_x86_64_stat\<close> have the same members, at the same offsets.\<close>

record stat =
  xst_dev :: u64
  xst_ino :: u64
  xst_nlink :: u64
  xst_mode :: u32
  xst_uid :: u32
  xst_gid :: u32
  xst_pad0 :: u32
  xst_rdev :: u64
  xst_size :: u64
  xst_blksize :: u64
  xst_blocks :: u64
  xst_atime :: u64
  xst_atime_nsec :: u64
  xst_mtime :: u64
  xst_mtime_nsec :: u64
  xst_ctime :: u64
  xst_ctime_nsec :: u64
  xst_unused :: "u64 list"

definition get_stat :: "image \<Rightarrow> ptr \<Rightarrow> stat" where
  "get_stat m p =
     \<lparr>xst_dev = read64 m p, xst_ino = read64 m (p + 8), xst_nlink = read64 m (p + 16), xst_mode = read32 m (p + 24),
      xst_uid = read32 m (p + 28), xst_gid = read32 m (p + 32), xst_pad0 = read32 m (p + 36), xst_rdev = read64 m (p + 40),
      xst_size = read64 m (p + 48), xst_blksize = read64 m (p + 56), xst_blocks = read64 m (p + 64),
      xst_atime = read64 m (p + 72), xst_atime_nsec = read64 m (p + 80), xst_mtime = read64 m (p + 88),
      xst_mtime_nsec = read64 m (p + 96), xst_ctime = read64 m (p + 104), xst_ctime_nsec = read64 m (p + 112),
      xst_unused = [read64 m (p + 120), read64 m (p + 128), read64 m (p + 136)]\<rparr>"

definition translate_stat_struct_arm64_to_x86 :: "stat option \<Rightarrow> stat option \<Rightarrow> int \<times> stat option" where
  "translate_stat_struct_arm64_to_x86 arm x86 =
     (case (arm, x86) of
        (Some a, Some x) \<Rightarrow> (0, Some (a\<lparr>xst_pad0 := xst_pad0 x, xst_unused := xst_unused x\<rparr>))
      | _ \<Rightarrow> (ARM2X86_ERR_INVALID_PARAM, x86))"

record sigaction_struct =
  xsa_handler :: ptr
  xsa_flags :: u64
  xsa_restorer :: ptr
  xsa_mask :: "u64 list"

definition translate_sigaction_arm64_to_x86 :: "sigaction_struct option \<Rightarrow> sigaction_struct option \<Rightarrow> int \<times> sigaction_struct option" where
  "translate_sigaction_arm64_to_x86 arm x86 =
     (case (arm, x86) of
        (Some a, Some x) \<Rightarrow> (0, Some (a\<lparr>xsa_mask := (xsa_mask x)[0 := xsa_mask a ! 0]\<rparr>))
      | _ \<Rightarrow> (ARM2X86_ERR_INVALID_PARAM, x86))"

record arm64_epoll_event =
  xev_events :: u32
  xev_pad :: u32
  xev_data :: u64

record x86_64_epoll_event =
  xxev_events :: u32
  xxev_data :: u64

definition translate_epoll_event_arm64_to_x86 :: "arm64_epoll_event option \<Rightarrow> x86_64_epoll_event option \<Rightarrow> int \<times> x86_64_epoll_event option" where
  "translate_epoll_event_arm64_to_x86 arm x86 =
     (case (arm, x86) of
        (Some a, Some x) \<Rightarrow> (0, Some \<lparr>xxev_events = xev_events a, xxev_data = xev_data a\<rparr>)
      | _ \<Rightarrow> (ARM2X86_ERR_INVALID_PARAM, x86))"

definition get_sigaction :: "image \<Rightarrow> ptr \<Rightarrow> sigaction_struct" where
  "get_sigaction m p =
     \<lparr>xsa_handler = read64 m p, xsa_flags = read64 m (p + 8), xsa_restorer = read64 m (p + 16),
      xsa_mask = map (\<lambda>i. read64 m (p + 24 + 8 * of_nat i)) [0..<16]\<rparr>"

definition put_sigaction :: "image \<Rightarrow> ptr \<Rightarrow> sigaction_struct \<Rightarrow> image" where
  "put_sigaction m p sa =
     foldl (\<lambda>m i. write64 m (p + 24 + 8 * of_nat i) (xsa_mask sa ! i))
       (write64 (write64 (write64 m p (xsa_handler sa)) (p + 8) (xsa_flags sa)) (p + 16) (xsa_restorer sa)) [0..<16]"

section \<open>The call\<close>

record sysregs =
  sr_rax :: int
  sr_rdi :: u64
  sr_rsi :: u64
  sr_rdx :: u64
  sr_r10 :: u64
  sr_r8 :: u64
  sr_r9 :: u64

type_synonym kernel = "sysregs \<Rightarrow> image \<Rightarrow> u64 \<times> image"

definition bind_regs :: "sysregs \<Rightarrow> int \<Rightarrow> u64 \<Rightarrow> u64 \<Rightarrow> u64 \<Rightarrow> sysregs" where
  "bind_regs left nr rdi rsi rdx = left\<lparr>sr_rax := nr, sr_rdi := rdi, sr_rsi := rsi, sr_rdx := rdx\<rparr>"

text \<open>A member that is assigned from \<open>*x86_s\<close> to \<open>*arm_s\<close>, with the conversion of the assignment.\<close>

definition copy64 :: "(u64 \<Rightarrow> u64) \<Rightarrow> ptr \<Rightarrow> ptr \<Rightarrow> u64 \<Rightarrow> image \<Rightarrow> image" where
  "copy64 f src dst off m = write64 m (dst + off) (f (read64 m (src + off)))"

definition copy32 :: "ptr \<Rightarrow> ptr \<Rightarrow> u64 \<Rightarrow> image \<Rightarrow> image" where
  "copy32 src dst off m = write32 m (dst + off) (read32 m (src + off))"

definition cut_uint32 :: "u64 \<Rightarrow> u64" where
  "cut_uint32 v = ucast (ucast v :: u32)"

definition cut_int32 :: "u64 \<Rightarrow> u64" where
  "cut_int32 v = scast (ucast v :: u32)"

definition stat_back :: "ptr \<Rightarrow> ptr \<Rightarrow> image \<Rightarrow> image" where
  "stat_back x86_s arm_s m =
     (let c = copy64 id x86_s arm_s; d = copy32 x86_s arm_s;
          m = c 0 m; m = c 8 m; m = d 24 m; m = copy64 cut_uint32 x86_s arm_s 16 m; m = d 28 m; m = d 32 m;
          m = c 40 m; m = c 48 m; m = copy64 cut_int32 x86_s arm_s 56 m; m = c 64 m; m = c 72 m; m = c 80 m;
          m = c 88 m; m = c 96 m; m = c 104 m
      in c 112 m)"

abbreviation (input) CLONE_SETTLS :: u64 where "CLONE_SETTLS \<equiv> 0x80000"

definition do_translated_syscall ::
  "kernel \<Rightarrow> (ptr \<Rightarrow> bool) \<Rightarrow> sysregs \<Rightarrow> sysregs \<Rightarrow> ptr \<Rightarrow> int \<Rightarrow> u64 \<Rightarrow> u64 \<Rightarrow> u64 \<Rightarrow> u64 \<Rightarrow> u64 \<Rightarrow> u64 \<Rightarrow> sys_state
     \<Rightarrow> u32 \<times> sys_state" where
  "do_translated_syscall sysenter set_fs left left' stack arm64_nr arg0 arg1 arg2 arg3 arg4 arg5 s =
     (let (x86_nr, l) = translate_syscall_number (sy_lookup s) arm64_nr;
          s = s\<lparr>sy_lookup := l\<rparr>;
          enter = (\<lambda>m rdi rsi rdx. sysenter (bind_regs left x86_nr rdi rsi rdx) m)
      in if x86_nr < 0 then (- 38, s)
         else if arm64_nr = 80 \<or> arm64_nr = 79 then
           (let (result, m) = enter (sy_memory s) arg0 stack arg2
            in (ucast result, s\<lparr>sy_memory := if result = 0 then stat_back stack arg1 m else m\<rparr>))
         else if arm64_nr = 128 \<and> arg1 \<noteq> 0 \<and> arg2 = 0 then
           (let m = sy_memory s;
                x86_sa = snd (translate_sigaction_arm64_to_x86 (Some (get_sigaction m arg1)) (Some (get_sigaction m stack)));
                (result, m) = enter (put_sigaction m stack (the x86_sa)) arg0 stack 0
            in (ucast result, s\<lparr>sy_memory := m\<rparr>))
         else if arm64_nr = 220 then
           (let settls = arg0 AND CLONE_SETTLS \<noteq> 0;
                x86_flags = (if settls then ucast arg0 AND NOT 0x80000 else ucast arg0) :: u32;
                (result, m) = enter (sy_memory s) (ucast x86_flags) arg1 arg2;
                s = s\<lparr>sy_memory := m\<rparr>
            in (ucast result,
                if result = 0 \<and> settls then
                  (let s = arm2x86_msr_tpidr_el0 set_fs arg4 s
                   in s\<lparr>sy_memory := snd (sysenter (left'\<lparr>sr_rax := 0x1002, sr_rdi := arg4\<rparr>) (sy_memory s))\<rparr>)
                else s))
         else
           (let (result, m) = enter (sy_memory s) arg0 arg1 arg2
            in (ucast result, s\<lparr>sy_memory := m\<rparr>)))"

section \<open>CRC-32 of translated code\<close>

definition crc32_ieee802_3 :: "u32 \<Rightarrow> u64 \<Rightarrow> int \<Rightarrow> u32" where
  "crc32_ieee802_3 crc data bytes =
     fst (((\<lambda>(crc, data). (drop_bit 8 crc XOR crc32_table ((crc XOR ucast (ucast data :: u8)) AND 0xFF), drop_bit 8 data))
            ^^ nat bytes) (crc, data))"

section \<open>Numbers\<close>

lemma table_numbers: "map fst syscall_table = [0..305]"
  by (simp add: syscall_table_def upto.simps)

lemma table_same_number: "map (\<lambda>e. fst (snd e)) syscall_table = map fst syscall_table"
  by (simp add: syscall_table_def)

lemma fill_lookup_nth:
  assumes "n < SYSCALL_TABLE_MAX_NR" and "distinct (map fst t)"
  shows "fill_lookup f d t ! n = (case map_of t (int n) of None \<Rightarrow> d | Some v \<Rightarrow> f (int n, v))"
proof -
  have l: "length (fill_lookup f d t) = SYSCALL_TABLE_MAX_NR" for t
    unfolding fill_lookup_def by (induction t rule: rev_induct) simp_all
  have upd: "fill_lookup f d (t @ [e]) =
      (if 0 \<le> fst e \<and> fst e < int SYSCALL_TABLE_MAX_NR then (fill_lookup f d t)[nat (fst e) := f e] else fill_lookup f d t)" for t e
    by (simp add: fill_lookup_def)
  show ?thesis using assms(2)
  proof (induction t rule: rev_induct)
    case Nil
    then show ?case using assms(1) by (simp add: fill_lookup_def nth_replicate)
  next
    case (snoc e t)
    then have "map_of t (fst e) = None" by (simp add: map_of_eq_None_iff)
    then show ?case
      using snoc assms(1) by (cases e) (auto simp: upd l nth_list_update map_add_def split: option.splits)
  qed
qed

lemma table_distinct: "distinct (map fst syscall_table)"
  by (simp add: table_numbers)

lemma table_lookup: "map_of syscall_table (int n) = (if n < 306 then Some (snd (syscall_table ! n)) else None)"
proof -
  have len: "length syscall_table = 306" using arg_cong [OF table_numbers, of length] by simp
  have "fst (syscall_table ! n) = int n" if "n < 306"
    using that arg_cong [OF table_numbers, of "\<lambda>l. l ! n"] len by (simp add: nth_upto)
  then have "(int n, snd (syscall_table ! n)) \<in> set syscall_table" if "n < 306"
    using that len by (metis nth_mem prod.collapse)
  moreover have "int n \<notin> fst ` set syscall_table" if "\<not> n < 306"
    using that arg_cong [OF table_numbers, of set] by (auto simp flip: set_map)
  ultimately show ?thesis
    by (simp add: map_of_eq_None_iff table_distinct)
qed

definition lookup_ok :: "int list option \<Rightarrow> bool" where
  "lookup_ok l \<longleftrightarrow> l = None \<or> l = Some (fill_lookup (\<lambda>(a, x, n). x) (- 1) syscall_table)"

lemma translate_number:
  assumes "lookup_ok l"
  shows "translate_syscall_number l nr =
    (if 0 \<le> nr \<and> nr \<le> 305 then nr else - 1, Some (fill_lookup (\<lambda>(a, x, n). x) (- 1) syscall_table))"
proof -
  have i: "init_syscall_lookup l = fill_lookup (\<lambda>(a, x, n). x) (- 1) syscall_table"
    using assms by (auto simp: lookup_ok_def init_syscall_lookup_def)
  have same: "fst (snd (syscall_table ! n)) = int n" if "n < 306" for n
    using that table_lookup [of n] table_same_number by (metis map_eq_conv map_of_SomeD fst_conv snd_conv)
  have "fill_lookup (\<lambda>(a, x, n). x) (- 1) syscall_table ! n = (if n < 306 then int n else - 1)" if "n < 1024" for n
    using that same [of n] by (simp add: fill_lookup_nth table_distinct table_lookup case_prod_beta)
  from this [of "nat nr"] show ?thesis
    by (auto simp: translate_syscall_number_def i Let_def)
qed

lemma syscall_name:
  "fst (get_syscall_name None nr) = (if 0 \<le> nr \<and> nr \<le> 305 then snd (snd (syscall_table ! nat nr)) else ''unknown'')"
proof -
  have "fill_lookup (\<lambda>(a, x, n). n) ''unknown'' syscall_table ! n = (if n < 306 then snd (snd (syscall_table ! n)) else ''unknown'')"
    if "n < 1024" for n
    using that by (simp add: fill_lookup_nth table_distinct table_lookup case_prod_beta)
  from this [of "nat nr"] show ?thesis
    by (auto simp: get_syscall_name_def init_syscall_name_lookup_def Let_def)
qed

section \<open>Memory\<close>

text \<open>\<open>n'\<close> bytes from \<open>b\<close> and \<open>n\<close> bytes from \<open>a\<close> have none in common, \<open>d\<close> is \<open>b - a\<close>.\<close>

lemma word_far:
  fixes d k n n' :: u64
  assumes "n \<le> d" and "n' \<le> - d" and "k < n'"
  shows "\<not> d + k < n"
proof (cases "d = 0")
  case True
  with assms show ?thesis by simp
next
  case False
  then have m: "unat (- d) = 2 ^ 64 - unat d"
    using unat_sub_if' [of 0 d] by (auto simp: unsigned_eq_0_iff split: if_splits)
  have "unat d + unat k < 2 ^ 64"
    using assms m by (simp add: word_le_nat_alt word_less_nat_alt)
  then have "unat (d + k) = unat d + unat k"
    by (simp add: unat_add_lem [THEN iffD1])
  then show ?thesis
    using assms(1) by (simp add: word_le_nat_alt word_less_nat_alt)
qed

lemma write64_other:
  assumes "8 \<le> b - a" and "n \<le> a - b" and "k < n"
  shows "write64 m a v (b + k) = m (b + k)"
  using word_far [of 8 "b - a" n k] assms by (simp add: write64_def algebra_simps)

lemma write32_other:
  assumes "4 \<le> b - a" and "n \<le> a - b" and "k < n"
  shows "write32 m a v (b + k) = m (b + k)"
  using word_far [of 4 "b - a" n k] assms by (simp add: write32_def algebra_simps)

lemma read32_write64_apart: "8 \<le> b - a \<Longrightarrow> 4 \<le> a - b \<Longrightarrow> read32 (write64 m a v) b = read32 m b"
  using write64_other [of b a 4 0 m v] write64_other [of b a 4 1 m v] write64_other [of b a 4 2 m v] write64_other [of b a 4 3 m v]
  by (simp add: read32_def)

lemma read64_write32_apart: "4 \<le> b - a \<Longrightarrow> 8 \<le> a - b \<Longrightarrow> read64 (write32 m a v) b = read64 m b"
  using write32_other [of b a 8 0 m v] write32_other [of b a 8 1 m v] write32_other [of b a 8 2 m v] write32_other [of b a 8 3 m v]
    write32_other [of b a 8 4 m v] write32_other [of b a 8 5 m v] write32_other [of b a 8 6 m v] write32_other [of b a 8 7 m v]
  by (simp add: read64_def)

lemma read32_write32_apart: "4 \<le> b - a \<Longrightarrow> 4 \<le> a - b \<Longrightarrow> read32 (write32 m a v) b = read32 m b"
  using write32_other [of b a 4 0 m v] write32_other [of b a 4 1 m v] write32_other [of b a 4 2 m v] write32_other [of b a 4 3 m v]
  by (simp add: read32_def)

text \<open>Two areas of 144 bytes, the size of the structure, that do not overlap.\<close>

definition stat_apart :: "ptr \<Rightarrow> ptr \<Rightarrow> bool" where
  "stat_apart p q \<longleftrightarrow> 144 \<le> p - q \<and> 144 \<le> q - p"

lemma stat_apart_offsets:
  assumes "stat_apart p q" and "i \<le> 136" and "j \<le> 136"
  shows "8 \<le> (p + i) - (q + j)"
proof -
  let ?d = "p - q"
  have d: "144 \<le> unat ?d" "144 \<le> unat (- ?d)" using assms(1) by (simp_all add: stat_apart_def word_le_nat_alt)
  have m: "unat (- ?d) = 2 ^ 64 - unat ?d"
    using d unat_sub_if' [of 0 ?d] by (simp split: if_splits)
  have "unat (?d + i) = unat ?d + unat i"
    using assms(2) d m by (intro unat_add_lem [THEN iffD1]) (simp add: word_le_nat_alt)
  then have "unat (?d + i - j) = unat ?d + unat i - unat j"
    using assms(3) d by (simp add: unat_sub_if' word_le_nat_alt)
  then have "8 \<le> ?d + i - j"
    using assms(3) d by (simp add: word_le_nat_alt)
  then show ?thesis by (simp add: algebra_simps)
qed

lemma stat_apart_sym: "stat_apart p q \<Longrightarrow> stat_apart q p"
  by (simp add: stat_apart_def)

lemma le_8_4: "8 \<le> (d :: u64) \<Longrightarrow> 4 \<le> d"
  by (simp add: word_le_nat_alt)

lemmas stat_far = stat_apart_offsets stat_apart_offsets [THEN le_8_4]

text \<open>A member read from the source of the copy, from the member that is copied, and from another one.\<close>

lemma read_copy_src:
  assumes "stat_apart s d" and "off \<le> 136" and "j \<le> 136"
  shows "read64 (copy64 f s d off m) (s + j) = read64 m (s + j)" and "read32 (copy64 f s d off m) (s + j) = read32 m (s + j)"
    and "read64 (copy32 s d off m) (s + j) = read64 m (s + j)" and "read32 (copy32 s d off m) (s + j) = read32 m (s + j)"
  using assms stat_apart_sym [OF assms(1)]
  by (simp_all add: copy64_def copy32_def read64_write64_apart apart_def read32_write64_apart read64_write32_apart
      read32_write32_apart stat_far)

lemma read_copy_dst:
  "read64 (copy64 f s d off m) (d + off) = f (read64 m (s + off))"
  "read32 (copy32 s d off m) (d + off) = read32 m (s + off)"
  by (simp_all add: copy64_def copy32_def)

lemma read_copy_other:
  "8 \<le> j - off \<Longrightarrow> 8 \<le> off - j \<Longrightarrow> read64 (copy64 f s d off m) (d + j) = read64 m (d + j)"
  "8 \<le> j - off \<Longrightarrow> 4 \<le> off - j \<Longrightarrow> read32 (copy64 f s d off m) (d + j) = read32 m (d + j)"
  "4 \<le> j - off \<Longrightarrow> 8 \<le> off - j \<Longrightarrow> read64 (copy32 s d off m) (d + j) = read64 m (d + j)"
  "4 \<le> j - off \<Longrightarrow> 4 \<le> off - j \<Longrightarrow> read32 (copy32 s d off m) (d + j) = read32 m (d + j)"
  by (simp_all add: copy64_def copy32_def read64_write64_apart apart_def read32_write64_apart read64_write32_apart read32_write32_apart)

lemmas read_copy_first = read_copy_src [where j = 0, simplified] read_copy_dst [where off = 0, simplified]
  read_copy_other [where j = 0, simplified]

lemma get_stat_back:
  assumes "stat_apart s d"
  shows "get_stat (stat_back s d m) d =
    (get_stat m s)\<lparr>xst_nlink := cut_uint32 (xst_nlink (get_stat m s)), xst_blksize := cut_int32 (xst_blksize (get_stat m s)),
       xst_pad0 := xst_pad0 (get_stat m d), xst_unused := xst_unused (get_stat m d)\<rparr>"
  using assms by (simp add: stat_back_def get_stat_def Let_def read_copy_src read_copy_dst read_copy_other read_copy_first)

lemma copy_outside:
  assumes "144 \<le> x - d" and "off \<le> 136"
  shows "copy64 f s d off m x = m x" and "copy32 s d off m x = m x"
proof -
  have "unat (x - d - off) = unat (x - d) - unat off"
    using assms by (simp add: unat_sub_if' word_le_nat_alt)
  then have "\<not> x - (d + off) < 8" "\<not> x - (d + off) < 4"
    using assms by (simp_all add: word_le_nat_alt word_less_nat_alt diff_diff_add)
  then show "copy64 f s d off m x = m x" and "copy32 s d off m x = m x"
    by (simp_all add: copy64_def copy32_def write64_def write32_def)
qed

lemma stat_back_outside: "144 \<le> x - d \<Longrightarrow> stat_back s d m x = m x"
  by (simp add: stat_back_def Let_def copy_outside)

section \<open>Calls\<close>

abbreviation filled :: "int list" where
  "filled \<equiv> fill_lookup (\<lambda>(a, x, n). x) (- 1) syscall_table"

lemma table_range: "\<not> (0 \<le> nr \<and> nr < int SYSCALL_TABLE_MAX_NR) \<Longrightarrow> map_of syscall_table nr = None"
  by (auto simp: map_of_eq_None_iff table_numbers simp flip: set_map)

lemma filled_searched:
  "0 \<le> nr \<Longrightarrow> nr < int SYSCALL_TABLE_MAX_NR \<Longrightarrow>
   fill_lookup f d syscall_table ! nat nr = (case map_of syscall_table nr of None \<Rightarrow> d | Some v \<Rightarrow> f (nr, v))"
  by (elim nonneg_int_cases) (clarsimp simp: fill_lookup_nth table_distinct split: option.split)

text \<open>
  C33: the arrays answer as a search of the table does. The number of the host for a system call of the guest is the one in the
  entry of the table with the number of the guest, and -1 if there is none, for every number and whether or not the
  array has been filled before, and so is the name, with \<open>unknown\<close> where there is no entry. A call whose number is
  not in the table is answered with \<open>-ENOSYS\<close>, without entering the kernel and without a change of memory.
\<close>

theorem syscall_tables_searched:
  assumes "lookup_ok (sy_lookup s)"
  shows "fst (translate_syscall_number (sy_lookup s) nr) = (case map_of syscall_table nr of None \<Rightarrow> - 1 | Some (x, n) \<Rightarrow> x) \<and>
    lookup_ok (snd (translate_syscall_number (sy_lookup s) nr)) \<and>
    fst (get_syscall_name None nr) = (case map_of syscall_table nr of None \<Rightarrow> ''unknown'' | Some (x, n) \<Rightarrow> n) \<and>
    fst (get_syscall_name (snd (get_syscall_name None k)) nr) = fst (get_syscall_name None nr) \<and>
    (map_of syscall_table nr = None \<longrightarrow>
      do_translated_syscall sysenter set_fs left left' stack nr a0 a1 a2 a3 a4 a5 s = (- 38, s\<lparr>sy_lookup := Some filled\<rparr>))"
proof -
  have i: "init_syscall_lookup (sy_lookup s) = filled" using assms by (auto simp: lookup_ok_def init_syscall_lookup_def)
  have t: "translate_syscall_number (sy_lookup s) nr =
      (case map_of syscall_table nr of None \<Rightarrow> - 1 | Some (x, n) \<Rightarrow> x, Some filled)"
    using table_range [of nr] filled_searched [of nr "\<lambda>(a, x, n). x" "- 1"]
    by (auto simp: translate_syscall_number_def i Let_def split: option.splits)
  moreover have "fst (get_syscall_name None nr) = (case map_of syscall_table nr of None \<Rightarrow> ''unknown'' | Some (x, n) \<Rightarrow> n)"
    using table_range [of nr] filled_searched [of nr "\<lambda>(a, x, n). n" "''unknown''"]
    by (auto simp: get_syscall_name_def init_syscall_name_lookup_def Let_def split: option.splits)
  ultimately show ?thesis
    by (simp add: lookup_ok_def do_translated_syscall_def get_syscall_name_def init_syscall_name_lookup_def Let_def)
qed

definition regs0 :: sysregs where
  "regs0 = \<lparr>sr_rax = 0, sr_rdi = 0, sr_rsi = 0, sr_rdx = 0, sr_r10 = 0, sr_r8 = 0, sr_r9 = 0\<rparr>"

definition sys0 :: sys_state where
  "sys0 = \<lparr>sy_lookup = None, sy_tls_base = 0, sy_fs_base = 0, sy_memory = (\<lambda>_. 0)\<rparr>"

theorem syscall_tables_searched_witness:
  "fst (translate_syscall_number (sy_lookup sys0) 305) = 305 \<and> fst (get_syscall_name None 305) = ''futex_requeue'' \<and>
   do_translated_syscall (\<lambda>r m. (0, m)) (\<lambda>_. True) regs0 regs0 0x1000 306 1 0x2000 5 0 0 0 sys0 =
     (- 38, sys0\<lparr>sy_lookup := Some filled\<rparr>)"
proof -
  have l: "lookup_ok (sy_lookup sys0)" by (simp add: lookup_ok_def sys0_def)
  have "syscall_table ! 305 = (305, 305, ''futex_requeue'')" by code_simp
  then have "map_of syscall_table 305 = Some (305, ''futex_requeue'')" "map_of syscall_table 306 = None"
    using table_lookup [of 305] table_lookup [of 306] by simp_all
  with syscall_tables_searched [OF l, of 305] syscall_tables_searched [OF l, of 306]
  show ?thesis by simp
qed

text \<open>
  Both columns of the table are the numbers of A64. So a system call of the guest enters the host's kernel under the number of the
  guest, and not under the number that the host has for the call, as the comments say: what the kernel does under other
  numbers makes no difference (after \<open>clone\<close> there is one more call, under 0x1002).
\<close>

lemma syscall_number_passed_on:
  assumes "lookup_ok (sy_lookup s)"
  shows "(nr < 0 \<or> 305 < nr \<longrightarrow>
        do_translated_syscall sysenter set_fs left left' stack nr a0 a1 a2 a3 a4 a5 s = (- 38, s\<lparr>sy_lookup := Some filled\<rparr>)) \<and>
      ((\<forall>r m. sr_rax r = nr \<or> nr = 220 \<and> sr_rax r = 0x1002 \<longrightarrow> sysenter' r m = sysenter r m) \<longrightarrow>
        do_translated_syscall sysenter' set_fs left left' stack nr a0 a1 a2 a3 a4 a5 s =
        do_translated_syscall sysenter set_fs left left' stack nr a0 a1 a2 a3 a4 a5 s) \<and>
      (0 \<le> nr \<and> nr \<le> 305 \<and> nr \<notin> {79, 80, 128, 220} \<longrightarrow>
        do_translated_syscall sysenter set_fs left left' stack nr a0 a1 a2 a3 a4 a5 s =
          (let (result, m) = sysenter (left\<lparr>sr_rax := nr, sr_rdi := a0, sr_rsi := a1, sr_rdx := a2\<rparr>) (sy_memory s)
           in (ucast result, s\<lparr>sy_lookup := Some filled, sy_memory := m\<rparr>)))"
  using assms by (auto simp: do_translated_syscall_def translate_number bind_regs_def Let_def arm2x86_msr_tpidr_el0_def
      split: prod.splits)

text \<open>\<open>write\<close>, number 64 of the guest, arrives as number 64 and not as the 1 of the host.\<close>

lemma syscall_number_passed_on_witness:
  "do_translated_syscall (\<lambda>r m. (if sr_rax r = 1 then sr_rdx r else - 22, m)) (\<lambda>_. True) regs0 regs0 0x1000 64 1 0x2000 5 0 0 0 sys0 =
     (- 22, sys0\<lparr>sy_lookup := Some filled\<rparr>) \<and>
   do_translated_syscall (\<lambda>r m. (0, m)) (\<lambda>_. True) regs0 regs0 0x1000 306 1 0x2000 5 0 0 0 sys0 =
     (- 38, sys0\<lparr>sy_lookup := Some filled\<rparr>)"
proof -
  have "lookup_ok (sy_lookup sys0)" by (simp add: lookup_ok_def sys0_def)
  note w = syscall_number_passed_on [OF this]
  show ?thesis
    using w [of 64 "\<lambda>r m. (if sr_rax r = 1 then sr_rdx r else - 22, m)" "\<lambda>_. True" regs0 regs0 "0x1000" 1 "0x2000" 5 0 0 0]
      w [of 306 "\<lambda>r m. (0, m)" "\<lambda>_. True" regs0 regs0 "0x1000" 1 "0x2000" 5 0 0 0]
    by (simp add: sys0_def)
qed

text \<open>
  The case of \<open>fstat\<close>, for a kernel that writes a \<open>stat\<close> structure under the number 80 of the guest (the kernel of the host
  has \<open>chdir\<close> under this number, and writes none). Then a successful call fills the structure of the guest from what the kernel wrote into the local buffer, member by
  member: the number of links keeps its low 32 bits, the block size its low 32 bits with their sign, and padding and
  reserved words of the guest are left alone. Nothing else in memory changes. The buffer does not overlap the structure.
\<close>

lemma syscall_fstat_result:
  assumes "lookup_ok (sy_lookup s)" and "stat_apart stack arg1"
    and "sysenter (left\<lparr>sr_rax := 80, sr_rdi := arg0, sr_rsi := stack, sr_rdx := arg2\<rparr>) (sy_memory s) = (0, m)"
  shows "\<exists>s'. do_translated_syscall sysenter set_fs left left' stack 80 arg0 arg1 arg2 arg3 arg4 arg5 s = (0, s') \<and>
    get_stat (sy_memory s') arg1 =
      (get_stat m stack)\<lparr>xst_nlink := take_bit 32 (xst_nlink (get_stat m stack)),
         xst_blksize := signed_take_bit 31 (xst_blksize (get_stat m stack)),
         xst_pad0 := xst_pad0 (get_stat m arg1), xst_unused := xst_unused (get_stat m arg1)\<rparr> \<and>
    (\<forall>x. 144 \<le> x - arg1 \<longrightarrow> sy_memory s' x = m x)"
proof -
  have "cut_uint32 v = take_bit 32 v" "cut_int32 v = signed_take_bit 31 v" for v
    by (rule bit_word_eqI; auto simp: cut_uint32_def cut_int32_def bit_simps min_def)+
  then show ?thesis
    using assms by (simp add: do_translated_syscall_def translate_number bind_regs_def get_stat_back stat_back_outside)
qed

lemma syscall_fstat_witness:
  "\<exists>s'. do_translated_syscall (\<lambda>r m. (0, write64 m (sr_rsi r + 16) 0x100000003)) (\<lambda>_. True) regs0 regs0 0x1000 80 3 0x2000 0 0 0 0 sys0 =
      (0, s') \<and> xst_nlink (get_stat (sy_memory s') 0x2000) = 3"
proof -
  let ?k = "\<lambda>r m. (0, write64 m (sr_rsi r + 16) 0x100000003)"
  have n: "xst_nlink (get_stat (write64 m (0x1000 + 16) 0x100000003) 0x1000) = 0x100000003" for m
    unfolding get_stat_def by (simp only: read64_write64_same stat.simps)
  have "lookup_ok (sy_lookup sys0)" "stat_apart 0x1000 0x2000" by (simp_all add: lookup_ok_def sys0_def stat_apart_def)
  from syscall_fstat_result [OF this, where sysenter = ?k and left = regs0 and left' = regs0 and ?arg0.0 = 3 and ?arg2.0 = 0 and set_fs = "\<lambda>_. True" and ?arg3.0 = 0 and ?arg4.0 = 0 and ?arg5.0 = 0] n [of "sy_memory sys0"]
  show ?thesis by (force simp: regs0_def)
qed

text \<open>\<open>newfstatat\<close> passes its buffer where the path belongs, and on success overwrites the path of the guest.\<close>

lemma newfstatat_path_lost:
  assumes "lookup_ok (sy_lookup s)"
    and "sysenter (left\<lparr>sr_rax := 79, sr_rdi := arg0, sr_rsi := stack, sr_rdx := arg2\<rparr>) (sy_memory s) = (0, m)"
  shows "do_translated_syscall sysenter set_fs left left' stack 79 arg0 path arg2 arg3 arg4 arg5 s =
    (0, s\<lparr>sy_lookup := Some filled, sy_memory := stat_back stack path m\<rparr>)"
  using assms by (simp add: do_translated_syscall_def translate_number bind_regs_def)

text \<open>In the table 220 is \<open>mprotect\<close> and \<open>clone\<close> is 214; the call under 220 is treated as \<open>clone\<close>.\<close>

lemma clone_is_mprotect:
  "fst (get_syscall_name None 220) = ''mprotect''" "fst (get_syscall_name None 214) = ''clone''"
  by (simp_all add: syscall_name syscall_table_def)

lemma clone_clears_settls:
  assumes "lookup_ok (sy_lookup s)" and "arg0 AND CLONE_SETTLS \<noteq> 0"
    and "sysenter (left\<lparr>sr_rax := 220, sr_rdi := ucast (ucast arg0 AND NOT 0x80000 :: u32), sr_rsi := arg1, sr_rdx := arg2\<rparr>) (sy_memory s) = (0, m)"
  shows "\<exists>s'. do_translated_syscall sysenter set_fs left left' stack 220 arg0 arg1 arg2 arg3 tls arg5 s = (0, s') \<and>
    arm2x86_mrs_tpidr_el0 s' = tls \<and> (set_fs tls \<longrightarrow> sy_fs_base s' = tls) \<and>
    sy_memory s' = snd (sysenter (left'\<lparr>sr_rax := 0x1002, sr_rdi := tls\<rparr>) m)"
  using assms by (simp add: do_translated_syscall_def translate_number bind_regs_def Let_def arm2x86_msr_tpidr_el0_def
      arch_prctl_set_fs_def arm2x86_mrs_tpidr_el0_def)

section \<open>The checksum\<close>

text \<open>The helper is CRC-32 without the inversions at start and end, over the low bits of the data.\<close>

lemma crc32_ieee802_3_serial:
  "crc32_ieee802_3 crc data (int n) = foldl crc_bit crc (map (bit data) [0..<8 * n])"
proof -
  let ?step = "\<lambda>(crc, data). (drop_bit 8 crc XOR crc32_table ((crc XOR ucast (ucast data :: u8)) AND 0xFF), drop_bit 8 data)"
  have byte: "drop_bit 8 c XOR crc32_table ((c XOR ucast (ucast (drop_bit k data) :: u8)) AND 0xFF) =
      foldl crc_bit c (map (bit data) [k..<k + 8])" for c k
  proof -
    have "map (bit (ucast (drop_bit k data) :: u8)) [0..<8] = map (bit data) [k..<k + 8]"
      by (rule nth_equalityI) (auto simp: bit_simps)
    then show ?thesis using crc_table_byte [of c "ucast (drop_bit k data)"] by (simp add: xor.commute)
  qed
  have "(?step ^^ n) (crc, data) = (foldl crc_bit crc (map (bit data) [0..<8 * n]), drop_bit (8 * n) data)"
  proof (induction n)
    case (Suc n)
    have "[0..<8 * Suc n] = [0..<8 * n] @ [8 * n..<8 * n + 8]"
      using upt_add_eq_append [of 0 "8 * n" 8] by (simp add: add.commute)
    then show ?case using Suc byte [of _ "8 * n"] by (simp add: add.commute)
  qed simp
  then show ?thesis by (simp add: crc32_ieee802_3_def)
qed

end
