(* ===== verification/Hotblock.thy ===== *)
theory Hotblock
  imports Peephole X86_Machine Hit_Table
begin

text \<open>
  \<open>src/modules/arm2x86_hotblock.c\<close>: blocks that are hit often are rewritten by four passes over their machine code.

  A pass reads the code as a memory, a function from offsets, so that what lies behind the end can be read as well (the
  patterns look ahead without a check), and writes a list of bytes. All passes are one loop over a step that looks at a
  position and gives the number of bytes consumed, the bytes written and a number of optimizations; a step that
  consumes nothing would not end, and the loop is then \<open>None\<close>.
\<close>

section \<open>Passes\<close>

type_synonym 's pass = "memory \<Rightarrow> nat \<Rightarrow> 's \<Rightarrow> nat \<times> code \<times> 's \<times> nat"

function pass_loop :: "'s pass \<Rightarrow> memory \<Rightarrow> nat \<Rightarrow> nat \<Rightarrow> 's \<Rightarrow> (code \<times> nat \<times> nat) option" where
  "pass_loop stp m stop p s =
     (if p < stop then
        (let (len, out, s', k) = stp m p s
         in if len = 0 then None
            else map_option (\<lambda>(rest, q, n). (out @ rest, q, k + n)) (pass_loop stp m stop (p + len) s'))
      else Some ([], p, 0))"
  by auto
termination by (relation "measure (\<lambda>(stp, m, stop, p, s). stop - p)") auto

declare pass_loop.simps [simp del]

text \<open>The code and the number of optimizations, after the bytes behind \<open>stop\<close> have been copied.\<close>

definition finish :: "memory \<Rightarrow> nat \<Rightarrow> (code \<times> nat \<times> nat) option \<Rightarrow> (code \<times> nat) option" where
  "finish m n = map_option (\<lambda>(out, q, k). (out @ bytes_at m q (n - q), k))"

definition reg_mode :: "u8 \<Rightarrow> bool" where
  "reg_mode md \<longleftrightarrow> drop_bit 6 md = 3"

definition reg_of :: "u8 \<Rightarrow> u8" where
  "reg_of md = drop_bit 3 md AND 7"

definition rm_of :: "u8 \<Rightarrow> u8" where
  "rm_of md = md AND 7"

section \<open>Constants\<close>

definition cp_step :: "((u8 \<Rightarrow> u64) \<times> (u8 \<Rightarrow> bool)) pass" where
  "cp_step m p s =
     (let (reg_constants, reg_is_const) = s; b0 = m p; b1 = m (p + 1); md = m (p + 2)
      in if b0 = 0x48 \<and> 0xB8 \<le> b1 \<and> b1 \<le> 0xBF then
           (let reg = b1 - 0xB8
            in (10, bytes_at m p 10, (reg_constants(reg := rd64 m (p + 2)), reg_is_const(reg := True)), 1))
         else
           (let zero = b0 = 0x48 \<and> b1 = 0x31 \<and> reg_mode md \<and> reg_of md = rm_of md;
                reg_constants = (if zero then reg_constants(reg_of md := 0) else reg_constants);
                reg_is_const = (if zero then reg_is_const(reg_of md := True) else reg_is_const);
                k = (if zero then 1 else 0)
            in if b0 = 0x48 \<and> b1 = 0x01 \<and> reg_mode md \<and> reg_is_const (reg_of md) \<and> reg_is_const (rm_of md) then
                 (let reg = reg_of md; result = reg_constants reg + reg_constants (rm_of md)
                  in (3, [0x48, 0xB8 + reg] @ le64 result, (reg_constants(reg := result), reg_is_const), k + 1))
               else if b0 = 0x48 \<and> b1 = 0x81 \<and> md AND 0xF8 = 0xE0 \<and> reg_is_const (rm_of md) then
                 (let reg = rm_of md; result = reg_constants reg AND ucast (rd32 m (p + 3))
                  in (7, [0x48, 0xB8 + reg] @ le64 result, (reg_constants(reg := result), reg_is_const), k + 1))
               else (1, [b0], (reg_constants, reg_is_const), k)))"

definition optimize_constant_propagation :: "memory \<Rightarrow> nat \<Rightarrow> (code \<times> nat) option" where
  "optimize_constant_propagation m n = finish m n (pass_loop cp_step m n 0 (\<lambda>_. 0, \<lambda>_. False))"

section \<open>Dead code\<close>

text \<open>The first test asks for a ModR/M byte below 0xC0 and for register mode.\<close>

definition dce_step :: "nat \<Rightarrow> unit pass" where
  "dce_step n m p s =
     (let b0 = m p; b1 = m (p + 1); md = m (p + 2); dead = None;
          dead = (if b0 = 0x48 \<and> b1 = 0x89 \<and> md < 0xC0 \<and> reg_mode md \<and> reg_of md = rm_of md then Some 3 else dead);
          dead = (if b0 = 0x90 then Some 1 else dead);
          dead = (if b0 = 0x48 \<and> b1 = 0x8D \<and> md = 0x04 \<and> m (p + 3) AND 0xC7 = 0x05 then Some 4 else dead);
          dead = (if b0 = 0x48 \<and> b1 = 0x85 \<and> reg_mode md \<and> reg_of md = rm_of md \<and> p + 3 < n \<and> m (p + 3) \<noteq> 0x0F
                  then Some 3 else dead)
      in case dead of Some len \<Rightarrow> (len, [], s, 1) | None \<Rightarrow> (1, [b0], s, 0))"

definition optimize_dead_code_elimination :: "memory \<Rightarrow> nat \<Rightarrow> (code \<times> nat) option" where
  "optimize_dead_code_elimination m n = finish m n (pass_loop (dce_step n) m n 0 ())"

section \<open>Fusion\<close>

definition fusion_step :: "nat \<Rightarrow> unit pass" where
  "fusion_step n m p s =
     (if m p = 0x48 \<and> m (p + 1) = 0x81 \<and> m (p + 2) = 0xF8 \<and> p + 7 < n \<and> m (p + 7) = 0x0F \<and> m (p + 8) = 0x84 then
        (13, [0x48, 0x85, 0xC0, 0x0F, 0x84] @ bytes_at m (p + 9) 4, s, 1)
      else if m p = 0x48 \<and> m (p + 1) = 0x29 \<and> reg_mode (m (p + 2)) \<and> reg_of (m (p + 2)) = rm_of (m (p + 2)) \<and>
              p + 3 + 2 < n \<and> m (p + 3) = 0x48 \<and> m (p + 4) = 0x19 \<and> reg_mode (m (p + 5)) \<and> reg_of (m (p + 5)) = rm_of (m (p + 5)) then
        (6, [0x48, 0x31, m (p + 2), 0x48, 0x19, m (p + 5)], s, 1)
      else if m p = 0x48 \<and> m (p + 1) = 0x81 \<and> m (p + 2) AND 0xF8 = 0xE0 \<and> p + 7 < n \<and> m (p + 7) = 0x0F \<and>
              (m (p + 8) = 0x84 \<or> m (p + 8) = 0x85) then
        (13, [0x48, 0xF7, 0xC0 OR rm_of (m (p + 2))] @ bytes_at m (p + 3) 4 @ [0x0F, m (p + 8)] @ bytes_at m (p + 9) 4, s, 1)
      else if m p = 0x48 \<and> m (p + 1) = 0x39 \<and> p + 3 + 2 < n \<and> m (p + 3) = 0x0F \<and> 0x90 \<le> m (p + 4) \<and> m (p + 4) \<le> 0x9F then
        (6, bytes_at m p 6, s, 1)
      else (1, [m p], s, 0))"

definition optimize_instruction_fusion :: "memory \<Rightarrow> nat \<Rightarrow> (code \<times> nat) option" where
  "optimize_instruction_fusion m n = finish m n (pass_loop (fusion_step n) m (n - 5) 0 ())"

section \<open>Loops\<close>

text \<open>\<open>while (scan < end - 2) { if (scan[0] == 0xe2) ...; scan++; }\<close>, as the distance from the start.\<close>

definition find_loop :: "memory \<Rightarrow> nat \<Rightarrow> nat \<Rightarrow> nat option" where
  "find_loop m n start = first_index (\<lambda>b. b = 0xe2) (bytes_at m start (n - 2 - start))"

definition has_control_flow :: "code \<Rightarrow> bool" where
  "has_control_flow body \<longleftrightarrow>
     (\<exists>i<length body. body ! i = 0x0f \<and> i + 1 < length body \<and> 0x80 \<le> body ! (i + 1) \<and> body ! (i + 1) \<le> 0x8f \<or>
        body ! i = 0xe8 \<or> body ! i = 0xc3 \<or> body ! i = 0xc2)"

definition copies :: "nat \<Rightarrow> code \<Rightarrow> code" where
  "copies k body = concat (replicate k body)"

text \<open>Some of the iterations unrolled, and the rest as a loop.\<close>

definition unroll_part :: "nat \<Rightarrow> u32 \<Rightarrow> code \<Rightarrow> code" where
  "unroll_part factor count body =
     copies factor body @ [0xb9] @ le32 (count - of_nat factor) @ body @ [0xe2, of_int (- (int (length body) + 5))]"

definition unroll_counted :: "memory \<Rightarrow> nat \<Rightarrow> nat \<Rightarrow> nat \<times> code \<times> nat" where
  "unroll_counted m n p =
     (let count = rd32 m (p + 1); start = p + 5; copy = (1, [m p], 0)
      in case find_loop m n start of
           None \<Rightarrow> copy
         | Some sz \<Rightarrow>
             (let body = bytes_at m start sz; next = 5 + sz + 2
              in if count = 0 then (next, [], 1)
                 else if sz = 0 \<or> has_control_flow body then copy
                 else if count \<le> 8 then
                   (if unat count * sz < 1024 then (next, copies (unat count) body, 1) else copy)
                 else if count \<le> 32 then
                   (if 8 * sz + 7 < 2048 then (next, unroll_part 8 count body, 1) else copy)
                 else if count \<le> 64 then
                   (if 4 * sz + 7 < 2048 then (next, unroll_part 4 count body, 1) else copy)
                 else copy))"

definition unroll_short :: "memory \<Rightarrow> nat \<Rightarrow> nat \<Rightarrow> nat \<times> code \<times> nat" where
  "unroll_short m n p =
     (let count = m (p + 3); start = p + 4; copy = (1, [m p], 0)
      in case find_loop m n start of
           None \<Rightarrow> copy
         | Some sz \<Rightarrow>
             (let body = bytes_at m start sz; next = 4 + sz + 2
              in if sz = 0 \<or> (\<exists>i<min sz 256. body ! i = 0xe8 \<or> body ! i = 0xc3 \<or> body ! i = 0xc2) then copy
                 else if count \<le> 8 then (next, copies (unat count) body, 1)
                 else if count \<le> 32 then
                   (next, copies 8 body @ [0xb0, count - 8, 0x0f, 0xb6, 0xc8] @ body @ [0xe2, of_int (- (int sz + 8))], 1)
                 else copy))"

text \<open>The tests for the third to fifth pattern only compute values that nothing reads.\<close>

definition unroll_step :: "nat \<Rightarrow> unit pass" where
  "unroll_step n m p s =
     (let (len, out, k) =
        (if m p = 0xb9 then unroll_counted m n p
         else if m p = 0x31 \<and> m (p + 1) = 0xc9 \<and> m (p + 2) = 0xb0 then unroll_short m n p
         else (1, [m p], 0))
      in (len, out, s, k))"

definition optimize_loop_unrolling :: "memory \<Rightarrow> nat \<Rightarrow> (code \<times> nat) option" where
  "optimize_loop_unrolling m n = finish m n (pass_loop (unroll_step n) m (n - 10) 0 ())"

section \<open>The passes in a row\<close>

text \<open>\<open>x86_entry\<close> is the memory from the entry of the block on; \<open>junk i\<close> is what the allocated buffer \<open>i\<close> held before.\<close>

record HotBlock =
  hb_arm_pc :: u64
  hb_x86_entry :: "memory option"
  hb_hit_count :: u32
  hb_x86_optimized :: "code option"
  hb_flags :: u32
  hb_last_access :: u64

abbreviation (input) BUFFER_SIZE :: nat where "BUFFER_SIZE \<equiv> 256 * 64"

definition buffer :: "code \<Rightarrow> memory \<Rightarrow> memory" where
  "buffer out junk = (\<lambda>i. if i < length out then out ! i else junk i)"

text \<open>One phase: the current code, its sz, whether it is a buffer of its own, and the count.\<close>

type_synonym phase_state = "memory \<times> nat \<times> bool \<times> nat"

definition run_phase :: "bool \<Rightarrow> memory \<Rightarrow> (memory \<Rightarrow> nat \<Rightarrow> (code \<times> nat) option) \<Rightarrow> phase_state \<Rightarrow> phase_state option" where
  "run_phase ok junk pass st =
     (case st of (m, n, own, tot) \<Rightarrow>
        if \<not> ok then Some st
        else map_option (\<lambda>(out, k). if 0 < k then (buffer out junk, length out, True, tot + k) else st) (pass m n))"

definition hotblock_apply_optimizations :: "(nat \<Rightarrow> bool) \<Rightarrow> (nat \<Rightarrow> memory) \<Rightarrow> HotBlock \<Rightarrow> (nat \<times> HotBlock) option" where
  "hotblock_apply_optimizations ok junk block =
     (case hb_x86_entry block of
        None \<Rightarrow> Some (0, block)
      | Some entry \<Rightarrow>
          if \<not> ok 0 then Some (0, block)
          else
            (let st = run_phase (ok 1) (junk 1) optimize_dead_code_elimination (entry, 256, False, 0);
                 st = Option.bind st (run_phase (ok 2) (junk 2) optimize_constant_propagation);
                 st = Option.bind st (run_phase (ok 3) (junk 3) optimize_instruction_fusion);
                 st = Option.bind st (run_phase (ok 4) (junk 4) optimize_loop_unrolling)
             in map_option (\<lambda>(m, n, own, tot).
                  (tot,
                   if 0 < tot \<and> own then block\<lparr>hb_x86_optimized := if ok 5 then Some (bytes_at m 0 n) else None\<rparr>
                   else block)) st))"

section \<open>The manager\<close>

record HotBlockManager =
  hm_blocks :: "HotBlock list"
  hm_total_retranslations :: u32

abbreviation (input) HOT_BLOCK_MAX :: nat where "HOT_BLOCK_MAX \<equiv> 1024"
abbreviation (input) HOT_BLOCK_THRESHOLD :: u32 where "HOT_BLOCK_THRESHOLD \<equiv> 100"
abbreviation (input) HOT_BLOCK_AGGRESSIVE :: u32 where "HOT_BLOCK_AGGRESSIVE \<equiv> 1000"
abbreviation (input) HOT_FLAG_MARKED :: u32 where "HOT_FLAG_MARKED \<equiv> 1"
abbreviation (input) HOT_FLAG_RETRANSLATED :: u32 where "HOT_FLAG_RETRANSLATED \<equiv> 2"
abbreviation (input) HOT_FLAG_AGGRESSIVE :: u32 where "HOT_FLAG_AGGRESSIVE \<equiv> 4"

definition hotblock_init :: HotBlockManager where
  "hotblock_init = \<lparr>hm_blocks = [], hm_total_retranslations = 0\<rparr>"

definition hotblock_destroy :: "HotBlockManager \<Rightarrow> HotBlockManager" where
  "hotblock_destroy hbm = \<lparr>hm_blocks = [], hm_total_retranslations = 0\<rparr>"

definition hotblock_lookup :: "HotBlockManager \<Rightarrow> u64 \<Rightarrow> nat option" where
  "hotblock_lookup hbm arm_pc = first_index (\<lambda>b. hb_arm_pc b = arm_pc) (hm_blocks hbm)"

definition hotblock_should_retranslate :: "HotBlock \<Rightarrow> bool" where
  "hotblock_should_retranslate block \<longleftrightarrow> HOT_BLOCK_THRESHOLD \<le> hb_hit_count block"

definition hotblock_retranslate :: "(nat \<Rightarrow> bool) \<Rightarrow> (nat \<Rightarrow> memory) \<Rightarrow> u32 \<Rightarrow> HotBlock \<Rightarrow> (nat \<times> u32 \<times> HotBlock) option" where
  "hotblock_retranslate ok junk tot block =
     (if hb_flags block AND HOT_FLAG_RETRANSLATED \<noteq> 0 then Some (0, tot, block)
      else map_option (\<lambda>(opt_count, block).
        (let (tot, block) = (if 0 < opt_count then (tot + 1, block\<lparr>hb_flags := hb_flags block OR HOT_FLAG_RETRANSLATED\<rparr>) else (tot, block));
             block = (if HOT_BLOCK_AGGRESSIVE \<le> hb_hit_count block then block\<lparr>hb_flags := hb_flags block OR HOT_FLAG_AGGRESSIVE\<rparr> else block)
         in (opt_count, tot, block))) (hotblock_apply_optimizations ok junk block))"

definition new_hot_block :: "u64 \<Rightarrow> memory \<Rightarrow> HotBlock" where
  "new_hot_block arm_pc x86_entry =
     \<lparr>hb_arm_pc = arm_pc, hb_x86_entry = Some x86_entry, hb_hit_count = 0, hb_x86_optimized = None, hb_flags = 0, hb_last_access = 0\<rparr>"

text \<open>The block of the address, which is created if there is none, instead of the one that was hit longest ago if all are in use.\<close>

definition hot_slot :: "HotBlockManager \<Rightarrow> u64 \<Rightarrow> memory \<Rightarrow> nat \<times> HotBlock list" where
  "hot_slot hbm arm_pc x86_entry =
     (let bs = hm_blocks hbm
      in case hotblock_lookup hbm arm_pc of
           Some i \<Rightarrow> (i, bs)
         | None \<Rightarrow>
             if HOT_BLOCK_MAX \<le> length bs
             then (let lru = least_hit (\<lambda>b. uint (hb_last_access b)) bs in (lru, bs[lru := new_hot_block arm_pc x86_entry]))
             else (length bs, bs @ [new_hot_block arm_pc x86_entry]))"

definition hotblock_record_hit :: "(nat \<Rightarrow> bool) \<Rightarrow> (nat \<Rightarrow> memory) \<Rightarrow> u64 \<Rightarrow> HotBlockManager \<Rightarrow> u64 \<Rightarrow> memory option
    \<Rightarrow> (u32 \<times> HotBlockManager) option" where
  "hotblock_record_hit ok junk now hbm arm_pc x86_entry =
     (case x86_entry of
        None \<Rightarrow> Some (- 1, hbm)
      | Some entry \<Rightarrow>
          (let (i, bs) = hot_slot hbm arm_pc entry;
               block = (bs ! i)\<lparr>hb_hit_count := hb_hit_count (bs ! i) + 1, hb_last_access := now\<rparr>
           in if hotblock_should_retranslate block \<and> hb_flags block AND HOT_FLAG_RETRANSLATED = 0 then
                map_option (\<lambda>(rc, tot, block). (hb_hit_count block, \<lparr>hm_blocks = bs[i := block], hm_total_retranslations = tot\<rparr>))
                  (hotblock_retranslate ok junk (hm_total_retranslations hbm) (block\<lparr>hb_flags := hb_flags block OR HOT_FLAG_MARKED\<rparr>))
              else Some (hb_hit_count block, hbm\<lparr>hm_blocks := bs[i := block]\<rparr>)))"

section \<open>All passes return, and their buffers are large enough\<close>

definition good_step :: "'s pass \<Rightarrow> memory \<Rightarrow> nat \<Rightarrow> nat \<Rightarrow> nat \<Rightarrow> bool" where
  "good_step stp m stop B r \<longleftrightarrow>
     (\<forall>p s. p < stop \<longrightarrow> (case stp m p s of (len, out, s', k) \<Rightarrow> 0 < len \<and> p + len \<le> B \<and> length out \<le> r * len))"

lemma pass_loop_returns:
  assumes "good_step stp m stop B r"
  shows "\<exists>out q k. pass_loop stp m stop p s = Some (out, q, k) \<and> p \<le> q \<and> stop \<le> q \<and> q \<le> max p B \<and> length out \<le> r * (q - p)"
proof (induction "stop - p" arbitrary: p s rule: less_induct)
  case less
  show ?case
  proof (cases "p < stop")
    case False
    then show ?thesis by (simp add: pass_loop.simps [of stp m stop p s])
  next
    case True
    obtain len out s' k where st: "stp m p s = (len, out, s', k)" by (metis prod_cases4)
    have len: "0 < len" "p + len \<le> B" "length out \<le> r * len" using assms True by (auto simp: good_step_def st dest!: spec [of _ p] spec [of _ s])
    then have "stop - (p + len) < stop - p" using True by linarith
    from less [OF this, of s'] obtain rest q n where IH: "pass_loop stp m stop (p + len) s' = Some (rest, q, n)"
        "p + len \<le> q" "stop \<le> q" "q \<le> max (p + len) B" "length rest \<le> r * (q - (p + len))" by blast
    have "r * len + r * (q - (p + len)) = r * (q - p)"
      using IH(2) by (simp flip: distrib_left)
    then have "length (out @ rest) \<le> r * (q - p)" using len(3) IH(5) by simp
    moreover have "pass_loop stp m stop p s = Some (out @ rest, q, k + n)"
      using True len(1) by (simp add: pass_loop.simps [of stp m stop p s] st IH(1))
    ultimately show ?thesis using IH len by auto
  qed
qed

lemma finish_returns:
  assumes "good_step stp m stop B r" and "0 < r" and "n \<le> B"
  shows "\<exists>out k. finish m n (pass_loop stp m stop 0 s) = Some (out, k) \<and> length out \<le> r * B"
proof -
  from pass_loop_returns [OF assms(1), of 0 s]
  obtain out q k where l: "pass_loop stp m stop 0 s = Some (out, q, k)" "q \<le> B" "length out \<le> r * q" by auto
  have "r * B = r * q + r * (B - q)" using l(2) by (simp flip: distrib_left)
  moreover have "1 * (n - q) \<le> r * (B - q)" using assms(2,3) by (intro mult_le_mono) auto
  ultimately have "r * q + (n - q) \<le> r * B" by linarith
  then show ?thesis using l by (simp add: finish_def)
qed

lemma good_cp: "good_step cp_step m n (n + 9) 4"
  by (auto simp: good_step_def cp_step_def Let_def)

lemma good_dce: "good_step (dce_step n) m n (n + 3) 1"
  by (auto simp: good_step_def dce_step_def Let_def)

lemma good_fusion: "good_step (fusion_step n) m (n - 5) (n + 7) 1"
proof -
  have if_in: "a \<in> S \<Longrightarrow> b \<in> S \<Longrightarrow> (if c then a else b) \<in> S" for a b S c by simp
  have "fusion_step n m p s \<in> {(len, out, s', k). 0 < len \<and> p + len \<le> n + 7 \<and> length out \<le> 1 * len}" if "p < n - 5" for p s
    unfolding fusion_step_def by (intro if_in) (use that in auto)
  then show ?thesis by (auto simp: good_step_def)
qed

lemma length_copies [simp]: "length (copies k body) = k * length body"
  by (induction k) (simp_all add: copies_def)

lemma length_unroll_part [simp]: "length (unroll_part f c body) = f * length body + length body + 7"
  by (simp add: unroll_part_def)

lemma find_loop_Some: "find_loop m n start = Some sz \<Longrightarrow> start + sz + 2 < n"
  using first_index_Some [of "\<lambda>b. b = 0xe2" "bytes_at m start (n - 2 - start)" sz] by (auto simp: find_loop_def)

lemma unat_le_8: "(c :: u32) \<le> 8 \<Longrightarrow> unat c \<le> 8" "(d :: u8) \<le> 8 \<Longrightarrow> unat d \<le> 8"
  by (simp_all add: word_le_nat_alt)

lemma unroll_counted_good:
  assumes "unroll_counted m n p = (len, out, k)" and "p + 10 < n"
  shows "0 < len \<and> p + len \<le> n \<and> length out \<le> 9 * len"
proof (cases "find_loop m n (p + 5)")
  case None
  then show ?thesis using assms by (auto simp: unroll_counted_def Let_def)
next
  case (Some sz)
  have "p + 5 + sz + 2 < n" using find_loop_Some [OF Some] by simp
  moreover have "rd32 m (p + 1) \<le> 8 \<Longrightarrow> unat (rd32 m (p + 1)) * sz \<le> 63 + 9 * sz"
    by (rule order_trans [OF mult_le_mono1 [OF unat_le_8(1)]]) simp_all
  ultimately show ?thesis using assms Some by (auto simp: unroll_counted_def Let_def split: if_splits)
qed

lemma unroll_short_good:
  assumes "unroll_short m n p = (len, out, k)" and "p + 10 < n"
  shows "0 < len \<and> p + len \<le> n \<and> length out \<le> 9 * len"
proof (cases "find_loop m n (p + 4)")
  case None
  then show ?thesis using assms by (auto simp: unroll_short_def Let_def)
next
  case (Some sz)
  have "p + 4 + sz + 2 < n" using find_loop_Some [OF Some] by simp
  moreover have "m (p + 3) \<le> 8 \<Longrightarrow> unat (m (p + 3)) * sz \<le> 54 + 9 * sz"
    by (rule order_trans [OF mult_le_mono1 [OF unat_le_8(2)]]) simp_all
  ultimately show ?thesis using assms Some by (auto simp: unroll_short_def Let_def split: if_splits)
qed

lemma good_unroll: "good_step (unroll_step n) m (n - 10) n 9"
  using unroll_counted_good [of m n] unroll_short_good [of m n]
  by (simp add: good_step_def unroll_step_def less_diff_conv split: prod.splits)

lemma passes_return:
  "\<exists>out k. optimize_dead_code_elimination m n = Some (out, k) \<and> length out \<le> n + 3"
  "\<exists>out k. optimize_constant_propagation m n = Some (out, k) \<and> length out \<le> 4 * (n + 9)"
  "\<exists>out k. optimize_instruction_fusion m n = Some (out, k) \<and> length out \<le> n + 7"
  "\<exists>out k. optimize_loop_unrolling m n = Some (out, k) \<and> length out \<le> 9 * n"
  using finish_returns [OF good_dce, of n] finish_returns [OF good_cp, of n] finish_returns [OF good_fusion, of n]
    finish_returns [OF good_unroll, of n]
  by (simp_all add: optimize_dead_code_elimination_def optimize_constant_propagation_def optimize_instruction_fusion_def
      optimize_loop_unrolling_def)

definition fits :: "(memory \<Rightarrow> nat \<Rightarrow> (code \<times> nat) option) \<Rightarrow> phase_state \<Rightarrow> bool" where
  "fits pass st \<longleftrightarrow> (case st of (m, n, own, tot) \<Rightarrow> \<exists>out k. pass m n = Some (out, k) \<and> length out \<le> BUFFER_SIZE)"

lemma run_phase_returns:
  assumes "\<And>m n. \<exists>out k. pass m n = Some (out, k) \<and> length out \<le> f n"
    and "fst (snd st) \<le> N" and "N \<le> L" and "\<And>n. n \<le> N \<Longrightarrow> f n \<le> L" and "L \<le> BUFFER_SIZE"
  obtains st' where "run_phase ok junk pass st = Some st'" and "fst (snd st') \<le> L" and "fits pass st"
proof -
  obtain m n own t where st: "st = (m, n, own, t)" by (cases st)
  obtain out k where r: "pass m n = Some (out, k)" "length out \<le> L"
    using assms(1) [of m n] assms(2,4) by (fastforce simp: st intro: le_trans)
  have "fits pass st" using r assms(5) by (simp add: fits_def st)
  moreover have "\<exists>st'. run_phase ok junk pass st = Some st' \<and> fst (snd st') \<le> L"
    using r assms(2,3) by (auto simp: run_phase_def st)
  ultimately show ?thesis using that by blast
qed

lemma phases_return:
  "\<exists>s1 s2 s3 s4. run_phase (ok 1) (junk 1) optimize_dead_code_elimination (entry, 256, False, 0) = Some s1 \<and>
     run_phase (ok 2) (junk 2) optimize_constant_propagation s1 = Some s2 \<and>
     run_phase (ok 3) (junk 3) optimize_instruction_fusion s2 = Some s3 \<and>
     run_phase (ok 4) (junk 4) optimize_loop_unrolling s3 = Some s4 \<and>
     fits optimize_dead_code_elimination (entry, 256, False, 0) \<and> fits optimize_constant_propagation s1 \<and>
     fits optimize_instruction_fusion s2 \<and> fits optimize_loop_unrolling s3"
proof -
  obtain s1 where 1: "run_phase (ok 1) (junk 1) optimize_dead_code_elimination (entry, 256, False, 0) = Some s1"
      "fst (snd s1) \<le> 259" "fits optimize_dead_code_elimination (entry, 256, False, 0)"
    by (rule run_phase_returns [OF passes_return(1), of "(entry, 256, False, 0)" 256 259]) simp_all
  obtain s2 where 2: "run_phase (ok 2) (junk 2) optimize_constant_propagation s1 = Some s2"
      "fst (snd s2) \<le> 1072" "fits optimize_constant_propagation s1"
    by (rule run_phase_returns [OF passes_return(2) 1(2), where L = 1072]) auto
  obtain s3 where 3: "run_phase (ok 3) (junk 3) optimize_instruction_fusion s2 = Some s3"
      "fst (snd s3) \<le> 1079" "fits optimize_instruction_fusion s2"
    by (rule run_phase_returns [OF passes_return(3) 2(2), where L = 1079]) auto
  obtain s4 where 4: "run_phase (ok 4) (junk 4) optimize_loop_unrolling s3 = Some s4" "fits optimize_loop_unrolling s3"
    by (rule run_phase_returns [OF passes_return(4) 3(2), where L = 9711]) auto
  from 1 2 3 4 show ?thesis by blast
qed

text \<open>
  C29: whatever bytes lie at the entry of a hot block and whatever the buffers held before, the four passes return, each within the
  sixteen kilobytes of the buffer that is allocated for it, although the passes can lengthen the code and read behind its end.
\<close>

theorem hotblock_buffers_fit:
  "\<exists>s1 s2 s3 s4. run_phase (ok 1) (junk 1) optimize_dead_code_elimination (entry, 256, False, 0) = Some s1 \<and>
     run_phase (ok 2) (junk 2) optimize_constant_propagation s1 = Some s2 \<and>
     run_phase (ok 3) (junk 3) optimize_instruction_fusion s2 = Some s3 \<and>
     run_phase (ok 4) (junk 4) optimize_loop_unrolling s3 = Some s4 \<and>
     fits optimize_dead_code_elimination (entry, 256, False, 0) \<and> fits optimize_constant_propagation s1 \<and>
     fits optimize_instruction_fusion s2 \<and> fits optimize_loop_unrolling s3"
  by (rule phases_return)

section \<open>What the passes do to programs\<close>

definition code_memory :: "code \<Rightarrow> memory" where
  "code_memory c = buffer c (\<lambda>_. 0)"

definition regs_state :: "u64 \<Rightarrow> u64 \<Rightarrow> x86_state" where
  "regs_state a c = \<lparr>rg = (\<lambda>r. if r = 0 then a else if r = 1 then c else 0), fl_c = None, fl_z = None, fl_s = None, fl_o = None,
     mem = (\<lambda>_. 0), rip = 0\<rparr>"

text \<open>\<open>mov rax, 5; mov rcx, 7; add rax, rcx\<close>: the sum is moved into RCX.\<close>

definition add_demo :: code where
  "add_demo = [0x48, 0xB8] @ le64 5 @ [0x48, 0xB9] @ le64 7 @ [0x48, 0x01, 0xC8]"

lemma constant_sum_in_wrong_register:
  "\<exists>out. optimize_constant_propagation (code_memory add_demo) 23 = Some (out, 3) \<and>
     map_option (\<lambda>s. (rg s 0, rg s 1)) (run 3 add_demo (regs_state 0 0)) = Some (12, 7) \<and>
     map_option (\<lambda>s. (rg s 0, rg s 1)) (run 3 out (regs_state 0 0)) = Some (5, 12)"
proof -
  let ?out = "[0x48, 0xB8] @ le64 5 @ [0x48, 0xB9] @ le64 7 @ [0x48, 0xB9] @ le64 12"
  have "optimize_constant_propagation (code_memory add_demo) 23 = Some (?out, 3)" by code_simp
  moreover have "map_option (\<lambda>s. (rg s 0, rg s 1)) (run 3 add_demo (regs_state 0 0)) = Some (12, 7)" by code_simp
  moreover have "map_option (\<lambda>s. (rg s 0, rg s 1)) (run 3 ?out (regs_state 0 0)) = Some (5, 12)" by code_simp
  ultimately show ?thesis by blast
qed

text \<open>A constant is still used after the register has changed: \<open>mov rax, 5; mov rcx, 7; mov rax, rcx (48 89 C8); add rcx, rax (48 01 C1)\<close>.\<close>

definition stale_demo :: code where
  "stale_demo = [0x48, 0xB8] @ le64 5 @ [0x48, 0xB9] @ le64 7 @ [0x48, 0x89, 0xC8, 0x48, 0x01, 0xC1]"

lemma constant_stale:
  "\<exists>out. optimize_constant_propagation (code_memory stale_demo) 26 = Some (out, 3) \<and>
     map_option (\<lambda>s. (rg s 0, rg s 1)) (run 4 stale_demo (regs_state 0 0)) = Some (7, 14) \<and>
     map_option (\<lambda>s. (rg s 0, rg s 1)) (run 4 out (regs_state 0 0)) = Some (12, 7)"
proof -
  let ?out = "[0x48, 0xB8] @ le64 5 @ [0x48, 0xB9] @ le64 7 @ [0x48, 0x89, 0xC8, 0x48, 0xB8] @ le64 12"
  have "optimize_constant_propagation (code_memory stale_demo) 26 = Some (?out, 3)" by code_simp
  moreover have "map_option (\<lambda>s. (rg s 0, rg s 1)) (run 4 stale_demo (regs_state 0 0)) = Some (7, 14)" by code_simp
  moreover have "map_option (\<lambda>s. (rg s 0, rg s 1)) (run 4 ?out (regs_state 0 0)) = Some (12, 7)" by code_simp
  ultimately show ?thesis by blast
qed

text \<open>A byte 0x90 inside an immediate is taken for a NOP; what is left is no instruction any more.\<close>

lemma dead_code_in_immediate:
  "optimize_dead_code_elimination (code_memory ([0x48, 0xB8] @ le64 0x90)) 10 = Some ([0x48, 0xB8, 0, 0, 0, 0, 0, 0, 0], 1)"
  "x86_decode [0x48, 0xB8, 0, 0, 0, 0, 0, 0, 0] = None"
  by code_simp+

text \<open>The test for a move between equal registers never succeeds.\<close>

lemma dead_move_kept:
  assumes "m p = 0x48" and "m (p + 1) = 0x89"
  shows "dce_step n m p s = (1, [0x48], s, 0)"
proof -
  have "\<not> (md < 0xC0 \<and> reg_mode md)" for md :: u8
  proof
    assume a: "md < 0xC0 \<and> reg_mode md"
    then have "unat (drop_bit 6 md) = 3" unfolding reg_mode_def by simp
    then have "unat md div 64 = 3" by (simp add: drop_bit_eq_div unat_div)
    moreover have "unat md div 64 < 3" using a by (intro less_mult_imp_div_less) (simp add: word_less_nat_alt)
    ultimately show False by simp
  qed
  then show ?thesis using assms by (auto simp: dce_step_def Let_def)
qed

text \<open>\<open>cmp rax, imm32; je\<close> becomes \<open>test rax, rax; je\<close>, whatever the immediate is.\<close>

definition cmp_demo :: code where
  "cmp_demo = [0x48, 0x81, 0xF8] @ le32 5 @ [0x0F, 0x84] @ le32 1 @ [0x90]"

lemma fusion_ignores_immediate:
  "optimize_instruction_fusion (code_memory cmp_demo) 14 = Some ([0x48, 0x85, 0xC0, 0x0F, 0x84] @ le32 1 @ [0x90], 1)"
  by code_simp

text \<open>\<open>and rax, imm32; jz\<close> becomes \<open>test\<close>: RAX keeps the bits that were to be cleared.\<close>

lemma fusion_drops_and:
  "optimize_instruction_fusion (code_memory ([0x48, 0x81, 0xE0] @ le32 0xF @ [0x0F, 0x84] @ le32 0 @ [0x90])) 14 =
     Some ([0x48, 0xF7, 0xC0] @ le32 0xF @ [0x0F, 0x84] @ le32 0 @ [0x90], 1)"
  by code_simp

text \<open>
  A small counted loop: \<open>mov ecx, count\<close>, the body and \<open>loop\<close> become \<open>count\<close> copies of the body, which is right as long as the body
  does not use ECX.
\<close>

lemma bytes_at_code: "bytes_at (code_memory (xs @ ys @ zs)) (length xs) (length ys) = ys"
  by (rule nth_equalityI) (simp_all add: bytes_at_nth code_memory_def buffer_def nth_append)

lemma first_index_append: "\<forall>x\<in>set ys. \<not> P x \<Longrightarrow> P z \<Longrightarrow> first_index P (ys @ z # zs) = Some (length ys)"
  by (induction ys) simp_all

lemma unroll_small_loop:
  fixes d :: u8
  assumes "0 < count" and "count \<le> 8" and "body \<noteq> []" and "0xe2 \<notin> set body" and "\<not> has_control_flow body"
    and "unat count * length body < 1024" and "rest \<noteq> []" and "length rest \<le> 10" and "3 < length body + length rest"
  defines "c \<equiv> [0xb9] @ le32 count @ body @ [0xe2, d] @ rest"
  shows "optimize_loop_unrolling (code_memory c) (length c) = Some (copies (unat count) body @ rest, 1)"
proof -
  let ?m = "code_memory c" and ?n = "length c" and ?l = "length body"
  have n: "?n = 7 + ?l + length rest" by (simp add: c_def)
  have body: "bytes_at ?m 5 ?l = body"
    using bytes_at_code [of "0xb9 # le32 count" body "[0xe2, d] @ rest"] by (simp add: c_def)
  have tail: "bytes_at ?m (7 + ?l) (length rest) = rest"
    using bytes_at_code [of "[0xb9] @ le32 count @ body @ [0xe2, d]" rest "[]"] by (simp add: c_def add.commute)
  have e2: "?m (5 + ?l) = 0xe2"
    by (simp add: code_memory_def buffer_def c_def nth_append)
  have "bytes_at ?m 5 (?n - 2 - 5) = body @ 0xe2 # bytes_at ?m (6 + ?l) (?n - 8 - ?l)"
  proof (rule nth_equalityI)
    fix i assume i: "i < length (bytes_at ?m 5 (?n - 2 - 5))"
    show "bytes_at ?m 5 (?n - 2 - 5) ! i = (body @ 0xe2 # bytes_at ?m (6 + ?l) (?n - 8 - ?l)) ! i"
    proof (cases "i < ?l")
      case True
      have "bytes_at ?m 5 ?l ! i = ?m (5 + i)" using True by (rule bytes_at_nth)
      with True i body show ?thesis by (simp add: bytes_at_nth nth_append)
    next
      case False
      with i e2 show ?thesis
        by (cases "i = ?l") (auto simp: bytes_at_nth nth_append nth_Cons n split: nat.splits intro!: arg_cong [of _ _ ?m])
    qed
  qed (use assms(7) in \<open>auto simp: n Suc_le_eq\<close>)
  then have "find_loop ?m ?n 5 = Some ?l"
    using assms(4) by (auto simp: find_loop_def intro!: first_index_append)
  moreover have "rd32 ?m 1 = count" by (simp add: rd32_def code_memory_def buffer_def c_def le32_def)
  moreover have "?m 0 = 0xb9" by (simp add: code_memory_def buffer_def c_def)
  ultimately have "unroll_step ?n ?m 0 () = (7 + ?l, copies (unat count) body, (), 1)"
    using assms body by (simp add: unroll_step_def unroll_counted_def word_gt_0)
  moreover have "\<not> 7 + ?l < ?n - 10" "0 < ?n - 10" using assms n by simp_all
  ultimately have "pass_loop (unroll_step ?n) ?m (?n - 10) 0 () = Some (copies (unat count) body, 7 + ?l, 1)"
    by (simp add: pass_loop.simps)
  then show ?thesis using tail by (simp add: optimize_loop_unrolling_def finish_def n)
qed

text \<open>
  When a part of the loop stays, its jump goes to the third byte of the instruction that sets the counter, into its immediate, and
  not to the body behind it.
\<close>

lemma unroll_part_jumps_into_immediate:
  assumes "length body \<le> 123"
  shows "int (length (unroll_part f c body)) + sint (last (unroll_part f c body)) = int (length (copies f body)) + 2"
proof -
  have "sint (of_int x :: u8) = x" if "- 128 \<le> x" "x < 128" for x
    using that by (simp add: signed_of_int signed_take_bit_int_eq_self)
  from this [of "- (int (length body) + 5)"] assms show ?thesis by (simp add: unroll_part_def)
qed

section \<open>The manager keeps one block for each address\<close>

definition hot_ok :: "HotBlockManager \<Rightarrow> bool" where
  "hot_ok hbm \<longleftrightarrow> distinct (map hb_arm_pc (hm_blocks hbm)) \<and> length (hm_blocks hbm) \<le> HOT_BLOCK_MAX"

lemma apply_optimizations_keeps:
  "\<exists>k block'. hotblock_apply_optimizations ok junk block = Some (k, block') \<and>
     hb_arm_pc block' = hb_arm_pc block \<and> hb_hit_count block' = hb_hit_count block \<and> hb_last_access block' = hb_last_access block"
proof (cases "hb_x86_entry block")
  case (Some entry)
  obtain s1 s2 s3 s4 where "run_phase (ok 1) (junk 1) optimize_dead_code_elimination (entry, 256, False, 0) = Some s1"
      "run_phase (ok 2) (junk 2) optimize_constant_propagation s1 = Some s2"
      "run_phase (ok 3) (junk 3) optimize_instruction_fusion s2 = Some s3"
      "run_phase (ok 4) (junk 4) optimize_loop_unrolling s3 = Some s4"
    using phases_return [of ok junk entry] by blast
  then show ?thesis by (cases s4) (simp add: hotblock_apply_optimizations_def Some)
qed (simp add: hotblock_apply_optimizations_def)

lemma retranslate_keeps:
  "\<exists>k tot' block'. hotblock_retranslate ok junk tot block = Some (k, tot', block') \<and>
     hb_arm_pc block' = hb_arm_pc block \<and> hb_hit_count block' = hb_hit_count block \<and> hb_last_access block' = hb_last_access block"
proof -
  obtain k block' where "hotblock_apply_optimizations ok junk block = Some (k, block')"
      "hb_arm_pc block' = hb_arm_pc block" "hb_hit_count block' = hb_hit_count block" "hb_last_access block' = hb_last_access block"
    using apply_optimizations_keeps [of ok junk block] by blast
  then show ?thesis by (simp add: hotblock_retranslate_def)
qed

lemma set_update_other: "b \<in> set xs \<Longrightarrow> b \<noteq> xs ! l \<Longrightarrow> b \<in> set (xs[l := x])"
  by (metis in_set_conv_nth nth_list_update_neq length_list_update)

text \<open>The slot of an address: its index holds a block of the address, the others are as they were, except for the one hit longest ago.\<close>

definition oldest :: "HotBlock \<Rightarrow> HotBlock list \<Rightarrow> bool" where
  "oldest b bs \<longleftrightarrow> length bs = HOT_BLOCK_MAX \<and> (\<forall>c\<in>set bs. hb_last_access b \<le> hb_last_access c)"

definition hits_of :: "HotBlockManager \<Rightarrow> u64 \<Rightarrow> u32" where
  "hits_of hbm pc = (case hotblock_lookup hbm pc of Some j \<Rightarrow> hb_hit_count (hm_blocks hbm ! j) | None \<Rightarrow> 0)"

lemma hot_slot_result:
  assumes "hot_ok hbm" and "hot_slot hbm pc entry = (i, bs)"
  shows "i < length bs \<and> hb_arm_pc (bs ! i) = pc \<and> distinct (map hb_arm_pc bs) \<and> length bs \<le> HOT_BLOCK_MAX \<and>
      hb_hit_count (bs ! i) = hits_of hbm pc" (is ?slot)
    and "\<And>b. b \<in> set (hm_blocks hbm) \<Longrightarrow> hb_arm_pc b \<noteq> pc \<Longrightarrow> b \<in> set (bs[i := x]) \<or> oldest b (hm_blocks hbm)"
proof -
  let ?bs = "hm_blocks hbm"
  consider (found) j where "hotblock_lookup hbm pc = Some j" | (room) "hotblock_lookup hbm pc = None" "length ?bs < HOT_BLOCK_MAX"
    | (full) "hotblock_lookup hbm pc = None" "length ?bs = HOT_BLOCK_MAX"
    using assms(1) unfolding hot_ok_def by fastforce
  then have "?slot \<and> (\<forall>b\<in>set ?bs. hb_arm_pc b \<noteq> pc \<longrightarrow> b \<in> set (bs[i := x]) \<or> oldest b ?bs)"
  proof cases
    case found
    then have "j < length ?bs \<and> hb_arm_pc (?bs ! j) = pc" "i = j" "bs = ?bs"
      using assms(2) first_index_Some [of "\<lambda>b. hb_arm_pc b = pc" ?bs j] by (auto simp: hot_slot_def hotblock_lookup_def)
    then show ?thesis using assms(1) found by (auto simp: hot_ok_def hits_of_def intro: set_update_other)
  next
    case room
    then have new: "pc \<notin> hb_arm_pc ` set ?bs" by (auto simp: hotblock_lookup_def first_index_None)
    have "i = length ?bs" "bs = ?bs @ [new_hot_block pc entry]" using assms(2) room by (auto simp: hot_slot_def Let_def)
    then show ?thesis using assms(1) room new by (auto simp: hot_ok_def new_hot_block_def hits_of_def)
  next
    case full
    then have new: "pc \<notin> hb_arm_pc ` set ?bs" by (auto simp: hotblock_lookup_def first_index_None)
    define l where "l = least_hit (\<lambda>b. uint (hb_last_access b)) ?bs"
    have i: "i = l" and bs: "bs = ?bs[l := new_hot_block pc entry]" using assms(2) full by (auto simp: hot_slot_def l_def Let_def)
    have "?bs \<noteq> []" using full by auto
    from least_hit_result [OF this, where f = "\<lambda>b. uint (hb_last_access b)"]
    have l: "l < length ?bs" "oldest (?bs ! l) ?bs"
      by (simp_all add: word_le_def l_def oldest_def full)
    have "distinct (map hb_arm_pc bs)"
      using assms(1) new by (auto simp: bs hot_ok_def map_update new_hot_block_def intro!: distinct_list_update)
    moreover have "b \<in> set (bs[i := x]) \<or> oldest b ?bs" if "b \<in> set ?bs" for b
      using set_update_other [OF that, of l x] l by (cases "b = ?bs ! l") (simp_all add: bs i)
    ultimately show ?thesis using l full by (simp add: bs i new_hot_block_def hits_of_def)
  qed
  then show ?slot and "\<And>b. b \<in> set ?bs \<Longrightarrow> hb_arm_pc b \<noteq> pc \<Longrightarrow> b \<in> set (bs[i := x]) \<or> oldest b ?bs" by blast+
qed

lemma manager_update: "h\<lparr>hm_blocks := bs\<rparr> = \<lparr>hm_blocks = bs, hm_total_retranslations = hm_total_retranslations h\<rparr>"
  by (cases h) simp

text \<open>
  C30: a hit on a block is always recorded, also when it makes the block hot and the passes run. Afterwards the manager still has
  one block for each address and at most 1024; the block of the address is found, with one hit more than before (the
  first, if it is new) and the time of the hit, and the result is its number of hits. All blocks of other addresses are kept, except
  when the block is new and the table full: then one that was hit longest ago is dropped.
\<close>

theorem hotblock_record_then_lookup:
  assumes "hot_ok hbm"
  shows "\<exists>hbm' i. hotblock_record_hit ok junk now hbm pc (Some entry) = Some (hits_of hbm pc + 1, hbm') \<and> hot_ok hbm' \<and>
    hotblock_lookup hbm' pc = Some i \<and> hits_of hbm' pc = hits_of hbm pc + 1 \<and> hb_last_access (hm_blocks hbm' ! i) = now \<and>
    (\<forall>b\<in>set (hm_blocks hbm). hb_arm_pc b \<noteq> pc \<longrightarrow> b \<in> set (hm_blocks hbm') \<or> oldest b (hm_blocks hbm))"
proof -
  obtain i bs where sl: "hot_slot hbm pc entry = (i, bs)" by fastforce
  note slot = hot_slot_result(1) [OF assms sl] and kept = hot_slot_result(2) [OF assms sl]
  define block where "block = (bs ! i)\<lparr>hb_hit_count := hits_of hbm pc + 1, hb_last_access := now\<rparr>"
  have "\<exists>block' t. hotblock_record_hit ok junk now hbm pc (Some entry) =
        Some (hits_of hbm pc + 1, \<lparr>hm_blocks = bs[i := block'], hm_total_retranslations = t\<rparr>) \<and>
      hb_arm_pc block' = pc \<and> hb_hit_count block' = hits_of hbm pc + 1 \<and> hb_last_access block' = now"
  proof (cases "hotblock_should_retranslate block \<and> hb_flags block AND HOT_FLAG_RETRANSLATED = 0")
    case True
    obtain k t block' where "hotblock_retranslate ok junk (hm_total_retranslations hbm) (block\<lparr>hb_flags := hb_flags block OR HOT_FLAG_MARKED\<rparr>) =
        Some (k, t, block')" "hb_arm_pc block' = hb_arm_pc block" "hb_hit_count block' = hb_hit_count block"
        "hb_last_access block' = hb_last_access block"
      using retranslate_keeps [of ok junk "hm_total_retranslations hbm" "block\<lparr>hb_flags := hb_flags block OR HOT_FLAG_MARKED\<rparr>"] by auto
    then show ?thesis using True slot by (intro exI [of _ block'] exI [of _ t]) (simp add: hotblock_record_hit_def sl block_def)
  next
    case False
    then have "hotblock_record_hit ok junk now hbm pc (Some entry) =
        Some (hits_of hbm pc + 1, \<lparr>hm_blocks = bs[i := block], hm_total_retranslations = hm_total_retranslations hbm\<rparr>)"
      using slot by (auto simp: hotblock_record_hit_def sl block_def manager_update Let_def)
    then show ?thesis using slot by (auto simp: block_def)
  qed
  then obtain block' t where r: "hotblock_record_hit ok junk now hbm pc (Some entry) =
        Some (hits_of hbm pc + 1, \<lparr>hm_blocks = bs[i := block'], hm_total_retranslations = t\<rparr>)"
      and b: "hb_arm_pc block' = pc" "hb_hit_count block' = hits_of hbm pc + 1" "hb_last_access block' = now" by blast
  let ?h = "\<lparr>hm_blocks = bs[i := block'], hm_total_retranslations = t\<rparr>"
  have d: "map hb_arm_pc (bs[i := block']) = map hb_arm_pc bs"
    using slot b by (metis list_update_id map_update nth_map)
  have ok: "hot_ok ?h" using slot d by (simp add: hot_ok_def)
  have "hotblock_lookup ?h pc = Some i"
  proof (cases "hotblock_lookup ?h pc")
    case None
    then show ?thesis using slot b by (auto simp: hotblock_lookup_def first_index_None set_update_memI)
  next
    case (Some j)
    then have "j < length bs" "map hb_arm_pc bs ! j = map hb_arm_pc bs ! i"
      using first_index_Some [of "\<lambda>b. hb_arm_pc b = pc" "bs[i := block']" j] slot d [THEN arg_cong, of "\<lambda>l. l ! j"]
      by (auto simp: hotblock_lookup_def)
    then have "j = i" using slot nth_eq_iff_index_eq [of "map hb_arm_pc bs" j i] by simp
    then show ?thesis using Some by simp
  qed
  then show ?thesis using r ok b slot kept [of _ block'] by (auto simp: hits_of_def)
qed

theorem hotblock_record_witness:
  "\<exists>hbm' i. hotblock_record_hit (\<lambda>_. True) (\<lambda>_ _. 0) 7 hotblock_init 0x1000 (Some (\<lambda>_. 0x90)) = Some (1, hbm') \<and> hot_ok hbm' \<and>
    hotblock_lookup hbm' 0x1000 = Some i \<and> hits_of hbm' 0x1000 = 1 \<and> hb_last_access (hm_blocks hbm' ! i) = 7"
proof -
  have "hot_ok hotblock_init" "hits_of hotblock_init 0x1000 = 0"
    by (simp_all add: hot_ok_def hotblock_init_def hits_of_def hotblock_lookup_def)
  then show ?thesis
    using hotblock_record_then_lookup [of hotblock_init "\<lambda>_. True" "\<lambda>_ _. 0" 7 "0x1000" "\<lambda>_. 0x90"] by auto
qed

end
