(* ===== verification/Chain.thy ===== *)
theory Chain
  imports Emit Hit_Table
begin

text \<open>
  The run-time optimizations of \<open>src/modules/arm2x86_syscall.c\<close>: the chaining of blocks by patching their jumps, the
  inline cache of indirect branches, the counters of hot blocks, and the emitters for AVX and for fused multiplication
  in VFP.
\<close>

section \<open>Chaining\<close>

text \<open>
  The block is its bytes and the address \<open>base\<close> of the first. The pointer differences are those of 64-bit words. The
  guest address of the exit is an argument that the code never reads.
\<close>

definition put_rel32 :: "code \<Rightarrow> nat \<Rightarrow> u32 \<Rightarrow> code" where
  "put_rel32 bs i v = take i bs @ le32 v @ drop (i + 4) bs"

definition get_rel32 :: "code \<Rightarrow> nat \<Rightarrow> u32" where
  "get_rel32 bs i = of_le32 (bs ! i) (bs ! (i + 1)) (bs ! (i + 2)) (bs ! (i + 3))"

definition patch_jump_at :: "ptr \<Rightarrow> ptr \<Rightarrow> code \<Rightarrow> nat \<Rightarrow> nat \<Rightarrow> code" where
  "patch_jump_at base target bs p len =
     (let next = base + of_nat (p + len);
          jmp_target = next + scast (get_rel32 bs (p + len - 4));
          new_rel = sint (target - next)
      in if jmp_target \<noteq> NULL \<and> - (2 ^ 31) \<le> new_rel \<and> new_rel < 2 ^ 31 then put_rel32 bs (p + len - 4) (of_int new_rel) else bs)"

definition chain_step :: "ptr \<Rightarrow> ptr \<Rightarrow> code \<Rightarrow> nat \<Rightarrow> code" where
  "chain_step base target bs p =
     (if bs ! p = 0xe9 \<and> p + 5 \<le> length bs then patch_jump_at base target bs p 5
      else if bs ! p = 0x0f \<and> p + 6 \<le> length bs \<and> 0x80 \<le> bs ! (p + 1) \<and> bs ! (p + 1) \<le> 0x8f then patch_jump_at base target bs p 6
      else bs)"

definition chain_blocks :: "bool \<Rightarrow> ptr \<Rightarrow> code \<Rightarrow> u64 \<Rightarrow> ptr \<Rightarrow> int \<times> code" where
  "chain_blocks enabled x86_block bs exit_arm_pc target_x86 =
     (if \<not> enabled \<or> x86_block = NULL \<or> target_x86 = NULL then (- 1, bs)
      else (0, foldl (chain_step x86_block target_x86) bs [0..<length bs]))"

section \<open>The inline cache\<close>

record IndirectCacheEntry =
  ic_arm_target :: u64
  ic_x86_target :: ptr
  ic_hit_count :: u32

record IndirectBranchCache =
  ic_entries :: "IndirectCacheEntry list"
  ic_total_hits :: u32
  ic_total_misses :: u32

abbreviation (input) INLINE_CACHE_SIZE :: nat where "INLINE_CACHE_SIZE \<equiv> 4"

definition arm2x86_inline_cache_init :: "IndirectBranchCache" where
  "arm2x86_inline_cache_init =
     \<lparr>ic_entries = replicate INLINE_CACHE_SIZE \<lparr>ic_arm_target = 0, ic_x86_target = NULL, ic_hit_count = 0\<rparr>,
      ic_total_hits = 0, ic_total_misses = 0\<rparr>"

definition arm2x86_inline_cache_lookup :: "IndirectBranchCache \<Rightarrow> u64 \<Rightarrow> ptr \<times> IndirectBranchCache" where
  "arm2x86_inline_cache_lookup c arm_target =
     (case first_index (\<lambda>e. ic_arm_target e = arm_target \<and> ic_x86_target e \<noteq> NULL) (ic_entries c) of
        Some i \<Rightarrow>
          (let e = ic_entries c ! i
           in (ic_x86_target e,
               c\<lparr>ic_entries := (ic_entries c)[i := e\<lparr>ic_hit_count := ic_hit_count e + 1\<rparr>], ic_total_hits := ic_total_hits c + 1\<rparr>))
      | None \<Rightarrow> (NULL, c\<lparr>ic_total_misses := ic_total_misses c + 1\<rparr>))"

definition arm2x86_inline_cache_insert :: "IndirectBranchCache \<Rightarrow> u64 \<Rightarrow> ptr \<Rightarrow> IndirectBranchCache" where
  "arm2x86_inline_cache_insert c arm_target x86_entry =
     (if x86_entry = NULL then c
      else
        (let es = ic_entries c;
             i = (case first_index (\<lambda>e. ic_arm_target e = arm_target) es of Some i \<Rightarrow> i
                  | None \<Rightarrow> least_hit (\<lambda>e. uint (ic_hit_count e)) es)
         in c\<lparr>ic_entries := es[i := \<lparr>ic_arm_target = arm_target, ic_x86_target = x86_entry, ic_hit_count = 0\<rparr>]\<rparr>))"

section \<open>Counters of hot blocks\<close>

record HotBlockInfo =
  hi_arm_pc :: u64
  hi_hit_count :: u32
  hi_retranslated :: bool
  hi_flags :: u32

abbreviation (input) MAX_HOT_BLOCKS :: nat where "MAX_HOT_BLOCKS \<equiv> 256"
abbreviation (input) ARM2X86_HOT_THRESHOLD :: u32 where "ARM2X86_HOT_THRESHOLD \<equiv> 100"

definition arm2x86_profile_record_hit :: "u64 \<Rightarrow> HotBlockInfo list \<Rightarrow> HotBlockInfo list" where
  "arm2x86_profile_record_hit arm_pc bs =
     (case first_index (\<lambda>b. hi_arm_pc b = arm_pc) bs of
        Some i \<Rightarrow> bs[i := (bs ! i)\<lparr>hi_hit_count := hi_hit_count (bs ! i) + 1\<rparr>]
      | None \<Rightarrow>
          if length bs < MAX_HOT_BLOCKS
          then bs @ [\<lparr>hi_arm_pc = arm_pc, hi_hit_count = 1, hi_retranslated = False, hi_flags = 0\<rparr>] else bs)"

definition arm2x86_profile_check :: "u64 \<Rightarrow> HotBlockInfo list \<Rightarrow> bool" where
  "arm2x86_profile_check arm_pc bs =
     (case first_index (\<lambda>b. hi_arm_pc b = arm_pc) bs of
        Some i \<Rightarrow> ARM2X86_HOT_THRESHOLD < hi_hit_count (bs ! i) \<and> \<not> hi_retranslated (bs ! i)
      | None \<Rightarrow> False)"

definition arm2x86_retranslate_hot_block :: "u64 \<Rightarrow> HotBlockInfo list \<Rightarrow> HotBlockInfo list" where
  "arm2x86_retranslate_hot_block arm_pc bs =
     (case first_index (\<lambda>b. hi_arm_pc b = arm_pc \<and> ARM2X86_HOT_THRESHOLD < hi_hit_count b \<and> \<not> hi_retranslated b) bs of
        Some i \<Rightarrow> bs[i := (bs ! i)\<lparr>hi_retranslated := True, hi_flags := hi_flags (bs ! i) OR 1\<rparr>]
      | None \<Rightarrow> bs)"

section \<open>AVX\<close>

text \<open>What \<open>cpuid\<close> leaf 1 leaves in ECX and \<open>xgetbv\<close> in EAX decides.\<close>

definition arm2x86_detect_avx :: "u32 \<Rightarrow> u32 \<Rightarrow> bool" where
  "arm2x86_detect_avx ecx xcr0_eax \<longleftrightarrow> bit ecx 27 \<and> xcr0_eax AND 6 = 6 \<and> bit ecx 28"

definition emit_vaddpd_avx :: "bool \<Rightarrow> code \<Rightarrow> u8 \<Rightarrow> u8 \<Rightarrow> code" where
  "emit_vaddpd_avx avx buf ymm_dest ymm_src =
     (if \<not> avx then
        (let buf = emit_byte buf 0x66; buf = emit_byte buf 0x0f; buf = emit_byte buf 0x58 in modrm buf 3 (ymm_dest AND 7) (ymm_src AND 7))
      else
        (let buf = emit_byte buf 0xC5; buf = emit_byte buf 0xE8; buf = emit_byte buf 0x58 in modrm buf 3 (ymm_dest AND 7) (ymm_src AND 7)))"

definition emit_vsubpd_avx :: "bool \<Rightarrow> code \<Rightarrow> u8 \<Rightarrow> u8 \<Rightarrow> code" where
  "emit_vsubpd_avx avx buf ymm_dest ymm_src =
     (if \<not> avx then
        (let buf = emit_byte buf 0x66; buf = emit_byte buf 0x0f; buf = emit_byte buf 0x5c in modrm buf 3 (ymm_dest AND 7) (ymm_src AND 7))
      else
        (let buf = emit_byte buf 0xC5; buf = emit_byte buf 0xE8; buf = emit_byte buf 0x5c in modrm buf 3 (ymm_dest AND 7) (ymm_src AND 7)))"

definition emit_vmulsd_avx :: "bool \<Rightarrow> code \<Rightarrow> u8 \<Rightarrow> u8 \<Rightarrow> u8 \<Rightarrow> code" where
  "emit_vmulsd_avx avx buf ymm_dest ymm_src1 ymm_src2 =
     (if \<not> avx then
        (let buf = emit_byte buf 0xf2; buf = emit_byte buf 0x0f; buf = emit_byte buf 0x59 in modrm buf 3 (ymm_dest AND 7) (ymm_src2 AND 7))
      else
        (let buf = emit_byte buf 0xC5; buf = emit_byte buf 0xF2; buf = emit_byte buf 0x59 in modrm buf 3 (ymm_dest AND 7) (ymm_src2 AND 7)))"

definition emit_vmovdqu_avx :: "bool \<Rightarrow> code \<Rightarrow> u8 \<Rightarrow> u8 \<Rightarrow> code" where
  "emit_vmovdqu_avx avx buf ymm_dest ymm_src =
     (if \<not> avx then
        (let buf = emit_byte buf 0xf3; buf = emit_byte buf 0x0f; buf = emit_byte buf 0x6f in modrm buf 3 (ymm_dest AND 7) (ymm_src AND 7))
      else
        (let buf = emit_byte buf 0xC5; buf = emit_byte buf 0xF3; buf = emit_byte buf 0x6F in modrm buf 3 (ymm_dest AND 7) (ymm_src AND 7)))"

section \<open>Fused multiplication in VFP\<close>

definition vfp_d :: "u32 \<Rightarrow> u8" where
  "vfp_d op = ucast ((drop_bit 12 op AND 0xf) OR (drop_bit 22 op AND 0x10)) AND 0xf"

definition vfp_n :: "u32 \<Rightarrow> u8" where
  "vfp_n op = ucast ((drop_bit 16 op AND 0xf) OR (drop_bit 5 op AND 0x10)) AND 0xf"

definition vfp_m :: "u32 \<Rightarrow> u8" where
  "vfp_m op = ucast ((op AND 0xf) OR (drop_bit 1 op AND 0x10)) AND 0xf"

definition translate_arm32_vfms :: "code \<Rightarrow> u32 \<Rightarrow> code \<times> int" where
  "translate_arm32_vfms dst op =
     (let xvd = vfp_d op; xvn = vfp_n op; xvm = vfp_m op;
          prefix = (if drop_bit 8 op AND 1 \<noteq> 0 then 0xf2 else 0xf3);
          dst = emit_byte dst prefix; dst = emit_byte dst 0x0f; dst = emit_byte dst 0x59; dst = modrm dst 3 (xvn AND 7) (xvm AND 7);
          dst = emit_byte dst prefix; dst = emit_byte dst 0x0f; dst = emit_byte dst 0x5c; dst = modrm dst 3 (xvd AND 7) (xvn AND 7)
      in (dst, 0))"

definition translate_arm32_vfma :: "code \<Rightarrow> u32 \<Rightarrow> code \<times> int" where
  "translate_arm32_vfma dst op =
     (let xvd = vfp_d op; xvn = vfp_n op; xvm = vfp_m op;
          prefix = (if drop_bit 8 op AND 1 \<noteq> 0 then 0xf2 else 0xf3);
          dst = emit_byte dst prefix; dst = emit_byte dst 0x0f; dst = emit_byte dst 0x59; dst = modrm dst 3 (xvn AND 7) (xvm AND 7);
          dst = emit_byte dst prefix; dst = emit_byte dst 0x0f; dst = emit_byte dst 0x58; dst = modrm dst 3 (xvd AND 7) (xvn AND 7)
      in (dst, 0))"

section \<open>A chained block jumps to the target\<close>

lemma length_put_rel32: "i + 4 \<le> length bs \<Longrightarrow> length (put_rel32 bs i v) = length bs"
  by (simp add: put_rel32_def)

lemma length_chain_step: "length (chain_step base target bs p) = length bs"
  by (auto simp: chain_step_def patch_jump_at_def Let_def length_put_rel32)

lemma length_chain_blocks: "length (snd (chain_blocks en base bs pc target)) = length bs"
proof -
  have "length (foldl (chain_step base target) bs ps) = length bs" for ps
    by (induction ps arbitrary: bs) (simp_all add: length_chain_step)
  then show ?thesis by (simp add: chain_blocks_def)
qed

text \<open>The loop leaves positions alone where no jump can start.\<close>

lemma chain_fold_idle:
  assumes "\<And>p. p \<in> set ps \<Longrightarrow> chain_step base target bs p = bs"
  shows "foldl (chain_step base target) bs ps = bs"
  using assms by (induction ps) simp_all

text \<open>
  C31: a block whose only jump is an unconditional one at its end is chained correctly. No other byte of the block, not even an operand,
  may look like the opcode of a jump, since the loop goes over bytes and not over instructions. When the target is within
  reach, the displacement leads from the end of the block to the target; otherwise the block stays as it is.
\<close>

theorem chain_final_jump:
  assumes "base \<noteq> NULL" and "target \<noteq> NULL" and "set body \<inter> {0xe9, 0x0f} = {}"
    and "base + of_nat (length body + 5) + scast rel \<noteq> NULL"
  defines "reach \<equiv> sint (target - (base + of_nat (length body + 5)))"
  shows "chain_blocks True base (body @ 0xe9 # le32 rel) pc target =
      (0, body @ 0xe9 # le32 (if - (2 ^ 31) \<le> reach \<and> reach < 2 ^ 31 then of_int reach else rel)) \<and>
    (- (2 ^ 31) \<le> reach \<and> reach < 2 ^ 31 \<longrightarrow>
       base + of_nat (length body + 5) + scast (of_int reach :: u32) = target)"
proof -
  let ?l = "length body" and ?bs = "body @ 0xe9 # le32 rel"
  let ?rel = "if - (2 ^ 31) \<le> reach \<and> reach < 2 ^ 31 then of_int reach else rel"
  let ?bs' = "body @ 0xe9 # le32 ?rel"
  have split: "[0..<length ?bs] = [0..<?l] @ ?l # [?l + 1..<?l + 5]"
    using upt_add_eq_append [of 0 ?l 5] by (simp add: upt_conv_Cons)
  have front: "foldl (chain_step base target) ?bs [0..<?l] = ?bs"
  proof (rule chain_fold_idle)
    fix p assume "p \<in> set [0..<?l]"
    then have "?bs ! p \<in> set body" by (simp add: nth_append)
    then have "?bs ! p \<noteq> 0xe9" "?bs ! p \<noteq> 0x0f" using assms(3) by auto
    then show "chain_step base target ?bs p = ?bs" by (simp add: chain_step_def)
  qed
  have "get_rel32 ?bs (?l + 1) = rel" by (simp add: get_rel32_def nth_append le32_def)
  moreover have "put_rel32 ?bs (?l + 1) v = body @ 0xe9 # le32 v" for v by (simp add: put_rel32_def le32_def)
  ultimately have jump: "chain_step base target ?bs ?l = ?bs'"
    using assms(4) by (simp add: chain_step_def patch_jump_at_def reach_def Let_def)
  have behind: "foldl (chain_step base target) ?bs' [?l + 1..<?l + 5] = ?bs'"
    by (rule chain_fold_idle) (simp add: chain_step_def)
  have "foldl (chain_step base target) ?bs [0..<length ?bs] = ?bs'"
    unfolding split foldl_append foldl_Cons front jump behind ..
  moreover have "scast (of_int reach :: u32) = (target - (base + of_nat (?l + 5)) :: u64)"
    if "- (2 ^ 31) \<le> reach" "reach < 2 ^ 31"
  proof -
    have "sint (of_int reach :: u32) = reach" using that by (simp add: signed_of_int signed_take_bit_int_eq_self)
    then have "scast (of_int reach :: u32) = (of_int reach :: u64)" by (metis scast_eq)
    then show ?thesis by (simp add: reach_def)
  qed
  ultimately show ?thesis using assms(1,2) by (simp add: chain_blocks_def)
qed

theorem chain_final_jump_witness:
  "chain_blocks True 0x1000 [0x90, 0xe9, 0, 0, 0, 0] 0 0x2000 = (0, [0x90, 0xe9, 0xfa, 0x0f, 0, 0])"
proof -
  have "le32 0 = [0, 0, 0, 0]" "le32 0xffa = [0xfa, 0x0f, 0, 0]" by (simp_all add: le32_def)
  then show ?thesis using chain_final_jump [of "0x1000" "0x2000" "[0x90]" 0 0] by simp
qed

text \<open>An operand byte that looks like a jump is overwritten with the bytes behind it: here \<open>mov eax, 0xe9\<close> and a \<open>ret\<close>.\<close>

lemma chain_overwrites_operand:
  "chain_blocks True 0x1000 [0xb8, 0xe9, 0, 0, 0, 0xc3] 0 0x2000 = (0, [0xb8, 0xe9, 0xfa, 0x0f, 0, 0])"
  by code_simp

text \<open>All exits of a block are led to the one target: both arms of a conditional jump end there.\<close>

lemma chain_joins_exits:
  "chain_blocks True 0x1000 ([0x0f, 0x84] @ le32 0x100 @ 0xe9 # le32 0x200) 0 0x2000 =
     (0, [0x0f, 0x84] @ le32 0xffa @ 0xe9 # le32 0xff5)"
  by code_simp

section \<open>The inline cache\<close>

definition ic_find :: "IndirectBranchCache \<Rightarrow> u64 \<Rightarrow> ptr option \<times> IndirectBranchCache" where
  "ic_find c k = (let (v, c') = arm2x86_inline_cache_lookup c k in (if v = NULL then None else Some v, c'))"

definition ic_pairs :: "IndirectBranchCache \<Rightarrow> (u64 \<times> ptr) list" where
  "ic_pairs c = map (\<lambda>e. (ic_arm_target e, ic_x86_target e)) (filter (\<lambda>e. ic_x86_target e \<noteq> NULL) (ic_entries c))"

definition ic_inv :: "IndirectBranchCache \<Rightarrow> bool" where
  "ic_inv c \<longleftrightarrow> length (ic_entries c) = INLINE_CACHE_SIZE"

lemma ic_map_of:
  "map_of (map (\<lambda>e. (ic_arm_target e, ic_x86_target e)) (filter (\<lambda>e. ic_x86_target e \<noteq> NULL) es)) k =
     map_option (\<lambda>i. ic_x86_target (es ! i)) (first_index (\<lambda>e. ic_arm_target e = k \<and> ic_x86_target e \<noteq> NULL) es)"
  by (induction es) (auto simp: option.map_comp comp_def)

lemma ic_pairs_touch:
  "i < length es \<Longrightarrow> map (\<lambda>e. (ic_arm_target e, ic_x86_target e)) (filter (\<lambda>e. ic_x86_target e \<noteq> NULL) (es[i := (es ! i)\<lparr>ic_hit_count := h\<rparr>])) =
     map (\<lambda>e. (ic_arm_target e, ic_x86_target e)) (filter (\<lambda>e. ic_x86_target e \<noteq> NULL) es)"
  by (induction es arbitrary: i) (auto split: nat.splits)

interpretation inline_cache: keyed_table ic_find ic_pairs ic_inv INLINE_CACHE_SIZE
proof
  fix c k assume inv: "ic_inv c"
  show "fst (ic_find c k) = map_of (ic_pairs c) k"
    using first_index_Some [of "\<lambda>e. ic_arm_target e = k \<and> ic_x86_target e \<noteq> NULL" "ic_entries c"]
    by (auto simp: ic_find_def ic_pairs_def arm2x86_inline_cache_lookup_def ic_map_of Let_def split: option.splits)
  show "ic_pairs (snd (ic_find c k)) = ic_pairs c"
    using first_index_Some [of "\<lambda>e. ic_arm_target e = k \<and> ic_x86_target e \<noteq> NULL" "ic_entries c"]
    by (auto simp: ic_find_def ic_pairs_def arm2x86_inline_cache_lookup_def ic_pairs_touch Let_def split: option.splits)
  show "ic_inv (snd (ic_find c k))"
    using inv by (auto simp: ic_find_def ic_inv_def arm2x86_inline_cache_lookup_def Let_def split: option.splits)
  show "length (ic_pairs c) \<le> INLINE_CACHE_SIZE"
    using inv by (auto simp: ic_pairs_def ic_inv_def intro: le_trans [OF length_filter_le])
qed

lemma first_index_update:
  assumes "i < length xs" and "P y" and "\<And>j. j < i \<Longrightarrow> \<not> P (xs ! j)"
  shows "first_index P (xs[i := y]) = Some i"
  using assms
proof (induction xs arbitrary: i)
  case (Cons x xs)
  show ?case
  proof (cases i)
    case (Suc j)
    have "\<not> P x" using Cons.prems(3) [of 0] Suc by simp
    moreover have "first_index P (xs[j := y]) = Some j"
      using Cons.prems(1,2) Cons.prems(3) [of "Suc _"] Suc by (intro Cons.IH) auto
    ultimately show ?thesis using Suc by simp
  qed (use Cons.prems in simp)
qed simp

lemma inline_cache_insert_index:
  assumes "ic_inv c" and "x \<noteq> NULL"
  obtains i where "i < INLINE_CACHE_SIZE" and "\<And>j. j < i \<Longrightarrow> \<not> (ic_arm_target (ic_entries c ! j) = t \<and> ic_x86_target (ic_entries c ! j) \<noteq> NULL)"
    and "ic_entries (arm2x86_inline_cache_insert c t x) = (ic_entries c)[i := \<lparr>ic_arm_target = t, ic_x86_target = x, ic_hit_count = 0\<rparr>]"
    and "ic_arm_target (ic_entries c ! i) = t \<or>
      (\<forall>e\<in>set (ic_entries c). ic_arm_target e \<noteq> t \<and> ic_hit_count (ic_entries c ! i) \<le> ic_hit_count e)"
proof (cases "first_index (\<lambda>e. ic_arm_target e = t) (ic_entries c)")
  case (Some i)
  from first_index_Some [OF Some] show ?thesis
    using assms Some that [of i] by (auto simp: arm2x86_inline_cache_insert_def ic_inv_def)
next
  case None
  have ne: "ic_entries c \<noteq> []" using assms(1) by (auto simp: ic_inv_def)
  have n: "\<forall>e\<in>set (ic_entries c). ic_arm_target e \<noteq> t" using None by (simp add: first_index_None)
  then have "ic_arm_target (ic_entries c ! j) \<noteq> t" if "j < 4" for j
    using assms(1) that by (auto simp: ic_inv_def)
  then show ?thesis
    using assms None n least_hit_result [where f = "\<lambda>e. uint (ic_hit_count e)", OF ne]
      that [of "least_hit (\<lambda>e. uint (ic_hit_count e)) (ic_entries c)"]
    by (auto simp: arm2x86_inline_cache_insert_def ic_inv_def Let_def word_le_def)
qed

lemma first_index_skip: "i < length xs \<Longrightarrow> \<not> P y \<Longrightarrow> \<not> P (xs ! i) \<Longrightarrow> first_index P (xs[i := y]) = first_index P xs"
  by (induction xs arbitrary: i) (auto split: nat.splits)

lemma inline_cache_others:
  assumes "i < length (ic_entries c)" and "ic_entries c' = (ic_entries c)[i := e]"
    and "ic_arm_target e \<noteq> a" and "ic_arm_target (ic_entries c ! i) \<noteq> a"
  shows "fst (arm2x86_inline_cache_lookup c' a) = fst (arm2x86_inline_cache_lookup c a)"
  using assms first_index_skip [OF assms(1), of "\<lambda>e. ic_arm_target e = a \<and> ic_x86_target e \<noteq> NULL" e]
    first_index_Some [of "\<lambda>e. ic_arm_target e = a \<and> ic_x86_target e \<noteq> NULL" "ic_entries c"]
  by (auto simp: arm2x86_inline_cache_lookup_def Let_def nth_list_update split: option.splits)

text \<open>
  C32: a branch target that is inserted into the inline cache is found by the next lookup, whatever
  the cache held, also after other lookups. One of the four entries is given up for it: its own old one or, if
  it has none, one with the fewest hits; the three others stay as they are, and every other
  target that is not the one given up is found, or not, as before.
\<close>

theorem inline_cache_insert_lookup:
  assumes "ic_inv c" and "x \<noteq> NULL"
  shows "let c' = arm2x86_inline_cache_insert c t x in
    ic_inv c' \<and> fst (arm2x86_inline_cache_lookup c' t) = x \<and> fst (ic_find (snd (ic_find c' u)) t) = Some x \<and>
    (\<exists>i<INLINE_CACHE_SIZE.
       (\<forall>j<INLINE_CACHE_SIZE. j \<noteq> i \<longrightarrow> ic_entries c' ! j = ic_entries c ! j) \<and>
       (\<forall>a. a \<noteq> t \<and> a \<noteq> ic_arm_target (ic_entries c ! i) \<longrightarrow>
          fst (arm2x86_inline_cache_lookup c' a) = fst (arm2x86_inline_cache_lookup c a)) \<and>
       (ic_arm_target (ic_entries c ! i) = t \<or>
        (\<forall>e\<in>set (ic_entries c). ic_arm_target e \<noteq> t \<and> ic_hit_count (ic_entries c ! i) \<le> ic_hit_count e)))"
proof -
  let ?c = "arm2x86_inline_cache_insert c t x"
  obtain i where i: "i < 4" "\<And>j. j < i \<Longrightarrow> \<not> (ic_arm_target (ic_entries c ! j) = t \<and> ic_x86_target (ic_entries c ! j) \<noteq> NULL)"
      "ic_entries ?c = (ic_entries c)[i := \<lparr>ic_arm_target = t, ic_x86_target = x, ic_hit_count = 0\<rparr>]"
      "ic_arm_target (ic_entries c ! i) = t \<or>
        (\<forall>e\<in>set (ic_entries c). ic_arm_target e \<noteq> t \<and> ic_hit_count (ic_entries c ! i) \<le> ic_hit_count e)"
    using inline_cache_insert_index [OF assms, of t] by metis
  have n: "i < length (ic_entries c)" using assms(1) i(1) by (simp add: ic_inv_def)
  have inv: "ic_inv ?c" using assms(1) i(3) by (simp add: ic_inv_def)
  have "first_index (\<lambda>e. ic_arm_target e = t \<and> ic_x86_target e \<noteq> NULL) (ic_entries ?c) = Some i"
    unfolding i(3) using i(1,2) assms by (intro first_index_update) (auto simp: ic_inv_def)
  then have l: "fst (arm2x86_inline_cache_lookup ?c t) = x"
    using i assms by (simp add: arm2x86_inline_cache_lookup_def Let_def ic_inv_def)
  then have "fst (ic_find ?c t) = Some x" using assms(2) by (simp add: ic_find_def case_prod_beta)
  then have "map_of (ic_pairs ?c) t = Some x" using inline_cache.lookup_value [OF inv] by simp
  then have f: "fst (ic_find (snd (ic_find ?c u)) t) = Some x"
    using inv by (simp add: inline_cache.lookup_value inline_cache.lookup_inv inline_cache.lookup_entries)
  have "\<forall>a. a \<noteq> t \<and> a \<noteq> ic_arm_target (ic_entries c ! i) \<longrightarrow>
      fst (arm2x86_inline_cache_lookup ?c a) = fst (arm2x86_inline_cache_lookup c a)"
    using inline_cache_others [OF n i(3)] by fastforce
  then show ?thesis using inv l f i(1,3,4) by (simp add: Let_def) (intro exI [of _ i]; simp)
qed

theorem inline_cache_insert_witness:
  "fst (arm2x86_inline_cache_lookup (arm2x86_inline_cache_insert arm2x86_inline_cache_init 0x4000 0x9000) 0x4000) = 0x9000"
  using inline_cache_insert_lookup [of arm2x86_inline_cache_init "0x9000" "0x4000"]
  by (simp add: ic_inv_def arm2x86_inline_cache_init_def Let_def)

text \<open>Only hits protect an entry: the second of two insertions replaces the first, although three entries are unused.\<close>

lemma inline_cache_one_entry:
  "fst (arm2x86_inline_cache_lookup (arm2x86_inline_cache_insert (arm2x86_inline_cache_insert arm2x86_inline_cache_init 0x4000 0x9000)
     0x5000 0xa000) 0x4000) = NULL"
  by code_simp

section \<open>Counters\<close>

lemma profile_hits:
  assumes "\<forall>b\<in>set bs. hi_arm_pc b \<noteq> pc" and "length bs < MAX_HOT_BLOCKS"
  shows "(arm2x86_profile_record_hit pc ^^ Suc k) bs =
    bs @ [\<lparr>hi_arm_pc = pc, hi_hit_count = of_nat (Suc k), hi_retranslated = False, hi_flags = 0\<rparr>]"
proof (induction k)
  case 0
  then show ?case using assms by (simp add: arm2x86_profile_record_hit_def first_index_None [THEN iffD2])
next
  case (Suc k)
  have "first_index (\<lambda>b. hi_arm_pc b = pc) (bs @ [\<lparr>hi_arm_pc = pc, hi_hit_count = h, hi_retranslated = r, hi_flags = f\<rparr>]) = Some (length bs)" for h r f
    using assms(1) by (induction bs) simp_all
  then show ?case using Suc by (simp add: arm2x86_profile_record_hit_def)
qed

text \<open>A block that finds a full table is never counted and never hot.\<close>

lemma profile_full:
  assumes "\<forall>b\<in>set bs. hi_arm_pc b \<noteq> pc" and "length bs = MAX_HOT_BLOCKS"
  shows "(arm2x86_profile_record_hit pc ^^ k) bs = bs \<and> \<not> arm2x86_profile_check pc bs"
  using assms by (induction k) (simp_all add: arm2x86_profile_record_hit_def arm2x86_profile_check_def first_index_None [THEN iffD2])

section \<open>Prefixes\<close>

text \<open>
  The second byte of the short VEX prefix of \<open>emit_vaddpd_avx\<close>: the length bit is clear (128 bits and not 256), the bits that stand for the
  prefix 0x66 are clear (single and not double precision), and the second source is register 2, whatever the operands are.
\<close>

lemma vaddpd_prefix:
  "\<not> bit (0xE8 :: u8) 2" "(0xE8 :: u8) AND 3 = 0" "NOT (drop_bit 3 (0xE8 :: u8)) AND 0xf = 2"
  by code_simp+

end
