(* ===== verification/Signals.thy ===== *)
theory Signals
  imports Convert64
begin

text \<open>
  Signals: the registration of handlers and the internal handlers of \<open>src/modules/arm2x86_signal.c\<close>, and from
  \<open>src/modules/arm2x86_syscall.c\<close> the table of the native bridge, the flag registers of the guest, the conversion of a
  machine context and the handler that translates on demand.

  What the kernel does for a signal is its disposition: a handler (0 is \<open>SIG_DFL\<close> and 1 is \<open>SIG_IGN\<close>), the flags and whether
  all signals are blocked; other masks, which the program never sets, are not told apart. \<open>works n\<close> tells whether the kernel
  accepts \<open>sigaction\<close> for the signal \<open>n\<close>; the answer depends on the number alone, as documented for \<open>sigaction\<close>, and so is the same for
  asking and for setting, and at every call. A handler that runs is the
  list of what it calls.
\<close>

section \<open>Dispositions\<close>

record disposition =
  dp_handler :: ptr
  dp_flags :: u32
  dp_block_all :: bool

abbreviation (input) SIG_DFL :: ptr where "SIG_DFL \<equiv> 0"
abbreviation (input) SIG_IGN :: ptr where "SIG_IGN \<equiv> 1"
abbreviation (input) SA_SIGINFO_ONSTACK :: u32 where "SA_SIGINFO_ONSTACK \<equiv> 0x08000004"

definition no_disposition :: disposition where
  "no_disposition = \<lparr>dp_handler = SIG_DFL, dp_flags = 0, dp_block_all = False\<rparr>"

type_synonym dispositions = "nat \<Rightarrow> disposition"

definition sigaction_set :: "(nat \<Rightarrow> bool) \<Rightarrow> nat \<Rightarrow> disposition \<Rightarrow> dispositions \<Rightarrow> dispositions" where
  "sigaction_set works n d k = (if works n then k(n := d) else k)"

section \<open>Registration\<close>

text \<open>SIGSEGV, SIGILL, SIGBUS, SIGTRAP and SIGFPE; \<open>handlers\<close> are the addresses of the internal handlers.\<close>

abbreviation (input) SIGNAL_MAX_TYPE :: nat where "SIGNAL_MAX_TYPE \<equiv> 5"

definition signal_numbers :: "nat list" where
  "signal_numbers = [11, 4, 7, 5, 8]"

record signal_state =
  sg_user :: "ptr list list"
  sg_original :: "disposition list"
  sg_initialized :: bool
  sg_kernel :: dispositions

definition install_one :: "(nat \<Rightarrow> bool) \<Rightarrow> ptr list \<Rightarrow> nat \<Rightarrow> signal_state \<Rightarrow> signal_state" where
  "install_one works handlers i s =
     (let n = signal_numbers ! i
      in if works n
         then s\<lparr>sg_original := (sg_original s)[i := sg_kernel s n],
                sg_kernel := sigaction_set works n \<lparr>dp_handler = handlers ! i, dp_flags = SA_SIGINFO_ONSTACK, dp_block_all = True\<rparr> (sg_kernel s)\<rparr>
         else s)"

definition signal_handler_init :: "(nat \<Rightarrow> bool) \<Rightarrow> ptr list \<Rightarrow> signal_state \<Rightarrow> signal_state" where
  "signal_handler_init works handlers s =
     (if sg_initialized s then s
      else (foldl (\<lambda>s i. install_one works handlers i s) s [0..<SIGNAL_MAX_TYPE])\<lparr>sg_initialized := True\<rparr>)"

definition restore_one :: "(nat \<Rightarrow> bool) \<Rightarrow> nat \<Rightarrow> signal_state \<Rightarrow> signal_state" where
  "restore_one works i s =
     s\<lparr>sg_kernel := sigaction_set works (signal_numbers ! i) (sg_original s ! i) (sg_kernel s), sg_user := (sg_user s)[i := []]\<rparr>"

definition signal_handler_fini :: "(nat \<Rightarrow> bool) \<Rightarrow> signal_state \<Rightarrow> signal_state" where
  "signal_handler_fini works s =
     (if \<not> sg_initialized s then s
      else (foldl (\<lambda>s i. restore_one works i s) s [0..<SIGNAL_MAX_TYPE])\<lparr>sg_initialized := False\<rparr>)"

definition signal_register_user_handler :: "bool \<Rightarrow> int \<Rightarrow> ptr \<Rightarrow> signal_state \<Rightarrow> int \<times> signal_state" where
  "signal_register_user_handler calloc_ok signal_type handler s =
     (if signal_type < 0 \<or> int SIGNAL_MAX_TYPE \<le> signal_type \<or> handler = NULL \<or> \<not> calloc_ok then (- 1, s)
      else (let i = nat signal_type in (0, s\<lparr>sg_user := (sg_user s)[i := handler # sg_user s ! i]\<rparr>)))"

definition signal_unregister_user_handler :: "int \<Rightarrow> ptr \<Rightarrow> signal_state \<Rightarrow> signal_state" where
  "signal_unregister_user_handler signal_type handler s =
     (if signal_type < 0 \<or> int SIGNAL_MAX_TYPE \<le> signal_type then s
      else (let i = nat signal_type in s\<lparr>sg_user := (sg_user s)[i := remove1 handler (sg_user s ! i)]\<rparr>))"

definition signal_is_initialized :: "signal_state \<Rightarrow> bool" where
  "signal_is_initialized s = sg_initialized s"

section \<open>Internal handlers\<close>

datatype action = Call_user ptr | Call_original ptr | Reset nat | Exit nat

text \<open>
  \<open>sa_sigaction\<close> and \<open>sa_handler\<close> are the same member of a union, so that the second test in the handler of SIGSEGV is reached only
  with a null pointer. No registered handler is null or internal.
\<close>

definition call_original :: "nat \<Rightarrow> ptr \<Rightarrow> action list" where
  "call_original n original = (if original \<noteq> NULL then [Call_original original] else [Reset n, Exit (128 + n)])"

abbreviation (input) DBT_CODE_CACHE_SIZE :: u64 where "DBT_CODE_CACHE_SIZE \<equiv> 64 * 1024 * 1024"

definition segv_handler :: "ptr \<Rightarrow> u64 \<Rightarrow> signal_state \<Rightarrow> action list" where
  "segv_handler code_cache rip s =
     (let original = dp_handler (sg_original s ! 0)
      in if code_cache \<noteq> NULL \<and> code_cache \<le> rip \<and> rip < code_cache + DBT_CODE_CACHE_SIZE then
           map Call_user (sg_user s ! 0) @
           (if original \<noteq> NULL then [Call_original original]
            else if original \<noteq> SIG_DFL \<and> original \<noteq> SIG_IGN then [Call_original original]
            else [Reset 11, Exit (128 + 11)])
         else call_original 11 original)"

definition other_handler :: "nat \<Rightarrow> signal_state \<Rightarrow> action list" where
  "other_handler i s = map Call_user (sg_user s ! i) @ call_original (signal_numbers ! i) (dp_handler (sg_original s ! i))"

definition ill_handler :: "signal_state \<Rightarrow> action list" where
  "ill_handler = other_handler 1"

definition bus_handler :: "signal_state \<Rightarrow> action list" where
  "bus_handler = other_handler 2"

definition trap_handler :: "signal_state \<Rightarrow> action list" where
  "trap_handler = other_handler 3"

definition fpe_handler :: "signal_state \<Rightarrow> action list" where
  "fpe_handler = other_handler 4"

section \<open>The table of the native bridge\<close>

record SignalHandler =
  sh_handler :: ptr
  sh_signum :: nat
  sh_flags :: u32
  sh_old_action :: disposition

record bridge_state =
  br_handlers :: "SignalHandler list"
  br_kernel :: dispositions

definition no_handler :: SignalHandler where
  "no_handler = \<lparr>sh_handler = NULL, sh_signum = 0, sh_flags = 0, sh_old_action = no_disposition\<rparr>"

text \<open>The handler that is called, if any.\<close>

definition signal_wrapper :: "int \<Rightarrow> bridge_state \<Rightarrow> ptr option" where
  "signal_wrapper signum s =
     (if 0 \<le> signum \<and> signum < 64 \<and> sh_handler (br_handlers s ! nat signum) \<noteq> NULL then Some (sh_handler (br_handlers s ! nat signum))
      else None)"

text \<open>\<open>wrapper\<close> is the address of \<open>signal_wrapper\<close>.\<close>

definition NativeBridgeRegisterSignalHandler :: "(nat \<Rightarrow> bool) \<Rightarrow> ptr \<Rightarrow> int \<Rightarrow> ptr \<Rightarrow> u32 \<Rightarrow> bridge_state \<Rightarrow> bridge_state" where
  "NativeBridgeRegisterSignalHandler works wrapper signum handler flags s =
     (if signum < 0 \<or> 64 \<le> signum then s
      else
        (let n = nat signum;
             h = (br_handlers s ! n)\<lparr>sh_handler := handler, sh_signum := n, sh_flags := flags\<rparr>;
             h = (if works n then h\<lparr>sh_old_action := br_kernel s n\<rparr> else h)
         in s\<lparr>br_handlers := (br_handlers s)[n := h],
              br_kernel := sigaction_set works n \<lparr>dp_handler = wrapper, dp_flags = flags, dp_block_all = False\<rparr> (br_kernel s)\<rparr>))"

definition NativeBridgeUnregisterSignalHandler :: "(nat \<Rightarrow> bool) \<Rightarrow> int \<Rightarrow> bridge_state \<Rightarrow> bridge_state" where
  "NativeBridgeUnregisterSignalHandler works signum s =
     (if signum < 0 \<or> 64 \<le> signum then s
      else
        (let n = nat signum; old = sh_old_action (br_handlers s ! n);
             k = (if dp_handler old \<noteq> NULL then sigaction_set works n old (br_kernel s) else br_kernel s)
         in s\<lparr>br_handlers := (br_handlers s)[n := no_handler], br_kernel := k\<rparr>))"

section \<open>Flags of the guest\<close>

abbreviation (input) NZCV_N :: u32 where "NZCV_N \<equiv> 0x80000000"
abbreviation (input) NZCV_Z :: u32 where "NZCV_Z \<equiv> 0x40000000"
abbreviation (input) NZCV_C :: u32 where "NZCV_C \<equiv> 0x20000000"

definition arm2x86_update_nzcv_from_x86 :: "u64 \<Rightarrow> int \<Rightarrow> u32" where
  "arm2x86_update_nzcv_from_x86 result size_bits =
     (if size_bits = 64 then
        (let st = 0; st = (if result <s 0 then st OR NZCV_N else st) in if result = 0 then st OR NZCV_Z else st)
      else
        (let st = 0; st = (if (ucast result :: u32) <s 0 then st OR NZCV_N else st)
         in if result AND 0xffffffff = 0 then st OR NZCV_Z else st))"

definition arm2x86_set_carry :: "bool \<Rightarrow> u32 \<Rightarrow> u32" where
  "arm2x86_set_carry c st = (if c then st OR NZCV_C else st AND NOT NZCV_C)"

definition arm2x86_get_nzcv :: "u32 \<Rightarrow> u32" where
  "arm2x86_get_nzcv st = st"

definition arm2x86_set_nzcv :: "u32 \<Rightarrow> u32 \<Rightarrow> u32" where
  "arm2x86_set_nzcv nzcv st = nzcv"

definition arm2x86_get_fpsr :: "u32 \<Rightarrow> u32" where
  "arm2x86_get_fpsr st = st"

definition arm2x86_set_fpsr :: "u32 \<Rightarrow> u32 \<Rightarrow> u32" where
  "arm2x86_set_fpsr fpsr st = fpsr"

definition set_if :: "bool \<Rightarrow> u32 \<Rightarrow> u32 \<Rightarrow> u32" where
  "set_if b v st = (if b then st OR v else st)"

definition arm2x86_update_fpsr_from_sse :: "u16 \<Rightarrow> u32" where
  "arm2x86_update_fpsr_from_sse mxcsr =
     (let st = 0; st = set_if (mxcsr AND 0x01 \<noteq> 0) 16 st; st = set_if (mxcsr AND 0x02 \<noteq> 0) 2 st;
          st = set_if (mxcsr AND 0x04 \<noteq> 0) 8 st; st = set_if (mxcsr AND 0x08 \<noteq> 0) 4 st
      in set_if (mxcsr AND 0x10 \<noteq> 0) 1 st)"

section \<open>Machine contexts\<close>

datatype greg = REG_R8 | REG_R9 | REG_R10 | REG_R11 | REG_R12 | REG_R13 | REG_R14 | REG_R15 | REG_RDI | REG_RSI | REG_RBP | REG_RBX
  | REG_RDX | REG_RAX | REG_RCX | REG_RSP | REG_RIP | REG_EFL | REG_CSGSFS

record fpstate =
  fp_xmm :: "nat \<Rightarrow> u64 \<times> u64"
  fp_mxcsr :: u32

record ucontext =
  uc_gregs :: "greg \<Rightarrow> u64"
  uc_fpregs :: "fpstate option"

record arm64_context =
  ac_regs :: "nat \<Rightarrow> u64"
  ac_sp :: u64
  ac_pc :: u64
  ac_pstate :: u64
  ac_vregs :: "nat \<Rightarrow> u64 \<times> u64"
  ac_fpsr :: u32
  ac_fpcr :: u32

definition eflags_of :: "u64 \<Rightarrow> u64" where
  "eflags_of pstate =
     (let e = 0; e = (if bit pstate 31 then e OR push_bit 7 1 else e); e = (if bit pstate 30 then e OR push_bit 6 1 else e);
          e = (if bit pstate 29 then e OR push_bit 0 1 else e); e = (if bit pstate 28 then e OR push_bit 11 1 else e);
          e = e OR push_bit 9 1
      in e OR push_bit 1 1)"

definition mxcsr_of :: "u32 \<Rightarrow> u32 \<Rightarrow> u32" where
  "mxcsr_of fpsr fpcr =
     (let m = 0x1F80; m = set_if (fpsr AND 0x01 \<noteq> 0) 1 m; m = set_if (fpsr AND 0x02 \<noteq> 0) 4 m; m = set_if (fpsr AND 0x04 \<noteq> 0) 8 m;
          m = set_if (fpsr AND 0x08 \<noteq> 0) 16 m; m = set_if (fpsr AND 0x10 \<noteq> 0) 32 m;
          arm_rmode = drop_bit 22 fpcr AND 3;
          x86_rmode = (if arm_rmode = 0 then 0 else if arm_rmode = 1 then 2 else if arm_rmode = 2 then 1 else 3)
      in (m AND NOT (push_bit 13 3)) OR push_bit 13 x86_rmode)"

definition translate_ucontext_arm64_to_x86 :: "arm64_context option \<Rightarrow> ucontext \<Rightarrow> ucontext" where
  "translate_ucontext_arm64_to_x86 arm_ctx uc =
     (case arm_ctx of
        None \<Rightarrow>
          (let g = uc_gregs uc; g = g(REG_RSP := g REG_RSP AND NOT 0xF); g = g(REG_EFL := g REG_EFL AND NOT (push_bit 10 1))
           in uc\<lparr>uc_gregs := g\<rparr>)
      | Some a \<Rightarrow>
          (let x = ac_regs a;
               g = (uc_gregs uc)(REG_RAX := x 0, REG_RDI := x 1, REG_RSI := x 2, REG_RDX := x 3, REG_RCX := x 4, REG_R8 := x 5,
                      REG_R9 := x 6, REG_R10 := x 7, REG_R11 := x 8, REG_R12 := x 9, REG_R13 := x 10, REG_R14 := x 11,
                      REG_R15 := x 12, REG_RBX := x 13, REG_RBP := x 14);
               g = g(REG_R14 := x 30, REG_RSP := ac_sp a AND NOT 0xF, REG_RIP := ac_pc a, REG_EFL := eflags_of (ac_pstate a),
                     REG_CSGSFS := 0x33)
           in uc\<lparr>uc_gregs := g,
                 uc_fpregs := map_option (\<lambda>f. f\<lparr>fp_xmm := (\<lambda>i. if i < 16 then ac_vregs a i else fp_xmm f i),
                   fp_mxcsr := mxcsr_of (ac_fpsr a) (ac_fpcr a)\<rparr>) (uc_fpregs uc)\<rparr>))"

text \<open>The first 23 entries of the other context, as they are.\<close>

definition translate_ucontext_arm64_to_x86_enhanced :: "u64 list option \<Rightarrow> u64 list option \<Rightarrow> u64 list option" where
  "translate_ucontext_arm64_to_x86_enhanced arm x86 =
     (case (arm, x86) of (Some a, Some x) \<Rightarrow> Some (take 23 a @ drop 23 x) | _ \<Rightarrow> x86)"

definition translate_ucontext_x86_to_arm64_enhanced :: "u64 list option \<Rightarrow> u64 list option \<Rightarrow> u64 list option" where
  "translate_ucontext_x86_to_arm64_enhanced x86 arm =
     (case (x86, arm) of (Some x, Some a) \<Rightarrow> Some (take 23 x @ drop 23 a) | _ \<Rightarrow> arm)"

section \<open>Translation on demand\<close>

text \<open>
  The result is the new context and the code that is made executable at \<open>exec_mem\<close>, or \<open>None\<close> when the signal is raised again with
  its default action. \<open>mods\<close> are the start and the size of the loaded modules, \<open>buf\<close> the address of the local buffer.
\<close>

definition sigsegv_handler ::
  "Platform \<Rightarrow> (ptr \<Rightarrow> u8) \<Rightarrow> DecodedInstruction \<Rightarrow> ptr \<Rightarrow> TranslateCtx \<Rightarrow> ptr \<Rightarrow> ptr option \<Rightarrow> (ptr \<times> u64) list \<Rightarrow> ucontext
     \<Rightarrow> (ucontext \<times> code) option" where
  "sigsegv_handler pf m junk malloc_result t buf exec_mem mods uc =
     (let rip = uc_gregs uc REG_RIP
      in case find (\<lambda>(start, len). start \<le> rip \<and> rip < start + len) mods of
           None \<Rightarrow> None
         | Some _ \<Rightarrow>
             (case arm2x86_convert_block pf m 1 False junk malloc_result t rip 64 buf 1 NULL of
                (rc, Some t') \<Rightarrow>
                  (if rc = ARM2X86_OK \<and> x86_code t' \<noteq> [] then
                     (case exec_mem of
                        Some e \<Rightarrow>
                          Some (translate_ucontext_arm64_to_x86 None (uc\<lparr>uc_gregs := (uc_gregs uc)(REG_RIP := e)\<rparr>), x86_code t')
                      | None \<Rightarrow> None)
                   else None)
              | (rc, None) \<Rightarrow> None))"

section \<open>Installed handlers are removed again\<close>

datatype user_op = Register bool int ptr | Unregister int ptr

fun user_step :: "signal_state \<Rightarrow> user_op \<Rightarrow> signal_state" where
  "user_step s (Register ok i h) = snd (signal_register_user_handler ok i h s)"
| "user_step s (Unregister i h) = signal_unregister_user_handler i h s"

lemma user_steps_keep:
  "sg_kernel (foldl user_step s ops) = sg_kernel s \<and> sg_original (foldl user_step s ops) = sg_original s \<and>
   sg_initialized (foldl user_step s ops) = sg_initialized s \<and> length (sg_user (foldl user_step s ops)) = length (sg_user s)"
proof (induction ops arbitrary: s)
  case (Cons op ops)
  have "sg_kernel (user_step s op) = sg_kernel s \<and> sg_original (user_step s op) = sg_original s \<and>
      sg_initialized (user_step s op) = sg_initialized s \<and> length (sg_user (user_step s op)) = length (sg_user s)"
    by (cases op) (auto simp: signal_register_user_handler_def signal_unregister_user_handler_def Let_def)
  with Cons show ?case by simp
qed simp

lemma five: "[0..<5] = [0, 1, 2, 3, 4 :: nat]"
  by code_simp

lemma length_5: "length xs = 5 \<Longrightarrow> \<exists>a b c d e. xs = [a, b, c, d, e]"
  by (auto simp: eval_nat_numeral length_Suc_conv)

definition internal :: "ptr \<Rightarrow> disposition" where
  "internal h = \<lparr>dp_handler = h, dp_flags = SA_SIGINFO_ONSTACK, dp_block_all = True\<rparr>"

lemma sigaction_set_apply [simp]: "sigaction_set works n d k x = (if works n \<and> x = n then d else k x)"
  by (simp add: sigaction_set_def)

lemma install_one_eq:
  "install_one works handlers i s =
     (let n = signal_numbers ! i
      in s\<lparr>sg_original := (sg_original s)[i := if works n then sg_kernel s n else sg_original s ! i],
           sg_kernel := sigaction_set works n (internal (handlers ! i)) (sg_kernel s)\<rparr>)"
  by (simp add: install_one_def internal_def sigaction_set_def Let_def)

text \<open>
  C35: while the translator is active its handlers are installed for the five signals, whatever user handlers are registered and
  unregistered in the meantime, and when it is shut down every signal has the disposition that it had before, and no user
  handler is left. This holds whichever signals the kernel accepts; its answer for a signal is the same for
  asking and setting and at every call, and signals that it refuses are never changed.
\<close>

theorem signal_init_fini_restores:
  fixes works :: "nat \<Rightarrow> bool" and handlers :: "ptr list" and ops :: "user_op list"
  assumes "\<not> sg_initialized s" and "length (sg_original s) = 5" and "length (sg_user s) = 5"
  defines "active \<equiv> foldl user_step (signal_handler_init works handlers s) ops"
  shows "sg_kernel active = (\<lambda>n. case find (\<lambda>i. signal_numbers ! i = n) [0..<5] of
        Some i \<Rightarrow> if works n then internal (handlers ! i) else sg_kernel s n | None \<Rightarrow> sg_kernel s n) \<and>
    signal_is_initialized active \<and>
    sg_kernel (signal_handler_fini works active) = sg_kernel s \<and> \<not> signal_is_initialized (signal_handler_fini works active) \<and>
    sg_user (signal_handler_fini works active) = replicate 5 []"
proof -
  let ?i = "signal_handler_init works handlers s"
  obtain a b c d e where o: "sg_original s = [a, b, c, d, e]" using length_5 [OF assms(2)] by blast
  have keep: "sg_kernel active = sg_kernel ?i" "sg_original active = sg_original ?i" "sg_initialized active = sg_initialized ?i"
      "length (sg_user active) = length (sg_user ?i)"
    using user_steps_keep [of ?i ops] by (simp_all add: active_def)
  have u: "sg_user ?i = sg_user s"
    using assms(1) by (simp add: signal_handler_init_def install_one_eq five Let_def)
  obtain f g h j k where ua: "sg_user active = [f, g, h, j, k]" using length_5 [of "sg_user active"] keep(4) u assms(3) by auto
  have "sg_kernel ?i = (\<lambda>n. case find (\<lambda>i. signal_numbers ! i = n) [0..<5] of
        Some i \<Rightarrow> if works n then internal (handlers ! i) else sg_kernel s n | None \<Rightarrow> sg_kernel s n)"
    using assms(1) by (simp add: signal_handler_init_def install_one_eq five signal_numbers_def Let_def fun_eq_iff)
  moreover have "sg_kernel (signal_handler_fini works active) = sg_kernel s"
    using assms(1) by (simp add: signal_handler_fini_def keep signal_handler_init_def install_one_eq restore_one_def five signal_numbers_def
        o Let_def fun_eq_iff)
  moreover have "sg_user (signal_handler_fini works active) = replicate 5 []"
    using assms(1) by (simp add: signal_handler_fini_def keep signal_handler_init_def restore_one_def five ua eval_nat_numeral)
  ultimately show ?thesis
    using assms(1) by (simp add: keep signal_is_initialized_def signal_handler_init_def signal_handler_fini_def)
qed

definition signal_start :: signal_state where
  "signal_start = \<lparr>sg_user = replicate 5 [], sg_original = replicate 5 no_disposition, sg_initialized = False, sg_kernel = (\<lambda>_. no_disposition)\<rparr>"

theorem signal_init_fini_witness:
  "dp_handler (sg_kernel (foldl user_step (signal_handler_init (\<lambda>_. True) [10, 20, 30, 40, 50] signal_start) [Register True 1 77]) 4) = 20 \<and>
   sg_kernel (signal_handler_fini (\<lambda>_. True) (foldl user_step (signal_handler_init (\<lambda>_. True) [10, 20, 30, 40, 50] signal_start)
     [Register True 1 77])) 4 = no_disposition"
  using signal_init_fini_restores [of signal_start "\<lambda>_. True" "[10, 20, 30, 40, 50]" "[Register True 1 77]"]
  by (simp add: signal_start_def five signal_numbers_def internal_def)

text \<open>User handlers run in the reverse order of their registration, and then the handler that was there before the translator.\<close>

lemma user_handlers_order:
  assumes "i < 5" and "length (sg_user s) = 5" and "sg_user s ! i = []" and "\<forall>h\<in>set hs. h \<noteq> NULL"
  shows "other_handler i (foldl user_step s (map (Register True (int i)) hs)) =
    map Call_user (rev hs) @ call_original (signal_numbers ! i) (dp_handler (sg_original s ! i))"
proof -
  have "sg_user (foldl user_step s (map (Register True (int i)) hs)) ! i = rev hs @ sg_user s ! i" if "length (sg_user s) = 5" "\<forall>h\<in>set hs. h \<noteq> NULL" for s
    using that
  proof (induction hs arbitrary: s)
    case (Cons h hs)
    then show ?case using assms(1) by (simp add: signal_register_user_handler_def Let_def)
  qed simp
  then show ?thesis using assms user_steps_keep [of s "map (Register True (int i)) hs"] by (simp add: other_handler_def)
qed

text \<open>An ignored signal, with the disposition 1, makes the handlers call the address 1.\<close>

lemma ignored_signal_called:
  "dp_handler (sg_original s ! 1) = SIG_IGN \<Longrightarrow> last (ill_handler s) = Call_original 1"
  by (simp add: ill_handler_def other_handler_def call_original_def)

section \<open>Native bridge\<close>

text \<open>
  Registering a handler for a signal and unregistering it again clears the table entry, and gives the signal its old disposition, except
  when that was the default: then the wrapper stays installed, and since the table has no handler for it, the signal is ignored
  from then on instead of having its default action.
\<close>

lemma bridge_unregister_restores:
  fixes wrapper :: ptr and flags :: u32
  assumes "n < 64" and "length (br_handlers s) = 64" and "works n" and "handler \<noteq> NULL"
  defines "s1 \<equiv> NativeBridgeRegisterSignalHandler works wrapper (int n) handler flags s"
  defines "s2 \<equiv> NativeBridgeUnregisterSignalHandler works (int n) s1"
  shows "signal_wrapper (int n) s1 = Some handler \<and> dp_handler (br_kernel s1 n) = wrapper \<and>
    br_handlers s2 = (br_handlers s)[n := no_handler] \<and> signal_wrapper (int n) s2 = None \<and>
    br_kernel s2 = (if dp_handler (br_kernel s n) = SIG_DFL
      then (br_kernel s)(n := \<lparr>dp_handler = wrapper, dp_flags = flags, dp_block_all = False\<rparr>) else br_kernel s)"
proof -
  have s1: "br_handlers s1 = (br_handlers s)[n := (br_handlers s ! n)\<lparr>sh_handler := handler, sh_signum := n, sh_flags := flags, sh_old_action := br_kernel s n\<rparr>]"
      "br_kernel s1 = (br_kernel s)(n := \<lparr>dp_handler = wrapper, dp_flags = flags, dp_block_all = False\<rparr>)"
    using assms(1,3) by (simp_all add: s1_def NativeBridgeRegisterSignalHandler_def sigaction_set_def Let_def)
  then have "br_handlers s2 = (br_handlers s)[n := no_handler]"
      "br_kernel s2 = (if dp_handler (br_kernel s n) = SIG_DFL
      then (br_kernel s)(n := \<lparr>dp_handler = wrapper, dp_flags = flags, dp_block_all = False\<rparr>) else br_kernel s)"
    using assms(1-3) by (auto simp: s2_def NativeBridgeUnregisterSignalHandler_def sigaction_set_def Let_def)
  then show ?thesis using s1 assms(1,2,4) by (simp add: signal_wrapper_def no_handler_def)
qed

lemma bridge_unregister_witness:
  "dp_handler (br_kernel (NativeBridgeUnregisterSignalHandler (\<lambda>_. True) (int 10)
     (NativeBridgeRegisterSignalHandler (\<lambda>_. True) 0x500 (int 10) 0x600 0 \<lparr>br_handlers = replicate 64 no_handler, br_kernel = (\<lambda>_. no_disposition)\<rparr>)) 10) = 0x500"
  using bridge_unregister_restores [of 10 "\<lparr>br_handlers = replicate 64 no_handler, br_kernel = (\<lambda>_. no_disposition)\<rparr>" "\<lambda>_. True" "0x600" "0x500" 0]
  by (simp add: no_disposition_def)

section \<open>Flags\<close>

lemma eflags_bits:
  "bit (eflags_of p) 7 = bit p 31" "bit (eflags_of p) 6 = bit p 30" "bit (eflags_of p) 0 = bit p 29" "bit (eflags_of p) 11 = bit p 28"
  "bit (eflags_of p) 9" "bit (eflags_of p) 1" "\<not> bit (eflags_of p) 10"
  by (simp_all add: eflags_of_def Let_def bit_or_iff bit_push_bit_iff bit_1_iff)

lemma nzcv_bits:
  "bit (arm2x86_update_nzcv_from_x86 r 64) 31 = bit r 63" "bit (arm2x86_update_nzcv_from_x86 r 64) 30 \<longleftrightarrow> r = 0"
  "\<not> bit (arm2x86_update_nzcv_from_x86 r 64) 29" "\<not> bit (arm2x86_update_nzcv_from_x86 r 64) 28"
proof -
  have "r <s 0 \<longleftrightarrow> bit r 63" using bit_last_iff [of r] by (simp add: word_sless_alt)
  then show "bit (arm2x86_update_nzcv_from_x86 r 64) 31 = bit r 63" "bit (arm2x86_update_nzcv_from_x86 r 64) 30 \<longleftrightarrow> r = 0"
    "\<not> bit (arm2x86_update_nzcv_from_x86 r 64) 29" "\<not> bit (arm2x86_update_nzcv_from_x86 r 64) 28"
    by (auto simp: arm2x86_update_nzcv_from_x86_def Let_def bit_or_iff)
qed

text \<open>
  The two conversions of exception flags disagree: an invalid operation of the guest, taken to MXCSR and back, comes out as
  inexact, and an inexact result as none at all.
\<close>

lemma exception_flags_exchanged:
  "arm2x86_update_fpsr_from_sse (ucast (mxcsr_of 1 0)) = 16" "arm2x86_update_fpsr_from_sse (ucast (mxcsr_of 16 0)) = 0"
  by code_simp+

section \<open>Contexts\<close>

text \<open>X11 has no place in the converted context, since its register is overwritten with the link register; X15 to X29 have none either.\<close>

lemma ucontext_depends:
  assumes "\<And>i. i \<in> {0..10} \<union> {12, 13, 14, 30} \<Longrightarrow> ac_regs a i = ac_regs b i"
    and "ac_sp a = ac_sp b" and "ac_pc a = ac_pc b" and "ac_pstate a = ac_pstate b"
    and "\<And>i. i < 16 \<Longrightarrow> ac_vregs a i = ac_vregs b i" and "ac_fpsr a = ac_fpsr b" and "ac_fpcr a = ac_fpcr b"
  shows "translate_ucontext_arm64_to_x86 (Some a) uc = translate_ucontext_arm64_to_x86 (Some b) uc"
proof -
  have v: "(\<lambda>i. if i < 16 then ac_vregs a i else f i) = (\<lambda>i. if i < 16 then ac_vregs b i else f i)" for f :: "nat \<Rightarrow> u64 \<times> u64"
    using assms(5) by auto
  have "ac_regs a 0 = ac_regs b 0" "ac_regs a 1 = ac_regs b 1" "ac_regs a 2 = ac_regs b 2" "ac_regs a 3 = ac_regs b 3" "ac_regs a 4 = ac_regs b 4"
    "ac_regs a 5 = ac_regs b 5" "ac_regs a 6 = ac_regs b 6" "ac_regs a 7 = ac_regs b 7" "ac_regs a 8 = ac_regs b 8" "ac_regs a 9 = ac_regs b 9"
    "ac_regs a 10 = ac_regs b 10" "ac_regs a 12 = ac_regs b 12" "ac_regs a 13 = ac_regs b 13" "ac_regs a 14 = ac_regs b 14" "ac_regs a 30 = ac_regs b 30"
    using assms(1) by simp_all
  then show ?thesis
    by (simp add: translate_ucontext_arm64_to_x86_def Let_def v assms(2-4,6,7) fun_upd_twist [of REG_R14])
qed

text \<open>After a fault on an address of a module the program goes on in the translated code, with a stack pointer that may have moved.\<close>

lemma sigsegv_resumes:
  assumes "sigsegv_handler pf m junk malloc_result t buf (Some e) mods uc = Some (uc', c)"
  shows "uc_gregs uc' REG_RIP = e \<and> uc_gregs uc' REG_RSP = uc_gregs uc REG_RSP AND NOT 0xF \<and> c \<noteq> [] \<and>
    (\<forall>r. r \<notin> {REG_RIP, REG_RSP, REG_EFL} \<longrightarrow> uc_gregs uc' r = uc_gregs uc r)"
  using assms by (auto simp: sigsegv_handler_def translate_ucontext_arm64_to_x86_def Let_def split: option.splits prod.splits if_splits)

end
