(* ===== verification/Jni.thy ===== *)
theory Jni
  imports Decode64 Hit_Table
begin

text \<open>
  Namespaces of libraries and Java reflection, from \<open>src/modules/arm2x86_syscall.c\<close>. A C string is its characters
  without the terminating zero, and \<open>NULL\<close> is \<open>None\<close>. The function table of the Java VM is a parameter: which entries are set, and
  what \<open>FindClass\<close>, \<open>GetMethodID\<close> and \<open>GetFieldID\<close> answer. A call of a Java method is recorded and not carried out.
\<close>

section \<open>Namespaces\<close>

datatype Arm2x86NamespaceType = ARM2X86_NS_PUBLIC | ARM2X86_NS_ISOLATED | ARM2X86_NS_SHARED

record Arm2x86Namespace =
  ns_name :: string
  ns_type :: Arm2x86NamespaceType
  ns_ld_library_path :: "string option"
  ns_permitted_paths :: "string option"
  ns_allowed_libs :: "ptr list option"
  ns_max_allowed :: nat

definition arm2x86_init_namespace :: "bool \<Rightarrow> string option \<Rightarrow> Arm2x86NamespaceType \<Rightarrow> string option \<Rightarrow> string option
    \<Rightarrow> Arm2x86Namespace \<Rightarrow> int \<times> Arm2x86Namespace" where
  "arm2x86_init_namespace calloc_ok name type ld_library_path permitted_paths current =
     (case name of
        None \<Rightarrow> (ARM2X86_ERR_INVALID_PARAM, current)
      | Some n \<Rightarrow>
          (if calloc_ok then ARM2X86_OK else ARM2X86_ERR_MEMORY,
           \<lparr>ns_name = take 255 n, ns_type = type, ns_ld_library_path = ld_library_path, ns_permitted_paths = permitted_paths,
            ns_allowed_libs = (if calloc_ok then Some [] else None), ns_max_allowed = 64\<rparr>))"

text \<open>\<open>strtok_r\<close> with one separator: the maximal pieces without it that are not empty.\<close>

fun pieces :: "char \<Rightarrow> string \<Rightarrow> string \<Rightarrow> string list" where
  "pieces sep cur [] = [rev cur]"
| "pieces sep cur (c # cs) = (if c = sep then rev cur # pieces sep [] cs else pieces sep (c # cur) cs)"

definition tokens :: "char \<Rightarrow> string \<Rightarrow> string list" where
  "tokens sep s = filter (\<lambda>t. t \<noteq> []) (pieces sep [] s)"

definition namespace_permits_path :: "bool \<Rightarrow> string option \<Rightarrow> Arm2x86Namespace option \<Rightarrow> bool" where
  "namespace_permits_path strdup_ok path ns =
     (case Option.bind ns ns_permitted_paths of
        None \<Rightarrow> True
      | Some paths \<Rightarrow>
          (case path of None \<Rightarrow> False
           | Some p \<Rightarrow> strdup_ok \<and> (\<exists>t\<in>set (tokens CHR '':'' paths). take (length t) p = t)))"

text \<open>\<open>None\<close>: a write through the null pointer, or behind an array that was extended to no elements.\<close>

definition arm2x86_add_lib_to_namespace :: "bool \<Rightarrow> ptr \<Rightarrow> Arm2x86Namespace option \<Rightarrow> (int \<times> Arm2x86Namespace option) option" where
  "arm2x86_add_lib_to_namespace realloc_ok lib_handle ns =
     (case ns of
        None \<Rightarrow> Some (ARM2X86_ERR_INVALID_PARAM, None)
      | Some n \<Rightarrow>
          (let libs = (case ns_allowed_libs n of Some ls \<Rightarrow> ls | None \<Rightarrow> [])
           in if lib_handle = NULL then Some (ARM2X86_ERR_INVALID_PARAM, ns)
              else if ns_max_allowed n \<le> length libs then
                (if \<not> realloc_ok then Some (ARM2X86_ERR_MEMORY, ns)
                 else if ns_max_allowed n * 2 \<le> length libs then None
                 else Some (ARM2X86_OK, Some (n\<lparr>ns_max_allowed := ns_max_allowed n * 2, ns_allowed_libs := Some (libs @ [lib_handle])\<rparr>)))
              else if ns_allowed_libs n = None then None
              else Some (ARM2X86_OK, Some (n\<lparr>ns_allowed_libs := Some (libs @ [lib_handle])\<rparr>))))"

text \<open>\<open>load\<close> is the result of \<open>NativeBridgeLoadLibrary\<close>, which maps files, under the current namespace. The second result is the namespace given.\<close>

definition arm2x86_load_library_in_namespace ::
  "bool \<Rightarrow> bool \<Rightarrow> (Arm2x86Namespace \<Rightarrow> string \<Rightarrow> ptr) \<Rightarrow> string option \<Rightarrow> Arm2x86Namespace option \<Rightarrow> Arm2x86Namespace
     \<Rightarrow> (ptr \<times> Arm2x86Namespace option) option" where
  "arm2x86_load_library_in_namespace strdup_ok realloc_ok load libpath ns current =
     (case libpath of
        None \<Rightarrow> Some (NULL, ns)
      | Some p \<Rightarrow>
          if map_option ns_type ns = Some ARM2X86_NS_ISOLATED \<and> \<not> namespace_permits_path strdup_ok libpath ns then Some (NULL, ns)
          else
            (let handle = load (case ns of Some n \<Rightarrow> n | None \<Rightarrow> current) p
             in if handle \<noteq> NULL \<and> ns \<noteq> None
                then map_option (\<lambda>(rc, ns). (handle, ns)) (arm2x86_add_lib_to_namespace realloc_ok handle ns)
                else Some (handle, ns)))"

definition arm2x86_fini_namespace :: "Arm2x86Namespace option \<Rightarrow> int \<times> Arm2x86Namespace option" where
  "arm2x86_fini_namespace ns =
     (case ns of
        None \<Rightarrow> (ARM2X86_ERR_INVALID_PARAM, None)
      | Some n \<Rightarrow> (ARM2X86_OK, Some \<lparr>ns_name = [], ns_type = ARM2X86_NS_PUBLIC, ns_ld_library_path = None, ns_permitted_paths = None,
                               ns_allowed_libs = None, ns_max_allowed = 0\<rparr>))"

section \<open>Signatures\<close>

text \<open>\<open>Overread\<close>: the loop has gone past the end of the string, and what it reads there is undefined.\<close>

datatype 'a parse = Failed | Overread | Parsed 'a

definition up_to_semicolon :: "string \<Rightarrow> (string \<times> string) option" where
  "up_to_semicolon p =
     (let name = takeWhile (\<lambda>c. c \<noteq> CHR '';'') p; rest = dropWhile (\<lambda>c. c \<noteq> CHR '';'') p
      in case rest of [] \<Rightarrow> None | c # cs \<Rightarrow> Some (name @ [c], cs))"

lemma up_to_semicolon_shorter: "up_to_semicolon p = Some (t, rest) \<Longrightarrow> length rest < length p"
proof -
  assume a: "up_to_semicolon p = Some (t, rest)"
  then obtain c where "dropWhile (\<lambda>c. c \<noteq> CHR '';'') p = c # rest" by (auto simp: up_to_semicolon_def Let_def split: list.splits)
  then show ?thesis by (metis length_dropWhile_le length_Cons Suc_le_eq)
qed

function parse_params :: "string \<Rightarrow> string list \<Rightarrow> (string list \<times> string) parse" where
  "parse_params p acc =
     (case p of
        [] \<Rightarrow> Parsed (acc, p)
      | c # q \<Rightarrow>
          if c = CHR '')'' \<or> 16 \<le> length acc then Parsed (acc, p)
          else if c = CHR ''L'' then
            (case up_to_semicolon p of None \<Rightarrow> Failed | Some (t, rest) \<Rightarrow> parse_params rest (acc @ [take 63 t]))
          else if c = CHR ''['' then
            (case q of
               [] \<Rightarrow> Overread
             | d # r \<Rightarrow>
                 if d = CHR ''L'' then
                   (case up_to_semicolon q of None \<Rightarrow> Failed | Some (t, rest) \<Rightarrow> parse_params rest (acc @ [CHR ''['' # take 62 t]))
                 else parse_params r (acc @ [[CHR ''['', d]]))
          else parse_params q (acc @ [[c]]))"
  by pat_completeness auto
termination
  by (relation "measure (\<lambda>(p, acc). length p)") (auto dest!: up_to_semicolon_shorter)

declare parse_params.simps [simp del]

record MethodSignature =
  ms_return_type :: string
  ms_param_types :: "string list"

definition parse_method_signature :: "string option \<Rightarrow> MethodSignature parse" where
  "parse_method_signature sig =
     (case sig of
        None \<Rightarrow> Failed
      | Some s \<Rightarrow>
          (case dropWhile (\<lambda>c. c \<noteq> CHR ''('') s of
             [] \<Rightarrow> Failed
           | _ # p \<Rightarrow>
               (case parse_params p [] of
                  Parsed (ps, c # ret) \<Rightarrow>
                    if c = CHR '')'' then Parsed \<lparr>ms_return_type = take 63 ret, ms_param_types = ps\<rparr> else Failed
                | Parsed (ps, []) \<Rightarrow> Failed
                | Failed \<Rightarrow> Failed
                | Overread \<Rightarrow> Overread)))"

definition jni_type_to_signature :: "string \<Rightarrow> bool \<Rightarrow> string" where
  "jni_type_to_signature type_name is_array =
     (if type_name = ''int'' then ''I'' else if type_name = ''boolean'' then ''Z'' else if type_name = ''byte'' then ''B''
      else if type_name = ''char'' then ''C'' else if type_name = ''short'' then ''S'' else if type_name = ''long'' then ''J''
      else if type_name = ''float'' then ''F'' else if type_name = ''double'' then ''D'' else if type_name = ''void'' then ''V''
      else take 255 (if is_array then ''[L'' @ type_name @ '';'' else ''L'' @ type_name @ '';''))"

section \<open>Reflection\<close>

record JavaReflectionCache =
  rc_class_name :: string
  rc_class_object :: ptr
  rc_cached_methods :: "ptr list option"

record reflection =
  rf_cache :: "JavaReflectionCache list option"
  rf_max :: nat

definition arm2x86_jni_init_reflection :: "bool \<Rightarrow> reflection \<Rightarrow> int \<times> reflection" where
  "arm2x86_jni_init_reflection calloc_ok r =
     (if rf_cache r \<noteq> None then (0, r) else if \<not> calloc_ok then (- 1, r) else (0, r\<lparr>rf_cache := Some []\<rparr>))"

text \<open>The index of the entry, after \<open>arm2x86_jni_init_reflection\<close>.\<close>

definition find_reflection_cache :: "bool \<Rightarrow> string \<Rightarrow> reflection \<Rightarrow> nat option \<times> reflection" where
  "find_reflection_cache realloc_ok class_name r =
     (let cs = the (rf_cache r); n = length cs
      in case first_index (\<lambda>c. rc_class_name c = class_name) cs of
           Some i \<Rightarrow> (Some i, r)
         | None \<Rightarrow>
             if rf_max r \<le> n \<and> \<not> realloc_ok then (None, r)
             else (Some n, r\<lparr>rf_cache := Some (cs @ [\<lparr>rc_class_name = take 511 class_name, rc_class_object = NULL, rc_cached_methods = None\<rparr>]),
                             rf_max := if rf_max r \<le> n then rf_max r * 2 else rf_max r\<rparr>))"

record jvm =
  jv_functions :: "nat \<Rightarrow> bool"
  jv_FindClass :: "string \<Rightarrow> ptr"
  jv_GetMethodID :: "bool \<Rightarrow> ptr \<Rightarrow> string \<Rightarrow> string option \<Rightarrow> ptr"
  jv_GetFieldID :: "bool \<Rightarrow> ptr \<Rightarrow> string \<Rightarrow> string \<Rightarrow> ptr"

text \<open>The index in the table, the receiver (the class or the object), the method, and whether \<open>args\<close> is passed on.\<close>

type_synonym java_call = "nat \<times> ptr \<times> ptr \<times> bool"

definition method_hash :: "string \<Rightarrow> u32" where
  "method_hash name = foldl (\<lambda>h c. h * 31 + scast (of_char c :: u8)) 0 name"

definition static_index :: "string \<Rightarrow> nat" where
  "static_index ret = (if ret = ''I'' then 125 else if ret = ''V'' then 137 else if ret \<in> {''Z'', ''B'', ''C'', ''S''} then 125 else 110)"

definition instance_index :: "string \<Rightarrow> nat" where
  "instance_index ret = (if ret = ''I'' then 45 else if ret = ''V'' then 57 else if ret = ''Z'' then 33 else 30)"

definition set_entry :: "nat \<Rightarrow> (JavaReflectionCache \<Rightarrow> JavaReflectionCache) \<Rightarrow> reflection \<Rightarrow> reflection" where
  "set_entry i f r = r\<lparr>rf_cache := map_option (\<lambda>cs. cs[i := f (cs ! i)]) (rf_cache r)\<rparr>"

text \<open>\<open>FindClass\<close>, unless the class is known. \<open>NULL\<close> stands for the early returns.\<close>

definition class_of :: "jvm \<Rightarrow> nat \<Rightarrow> string \<Rightarrow> reflection \<Rightarrow> ptr \<times> reflection" where
  "class_of vm i class_name r =
     (let known = rc_class_object (the (rf_cache r) ! i)
      in if known \<noteq> NULL then (known, r)
         else if \<not> jv_functions vm 2 then (NULL, r)
         else (jv_FindClass vm class_name, set_entry i (\<lambda>c. c\<lparr>rc_class_object := jv_FindClass vm class_name\<rparr>) r))"

text \<open>The method by the cache or by the VM.\<close>

definition method_of :: "bool \<Rightarrow> jvm \<Rightarrow> nat \<Rightarrow> ptr \<Rightarrow> string \<Rightarrow> string option \<Rightarrow> bool \<Rightarrow> reflection \<Rightarrow> ptr \<times> reflection" where
  "method_of malloc_ok vm i cls name sig is_static r =
     (let known = rc_cached_methods (the (rf_cache r) ! i);
          h = ucast (method_hash name)
      in if h \<noteq> NULL \<and> (\<exists>ms. known = Some ms \<and> h \<in> set ms) then (h, r)
         else if \<not> jv_functions vm (if is_static then 109 else 29) then (NULL, r)
         else
           (let m = jv_GetMethodID vm is_static cls name sig
            in if m = NULL then (NULL, r)
               else
                 (let ms = (case known of Some ms \<Rightarrow> Some ms | None \<Rightarrow> if malloc_ok then Some [] else None);
                      ms = map_option (\<lambda>ms. if length ms < 64 then ms @ [m] else ms) ms
                  in (m, set_entry i (\<lambda>c. c\<lparr>rc_cached_methods := ms\<rparr>) r))))"

definition arm2x86_jni_reflect_and_call ::
  "bool \<Rightarrow> bool \<Rightarrow> bool \<Rightarrow> jvm option option \<Rightarrow> string option \<Rightarrow> string option \<Rightarrow> string option \<Rightarrow> ptr \<Rightarrow> bool \<Rightarrow> reflection
     \<Rightarrow> (int \<times> java_call option \<times> reflection) parse" where
  "arm2x86_jni_reflect_and_call calloc_ok realloc_ok malloc_ok jni_env class_name method_name signature args is_static r =
     (case (jni_env, class_name, method_name) of
        (Some functions, Some cls_name, Some name) \<Rightarrow>
          (let (rc, r) = arm2x86_jni_init_reflection calloc_ok r
           in if rc \<noteq> 0 then Parsed (- 1, None, r)
              else
                (case find_reflection_cache realloc_ok cls_name r of
                   (None, r) \<Rightarrow> Parsed (- 1, None, r)
                 | (Some i, r) \<Rightarrow>
                     (case functions of
                        None \<Rightarrow> Parsed (- 1, None, r)
                      | Some vm \<Rightarrow>
                          (let (cls, r) = class_of vm i cls_name r;
                               parsed = map_option (\<lambda>s. parse_method_signature (Some s)) signature
                           in if cls = NULL then Parsed (- 1, None, r)
                              else if parsed = Some Overread then Overread
                              else if parsed = Some Failed then Parsed (- 1, None, r)
                              else
                                (let (m, r) = method_of malloc_ok vm i cls name signature is_static r
                                 in if m = NULL then Parsed (- 1, None, r)
                                    else
                                      (case parsed of
                                         Some (Parsed sg) \<Rightarrow>
                                           (let ret = ms_return_type sg; k = (if is_static then static_index ret else instance_index ret)
                                            in if \<not> jv_functions vm k then Parsed (- 1, None, r)
                                               else Parsed (0, Some (k, if is_static then cls else args, m, is_static), r))
                                       | _ \<Rightarrow> Parsed (0, None, r)))))))
      | _ \<Rightarrow> Parsed (- 1, None, r))"

definition field_index :: "bool \<Rightarrow> string \<Rightarrow> nat" where
  "field_index is_static field_type =
     (if field_type = ''int'' then (if is_static then 146 else 96) else if field_type = ''boolean'' then (if is_static then 142 else 92)
      else (if is_static then 141 else 91))"

text \<open>The index in the table, the receiver and the field of the read that is carried out, if there is one.\<close>

definition arm2x86_jni_reflect_get_field ::
  "bool \<Rightarrow> bool \<Rightarrow> jvm option option \<Rightarrow> string option \<Rightarrow> string option \<Rightarrow> string \<Rightarrow> ptr \<Rightarrow> ptr \<Rightarrow> bool \<Rightarrow> reflection
     \<Rightarrow> int \<times> (nat \<times> ptr \<times> ptr) option \<times> reflection" where
  "arm2x86_jni_reflect_get_field calloc_ok realloc_ok jni_env class_name field_name field_type inst result is_static r =
     (case (jni_env, class_name, field_name) of
        (Some functions, Some cls_name, Some name) \<Rightarrow>
          (let (rc, r) = arm2x86_jni_init_reflection calloc_ok r
           in if rc \<noteq> 0 then (- 1, None, r)
              else
                (case find_reflection_cache realloc_ok cls_name r of
                   (None, r) \<Rightarrow> (- 1, None, r)
                 | (Some i, r) \<Rightarrow>
                     (case functions of
                        None \<Rightarrow> (- 1, None, r)
                      | Some vm \<Rightarrow>
                          (let (cls, r) = class_of vm i cls_name r
                           in if cls = NULL \<or> \<not> jv_functions vm (if is_static then 140 else 90) then (- 1, None, r)
                              else
                                (let f = jv_GetFieldID vm is_static cls name (jni_type_to_signature field_type False);
                                     k = field_index is_static field_type
                                 in if f = NULL \<or> \<not> is_static \<and> inst = NULL then (- 1, None, r)
                                    else (0, if jv_functions vm k \<and> result \<noteq> NULL then Some (k, if is_static then cls else inst, f) else None, r))))))
      | _ \<Rightarrow> (- 1, None, r))"

definition arm2x86_jni_cleanup_reflection :: "reflection \<Rightarrow> reflection" where
  "arm2x86_jni_cleanup_reflection r = r\<lparr>rf_cache := None\<rparr>"

section \<open>Signatures are read back\<close>

text \<open>Types of parameters: a single letter, a class, or an array of one of these.\<close>

datatype jtype = Prim char | Class string | Array_of_prim char | Array_of_class string

fun show_type :: "jtype \<Rightarrow> string" where
  "show_type (Prim c) = [c]"
| "show_type (Class n) = CHR ''L'' # n @ '';''"
| "show_type (Array_of_prim c) = [CHR ''['', c]"
| "show_type (Array_of_class n) = CHR ''['' # CHR ''L'' # n @ '';''"

definition letters :: "char set" where
  "letters = set ''ZBCSIJFDV''"

fun short_type :: "jtype \<Rightarrow> bool" where
  "short_type (Prim c) = (c \<in> letters)"
| "short_type (Class n) = (CHR '';'' \<notin> set n \<and> length n \<le> 61)"
| "short_type (Array_of_prim c) = (c \<in> letters)"
| "short_type (Array_of_class n) = (CHR '';'' \<notin> set n \<and> length n \<le> 60)"

definition show_signature :: "jtype list \<Rightarrow> string \<Rightarrow> string" where
  "show_signature ts ret = CHR ''('' # concat (map show_type ts) @ CHR '')'' # ret"

lemma up_to_semicolon_name: "CHR '';'' \<notin> set n \<Longrightarrow> up_to_semicolon (n @ CHR '';'' # rest) = Some (n @ '';'', rest)"
proof -
  assume "CHR '';'' \<notin> set n"
  then have "takeWhile (\<lambda>c. c \<noteq> CHR '';'') (n @ CHR '';'' # rest) = n" "dropWhile (\<lambda>c. c \<noteq> CHR '';'') (n @ CHR '';'' # rest) = CHR '';'' # rest"
    by (induction n) auto
  then show ?thesis by (simp add: up_to_semicolon_def)
qed

lemma parse_param:
  assumes "short_type t" and "length acc < 16"
  shows "parse_params (show_type t @ rest) acc = parse_params rest (acc @ [show_type t])"
proof (cases t)
  case (Class n)
  then have "up_to_semicolon ((CHR ''L'' # n) @ CHR '';'' # rest) = Some ((CHR ''L'' # n) @ '';'', rest)"
    using assms(1) by (intro up_to_semicolon_name) auto
  with Class assms show ?thesis by (simp add: parse_params.simps [of "CHR ''L'' # n @ CHR '';'' # rest" acc] take_Cons')
next
  case (Array_of_class n)
  then have "up_to_semicolon ((CHR ''L'' # n) @ CHR '';'' # rest) = Some ((CHR ''L'' # n) @ '';'', rest)"
    using assms(1) by (intro up_to_semicolon_name) auto
  with Array_of_class assms show ?thesis
    by (simp add: parse_params.simps [of "CHR ''['' # CHR ''L'' # n @ CHR '';'' # rest" acc] take_Cons')
next
  case (Prim c)
  then have "c \<noteq> CHR '')'' \<and> c \<noteq> CHR ''L'' \<and> c \<noteq> CHR ''[''" using assms(1) by (auto simp: letters_def)
  with Prim assms(2) show ?thesis by (simp add: parse_params.simps [of "c # rest" acc])
next
  case (Array_of_prim c)
  then have "c \<noteq> CHR ''L''" using assms(1) by (auto simp: letters_def)
  with Array_of_prim assms(2) show ?thesis by (simp add: parse_params.simps [of "CHR ''['' # c # rest" acc])
qed

lemma parse_params_shown:
  assumes "\<forall>t\<in>set ts. short_type t" and "length acc + length ts \<le> 16"
  shows "parse_params (concat (map show_type ts) @ CHR '')'' # ret) acc = Parsed (acc @ map show_type ts, CHR '')'' # ret)"
  using assms
proof (induction ts arbitrary: acc)
  case Nil
  then show ?case by (simp add: parse_params.simps [of "CHR '')'' # ret" acc])
next
  case (Cons t ts)
  have "parse_params (show_type t @ concat (map show_type ts) @ CHR '')'' # ret) acc =
      parse_params (concat (map show_type ts) @ CHR '')'' # ret) (acc @ [show_type t])"
    using Cons.prems by (intro parse_param) auto
  with Cons show ?case by simp
qed

text \<open>
  C36: the signature of a method with at most sixteen parameters, each a primitive type, a class or an array of one of these whose
  text has less than 64 characters, is read back: the parser returns the texts of the parameter types and of the return type. A
  signature with a seventeenth parameter is refused.
\<close>

theorem signature_roundtrip:
  assumes "\<forall>t\<in>set ts. short_type t" and "length ret \<le> 63"
  shows "parse_method_signature (Some (show_signature ts ret)) =
    (if length ts \<le> 16 then Parsed \<lparr>ms_return_type = ret, ms_param_types = map show_type ts\<rparr> else Failed)"
proof (cases "length ts \<le> 16")
  case True
  then show ?thesis
    using parse_params_shown [of ts "[]" ret] assms by (simp add: parse_method_signature_def show_signature_def)
next
  case False
  define us t vs where "us = take 16 ts" and "t = ts ! 16" and "vs = drop 17 ts"
  have ts: "ts = us @ t # vs" and us: "length us = 16"
    using False id_take_nth_drop [of 16 ts] by (simp_all add: us_def t_def vs_def)
  obtain c q where c: "show_type t @ concat (map show_type vs) @ CHR '')'' # ret = c # q" "c \<noteq> CHR '')''"
    using assms(1) by (cases t) (auto simp: ts letters_def)
  have "parse_params (concat (map show_type us) @ rest) acc = parse_params rest (acc @ map show_type us)"
    if "length acc + length us \<le> 16" "\<forall>t\<in>set us. short_type t" for us acc rest
    using that
  proof (induction us arbitrary: acc)
    case (Cons u us)
    then have "parse_params (show_type u @ concat (map show_type us) @ rest) acc = parse_params (concat (map show_type us) @ rest) (acc @ [show_type u])"
      by (intro parse_param) auto
    with Cons show ?case by simp
  qed simp
  from this [of "[]" us "c # q"] have "parse_params (concat (map show_type ts) @ CHR '')'' # ret) [] = parse_params (c # q) (map show_type us)"
    using us assms(1) c(1) by (simp add: ts)
  also have "\<dots> = Parsed (map show_type us, c # q)" using us by (simp add: parse_params.simps [of "c # q"])
  finally show ?thesis using False c(2) by (simp add: parse_method_signature_def show_signature_def)
qed

theorem signature_roundtrip_witness:
  "parse_method_signature (Some ''(ILjava/lang/String;[B)Z'') =
     Parsed \<lparr>ms_return_type = ''Z'', ms_param_types = [''I'', ''Ljava/lang/String;'', ''[B'']\<rparr>"
  using signature_roundtrip [of "[Prim CHR ''I'', Class ''java/lang/String'', Array_of_prim CHR ''B'']" "''Z''"]
  by (simp add: show_signature_def letters_def)

text \<open>An array of arrays becomes two parameters, and a signature that ends behind a bracket is read past its end.\<close>

lemma nested_array_split:
  "parse_method_signature (Some ''([[I)V'') = Parsed \<lparr>ms_return_type = ''V'', ms_param_types = [''[['', ''I'']\<rparr>"
  by code_simp

lemma open_array_overread: "parse_method_signature (Some ''(['') = Overread"
  by code_simp

section \<open>Names and paths\<close>

text \<open>The name of a class of 512 or more characters is stored cut, so that its entry is never found again.\<close>

lemma long_class_not_found:
  assumes "rf_cache r = Some cs" and "\<forall>c\<in>set cs. length (rc_class_name c) \<le> 511" and "511 < length name" and "length cs < rf_max r"
  shows "fst (find_reflection_cache ok name r) = Some (length cs) \<and>
    fst (find_reflection_cache ok name (snd (find_reflection_cache ok name r))) \<noteq> Some (length cs)"
proof -
  have "first_index (\<lambda>c. rc_class_name c = name) cs = None" using assms(2,3) by (auto simp: first_index_None)
  moreover have "first_index (\<lambda>c. rc_class_name c = name) (cs @ [\<lparr>rc_class_name = take 511 name, rc_class_object = NULL, rc_cached_methods = None\<rparr>]) = None"
    using assms(2,3) by (auto simp: first_index_None dest: arg_cong [of _ _ length])
  ultimately show ?thesis using assms by (simp add: find_reflection_cache_def Let_def)
qed

lemma class_cached:
  assumes "rf_cache r = Some cs" and "length name \<le> 511" and "find_reflection_cache ok name r = (Some i, r')"
  shows "fst (find_reflection_cache ok' name r') = Some i"
proof (cases "first_index (\<lambda>c. rc_class_name c = name) cs")
  case None
  then have "first_index (\<lambda>c. rc_class_name c = name) (cs @ [\<lparr>rc_class_name = name, rc_class_object = NULL, rc_cached_methods = None\<rparr>]) = Some (length cs)"
    by (auto simp: first_index_None) (induction cs; simp)
  with None show ?thesis using assms by (auto simp: find_reflection_cache_def Let_def split: if_splits)
qed (use assms in \<open>auto simp: find_reflection_cache_def\<close>)

text \<open>A permitted path is compared as a prefix of characters and not of directories.\<close>

lemma prefix_of_directory:
  "namespace_permits_path True (Some ''/system/lib-evil/x.so'') (Some \<lparr>ns_name = ''n'', ns_type = ARM2X86_NS_ISOLATED, ns_ld_library_path = None,
     ns_permitted_paths = Some ''/vendor:/system/lib'', ns_allowed_libs = Some [], ns_max_allowed = 64\<rparr>)"
  by code_simp

text \<open>In an isolated namespace nothing is loaded that is not permitted.\<close>

lemma isolated_refuses:
  assumes "ns_type n = ARM2X86_NS_ISOLATED" and "\<not> namespace_permits_path ok (Some p) (Some n)"
  shows "arm2x86_load_library_in_namespace ok rok load (Some p) (Some n) current = Some (NULL, Some n)"
  using assms by (simp add: arm2x86_load_library_in_namespace_def)

text \<open>After the namespace has been finished, the next library is written behind an empty array.\<close>

lemma add_after_fini:
  "h \<noteq> NULL \<Longrightarrow> arm2x86_add_lib_to_namespace True h (snd (arm2x86_fini_namespace (Some n))) = None"
  by (simp add: arm2x86_add_lib_to_namespace_def arm2x86_fini_namespace_def)

lemma primitive_array_lost: "jni_type_to_signature ''int'' True = ''I''"
  by (simp add: jni_type_to_signature_def)

end
