(* ===== verification/Sve.thy ===== *)
theory Sve
  imports X86
begin

text \<open>
  \<open>src/modules/arm2x86_sve.c\<close>: the scalable vectors of the guest. The contexts, the choice of host registers, and the
  emitters, which append bytes to a buffer (\<open>None\<close> is the null pointer). The vector registers of a context, which the code
  only clears, and the messages are left out. What the inline assembly around \<open>cpuid\<close> leaves in \<open>has_avx512\<close> is a parameter: its output is not
  initialized, so that it need not be zero where the feature is missing.
\<close>

section \<open>Contexts\<close>

datatype SVEMapStrategy = SVE_MAP_AUTO | SVE_MAP_ZMM | SVE_MAP_YMM | SVE_MAP_XMM

record SVEContext =
  sv_p :: "nat \<Rightarrow> nat \<Rightarrow> u16"
  sv_ffr :: u64
  sv_vl :: u32
  sv_vg :: u32
  sv_map_strategy :: SVEMapStrategy
  sv_vl_changed :: bool
  sv_active_zregs :: int

definition zero_sve :: SVEContext where
  "zero_sve = \<lparr>sv_p = (\<lambda>_ _. 0), sv_ffr = 0, sv_vl = 0, sv_vg = 0, sv_map_strategy = SVE_MAP_AUTO, sv_vl_changed = False, sv_active_zregs = 0\<rparr>"

text \<open>The globals: \<open>g_sve_ctx\<close>, \<open>g_sve_initialized\<close> and \<open>g_has_avx512\<close>.\<close>

record sve_state =
  sve_global :: SVEContext
  sve_initialized :: bool
  sve_avx512 :: bool

abbreviation (input) SVE_VL_MIN_BITS :: u32 where "SVE_VL_MIN_BITS \<equiv> 128"
abbreviation (input) SVE_VL_MAX_BITS :: u32 where "SVE_VL_MAX_BITS \<equiv> 2048"

definition sve_detect_support :: "int \<Rightarrow> sve_state \<Rightarrow> int \<times> sve_state" where
  "sve_detect_support cpu st = (cpu, st\<lparr>sve_avx512 := cpu \<noteq> 0\<rparr>)"

definition clamp_vl :: "u32 \<Rightarrow> u32" where
  "clamp_vl bits =
     (let bits = (if bits < SVE_VL_MIN_BITS then SVE_VL_MIN_BITS else bits) in if SVE_VL_MAX_BITS < bits then SVE_VL_MAX_BITS else bits)"

definition sve_init_context :: "int \<Rightarrow> SVEContext option \<Rightarrow> u32 \<Rightarrow> sve_state \<Rightarrow> int \<times> SVEContext option \<times> sve_state" where
  "sve_init_context cpu ctx bits st =
     (case ctx of
        None \<Rightarrow> (- 1, None, st)
      | Some _ \<Rightarrow>
          (let bits = clamp_vl bits
           in (0, Some (zero_sve\<lparr>sv_vl := bits, sv_vg := bits div 64, sv_map_strategy := SVE_MAP_AUTO, sv_vl_changed := False, sv_active_zregs := 32\<rparr>),
               (snd (sve_detect_support cpu st))\<lparr>sve_initialized := True\<rparr>)))"

definition sve_destroy_context :: "SVEContext option \<Rightarrow> sve_state \<Rightarrow> SVEContext option \<times> sve_state" where
  "sve_destroy_context ctx st = (map_option (\<lambda>_. zero_sve) ctx, st\<lparr>sve_initialized := False\<rparr>)"

definition sve_set_vector_length :: "SVEContext option \<Rightarrow> u32 \<Rightarrow> sve_state \<Rightarrow> int \<times> SVEContext option" where
  "sve_set_vector_length ctx bits st =
     (case ctx of
        None \<Rightarrow> (- 1, None)
      | Some c \<Rightarrow>
          (let bits = clamp_vl bits
           in if sv_vl c = bits then (0, ctx)
              else (0, Some (c\<lparr>sv_vl := bits, sv_vg := bits div 64, sv_vl_changed := True, sv_active_zregs := if bits \<le> 128 then 16 else 32,
                      sv_map_strategy := if sve_avx512 st \<and> 512 \<le> bits then SVE_MAP_ZMM
                        else if sve_avx512 st \<and> 256 \<le> bits then SVE_MAP_YMM else SVE_MAP_XMM\<rparr>))))"

definition sve_set_map_strategy :: "SVEContext option \<Rightarrow> SVEMapStrategy \<Rightarrow> sve_state \<Rightarrow> int \<times> SVEContext option" where
  "sve_set_map_strategy ctx strategy st =
     (case ctx of
        None \<Rightarrow> (- 1, None)
      | Some c \<Rightarrow>
          (let strategy = (if strategy = SVE_MAP_ZMM \<and> \<not> sve_avx512 st then SVE_MAP_YMM else strategy);
               strategy = (if strategy = SVE_MAP_YMM \<and> \<not> sve_avx512 st then SVE_MAP_XMM else strategy)
           in (0, Some (c\<lparr>sv_map_strategy := strategy\<rparr>))))"

definition sve_get_zreg_mapping :: "bool \<Rightarrow> SVEContext option \<Rightarrow> u8 \<Rightarrow> u8" where
  "sve_get_zreg_mapping avx512 ctx zreg =
     (case ctx of
        None \<Rightarrow> zreg mod 16
      | Some c \<Rightarrow>
          (case sv_map_strategy c of
             SVE_MAP_ZMM \<Rightarrow> zreg mod 16
           | SVE_MAP_YMM \<Rightarrow> zreg mod 16
           | SVE_MAP_XMM \<Rightarrow> zreg mod 16
           | SVE_MAP_AUTO \<Rightarrow>
               if avx512 \<and> 512 \<le> sv_vl c then zreg mod 16 else if avx512 \<and> 256 \<le> sv_vl c then zreg mod 16 else zreg mod 16))"

definition sve_get_vex_prefix :: "bool \<Rightarrow> SVEContext \<Rightarrow> u8 \<times> u8 \<times> u8" where
  "sve_get_vex_prefix avx512 c =
     (if avx512 \<and> 512 \<le> sv_vl c \<and> sv_map_strategy c = SVE_MAP_ZMM then (0x62, 0xf1, 1)
      else if avx512 \<and> 256 \<le> sv_vl c \<and> sv_map_strategy c \<noteq> SVE_MAP_XMM then (0xc5, 0xfd, 1)
      else (0x66, 0x0f, 0))"

definition sve_z_to_xmm :: "bool \<Rightarrow> SVEContext option \<Rightarrow> u8 \<Rightarrow> u8" where
  "sve_z_to_xmm avx512 ctx zreg = (case ctx of Some c \<Rightarrow> sve_get_zreg_mapping avx512 (Some c) zreg | None \<Rightarrow> zreg mod 16)"

section \<open>Loops over 128 bits\<close>

definition append_code :: "code option \<Rightarrow> code \<Rightarrow> code option" where
  "append_code buf bs = map_option (\<lambda>b. b @ bs) buf"

definition sve_iterations :: "SVEContext \<Rightarrow> u32" where
  "sve_iterations c =
     (let n = sv_vl c div 128; n = (if n = 0 then 1 else n) in if 16 < n then 16 else n)"

text \<open>The displacement of \<open>loop\<close> is taken from the position of its operand, not from the end of the instruction.\<close>

definition loop_back :: "code \<Rightarrow> code" where
  "loop_back body = body @ [0xe2, of_int (- (int (length body) + 1))]"

definition sse_loop :: "u32 \<Rightarrow> code \<Rightarrow> code" where
  "sse_loop iterations body = [0xb9] @ le32 iterations @ [0x48, 0x31, 0xd2] @ loop_back (body @ [0x48, 0xff, 0xc2])"

definition wide_op :: "bool \<Rightarrow> SVEContext \<Rightarrow> bool" where
  "wide_op avx512 c \<longleftrightarrow> avx512 \<and> 256 \<le> sv_vl c \<and> sv_map_strategy c \<noteq> SVE_MAP_XMM"

definition wide_code :: "SVEContext \<Rightarrow> u8 \<Rightarrow> u8 \<Rightarrow> u8 \<Rightarrow> code" where
  "wide_code c opcode d m =
     (if 512 \<le> sv_vl c \<and> sv_map_strategy c = SVE_MAP_ZMM
      then [0x62, 0xf1, 0x75, 0x30, opcode, 0xc0 OR push_bit 3 (d AND 7) OR (m AND 7)]
      else [0xc5, 0xfd, opcode, 0xc0 OR push_bit 3 (d AND 7) OR (m AND 7)])"

definition emit_sve_loop :: "sve_state \<Rightarrow> code option \<Rightarrow> SVEContext option \<Rightarrow> u8 \<Rightarrow> u8 \<Rightarrow> u8 \<Rightarrow> u8 \<Rightarrow> u8 \<Rightarrow> int \<times> code option" where
  "emit_sve_loop st buf ctx zd zn zm sse_opcode avx_opcode =
     (case (buf, ctx) of
        (Some _, Some c) \<Rightarrow>
          (let xzd = sve_z_to_xmm (sve_avx512 st) ctx zd; xzm = sve_z_to_xmm (sve_avx512 st) ctx zm;
               (prefix1, prefix2, rex_w) = sve_get_vex_prefix (sve_avx512 st) c
           in if wide_op (sve_avx512 st) c then (0, append_code buf (wide_code c avx_opcode xzd xzm))
              else (0, append_code buf ([0x51, 0x52] @
                     sse_loop (sve_iterations c) ([prefix1] @ (if prefix2 \<noteq> 0 then [prefix2] else []) @
                       [0x0f, sse_opcode, 0xc0 OR push_bit 3 xzd OR xzm]) @
                     [0x5a, 0x59])))
      | _ \<Rightarrow> (- 1, buf))"

definition sve_translate_add :: "sve_state \<Rightarrow> SVEContext option \<Rightarrow> u8 \<Rightarrow> u8 \<Rightarrow> u8 \<Rightarrow> u8 \<Rightarrow> code option \<Rightarrow> int \<times> code option" where
  "sve_translate_add st ctx zd zn zm pg buf =
     (if \<not> sve_initialized st then (- 1, buf) else emit_sve_loop st buf ctx zd zn zm 0xfc 0xfc)"

definition sve_translate_sub :: "sve_state \<Rightarrow> SVEContext option \<Rightarrow> u8 \<Rightarrow> u8 \<Rightarrow> u8 \<Rightarrow> u8 \<Rightarrow> code option \<Rightarrow> int \<times> code option" where
  "sve_translate_sub st ctx zd zn zm pg buf =
     (if \<not> sve_initialized st then (- 1, buf) else emit_sve_loop st buf ctx zd zn zm 0xf8 0xf8)"

definition sve_translate_mul :: "sve_state \<Rightarrow> SVEContext option \<Rightarrow> u8 \<Rightarrow> u8 \<Rightarrow> u8 \<Rightarrow> u8 \<Rightarrow> code option \<Rightarrow> int \<times> code option" where
  "sve_translate_mul st ctx zd zn zm pg buf =
     (if \<not> sve_initialized st then (- 1, buf) else emit_sve_loop st buf ctx zd zn zm 0x28 0x40)"

definition sve_translate_and :: "sve_state \<Rightarrow> SVEContext option \<Rightarrow> u8 \<Rightarrow> u8 \<Rightarrow> u8 \<Rightarrow> u8 \<Rightarrow> code option \<Rightarrow> int \<times> code option" where
  "sve_translate_and st ctx zd zn zm pg buf =
     (if \<not> sve_initialized st then (- 1, buf) else emit_sve_loop st buf ctx zd zn zm 0xdb 0xdb)"

definition sve_translate_orr :: "sve_state \<Rightarrow> SVEContext option \<Rightarrow> u8 \<Rightarrow> u8 \<Rightarrow> u8 \<Rightarrow> u8 \<Rightarrow> code option \<Rightarrow> int \<times> code option" where
  "sve_translate_orr st ctx zd zn zm pg buf =
     (if \<not> sve_initialized st then (- 1, buf) else emit_sve_loop st buf ctx zd zn zm 0xeb 0xeb)"

definition sve_translate_eor :: "sve_state \<Rightarrow> SVEContext option \<Rightarrow> u8 \<Rightarrow> u8 \<Rightarrow> u8 \<Rightarrow> u8 \<Rightarrow> code option \<Rightarrow> int \<times> code option" where
  "sve_translate_eor st ctx zd zn zm pg buf =
     (if \<not> sve_initialized st then (- 1, buf) else emit_sve_loop st buf ctx zd zn zm 0xef 0xef)"

definition sve_translate_fadd :: "sve_state \<Rightarrow> SVEContext option \<Rightarrow> u8 \<Rightarrow> u8 \<Rightarrow> u8 \<Rightarrow> u8 \<Rightarrow> code option \<Rightarrow> int \<times> code option" where
  "sve_translate_fadd st ctx zd zn zm pg buf =
     (if \<not> sve_initialized st then (- 1, buf) else emit_sve_loop st buf ctx zd zn zm 0x58 0x58)"

definition sve_translate_fsub :: "sve_state \<Rightarrow> SVEContext option \<Rightarrow> u8 \<Rightarrow> u8 \<Rightarrow> u8 \<Rightarrow> u8 \<Rightarrow> code option \<Rightarrow> int \<times> code option" where
  "sve_translate_fsub st ctx zd zn zm pg buf =
     (if \<not> sve_initialized st then (- 1, buf) else emit_sve_loop st buf ctx zd zn zm 0x5c 0x5c)"

definition sve_translate_fmul :: "sve_state \<Rightarrow> SVEContext option \<Rightarrow> u8 \<Rightarrow> u8 \<Rightarrow> u8 \<Rightarrow> u8 \<Rightarrow> code option \<Rightarrow> int \<times> code option" where
  "sve_translate_fmul st ctx zd zn zm pg buf =
     (if \<not> sve_initialized st then (- 1, buf) else emit_sve_loop st buf ctx zd zn zm 0x59 0x59)"

definition sve_translate_fdiv :: "sve_state \<Rightarrow> SVEContext option \<Rightarrow> u8 \<Rightarrow> u8 \<Rightarrow> u8 \<Rightarrow> u8 \<Rightarrow> code option \<Rightarrow> int \<times> code option" where
  "sve_translate_fdiv st ctx zd zn zm pg buf =
     (if \<not> sve_initialized st then (- 1, buf) else emit_sve_loop st buf ctx zd zn zm 0x5e 0x5e)"

definition load_store :: "sve_state \<Rightarrow> SVEContext option \<Rightarrow> u8 \<Rightarrow> u8 \<Rightarrow> u8 \<Rightarrow> code option \<Rightarrow> int \<times> code option" where
  "load_store st ctx opcode zt rn buf =
     (case (buf, ctx) of
        (Some _, Some c) \<Rightarrow>
          if \<not> sve_initialized st then (- 1, buf)
          else
            (let xzt = sve_z_to_xmm (sve_avx512 st) ctx zt; xrn = rn AND 0xf
             in (0, append_code buf ([0x51, 0x52, 0x50] @
                  sse_loop (sve_iterations c) [0x66, 0x0f, opcode, push_bit 3 (xzt AND 7) OR 0x04, 0x40 OR push_bit 3 (xrn AND 7) OR 0x02] @
                  [0x58, 0x5a, 0x59])))
      | _ \<Rightarrow> (- 1, buf))"

definition sve_translate_ld1 :: "sve_state \<Rightarrow> SVEContext option \<Rightarrow> u8 \<Rightarrow> u8 \<Rightarrow> u8 \<Rightarrow> code option \<Rightarrow> int \<times> code option" where
  "sve_translate_ld1 st ctx zt rn pg buf = load_store st ctx 0x10 zt rn buf"

definition sve_translate_st1 :: "sve_state \<Rightarrow> SVEContext option \<Rightarrow> u8 \<Rightarrow> u8 \<Rightarrow> u8 \<Rightarrow> code option \<Rightarrow> int \<times> code option" where
  "sve_translate_st1 st ctx zt rn pg buf = load_store st ctx 0x11 zt rn buf"

section \<open>Predicates\<close>

text \<open>\<open>None\<close>: a predicate register beyond the sixteen of the context.\<close>

definition predicate_words :: "sve_state \<Rightarrow> nat" where
  "predicate_words st = unat (min (sv_vl (sve_global st) div 16) (SVE_VL_MAX_BITS div 16))"

definition set_predicate :: "u8 \<Rightarrow> (nat \<Rightarrow> u16) \<Rightarrow> sve_state \<Rightarrow> sve_state" where
  "set_predicate pd f st =
     (let g = sve_global st; n = predicate_words st
      in st\<lparr>sve_global := g\<lparr>sv_p := (sv_p g)(unat pd := \<lambda>i. if i < n then f i else sv_p g (unat pd) i)\<rparr>\<rparr>)"

definition sve_translate_ptrue :: "u8 \<Rightarrow> u8 \<Rightarrow> sve_state \<Rightarrow> (int \<times> sve_state) option" where
  "sve_translate_ptrue pd pat st =
     (if \<not> sve_initialized st then Some (- 1, st)
      else if predicate_words st \<noteq> 0 \<and> 16 \<le> pd then None
      else Some (0, set_predicate pd (\<lambda>_. 0xFFFF) st))"

definition sve_translate_pnot :: "u8 \<Rightarrow> u8 \<Rightarrow> u8 \<Rightarrow> sve_state \<Rightarrow> (int \<times> sve_state) option" where
  "sve_translate_pnot pd pg pm st =
     (if \<not> sve_initialized st then Some (- 1, st)
      else if predicate_words st \<noteq> 0 \<and> (16 \<le> pd \<or> 16 \<le> pm) then None
      else Some (0, set_predicate pd (\<lambda>i. NOT (sv_p (sve_global st) (unat pm) i)) st))"

section \<open>Reductions, dot products and ciphers\<close>

text \<open>
  The test \<open>g_has_avx512 && ctx->vl <= 512\<close> of the functions that do not check the context: \<open>None\<close> when the null pointer is
  dereferenced. A call is emitted with a displacement of zero.
\<close>

definition short_vector :: "sve_state \<Rightarrow> SVEContext option \<Rightarrow> bool option" where
  "short_vector st ctx = (if \<not> sve_avx512 st then Some False else map_option (\<lambda>c. sv_vl c \<le> 512) ctx)"

definition sve_translate_addv :: "sve_state \<Rightarrow> SVEContext option \<Rightarrow> u8 \<Rightarrow> u8 \<Rightarrow> u8 \<Rightarrow> code option \<Rightarrow> (int \<times> code option) option" where
  "sve_translate_addv st ctx rd zn pg buf =
     (if \<not> sve_initialized st \<or> buf = None then Some (- 1, buf)
      else
        (let xzn = sve_z_to_xmm (sve_avx512 st) ctx zn; xrd = rd AND 0xf
         in case short_vector st ctx of
              None \<Rightarrow> None
            | Some True \<Rightarrow> Some (0, append_code buf (
              [0x50, 0x52, 0xc5, 0xfd, 0x6f, 0xc0 OR xzn, 0xc5, 0xf9, 0x00, 0xc0, 0x66, 0x0f, 0x7e, 0xc0, 0x48, 0x89, 0xc0 OR push_bit 3 xrd, 0x5a, 0x58]))
            | Some False \<Rightarrow> Some (0, append_code buf (
              [0x50, 0x52, 0x66, 0x0f, 0x6f, 0xc8 OR xzn] @
              concat (replicate 4 [0x66, 0x0f, 0xd4, 0xc9]) @
              [0x66, 0x0f, 0x7e, 0xc8, 0x48, 0x89, 0xc0 OR push_bit 3 xrd, 0x5a, 0x58]))))"

definition sve_translate_maxv :: "sve_state \<Rightarrow> SVEContext option \<Rightarrow> u8 \<Rightarrow> u8 \<Rightarrow> u8 \<Rightarrow> code option \<Rightarrow> (int \<times> code option) option" where
  "sve_translate_maxv st ctx rd zn pg buf =
     (if \<not> sve_initialized st \<or> buf = None then Some (- 1, buf)
      else
        (let xzn = sve_z_to_xmm (sve_avx512 st) ctx zn; xrd = rd AND 0xf
         in case short_vector st ctx of
              None \<Rightarrow> None
            | Some True \<Rightarrow> Some (0, append_code buf (
              [0x50, 0x52, 0xc5, 0xfd, 0x6f, 0xc0 OR xzn, 0xc5, 0xf5, 0xee, 0xc0, 0x66, 0x0f, 0x7e, 0xc0, 0x48, 0x89, 0xc0 OR push_bit 3 xrd, 0x5a, 0x58]))
            | Some False \<Rightarrow> Some (0, append_code buf (
              [0x50, 0x52, 0x66, 0x0f, 0x6f, 0xc8 OR xzn] @
              concat (replicate 4 [0x66, 0x0f, 0xee, 0xc9]) @
              [0x66, 0x0f, 0x7e, 0xc8, 0x48, 0x89, 0xc0 OR push_bit 3 xrd, 0x5a, 0x58]))))"

definition sve_translate_minv :: "sve_state \<Rightarrow> SVEContext option \<Rightarrow> u8 \<Rightarrow> u8 \<Rightarrow> u8 \<Rightarrow> code option \<Rightarrow> (int \<times> code option) option" where
  "sve_translate_minv st ctx rd zn pg buf =
     (if \<not> sve_initialized st \<or> buf = None then Some (- 1, buf)
      else
        (let xzn = sve_z_to_xmm (sve_avx512 st) ctx zn; xrd = rd AND 0xf
         in case short_vector st ctx of
              None \<Rightarrow> None
            | Some True \<Rightarrow> Some (0, append_code buf (
              [0x50, 0x52, 0xc5, 0xfd, 0x6f, 0xc0 OR xzn, 0xc5, 0xf5, 0xea, 0xc0, 0x66, 0x0f, 0x7e, 0xc0, 0x48, 0x89, 0xc0 OR push_bit 3 xrd, 0x5a, 0x58]))
            | Some False \<Rightarrow> Some (0, append_code buf (
              [0x50, 0x52, 0x66, 0x0f, 0x6f, 0xc8 OR xzn] @
              concat (replicate 4 [0x66, 0x0f, 0xea, 0xc9]) @
              [0x66, 0x0f, 0x7e, 0xc8, 0x48, 0x89, 0xc0 OR push_bit 3 xrd, 0x5a, 0x58]))))"

definition sve_translate_dotp :: "sve_state \<Rightarrow> SVEContext option \<Rightarrow> u8 \<Rightarrow> u8 \<Rightarrow> u8 \<Rightarrow> u8 \<Rightarrow> code option \<Rightarrow> (int \<times> code option) option" where
  "sve_translate_dotp st ctx zd zn zm pg buf =
     (if \<not> sve_initialized st \<or> buf = None then Some (- 1, buf)
      else
        (let xzd = sve_z_to_xmm (sve_avx512 st) ctx zd; xzn = sve_z_to_xmm (sve_avx512 st) ctx zn; xzm = sve_z_to_xmm (sve_avx512 st) ctx zm
         in case short_vector st ctx of
              None \<Rightarrow> None
            | Some True \<Rightarrow> Some (0, append_code buf (
              [0x62, 0xf1, 0x75, 0x30, 0x50, 0xc0 OR push_bit 3 (xzd AND 7) OR (xzm AND 7)]))
            | Some False \<Rightarrow> Some (0, append_code buf (
              [0x50, 0x52, 0x66, 0x0f, 0x38, 0xf4, 0xc0 OR push_bit 3 xzd OR xzn] @
              concat (replicate 3 [0x66, 0x0f, 0xd4, 0xc0 OR push_bit 3 xzd OR xzd]) @
              [0x5a, 0x58]))))"

definition sve_translate_usdot :: "sve_state \<Rightarrow> SVEContext option \<Rightarrow> u8 \<Rightarrow> u8 \<Rightarrow> u8 \<Rightarrow> u8 \<Rightarrow> code option \<Rightarrow> (int \<times> code option) option" where
  "sve_translate_usdot st ctx zd zn zm pg buf =
     (if \<not> sve_initialized st \<or> buf = None then Some (- 1, buf)
      else
        (let xzd = sve_z_to_xmm (sve_avx512 st) ctx zd; xzn = sve_z_to_xmm (sve_avx512 st) ctx zn; xzm = sve_z_to_xmm (sve_avx512 st) ctx zm
         in case short_vector st ctx of
              None \<Rightarrow> None
            | Some True \<Rightarrow> Some (0, append_code buf (
              [0x62, 0xf1, 0x75, 0x30, 0x52, 0xc0 OR push_bit 3 (xzd AND 7) OR (xzm AND 7)]))
            | Some False \<Rightarrow> Some (0, append_code buf (
              [0x50, 0x52, 0x66, 0x0f, 0xf4, 0xc0 OR push_bit 3 xzd OR xzn, 0x66, 0x0f, 0xf4, 0xc0 OR push_bit 3 xzd OR xzd, 0x5a, 0x58]))))"

definition sve_translate_sum :: "sve_state \<Rightarrow> SVEContext option \<Rightarrow> u8 \<Rightarrow> u8 \<Rightarrow> u8 \<Rightarrow> code option \<Rightarrow> (int \<times> code option) option" where
  "sve_translate_sum st ctx rd zn pg buf =
     (if \<not> sve_initialized st \<or> buf = None then Some (- 1, buf)
      else
        (let xzn = sve_z_to_xmm (sve_avx512 st) ctx zn; xrd = rd AND 0xf
         in case short_vector st ctx of
              None \<Rightarrow> None
            | Some True \<Rightarrow> Some (0, append_code buf (
              [0x50, 0x52, 0x66, 0x0f, 0xef, 0xc0, 0x66, 0x0f, 0xf6, 0xc0 OR xzn, 0x66, 0x0f, 0x7e, 0xc0, 0x48, 0x89, 0xc0 OR push_bit 3 xrd, 0x5a, 0x58]))
            | Some False \<Rightarrow> Some (0, append_code buf (
              [0x50, 0x52, 0x66, 0x0f, 0xef, 0xc9, 0x66, 0x0f, 0xf6, 0xc9 OR push_bit 3 xzn, 0x66, 0x0f, 0x7e, 0xc8, 0x48, 0x89, 0xc0 OR push_bit 3 xrd, 0x5a, 0x58]))))"

definition sve_translate_sm4e :: "sve_state \<Rightarrow> SVEContext option \<Rightarrow> u8 \<Rightarrow> u8 \<Rightarrow> code option \<Rightarrow> int \<times> code option" where
  "sve_translate_sm4e st ctx zd zn buf =
     (if \<not> sve_initialized st \<or> buf = None then (- 1, buf)
      else
        (let xzd = sve_z_to_xmm (sve_avx512 st) ctx zd; xzn = sve_z_to_xmm (sve_avx512 st) ctx zn
         in (0, append_code buf (
            [0x50, 0x53, 0x51, 0x52, 0x48, 0x89, 0xf8 OR (xzn AND 7), 0x48, 0x89, 0xf0 OR (xzd AND 7), 0xE8] @
            le32 0 @
            [0x5a, 0x59, 0x5b, 0x58]))))"

definition sve_translate_sm4ekey :: "sve_state \<Rightarrow> SVEContext option \<Rightarrow> u8 \<Rightarrow> u8 \<Rightarrow> u8 \<Rightarrow> code option \<Rightarrow> int \<times> code option" where
  "sve_translate_sm4ekey st ctx zd zn zm buf =
     (if \<not> sve_initialized st \<or> buf = None then (- 1, buf)
      else
        (let xzd = sve_z_to_xmm (sve_avx512 st) ctx zd; xzn = sve_z_to_xmm (sve_avx512 st) ctx zn; xzm = sve_z_to_xmm (sve_avx512 st) ctx zm
         in (0, append_code buf (
            [0x50, 0x53, 0x51, 0x52, 0x48, 0x89, 0xf8 OR (xzn AND 7), 0x48, 0x89, 0xf0 OR (xzm AND 7), 0xE8] @
            le32 0 @
            [0x48, 0x89, 0xc0 OR push_bit 3 xzd, 0x5a, 0x59, 0x5b, 0x58]))))"

definition sve_translate_sm3ss1 :: "sve_state \<Rightarrow> SVEContext option \<Rightarrow> u8 \<Rightarrow> u8 \<Rightarrow> u8 \<Rightarrow> code option \<Rightarrow> int \<times> code option" where
  "sve_translate_sm3ss1 st ctx zd zn zm buf =
     (if \<not> sve_initialized st \<or> buf = None then (- 1, buf)
      else
        (let xzd = sve_z_to_xmm (sve_avx512 st) ctx zd; xzn = sve_z_to_xmm (sve_avx512 st) ctx zn; xzm = sve_z_to_xmm (sve_avx512 st) ctx zm
         in (0, append_code buf (
            [0x50, 0x53, 0x48, 0x89, 0xf8 OR (xzn AND 7), 0x48, 0x89, 0xf0 OR (xzm AND 7), 0xE8] @
            le32 0 @
            [0x48, 0x89, 0xc0 OR push_bit 3 xzd, 0x5b, 0x58]))))"

definition sve_translate_sm3partw1 :: "sve_state \<Rightarrow> SVEContext option \<Rightarrow> u8 \<Rightarrow> u8 \<Rightarrow> u8 \<Rightarrow> code option \<Rightarrow> int \<times> code option" where
  "sve_translate_sm3partw1 st ctx zd zn zm buf =
     (if \<not> sve_initialized st \<or> buf = None then (- 1, buf)
      else
        (let xzd = sve_z_to_xmm (sve_avx512 st) ctx zd; xzn = sve_z_to_xmm (sve_avx512 st) ctx zn; xzm = sve_z_to_xmm (sve_avx512 st) ctx zm
         in (0, append_code buf (
            [0x50, 0x53, 0x48, 0x89, 0xf8 OR (xzn AND 7), 0x48, 0x89, 0xf0 OR (xzm AND 7), 0xE8] @
            le32 0 @
            [0x48, 0x89, 0xc0 OR push_bit 3 xzd, 0x5b, 0x58]))))"

definition sve_translate_sm3partw2 :: "sve_state \<Rightarrow> SVEContext option \<Rightarrow> u8 \<Rightarrow> u8 \<Rightarrow> u8 \<Rightarrow> code option \<Rightarrow> int \<times> code option" where
  "sve_translate_sm3partw2 st ctx zd zn zm buf =
     (if \<not> sve_initialized st \<or> buf = None then (- 1, buf)
      else
        (let xzd = sve_z_to_xmm (sve_avx512 st) ctx zd; xzn = sve_z_to_xmm (sve_avx512 st) ctx zn; xzm = sve_z_to_xmm (sve_avx512 st) ctx zm
         in (0, append_code buf (
            [0x50, 0x53, 0x48, 0x89, 0xf8 OR (xzn AND 7), 0x48, 0x89, 0xf0 OR (xzm AND 7), 0xE8] @
            le32 0 @
            [0x48, 0x89, 0xc0 OR push_bit 3 xzd, 0x5b, 0x58]))))"

definition sve_translate_fsqrt :: "sve_state \<Rightarrow> SVEContext option \<Rightarrow> u8 \<Rightarrow> u8 \<Rightarrow> u8 \<Rightarrow> code option \<Rightarrow> int \<times> code option" where
  "sve_translate_fsqrt st ctx zd zn pg buf =
     (case (buf, ctx) of
        (Some _, Some c) \<Rightarrow>
          if \<not> sve_initialized st then (- 1, buf)
          else
            (let xzd = sve_z_to_xmm (sve_avx512 st) ctx zd; xzn = sve_z_to_xmm (sve_avx512 st) ctx zn
             in if wide_op (sve_avx512 st) c then (0, append_code buf (wide_code c 0x51 xzd xzn))
                else (0, append_code buf [0x50, 0x52, 0x66, 0x0f, 0x6f, 0xc0 OR push_bit 3 xzd OR xzn,
                                  0x66, 0x0f, 0x51, 0xc0 OR push_bit 3 xzd OR xzd, 0x5a, 0x58]))
      | _ \<Rightarrow> (- 1, buf))"

definition sve_fallback_to_sse :: "code option \<Rightarrow> int \<times> code option" where
  "sve_fallback_to_sse buf = (- 1, append_code buf (replicate 4 0x90))"

section \<open>Vector lengths stay in range\<close>

text \<open>The operations on one context; \<open>cpu\<close> is the answer of the detection, the same whenever it runs.\<close>

datatype sve_op = Init u32 | Detect | Set_length u32 | Set_strategy SVEMapStrategy | Destroy

fun sve_step :: "int \<Rightarrow> SVEContext \<times> sve_state \<Rightarrow> sve_op \<Rightarrow> SVEContext \<times> sve_state" where
  "sve_step cpu (c, st) (Init n) = (case sve_init_context cpu (Some c) n st of (_, ctx, st) \<Rightarrow> (the ctx, st))"
| "sve_step cpu (c, st) Detect = (c, snd (sve_detect_support cpu st))"
| "sve_step cpu (c, st) (Set_length n) = (the (snd (sve_set_vector_length (Some c) n st)), st)"
| "sve_step cpu (c, st) (Set_strategy s) = (the (snd (sve_set_map_strategy (Some c) s st)), st)"
| "sve_step cpu (c, st) Destroy = (case sve_destroy_context (Some c) st of (ctx, st) \<Rightarrow> (the ctx, st))"

definition sve_start :: sve_state where
  "sve_start = \<lparr>sve_global = zero_sve, sve_initialized = False, sve_avx512 = False\<rparr>"

definition sve_wf :: "int \<Rightarrow> SVEContext \<times> sve_state \<Rightarrow> bool" where
  "sve_wf cpu = (\<lambda>(c, st).
     (if sv_vl c = 0 then \<not> sve_initialized st else 128 \<le> sv_vl c \<and> sv_vl c \<le> 2048) \<and> sv_vg c = sv_vl c div 64 \<and>
     (sv_map_strategy c = SVE_MAP_ZMM \<or> sv_map_strategy c = SVE_MAP_YMM \<longrightarrow> sve_avx512 st) \<and> (sve_avx512 st \<longrightarrow> cpu \<noteq> 0) \<and>
     sve_global st = zero_sve)"

lemma clamp_vl_range: "128 \<le> clamp_vl n \<and> clamp_vl n \<le> 2048 \<and> clamp_vl n \<noteq> 0"
  by (auto simp: clamp_vl_def Let_def word_le_nat_alt word_less_nat_alt)

lemma sve_step_wf:
  assumes "sve_wf cpu s"
  shows "sve_wf cpu (sve_step cpu s op)"
proof (cases op)
  case (Init n)
  then show ?thesis using assms clamp_vl_range [of n]
    by (cases s) (auto simp: sve_wf_def sve_init_context_def sve_detect_support_def zero_sve_def Let_def)
next
  case (Set_length n)
  then show ?thesis using assms clamp_vl_range [of n]
    by (cases s) (auto simp: sve_wf_def sve_set_vector_length_def Let_def)
next
  case (Set_strategy m)
  then show ?thesis using assms by (cases s) (auto simp: sve_wf_def sve_set_map_strategy_def Let_def)
qed (use assms in \<open>cases s; auto simp: sve_wf_def sve_detect_support_def sve_destroy_context_def zero_sve_def\<close>)+

lemma sve_reachable: "sve_wf cpu (foldl (sve_step cpu) (zero_sve, sve_start) ops)"
  by (induction ops rule: rev_induct)
     (auto simp: sve_step_wf, simp add: sve_wf_def zero_sve_def sve_start_def)

lemma sve_iterations_range:
  assumes "128 \<le> sv_vl c" and "sv_vl c \<le> 2048"
  shows "sve_iterations c = sv_vl c div 128 \<and> 1 \<le> sve_iterations c \<and> sve_iterations c \<le> 16"
proof -
  have "unat (sv_vl c) div 128 \<ge> 1" "unat (sv_vl c) div 128 \<le> 16"
    using assms div_le_mono [of 128 "unat (sv_vl c)" 128] div_le_mono [of "unat (sv_vl c)" 2048 128] by (simp_all add: word_le_nat_alt)
  then have "1 \<le> sv_vl c div 128" "sv_vl c div 128 \<le> 16" by (simp_all add: word_le_nat_alt unat_div)
  moreover from this have "sv_vl c div 128 \<noteq> 0" by auto
  ultimately show ?thesis by (auto simp: sve_iterations_def Let_def)
qed

text \<open>
  C37: in every state that the operations on a context reach, a context in use has a vector length between 128 and 2048 bits and the number of
  64-bit granules that belongs to it, wide registers are chosen only where the detection, which answers the same whenever it runs, answered that there are any, and the loops over
  128-bit parts have one round for each part, between 1 and 16.
\<close>

theorem sve_context_wellformed:
  assumes "foldl (sve_step cpu) (zero_sve, sve_start) ops = (c, st)"
  shows "(sve_initialized st \<longrightarrow> sv_vl c \<noteq> 0) \<and>
    (sv_vl c \<noteq> 0 \<longrightarrow> 128 \<le> sv_vl c \<and> sv_vl c \<le> 2048 \<and> sve_iterations c = sv_vl c div 128 \<and> 1 \<le> sve_iterations c \<and> sve_iterations c \<le> 16) \<and>
    sv_vg c = sv_vl c div 64 \<and> (wide_op (sve_avx512 st) c \<longrightarrow> cpu \<noteq> 0) \<and>
    (sv_map_strategy c = SVE_MAP_ZMM \<or> sv_map_strategy c = SVE_MAP_YMM \<longrightarrow> cpu \<noteq> 0)"
  using sve_reachable [of cpu ops] sve_iterations_range [of c]
  by (auto simp: assms sve_wf_def wide_op_def split: if_splits)

theorem sve_context_witness:
  "sve_iterations (fst (foldl (sve_step 1) (zero_sve, sve_start) [Init 256, Set_length 5000])) = 16"
proof -
  have "foldl (sve_step 1) (zero_sve, sve_start) [Init 256, Set_length 5000] =
      (zero_sve\<lparr>sv_vl := 2048, sv_vg := 32, sv_map_strategy := SVE_MAP_ZMM, sv_vl_changed := True, sv_active_zregs := 32\<rparr>,
       sve_start\<lparr>sve_initialized := True, sve_avx512 := True\<rparr>)"
    by (simp add: sve_init_context_def sve_detect_support_def sve_set_vector_length_def clamp_vl_def zero_sve_def sve_start_def Let_def)
  from sve_context_wellformed [OF this] this show ?thesis by simp
qed

section \<open>Where the emitters go wrong\<close>

text \<open>The registers Z16 to Z31 share the host registers of Z0 to Z15.\<close>

lemma zreg_aliases: "sve_z_to_xmm a ctx zreg = zreg mod 16"
  by (simp add: sve_z_to_xmm_def sve_get_zreg_mapping_def split: option.splits SVEMapStrategy.splits)

text \<open>The jump at the end of a loop goes to the second byte of the body.\<close>

lemma loop_back_target:
  assumes "length body \<le> 126"
  shows "int (length (loop_back body)) + sint (last (loop_back body)) = 1"
proof -
  have "sint (of_int x :: u8) = x" if "- 128 \<le> x" "x < 128" for x
    using that by (simp add: signed_of_int signed_take_bit_int_eq_self)
  from this [of "- (int (length body) + 1)"] assms show ?thesis by (simp add: loop_back_def)
qed

text \<open>
  Without AVX-512 the operation is written with the escape byte twice, \<open>66 0F 0F\<close>, which is not the SSE instruction; the first
  source register does not occur in it.
\<close>

lemma sse_operation_bytes:
  assumes "ctx = Some c" and "\<not> sve_avx512 st"
  shows "emit_sve_loop st (Some b) ctx zd zn zm sse avx =
    (0, Some (b @ [0x51, 0x52] @ sse_loop (sve_iterations c) [0x66, 0x0f, 0x0f, sse, 0xc0 OR push_bit 3 (zd mod 16) OR zm mod 16] @ [0x5a, 0x59]))"
  using assms by (simp add: emit_sve_loop_def sve_get_vex_prefix_def wide_op_def zreg_aliases append_code_def)

text \<open>A second source above 7 changes the destination field of the ModR/M byte: Z0 and Z8 make a byte with the destination 1.\<close>

lemma modrm_overlap: "(drop_bit 3 (0xc0 OR push_bit 3 (0 mod 16) OR 8 mod 16) AND 7 :: u8) = 1"
  by code_simp

text \<open>No operation on contexts sets the global one, and with its vector length 0 the predicate operations do nothing.\<close>

lemma predicates_never_set:
  assumes "foldl (sve_step cpu) (zero_sve, sve_start) ops = (c, st)" and "sve_initialized st"
  shows "sve_translate_ptrue pd pat st = Some (0, st) \<and> sve_translate_pnot pd pg pm st = Some (0, st)"
proof -
  have "sve_global st = zero_sve" using sve_reachable [of cpu ops] by (simp add: assms(1) sve_wf_def)
  then have "predicate_words st = 0" "sve_global st\<lparr>sv_p := (sv_p (sve_global st))(i := sv_p (sve_global st) i)\<rparr> = sve_global st" for i
    by (auto simp: predicate_words_def zero_sve_def fun_eq_iff)
  then show ?thesis using assms(2) by (simp add: sve_translate_ptrue_def sve_translate_pnot_def set_predicate_def)
qed

text \<open>
  The scalar reductions end with this move: by its operand fields it goes from the destination to RAX, which is restored afterwards, so
  that the result is lost.
\<close>

lemma reduction_move_exchanged:
  "map (\<lambda>rd. x86_decode [0x48, 0x89, 0xc0 OR push_bit 3 (rd AND 0xf)]) [0, 1, 2, 3, 6, 7]
     = map (\<lambda>rd. Some (Mov_rm_r True (Reg 0) rd, [])) [0, 1, 2, 3, 6, 7]"
  by code_simp

end
