(* ===== verification/Profile.thy ===== *)
theory Profile
  imports Hit_Table
begin

text \<open>
  \<open>src/modules/arm2x86_profiler.c\<close>, \<open>arm2x86_trace.c\<close> and \<open>arm2x86_error.c\<close>: two logs of events in ring buffers, counters, timed regions, and the
  record of the last error. What the clock and the cycle counter answer are parameters. What is printed or exported is given as the list of the entries that
  are; the texts are left out.
\<close>

section \<open>The profiler\<close>

datatype ProfilerEventType = PROF_EVENT_UNKNOWN | PROF_EVENT_TRANSLATE_START | PROF_EVENT_TRANSLATE_END | PROF_BLOCK_EXECUTION
  | PROF_CACHE_HIT | PROF_CACHE_MISS | PROF_HOT_BLOCK_RETRANSLATE | PROF_SIGNAL_HANDLER

record ProfilerEntry =
  pe_type :: ProfilerEventType
  pe_arm_pc :: u64
  pe_timestamp_us :: u64
  pe_cycle_count :: u64
  pe_data :: u64

record ProfilerRegion =
  rg_name :: string
  rg_start_time_us :: u64
  rg_start_cycles :: u64
  rg_total_time_us :: u64
  rg_total_cycles :: u64
  rg_max_time_us :: u64
  rg_call_count :: u32
  rg_active :: bool

text \<open>The array of regions up to \<open>region_count\<close> is a list. \<open>entries\<close> is \<open>None\<close> for the null pointer.\<close>

record Arm2x86Profiler =
  pf_entries :: "ProfilerEntry list option"
  pf_max_entries :: u32
  pf_count :: u32
  pf_start_idx :: u32
  pf_total_events :: u32
  pf_start_time :: u64
  pf_total_translate_time_us :: u64
  pf_max_translate_time_us :: u64
  pf_min_translate_time_us :: u64
  pf_slowest_translate_pc :: u64
  pf_translate_count :: u32
  pf_total_blocks_executed :: u64
  pf_total_instructions_executed :: u64
  pf_cache_hits :: u64
  pf_cache_misses :: u64
  pf_hot_block_retranslations :: u64
  pf_signal_handler_invocations :: u64
  pf_current_translate_start :: u64
  pf_current_translate_pc :: u64
  pf_regions :: "ProfilerRegion list"

abbreviation (input) PROFILER_MAX_ENTRIES :: u32 where "PROFILER_MAX_ENTRIES \<equiv> 65536"
abbreviation (input) PROFILER_MAX_REGIONS :: nat where "PROFILER_MAX_REGIONS \<equiv> 64"

definition zero_profiler :: Arm2x86Profiler where
  "zero_profiler = \<lparr>pf_entries = None, pf_max_entries = 0, pf_count = 0, pf_start_idx = 0, pf_total_events = 0, pf_start_time = 0,
     pf_total_translate_time_us = 0, pf_max_translate_time_us = 0, pf_min_translate_time_us = 0, pf_slowest_translate_pc = 0,
     pf_translate_count = 0, pf_total_blocks_executed = 0, pf_total_instructions_executed = 0, pf_cache_hits = 0, pf_cache_misses = 0,
     pf_hot_block_retranslations = 0, pf_signal_handler_invocations = 0, pf_current_translate_start = 0, pf_current_translate_pc = 0,
     pf_regions = []\<rparr>"

definition zero_event :: ProfilerEntry where
  "zero_event = \<lparr>pe_type = PROF_EVENT_UNKNOWN, pe_arm_pc = 0, pe_timestamp_us = 0, pe_cycle_count = 0, pe_data = 0\<rparr>"

definition arm2x86_profiler_init :: "bool \<Rightarrow> u64 \<Rightarrow> int \<times> Arm2x86Profiler" where
  "arm2x86_profiler_init calloc_ok now =
     (let prof = zero_profiler\<lparr>pf_start_time := now, pf_max_entries := PROFILER_MAX_ENTRIES\<rparr>
      in if calloc_ok then (0, prof\<lparr>pf_entries := Some (replicate (unat PROFILER_MAX_ENTRIES) zero_event)\<rparr>) else (- 1, prof))"

definition arm2x86_profiler_destroy :: "Arm2x86Profiler \<Rightarrow> Arm2x86Profiler" where
  "arm2x86_profiler_destroy prof = zero_profiler"

text \<open>The statistics of an event, which has been entered at \<open>now\<close>.\<close>

definition update_statistics :: "u64 \<Rightarrow> ProfilerEventType \<Rightarrow> u64 \<Rightarrow> u64 \<Rightarrow> Arm2x86Profiler \<Rightarrow> Arm2x86Profiler" where
  "update_statistics now type arm_pc data prof =
     (case type of
        PROF_EVENT_TRANSLATE_START \<Rightarrow> prof\<lparr>pf_current_translate_start := now, pf_current_translate_pc := arm_pc\<rparr>
      | PROF_EVENT_TRANSLATE_END \<Rightarrow>
          if 0 < pf_current_translate_start prof then
            (let duration = now - pf_current_translate_start prof;
                 prof = prof\<lparr>pf_total_translate_time_us := pf_total_translate_time_us prof + duration, pf_translate_count := pf_translate_count prof + 1\<rparr>;
                 prof = (if pf_max_translate_time_us prof < duration
                   then prof\<lparr>pf_max_translate_time_us := duration, pf_slowest_translate_pc := pf_current_translate_pc prof\<rparr> else prof)
             in if duration < pf_min_translate_time_us prof \<or> pf_min_translate_time_us prof = 0
                then prof\<lparr>pf_min_translate_time_us := duration\<rparr> else prof)
          else prof
      | PROF_BLOCK_EXECUTION \<Rightarrow>
          (let prof = prof\<lparr>pf_total_blocks_executed := pf_total_blocks_executed prof + 1\<rparr>
           in if 0 < data then prof\<lparr>pf_total_instructions_executed := pf_total_instructions_executed prof + data\<rparr> else prof)
      | PROF_CACHE_HIT \<Rightarrow> prof\<lparr>pf_cache_hits := pf_cache_hits prof + 1\<rparr>
      | PROF_CACHE_MISS \<Rightarrow> prof\<lparr>pf_cache_misses := pf_cache_misses prof + 1\<rparr>
      | PROF_HOT_BLOCK_RETRANSLATE \<Rightarrow> prof\<lparr>pf_hot_block_retranslations := pf_hot_block_retranslations prof + 1\<rparr>
      | PROF_SIGNAL_HANDLER \<Rightarrow> prof\<lparr>pf_signal_handler_invocations := pf_signal_handler_invocations prof + 1\<rparr>
      | PROF_EVENT_UNKNOWN \<Rightarrow> prof)"

text \<open>The entry goes to the ring; a full ring gives up its oldest entry.\<close>

definition ring_put :: "ProfilerEntry \<Rightarrow> ProfilerEntry list \<Rightarrow> Arm2x86Profiler \<Rightarrow> Arm2x86Profiler" where
  "ring_put entry es prof =
     (let prof = (if pf_max_entries prof \<le> pf_count prof
            then prof\<lparr>pf_start_idx := (pf_start_idx prof + 1) mod pf_max_entries prof, pf_count := pf_count prof - 1\<rparr> else prof);
          idx = (pf_start_idx prof + pf_count prof) mod pf_max_entries prof
      in prof\<lparr>pf_entries := Some (es[unat idx := entry]), pf_count := pf_count prof + 1, pf_total_events := pf_total_events prof + 1\<rparr>)"

definition arm2x86_profiler_record_event :: "u64 \<Rightarrow> u64 \<Rightarrow> Arm2x86Profiler \<Rightarrow> ProfilerEventType \<Rightarrow> u64 \<Rightarrow> u64 \<Rightarrow> int \<times> Arm2x86Profiler" where
  "arm2x86_profiler_record_event now cycles prof type arm_pc data =
     (case pf_entries prof of
        None \<Rightarrow> (- 1, prof)
      | Some es \<Rightarrow>
          (0, update_statistics now type arm_pc data
                (ring_put \<lparr>pe_type = type, pe_arm_pc = arm_pc, pe_timestamp_us = now, pe_cycle_count = cycles, pe_data = data\<rparr> es prof)))"

text \<open>The clock is read for each of the two events.\<close>

definition arm2x86_profiler_record_translation :: "u64 \<times> u64 \<Rightarrow> u64 \<times> u64 \<Rightarrow> Arm2x86Profiler \<Rightarrow> u64 \<Rightarrow> u64 \<Rightarrow> u64 \<Rightarrow> u64 \<Rightarrow> int \<times> Arm2x86Profiler" where
  "arm2x86_profiler_record_translation t1 t2 prof arm_pc x86_pc arm_size x86_size =
     (let prof = snd (arm2x86_profiler_record_event (fst t1) (snd t1) prof PROF_EVENT_TRANSLATE_START arm_pc 0);
          packed_data = (x86_pc AND 0xFFFFFFFF) OR push_bit 32 (arm_size AND 0xFFFF) OR push_bit 48 (x86_size AND 0xFFFF)
      in (0, snd (arm2x86_profiler_record_event (fst t2) (snd t2) prof PROF_EVENT_TRANSLATE_END arm_pc packed_data)))"

section \<open>Regions\<close>

definition arm2x86_profiler_start_region :: "u64 \<Rightarrow> u64 \<Rightarrow> Arm2x86Profiler \<Rightarrow> string option \<Rightarrow> int \<times> Arm2x86Profiler" where
  "arm2x86_profiler_start_region now cycles prof name =
     (case name of
        None \<Rightarrow> (- 1, prof)
      | Some name \<Rightarrow>
          (let rs = pf_regions prof;
               (found, rs) =
                 (case first_index (\<lambda>r. rg_name r = name) rs of
                    Some i \<Rightarrow> (Some i, rs)
                  | None \<Rightarrow>
                      if length rs < PROFILER_MAX_REGIONS
                      then (Some (length rs), rs @ [\<lparr>rg_name = take 63 name, rg_start_time_us = 0, rg_start_cycles = 0, rg_total_time_us = 0,
                             rg_total_cycles = 0, rg_max_time_us = 0, rg_call_count = 0, rg_active = False\<rparr>])
                      else (None, rs))
           in case found of
                Some i \<Rightarrow> (int i, prof\<lparr>pf_regions := rs[i := (rs ! i)\<lparr>rg_start_time_us := now, rg_start_cycles := cycles, rg_active := True\<rparr>]\<rparr>)
              | None \<Rightarrow> (- 1, prof)))"

definition arm2x86_profiler_end_region :: "u64 \<Rightarrow> u64 \<Rightarrow> Arm2x86Profiler \<Rightarrow> string option \<Rightarrow> int \<times> Arm2x86Profiler" where
  "arm2x86_profiler_end_region now_us now_cycles prof name =
     (case Option.bind name (\<lambda>n. first_index (\<lambda>r. rg_name r = n \<and> rg_active r) (pf_regions prof)) of
        None \<Rightarrow> (- 1, prof)
      | Some i \<Rightarrow>
          (let r = pf_regions prof ! i; duration_us = now_us - rg_start_time_us r; duration_cycles = now_cycles - rg_start_cycles r;
               r = r\<lparr>rg_total_time_us := rg_total_time_us r + duration_us, rg_total_cycles := rg_total_cycles r + duration_cycles,
                     rg_call_count := rg_call_count r + 1, rg_active := False\<rparr>;
               r = (if rg_max_time_us r < duration_us then r\<lparr>rg_max_time_us := duration_us\<rparr> else r)
           in (0, prof\<lparr>pf_regions := (pf_regions prof)[i := r]\<rparr>)))"

section \<open>Reports\<close>

text \<open>The selection sort of \<open>print_top_blocks\<close>: the first entry with the greatest count from \<open>i\<close> on, which is exchanged with entry \<open>i\<close>.\<close>

definition max_from :: "nat \<Rightarrow> ProfilerEntry list \<Rightarrow> nat" where
  "max_from i xs = foldl (\<lambda>m j. if pe_data (xs ! m) < pe_data (xs ! j) then j else m) i [Suc i..<length xs]"

definition swap_max :: "ProfilerEntry list \<Rightarrow> nat \<Rightarrow> ProfilerEntry list" where
  "swap_max xs i = (let m = max_from i xs in if m \<noteq> i then xs[i := xs ! m, m := xs ! i] else xs)"

text \<open>The result and the entries that are printed, with their rank.\<close>

definition arm2x86_profiler_print_top_blocks :: "Arm2x86Profiler \<Rightarrow> int \<Rightarrow> int \<times> (nat \<times> ProfilerEntry) list" where
  "arm2x86_profiler_print_top_blocks prof count =
     (if count \<le> 0 then (- 1, [])
      else if pf_count prof = 0 then (0, [])
      else
        (let n = min (pf_count prof) PROFILER_MAX_ENTRIES; top = nat (min count (uint n));
             sorted = foldl swap_max (take top (the (pf_entries prof))) [0..<top]
         in (0, filter (\<lambda>(k, e). pe_type e = PROF_BLOCK_EXECUTION) (zip [1..<Suc top] sorted))))"

text \<open>The events of \<open>export_json\<close>, in the order in which they are written.\<close>

definition exported_events :: "Arm2x86Profiler \<Rightarrow> ProfilerEntry list" where
  "exported_events prof =
     (let n = min (pf_count prof) PROFILER_MAX_ENTRIES; es = the (pf_entries prof)
      in map (\<lambda>i. es ! unat ((pf_start_idx prof + of_nat i) mod pf_max_entries prof)) [0..<unat n])"

definition arm2x86_profiler_export_json :: "Arm2x86Profiler \<Rightarrow> bool \<Rightarrow> bool \<Rightarrow> int \<times> ProfilerEntry list option" where
  "arm2x86_profiler_export_json prof filename fopen_ok =
     (if \<not> filename \<or> \<not> fopen_ok then (- 1, None) else (0, Some (exported_events prof)))"

section \<open>The global profiler\<close>

text \<open>\<open>g_profiler\<close> and \<open>g_profiler_initialized\<close>.\<close>

type_synonym global_profiler = "Arm2x86Profiler \<times> bool"

definition arm2x86_profiler_global_init :: "bool \<Rightarrow> u64 \<Rightarrow> global_profiler \<Rightarrow> int \<times> global_profiler" where
  "arm2x86_profiler_global_init calloc_ok now g =
     (if snd g then (0, g) else (let (rc, prof) = arm2x86_profiler_init calloc_ok now in (rc, (prof, rc = 0))))"

definition arm2x86_profiler_global_destroy :: "global_profiler \<Rightarrow> global_profiler" where
  "arm2x86_profiler_global_destroy g = (if \<not> snd g then g else (arm2x86_profiler_destroy (fst g), False))"

definition global_event :: "ProfilerEventType \<Rightarrow> u64 \<Rightarrow> u64 \<Rightarrow> u64 \<Rightarrow> u64 \<Rightarrow> global_profiler \<Rightarrow> global_profiler" where
  "global_event type data now cycles arm_pc g =
     (if snd g then (snd (arm2x86_profiler_record_event now cycles (fst g) type arm_pc data), True) else g)"

definition arm2x86_profile_translate_start :: "u64 \<Rightarrow> u64 \<Rightarrow> u64 \<Rightarrow> global_profiler \<Rightarrow> global_profiler" where
  "arm2x86_profile_translate_start = global_event PROF_EVENT_TRANSLATE_START 0"

definition arm2x86_profile_translate_end :: "u64 \<Rightarrow> u64 \<Rightarrow> u64 \<Rightarrow> global_profiler \<Rightarrow> global_profiler" where
  "arm2x86_profile_translate_end = global_event PROF_EVENT_TRANSLATE_END 0"

definition arm2x86_profile_block_execute :: "u32 \<Rightarrow> u64 \<Rightarrow> u64 \<Rightarrow> u64 \<Rightarrow> global_profiler \<Rightarrow> global_profiler" where
  "arm2x86_profile_block_execute instr_count = global_event PROF_BLOCK_EXECUTION (ucast instr_count)"

definition arm2x86_profile_cache_hit :: "u64 \<Rightarrow> u64 \<Rightarrow> u64 \<Rightarrow> global_profiler \<Rightarrow> global_profiler" where
  "arm2x86_profile_cache_hit = global_event PROF_CACHE_HIT 0"

definition arm2x86_profile_cache_miss :: "u64 \<Rightarrow> u64 \<Rightarrow> u64 \<Rightarrow> global_profiler \<Rightarrow> global_profiler" where
  "arm2x86_profile_cache_miss = global_event PROF_CACHE_MISS 0"

definition arm2x86_profile_hot_retranslate :: "u64 \<Rightarrow> u64 \<Rightarrow> u64 \<Rightarrow> global_profiler \<Rightarrow> global_profiler" where
  "arm2x86_profile_hot_retranslate = global_event PROF_HOT_BLOCK_RETRANSLATE 0"

definition arm2x86_profile_signal :: "u64 \<Rightarrow> u64 \<Rightarrow> u32 \<Rightarrow> global_profiler \<Rightarrow> global_profiler" where
  "arm2x86_profile_signal now cycles signum = global_event PROF_SIGNAL_HANDLER 0 now cycles (scast signum)"

section \<open>The trace\<close>

record trace_entry =
  te_timestamp :: u64
  te_event :: nat
  te_address :: u64
  te_translated_addr :: ptr
  te_size :: u32
  te_cpu_id :: u32
  te_extra :: u64

record trace =
  tr_entries :: "trace_entry list"
  tr_capacity :: nat
  tr_count :: nat
  tr_head :: nat
  tr_enabled :: bool

abbreviation (input) ARM2X86_TRACE_MAX_ENTRIES :: nat where "ARM2X86_TRACE_MAX_ENTRIES \<equiv> 1000000"
abbreviation (input) ARM2X86_TRACE_TRANSLATE :: nat where "ARM2X86_TRACE_TRANSLATE \<equiv> 1"
abbreviation (input) ARM2X86_TRACE_EXECUTE :: nat where "ARM2X86_TRACE_EXECUTE \<equiv> 2"

definition zero_trace_entry :: trace_entry where
  "zero_trace_entry = \<lparr>te_timestamp = 0, te_event = 0, te_address = 0, te_translated_addr = NULL, te_size = 0, te_cpu_id = 0, te_extra = 0\<rparr>"

definition arm2x86_trace_create :: "bool \<Rightarrow> nat \<Rightarrow> trace option" where
  "arm2x86_trace_create calloc_ok capacity =
     (let capacity = (if capacity = 0 then ARM2X86_TRACE_MAX_ENTRIES else capacity)
      in if calloc_ok then Some \<lparr>tr_entries = replicate capacity zero_trace_entry, tr_capacity = capacity, tr_count = 0, tr_head = 0, tr_enabled = True\<rparr>
         else None)"

definition arm2x86_trace_enable :: "bool \<Rightarrow> trace \<Rightarrow> trace" where
  "arm2x86_trace_enable enabled tr = tr\<lparr>tr_enabled := enabled\<rparr>"

definition arm2x86_trace_record :: "u64 \<Rightarrow> nat \<Rightarrow> u64 \<Rightarrow> ptr \<Rightarrow> u32 \<Rightarrow> trace \<Rightarrow> trace" where
  "arm2x86_trace_record now event address translated sz tr =
     (if \<not> tr_enabled tr then tr
      else
        tr\<lparr>tr_entries := (tr_entries tr)[tr_head tr := \<lparr>te_timestamp = now, te_event = event, te_address = address,
             te_translated_addr = translated, te_size = sz, te_cpu_id = 0, te_extra = 0\<rparr>],
           tr_head := (tr_head tr + 1) mod tr_capacity tr,
           tr_count := (if tr_count tr < tr_capacity tr then tr_count tr + 1 else tr_count tr)\<rparr>)"

text \<open>The loop that both exports and the statistics share: \<open>idx = (head + i) % capacity\<close>.\<close>

definition listed :: "trace \<Rightarrow> trace_entry list" where
  "listed tr = map (\<lambda>i. tr_entries tr ! ((tr_head tr + i) mod tr_capacity tr)) [0..<tr_count tr]"

text \<open>The header of the binary file (magic number, version, count) and the entries.\<close>

definition arm2x86_trace_export_binary :: "bool \<Rightarrow> trace \<Rightarrow> (u32 \<times> u32 \<times> u64 \<times> trace_entry list) option" where
  "arm2x86_trace_export_binary fopen_ok tr =
     (if fopen_ok then Some (0x4A414E55, 1, of_nat (tr_count tr), listed tr) else None)"

definition event_name :: "nat \<Rightarrow> string" where
  "event_name e =
     [''UNKNOWN'', ''TRANSLATE'', ''EXECUTE'', ''CACHE_HIT'', ''CACHE_MISS'', ''INVALIDATE'', ''EXCEPTION''] !
       (if 1 \<le> e \<and> e \<le> 6 then e else 0)"

definition arm2x86_trace_export_csv :: "bool \<Rightarrow> trace \<Rightarrow> (string \<times> trace_entry) list option" where
  "arm2x86_trace_export_csv fopen_ok tr =
     (if fopen_ok then Some (map (\<lambda>e. (event_name (te_event e), e)) (listed tr)) else None)"

definition arm2x86_trace_clear :: "trace \<Rightarrow> trace" where
  "arm2x86_trace_clear tr = tr\<lparr>tr_count := 0, tr_head := 0, tr_entries := replicate (tr_capacity tr) zero_trace_entry\<rparr>"

definition arm2x86_trace_stats :: "trace \<Rightarrow> nat \<times> nat \<times> nat" where
  "arm2x86_trace_stats tr =
     (tr_count tr, length (filter (\<lambda>e. te_event e = ARM2X86_TRACE_TRANSLATE) (listed tr)),
      length (filter (\<lambda>e. te_event e = ARM2X86_TRACE_EXECUTE) (listed tr)))"

section \<open>The last error\<close>

record error_info =
  ei_code :: int
  ei_message :: "string option"
  ei_file :: "string option"
  ei_line :: int
  ei_function :: "string option"
  ei_address :: u64

definition g_error_messages :: "(int \<times> string) list" where
  "g_error_messages =
     [(0, ''Success''), (1001, ''Invalid argument''), (1002, ''Out of memory''), (1003, ''Not initialized''), (1004, ''Already initialized''),
      (1005, ''Permission denied''), (2001, ''Unsupported architecture''), (2002, ''Architecture mismatch''),
      (3001, ''Invalid memory alignment''), (3002, ''Invalid opcode''), (3003, ''Unsupported instruction''),
      (3004, ''Decode buffer overflow''), (3005, ''Invalid register''), (4001, ''Translation failed''),
      (4002, ''Code generation failed''), (4003, ''Register allocation failed''), (4004, ''Invalid branch target''),
      (5001, ''Cache full''), (5002, ''Cache miss''), (5003, ''Cache corrupted''), (5004, ''Invalid cache configuration''),
      (6001, ''Memory map failed''), (6002, ''Memory protect failed''), (6003, ''Memory not registered''),
      (6004, ''Memory boundary exceeded''), (7001, ''Execution failed''), (7002, ''Invalid code address''),
      (7003, ''Signal handling failed''), (9001, ''Internal error''), (9002, ''Not implemented''), (9999, ''Unknown error'')]"

definition arm2x86_strerror :: "int \<Rightarrow> string" where
  "arm2x86_strerror error =
     (case first_index (\<lambda>(c, m). c = error) g_error_messages of Some i \<Rightarrow> snd (g_error_messages ! i) | None \<Rightarrow> ''Unknown error'')"

definition arm2x86_get_last_error :: "error_info \<Rightarrow> error_info" where
  "arm2x86_get_last_error g_last_error = g_last_error"

definition arm2x86_set_error :: "int \<Rightarrow> string option \<Rightarrow> string option \<Rightarrow> int \<Rightarrow> string option \<Rightarrow> error_info" where
  "arm2x86_set_error code message file line function =
     \<lparr>ei_code = code, ei_message = message, ei_file = file, ei_line = line, ei_function = function, ei_address = 0\<rparr>"

definition arm2x86_clear_error :: error_info where
  "arm2x86_clear_error = \<lparr>ei_code = 0, ei_message = None, ei_file = None, ei_line = 0, ei_function = None, ei_address = 0\<rparr>"

text \<open>The codes that the library returns are not in the table.\<close>

lemma strerror_own_codes: "map arm2x86_strerror [- 1, - 2, - 3, - 4] = replicate 4 ''Unknown error''"
  by code_simp

section \<open>Logs that keep the last events\<close>

text \<open>
  What both logs promise: an event is appended, and a full log first gives up its oldest entry. Hence a log holds the last
  events, oldest first. \<open>made\<close> is the entry that an event leaves.
\<close>

locale bounded_log =
  fixes inv :: "'s \<Rightarrow> bool"
    and cap :: nat
    and log :: "'s \<Rightarrow> 'e list"
    and made :: "'a \<Rightarrow> 'e"
    and put :: "'a \<Rightarrow> 's \<Rightarrow> 's"
  assumes inv_put: "inv s \<Longrightarrow> inv (put a s)"
    and log_put: "inv s \<Longrightarrow> log (put a s) = (if length (log s) < cap then log s else tl (log s)) @ [made a]"
    and log_bound: "inv s \<Longrightarrow> 0 < cap \<and> length (log s) \<le> cap"
begin

lemma inv_puts: "inv s \<Longrightarrow> inv (fold put as s)"
  by (induction as arbitrary: s) (simp_all add: inv_put)

lemma log_puts:
  assumes "inv s"
  shows "log (fold put as s) = drop (length (log s) + length as - cap) (log s @ map made as)"
proof (induction as rule: rev_induct)
  case Nil
  then show ?case using log_bound [OF assms] by simp
next
  case (snoc a as)
  let ?l = "log s @ map made as"
  define k where "k = length ?l - cap"
  have IH: "log (fold put as s) = drop k ?l" using snoc.IH by (simp add: k_def)
  have step: "log (fold put (as @ [a]) s) = (if length ?l < cap then ?l else tl (drop k ?l)) @ [made a]"
    using log_put [OF inv_puts [OF assms, of as], of a] IH log_bound [OF assms] by (auto simp: k_def)
  show ?case
  proof (cases "length ?l < cap")
    case True
    then show ?thesis using step by simp
  next
    case False
    have "tl (drop k xs) = drop (Suc k) xs" for xs :: "'e list" by (simp add: drop_Suc tl_drop)
    then have "log (fold put (as @ [a]) s) = drop (Suc k) ?l @ [made a]" using step False by (simp only: if_False)
    moreover have "Suc k = length (log s) + length (as @ [a]) - cap" "Suc k \<le> length ?l"
      using False log_bound [OF assms] by (auto simp: k_def)
    ultimately show ?thesis by simp
  qed
qed

end

text \<open>The entries of a ring of \<open>cap\<close> places, from \<open>start\<close> on.\<close>

definition ring :: "'e list \<Rightarrow> nat \<Rightarrow> nat \<Rightarrow> nat \<Rightarrow> 'e list" where
  "ring es cap start n = map (\<lambda>i. es ! ((start + i) mod cap)) [0..<n]"

lemma length_ring [simp]: "length (ring es cap start n) = n"
  by (simp add: ring_def)

lemma ring_places_distinct:
  assumes "i < n" and "n < (cap :: nat)"
  shows "(start + i) mod cap \<noteq> (start + n) mod cap"
proof
  assume "(start + i) mod cap = (start + n) mod cap"
  then have "cap dvd (start + n) - (start + i)"
    using mod_eq_dvd_iff_nat [of "start + i" "start + n" cap] assms(1) by simp
  then have "cap dvd n - i" by simp
  then show False using assms dvd_imp_le [of cap "n - i"] by simp
qed

lemma ring_append:
  assumes "n < cap" and "length es = cap"
  shows "ring (es[(start + n) mod cap := e]) cap start (Suc n) = ring es cap start n @ [e]"
proof -
  have "(start + n) mod cap \<noteq> (start + i) mod cap" if "i < n" for i
    using ring_places_distinct [OF that assms(1), of start] by simp
  then show ?thesis using assms by (auto simp: ring_def nth_list_update)
qed

lemma ring_drop: "0 < n \<Longrightarrow> ring es cap (Suc start mod cap) (n - 1) = tl (ring es cap start n)"
  by (auto simp: ring_def map_tl [symmetric] mod_simps intro!: nth_equalityI simp: nth_tl)

section \<open>The log of the profiler\<close>

text \<open>An event with the time and the cycles at which it is recorded.\<close>

type_synonym profiler_event = "u64 \<times> u64 \<times> ProfilerEventType \<times> u64 \<times> u64"

definition profiler_put :: "profiler_event \<Rightarrow> Arm2x86Profiler \<Rightarrow> Arm2x86Profiler" where
  "profiler_put e prof = (case e of (now, cycles, type, pc, data) \<Rightarrow> snd (arm2x86_profiler_record_event now cycles prof type pc data))"

definition profiler_made :: "profiler_event \<Rightarrow> ProfilerEntry" where
  "profiler_made e = (case e of (now, cycles, type, pc, data) \<Rightarrow>
     \<lparr>pe_type = type, pe_arm_pc = pc, pe_timestamp_us = now, pe_cycle_count = cycles, pe_data = data\<rparr>)"

definition profiler_inv :: "Arm2x86Profiler \<Rightarrow> bool" where
  "profiler_inv prof \<longleftrightarrow>
     (\<exists>es. pf_entries prof = Some es \<and> length es = 65536) \<and> pf_max_entries prof = 65536 \<and> unat (pf_count prof) \<le> 65536 \<and>
     unat (pf_start_idx prof) < 65536"

definition profiler_log :: "Arm2x86Profiler \<Rightarrow> ProfilerEntry list" where
  "profiler_log prof = ring (the (pf_entries prof)) 65536 (unat (pf_start_idx prof)) (unat (pf_count prof))"

lemma statistics_keep_ring:
  "pf_entries (update_statistics now type pc data prof) = pf_entries prof"
  "pf_max_entries (update_statistics now type pc data prof) = pf_max_entries prof"
  "pf_count (update_statistics now type pc data prof) = pf_count prof"
  "pf_start_idx (update_statistics now type pc data prof) = pf_start_idx prof"
  "pf_total_events (update_statistics now type pc data prof) = pf_total_events prof"
  by (simp_all add: update_statistics_def Let_def split: ProfilerEventType.split)

lemma statistics_of_ring:
  "pf_cache_hits (update_statistics now type pc data prof) = pf_cache_hits prof + (if type = PROF_CACHE_HIT then 1 else 0)"
  "pf_cache_misses (update_statistics now type pc data prof) = pf_cache_misses prof + (if type = PROF_CACHE_MISS then 1 else 0)"
  "pf_total_blocks_executed (update_statistics now type pc data prof) = pf_total_blocks_executed prof + (if type = PROF_BLOCK_EXECUTION then 1 else 0)"
  by (simp_all add: update_statistics_def Let_def split: ProfilerEventType.split)

lemma ring_put_keeps [simp]:
  "pf_cache_hits (ring_put e es prof) = pf_cache_hits prof"
  "pf_cache_misses (ring_put e es prof) = pf_cache_misses prof"
  "pf_total_blocks_executed (ring_put e es prof) = pf_total_blocks_executed prof"
  "pf_total_events (ring_put e es prof) = pf_total_events prof + 1"
  "pf_max_entries (ring_put e es prof) = pf_max_entries prof"
  by (simp_all add: ring_put_def Let_def)

text \<open>The indices of the ring do not wrap at 32 bits.\<close>

lemma ring_index:
  fixes s n :: u32
  assumes "unat s < 65536" and "unat n \<le> 65536"
  shows "unat ((s + n) mod 65536) = (unat s + unat n) mod 65536"
proof -
  have "unat (s + n) = unat s + unat n" using assms by (intro unat_add_lem [THEN iffD1]) simp
  then show ?thesis by (simp add: unat_mod)
qed

lemma ring_put_log:
  fixes e :: ProfilerEntry
  assumes "profiler_inv prof" and "pf_entries prof = Some es"
  defines "prof' \<equiv> ring_put e es prof"
  shows "profiler_inv prof' \<and> profiler_log prof' = (if unat (pf_count prof) < 65536 then profiler_log prof else tl (profiler_log prof)) @ [e]"
proof -
  let ?s = "pf_start_idx prof" and ?n = "pf_count prof"
  have len: "length es = 65536" and mx: "pf_max_entries prof = 65536" and n: "unat ?n \<le> 65536" and s: "unat ?s < 65536"
    using assms(1,2) by (auto simp: profiler_inv_def)
  show ?thesis
  proof (cases "unat ?n < 65536")
    case True
    then have "\<not> 65536 \<le> ?n" by (simp add: word_le_nat_alt)
    moreover have "unat (?n + 1) = unat ?n + unat (1 :: u32)" using True by (intro unat_add_lem [THEN iffD1]) simp
    ultimately show ?thesis
      using True len mx s ring_index [OF s n] ring_append [of "unat ?n" 65536 es "unat ?s" e]
      by (simp add: prof'_def ring_put_def profiler_inv_def profiler_log_def assms(2) Let_def)
  next
    case False
    then have full: "?n = 65536" using n by (simp add: word_unat_eq_iff)
    have s': "unat ((?s + 1) mod 65536) = Suc (unat ?s) mod 65536" using ring_index [OF s, of 1] by simp
    then have lt: "unat ((?s + 1) mod 65536) < 65536" by simp
    have "unat (((?s + 1) mod 65536 + 65535) mod 65536) = (Suc (unat ?s) mod 65536 + 65535) mod 65536"
      using ring_index [OF lt, of 65535] s' by simp
    then show ?thesis
      using len mx full s' lt ring_append [of 65535 65536 es "Suc (unat ?s) mod 65536" e] ring_drop [of 65536 es 65536 "unat ?s"]
      by (simp add: prof'_def ring_put_def profiler_inv_def profiler_log_def assms(2) Let_def)
  qed
qed

lemma profiler_put_log:
  assumes "profiler_inv prof"
  shows "profiler_inv (profiler_put e prof) \<and>
    profiler_log (profiler_put e prof) = (if length (profiler_log prof) < 65536 then profiler_log prof else tl (profiler_log prof)) @ [profiler_made e]"
proof -
  obtain es where es: "pf_entries prof = Some es" using assms by (auto simp: profiler_inv_def)
  obtain now cycles type pc data where e: "e = (now, cycles, type, pc, data)" by (cases e) auto
  have "profiler_put e prof = update_statistics now type pc data (ring_put (profiler_made e) es prof)"
    by (simp add: e es profiler_put_def profiler_made_def arm2x86_profiler_record_event_def)
  moreover have "profiler_inv (update_statistics now type pc data p) = profiler_inv p"
      "profiler_log (update_statistics now type pc data p) = profiler_log p" for p
    by (simp_all add: profiler_inv_def profiler_log_def statistics_keep_ring)
  ultimately show ?thesis using ring_put_log [OF assms es, of "profiler_made e"] by (simp add: profiler_log_def)
qed

interpretation profiler: bounded_log profiler_inv 65536 profiler_log profiler_made profiler_put
  using profiler_put_log by unfold_locales (auto simp: profiler_log_def profiler_inv_def)

lemma exported_log:
  assumes "profiler_inv prof"
  shows "exported_events prof = profiler_log prof"
proof -
  have mx: "pf_max_entries prof = 65536" and n: "unat (pf_count prof) \<le> 65536" and s: "unat (pf_start_idx prof) < 65536"
    using assms by (auto simp: profiler_inv_def)
  have "min (pf_count prof) 65536 = pf_count prof" using n by (simp add: min_def word_le_nat_alt)
  moreover have "unat ((pf_start_idx prof + of_nat i) mod 65536) = (unat (pf_start_idx prof) + i) mod 65536" if "i < unat (pf_count prof)" for i
  proof -
    have "unat (of_nat i :: u32) = i" using that n by (simp add: unat_of_nat)
    then show ?thesis using ring_index [OF s, of "of_nat i"] that n by simp
  qed
  ultimately show ?thesis by (auto simp: exported_events_def profiler_log_def ring_def mx Let_def)
qed

lemma profiler_start:
  "arm2x86_profiler_init True now = (0, prof) \<Longrightarrow>
     profiler_inv prof \<and> profiler_log prof = [] \<and> pf_total_events prof = 0 \<and> pf_cache_hits prof = 0 \<and> pf_cache_misses prof = 0 \<and>
     pf_total_blocks_executed prof = 0"
  by (auto simp: arm2x86_profiler_init_def profiler_inv_def profiler_log_def ring_def zero_profiler_def Let_def)

text \<open>The number of events of a type.\<close>

definition events_of :: "ProfilerEventType \<Rightarrow> profiler_event list \<Rightarrow> nat" where
  "events_of t es = length (filter (\<lambda>(now, cycles, type, pc, data). type = t) es)"

lemma profiler_put_counters:
  assumes "profiler_inv prof"
  shows "pf_total_events (profiler_put e prof) = pf_total_events prof + 1"
    "pf_cache_hits (profiler_put e prof) = pf_cache_hits prof + of_nat (events_of PROF_CACHE_HIT [e])"
    "pf_cache_misses (profiler_put e prof) = pf_cache_misses prof + of_nat (events_of PROF_CACHE_MISS [e])"
    "pf_total_blocks_executed (profiler_put e prof) = pf_total_blocks_executed prof + of_nat (events_of PROF_BLOCK_EXECUTION [e])"
  using assms by (auto simp: profiler_put_def arm2x86_profiler_record_event_def profiler_inv_def statistics_keep_ring statistics_of_ring
      events_of_def split: prod.splits)

lemma profiler_counters:
  assumes "profiler_inv prof"
  shows "pf_total_events (fold profiler_put es prof) = pf_total_events prof + of_nat (length es) \<and>
    pf_cache_hits (fold profiler_put es prof) = pf_cache_hits prof + of_nat (events_of PROF_CACHE_HIT es) \<and>
    pf_cache_misses (fold profiler_put es prof) = pf_cache_misses prof + of_nat (events_of PROF_CACHE_MISS es) \<and>
    pf_total_blocks_executed (fold profiler_put es prof) = pf_total_blocks_executed prof + of_nat (events_of PROF_BLOCK_EXECUTION es)"
proof (induction es rule: rev_induct)
  case (snoc e es)
  have "events_of t (es @ [e]) = events_of t es + events_of t [e]" for t by (simp add: events_of_def)
  then show ?case using snoc.IH profiler_put_counters [OF profiler.inv_puts [OF assms, of es], of e] by simp
qed (simp add: events_of_def)

text \<open>
  C38: the event log of the profiler implements a list of which the last 65536 entries are kept. After any sequence of events on a new
  profiler, the export lists the last 65536 events, or all if there are fewer, oldest first, with their time, cycles,
  address and data; the counters of all events, of cache hits and misses, and of executed blocks count all events
  of the sequence and not only those kept, modulo their width.
\<close>

theorem profiler_keeps_last_events:
  fixes es :: "profiler_event list" and now :: u64
  defines "prof \<equiv> fold profiler_put es (snd (arm2x86_profiler_init True now))"
  shows "arm2x86_profiler_export_json prof True True = (0, Some (drop (length es - 65536) (map profiler_made es))) \<and>
    pf_total_events prof = of_nat (length es) \<and>
    pf_cache_hits prof = of_nat (events_of PROF_CACHE_HIT es) \<and>
    pf_cache_misses prof = of_nat (events_of PROF_CACHE_MISS es) \<and>
    pf_total_blocks_executed prof = of_nat (events_of PROF_BLOCK_EXECUTION es)"
proof -
  obtain p where p: "arm2x86_profiler_init True now = (0, p)" by (simp add: arm2x86_profiler_init_def Let_def)
  note start = profiler_start [OF p]
  then have "exported_events prof = drop (length es - 65536) (map profiler_made es)"
    using profiler.log_puts [of p es] exported_log [OF profiler.inv_puts [of p es]] by (simp add: prof_def p)
  then show ?thesis using start profiler_counters [of p es]
    by (simp add: arm2x86_profiler_export_json_def prof_def p)
qed

section \<open>The log of the trace\<close>

type_synonym trace_event = "u64 \<times> nat \<times> u64 \<times> ptr \<times> u32"

definition trace_put :: "trace_event \<Rightarrow> trace \<Rightarrow> trace" where
  "trace_put e tr = (case e of (now, event, address, translated, sz) \<Rightarrow> arm2x86_trace_record now event address translated sz tr)"

definition trace_made :: "trace_event \<Rightarrow> trace_entry" where
  "trace_made e = (case e of (now, event, address, translated, sz) \<Rightarrow>
     \<lparr>te_timestamp = now, te_event = event, te_address = address, te_translated_addr = translated, te_size = sz, te_cpu_id = 0, te_extra = 0\<rparr>)"

definition trace_inv :: "nat \<Rightarrow> trace \<Rightarrow> bool" where
  "trace_inv cap tr \<longleftrightarrow>
     0 < cap \<and> length (tr_entries tr) = cap \<and> tr_capacity tr = cap \<and> tr_count tr \<le> cap \<and> tr_head tr < cap \<and> tr_enabled tr"

definition trace_log :: "trace \<Rightarrow> trace_entry list" where
  "trace_log tr = ring (tr_entries tr) (tr_capacity tr) ((tr_head tr + (tr_capacity tr - tr_count tr)) mod tr_capacity tr) (tr_count tr)"

lemma trace_put_eq:
  "trace_inv cap tr \<Longrightarrow> trace_put e tr = tr\<lparr>tr_entries := (tr_entries tr)[tr_head tr := trace_made e], tr_head := (tr_head tr + 1) mod cap,
     tr_count := if tr_count tr < cap then tr_count tr + 1 else tr_count tr\<rparr>"
  by (cases e) (simp add: trace_put_def trace_made_def arm2x86_trace_record_def trace_inv_def)

lemma trace_put_log:
  assumes "trace_inv cap tr"
  shows "trace_inv cap (trace_put e tr) \<and>
    trace_log (trace_put e tr) = (if length (trace_log tr) < cap then trace_log tr else tl (trace_log tr)) @ [trace_made e]"
proof -
  let ?h = "tr_head tr" and ?n = "tr_count tr" and ?es = "tr_entries tr"
  have inv: "0 < cap" "length ?es = cap" "tr_capacity tr = cap" "?n \<le> cap" "?h < cap" "tr_enabled tr"
    using assms by (auto simp: trace_inv_def)
  have put: "trace_put e tr = tr\<lparr>tr_entries := ?es[?h := trace_made e], tr_head := (?h + 1) mod cap, tr_count := if ?n < cap then ?n + 1 else ?n\<rparr>"
    using assms by (rule trace_put_eq)
  have keeps: "trace_inv cap (trace_put e tr)" using inv by (auto simp: put trace_inv_def)
  show ?thesis
  proof (cases "?n < cap")
    case True
    let ?s = "(?h + (cap - ?n)) mod cap"
    have "(Suc ?h mod cap + (cap - Suc ?n)) mod cap = (Suc ?h + (cap - Suc ?n)) mod cap" by (simp only: mod_add_left_eq)
    also have "Suc ?h + (cap - Suc ?n) = ?h + (cap - ?n)" using True by simp
    finally have start: "(Suc ?h mod cap + (cap - Suc ?n)) mod cap = ?s" .
    have "(?s + ?n) mod cap = (?h + (cap - ?n) + ?n) mod cap" by (simp only: mod_add_left_eq)
    also have "?h + (cap - ?n) + ?n = ?h + cap" using True by simp
    finally have "(?s + ?n) mod cap = ?h" using inv(5) by simp
    then show ?thesis using keeps True inv start ring_append [of ?n cap ?es ?s "trace_made e"] by (simp add: put trace_log_def)
  next
    case False
    then have full: "?n = cap" using inv(4) by simp
    let ?s = "Suc ?h mod cap"
    have "(?s + (cap - 1)) mod cap = (Suc ?h + (cap - 1)) mod cap" by (simp only: mod_add_left_eq)
    also have "Suc ?h + (cap - 1) = ?h + cap" using inv(1) by simp
    finally have last: "(?s + (cap - 1)) mod cap = ?h" using inv(5) by simp
    have "ring (?es[?h := trace_made e]) cap ?s cap = ring ?es cap ?s (cap - 1) @ [trace_made e]"
      using ring_append [of "cap - 1" cap ?es ?s "trace_made e", unfolded last] inv(1,2) by simp
    then show ?thesis using keeps full inv ring_drop [of cap ?es cap ?h] by (simp add: put trace_log_def)
  qed
qed

interpretation trace: bounded_log "trace_inv cap" cap trace_log trace_made trace_put for cap
  using trace_put_log [of cap] by unfold_locales (blast, blast, auto simp: trace_log_def trace_inv_def)

lemma listed_full: "trace_inv cap tr \<Longrightarrow> tr_count tr = cap \<Longrightarrow> listed tr = trace_log tr"
  by (simp add: listed_def trace_log_def ring_def trace_inv_def)

text \<open>As long as the trace is not full, its entries are at the front of the array, and \<open>head\<close> is their number.\<close>

lemma trace_front:
  assumes "arm2x86_trace_create True n = Some tr" and "length es \<le> tr_capacity tr"
  shows "tr_entries (fold trace_put es tr) = map trace_made es @ replicate (tr_capacity tr - length es) zero_trace_entry \<and>
    tr_count (fold trace_put es tr) = length es \<and> tr_head (fold trace_put es tr) = length es mod tr_capacity tr"
  using assms(2)
proof (induction es rule: rev_induct)
  case Nil
  then show ?case using assms(1) by (auto simp: arm2x86_trace_create_def Let_def)
next
  case (snoc e es)
  let ?tr = "fold trace_put es tr" and ?cap = "tr_capacity tr"
  have "trace_inv ?cap tr" using assms(1) by (auto simp: arm2x86_trace_create_def trace_inv_def Let_def)
  then have inv: "trace_inv ?cap ?tr" by (rule trace.inv_puts)
  have lt: "length es < ?cap" using snoc.prems by simp
  then have IH: "tr_entries ?tr = map trace_made es @ replicate (?cap - length es) zero_trace_entry" "tr_count ?tr = length es"
      "tr_head ?tr = length es" using snoc.IH by auto
  moreover have "(xs @ replicate (?cap - length es) z)[length es := x] = (xs @ [x]) @ replicate (?cap - Suc (length es)) z"
    if "length xs = length es" for xs and x z :: trace_entry
    using that lt by (simp add: list_update_append Cons_replicate_eq Suc_diff_Suc [symmetric])
  ultimately show ?case using lt by (simp add: trace_put_eq [OF inv])
qed

text \<open>
  What a trace exports. A trace that has recorded at least as many events as it has places exports the last of them, oldest first.
  A trace that is at most half full exports as many entries as it has recorded, but none of the events: the loops start at
  \<open>head\<close>, where nothing has been written yet.
\<close>

lemma trace_export:
  assumes "arm2x86_trace_create True n = Some tr"
  shows "(tr_capacity tr \<le> length es \<longrightarrow>
        listed (fold trace_put es tr) = drop (length es - tr_capacity tr) (map trace_made es)) \<and>
    (2 * length es \<le> tr_capacity tr \<longrightarrow> listed (fold trace_put es tr) = replicate (length es) zero_trace_entry)"
proof (intro conjI impI)
  let ?cap = "tr_capacity tr" and ?tr = "fold trace_put es tr"
  have inv: "trace_inv ?cap tr" and empty: "trace_log tr = []"
    using assms by (auto simp: arm2x86_trace_create_def trace_inv_def trace_log_def ring_def Let_def)
  have log: "trace_log ?tr = drop (length es - ?cap) (map trace_made es)"
    using trace.log_puts [OF inv, of es] by (simp add: empty)
  {
    assume "?cap \<le> length es"
    then have "length (trace_log ?tr) = ?cap" by (simp add: log)
    then have "tr_count ?tr = ?cap" by (simp add: trace_log_def)
    then show "listed ?tr = drop (length es - ?cap) (map trace_made es)"
      using listed_full [OF trace.inv_puts [OF inv]] log by simp
  next
    assume half: "2 * length es \<le> ?cap"
    have cap: "0 < ?cap" "tr_capacity ?tr = ?cap" using inv trace.inv_puts [OF inv, of es] by (auto simp: trace_inv_def)
    then show "listed ?tr = replicate (length es) zero_trace_entry"
      using trace_front [OF assms, of es] half by (auto simp: listed_def nth_append intro!: nth_equalityI)
  }
qed

lemma trace_export_witness:
  "listed (fold trace_put [(1, 1, 0x1000, 0x2000, 4), (2, 2, 0x1000, 0x2000, 4), (3, 1, 0x1004, 0x2010, 4)]
     \<lparr>tr_entries = replicate 2 zero_trace_entry, tr_capacity = 2, tr_count = 0, tr_head = 0, tr_enabled = True\<rparr>) =
   [trace_made (2, 2, 0x1000, 0x2000, 4), trace_made (3, 1, 0x1004, 0x2010, 4)]"
proof -
  have "arm2x86_trace_create True 2 =
      Some \<lparr>tr_entries = replicate 2 zero_trace_entry, tr_capacity = 2, tr_count = 0, tr_head = 0, tr_enabled = True\<rparr>"
    by (simp add: arm2x86_trace_create_def)
  from trace_export [OF this, of "[(1, 1, 0x1000, 0x2000, 4), (2, 2, 0x1000, 0x2000, 4), (3, 1, 0x1004, 0x2010, 4)]"]
  show ?thesis by simp
qed

section \<open>What the numbers do not mean\<close>

text \<open>The start of a translation is not cleared by its end: a second end is counted again.\<close>

lemma translate_end_counts:
  fixes now cycles pc data :: u64
  assumes "pf_entries prof \<noteq> None" and "0 < pf_current_translate_start prof"
  defines "prof' \<equiv> snd (arm2x86_profiler_record_event now cycles prof PROF_EVENT_TRANSLATE_END pc data)"
  shows "pf_translate_count prof' = pf_translate_count prof + 1 \<and> pf_entries prof' \<noteq> None \<and>
    pf_current_translate_start prof' = pf_current_translate_start prof"
proof -
  obtain es where es: "pf_entries prof = Some es" using assms(1) by auto
  let ?r = "\<lambda>e. ring_put e es prof"
  have "pf_entries (?r e) \<noteq> None" "pf_translate_count (?r e) = pf_translate_count prof"
      "pf_current_translate_start (?r e) = pf_current_translate_start prof" for e
    by (simp_all add: ring_put_def Let_def)
  then show ?thesis using assms(2) by (simp add: prof'_def es arm2x86_profiler_record_event_def update_statistics_def Let_def)
qed

lemma translation_counted_again:
  assumes "pf_entries prof \<noteq> None" and "0 < pf_current_translate_start prof"
  defines "stop \<equiv> (\<lambda>now p. snd (arm2x86_profiler_record_event now 0 p PROF_EVENT_TRANSLATE_END 0 0))"
  shows "pf_translate_count (stop t2 (stop t1 prof)) = pf_translate_count prof + 2"
  using translate_end_counts [OF assms(1,2), of t1 0 0 0] translate_end_counts [of "stop t1 prof" t2 0 0 0] assms(2)
  by (simp add: stop_def)

text \<open>The name of a region is cut at 63 characters, and the longer name is then not found.\<close>

lemma long_region_not_ended:
  assumes "\<forall>r\<in>set (pf_regions prof). length (rg_name r) \<le> 63" and "63 < length name"
  shows "arm2x86_profiler_end_region now cycles (snd (arm2x86_profiler_start_region now' cycles' prof (Some name))) (Some name) =
    (- 1, snd (arm2x86_profiler_start_region now' cycles' prof (Some name)))"
proof -
  have none: "first_index (\<lambda>r. rg_name r = name) (pf_regions prof) = None" using assms by (auto simp: first_index_None)
  have old: "rg_name r \<noteq> name" if "r \<in> set (pf_regions prof)" for r using that assms by auto
  have "take 63 name \<noteq> name" using assms(2) by auto
  then have "first_index (\<lambda>r. rg_name r = name \<and> rg_active r) (pf_regions (snd (arm2x86_profiler_start_region now' cycles' prof (Some name)))) = None"
    using old by (auto simp: arm2x86_profiler_start_region_def none first_index_None Let_def list_update_append)
  then show ?thesis by (simp add: arm2x86_profiler_end_region_def)
qed

text \<open>Only the first \<open>count\<close> entries of the array are looked at: the block that ran most often is missed behind them.\<close>

definition two_blocks :: Arm2x86Profiler where
  "two_blocks = zero_profiler\<lparr>pf_entries := Some [zero_event\<lparr>pe_type := PROF_BLOCK_EXECUTION, pe_arm_pc := 1, pe_data := 1\<rparr>,
     zero_event\<lparr>pe_type := PROF_BLOCK_EXECUTION, pe_arm_pc := 2, pe_data := 9\<rparr>], pf_max_entries := 2, pf_count := 2\<rparr>"

lemma top_block_missed:
  "map (\<lambda>(k, e). (k, pe_arm_pc e)) (snd (arm2x86_profiler_print_top_blocks two_blocks 1)) = [(1, 1)] \<and>
   map (\<lambda>(k, e). (k, pe_arm_pc e)) (snd (arm2x86_profiler_print_top_blocks two_blocks 2)) = [(1, 2), (2, 1)]"
  by code_simp

end
