(* ===== verification/Bridge.thy ===== *)
theory Bridge
  imports Elf Dbt
begin

text \<open>
  \<open>src/modules/arm2x86_nativebridge.c\<close>, \<open>arm2x86_jni_sim.c\<close> and \<open>arm2x86_jni_capture.c\<close>: the native bridge, which loads libraries, reads
  files of patches for them, and gives out addresses to call; and the registration of native methods.

  Modules are those of \<open>Elf\<close>, translation is that of \<open>Dbt\<close>. The patches and native methods of a module are a record of their own. Files are their
  contents, without zero characters; messages are left out, and memory does not run out.
\<close>

section \<open>Patches and native methods of a module\<close>

record Patch =
  pa_arm_offset :: u32
  pa_x86_bytes :: code

record NativeMethodRegistration =
  nm_class_name :: "string option"
  nm_method_name :: "string option"
  nm_signature :: "string option"
  nm_fn_ptr :: ptr
  nm_arm_offset :: u64

record module_extra =
  mx_patch_dir :: "string option"
  mx_patches :: "Patch list"
  mx_native_methods :: "NativeMethodRegistration list"

definition no_extra :: module_extra where
  "no_extra = \<lparr>mx_patch_dir = None, mx_patches = [], mx_native_methods = []\<rparr>"

section \<open>Lines and numbers\<close>

text \<open>\<open>fgets\<close> with a buffer of 1024 characters: up to the end of a line, and at most 1023 characters. \<open>room\<close> is what is left of them.\<close>

fun fgets_lines :: "nat \<Rightarrow> string \<Rightarrow> string \<Rightarrow> string list" where
  "fgets_lines room cur [] = (if cur = [] then [] else [rev cur])"
| "fgets_lines room cur (c # cs) =
     (if c = CHR 0x0A \<or> room \<le> 1 then rev (c # cur) # fgets_lines 1023 [] cs else fgets_lines (room - 1) (c # cur) cs)"

text \<open>\<open>strtok\<close>: the pieces between separators that are not empty.\<close>

fun words_by :: "(char \<Rightarrow> bool) \<Rightarrow> string \<Rightarrow> string \<Rightarrow> string list" where
  "words_by sep cur [] = (if cur = [] then [] else [rev cur])"
| "words_by sep cur (c # cs) =
     (if sep c then (if cur = [] then [] else [rev cur]) @ words_by sep [] cs else words_by sep (c # cur) cs)"

definition patch_sep :: "char \<Rightarrow> bool" where
  "patch_sep c \<longleftrightarrow> c \<in> {CHR '' '', CHR 0x09, CHR 0x0A}"

definition is_space :: "char \<Rightarrow> bool" where
  "is_space c \<longleftrightarrow> c \<in> {CHR '' '', CHR 0x09, CHR 0x0A, CHR 0x0B, CHR 0x0C, CHR 0x0D}"

definition hex_value :: "char \<Rightarrow> nat option" where
  "hex_value c =
     (let n = (of_char c :: nat)
      in if 48 \<le> n \<and> n \<le> 57 then Some (n - 48) else if 97 \<le> n \<and> n \<le> 102 then Some (n - 87)
         else if 65 \<le> n \<and> n \<le> 70 then Some (n - 55) else None)"

fun hex_run :: "string \<Rightarrow> nat \<Rightarrow> nat" where
  "hex_run [] v = v"
| "hex_run (c # cs) v = (case hex_value c of Some d \<Rightarrow> hex_run cs (16 * v + d) | None \<Rightarrow> v)"

text \<open>\<open>sscanf(s, "%x", &v)\<close> with an \<open>unsigned int v\<close>: blanks, a sign, \<open>0x\<close>, digits. The number is read with 64 bits.\<close>

definition scan_hex :: "string \<Rightarrow> u32 option" where
  "scan_hex s =
     (let s = dropWhile is_space s;
          neg = (s \<noteq> [] \<and> hd s = CHR ''-'');
          s = (if s \<noteq> [] \<and> (hd s = CHR ''-'' \<or> hd s = CHR ''+'') then tl s else s);
          s = (if take 2 s = ''0x'' \<or> take 2 s = ''0X'' then drop 2 s else s)
      in case s of
           [] \<Rightarrow> None
         | c # cs \<Rightarrow>
             if hex_value c = None then None
             else (let n = hex_run s 0; v = (of_nat n :: u64) in Some (if 2 ^ 64 \<le> n then - 1 else ucast (if neg then - v else v))))"

section \<open>The file of patches\<close>

text \<open>\<open>junk i\<close> is what the uninitialised variable \<open>byte\<close> holds when word \<open>i\<close> is no number.\<close>

definition patch_line :: "(nat \<Rightarrow> u32) \<Rightarrow> string \<Rightarrow> Patch option" where
  "patch_line junk line =
     (if hd line = CHR ''#'' \<or> hd line = CHR 0x0A \<or> take 2 line \<noteq> ''0x'' then None
      else
        (case scan_hex (drop 2 line) of
           None \<Rightarrow> None
         | Some arm_off \<Rightarrow>
             (case dropWhile (\<lambda>c. c \<noteq> CHR '' '') line of
                [] \<Rightarrow> None
              | _ # p \<Rightarrow>
                  (let toks = words_by patch_sep [] p
                   in if toks = [] then None
                      else Some \<lparr>pa_arm_offset = arm_off,
                             pa_x86_bytes = map (\<lambda>(i, tok). ucast (case scan_hex tok of Some b \<Rightarrow> b | None \<Rightarrow> junk i))
                               (zip [0..<length toks] toks)\<rparr>))))"

definition load_patches :: "(nat \<Rightarrow> u32) \<Rightarrow> string \<Rightarrow> Patch list" where
  "load_patches junk file = List.map_filter (patch_line junk) (fgets_lines 1023 [] file)"

section \<open>Native methods\<close>

definition arm2x86_register_native_method :: "module_extra option \<Rightarrow> string option \<Rightarrow> string option \<Rightarrow> string option \<Rightarrow> ptr \<Rightarrow> u64
    \<Rightarrow> int \<times> module_extra option" where
  "arm2x86_register_native_method md class_name method_name signature fn_ptr arm_offset =
     (case md of
        None \<Rightarrow> (- 1, None)
      | Some x \<Rightarrow>
          if method_name = None \<or> signature = None then (- 1, md)
          else (int (length (mx_native_methods x)),
                Some (x\<lparr>mx_native_methods := mx_native_methods x @ [\<lparr>nm_class_name = class_name, nm_method_name = method_name,
                  nm_signature = signature, nm_fn_ptr = fn_ptr, nm_arm_offset = arm_offset\<rparr>]\<rparr>)))"

text \<open>A part of the key that is null on either side matches everything.\<close>

definition matches :: "string option \<Rightarrow> string option \<Rightarrow> bool" where
  "matches a b \<longleftrightarrow> a = None \<or> b = None \<or> a = b"

definition arm2x86_lookup_native_method :: "module_extra option \<Rightarrow> string option \<Rightarrow> string option \<Rightarrow> string option \<Rightarrow> ptr" where
  "arm2x86_lookup_native_method md class_name method_name signature =
     (case (md, method_name) of
        (Some x, Some name) \<Rightarrow>
          (case find (\<lambda>m. nm_method_name m = Some name \<and> matches signature (nm_signature m) \<and> matches class_name (nm_class_name m))
                  (mx_native_methods x) of
             Some m \<Rightarrow> nm_fn_ptr m | None \<Rightarrow> NULL)
      | _ \<Rightarrow> NULL)"

text \<open>The stubs of the table by the names of their methods; \<open>stub k\<close> is the address of the k-th.\<close>

definition stub_method_table :: "string list" where
  "stub_method_table =
     [''m16917'', ''m16918'', ''m16919'', ''m16920'', ''m16921'', ''m16922'', ''m16923'', ''m16924'', ''m16925'', ''m16926'', ''m16927'', ''m16928'',
      ''m16929'', ''m16930'', ''m16931'', ''m16932'', ''m16933'', ''m11513'', ''m30135'', ''m30136'', ''m30137'', ''m31941'', ''m25821'', ''m28696'',
      ''m10765'', ''m10766'', ''m10767'', ''m10768'', ''m10769'', ''m10770'', ''m14596'', ''m8459'', ''delete'', ''length'', ''newStringUTF'',
      ''read'', ''readlink'', ''receiveFdResponse'', ''rename'', ''seek'', ''startMTIO'', ''sync'', ''tell'', ''truncate'', ''write'', ''init'',
      ''installSeccomp'', ''close'', ''createSubprocess'', ''killAll'', ''setPtyWindowSize'', ''waitFor'']"

text \<open>What the stubs return to Java: nothing, or a number (zero also for false and for null). They do nothing else but print.\<close>

definition stubs_l :: "(string \<times> int option) list" where
  "stubs_l =
    [(''m16917'', Some 0), (''m16918'', Some 0), (''m16919'', Some 0), (''m16920'', Some 0), (''m16921'', Some 0), (''m16922'', Some 0),
     (''m16923'', Some 0), (''m16924'', Some 0), (''m16925'', Some 0), (''m16926'', Some 0), (''m16927'', None), (''m16928'', None),
     (''m16929'', Some 0), (''m16930'', Some 0), (''m16931'', Some 0), (''m16932'', Some 0), (''m16933'', None)]"

definition stubs_mt :: "(string \<times> int option) list" where
  "stubs_mt =
    [(''delete'', Some 0), (''length'', Some 0), (''newStringUTF'', Some 0), (''read'', Some (- 1)), (''readlink'', Some 0),
     (''receiveFdResponse'', Some (- 1)), (''rename'', Some 0), (''seek'', None), (''startMTIO'', Some (- 1)), (''sync'', None),
     (''tell'', Some 0), (''truncate'', None), (''write'', None), (''init'', Some (- 1)), (''installSeccomp'', Some (- 1)), (''close'', None),
     (''createSubprocess'', Some (- 1)), (''killAll'', None), (''setPtyWindowSize'', None), (''waitFor'', Some (- 1))]"

definition stubs_other :: "(string \<times> int option) list" where
  "stubs_other =
    [(''m11513'', None), (''m30135'', Some 0), (''m30136'', Some 0), (''m30137'', None), (''m31941'', None), (''m25821'', Some 0),
     (''m28696'', Some 0), (''m10765'', Some 0), (''m10766'', Some 0), (''m10767'', Some 0), (''m10768'', None), (''m10769'', Some 0),
     (''m10770'', None), (''m14596'', None), (''m8459'', Some 0)]"

definition find_stub_function :: "(nat \<Rightarrow> ptr) \<Rightarrow> string \<Rightarrow> ptr" where
  "find_stub_function stub method_name =
     (case first_index (\<lambda>n. n = method_name) stub_method_table of Some i \<Rightarrow> stub i | None \<Rightarrow> NULL)"

text \<open>
  One line of the configuration: \<open>sscanf(line, "%s %s %s %s", ...)\<close> into arrays of 256, 256, 512 and 32 characters. \<open>None\<close>: a word does not fit its
  array.
\<close>

definition conf_line :: "(nat \<Rightarrow> ptr) \<Rightarrow> string \<Rightarrow> module_extra \<times> int \<Rightarrow> (module_extra \<times> int) option" where
  "conf_line stub line st =
     (let ws = take 4 (words_by is_space [] line)
      in if hd line = CHR ''#'' \<or> hd line = CHR 0x0A then Some st
         else if \<exists>(w, n)\<in>set (zip ws [256, 256, 512, 32]). n \<le> length w then None
         else if length ws < 3 then Some st
         else Some (the (snd (arm2x86_register_native_method (Some (fst st)) (Some (ws ! 0)) (Some (ws ! 1)) (Some (ws ! 2))
                 (find_stub_function stub (ws ! 1)) 0)), snd st + 1))"

fun conf_lines :: "(nat \<Rightarrow> ptr) \<Rightarrow> string list \<Rightarrow> module_extra \<times> int \<Rightarrow> (module_extra \<times> int) option" where
  "conf_lines stub [] st = Some st"
| "conf_lines stub (l # ls) st = Option.bind (conf_line stub l st) (conf_lines stub ls)"

text \<open>\<open>conf\<close> is the contents of \<open>native_methods.conf\<close> in the directory of the patches, if there is such a file.\<close>

definition load_native_method_stubs :: "(nat \<Rightarrow> ptr) \<Rightarrow> string option \<Rightarrow> module_extra \<Rightarrow> (int \<times> module_extra) option" where
  "load_native_method_stubs stub conf x =
     (if mx_patch_dir x = None then Some (- 1, x)
      else case conf of
        None \<Rightarrow> Some (- 1, x)
      | Some f \<Rightarrow> map_option (\<lambda>(x, count). (count, x)) (conf_lines stub (fgets_lines 1023 [] f) (x, 0)))"

text \<open>A patch \<open>mov eax, imm32; ret\<close> counts as one for \<open>JNI_OnLoad\<close>.\<close>

definition simulate_jni_onload :: "(nat \<Rightarrow> ptr) \<Rightarrow> string option \<Rightarrow> module_extra \<Rightarrow> (int \<times> module_extra) option" where
  "simulate_jni_onload stub conf x =
     (let found = (\<exists>p\<in>set (mx_patches x). 6 \<le> length (pa_x86_bytes p) \<and> pa_x86_bytes p ! 0 = 0xb8 \<and> pa_x86_bytes p ! 5 = 0xc3)
      in map_option (\<lambda>(rc, x). (if found then 0 else - 2, x)) (load_native_method_stubs stub conf x))"

section \<open>Captured methods\<close>

record CapturedMethod =
  cm_method_name :: "string option"
  cm_signature :: "string option"
  cm_fn_ptr :: ptr
  cm_arm_offset :: u64

text \<open>
  The k-th \<open>JNINativeMethod\<close> of the array: two strings and an address; \<open>str\<close> reads a string. The module that is being loaded is its memory, its
  mapped size and its methods. The new entries are linked behind \<open>prev_tail\<close>, which is null in the first round; \<open>None\<close>: it is dereferenced.
\<close>

definition arm2x86_intercept_register_natives ::
  "(ptr \<Rightarrow> string) \<Rightarrow> image \<Rightarrow> ptr \<Rightarrow> nat \<Rightarrow> (ptr \<times> u64 \<times> module_extra) option \<Rightarrow> CapturedMethod list
     \<Rightarrow> (int \<times> module_extra option \<times> CapturedMethod list) option" where
  "arm2x86_intercept_register_natives str m methods nMethods md captured =
     (let string_at = (\<lambda>p. if p = NULL then None else Some (str p));
          entry = (\<lambda>i. let e = methods + 24 * of_nat i in (string_at (read64 m e), string_at (read64 m (e + 8)), read64 m (e + 16)));
          table = (case md of
             None \<Rightarrow> None
           | Some (memory, mapped_size, x) \<Rightarrow>
               Some (fold (\<lambda>i x. case entry i of (name, sig, fn) \<Rightarrow>
                  if fn \<noteq> NULL \<and> memory \<noteq> NULL \<and> fn - memory < mapped_size
                  then x\<lparr>mx_native_methods := mx_native_methods x @ [\<lparr>nm_class_name = None, nm_method_name = name, nm_signature = sig,
                         nm_fn_ptr = fn, nm_arm_offset = fn - memory\<rparr>]\<rparr>
                  else x) [0..<nMethods] x));
          new = map (\<lambda>i. case entry i of (name, sig, fn) \<Rightarrow>
             \<lparr>cm_method_name = name, cm_signature = sig, cm_fn_ptr = fn,
              cm_arm_offset = (case md of Some (memory, _, _) \<Rightarrow> if fn \<noteq> NULL then fn - memory else 0 | None \<Rightarrow> 0)\<rparr>) [0..<nMethods]
      in if captured \<noteq> [] \<and> 0 < nMethods then None else Some (0, table, captured @ new))"

definition arm2x86_free_captured_methods :: "CapturedMethod list \<Rightarrow> CapturedMethod list" where
  "arm2x86_free_captured_methods captured = []"

section \<open>Loading\<close>

text \<open>
  \<open>NativeBridgeLoadLibrary\<close>: \<open>module\<close>, \<open>file\<close>, \<open>mmap_result\<close> and so on are those of \<open>ElfLoad\<close>; \<open>patches\<close> is the file of patches in \<open>dir\<close>, if there is one,
  and \<open>extra\<close> has the patches and methods of each module. The first module that is allocated is lost when \<open>ElfLoad\<close> allocates its own. The result \<open>Inl\<close>
  is an error of \<open>Elf\<close>, or an overflow in the configuration.
\<close>

definition nb_loadLibrary ::
  "(ptr \<Rightarrow> cstring \<Rightarrow> ptr) \<Rightarrow> (nat \<Rightarrow> u32) \<Rightarrow> (nat \<Rightarrow> ptr) \<Rightarrow> string \<Rightarrow> string option \<Rightarrow> string option \<Rightarrow> bool \<Rightarrow> ptr \<Rightarrow> u8 list option \<Rightarrow> ptr
     \<Rightarrow> elf_state \<Rightarrow> (ptr \<Rightarrow> module_extra) \<Rightarrow> elf_error + ptr \<times> elf_state \<times> (ptr \<Rightarrow> module_extra)" where
  "nb_loadLibrary dlsym junk stub dir patches conf null_path module file mmap_result s extra =
     (if null_path then Inr (NULL, s, extra)
      else
        (case ElfLoad False module True file True mmap_result True s of
           Inl e \<Rightarrow> Inl e
         | Inr (rc, out, s) \<Rightarrow>
             if rc \<noteq> ARM2X86_OK then Inr (NULL, s, extra)
             else
               (case ElfRelocate dlsym (es_mem s) (Some (es_module s module)) of
                  Inl e \<Rightarrow> Inl e
                | Inr (rc, md, m, protected) \<Rightarrow>
                    (let s = s\<lparr>es_mem := m, es_module := (es_module s)(module := the md)\<rparr>
                     in if rc \<noteq> ARM2X86_OK then Inr (NULL, snd (ElfUnload module s), extra)
                        else
                          (let x = (case patches of None \<Rightarrow> no_extra
                                 | Some f \<Rightarrow> no_extra\<lparr>mx_patch_dir := Some (take 511 dir), mx_patches := load_patches junk f\<rparr>)
                           in case ElfGetSymbol dlsym m md (Some (map of_char ''JNI_OnLoad'')) True of
                                Inl e \<Rightarrow> Inl e
                              | Inr _ \<Rightarrow>
                                  (case simulate_jni_onload stub conf x of
                                     None \<Rightarrow> Inl Out_of_bounds
                                   | Some (sim_ret, x) \<Rightarrow> Inr (module, s, extra(module := x))))))))"

text \<open>\<open>isSupported\<close>: \<open>junk\<close> are the bytes of the header on the stack, where the file is shorter.\<close>

definition nb_isSupported :: "(nat \<Rightarrow> u8) \<Rightarrow> u8 list option \<Rightarrow> bool" where
  "nb_isSupported junk file =
     (case file of
        None \<Rightarrow> False
      | Some f \<Rightarrow>
          (let e_machine = read16 (\<lambda>a. let i = unat a in if i < length f then f ! i else junk i) 18
           in 18 \<le> length f \<and> take 4 f = [0x7f, 0x45, 0x4c, 0x46] \<and>
              (if f ! 4 = ELFCLASS64 then e_machine = 183 else f ! 4 = ELFCLASS32 \<and> e_machine = 40)))"

section \<open>Addresses to call\<close>

text \<open>
  The trampoline of a symbol is the code of a patch for its offset, or its translation, or its own address if it cannot be
  translated. \<open>exec_mem\<close> is the memory that is mapped for a patch; \<open>None\<close>: an error of \<open>Elf\<close>, or the translation hangs.
\<close>

definition nb_getTrampoline ::
  "Platform \<Rightarrow> DecodedInstruction \<Rightarrow> TranslateCtx \<Rightarrow> ptr \<Rightarrow> ptr \<Rightarrow> timespec \<Rightarrow> arm2x86_Context \<Rightarrow> ptr \<Rightarrow> ptr \<Rightarrow> (ptr \<Rightarrow> cstring \<Rightarrow> ptr) \<Rightarrow> ptr
     \<Rightarrow> (ElfModule \<times> module_extra) option \<Rightarrow> cstring option \<Rightarrow> dbt \<Rightarrow> (ptr \<times> dbt) option" where
  "nb_getTrampoline pf junk t regs_malloc copy_malloc now g_ctx buffer size_var dlsym exec_mem handle name s =
     (case (handle, name) of
        (Some (md, x), Some _) \<Rightarrow>
          (case ElfGetSymbol dlsym (dbt_mem s) (Some md) name True of
             Inl e \<Rightarrow> None
           | Inr (rc, out) \<Rightarrow>
               if rc \<noteq> ARM2X86_OK then Some (NULL, s)
               else
                 (let sym = the out; offset = sym - md_memory md
                  in case find (\<lambda>p. ucast (pa_arm_offset p) = offset) (mx_patches x) of
                       Some p \<Rightarrow>
                         if exec_mem = MAP_FAILED then Some (NULL, s)
                         else Some (exec_mem, s\<lparr>dbt_mem := write_code (dbt_mem s) exec_mem (pa_x86_bytes p)\<rparr>)
                     | None \<Rightarrow>
                         if md_mapped_size md \<le> offset \<or> sym AND 3 \<noteq> 0 then Some (NULL, s)
                         else
                           map_option (\<lambda>(x86_code, x86_size, s). (if x86_code \<noteq> NULL then x86_code else sym, s))
                             (dbt_translate_block pf junk t regs_malloc copy_malloc now (Some g_ctx) sym buffer size_var s)))
      | _ \<Rightarrow> Some (NULL, s))"

definition nb_isTrampoline :: "elf_state \<Rightarrow> dbt \<Rightarrow> ptr \<Rightarrow> bool" where
  "nb_isTrampoline es s addr \<longleftrightarrow>
     (\<exists>md\<in>set (map (es_module es) (g_module_list es)). md_memory md \<le> addr \<and> addr < md_memory md + md_size md) \<or>
     (dbt_get_code_cache s \<noteq> NULL \<and> dbt_get_code_cache s \<le> addr \<and> addr < dbt_get_code_cache s + dbt_get_code_cache_size)"

text \<open>The first module with the symbol; \<open>fallback\<close> is \<open>dlsym(RTLD_DEFAULT, name)\<close>.\<close>

fun global_var :: "(ptr \<Rightarrow> cstring \<Rightarrow> ptr) \<Rightarrow> image \<Rightarrow> (cstring \<Rightarrow> ptr) \<Rightarrow> cstring \<Rightarrow> ElfModule list \<Rightarrow> elf_error + ptr" where
  "global_var dlsym m fallback name [] = Inr (fallback name)"
| "global_var dlsym m fallback name (md # mds) =
     (case ElfGetSymbol dlsym m (Some md) (Some name) True of
        Inl e \<Rightarrow> Inl e
      | Inr (rc, out) \<Rightarrow> if rc = ARM2X86_OK then Inr (the out) else global_var dlsym m fallback name mds)"

definition nb_getDynamicGlobalVar :: "(ptr \<Rightarrow> cstring \<Rightarrow> ptr) \<Rightarrow> (cstring \<Rightarrow> ptr) \<Rightarrow> cstring option \<Rightarrow> elf_state \<Rightarrow> elf_error + ptr" where
  "nb_getDynamicGlobalVar dlsym fallback name es =
     (case name of None \<Rightarrow> Inr NULL | Some n \<Rightarrow> global_var dlsym (es_mem es) fallback n (map (es_module es) (g_module_list es)))"

text \<open>The arguments of a call: those for RDI, RSI, RDX, RCX, R8 and R9, and those for the stack, at most 32.\<close>

definition call_registers :: "u64 list \<Rightarrow> u64 list" where
  "call_registers args = take 6 (take 8 args @ replicate 8 0)"

definition call_stack :: "u64 list \<Rightarrow> u64 list" where
  "call_stack args =
     (let n = length args; arm_r = take 8 args @ replicate (8 - n) 0
      in take 32 ((if 6 < n then [arm_r ! 6] else []) @ (if 7 < n then [arm_r ! 7] else []) @ drop 8 args))"

section \<open>Starting and ending\<close>

definition nb_initialize :: "ptr \<Rightarrow> elf_state \<Rightarrow> dbt \<Rightarrow> bool \<times> elf_state \<times> dbt" where
  "nb_initialize mmap_result es s = (True, es\<lparr>g_module_list := [], g_module_count := 0\<rparr>, snd (dbt_init mmap_result s))"

text \<open>\<open>while (g_module_list) ElfUnload(g_module_list);\<close>\<close>

partial_function (option) unload_loop :: "elf_state \<Rightarrow> elf_state option" where
  "unload_loop s = (case g_module_list s of [] \<Rightarrow> Some s | current # _ \<Rightarrow> unload_loop (snd (ElfUnload current s)))"

definition NativeBridgeUnloadLibrary :: "elf_state \<Rightarrow> elf_state option" where
  "NativeBridgeUnloadLibrary s = map_option (\<lambda>s. s\<lparr>g_module_list := [], g_module_count := 0\<rparr>) (unload_loop s)"

definition NativeBridgeGetModule :: "elf_state \<Rightarrow> int \<times> ptr" where
  "NativeBridgeGetModule s = (g_module_count s, case g_module_list s of [] \<Rightarrow> NULL | p # _ \<Rightarrow> p)"

definition NativeBridgeGetModuleCount :: "elf_state \<Rightarrow> int" where
  "NativeBridgeGetModuleCount s = g_module_count s"

text \<open>Every stub is in the table under one name.\<close>

lemma stubs_all: "set (map fst (stubs_l @ stubs_mt @ stubs_other)) = set stub_method_table \<and> distinct stub_method_table"
  by code_simp

section \<open>Unloading everything\<close>

text \<open>
  The call of \<open>munmap\<close> for a module: its length is \<open>md_size\<close>, the size of the file (\<open>elf.c:590\<close>), while \<open>ElfLoad\<close>
  has mapped \<open>md_mapped_size\<close> bytes.
\<close>

definition module_ranges :: "ElfModule \<Rightarrow> (ptr \<times> u64) list" where
  "module_ranges md = (if md_memory md \<noteq> NULL \<and> md_memory md \<noteq> MAP_FAILED then [(md_memory md, md_size md)] else [])"

lemma unload_first:
  assumes "g_module_list s = p # ps" and "p \<noteq> NULL"
  shows "snd (ElfUnload p s) = s\<lparr>g_module_list := ps, g_module_count := g_module_count s - 1,
    es_unmapped := es_unmapped s @ module_ranges (es_module s p)\<rparr>"
  using assms by (simp add: ElfUnload_def ElfExecuteFini_def module_ranges_def Let_def)

lemma unload_loop_returns:
  "NULL \<notin> set (g_module_list s) \<Longrightarrow>
     \<exists>n. unload_loop s = Some (s\<lparr>g_module_list := [], g_module_count := n,
       es_unmapped := es_unmapped s @ concat (map (\<lambda>p. module_ranges (es_module s p)) (g_module_list s))\<rparr>)"
proof (induction "g_module_list s" arbitrary: s)
  case Nil
  then show ?case by (intro exI [of _ "g_module_count s"]) (simp add: unload_loop.simps [of s])
next
  case (Cons p ps)
  from Cons.hyps(2) have l: "g_module_list s = p # ps" by simp
  then show ?case using Cons.hyps(1) [of "snd (ElfUnload p s)"] Cons.prems by (simp add: unload_loop.simps [of s] unload_first)
qed

text \<open>
  C39: the bridge unloads all its libraries. The loop over the list of modules ends, because each unloading takes the first module off the list; then the
  list is empty and the count is zero, and \<open>munmap\<close> has been called once for every module that has memory, in the order of the list, with the
  start of its memory and the size of its file; nothing else has changed. Whether that is the whole mapping depends on the module: one
  with zero-initialised data behind its file stays mapped there (\<open>bss_stays_mapped\<close>).
\<close>

theorem unload_all:
  assumes "NULL \<notin> set (g_module_list s)"
  shows "NativeBridgeUnloadLibrary s = Some (s\<lparr>g_module_list := [], g_module_count := 0,
    es_unmapped := es_unmapped s @ concat (map (\<lambda>p. module_ranges (es_module s p)) (g_module_list s))\<rparr>)"
  using unload_loop_returns [OF assms] by (auto simp: NativeBridgeUnloadLibrary_def)

theorem unload_all_witness:
  "NativeBridgeUnloadLibrary \<lparr>es_mem = (\<lambda>a. 0), g_module_list = [8, 16], g_module_count = 2,
     es_module = (\<lambda>p. zero_module\<lparr>md_memory := 4096 * p, md_size := 100\<rparr>), es_unmapped = []\<rparr> =
   Some \<lparr>es_mem = (\<lambda>a. 0), g_module_list = [], g_module_count = 0,
     es_module = (\<lambda>p. zero_module\<lparr>md_memory := 4096 * p, md_size := 100\<rparr>), es_unmapped = [(32768, 100), (65536, 100)]\<rparr>"
  using unload_all [of "\<lparr>es_mem = (\<lambda>a. 0), g_module_list = [8, 16], g_module_count = 2,
     es_module = (\<lambda>p. zero_module\<lparr>md_memory := 4096 * p, md_size := 100\<rparr>), es_unmapped = []\<rparr>"]
  by (simp add: module_ranges_def zero_module_def)

text \<open>
  A module of one page of file and two pages of memory: the second page is not in the range that is unmapped.
\<close>

lemma bss_stays_mapped:
  "module_ranges (zero_module\<lparr>md_memory := 0x10000, md_size := 0x1000, md_mapped_size := 0x2000\<rparr>) = [(0x10000, 0x1000)]"
  by (simp add: module_ranges_def zero_module_def)

text \<open>Starting the bridge again forgets the modules, and their memory stays mapped.\<close>

lemma initialize_forgets:
  "nb_initialize mmap_result es s = (rc, es', s') \<Longrightarrow> g_module_list es' = [] \<and> es_unmapped es' = es_unmapped es"
  by (auto simp: nb_initialize_def)

section \<open>Files of patches\<close>

text \<open>Patches in the format that the comment of the loader describes: the offset with eight digits, and each byte with two.\<close>

definition hexdig :: "nat \<Rightarrow> char" where
  "hexdig d = char_of (if d < 10 then 48 + d else 87 + d)"

fun hex_n :: "nat \<Rightarrow> nat \<Rightarrow> string" where
  "hex_n 0 v = []"
| "hex_n (Suc k) v = hexdig (v div 16 ^ k mod 16) # hex_n k v"

definition print_bytes :: "code \<Rightarrow> string" where
  "print_bytes bs = concat (map (\<lambda>b. CHR '' '' # hex_n 2 (unat b)) bs) @ [CHR 0x0A]"

definition print_patch :: "Patch \<Rightarrow> string" where
  "print_patch p = ''0x'' @ hex_n 8 (unat (pa_arm_offset p)) @ print_bytes (pa_x86_bytes p)"

lemma hex_value_hexdig:
  assumes "d < 16" shows "hex_value (hexdig d) = Some d"
  using assms by (auto simp: hex_value_def hexdig_def Let_def)

definition is_hex :: "string \<Rightarrow> bool" where
  "is_hex s \<longleftrightarrow> (\<forall>c\<in>set s. hex_value c \<noteq> None)"

lemma hex_n_hex: "is_hex (hex_n k v)"
  by (induction k) (simp_all add: is_hex_def hex_value_hexdig)

lemma length_hex_n [simp]: "length (hex_n k v) = k"
  by (induction k) simp_all

lemma not_hex: "hex_value CHR '' '' = None" "hex_value CHR 0x09 = None" "hex_value CHR 0x0A = None" "hex_value CHR 0x0B = None"
    "hex_value CHR 0x0C = None" "hex_value CHR 0x0D = None" "hex_value CHR ''-'' = None" "hex_value CHR ''+'' = None"
    "hex_value CHR ''x'' = None" "hex_value CHR ''X'' = None" "hex_value CHR ''#'' = None"
  by (simp_all add: hex_value_def)

lemma is_hexD:
  assumes "is_hex s" "c \<in> set s"
  shows "\<not> is_space c" "\<not> patch_sep c" "c \<noteq> CHR 0x0A" "c \<noteq> CHR '' ''" "c \<noteq> CHR ''-''" "c \<noteq> CHR ''+''" "c \<noteq> CHR ''x''" "c \<noteq> CHR ''X''"
  using assms not_hex by (auto simp: is_hex_def is_space_def patch_sep_def)

lemma hex_run_n:
  "hex_run (hex_n k v @ cs) a = hex_run cs (16 ^ k * a + v mod 16 ^ k)"
proof (induction k arbitrary: a)
  case (Suc k)
  have "16 ^ k * (16 * a + v div 16 ^ k mod 16) + v mod 16 ^ k = 16 ^ Suc k * a + v mod 16 ^ Suc k"
    using mod_mult2_eq [of v "16 ^ k" 16] by (simp add: algebra_simps)
  then show ?case using Suc.IH by (simp add: hex_value_hexdig)
qed simp

lemma scan_hex_digits:
  assumes "is_hex s" "2 \<le> length s" "hex_run (s @ t) 0 < 2 ^ 64"
  shows "scan_hex (s @ t) = Some (ucast (of_nat (hex_run (s @ t) 0) :: u64))"
proof -
  obtain c cs where s: "s = c # cs" using assms(2) by (cases s) auto
  have "CHR ''x'' \<notin> set s" "CHR ''X'' \<notin> set s" using is_hexD(7,8) [OF assms(1)] by blast+
  then have "CHR ''x'' \<notin> set (take 2 s)" "CHR ''X'' \<notin> set (take 2 s)" by (meson in_set_takeD)+
  then have no_prefix: "take 2 (s @ t) \<noteq> ''0x''" "take 2 (s @ t) \<noteq> ''0X''" using assms(2) by auto
  have c: "\<not> is_space c" "c \<noteq> CHR ''-''" "c \<noteq> CHR ''+''" "hex_value c \<noteq> None"
    using is_hexD [OF assms(1)] assms(1) s by (auto simp: is_hex_def)
  have "dropWhile is_space (s @ t) = s @ t" "hd (s @ t) \<noteq> CHR ''-''" "hd (s @ t) \<noteq> CHR ''+''" using c by (simp_all add: s)
  then have "scan_hex (s @ t) = (case s @ t of [] \<Rightarrow> None | c # cs \<Rightarrow>
      if hex_value c = None then None else Some (ucast (of_nat (hex_run (s @ t) 0) :: u64)))"
    using no_prefix assms(3) by (simp add: scan_hex_def Let_def del: hex_run.simps split: list.splits)
  then show ?thesis using c(4) by (simp add: s)
qed

lemma scan_hex_n:
  assumes "2 \<le> k" "v < 16 ^ k" "k \<le> 8" and "\<And>a. hex_run t a = a"
  shows "scan_hex (hex_n k v @ t) = Some (of_nat v)"
proof -
  have "(16 :: nat) ^ k \<le> 16 ^ 8" using assms(3) by (rule power_increasing) simp
  then have v: "hex_run (hex_n k v @ t) 0 = v" "v < 2 ^ 64" using assms(2,4) by (simp_all add: hex_run_n)
  then have "scan_hex (hex_n k v @ t) = Some (ucast (of_nat v :: u64))"
    using scan_hex_digits [OF hex_n_hex [of k v], of t] assms(1) by simp
  moreover have "ucast (of_nat v :: u64) = (of_nat v :: u32)" using v(2) by (simp add: unsigned_of_nat take_bit_nat_eq_self)
  ultimately show ?thesis by simp
qed

lemma words_by_append: "\<forall>c\<in>set w. \<not> sep c \<Longrightarrow> words_by sep cur (w @ rest) = words_by sep (rev w @ cur) rest"
  by (induction w arbitrary: cur) auto

lemma words_printed: "cur \<noteq> [] \<Longrightarrow> words_by patch_sep cur (print_bytes bs) = rev cur # map (\<lambda>b. hex_n 2 (unat b)) bs"
proof (induction bs arbitrary: cur)
  case (Cons b bs)
  have sep: "\<forall>c\<in>set (hex_n 2 (unat b)). \<not> patch_sep c" using is_hexD(2) [OF hex_n_hex] by blast
  have "hex_n 2 (unat b) \<noteq> []" by (metis length_hex_n list.size(3) zero_neq_numeral)
  then show ?case using Cons words_by_append [OF sep, of "[]" "print_bytes bs"]
    by (simp add: print_bytes_def patch_sep_def)
qed (simp add: print_bytes_def patch_sep_def)

lemma fgets_line:
  assumes "\<forall>c\<in>set w. c \<noteq> CHR 0x0A" and "length w < room"
  shows "fgets_lines room cur (w @ CHR 0x0A # rest) = (rev cur @ w @ [CHR 0x0A]) # fgets_lines 1023 [] rest"
  using assms by (induction w arbitrary: cur room) auto

lemma dropWhile_hex: "is_hex s \<Longrightarrow> dropWhile (\<lambda>c. c \<noteq> CHR '' '') (s @ CHR '' '' # t) = CHR '' '' # t"
  using is_hexD(4) by (subst dropWhile_append2) auto

lemma patch_line_printed:
  assumes "pa_x86_bytes p \<noteq> []"
  shows "patch_line junk (print_patch p) = Some p"
proof -
  obtain b bs where bytes: "pa_x86_bytes p = b # bs" using assms by (cases "pa_x86_bytes p") auto
  let ?off = "hex_n 8 (unat (pa_arm_offset p))" and ?rest = "hex_n 2 (unat b) @ print_bytes bs"
  have line: "print_patch p = ''0x'' @ ?off @ CHR '' '' # ?rest" by (simp add: print_patch_def bytes print_bytes_def)
  have blank: "hex_run (CHR '' '' # t) a = a" for t a by (simp add: not_hex)
  have offset: "scan_hex (?off @ CHR '' '' # ?rest) = Some (pa_arm_offset p)"
    using scan_hex_n [of 8 "unat (pa_arm_offset p)", OF _ _ _ blank] unsigned_less [where 'a = nat, of "pa_arm_offset p"] by simp
  have byte: "scan_hex (hex_n 2 (unat b)) = Some (ucast b)" for b :: u8
    using scan_hex_n [of 2 "unat b" "[]"] unsigned_less [where 'a = nat, of b] by simp
  have ucast_back: "ucast (ucast b :: u32) = b" for b :: u8 by (rule bit_word_eqI) (simp add: bit_simps)
  have sep: "\<forall>c\<in>set (hex_n 2 (unat b)). \<not> patch_sep c" using is_hexD(2) [OF hex_n_hex] by blast
  have "hex_n 2 (unat b) \<noteq> []" by (metis length_hex_n list.size(3) zero_neq_numeral)
  then have toks: "words_by patch_sep [] ?rest = map (\<lambda>b. hex_n 2 (unat b)) (pa_x86_bytes p)"
    using words_by_append [OF sep, of "[]"] words_printed [of "rev (hex_n 2 (unat b))" bs] by (simp add: bytes)
  have read_back: "map (\<lambda>(i, tok). ucast (case scan_hex tok of Some b \<Rightarrow> b | None \<Rightarrow> junk i))
      (zip [0..<length bs] (map (\<lambda>b. hex_n 2 (unat b)) bs)) = bs" for bs :: code
    by (rule nth_equalityI) (simp_all add: byte ucast_back)
  have "patch_line junk (''0x'' @ ?off @ CHR '' '' # ?rest) = Some p"
    using dropWhile_hex [OF hex_n_hex, of 8 "unat (pa_arm_offset p)" ?rest] offset toks read_back [of "pa_x86_bytes p"] bytes
    by (simp add: patch_line_def)
  then show ?thesis by (simp add: line)
qed

text \<open>Patches with code that fit a line.\<close>

definition fits_line :: "Patch \<Rightarrow> bool" where
  "fits_line p \<longleftrightarrow> pa_x86_bytes p \<noteq> [] \<and> 3 * length (pa_x86_bytes p) \<le> 1012"

lemma printed_line:
  assumes "3 * length (pa_x86_bytes p) \<le> 1012"
  shows "fgets_lines 1023 [] (print_patch p @ rest) = print_patch p # fgets_lines 1023 [] rest"
proof -
  let ?w = "''0x'' @ hex_n 8 (unat (pa_arm_offset p)) @ concat (map (\<lambda>b. CHR '' '' # hex_n 2 (unat b)) (pa_x86_bytes p))"
  have line: "print_patch p = ?w @ [CHR 0x0A]" by (simp add: print_patch_def print_bytes_def)
  have "\<forall>c\<in>set ?w. c \<noteq> CHR 0x0A" using is_hexD(3) [OF hex_n_hex] by auto
  moreover have "length (concat (map (\<lambda>b. CHR '' '' # hex_n 2 (unat b)) bs)) = 3 * length bs" for bs :: code
    by (induction bs) simp_all
  then have "length ?w < 1023" using assms by simp
  ultimately show ?thesis using fgets_line [of ?w 1023 "[]" rest] by (simp add: line)
qed

text \<open>
  C40: a file of patches round-trips. Any list of patches with code of at most 337 bytes each, printed one to a line as the comment of the loader describes
  it, is read back as it is: all offsets and all bytes, in order.
\<close>

theorem patches_roundtrip:
  assumes "\<forall>p\<in>set ps. fits_line p"
  shows "load_patches junk (concat (map print_patch ps)) = ps"
  using assms
proof (induction ps)
  case (Cons p ps)
  then show ?case by (simp add: load_patches_def fits_line_def printed_line patch_line_printed map_filter_simps)
qed (simp add: load_patches_def map_filter_simps)

lemma hex_n_numeral: "hex_n (numeral k) v = hexdig (v div 16 ^ pred_numeral k mod 16) # hex_n (pred_numeral k) v"
  by (subst numeral_eq_Suc) (rule hex_n.simps)

lemma hexdig_is: "take_bit 8 (if d < 10 then 48 + d else 87 + d) = (of_char c :: nat) \<Longrightarrow> hexdig d = c"
  by (simp add: hexdig_def char_of_eq_iff)

theorem patches_roundtrip_witness:
  "load_patches (\<lambda>i. 0) (''0x0012db4c 48 89 c5'' @ CHR 0x0A # ''0x00000010 c3'' @ [CHR 0x0A]) =
   [\<lparr>pa_arm_offset = 0x12db4c, pa_x86_bytes = [0x48, 0x89, 0xc5]\<rparr>, \<lparr>pa_arm_offset = 0x10, pa_x86_bytes = [0xc3]\<rparr>]"
proof -
  let ?ps = "[\<lparr>pa_arm_offset = 0x12db4c, pa_x86_bytes = [0x48, 0x89, 0xc5]\<rparr>, \<lparr>pa_arm_offset = 0x10, pa_x86_bytes = [0xc3]\<rparr>] :: Patch list"
  have "concat (map print_patch ?ps) = ''0x0012db4c 48 89 c5'' @ CHR 0x0A # ''0x00000010 c3'' @ [CHR 0x0A]"
    by (simp add: print_patch_def print_bytes_def hex_n_numeral hexdig_is take_bit_eq_mod)
  with patches_roundtrip [of ?ps "\<lambda>i. 0"] show ?thesis by (simp add: fits_line_def)
qed

text \<open>A word that is no number still counts as a byte, and its value is what the variable happened to hold.\<close>

lemma junk_byte: "patch_line junk (''0x10 zz'' @ [CHR 0x0A]) = Some \<lparr>pa_arm_offset = 0x10, pa_x86_bytes = [ucast (junk 0)]\<rparr>"
proof -
  have "words_by patch_sep [] (''zz'' @ [CHR 0x0A]) = [''zz'']" "scan_hex ''zz'' = None" "scan_hex (''10 zz'' @ [CHR 0x0A]) = Some 0x10"
    by (simp_all add: patch_sep_def scan_hex_def is_space_def hex_value_def Let_def)
  then show ?thesis by (simp add: patch_line_def)
qed

section \<open>Native methods\<close>

text \<open>A registered method is found by its key if no entry before it matches.\<close>

lemma register_then_lookup:
  assumes "arm2x86_lookup_native_method (Some x) cls (Some name) sig = NULL" and "\<forall>m\<in>set (mx_native_methods x). nm_fn_ptr m \<noteq> NULL"
    and "sig \<noteq> None"
  shows "\<exists>x'. arm2x86_register_native_method (Some x) cls (Some name) sig fn off = (int (length (mx_native_methods x)), Some x') \<and>
    arm2x86_lookup_native_method (Some x') cls (Some name) sig = fn"
proof -
  let ?P = "\<lambda>m. nm_method_name m = Some name \<and> matches sig (nm_signature m) \<and> matches cls (nm_class_name m)"
  have "find ?P (mx_native_methods x) = None"
    using assms(1,2) by (auto simp: arm2x86_lookup_native_method_def find_Some_iff split: option.splits)
  moreover have "find P (xs @ [y]) = (case find P xs of None \<Rightarrow> if P y then Some y else None | Some z \<Rightarrow> Some z)"
    for P and xs :: "NativeMethodRegistration list" and y
    by (induction xs) simp_all
  ultimately show ?thesis using assms(3)
    by (auto simp: arm2x86_register_native_method_def arm2x86_lookup_native_method_def matches_def)
qed

text \<open>The second interception dereferences a null pointer.\<close>

lemma second_interception_crashes:
  assumes "arm2x86_intercept_register_natives str m methods n md [] = Some (rc, md', captured)" and "0 < n" and "0 < n'"
  shows "arm2x86_intercept_register_natives str m' methods' n' md'' captured = None"
  using assms by (auto simp: arm2x86_intercept_register_natives_def Let_def)

text \<open>A name of 256 characters overflows its array.\<close>

lemma long_name_overflows:
  assumes "\<forall>c\<in>set name. \<not> is_space c \<and> c \<noteq> CHR ''#''" and "256 \<le> length name"
  shows "conf_line stub (name @ [CHR 0x0A]) st = None"
proof -
  have nl: "is_space CHR 0x0A" by (simp add: is_space_def)
  have ne: "name \<noteq> []" using assms(2) by auto
  have h: "\<not> is_space (hd name)" "hd name \<noteq> CHR ''#''" using assms(1) hd_in_set [OF ne] by blast+
  have "\<forall>c\<in>set name. \<not> is_space c" using assms(1) by blast
  from words_by_append [OF this, of "[]" "[CHR 0x0A]"] have "words_by is_space [] (name @ [CHR 0x0A]) = [name]" using nl ne by simp
  then have "take 4 (words_by is_space [] (name @ [CHR 0x0A])) = [name]" by simp
  moreover have "\<not> (hd (name @ [CHR 0x0A]) = CHR ''#'' \<or> hd (name @ [CHR 0x0A]) = CHR 0x0A)" using h nl ne by auto
  moreover have "\<exists>(w, n)\<in>set (zip [name] [256, 256, 512, 32]). n \<le> length w" using assms(2) by simp
  ultimately show ?thesis unfolding conf_line_def Let_def by (simp only: if_False if_True)
qed

end
