(* ===== verification/Host.thy ===== *)
theory Host
  imports Elf
begin

text \<open>
  \<open>src/modules/arm2x86_cpufeat.c\<close>, \<open>arm2x86_arm64_32.c\<close> and \<open>arm2x86_trampoline.c\<close>: the features of the processor, modules with
  pointers of 32 bits, and the trampolines between the calling conventions as lists of bytes. \<open>cpuid\<close> is a parameter.
\<close>

section \<open>Features of the processor\<close>

record CPUFeatures =
  has_neon :: bool
  has_vfpv4 :: bool
  has_crypto :: bool
  has_crc32 :: bool
  has_sve :: bool
  has_sve2 :: bool
  has_i8mm :: bool
  has_bf16 :: bool
  has_lse :: bool
  has_pan :: bool
  has_sse :: bool
  has_sse2 :: bool
  has_sse3 :: bool
  has_ssse3 :: bool
  has_sse41 :: bool
  has_sse42 :: bool
  has_avx :: bool
  has_avx2 :: bool
  has_avx512f :: bool
  has_avx512bw :: bool
  has_avx512dq :: bool
  has_avx512vl :: bool
  has_fma :: bool
  has_aesni :: bool
  has_sha :: bool
  has_rdrand :: bool
  has_rdseed :: bool
  cache_line_size :: u32
  l1d_size :: u32
  l1i_size :: u32
  l2_size :: u32
  l3_size :: u32
  vendor :: "u8 list"
  model_name :: string
  cpu_family :: u32
  cpu_model :: u32
  cpu_stepping :: u32

text \<open>A number in four bytes, the lowest first; and EAX, EBX, ECX, EDX of a leaf.\<close>

definition bytes_of :: "u32 \<Rightarrow> u8 list" where
  "bytes_of v = [ucast v, ucast (drop_bit 8 v), ucast (drop_bit 16 v), ucast (drop_bit 24 v)]"

type_synonym leaf = "u32 \<times> u32 \<times> u32 \<times> u32"

text \<open>\<open>None\<close> stands for the null pointer. Each \<open>asm\<close> overwrites all four registers.\<close>

definition cpufeat_detect :: "(u32 \<Rightarrow> leaf) \<Rightarrow> bool \<Rightarrow> int \<times> CPUFeatures option" where
  "cpufeat_detect cpuid null_feat =
     (if null_feat then (- 1, None)
      else
        (let (eax, ebx, ecx, edx) = cpuid 0;
             name = bytes_of ebx @ bytes_of edx @ bytes_of ecx;
             (eax, ebx, ecx, edx) = cpuid 1;
             family = drop_bit 8 eax AND 0xf;
             model = (drop_bit 4 eax AND 0xf) OR (drop_bit 12 eax AND 0xf0);
             stepping = eax AND 0xf;
             (sse, sse2, sse3, ssse3, sse41, sse42) = (bit edx 25, bit edx 26, bit ecx 0, bit ecx 9, bit ecx 19, bit ecx 20);
             (avx, fma) = (bit ecx 28, bit ecx 12);
             (eax, ebx, ecx, edx) = (if avx then cpuid 7 else (eax, ebx, ecx, edx));
             aesni = bit ecx 25
         in (0, Some \<lparr>has_neon = sse2, has_vfpv4 = avx, has_crypto = aesni, has_crc32 = True, has_sve = False, has_sve2 = False,
               has_i8mm = False, has_bf16 = False, has_lse = True, has_pan = False,
               has_sse = sse, has_sse2 = sse2, has_sse3 = sse3, has_ssse3 = ssse3, has_sse41 = sse41, has_sse42 = sse42,
               has_avx = avx, has_avx2 = avx \<and> bit ebx 5, has_avx512f = avx \<and> bit ebx 16, has_avx512bw = avx \<and> bit ebx 30,
               has_avx512dq = avx \<and> bit ebx 17, has_avx512vl = avx \<and> bit ebx 31, has_fma = fma,
               has_aesni = aesni, has_sha = bit ecx 29, has_rdrand = bit ecx 30, has_rdseed = bit ebx 18,
               cache_line_size = 64, l1d_size = 32768, l1i_size = 32768, l2_size = 262144, l3_size = 8388608,
               vendor = name @ replicate 4 0, model_name = ''Emulated ARM CPU'',
               cpu_family = family, cpu_model = model, cpu_stepping = stepping\<rparr>)))"

definition cpufeat_mrs_midr_el1 :: u64 where
  "cpufeat_mrs_midr_el1 = 0x410FD0B0"

definition cpufeat_mrs_revidr_el1 :: u64 where
  "cpufeat_mrs_revidr_el1 = 0"

definition cpufeat_mrs_id_aa64isar0_el1 :: u64 where
  "cpufeat_mrs_id_aa64isar0_el1 =
     push_bit 4 1 OR push_bit 8 1 OR push_bit 12 1 OR push_bit 16 1 OR push_bit 20 2 OR push_bit 28 1"

definition cpufeat_mrs_id_aa64isar1_el1 :: u64 where
  "cpufeat_mrs_id_aa64isar1_el1 = push_bit 36 1 OR push_bit 40 2"

definition cpufeat_mrs_id_aa64mmfr0_el1 :: u64 where
  "cpufeat_mrs_id_aa64mmfr0_el1 = push_bit 0 0 OR push_bit 8 2"

definition cpufeat_mrs_id_aa64pfr0_el1 :: u64 where
  "cpufeat_mrs_id_aa64pfr0_el1 = push_bit 0 0 OR push_bit 4 0 OR push_bit 16 0 OR push_bit 20 0"

section \<open>Pointers of 32 bits\<close>

abbreviation (input) EM_AARCH64 :: u16 where "EM_AARCH64 \<equiv> 183"
abbreviation (input) EF_AARCH64_ABI :: u32 where "EF_AARCH64_ABI \<equiv> 0xf"
abbreviation (input) AARCH64_ILP32_ABI :: u32 where "AARCH64_ILP32_ABI \<equiv> 1"

definition arm64_32_detect_from_elf :: "image \<Rightarrow> ptr \<Rightarrow> int" where
  "arm64_32_detect_from_elf m elf_memory =
     (if elf_memory = NULL then - 1
      else if \<not> (m elf_memory = 0x7f \<and> m (elf_memory + 1) = 0x45 \<and> m (elf_memory + 2) = 0x4c \<and> m (elf_memory + 3) = 0x46) then - 1
      else if m (elf_memory + 4) \<noteq> ELFCLASS64 then - 1
      else if read16 m (elf_memory + 18) \<noteq> EM_AARCH64 then - 1
      else if read32 m (elf_memory + 48) AND EF_AARCH64_ABI = AARCH64_ILP32_ABI then 1
      else 0)"

text \<open>The file is read into \<open>ehdr\<close>, which must be full; the tests are the same. Address 4096 stands for that of the variable.\<close>

definition arm64_32_detect :: "u8 list option \<Rightarrow> int" where
  "arm64_32_detect file =
     (case file of
        None \<Rightarrow> - 1
      | Some f \<Rightarrow>
          if length f < 64 then - 1
          else (let ehdr = (\<lambda>a. f ! unat (a - 4096)) in
                if \<not> take 4 f = [0x7f, 0x45, 0x4c, 0x46] then - 1
                else if f ! 4 \<noteq> ELFCLASS64 then - 1
                else if read16 ehdr (4096 + 18) \<noteq> EM_AARCH64 then - 1
                else if read32 ehdr (4096 + 48) AND EF_AARCH64_ABI = AARCH64_ILP32_ABI then 1
                else 0))"

definition arm64_32_ptr_to_64 :: "u32 \<Rightarrow> u64" where
  "arm64_32_ptr_to_64 ptr32 = ucast ptr32"

definition arm64_32_ptr_from_64 :: "u64 \<Rightarrow> u32" where
  "arm64_32_ptr_from_64 ptr64 = ucast (ptr64 AND 0xFFFFFFFF)"

text \<open>The last result is that of the test, which is only printed; \<open>out_module\<close> is the module itself and not its image.\<close>

definition arm64_32_load :: "bool \<Rightarrow> ptr \<Rightarrow> bool \<Rightarrow> u8 list option \<Rightarrow> bool \<Rightarrow> ptr \<Rightarrow> bool \<Rightarrow> elf_state
    \<Rightarrow> elf_error + int \<times> ptr option \<times> elf_state \<times> int option" where
  "arm64_32_load null_arg module strdup_ok file fstat_ok mmap_result read_ok s =
     (if null_arg then Inr (- 1, None, s, None)
      else
        (case ElfLoad False module strdup_ok file fstat_ok mmap_result read_ok s of
           Inl e \<Rightarrow> Inl e
         | Inr (rc, out, s) \<Rightarrow>
             if rc \<noteq> 0 then Inr (rc, out, s, None) else Inr (0, out, s, Some (arm64_32_detect_from_elf (es_mem s) (the out)))))"

definition arm64_32_relocate :: "(ptr \<Rightarrow> cstring \<Rightarrow> ptr) \<Rightarrow> image \<Rightarrow> ElfModule option
    \<Rightarrow> elf_error + int \<times> ElfModule option \<times> image \<times> (ptr \<times> u64 \<times> u32) list" where
  "arm64_32_relocate dlsym m module = (if module = None then Inr (- 1, None, m, []) else ElfRelocate dlsym m module)"

definition arm64_32_apply_relocations :: "(ptr \<Rightarrow> cstring \<Rightarrow> ptr) \<Rightarrow> image \<Rightarrow> ElfModule option
    \<Rightarrow> elf_error + int \<times> ElfModule option \<times> image \<times> (ptr \<times> u64 \<times> u32) list" where
  "arm64_32_apply_relocations dlsym m module = (if module = None then Inr (- 1, None, m, []) else arm64_32_relocate dlsym m module)"

definition arm64_32_map_register :: "u8 \<Rightarrow> u8" where
  "arm64_32_map_register arm_reg = arm2x86_map_register arm_reg"

definition arm64_32_translate_syscall_args :: "int \<Rightarrow> u64 list option \<Rightarrow> int \<Rightarrow> int \<times> u64 list option" where
  "arm64_32_translate_syscall_args syscall_nr args nargs = (if args = None \<or> nargs < 0 then - 1 else 0, args)"

section \<open>Trampolines\<close>

text \<open>The eight moves of XMM registers; \<open>opc\<close> is 29 to store and 28 to load.\<close>

definition xmm_moves :: "u8 \<Rightarrow> code \<Rightarrow> code" where
  "xmm_moves opc buf =
     foldl (\<lambda>p i. let p = emit_byte p 0x0f; p = emit_byte p opc; p = modrm p 0 i 4; p = emit_byte p 0x24 in emit_byte p (i * 16))
       buf [0, 1, 2, 3, 4, 5, 6, 7]"

text \<open>The contents of the page, which is mapped at \<open>page\<close>; \<open>None\<close> for the null pointer.\<close>

definition arm64_create_trampoline :: "ptr \<Rightarrow> ptr \<Rightarrow> ptr \<Rightarrow> (ptr \<times> code) option" where
  "arm64_create_trampoline page arm_func arm_ctx =
     (if arm_func = NULL then None
      else if page = MAP_FAILED then None
      else
        (let p = emit_bytes [] [0x55, 0x48, 0x89, 0xe5];
             p = emit_bytes p [0x50, 0x51, 0x52, 0x41, 0x50, 0x41, 0x51, 0x41, 0x52, 0x41, 0x53];
             p = emit_bytes p [0x48, 0x83, 0xec, 0x80];
             p = xmm_moves 0x29 p;
             p = emit_bytes p [0xff, 0xd0];
             p = xmm_moves 0x28 p;
             p = emit_bytes p [0x48, 0x83, 0xc4, 0x80];
             p = emit_bytes p [0x41, 0x5b, 0x41, 0x5a, 0x41, 0x59, 0x41, 0x58, 0x5a, 0x59, 0x58];
             p = emit_bytes p [0x48, 0x89, 0xec, 0x5d, 0xc3];
             used = length p
         in Some (page, p @ replicate (4096 - used) 0xcc)))"

definition arm32_create_trampoline :: "ptr \<Rightarrow> ptr \<Rightarrow> ptr \<Rightarrow> (ptr \<times> code) option" where
  "arm32_create_trampoline page arm_func arm_ctx =
     (if arm_func = NULL \<or> arm_ctx = NULL then None
      else if page = MAP_FAILED then None
      else
        (let p = emit_bytes [] [0x55, 0x48, 0x89, 0xe5];
             p = emit_bytes p [0x53, 0x41, 0x54, 0x41, 0x55];
             p = emit_bytes p [0xff, 0xd6];
             p = emit_bytes p [0x41, 0x5d, 0x41, 0x5c, 0x5b];
             p = emit_bytes p [0x48, 0x89, 0xec, 0x5d, 0xc3]
         in Some (page, p @ replicate (4096 - length p) 0)))"

text \<open>What \<open>arm32_call_function\<close> prepares in C: the four values for registers, the array for the stack and the number of its elements.\<close>

definition arm32_call_arguments :: "u64 list \<Rightarrow> u64 list \<times> u64 list \<times> nat" where
  "arm32_call_arguments args =
     (let num_args = length args; num_stack_args = (if 4 < num_args then num_args - 4 else 0)
      in (map (\<lambda>i. if i < num_args then args ! i else 0) [0, 1, 2, 3],
          map (\<lambda>i. if i < num_stack_args then args ! (4 + i) else 0) [0..<16], num_stack_args))"

section \<open>What they do not do\<close>

text \<open>With AVX, the flags for AES, SHA and RDRAND are bits of leaf 7 and not of leaf 1.\<close>

lemma crypto_from_leaf_7:
  assumes "cpufeat_detect cpuid False = (0, Some feat)" and "bit (fst (snd (snd (cpuid 1)))) 28"
  shows "has_aesni feat = bit (fst (snd (snd (cpuid 7)))) 25 \<and> has_crypto feat = has_aesni feat \<and>
    has_sha feat = bit (fst (snd (snd (cpuid 7)))) 29 \<and> has_rdrand feat = bit (fst (snd (snd (cpuid 7)))) 30"
  using assms by (auto simp: cpufeat_detect_def Let_def split: prod.splits)

text \<open>The register for the guest announces AES even where the host has none, and the width of ASIDs is not in its field.\<close>

lemma announced_always: "drop_bit 4 cpufeat_mrs_id_aa64isar0_el1 AND 0xf = 1"
  by (simp add: cpufeat_mrs_id_aa64isar0_el1_def push_bit_eq_mult drop_bit_eq_div)

lemma asid_field: "drop_bit 4 cpufeat_mrs_id_aa64mmfr0_el1 AND 0xf = 0 \<and> drop_bit 8 cpufeat_mrs_id_aa64mmfr0_el1 AND 0xf = 2"
  by (simp add: cpufeat_mrs_id_aa64mmfr0_el1_def push_bit_eq_mult drop_bit_eq_div)

text \<open>A pointer of the guest survives both conversions; a pointer of the host only in the low four gigabytes.\<close>

lemma pointer_roundtrip:
  "arm64_32_ptr_from_64 (arm64_32_ptr_to_64 p) = p"
  "arm64_32_ptr_to_64 (arm64_32_ptr_from_64 q) = q AND 0xFFFFFFFF"
proof -
  have low: "(0xFFFFFFFF :: u64) = mask 32" by (simp add: mask_eq_exp_minus_1)
  show "arm64_32_ptr_from_64 (arm64_32_ptr_to_64 p) = p"
    by (rule bit_word_eqI) (auto simp: arm64_32_ptr_from_64_def arm64_32_ptr_to_64_def low bit_simps)
  show "arm64_32_ptr_to_64 (arm64_32_ptr_from_64 q) = q AND 0xFFFFFFFF"
    by (rule bit_word_eqI) (auto simp: arm64_32_ptr_from_64_def arm64_32_ptr_to_64_def low bit_simps)
qed

text \<open>The trampolines do not depend on the function: they call what happens to be in RAX or RSI.\<close>

lemma trampoline_ignores_function:
  assumes "f \<noteq> NULL" "g \<noteq> NULL" "c \<noteq> NULL" "d \<noteq> NULL"
  shows "arm64_create_trampoline page f c = arm64_create_trampoline page g d"
    "arm32_create_trampoline page f c = arm32_create_trampoline page g d"
  using assms by (simp_all add: arm64_create_trampoline_def arm32_create_trampoline_def)

text \<open>
  The operand of the subtraction is the signed byte 80: the stack pointer goes up by 128. The moves have mode 0, without a displacement, so that the
  byte \<open>i * 16\<close> that follows each of them is an instruction of its own, or the beginning of one.
\<close>

lemma trampoline_bytes:
  assumes "f \<noteq> NULL" "page \<noteq> MAP_FAILED"
  shows "take 34 (snd (the (arm64_create_trampoline page f c))) =
    [0x55, 0x48, 0x89, 0xe5, 0x50, 0x51, 0x52, 0x41, 0x50, 0x41, 0x51, 0x41, 0x52, 0x41, 0x53, 0x48, 0x83, 0xec, 0x80,
     0x0f, 0x29, 0x04, 0x24, 0x00, 0x0f, 0x29, 0x0c, 0x24, 0x10, 0x0f, 0x29, 0x14, 0x24, 0x20]"
  using assms by (simp add: arm64_create_trampoline_def emit_bytes_def xmm_moves_def emit_byte_def modrm_def Let_def)

text \<open>With more than 20 arguments the copying loop reads behind the array.\<close>

lemma stack_arguments_overread:
  "20 < length args \<Longrightarrow> case arm32_call_arguments args of (regs, stack, n) \<Rightarrow> length stack < n"
  by (simp add: arm32_call_arguments_def Let_def)

end
