(* ===== verification/Parallel.thy ===== *)
theory Parallel
  imports Easy
begin

text \<open>
  \<open>src/modules/arm2x86_easy.c\<close>, continued: the batch that is translated by several threads, and the translation of a whole file. The workers share
  the instance without a lock of their own; the model runs them one after the other, which is one of the orders in which they
  may run.
\<close>

section \<open>A worker\<close>

text \<open>The insertion that records the code as owned by the cache and mapped.\<close>

definition cache_owned :: "os \<Rightarrow> u64 \<Rightarrow> ptr \<Rightarrow> u64 \<Rightarrow> arm2x86_instance \<Rightarrow> arm2x86_instance" where
  "cache_owned os addr x86 x86_size s =
     (case arm2x86_tcache_insert_ex (os_dispatcher_lookup os) (os_entry_calloc os) (Some (in_cache s)) addr x86 x86_size True True of
        (_, None) \<Rightarrow> s | (_, Some c) \<Rightarrow> s\<lparr>in_cache := c\<rparr>)"

text \<open>A block that is in neither of the two tables.\<close>

definition worker_missed :: "os \<Rightarrow> code_block \<Rightarrow> u64 \<Rightarrow> u8 list \<Rightarrow> arm2x86_instance \<Rightarrow> easy_error + ptr option \<times> arm2x86_instance" where
  "worker_missed os b addr arm s =
     (let (ret, found, pc) = (if in_pcache s = None then (ARM2X86_PCACHE_ERROR_NOT_FOUND, None, None)
            else arm2x86_pcache_lookup (os_file_malloc os) (os_now os) (in_pcache s) addr (Some arm) True 0);
          s = s\<lparr>in_pcache := pc\<rparr>; x86 = os_mmap os; strict = ctx_strict_memory_ordering (in_ctx s);
          t = (os_locals os)\<lparr>jump_targets := []\<rparr>
      in if ret = ARM2X86_PCACHE_OK \<and> found \<noteq> None \<and> os_exec_mmap os \<noteq> MAP_FAILED then Inl Double_free
         else
           (case arm2x86_convert (os_platform os) (in_mem s) 1 strict (os_junk os) (os_regs_malloc os) t x86 (os_page_size os)
                   (os_mprotect_ok os) (bl_arm_code b) (bl_code_size b) 1 1 of
              (ret, unm, None) \<Rightarrow> Inr (None, s\<lparr>in_unmapped := in_unmapped s @ unm\<rparr>)
            | (ret, unm, Some (code, prot_size)) \<Rightarrow>
                if ret \<noteq> ARM2X86_OK \<or> x86 = NULL then Inr (None, s)
                else
                  (let t' = the (snd (arm2x86_convert_block (os_platform os) (in_mem s) 1 strict (os_junk os) (os_regs_malloc os) t
                                        (bl_arm_code b) (bl_code_size b) x86 1 NULL));
                       s = register_jumps os t' s;
                       s = set_mem (write_code (in_mem s) x86 code) s;
                       s = s\<lparr>in_protected := in_protected s @ [(x86, prot_size)],
                             in_code_hash := arm2x86_code_hash_insert (os_hash_malloc os) (in_code_hash s) (arm2x86_code_hash arm) x86
                               (of_nat (length code))\<rparr>;
                       s = cache_owned os addr x86 (of_nat (length code)) s
                   in case store_in_pcache os addr (guest_bytes (in_mem s) (bl_arm_code b) (unat (bl_code_size b))) code s of
                        Inl e \<Rightarrow> Inl e | Inr s \<Rightarrow> Inr (Some x86, s))))"

definition worker_block :: "os \<Rightarrow> code_block \<Rightarrow> arm2x86_instance \<Rightarrow> easy_error + ptr option \<times> arm2x86_instance" where
  "worker_block os b s =
     (if bl_arm_code b = NULL \<or> bl_code_size b = 0 \<or> \<not> bl_output b then Inr (None, s)
      else
        (let addr = (if bl_address b \<noteq> 0 then bl_address b else bl_arm_code b); (x86, s) = cached_code addr s;
             arm = guest_bytes (in_mem s) (bl_arm_code b) (unat (bl_code_size b));
             shared = (case arm2x86_code_hash_lookup (in_code_hash s) (arm2x86_code_hash arm) of None \<Rightarrow> NULL | Some e \<Rightarrow> che_x86_code e)
         in if x86 \<noteq> None \<and> x86 \<noteq> Some NULL then Inr (x86, s)
            else if shared \<noteq> NULL then Inr (Some shared, s)
            else worker_missed os b addr arm s))"

text \<open>The blocks with the given numbers, one after the other; a number behind the end of the array is an error.\<close>

fun translate_batch_worker :: "(os \<times> code_block) list \<Rightarrow> nat list \<Rightarrow> arm2x86_instance \<Rightarrow> easy_error + ptr option list \<times> arm2x86_instance" where
  "translate_batch_worker blocks [] s = Inr ([], s)"
| "translate_batch_worker blocks (i # is) s =
     (if length blocks \<le> i then Inl Array_overflow
      else
        (case worker_block (fst (blocks ! i)) (snd (blocks ! i)) s of Inl e \<Rightarrow> Inl e
         | Inr (r, s) \<Rightarrow>
             (case translate_batch_worker blocks is s of Inl e \<Rightarrow> Inl e | Inr (rs, s) \<Rightarrow> Inr (r # rs, s))))"

section \<open>The division of the batch\<close>

text \<open>The first and the last number of each thread; the loop ends with the first thread that has nothing to do.\<close>

definition thread_count :: "nat \<Rightarrow> nat \<Rightarrow> nat" where
  "thread_count num_blocks num_threads = min (min num_threads num_blocks) 16"

definition thread_range :: "nat \<Rightarrow> nat \<Rightarrow> nat \<Rightarrow> nat \<times> nat" where
  "thread_range num_blocks n t =
     (let chunk_size = (num_blocks + n - 1) div n; start = t * chunk_size
      in (start, if t = n - 1 then num_blocks else start + chunk_size))"

definition thread_ranges :: "nat \<Rightarrow> nat \<Rightarrow> (nat \<times> nat) list" where
  "thread_ranges num_blocks n = takeWhile (\<lambda>(start, end). start < end) (map (thread_range num_blocks n) [0..<n])"

fun run_workers :: "(os \<times> code_block) list \<Rightarrow> (nat \<times> nat) list \<Rightarrow> arm2x86_instance \<Rightarrow> easy_error + ptr option list \<times> arm2x86_instance" where
  "run_workers blocks [] s = Inr ([], s)"
| "run_workers blocks ((start, end) # rs) s =
     (case translate_batch_worker blocks [start..<end] s of Inl e \<Rightarrow> Inl e
      | Inr (xs, s) \<Rightarrow> (case run_workers blocks rs s of Inl e \<Rightarrow> Inl e | Inr (ys, s) \<Rightarrow> Inr (xs @ ys, s)))"

text \<open>All \<open>num_threads\<close> threads are joined: it is undefined to join one that has not been started, which is the error \<open>None\<close>.\<close>

definition arm2x86_translate_batch_parallel ::
  "(os \<times> code_block) list \<Rightarrow> nat \<Rightarrow> arm2x86_instance \<Rightarrow> (easy_error + int \<times> ptr option list \<times> arm2x86_instance) option" where
  "arm2x86_translate_batch_parallel blocks num_threads s =
     (if \<not> in_initialized s then Some (Inr (- ARM2X86_ERR_NOT_INITIALIZED, [], s))
      else if blocks = [] then Some (Inr (- ARM2X86_ERR_INVALID_ARGUMENT, [], s))
      else if num_threads \<le> 1 then Some (arm2x86_translate_batch blocks s)
      else
        (let n = thread_count (length blocks) num_threads; rs = thread_ranges (length blocks) n
         in case run_workers blocks rs s of
              Inl e \<Rightarrow> Some (Inl e)
            | Inr (xs, s) \<Rightarrow>
                if length rs < n then None else Some (Inr (int (length (filter (\<lambda>r. r \<noteq> None) xs)), xs, s))))"

section \<open>Translation of a file\<close>

record aot_config =
  ac_input_path :: bool
  ac_output_path :: bool
  ac_source_arch :: u32
  ac_base_address :: u64
  ac_optimize_for_size :: int
  ac_optimize_for_speed :: int
  ac_strip_symbols :: int
  ac_enable_compression :: int

definition arm2x86_aot_config_default :: aot_config where
  "arm2x86_aot_config_default =
     \<lparr>ac_input_path = False, ac_output_path = False, ac_source_arch = 0, ac_base_address = 0, ac_optimize_for_size = 0,
      ac_optimize_for_speed = 1, ac_strip_symbols = 1, ac_enable_compression = 1\<rparr>"

text \<open>
  \<open>file\<close> is the input file, if it can be opened, \<open>buffer\<close> the memory that \<open>malloc\<close> returns for it, \<open>writable\<close> whether the output file can be opened.
  The results are the code and the file that is written. The temporary instance is created and destroyed; its globals are those given.
\<close>

definition arm2x86_aot_translate :: "create_os \<Rightarrow> os \<Rightarrow> tcache \<Rightarrow> u8 list \<Rightarrow> aot_config option \<Rightarrow> u8 list option \<Rightarrow> bool \<Rightarrow> ptr \<Rightarrow> bool
    \<Rightarrow> easy_error + int \<times> u8 list option" where
  "arm2x86_aot_translate co os globals pad config file read_ok buffer writable =
     (case config of
        None \<Rightarrow> Inr (ARM2X86_ERR_INVALID_ARGUMENT, None)
      | Some cfg \<Rightarrow>
          if \<not> ac_input_path cfg \<or> \<not> ac_output_path cfg then Inr (ARM2X86_ERR_INVALID_ARGUMENT, None)
          else
            (let easy_cfg = arm2x86_easy_config_default\<lparr>cfg_enable_persistent_cache := False, cfg_enable_mempool := True\<rparr>
             in case arm2x86_create_easy co os (Some easy_cfg) globals of
                  Inl e \<Rightarrow> Inl e
                | Inr None \<Rightarrow> Inr (ARM2X86_ERR_OUT_OF_MEMORY, None)
                | Inr (Some s) \<Rightarrow>
                    (case file of
                       None \<Rightarrow> Inr (ARM2X86_ERR_PERMISSION_DENIED, None)
                     | Some f \<Rightarrow>
                         if f = [] then Inr (ARM2X86_ERR_INVALID_ARGUMENT, None)
                         else if buffer = NULL then Inr (ARM2X86_ERR_OUT_OF_MEMORY, None)
                         else if \<not> read_ok then Inr (ARM2X86_ERR_PERMISSION_DENIED, None)
                         else
                           (case arm2x86_convert (os_platform os) (write_code (in_mem s) buffer f) 1 (ctx_strict_memory_ordering (in_ctx s))
                                   (os_junk os) (os_regs_malloc os) ((os_locals os)\<lparr>jump_targets := []\<rparr>) (os_mmap os) (os_page_size os)
                                   (os_mprotect_ok os) buffer (of_nat (length f)) 1 1 of
                              (ret, unm, None) \<Rightarrow> Inr (ARM2X86_ERR_CONVERT_FAIL, None)
                            | (ret, unm, Some (code, prot_size)) \<Rightarrow>
                                if ret \<noteq> ARM2X86_OK \<or> os_mmap os = NULL then Inr (ARM2X86_ERR_CONVERT_FAIL, None)
                                else if \<not> writable then Inr (ARM2X86_ERR_PERMISSION_DENIED, None)
                                else Inr (ARM2X86_OK,
                                      Some (aot_file pad (ac_source_arch cfg) (of_nat (length f)) (ac_base_address cfg) code))))))"

section \<open>Which blocks the threads handle\<close>

lemma worker_append:
  "translate_batch_worker blocks (is @ js) s =
     (case translate_batch_worker blocks is s of Inl e \<Rightarrow> Inl e
      | Inr (xs, s) \<Rightarrow> (case translate_batch_worker blocks js s of Inl e \<Rightarrow> Inl e | Inr (ys, s) \<Rightarrow> Inr (xs @ ys, s)))"
  by (induction "is" arbitrary: s) (auto split: sum.splits)

lemma run_workers_concat:
  "run_workers blocks rs s = translate_batch_worker blocks (concat (map (\<lambda>(start, end). [start..<end]) rs)) s"
  by (induction rs arbitrary: s) (auto simp: worker_append split: sum.splits)

text \<open>Where each thread has something to do, the threads divide the batch.\<close>

lemma thread_ranges_partition:
  assumes "0 < n" and "(n - 1) * ((num_blocks + n - 1) div n) < num_blocks"
  shows "thread_ranges num_blocks n = map (thread_range num_blocks n) [0..<n]"
    "concat (map (\<lambda>(start, end). [start..<end]) (thread_ranges num_blocks n)) = [0..<num_blocks]"
proof -
  define c where "c = (num_blocks + n - 1) div n"
  have lt: "(n - 1) * c < num_blocks" using assms(2) by (simp only: c_def)
  have c: "0 < c" using assms by (cases "num_blocks = 0") (auto simp: c_def div_greater_zero_iff)
  have range: "thread_range num_blocks n t = (t * c, if t = n - 1 then num_blocks else t * c + c)" for t
    by (simp add: thread_range_def c_def Let_def)
  have all: "case thread_range num_blocks n t of (start, end) \<Rightarrow> start < end" for t
    using lt c by (simp add: range)
  then show *: "thread_ranges num_blocks n = map (thread_range num_blocks n) [0..<n]" by (simp add: thread_ranges_def)
  obtain k where k: "n = Suc k" using assms(1) by (cases n) auto
  have "concat (map (\<lambda>(start, end). [start..<end]) (map (thread_range num_blocks n) [0..<t])) = [0..<t * c]" if "t \<le> k" for t
    using that
  proof (induction t)
    case (Suc t)
    then show ?case using upt_add_eq_append [of 0 "t * c" c] by (simp add: range [unfolded k] k add.commute)
  qed simp
  from this [of k] have "concat (map (\<lambda>(start, end). [start..<end]) (map (thread_range num_blocks n) [0..<n])) = [0..<k * c] @ [k * c..<num_blocks]"
    by (simp add: k range [unfolded k])
  moreover have "k * c \<le> num_blocks" using lt by (simp add: k)
  ultimately show "concat (map (\<lambda>(start, end). [start..<end]) (thread_ranges num_blocks n)) = [0..<num_blocks]"
    using upt_add_eq_append [of 0 "k * c" "num_blocks - k * c"] by (simp add: *)
qed

text \<open>Then the workers, one after the other, do what one worker does with the whole batch.\<close>

lemma parallel_is_one_worker:
  assumes "in_initialized s" and "1 < num_threads" and "n = thread_count (length blocks) num_threads"
    and "(n - 1) * ((length blocks + n - 1) div n) < length blocks"
  shows "arm2x86_translate_batch_parallel blocks num_threads s =
    Some (case translate_batch_worker blocks [0..<length blocks] s of Inl e \<Rightarrow> Inl e
          | Inr (xs, s) \<Rightarrow> Inr (int (length (filter (\<lambda>r. r \<noteq> None) xs)), xs, s))"
proof -
  have ne: "blocks \<noteq> []" using assms(4) by auto
  then have n: "0 < n" using assms(2,3) by (auto simp: thread_count_def)
  show ?thesis
    using assms(1,2) ne thread_ranges_partition [OF n assms(4)]
    by (auto simp: arm2x86_translate_batch_parallel_def run_workers_concat assms(3) [symmetric] Let_def split: sum.splits)
qed

text \<open>
  Five blocks on four threads: the third thread handles the blocks 4 and 5, of which the last one is behind the end of the array, and the
  fourth is not started but joined.
\<close>

lemma five_on_four: "thread_ranges 5 (thread_count 5 4) = [(0, 2), (2, 4), (4, 6)]"
  by code_simp

lemma parallel_overrun:
  assumes "in_initialized s" and "length blocks = 5"
    and "run_workers blocks [(0, 2), (2, 4)] s = Inr (xs, s')" and "worker_block (fst (blocks ! 4)) (snd (blocks ! 4)) s' = Inr (r, s'')"
  shows "arm2x86_translate_batch_parallel blocks 4 s = Some (Inl Array_overflow)"
proof -
  have "[0..<4] = [0..<2] @ [2..<4::nat]" "[0..<6] = [0..<4] @ [4, 5::nat]" by (simp_all add: upt_conv_Cons)
  moreover have "run_workers blocks [(0, 2), (2, 4), (4, 6)] s = Inl Array_overflow"
    using assms(2-4) by (auto simp: upt_conv_Cons split: sum.splits)
  moreover have "blocks \<noteq> []" using assms(2) by auto
  ultimately show ?thesis using assms(1,2) by (simp add: arm2x86_translate_batch_parallel_def five_on_four Let_def)
qed

end
