(* ===== verification/JniBridge.thy ===== *)
theory JniBridge
  imports Decode64 Emit
begin

text \<open>
  \<open>src/modules/arm2x86_syscall.c\<close>, the bridge of the JNI environment: the indices and names of the functions of the interface, the table that is
  built for an environment of the guest, its trampolines, and the wrapper. What \<open>dlopen\<close> and \<open>dlsym\<close> answer is a parameter: \<open>jvm\<close> is the
  function from names to addresses in the library of the VM, if one is loaded. The calls themselves are given as the function and
  its arguments.
\<close>

section \<open>The functions of the interface\<close>

text \<open>The constants of the indices, in two parts.\<close>

definition jni_indices_1 :: "(string \<times> nat) list" where
  "jni_indices_1 =
    [(''GetVersion'', 0), (''DefineClass'', 1), (''FindClass'', 2), (''FromReflectedMethod'', 3), (''FromReflectedField'', 4),
     (''ToReflectedMethod'', 5), (''GetSuperclass'', 6), (''IsAssignableFrom'', 7), (''ToReflectedField'', 8), (''Throw'', 9),
     (''ThrowNew'', 10), (''ExceptionOccurred'', 11), (''ExceptionDescribe'', 12), (''ExceptionClear'', 13), (''FatalError'', 14),
     (''PushLocalFrame'', 15), (''PopLocalFrame'', 16), (''NewGlobalRef'', 17), (''DeleteGlobalRef'', 18), (''DeleteLocalRef'', 19),
     (''IsSameObject'', 20), (''NewLocalRef'', 21), (''EnsureLocalCapacity'', 22), (''AllocObject'', 23), (''NewObject'', 24),
     (''NewObjectV'', 25), (''NewObjectA'', 26), (''GetObjectClass'', 27), (''IsInstanceOf'', 28), (''GetMethodID'', 29),
     (''CallObjectMethod'', 30), (''CallObjectMethodV'', 31), (''CallObjectMethodA'', 32), (''CallBooleanMethod'', 33),
     (''CallBooleanMethodV'', 34), (''CallBooleanMethodA'', 35), (''CallByteMethod'', 36), (''CallByteMethodV'', 37), (''CallByteMethodA'', 38),
     (''CallCharMethod'', 39), (''CallCharMethodV'', 40), (''CallCharMethodA'', 41), (''CallShortMethod'', 42), (''CallShortMethodV'', 43),
     (''CallShortMethodA'', 44), (''CallIntMethod'', 45), (''CallIntMethodV'', 46), (''CallIntMethodA'', 47), (''CallLongMethod'', 48),
     (''CallLongMethodV'', 49), (''CallLongMethodA'', 50), (''CallFloatMethod'', 51), (''CallFloatMethodV'', 52), (''CallFloatMethodA'', 53),
     (''CallDoubleMethod'', 54), (''CallDoubleMethodV'', 55), (''CallDoubleMethodA'', 56), (''CallVoidMethod'', 57), (''CallVoidMethodV'', 58),
     (''CallVoidMethodA'', 59), (''CallNonvirtualObjectMethod'', 60), (''CallNonvirtualBooleanMethod'', 63), (''CallNonvirtualByteMethod'', 66),
     (''CallNonvirtualCharMethod'', 69), (''CallNonvirtualShortMethod'', 72), (''CallNonvirtualIntMethod'', 75),
     (''CallNonvirtualLongMethod'', 78), (''CallNonvirtualFloatMethod'', 81), (''CallNonvirtualDoubleMethod'', 84),
     (''CallNonvirtualVoidMethod'', 87), (''GetFieldID'', 90), (''GetObjectField'', 91), (''GetBooleanField'', 92), (''GetByteField'', 93),
     (''GetCharField'', 94), (''GetShortField'', 95), (''GetIntField'', 96), (''GetLongField'', 97), (''GetFloatField'', 98),
     (''GetDoubleField'', 99), (''SetObjectField'', 100), (''SetBooleanField'', 101), (''SetByteField'', 102), (''SetCharField'', 103),
     (''SetShortField'', 104), (''SetIntField'', 105), (''SetLongField'', 106), (''SetFloatField'', 107), (''SetDoubleField'', 108),
     (''GetStaticMethodID'', 109), (''CallStaticObjectMethod'', 110), (''CallStaticBooleanMethod'', 113), (''CallStaticByteMethod'', 116),
     (''CallStaticCharMethod'', 119)]"

definition jni_indices_2 :: "(string \<times> nat) list" where
  "jni_indices_2 =
    [(''CallStaticShortMethod'', 122), (''CallStaticIntMethod'', 125), (''CallStaticLongMethod'', 128), (''CallStaticFloatMethod'', 131),
     (''CallStaticDoubleMethod'', 134), (''CallStaticVoidMethod'', 137), (''GetStaticFieldID'', 140), (''GetStaticObjectField'', 141),
     (''GetStaticBooleanField'', 142), (''GetStaticByteField'', 143), (''GetStaticCharField'', 144), (''GetStaticShortField'', 145),
     (''GetStaticIntField'', 146), (''GetStaticLongField'', 147), (''GetStaticFloatField'', 148), (''GetStaticDoubleField'', 149),
     (''SetStaticObjectField'', 150), (''SetStaticBooleanField'', 151), (''SetStaticByteField'', 152), (''SetStaticCharField'', 153),
     (''SetStaticShortField'', 154), (''SetStaticIntField'', 155), (''SetStaticLongField'', 156), (''SetStaticFloatField'', 157),
     (''SetStaticDoubleField'', 158), (''NewString'', 159), (''GetStringLength'', 160), (''GetStringChars'', 161),
     (''ReleaseStringChars'', 162), (''NewStringUTF'', 163), (''GetStringUTFLength'', 164), (''GetStringUTFChars'', 165),
     (''ReleaseStringUTFChars'', 166), (''GetArrayLength'', 167), (''NewObjectArray'', 168), (''GetObjectArrayElement'', 169),
     (''SetObjectArrayElement'', 170), (''NewBooleanArray'', 171), (''NewByteArray'', 172), (''NewCharArray'', 173), (''NewShortArray'', 174),
     (''NewIntArray'', 175), (''NewLongArray'', 176), (''NewFloatArray'', 177), (''NewDoubleArray'', 178), (''GetBooleanArrayElements'', 179),
     (''GetByteArrayElements'', 180), (''GetCharArrayElements'', 181), (''GetShortArrayElements'', 182), (''GetIntArrayElements'', 183),
     (''GetLongArrayElements'', 184), (''GetFloatArrayElements'', 185), (''GetDoubleArrayElements'', 186),
     (''ReleaseBooleanArrayElements'', 187), (''ReleaseByteArrayElements'', 188), (''ReleaseCharArrayElements'', 189),
     (''ReleaseShortArrayElements'', 190), (''ReleaseIntArrayElements'', 191), (''ReleaseLongArrayElements'', 192),
     (''ReleaseFloatArrayElements'', 193), (''ReleaseDoubleArrayElements'', 194), (''GetBooleanArrayRegion'', 195),
     (''GetByteArrayRegion'', 196), (''GetCharArrayRegion'', 197), (''GetShortArrayRegion'', 198), (''GetIntArrayRegion'', 199),
     (''GetLongArrayRegion'', 200), (''GetFloatArrayRegion'', 201), (''GetDoubleArrayRegion'', 202), (''SetBooleanArrayRegion'', 203),
     (''SetByteArrayRegion'', 204), (''SetCharArrayRegion'', 205), (''SetShortArrayRegion'', 206), (''SetIntArrayRegion'', 207),
     (''SetLongArrayRegion'', 208), (''SetFloatArrayRegion'', 209), (''SetDoubleArrayRegion'', 210), (''RegisterNatives'', 211),
     (''UnregisterNatives'', 212), (''MonitorEnter'', 213), (''MonitorExit'', 214), (''GetJavaVM'', 215), (''GetStringRegion'', 216),
     (''GetStringUTFRegion'', 217), (''GetPrimitiveArrayCritical'', 218), (''ReleasePrimitiveArrayCritical'', 219),
     (''GetStringCritical'', 220), (''ReleaseStringCritical'', 221), (''NewWeakGlobalRef'', 222), (''DeleteWeakGlobalRef'', 223),
     (''ExceptionCheck'', 224), (''NewDirectByteBuffer'', 225), (''GetDirectBufferAddress'', 226), (''GetDirectBufferCapacity'', 227),
     (''GetObjectRefType'', 228)]"

definition g_jni_func_names :: "string option list" where
  "g_jni_func_names =
    [Some ''GetVersion'', Some ''DefineClass'', Some ''FindClass'', Some ''FromReflectedMethod'', Some ''FromReflectedField'',
     Some ''ToReflectedMethod'', Some ''GetSuperclass'', Some ''IsAssignableFrom'', Some ''ToReflectedField'', Some ''Throw'',
     Some ''ThrowNew'', Some ''ExceptionOccurred'', Some ''ExceptionDescribe'', Some ''ExceptionClear'', Some ''FatalError'',
     Some ''PushLocalFrame'', Some ''PopLocalFrame'', Some ''NewGlobalRef'', Some ''DeleteGlobalRef'', Some ''DeleteLocalRef'',
     Some ''IsSameObject'', Some ''NewLocalRef'', Some ''EnsureLocalCapacity'', Some ''AllocObject'', Some ''NewObject'', Some ''NewObjectV'',
     Some ''NewObjectA'', Some ''GetObjectClass'', Some ''IsInstanceOf'', Some ''GetMethodID'', Some ''CallObjectMethod'',
     Some ''CallObjectMethodV'', Some ''CallObjectMethodA'', Some ''CallBooleanMethod'', Some ''CallBooleanMethodV'',
     Some ''CallBooleanMethodA'', Some ''CallByteMethod'', Some ''CallByteMethodV'', Some ''CallByteMethodA'', Some ''CallCharMethod'',
     Some ''CallCharMethodV'', Some ''CallCharMethodA'', Some ''CallShortMethod'', Some ''CallShortMethodV'', Some ''CallShortMethodA'',
     Some ''CallIntMethod'', Some ''CallIntMethodV'', Some ''CallIntMethodA'', Some ''CallLongMethod'', Some ''CallLongMethodV'',
     Some ''CallLongMethodA'', Some ''CallFloatMethod'', Some ''CallFloatMethodV'', Some ''CallFloatMethodA'', Some ''CallDoubleMethod'',
     Some ''CallDoubleMethodV'', Some ''CallDoubleMethodA'', Some ''CallVoidMethod'', Some ''CallVoidMethodV'', Some ''CallVoidMethodA'',
     Some ''CallNonvirtualObjectMethod'', None, None, Some ''CallNonvirtualBooleanMethod'', None, None, Some ''CallNonvirtualByteMethod'', None,
     None, Some ''CallNonvirtualCharMethod'', None, None, Some ''CallNonvirtualShortMethod'', None, None, Some ''CallNonvirtualIntMethod'',
     None, None, Some ''CallNonvirtualLongMethod'', None, None, Some ''CallNonvirtualFloatMethod'', None, None,
     Some ''CallNonvirtualDoubleMethod'', None, None, Some ''CallNonvirtualVoidMethod'', None, None, Some ''GetFieldID'',
     Some ''GetObjectField'', Some ''GetBooleanField'', Some ''GetByteField'', Some ''GetCharField'', Some ''GetShortField'',
     Some ''GetIntField'', Some ''GetLongField'', Some ''GetFloatField'', Some ''GetDoubleField'', Some ''SetObjectField'',
     Some ''SetBooleanField'', Some ''SetByteField'', Some ''SetCharField'', Some ''SetShortField'', Some ''SetIntField'',
     Some ''SetLongField'', Some ''SetFloatField'', Some ''SetDoubleField'', Some ''GetStaticMethodID'', Some ''CallStaticObjectMethod'', None,
     None, Some ''CallStaticBooleanMethod'', None, None, Some ''CallStaticByteMethod'', None, None, Some ''CallStaticCharMethod'', None, None,
     Some ''CallStaticShortMethod'', None, None, Some ''CallStaticIntMethod'', None, None, Some ''CallStaticLongMethod'', None, None,
     Some ''CallStaticFloatMethod'', None, None, Some ''CallStaticDoubleMethod'', None, None, Some ''CallStaticVoidMethod'', None, None,
     Some ''GetStaticFieldID'', Some ''GetStaticObjectField'', Some ''GetStaticBooleanField'', Some ''GetStaticByteField'',
     Some ''GetStaticCharField'', Some ''GetStaticShortField'', Some ''GetStaticIntField'', Some ''GetStaticLongField'',
     Some ''GetStaticFloatField'', Some ''GetStaticDoubleField'', Some ''SetStaticObjectField'', Some ''SetStaticBooleanField'',
     Some ''SetStaticByteField'', Some ''SetStaticCharField'', Some ''SetStaticShortField'', Some ''SetStaticIntField'',
     Some ''SetStaticLongField'', Some ''SetStaticFloatField'', Some ''SetStaticDoubleField'', Some ''NewString'', Some ''GetStringLength'',
     Some ''GetStringChars'', Some ''ReleaseStringChars'', Some ''NewStringUTF'', Some ''GetStringUTFLength'', Some ''GetStringUTFChars'',
     Some ''ReleaseStringUTFChars'', Some ''GetArrayLength'', Some ''NewObjectArray'', Some ''GetObjectArrayElement'',
     Some ''SetObjectArrayElement'', Some ''NewBooleanArray'', Some ''NewByteArray'', Some ''NewCharArray'', Some ''NewShortArray'',
     Some ''NewIntArray'', Some ''NewLongArray'', Some ''NewFloatArray'', Some ''NewDoubleArray'', Some ''GetBooleanArrayElements'',
     Some ''GetByteArrayElements'', Some ''GetCharArrayElements'', Some ''GetShortArrayElements'', Some ''GetIntArrayElements'',
     Some ''GetLongArrayElements'', Some ''GetFloatArrayElements'', Some ''GetDoubleArrayElements'', Some ''ReleaseBooleanArrayElements'',
     Some ''ReleaseByteArrayElements'', Some ''ReleaseCharArrayElements'', Some ''ReleaseShortArrayElements'', Some ''ReleaseIntArrayElements'',
     Some ''ReleaseLongArrayElements'', Some ''ReleaseFloatArrayElements'', Some ''ReleaseDoubleArrayElements'', Some ''GetBooleanArrayRegion'',
     Some ''GetByteArrayRegion'', Some ''GetCharArrayRegion'', Some ''GetShortArrayRegion'', Some ''GetIntArrayRegion'',
     Some ''GetLongArrayRegion'', Some ''GetFloatArrayRegion'', Some ''GetDoubleArrayRegion'', Some ''SetBooleanArrayRegion'',
     Some ''SetByteArrayRegion'', Some ''SetCharArrayRegion'', Some ''SetShortArrayRegion'', Some ''SetIntArrayRegion'',
     Some ''SetLongArrayRegion'', Some ''SetFloatArrayRegion'', Some ''SetDoubleArrayRegion'', Some ''RegisterNatives'',
     Some ''UnregisterNatives'', Some ''MonitorEnter'', Some ''MonitorExit'', Some ''GetJavaVM'', Some ''GetStringRegion'',
     Some ''GetStringUTFRegion'', Some ''GetPrimitiveArrayCritical'', Some ''ReleasePrimitiveArrayCritical'', Some ''GetStringCritical'',
     Some ''ReleaseStringCritical'', Some ''NewWeakGlobalRef'', Some ''DeleteWeakGlobalRef'', Some ''ExceptionCheck'',
     Some ''NewDirectByteBuffer'', Some ''GetDirectBufferAddress'', Some ''GetDirectBufferCapacity'', Some ''GetObjectRefType'']"

abbreviation (input) JNI_NATIVE_INTERFACE_MAX :: nat where "JNI_NATIVE_INTERFACE_MAX \<equiv> 229"

section \<open>The bridge\<close>

record JNIWrapperCtx =
  jw_real_func :: ptr
  jw_func_index :: nat
  jw_orig_arm_func :: ptr

record JNIBridgeEntry =
  jb_arm_func :: ptr
  jb_x86_wrapper :: ptr
  jb_name :: string

text \<open>The globals: the contexts of the wrapper, and the entries of the bridge, \<open>None\<close> for the null pointer.\<close>

record jni_bridge =
  g_jni_wrapper_ctx :: "JNIWrapperCtx list option"
  g_jni_bridge_table :: "JNIBridgeEntry list option"

definition generate_jni_trampoline :: "code \<Rightarrow> u64 \<Rightarrow> int \<Rightarrow> code \<times> nat" where
  "generate_jni_trampoline dst real_func num_args =
     (let p = emit_byte dst 0x49; p = emit_byte p 0xbb;
          p = emit_imm32 p (ucast (real_func AND 0xFFFFFFFF));
          p = emit_imm32 p (ucast (drop_bit 32 real_func AND 0xFFFFFFFF));
          p = emit_byte p 0x41; p = emit_byte p 0xff; p = emit_byte p 0xe3;
          p = emit_ret p
      in (p, length p - length dst))"

text \<open>The function for index \<open>i\<close>: that of the library of the VM with its name, or that of the guest.\<close>

definition bridged_function :: "(string \<Rightarrow> ptr) option \<Rightarrow> (nat \<Rightarrow> ptr) \<Rightarrow> nat \<Rightarrow> ptr" where
  "bridged_function jvm arm_jni_table i =
     (let real_func = arm_jni_table i
      in if real_func = NULL then NULL
         else (case (jvm, g_jni_func_names ! i) of
                 (Some dlsym, Some name) \<Rightarrow> if dlsym name \<noteq> NULL then dlsym name else real_func
               | _ \<Rightarrow> real_func))"

text \<open>
  A new environment at \<open>x86_env\<close> with its table, and the code of the trampolines in the local buffer. The allocations of the table, of the contexts, and of
  the entries can fail; so can that of the environment, which is then null.
\<close>

definition arm2x86_jni_bridge ::
  "bool \<Rightarrow> bool \<Rightarrow> bool \<Rightarrow> (string \<Rightarrow> ptr) option \<Rightarrow> ptr \<Rightarrow> ptr \<Rightarrow> (nat \<Rightarrow> ptr) \<Rightarrow> jni_bridge \<Rightarrow> ptr \<times> (ptr list \<times> code) option \<times> jni_bridge" where
  "arm2x86_jni_bridge calloc_ok ctx_ok entries_ok jvm x86_env arm_jni_env arm_jni_table g =
     (if arm_jni_env = NULL then (NULL, None, g)
      else if \<not> calloc_ok then (NULL, None, g)
      else
        (let ctx = (case g_jni_wrapper_ctx g of
                      Some c \<Rightarrow> Some c
                    | None \<Rightarrow> if ctx_ok then Some (replicate JNI_NATIVE_INTERFACE_MAX \<lparr>jw_real_func = NULL, jw_func_index = 0, jw_orig_arm_func = NULL\<rparr>)
                              else None);
             used = filter (\<lambda>i. arm_jni_table i \<noteq> NULL) [0..<JNI_NATIVE_INTERFACE_MAX];
             trampolines = foldl (\<lambda>p i. fst (generate_jni_trampoline p (bridged_function jvm arm_jni_table i) 0)) [] used;
             ctx = map_option (\<lambda>c. foldl (\<lambda>c i. c[i := \<lparr>jw_real_func = bridged_function jvm arm_jni_table i, jw_func_index = i,
                                                   jw_orig_arm_func = arm_jni_table i\<rparr>]) c used) ctx;
             table = map (bridged_function jvm arm_jni_table) [0..<JNI_NATIVE_INTERFACE_MAX];
             entries = (case g_jni_bridge_table g of
                          None \<Rightarrow> if entries_ok then Some [] else None
                        | Some [] \<Rightarrow> if entries_ok then Some [] else None
                        | Some es \<Rightarrow> Some es);
             entries = map_option (\<lambda>es. if length es < 16
                         then es @ [\<lparr>jb_arm_func = arm_jni_env, jb_x86_wrapper = x86_env, jb_name = ''bridged_env''\<rparr>] else es) entries
         in (x86_env, Some (table, trampolines), \<lparr>g_jni_wrapper_ctx = ctx, g_jni_bridge_table = entries\<rparr>)))"

definition arm2x86_jni_create_bridge_vm :: "bool \<Rightarrow> ptr \<Rightarrow> (nat \<Rightarrow> ptr) \<Rightarrow> ptr list option" where
  "arm2x86_jni_create_bridge_vm malloc_ok arm_vm arm_vm_funcs =
     (if arm_vm = NULL then None
      else if \<not> malloc_ok then None
      else Some (map arm_vm_funcs [0..<16]))"

text \<open>The wrapper looks for its first argument among the functions; the result is the function that is called with its arguments.\<close>

definition jni_generic_wrapper :: "ptr \<Rightarrow> u64 list \<Rightarrow> jni_bridge \<Rightarrow> (ptr \<times> u64 list) option" where
  "jni_generic_wrapper env args g =
     (case g_jni_wrapper_ctx g of
        None \<Rightarrow> None
      | Some c \<Rightarrow>
          (case find (\<lambda>x. jw_real_func x \<noteq> NULL \<and> jw_real_func x = env) (take JNI_NATIVE_INTERFACE_MAX c) of
             None \<Rightarrow> None
           | Some x \<Rightarrow> Some (jw_real_func x, env # take 5 args)))"

text \<open>\<open>functions\<close> is the table of the environment, \<open>jvm\<close> the library of the VM; nothing is called.\<close>

definition arm2x86_jni_call_method :: "(string \<Rightarrow> ptr) option \<Rightarrow> ptr \<Rightarrow> string option \<Rightarrow> ptr \<Rightarrow> jni_bridge \<Rightarrow> int" where
  "arm2x86_jni_call_method jvm arm_env method_name functions g =
     (if arm_env = NULL \<or> method_name = None then ARM2X86_ERR_INVALID_PARAM
      else if functions = NULL then ARM2X86_ERR_INVALID_PARAM
      else
        (case jvm of
           None \<Rightarrow>
             (case g_jni_wrapper_ctx g of
                None \<Rightarrow> ARM2X86_ERR_LOAD_FAIL
              | Some c \<Rightarrow> if \<exists>x\<in>set c. jw_real_func x \<noteq> NULL then ARM2X86_OK else ARM2X86_ERR_LOAD_FAIL)
         | Some dlsym \<Rightarrow> if dlsym ''JNI_GetCreatedJavaVMs'' = NULL then ARM2X86_ERR_LOAD_FAIL else ARM2X86_OK))"

section \<open>The names and the table\<close>

text \<open>The constants are exactly the places of the names, in order.\<close>

lemma names_at_indices:
  "jni_indices_1 @ jni_indices_2 = List.map_filter (\<lambda>(i, name). map_option (\<lambda>n. (n, i)) name) (enumerate 0 g_jni_func_names)"
  by code_simp

lemma names_length: "length g_jni_func_names = JNI_NATIVE_INTERFACE_MAX"
  by (simp add: g_jni_func_names_def)

text \<open>In the interface of Java the first four places are reserved, and \<open>GetVersion\<close> is at 4, \<open>FindClass\<close> at 6; here they are at 0 and 2.\<close>

lemma not_the_java_indices: "g_jni_func_names ! 0 = Some ''GetVersion'' \<and> g_jni_func_names ! 2 = Some ''FindClass'' \<and>
    g_jni_func_names ! 6 = Some ''GetSuperclass''"
  by (simp add: g_jni_func_names_def)

text \<open>A trampoline has 14 bytes, so that those of all functions fit the buffer.\<close>

lemma trampoline_length: "length (fst (generate_jni_trampoline p f n)) = length p + 14"
  by (simp add: generate_jni_trampoline_def emit_imm32_def emit_ret_def emit_byte_def Let_def)

lemma trampolines_fit:
  assumes "arm2x86_jni_bridge a b c jvm env arm_env tab g = (r, Some (table, trampolines), g')"
  shows "length trampolines \<le> JNI_NATIVE_INTERFACE_MAX * 64"
proof -
  have len: "length (foldl (\<lambda>p i. fst (generate_jni_trampoline p (h i) 0)) p is) = length p + 14 * length is" for h :: "nat \<Rightarrow> u64" and p "is"
    by (induction "is" arbitrary: p) (simp_all add: trampoline_length)
  have "length (filter (\<lambda>i. tab i \<noteq> NULL) [0..<JNI_NATIVE_INTERFACE_MAX]) \<le> JNI_NATIVE_INTERFACE_MAX"
    using length_filter_le [of _ "[0..<JNI_NATIVE_INTERFACE_MAX]"] by simp
  then show ?thesis using assms by (auto simp: arm2x86_jni_bridge_def Let_def len split: if_splits)
qed

text \<open>
  The table has an entry for exactly the functions that the guest has; without a library of the VM it is a copy of the table of the guest, and the
  trampolines are in no entry.
\<close>

lemma bridge_table:
  assumes "arm2x86_jni_bridge a b c jvm env arm_env tab g = (r, Some (table, trampolines), g')" and "i < JNI_NATIVE_INTERFACE_MAX"
  shows "(table ! i = NULL \<longleftrightarrow> tab i = NULL) \<and> (jvm = None \<longrightarrow> table ! i = tab i)"
  using assms by (auto simp: arm2x86_jni_bridge_def bridged_function_def Let_def split: if_splits option.splits)

text \<open>The wrapper does nothing unless the environment is the address of a function.\<close>

lemma wrapper_needs_function_as_env:
  assumes "g_jni_wrapper_ctx g = Some ctx" and "\<forall>x\<in>set ctx. jw_real_func x \<noteq> env"
  shows "jni_generic_wrapper env args g = None"
proof -
  have "find (\<lambda>x. jw_real_func x \<noteq> NULL \<and> jw_real_func x = env) (take JNI_NATIVE_INTERFACE_MAX ctx) = None"
    using assms(2) by (auto simp: find_None_iff dest: in_set_takeD)
  then show ?thesis using assms(1) by (simp add: jni_generic_wrapper_def)
qed

text \<open>Only sixteen environments are recorded; the others are returned all the same.\<close>

lemma seventeenth_environment:
  assumes "g_jni_bridge_table g = Some es" and "length es = 16" and "arm_env \<noteq> NULL"
  shows "fst (arm2x86_jni_bridge True b c jvm env arm_env tab g) = env \<and>
    g_jni_bridge_table (snd (snd (arm2x86_jni_bridge True b c jvm env arm_env tab g))) = Some es"
  using assms by (cases es) (simp_all add: arm2x86_jni_bridge_def Let_def)

end
