(* ===== verification/Support.thy ===== *)
theory Support
  imports Decode64
begin

text \<open>
  Three small parts: the names of instruction types (\<open>src/arm2x86.c\<close>), the table of the direct-threaded dispatcher (\<open>src/modules/arm2x86_translate64.c\<close>), and
  the directories of the persistent cache (\<open>src/modules/arm2x86_pcache.c\<close>).
\<close>

section \<open>Names of instructions\<close>

definition instruction_names :: "(u32 \<times> string) list" where
  "instruction_names =
    [(INSTR_UNKNOWN, ''UNKNOWN''), (INSTR_BL, ''BL''), (INSTR_ADR, ''ADR''), (INSTR_ADRP, ''ADRP''), (INSTR_B, ''B''),
     (INSTR_B_COND, ''B.cond''), (INSTR_LDR_LITERAL, ''LDR_literal''), (INSTR_CBZ, ''CBZ''), (INSTR_CBNZ, ''CBNZ''), (INSTR_TBZ, ''TBZ''),
     (INSTR_TBNZ, ''TBNZ''), (INSTR_RET, ''RET''), (INSTR_BR, ''BR''), (INSTR_BLR, ''BLR''), (INSTR_DATAPROC, ''DATAPROC''),
     (INSTR_LDST, ''LDST''), (INSTR_ADD, ''ADD''), (INSTR_SUB, ''SUB''), (INSTR_AND, ''AND''), (INSTR_ORR, ''ORR''), (INSTR_EOR, ''EOR''),
     (INSTR_CMP, ''CMP''), (INSTR_CSEL, ''CSEL''), (INSTR_LDP, ''LDP''), (INSTR_STP, ''STP''), (INSTR_LDR, ''LDR''), (INSTR_STR, ''STR''),
     (INSTR_MUL, ''MUL''), (INSTR_SDIV, ''SDIV''), (INSTR_UDIV, ''UDIV''), (INSTR_LSL, ''LSL''), (INSTR_LSR, ''LSR''), (INSTR_ASR, ''ASR''),
     (INSTR_DMB, ''DMB''), (INSTR_DSB, ''DSB''), (INSTR_ISB, ''ISB''), (INSTR_MRS, ''MRS''), (INSTR_MSR, ''MSR''), (INSTR_SVC, ''SVC''),
     (INSTR_MOVZ, ''MOVZ''), (INSTR_MOVN, ''MOVN''), (INSTR_MOVK, ''MOVK''), (INSTR_FMOV_REG, ''FMOV'')]"

definition arm2x86_get_instruction_name :: "u32 \<Rightarrow> string" where
  "arm2x86_get_instruction_name instr_type =
     (case map_of instruction_names instr_type of Some n \<Rightarrow> n | None \<Rightarrow> ''INVALID'')"

section \<open>The dispatcher\<close>

record DispatcherEntry =
  de_arm_pc :: u64
  de_x86_code :: ptr
  de_valid :: bool

abbreviation (input) DISPATCHER_TABLE_SIZE :: nat where "DISPATCHER_TABLE_SIZE \<equiv> 65536"

text \<open>The table and \<open>g_dispatcher_initialized\<close>.\<close>

type_synonym dispatcher = "DispatcherEntry list \<times> bool"

definition dispatcher_init :: "dispatcher \<Rightarrow> dispatcher" where
  "dispatcher_init g =
     (if snd g then g else (replicate DISPATCHER_TABLE_SIZE \<lparr>de_arm_pc = 0, de_x86_code = NULL, de_valid = False\<rparr>, True))"

definition dispatcher_hash :: "u64 \<Rightarrow> u16" where
  "dispatcher_hash arm_pc = ucast (arm_pc XOR drop_bit 16 arm_pc)"

text \<open>The place of the entry.\<close>

definition dispatcher_lookup :: "u64 \<Rightarrow> dispatcher \<Rightarrow> nat \<times> dispatcher" where
  "dispatcher_lookup arm_pc g = (let g = dispatcher_init g; idx = dispatcher_hash arm_pc in (unat idx, g))"

definition dispatcher_register :: "u64 \<Rightarrow> ptr \<Rightarrow> dispatcher \<Rightarrow> dispatcher" where
  "dispatcher_register arm_pc x86_code g =
     (let (i, g) = dispatcher_lookup arm_pc g
      in ((fst g)[i := (fst g ! i)\<lparr>de_arm_pc := arm_pc, de_x86_code := x86_code, de_valid := True\<rparr>], snd g))"

text \<open>What is registered is found; an address with the same hash replaces it.\<close>

definition dispatcher_inv :: "dispatcher \<Rightarrow> bool" where
  "dispatcher_inv g \<longleftrightarrow> (snd g \<longrightarrow> length (fst g) = DISPATCHER_TABLE_SIZE)"

lemma dispatcher_length: "dispatcher_inv g \<Longrightarrow> length (fst (dispatcher_init g)) = DISPATCHER_TABLE_SIZE \<and> snd (dispatcher_init g)"
  by (simp add: dispatcher_inv_def dispatcher_init_def)

lemma dispatcher_index: "unat (dispatcher_hash pc) < DISPATCHER_TABLE_SIZE"
  using unsigned_less [where 'a = nat, of "dispatcher_hash pc"] by simp

lemma dispatcher_register_lookup:
  assumes "dispatcher_inv g"
  shows "dispatcher_inv (dispatcher_register pc code g)"
    "fst (snd (dispatcher_lookup pc' (dispatcher_register pc code g))) ! fst (dispatcher_lookup pc' (dispatcher_register pc code g)) =
       (if dispatcher_hash pc' = dispatcher_hash pc then \<lparr>de_arm_pc = pc, de_x86_code = code, de_valid = True\<rparr>
        else fst (dispatcher_init g) ! unat (dispatcher_hash pc'))"
proof -
  have lt: "unat (dispatcher_hash p) < length (fst (dispatcher_init g))" "snd (dispatcher_init g)" for p
    using dispatcher_length [OF assms] dispatcher_index by auto
  have reg: "dispatcher_register pc code g = ((fst (dispatcher_init g))[unat (dispatcher_hash pc) :=
      (fst (dispatcher_init g) ! unat (dispatcher_hash pc))\<lparr>de_arm_pc := pc, de_x86_code := code, de_valid := True\<rparr>], True)"
    using lt(2) by (simp add: dispatcher_register_def dispatcher_lookup_def Let_def)
  then show "dispatcher_inv (dispatcher_register pc code g)" using dispatcher_length [OF assms] by (simp add: dispatcher_inv_def)
  show "fst (snd (dispatcher_lookup pc' (dispatcher_register pc code g))) ! fst (dispatcher_lookup pc' (dispatcher_register pc code g)) =
       (if dispatcher_hash pc' = dispatcher_hash pc then \<lparr>de_arm_pc = pc, de_x86_code = code, de_valid = True\<rparr>
        else fst (dispatcher_init g) ! unat (dispatcher_hash pc'))"
    using lt by (auto simp: reg dispatcher_lookup_def dispatcher_init_def [of "(_, True)"] nth_list_update word_unat_eq_iff)
qed

text \<open>Addresses that differ only in bits from 32 on have the same place.\<close>

lemma dispatcher_high_bits:
  assumes "take_bit 32 pc = take_bit 32 pc'"
  shows "dispatcher_hash pc = dispatcher_hash pc'"
proof -
  have "bit pc i = bit pc' i" if "i < 32" for i
    using that assms by (metis bit_take_bit_iff)
  then show ?thesis
    unfolding dispatcher_hash_def by (intro bit_word_eqI) (simp add: bit_simps)
qed

section \<open>Directories\<close>

definition arm2x86_pcache_get_default_path :: "string option \<Rightarrow> bool \<Rightarrow> string option" where
  "arm2x86_pcache_get_default_path home malloc_ok =
     (case home of None \<Rightarrow> None | Some h \<Rightarrow> if malloc_ok then Some (h @ ''/'' @ ''.Arm2x86'' @ ''/'' @ ''translation-cache'') else None)"

text \<open>\<open>HOME\<close>, or the directory of the user.\<close>

definition get_home_directory :: "string option \<Rightarrow> string option \<Rightarrow> string option" where
  "get_home_directory env_home pw_dir = (case env_home of Some h \<Rightarrow> Some h | None \<Rightarrow> pw_dir)"

text \<open>The path in front of its last slash, unless that is its first character.\<close>

definition parent_of :: "string \<Rightarrow> string option" where
  "parent_of path =
     (let pre = rev (dropWhile (\<lambda>c. c \<noteq> CHR ''/'') (rev path))
      in if length pre \<le> 1 then None else Some (butlast pre))"

lemma parent_shorter: "parent_of path = Some p \<Longrightarrow> length p < length path"
proof -
  assume p: "parent_of path = Some p"
  have "length (dropWhile (\<lambda>c. c \<noteq> CHR ''/'') (rev path)) \<le> length path"
    using length_dropWhile_le [of "\<lambda>c. c \<noteq> CHR ''/''" "rev path"] by simp
  with p show ?thesis by (auto simp: parent_of_def Let_def split: if_splits)
qed

text \<open>
  A file system maps paths to whether they are directories. \<open>mkdir\<close> is whether the call succeeds for a path in a file system; \<open>strdup\<close> does not fail.
\<close>

type_synonym dirs = "string \<rightharpoonup> bool"

function mkdir_recursive :: "(dirs \<Rightarrow> string \<Rightarrow> bool) \<Rightarrow> string \<Rightarrow> dirs \<Rightarrow> int \<times> dirs" where
  "mkdir_recursive mkdir path fs =
     (case fs path of
        Some is_dir \<Rightarrow> (if is_dir then 0 else - 1, fs)
      | None \<Rightarrow>
          (case (case parent_of path of None \<Rightarrow> (0, fs) | Some parent \<Rightarrow> mkdir_recursive mkdir parent fs) of (rc, fs) \<Rightarrow>
             if rc \<noteq> 0 then (- 1, fs)
             else if mkdir fs path then (0, fs(path \<mapsto> True)) else (- 1, fs)))"
  by pat_completeness auto
termination by (relation "measure (\<lambda>(mkdir, path, fs). length path)") (auto dest: parent_shorter)

declare mkdir_recursive.simps [simp del]

text \<open>On success the path is a directory; nothing that was there has changed, and only directories have been made, on failure too.\<close>

lemma mkdir_recursive_makes:
  "mkdir_recursive mkdir path fs = (rc, fs') \<Longrightarrow>
     (rc = 0 \<longrightarrow> fs' path = Some True) \<and> fs \<subseteq>\<^sub>m fs' \<and> (\<forall>q. fs' q = Some False \<longrightarrow> fs q = Some False)"
proof (induction mkdir path fs arbitrary: rc fs' rule: mkdir_recursive.induct)
  case (1 mkdir path fs)
  show ?case
  proof (cases "fs path")
    case None
    obtain rc1 fs1 where run: "(case parent_of path of None \<Rightarrow> (0, fs) | Some parent \<Rightarrow> mkdir_recursive mkdir parent fs) = (rc1, fs1)"
      by (cases "case parent_of path of None \<Rightarrow> (0, fs) | Some parent \<Rightarrow> mkdir_recursive mkdir parent fs")
    then have up: "fs \<subseteq>\<^sub>m fs1" "\<forall>q. fs1 q = Some False \<longrightarrow> fs q = Some False"
      using 1(1) [OF None] by (auto split: option.splits)
    have res: "(rc, fs') = (if rc1 \<noteq> 0 then (- 1, fs1) else if mkdir fs1 path then (0, fs1(path \<mapsto> True)) else (- 1, fs1))"
      using 1(2) by (simp add: mkdir_recursive.simps [of mkdir path] None run)
    have "fs \<subseteq>\<^sub>m fs1(path \<mapsto> True)" using None up(1) by (auto simp: map_le_def dom_def)
    with up res show ?thesis by (auto simp: map_le_def split: if_splits)
  next
    case (Some d)
    then show ?thesis using 1(2) by (auto simp: mkdir_recursive.simps [of mkdir path] split: if_splits)
  qed
qed

end
