(* ===== verification/Spec2Isabelle.thy ===== *)
theory Spec2Isabelle
  imports Block_Correct RegAlloc_Block JumpTable PageProt Peephole Reloc Easy Syscall Hotblock Chain Signals Jni Sve Profile Bridge Host Parallel JniBridge Support
begin

text \<open>
  Arm2x86 is a dynamic binary translator in C: it decodes blocks of A64, A32 or Thumb code, emits x86-64 code for them into
  executable memory, caches the result and runs it. This library models the program's own core logic and
  states what makes it correct, and where the code does something else, what it does instead. Every definition is a translation of the
  C function of the same name; the two exceptions are the reference sides, the x86-64 decoder and machine of
  \<open>X86\<close> and \<open>X86_Machine\<close> and the small A64 machine of \<open>Block_Correct\<close>, which are written from
  the architecture manuals.

  \<^bold>\<open>How the parts interact.\<close> \<open>arm2x86_convert\<close> (\<open>src/arm2x86.c\<close>) and \<open>dbt_translate_block\<close> (\<open>src/modules/arm2x86_dbt.c\<close>)
  call one of the three block translators; these call the decoder, the register allocator and one translator for each
  instruction, which append bytes with the emitters. The runtime keeps translated blocks in caches; jumps between blocks go
  through stubs of the jump table and are patched when a block is given up.

  \<^bold>\<open>Emission and its reference.\<close>
  \<^item> \<open>Prelude\<close>: types, little-endian byte strings, lemmas on bit fields and register numbers.
  \<^item> \<open>X86\<close>, \<open>X86_Machine\<close>: an executable decoder and an executable machine for the emitted subset of x86-64. A flag that the
    architecture leaves undefined is \<open>None\<close>, and reading it is stuck.
  \<^item> \<open>Emit\<close> (\<open>arm2x86_emit.c\<close>): all emitters. Twenty forms are shown to decode to the instruction that their name
    announces, for all operands; six moves and operations on two registers decode with exchanged operands, which is a lemma of
    its own. A patched conditional jump reaches its target.
  \<^item> \<open>Regs\<close> (\<open>arm2x86_regs.c\<close>): register maps and spill code.

  \<^bold>\<open>A64.\<close>
  \<^item> \<open>Decode64\<close> (\<open>arm2x86_decode64.c\<close>): the mask cascade, its results and error paths, and what it never recognises.
  \<^item> \<open>RegAlloc\<close>, \<open>RegAlloc_Inv\<close> (\<open>arm2x86_translate64.c\<close>): the translation context and the allocator as a record; the invariant of
    allocations, that every request keeps it, and the functional behaviour of a request.
  \<^item> \<open>Translate64\<close>, \<open>Translate64_Sys\<close> (\<open>arm2x86_translate64.c\<close>), \<open>Neon\<close> (\<open>arm2x86_neon.c\<close>): one definition for
    each translator.
  \<^item> \<open>Translate64_Correct\<close>: what the code of single translators does on the machine.
  \<^item> \<open>Convert64\<close>, \<open>Block_Correct\<close>: the block translator with its limit of 64 instructions, and the refinement theorem: the code of a
    block of loads, stores and multiplications, run with enough fuel from its first byte to the final
    \<open>ret\<close>, implements the A64 machine. Here is also the multiplication by one round of the translation loop, from
    the word in memory to the product in the destination.
  \<^item> \<open>RegAlloc_Block\<close>: the invariant of allocations through the dispatch of every instruction, the translation loop and the whole block.
  \<^item> This theory: the translation of a block depends on the guest's memory only through the words of the block up to the first branch.

  \<^bold>\<open>A32 and Thumb.\<close>
  \<^item> \<open>Translate32\<close> (\<open>arm2x86_translate32.c\<close>), \<open>Thumb\<close> (\<open>arm2x86_translate_thumb.c\<close>): all translators and the block loops. The loops are
    written with fuel, one round for each instruction; the theorems show that a fuel of the number of words (half
    words) plus a constant is enough, so that the translation always returns, and describe its result. For Thumb
    the result is described for blocks without IT; that IT has no effect on what follows is a lemma on its own.

  \<^bold>\<open>Runtime.\<close>
  \<^item> \<open>Hit_Table\<close>: the interface of a table with hit counts, as a locale; interpreted on the code cache and the jump table.
  \<^item> \<open>CodeCache\<close> (\<open>arm2x86.c\<close>): the context, the conversion entry point and the cache of converted blocks.
  \<^item> \<open>Dbt\<close> (\<open>arm2x86_dbt.c\<close>): the runtime with its cache; the mutex is a flag, so that a call that locks it twice is one that never
    returns (\<open>None\<close>).
  \<^item> \<open>TCache\<close> (\<open>arm2x86_tcache.c\<close>): hash chains, LRU list, eviction and resize, with the invariant of all reachable states.
  \<^item> \<open>JumpTable\<close> (\<open>arm2x86_jumptable.c\<close>): the table and the code of the stubs in memory.
  \<^item> \<open>PageProt\<close> (\<open>arm2x86_pageprot.c\<close>): page records as a refinement of a map from pages to protections.
  \<^item> \<open>Perf\<close> (\<open>arm2x86_perf.c\<close>): the counters, with the invariant that they add up.
  \<^item> \<open>Peephole\<close> (\<open>arm2x86_peephole.c\<close>): pattern tests and rewrites on the memory behind the code, and the pass. The
    pass is written with fuel; one theorem gives the rounds that suffice where no pattern applies, another shows input on which no
    number of rounds suffices.

  \<^bold>\<open>Loading.\<close>
  \<^item> \<open>Elf\<close> (\<open>arm2x86_elf.c\<close>, \<open>arm2x86_fini.c\<close>): images in a byte memory; loading, symbol tables and lookup, relocation, symbol versions. Loops over
    the contents of the image that need not end are partial functions. The lookups in a table that the program built are correct and
    return; a module with a GNU table alone has no symbols.
  \<^item> \<open>Reloc\<close> (\<open>arm2x86_syscall.c\<close>): the compact and packed relocations of Android; the LEB128 decoders invert the standard encodings, and all
    relocation functions are confined to the memory of the module, up to seven bytes. The loop over packed groups is written with
    fuel, the announced number of relocations; \<open>packed_loop_rounds\<close> shows that it is enough.

  \<^bold>\<open>The instance.\<close>
  \<^item> \<open>Mempool\<close> (\<open>arm2x86_easy.c\<close>): the pool of executable memory. What a client of an allocator may rely on is the locale
    \<open>region_allocator\<close>, with the consequence that the regions given out never overlap; the pool is its interpretation.
  \<^item> \<open>Pcache\<close> (\<open>arm2x86_pcache.c\<close>): the cache of files, over a directory as a map from names to files; the checksum is CRC-32, what is stored
    is found, and cleaning up removes the oldest entries first.
  \<^item> \<open>Easy\<close> (\<open>arm2x86_easy.c\<close>): the instance, which looks into the translation cache, the persistent cache and the table by contents, allocates
    from the pool and calls the block translator; batches, and files of translated code.

  \<^bold>\<open>Run-time optimization.\<close>
  \<^item> \<open>Hotblock\<close> (\<open>arm2x86_hotblock.c\<close>): a pass is a step function, from a position in memory to the number of bytes read and the bytes
    written, and one loop serves all four. Every step advances, so that all passes return, and a bound for each step bounds the
    output. Where the optimized code does something else than the code, the section on the patterns says so on examples that run.
  \<^item> \<open>Chain\<close> (\<open>arm2x86_syscall.c\<close>): chaining of blocks, the inline cache as another interpretation of the locale of keyed tables, counters of hot
    blocks, AVX and fused multiplication.
  \<^item> \<open>Sve\<close> (\<open>arm2x86_sve.c\<close>): contexts with the invariant of all operations, and the emitters.

  \<^bold>\<open>The surface to the host.\<close>
  \<^item> \<open>Syscall\<close> (\<open>arm2x86_syscall.c\<close>): the table of system calls, which the arrays answer for, and the call over a kernel that is a function from registers and memory to a
    result and a memory; no law of the kernel is assumed.
  \<^item> \<open>Signals\<close> (\<open>arm2x86_signal.c\<close>, \<open>arm2x86_syscall.c\<close>): dispositions of signals, what the handlers call, flags and machine contexts.
  \<^item> \<open>Jni\<close> (\<open>arm2x86_syscall.c\<close>): namespaces, method signatures with a parser that reads back what a printer writes, and the caches of
    reflection over a function table of the Java VM that is a parameter.
  \<^item> \<open>Bridge\<close> (\<open>arm2x86_nativebridge.c\<close>, \<open>arm2x86_jni_sim.c\<close>, \<open>arm2x86_jni_capture.c\<close>): libraries with files of patches, which round-trip through a
    printer, addresses to call, native methods, and the unloading of everything, a loop that is shown to end.
  \<^item> \<open>Host\<close> (\<open>arm2x86_cpufeat.c\<close>, \<open>arm2x86_arm64_32.c\<close>, \<open>arm2x86_trampoline.c\<close>): features of the processor over \<open>cpuid\<close> as a parameter, modules
    with 32-bit pointers, and the trampolines as bytes.
  \<^item> \<open>Profile\<close> (\<open>arm2x86_profiler.c\<close>, \<open>arm2x86_trace.c\<close>, \<open>arm2x86_error.c\<close>): the two ring buffers are interpretations of the locale \<open>bounded_log\<close>,
    which keeps the last events; the trace exports them only when it is full. The clock is a parameter.
  \<^item> \<open>JniBridge\<close> (\<open>arm2x86_syscall.c\<close>): the table of the JNI functions with its names and indices, which agree with each other, and the bridge
    over what \<open>dlsym\<close> answers.
  \<^item> \<open>Parallel\<close> (\<open>arm2x86_easy.c\<close>): the division of a batch among threads, with the condition under which it is a division, and the
    translation of a file.
  \<^item> \<open>Support\<close> (\<open>arm2x86.c\<close>, \<open>arm2x86_translate64.c\<close>, \<open>arm2x86_pcache.c\<close>): names of instructions, the dispatcher table, and the making of
    directories.
  \<^bold>\<open>Not modelled.\<close> Inline assembly and calls into generated or foreign code (\<open>dbt_execute\<close>, \<open>nb_callFunction\<close> and \<open>arm32_call_function\<close> behind the preparation of
  their arguments, the functions of Java behind the JNI bridge), messages, printed summaries and the texts of exports, the
  delivery of signals by the kernel, threads beyond critical sections as single steps, and arithmetic in floating point (miss
  rate and automatic adjustment of the translation cache).
\<close>

section \<open>What the block translator reads\<close>

text \<open>
  The branches of A64, by their encodings in the architecture manual (B and BL, B.cond, CBZ and
  CBNZ, TBZ and TBNZ, BR, BLR), and \<open>ret\<close>, which returns through X30.
\<close>

definition a64_branch :: "u32 \<Rightarrow> bool" where
  "a64_branch op \<longleftrightarrow> op AND 0xfc000000 = 0x14000000 \<or> op AND 0xfc000000 = 0x94000000 \<or>
     op AND 0xff000010 = 0x54000000 \<or>
     op AND 0x7e000000 = 0x34000000 \<or> op AND 0x7e000000 = 0x36000000 \<or>
     op AND 0xfffffc1f = 0xd61f0000 \<or> op AND 0xfffffc1f = 0xd63f0000 \<or> op = 0xd65f03c0"

text \<open>The words at a place of the block, and that the round of a branch is the last one.\<close>

abbreviation word_at :: "(ptr \<Rightarrow> u8) \<Rightarrow> ptr \<Rightarrow> nat \<Rightarrow> u32" where
  "word_at m src i \<equiv> read_le32 m (src + 4 * of_nat i)"

lemma branch_types:
  "d_instr_type d \<in> {4, 12, 13, 11, 1, 5, 7, 8, 9, 10} \<Longrightarrow> snd (translate_instr pf t op d)"
  by (elim insertE) (simp_all only: translate_instr_def if_fst_snd snd_conv, simp_all)

lemma branch_ends:
  assumes "a64_branch op"
  shows "snd (translate_instr pf t op (snd (decode_a64 op d)))"
proof -
  let ?T = "\<lambda>x :: int \<times> DecodedInstruction. d_instr_type (snd x) \<in> {4, 12, 13, 11, 1, 5, 7, 8, 9, 10}"
  have i: "?T (if c then a else b)" if "c \<Longrightarrow> ?T a" and "\<not> c \<Longrightarrow> ?T b" for c a b using that by simp
  note * = assms [unfolded a64_branch_def]
  have "?T (decode_a64 op d)"
    unfolding decode_a64_def
    apply (rule i)
    subgoal using * by auto
    apply (rule i, simp add: Let_def)+
    by (rule FalseE, use * in blast)+
  then show ?thesis by (rule branch_types)
qed

lemma convert_step_reads:
  "read_le32 m' src = read_le32 m src \<Longrightarrow> convert_step pf m' ctx junk src t = convert_step pf m ctx junk src t"
  by (simp add: convert_step_def arm2x86_decode_def arm2x86_read_le32_def)

lemma word_at_Suc: "word_at m src (Suc i) = word_at m (src + 4) i"
  by (simp add: algebra_simps)

lemma convert_step_branch:
  assumes "a64_branch (read_le32 m src)" and "ctx \<noteq> NULL" and "src \<noteq> NULL" and "src AND 3 = 0"
  shows "snd (convert_step pf m ctx junk src t)"
  using branch_ends [OF assms(1)] assms(2-4)
  by (simp add: convert_step_def arm2x86_decode_def arm2x86_read_le32_def is_valid_instruction_alignment_def Let_def split_def)

lemma convert_loop_reads:
  assumes "ctx \<noteq> NULL" and "src \<noteq> NULL" and "unat src + 4 * n < 2 ^ 64" and "\<And>i. i < n \<Longrightarrow> word_at m' src i = word_at m src i"
    and "k \<le> n \<or> unat e \<le> unat src + 4 * n \<or> src AND 3 = 0 \<and> (\<exists>i<n. a64_branch (word_at m src i))"
  shows "convert_loop k pf m' ctx junk src e t = convert_loop k pf m ctx junk src e t"
  using assms
proof (induction k arbitrary: n src t)
  case (Suc k)
  show ?case
  proof (cases "src < e")
    case True
    then obtain n' where n: "n = Suc n'"
      using Suc.prems(5) by (cases n) (auto simp: word_less_nat_alt)
    have step: "convert_step pf m' ctx junk src t = convert_step pf m ctx junk src t"
      using Suc.prems(4) [of 0] n by (intro convert_step_reads) simp
    have next': "unat (src + 4) = unat src + 4"
      using Suc.prems(3) n by (intro unat_add_lem [THEN iffD1, of src 4, simplified]) simp
    then have ne: "src + 4 \<noteq> NULL" by (auto simp: unat_eq_0)
    have al: "src AND 3 = 0 \<Longrightarrow> (src + 4) AND 3 = 0" using next' by (simp add: aligned_iff)
    show ?thesis
    proof (cases "snd (convert_step pf m ctx junk src t)")
      case False
      then have "k \<le> n' \<or> unat e \<le> unat (src + 4) + 4 * n' \<or>
          (src + 4) AND 3 = 0 \<and> (\<exists>i<n'. a64_branch (word_at m (src + 4) i))"
        using Suc.prems(5) convert_step_branch [OF _ Suc.prems(1,2), of m] al
        unfolding n next' Ex_less_Suc2 word_at_Suc by fastforce
      moreover have "word_at m' (src + 4) i = word_at m (src + 4) i" if "i < n'" for i
        using Suc.prems(4) [of "Suc i"] that n by (simp only: word_at_Suc)
      moreover have "unat (src + 4) + 4 * n' < 2 ^ 64" using Suc.prems(3) n next' by simp
      ultimately have "convert_loop k pf m' ctx junk (src + 4) e u = convert_loop k pf m ctx junk (src + 4) e u" for u
        using Suc.IH [OF Suc.prems(1) ne] by blast
      then show ?thesis using True by (simp add: step Let_def split_def)
    qed (use True in \<open>simp add: step Let_def split_def\<close>)
  qed simp
qed simp

text \<open>
  C2: what the block translator reads. The result of \<open>arm2x86_convert_block\<close>, code and context, depends on the guest's memory
  only through the first \<open>n\<close> words of the block, where \<open>n\<close> is 64, or covers the size of the
  block, or reaches to the first branch: two memories that agree on these words give the same. So code
  behind the block, behind a branch or behind 64 instructions can change without making a
  translation stale (the last word is read in full if the size is not a multiple of four).
  The words do not wrap around the end of the address space, and branches end a block only at aligned addresses.
\<close>

theorem convert_block_reads_block:
  assumes "\<And>i. i < n \<Longrightarrow> word_at m' src i = word_at m src i" and "unat src + 4 * n < 2 ^ 64"
    and "64 \<le> n \<or> unat len \<le> 4 * n \<or> src AND 3 = 0 \<and> (\<exists>i<n. a64_branch (word_at m src i))"
  shows "arm2x86_convert_block pf m' ctx strict junk mal t src len buf sz rh =
    arm2x86_convert_block pf m ctx strict junk mal t src len buf sz rh"
proof (cases "ctx = NULL \<or> src = NULL")
  case False
  have "unat (src + len) \<le> unat src + unat len" by (metis unat_word_ariths(1) mod_less_eq_dividend)
  with assms(3) have "64 \<le> n \<or> unat (src + len) \<le> unat src + 4 * n \<or> src AND 3 = 0 \<and> (\<exists>i<n. a64_branch (word_at m src i))"
    by (elim disjE) simp_all
  then have "convert_loop 64 pf m' ctx junk src (src + len) u = convert_loop 64 pf m ctx junk src (src + len) u" for u
    using False by (intro convert_loop_reads [OF _ _ assms(2,1)]) auto
  then show ?thesis by (simp only: arm2x86_convert_block_def)
qed (auto simp: arm2x86_convert_block_def)

text \<open>
  A multiplication, \<open>b .\<close>, and a byte behind the branch, which changes. The size given to the
  translator is that of three instructions.
\<close>

theorem convert_block_reads_witness:
  "let m = (\<lambda>p. if p - 0x1000 < 8 then concat (map le32 [0x9b017c23, 0x14000000]) ! unat (p - 0x1000) else 0)
   in \<forall>pf. arm2x86_convert_block pf (m(0x1008 := 0xff)) 1 False zero_decoded 0 ctx0 0x1000 12 0x400000 0x500000 0x7000 =
      arm2x86_convert_block pf m 1 False zero_decoded 0 ctx0 0x1000 12 0x400000 0x500000 0x7000"
proof -
  have a: "unat (0x1000 :: u64) + 4 * 2 < 2 ^ 64" by simp
  define m :: "ptr \<Rightarrow> u8" where "m = (\<lambda>p. if p - 0x1000 < 8 then concat (map le32 [0x9b017c23, 0x14000000]) ! unat (p - 0x1000) else 0)"
  have w: "word_at m 0x1000 1 = 0x14000000" by (simp add: m_def read_le32_def le32_def)
  have s: "word_at (m(0x1008 := 0xff)) 0x1000 i = word_at m 0x1000 i" if "i < 2" for i
  proof -
    have "i = 0 \<or> i = 1" using that by linarith
    then show ?thesis by (auto simp: read_le32_def)
  qed
  have "\<exists>i<2. a64_branch (word_at m 0x1000 i)" using w by (intro exI [of _ 1]) (simp add: a64_branch_def)
  then have "64 \<le> (2 :: nat) \<or> unat (12 :: u64) \<le> 4 * 2 \<or> (0x1000 :: u64) AND 3 = 0 \<and> (\<exists>i<2. a64_branch (word_at m 0x1000 i))" by simp
  note r = convert_block_reads_block [OF s a this]
  show ?thesis
    unfolding Let_def m_def [symmetric] by (intro allI r)
qed

end
